(* ===== verification/Errors.thy ===== *)
theory Errors
  imports Prelude
begin

text \<open>
  The two exception classes (\<open>control-plane/errors.ts\<close>, \<open>runtime/errors.ts\<close>). A throw
  is \<open>throwC\<close> or \<open>throwR\<close> with the class's code and the message of the source.
\<close>

subsection \<open>ControlPlaneError\<close>

datatype ControlPlaneErrorCode = Validation | NotFound | Conflict

datatype ControlPlaneError = ControlPlaneError (errCode: ControlPlaneErrorCode) (errMessage: string)

type_synonym 'a cp = "ControlPlaneError + 'a"

fun codeToStatus :: "ControlPlaneErrorCode \<Rightarrow> int" where
  "codeToStatus Validation = 400"
| "codeToStatus NotFound = 404"
| "codeToStatus Conflict = 409"

definition errStatus :: "ControlPlaneError \<Rightarrow> int" where
  "errStatus e = codeToStatus (errCode e)"

definition throwC :: "ControlPlaneErrorCode \<Rightarrow> string \<Rightarrow> 'a cp" where
  "throwC c msg = Inl (ControlPlaneError c msg)"

text \<open>The simplifier leaves the text of a message alone.\<close>

lemma throwC_cong [cong]: "throwC c msg = throwC c msg" ..

lemma throwC_simps [simp]: "throwC c msg \<noteq> Inr x" "Inr x \<noteq> throwC c msg"
  by (simp_all add: throwC_def)

lemma bindE_throwC [simp]: "bindE (throwC c msg) f = throwC c msg"
  by (simp add: throwC_def)

definition fails_with :: "ControlPlaneErrorCode \<Rightarrow> 'a cp \<Rightarrow> bool" where
  "fails_with c r \<longleftrightarrow> (\<exists>msg. r = Inl (ControlPlaneError c msg))"

lemma fails_with_throwC [simp]: "fails_with c (throwC d msg) \<longleftrightarrow> c = d"
  by (auto simp: fails_with_def throwC_def)

lemma fails_with_Inr [simp]: "\<not> fails_with c (Inr x)"
  by (simp add: fails_with_def)

lemma fails_with_bindE:
  "fails_with c (bindE m f) \<longleftrightarrow> fails_with c m \<or> (\<exists>x. m = Inr x \<and> fails_with c (f x))"
  by (cases m) (auto simp: fails_with_def)

text \<open>An exception that is a \<open>ControlPlaneError\<close>, or one of the JavaScript engine, of SQLite or of the system.\<close>

datatype failure = Rejected ControlPlaneError | EngineError

subsection \<open>RuntimeError\<close>

datatype RuntimeErrorCode =
    RArtifact | RCompile | RCpuLimit | RInvoke | RLimits | RNotFound | ROverloaded | RPolicy
  | RRateLimited | RTimeout | RUnsupported | RValidation

datatype RuntimeError = RuntimeError (rcode: RuntimeErrorCode) (rmessage: string)

type_synonym 'a rt = "RuntimeError + 'a"

definition throwR :: "RuntimeErrorCode \<Rightarrow> string \<Rightarrow> 'a rt" where
  "throwR c msg = Inl (RuntimeError c msg)"

lemma throwR_cong [cong]: "throwR c msg = throwR c msg" ..

lemma throwR_simps [simp]: "throwR c msg \<noteq> Inr x" "Inr x \<noteq> throwR c msg"
  by (simp_all add: throwR_def)

lemma bindE_throwR [simp]: "bindE (throwR c msg) f = throwR c msg"
  by (simp add: throwR_def)

subsection \<open>Guards\<close>

text \<open>
  The statement \<open>if (bad) throw new ControlPlaneError(c, msg);\<close> followed by the rest.
\<close>

definition guardC :: "bool \<Rightarrow> ControlPlaneErrorCode \<Rightarrow> string \<Rightarrow> unit cp" where
  "guardC bad c msg = (if bad then throwC c msg else Inr ())"

lemma guardC_cong [cong]: "b = b' \<Longrightarrow> guardC b c msg = guardC b' c msg" by simp

lemma guardC_Inr [simp]: "guardC b c msg = Inr u \<longleftrightarrow> \<not> b"
  by (simp add: guardC_def)

lemma guardC_simps [simp]:
  "guardC False c msg = Inr ()" "fails_with d (guardC b c msg) \<longleftrightarrow> b \<and> c = d"
  by (auto simp: guardC_def)

lemma bindE_guardC: "bindE (guardC b c msg) f = (if b then throwC c msg else f ())"
  by (simp add: guardC_def)

definition guardR :: "bool \<Rightarrow> RuntimeErrorCode \<Rightarrow> string \<Rightarrow> unit rt" where
  "guardR bad c msg = (if bad then throwR c msg else Inr ())"

lemma guardR_cong [cong]: "b = b' \<Longrightarrow> guardR b c msg = guardR b' c msg" by simp

lemma guardR_Inr [simp]: "guardR b c msg = Inr u \<longleftrightarrow> \<not> b"
  by (simp add: guardR_def)

lemma guardR_False [simp]: "guardR False c msg = Inr ()"
  by (simp add: guardR_def)

subsection \<open>Which errors a computation can throw\<close>

definition only_fails :: "ControlPlaneErrorCode \<Rightarrow> 'a cp \<Rightarrow> bool" where
  "only_fails c m \<longleftrightarrow> (\<forall>e. m = Inl e \<longrightarrow> errCode e = c)"

lemma only_fails_iff: "only_fails c m \<longleftrightarrow> (\<exists>x. m = Inr x) \<or> fails_with c m"
  by (cases m) (auto simp: only_fails_def fails_with_def intro: ControlPlaneError.exhaust_sel)

lemma only_fails_Inr [simp, intro]: "only_fails c (Inr x)"
  by (simp add: only_fails_def)

lemma only_fails_throwC [simp]: "only_fails c (throwC d msg) \<longleftrightarrow> d = c"
  by (simp add: only_fails_def throwC_def)

lemma only_fails_guardC [simp]: "only_fails c (guardC b d msg) \<longleftrightarrow> \<not> b \<or> d = c"
  by (simp add: guardC_def)

lemma only_fails_bindE [intro]:
  "only_fails c m \<Longrightarrow> (\<And>x. m = Inr x \<Longrightarrow> only_fails c (f x)) \<Longrightarrow> only_fails c (bindE m f)"
  by (cases m) (auto simp: only_fails_def)

lemma only_fails_forE [intro]:
  "(\<And>x. x \<in> set xs \<Longrightarrow> only_fails c (f x)) \<Longrightarrow> only_fails c (forE f xs)"
  by (induction xs) auto

lemma only_fails_mapE [intro]:
  "(\<And>x. x \<in> set xs \<Longrightarrow> only_fails c (f x)) \<Longrightarrow> only_fails c (mapE f xs)"
  by (induction xs) (auto intro!: only_fails_bindE)

lemma only_fails_option [intro]:
  "(v = None \<Longrightarrow> only_fails c m) \<Longrightarrow> (\<And>x. v = Some x \<Longrightarrow> only_fails c (n x)) \<Longrightarrow>
   only_fails c (case v of None \<Rightarrow> m | Some x \<Rightarrow> n x)"
  by (cases v) auto

lemma only_fails_if [intro]:
  "(b \<Longrightarrow> only_fails c m) \<Longrightarrow> (\<not> b \<Longrightarrow> only_fails c n) \<Longrightarrow> only_fails c (if b then m else n)"
  by simp

end
