(* ===== verification/StateError.thy ===== *)
theory StateError
  imports Errors
begin

text \<open>
  Operations on a mutable state that may throw. The state survives a throw, as it does in the
  sources: nothing rolls a database write back. \<open>valid P m Q E\<close> is the triple the component
  invariants are stated with: from a state with \<open>P\<close>, a normal return satisfies \<open>Q\<close>, a throw
  leaves a state with \<open>E\<close>.
\<close>

type_synonym ('s, 'e, 'a) stateful = "'s \<Rightarrow> 's \<times> ('e + 'a)"
type_synonym ('s, 'a) op = "('s, ControlPlaneError, 'a) stateful"

definition pureS :: "'a \<Rightarrow> ('s, 'e, 'a) stateful" where
  "pureS x s = (s, Inr x)"

definition liftS :: "'e + 'a \<Rightarrow> ('s, 'e, 'a) stateful" where
  "liftS r s = (s, r)"

definition throwS :: "ControlPlaneErrorCode \<Rightarrow> string \<Rightarrow> ('s, 'a) op" where
  "throwS c msg s = (s, throwC c msg)"

lemma throwS_cong [cong]: "throwS c msg = throwS c msg" ..

definition guardS :: "bool \<Rightarrow> ControlPlaneErrorCode \<Rightarrow> string \<Rightarrow> ('s, unit) op" where
  "guardS bad c msg s = (s, guardC bad c msg)"

lemma guardS_cong [cong]: "b = b' \<Longrightarrow> guardS b c msg = guardS b' c msg" by simp

definition askS :: "('s \<Rightarrow> 'a) \<Rightarrow> ('s, 'e, 'a) stateful" where
  "askS f s = (s, Inr (f s))"

text \<open>A read that may throw, such as the \<open>require...\<close> helpers.\<close>

definition readS :: "('s \<Rightarrow> 'e + 'a) \<Rightarrow> ('s, 'e, 'a) stateful" where
  "readS f s = (s, f s)"

definition bindS :: "('s, 'e, 'a) stateful \<Rightarrow> ('a \<Rightarrow> ('s, 'e, 'b) stateful) \<Rightarrow> ('s, 'e, 'b) stateful" where
  "bindS m f s = (case m s of (s', Inl e) \<Rightarrow> (s', Inl e) | (s', Inr x) \<Rightarrow> f x s')"

definition result :: "('s, 'e, 'a) stateful \<Rightarrow> 's \<Rightarrow> 'e + 'a" where
  "result m s = snd (m s)"

definition after :: "('s, 'e, 'a) stateful \<Rightarrow> 's \<Rightarrow> 's" where
  "after m s = fst (m s)"

named_theorems op_simps "running the primitive operations"

lemma run_simps [simp, op_simps]:
  "pureS x s = (s, Inr x)" "liftS r s = (s, r)" "askS g s = (s, Inr (g s))"
  "readS h s = (s, h s)" "throwS c msg s = (s, throwC c msg)"
  "guardS b c msg s = (s, guardC b c msg)"
  by (simp_all add: pureS_def liftS_def askS_def readS_def throwS_def guardS_def)

lemma bindS_run [op_simps]:
  "m s = (s', Inl e) \<Longrightarrow> bindS m f s = (s', Inl e)"
  "m s = (s', Inr x) \<Longrightarrow> bindS m f s = f x s'"
  by (simp_all add: bindS_def)

lemma bindS_simps [simp]:
  "bindS (pureS x) f = f x"
  "bindS (liftS (Inr x)) f = f x"
  "bindS (askS g) f s = f (g s) s"
  "bindS (throwS c msg) k s = (s, throwC c msg)"
  "bindS (liftS (Inl e)) h s = (s, Inl e)"
  by (auto simp: bindS_def fun_eq_iff throwC_def)

lemma bindS_Inr:
  "bindS m f s = (s'', Inr y) \<longleftrightarrow> (\<exists>s' x. m s = (s', Inr x) \<and> f x s' = (s'', Inr y))"
  by (auto simp: bindS_def split: prod.splits sum.splits)

definition valid ::
    "('s \<Rightarrow> bool) \<Rightarrow> ('s, 'e, 'a) stateful \<Rightarrow> ('a \<Rightarrow> 's \<Rightarrow> bool) \<Rightarrow> ('s \<Rightarrow> bool) \<Rightarrow> bool" where
  "valid P m Q E \<longleftrightarrow> (\<forall>s. P s \<longrightarrow>
     (case m s of (s', Inl e) \<Rightarrow> E s' | (s', Inr x) \<Rightarrow> Q x s'))"

text \<open>\<open>keeps I m\<close>: the operation preserves \<open>I\<close>, whether it returns or throws.\<close>

definition keeps :: "('s \<Rightarrow> bool) \<Rightarrow> ('s, 'e, 'a) stateful \<Rightarrow> bool" where
  "keeps I m \<longleftrightarrow> (\<forall>s. I s \<longrightarrow> I (fst (m s)))"

lemma keepsD: "keeps I m \<Longrightarrow> I s \<Longrightarrow> I (fst (m s))"
  by (simp add: keeps_def)

lemma keeps_iff_valid: "keeps I m \<longleftrightarrow> valid I m (\<lambda>_. I) I"
proof -
  have "(case m s of (s', Inl e) \<Rightarrow> I s' | (s', Inr x) \<Rightarrow> I s') = I (fst (m s))" for s
    by (auto split: prod.splits sum.splits)
  then show ?thesis by (simp add: keeps_def valid_def)
qed

lemma valid_bindS:
  assumes "valid P m R E" and "\<And>x. valid (R x) (f x) Q E"
  shows "valid P (bindS m f) Q E"
  using assms unfolding valid_def bindS_def
  by (fastforce split: prod.splits sum.splits)

lemma valid_pureS: "(\<And>s. P s \<Longrightarrow> Q x s) \<Longrightarrow> valid P (pureS x) Q E"
  by (simp add: valid_def)

lemma valid_throwS: "(\<And>s. P s \<Longrightarrow> E s) \<Longrightarrow> valid P (throwS c msg) Q E"
  by (simp add: valid_def throwC_def)

lemma valid_liftS:
  "(\<And>s x. P s \<Longrightarrow> r = Inr x \<Longrightarrow> Q x s) \<Longrightarrow> (\<And>s. P s \<Longrightarrow> E s) \<Longrightarrow> valid P (liftS r) Q E"
  by (auto simp: valid_def split: sum.splits)

lemma valid_readS:
  "(\<And>s x. P s \<Longrightarrow> h s = Inr x \<Longrightarrow> Q x s) \<Longrightarrow> (\<And>s. P s \<Longrightarrow> E s) \<Longrightarrow> valid P (readS h) Q E"
  by (auto simp: valid_def split: sum.splits)

lemma valid_askS: "(\<And>s. P s \<Longrightarrow> Q (g s) s) \<Longrightarrow> valid P (askS g) Q E"
  by (simp add: valid_def)

lemma valid_guardS:
  "(\<And>s. P s \<Longrightarrow> \<not> b \<Longrightarrow> Q () s) \<Longrightarrow> (\<And>s. P s \<Longrightarrow> E s) \<Longrightarrow> valid P (guardS b c msg) Q E"
  by (auto simp: valid_def guardC_def throwC_def)

lemma valid_weaken:
  "valid P' m Q E \<Longrightarrow> (\<And>s. P s \<Longrightarrow> P' s) \<Longrightarrow> valid P m Q E"
  by (simp add: valid_def)

lemma valid_strengthen:
  assumes "valid P m Q' E" and "\<And>x s. Q' x s \<Longrightarrow> Q x s"
  shows "valid P m Q E"
  using assms by (fastforce simp: valid_def split: prod.splits sum.splits)

lemma keeps_pureS [intro]: "keeps I (pureS x)" by (simp add: keeps_def)
lemma keeps_liftS [intro]: "keeps I (liftS r)" by (simp add: keeps_def)
lemma keeps_readS [intro]: "keeps I (readS h)" by (simp add: keeps_def)
lemma keeps_askS [intro]: "keeps I (askS g)" by (simp add: keeps_def)
lemma keeps_throwS [intro]: "keeps I (throwS c msg)" by (simp add: keeps_def)
lemma keeps_guardS [intro]: "keeps I (guardS b c msg)" by (simp add: keeps_def)

lemma keeps_bindS [intro]: "keeps I m \<Longrightarrow> (\<And>x. keeps I (f x)) \<Longrightarrow> keeps I (bindS m f)"
  by (fastforce simp: keeps_def bindS_def split: prod.splits sum.splits)

lemma keeps_if [intro]: "(b \<Longrightarrow> keeps I m) \<Longrightarrow> (\<not> b \<Longrightarrow> keeps I n) \<Longrightarrow> keeps I (if b then m else n)"
  by simp

lemma keeps_case_option [intro]:
  "(x = None \<Longrightarrow> keeps I m) \<Longrightarrow> (\<And>y. x = Some y \<Longrightarrow> keeps I (n y)) \<Longrightarrow>
   keeps I (case x of None \<Rightarrow> m | Some y \<Rightarrow> n y)"
  by (cases x) auto

end
