(* ===== verification/Tables.thy ===== *)
theory Tables
  imports StateError "HOL-Library.List_Lexorder" "HOL-Library.Char_ord"
begin

text \<open>
  The SQL statements \<open>control-plane/repository.ts\<close> uses, over a table as the list of its
  rows in insertion order: a select by key, an insert under a primary key and further unique
  columns, an update and a delete by key. \<open>keyed_store\<close> is the interface the services rely
  on; each table of the repository interprets it.
\<close>

definition row_by :: "('r \<Rightarrow> 'k) \<Rightarrow> 'k \<Rightarrow> 'r list \<Rightarrow> 'r option" where
  "row_by key k t = find (\<lambda>r. key r = k) t"

definition has_key :: "('r \<Rightarrow> 'k) \<Rightarrow> 'k \<Rightarrow> 'r list \<Rightarrow> bool" where
  "has_key key k t \<longleftrightarrow> list_ex (\<lambda>r. key r = k) t"

definition update_by :: "('r \<Rightarrow> 'k) \<Rightarrow> 'k \<Rightarrow> ('r \<Rightarrow> 'r) \<Rightarrow> 'r list \<Rightarrow> 'r list" where
  "update_by key k f t = map (\<lambda>r. if key r = k then f r else r) t"

definition delete_by :: "('r \<Rightarrow> 'k) \<Rightarrow> 'k \<Rightarrow> 'r list \<Rightarrow> 'r list" where
  "delete_by key k t = filter (\<lambda>r. key r \<noteq> k) t"

text \<open>\<open>order by\<close> a text column compares bytes, that is, code units.\<close>

definition text_le :: "string \<Rightarrow> string \<Rightarrow> bool" where
  "text_le a b \<longleftrightarrow> a \<le> b"

lemma row_by_simps [simp]:
  "row_by key k [] = None"
  "row_by key k (r # t) = (if key r = k then Some r else row_by key k t)"
  by (simp_all add: row_by_def)

lemma row_by_append: "row_by key k (t @ u) =
    (case row_by key k t of None \<Rightarrow> row_by key k u | Some r \<Rightarrow> Some r)"
  by (induction t) auto

lemma row_by_None: "row_by key k t = None \<longleftrightarrow> k \<notin> key ` set t"
  by (induction t) auto

lemma row_by_Some: "row_by key k t = Some r \<Longrightarrow> r \<in> set t \<and> key r = k"
  by (induction t) (auto split: if_splits)

lemma has_key_iff: "has_key key k t \<longleftrightarrow> row_by key k t \<noteq> None"
  by (auto simp: has_key_def row_by_None list_ex_iff)

lemma has_key_set: "has_key key k t \<longleftrightarrow> k \<in> key ` set t"
  by (auto simp: has_key_def list_ex_iff)

lemma row_by_distinct: "distinct (map key t) \<Longrightarrow> r \<in> set t \<Longrightarrow> row_by key (key r) t = Some r"
  by (induction t) (auto simp: image_iff)

lemma row_by_update:
  assumes "\<And>r. key (f r) = key r"
  shows "row_by key k' (update_by key k f t) =
    (if k' = k then map_option f (row_by key k t) else row_by key k' t)"
  unfolding update_by_def by (induction t) (auto simp: assms)

lemma row_by_delete:
  "row_by key k' (delete_by key k t) = (if k' = k then None else row_by key k' t)"
  unfolding delete_by_def by (induction t) auto

lemma map_key_update:
  assumes "\<And>r. key (f r) = key r"
  shows "map key (update_by key k f t) = map key t"
  unfolding update_by_def by (induction t) (auto simp: assms)

lemma set_update_by: "set (update_by key k f t) =
    f ` {r \<in> set t. key r = k} \<union> {r \<in> set t. key r \<noteq> k}"
  by (auto simp: update_by_def)

lemma set_delete_by: "set (delete_by key k t) = {r \<in> set t. key r \<noteq> k}"
  by (auto simp: delete_by_def)

lemma distinct_delete_by: "distinct (map f t) \<Longrightarrow> distinct (map f (delete_by key k t))"
  unfolding delete_by_def by (rule distinct_map_filter)

subsection \<open>The interface of a table\<close>

text \<open>
  \<open>look\<close> is the table's \<open>get\<close>, \<open>add\<close> its \<open>create\<close>, which throws a conflict on a
  taken key; \<open>inv\<close> is what the repository keeps of the state.
\<close>

locale keyed_store =
  fixes key :: "'r \<Rightarrow> 'k"
    and look :: "'s \<Rightarrow> 'k \<Rightarrow> 'r option"
    and add :: "'r \<Rightarrow> ('s, 'r) op"
  assumes look_key: "look s k = Some r \<Longrightarrow> key r = k"
    and add_taken: "look s (key r) \<noteq> None \<Longrightarrow> fails_with Conflict (snd (add r s))"
    and add_returns: "add r s = (s', Inr r') \<Longrightarrow> r' = r \<and> look s (key r) = None
      \<and> look s' = (look s)(key r \<mapsto> r)"
    and add_throws: "add r s = (s', Inl e) \<Longrightarrow> s' = s"
begin

lemma add_then_look: "add r s = (s', Inr r') \<Longrightarrow> look s' (key r) = Some r"
  by (auto dest: add_returns)

lemma add_keeps_rows: "look s k = Some q \<Longrightarrow> look (fst (add r s)) k = Some q"
proof (cases "add r s")
  case (Pair s' res)
  assume q: "look s k = Some q"
  show ?thesis
  proof (cases res)
    case (Inl e)
    with Pair q show ?thesis by (auto dest: add_throws)
  next
    case (Inr r')
    with Pair add_returns [of r s s' r'] q show ?thesis by (cases "k = key r") auto
  qed
qed

lemma add_twice:
  assumes "add r s = (s', Inr r')" and "key q = key r"
  shows "fails_with Conflict (snd (add q s'))"
  using add_taken [of s' q] add_then_look [OF assms(1)] assms(2) by simp

lemma adds_commute:
  assumes "add r s = (s1, Inr r1)" and "add q s1 = (s2, Inr q2)"
  shows "key q \<noteq> key r \<and> look s2 = (look s)(key r \<mapsto> r, key q \<mapsto> q)"
  using add_returns [OF assms(1)] add_returns [OF assms(2)] by auto

end

end
