(* ===== verification/Json.thy ===== *)
theory Json
  imports Errors
begin

text \<open>
  The values of type \<open>unknown\<close> the validating code receives: parsed JSON, and
  \<open>undefined\<close> for an absent property. A number is a finite rational (every finite double
  is one), \<open>NaN\<close> or an infinity. An object is the list of its own properties in
  insertion order; property names are unique in JavaScript.
\<close>

datatype jnum = Fin rat | NaN | Infinity bool

datatype json =
    JUndefined | JNull | JBool bool | JNum jnum | JStr string
  | JArr "json list" | JObj "(string \<times> json) list"

definition JInt :: "int \<Rightarrow> json" where
  "JInt n = JNum (Fin (of_int n))"

text \<open>Property access \<open>record.key\<close>.\<close>

definition getp :: "(string \<times> json) list \<Rightarrow> string \<Rightarrow> json" where
  "getp r k = (case map_of r k of None \<Rightarrow> JUndefined | Some v \<Rightarrow> v)"

lemma getp_simps [simp]:
  "getp [] k = JUndefined"
  "getp ((k', v) # r) k = (if k' = k then v else getp r k)"
  by (auto simp: getp_def)

text \<open>\<open>Number.isInteger\<close> with the integer, and \<open>Number.isFinite\<close> with the number.\<close>

definition rat_int :: "rat \<Rightarrow> int option" where
  "rat_int q = (let (a, b) = quotient_of q in if b = 1 then Some a else None)"

fun isInteger :: "json \<Rightarrow> int option" where
  "isInteger (JNum (Fin q)) = rat_int q"
| "isInteger _ = None"

fun isFinite :: "json \<Rightarrow> rat option" where
  "isFinite (JNum (Fin q)) = Some q"
| "isFinite _ = None"

lemma quotient_of_of_int [simp]: "quotient_of (of_int n) = (n, 1)"
  by (simp add: of_int_rat quotient_of_Fract Rat.normalize_def)

lemma rat_int_of_int [simp]: "rat_int (of_int n) = Some n"
  by (simp add: rat_int_def)

lemma rat_int_Some: "rat_int q = Some n \<longleftrightarrow> q = of_int n"
proof
  assume "rat_int q = Some n"
  then have "quotient_of q = (n, 1)"
    by (auto simp: rat_int_def split: prod.splits if_splits)
  then show "q = of_int n"
    using quotient_of_div [of q n 1] by simp
qed simp

lemma isInteger_JInt [simp]: "isInteger (JInt n) = Some n"
  by (simp add: JInt_def)

lemma isInteger_Some: "isInteger v = Some n \<longleftrightarrow> v = JInt n"
  by (cases v rule: isInteger.cases) (auto simp: JInt_def rat_int_Some)

lemma JInt_inject [simp]: "JInt m = JInt n \<longleftrightarrow> m = n"
  by (metis isInteger_JInt option.inject)

lemma JInt_distinct [simp]:
  "JInt n \<noteq> JUndefined" "JInt n \<noteq> JNull" "JInt n \<noteq> JBool b" "JInt n \<noteq> JStr s"
  "JInt n \<noteq> JArr vs" "JInt n \<noteq> JObj r"
  by (simp_all add: JInt_def)

end
