(* ===== verification/Contracts.thy ===== *)
theory Contracts
  imports Json
begin

text \<open>
  The data model of \<open>control-plane/contracts.ts\<close>: its interfaces as records, its string
  unions as datatypes with one constructor per string. An optional property is an
  \<open>option\<close>; identifiers and ISO timestamps are strings.
\<close>

definition MVP_WORKER_WORLD :: string where
  "MVP_WORKER_WORLD = ''wasi:http/service@0.3.0''"

definition MVP_WORKER_WORLD_VERSION :: string where
  "MVP_WORKER_WORLD_VERSION = ''0.3.0''"

definition MVP_WASI_PROFILE :: string where
  "MVP_WASI_PROFILE = ''wasip3''"

definition MVP_RUNTIME_BACKEND :: string where
  "MVP_RUNTIME_BACKEND = ''wasmtime''"

datatype ApiScope = AllScopes | Read | Write | Publish
datatype ProjectRole = Owner | Developer | Viewer
datatype InviteStatus = Pending | Accepted
datatype BillingProvider = NoBilling | Stripe | Manual
datatype PaymentStatus = PaymentPending | Trialing | PaymentActive | PastDue | Suspended

datatype UsageMetricName =
  Invocation | CpuMs | WallMs | MemoryMbMs | EgressBytes | StorageBytes | SqliteUnit

datatype CustomDomainStatus = PendingVerification | Verified | TlsPending | DomainActive | TlsFailed
datatype CustomDomainTlsStatus = TlsNone | TlsStatusPending | TlsProvisioned | TlsStatusFailed
datatype DeployPreviewStatus = PreviewActive | RolledBack
datatype RuntimeNodeStatus = NodeActive | NodeDraining | NodeOffline

record Organization =
  org_id :: string
  org_name :: string
  org_billingProvider :: BillingProvider
  org_billingCustomerId :: "string option"
  org_paymentStatus :: PaymentStatus
  org_billingEmail :: "string option"
  org_paymentStatusUpdatedAt :: string
  org_createdAt :: string

record User =
  user_id :: string
  user_email :: string
  user_name :: "string option"
  user_emailVerifiedAt :: "string option"
  user_createdAt :: string

record Project =
  prj_id :: string
  prj_organizationId :: "string option"
  prj_name :: string
  prj_createdAt :: string

record ProjectMembership =
  mem_projectId :: string
  mem_userId :: string
  mem_role :: ProjectRole
  mem_inviteStatus :: InviteStatus
  mem_invitedAt :: string
  mem_acceptedAt :: "string option"
  mem_createdAt :: string

record ArtifactSignature =
  sig_keyId :: string
  sig_value :: string

record ArtifactProvenance =
  prov_builder :: "string option"
  prov_source :: "string option"
  prov_revision :: "string option"
  prov_buildId :: "string option"

record Artifact =
  art_id :: string
  art_projectId :: string
  art_digest :: string
  art_location :: string
  art_sizeBytes :: int
  art_signature :: "ArtifactSignature option"
  art_provenance :: "ArtifactProvenance option"
  art_createdAt :: string

text \<open>Secrets, KV namespaces and Durable Object namespaces have the same shape.\<close>

record Resource =
  res_id :: string
  res_projectId :: string
  res_name :: string
  res_createdAt :: string
  res_updatedAt :: string

record RuntimeSpec =
  rt_backend :: string
  rt_version :: string
  rt_wasi :: string

record RuntimeLimits =
  lim_cpuMs :: int
  lim_memoryMb :: int
  lim_wallMs :: int
  lim_requestBytes :: int
  lim_subrequests :: int
  lim_responseBytes :: int

record OutboundHttpCapability =
  out_enabled :: bool
  out_allow :: "string list"

record KvBinding =
  kv_binding :: string
  kv_namespaceId :: string

record SecretBinding =
  sec_binding :: string
  sec_secretId :: string

record DurableObjectBinding =
  do_binding :: string
  do_namespaceId :: string

record ServiceBinding =
  svc_binding :: string
  svc_targetProjectId :: string
  svc_url :: string

record CapabilityPolicy =
  cap_outboundHttp :: OutboundHttpCapability
  cap_kv :: "KvBinding list"
  cap_durableObjects :: "DurableObjectBinding list"
  cap_secrets :: "SecretBinding list"
  cap_services :: "ServiceBinding list"
  cap_arbitraryFilesystem :: bool
  cap_arbitrarySockets :: bool
  cap_processSpawn :: bool

record Deployment =
  dep_id :: string
  dep_projectId :: string
  dep_artifactId :: string
  dep_world :: string
  dep_worldVersion :: string
  dep_runtime :: RuntimeSpec
  dep_limits :: RuntimeLimits
  dep_capabilities :: CapabilityPolicy
  dep_createdAt :: string

record RouteTarget =
  tgt_deploymentId :: string
  tgt_weight :: int

record RoutePointer =
  rte_id :: string
  rte_projectId :: string
  rte_host :: string
  rte_pathPrefix :: string
  rte_deploymentId :: string
  rte_targets :: "RouteTarget list"
  rte_updatedAt :: string

record PreviousRoute =
  pre_id :: string
  pre_deploymentId :: string
  pre_targets :: "RouteTarget list"
  pre_updatedAt :: string

record DeployPreview =
  prv_id :: string
  prv_projectId :: string
  prv_deploymentId :: string
  prv_host :: string
  prv_pathPrefix :: string
  prv_url :: string
  prv_environment :: "(string \<times> string) list"
  prv_status :: DeployPreviewStatus
  prv_createdAt :: string
  prv_updatedAt :: string
  prv_previousRoute :: "PreviousRoute option"
  prv_rolledBackAt :: "string option"

record CustomDomain =
  dom_id :: string
  dom_projectId :: string
  dom_host :: string
  dom_status :: CustomDomainStatus
  dom_verificationToken :: string
  dom_verificationRecordName :: string
  dom_verificationRecordValue :: string
  dom_tlsStatus :: CustomDomainTlsStatus
  dom_tlsProvider :: "string option"
  dom_tlsRequestId :: "string option"
  dom_tlsError :: "string option"
  dom_createdAt :: string
  dom_updatedAt :: string
  dom_verifiedAt :: "string option"
  dom_tlsProvisionedAt :: "string option"

record RuntimeNodeCapacity =
  capy_concurrentRequests :: int
  capy_memoryMb :: int

record RuntimeNodeIdentity =
  ident_keyId :: string
  ident_certificateSha256 :: "string option"

record RuntimeNodeHostInfo =
  host_backend :: string
  host_wasi :: string
  host_runtimeVersion :: "string option"
  host_hostVersion :: "string option"
  host_engineVariant :: "string option"

record RuntimeNode =
  node_id :: string
  node_url :: string
  node_status :: RuntimeNodeStatus
  node_registeredAt :: string
  node_lastSeenAt :: "string option"
  node_version :: "string option"
  node_capacity :: "RuntimeNodeCapacity option"
  node_region :: "string option"
  node_labels :: "(string \<times> string) list option"
  node_load :: "int option"
  node_identity :: "RuntimeNodeIdentity option"
  node_host :: "RuntimeNodeHostInfo option"

record SnapshotArtifact =
  sa_id :: string
  sa_digest :: string
  sa_location :: string
  sa_signature :: "ArtifactSignature option"
  sa_provenance :: "ArtifactProvenance option"

record RouteSnapshotTarget =
  st_deploymentId :: string
  st_weight :: int
  st_world :: string
  st_worldVersion :: string
  st_runtime :: RuntimeSpec
  st_limits :: RuntimeLimits
  st_capabilities :: CapabilityPolicy
  st_artifact :: SnapshotArtifact

record RouteSnapshotEntry =
  se_host :: string
  se_pathPrefix :: string
  se_projectId :: string
  se_deploymentId :: string
  se_targets :: "RouteSnapshotTarget list"
  se_world :: string
  se_worldVersion :: string
  se_runtime :: RuntimeSpec
  se_limits :: RuntimeLimits
  se_capabilities :: CapabilityPolicy
  se_artifact :: SnapshotArtifact

record RouteSnapshot =
  snap_id :: "string option"
  snap_schemaVersion :: int
  snap_generatedAt :: string
  snap_routes :: "RouteSnapshotEntry list"

record UsageTotals =
  tot_invocations :: rat
  tot_cpuMs :: rat
  tot_wallMs :: rat
  tot_memoryMbMs :: rat
  tot_egressBytes :: rat
  tot_storageBytes :: rat
  tot_sqliteUnits :: rat

record ProjectUsageSummary =
  sum_projectId :: string
  sum_organizationId :: "string option"
  sum_from :: "string option"
  sum_to :: "string option"
  sum_totals :: UsageTotals

end
