(* ===== verification/Normalizers.thy ===== *)
theory Normalizers
  imports Contracts
begin

text \<open>
  The validating functions of \<open>control-plane/contracts.ts\<close>: each takes an \<open>unknown\<close>
  (a \<open>json\<close>), and returns the normalised value or throws a \<open>validation\<close> error.

  Two platform services they call are parameters: the WHATWG URL class (\<open>UrlApi\<close>), and
  the pair \<open>Date.parse\<close> / \<open>toISOString\<close> (\<open>DateApi\<close>).
\<close>

record Url =
  url_protocol :: string
  url_host :: string
  url_username :: string
  url_password :: string
  url_pathname :: string
  url_search :: string
  url_hash :: string

record UrlApi =
  urlParse :: "string \<Rightarrow> Url option"
  urlToString :: "Url \<Rightarrow> string"
  urlSetPathname :: "Url \<Rightarrow> string \<Rightarrow> Url"

record DateApi =
  dateParse :: "string \<Rightarrow> int option"
  dateToISO :: "int \<Rightarrow> string"

subsection \<open>Helpers\<close>

definition objectRecord :: "json \<Rightarrow> string \<Rightarrow> (string \<times> json) list cp" where
  "objectRecord v fld = (case v of JObj r \<Rightarrow> Inr r
     | _ \<Rightarrow> throwC Validation (fld @ '' must be an object''))"

definition nonEmptyString :: "json \<Rightarrow> string \<Rightarrow> string cp" where
  "nonEmptyString v fld = (case v of
       JStr s \<Rightarrow> if trim s = [] then throwC Validation (fld @ '' must be a non-empty string'')
                 else Inr (trim s)
     | _ \<Rightarrow> throwC Validation (fld @ '' must be a non-empty string''))"

definition positiveInteger :: "json \<Rightarrow> string \<Rightarrow> int cp" where
  "positiveInteger v fld = (case isInteger v of
       Some n \<Rightarrow> if n \<le> 0 then throwC Validation (fld @ '' must be a positive integer'') else Inr n
     | None \<Rightarrow> throwC Validation (fld @ '' must be a positive integer''))"

definition optionalPositiveInteger :: "json \<Rightarrow> string \<Rightarrow> int option cp" where
  "optionalPositiveInteger v fld =
     (if v = JUndefined then Inr None else bindE (positiveInteger v fld) (\<lambda>n. Inr (Some n)))"

definition nonnegativeInteger :: "json \<Rightarrow> string \<Rightarrow> int cp" where
  "nonnegativeInteger v fld = (case isInteger v of
       Some n \<Rightarrow> if n < 0 then throwC Validation (fld @ '' must be a non-negative integer'') else Inr n
     | None \<Rightarrow> throwC Validation (fld @ '' must be a non-negative integer''))"

definition booleanValue :: "json \<Rightarrow> string \<Rightarrow> bool cp" where
  "booleanValue v fld = (case v of JBool b \<Rightarrow> Inr b
     | _ \<Rightarrow> throwC Validation (fld @ '' must be a boolean''))"

definition item_field :: "string \<Rightarrow> nat \<Rightarrow> string \<Rightarrow> string" where
  "item_field fld i suf = fld @ ''['' @ show_int (int i) @ '']'' @ suf"

definition arrayValue :: "json \<Rightarrow> string \<Rightarrow> json list cp" where
  "arrayValue v msg = (case v of JArr vs \<Rightarrow> Inr vs | _ \<Rightarrow> throwC Validation msg)"

definition stringArray :: "json \<Rightarrow> string \<Rightarrow> string list cp" where
  "stringArray v fld = bindE (arrayValue v (fld @ '' must be an array''))
     (\<lambda>vs. mapE (\<lambda>(i, x). nonEmptyString x (item_field fld i '''')) (indexed vs))"

definition is_binding_name :: "string \<Rightarrow> bool" where
  "is_binding_name s \<longleftrightarrow> s \<noteq> [] \<and> is_upper (hd s)
     \<and> list_all (\<lambda>c. is_upper c \<or> is_digit c \<or> c = CHR ''_'') (tl s)"

definition bindingName :: "json \<Rightarrow> string \<Rightarrow> string cp" where
  "bindingName v fld = bindE (nonEmptyString v fld) (\<lambda>name.
     if is_binding_name name then Inr name
     else throwC Validation (fld @ '' must be an uppercase binding name''))"

definition is_http :: "Url \<Rightarrow> bool" where
  "is_http u \<longleftrightarrow> url_protocol u = ''http:'' \<or> url_protocol u = ''https:''"

definition serviceUrl :: "UrlApi \<Rightarrow> json \<Rightarrow> string \<Rightarrow> string cp" where
  "serviceUrl U v fld = bindE (nonEmptyString v fld) (\<lambda>text.
     case urlParse U text of
       None \<Rightarrow> throwC Validation (fld @ '' must be an absolute http(s) URL'')
     | Some u \<Rightarrow>
         if \<not> is_http u then throwC Validation (fld @ '' must be an absolute http(s) URL'')
         else if url_hash u \<noteq> [] then throwC Validation (fld @ '' must not include a fragment'')
         else if url_search u \<noteq> [] then throwC Validation (fld @ '' must not include a query'')
         else Inr (urlToString U u))"

definition rejectPrivilegedCapability :: "(string \<times> json) list \<Rightarrow> string \<Rightarrow> unit cp" where
  "rejectPrivilegedCapability r key =
     guardC (getp r key = JBool True) Validation (key @ '' is not exposed to workers'')"

definition optionalId :: "json \<Rightarrow> string \<Rightarrow> string option cp" where
  "optionalId v fld =
     (if v = JUndefined then Inr None else bindE (nonEmptyString v fld) (\<lambda>s. Inr (Some s)))"

definition isPrintable :: "string \<Rightarrow> bool" where
  "isPrintable s \<longleftrightarrow> \<not> list_ex is_control s"

text \<open>The regular expressions \<open>/^[first][rest]*$/\<close> of identifiers.\<close>

definition is_token :: "char list \<Rightarrow> string \<Rightarrow> bool" where
  "is_token extra s \<longleftrightarrow> s \<noteq> [] \<and> is_alnum (hd s)
     \<and> list_all (\<lambda>c. is_alnum c \<or> c \<in> set extra) (tl s)"

definition is_sha256_hex :: "string \<Rightarrow> bool" where
  "is_sha256_hex s \<longleftrightarrow> length s = 64 \<and> list_all is_hex_lower s"

subsection \<open>Characterisations\<close>

lemma objectRecord_Inr [accepts]: "objectRecord v fld = Inr r \<longleftrightarrow> v = JObj r"
  by (auto simp: objectRecord_def split: json.splits)

lemma nonEmptyString_Inr [accepts]:
  "nonEmptyString v fld = Inr s \<longleftrightarrow> (\<exists>t. v = JStr t \<and> s = trim t \<and> s \<noteq> [])"
  by (auto simp: nonEmptyString_def split: json.splits)

lemma positiveInteger_Inr [accepts]:
  "positiveInteger v fld = Inr n \<longleftrightarrow> v = JInt n \<and> 0 < n"
  by (auto simp: positiveInteger_def isInteger_Some [symmetric] split: option.splits)

lemma nonnegativeInteger_Inr [accepts]:
  "nonnegativeInteger v fld = Inr n \<longleftrightarrow> v = JInt n \<and> 0 \<le> n"
  by (auto simp: nonnegativeInteger_def isInteger_Some [symmetric] split: option.splits)

lemma booleanValue_Inr [accepts]: "booleanValue v fld = Inr b \<longleftrightarrow> v = JBool b"
  by (auto simp: booleanValue_def split: json.splits)

lemma arrayValue_Inr [accepts]: "arrayValue v msg = Inr vs \<longleftrightarrow> v = JArr vs"
  by (auto simp: arrayValue_def split: json.splits)

lemma bindingName_Inr [accepts]:
  "bindingName v fld = Inr s \<longleftrightarrow> nonEmptyString v fld = Inr s \<and> is_binding_name s"
  by (auto simp: bindingName_def bindE_Inr split: if_splits)

lemma optionalId_Inr [accepts]:
  "optionalId v fld = Inr (Some s) \<longleftrightarrow> (\<exists>t. v = JStr t \<and> s = trim t \<and> s \<noteq> [])"
  by (auto simp: optionalId_def bindE_Inr nonEmptyString_Inr)


subsection \<open>Names, roles and billing fields\<close>

definition normalizeProjectName :: "json \<Rightarrow> string cp" where
  "normalizeProjectName v = (case v of
       JStr s \<Rightarrow> if length (trim s) < 1 \<or> length (trim s) > 80
                 then throwC Validation ''project name must be between 1 and 80 characters''
                 else Inr (trim s)
     | _ \<Rightarrow> throwC Validation ''project name must be a string'')"

definition normalizeOrganizationName :: "json \<Rightarrow> string cp" where
  "normalizeOrganizationName v = (case v of
       JStr s \<Rightarrow> if length (trim s) < 1 \<or> length (trim s) > 120
                 then throwC Validation ''organization name must be between 1 and 120 characters''
                 else Inr (trim s)
     | _ \<Rightarrow> throwC Validation ''organization name must be a string'')"

definition normalizeOrganizationBillingProvider :: "json \<Rightarrow> BillingProvider cp" where
  "normalizeOrganizationBillingProvider v =
     (if v = JStr ''none'' then Inr NoBilling
      else if v = JStr ''stripe'' then Inr Stripe
      else if v = JStr ''manual'' then Inr Manual
      else throwC Validation ''organization billing provider must be none, stripe, or manual'')"

definition normalizeOrganizationPaymentStatus :: "json \<Rightarrow> PaymentStatus cp" where
  "normalizeOrganizationPaymentStatus v =
     (if v = JStr ''payment_pending'' then Inr PaymentPending
      else if v = JStr ''trialing'' then Inr Trialing
      else if v = JStr ''active'' then Inr PaymentActive
      else if v = JStr ''past_due'' then Inr PastDue
      else if v = JStr ''suspended'' then Inr Suspended
      else throwC Validation ''organization payment status must be payment_pending, trialing, active, past_due, or suspended'')"

definition normalizeOrganizationBillingCustomerId :: "json \<Rightarrow> string option cp" where
  "normalizeOrganizationBillingCustomerId v =
     (if v = JUndefined \<or> v = JNull then Inr None
      else bindE (nonEmptyString v ''organization billing customer id'') (\<lambda>c.
        if length c > 200 \<or> \<not> isPrintable c
        then throwC Validation ''organization billing customer id must be a printable string up to 200 characters''
        else Inr (Some c)))"

text \<open>\<open>/^[^\s@]+@[^\s@]+\.[^\s@]+$/\<close>: one \<open>@\<close>, and a dot inside what follows it.\<close>

definition is_email :: "string \<Rightarrow> bool" where
  "is_email s = (case split_on (CHR ''@'') s of
       [l, d] \<Rightarrow> l \<noteq> [] \<and> list_all (\<lambda>c. \<not> js_ws c) (l @ d) \<and> d \<noteq> []
                   \<and> CHR ''.'' \<in> set (butlast (tl d))
     | _ \<Rightarrow> False)"

definition normalizeUserEmail :: "json \<Rightarrow> string cp" where
  "normalizeUserEmail v = (case v of
       JStr s \<Rightarrow> (let email = toLowerCase (trim s) in
          if length email > 254 \<or> \<not> is_email email
          then throwC Validation ''user email must be an email address'' else Inr email)
     | _ \<Rightarrow> throwC Validation ''user email must be a string'')"

definition normalizeOrganizationBillingEmail :: "json \<Rightarrow> string option cp" where
  "normalizeOrganizationBillingEmail v =
     (if v = JUndefined \<or> v = JNull then Inr None
      else bindE (normalizeUserEmail v) (\<lambda>e. Inr (Some e)))"

record BillingProfileInput =
  bpi_billingProvider :: json
  bpi_billingCustomerId :: json
  bpi_paymentStatus :: json
  bpi_billingEmail :: json
  bpi_paymentStatusUpdatedAt :: string

record BillingProfile =
  bp_billingProvider :: BillingProvider
  bp_billingCustomerId :: "string option"
  bp_paymentStatus :: PaymentStatus
  bp_billingEmail :: "string option"
  bp_paymentStatusUpdatedAt :: string

definition normalizeOrganizationBillingProfile :: "BillingProfileInput \<Rightarrow> BillingProfile cp" where
  "normalizeOrganizationBillingProfile i =
     bindE (normalizeOrganizationBillingCustomerId (bpi_billingCustomerId i)) (\<lambda>cid.
     bindE (normalizeOrganizationBillingEmail (bpi_billingEmail i)) (\<lambda>email.
     bindE (if bpi_billingProvider i = JUndefined then Inr NoBilling
            else normalizeOrganizationBillingProvider (bpi_billingProvider i)) (\<lambda>provider.
     bindE (if bpi_paymentStatus i = JUndefined then Inr PaymentPending
            else normalizeOrganizationPaymentStatus (bpi_paymentStatus i)) (\<lambda>status.
     Inr \<lparr>bp_billingProvider = provider, bp_billingCustomerId = cid, bp_paymentStatus = status,
          bp_billingEmail = email, bp_paymentStatusUpdatedAt = bpi_paymentStatusUpdatedAt i\<rparr>))))"

definition printableName :: "json \<Rightarrow> string \<Rightarrow> string \<Rightarrow> string cp" where
  "printableName v fld msg = bindE (nonEmptyString v fld) (\<lambda>name.
     if length name > 120 \<or> \<not> isPrintable name then throwC Validation msg else Inr name)"

definition normalizeUserName :: "json \<Rightarrow> string option cp" where
  "normalizeUserName v =
     (if v = JUndefined then Inr None
      else bindE (printableName v ''user name''
             ''user name must be a printable string up to 120 characters'') (\<lambda>n. Inr (Some n)))"

definition normalizeProjectRole :: "json \<Rightarrow> ProjectRole cp" where
  "normalizeProjectRole v =
     (if v = JStr ''owner'' then Inr Owner
      else if v = JStr ''developer'' then Inr Developer
      else if v = JStr ''viewer'' then Inr Viewer
      else throwC Validation ''project membership role must be owner, developer, or viewer'')"

definition normalizeProjectMembershipInviteStatus :: "json \<Rightarrow> InviteStatus cp" where
  "normalizeProjectMembershipInviteStatus v =
     (if v = JStr ''pending'' then Inr Pending
      else if v = JStr ''accepted'' then Inr Accepted
      else throwC Validation ''project membership invite status must be pending or accepted'')"

definition quotaKeys :: "string list" where
  "quotaKeys = [''maxArtifacts'', ''maxDeployments'', ''maxRoutes'', ''maxSecrets'',
     ''maxKvNamespaces'', ''maxDurableObjectNamespaces'']"

fun quotaLoop :: "(string \<times> json) list \<Rightarrow> string list \<Rightarrow> (string \<times> int) list cp" where
  "quotaLoop r [] = Inr []"
| "quotaLoop r (key # keys) =
     bindE (optionalPositiveInteger (getp r key) (''production quota increase '' @ key)) (\<lambda>parsed.
     bindE (quotaLoop r keys) (\<lambda>quotas.
       Inr (case parsed of None \<Rightarrow> quotas | Some n \<Rightarrow> (key, n) # quotas)))"

definition normalizeProductionQuotaIncreaseQuotas :: "json \<Rightarrow> (string \<times> int) list cp" where
  "normalizeProductionQuotaIncreaseQuotas v =
     (if v = JUndefined
      then throwC Validation ''production quota increase requires requestedQuotas''
      else case v of
        JObj r \<Rightarrow> bindE (quotaLoop r quotaKeys) (\<lambda>quotas.
          if quotas = [] then throwC Validation ''production quota increase requestedQuotas must include a limit''
          else Inr quotas)
      | _ \<Rightarrow> throwC Validation ''production quota increase requestedQuotas must be an object'')"

definition normalizeApiKeyName :: "json \<Rightarrow> string cp" where
  "normalizeApiKeyName v = printableName v ''api key name''
     ''api key name must be between 1 and 120 printable characters''"

definition apiScope_of :: "json \<Rightarrow> ApiScope option" where
  "apiScope_of v =
     (if v = JStr ''*'' then Some AllScopes else if v = JStr ''read'' then Some Read
      else if v = JStr ''write'' then Some Write else if v = JStr ''publish'' then Some Publish
      else None)"

fun apiScopesLoop :: "json list \<Rightarrow> ApiScope list \<Rightarrow> ApiScope list cp" where
  "apiScopesLoop [] scopes = Inr scopes"
| "apiScopesLoop (item # items) scopes = (case apiScope_of item of
       None \<Rightarrow> throwC Validation ''api key scopes must be read, write, publish, or *''
     | Some sc \<Rightarrow> apiScopesLoop items (if sc \<in> set scopes then scopes else scopes @ [sc]))"

definition normalizeApiScopes :: "json \<Rightarrow> ApiScope list cp" where
  "normalizeApiScopes v = (case v of
       JArr (x # xs) \<Rightarrow> apiScopesLoop (x # xs) []
     | _ \<Rightarrow> throwC Validation ''api key scopes must be a non-empty array'')"


subsection \<open>Usage events\<close>

definition usageMetricName_of :: "string \<Rightarrow> UsageMetricName option" where
  "usageMetricName_of s =
     (if s = ''invocation'' then Some Invocation else if s = ''cpu_ms'' then Some CpuMs
      else if s = ''wall_ms'' then Some WallMs else if s = ''memory_mb_ms'' then Some MemoryMbMs
      else if s = ''egress_bytes'' then Some EgressBytes
      else if s = ''storage_bytes'' then Some StorageBytes
      else if s = ''sqlite_unit'' then Some SqliteUnit else None)"

definition normalizeUsageMetricName :: "json \<Rightarrow> UsageMetricName cp" where
  "normalizeUsageMetricName v =
     (case (case v of JStr s \<Rightarrow> usageMetricName_of s | _ \<Rightarrow> None) of
        Some m \<Rightarrow> Inr m
      | None \<Rightarrow> throwC Validation
          ''usage metric must be one of invocation, cpu_ms, wall_ms, memory_mb_ms, egress_bytes, storage_bytes, sqlite_unit'')"

definition normalizeUsageQuantity :: "json \<Rightarrow> rat cp" where
  "normalizeUsageQuantity v = (case isFinite v of
       Some q \<Rightarrow> if q \<le> 0 then throwC Validation ''usage quantity must be a positive finite number''
                 else Inr q
     | None \<Rightarrow> throwC Validation ''usage quantity must be a positive finite number'')"

text \<open>
  \<open>Object.entries(record).sort(([a], [b]) => a.localeCompare(b))\<close>; the collation is the
  parameter \<open>le\<close>.
\<close>

definition sortedEntries ::
    "(string \<Rightarrow> string \<Rightarrow> bool) \<Rightarrow> (string \<times> json) list \<Rightarrow> (string \<times> json) list" where
  "sortedEntries le r = js_sort (\<lambda>a b. le (fst a) (fst b)) r"

definition usageDimension :: "string \<times> json \<Rightarrow> (string \<times> json) cp" where
  "usageDimension kv = (case kv of (key, v) \<Rightarrow>
     if \<not> is_token ''_.:-'' key
     then throwC Validation ''usage dimension keys must be dimension ids''
     else case v of
         JStr s \<Rightarrow> Inr (key, v)
       | JBool b \<Rightarrow> Inr (key, v)
       | JNum n \<Rightarrow> if isFinite v = None
                   then throwC Validation (''usage dimension '' @ key @ '' must be finite'')
                   else Inr (key, v)
       | _ \<Rightarrow> throwC Validation (''usage dimension '' @ key @ '' must be a scalar value''))"

definition normalizeUsageDimensions ::
    "(string \<Rightarrow> string \<Rightarrow> bool) \<Rightarrow> json \<Rightarrow> (string \<times> json) list option cp" where
  "normalizeUsageDimensions le v =
     (if v = JUndefined then Inr None
      else bindE (objectRecord v ''usage dimensions'') (\<lambda>r.
           bindE (mapE usageDimension (sortedEntries le r)) (\<lambda>ds. Inr (Some ds))))"

definition normalizeUsageTimestamp :: "DateApi \<Rightarrow> json \<Rightarrow> string \<Rightarrow> string option cp" where
  "normalizeUsageTimestamp D v fld =
     (case v of
        JUndefined \<Rightarrow> Inr None
      | JStr s \<Rightarrow> (case dateParse D (trim s) of
            None \<Rightarrow> throwC Validation (fld @ '' must be an ISO timestamp'')
          | Some ms \<Rightarrow> Inr (Some (dateToISO D ms)))
      | _ \<Rightarrow> throwC Validation (fld @ '' must be an ISO timestamp''))"

subsection \<open>Artifacts and stored resources\<close>

definition is_digest :: "string \<Rightarrow> bool" where
  "is_digest s \<longleftrightarrow> startsWith s ''sha256:'' \<and> length (drop 7 s) = 64 \<and> list_all is_hex (drop 7 s)"

definition normalizeDigest :: "json \<Rightarrow> string cp" where
  "normalizeDigest v = (case v of
       JStr s \<Rightarrow> if is_digest s then Inr (toLowerCase s)
                 else throwC Validation ''artifact digest must be a sha256:<64 hex chars> value''
     | _ \<Rightarrow> throwC Validation ''artifact digest must be a sha256:<64 hex chars> value'')"

definition is_location :: "string \<Rightarrow> bool" where
  "is_location s \<longleftrightarrow> list_ex (startsWith s)
     [''oci://'', ''s3://'', ''file://'', ''http://'', ''https://'']"

definition normalizeLocation :: "json \<Rightarrow> string cp" where
  "normalizeLocation v = (case v of
       JStr s \<Rightarrow> if length s < 1 then throwC Validation ''artifact location must be a non-empty string''
                 else if \<not> is_location s
                 then throwC Validation ''artifact location must use oci://, s3://, file://, http://, or https://''
                 else Inr s
     | _ \<Rightarrow> throwC Validation ''artifact location must be a non-empty string'')"

definition normalizeSizeBytes :: "json \<Rightarrow> int cp" where
  "normalizeSizeBytes v = positiveInteger v ''artifact sizeBytes''"

definition normalizeArtifactSignature :: "json \<Rightarrow> ArtifactSignature option cp" where
  "normalizeArtifactSignature v =
     (if v = JUndefined then Inr None
      else bindE (objectRecord v ''artifact signature'') (\<lambda>r.
           bindE (guardC (getp r ''algorithm'' \<noteq> JStr ''sha256-hmac'') Validation
                    ''artifact signature algorithm must be sha256-hmac'') (\<lambda>_.
           bindE (nonEmptyString (getp r ''keyId'') ''artifact signature.keyId'') (\<lambda>keyId.
           bindE (nonEmptyString (getp r ''value'') ''artifact signature.value'') (\<lambda>val.
             if length val = 64 \<and> list_all is_hex val
             then Inr (Some \<lparr>sig_keyId = keyId, sig_value = toLowerCase val\<rparr>)
             else throwC Validation ''artifact signature.value must be a sha256 hex digest'')))))"

definition provenanceField :: "(string \<times> json) list \<Rightarrow> string \<Rightarrow> string option cp" where
  "provenanceField r key = optionalId (getp r key) (''artifact provenance.'' @ key)"

definition normalizeArtifactProvenance :: "json \<Rightarrow> ArtifactProvenance option cp" where
  "normalizeArtifactProvenance v =
     (if v = JUndefined then Inr None
      else bindE (objectRecord v ''artifact provenance'') (\<lambda>r.
           bindE (provenanceField r ''builder'') (\<lambda>builder.
           bindE (provenanceField r ''source'') (\<lambda>source.
           bindE (provenanceField r ''revision'') (\<lambda>revision.
           bindE (provenanceField r ''buildId'') (\<lambda>buildId.
             if builder = None \<and> source = None \<and> revision = None \<and> buildId = None
             then Inr None
             else Inr (Some \<lparr>prov_builder = builder, prov_source = source,
                             prov_revision = revision, prov_buildId = buildId\<rparr>)))))))"

definition normalizeSecretName :: "json \<Rightarrow> string cp" where
  "normalizeSecretName v = printableName v ''secret name''
     ''secret name must be between 1 and 120 printable characters''"

definition normalizeSecretValue :: "json \<Rightarrow> string cp" where
  "normalizeSecretValue v = (case v of
       JStr s \<Rightarrow> if s = [] then throwC Validation ''secret value must be a non-empty string''
                 else if length s > 65536
                 then throwC Validation ''secret value must be at most 65536 characters''
                 else Inr s
     | _ \<Rightarrow> throwC Validation ''secret value must be a non-empty string'')"

definition normalizeKvNamespaceName :: "json \<Rightarrow> string cp" where
  "normalizeKvNamespaceName v = printableName v ''kv namespace name''
     ''kv namespace name must be between 1 and 120 printable characters''"

definition normalizeDurableObjectNamespaceName :: "json \<Rightarrow> string cp" where
  "normalizeDurableObjectNamespaceName v = printableName v ''durable object namespace name''
     ''durable object namespace name must be between 1 and 120 printable characters''"

subsection \<open>World, runtime, limits\<close>

definition normalizeWorld :: "json \<Rightarrow> string cp" where
  "normalizeWorld v = (if v \<noteq> JStr MVP_WORKER_WORLD
     then throwC Validation (''deployment world must be '' @ MVP_WORKER_WORLD)
     else Inr MVP_WORKER_WORLD)"

text \<open>\<open>/@([^@]+)$/\<close>: the non-empty text after the last \<open>@\<close>.\<close>

definition after_last_at :: "string \<Rightarrow> string option" where
  "after_last_at s = (let parts = split_on (CHR ''@'') s in
     if length parts > 1 \<and> last parts \<noteq> [] then Some (last parts) else None)"

definition workerWorldVersion :: "string \<Rightarrow> string cp" where
  "workerWorldVersion world =
     (if after_last_at world \<noteq> Some MVP_WORKER_WORLD_VERSION
      then throwC Validation (''deployment world version must be '' @ MVP_WORKER_WORLD_VERSION)
      else Inr MVP_WORKER_WORLD_VERSION)"

definition normalizeWorkerWorldVersion :: "json \<Rightarrow> string cp" where
  "normalizeWorkerWorldVersion v = (if v \<noteq> JStr MVP_WORKER_WORLD_VERSION
     then throwC Validation (''deployment worldVersion must be '' @ MVP_WORKER_WORLD_VERSION)
     else Inr MVP_WORKER_WORLD_VERSION)"

definition normalizeRuntime :: "json \<Rightarrow> RuntimeSpec cp" where
  "normalizeRuntime v = bindE (objectRecord v ''runtime'') (\<lambda>r.
     bindE (guardC (getp r ''backend'' \<noteq> JStr MVP_RUNTIME_BACKEND) Validation
              ''MVP runtime backend must be wasmtime'') (\<lambda>_.
     bindE (guardC (getp r ''wasi'' \<noteq> JStr MVP_WASI_PROFILE) Validation
              ''MVP WASI profile must be wasip3'') (\<lambda>_.
     bindE (nonEmptyString (getp r ''version'') ''runtime version'') (\<lambda>version.
     Inr \<lparr>rt_backend = MVP_RUNTIME_BACKEND, rt_version = version, rt_wasi = MVP_WASI_PROFILE\<rparr>))))"

definition normalizeLimits :: "json \<Rightarrow> RuntimeLimits cp" where
  "normalizeLimits v = bindE (objectRecord v ''limits'') (\<lambda>r.
     bindE (guardC (map_of r ''hostCalls'' \<noteq> None) Validation
              ''limits.hostCalls was removed with the custom worker WIT'') (\<lambda>_.
     bindE (positiveInteger (getp r ''cpuMs'') ''limits.cpuMs'') (\<lambda>cpuMs.
     bindE (positiveInteger (getp r ''memoryMb'') ''limits.memoryMb'') (\<lambda>memoryMb.
     bindE (positiveInteger (getp r ''wallMs'') ''limits.wallMs'') (\<lambda>wallMs.
     bindE (positiveInteger (getp r ''requestBytes'') ''limits.requestBytes'') (\<lambda>requestBytes.
     bindE (positiveInteger (getp r ''subrequests'') ''limits.subrequests'') (\<lambda>subrequests.
     bindE (positiveInteger (getp r ''responseBytes'') ''limits.responseBytes'') (\<lambda>responseBytes.
     Inr \<lparr>lim_cpuMs = cpuMs, lim_memoryMb = memoryMb, lim_wallMs = wallMs,
          lim_requestBytes = requestBytes, lim_subrequests = subrequests,
          lim_responseBytes = responseBytes\<rparr>))))))))"

subsection \<open>Capabilities\<close>

definition normalizeOutboundHttp :: "json \<Rightarrow> OutboundHttpCapability cp" where
  "normalizeOutboundHttp v =
     (if v = JUndefined then Inr \<lparr>out_enabled = False, out_allow = []\<rparr>
      else bindE (objectRecord v ''capabilities.outboundHttp'') (\<lambda>r.
           bindE (booleanValue (getp r ''enabled'') ''capabilities.outboundHttp.enabled'') (\<lambda>enabled.
           bindE (stringArray (if getp r ''allow'' = JUndefined \<or> getp r ''allow'' = JNull
                               then JArr [] else getp r ''allow'')
                    ''capabilities.outboundHttp.allow'') (\<lambda>allow.
             if \<not> enabled \<and> length allow > 0
             then throwC Validation ''outbound allowlist requires outboundHttp.enabled''
             else Inr \<lparr>out_enabled = enabled, out_allow = allow\<rparr>))))"

definition kvBindingItem :: "nat \<Rightarrow> json \<Rightarrow> KvBinding cp" where
  "kvBindingItem i item =
     bindE (objectRecord item (item_field ''capabilities.kv'' i [])) (\<lambda>r.
     bindE (bindingName (getp r ''binding'') (item_field ''capabilities.kv'' i ''.binding'')) (\<lambda>b.
     bindE (nonEmptyString (getp r ''namespaceId'')
              (item_field ''capabilities.kv'' i ''.namespaceId'')) (\<lambda>n.
     Inr \<lparr>kv_binding = b, kv_namespaceId = n\<rparr>)))"

definition normalizeKvBindings :: "json \<Rightarrow> KvBinding list cp" where
  "normalizeKvBindings v =
     (if v = JUndefined then Inr []
      else bindE (arrayValue v ''capabilities.kv must be an array'') (\<lambda>vs.
             mapE (\<lambda>(i, item). kvBindingItem i item) (indexed vs)))"

definition durableObjectBindingItem :: "nat \<Rightarrow> json \<Rightarrow> DurableObjectBinding cp" where
  "durableObjectBindingItem i item =
     bindE (objectRecord item (item_field ''capabilities.durableObjects'' i [])) (\<lambda>r.
     bindE (bindingName (getp r ''binding'')
              (item_field ''capabilities.durableObjects'' i ''.binding'')) (\<lambda>b.
     bindE (nonEmptyString (getp r ''namespaceId'')
              (item_field ''capabilities.durableObjects'' i ''.namespaceId'')) (\<lambda>n.
     Inr \<lparr>do_binding = b, do_namespaceId = n\<rparr>)))"

definition normalizeDurableObjectBindings :: "json \<Rightarrow> DurableObjectBinding list cp" where
  "normalizeDurableObjectBindings v =
     (if v = JUndefined then Inr []
      else bindE (arrayValue v ''capabilities.durableObjects must be an array'') (\<lambda>vs.
             mapE (\<lambda>(i, item). durableObjectBindingItem i item) (indexed vs)))"

definition secretBindingItem :: "nat \<Rightarrow> json \<Rightarrow> SecretBinding cp" where
  "secretBindingItem i item =
     bindE (objectRecord item (item_field ''capabilities.secrets'' i [])) (\<lambda>r.
     bindE (bindingName (getp r ''binding'')
              (item_field ''capabilities.secrets'' i ''.binding'')) (\<lambda>b.
     bindE (nonEmptyString (getp r ''secretId'')
              (item_field ''capabilities.secrets'' i ''.secretId'')) (\<lambda>n.
     Inr \<lparr>sec_binding = b, sec_secretId = n\<rparr>)))"

definition normalizeSecretBindings :: "json \<Rightarrow> SecretBinding list cp" where
  "normalizeSecretBindings v =
     (if v = JUndefined then Inr []
      else bindE (arrayValue v ''capabilities.secrets must be an array'') (\<lambda>vs.
             mapE (\<lambda>(i, item). secretBindingItem i item) (indexed vs)))"

definition serviceBindingItem :: "UrlApi \<Rightarrow> nat \<Rightarrow> json \<Rightarrow> ServiceBinding cp" where
  "serviceBindingItem U i item =
     bindE (objectRecord item (item_field ''capabilities.services'' i [])) (\<lambda>r.
     bindE (bindingName (getp r ''binding'')
              (item_field ''capabilities.services'' i ''.binding'')) (\<lambda>b.
     bindE (nonEmptyString (getp r ''targetProjectId'')
              (item_field ''capabilities.services'' i ''.targetProjectId'')) (\<lambda>p.
     bindE (serviceUrl U (getp r ''url'') (item_field ''capabilities.services'' i ''.url'')) (\<lambda>u.
     Inr \<lparr>svc_binding = b, svc_targetProjectId = p, svc_url = u\<rparr>))))"

definition normalizeServiceBindings :: "UrlApi \<Rightarrow> json \<Rightarrow> ServiceBinding list cp" where
  "normalizeServiceBindings U v =
     (if v = JUndefined then Inr []
      else bindE (arrayValue v ''capabilities.services must be an array'') (\<lambda>vs.
             mapE (\<lambda>(i, item). serviceBindingItem U i item) (indexed vs)))"

definition normalizeCapabilities :: "UrlApi \<Rightarrow> json \<Rightarrow> CapabilityPolicy cp" where
  "normalizeCapabilities U v = bindE (objectRecord v ''capabilities'') (\<lambda>r.
     bindE (rejectPrivilegedCapability r ''arbitraryFilesystem'') (\<lambda>_.
     bindE (rejectPrivilegedCapability r ''arbitrarySockets'') (\<lambda>_.
     bindE (rejectPrivilegedCapability r ''processSpawn'') (\<lambda>_.
     bindE (normalizeOutboundHttp (getp r ''outboundHttp'')) (\<lambda>outboundHttp.
     bindE (normalizeKvBindings (getp r ''kv'')) (\<lambda>kv.
     bindE (normalizeDurableObjectBindings (getp r ''durableObjects'')) (\<lambda>durableObjects.
     bindE (normalizeSecretBindings (getp r ''secrets'')) (\<lambda>secrets.
     bindE (normalizeServiceBindings U (getp r ''services'')) (\<lambda>services.
     Inr \<lparr>cap_outboundHttp = outboundHttp, cap_kv = kv, cap_durableObjects = durableObjects,
          cap_secrets = secrets, cap_services = services, cap_arbitraryFilesystem = False,
          cap_arbitrarySockets = False, cap_processSpawn = False\<rparr>)))))))))"

subsection \<open>Hosts, paths and route targets\<close>

definition is_host_char :: "char \<Rightarrow> bool" where
  "is_host_char c \<longleftrightarrow> is_lower c \<or> is_digit c \<or> c = CHR ''.'' \<or> c = CHR ''-''"

definition is_dns_host :: "string \<Rightarrow> bool" where
  "is_dns_host h \<longleftrightarrow> h \<noteq> [] \<and> list_all is_host_char h
     \<and> \<not> startsWith h ''.'' \<and> \<not> endsWith h ''.''"

definition normalizeHost :: "json \<Rightarrow> string cp" where
  "normalizeHost v = (case v of
       JStr s \<Rightarrow> (let host = toLowerCase (trim s) in
          if is_dns_host host then Inr host
          else throwC Validation ''route host must be a DNS host'')
     | _ \<Rightarrow> throwC Validation ''route host must be a string'')"

definition normalizePathPrefix :: "json \<Rightarrow> string cp" where
  "normalizePathPrefix v = (case v of
       JStr s \<Rightarrow> if \<not> startsWith (trim s) ''/''
                 then throwC Validation ''route pathPrefix must start with /''
                 else Inr (trim s)
     | _ \<Rightarrow> throwC Validation ''route pathPrefix must be a string'')"

text \<open>The callback of \<open>value.map\<close> with its \<open>Set\<close> of the ids seen so far.\<close>

fun routeTargetsLoop :: "string list \<Rightarrow> (nat \<times> json) list \<Rightarrow> RouteTarget list cp" where
  "routeTargetsLoop seen [] = Inr []"
| "routeTargetsLoop seen ((i, item) # items) =
     bindE (objectRecord item (item_field ''route targets'' i [])) (\<lambda>r.
     bindE (nonEmptyString (getp r ''deploymentId'')
              (item_field ''route targets'' i ''.deploymentId'')) (\<lambda>d.
     bindE (guardC (d \<in> set seen) Validation (''route target '' @ d @ '' is duplicated'')) (\<lambda>_.
     bindE (positiveInteger (getp r ''weight'') (item_field ''route targets'' i ''.weight'')) (\<lambda>w.
     bindE (routeTargetsLoop (d # seen) items) (\<lambda>ts.
     Inr (\<lparr>tgt_deploymentId = d, tgt_weight = w\<rparr> # ts))))))"

text \<open>\<open>fallback\<close> is the optional \<open>fallbackDeploymentId\<close>; an empty string is falsy.\<close>

definition normalizeRouteTargets :: "json \<Rightarrow> string option \<Rightarrow> RouteTarget list cp" where
  "normalizeRouteTargets v fallback =
     (if v = JUndefined
      then (case fallback of
          None \<Rightarrow> throwC Validation ''route deploymentId or targets are required''
        | Some d \<Rightarrow>
            if d = [] then throwC Validation ''route deploymentId or targets are required''
            else bindE (nonEmptyString (JStr d) ''route deploymentId'') (\<lambda>d'.
                   Inr [\<lparr>tgt_deploymentId = d', tgt_weight = 100\<rparr>]))
      else case v of
          JArr (x # xs) \<Rightarrow> routeTargetsLoop [] (indexed (x # xs))
        | _ \<Rightarrow> throwC Validation ''route targets must be a non-empty array'')"

subsection \<open>Edge workers and runtime nodes\<close>

definition normalizeEdgeWorkerProvider :: "json \<Rightarrow> string cp" where
  "normalizeEdgeWorkerProvider v =
     (if v = JUndefined \<or> v = JStr ''cloudflare-workers'' then Inr ''cloudflare-workers''
      else throwC Validation ''edge worker provider must be cloudflare-workers'')"

definition normalizeEdgeWorkerReleaseMode :: "json \<Rightarrow> string option cp" where
  "normalizeEdgeWorkerReleaseMode v =
     (if v = JUndefined then Inr None
      else if v = JStr ''mock'' then Inr (Some ''mock'')
      else if v = JStr ''api'' then Inr (Some ''api'')
      else throwC Validation ''edge worker release mode must be mock or api'')"

definition is_script_name :: "string \<Rightarrow> bool" where
  "is_script_name s \<longleftrightarrow> 1 \<le> length s \<and> length s \<le> 63
     \<and> list_all (\<lambda>c. is_lower c \<or> is_digit c \<or> c = CHR ''-'') s
     \<and> hd s \<noteq> CHR ''-'' \<and> last s \<noteq> CHR ''-''"

definition normalizeEdgeWorkerScriptName :: "json \<Rightarrow> string option cp" where
  "normalizeEdgeWorkerScriptName v =
     (if v = JUndefined then Inr None
      else bindE (nonEmptyString v ''edge worker scriptName'') (\<lambda>s.
        if is_script_name (toLowerCase s) then Inr (Some (toLowerCase s))
        else throwC Validation ''edge worker scriptName must be a DNS-safe name of 1-63 lowercase letters, digits, or hyphens''))"

definition strip_trailing_slashes :: "string \<Rightarrow> string" where
  "strip_trailing_slashes s = rev (dropWhile (\<lambda>c. c = CHR ''/'') (rev s))"

definition normalizeRuntimeNodeUrl :: "UrlApi \<Rightarrow> json \<Rightarrow> string cp" where
  "normalizeRuntimeNodeUrl U v = (case v of
       JStr s \<Rightarrow> (case urlParse U (trim s) of
           None \<Rightarrow> throwC Validation ''runtime node url must be an http(s) URL''
         | Some u \<Rightarrow>
             if \<not> is_http u then throwC Validation ''runtime node url must be an http(s) URL''
             else let u1 = urlSetPathname U u (strip_trailing_slashes (url_pathname u));
                      u2 = (if url_pathname u1 = [] then urlSetPathname U u1 ''/'' else u1);
                      u3 = u2\<lparr>url_search := [], url_hash := []\<rparr>
                  in Inr (strip_trailing_slashes (urlToString U u3)))
     | _ \<Rightarrow> throwC Validation ''runtime node url must be a string'')"

definition normalizeRuntimeNodeStatus :: "json \<Rightarrow> RuntimeNodeStatus cp" where
  "normalizeRuntimeNodeStatus v =
     (if v = JUndefined \<or> v = JStr ''active'' then Inr NodeActive
      else if v = JStr ''draining'' then Inr NodeDraining
      else if v = JStr ''offline'' then Inr NodeOffline
      else throwC Validation ''runtime node status must be active, draining, or offline'')"

definition normalizeRuntimeNodeCapacity :: "json \<Rightarrow> RuntimeNodeCapacity option cp" where
  "normalizeRuntimeNodeCapacity v =
     (if v = JUndefined then Inr None
      else bindE (objectRecord v ''runtime node capacity'') (\<lambda>r.
           bindE (positiveInteger (getp r ''concurrentRequests'')
                    ''runtime node capacity.concurrentRequests'') (\<lambda>c.
           bindE (positiveInteger (getp r ''memoryMb'') ''runtime node capacity.memoryMb'') (\<lambda>m.
           Inr (Some \<lparr>capy_concurrentRequests = c, capy_memoryMb = m\<rparr>)))))"

definition is_region :: "string \<Rightarrow> bool" where
  "is_region s \<longleftrightarrow> s \<noteq> [] \<and> (is_lower (hd s) \<or> is_digit (hd s))
     \<and> list_all (\<lambda>c. is_lower c \<or> is_digit c \<or> c \<in> set ''_.-'') (tl s)"

definition normalizeRuntimeNodeRegion :: "json \<Rightarrow> string option cp" where
  "normalizeRuntimeNodeRegion v =
     (if v = JUndefined then Inr None
      else bindE (nonEmptyString v ''runtime node region'') (\<lambda>s.
        if is_region (toLowerCase s) then Inr (Some (toLowerCase s))
        else throwC Validation ''runtime node region must be a region id''))"

definition nodeLabel :: "string \<times> json \<Rightarrow> (string \<times> string) cp" where
  "nodeLabel kv = (case kv of (key, v) \<Rightarrow>
     if \<not> is_token ''_.-'' key then throwC Validation ''runtime node label keys must be label ids''
     else case v of JStr s \<Rightarrow> Inr (key, s)
        | _ \<Rightarrow> throwC Validation (''runtime node label '' @ key @ '' must be a string''))"

definition normalizeRuntimeNodeLabels ::
    "(string \<Rightarrow> string \<Rightarrow> bool) \<Rightarrow> json \<Rightarrow> (string \<times> string) list option cp" where
  "normalizeRuntimeNodeLabels le v =
     (if v = JUndefined then Inr None
      else bindE (objectRecord v ''runtime node labels'') (\<lambda>r.
           bindE (mapE nodeLabel (sortedEntries le r)) (\<lambda>ls. Inr (Some ls))))"

definition normalizeRuntimeNodeLoad :: "json \<Rightarrow> int option cp" where
  "normalizeRuntimeNodeLoad v =
     (if v = JUndefined then Inr None
      else bindE (objectRecord v ''runtime node load'') (\<lambda>r.
           bindE (nonnegativeInteger (getp r ''activeRequests'')
                    ''runtime node load.activeRequests'') (\<lambda>n. Inr (Some n))))"

definition optionalSha256 :: "json \<Rightarrow> string \<Rightarrow> string option cp" where
  "optionalSha256 v fld =
     (if v = JUndefined then Inr None
      else bindE (nonEmptyString v fld) (\<lambda>s.
        if is_sha256_hex (toLowerCase s) then Inr (Some (toLowerCase s))
        else throwC Validation (fld @ '' must be a sha256 hex digest'')))"

definition normalizeRuntimeNodeIdentity :: "json \<Rightarrow> RuntimeNodeIdentity option cp" where
  "normalizeRuntimeNodeIdentity v =
     (if v = JUndefined then Inr None
      else bindE (objectRecord v ''runtime node identity'') (\<lambda>r.
           bindE (nonEmptyString (getp r ''keyId'') ''runtime node identity.keyId'') (\<lambda>keyId.
           bindE (guardC (\<not> is_token ''_.:-'' keyId) Validation
                    ''runtime node identity.keyId must be a key id'') (\<lambda>_.
           bindE (optionalSha256 (getp r ''certificateSha256'')
                    ''runtime node identity.certificateSha256'') (\<lambda>cert.
           Inr (Some \<lparr>ident_keyId = keyId, ident_certificateSha256 = cert\<rparr>))))))"

definition hostInfoToken :: "json \<Rightarrow> string \<Rightarrow> string cp" where
  "hostInfoToken v fld = bindE (nonEmptyString v fld) (\<lambda>t.
     if is_token ''_.:/@+-'' t then Inr t
     else throwC Validation (fld @ '' must be a runtime host token''))"

definition optionalHostInfoToken :: "json \<Rightarrow> string \<Rightarrow> string option cp" where
  "optionalHostInfoToken v fld =
     (if v = JUndefined then Inr None else bindE (hostInfoToken v fld) (\<lambda>t. Inr (Some t)))"

definition optionalEngineVariant :: "json \<Rightarrow> string \<Rightarrow> string option cp" where
  "optionalEngineVariant v fld =
     (if v = JUndefined then Inr None
      else bindE (nonEmptyString v fld) (\<lambda>t.
        if is_token ''_.-'' t then Inr (Some t)
        else throwC Validation (fld @ '' must be an engine variant id'')))"

definition normalizeRuntimeNodeHostInfo :: "json \<Rightarrow> RuntimeNodeHostInfo option cp" where
  "normalizeRuntimeNodeHostInfo v =
     (if v = JUndefined then Inr None
      else bindE (objectRecord v ''runtime node host'') (\<lambda>r.
           bindE (hostInfoToken (getp r ''backend'') ''runtime node host.backend'') (\<lambda>backend.
           bindE (hostInfoToken (getp r ''wasi'') ''runtime node host.wasi'') (\<lambda>wasi.
           bindE (optionalHostInfoToken (getp r ''runtimeVersion'')
                    ''runtime node host.runtimeVersion'') (\<lambda>rv.
           bindE (optionalHostInfoToken (getp r ''hostVersion'')
                    ''runtime node host.hostVersion'') (\<lambda>hv.
           bindE (optionalEngineVariant (getp r ''engineVariant'')
                    ''runtime node host.engineVariant'') (\<lambda>ev.
           Inr (Some \<lparr>host_backend = backend, host_wasi = wasi, host_runtimeVersion = rv,
                     host_hostVersion = hv, host_engineVariant = ev\<rparr>))))))))"

end
