(* ===== verification/SnapshotAssert.thy ===== *)
theory SnapshotAssert
  imports Normalizers
begin

text \<open>
  The check a runtime node makes on every route snapshot it receives
  (\<open>assertRouteSnapshot\<close> and its helpers in \<open>runtime/node-app.ts\<close>), and the JSON text
  a snapshot travels as (\<open>encode...\<close>, what \<open>JSON.stringify\<close> followed by
  \<open>JSON.parse\<close> gives: absent optional properties are left out).
\<close>

subsection \<open>Helpers\<close>

definition objectRecord_rt :: "json \<Rightarrow> string \<Rightarrow> (string \<times> json) list rt" where
  "objectRecord_rt v fld = (case v of JObj r \<Rightarrow> Inr r
     | _ \<Rightarrow> throwR RValidation (fld @ '' must be an object''))"

definition stringValue_rt :: "json \<Rightarrow> string \<Rightarrow> string rt" where
  "stringValue_rt v fld = (case v of JStr s \<Rightarrow> Inr s
     | _ \<Rightarrow> throwR RValidation (fld @ '' must be a string''))"

definition nonEmptyString_rt :: "json \<Rightarrow> string \<Rightarrow> string rt" where
  "nonEmptyString_rt v fld = bindE (stringValue_rt v fld) (\<lambda>s.
     if length (trim s) = 0 then throwR RValidation (fld @ '' must be a non-empty string'')
     else Inr (trim s))"

definition arrayValue_rt :: "json \<Rightarrow> string \<Rightarrow> json list rt" where
  "arrayValue_rt v fld = (case v of JArr vs \<Rightarrow> Inr vs
     | _ \<Rightarrow> throwR RValidation (fld @ '' must be an array''))"

definition stringArray_rt :: "json \<Rightarrow> string \<Rightarrow> string list rt" where
  "stringArray_rt v fld = bindE (arrayValue_rt v fld)
     (\<lambda>vs. mapE (\<lambda>(i, x). nonEmptyString_rt x (item_field fld i [])) (indexed vs))"

definition positiveInteger_rt :: "json \<Rightarrow> string \<Rightarrow> int rt" where
  "positiveInteger_rt v fld = (case isInteger v of
       Some n \<Rightarrow> if n \<le> 0 then throwR RValidation (fld @ '' must be a positive integer'') else Inr n
     | None \<Rightarrow> throwR RValidation (fld @ '' must be a positive integer''))"

definition falseValue_rt :: "json \<Rightarrow> string \<Rightarrow> unit rt" where
  "falseValue_rt v fld = guardR (v \<noteq> JBool False) RValidation (fld @ '' must be false'')"

definition bindingName_rt :: "json \<Rightarrow> string \<Rightarrow> string rt" where
  "bindingName_rt v fld = bindE (nonEmptyString_rt v fld) (\<lambda>name.
     if is_binding_name name then Inr name
     else throwR RValidation (fld @ '' must be an uppercase binding name''))"

definition httpUrl_rt :: "UrlApi \<Rightarrow> json \<Rightarrow> string \<Rightarrow> string rt" where
  "httpUrl_rt U v fld = bindE (nonEmptyString_rt v fld) (\<lambda>text.
     case urlParse U text of
       None \<Rightarrow> throwR RValidation (fld @ '' must be an absolute http(s) URL'')
     | Some u \<Rightarrow>
         if \<not> is_http u then throwR RValidation (fld @ '' must be an absolute http(s) URL'')
         else if url_hash u \<noteq> [] then throwR RValidation (fld @ '' must not include a fragment'')
         else if url_search u \<noteq> [] then throwR RValidation (fld @ '' must not include a query'')
         else Inr (urlToString U u))"

definition dnsHost_rt :: "json \<Rightarrow> string \<Rightarrow> string rt" where
  "dnsHost_rt v fld = bindE (nonEmptyString_rt v fld) (\<lambda>s.
     if is_dns_host (toLowerCase s) then Inr (toLowerCase s)
     else throwR RValidation (fld @ '' must be a DNS host''))"

definition pathPrefix_rt :: "json \<Rightarrow> string \<Rightarrow> string rt" where
  "pathPrefix_rt v fld = bindE (nonEmptyString_rt v fld) (\<lambda>p.
     if \<not> startsWith p ''/'' then throwR RValidation (fld @ '' must start with /'') else Inr p)"

definition digestValue_rt :: "json \<Rightarrow> string \<Rightarrow> string rt" where
  "digestValue_rt v fld = bindE (nonEmptyString_rt v fld) (\<lambda>d.
     if is_digest d then Inr (toLowerCase d)
     else throwR RValidation (fld @ '' must be a sha256:<64 hex chars> value''))"

definition locationValue_rt :: "json \<Rightarrow> string \<Rightarrow> string rt" where
  "locationValue_rt v fld = bindE (nonEmptyString_rt v fld) (\<lambda>l.
     if is_location l then Inr l
     else throwR RValidation (fld @ '' must use oci://, s3://, file://, http://, or https://''))"

subsection \<open>The assertions\<close>

definition assertWorld :: "json \<Rightarrow> string \<Rightarrow> unit rt" where
  "assertWorld v fld = guardR (v \<noteq> JStr MVP_WORKER_WORLD) RValidation
     (fld @ '' must be '' @ MVP_WORKER_WORLD)"

definition assertWorldVersion :: "json \<Rightarrow> string \<Rightarrow> unit rt" where
  "assertWorldVersion v fld = guardR (v \<noteq> JStr MVP_WORKER_WORLD_VERSION) RValidation
     (fld @ '' must be '' @ MVP_WORKER_WORLD_VERSION)"

definition assertRuntime :: "json \<Rightarrow> string \<Rightarrow> unit rt" where
  "assertRuntime v fld = bindE (objectRecord_rt v fld) (\<lambda>r.
     bindE (guardR (getp r ''backend'' \<noteq> JStr MVP_RUNTIME_BACKEND) RValidation
              (fld @ ''.backend must be '' @ MVP_RUNTIME_BACKEND)) (\<lambda>_.
     bindE (guardR (getp r ''wasi'' \<noteq> JStr MVP_WASI_PROFILE) RValidation
              (fld @ ''.wasi must be '' @ MVP_WASI_PROFILE)) (\<lambda>_.
     bindE (nonEmptyString_rt (getp r ''version'') (fld @ ''.version'')) (\<lambda>_. Inr ()))))"

definition assertLimits :: "json \<Rightarrow> string \<Rightarrow> unit rt" where
  "assertLimits v fld = bindE (objectRecord_rt v fld) (\<lambda>r.
     bindE (guardR (map_of r ''hostCalls'' \<noteq> None) RValidation
              (fld @ ''.hostCalls was removed with the custom worker WIT'')) (\<lambda>_.
     bindE (positiveInteger_rt (getp r ''cpuMs'') (fld @ ''.cpuMs'')) (\<lambda>_.
     bindE (positiveInteger_rt (getp r ''memoryMb'') (fld @ ''.memoryMb'')) (\<lambda>_.
     bindE (positiveInteger_rt (getp r ''wallMs'') (fld @ ''.wallMs'')) (\<lambda>_.
     bindE (positiveInteger_rt (getp r ''requestBytes'') (fld @ ''.requestBytes'')) (\<lambda>_.
     bindE (positiveInteger_rt (getp r ''subrequests'') (fld @ ''.subrequests'')) (\<lambda>_.
     bindE (positiveInteger_rt (getp r ''responseBytes'') (fld @ ''.responseBytes'')) (\<lambda>_.
     Inr ()))))))))"

definition assertOutboundHttp :: "json \<Rightarrow> string \<Rightarrow> unit rt" where
  "assertOutboundHttp v fld = bindE (objectRecord_rt v fld) (\<lambda>r.
     case getp r ''enabled'' of
       JBool enabled \<Rightarrow> bindE (stringArray_rt (getp r ''allow'') (fld @ ''.allow'')) (\<lambda>allow.
         guardR (\<not> enabled \<and> length allow > 0) RValidation
           (fld @ ''.allow requires '' @ fld @ ''.enabled''))
     | _ \<Rightarrow> throwR RValidation (fld @ ''.enabled must be a boolean''))"

definition assertBinding :: "string \<Rightarrow> string \<Rightarrow> nat \<times> json \<Rightarrow> unit rt" where
  "assertBinding idKey fld ix = (case ix of (i, item) \<Rightarrow>
     bindE (objectRecord_rt item (item_field fld i [])) (\<lambda>r.
     bindE (bindingName_rt (getp r ''binding'') (item_field fld i ''.binding'')) (\<lambda>_.
     bindE (nonEmptyString_rt (getp r idKey) (item_field fld i (''.'' @ idKey))) (\<lambda>_. Inr ()))))"

definition assertKvBindings :: "json \<Rightarrow> string \<Rightarrow> unit rt" where
  "assertKvBindings v fld = bindE (arrayValue_rt v fld) (\<lambda>vs.
     forE (assertBinding ''namespaceId'' fld) (indexed vs))"

definition assertDurableObjectBindings :: "json \<Rightarrow> string \<Rightarrow> unit rt" where
  "assertDurableObjectBindings v fld =
     (if v = JUndefined then Inr ()
      else bindE (arrayValue_rt v fld) (\<lambda>vs.
        forE (assertBinding ''namespaceId'' fld) (indexed vs)))"

definition assertSecretBindings :: "json \<Rightarrow> string \<Rightarrow> unit rt" where
  "assertSecretBindings v fld = bindE (arrayValue_rt v fld) (\<lambda>vs.
     forE (assertBinding ''secretId'' fld) (indexed vs))"

definition assertServiceBinding :: "UrlApi \<Rightarrow> string \<Rightarrow> nat \<times> json \<Rightarrow> unit rt" where
  "assertServiceBinding U fld ix = (case ix of (i, item) \<Rightarrow>
     bindE (objectRecord_rt item (item_field fld i [])) (\<lambda>r.
     bindE (bindingName_rt (getp r ''binding'') (item_field fld i ''.binding'')) (\<lambda>_.
     bindE (nonEmptyString_rt (getp r ''targetProjectId'')
              (item_field fld i ''.targetProjectId'')) (\<lambda>_.
     bindE (httpUrl_rt U (getp r ''url'') (item_field fld i ''.url'')) (\<lambda>_. Inr ())))))"

definition assertServiceBindings :: "UrlApi \<Rightarrow> json \<Rightarrow> string \<Rightarrow> unit rt" where
  "assertServiceBindings U v fld =
     (if v = JUndefined then Inr ()
      else bindE (arrayValue_rt v fld) (\<lambda>vs. forE (assertServiceBinding U fld) (indexed vs)))"

definition assertCapabilities :: "UrlApi \<Rightarrow> json \<Rightarrow> string \<Rightarrow> unit rt" where
  "assertCapabilities U v fld = bindE (objectRecord_rt v fld) (\<lambda>r.
     bindE (assertOutboundHttp (getp r ''outboundHttp'') (fld @ ''.outboundHttp'')) (\<lambda>_.
     bindE (assertKvBindings (getp r ''kv'') (fld @ ''.kv'')) (\<lambda>_.
     bindE (assertDurableObjectBindings (getp r ''durableObjects'')
              (fld @ ''.durableObjects'')) (\<lambda>_.
     bindE (assertSecretBindings (getp r ''secrets'') (fld @ ''.secrets'')) (\<lambda>_.
     bindE (assertServiceBindings U (getp r ''services'') (fld @ ''.services'')) (\<lambda>_.
     bindE (falseValue_rt (getp r ''arbitraryFilesystem'') (fld @ ''.arbitraryFilesystem'')) (\<lambda>_.
     bindE (falseValue_rt (getp r ''arbitrarySockets'') (fld @ ''.arbitrarySockets'')) (\<lambda>_.
     falseValue_rt (getp r ''processSpawn'') (fld @ ''.processSpawn'')))))))))"

definition assertArtifact :: "json \<Rightarrow> string \<Rightarrow> unit rt" where
  "assertArtifact v fld = bindE (objectRecord_rt v fld) (\<lambda>r.
     bindE (nonEmptyString_rt (getp r ''id'') (fld @ ''.id'')) (\<lambda>_.
     bindE (digestValue_rt (getp r ''digest'') (fld @ ''.digest'')) (\<lambda>_.
     bindE (locationValue_rt (getp r ''location'') (fld @ ''.location'')) (\<lambda>_. Inr ()))))"

definition assertRouteSnapshotTarget :: "UrlApi \<Rightarrow> json \<Rightarrow> string \<Rightarrow> unit rt" where
  "assertRouteSnapshotTarget U v fld = bindE (objectRecord_rt v fld) (\<lambda>r.
     bindE (nonEmptyString_rt (getp r ''deploymentId'') (fld @ ''.deploymentId'')) (\<lambda>_.
     bindE (positiveInteger_rt (getp r ''weight'') (fld @ ''.weight'')) (\<lambda>_.
     bindE (assertWorld (getp r ''world'') (fld @ ''.world'')) (\<lambda>_.
     bindE (assertWorldVersion (getp r ''worldVersion'') (fld @ ''.worldVersion'')) (\<lambda>_.
     bindE (assertRuntime (getp r ''runtime'') (fld @ ''.runtime'')) (\<lambda>_.
     bindE (assertLimits (getp r ''limits'') (fld @ ''.limits'')) (\<lambda>_.
     bindE (assertCapabilities U (getp r ''capabilities'') (fld @ ''.capabilities'')) (\<lambda>_.
     assertArtifact (getp r ''artifact'') (fld @ ''.artifact'')))))))))"

definition assertRouteSnapshotEntry :: "UrlApi \<Rightarrow> json \<Rightarrow> string \<Rightarrow> unit rt" where
  "assertRouteSnapshotEntry U v fld = bindE (objectRecord_rt v fld) (\<lambda>r.
     bindE (dnsHost_rt (getp r ''host'') (fld @ ''.host'')) (\<lambda>_.
     bindE (pathPrefix_rt (getp r ''pathPrefix'') (fld @ ''.pathPrefix'')) (\<lambda>_.
     bindE (nonEmptyString_rt (getp r ''projectId'') (fld @ ''.projectId'')) (\<lambda>_.
     bindE (nonEmptyString_rt (getp r ''deploymentId'') (fld @ ''.deploymentId'')) (\<lambda>deploymentId.
     bindE (assertWorld (getp r ''world'') (fld @ ''.world'')) (\<lambda>_.
     bindE (assertWorldVersion (getp r ''worldVersion'') (fld @ ''.worldVersion'')) (\<lambda>_.
     bindE (assertRuntime (getp r ''runtime'') (fld @ ''.runtime'')) (\<lambda>_.
     bindE (assertLimits (getp r ''limits'') (fld @ ''.limits'')) (\<lambda>_.
     bindE (assertCapabilities U (getp r ''capabilities'') (fld @ ''.capabilities'')) (\<lambda>_.
     bindE (assertArtifact (getp r ''artifact'') (fld @ ''.artifact'')) (\<lambda>_.
     case getp r ''targets'' of
       JArr (t # ts) \<Rightarrow>
         bindE (forE (\<lambda>(i, x). assertRouteSnapshotTarget U x (item_field (fld @ ''.targets'') i []))
                  (indexed (t # ts))) (\<lambda>_.
         bindE (objectRecord_rt t (item_field (fld @ ''.targets'') 0 [])) (\<lambda>primary.
         guardR (getp primary ''deploymentId'' \<noteq> JStr deploymentId) RValidation
           (fld @ ''.deploymentId must match '' @ fld @ ''.targets[0].deploymentId'')))
     | _ \<Rightarrow> throwR RValidation (fld @ ''.targets must be a non-empty array''))))))))))))"

definition assertRouteSnapshot :: "UrlApi \<Rightarrow> json \<Rightarrow> unit rt" where
  "assertRouteSnapshot U v = bindE (objectRecord_rt v ''route snapshot'') (\<lambda>r.
     case getp r ''routes'' of
       JArr routes \<Rightarrow>
         bindE (guardR (getp r ''schemaVersion'' \<noteq> JInt 1) RValidation
                  ''route snapshot must have schemaVersion 1 and routes'') (\<lambda>_.
         bindE (if getp r ''id'' = JUndefined then Inr []
                else stringValue_rt (getp r ''id'') ''route snapshot.id'') (\<lambda>_.
         bindE (stringValue_rt (getp r ''generatedAt'') ''route snapshot.generatedAt'') (\<lambda>_.
         forE (\<lambda>(i, x). assertRouteSnapshotEntry U x (item_field ''routes'' i [])) (indexed routes))))
     | _ \<Rightarrow> throwR RValidation ''route snapshot must have schemaVersion 1 and routes'')"

end
