(* ===== verification/Validity.thy ===== *)
theory Validity
  imports SnapshotAssert
begin

text \<open>
  What the normalisers promise of the values they return (\<open>valid_...\<close>), and that a runtime
  node's assertions accept the JSON of every such value. These predicates are the contract
  between the control plane and the runtime.
\<close>

subsection \<open>The promises\<close>

definition clean :: "string \<Rightarrow> bool" where
  "clean s \<longleftrightarrow> s \<noteq> [] \<and> trimmed s"

definition valid_runtime :: "RuntimeSpec \<Rightarrow> bool" where
  "valid_runtime r \<longleftrightarrow> rt_backend r = MVP_RUNTIME_BACKEND \<and> rt_wasi r = MVP_WASI_PROFILE
     \<and> clean (rt_version r)"

definition valid_limits :: "RuntimeLimits \<Rightarrow> bool" where
  "valid_limits l \<longleftrightarrow> 0 < lim_cpuMs l \<and> 0 < lim_memoryMb l \<and> 0 < lim_wallMs l
     \<and> 0 < lim_requestBytes l \<and> 0 < lim_subrequests l \<and> 0 < lim_responseBytes l"

definition valid_outbound :: "OutboundHttpCapability \<Rightarrow> bool" where
  "valid_outbound b \<longleftrightarrow> (out_enabled b \<or> out_allow b = []) \<and> list_all clean (out_allow b)"

definition valid_binding_name :: "string \<Rightarrow> bool" where
  "valid_binding_name b \<longleftrightarrow> clean b \<and> is_binding_name b"

text \<open>What is known of a stored service URL: it parses to an http(s) URL with no query or fragment.\<close>

definition valid_service_url :: "UrlApi \<Rightarrow> string \<Rightarrow> bool" where
  "valid_service_url U s \<longleftrightarrow> clean s \<and> (\<exists>u. urlParse U s = Some u \<and> is_http u
     \<and> url_hash u = [] \<and> url_search u = [])"

definition valid_capabilities :: "UrlApi \<Rightarrow> CapabilityPolicy \<Rightarrow> bool" where
  "valid_capabilities U c \<longleftrightarrow> valid_outbound (cap_outboundHttp c)
     \<and> list_all (\<lambda>b. valid_binding_name (kv_binding b) \<and> clean (kv_namespaceId b)) (cap_kv c)
     \<and> list_all (\<lambda>b. valid_binding_name (do_binding b) \<and> clean (do_namespaceId b))
         (cap_durableObjects c)
     \<and> list_all (\<lambda>b. valid_binding_name (sec_binding b) \<and> clean (sec_secretId b)) (cap_secrets c)
     \<and> list_all (\<lambda>b. valid_binding_name (svc_binding b) \<and> clean (svc_targetProjectId b)
         \<and> valid_service_url U (svc_url b)) (cap_services c)
     \<and> \<not> cap_arbitraryFilesystem c \<and> \<not> cap_arbitrarySockets c \<and> \<not> cap_processSpawn c"

definition valid_digest :: "string \<Rightarrow> bool" where
  "valid_digest d \<longleftrightarrow> is_digest d \<and> toLowerCase d = d \<and> clean d"

definition valid_host :: "string \<Rightarrow> bool" where
  "valid_host h \<longleftrightarrow> is_dns_host h \<and> toLowerCase h = h \<and> clean h"

definition valid_path :: "string \<Rightarrow> bool" where
  "valid_path p \<longleftrightarrow> startsWith p ''/'' \<and> clean p"

text \<open>
  The documented behaviour of the URL class the contract relies on: serialising a parsed URL
  and parsing the text again gives the same URL, and the text has no surrounding whitespace.
\<close>

definition url_roundtrip :: "UrlApi \<Rightarrow> bool" where
  "url_roundtrip U \<longleftrightarrow> (\<forall>s u. urlParse U s = Some u \<longrightarrow>
     urlParse U (urlToString U u) = Some u \<and> clean (urlToString U u))"

named_theorems valid_defs "the promises of the normalisers"

lemmas [valid_defs] = valid_runtime_def valid_limits_def valid_outbound_def valid_binding_name_def

lemma clean_trim: "clean (trim s) \<longleftrightarrow> trim s \<noteq> []"
  by (simp add: clean_def)

lemma clean_trim_id: "clean s \<Longrightarrow> trim s = s"
  by (simp add: clean_def trim_trimmed_id)

lemma nonEmptyString_clean: "nonEmptyString v fld = Inr s \<Longrightarrow> clean s"
  by (auto simp: nonEmptyString_Inr clean_def)

subsection \<open>The normalisers keep their promises\<close>

lemma normalizeRuntime_valid: "normalizeRuntime v = Inr r \<Longrightarrow> valid_runtime r"
  by (auto simp: normalizeRuntime_def bindE_Inr valid_runtime_def dest: nonEmptyString_clean)

lemma normalizeLimits_valid: "normalizeLimits v = Inr l \<Longrightarrow> valid_limits l"
  by (auto simp: normalizeLimits_def bindE_Inr positiveInteger_Inr valid_limits_def)

lemma stringArray_clean: "stringArray v fld = Inr ss \<Longrightarrow> list_all clean ss"
  unfolding stringArray_def bindE_Inr list_all_iff
  by (auto dest!: mapE_mem intro: nonEmptyString_clean)

lemma normalizeOutboundHttp_valid: "normalizeOutboundHttp v = Inr b \<Longrightarrow> valid_outbound b"
  by (auto simp: normalizeOutboundHttp_def bindE_Inr valid_outbound_def
      dest: stringArray_clean split: if_splits)

lemma bindingName_valid: "bindingName v fld = Inr s \<Longrightarrow> valid_binding_name s"
  by (auto simp: bindingName_Inr valid_binding_name_def dest: nonEmptyString_clean)

lemma serviceUrl_valid: "url_roundtrip U \<Longrightarrow> serviceUrl U v fld = Inr s \<Longrightarrow> valid_service_url U s"
  by (fastforce simp: serviceUrl_def bindE_Inr valid_service_url_def url_roundtrip_def
      split: option.splits if_splits)

lemma normalizeKvBindings_valid:
  "normalizeKvBindings v = Inr bs \<Longrightarrow>
   list_all (\<lambda>b. valid_binding_name (kv_binding b) \<and> clean (kv_namespaceId b)) bs"
  by (fastforce simp: normalizeKvBindings_def kvBindingItem_def bindE_Inr list_all_iff
      dest: mapE_mem bindingName_valid nonEmptyString_clean split: if_splits)

lemma normalizeDurableObjectBindings_valid:
  "normalizeDurableObjectBindings v = Inr bs \<Longrightarrow>
   list_all (\<lambda>b. valid_binding_name (do_binding b) \<and> clean (do_namespaceId b)) bs"
  by (fastforce simp: normalizeDurableObjectBindings_def durableObjectBindingItem_def bindE_Inr
      list_all_iff dest: mapE_mem bindingName_valid nonEmptyString_clean split: if_splits)

lemma normalizeSecretBindings_valid:
  "normalizeSecretBindings v = Inr bs \<Longrightarrow>
   list_all (\<lambda>b. valid_binding_name (sec_binding b) \<and> clean (sec_secretId b)) bs"
  by (fastforce simp: normalizeSecretBindings_def secretBindingItem_def bindE_Inr list_all_iff
      dest: mapE_mem bindingName_valid nonEmptyString_clean split: if_splits)

lemma normalizeServiceBindings_valid:
  "url_roundtrip U \<Longrightarrow> normalizeServiceBindings U v = Inr bs \<Longrightarrow>
   list_all (\<lambda>b. valid_binding_name (svc_binding b) \<and> clean (svc_targetProjectId b)
     \<and> valid_service_url U (svc_url b)) bs"
  by (fastforce simp: normalizeServiceBindings_def serviceBindingItem_def bindE_Inr list_all_iff
      dest: mapE_mem bindingName_valid nonEmptyString_clean serviceUrl_valid split: if_splits)

lemma normalizeCapabilities_valid:
  assumes "url_roundtrip U" and "normalizeCapabilities U v = Inr c"
  shows "valid_capabilities U c"
  using assms
  by (auto simp: normalizeCapabilities_def bindE_Inr valid_capabilities_def
      dest: normalizeOutboundHttp_valid normalizeKvBindings_valid normalizeSecretBindings_valid
        normalizeDurableObjectBindings_valid normalizeServiceBindings_valid)

subsection \<open>Character classes and the case mapping\<close>

lemma of_char_lower_char:
  "(of_char (lower_char c) :: nat) =
     (let n = of_char c in if (65 \<le> n \<and> n \<le> 90) \<or> (192 \<le> n \<and> n \<le> 222 \<and> n \<noteq> 215)
                           then n + 32 else n)"
proof -
  have "(of_char c :: nat) + 32 < 256" if "(of_char c :: nat) \<le> 222" using that by simp
  then show ?thesis by (auto simp: lower_char_def Let_def of_char_of)
qed

lemma char_codes [simp]:
  "(of_char (CHR ''0'') :: nat) = 48" "(of_char (CHR ''9'') :: nat) = 57"
  "(of_char (CHR ''A'') :: nat) = 65" "(of_char (CHR ''F'') :: nat) = 70"
  "(of_char (CHR ''Z'') :: nat) = 90" "(of_char (CHR ''a'') :: nat) = 97"
  "(of_char (CHR ''f'') :: nat) = 102" "(of_char (CHR ''z'') :: nat) = 122"
  "(of_char (CHR ''.'') :: nat) = 46" "(of_char (CHR ''-'') :: nat) = 45"
  by (simp_all add: of_char_def horner_sum_simps)

lemmas char_class_defs = char_between_def is_digit_def is_lower_def is_upper_def is_hex_lower_def
  is_hex_def is_host_char_def

lemma is_hex_lower_char [simp]: "is_hex c \<Longrightarrow> is_hex (lower_char c)"
  by (auto simp: char_class_defs of_char_lower_char Let_def)

lemma is_hex_not_ws: "is_hex c \<Longrightarrow> \<not> js_ws c"
  by (auto simp: char_class_defs js_ws_def Let_def)

lemma is_host_char_not_ws: "is_host_char c \<Longrightarrow> \<not> js_ws c"
  by (auto simp: char_class_defs js_ws_def Let_def)

lemma clean_if_no_ws: "s \<noteq> [] \<Longrightarrow> list_all (\<lambda>c. \<not> js_ws c) s \<Longrightarrow> clean s"
  by (auto simp: clean_def trimmed_def list_all_iff)

subsection \<open>Digests, hosts and paths\<close>

lemma sha256_prefix_drop: "startsWith s ''sha256:'' \<longleftrightarrow> (\<exists>t. s = ''sha256:'' @ t)"
  by (auto simp: startsWith_def prefix_def)

lemma toLowerCase_append: "toLowerCase (a @ b) = toLowerCase a @ toLowerCase b"
  by (simp add: toLowerCase_def)

lemma toLowerCase_sha256: "toLowerCase ''sha256:'' = ''sha256:''"
  by (simp add: toLowerCase_def lower_char_def of_char_def horner_sum_simps)

lemma no_ws_sha256: "list_all (\<lambda>c. \<not> js_ws c) ''sha256:''"
  by (simp add: js_ws_def of_char_def horner_sum_simps)

lemma normalizeDigest_valid:
  assumes "normalizeDigest v = Inr d"
  shows "valid_digest d"
proof -
  obtain s where s: "is_digest s" "d = toLowerCase s"
    using assms by (auto simp: normalizeDigest_def split: json.splits if_splits)
  then obtain t where t: "s = ''sha256:'' @ t" "length t = 64" "list_all is_hex t"
    by (auto simp: is_digest_def sha256_prefix_drop)
  define h where "h = toLowerCase t"
  have d: "d = ''sha256:'' @ h"
    by (simp only: s(2) t(1) toLowerCase_append toLowerCase_sha256 h_def)
  have h: "length h = 64" "list_all is_hex h"
    using t(2,3) by (auto simp: h_def toLowerCase_def list_all_iff)
  have "is_digest d"
    using h unfolding is_digest_def sha256_prefix_drop d by auto
  moreover have "clean d"
    unfolding d using no_ws_sha256 h(2)
    by (intro clean_if_no_ws) (auto simp: list_all_iff is_hex_not_ws)
  moreover have "toLowerCase d = d" by (simp add: s(2))
  ultimately show ?thesis by (simp add: valid_digest_def)
qed

lemma dns_host_clean: "is_dns_host h \<Longrightarrow> clean h"
  by (auto simp: is_dns_host_def list_all_iff is_host_char_not_ws intro!: clean_if_no_ws)

lemma normalizeHost_valid: "normalizeHost v = Inr h \<Longrightarrow> valid_host h"
  by (auto simp: normalizeHost_def Let_def valid_host_def dns_host_clean split: json.splits if_splits)

lemma normalizePathPrefix_valid: "normalizePathPrefix v = Inr p \<Longrightarrow> valid_path p"
  by (auto simp: normalizePathPrefix_def valid_path_def clean_def startsWith_def
      split: json.splits if_splits)

lemma normalizeLocation_accepts: "normalizeLocation v = Inr l \<longleftrightarrow> v = JStr l \<and> is_location l"
  by (auto simp: normalizeLocation_def is_location_def startsWith_def split: json.splits if_splits)

text \<open>A normalised value is a fixed point of its normaliser.\<close>

lemma normalizeHost_idem: "valid_host h \<Longrightarrow> normalizeHost (JStr h) = Inr h"
  by (simp add: normalizeHost_def valid_host_def clean_trim_id)

lemma normalizePathPrefix_idem: "valid_path p \<Longrightarrow> normalizePathPrefix (JStr p) = Inr p"
  by (simp add: normalizePathPrefix_def valid_path_def clean_trim_id)

lemma normalizeDigest_idem: "valid_digest d \<Longrightarrow> normalizeDigest (JStr d) = Inr d"
  by (simp add: normalizeDigest_def valid_digest_def)

subsection \<open>Route targets\<close>

definition valid_targets :: "RouteTarget list \<Rightarrow> bool" where
  "valid_targets ts \<longleftrightarrow> ts \<noteq> [] \<and> distinct (map tgt_deploymentId ts)
     \<and> list_all (\<lambda>t. clean (tgt_deploymentId t) \<and> 0 < tgt_weight t) ts"

lemma routeTargetsLoop_spec:
  "routeTargetsLoop seen items = Inr ts \<Longrightarrow>
     length ts = length items \<and> distinct (map tgt_deploymentId ts)
     \<and> set (map tgt_deploymentId ts) \<inter> set seen = {}
     \<and> list_all (\<lambda>t. clean (tgt_deploymentId t) \<and> 0 < tgt_weight t) ts"
proof (induction seen items arbitrary: ts rule: routeTargetsLoop.induct)
  case (2 seen i item items)
  from "2.prems" obtain r d w us where
    s: "nonEmptyString (getp r ''deploymentId'') (item_field ''route targets'' i ''.deploymentId'') = Inr d"
      "d \<notin> set seen" "0 < w" "routeTargetsLoop (d # seen) items = Inr us"
      "ts = \<lparr>tgt_deploymentId = d, tgt_weight = w\<rparr> # us"
    by (auto simp: bindE_Inr positiveInteger_Inr)
  have "length us = length items \<and> distinct (map tgt_deploymentId us)
     \<and> set (map tgt_deploymentId us) \<inter> set (d # seen) = {}
     \<and> list_all (\<lambda>t. clean (tgt_deploymentId t) \<and> 0 < tgt_weight t) us"
    using "2.IH" [OF s(4)] by simp
  then show ?case using s nonEmptyString_clean [OF s(1)] by auto
qed simp

lemma normalizeRouteTargets_valid:
  assumes "normalizeRouteTargets v fb = Inr ts"
  shows "valid_targets ts"
proof (cases "v = JUndefined")
  case True
  with assms show ?thesis
    by (auto simp: normalizeRouteTargets_def bindE_Inr valid_targets_def
        dest: nonEmptyString_clean split: option.splits if_splits)
next
  case False
  with assms obtain x xs where "routeTargetsLoop [] (indexed (x # xs)) = Inr ts"
    by (auto simp: normalizeRouteTargets_def split: json.splits list.splits)
  from routeTargetsLoop_spec [OF this] show ?thesis by (auto simp: valid_targets_def)
qed

subsection \<open>A snapshot as JSON\<close>

definition encodeRuntime :: "RuntimeSpec \<Rightarrow> json" where
  "encodeRuntime r = JObj [(''backend'', JStr (rt_backend r)), (''version'', JStr (rt_version r)),
     (''wasi'', JStr (rt_wasi r))]"

definition encodeLimits :: "RuntimeLimits \<Rightarrow> json" where
  "encodeLimits l = JObj [(''cpuMs'', JInt (lim_cpuMs l)), (''memoryMb'', JInt (lim_memoryMb l)),
     (''wallMs'', JInt (lim_wallMs l)), (''requestBytes'', JInt (lim_requestBytes l)),
     (''subrequests'', JInt (lim_subrequests l)), (''responseBytes'', JInt (lim_responseBytes l))]"

definition encodeCapabilities :: "CapabilityPolicy \<Rightarrow> json" where
  "encodeCapabilities c = JObj
     [(''outboundHttp'', JObj [(''enabled'', JBool (out_enabled (cap_outboundHttp c))),
         (''allow'', JArr (map JStr (out_allow (cap_outboundHttp c))))]),
      (''kv'', JArr (map (\<lambda>b. JObj [(''binding'', JStr (kv_binding b)),
         (''namespaceId'', JStr (kv_namespaceId b))]) (cap_kv c))),
      (''durableObjects'', JArr (map (\<lambda>b. JObj [(''binding'', JStr (do_binding b)),
         (''namespaceId'', JStr (do_namespaceId b))]) (cap_durableObjects c))),
      (''secrets'', JArr (map (\<lambda>b. JObj [(''binding'', JStr (sec_binding b)),
         (''secretId'', JStr (sec_secretId b))]) (cap_secrets c))),
      (''services'', JArr (map (\<lambda>b. JObj [(''binding'', JStr (svc_binding b)),
         (''targetProjectId'', JStr (svc_targetProjectId b)), (''url'', JStr (svc_url b))])
         (cap_services c))),
      (''arbitraryFilesystem'', JBool (cap_arbitraryFilesystem c)),
      (''arbitrarySockets'', JBool (cap_arbitrarySockets c)),
      (''processSpawn'', JBool (cap_processSpawn c))]"

definition encodeOptional :: "string \<Rightarrow> json option \<Rightarrow> (string \<times> json) list" where
  "encodeOptional key v = (case v of None \<Rightarrow> [] | Some j \<Rightarrow> [(key, j)])"

definition encodeSignature :: "ArtifactSignature \<Rightarrow> json" where
  "encodeSignature s = JObj [(''algorithm'', JStr ''sha256-hmac''), (''keyId'', JStr (sig_keyId s)),
     (''value'', JStr (sig_value s))]"

definition encodeProvenance :: "ArtifactProvenance \<Rightarrow> json" where
  "encodeProvenance p = JObj
     (encodeOptional ''builder'' (map_option JStr (prov_builder p))
      @ encodeOptional ''source'' (map_option JStr (prov_source p))
      @ encodeOptional ''revision'' (map_option JStr (prov_revision p))
      @ encodeOptional ''buildId'' (map_option JStr (prov_buildId p)))"

definition encodeArtifact :: "SnapshotArtifact \<Rightarrow> json" where
  "encodeArtifact a = JObj
     ([(''id'', JStr (sa_id a)), (''digest'', JStr (sa_digest a)), (''location'', JStr (sa_location a))]
      @ encodeOptional ''signature'' (map_option encodeSignature (sa_signature a))
      @ encodeOptional ''provenance'' (map_option encodeProvenance (sa_provenance a)))"

definition encodeTarget :: "RouteSnapshotTarget \<Rightarrow> json" where
  "encodeTarget t = JObj [(''deploymentId'', JStr (st_deploymentId t)),
     (''weight'', JInt (st_weight t)), (''world'', JStr (st_world t)),
     (''worldVersion'', JStr (st_worldVersion t)), (''runtime'', encodeRuntime (st_runtime t)),
     (''limits'', encodeLimits (st_limits t)),
     (''capabilities'', encodeCapabilities (st_capabilities t)),
     (''artifact'', encodeArtifact (st_artifact t))]"

definition encodeEntry :: "RouteSnapshotEntry \<Rightarrow> json" where
  "encodeEntry e = JObj [(''host'', JStr (se_host e)), (''pathPrefix'', JStr (se_pathPrefix e)),
     (''projectId'', JStr (se_projectId e)), (''deploymentId'', JStr (se_deploymentId e)),
     (''targets'', JArr (map encodeTarget (se_targets e))), (''world'', JStr (se_world e)),
     (''worldVersion'', JStr (se_worldVersion e)), (''runtime'', encodeRuntime (se_runtime e)),
     (''limits'', encodeLimits (se_limits e)),
     (''capabilities'', encodeCapabilities (se_capabilities e)),
     (''artifact'', encodeArtifact (se_artifact e))]"

definition encodeSnapshot :: "RouteSnapshot \<Rightarrow> json" where
  "encodeSnapshot s = JObj (encodeOptional ''id'' (map_option JStr (snap_id s))
     @ [(''schemaVersion'', JInt (snap_schemaVersion s)),
        (''generatedAt'', JStr (snap_generatedAt s)),
        (''routes'', JArr (map encodeEntry (snap_routes s)))])"

subsection \<open>The runtime accepts what the normalisers return\<close>

definition valid_snapshot_artifact :: "SnapshotArtifact \<Rightarrow> bool" where
  "valid_snapshot_artifact a \<longleftrightarrow> clean (sa_id a) \<and> valid_digest (sa_digest a)
     \<and> is_location (trim (sa_location a)) \<and> trim (sa_location a) \<noteq> []"

definition valid_snapshot_target :: "UrlApi \<Rightarrow> RouteSnapshotTarget \<Rightarrow> bool" where
  "valid_snapshot_target U t \<longleftrightarrow> clean (st_deploymentId t) \<and> 0 < st_weight t
     \<and> st_world t = MVP_WORKER_WORLD \<and> st_worldVersion t = MVP_WORKER_WORLD_VERSION
     \<and> valid_runtime (st_runtime t) \<and> valid_limits (st_limits t)
     \<and> valid_capabilities U (st_capabilities t) \<and> valid_snapshot_artifact (st_artifact t)"

definition valid_snapshot_entry :: "UrlApi \<Rightarrow> RouteSnapshotEntry \<Rightarrow> bool" where
  "valid_snapshot_entry U e \<longleftrightarrow> valid_host (se_host e) \<and> valid_path (se_pathPrefix e)
     \<and> clean (se_projectId e) \<and> clean (se_deploymentId e)
     \<and> se_world e = MVP_WORKER_WORLD \<and> se_worldVersion e = MVP_WORKER_WORLD_VERSION
     \<and> valid_runtime (se_runtime e) \<and> valid_limits (se_limits e)
     \<and> valid_capabilities U (se_capabilities e) \<and> valid_snapshot_artifact (se_artifact e)
     \<and> se_targets e \<noteq> [] \<and> list_all (valid_snapshot_target U) (se_targets e)
     \<and> st_deploymentId (hd (se_targets e)) = se_deploymentId e"

lemma nonEmptyString_rt_clean [simp]: "clean s \<Longrightarrow> nonEmptyString_rt (JStr s) fld = Inr s"
  by (simp add: nonEmptyString_rt_def stringValue_rt_def clean_trim_id clean_def trim_trimmed_id)

lemma positiveInteger_rt_JInt [simp]: "0 < n \<Longrightarrow> positiveInteger_rt (JInt n) fld = Inr n"
  by (simp add: positiveInteger_rt_def)

lemma objectRecord_rt_JObj [simp]: "objectRecord_rt (JObj r) fld = Inr r"
  by (simp add: objectRecord_rt_def)

lemma arrayValue_rt_JArr [simp]: "arrayValue_rt (JArr vs) fld = Inr vs"
  by (simp add: arrayValue_rt_def)

lemma falseValue_rt_False [simp]: "falseValue_rt (JBool False) fld = Inr ()"
  by (simp add: falseValue_rt_def)

lemma bindingName_rt_valid [simp]: "valid_binding_name s \<Longrightarrow> bindingName_rt (JStr s) fld = Inr s"
  by (simp add: bindingName_rt_def valid_binding_name_def)

lemma forE_indexed:
  "(\<And>i x. x \<in> set xs \<Longrightarrow> f (i, x) = Inr ()) \<Longrightarrow> forE f (indexed xs) = Inr ()"
  by (auto simp: forE_Inr dest: snd_indexed_mem)

lemma assertWorld_ok [simp]: "assertWorld (JStr MVP_WORKER_WORLD) fld = Inr ()"
  by (simp add: assertWorld_def)

lemma assertWorldVersion_ok [simp]:
  "assertWorldVersion (JStr MVP_WORKER_WORLD_VERSION) fld = Inr ()"
  by (simp add: assertWorldVersion_def)

lemma assertRuntime_ok [simp]: "valid_runtime r \<Longrightarrow> assertRuntime (encodeRuntime r) fld = Inr ()"
  by (simp add: assertRuntime_def encodeRuntime_def valid_runtime_def)

lemma assertLimits_ok [simp]: "valid_limits l \<Longrightarrow> assertLimits (encodeLimits l) fld = Inr ()"
  by (simp add: assertLimits_def encodeLimits_def valid_limits_def)

lemma stringArray_rt_clean:
  assumes "list_all clean ss"
  shows "stringArray_rt (JArr (map JStr ss)) fld = Inr ss"
proof -
  have "mapE (\<lambda>(i, x). nonEmptyString_rt x (item_field fld i [])) (indexed (map JStr ss))
      = Inr (map (\<lambda>p. case snd p of JStr s \<Rightarrow> s | _ \<Rightarrow> []) (indexed (map JStr ss)))"
    using assms by (intro mapE_total) (auto simp: list_all_iff dest!: snd_indexed_mem)
  also have "map (\<lambda>p. case snd p of JStr s \<Rightarrow> s | _ \<Rightarrow> []) (indexed (map JStr ss))
      = map (\<lambda>v. case v of JStr s \<Rightarrow> s | _ \<Rightarrow> []) (map snd (indexed (map JStr ss)))"
    by (simp only: map_map comp_def)
  also have "\<dots> = ss" by (simp add: comp_def)
  finally show ?thesis by (simp add: stringArray_rt_def)
qed

lemma httpUrl_rt_ok:
  "valid_service_url U s \<Longrightarrow> \<exists>t. httpUrl_rt U (JStr s) fld = Inr t"
  by (auto simp: valid_service_url_def httpUrl_rt_def)

lemma assertOutboundHttp_ok:
  "valid_outbound b \<Longrightarrow>
   assertOutboundHttp (JObj [(''enabled'', JBool (out_enabled b)),
     (''allow'', JArr (map JStr (out_allow b)))]) fld = Inr ()"
  by (auto simp: assertOutboundHttp_def valid_outbound_def stringArray_rt_clean)

lemma assertBinding_ok:
  "valid_binding_name b \<Longrightarrow> clean n \<Longrightarrow> key \<noteq> ''binding'' \<Longrightarrow>
   assertBinding key fld (i, JObj [(''binding'', JStr b), (key, JStr n)]) = Inr ()"
  by (simp add: assertBinding_def)

lemma assertServiceBinding_ok:
  assumes "valid_binding_name b" "clean p" "valid_service_url U u"
  shows "assertServiceBinding U fld (i, JObj [(''binding'', JStr b),
     (''targetProjectId'', JStr p), (''url'', JStr u)]) = Inr ()"
proof -
  obtain t where "httpUrl_rt U (JStr u) (item_field fld i ''.url'') = Inr t"
    using httpUrl_rt_ok [OF assms(3)] by blast
  with assms show ?thesis by (simp add: assertServiceBinding_def)
qed

lemma assertCapabilities_ok [simp]:
  assumes "valid_capabilities U c"
  shows "assertCapabilities U (encodeCapabilities c) fld = Inr ()"
proof -
  have kv: "assertKvBindings (JArr (map (\<lambda>b. JObj [(''binding'', JStr (kv_binding b)),
      (''namespaceId'', JStr (kv_namespaceId b))]) (cap_kv c))) (fld @ ''.kv'') = Inr ()"
    using assms unfolding assertKvBindings_def valid_capabilities_def list_all_iff
    by (auto intro!: forE_indexed assertBinding_ok)
  have dos: "assertDurableObjectBindings (JArr (map (\<lambda>b. JObj [(''binding'', JStr (do_binding b)),
      (''namespaceId'', JStr (do_namespaceId b))]) (cap_durableObjects c)))
      (fld @ ''.durableObjects'') = Inr ()"
    using assms unfolding assertDurableObjectBindings_def valid_capabilities_def list_all_iff
    by (auto intro!: forE_indexed assertBinding_ok)
  have sec: "assertSecretBindings (JArr (map (\<lambda>b. JObj [(''binding'', JStr (sec_binding b)),
      (''secretId'', JStr (sec_secretId b))]) (cap_secrets c))) (fld @ ''.secrets'') = Inr ()"
    using assms unfolding assertSecretBindings_def valid_capabilities_def list_all_iff
    by (auto intro!: forE_indexed assertBinding_ok)
  have svc: "assertServiceBindings U (JArr (map (\<lambda>b. JObj [(''binding'', JStr (svc_binding b)),
      (''targetProjectId'', JStr (svc_targetProjectId b)), (''url'', JStr (svc_url b))])
      (cap_services c))) (fld @ ''.services'') = Inr ()"
    using assms unfolding assertServiceBindings_def valid_capabilities_def list_all_iff
    by (auto intro!: forE_indexed assertServiceBinding_ok)
  show ?thesis
    using assms kv dos sec svc
    by (simp add: assertCapabilities_def encodeCapabilities_def assertOutboundHttp_ok
        valid_capabilities_def)
qed

lemma assertArtifact_ok [simp]:
  "valid_snapshot_artifact a \<Longrightarrow> assertArtifact (encodeArtifact a) fld = Inr ()"
  by (simp add: assertArtifact_def encodeArtifact_def valid_snapshot_artifact_def
      digestValue_rt_def locationValue_rt_def valid_digest_def nonEmptyString_rt_def
      stringValue_rt_def clean_trim_id clean_def trim_trimmed_id)

lemma assertRouteSnapshotTarget_ok:
  "valid_snapshot_target U t \<Longrightarrow> assertRouteSnapshotTarget U (encodeTarget t) fld = Inr ()"
  by (simp add: assertRouteSnapshotTarget_def encodeTarget_def valid_snapshot_target_def)

lemma assertRouteSnapshotEntry_ok:
  assumes "valid_snapshot_entry U e"
  shows "assertRouteSnapshotEntry U (encodeEntry e) fld = Inr ()"
proof -
  obtain t ts where ts: "se_targets e = t # ts" and d: "st_deploymentId t = se_deploymentId e"
    using assms by (cases "se_targets e") (auto simp: valid_snapshot_entry_def)
  have all: "forE (\<lambda>(i, x). assertRouteSnapshotTarget U x (item_field (fld @ ''.targets'') i []))
      (indexed (map encodeTarget (t # ts))) = Inr ()"
    using assms unfolding valid_snapshot_entry_def ts
    by (intro forE_indexed) (auto simp: assertRouteSnapshotTarget_ok list_all_iff)
  have enc: "encodeTarget t = JObj (tl [(''x'', JNull), (''deploymentId'', JStr (se_deploymentId e)),
      (''weight'', JInt (st_weight t)), (''world'', JStr (st_world t)),
      (''worldVersion'', JStr (st_worldVersion t)), (''runtime'', encodeRuntime (st_runtime t)),
      (''limits'', encodeLimits (st_limits t)),
      (''capabilities'', encodeCapabilities (st_capabilities t)),
      (''artifact'', encodeArtifact (st_artifact t))])"
    by (simp add: encodeTarget_def d)
  show ?thesis
    using assms all
    by (simp add: assertRouteSnapshotEntry_def encodeEntry_def valid_snapshot_entry_def ts enc
        dnsHost_rt_def pathPrefix_rt_def valid_host_def valid_path_def)
qed

text \<open>A snapshot of valid entries is accepted by every runtime node.\<close>

lemma assertRouteSnapshot_ok:
  assumes "snap_schemaVersion s = 1" and "list_all (valid_snapshot_entry U) (snap_routes s)"
  shows "assertRouteSnapshot U (encodeSnapshot s) = Inr ()"
proof -
  have "forE (\<lambda>(i, x). assertRouteSnapshotEntry U x (item_field ''routes'' i []))
      (indexed (map encodeEntry (snap_routes s))) = Inr ()"
    using assms(2) by (intro forE_indexed) (auto simp: assertRouteSnapshotEntry_ok list_all_iff)
  with assms(1) show ?thesis
    by (cases "snap_id s")
      (simp_all add: assertRouteSnapshot_def encodeSnapshot_def encodeOptional_def stringValue_rt_def)
qed

end
