(* ===== verification/Repository.thy ===== *)
theory Repository
  imports Tables Validity
begin

text \<open>
  The database of \<open>control-plane/repository.ts\<close>: one list of rows per table, and one
  function per method the services model. Constraints are those of its \<open>schema\<close>: a violated
  uniqueness constraint is reported before a violated foreign key, as SQLite does, and a failed
  statement leaves the database as it was.
\<close>

record ApiKey =
  key_id :: string
  key_organizationId :: "string option"
  key_projectId :: "string option"
  key_name :: string
  key_scopes :: "ApiScope list"
  key_createdAt :: string
  key_lastUsedAt :: "string option"
  key_revokedAt :: "string option"

record AuditEvent =
  aud_id :: string
  aud_organizationId :: "string option"
  aud_projectId :: "string option"
  aud_action :: string
  aud_targetType :: string
  aud_targetId :: string
  aud_metadata :: "(string \<times> json) list"
  aud_createdAt :: string

record CanaryMetrics =
  cm_requests :: int
  cm_errors :: int
  cm_rejects :: int
  cm_errorRate :: rat
  cm_p95Ms :: rat

datatype CanaryAction = CanaryContinue | CanaryRollback

datatype CanaryReason =
  WithinThresholds | InsufficientSamples | P95Latency | ErrorRate | RejectCount

record CanaryThresholds =
  th_minRequests :: "int option"
  th_p95Ms :: "rat option"
  th_errorRate :: "rat option"
  th_rejectCount :: "int option"

record CanaryDecision =
  can_id :: string
  can_projectId :: string
  can_host :: string
  can_pathPrefix :: string
  can_stableDeploymentId :: string
  can_candidateDeploymentId :: string
  can_action :: CanaryAction
  can_reason :: CanaryReason
  can_metrics :: CanaryMetrics
  can_thresholds :: CanaryThresholds
  can_createdAt :: string

record Db =
  db_organizations :: "Organization list"
  db_users :: "User list"
  db_projects :: "Project list"
  db_memberships :: "ProjectMembership list"
  db_apiKeys :: "(ApiKey \<times> string) list"
  db_audit :: "AuditEvent list"
  db_domains :: "CustomDomain list"
  db_previews :: "DeployPreview list"
  db_artifacts :: "Artifact list"
  db_secrets :: "(Resource \<times> string) list"
  db_kv :: "Resource list"
  db_dos :: "Resource list"
  db_deployments :: "Deployment list"
  db_routes :: "RoutePointer list"
  db_nodes :: "RuntimeNode list"
  db_canary :: "CanaryDecision list"

definition empty_db :: Db where
  "empty_db = \<lparr>db_organizations = [], db_users = [], db_projects = [], db_memberships = [],
     db_apiKeys = [], db_audit = [], db_domains = [], db_previews = [], db_artifacts = [],
     db_secrets = [], db_kv = [], db_dos = [], db_deployments = [], db_routes = [],
     db_nodes = [], db_canary = []\<rparr>"

datatype sql_failure = UniqueFailed | ForeignKeyFailed

fun writeError :: "string \<Rightarrow> string \<Rightarrow> sql_failure \<Rightarrow> 'a cp" where
  "writeError kind rid UniqueFailed = throwC Conflict (kind @ '' '' @ rid @ '' already exists'')"
| "writeError kind rid ForeignKeyFailed =
     throwC Validation (kind @ '' '' @ rid @ '' references missing records'')"

declare writeError.simps [simp del]

lemma writeError_simps [simp]:
  "writeError kind rid f \<noteq> Inr x" "Inr x \<noteq> writeError kind rid f"
  "fails_with c (writeError kind rid UniqueFailed) \<longleftrightarrow> c = Conflict"
  "fails_with c (writeError kind rid ForeignKeyFailed) \<longleftrightarrow> c = Validation"
  by (cases f; auto simp: writeError.simps)+

text \<open>An insert: uniqueness, then foreign keys, then the row is appended by \<open>put\<close>.\<close>

definition insert_row ::
    "string \<Rightarrow> string \<Rightarrow> bool \<Rightarrow> bool \<Rightarrow> ('s \<Rightarrow> 's) \<Rightarrow> 'r \<Rightarrow> 's \<Rightarrow> 's \<times> 'r cp" where
  "insert_row kind rid taken dangling put r s =
     (if taken then (s, writeError kind rid UniqueFailed)
      else if dangling then (s, writeError kind rid ForeignKeyFailed)
      else (put s, Inr r))"

lemma insert_row_Inr:
  "insert_row kind rid taken dangling put r s = (s', Inr r') \<longleftrightarrow>
     \<not> taken \<and> \<not> dangling \<and> s' = put s \<and> r' = r"
  by (auto simp: insert_row_def)

lemma insert_row_Inl: "insert_row kind rid taken dangling put r s = (s', Inl e) \<Longrightarrow> s' = s"
  by (auto simp: insert_row_def split: if_splits)

lemma insert_row_taken: "taken \<Longrightarrow> fails_with Conflict (snd (insert_row kind rid taken d put r s))"
  by (simp add: insert_row_def)

lemma insert_row_fst:
  "fst (insert_row kind rid taken dangling put r s) = (if taken \<or> dangling then s else put s)"
  by (simp add: insert_row_def)

definition no_row :: "('r \<Rightarrow> 'k) \<Rightarrow> 'k \<Rightarrow> 'r list \<Rightarrow> bool" where
  "no_row key k t \<longleftrightarrow> \<not> has_key key k t"

text \<open>A nullable foreign key is checked when it is not null.\<close>

definition missing_opt :: "('r \<Rightarrow> 'k) \<Rightarrow> 'k option \<Rightarrow> 'r list \<Rightarrow> bool" where
  "missing_opt key k t = (case k of None \<Rightarrow> False | Some x \<Rightarrow> no_row key x t)"

text \<open>\<open>order by x, y\<close> over two text columns.\<close>

definition text2_le :: "string \<times> string \<Rightarrow> string \<times> string \<Rightarrow> bool" where
  "text2_le a b \<longleftrightarrow> fst a < fst b \<or> (fst a = fst b \<and> snd a \<le> snd b)"

subsection \<open>Organizations, users, projects\<close>

definition getOrganization :: "Db \<Rightarrow> string \<Rightarrow> Organization option" where
  "getOrganization s rid = row_by org_id rid (db_organizations s)"

definition repo_createOrganization :: "Organization \<Rightarrow> (Db, Organization) op" where
  "repo_createOrganization r s = insert_row ''organization'' (org_id r)
     (has_key org_id (org_id r) (db_organizations s) \<or> has_key org_name (org_name r) (db_organizations s))
     False (\<lambda>s. s\<lparr>db_organizations := db_organizations s @ [r]\<rparr>) r s"

definition getUser :: "Db \<Rightarrow> string \<Rightarrow> User option" where
  "getUser s rid = row_by user_id rid (db_users s)"

definition repo_createUser :: "User \<Rightarrow> (Db, User) op" where
  "repo_createUser r s = insert_row ''user'' (user_id r)
     (has_key user_id (user_id r) (db_users s) \<or> has_key user_email (user_email r) (db_users s))
     False (\<lambda>s. s\<lparr>db_users := db_users s @ [r]\<rparr>) r s"

definition repo_updateUserEmailVerification :: "string \<Rightarrow> string \<Rightarrow> (Db, User) op" where
  "repo_updateUserEmailVerification rid ts s =
     (let s' = s\<lparr>db_users := update_by user_id rid (\<lambda>u. u\<lparr>user_emailVerifiedAt := Some ts\<rparr>) (db_users s)\<rparr>
      in case getUser s' rid of
           None \<Rightarrow> (s, throwC NotFound (''user '' @ rid @ '' was not found''))
         | Some u \<Rightarrow> (s', Inr u))"

definition getProject :: "Db \<Rightarrow> string \<Rightarrow> Project option" where
  "getProject s rid = row_by prj_id rid (db_projects s)"

definition repo_createProject :: "Project \<Rightarrow> (Db, Project) op" where
  "repo_createProject r s = insert_row ''project'' (prj_id r)
     (has_key prj_id (prj_id r) (db_projects s) \<or> has_key prj_name (prj_name r) (db_projects s))
     (missing_opt org_id (prj_organizationId r) (db_organizations s))
     (\<lambda>s. s\<lparr>db_projects := db_projects s @ [r]\<rparr>) r s"

definition listOrganizationProjects :: "Db \<Rightarrow> string \<Rightarrow> Project list" where
  "listOrganizationProjects s oid =
     js_sort (\<lambda>a b. text2_le (prj_createdAt a, prj_id a) (prj_createdAt b, prj_id b))
       (filter (\<lambda>p. prj_organizationId p = Some oid) (db_projects s))"

subsection \<open>Memberships\<close>

definition mem_key :: "ProjectMembership \<Rightarrow> string \<times> string" where
  "mem_key m = (mem_projectId m, mem_userId m)"

definition listProjectMemberships :: "Db \<Rightarrow> string \<Rightarrow> ProjectMembership list" where
  "listProjectMemberships s pid =
     js_sort (\<lambda>a b. text_le (mem_userId a) (mem_userId b))
       (filter (\<lambda>m. mem_projectId m = pid) (db_memberships s))"

definition getMembership :: "Db \<Rightarrow> string \<times> string \<Rightarrow> ProjectMembership option" where
  "getMembership s k = row_by mem_key k (db_memberships s)"

definition membership_not_found :: "string \<Rightarrow> string \<Rightarrow> 'a cp" where
  "membership_not_found pid uid =
     throwC NotFound (''project membership '' @ pid @ ''/'' @ uid @ '' was not found'')"

text \<open>
  \<open>insert ... on conflict(project_id, user_id) do update\<close>: a row that exists already has its
  role and invitation replaced, its creation date kept.
\<close>

definition repo_createProjectMembership :: "ProjectMembership \<Rightarrow> (Db, ProjectMembership) op" where
  "repo_createProjectMembership r s =
     (if has_key mem_key (mem_key r) (db_memberships s)
      then let s' = s\<lparr>db_memberships := update_by mem_key (mem_key r)
                 (\<lambda>m. m\<lparr>mem_role := mem_role r, mem_inviteStatus := mem_inviteStatus r,
                        mem_invitedAt := mem_invitedAt r, mem_acceptedAt := mem_acceptedAt r\<rparr>)
                 (db_memberships s)\<rparr>
           in (s', Inr (the (getMembership s' (mem_key r))))
      else insert_row ''project membership'' (mem_projectId r @ ''/'' @ mem_userId r) False
             (no_row prj_id (mem_projectId r) (db_projects s) \<or> no_row user_id (mem_userId r) (db_users s))
             (\<lambda>s. s\<lparr>db_memberships := db_memberships s @ [r]\<rparr>) r s)"

definition update_membership ::
    "string \<Rightarrow> string \<Rightarrow> (ProjectMembership \<Rightarrow> ProjectMembership) \<Rightarrow> (Db, ProjectMembership) op" where
  "update_membership pid uid f s = (case getMembership s (pid, uid) of
       None \<Rightarrow> (s, membership_not_found pid uid)
     | Some m \<Rightarrow> (s\<lparr>db_memberships := update_by mem_key (pid, uid) f (db_memberships s)\<rparr>, Inr (f m)))"

definition repo_acceptProjectMembershipInvite ::
    "string \<Rightarrow> string \<Rightarrow> string \<Rightarrow> (Db, ProjectMembership) op" where
  "repo_acceptProjectMembershipInvite pid uid ts = update_membership pid uid
     (\<lambda>m. m\<lparr>mem_inviteStatus := Accepted, mem_acceptedAt := Some ts\<rparr>)"

definition repo_updateProjectMembershipRole ::
    "string \<Rightarrow> string \<Rightarrow> ProjectRole \<Rightarrow> (Db, ProjectMembership) op" where
  "repo_updateProjectMembershipRole pid uid role = update_membership pid uid
     (\<lambda>m. m\<lparr>mem_role := role\<rparr>)"

definition repo_deleteProjectMembership :: "string \<Rightarrow> string \<Rightarrow> (Db, ProjectMembership) op" where
  "repo_deleteProjectMembership pid uid s = (case getMembership s (pid, uid) of
       None \<Rightarrow> (s, membership_not_found pid uid)
     | Some m \<Rightarrow> (s\<lparr>db_memberships := delete_by mem_key (pid, uid) (db_memberships s)\<rparr>, Inr m))"

subsection \<open>Audit events\<close>

definition repo_createCustomerAuditEvent :: "AuditEvent \<Rightarrow> (Db, AuditEvent) op" where
  "repo_createCustomerAuditEvent r s = insert_row ''customer audit event'' (aud_id r)
     (has_key aud_id (aud_id r) (db_audit s))
     (missing_opt org_id (aud_organizationId r) (db_organizations s)
       \<or> missing_opt prj_id (aud_projectId r) (db_projects s))
     (\<lambda>s. s\<lparr>db_audit := db_audit s @ [r]\<rparr>) r s"

subsection \<open>API keys\<close>

text \<open>A row of \<open>api_keys\<close> is the key and the hash of its token.\<close>

definition getApiKey :: "Db \<Rightarrow> string \<Rightarrow> ApiKey option" where
  "getApiKey s rid = map_option fst (row_by (key_id \<circ> fst) rid (db_apiKeys s))"

definition getApiKeyByTokenHash :: "Db \<Rightarrow> string \<Rightarrow> ApiKey option" where
  "getApiKeyByTokenHash s h = map_option fst (row_by snd h (db_apiKeys s))"

definition repo_createApiKey :: "ApiKey \<Rightarrow> string \<Rightarrow> (Db, ApiKey) op" where
  "repo_createApiKey r h s = insert_row ''api key'' (key_id r)
     (has_key (key_id \<circ> fst) (key_id r) (db_apiKeys s) \<or> has_key snd h (db_apiKeys s))
     (missing_opt org_id (key_organizationId r) (db_organizations s)
       \<or> missing_opt prj_id (key_projectId r) (db_projects s))
     (\<lambda>s. s\<lparr>db_apiKeys := db_apiKeys s @ [(r, h)]\<rparr>) r s"

definition update_api_key :: "string \<Rightarrow> (ApiKey \<Rightarrow> ApiKey) \<Rightarrow> (Db, ApiKey) op" where
  "update_api_key rid f s = (case getApiKey s rid of
       None \<Rightarrow> (s, throwC NotFound (''api key '' @ rid @ '' was not found''))
     | Some k \<Rightarrow> (s\<lparr>db_apiKeys := update_by (key_id \<circ> fst) rid (map_prod f (\<lambda>h. h)) (db_apiKeys s)\<rparr>,
                 Inr (f k)))"

definition repo_updateApiKeyLastUsed :: "string \<Rightarrow> string \<Rightarrow> (Db, ApiKey) op" where
  "repo_updateApiKeyLastUsed rid ts = update_api_key rid (\<lambda>k. k\<lparr>key_lastUsedAt := Some ts\<rparr>)"

definition revoke_key :: "string \<Rightarrow> ApiKey \<Rightarrow> ApiKey" where
  "revoke_key ts k = k\<lparr>key_revokedAt := (case key_revokedAt k of None \<Rightarrow> Some ts | Some r \<Rightarrow> Some r)\<rparr>"

definition repo_revokeApiKey :: "string \<Rightarrow> string \<Rightarrow> (Db, ApiKey) op" where
  "repo_revokeApiKey rid ts = update_api_key rid (revoke_key ts)"

text \<open>One transaction: a throw inside it rolls the database back. \<open>Inr (revoked, replacement)\<close>.\<close>

definition repo_rotateApiKey ::
    "string \<Rightarrow> string \<Rightarrow> string option \<Rightarrow> string \<Rightarrow> string \<Rightarrow> (Db, ApiKey \<times> ApiKey) op" where
  "repo_rotateApiKey rid newId newName h ts s = (case getApiKey s rid of
       None \<Rightarrow> (s, throwC NotFound (''api key '' @ rid @ '' was not found''))
     | Some old \<Rightarrow>
         if key_revokedAt old \<noteq> None
         then (s, throwC Validation (''api key '' @ rid @ '' is already revoked''))
         else let new = \<lparr>key_id = newId, key_organizationId = key_organizationId old,
                key_projectId = key_projectId old,
                key_name = (case newName of None \<Rightarrow> key_name old | Some n \<Rightarrow> n),
                key_scopes = key_scopes old, key_createdAt = ts, key_lastUsedAt = None,
                key_revokedAt = None\<rparr>
              in (case repo_createApiKey new h s of
                    (s', Inl e) \<Rightarrow> (s, Inl e)
                  | (s', Inr k) \<Rightarrow>
                      (s'\<lparr>db_apiKeys := update_by (key_id \<circ> fst) rid
                           (map_prod (\<lambda>k. k\<lparr>key_revokedAt := Some ts\<rparr>) (\<lambda>h. h)) (db_apiKeys s')\<rparr>,
                       Inr (old\<lparr>key_revokedAt := Some ts\<rparr>, new))))"

subsection \<open>Custom domains\<close>

definition getCustomDomain :: "Db \<Rightarrow> string \<Rightarrow> CustomDomain option" where
  "getCustomDomain s rid = row_by dom_id rid (db_domains s)"

definition getCustomDomainByHost :: "Db \<Rightarrow> string \<Rightarrow> CustomDomain option" where
  "getCustomDomainByHost s h = row_by dom_host h (db_domains s)"

definition listProjectCustomDomains :: "Db \<Rightarrow> string \<Rightarrow> CustomDomain list" where
  "listProjectCustomDomains s pid =
     js_sort (\<lambda>a b. text2_le (dom_host a, dom_id a) (dom_host b, dom_id b))
       (filter (\<lambda>d. dom_projectId d = pid) (db_domains s))"

definition repo_createCustomDomain :: "CustomDomain \<Rightarrow> (Db, CustomDomain) op" where
  "repo_createCustomDomain r s = insert_row ''custom domain'' (dom_id r)
     (has_key dom_id (dom_id r) (db_domains s) \<or> has_key dom_host (dom_host r) (db_domains s))
     (no_row prj_id (dom_projectId r) (db_projects s))
     (\<lambda>s. s\<lparr>db_domains := db_domains s @ [r]\<rparr>) r s"

text \<open>The columns \<open>update custom_domains set ...\<close> writes.\<close>

definition overwrite_domain :: "CustomDomain \<Rightarrow> CustomDomain \<Rightarrow> CustomDomain" where
  "overwrite_domain r d = d\<lparr>dom_status := dom_status r, dom_tlsStatus := dom_tlsStatus r,
     dom_tlsProvider := dom_tlsProvider r, dom_tlsRequestId := dom_tlsRequestId r,
     dom_tlsError := dom_tlsError r, dom_updatedAt := dom_updatedAt r,
     dom_verifiedAt := dom_verifiedAt r, dom_tlsProvisionedAt := dom_tlsProvisionedAt r\<rparr>"

definition repo_updateCustomDomain :: "CustomDomain \<Rightarrow> (Db, CustomDomain) op" where
  "repo_updateCustomDomain r s = (case getCustomDomain s (dom_id r) of
       None \<Rightarrow> (s, throwC NotFound (''custom domain '' @ dom_id r @ '' was not found''))
     | Some d \<Rightarrow> (s\<lparr>db_domains := update_by dom_id (dom_id r) (overwrite_domain r) (db_domains s)\<rparr>,
                 Inr (overwrite_domain r d)))"

definition repo_deleteCustomDomain :: "string \<Rightarrow> (Db, CustomDomain) op" where
  "repo_deleteCustomDomain rid s = (case getCustomDomain s rid of
       None \<Rightarrow> (s, throwC NotFound (''custom domain '' @ rid @ '' was not found''))
     | Some d \<Rightarrow> (s\<lparr>db_domains := delete_by dom_id rid (db_domains s)\<rparr>, Inr d))"

subsection \<open>Previews\<close>

definition getDeployPreview :: "Db \<Rightarrow> string \<Rightarrow> DeployPreview option" where
  "getDeployPreview s rid = row_by prv_id rid (db_previews s)"

definition repo_createDeployPreview :: "DeployPreview \<Rightarrow> (Db, DeployPreview) op" where
  "repo_createDeployPreview r s = insert_row ''deploy preview'' (prv_id r)
     (has_key prv_id (prv_id r) (db_previews s))
     (no_row prj_id (prv_projectId r) (db_projects s)
       \<or> no_row dep_id (prv_deploymentId r) (db_deployments s))
     (\<lambda>s. s\<lparr>db_previews := db_previews s @ [r]\<rparr>) r s"

definition overwrite_preview :: "DeployPreview \<Rightarrow> DeployPreview \<Rightarrow> DeployPreview" where
  "overwrite_preview r d = d\<lparr>prv_status := prv_status r, prv_updatedAt := prv_updatedAt r,
     prv_rolledBackAt := prv_rolledBackAt r\<rparr>"

definition repo_updateDeployPreview :: "DeployPreview \<Rightarrow> (Db, DeployPreview) op" where
  "repo_updateDeployPreview r s = (case getDeployPreview s (prv_id r) of
       None \<Rightarrow> (s, throwC NotFound (''deploy preview '' @ prv_id r @ '' was not found''))
     | Some d \<Rightarrow> (s\<lparr>db_previews := update_by prv_id (prv_id r) (overwrite_preview r) (db_previews s)\<rparr>,
                 Inr (overwrite_preview r d)))"

definition repo_updateOrganizationBilling :: "Organization \<Rightarrow> (Db, Organization) op" where
  "repo_updateOrganizationBilling r s =
     (let f = (\<lambda>q. q\<lparr>org_billingProvider := org_billingProvider r,
            org_billingCustomerId := org_billingCustomerId r,
            org_paymentStatus := org_paymentStatus r, org_billingEmail := org_billingEmail r,
            org_paymentStatusUpdatedAt := org_paymentStatusUpdatedAt r\<rparr>)
      in case getOrganization s (org_id r) of
           None \<Rightarrow> (s, throwC NotFound (''organization '' @ org_id r @ '' was not found''))
         | Some q \<Rightarrow> (s\<lparr>db_organizations := update_by org_id (org_id r) f (db_organizations s)\<rparr>,
                     Inr (f q)))"

subsection \<open>Artifacts\<close>

definition getArtifact :: "Db \<Rightarrow> string \<Rightarrow> Artifact option" where
  "getArtifact s rid = row_by art_id rid (db_artifacts s)"

definition getArtifactByProjectDigest :: "Db \<Rightarrow> string \<Rightarrow> string \<Rightarrow> Artifact option" where
  "getArtifactByProjectDigest s pid d =
     row_by (\<lambda>a. (art_projectId a, art_digest a)) (pid, d) (db_artifacts s)"

definition repo_createArtifact :: "Artifact \<Rightarrow> (Db, Artifact) op" where
  "repo_createArtifact r s = insert_row ''artifact'' (art_id r)
     (has_key art_id (art_id r) (db_artifacts s) \<or> has_key art_digest (art_digest r) (db_artifacts s))
     (no_row prj_id (art_projectId r) (db_projects s))
     (\<lambda>s. s\<lparr>db_artifacts := db_artifacts s @ [r]\<rparr>) r s"

subsection \<open>Secrets, KV and Durable Object namespaces\<close>

definition res_slot :: "Resource \<Rightarrow> string \<times> string" where
  "res_slot r = (res_projectId r, res_name r)"

definition project_resources :: "string \<Rightarrow> Resource list \<Rightarrow> Resource list" where
  "project_resources pid t = js_sort (\<lambda>a b. text2_le (res_name a, res_id a) (res_name b, res_id b))
     (filter (\<lambda>r. res_projectId r = pid) t)"

definition create_resource ::
    "string \<Rightarrow> Resource list \<Rightarrow> (Db \<Rightarrow> Db) \<Rightarrow> Resource \<Rightarrow> (Db, Resource) op" where
  "create_resource kind t put r s = insert_row kind (res_id r)
     (has_key res_id (res_id r) t \<or> has_key res_slot (res_slot r) t)
     (no_row prj_id (res_projectId r) (db_projects s)) put r s"

definition delete_resource ::
    "string \<Rightarrow> Resource list \<Rightarrow> (Db \<Rightarrow> Db) \<Rightarrow> string \<Rightarrow> (Db, unit) op" where
  "delete_resource kind t put rid s =
     (if has_key res_id rid t then (put s, Inr ())
      else (s, throwC NotFound (kind @ '' '' @ rid @ '' was not found'')))"

definition getSecret :: "Db \<Rightarrow> string \<Rightarrow> Resource option" where
  "getSecret s rid = row_by res_id rid (map fst (db_secrets s))"

definition getSecretValue :: "Db \<Rightarrow> string \<Rightarrow> string option" where
  "getSecretValue s rid = map_option snd (row_by (res_id \<circ> fst) rid (db_secrets s))"

definition listProjectSecrets :: "Db \<Rightarrow> string \<Rightarrow> Resource list" where
  "listProjectSecrets s pid = project_resources pid (map fst (db_secrets s))"

definition repo_createSecret :: "Resource \<Rightarrow> string \<Rightarrow> (Db, Resource) op" where
  "repo_createSecret r v s = create_resource ''secret'' (map fst (db_secrets s))
     (\<lambda>s. s\<lparr>db_secrets := db_secrets s @ [(r, v)]\<rparr>) r s"

definition repo_updateSecretValue :: "string \<Rightarrow> string \<Rightarrow> string \<Rightarrow> (Db, Resource) op" where
  "repo_updateSecretValue rid v ts s = (case getSecret s rid of
       None \<Rightarrow> (s, throwC NotFound (''secret '' @ rid @ '' was not found''))
     | Some r \<Rightarrow> (s\<lparr>db_secrets := update_by (res_id \<circ> fst) rid
                    (\<lambda>(r, _). (r\<lparr>res_updatedAt := ts\<rparr>, v)) (db_secrets s)\<rparr>,
                 Inr (r\<lparr>res_updatedAt := ts\<rparr>)))"

definition repo_deleteSecret :: "string \<Rightarrow> (Db, unit) op" where
  "repo_deleteSecret rid s = delete_resource ''secret'' (map fst (db_secrets s))
     (\<lambda>s. s\<lparr>db_secrets := delete_by (res_id \<circ> fst) rid (db_secrets s)\<rparr>) rid s"

definition getKvNamespace :: "Db \<Rightarrow> string \<Rightarrow> Resource option" where
  "getKvNamespace s rid = row_by res_id rid (db_kv s)"

definition listProjectKvNamespaces :: "Db \<Rightarrow> string \<Rightarrow> Resource list" where
  "listProjectKvNamespaces s pid = project_resources pid (db_kv s)"

definition repo_createKvNamespace :: "Resource \<Rightarrow> (Db, Resource) op" where
  "repo_createKvNamespace r s = create_resource ''kv namespace'' (db_kv s)
     (\<lambda>s. s\<lparr>db_kv := db_kv s @ [r]\<rparr>) r s"

definition repo_deleteKvNamespace :: "string \<Rightarrow> (Db, unit) op" where
  "repo_deleteKvNamespace rid s = delete_resource ''kv namespace'' (db_kv s)
     (\<lambda>s. s\<lparr>db_kv := delete_by res_id rid (db_kv s)\<rparr>) rid s"

definition getDurableObjectNamespace :: "Db \<Rightarrow> string \<Rightarrow> Resource option" where
  "getDurableObjectNamespace s rid = row_by res_id rid (db_dos s)"

definition listProjectDurableObjectNamespaces :: "Db \<Rightarrow> string \<Rightarrow> Resource list" where
  "listProjectDurableObjectNamespaces s pid = project_resources pid (db_dos s)"

definition repo_createDurableObjectNamespace :: "Resource \<Rightarrow> (Db, Resource) op" where
  "repo_createDurableObjectNamespace r s = create_resource ''durable object namespace'' (db_dos s)
     (\<lambda>s. s\<lparr>db_dos := db_dos s @ [r]\<rparr>) r s"

definition repo_deleteDurableObjectNamespace :: "string \<Rightarrow> (Db, unit) op" where
  "repo_deleteDurableObjectNamespace rid s = delete_resource ''durable object namespace'' (db_dos s)
     (\<lambda>s. s\<lparr>db_dos := delete_by res_id rid (db_dos s)\<rparr>) rid s"

subsection \<open>Deployments and routes\<close>

definition getDeployment :: "Db \<Rightarrow> string \<Rightarrow> Deployment option" where
  "getDeployment s rid = row_by dep_id rid (db_deployments s)"

definition repo_createDeployment :: "Deployment \<Rightarrow> (Db, Deployment) op" where
  "repo_createDeployment r s = insert_row ''deployment'' (dep_id r)
     (has_key dep_id (dep_id r) (db_deployments s))
     (no_row prj_id (dep_projectId r) (db_projects s)
       \<or> no_row art_id (dep_artifactId r) (db_artifacts s))
     (\<lambda>s. s\<lparr>db_deployments := db_deployments s @ [r]\<rparr>) r s"

type_synonym route_key = "string \<times> string \<times> string"

definition rte_key :: "RoutePointer \<Rightarrow> route_key" where
  "rte_key r = (rte_projectId r, rte_host r, rte_pathPrefix r)"

definition getRoute :: "Db \<Rightarrow> route_key \<Rightarrow> RoutePointer option" where
  "getRoute s k = row_by rte_key k (db_routes s)"

text \<open>
  \<open>insert ... on conflict(project_id, host, path_prefix) do update set deployment_id,
  targets_json, updated_at\<close>: the conflict target is checked first, the row keeps its id.
\<close>

definition overwrite_route :: "RoutePointer \<Rightarrow> RoutePointer \<Rightarrow> RoutePointer" where
  "overwrite_route r q = q\<lparr>rte_deploymentId := rte_deploymentId r, rte_targets := rte_targets r,
     rte_updatedAt := rte_updatedAt r\<rparr>"

definition upsertRoute :: "RoutePointer \<Rightarrow> (Db, RoutePointer) op" where
  "upsertRoute r s = (case getRoute s (rte_key r) of
       Some q \<Rightarrow>
         if no_row dep_id (rte_deploymentId r) (db_deployments s)
         then (s, writeError ''route'' (rte_id r) ForeignKeyFailed)
         else (s\<lparr>db_routes := update_by rte_key (rte_key r) (overwrite_route r) (db_routes s)\<rparr>,
               Inr (overwrite_route r q))
     | None \<Rightarrow> insert_row ''route'' (rte_id r) (has_key rte_id (rte_id r) (db_routes s))
         (no_row prj_id (rte_projectId r) (db_projects s)
           \<or> no_row dep_id (rte_deploymentId r) (db_deployments s))
         (\<lambda>s. s\<lparr>db_routes := db_routes s @ [r]\<rparr>) r s)"

definition deleteRoute :: "route_key \<Rightarrow> (Db, unit) op" where
  "deleteRoute k s = (s\<lparr>db_routes := delete_by rte_key k (db_routes s)\<rparr>, Inr ())"

text \<open>\<open>order by host asc, length(path_prefix) desc, path_prefix asc\<close>\<close>

definition route_order :: "RoutePointer \<Rightarrow> RoutePointer \<Rightarrow> bool" where
  "route_order a b \<longleftrightarrow> rte_host a < rte_host b \<or> (rte_host a = rte_host b \<and>
     (length (rte_pathPrefix b) < length (rte_pathPrefix a) \<or>
      (length (rte_pathPrefix b) = length (rte_pathPrefix a) \<and> rte_pathPrefix a \<le> rte_pathPrefix b)))"

definition listRoutes :: "Db \<Rightarrow> RoutePointer list" where
  "listRoutes s = js_sort route_order (db_routes s)"

subsection \<open>Runtime nodes and canary decisions\<close>

definition getRuntimeNode :: "Db \<Rightarrow> string \<Rightarrow> RuntimeNode option" where
  "getRuntimeNode s rid = row_by node_id rid (db_nodes s)"

definition repo_createRuntimeNode :: "RuntimeNode \<Rightarrow> (Db, RuntimeNode) op" where
  "repo_createRuntimeNode r s = insert_row ''runtime node'' (node_id r)
     (has_key node_id (node_id r) (db_nodes s) \<or> has_key node_url (node_url r) (db_nodes s))
     False (\<lambda>s. s\<lparr>db_nodes := db_nodes s @ [r]\<rparr>) r s"

definition overwrite_node :: "RuntimeNode \<Rightarrow> RuntimeNode \<Rightarrow> RuntimeNode" where
  "overwrite_node r q = r\<lparr>node_id := node_id q, node_url := node_url q,
     node_registeredAt := node_registeredAt q\<rparr>"

definition update_node :: "string \<Rightarrow> (RuntimeNode \<Rightarrow> RuntimeNode) \<Rightarrow> (Db, RuntimeNode) op" where
  "update_node rid f s = (case getRuntimeNode s rid of
       None \<Rightarrow> (s, throwC NotFound (''runtime node '' @ rid @ '' was not found''))
     | Some q \<Rightarrow> (s\<lparr>db_nodes := update_by node_id rid f (db_nodes s)\<rparr>, Inr (f q)))"

definition updateRuntimeNodeHeartbeat :: "RuntimeNode \<Rightarrow> (Db, RuntimeNode) op" where
  "updateRuntimeNodeHeartbeat r = update_node (node_id r) (overwrite_node r)"

definition repo_updateRuntimeNodeStatus :: "string \<Rightarrow> RuntimeNodeStatus \<Rightarrow> (Db, RuntimeNode) op" where
  "repo_updateRuntimeNodeStatus rid st = update_node rid (\<lambda>q. q\<lparr>node_status := st\<rparr>)"

definition deleteRuntimeNode :: "string \<Rightarrow> (Db, RuntimeNode) op" where
  "deleteRuntimeNode rid s = (case getRuntimeNode s rid of
       None \<Rightarrow> (s, throwC NotFound (''runtime node '' @ rid @ '' was not found''))
     | Some q \<Rightarrow> (s\<lparr>db_nodes := delete_by node_id rid (db_nodes s)\<rparr>, Inr q))"

definition listRuntimeNodes :: "Db \<Rightarrow> RuntimeNode list" where
  "listRuntimeNodes s = js_sort (\<lambda>a b. text_le (node_id a) (node_id b)) (db_nodes s)"

definition repo_createCanaryDecision :: "CanaryDecision \<Rightarrow> (Db, CanaryDecision) op" where
  "repo_createCanaryDecision r s = insert_row ''canary decision'' (can_id r)
     (has_key can_id (can_id r) (db_canary s))
     (no_row prj_id (can_projectId r) (db_projects s))
     (\<lambda>s. s\<lparr>db_canary := db_canary s @ [r]\<rparr>) r s"

subsection \<open>Resource counts\<close>

record ProjectResourceUsage =
  use_artifacts :: nat
  use_deployments :: nat
  use_routes :: nat
  use_secrets :: nat
  use_kvNamespaces :: nat
  use_durableObjectNamespaces :: nat

definition getProjectUsage :: "Db \<Rightarrow> string \<Rightarrow> ProjectResourceUsage" where
  "getProjectUsage s pid =
     \<lparr>use_artifacts = length (filter (\<lambda>r. art_projectId r = pid) (db_artifacts s)),
      use_deployments = length (filter (\<lambda>r. dep_projectId r = pid) (db_deployments s)),
      use_routes = length (filter (\<lambda>r. rte_projectId r = pid) (db_routes s)),
      use_secrets = length (filter (\<lambda>r. res_projectId (fst r) = pid) (db_secrets s)),
      use_kvNamespaces = length (filter (\<lambda>r. res_projectId r = pid) (db_kv s)),
      use_durableObjectNamespaces = length (filter (\<lambda>r. res_projectId r = pid) (db_dos s))\<rparr>"

subsection \<open>Every table is a keyed store\<close>

lemma insert_row_store:
  assumes look: "\<And>s k. look s k = row_by key k (rows s)"
    and add: "\<And>r s. add r s = insert_row kind (nm r) (has_key key (key r) (rows s) \<or> other r s)
      (dangling r s) (put r) r s"
    and put: "\<And>r s. rows (put r s) = rows s @ [r]"
  shows "keyed_store key look add"
proof
  show "look s k = Some r \<Longrightarrow> key r = k" for s k r
    by (auto simp: look dest: row_by_Some)
  show "look s (key r) \<noteq> None \<Longrightarrow> fails_with Conflict (snd (add r s))" for s r
    by (simp add: look add has_key_iff insert_row_taken)
  show "add r s = (s', Inl e) \<Longrightarrow> s' = s" for r s s' e
    by (auto simp: add dest: insert_row_Inl)
  show "add r s = (s', Inr r') \<Longrightarrow> r' = r \<and> look s (key r) = None
      \<and> look s' = (look s)(key r \<mapsto> r)" for r s s' r'
    by (auto simp: add insert_row_Inr has_key_iff look put row_by_append fun_eq_iff
        split: option.splits)
qed

named_theorems repo_defs "the statements of the repository"

lemmas [repo_defs] = getOrganization_def repo_createOrganization_def getUser_def
  repo_createUser_def getProject_def repo_createProject_def getArtifact_def
  repo_createArtifact_def getKvNamespace_def repo_createKvNamespace_def
  getDurableObjectNamespace_def repo_createDurableObjectNamespace_def getDeployment_def
  repo_createDeployment_def getRuntimeNode_def repo_createRuntimeNode_def getCustomDomain_def
  repo_createCustomDomain_def getDeployPreview_def repo_createDeployPreview_def
  create_resource_def

interpretation organizations: keyed_store org_id getOrganization repo_createOrganization
  by (rule insert_row_store [where rows = db_organizations], simp add: repo_defs, simp add: repo_defs, simp)

interpretation users: keyed_store user_id getUser repo_createUser
  by (rule insert_row_store [where rows = db_users], simp add: repo_defs, simp add: repo_defs, simp)

interpretation projects: keyed_store prj_id getProject repo_createProject
  by (rule insert_row_store [where rows = db_projects], simp add: repo_defs, simp add: repo_defs, simp)

interpretation artifacts: keyed_store art_id getArtifact repo_createArtifact
  by (rule insert_row_store [where rows = db_artifacts], simp add: repo_defs, simp add: repo_defs, simp)

interpretation kv_namespaces: keyed_store res_id getKvNamespace repo_createKvNamespace
  by (rule insert_row_store [where rows = db_kv], simp add: repo_defs, simp add: repo_defs, simp)

interpretation do_namespaces:
  keyed_store res_id getDurableObjectNamespace repo_createDurableObjectNamespace
  by (rule insert_row_store [where rows = db_dos], simp add: repo_defs, simp add: repo_defs, simp)

interpretation deployments: keyed_store dep_id getDeployment repo_createDeployment
  by (rule insert_row_store [where rows = db_deployments and other = "\<lambda>_ _. False"], simp add: repo_defs, simp add: repo_defs, simp)

interpretation runtime_nodes: keyed_store node_id getRuntimeNode repo_createRuntimeNode
  by (rule insert_row_store [where rows = db_nodes], simp add: repo_defs, simp add: repo_defs, simp)

interpretation domains: keyed_store dom_id getCustomDomain repo_createCustomDomain
  by (rule insert_row_store [where rows = db_domains], simp add: repo_defs, simp add: repo_defs, simp)

interpretation previews: keyed_store prv_id getDeployPreview repo_createDeployPreview
  by (rule insert_row_store [where rows = db_previews and other = "\<lambda>_ _. False"], simp add: repo_defs, simp add: repo_defs, simp)

end
