(* ===== verification/Quotas.thy ===== *)
theory Quotas
  imports Repository
begin

text \<open>
  Resource quotas (\<open>control-plane/quotas.ts\<close>). A limit is a JavaScript number or
  \<open>undefined\<close>; only a finite one counts, rounded down and not below zero.
\<close>

record ProjectQuotas =
  maxArtifacts :: "jnum option"
  maxDeployments :: "jnum option"
  maxRoutes :: "jnum option"
  maxSecrets :: "jnum option"
  maxKvNamespaces :: "jnum option"
  maxDurableObjectNamespaces :: "jnum option"

datatype ProjectQuotaResource =
  QArtifact | QDeployment | QRoute | QSecret | QKvNamespace | QDurableObjectNamespace

fun resource_name :: "ProjectQuotaResource \<Rightarrow> string" where
  "resource_name QArtifact = ''artifact''"
| "resource_name QDeployment = ''deployment''"
| "resource_name QRoute = ''route''"
| "resource_name QSecret = ''secret''"
| "resource_name QKvNamespace = ''kv namespace''"
| "resource_name QDurableObjectNamespace = ''durable object namespace''"

fun positiveLimit :: "jnum option \<Rightarrow> int option" where
  "positiveLimit (Some (Fin q)) = Some (max 0 \<lfloor>q\<rfloor>)"
| "positiveLimit _ = None"

fun quota_field :: "ProjectQuotas \<Rightarrow> ProjectQuotaResource \<Rightarrow> jnum option" where
  "quota_field q QArtifact = maxArtifacts q"
| "quota_field q QDeployment = maxDeployments q"
| "quota_field q QRoute = maxRoutes q"
| "quota_field q QSecret = maxSecrets q"
| "quota_field q QKvNamespace = maxKvNamespaces q"
| "quota_field q QDurableObjectNamespace = maxDurableObjectNamespaces q"

definition quotaLimit :: "ProjectQuotas option \<Rightarrow> ProjectQuotaResource \<Rightarrow> int option" where
  "quotaLimit quotas res = (case quotas of None \<Rightarrow> None | Some q \<Rightarrow> positiveLimit (quota_field q res))"

fun usageCount :: "ProjectResourceUsage \<Rightarrow> ProjectQuotaResource \<Rightarrow> nat" where
  "usageCount u QArtifact = use_artifacts u"
| "usageCount u QDeployment = use_deployments u"
| "usageCount u QRoute = use_routes u"
| "usageCount u QSecret = use_secrets u"
| "usageCount u QKvNamespace = use_kvNamespaces u"
| "usageCount u QDurableObjectNamespace = use_durableObjectNamespaces u"

definition enforceProjectQuota ::
    "string \<Rightarrow> ProjectQuotas option \<Rightarrow> ProjectResourceUsage \<Rightarrow> ProjectQuotaResource \<Rightarrow> unit cp" where
  "enforceProjectQuota pid quotas usage res = (case quotaLimit quotas res of
       None \<Rightarrow> Inr ()
     | Some limit \<Rightarrow> guardC (limit \<le> int (usageCount usage res)) Validation
         (resource_name res @ '' quota exceeded for project '' @ pid @ '': ''
            @ show_int (int (usageCount usage res)) @ ''/'' @ show_int limit))"

text \<open>\<open>projectQuotasFromEnv\<close>; the environment is a map from names to values.\<close>

definition envInteger :: "string option \<Rightarrow> int option" where
  "envInteger v = (case v of None \<Rightarrow> None
     | Some s \<Rightarrow> if s = [] \<or> trim s = [] then None else parse_int s)"

definition env_limit :: "string option \<Rightarrow> jnum option" where
  "env_limit v = map_option (\<lambda>n. Fin (of_int n))
     (positiveLimit (map_option (\<lambda>n. Fin (of_int n)) (envInteger v)))"

definition projectQuotasFromEnv :: "(string \<Rightarrow> string option) \<Rightarrow> ProjectQuotas option" where
  "projectQuotasFromEnv env =
     (let q = \<lparr>maxArtifacts = env_limit (env ''ODENCTL_QUOTA_MAX_ARTIFACTS''),
        maxDeployments = env_limit (env ''ODENCTL_QUOTA_MAX_DEPLOYMENTS''),
        maxRoutes = env_limit (env ''ODENCTL_QUOTA_MAX_ROUTES''),
        maxSecrets = env_limit (env ''ODENCTL_QUOTA_MAX_SECRETS''),
        maxKvNamespaces = env_limit (env ''ODENCTL_QUOTA_MAX_KV_NAMESPACES''),
        maxDurableObjectNamespaces = env_limit (env ''ODENCTL_QUOTA_MAX_DURABLE_OBJECT_NAMESPACES'')\<rparr>
      in if maxArtifacts q \<noteq> None \<or> maxDeployments q \<noteq> None \<or> maxRoutes q \<noteq> None
           \<or> maxSecrets q \<noteq> None \<or> maxKvNamespaces q \<noteq> None \<or> maxDurableObjectNamespaces q \<noteq> None
         then Some q else None)"

text \<open>There is room for one more resource.\<close>

definition within_quota ::
    "ProjectQuotas option \<Rightarrow> ProjectResourceUsage \<Rightarrow> ProjectQuotaResource \<Rightarrow> bool" where
  "within_quota quotas usage res \<longleftrightarrow>
     (\<forall>limit. quotaLimit quotas res = Some limit \<longrightarrow> int (usageCount usage res) < limit)"

lemma enforceProjectQuota_Inr:
  "enforceProjectQuota pid quotas usage res = Inr u \<longleftrightarrow> within_quota quotas usage res"
  by (auto simp: enforceProjectQuota_def within_quota_def split: option.splits)

lemma enforceProjectQuota_fails:
  "\<not> within_quota quotas usage res \<Longrightarrow> fails_with Validation (enforceProjectQuota pid quotas usage res)"
  by (auto simp: enforceProjectQuota_def within_quota_def split: option.splits)

lemma positiveLimit_nonneg: "positiveLimit v = Some n \<Longrightarrow> 0 \<le> n"
  by (cases v rule: positiveLimit.cases) auto

lemma positiveLimit_env_limit: "positiveLimit (env_limit v) = map_option (max 0) (envInteger v)"
  by (cases "envInteger v") (auto simp: env_limit_def)

end
