(* ===== verification/Admission.thy ===== *)
theory Admission
  imports Validity
begin

text \<open>
  The admission policy of \<open>control-plane/admission.ts\<close>: what an artifact and a deployment
  must satisfy before they are stored, and \<open>urlPrefixAllows\<close>, the prefix test it uses.
\<close>

record ControlPlaneAdmissionPolicy =
  adm_requireArtifactSignature :: bool
  adm_allowedArtifactSignatureKeyIds :: "string list option"
  adm_maxArtifactSizeBytes :: "int option"
  adm_allowedWorlds :: "string list option"
  adm_allowedWorldVersions :: "string list option"
  adm_allowedOutboundHttpPrefixes :: "string list option"
  adm_allowedKvNamespaceIds :: "string list option"
  adm_allowedDurableObjectNamespaceIds :: "string list option"
  adm_allowedSecretIds :: "string list option"
  adm_allowedServiceProjectIds :: "string list option"
  adm_allowedServiceUrlPrefixes :: "string list option"

record DeploymentAdmissionInput =
  adi_artifact :: Artifact
  adi_world :: string
  adi_worldVersion :: string
  adi_runtime :: RuntimeSpec
  adi_capabilities :: CapabilityPolicy

definition truthy :: "string option \<Rightarrow> bool" where
  "truthy v = (case v of None \<Rightarrow> False
     | Some s \<Rightarrow> toLowerCase (trim s) \<in> {''1'', ''true'', ''yes'', ''require''})"

definition csv :: "string option \<Rightarrow> string list" where
  "csv v = (case v of None \<Rightarrow> []
     | Some s \<Rightarrow> if s = [] then [] else filter (\<lambda>i. i \<noteq> []) (map trim (split_on (CHR '','') s)))"

definition csv_option :: "string option \<Rightarrow> string list option" where
  "csv_option v = (if csv v = [] then None else Some (csv v))"

definition env_positiveInteger :: "string option \<Rightarrow> int option" where
  "env_positiveInteger v = (case v of None \<Rightarrow> None
     | Some s \<Rightarrow> if s = [] then None
         else (case parse_int s of Some n \<Rightarrow> if 0 < n then Some n else None | None \<Rightarrow> None))"

definition no_policy :: ControlPlaneAdmissionPolicy where
  "no_policy = \<lparr>adm_requireArtifactSignature = False, adm_allowedArtifactSignatureKeyIds = None,
     adm_maxArtifactSizeBytes = None, adm_allowedWorlds = None, adm_allowedWorldVersions = None,
     adm_allowedOutboundHttpPrefixes = None, adm_allowedKvNamespaceIds = None,
     adm_allowedDurableObjectNamespaceIds = None, adm_allowedSecretIds = None,
     adm_allowedServiceProjectIds = None, adm_allowedServiceUrlPrefixes = None\<rparr>"

definition admissionPolicyFromEnv ::
    "(string \<Rightarrow> string option) \<Rightarrow> ControlPlaneAdmissionPolicy option" where
  "admissionPolicyFromEnv env =
     (let p = \<lparr>
        adm_requireArtifactSignature = truthy (env ''ODENCTL_ADMISSION_REQUIRE_ARTIFACT_SIGNATURE''),
        adm_allowedArtifactSignatureKeyIds =
          csv_option (env ''ODENCTL_ADMISSION_ARTIFACT_SIGNATURE_KEY_IDS''),
        adm_maxArtifactSizeBytes =
          env_positiveInteger (env ''ODENCTL_ADMISSION_MAX_ARTIFACT_SIZE_BYTES''),
        adm_allowedWorlds = csv_option (env ''ODENCTL_ADMISSION_ALLOWED_WORLDS''),
        adm_allowedWorldVersions = csv_option (env ''ODENCTL_ADMISSION_ALLOWED_WORLD_VERSIONS''),
        adm_allowedOutboundHttpPrefixes =
          csv_option (env ''ODENCTL_ADMISSION_OUTBOUND_HTTP_PREFIXES''),
        adm_allowedKvNamespaceIds = csv_option (env ''ODENCTL_ADMISSION_KV_NAMESPACE_IDS''),
        adm_allowedDurableObjectNamespaceIds =
          csv_option (env ''ODENCTL_ADMISSION_DURABLE_OBJECT_NAMESPACE_IDS''),
        adm_allowedSecretIds = csv_option (env ''ODENCTL_ADMISSION_SECRET_IDS''),
        adm_allowedServiceProjectIds = csv_option (env ''ODENCTL_ADMISSION_SERVICE_PROJECT_IDS''),
        adm_allowedServiceUrlPrefixes = csv_option (env ''ODENCTL_ADMISSION_SERVICE_URL_PREFIXES'')\<rparr>
      in if p = no_policy then None else Some p)"

subsection \<open>The prefix test\<close>

definition urlPrefixAllows :: "UrlApi \<Rightarrow> string \<Rightarrow> string \<Rightarrow> bool" where
  "urlPrefixAllows U pre v = (case (urlParse U pre, urlParse U v) of
       (Some allowed, Some requested) \<Rightarrow>
         if url_protocol allowed \<noteq> url_protocol requested \<or> url_host allowed \<noteq> url_host requested
         then False
         else if url_pathname allowed = ''/'' \<or> url_pathname allowed = [] then True
         else let allowedPath = (if endsWith (url_pathname allowed) ''/'' then url_pathname allowed
                                 else url_pathname allowed @ ''/'')
              in url_pathname requested = url_pathname allowed
                 \<or> startsWith (url_pathname requested) allowedPath
     | _ \<Rightarrow> False)"

subsection \<open>Enforcement\<close>

definition allowed_id :: "string list option \<Rightarrow> string \<Rightarrow> bool" where
  "allowed_id allowed i = (case allowed of None \<Rightarrow> True | Some ids \<Rightarrow> i \<in> set ids)"

definition enforceArtifactAdmissionPolicy ::
    "ControlPlaneAdmissionPolicy option \<Rightarrow> Artifact \<Rightarrow> unit cp" where
  "enforceArtifactAdmissionPolicy policy a = (case policy of None \<Rightarrow> Inr ()
     | Some p \<Rightarrow>
         bindE (guardC (adm_requireArtifactSignature p \<and> art_signature a = None) Validation
           (''artifact '' @ art_id a @ '' signature is required'')) (\<lambda>_.
         bindE (case adm_allowedArtifactSignatureKeyIds p of None \<Rightarrow> Inr ()
           | Some ids \<Rightarrow> guardC (case art_signature a of None \<Rightarrow> True
                 | Some g \<Rightarrow> sig_keyId g = [] \<or> sig_keyId g \<notin> set ids) Validation
               (''artifact '' @ art_id a @ '' signature key is not allowed'')) (\<lambda>_.
         (case adm_maxArtifactSizeBytes p of None \<Rightarrow> Inr ()
           | Some limit \<Rightarrow> guardC (limit < art_sizeBytes a) Validation
               (''artifact size '' @ show_int (art_sizeBytes a) @ '' exceeds admission limit ''
                 @ show_int limit)))))"

definition enforceOutboundHttpPolicy ::
    "UrlApi \<Rightarrow> ControlPlaneAdmissionPolicy \<Rightarrow> CapabilityPolicy \<Rightarrow> unit cp" where
  "enforceOutboundHttpPolicy U p c = (case adm_allowedOutboundHttpPrefixes p of None \<Rightarrow> Inr ()
     | Some pfxs \<Rightarrow> forE (\<lambda>a. guardC (\<not> list_ex (\<lambda>pre. urlPrefixAllows U pre a) pfxs) Validation
         (''outbound HTTP allow '' @ a @ '' is not allowed'')) (out_allow (cap_outboundHttp c)))"

definition enforceKvPolicy :: "ControlPlaneAdmissionPolicy \<Rightarrow> CapabilityPolicy \<Rightarrow> unit cp" where
  "enforceKvPolicy p c = (case adm_allowedKvNamespaceIds p of None \<Rightarrow> Inr ()
     | Some ids \<Rightarrow> forE (\<lambda>b. guardC (kv_namespaceId b \<notin> set ids) Validation
         (''kv namespace '' @ kv_namespaceId b @ '' is not allowed'')) (cap_kv c))"

definition enforceDurableObjectPolicy ::
    "ControlPlaneAdmissionPolicy \<Rightarrow> CapabilityPolicy \<Rightarrow> unit cp" where
  "enforceDurableObjectPolicy p c = (case adm_allowedDurableObjectNamespaceIds p of None \<Rightarrow> Inr ()
     | Some ids \<Rightarrow> forE (\<lambda>b. guardC (do_namespaceId b \<notin> set ids) Validation
         (''durable object namespace '' @ do_namespaceId b @ '' is not allowed'')) (cap_durableObjects c))"

definition enforceSecretPolicy :: "ControlPlaneAdmissionPolicy \<Rightarrow> CapabilityPolicy \<Rightarrow> unit cp" where
  "enforceSecretPolicy p c = (case adm_allowedSecretIds p of None \<Rightarrow> Inr ()
     | Some ids \<Rightarrow> forE (\<lambda>b. guardC (sec_secretId b \<notin> set ids) Validation
         (''secret '' @ sec_secretId b @ '' is not allowed'')) (cap_secrets c))"

definition enforceServicePolicy ::
    "UrlApi \<Rightarrow> ControlPlaneAdmissionPolicy \<Rightarrow> CapabilityPolicy \<Rightarrow> unit cp" where
  "enforceServicePolicy U p c =
     (if adm_allowedServiceProjectIds p = None \<and> adm_allowedServiceUrlPrefixes p = None then Inr ()
      else forE (\<lambda>b.
        bindE (guardC (\<not> allowed_id (adm_allowedServiceProjectIds p) (svc_targetProjectId b)) Validation
          (''service project '' @ svc_targetProjectId b @ '' is not allowed'')) (\<lambda>_.
        (case adm_allowedServiceUrlPrefixes p of None \<Rightarrow> Inr ()
          | Some pfxs \<Rightarrow> guardC (\<not> list_ex (\<lambda>pre. urlPrefixAllows U pre (svc_url b)) pfxs)
              Validation (''service url '' @ svc_url b @ '' is not allowed'')))) (cap_services c))"

definition enforceDeploymentAdmissionPolicy ::
    "UrlApi \<Rightarrow> ControlPlaneAdmissionPolicy option \<Rightarrow> DeploymentAdmissionInput \<Rightarrow> unit cp" where
  "enforceDeploymentAdmissionPolicy U policy i = (case policy of None \<Rightarrow> Inr ()
     | Some p \<Rightarrow>
         bindE (enforceArtifactAdmissionPolicy policy (adi_artifact i)) (\<lambda>_.
         bindE (guardC (\<not> allowed_id (adm_allowedWorlds p) (adi_world i)) Validation
           (''deployment world '' @ adi_world i @ '' is not allowed'')) (\<lambda>_.
         bindE (guardC (\<not> allowed_id (adm_allowedWorldVersions p) (adi_worldVersion i)) Validation
           (''deployment worldVersion '' @ adi_worldVersion i @ '' is not allowed'')) (\<lambda>_.
         bindE (enforceOutboundHttpPolicy U p (adi_capabilities i)) (\<lambda>_.
         bindE (enforceKvPolicy p (adi_capabilities i)) (\<lambda>_.
         bindE (enforceDurableObjectPolicy p (adi_capabilities i)) (\<lambda>_.
         bindE (enforceSecretPolicy p (adi_capabilities i)) (\<lambda>_.
         enforceServicePolicy U p (adi_capabilities i)))))))))"

subsection \<open>What a policy admits\<close>

text \<open>The policy as one predicate, field by field, with no order of checks.\<close>

definition admits_artifact :: "ControlPlaneAdmissionPolicy \<Rightarrow> Artifact \<Rightarrow> bool" where
  "admits_artifact p a \<longleftrightarrow>
     (adm_requireArtifactSignature p \<longrightarrow> art_signature a \<noteq> None)
     \<and> (\<forall>ids. adm_allowedArtifactSignatureKeyIds p = Some ids \<longrightarrow>
          (\<exists>g. art_signature a = Some g \<and> sig_keyId g \<noteq> [] \<and> sig_keyId g \<in> set ids))
     \<and> (\<forall>limit. adm_maxArtifactSizeBytes p = Some limit \<longrightarrow> art_sizeBytes a \<le> limit)"

definition admits_url :: "UrlApi \<Rightarrow> string list option \<Rightarrow> string \<Rightarrow> bool" where
  "admits_url U pfxs v \<longleftrightarrow>
     (\<forall>ps. pfxs = Some ps \<longrightarrow> (\<exists>p \<in> set ps. urlPrefixAllows U p v))"

definition admits_capabilities ::
    "UrlApi \<Rightarrow> ControlPlaneAdmissionPolicy \<Rightarrow> CapabilityPolicy \<Rightarrow> bool" where
  "admits_capabilities U p c \<longleftrightarrow>
     (\<forall>a \<in> set (out_allow (cap_outboundHttp c)). admits_url U (adm_allowedOutboundHttpPrefixes p) a)
     \<and> (\<forall>b \<in> set (cap_kv c). allowed_id (adm_allowedKvNamespaceIds p) (kv_namespaceId b))
     \<and> (\<forall>b \<in> set (cap_durableObjects c).
          allowed_id (adm_allowedDurableObjectNamespaceIds p) (do_namespaceId b))
     \<and> (\<forall>b \<in> set (cap_secrets c). allowed_id (adm_allowedSecretIds p) (sec_secretId b))
     \<and> (\<forall>b \<in> set (cap_services c). allowed_id (adm_allowedServiceProjectIds p) (svc_targetProjectId b)
          \<and> admits_url U (adm_allowedServiceUrlPrefixes p) (svc_url b))"

definition admits_deployment ::
    "UrlApi \<Rightarrow> ControlPlaneAdmissionPolicy \<Rightarrow> DeploymentAdmissionInput \<Rightarrow> bool" where
  "admits_deployment U p i \<longleftrightarrow> admits_artifact p (adi_artifact i)
     \<and> allowed_id (adm_allowedWorlds p) (adi_world i)
     \<and> allowed_id (adm_allowedWorldVersions p) (adi_worldVersion i)
     \<and> admits_capabilities U p (adi_capabilities i)"

lemma guardC_unit: "guardC b c msg = Inr () \<longleftrightarrow> \<not> b" by simp

lemma enforceArtifact_Inr:
  "enforceArtifactAdmissionPolicy (Some p) a = Inr () \<longleftrightarrow> admits_artifact p a"
  by (auto simp: enforceArtifactAdmissionPolicy_def admits_artifact_def bindE_Inr
      split: option.splits)

lemma enforce_capabilities_Inr:
  "enforceOutboundHttpPolicy U p c = Inr () \<longleftrightarrow>
     (\<forall>a \<in> set (out_allow (cap_outboundHttp c)). admits_url U (adm_allowedOutboundHttpPrefixes p) a)"
  "enforceKvPolicy p c = Inr () \<longleftrightarrow>
     (\<forall>b \<in> set (cap_kv c). allowed_id (adm_allowedKvNamespaceIds p) (kv_namespaceId b))"
  "enforceDurableObjectPolicy p c = Inr () \<longleftrightarrow>
     (\<forall>b \<in> set (cap_durableObjects c).
        allowed_id (adm_allowedDurableObjectNamespaceIds p) (do_namespaceId b))"
  "enforceSecretPolicy p c = Inr () \<longleftrightarrow>
     (\<forall>b \<in> set (cap_secrets c). allowed_id (adm_allowedSecretIds p) (sec_secretId b))"
  by (auto simp: enforceOutboundHttpPolicy_def enforceKvPolicy_def enforceDurableObjectPolicy_def
      enforceSecretPolicy_def admits_url_def allowed_id_def forE_Inr list_ex_iff split: option.splits)

lemma enforceService_Inr:
  "enforceServicePolicy U p c = Inr () \<longleftrightarrow>
     (\<forall>b \<in> set (cap_services c). allowed_id (adm_allowedServiceProjectIds p) (svc_targetProjectId b)
        \<and> admits_url U (adm_allowedServiceUrlPrefixes p) (svc_url b))"
  by (auto simp: enforceServicePolicy_def admits_url_def allowed_id_def forE_Inr bindE_Inr
      list_ex_iff split: option.splits)

text \<open>Every refusal of the policy is a validation error.\<close>

lemma enforceArtifact_only: "only_fails Validation (enforceArtifactAdmissionPolicy policy a)"
  unfolding enforceArtifactAdmissionPolicy_def
  by (intro only_fails_option only_fails_bindE) auto

lemma enforce_capabilities_only:
  "only_fails Validation (enforceOutboundHttpPolicy U p c)"
  "only_fails Validation (enforceKvPolicy p c)"
  "only_fails Validation (enforceDurableObjectPolicy p c)"
  "only_fails Validation (enforceSecretPolicy p c)"
  "only_fails Validation (enforceServicePolicy U p c)"
  unfolding enforceOutboundHttpPolicy_def enforceKvPolicy_def enforceDurableObjectPolicy_def
    enforceSecretPolicy_def enforceServicePolicy_def
  by (intro only_fails_option only_fails_if only_fails_forE only_fails_bindE; simp)+

lemma enforceDeployment_only:
  "only_fails Validation (enforceDeploymentAdmissionPolicy U policy i)"
  unfolding enforceDeploymentAdmissionPolicy_def
  by (intro only_fails_option only_fails_bindE enforceArtifact_only enforce_capabilities_only; simp)

lemma enforceDeployment_Inr:
  "enforceDeploymentAdmissionPolicy U (Some p) i = Inr () \<longleftrightarrow> admits_deployment U p i"
  by (simp add: enforceDeploymentAdmissionPolicy_def admits_deployment_def admits_capabilities_def
      bindE_Inr enforceArtifact_Inr enforce_capabilities_Inr enforceService_Inr)

end
