(* ===== verification/Service.thy ===== *)
theory Service
  imports Quotas Admission
begin

text \<open>
  The control plane of \<open>control-plane/service.ts\<close>: its configuration, the helpers that look a
  row up or throw, and the operations on organizations, users, projects, memberships and API keys.

  What \<open>createControlPlane\<close> receives or reads from the platform is the record \<open>Env\<close>: the id
  generator, the clock (one reading per operation: the text, and the
  milliseconds \<open>Date.parse\<close> gives for it), random bytes, the hash, the secret cipher,
  the signature verifier and the policies.
\<close>

record Env =
  env_urls :: UrlApi
  env_dates :: DateApi
  env_collate :: "string \<Rightarrow> string \<Rightarrow> bool"
  env_idGenerator :: "string \<Rightarrow> string"
  env_auditId :: string
  env_randomHex :: string
  env_sha256 :: "string \<Rightarrow> string"
  env_snapshotDigest :: "string \<Rightarrow> RouteSnapshotEntry list \<Rightarrow> string"
  env_now :: string
  env_nowMs :: int
  env_runtimeNodeActiveTtlMs :: "rat option"
  env_encrypt :: "string \<Rightarrow> string"
  env_verifyArtifact :: "Artifact \<Rightarrow> unit cp"
  env_projectQuotas :: "ProjectQuotas option"
  env_admissionPolicy :: "ControlPlaneAdmissionPolicy option"

type_synonym 'a service = "(Db, 'a) op"

subsection \<open>Lookups that throw\<close>

definition require :: "string \<Rightarrow> string \<Rightarrow> 'r option \<Rightarrow> 'r cp" where
  "require kind rid row = (case row of
       None \<Rightarrow> throwC NotFound (kind @ '' '' @ rid @ '' was not found'')
     | Some r \<Rightarrow> Inr r)"

lemma require_simps [simp]:
  "require kind rid None = throwC NotFound (kind @ '' '' @ rid @ '' was not found'')"
  "require kind rid (Some r) = Inr r"
  "require kind rid row = Inr q \<longleftrightarrow> row = Some q"
  by (auto simp: require_def split: option.splits)

definition requireOrganization :: "string \<Rightarrow> Db \<Rightarrow> Organization cp" where
  "requireOrganization rid s = require ''organization'' rid (getOrganization s rid)"

definition requireUser :: "string \<Rightarrow> Db \<Rightarrow> User cp" where
  "requireUser rid s = require ''user'' rid (getUser s rid)"

definition requireProject :: "string \<Rightarrow> Db \<Rightarrow> Project cp" where
  "requireProject rid s = require ''project'' rid (getProject s rid)"

definition requireProjectMembership :: "string \<Rightarrow> string \<Rightarrow> Db \<Rightarrow> ProjectMembership cp" where
  "requireProjectMembership pid uid s = require ''project membership'' (pid @ ''/'' @ uid)
     (find (\<lambda>m. mem_userId m = uid) (listProjectMemberships s pid))"

definition requireCustomDomain :: "string \<Rightarrow> Db \<Rightarrow> CustomDomain cp" where
  "requireCustomDomain rid s = require ''custom domain'' rid (getCustomDomain s rid)"

definition requireDeployPreview :: "string \<Rightarrow> Db \<Rightarrow> DeployPreview cp" where
  "requireDeployPreview rid s = require ''deploy preview'' rid (getDeployPreview s rid)"

definition requireArtifact :: "string \<Rightarrow> Db \<Rightarrow> Artifact cp" where
  "requireArtifact rid s = require ''artifact'' rid (getArtifact s rid)"

definition requireSecret :: "string \<Rightarrow> Db \<Rightarrow> Resource cp" where
  "requireSecret rid s = require ''secret'' rid (getSecret s rid)"

definition requireKvNamespace :: "string \<Rightarrow> Db \<Rightarrow> Resource cp" where
  "requireKvNamespace rid s = require ''kv namespace'' rid (getKvNamespace s rid)"

definition requireDurableObjectNamespace :: "string \<Rightarrow> Db \<Rightarrow> Resource cp" where
  "requireDurableObjectNamespace rid s =
     require ''durable object namespace'' rid (getDurableObjectNamespace s rid)"

definition requireDeployment :: "string \<Rightarrow> Db \<Rightarrow> Deployment cp" where
  "requireDeployment rid s = require ''deployment'' rid (getDeployment s rid)"

definition requireRoute :: "string \<Rightarrow> string \<Rightarrow> string \<Rightarrow> Db \<Rightarrow> RoutePointer cp" where
  "requireRoute pid host path s = require ''route'' (host @ path) (getRoute s (pid, host, path))"

named_theorems require_defs "the lookups that throw"

lemmas [require_defs] = requireOrganization_def requireUser_def requireProject_def
  requireProjectMembership_def requireCustomDomain_def requireDeployPreview_def
  requireArtifact_def requireSecret_def requireKvNamespace_def
  requireDurableObjectNamespace_def requireDeployment_def requireRoute_def

text \<open>\<open>optionalId(input.id, field) ?? idGenerator(prefix)\<close>\<close>

definition newId :: "Env \<Rightarrow> json \<Rightarrow> string \<Rightarrow> string \<Rightarrow> string cp" where
  "newId E v fld pre = bindE (optionalId v fld) (\<lambda>i. Inr (case i of
       None \<Rightarrow> env_idGenerator E pre | Some rid \<Rightarrow> rid))"

text \<open>A string in a conditional: \<open>undefined\<close> and the empty string are both false.\<close>

definition truthy_string :: "string option \<Rightarrow> string option" where
  "truthy_string v = (if v = Some [] then None else v)"

subsection \<open>The audit log\<close>

record AuditInput =
  ai_organizationId :: "string option"
  ai_projectId :: "string option"
  ai_action :: string
  ai_targetType :: string
  ai_targetId :: string
  ai_metadata :: "(string \<times> json) list"

definition recordCustomerAuditEvent :: "Env \<Rightarrow> AuditInput \<Rightarrow> AuditEvent service" where
  "recordCustomerAuditEvent E i =
     bindS (case truthy_string (ai_projectId i) of
         None \<Rightarrow> pureS None
       | Some pid \<Rightarrow> bindS (readS (requireProject pid)) (\<lambda>p. pureS (Some p))) (\<lambda>project.
     let oid = (case ai_organizationId i of
           Some x \<Rightarrow> Some x
         | None \<Rightarrow> (case project of None \<Rightarrow> None | Some p \<Rightarrow> prj_organizationId p))
     in repo_createCustomerAuditEvent
          \<lparr>aud_id = env_auditId E, aud_organizationId = truthy_string oid,
           aud_projectId = map_option prj_id project, aud_action = ai_action i,
           aud_targetType = ai_targetType i, aud_targetId = ai_targetId i,
           aud_metadata = ai_metadata i, aud_createdAt = env_now E\<rparr>)"

text \<open>\<open>createX(...)\<close> followed by the audit record of its result.\<close>

definition audited :: "Env \<Rightarrow> 'a service \<Rightarrow> ('a \<Rightarrow> AuditInput service) \<Rightarrow> 'a service" where
  "audited E m f = bindS m (\<lambda>x. bindS (f x) (\<lambda>i.
     bindS (recordCustomerAuditEvent E i) (\<lambda>_. pureS x)))"

text \<open>An audit record whose organization is that of project \<open>pid\<close>, read at that moment.\<close>

definition project_audit ::
    "string \<Rightarrow> string \<Rightarrow> string \<Rightarrow> string \<Rightarrow> (string \<times> json) list \<Rightarrow> AuditInput service" where
  "project_audit pid action ttype tid meta = bindS (readS (requireProject pid)) (\<lambda>p.
     pureS \<lparr>ai_organizationId = prj_organizationId p, ai_projectId = Some pid, ai_action = action,
            ai_targetType = ttype, ai_targetId = tid, ai_metadata = meta\<rparr>)"

subsection \<open>Organizations, users, projects\<close>

record CreateOrganizationInput =
  coi_id :: json
  coi_name :: json
  coi_billingProvider :: json
  coi_billingCustomerId :: json
  coi_paymentStatus :: json
  coi_billingEmail :: json

definition with_profile :: "string \<Rightarrow> string \<Rightarrow> BillingProfile \<Rightarrow> string \<Rightarrow> Organization" where
  "with_profile rid name p ts =
     \<lparr>org_id = rid, org_name = name, org_billingProvider = bp_billingProvider p,
      org_billingCustomerId = bp_billingCustomerId p, org_paymentStatus = bp_paymentStatus p,
      org_billingEmail = bp_billingEmail p,
      org_paymentStatusUpdatedAt = bp_paymentStatusUpdatedAt p, org_createdAt = ts\<rparr>"

definition createOrganization :: "Env \<Rightarrow> CreateOrganizationInput \<Rightarrow> Organization service" where
  "createOrganization E i =
     bindS (liftS (newId E (coi_id i) ''organization id'' ''org'')) (\<lambda>rid.
     bindS (liftS (normalizeOrganizationName (coi_name i))) (\<lambda>name.
     bindS (liftS (normalizeOrganizationBillingProfile
       \<lparr>bpi_billingProvider = coi_billingProvider i, bpi_billingCustomerId = coi_billingCustomerId i,
        bpi_paymentStatus = coi_paymentStatus i, bpi_billingEmail = coi_billingEmail i,
        bpi_paymentStatusUpdatedAt = env_now E\<rparr>)) (\<lambda>p.
     repo_createOrganization (with_profile rid name p (env_now E)))))"

fun provider_json :: "BillingProvider \<Rightarrow> json" where
  "provider_json NoBilling = JStr ''none''"
| "provider_json Stripe = JStr ''stripe''"
| "provider_json Manual = JStr ''manual''"

fun payment_json :: "PaymentStatus \<Rightarrow> json" where
  "payment_json PaymentPending = JStr ''payment_pending''"
| "payment_json Trialing = JStr ''trialing''"
| "payment_json PaymentActive = JStr ''active''"
| "payment_json PastDue = JStr ''past_due''"
| "payment_json Suspended = JStr ''suspended''"

definition opt_json :: "string option \<Rightarrow> json" where
  "opt_json v = (case v of None \<Rightarrow> JUndefined | Some s \<Rightarrow> JStr s)"

record UpdateOrganizationBillingInput =
  uob_organizationId :: string
  uob_billingProvider :: json
  uob_billingCustomerId :: json
  uob_paymentStatus :: json
  uob_billingEmail :: json

definition default_json :: "json \<Rightarrow> json \<Rightarrow> json" where
  "default_json v d = (if v = JUndefined then d else v)"

definition updateOrganizationBilling ::
    "Env \<Rightarrow> UpdateOrganizationBillingInput \<Rightarrow> Organization service" where
  "updateOrganizationBilling E i =
     bindS (readS (requireOrganization (uob_organizationId i))) (\<lambda>org.
     bindS (liftS (normalizeOrganizationBillingProfile
       \<lparr>bpi_billingProvider = default_json (uob_billingProvider i) (provider_json (org_billingProvider org)),
        bpi_billingCustomerId = default_json (uob_billingCustomerId i) (opt_json (org_billingCustomerId org)),
        bpi_paymentStatus = default_json (uob_paymentStatus i) (payment_json (org_paymentStatus org)),
        bpi_billingEmail = default_json (uob_billingEmail i) (opt_json (org_billingEmail org)),
        bpi_paymentStatusUpdatedAt = (if uob_paymentStatus i = JUndefined
          then org_paymentStatusUpdatedAt org else env_now E)\<rparr>)) (\<lambda>p.
     repo_updateOrganizationBilling (with_profile (org_id org) (org_name org) p (org_createdAt org))))"

record CreateUserInput =
  cui_id :: json
  cui_email :: json
  cui_name :: json
  cui_emailVerifiedAt :: json

definition createUser :: "Env \<Rightarrow> CreateUserInput \<Rightarrow> User service" where
  "createUser E i =
     bindS (liftS (normalizeUsageTimestamp (env_dates E) (cui_emailVerifiedAt i)
       ''user emailVerifiedAt'')) (\<lambda>verified.
     bindS (liftS (newId E (cui_id i) ''user id'' ''usr'')) (\<lambda>rid.
     bindS (liftS (normalizeUserEmail (cui_email i))) (\<lambda>email.
     bindS (liftS (normalizeUserName (cui_name i))) (\<lambda>name.
     repo_createUser \<lparr>user_id = rid, user_email = email, user_name = name,
       user_emailVerifiedAt = verified, user_createdAt = env_now E\<rparr>))))"

definition verifyUserEmail :: "Env \<Rightarrow> string \<Rightarrow> User service" where
  "verifyUserEmail E uid = bindS (readS (requireUser uid)) (\<lambda>_.
     repo_updateUserEmailVerification uid (env_now E))"

record CreateProjectInput =
  cpi_id :: json
  cpi_organizationId :: "string option"
  cpi_name :: json

definition createProject :: "Env \<Rightarrow> CreateProjectInput \<Rightarrow> Project service" where
  "createProject E i =
     bindS (case truthy_string (cpi_organizationId i) of None \<Rightarrow> pureS ()
       | Some oid \<Rightarrow> bindS (readS (requireOrganization oid)) (\<lambda>_. pureS ())) (\<lambda>_.
     bindS (liftS (newId E (cpi_id i) ''project id'' ''prj'')) (\<lambda>rid.
     bindS (liftS (normalizeProjectName (cpi_name i))) (\<lambda>name.
     repo_createProject \<lparr>prj_id = rid, prj_organizationId = truthy_string (cpi_organizationId i),
       prj_name = name, prj_createdAt = env_now E\<rparr>)))"

subsection \<open>Memberships\<close>

fun role_json :: "ProjectRole \<Rightarrow> json" where
  "role_json Owner = JStr ''owner''"
| "role_json Developer = JStr ''developer''"
| "role_json Viewer = JStr ''viewer''"

definition member_audit ::
    "Project \<Rightarrow> string \<Rightarrow> ProjectMembership \<Rightarrow> (string \<times> json) list \<Rightarrow> AuditInput" where
  "member_audit p action m meta =
     \<lparr>ai_organizationId = prj_organizationId p, ai_projectId = Some (prj_id p), ai_action = action,
      ai_targetType = ''project_member'', ai_targetId = mem_userId m, ai_metadata = meta\<rparr>"

definition role_meta :: "ProjectMembership \<Rightarrow> (string \<times> json) list" where
  "role_meta m = [(''role'', role_json (mem_role m)), (''userId'', JStr (mem_userId m))]"

definition addProjectMembership :: "Env \<Rightarrow> string \<Rightarrow> string \<Rightarrow> json \<Rightarrow> ProjectMembership service" where
  "addProjectMembership E pid uid role =
     bindS (readS (requireProject pid)) (\<lambda>project.
     bindS (readS (requireUser uid)) (\<lambda>_.
     bindS (liftS (normalizeProjectRole role)) (\<lambda>r.
     audited E (repo_createProjectMembership
         \<lparr>mem_projectId = pid, mem_userId = uid, mem_role = r, mem_inviteStatus = Pending,
          mem_invitedAt = env_now E, mem_acceptedAt = None, mem_createdAt = env_now E\<rparr>)
       (\<lambda>m. pureS (member_audit project ''project_member.added'' m (role_meta m))))))"

definition assertProjectKeepsOwner :: "ProjectMembership \<Rightarrow> Db \<Rightarrow> unit cp" where
  "assertProjectKeepsOwner current s =
     (if mem_role current \<noteq> Owner then Inr ()
      else let otherOwners = filter (\<lambda>m. mem_userId m \<noteq> mem_userId current \<and> mem_role m = Owner)
             (listProjectMemberships s (mem_projectId current))
        in bindE (guardC (otherOwners = []) Validation ''project must keep at least one owner'') (\<lambda>_.
           guardC (mem_inviteStatus current = Accepted
               \<and> \<not> list_ex (\<lambda>m. mem_inviteStatus m = Accepted) otherOwners)
             Validation ''project must keep at least one accepted owner''))"

definition updateProjectMembershipRole ::
    "Env \<Rightarrow> string \<Rightarrow> string \<Rightarrow> json \<Rightarrow> ProjectMembership service" where
  "updateProjectMembershipRole E pid uid role =
     bindS (readS (requireProject pid)) (\<lambda>project.
     bindS (readS (requireUser uid)) (\<lambda>_.
     bindS (liftS (normalizeProjectRole role)) (\<lambda>r.
     bindS (readS (requireProjectMembership pid uid)) (\<lambda>current.
     bindS (if mem_role current = Owner \<and> r \<noteq> Owner
            then readS (assertProjectKeepsOwner current) else pureS ()) (\<lambda>_.
     audited E (repo_updateProjectMembershipRole pid uid r)
       (\<lambda>m. pureS (member_audit project ''project_member.role_updated'' m
          [(''fromRole'', role_json (mem_role current)), (''toRole'', role_json (mem_role m)),
           (''userId'', JStr (mem_userId m))])))))))"

definition removeProjectMembership :: "Env \<Rightarrow> string \<Rightarrow> string \<Rightarrow> ProjectMembership service" where
  "removeProjectMembership E pid uid =
     bindS (readS (requireProject pid)) (\<lambda>project.
     bindS (readS (requireUser uid)) (\<lambda>_.
     bindS (readS (requireProjectMembership pid uid)) (\<lambda>current.
     bindS (readS (assertProjectKeepsOwner current)) (\<lambda>_.
     audited E (repo_deleteProjectMembership pid uid)
       (\<lambda>m. pureS (member_audit project ''project_member.removed'' m (role_meta m)))))))"

definition acceptProjectMembershipInvite :: "Env \<Rightarrow> string \<Rightarrow> string \<Rightarrow> ProjectMembership service" where
  "acceptProjectMembershipInvite E pid uid =
     bindS (readS (requireProject pid)) (\<lambda>project.
     bindS (readS (requireUser uid)) (\<lambda>_.
     audited E (repo_acceptProjectMembershipInvite pid uid (env_now E))
       (\<lambda>m. pureS (member_audit project ''project_member.accepted'' m (role_meta m)))))"

subsection \<open>API keys\<close>

record CreateApiKeyInput =
  cki_id :: json
  cki_organizationId :: "string option"
  cki_projectId :: "string option"
  cki_name :: json
  cki_scopes :: json

definition hashApiToken :: "Env \<Rightarrow> string \<Rightarrow> string" where
  "hashApiToken E token = ''sha256:'' @ env_sha256 E token"

definition newToken :: "Env \<Rightarrow> string" where
  "newToken E = ''wmp_'' @ env_randomHex E"

definition key_audit :: "ApiKey \<Rightarrow> string \<Rightarrow> (string \<times> json) list \<Rightarrow> AuditInput" where
  "key_audit k action meta =
     \<lparr>ai_organizationId = key_organizationId k, ai_projectId = key_projectId k, ai_action = action,
      ai_targetType = ''api_key'', ai_targetId = key_id k, ai_metadata = meta\<rparr>"

fun scope_json :: "ApiScope \<Rightarrow> json" where
  "scope_json AllScopes = JStr ''*''"
| "scope_json Read = JStr ''read''"
| "scope_json Write = JStr ''write''"
| "scope_json Publish = JStr ''publish''"

definition createApiKey :: "Env \<Rightarrow> CreateApiKeyInput \<Rightarrow> (ApiKey \<times> string) service" where
  "createApiKey E i =
     bindS (case truthy_string (cki_projectId i) of None \<Rightarrow> pureS None
       | Some pid \<Rightarrow> bindS (readS (requireProject pid)) (\<lambda>p. pureS (Some p))) (\<lambda>project.
     let oid = truthy_string (case cki_organizationId i of Some x \<Rightarrow> Some x
           | None \<Rightarrow> (case project of None \<Rightarrow> None | Some p \<Rightarrow> prj_organizationId p))
     in
     bindS (case oid of None \<Rightarrow> pureS ()
       | Some x \<Rightarrow> bindS (readS (requireOrganization x)) (\<lambda>_. pureS ())) (\<lambda>_.
     bindS (guardS (oid = None \<and> project = None) Validation
       ''api key requires organizationId or projectId'') (\<lambda>_.
     bindS (liftS (newId E (cki_id i) ''api key id'' ''key'')) (\<lambda>rid.
     bindS (liftS (normalizeApiKeyName (cki_name i))) (\<lambda>name.
     bindS (liftS (normalizeApiScopes (cki_scopes i))) (\<lambda>scopes.
     bindS (audited E (repo_createApiKey
         \<lparr>key_id = rid, key_organizationId = oid, key_projectId = map_option prj_id project,
          key_name = name, key_scopes = scopes, key_createdAt = env_now E,
          key_lastUsedAt = None, key_revokedAt = None\<rparr> (hashApiToken E (newToken E)))
       (\<lambda>k. pureS (key_audit k ''api_key.created''
          [(''scopes'', JArr (map scope_json (key_scopes k)))]))) (\<lambda>k.
     pureS (k, newToken E))))))))"

definition requireApiKeyId :: "json \<Rightarrow> string cp" where
  "requireApiKeyId v = bindE (optionalId v ''api key id'') (\<lambda>i. case i of
       None \<Rightarrow> throwC Validation ''api key id is required'' | Some rid \<Rightarrow> Inr rid)"

definition revokeApiKey :: "Env \<Rightarrow> json \<Rightarrow> ApiKey service" where
  "revokeApiKey E v =
     bindS (liftS (requireApiKeyId v)) (\<lambda>rid.
     audited E (repo_revokeApiKey rid (env_now E)) (\<lambda>k. pureS (key_audit k ''api_key.revoked'' [])))"

record RotateApiKeyInput =
  rki_id :: json
  rki_replacementId :: json
  rki_replacementName :: json

definition rotateApiKey :: "Env \<Rightarrow> RotateApiKeyInput \<Rightarrow> (ApiKey \<times> ApiKey \<times> string) service" where
  "rotateApiKey E i =
     bindS (liftS (requireApiKeyId (rki_id i))) (\<lambda>rid.
     bindS (liftS (newId E (rki_replacementId i) ''replacement api key id'' ''key'')) (\<lambda>newId.
     bindS (liftS (if rki_replacementName i = JUndefined then Inr None
       else bindE (normalizeApiKeyName (rki_replacementName i)) (\<lambda>n. Inr (Some n)))) (\<lambda>newName.
     bindS (audited E (repo_rotateApiKey rid newId newName (hashApiToken E (newToken E)) (env_now E))
       (\<lambda>(old, new). pureS (key_audit old ''api_key.rotated''
          [(''replacementId'', JStr (key_id new))]))) (\<lambda>(old, new).
     pureS (old, new, newToken E)))))"

record ApiToken =
  tok_token :: string
  tok_scopes :: "ApiScope list"
  tok_principal :: string
  tok_apiKeyId :: string
  tok_organizationId :: "string option"
  tok_projectId :: "string option"

definition authenticateApiToken :: "Env \<Rightarrow> json \<Rightarrow> ApiToken option service" where
  "authenticateApiToken E v =
     (let token = (case v of JStr s \<Rightarrow> trim s | _ \<Rightarrow> [])
      in if token = [] then pureS None
         else bindS (askS (\<lambda>s. getApiKeyByTokenHash s (hashApiToken E token))) (\<lambda>k. case k of
           None \<Rightarrow> pureS None
         | Some apiKey \<Rightarrow>
             if truthy_string (key_revokedAt apiKey) \<noteq> None then pureS None
             else bindS (repo_updateApiKeyLastUsed (key_id apiKey) (env_now E)) (\<lambda>used.
               pureS (Some \<lparr>tok_token = token, tok_scopes = key_scopes used,
                 tok_principal = ''api-key:'' @ key_id used, tok_apiKeyId = key_id used,
                 tok_organizationId = key_organizationId used, tok_projectId = key_projectId used\<rparr>))))"

subsection \<open>Readiness for production quotas\<close>

text \<open>\<open>productionQuotaReadinessChecks\<close>: the three checks as pairs of an id and its outcome.\<close>

definition productionQuotaReadinessChecks ::
    "Organization \<Rightarrow> string option \<Rightarrow> Db \<Rightarrow> (string \<times> bool) list cp" where
  "productionQuotaReadinessChecks org pid s =
     bindE (case truthy_string pid of
         Some rid \<Rightarrow> bindE (requireProject rid s) (\<lambda>p. Inr [p])
       | None \<Rightarrow> Inr (listOrganizationProjects s (org_id org))) (\<lambda>projects.
     let ownerMemberships = filter (\<lambda>m. mem_role m = Owner)
           (concat (map (\<lambda>p. listProjectMemberships s (prj_id p))
             (filter (\<lambda>p. prj_organizationId p = Some (org_id org)) projects)));
         acceptedOwners = filter (\<lambda>m. mem_inviteStatus m = Accepted) ownerMemberships;
         hasVerifiedAcceptedOwner = list_ex (\<lambda>m. case getUser s (mem_userId m) of
             None \<Rightarrow> False | Some u \<Rightarrow> truthy_string (user_emailVerifiedAt u) \<noteq> None) acceptedOwners
     in Inr [(''payment-active'', org_paymentStatus org = PaymentActive),
             (''owner-invite-accepted'', acceptedOwners \<noteq> []),
             (''owner-email-verified'', hasVerifiedAcceptedOwner)])"

end
