(* ===== verification/Canary.thy ===== *)
theory Canary
  imports Repository
begin

text \<open>
  The canary analysis of \<open>control-plane/canary-analysis.ts\<close>: metrics of the candidate's
  events, and the decision against the thresholds. Durations and rates are exact rationals.
\<close>

record CanaryMetricEvent =
  cev_deploymentId :: "string option"
  cev_status :: int
  cev_durationMs :: rat
  cev_errorCode :: "string option"

definition isErrorEvent :: "CanaryMetricEvent \<Rightarrow> bool" where
  "isErrorEvent e \<longleftrightarrow> 500 \<le> cev_status e \<or> (cev_errorCode e \<noteq> None \<and> cev_errorCode e \<noteq> Some [])"

definition isRejectedEvent :: "CanaryMetricEvent \<Rightarrow> bool" where
  "isRejectedEvent e \<longleftrightarrow> cev_status e = 429 \<or> cev_status e = 503
     \<or> cev_errorCode e = Some ''overloaded'' \<or> cev_errorCode e = Some ''rate_limited''"

definition percentile :: "rat list \<Rightarrow> int \<Rightarrow> rat" where
  "percentile vs p =
     (if vs = [] then 0
      else let index = \<lceil>(of_int p / 100 :: rat) * of_nat (length vs)\<rceil> - 1
           in vs ! nat (max 0 (min (int (length vs) - 1) index)))"

definition summarizeCanaryMetrics :: "CanaryMetricEvent list \<Rightarrow> CanaryMetrics" where
  "summarizeCanaryMetrics events =
     (let durations = js_sort (\<le>) (map (\<lambda>e. max 0 (cev_durationMs e)) events);
          errors = length (filter isErrorEvent events);
          rejects = length (filter isRejectedEvent events);
          requests = length events
      in \<lparr>cm_requests = int requests, cm_errors = int errors, cm_rejects = int rejects,
          cm_errorRate = (if requests = 0 then 0 else of_nat errors / of_nat requests),
          cm_p95Ms = percentile durations 95\<rparr>)"

definition analyzeCanaryEvents ::
    "CanaryMetricEvent list \<Rightarrow> string \<Rightarrow> CanaryThresholds \<Rightarrow>
     CanaryAction \<times> CanaryReason \<times> CanaryMetrics" where
  "analyzeCanaryEvents events candidate th =
     (let metrics = summarizeCanaryMetrics
            (filter (\<lambda>e. cev_deploymentId e = Some candidate) events);
          minRequests = (case th_minRequests th of None \<Rightarrow> 1 | Some n \<Rightarrow> n)
      in if cm_requests metrics < minRequests then (CanaryContinue, InsufficientSamples, metrics)
         else if (case th_rejectCount th of None \<Rightarrow> False | Some n \<Rightarrow> n < cm_rejects metrics)
         then (CanaryRollback, RejectCount, metrics)
         else if (case th_errorRate th of None \<Rightarrow> False | Some r \<Rightarrow> r < cm_errorRate metrics)
         then (CanaryRollback, ErrorRate, metrics)
         else if (case th_p95Ms th of None \<Rightarrow> False | Some r \<Rightarrow> r < cm_p95Ms metrics)
         then (CanaryRollback, P95Latency, metrics)
         else (CanaryContinue, WithinThresholds, metrics))"

subsection \<open>The nearest-rank percentile\<close>

lemma total_preorder_le: "total_preorder ((\<le>) :: 'a :: linorder \<Rightarrow> 'a \<Rightarrow> bool)"
  by (auto simp: total_preorder_def)

lemma sorted_js_sort_le: "sorted (js_sort (\<le>) (xs :: 'a :: linorder list))"
  using sorted_js_sort [OF total_preorder_le, of xs]
  by (simp add: sorted_wrt_iff_nth_less sorted_iff_nth_mono_less)

lemma sorted_filter_le_nth:
  assumes "sorted xs" and "i < length xs"
  shows "Suc i \<le> length (filter (\<lambda>x. x \<le> xs ! i) xs)"
proof -
  have "take (Suc i) xs = filter (\<lambda>x. x \<le> xs ! i) (take (Suc i) xs)"
    using assms by (auto simp: filter_id_conv in_set_conv_nth intro!: filter_True [symmetric]
        sorted_nth_mono)
  then have "Suc i = length (filter (\<lambda>x. x \<le> xs ! i) (take (Suc i) xs))"
    using assms(2) by (metis Suc_leI length_take min.absorb2)
  also have "\<dots> \<le> length (filter (\<lambda>x. x \<le> xs ! i) xs)"
    by (metis append_take_drop_id filter_append le_add1 length_append)
  finally show ?thesis .
qed

lemma sorted_filter_less_nth:
  assumes "sorted xs" and "i < length xs"
  shows "length (filter (\<lambda>x. x < xs ! i) xs) \<le> i"
proof -
  have "filter (\<lambda>x. x < xs ! i) (drop i xs) = []"
    using assms by (auto simp: filter_empty_conv in_set_conv_nth not_less intro!: sorted_nth_mono)
  then have "filter (\<lambda>x. x < xs ! i) xs = filter (\<lambda>x. x < xs ! i) (take i xs)"
    by (metis append_Nil2 append_take_drop_id filter_append)
  then show ?thesis
    using length_filter_le [of "\<lambda>x. x < xs ! i" "take i xs"] by simp
qed

lemma percentile_index:
  assumes "xs \<noteq> []" and "0 < p" and "p \<le> 100"
  shows "\<exists>i < length xs. percentile xs p = xs ! i
     \<and> of_int p / 100 * of_nat (length xs) \<le> (of_nat (Suc i) :: rat)
     \<and> (of_nat i :: rat) < of_int p / 100 * of_nat (length xs)"
proof -
  define q :: rat where "q = of_int p / 100 * of_nat (length xs)"
  have "0 < q" and "q \<le> of_nat (length xs)"
    using assms by (auto simp: q_def field_simps)
  then have c: "1 \<le> \<lceil>q\<rceil>" "\<lceil>q\<rceil> \<le> int (length xs)"
    by (auto simp: ceiling_le_iff)
  let ?i = "nat (\<lceil>q\<rceil> - 1)"
  have "percentile xs p = xs ! ?i"
    unfolding percentile_def Let_def q_def [symmetric]
    using assms(1) c by (simp add: min_absorb2 max_absorb2)
  moreover have "?i < length xs" using c by linarith
  moreover have "(of_nat (Suc ?i) :: rat) = of_int \<lceil>q\<rceil>"
    using c by (simp add: of_nat_nat)
  moreover have "(of_nat ?i :: rat) = of_int \<lceil>q\<rceil> - 1"
    using c by (simp add: of_nat_nat)
  moreover have "q \<le> of_int \<lceil>q\<rceil>" and "of_int \<lceil>q\<rceil> - 1 < q"
    using ceiling_correct [of q] by auto
  ultimately show ?thesis
    unfolding q_def [symmetric] by (intro exI [of _ ?i] conjI) (assumption | simp only:)+
qed

lemma percentile_sound:
  assumes "xs \<noteq> []" and "0 < p" and "p \<le> 100" and "sorted xs"
  shows "percentile xs p \<in> set xs"
    and "of_int p / 100 * of_nat (length xs)
       \<le> (of_nat (length (filter (\<lambda>x. x \<le> percentile xs p) xs)) :: rat)"
    and "(of_nat (length (filter (\<lambda>x. x < percentile xs p) xs)) :: rat)
       < of_int p / 100 * of_nat (length xs)"
proof -
  obtain i where i: "i < length xs" "percentile xs p = xs ! i"
      "of_int p / 100 * of_nat (length xs) \<le> (of_nat (Suc i) :: rat)"
      "(of_nat i :: rat) < of_int p / 100 * of_nat (length xs)"
    using percentile_index [OF assms(1-3)] by blast
  show "percentile xs p \<in> set xs" using i by simp
  have "(of_nat (Suc i) :: rat) \<le> of_nat (length (filter (\<lambda>x. x \<le> xs ! i) xs))"
    using sorted_filter_le_nth [OF assms(4) i(1)] by (simp only: of_nat_le_iff)
  then show "of_int p / 100 * of_nat (length xs)
       \<le> (of_nat (length (filter (\<lambda>x. x \<le> percentile xs p) xs)) :: rat)"
    using i(3) unfolding i(2) by linarith
  have "(of_nat (length (filter (\<lambda>x. x < xs ! i) xs)) :: rat) \<le> of_nat i"
    using sorted_filter_less_nth [OF assms(4) i(1)] by (simp only: of_nat_le_iff)
  then show "(of_nat (length (filter (\<lambda>x. x < percentile xs p) xs)) :: rat)
       < of_int p / 100 * of_nat (length xs)"
    using i(4) unfolding i(2) by linarith
qed

end
