(* ===== verification/Delivery.thy ===== *)
theory Delivery
  imports Service Canary
begin

text \<open>
  The delivery half of \<open>control-plane/service.ts\<close>: custom domains, previews, artifacts, secrets
  and namespaces, deployments, routes and canaries, route snapshots and runtime nodes.
\<close>

definition enforceQuota :: "Env \<Rightarrow> string \<Rightarrow> ProjectQuotaResource \<Rightarrow> unit service" where
  "enforceQuota E pid res = readS (\<lambda>s.
     enforceProjectQuota pid (env_projectQuotas E) (getProjectUsage s pid) res)"

subsection \<open>Custom domains\<close>

text \<open>A JavaScript value in a conditional.\<close>

fun js_truthy :: "json \<Rightarrow> bool" where
  "js_truthy JUndefined = False"
| "js_truthy JNull = False"
| "js_truthy (JBool b) = b"
| "js_truthy (JNum (Fin q)) = (q \<noteq> 0)"
| "js_truthy (JNum NaN) = False"
| "js_truthy (JNum (Infinity b)) = True"
| "js_truthy (JStr s) = (s \<noteq> [])"
| "js_truthy (JArr vs) = True"
| "js_truthy (JObj r) = True"

definition normalizeProvider :: "json \<Rightarrow> string \<Rightarrow> string cp" where
  "normalizeProvider v fld = (case v of
       JStr s \<Rightarrow> if trim s = [] \<or> 120 < length (trim s) \<or> \<not> isPrintable (trim s)
         then throwC Validation (fld @ '' must be a printable string up to 120 characters'')
         else Inr (trim s)
     | _ \<Rightarrow> throwC Validation (fld @ '' must be a string''))"

definition optionalNonEmpty :: "json \<Rightarrow> string \<Rightarrow> string option cp" where
  "optionalNonEmpty v fld = (if v = JUndefined then Inr None
     else bindE (normalizeProvider v fld) (\<lambda>s. Inr (Some s)))"

text \<open>\<open>...(value ? { key: normalizeProvider(value, field) } : {})\<close> over the old value.\<close>

definition spreadProvider :: "json \<Rightarrow> string \<Rightarrow> string option \<Rightarrow> string option cp" where
  "spreadProvider v fld old = (if js_truthy v
     then bindE (normalizeProvider v fld) (\<lambda>s. Inr (Some s)) else Inr old)"

definition customDomainVerificationRecordName :: "string \<Rightarrow> string" where
  "customDomainVerificationRecordName host = ''_odenctl-challenge.'' @ host"

definition customDomainVerificationRecordValue :: "string \<Rightarrow> string" where
  "customDomainVerificationRecordValue token = ''odenctl-domain-verification='' @ token"

definition txtRecordValues :: "json \<Rightarrow> string list cp" where
  "txtRecordValues v = (case v of
       JArr items \<Rightarrow> mapE (\<lambda>i. case i of JStr s \<Rightarrow> Inr (trim s)
         | _ \<Rightarrow> throwC Validation ''custom domain txtRecords must be strings'') items
     | _ \<Rightarrow> throwC Validation ''custom domain txtRecords must be an array'')"

definition createCustomDomain :: "Env \<Rightarrow> json \<Rightarrow> string \<Rightarrow> json \<Rightarrow> CustomDomain service" where
  "createCustomDomain E inputId pid inputHost =
     bindS (readS (requireProject pid)) (\<lambda>_.
     bindS (liftS (normalizeHost inputHost)) (\<lambda>host.
     let token = ''wmpdv_'' @ env_randomHex E in
     bindS (liftS (newId E inputId ''custom domain id'' ''dom'')) (\<lambda>rid.
     audited E (repo_createCustomDomain
         \<lparr>dom_id = rid, dom_projectId = pid, dom_host = host, dom_status = PendingVerification,
          dom_verificationToken = token,
          dom_verificationRecordName = customDomainVerificationRecordName host,
          dom_verificationRecordValue = customDomainVerificationRecordValue token,
          dom_tlsStatus = TlsNone, dom_tlsProvider = None, dom_tlsRequestId = None,
          dom_tlsError = None, dom_createdAt = env_now E, dom_updatedAt = env_now E,
          dom_verifiedAt = None, dom_tlsProvisionedAt = None\<rparr>)
       (\<lambda>d. project_audit (dom_projectId d) ''custom_domain.created'' ''custom_domain'' (dom_id d)
          [(''host'', JStr (dom_host d))]))))"

definition deleteCustomDomain :: "Env \<Rightarrow> string \<Rightarrow> CustomDomain service" where
  "deleteCustomDomain E rid =
     bindS (readS (requireCustomDomain rid)) (\<lambda>domain.
     bindS (askS (\<lambda>s. filter (\<lambda>r. rte_host r = dom_host domain) (listRoutes s))) (\<lambda>routes.
     bindS (guardS (list_ex (\<lambda>r. rte_projectId r \<noteq> dom_projectId domain) routes) Validation
       (''custom domain '' @ dom_host domain @ '' has a route owned by another project'')) (\<lambda>_.
     bindS (guardS (routes \<noteq> []) Validation
       (''custom domain '' @ dom_host domain @ '' still has routes'')) (\<lambda>_.
     audited E (repo_deleteCustomDomain (dom_id domain))
       (\<lambda>d. project_audit (dom_projectId d) ''custom_domain.deleted'' ''custom_domain'' (dom_id d)
          [(''host'', JStr (dom_host d))])))))"

definition verifyCustomDomainOwnership :: "Env \<Rightarrow> string \<Rightarrow> json \<Rightarrow> CustomDomain service" where
  "verifyCustomDomainOwnership E rid txtRecords =
     bindS (readS (requireCustomDomain rid)) (\<lambda>domain.
     bindS (liftS (txtRecordValues txtRecords)) (\<lambda>records.
     bindS (guardS (dom_verificationRecordValue domain \<notin> set records) Validation
       (''custom domain '' @ dom_host domain @ '' ownership TXT record was not found'')) (\<lambda>_.
     repo_updateCustomDomain (domain\<lparr>dom_status := Verified, dom_verifiedAt := Some (env_now E),
       dom_updatedAt := env_now E\<rparr>))))"

definition requestCustomDomainTlsProvisioning ::
    "Env \<Rightarrow> string \<Rightarrow> json \<Rightarrow> json \<Rightarrow> CustomDomain service" where
  "requestCustomDomainTlsProvisioning E rid provider requestId =
     bindS (readS (requireCustomDomain rid)) (\<lambda>domain.
     bindS (guardS (dom_status domain \<noteq> Verified \<and> dom_status domain \<noteq> TlsFailed
         \<and> dom_status domain \<noteq> DomainActive) Validation
       (''custom domain '' @ dom_host domain @ '' is not verified'')) (\<lambda>_.
     bindS (liftS (spreadProvider provider ''tls provider'' (dom_tlsProvider domain))) (\<lambda>prov.
     bindS (liftS (spreadProvider requestId ''tls requestId'' (dom_tlsRequestId domain))) (\<lambda>req.
     repo_updateCustomDomain (domain\<lparr>dom_status := TlsPending, dom_tlsStatus := TlsStatusPending,
       dom_tlsProvider := prov, dom_tlsRequestId := req, dom_tlsError := None,
       dom_updatedAt := env_now E\<rparr>)))))"

record CompleteTlsInput =
  cti_id :: string
  cti_ok :: json
  cti_provider :: json
  cti_requestId :: json
  cti_error :: json

definition completeCustomDomainTlsProvisioning :: "Env \<Rightarrow> CompleteTlsInput \<Rightarrow> CustomDomain service" where
  "completeCustomDomainTlsProvisioning E i =
     bindS (readS (requireCustomDomain (cti_id i))) (\<lambda>domain.
     bindS (liftS (case cti_ok i of JBool b \<Rightarrow> Inr b
       | _ \<Rightarrow> throwC Validation ''custom domain tls completion ok must be a boolean'')) (\<lambda>ok.
     bindS (liftS (spreadProvider (cti_provider i) ''tls provider'' (dom_tlsProvider domain))) (\<lambda>prov.
     bindS (liftS (spreadProvider (cti_requestId i) ''tls requestId'' (dom_tlsRequestId domain))) (\<lambda>req.
     bindS (liftS (if ok then Inr None else optionalNonEmpty (cti_error i) ''tls error'')) (\<lambda>err.
     repo_updateCustomDomain (domain\<lparr>dom_status := (if ok then DomainActive else TlsFailed),
       dom_tlsStatus := (if ok then TlsProvisioned else TlsStatusFailed),
       dom_tlsProvider := prov, dom_tlsRequestId := req, dom_tlsError := err,
       dom_updatedAt := env_now E,
       dom_tlsProvisionedAt := (if ok then Some (env_now E) else dom_tlsProvisionedAt domain)\<rparr>))))))"

definition enforceRouteCustomDomain :: "string \<Rightarrow> string \<Rightarrow> Db \<Rightarrow> unit cp" where
  "enforceRouteCustomDomain pid host s = (case getCustomDomainByHost s host of
       None \<Rightarrow> Inr ()
     | Some d \<Rightarrow>
         bindE (guardC (dom_projectId d \<noteq> pid) Validation
           (''custom domain '' @ host @ '' is owned by another project'')) (\<lambda>_.
         guardC (dom_status d \<noteq> DomainActive) Validation
           (''custom domain '' @ host @ '' is not active'')))"

subsection \<open>Artifacts, secrets and namespaces\<close>

record CreateArtifactInput =
  cai_id :: json
  cai_projectId :: string
  cai_digest :: json
  cai_location :: json
  cai_sizeBytes :: json
  cai_signature :: json
  cai_provenance :: json

definition createArtifact :: "Env \<Rightarrow> CreateArtifactInput \<Rightarrow> Artifact service" where
  "createArtifact E i =
     bindS (readS (requireProject (cai_projectId i))) (\<lambda>_.
     bindS (enforceQuota E (cai_projectId i) QArtifact) (\<lambda>_.
     bindS (liftS (newId E (cai_id i) ''artifact id'' ''art'')) (\<lambda>rid.
     bindS (liftS (normalizeDigest (cai_digest i))) (\<lambda>digest.
     bindS (liftS (normalizeLocation (cai_location i))) (\<lambda>location.
     bindS (liftS (normalizeSizeBytes (cai_sizeBytes i))) (\<lambda>size.
     bindS (liftS (normalizeArtifactSignature (cai_signature i))) (\<lambda>signature.
     bindS (liftS (normalizeArtifactProvenance (cai_provenance i))) (\<lambda>provenance.
     let artifact = \<lparr>art_id = rid, art_projectId = cai_projectId i, art_digest = digest,
           art_location = location, art_sizeBytes = size, art_signature = signature,
           art_provenance = provenance, art_createdAt = env_now E\<rparr>
     in bindS (liftS (enforceArtifactAdmissionPolicy (env_admissionPolicy E) artifact)) (\<lambda>_.
        repo_createArtifact artifact)))))))))"

definition new_resource :: "Env \<Rightarrow> string \<Rightarrow> string \<Rightarrow> string \<Rightarrow> Resource" where
  "new_resource E rid pid name = \<lparr>res_id = rid, res_projectId = pid, res_name = name,
     res_createdAt = env_now E, res_updatedAt = env_now E\<rparr>"

definition createSecret :: "Env \<Rightarrow> json \<Rightarrow> string \<Rightarrow> json \<Rightarrow> json \<Rightarrow> Resource service" where
  "createSecret E inputId pid inputName v =
     bindS (readS (requireProject pid)) (\<lambda>_.
     bindS (enforceQuota E pid QSecret) (\<lambda>_.
     bindS (liftS (newId E inputId ''secret id'' ''sec'')) (\<lambda>rid.
     bindS (liftS (normalizeSecretName inputName)) (\<lambda>name.
     bindS (liftS (normalizeSecretValue v)) (\<lambda>value.
     repo_createSecret (new_resource E rid pid name) (env_encrypt E value))))))"

definition updateSecretValue :: "Env \<Rightarrow> string \<Rightarrow> json \<Rightarrow> Resource service" where
  "updateSecretValue E rid v =
     bindS (readS (requireSecret rid)) (\<lambda>_.
     bindS (liftS (normalizeSecretValue v)) (\<lambda>value.
     repo_updateSecretValue rid (env_encrypt E value) (env_now E)))"

definition deleteSecret :: "string \<Rightarrow> unit service" where
  "deleteSecret rid = bindS (readS (requireSecret rid)) (\<lambda>_. repo_deleteSecret rid)"

definition createKvNamespace :: "Env \<Rightarrow> json \<Rightarrow> string \<Rightarrow> json \<Rightarrow> Resource service" where
  "createKvNamespace E inputId pid inputName =
     bindS (readS (requireProject pid)) (\<lambda>_.
     bindS (enforceQuota E pid QKvNamespace) (\<lambda>_.
     bindS (liftS (newId E inputId ''kv namespace id'' ''kv'')) (\<lambda>rid.
     bindS (liftS (normalizeKvNamespaceName inputName)) (\<lambda>name.
     repo_createKvNamespace (new_resource E rid pid name)))))"

definition deleteKvNamespace :: "string \<Rightarrow> unit service" where
  "deleteKvNamespace rid = bindS (readS (requireKvNamespace rid)) (\<lambda>_. repo_deleteKvNamespace rid)"

definition createDurableObjectNamespace :: "Env \<Rightarrow> json \<Rightarrow> string \<Rightarrow> json \<Rightarrow> Resource service" where
  "createDurableObjectNamespace E inputId pid inputName =
     bindS (readS (requireProject pid)) (\<lambda>_.
     bindS (enforceQuota E pid QDurableObjectNamespace) (\<lambda>_.
     bindS (liftS (newId E inputId ''durable object namespace id'' ''do'')) (\<lambda>rid.
     bindS (liftS (normalizeDurableObjectNamespaceName inputName)) (\<lambda>name.
     repo_createDurableObjectNamespace (new_resource E rid pid name)))))"

definition deleteDurableObjectNamespace :: "string \<Rightarrow> unit service" where
  "deleteDurableObjectNamespace rid =
     bindS (readS (requireDurableObjectNamespace rid)) (\<lambda>_. repo_deleteDurableObjectNamespace rid)"

subsection \<open>Deployments\<close>

text \<open>Each bound namespace or secret must exist and belong to the project.\<close>

definition same_project :: "string \<Rightarrow> string \<Rightarrow> string \<Rightarrow> Resource option \<Rightarrow> unit cp" where
  "same_project kind pid rid row = (case row of
       None \<Rightarrow> throwC Validation (kind @ '' '' @ rid @ '' was not found'')
     | Some r \<Rightarrow> guardC (res_projectId r \<noteq> pid) Validation
         (''deployment '' @ kind @ '' '' @ rid @ '' must belong to the same project''))"

definition requireDeploymentKvNamespaces :: "string \<Rightarrow> CapabilityPolicy \<Rightarrow> Db \<Rightarrow> unit cp" where
  "requireDeploymentKvNamespaces pid c s = forE (\<lambda>b.
     same_project ''kv namespace'' pid (kv_namespaceId b) (getKvNamespace s (kv_namespaceId b)))
     (cap_kv c)"

definition requireDeploymentDurableObjectNamespaces ::
    "string \<Rightarrow> CapabilityPolicy \<Rightarrow> Db \<Rightarrow> unit cp" where
  "requireDeploymentDurableObjectNamespaces pid c s = forE (\<lambda>b.
     same_project ''durable object namespace'' pid (do_namespaceId b)
       (getDurableObjectNamespace s (do_namespaceId b))) (cap_durableObjects c)"

definition requireDeploymentSecrets :: "string \<Rightarrow> CapabilityPolicy \<Rightarrow> Db \<Rightarrow> unit cp" where
  "requireDeploymentSecrets pid c s = forE (\<lambda>b.
     same_project ''secret'' pid (sec_secretId b) (getSecret s (sec_secretId b))) (cap_secrets c)"

definition requireDeploymentServiceBindings :: "CapabilityPolicy \<Rightarrow> Db \<Rightarrow> unit cp" where
  "requireDeploymentServiceBindings c s = forE (\<lambda>b.
     guardC (getProject s (svc_targetProjectId b) = None) Validation
       (''service target project '' @ svc_targetProjectId b @ '' was not found'')) (cap_services c)"

record CreateDeploymentInput =
  cdi_id :: json
  cdi_projectId :: string
  cdi_artifactId :: string
  cdi_world :: json
  cdi_runtime :: json
  cdi_limits :: json
  cdi_capabilities :: json

definition createDeployment :: "Env \<Rightarrow> CreateDeploymentInput \<Rightarrow> Deployment service" where
  "createDeployment E i =
     bindS (readS (requireProject (cdi_projectId i))) (\<lambda>_.
     bindS (enforceQuota E (cdi_projectId i) QDeployment) (\<lambda>_.
     bindS (readS (requireArtifact (cdi_artifactId i))) (\<lambda>artifact.
     bindS (guardS (art_projectId artifact \<noteq> cdi_projectId i) Validation
       ''deployment artifact must belong to the same project'') (\<lambda>_.
     bindS (liftS (normalizeCapabilities (env_urls E) (cdi_capabilities i))) (\<lambda>capabilities.
     bindS (liftS (normalizeWorld (cdi_world i))) (\<lambda>world.
     bindS (liftS (workerWorldVersion world)) (\<lambda>worldVersion.
     bindS (liftS (normalizeRuntime (cdi_runtime i))) (\<lambda>runtime.
     bindS (liftS (env_verifyArtifact E artifact)) (\<lambda>_.
     bindS (liftS (enforceDeploymentAdmissionPolicy (env_urls E) (env_admissionPolicy E)
       \<lparr>adi_artifact = artifact, adi_world = world, adi_worldVersion = worldVersion,
        adi_runtime = runtime, adi_capabilities = capabilities\<rparr>)) (\<lambda>_.
     bindS (readS (requireDeploymentKvNamespaces (cdi_projectId i) capabilities)) (\<lambda>_.
     bindS (readS (requireDeploymentDurableObjectNamespaces (cdi_projectId i) capabilities)) (\<lambda>_.
     bindS (readS (requireDeploymentSecrets (cdi_projectId i) capabilities)) (\<lambda>_.
     bindS (readS (requireDeploymentServiceBindings capabilities)) (\<lambda>_.
     bindS (liftS (newId E (cdi_id i) ''deployment id'' ''dep'')) (\<lambda>rid.
     bindS (liftS (normalizeLimits (cdi_limits i))) (\<lambda>limits.
     audited E (repo_createDeployment
         \<lparr>dep_id = rid, dep_projectId = cdi_projectId i, dep_artifactId = cdi_artifactId i,
          dep_world = world, dep_worldVersion = worldVersion, dep_runtime = runtime,
          dep_limits = limits, dep_capabilities = capabilities, dep_createdAt = env_now E\<rparr>)
       (\<lambda>d. project_audit (dep_projectId d) ''deployment.created'' ''deployment'' (dep_id d)
          [(''artifactId'', JStr (dep_artifactId d)), (''world'', JStr (dep_world d)),
           (''worldVersion'', JStr (dep_worldVersion d))])))))))))))))))))"

subsection \<open>Routes\<close>

record PointRouteInput =
  pri_id :: json
  pri_projectId :: string
  pri_host :: json
  pri_pathPrefix :: json
  pri_deploymentId :: "string option"
  pri_targets :: json

text \<open>The loop of \<open>pointRoute\<close> over its targets.\<close>

definition requireTargets :: "string \<Rightarrow> RouteTarget list \<Rightarrow> Db \<Rightarrow> unit cp" where
  "requireTargets pid targets s = forE (\<lambda>t.
     bindE (requireDeployment (tgt_deploymentId t) s) (\<lambda>d.
     guardC (dep_projectId d \<noteq> pid) Validation ''route deployment must belong to the same project''))
     targets"

definition pointRoute :: "Env \<Rightarrow> PointRouteInput \<Rightarrow> RoutePointer service" where
  "pointRoute E i =
     bindS (readS (requireProject (pri_projectId i))) (\<lambda>_.
     bindS (liftS (normalizeRouteTargets (pri_targets i) (pri_deploymentId i))) (\<lambda>targets.
     bindS (readS (requireTargets (pri_projectId i) targets)) (\<lambda>_.
     bindS (liftS (normalizeHost (pri_host i))) (\<lambda>host.
     bindS (liftS (normalizePathPrefix (pri_pathPrefix i))) (\<lambda>path.
     bindS (readS (enforceRouteCustomDomain (pri_projectId i) host)) (\<lambda>_.
     bindS (askS (\<lambda>s. getRoute s (pri_projectId i, host, path))) (\<lambda>existing.
     bindS (if existing = None then enforceQuota E (pri_projectId i) QRoute else pureS ()) (\<lambda>_.
     bindS (liftS (newId E (pri_id i) ''route id'' ''rte'')) (\<lambda>rid.
     audited E (upsertRoute
         \<lparr>rte_id = rid, rte_projectId = pri_projectId i, rte_host = host, rte_pathPrefix = path,
          rte_deploymentId = tgt_deploymentId (hd targets), rte_targets = targets,
          rte_updatedAt = env_now E\<rparr>)
       (\<lambda>r. project_audit (rte_projectId r) ''route.pointed'' ''route'' (rte_id r)
          [(''host'', JStr (rte_host r)), (''pathPrefix'', JStr (rte_pathPrefix r)),
           (''deploymentId'', JStr (rte_deploymentId r))]))))))))))"

text \<open>\<open>route.targets[0]?.deploymentId ?? route.deploymentId\<close>\<close>

definition stable_deployment :: "RoutePointer \<Rightarrow> string" where
  "stable_deployment r = (case rte_targets r of
       [] \<Rightarrow> rte_deploymentId r | t # _ \<Rightarrow> tgt_deploymentId t)"

definition canaryWeight :: "json \<Rightarrow> int cp" where
  "canaryWeight v = (case isInteger v of
       Some n \<Rightarrow> if n < 1 \<or> 99 < n
         then throwC Validation ''canary weight must be an integer between 1 and 99'' else Inr n
     | None \<Rightarrow> throwC Validation ''canary weight must be an integer between 1 and 99'')"

definition single_target :: "string \<Rightarrow> RouteTarget list" where
  "single_target d = [\<lparr>tgt_deploymentId = d, tgt_weight = 100\<rparr>]"

text \<open>\<open>{ ...existing, deploymentId, targets, updatedAt: now() }\<close>\<close>

definition retarget :: "Env \<Rightarrow> RoutePointer \<Rightarrow> string \<Rightarrow> RouteTarget list \<Rightarrow> RoutePointer" where
  "retarget E r d ts = r\<lparr>rte_deploymentId := d, rte_targets := ts, rte_updatedAt := env_now E\<rparr>"

record StartRouteCanaryInput =
  sci_projectId :: string
  sci_host :: json
  sci_pathPrefix :: json
  sci_deploymentId :: string
  sci_weight :: json

definition startRouteCanary :: "Env \<Rightarrow> StartRouteCanaryInput \<Rightarrow> RoutePointer service" where
  "startRouteCanary E i =
     bindS (readS (requireProject (sci_projectId i))) (\<lambda>_.
     bindS (liftS (normalizeHost (sci_host i))) (\<lambda>host.
     bindS (liftS (normalizePathPrefix (sci_pathPrefix i))) (\<lambda>path.
     bindS (readS (requireRoute (sci_projectId i) host path)) (\<lambda>existing.
     bindS (readS (requireDeployment (sci_deploymentId i))) (\<lambda>candidate.
     bindS (guardS (dep_projectId candidate \<noteq> sci_projectId i) Validation
       ''canary deployment must belong to the same project'') (\<lambda>_.
     let stable = stable_deployment existing in
     bindS (guardS (stable = dep_id candidate) Validation
       ''canary deployment must differ from stable deployment'') (\<lambda>_.
     bindS (liftS (canaryWeight (sci_weight i))) (\<lambda>w.
     upsertRoute (retarget E existing stable
       [\<lparr>tgt_deploymentId = stable, tgt_weight = 100 - w\<rparr>,
        \<lparr>tgt_deploymentId = dep_id candidate, tgt_weight = w\<rparr>])))))))))"

record RollbackRouteInput =
  rri_projectId :: string
  rri_host :: json
  rri_pathPrefix :: json
  rri_deploymentId :: "string option"

definition rollbackRoute :: "Env \<Rightarrow> RollbackRouteInput \<Rightarrow> RoutePointer service" where
  "rollbackRoute E i =
     bindS (readS (requireProject (rri_projectId i))) (\<lambda>_.
     bindS (liftS (normalizeHost (rri_host i))) (\<lambda>host.
     bindS (liftS (normalizePathPrefix (rri_pathPrefix i))) (\<lambda>path.
     bindS (readS (requireRoute (rri_projectId i) host path)) (\<lambda>existing.
     let d = (case rri_deploymentId i of None \<Rightarrow> stable_deployment existing | Some x \<Rightarrow> x) in
     bindS (readS (requireDeployment d)) (\<lambda>deployment.
     bindS (guardS (dep_projectId deployment \<noteq> rri_projectId i) Validation
       ''rollback deployment must belong to the same project'') (\<lambda>_.
     upsertRoute (retarget E existing d (single_target d))))))))"

record AnalyzeRouteCanaryInput =
  aci_projectId :: string
  aci_host :: json
  aci_pathPrefix :: json
  aci_candidateDeploymentId :: string
  aci_events :: "CanaryMetricEvent list"
  aci_thresholds :: CanaryThresholds

definition analyzeRouteCanary ::
    "Env \<Rightarrow> AnalyzeRouteCanaryInput \<Rightarrow> (CanaryDecision \<times> RoutePointer) service" where
  "analyzeRouteCanary E i =
     bindS (readS (requireProject (aci_projectId i))) (\<lambda>_.
     bindS (liftS (normalizeHost (aci_host i))) (\<lambda>host.
     bindS (liftS (normalizePathPrefix (aci_pathPrefix i))) (\<lambda>path.
     bindS (readS (requireRoute (aci_projectId i) host path)) (\<lambda>existing.
     let stable = stable_deployment existing in
     bindS (readS (requireDeployment (aci_candidateDeploymentId i))) (\<lambda>candidate.
     bindS (guardS (dep_projectId candidate \<noteq> aci_projectId i) Validation
       ''canary deployment must belong to the same project'') (\<lambda>_.
     bindS (guardS (dep_id candidate \<notin> tgt_deploymentId ` set (rte_targets existing)) Validation
       ''canary deployment is not a target of the route'') (\<lambda>_.
     let (action, reason, metrics) =
       analyzeCanaryEvents (aci_events i) (dep_id candidate) (aci_thresholds i) in
     bindS (repo_createCanaryDecision
       \<lparr>can_id = env_idGenerator E ''can'', can_projectId = aci_projectId i, can_host = host,
        can_pathPrefix = path, can_stableDeploymentId = stable,
        can_candidateDeploymentId = dep_id candidate, can_action = action, can_reason = reason,
        can_metrics = metrics, can_thresholds = aci_thresholds i, can_createdAt = env_now E\<rparr>) (\<lambda>decision.
     bindS (if action = CanaryRollback
            then upsertRoute (retarget E existing stable (single_target stable))
            else pureS existing) (\<lambda>route.
     pureS (decision, route))))))))))"

subsection \<open>Previews\<close>

definition is_env_name :: "string \<Rightarrow> bool" where
  "is_env_name k \<longleftrightarrow> k \<noteq> [] \<and> (is_upper (hd k) \<or> hd k = CHR ''_'')
     \<and> list_all (\<lambda>c. is_upper c \<or> is_digit c \<or> c = CHR ''_'') (tl k)"

definition environmentBinding :: "string \<times> json \<Rightarrow> (string \<times> string) cp" where
  "environmentBinding kv = (case kv of (key, v) \<Rightarrow>
     if \<not> is_env_name key
     then throwC Validation ''deploy preview environment binding keys must be env var names''
     else case v of
         JStr s \<Rightarrow> if 4096 < length s \<or> list_ex (\<lambda>c. c = char_of (0::nat)) s
           then throwC Validation (''deploy preview environment binding '' @ key
             @ '' must be a string up to 4096 characters'')
           else Inr (key, s)
       | _ \<Rightarrow> throwC Validation (''deploy preview environment binding '' @ key @ '' must be a string''))"

definition normalizeDeployPreviewEnvironment ::
    "(string \<Rightarrow> string \<Rightarrow> bool) \<Rightarrow> json \<Rightarrow> (string \<times> string) list cp" where
  "normalizeDeployPreviewEnvironment le v =
     (if v = JUndefined then Inr []
      else case v of
          JObj r \<Rightarrow> mapE environmentBinding (sortedEntries le r)
        | _ \<Rightarrow> throwC Validation ''deploy preview environment must be an object'')"

text \<open>\<open>replace(/[^a-z0-9]+/g, "-")\<close>: each maximal run becomes one hyphen.\<close>

fun collapse_runs :: "string \<Rightarrow> string" where
  "collapse_runs [] = []"
| "collapse_runs (c # cs) =
     (if is_lower c \<or> is_digit c then c # collapse_runs cs
      else (case cs of
          [] \<Rightarrow> ''-''
        | d # _ \<Rightarrow> if is_lower d \<or> is_digit d then CHR ''-'' # collapse_runs cs else collapse_runs cs))"

definition strip_hyphens :: "string \<Rightarrow> string" where
  "strip_hyphens s = rev (dropWhile (\<lambda>c. c = CHR ''-'') (rev (dropWhile (\<lambda>c. c = CHR ''-'') s)))"

definition dnsLabel :: "string \<Rightarrow> string" where
  "dnsLabel v = (let label = take 63 (strip_hyphens (collapse_runs (toLowerCase v)))
     in if label = [] then ''preview'' else label)"

definition defaultDeployPreviewHost :: "string \<Rightarrow> string \<Rightarrow> string" where
  "defaultDeployPreviewHost pid did = dnsLabel did @ ''.'' @ dnsLabel pid @ ''.preview.oden.local''"

definition deployPreviewUrl :: "string \<Rightarrow> string \<Rightarrow> string" where
  "deployPreviewUrl host path = ''https://'' @ host @ path"

definition deployPreviewPreviousRoute :: "RoutePointer \<Rightarrow> PreviousRoute" where
  "deployPreviewPreviousRoute r = \<lparr>pre_id = rte_id r, pre_deploymentId = rte_deploymentId r,
     pre_targets = rte_targets r, pre_updatedAt = rte_updatedAt r\<rparr>"

text \<open>\<open>value ?? d\<close>\<close>

definition nullish :: "json \<Rightarrow> json \<Rightarrow> json" where
  "nullish v d = (if v = JUndefined \<or> v = JNull then d else v)"

record CreateDeployPreviewInput =
  dpi_id :: json
  dpi_projectId :: string
  dpi_deploymentId :: string
  dpi_host :: json
  dpi_pathPrefix :: json
  dpi_environment :: json

definition createDeployPreview :: "Env \<Rightarrow> CreateDeployPreviewInput \<Rightarrow> DeployPreview service" where
  "createDeployPreview E i =
     bindS (readS (requireProject (dpi_projectId i))) (\<lambda>_.
     bindS (readS (requireDeployment (dpi_deploymentId i))) (\<lambda>deployment.
     bindS (guardS (dep_projectId deployment \<noteq> dpi_projectId i) Validation
       ''deploy preview deployment must belong to the same project'') (\<lambda>_.
     bindS (liftS (normalizeHost (nullish (dpi_host i)
       (JStr (defaultDeployPreviewHost (dpi_projectId i) (dpi_deploymentId i)))))) (\<lambda>host.
     bindS (liftS (normalizePathPrefix (nullish (dpi_pathPrefix i) (JStr ''/'')))) (\<lambda>path.
     bindS (liftS (normalizeDeployPreviewEnvironment (env_collate E) (dpi_environment i))) (\<lambda>environment.
     bindS (readS (enforceRouteCustomDomain (dpi_projectId i) host)) (\<lambda>_.
     bindS (askS (\<lambda>s. getRoute s (dpi_projectId i, host, path))) (\<lambda>existing.
     bindS (if existing = None then enforceQuota E (dpi_projectId i) QRoute else pureS ()) (\<lambda>_.
     bindS (liftS (newId E (dpi_id i) ''deploy preview id'' ''prv'')) (\<lambda>rid.
     bindS (upsertRoute
       \<lparr>rte_id = (case existing of Some r \<Rightarrow> rte_id r | None \<Rightarrow> env_idGenerator E ''rte''),
        rte_projectId = dpi_projectId i, rte_host = host, rte_pathPrefix = path,
        rte_deploymentId = dep_id deployment, rte_targets = single_target (dep_id deployment),
        rte_updatedAt = env_now E\<rparr>) (\<lambda>_.
     repo_createDeployPreview
       \<lparr>prv_id = rid, prv_projectId = dpi_projectId i, prv_deploymentId = dep_id deployment,
        prv_host = host, prv_pathPrefix = path, prv_url = deployPreviewUrl host path,
        prv_environment = environment, prv_status = PreviewActive, prv_createdAt = env_now E,
        prv_updatedAt = env_now E, prv_previousRoute = map_option deployPreviewPreviousRoute existing,
        prv_rolledBackAt = None\<rparr>)))))))))))"

definition rollbackDeployPreview :: "Env \<Rightarrow> string \<Rightarrow> DeployPreview service" where
  "rollbackDeployPreview E rid =
     bindS (readS (requireDeployPreview rid)) (\<lambda>preview.
     if prv_status preview = RolledBack then pureS preview
     else bindS (case prv_previousRoute preview of
         Some p \<Rightarrow> bindS (upsertRoute
             \<lparr>rte_id = pre_id p, rte_projectId = prv_projectId preview, rte_host = prv_host preview,
              rte_pathPrefix = prv_pathPrefix preview, rte_deploymentId = pre_deploymentId p,
              rte_targets = pre_targets p, rte_updatedAt = env_now E\<rparr>) (\<lambda>_. pureS ())
       | None \<Rightarrow> deleteRoute (prv_projectId preview, prv_host preview, prv_pathPrefix preview)) (\<lambda>_.
       repo_updateDeployPreview (preview\<lparr>prv_status := RolledBack, prv_updatedAt := env_now E,
         prv_rolledBackAt := Some (env_now E)\<rparr>)))"

subsection \<open>Route snapshots\<close>

text \<open>
  Building a snapshot throws a \<open>ControlPlaneError\<close> for a missing row, and a \<open>TypeError\<close> at
  \<open>primary.deploymentId\<close> for a route without targets.
\<close>

datatype js_exn = Thrown ControlPlaneError | TypeError

definition routeSnapshotArtifact :: "Artifact \<Rightarrow> SnapshotArtifact" where
  "routeSnapshotArtifact a = \<lparr>sa_id = art_id a, sa_digest = art_digest a, sa_location = art_location a,
     sa_signature = art_signature a, sa_provenance = art_provenance a\<rparr>"

definition routeSnapshotTarget :: "Db \<Rightarrow> RouteTarget \<Rightarrow> RouteSnapshotTarget cp" where
  "routeSnapshotTarget s t =
     bindE (requireDeployment (tgt_deploymentId t) s) (\<lambda>d.
     bindE (requireArtifact (dep_artifactId d) s) (\<lambda>a.
     Inr \<lparr>st_deploymentId = dep_id d, st_weight = tgt_weight t, st_world = dep_world d,
          st_worldVersion = dep_worldVersion d, st_runtime = dep_runtime d,
          st_limits = dep_limits d, st_capabilities = dep_capabilities d,
          st_artifact = routeSnapshotArtifact a\<rparr>))"

text \<open>\<open>routeSnapshotArtifact(primary.artifact)\<close> copies the artifact entry once more.\<close>

definition snapshotEntry :: "Db \<Rightarrow> RoutePointer \<Rightarrow> js_exn + RouteSnapshotEntry" where
  "snapshotEntry s r = (case mapE (routeSnapshotTarget s) (rte_targets r) of
       Inl e \<Rightarrow> Inl (Thrown e)
     | Inr [] \<Rightarrow> Inl TypeError
     | Inr (primary # rest) \<Rightarrow> Inr
         \<lparr>se_host = rte_host r, se_pathPrefix = rte_pathPrefix r, se_projectId = rte_projectId r,
          se_deploymentId = st_deploymentId primary, se_targets = primary # rest,
          se_world = st_world primary, se_worldVersion = st_worldVersion primary,
          se_runtime = st_runtime primary, se_limits = st_limits primary,
          se_capabilities = st_capabilities primary, se_artifact = st_artifact primary\<rparr>)"

definition snapshotId :: "Env \<Rightarrow> string \<Rightarrow> RouteSnapshotEntry list \<Rightarrow> string" where
  "snapshotId E generatedAt routes = ''snap_'' @ take 16 (env_snapshotDigest E generatedAt routes)"

definition createRouteSnapshot :: "Env \<Rightarrow> Db \<Rightarrow> js_exn + RouteSnapshot" where
  "createRouteSnapshot E s = bindE (mapE (snapshotEntry s) (listRoutes s)) (\<lambda>routes.
     Inr \<lparr>snap_id = Some (snapshotId E (env_now E) routes), snap_schemaVersion = 1,
          snap_generatedAt = env_now E, snap_routes = routes\<rparr>)"

subsection \<open>Runtime nodes\<close>

record RegisterRuntimeNodeInput =
  rni_id :: json
  rni_url :: json
  rni_status :: json
  rni_region :: json
  rni_labels :: json
  rni_identity :: json
  rni_host :: json

definition registerRuntimeNode :: "Env \<Rightarrow> RegisterRuntimeNodeInput \<Rightarrow> RuntimeNode service" where
  "registerRuntimeNode E i =
     bindS (liftS (normalizeRuntimeNodeIdentity (rni_identity i))) (\<lambda>identity.
     bindS (liftS (normalizeRuntimeNodeHostInfo (rni_host i))) (\<lambda>host.
     bindS (liftS (newId E (rni_id i) ''runtime node id'' ''rt'')) (\<lambda>rid.
     bindS (liftS (normalizeRuntimeNodeUrl (env_urls E) (rni_url i))) (\<lambda>url.
     bindS (liftS (normalizeRuntimeNodeStatus (rni_status i))) (\<lambda>status.
     bindS (liftS (normalizeRuntimeNodeRegion (rni_region i))) (\<lambda>region.
     bindS (liftS (normalizeRuntimeNodeLabels (env_collate E) (rni_labels i))) (\<lambda>labels.
     repo_createRuntimeNode
       \<lparr>node_id = rid, node_url = url, node_status = status, node_registeredAt = env_now E,
        node_lastSeenAt = None, node_version = None, node_capacity = None, node_region = region,
        node_labels = labels, node_load = None, node_identity = identity, node_host = host\<rparr>)))))))"

record HeartbeatInput =
  hbi_id :: string
  hbi_status :: json
  hbi_version :: "string option"
  hbi_capacity :: json
  hbi_load :: json
  hbi_identity :: json
  hbi_host :: json

definition or_else :: "'a option \<Rightarrow> 'a option \<Rightarrow> 'a option" where
  "or_else a b = (case a of None \<Rightarrow> b | Some x \<Rightarrow> Some x)"

definition recordRuntimeNodeHeartbeat :: "Env \<Rightarrow> HeartbeatInput \<Rightarrow> RuntimeNode service" where
  "recordRuntimeNodeHeartbeat E i =
     bindS (readS (\<lambda>s. require ''runtime node'' (hbi_id i) (getRuntimeNode s (hbi_id i)))) (\<lambda>existing.
     bindS (liftS (normalizeRuntimeNodeStatus (hbi_status i))) (\<lambda>status.
     bindS (liftS (normalizeRuntimeNodeCapacity (hbi_capacity i))) (\<lambda>capacity.
     bindS (liftS (normalizeRuntimeNodeLoad (hbi_load i))) (\<lambda>load.
     bindS (liftS (normalizeRuntimeNodeIdentity (hbi_identity i))) (\<lambda>identity.
     bindS (liftS (normalizeRuntimeNodeHostInfo (hbi_host i))) (\<lambda>host.
     updateRuntimeNodeHeartbeat (existing\<lparr>node_status := status,
       node_lastSeenAt := Some (env_now E), node_version := or_else (hbi_version i) (node_version existing),
       node_capacity := or_else capacity (node_capacity existing),
       node_load := or_else load (node_load existing),
       node_identity := or_else identity (node_identity existing),
       node_host := or_else host (node_host existing)\<rparr>)))))))"

definition updateRuntimeNodeStatus :: "string \<Rightarrow> json \<Rightarrow> RuntimeNode service" where
  "updateRuntimeNodeStatus rid v =
     bindS (liftS (normalizeRuntimeNodeStatus v)) (\<lambda>st. repo_updateRuntimeNodeStatus rid st)"

definition isSaturatedRuntimeNode :: "RuntimeNode \<Rightarrow> bool" where
  "isSaturatedRuntimeNode n = (case (node_capacity n, node_load n) of
       (Some c, Some activeRequests) \<Rightarrow> capy_concurrentRequests c \<le> activeRequests
     | _ \<Rightarrow> False)"

definition isActiveRuntimeNode :: "Env \<Rightarrow> RuntimeNode \<Rightarrow> bool" where
  "isActiveRuntimeNode E n =
     (if node_status n \<noteq> NodeActive then False
      else case env_runtimeNodeActiveTtlMs E of
          None \<Rightarrow> \<not> isSaturatedRuntimeNode n
        | Some ttl \<Rightarrow> (case truthy_string (node_lastSeenAt n) of
              None \<Rightarrow> False
            | Some seen \<Rightarrow> (case dateParse (env_dates E) seen of
                  None \<Rightarrow> False
                | Some ms \<Rightarrow> of_int (env_nowMs E - ms) \<le> ttl \<and> \<not> isSaturatedRuntimeNode n)))"

definition listActiveRuntimeNodes :: "Env \<Rightarrow> Db \<Rightarrow> RuntimeNode list" where
  "listActiveRuntimeNodes E s = filter (isActiveRuntimeNode E) (listRuntimeNodes s)"

definition cleanupOlderThanMs :: "json \<Rightarrow> int cp" where
  "cleanupOlderThanMs v = (case isInteger v of
       Some n \<Rightarrow> if n \<le> 0
         then throwC Validation ''runtime node cleanup olderThanMs must be a positive integer'' else Inr n
     | None \<Rightarrow> throwC Validation ''runtime node cleanup olderThanMs must be a positive integer'')"

definition cleanupStatuses :: "json \<Rightarrow> RuntimeNodeStatus list cp" where
  "cleanupStatuses v =
     (if v = JUndefined then Inr [NodeOffline]
      else case v of
          JArr (x # xs) \<Rightarrow> mapE normalizeRuntimeNodeStatus (x # xs)
        | _ \<Rightarrow> throwC Validation ''runtime node cleanup statuses must be a non-empty array'')"

text \<open>\<open>None\<close> is \<open>NaN\<close>, which compares false.\<close>

definition runtimeNodeObservedAtMs :: "Env \<Rightarrow> RuntimeNode \<Rightarrow> int option" where
  "runtimeNodeObservedAtMs E n = dateParse (env_dates E)
     (case node_lastSeenAt n of Some t \<Rightarrow> t | None \<Rightarrow> node_registeredAt n)"

definition is_stale :: "Env \<Rightarrow> RuntimeNodeStatus list \<Rightarrow> int \<Rightarrow> RuntimeNode \<Rightarrow> bool" where
  "is_stale E statuses cutoffMs n \<longleftrightarrow> node_status n \<in> set statuses
     \<and> (case runtimeNodeObservedAtMs E n of None \<Rightarrow> False | Some ms \<Rightarrow> ms < cutoffMs)"

fun deleteRuntimeNodes :: "RuntimeNode list \<Rightarrow> unit service" where
  "deleteRuntimeNodes [] = pureS ()"
| "deleteRuntimeNodes (n # ns) = bindS (deleteRuntimeNode (node_id n)) (\<lambda>_. deleteRuntimeNodes ns)"

definition cleanupRuntimeNodes :: "Env \<Rightarrow> json \<Rightarrow> json \<Rightarrow> (string \<times> RuntimeNode list) service" where
  "cleanupRuntimeNodes E olderThan statuses =
     bindS (liftS (cleanupOlderThanMs olderThan)) (\<lambda>olderThanMs.
     bindS (liftS (cleanupStatuses statuses)) (\<lambda>sts.
     let cutoffMs = env_nowMs E - olderThanMs in
     bindS (askS (\<lambda>s. filter (is_stale E sts cutoffMs) (listRuntimeNodes s))) (\<lambda>removed.
     bindS (deleteRuntimeNodes removed) (\<lambda>_.
     pureS (dateToISO (env_dates E) cutoffMs, removed)))))"

end
