(* ===== verification/Integrity.thy ===== *)
theory Integrity
  imports Delivery
begin

text \<open>
  The integrity of the control plane's database: what every stored project, artifact,
  deployment, route and preview satisfies, and that every operation preserves it. The operations
  are collected in \<open>command\<close>, and \<open>reachable\<close> is the states any sequence of them leads to.
\<close>

subsection \<open>Locations survive trimming\<close>

lemma trim_keeps_start:
  assumes "p \<noteq> []" and "\<not> js_ws (hd p)" and "\<not> js_ws (last p)"
  shows "\<exists>r. trim (p @ rest) = p @ r"
proof -
  have d: "dropWhile js_ws (p @ rest) = p @ rest"
    using assms by (cases p) auto
  have rp: "dropWhile js_ws (rev p) = rev p"
    using assms by (cases "rev p") (auto simp: hd_rev [symmetric])
  show ?thesis
  proof (cases "\<forall>c \<in> set rest. js_ws c")
    case True
    then have "dropWhile js_ws (rev rest @ rev p) = rev p"
      using rp dropWhile_append2 [of "rev rest" js_ws "rev p"] by simp
    then show ?thesis by (simp add: trim_def d)
  next
    case False
    then obtain c where "c \<in> set (rev rest)" "\<not> js_ws c" by auto
    then have "dropWhile js_ws (rev rest @ rev p) = dropWhile js_ws (rev rest) @ rev p"
      by (rule dropWhile_append1)
    then show ?thesis by (simp add: trim_def d)
  qed
qed

lemma startsWith_iff: "startsWith s p \<longleftrightarrow> (\<exists>r. s = p @ r)"
  by (simp add: startsWith_def prefix_def)

lemma startsWith_trim:
  "startsWith s p \<Longrightarrow> p \<noteq> [] \<Longrightarrow> \<not> js_ws (hd p) \<Longrightarrow> \<not> js_ws (last p) \<Longrightarrow> startsWith (trim s) p"
  using trim_keeps_start [of p] by (auto simp: startsWith_iff)

definition location_schemes :: "string list" where
  "location_schemes = [''oci://'', ''s3://'', ''file://'', ''http://'', ''https://'']"

lemma location_schemes_solid:
  "list_all (\<lambda>p. p \<noteq> [] \<and> \<not> js_ws (hd p) \<and> \<not> js_ws (last p)) location_schemes"
  by code_simp

lemma location_trim: "is_location l \<Longrightarrow> is_location (trim l) \<and> trim l \<noteq> []"
proof -
  assume "is_location l"
  then obtain p where p: "p \<in> set location_schemes" "startsWith l p"
    unfolding is_location_def location_schemes_def [symmetric] list_ex_iff by blast
  then have s: "p \<noteq> []" "startsWith (trim l) p"
    using location_schemes_solid by (auto simp: list_all_iff intro: startsWith_trim)
  then have "trim l \<noteq> []" by (auto simp: startsWith_iff)
  moreover have "is_location (trim l)"
    unfolding is_location_def location_schemes_def [symmetric] list_ex_iff using p(1) s(2) by blast
  ultimately show ?thesis by simp
qed

subsection \<open>What the rows satisfy\<close>

definition artifact_ok :: "Artifact \<Rightarrow> bool" where
  "artifact_ok a \<longleftrightarrow> clean (art_id a) \<and> valid_digest (art_digest a) \<and> is_location (art_location a)"

definition deployment_ok :: "UrlApi \<Rightarrow> Db \<Rightarrow> Deployment \<Rightarrow> bool" where
  "deployment_ok U s d \<longleftrightarrow> clean (dep_id d) \<and> dep_world d = MVP_WORKER_WORLD
     \<and> dep_worldVersion d = MVP_WORKER_WORLD_VERSION \<and> valid_runtime (dep_runtime d)
     \<and> valid_limits (dep_limits d) \<and> valid_capabilities U (dep_capabilities d)
     \<and> (\<exists>a. getArtifact s (dep_artifactId d) = Some a \<and> art_projectId a = dep_projectId d)"

text \<open>A target names a stored deployment of the route's own project.\<close>

definition owned_target :: "Db \<Rightarrow> string \<Rightarrow> RouteTarget \<Rightarrow> bool" where
  "owned_target s pid t \<longleftrightarrow>
     (\<exists>d. getDeployment s (tgt_deploymentId t) = Some d \<and> dep_projectId d = pid)"

definition owned_targets :: "Db \<Rightarrow> string \<Rightarrow> string \<Rightarrow> RouteTarget list \<Rightarrow> bool" where
  "owned_targets s pid did ts \<longleftrightarrow> valid_targets ts \<and> did = tgt_deploymentId (hd ts)
     \<and> list_all (owned_target s pid) ts"

definition route_ok :: "Db \<Rightarrow> RoutePointer \<Rightarrow> bool" where
  "route_ok s r \<longleftrightarrow> valid_host (rte_host r) \<and> valid_path (rte_pathPrefix r)
     \<and> getProject s (rte_projectId r) \<noteq> None
     \<and> owned_targets s (rte_projectId r) (rte_deploymentId r) (rte_targets r)"

definition preview_ok :: "Db \<Rightarrow> DeployPreview \<Rightarrow> bool" where
  "preview_ok s p \<longleftrightarrow> valid_host (prv_host p) \<and> valid_path (prv_pathPrefix p)
     \<and> getProject s (prv_projectId p) \<noteq> None
     \<and> (\<forall>q. prv_previousRoute p = Some q \<longrightarrow>
          owned_targets s (prv_projectId p) (pre_deploymentId q) (pre_targets q))"

definition db_ok :: "UrlApi \<Rightarrow> Db \<Rightarrow> bool" where
  "db_ok U s \<longleftrightarrow> list_all (\<lambda>p. clean (prj_id p)) (db_projects s)
     \<and> list_all artifact_ok (db_artifacts s)
     \<and> list_all (deployment_ok U s) (db_deployments s)
     \<and> list_all (route_ok s) (db_routes s)
     \<and> list_all (preview_ok s) (db_previews s)
     \<and> distinct (map rte_key (db_routes s))"

subsection \<open>Framing\<close>

text \<open>The part of the database \<open>db_ok\<close> reads; an operation that leaves it alone keeps \<open>db_ok\<close>.\<close>

definition core_rows where
  "core_rows s = (db_projects s, db_artifacts s, db_deployments s, db_routes s, db_previews s)"

lemma core_rows_eq: "core_rows s' = core_rows s \<longleftrightarrow>
    db_projects s' = db_projects s \<and> db_artifacts s' = db_artifacts s
    \<and> db_deployments s' = db_deployments s \<and> db_routes s' = db_routes s
    \<and> db_previews s' = db_previews s"
  by (auto simp: core_rows_def)

lemmas ok_defs = artifact_ok_def deployment_ok_def owned_target_def owned_targets_def route_ok_def
  preview_ok_def

lemma db_ok_core: "core_rows s' = core_rows s \<Longrightarrow> db_ok U s' = db_ok U s"
  unfolding core_rows_eq
  by (simp add: db_ok_def ok_defs [abs_def] getProject_def getArtifact_def getDeployment_def)

text \<open>Rows are only ever added to the tables the others refer to.\<close>

definition extends :: "Db \<Rightarrow> Db \<Rightarrow> bool" where
  "extends s s' \<longleftrightarrow> (\<forall>k x. getProject s k = Some x \<longrightarrow> getProject s' k = Some x)
     \<and> (\<forall>k x. getArtifact s k = Some x \<longrightarrow> getArtifact s' k = Some x)
     \<and> (\<forall>k x. getDeployment s k = Some x \<longrightarrow> getDeployment s' k = Some x)"

lemma owned_target_mono: "extends s s' \<Longrightarrow> owned_target s pid t \<Longrightarrow> owned_target s' pid t"
  by (auto simp: owned_target_def extends_def)

lemma owned_targets_mono: "extends s s' \<Longrightarrow> owned_targets s pid d ts \<Longrightarrow> owned_targets s' pid d ts"
  by (auto simp: owned_targets_def list_all_iff intro: owned_target_mono)

lemma rows_mono:
  assumes "extends s s'"
  shows "deployment_ok U s d \<Longrightarrow> deployment_ok U s' d"
    and "route_ok s r \<Longrightarrow> route_ok s' r"
    and "preview_ok s p \<Longrightarrow> preview_ok s' p"
  using assms owned_targets_mono [OF assms]
  by (auto simp: deployment_ok_def route_ok_def preview_ok_def extends_def)

lemma list_all_rows_mono:
  assumes "extends s s'"
  shows "list_all (deployment_ok U s) ds \<Longrightarrow> list_all (deployment_ok U s') ds"
    and "list_all (route_ok s) rs \<Longrightarrow> list_all (route_ok s') rs"
    and "list_all (preview_ok s) ps \<Longrightarrow> list_all (preview_ok s') ps"
  using rows_mono [OF assms] by (auto simp: list_all_iff)

subsection \<open>Operations that only read\<close>

definition reader :: "('s, 'a) op \<Rightarrow> bool" where
  "reader m \<longleftrightarrow> (\<forall>s. fst (m s) = s)"

named_theorems readers "operations that do not write"

lemma reader_prims [readers, intro]:
  "reader (pureS x)" "reader (liftS r)" "reader (readS h)" "reader (askS g)"
  "reader (throwS c msg)" "reader (guardS b c msg)"
  by (simp_all add: reader_def)

lemma reader_bindS [readers, intro]: "reader m \<Longrightarrow> (\<And>x. reader (f x)) \<Longrightarrow> reader (bindS m f)"
  by (auto simp: reader_def bindS_def split: prod.splits sum.splits) (metis fst_conv)+

lemma reader_if [readers, intro]: "reader m \<Longrightarrow> reader n \<Longrightarrow> reader (if b then m else n)"
  by simp

lemma reader_option [readers, intro]:
  "reader m \<Longrightarrow> (\<And>x. reader (n x)) \<Longrightarrow> reader (case v of None \<Rightarrow> m | Some x \<Rightarrow> n x)"
  by (cases v) auto

lemma reader_enforceQuota [readers, intro]: "reader (enforceQuota E pid res)"
  by (simp add: enforceQuota_def reader_prims)

lemma reader_project_audit [readers, intro]: "reader (project_audit pid a t i m)"
  unfolding project_audit_def by (intro readers)

lemma reader_bind_Inr: "reader m \<Longrightarrow> bindS m f s = (s'', Inr y) \<longleftrightarrow>
    (\<exists>x. m s = (s, Inr x) \<and> f x s = (s'', Inr y))"
proof -
  assume "reader m"
  then have "m s = (s', z) \<Longrightarrow> s' = s" for s' z by (metis reader_def fst_conv)
  then show ?thesis by (auto simp: bindS_Inr)
qed

text \<open>Walking through an operation: after a read, its result is known and the state is unchanged.\<close>

lemma inv_bind_reader:
  assumes "reader m" and "I s" and "\<And>x. m s = (s, Inr x) \<Longrightarrow> I (fst (f x s))"
  shows "I (fst (bindS m f s))"
proof (cases "m s")
  case (Pair s' res)
  with assms(1) have "s' = s" by (metis reader_def fst_conv)
  with Pair assms(2,3) show ?thesis by (cases res) (auto simp: bindS_def)
qed

lemma inv_bind:
  assumes "I (fst (m s))" and "\<And>s' x. m s = (s', Inr x) \<Longrightarrow> I s' \<Longrightarrow> I (fst (f x s'))"
  shows "I (fst (bindS m f s))"
proof (cases "m s")
  case (Pair s' res)
  with assms show ?thesis by (cases res) (auto simp: bindS_def)
qed

lemmas ok_read = inv_bind_reader [where I = "db_ok U" for U]
lemmas ok_bind = inv_bind [where I = "db_ok U" for U]

lemma ok_reader: "reader m \<Longrightarrow> db_ok U s \<Longrightarrow> db_ok U (fst (m s))"
  by (simp add: reader_def)

lemma ok_core: "core_rows (fst (m s)) = core_rows s \<Longrightarrow> db_ok U s \<Longrightarrow> db_ok U (fst (m s))"
  using db_ok_core by blast

lemma core_insert_row:
  "core_rows (put s) = core_rows s \<Longrightarrow> core_rows (fst (insert_row k i t d put r s)) = core_rows s"
  by (simp add: insert_row_fst)

lemma core_audit: "core_rows (fst (recordCustomerAuditEvent E i s)) = core_rows s"
proof -
  have c: "core_rows (fst (repo_createCustomerAuditEvent r t)) = core_rows t" for r t
    unfolding repo_createCustomerAuditEvent_def by (rule core_insert_row) (simp add: core_rows_def)
  show ?thesis
    unfolding recordCustomerAuditEvent_def Let_def
    by (rule inv_bind_reader [where I = "\<lambda>t. core_rows t = core_rows s"]) (auto simp: c)
qed

lemma ok_audited:
  assumes "db_ok U (fst (m s))" and "\<And>x. reader (f x)"
  shows "db_ok U (fst (audited E m f s))"
  unfolding audited_def
  by (intro ok_bind ok_read assms ok_core core_audit) (auto simp: reader_def)

subsection \<open>The writes that touch the core\<close>

lemma extends_refl [simp]: "extends s s"
  by (simp add: extends_def)

lemma extends_createProject: "extends s (fst (repo_createProject r s))"
  using projects.add_keeps_rows [of s _ _ r]
  by (auto simp: extends_def repo_createProject_def insert_row_fst getArtifact_def getDeployment_def)

lemma extends_createArtifact: "extends s (fst (repo_createArtifact r s))"
  using artifacts.add_keeps_rows [of s _ _ r]
  by (auto simp: extends_def repo_createArtifact_def insert_row_fst getProject_def getDeployment_def)

lemma extends_createDeployment: "extends s (fst (repo_createDeployment r s))"
  using deployments.add_keeps_rows [of s _ _ r]
  by (auto simp: extends_def repo_createDeployment_def insert_row_fst getProject_def getArtifact_def)

lemma ok_createProject:
  assumes "db_ok U s" and "clean (prj_id r)"
  shows "db_ok U (fst (repo_createProject r s))"
  using assms list_all_rows_mono [OF extends_createProject [of s r]]
  by (auto simp: db_ok_def repo_createProject_def insert_row_fst)

lemma ok_createArtifact:
  assumes "db_ok U s" and "artifact_ok r"
  shows "db_ok U (fst (repo_createArtifact r s))"
  using assms list_all_rows_mono [OF extends_createArtifact [of s r]]
  by (auto simp: db_ok_def repo_createArtifact_def insert_row_fst)

lemma ok_createDeployment:
  assumes "db_ok U s" and "deployment_ok U s r"
  shows "db_ok U (fst (repo_createDeployment r s))"
  using assms list_all_rows_mono [OF extends_createDeployment [of s r]]
    rows_mono(1) [OF extends_createDeployment [of s r] assms(2)]
  by (auto simp: db_ok_def repo_createDeployment_def insert_row_fst)

text \<open>Routes and previews are referred to by no other table.\<close>

lemma extends_same:
  "db_projects s' = db_projects s \<Longrightarrow> db_artifacts s' = db_artifacts s \<Longrightarrow>
   db_deployments s' = db_deployments s \<Longrightarrow> extends s s'"
  by (simp add: extends_def getProject_def getArtifact_def getDeployment_def)

lemma db_ok_routes:
  assumes "db_ok U s" and "list_all (route_ok s) rs" and "distinct (map rte_key rs)"
  shows "db_ok U (s\<lparr>db_routes := rs\<rparr>)"
proof -
  have "extends s (s\<lparr>db_routes := rs\<rparr>)" by (rule extends_same) simp_all
  from list_all_rows_mono [OF this] assms show ?thesis by (auto simp: db_ok_def)
qed

lemma db_ok_previews:
  assumes "db_ok U s" and "list_all (preview_ok s) ps"
  shows "db_ok U (s\<lparr>db_previews := ps\<rparr>)"
proof -
  have "extends s (s\<lparr>db_previews := ps\<rparr>)" by (rule extends_same) simp_all
  from list_all_rows_mono [OF this] assms show ?thesis by (auto simp: db_ok_def)
qed

lemma rte_key_overwrite [simp]: "rte_key (overwrite_route r q) = rte_key q"
  by (simp add: rte_key_def overwrite_route_def)

lemma route_ok_overwrite:
  "route_ok s r \<Longrightarrow> rte_key q = rte_key r \<Longrightarrow> route_ok s (overwrite_route r q)"
  by (auto simp: route_ok_def overwrite_route_def rte_key_def)

lemma ok_upsertRoute:
  assumes "db_ok U s" and "route_ok s r"
  shows "db_ok U (fst (upsertRoute r s))"
proof (cases "getRoute s (rte_key r)")
  case None
  then have "rte_key r \<notin> rte_key ` set (db_routes s)"
    by (simp add: getRoute_def row_by_None)
  then have "db_ok U (s\<lparr>db_routes := db_routes s @ [r]\<rparr>)"
    using assms by (intro db_ok_routes) (auto simp: db_ok_def)
  with None assms(1) show ?thesis by (simp add: upsertRoute_def insert_row_fst)
next
  case (Some q)
  have "list_all (route_ok s) (update_by rte_key (rte_key r) (overwrite_route r) (db_routes s))"
    using assms by (auto simp: db_ok_def list_all_iff update_by_def intro: route_ok_overwrite)
  moreover have "distinct (map rte_key (update_by rte_key (rte_key r) (overwrite_route r) (db_routes s)))"
    using assms(1) by (subst map_key_update) (auto simp: db_ok_def)
  ultimately have "db_ok U (s\<lparr>db_routes :=
      update_by rte_key (rte_key r) (overwrite_route r) (db_routes s)\<rparr>)"
    using assms(1) by (intro db_ok_routes)
  with Some assms(1) show ?thesis by (simp add: upsertRoute_def)
qed

lemma ok_deleteRoute: "db_ok U s \<Longrightarrow> db_ok U (fst (deleteRoute k s))"
  unfolding deleteRoute_def fst_conv
  by (rule db_ok_routes) (auto simp: db_ok_def list_all_iff set_delete_by intro: distinct_delete_by)

lemma ok_createDeployPreview:
  "db_ok U s \<Longrightarrow> preview_ok s r \<Longrightarrow> db_ok U (fst (repo_createDeployPreview r s))"
  by (auto simp: repo_createDeployPreview_def insert_row_fst intro!: db_ok_previews)
    (auto simp: db_ok_def)

lemma preview_ok_overwrite: "preview_ok s q \<Longrightarrow> preview_ok s (overwrite_preview r q)"
  by (simp add: preview_ok_def overwrite_preview_def)

lemma ok_updateDeployPreview: "db_ok U s \<Longrightarrow> db_ok U (fst (repo_updateDeployPreview r s))"
  by (auto simp: repo_updateDeployPreview_def split: option.splits intro!: db_ok_previews)
    (auto simp: db_ok_def list_all_iff update_by_def intro: preview_ok_overwrite)

text \<open>What a lookup finds satisfies the integrity conditions.\<close>

lemma row_by_all: "row_by key k t = Some r \<Longrightarrow> list_all P t \<Longrightarrow> P r"
  using row_by_Some by (fastforce simp: list_all_iff)

lemma ok_lookups:
  assumes "db_ok U s"
  shows "getProject s k = Some p \<Longrightarrow> clean k \<and> prj_id p = k"
    and "getArtifact s k = Some a \<Longrightarrow> artifact_ok a \<and> art_id a = k"
    and "getDeployment s k = Some d \<Longrightarrow> deployment_ok U s d \<and> dep_id d = k"
    and "getRoute s rk = Some r \<Longrightarrow> route_ok s r \<and> rte_key r = rk"
    and "getDeployPreview s k = Some v \<Longrightarrow> preview_ok s v \<and> prv_id v = k"
  using assms unfolding db_ok_def getProject_def getArtifact_def getDeployment_def getRoute_def
    getDeployPreview_def
  by (auto dest: row_by_all row_by_Some)

lemma deployment_clean: "db_ok U s \<Longrightarrow> getDeployment s k = Some d \<Longrightarrow> clean k"
  using ok_lookups(3) by (auto simp: deployment_ok_def)

subsection \<open>Every operation preserves the integrity\<close>

text \<open>
  What the configuration must provide: ids without surrounding whitespace, for the prefixes the
  service asks for.
\<close>

definition id_prefixes :: "string list" where
  "id_prefixes = [''org'', ''usr'', ''prj'', ''key'', ''dom'', ''prv'', ''rte'', ''art'', ''sec'',
     ''kv'', ''do'', ''dep'', ''can'', ''rt'']"

definition good_env :: "UrlApi \<Rightarrow> Env \<Rightarrow> bool" where
  "good_env U E \<longleftrightarrow> env_urls E = U \<and> list_all (\<lambda>p. clean (env_idGenerator E p)) id_prefixes"

lemma newId_clean:
  "good_env U E \<Longrightarrow> newId E v fld ''prj'' = Inr rid \<Longrightarrow> clean rid"
  "good_env U E \<Longrightarrow> newId E v fld ''art'' = Inr rid \<Longrightarrow> clean rid"
  "good_env U E \<Longrightarrow> newId E v fld ''dep'' = Inr rid \<Longrightarrow> clean rid"
  "good_env U E \<Longrightarrow> newId E v fld ''key'' = Inr rid \<Longrightarrow> clean rid"
  by (auto simp: newId_def bindE_Inr optionalId_def good_env_def id_prefixes_def
      split: if_splits dest: nonEmptyString_clean)

lemma ok_createProject_op:
  "db_ok U s \<Longrightarrow> good_env U E \<Longrightarrow> db_ok U (fst (createProject E i s))"
  unfolding createProject_def
  by (intro ok_read readers ok_createProject) (auto dest: newId_clean)

lemma ok_createArtifact_op:
  "db_ok U s \<Longrightarrow> good_env U E \<Longrightarrow> db_ok U (fst (createArtifact E i s))"
  unfolding createArtifact_def Let_def
  by (intro ok_read readers ok_createArtifact)
    (auto simp: artifact_ok_def normalizeLocation_accepts dest: newId_clean normalizeDigest_valid)

lemma ok_createDeployment_op:
  assumes "db_ok U s" and "good_env U E" and "url_roundtrip U"
  shows "db_ok U (fst (createDeployment E i s))"
  using assms unfolding createDeployment_def
  by (intro ok_read readers ok_audited ok_createDeployment)
    (auto simp: deployment_ok_def good_env_def require_defs normalizeWorld_def workerWorldVersion_def
      dest: newId_clean(3) [rotated] normalizeRuntime_valid normalizeLimits_valid
        normalizeCapabilities_valid split: if_splits)

lemma requireTargets_Inr: "requireTargets pid ts s = Inr u \<longleftrightarrow> list_all (owned_target s pid) ts"
  by (auto simp: requireTargets_def forE_Inr bindE_Inr requireDeployment_def owned_target_def
      list_all_iff)

lemma ok_pointRoute:
  assumes "db_ok U s"
  shows "db_ok U (fst (pointRoute E i s))"
  using assms unfolding pointRoute_def
  by (intro ok_read readers ok_audited ok_upsertRoute)
    (auto simp: route_ok_def owned_targets_def require_defs requireTargets_Inr
      dest: normalizeRouteTargets_valid normalizeHost_valid normalizePathPrefix_valid)

text \<open>Pointing an existing route at deployments of its own project.\<close>

lemma route_ok_retarget:
  "route_ok s r \<Longrightarrow> owned_targets s (rte_projectId r) d ts \<Longrightarrow> route_ok s (retarget E r d ts)"
  by (auto simp: route_ok_def retarget_def)

lemma owned_single:
  "getDeployment s d = Some x \<Longrightarrow> dep_projectId x = pid \<Longrightarrow> clean d \<Longrightarrow>
   owned_targets s pid d (single_target d)"
  by (auto simp: owned_targets_def valid_targets_def single_target_def owned_target_def)

lemma route_ok_stable:
  assumes "route_ok s r"
  shows "stable_deployment r = rte_deploymentId r"
    and "\<exists>d. getDeployment s (rte_deploymentId r) = Some d \<and> dep_projectId d = rte_projectId r"
    and "clean (rte_deploymentId r)"
  using assms by (cases "rte_targets r"; auto simp: route_ok_def owned_targets_def valid_targets_def
      owned_target_def stable_deployment_def)+

lemma owned_canary:
  "getDeployment s a = Some x \<Longrightarrow> dep_projectId x = pid \<Longrightarrow> clean a \<Longrightarrow>
   getDeployment s b = Some y \<Longrightarrow> dep_projectId y = pid \<Longrightarrow> clean b \<Longrightarrow> a \<noteq> b \<Longrightarrow>
   1 \<le> w \<Longrightarrow> w \<le> 99 \<Longrightarrow>
   owned_targets s pid a [\<lparr>tgt_deploymentId = a, tgt_weight = 100 - w\<rparr>,
     \<lparr>tgt_deploymentId = b, tgt_weight = w\<rparr>]"
  by (auto simp: owned_targets_def valid_targets_def owned_target_def)

lemma canaryWeight_Inr: "canaryWeight v = Inr w \<longleftrightarrow> v = JInt w \<and> 1 \<le> w \<and> w \<le> 99"
  by (auto simp: canaryWeight_def isInteger_Some split: option.splits)

lemma ok_route: "db_ok U s \<Longrightarrow> getRoute s (p, h, x) = Some r \<Longrightarrow>
    route_ok s r \<and> rte_projectId r = p \<and> rte_host r = h \<and> rte_pathPrefix r = x"
  by (auto dest: ok_lookups(4) simp: rte_key_def)

lemma ok_startRouteCanary:
  assumes "db_ok U s"
  shows "db_ok U (fst (startRouteCanary E i s))"
  unfolding startRouteCanary_def Let_def
proof (intro ok_read readers assms ok_upsertRoute, simp_all add: require_defs canaryWeight_Inr)
  fix host path existing candidate w
  assume *: "getRoute s (sci_projectId i, host, path) = Some existing"
    "getDeployment s (sci_deploymentId i) = Some candidate"
    "dep_projectId candidate = sci_projectId i" "stable_deployment existing \<noteq> dep_id candidate"
    "sci_weight i = JInt w \<and> 1 \<le> w \<and> w \<le> 99"
  note r = ok_route [OF assms *(1)] and d = ok_lookups(3) [OF assms *(2)]
  note st = route_ok_stable [of s existing]
  from r d st * show "route_ok s (retarget E existing (stable_deployment existing)
      [\<lparr>tgt_deploymentId = stable_deployment existing, tgt_weight = 100 - w\<rparr>,
       \<lparr>tgt_deploymentId = dep_id candidate, tgt_weight = w\<rparr>])"
    by (auto simp: deployment_ok_def intro!: route_ok_retarget owned_canary)
qed

lemma ok_rollbackRoute:
  assumes "db_ok U s"
  shows "db_ok U (fst (rollbackRoute E i s))"
  unfolding rollbackRoute_def Let_def
proof (intro ok_read readers assms ok_upsertRoute, simp_all add: require_defs)
  fix host path existing deployment
  let ?d = "case rri_deploymentId i of None \<Rightarrow> stable_deployment existing | Some x \<Rightarrow> x"
  assume *: "getRoute s (rri_projectId i, host, path) = Some existing"
    "getDeployment s ?d = Some deployment" "dep_projectId deployment = rri_projectId i"
  with ok_route [OF assms *(1)] deployment_clean [OF assms *(2)]
  show "route_ok s (retarget E existing ?d (single_target ?d))"
    by (intro route_ok_retarget owned_single) auto
qed

lemma core_canary: "core_rows (fst (repo_createCanaryDecision r s)) = core_rows s"
  unfolding repo_createCanaryDecision_def by (rule core_insert_row) (simp add: core_rows_def)

lemma canary_state: "repo_createCanaryDecision r s = (s', Inr x) \<Longrightarrow> core_rows s' = core_rows s"
  using core_canary [of r s] by simp

lemma route_ok_core: "core_rows s' = core_rows s \<Longrightarrow> route_ok s' r = route_ok s r"
  unfolding core_rows_eq by (simp add: ok_defs [abs_def] getProject_def getDeployment_def)

text \<open>The last two steps of the analysis, once its result is known.\<close>

lemma ok_decide:
  assumes "db_ok U s" and "route_ok s r"
  shows "db_ok U (fst (bindS (repo_createCanaryDecision c)
    (\<lambda>decision. bindS (if b then upsertRoute r else pureS q) (\<lambda>route. pureS (f decision route))) s))"
proof (rule ok_bind)
  show "db_ok U (fst (repo_createCanaryDecision c s))"
    using core_canary assms(1) by (rule ok_core)
next
  fix s' x
  assume "repo_createCanaryDecision c s = (s', Inr x)" and ok: "db_ok U s'"
  then have "route_ok s' r" using assms(2) canary_state route_ok_core by blast
  with ok have "db_ok U (fst ((if b then upsertRoute r else pureS q) s'))"
    by (simp add: ok_upsertRoute)
  then show "db_ok U (fst (bindS (if b then upsertRoute r else pureS q)
      (\<lambda>route. pureS (f x route)) s'))"
    by (rule ok_bind) simp
qed

lemma ok_analyzeRouteCanary:
  assumes "db_ok U s"
  shows "db_ok U (fst (analyzeRouteCanary E i s))"
  unfolding analyzeRouteCanary_def Let_def split_def
proof (intro ok_decide ok_read readers assms)
  fix a host path existing
  assume "readS (requireRoute (aci_projectId i) host path) s = (s, Inr existing)"
  then have e: "getRoute s (aci_projectId i, host, path) = Some existing"
    by (simp add: require_defs)
  show "route_ok s (retarget E existing (stable_deployment existing)
      (single_target (stable_deployment existing)))"
    using ok_route [OF assms e] route_ok_stable [of s existing]
    by (auto intro!: route_ok_retarget owned_single)
qed

lemma preview_ok_new:
  assumes "valid_host h" and "valid_path p" and "getProject s pid \<noteq> None"
    and "\<And>r. existing = Some r \<Longrightarrow> route_ok s r \<and> rte_projectId r = pid"
    and "prv_host v = h" "prv_pathPrefix v = p" "prv_projectId v = pid"
    and "prv_previousRoute v = map_option deployPreviewPreviousRoute existing"
  shows "preview_ok s v"
  using assms by (auto simp: preview_ok_def route_ok_def deployPreviewPreviousRoute_def)

lemma upsertRoute_tables:
  "db_projects (fst (upsertRoute r s)) = db_projects s"
  "db_artifacts (fst (upsertRoute r s)) = db_artifacts s"
  "db_deployments (fst (upsertRoute r s)) = db_deployments s"
  "db_previews (fst (upsertRoute r s)) = db_previews s"
  by (auto simp: upsertRoute_def insert_row_fst split: option.splits)

lemma extends_upsertRoute: "extends s (fst (upsertRoute r s))"
  by (rule extends_same) (simp_all add: upsertRoute_tables)

lemma upsertRoute_keeps_preview_ok: "preview_ok s v \<Longrightarrow> preview_ok (fst (upsertRoute r s)) v"
  by (rule rows_mono(3) [OF extends_upsertRoute])

text \<open>A preview row is written after its route: the state in between is \<open>s'\<close>.\<close>

lemma ok_preview_steps:
  assumes "db_ok U s" and "route_ok s r" and "preview_ok s v"
  shows "db_ok U (fst (bindS (upsertRoute r) (\<lambda>_. repo_createDeployPreview v) s))"
proof (rule ok_bind)
  show "db_ok U (fst (upsertRoute r s))" by (rule ok_upsertRoute) fact+
next
  fix s' x
  assume up: "upsertRoute r s = (s', Inr x)" and "db_ok U s'"
  then show "db_ok U (fst (repo_createDeployPreview v s'))"
    using upsertRoute_keeps_preview_ok [OF assms(3), of r] by (simp add: ok_createDeployPreview)
qed

lemma ok_createDeployPreview_op:
  assumes "db_ok U s"
  shows "db_ok U (fst (createDeployPreview E i s))"
  unfolding createDeployPreview_def
proof (intro ok_preview_steps ok_read readers assms, simp_all add: require_defs)
  fix p d host path environment existing rid
  assume *: "getProject s (dpi_projectId i) = Some p"
    "getDeployment s (dpi_deploymentId i) = Some d" "dep_projectId d = dpi_projectId i"
    and h: "normalizeHost (nullish (dpi_host i)
       (JStr (defaultDeployPreviewHost (dpi_projectId i) (dpi_deploymentId i)))) = Inr host"
    and x: "normalizePathPrefix (nullish (dpi_pathPrefix i) (JStr ''/'')) = Inr path"
    and old: "getRoute s (dpi_projectId i, host, path) = existing"
  note dep = ok_lookups(3) [OF assms *(2)] and cl = deployment_clean [OF assms *(2)]
  show "route_ok s \<lparr>rte_id = case existing of None \<Rightarrow> env_idGenerator E ''rte'' | Some r \<Rightarrow> rte_id r,
      rte_projectId = dpi_projectId i, rte_host = host, rte_pathPrefix = path,
      rte_deploymentId = dep_id d, rte_targets = single_target (dep_id d), rte_updatedAt = env_now E\<rparr>"
    using * dep cl normalizeHost_valid [OF h] normalizePathPrefix_valid [OF x]
    by (simp add: route_ok_def owned_single)
  show "preview_ok s \<lparr>prv_id = rid, prv_projectId = dpi_projectId i, prv_deploymentId = dep_id d,
      prv_host = host, prv_pathPrefix = path, prv_url = deployPreviewUrl host path,
      prv_environment = environment, prv_status = PreviewActive, prv_createdAt = env_now E,
      prv_updatedAt = env_now E, prv_previousRoute = map_option deployPreviewPreviousRoute existing,
      prv_rolledBackAt = None\<rparr>"
    by (rule preview_ok_new [OF normalizeHost_valid [OF h] normalizePathPrefix_valid [OF x]])
      (use * old ok_route [OF assms] in auto)
qed

lemma ok_rollbackDeployPreview:
  assumes "db_ok U s"
  shows "db_ok U (fst (rollbackDeployPreview E rid s))"
proof -
  have step: "db_ok U (fst (bindS (case prv_previousRoute v of
         Some p \<Rightarrow> bindS (upsertRoute
             \<lparr>rte_id = pre_id p, rte_projectId = prv_projectId v, rte_host = prv_host v,
              rte_pathPrefix = prv_pathPrefix v, rte_deploymentId = pre_deploymentId p,
              rte_targets = pre_targets p, rte_updatedAt = env_now E\<rparr>) (\<lambda>_. pureS ())
       | None \<Rightarrow> deleteRoute (prv_projectId v, prv_host v, prv_pathPrefix v))
      (\<lambda>_. repo_updateDeployPreview w) s))" if "preview_ok s v" for v w
  proof (rule ok_bind)
    show "db_ok U (fst ((case prv_previousRoute v of
         Some p \<Rightarrow> bindS (upsertRoute
             \<lparr>rte_id = pre_id p, rte_projectId = prv_projectId v, rte_host = prv_host v,
              rte_pathPrefix = prv_pathPrefix v, rte_deploymentId = pre_deploymentId p,
              rte_targets = pre_targets p, rte_updatedAt = env_now E\<rparr>) (\<lambda>_. pureS ())
       | None \<Rightarrow> deleteRoute (prv_projectId v, prv_host v, prv_pathPrefix v)) s))"
      using that assms
      by (auto split: option.split intro!: ok_bind ok_upsertRoute ok_deleteRoute
          simp: preview_ok_def route_ok_def)
  qed (rule ok_updateDeployPreview)
  show ?thesis
    unfolding rollbackDeployPreview_def
    by (rule ok_read)
      (use assms ok_lookups(5) [OF assms] step in \<open>auto simp: require_defs readers\<close>)
qed

text \<open>The other operations write outside the core.\<close>

named_theorems core_ops "writes outside the core"

lemma core_repo [core_ops]:
  "core_rows (fst (repo_createOrganization r1 s)) = core_rows s"
  "core_rows (fst (repo_updateOrganizationBilling r1 s)) = core_rows s"
  "core_rows (fst (repo_createUser r2 s)) = core_rows s"
  "core_rows (fst (repo_updateUserEmailVerification rid t s)) = core_rows s"
  "core_rows (fst (repo_createProjectMembership r3 s)) = core_rows s"
  "core_rows (fst (repo_acceptProjectMembershipInvite pid uid t s)) = core_rows s"
  "core_rows (fst (repo_updateProjectMembershipRole pid uid role s)) = core_rows s"
  "core_rows (fst (repo_deleteProjectMembership pid uid s)) = core_rows s"
  "core_rows (fst (repo_createApiKey r4 h s)) = core_rows s"
  "core_rows (fst (repo_updateApiKeyLastUsed rid t s)) = core_rows s"
  "core_rows (fst (repo_revokeApiKey rid t s)) = core_rows s"
  "core_rows (fst (repo_createCustomDomain r5 s)) = core_rows s"
  "core_rows (fst (repo_updateCustomDomain r5 s)) = core_rows s"
  "core_rows (fst (repo_deleteCustomDomain rid s)) = core_rows s"
  by (auto simp: core_rows_def repo_createOrganization_def repo_updateOrganizationBilling_def
      repo_createUser_def repo_updateUserEmailVerification_def repo_createProjectMembership_def
      repo_acceptProjectMembershipInvite_def repo_updateProjectMembershipRole_def
      update_membership_def repo_deleteProjectMembership_def repo_createApiKey_def
      repo_updateApiKeyLastUsed_def repo_revokeApiKey_def update_api_key_def
      repo_createCustomDomain_def repo_updateCustomDomain_def repo_deleteCustomDomain_def
      insert_row_fst Let_def split: option.splits)

lemma core_rotate [core_ops]:
  "core_rows (fst (repo_rotateApiKey rid nid nname h t s)) = core_rows s"
  by (auto simp: core_rows_def repo_rotateApiKey_def repo_createApiKey_def insert_row_def Let_def
      split: option.splits prod.splits sum.splits if_splits)

lemma core_resources [core_ops]:
  "core_rows (fst (repo_createSecret r v s)) = core_rows s"
  "core_rows (fst (repo_updateSecretValue rid v t s)) = core_rows s"
  "core_rows (fst (repo_deleteSecret rid s)) = core_rows s"
  "core_rows (fst (repo_createKvNamespace r s)) = core_rows s"
  "core_rows (fst (repo_deleteKvNamespace rid s)) = core_rows s"
  "core_rows (fst (repo_createDurableObjectNamespace r s)) = core_rows s"
  "core_rows (fst (repo_deleteDurableObjectNamespace rid s)) = core_rows s"
  "core_rows (fst (repo_createRuntimeNode n s)) = core_rows s"
  "core_rows (fst (updateRuntimeNodeHeartbeat n s)) = core_rows s"
  "core_rows (fst (repo_updateRuntimeNodeStatus rid st s)) = core_rows s"
  "core_rows (fst (deleteRuntimeNode rid s)) = core_rows s"
  by (auto simp: core_rows_def repo_createSecret_def repo_updateSecretValue_def repo_deleteSecret_def
      repo_createKvNamespace_def repo_deleteKvNamespace_def repo_createDurableObjectNamespace_def
      repo_deleteDurableObjectNamespace_def create_resource_def delete_resource_def
      repo_createRuntimeNode_def updateRuntimeNodeHeartbeat_def repo_updateRuntimeNodeStatus_def
      update_node_def deleteRuntimeNode_def insert_row_fst split: option.splits)

text \<open>\<open>quiet m\<close>: the operation leaves the core alone.\<close>

definition quiet :: "'a service \<Rightarrow> bool" where
  "quiet m \<longleftrightarrow> (\<forall>s. core_rows (fst (m s)) = core_rows s)"

named_theorems quiets "operations that leave the core alone"

lemma quiet_reader: "reader m \<Longrightarrow> quiet m"
  by (simp add: quiet_def reader_def)

lemma quiet_bindS [quiets]: "quiet m \<Longrightarrow> (\<And>x. quiet (f x)) \<Longrightarrow> quiet (bindS m f)"
  unfolding quiet_def
proof (intro allI)
  fix s
  assume m: "\<forall>s. core_rows (fst (m s)) = core_rows s"
    and f: "\<And>x. \<forall>s. core_rows (fst (f x s)) = core_rows s"
  show "core_rows (fst (bindS m f s)) = core_rows s"
    by (rule inv_bind [where I = "\<lambda>t. core_rows t = core_rows s"]) (use m f in auto)
qed

lemma quiet_prims [quiets]:
  "quiet (pureS x)" "quiet (liftS r)" "quiet (readS h)" "quiet (askS g)" "quiet (guardS b c msg)"
  "quiet (enforceQuota E pid res)"
  by (auto intro!: quiet_reader readers)

lemma quiet_if [quiets]: "quiet m \<Longrightarrow> quiet n \<Longrightarrow> quiet (if b then m else n)" by simp

lemma quiet_option [quiets]:
  "quiet m \<Longrightarrow> (\<And>x. quiet (n x)) \<Longrightarrow> quiet (case v of None \<Rightarrow> m | Some x \<Rightarrow> n x)"
  by (cases v) auto

lemma quiet_audited [quiets]: "quiet m \<Longrightarrow> (\<And>x. reader (f x)) \<Longrightarrow> quiet (audited E m f)"
  unfolding audited_def by (intro quiets) (auto simp: quiet_reader, simp add: quiet_def core_audit)

lemma quiet_repo [quiets]:
  "quiet (repo_createOrganization r1)" "quiet (repo_updateOrganizationBilling r1)"
  "quiet (repo_createUser r2)" "quiet (repo_updateUserEmailVerification rid t)"
  "quiet (repo_createProjectMembership r3)" "quiet (repo_acceptProjectMembershipInvite pid uid t)"
  "quiet (repo_updateProjectMembershipRole pid uid role)"
  "quiet (repo_deleteProjectMembership pid uid)" "quiet (repo_createApiKey r4 h)"
  "quiet (repo_updateApiKeyLastUsed rid t)" "quiet (repo_revokeApiKey rid t)"
  "quiet (repo_createCustomDomain r5)" "quiet (repo_updateCustomDomain r5)"
  "quiet (repo_deleteCustomDomain rid)" "quiet (repo_rotateApiKey rid nid nname h t)"
  "quiet (repo_createSecret r v)" "quiet (repo_updateSecretValue rid v t)"
  "quiet (repo_deleteSecret rid)" "quiet (repo_createKvNamespace r)"
  "quiet (repo_deleteKvNamespace rid)" "quiet (repo_createDurableObjectNamespace r)"
  "quiet (repo_deleteDurableObjectNamespace rid)" "quiet (repo_createRuntimeNode n)"
  "quiet (updateRuntimeNodeHeartbeat n)" "quiet (repo_updateRuntimeNodeStatus rid st)"
  "quiet (deleteRuntimeNode rid)"
  by (simp_all add: quiet_def core_ops)

lemma quiet_prod: "(\<And>a b. quiet (f a b)) \<Longrightarrow> quiet (case p of (a, b) \<Rightarrow> f a b)"
  by (cases p) simp

lemma reader_prod [readers]: "(\<And>a b. reader (f a b)) \<Longrightarrow> reader (case p of (a, b) \<Rightarrow> f a b)"
  by (cases p) simp

lemma quiet_deleteRuntimeNodes [quiets]: "quiet (deleteRuntimeNodes ns)"
  by (induction ns) (simp_all add: quiet_prims quiet_bindS quiet_repo del: run_simps)

lemma quiet_ops:
  "quiet (createOrganization E oi)" "quiet (updateOrganizationBilling E obi)"
  "quiet (createUser E ui)" "quiet (verifyUserEmail E uid)"
  "quiet (addProjectMembership E pid uid role)" "quiet (updateProjectMembershipRole E pid uid role)"
  "quiet (removeProjectMembership E pid uid)" "quiet (acceptProjectMembershipInvite E pid uid)"
  "quiet (createApiKey E ki)" "quiet (revokeApiKey E v)" "quiet (rotateApiKey E ri)"
  "quiet (authenticateApiToken E v)"
  unfolding createOrganization_def updateOrganizationBilling_def createUser_def verifyUserEmail_def
    addProjectMembership_def updateProjectMembershipRole_def removeProjectMembership_def
    acceptProjectMembershipInvite_def createApiKey_def revokeApiKey_def rotateApiKey_def
    authenticateApiToken_def Let_def
  by (intro quiets quiet_prod readers)+

lemma quiet_ops2:
  "quiet (createCustomDomain E inputId pid h)" "quiet (deleteCustomDomain E rid)"
  "quiet (verifyCustomDomainOwnership E rid v)"
  "quiet (requestCustomDomainTlsProvisioning E rid v w)"
  "quiet (completeCustomDomainTlsProvisioning E ti)" "quiet (createSecret E inputId pid h v)"
  "quiet (updateSecretValue E rid v)" "quiet (deleteSecret rid)"
  "quiet (createKvNamespace E inputId pid h)" "quiet (deleteKvNamespace rid)"
  "quiet (createDurableObjectNamespace E inputId pid h)" "quiet (deleteDurableObjectNamespace rid)"
  "quiet (registerRuntimeNode E ni)" "quiet (recordRuntimeNodeHeartbeat E hi)"
  "quiet (updateRuntimeNodeStatus rid v)" "quiet (cleanupRuntimeNodes E v w)"
  unfolding createCustomDomain_def deleteCustomDomain_def verifyCustomDomainOwnership_def
    requestCustomDomainTlsProvisioning_def completeCustomDomainTlsProvisioning_def
    createSecret_def updateSecretValue_def deleteSecret_def createKvNamespace_def
    deleteKvNamespace_def createDurableObjectNamespace_def deleteDurableObjectNamespace_def
    registerRuntimeNode_def recordRuntimeNodeHeartbeat_def updateRuntimeNodeStatus_def
    cleanupRuntimeNodes_def Let_def
  by (intro quiets quiet_prod readers)+

subsection \<open>Commands and reachable databases\<close>

datatype command =
    CreateOrganization CreateOrganizationInput
  | UpdateOrganizationBilling UpdateOrganizationBillingInput
  | CreateUser CreateUserInput
  | VerifyUserEmail string
  | CreateProject CreateProjectInput
  | is_AddProjectMembership: AddProjectMembership string string json
  | UpdateProjectMembershipRole string string json
  | RemoveProjectMembership string string
  | AcceptProjectMembershipInvite string string
  | CreateApiKey CreateApiKeyInput
  | RevokeApiKey json
  | RotateApiKey RotateApiKeyInput
  | AuthenticateApiToken json
  | CreateCustomDomain json string json
  | DeleteCustomDomain string
  | VerifyCustomDomainOwnership string json
  | RequestCustomDomainTlsProvisioning string json json
  | CompleteCustomDomainTlsProvisioning CompleteTlsInput
  | CreateDeployPreview CreateDeployPreviewInput
  | is_RollbackDeployPreview: RollbackDeployPreview string
  | CreateArtifact CreateArtifactInput
  | CreateSecret json string json json
  | UpdateSecretValue string json
  | DeleteSecret string
  | CreateKvNamespace json string json
  | DeleteKvNamespace string
  | CreateDurableObjectNamespace json string json
  | DeleteDurableObjectNamespace string
  | CreateDeployment CreateDeploymentInput
  | PointRoute PointRouteInput
  | StartRouteCanary StartRouteCanaryInput
  | RollbackRoute RollbackRouteInput
  | AnalyzeRouteCanary AnalyzeRouteCanaryInput
  | RegisterRuntimeNode RegisterRuntimeNodeInput
  | RecordRuntimeNodeHeartbeat HeartbeatInput
  | UpdateRuntimeNodeStatus string json
  | CleanupRuntimeNodes json json

text \<open>The database after a call, whether it returned or threw.\<close>

fun exec :: "Env \<Rightarrow> command \<Rightarrow> Db \<Rightarrow> Db" where
  "exec E (CreateOrganization i) s = fst (createOrganization E i s)"
| "exec E (UpdateOrganizationBilling i) s = fst (updateOrganizationBilling E i s)"
| "exec E (CreateUser i) s = fst (createUser E i s)"
| "exec E (VerifyUserEmail uid) s = fst (verifyUserEmail E uid s)"
| "exec E (CreateProject i) s = fst (createProject E i s)"
| "exec E (AddProjectMembership pid uid role) s = fst (addProjectMembership E pid uid role s)"
| "exec E (UpdateProjectMembershipRole pid uid role) s =
     fst (updateProjectMembershipRole E pid uid role s)"
| "exec E (RemoveProjectMembership pid uid) s = fst (removeProjectMembership E pid uid s)"
| "exec E (AcceptProjectMembershipInvite pid uid) s = fst (acceptProjectMembershipInvite E pid uid s)"
| "exec E (CreateApiKey i) s = fst (createApiKey E i s)"
| "exec E (RevokeApiKey v) s = fst (revokeApiKey E v s)"
| "exec E (RotateApiKey i) s = fst (rotateApiKey E i s)"
| "exec E (AuthenticateApiToken v) s = fst (authenticateApiToken E v s)"
| "exec E (CreateCustomDomain v pid h) s = fst (createCustomDomain E v pid h s)"
| "exec E (DeleteCustomDomain rid) s = fst (deleteCustomDomain E rid s)"
| "exec E (VerifyCustomDomainOwnership rid v) s = fst (verifyCustomDomainOwnership E rid v s)"
| "exec E (RequestCustomDomainTlsProvisioning rid v w) s =
     fst (requestCustomDomainTlsProvisioning E rid v w s)"
| "exec E (CompleteCustomDomainTlsProvisioning i) s = fst (completeCustomDomainTlsProvisioning E i s)"
| "exec E (CreateDeployPreview i) s = fst (createDeployPreview E i s)"
| "exec E (RollbackDeployPreview rid) s = fst (rollbackDeployPreview E rid s)"
| "exec E (CreateArtifact i) s = fst (createArtifact E i s)"
| "exec E (CreateSecret v pid n x) s = fst (createSecret E v pid n x s)"
| "exec E (UpdateSecretValue rid x) s = fst (updateSecretValue E rid x s)"
| "exec E (DeleteSecret rid) s = fst (deleteSecret rid s)"
| "exec E (CreateKvNamespace v pid n) s = fst (createKvNamespace E v pid n s)"
| "exec E (DeleteKvNamespace rid) s = fst (deleteKvNamespace rid s)"
| "exec E (CreateDurableObjectNamespace v pid n) s = fst (createDurableObjectNamespace E v pid n s)"
| "exec E (DeleteDurableObjectNamespace rid) s = fst (deleteDurableObjectNamespace rid s)"
| "exec E (CreateDeployment i) s = fst (createDeployment E i s)"
| "exec E (PointRoute i) s = fst (pointRoute E i s)"
| "exec E (StartRouteCanary i) s = fst (startRouteCanary E i s)"
| "exec E (RollbackRoute i) s = fst (rollbackRoute E i s)"
| "exec E (AnalyzeRouteCanary i) s = fst (analyzeRouteCanary E i s)"
| "exec E (RegisterRuntimeNode i) s = fst (registerRuntimeNode E i s)"
| "exec E (RecordRuntimeNodeHeartbeat i) s = fst (recordRuntimeNodeHeartbeat E i s)"
| "exec E (UpdateRuntimeNodeStatus rid v) s = fst (updateRuntimeNodeStatus rid v s)"
| "exec E (CleanupRuntimeNodes v w) s = fst (cleanupRuntimeNodes E v w s)"

text \<open>Each call has its own environment: another id, another clock reading, another policy.\<close>

inductive reachable :: "UrlApi \<Rightarrow> Db \<Rightarrow> bool" for U where
  start: "reachable U empty_db"
| step: "reachable U s \<Longrightarrow> good_env U E \<Longrightarrow> reachable U (exec E c s)"

inductive_cases reachableE: "reachable U s"

lemma quiet_ok: "quiet m \<Longrightarrow> db_ok U s \<Longrightarrow> db_ok U (fst (m s))"
  by (simp add: quiet_def ok_core)

lemma exec_ok:
  assumes "url_roundtrip U" and "good_env U E" and "db_ok U s"
  shows "db_ok U (exec E c s)"
  using assms
  by (cases c) (simp_all add: quiet_ok quiet_ops quiet_ops2 ok_createProject_op ok_createArtifact_op
      ok_createDeployment_op ok_pointRoute ok_startRouteCanary ok_rollbackRoute ok_analyzeRouteCanary
      ok_createDeployPreview_op ok_rollbackDeployPreview)

lemma empty_ok: "db_ok U empty_db"
  by (simp add: db_ok_def empty_db_def)

lemma reachable_ok: "reachable U s \<Longrightarrow> url_roundtrip U \<Longrightarrow> db_ok U s"
  by (induction rule: reachable.induct) (simp_all add: empty_ok exec_ok)

subsection \<open>The audit log is written and nothing else\<close>

lemma audit_only:
  "\<exists>a. fst (recordCustomerAuditEvent E i s) = s\<lparr>db_audit := a\<rparr>"
proof -
  have self: "\<exists>a. s = s\<lparr>db_audit := a\<rparr>" by (rule exI [of _ "db_audit s"]) simp
  have c: "\<exists>a. fst (repo_createCustomerAuditEvent r s) = s\<lparr>db_audit := a\<rparr>" for r
    using self by (auto simp: repo_createCustomerAuditEvent_def insert_row_fst)
  show ?thesis
    unfolding recordCustomerAuditEvent_def Let_def
    by (rule inv_bind_reader [where I = "\<lambda>t. \<exists>a. t = s\<lparr>db_audit := a\<rparr>"]) (auto intro: self c)
qed

text \<open>A view of the database that does not depend on the log is that of the audited operation.\<close>

lemma audited_frame:
  assumes "\<And>x. reader (f x)" and "\<And>t a. g (t\<lparr>db_audit := a\<rparr>) = g t"
  shows "g (fst (audited E m f s)) = g (fst (m s))"
proof (cases "m s")
  case (Pair t res)
  show ?thesis
  proof (cases res)
    case (Inr x)
    have "fst (f x t) = t" using assms(1) by (simp add: reader_def)
    moreover have "g (fst (recordCustomerAuditEvent E i t)) = g t" for i
      using audit_only [of E i t] assms(2) by auto
    ultimately show ?thesis
      using Pair Inr by (auto simp: audited_def bindS_def split: prod.splits sum.splits)
        (metis fst_conv)+
  qed (simp add: audited_def bindS_def Pair)
qed

lemma find_SomeD: "find P xs = Some x \<Longrightarrow> x \<in> set xs \<and> P x"
  by (induction xs) (auto split: if_splits)

end
