(* ===== verification/SnapshotFlow.thy ===== *)
theory SnapshotFlow
  imports Integrity
begin

text \<open>
  From the database to the runtime nodes: a snapshot of an intact database can be built, carries
  the routes it was built from, and passes the assertions of \<open>runtime/node-app.ts\<close>.
\<close>

lemma routeSnapshotTarget_ok:
  assumes "db_ok U s" and "owned_target s pid t" and "0 < tgt_weight t"
  shows "\<exists>x. routeSnapshotTarget s t = Inr x \<and> valid_snapshot_target U x
     \<and> st_deploymentId x = tgt_deploymentId t \<and> st_weight x = tgt_weight t"
proof -
  obtain d where d: "getDeployment s (tgt_deploymentId t) = Some d"
    using assms(2) by (auto simp: owned_target_def)
  note dk = ok_lookups(3) [OF assms(1) d]
  then obtain a where a: "getArtifact s (dep_artifactId d) = Some a"
    by (auto simp: deployment_ok_def)
  note ak = ok_lookups(2) [OF assms(1) a]
  show ?thesis
    using d a dk ak assms(3)
    by (auto simp: routeSnapshotTarget_def require_defs valid_snapshot_target_def deployment_ok_def
        valid_snapshot_artifact_def routeSnapshotArtifact_def artifact_ok_def dest: location_trim)
qed

text \<open>An entry carries the route it is built from.\<close>

definition entry_of :: "RoutePointer \<Rightarrow> RouteSnapshotEntry \<Rightarrow> bool" where
  "entry_of r e \<longleftrightarrow> se_host e = rte_host r \<and> se_pathPrefix e = rte_pathPrefix r
     \<and> se_projectId e = rte_projectId r \<and> se_deploymentId e = rte_deploymentId r
     \<and> map (\<lambda>t. (st_deploymentId t, st_weight t)) (se_targets e)
         = map (\<lambda>t. (tgt_deploymentId t, tgt_weight t)) (rte_targets r)"

lemma snapshotEntry_ok:
  assumes "db_ok U s" and "route_ok s r"
  shows "\<exists>e. snapshotEntry s r = Inr e \<and> valid_snapshot_entry U e \<and> entry_of r e"
proof -
  have t: "rte_targets r \<noteq> []" "rte_deploymentId r = tgt_deploymentId (hd (rte_targets r))"
    and all: "\<And>t. t \<in> set (rte_targets r) \<Longrightarrow> owned_target s (rte_projectId r) t \<and> 0 < tgt_weight t"
    using assms(2) by (auto simp: route_ok_def owned_targets_def valid_targets_def list_all_iff)
  have "\<forall>t \<in> set (rte_targets r). \<exists>x. routeSnapshotTarget s t = Inr x \<and> valid_snapshot_target U x
     \<and> st_deploymentId x = tgt_deploymentId t \<and> st_weight x = tgt_weight t"
    using routeSnapshotTarget_ok [OF assms(1)] all by blast
  then obtain f where f: "\<And>t. t \<in> set (rte_targets r) \<Longrightarrow> routeSnapshotTarget s t = Inr (f t)
     \<and> valid_snapshot_target U (f t)
     \<and> st_deploymentId (f t) = tgt_deploymentId t \<and> st_weight (f t) = tgt_weight t"
    by metis
  obtain p ps where r: "rte_targets r = p # ps" using t(1) by (cases "rte_targets r") auto
  have m: "mapE (routeSnapshotTarget s) (p # ps) = Inr (f p # map f ps)"
    using mapE_total [of "p # ps" "routeSnapshotTarget s" f] f r by simp
  have vt: "list_all (valid_snapshot_target U) (f p # map f ps)"
    and ids: "map (\<lambda>t. (st_deploymentId t, st_weight t)) (f p # map f ps)
      = map (\<lambda>t. (tgt_deploymentId t, tgt_weight t)) (p # ps)"
    using f r by (auto simp: list_all_iff)
  then have vp: "valid_snapshot_target U (f p)" by simp
  have d: "st_deploymentId (f p) = rte_deploymentId r" using ids t(2) r by simp
  have route: "valid_host (rte_host r)" "valid_path (rte_pathPrefix r)" "clean (rte_projectId r)"
    using assms(2) ok_lookups(1) [OF assms(1)] by (auto simp: route_ok_def)
  show ?thesis
    unfolding snapshotEntry_def r m sum.case list.case
    by (intro exI conjI, rule refl)
      (use vp vt ids d route in \<open>simp_all add: valid_snapshot_entry_def entry_of_def r
        valid_snapshot_target_def [of U "f p"]\<close>)
qed

lemma createRouteSnapshot_ok:
  assumes "db_ok U s"
  shows "\<exists>snap. createRouteSnapshot E s = Inr snap \<and> snap_schemaVersion snap = 1
     \<and> list_all (valid_snapshot_entry U) (snap_routes snap)
     \<and> list_all2 entry_of (listRoutes s) (snap_routes snap)"
proof -
  have "\<forall>r \<in> set (listRoutes s). \<exists>e. snapshotEntry s r = Inr e \<and> valid_snapshot_entry U e \<and> entry_of r e"
    using snapshotEntry_ok [OF assms] assms by (auto simp: listRoutes_def db_ok_def list_all_iff)
  then obtain f where f: "\<And>r. r \<in> set (listRoutes s) \<Longrightarrow>
      snapshotEntry s r = Inr (f r) \<and> valid_snapshot_entry U (f r) \<and> entry_of r (f r)"
    by metis
  then have "mapE (snapshotEntry s) (listRoutes s) = Inr (map f (listRoutes s))"
    by (intro mapE_total) simp
  then show ?thesis
    unfolding createRouteSnapshot_def
    using f by (auto simp: list_all_iff list_all2_conv_all_nth)
qed

text \<open>The order of \<open>listRoutes\<close>: hosts ascending, longer prefixes first.\<close>

lemma route_order_total: "total_preorder route_order"
  unfolding total_preorder_def route_order_def by (auto dest: less_trans le_less_trans)

lemma listRoutes_sorted: "sorted_wrt route_order (listRoutes s)"
  unfolding listRoutes_def by (rule sorted_js_sort [OF route_order_total])


text \<open>
  What a target of an entry carries: the runtime, limits and capabilities of a stored deployment
  of the entry's project, and the digest and location of that project's artifact.
\<close>

definition served_from :: "Db \<Rightarrow> string \<Rightarrow> RouteSnapshotTarget \<Rightarrow> bool" where
  "served_from s pid t \<longleftrightarrow> (\<exists>d a. getDeployment s (st_deploymentId t) = Some d
     \<and> dep_projectId d = pid \<and> st_runtime t = dep_runtime d \<and> st_limits t = dep_limits d
     \<and> st_capabilities t = dep_capabilities d
     \<and> getArtifact s (sa_id (st_artifact t)) = Some a \<and> art_projectId a = pid
     \<and> sa_digest (st_artifact t) = art_digest a \<and> sa_location (st_artifact t) = art_location a)"

lemma routeSnapshotTarget_served:
  assumes "db_ok U s" and "owned_target s pid t" and "routeSnapshotTarget s t = Inr x"
  shows "served_from s pid x"
proof -
  obtain d a where d: "getDeployment s (tgt_deploymentId t) = Some d"
    and a: "getArtifact s (dep_artifactId d) = Some a"
    and x: "x = \<lparr>st_deploymentId = dep_id d, st_weight = tgt_weight t, st_world = dep_world d,
          st_worldVersion = dep_worldVersion d, st_runtime = dep_runtime d,
          st_limits = dep_limits d, st_capabilities = dep_capabilities d,
          st_artifact = routeSnapshotArtifact a\<rparr>"
    using assms(3) by (auto simp: routeSnapshotTarget_def bindE_Inr require_defs split: option.splits)
  have "dep_id d = tgt_deploymentId t" "dep_projectId d = pid" "art_projectId a = pid"
      "art_id a = dep_artifactId d"
    using ok_lookups(3) [OF assms(1) d] ok_lookups(2) [OF assms(1) a] assms(2) a d
    by (auto simp: owned_target_def deployment_ok_def)
  with a d x show ?thesis
    by (auto simp: served_from_def routeSnapshotArtifact_def)
qed

lemma snapshotEntry_served:
  assumes "db_ok U s" and "r \<in> set (listRoutes s)" and "snapshotEntry s r = Inr e"
  shows "se_projectId e = rte_projectId r" and "list_all (served_from s (se_projectId e)) (se_targets e)"
proof -
  obtain p ps where m: "mapE (routeSnapshotTarget s) (rte_targets r) = Inr (p # ps)"
    and e: "se_projectId e = rte_projectId r" "se_targets e = p # ps"
    using assms(3) by (auto simp: snapshotEntry_def split: sum.splits list.splits)
  have ts: "list_all (owned_target s (rte_projectId r)) (rte_targets r)"
    using assms(1,2) by (auto simp: listRoutes_def db_ok_def list_all_iff route_ok_def owned_targets_def)
  have "served_from s (rte_projectId r) x" if "x \<in> set (p # ps)" for x
    using mapE_mem [OF m that] ts routeSnapshotTarget_served [OF assms(1)] by (auto simp: list_all_iff)
  with e show "se_projectId e = rte_projectId r"
    and "list_all (served_from s (se_projectId e)) (se_targets e)" by (auto simp: list_all_iff)
qed

lemma createRouteSnapshot_served:
  assumes "db_ok U s" and "createRouteSnapshot E s = Inr snap"
  shows "list_all2 (\<lambda>r e. entry_of r e \<and> list_all (served_from s (rte_projectId r)) (se_targets e))
    (listRoutes s) (snap_routes snap)"
proof -
  have m: "list_all2 (\<lambda>r e. snapshotEntry s r = Inr e) (listRoutes s) (snap_routes snap)"
    using assms(2) by (auto simp: createRouteSnapshot_def bindE_Inr mapE_Inr)
  have en: "list_all2 entry_of (listRoutes s) (snap_routes snap)"
    using createRouteSnapshot_ok [OF assms(1), of E] assms(2) by auto
  show ?thesis
    unfolding list_all2_conv_all_nth
  proof (intro conjI allI impI)
    show "length (listRoutes s) = length (snap_routes snap)" using m by (rule list_all2_lengthD)
    fix i assume i: "i < length (listRoutes s)"
    then have "snapshotEntry s (listRoutes s ! i) = Inr (snap_routes snap ! i)"
      using m by (simp add: list_all2_conv_all_nth)
    from snapshotEntry_served [OF assms(1) nth_mem [OF i] this]
    show "list_all (served_from s (rte_projectId (listRoutes s ! i))) (se_targets (snap_routes snap ! i))"
      by simp
    show "entry_of (listRoutes s ! i) (snap_routes snap ! i)"
      using en i by (simp add: list_all2_conv_all_nth)
  qed
qed


lemma listRoutes_mset: "mset (listRoutes s) = mset (db_routes s)"
  by (simp add: listRoutes_def)

end
