(* ===== verification/Examples.thy ===== *)
theory Examples
  imports SnapshotFlow
begin

text \<open>
  Concrete data the witnesses evaluate: a URL parser that knows one URL, a configuration, and a
  short history of a project with one deployed and routed artifact.
\<close>

definition ex_url :: Url where
  "ex_url = \<lparr>url_protocol = ''http:'', url_host = ''a'', url_username = [], url_password = [],
     url_pathname = ''/'', url_search = [], url_hash = []\<rparr>"

definition ex_urls :: UrlApi where
  "ex_urls = \<lparr>urlParse = (\<lambda>s. if s = ''http://a/'' then Some ex_url else None),
     urlToString = (\<lambda>u. ''http://a/''), urlSetPathname = (\<lambda>u p. u\<lparr>url_pathname := p\<rparr>)\<rparr>"

definition ex_dates :: DateApi where
  "ex_dates = \<lparr>dateParse = (\<lambda>s. if s = ''t0'' then Some 0 else if s = ''t1'' then Some 1000 else None),
     dateToISO = (\<lambda>n. if n = 0 then ''t0'' else ''t1'')\<rparr>"

definition ex_env :: Env where
  "ex_env = \<lparr>env_urls = ex_urls, env_dates = ex_dates, env_collate = (\<le>),
     env_idGenerator = (\<lambda>p. p @ ''_1''), env_auditId = ''aud_1'', env_randomHex = ''00ff'',
     env_sha256 = (\<lambda>s. s), env_snapshotDigest = (\<lambda>_ _. ''0123456789abcdef''),
     env_now = ''t1'', env_nowMs = 1000, env_runtimeNodeActiveTtlMs = None,
     env_encrypt = (\<lambda>s. s), env_verifyArtifact = (\<lambda>_. Inr ()), env_projectQuotas = None,
     env_admissionPolicy = None\<rparr>"

text \<open>\<open>env_auditId\<close> differs from call to call.\<close>

definition ex_env_n :: "string \<Rightarrow> Env" where
  "ex_env_n aud = ex_env\<lparr>env_auditId := aud\<rparr>"

definition ex_digest :: string where
  "ex_digest = ''sha256:'' @ replicate 64 (CHR ''0'')"

definition ex_project :: command where
  "ex_project = CreateProject \<lparr>cpi_id = JStr ''p1'', cpi_organizationId = None, cpi_name = JStr ''demo''\<rparr>"

definition ex_artifact :: command where
  "ex_artifact = CreateArtifact \<lparr>cai_id = JStr ''a1'', cai_projectId = ''p1'', cai_digest = JStr ex_digest,
     cai_location = JStr ''file:///a'', cai_sizeBytes = JInt 10, cai_signature = JUndefined,
     cai_provenance = JUndefined\<rparr>"

definition ex_runtime :: json where
  "ex_runtime = JObj [(''backend'', JStr ''wasmtime''), (''version'', JStr ''1''),
     (''wasi'', JStr ''wasip3'')]"

definition ex_limits :: json where
  "ex_limits = JObj [(''cpuMs'', JInt 1), (''memoryMb'', JInt 1), (''wallMs'', JInt 1),
     (''requestBytes'', JInt 1), (''subrequests'', JInt 1), (''responseBytes'', JInt 1)]"

definition ex_capabilities :: json where
  "ex_capabilities = JObj []"

definition ex_deployment :: "string \<Rightarrow> command" where
  "ex_deployment d = CreateDeployment \<lparr>cdi_id = JStr d, cdi_projectId = ''p1'', cdi_artifactId = ''a1'',
     cdi_world = JStr MVP_WORKER_WORLD, cdi_runtime = ex_runtime, cdi_limits = ex_limits,
     cdi_capabilities = ex_capabilities\<rparr>"

definition ex_route :: "string \<Rightarrow> command" where
  "ex_route d = PointRoute \<lparr>pri_id = JStr ''r1'', pri_projectId = ''p1'', pri_host = JStr ''H.example'',
     pri_pathPrefix = JStr ''/'', pri_deploymentId = Some d, pri_targets = JUndefined\<rparr>"

definition ex_db :: Db where
  "ex_db = exec (ex_env_n ''aud_4'') (ex_route ''d1'')
     (exec (ex_env_n ''aud_3'') (ex_deployment ''d2'')
     (exec (ex_env_n ''aud_2'') (ex_deployment ''d1'')
     (exec (ex_env_n ''aud_1'') ex_artifact (exec (ex_env_n ''aud_0'') ex_project empty_db))))"

text \<open>The database this history leads to, written out; the witnesses start from it.\<close>

definition ex_event :: "string \<Rightarrow> string \<Rightarrow> string \<Rightarrow> string \<Rightarrow> (string \<times> json) list \<Rightarrow> AuditEvent" where
  "ex_event aud action ttype tid meta = \<lparr>aud_id = aud, aud_organizationId = None,
     aud_projectId = Some ''p1'', aud_action = action, aud_targetType = ttype, aud_targetId = tid,
     aud_metadata = meta, aud_createdAt = ''t1''\<rparr>"

definition ex_deployed :: "string \<Rightarrow> Deployment" where
  "ex_deployed d = \<lparr>dep_id = d, dep_projectId = ''p1'', dep_artifactId = ''a1'',
     dep_world = MVP_WORKER_WORLD, dep_worldVersion = MVP_WORKER_WORLD_VERSION,
     dep_runtime = \<lparr>rt_backend = ''wasmtime'', rt_version = ''1'', rt_wasi = ''wasip3''\<rparr>,
     dep_limits = \<lparr>lim_cpuMs = 1, lim_memoryMb = 1, lim_wallMs = 1, lim_requestBytes = 1,
       lim_subrequests = 1, lim_responseBytes = 1\<rparr>,
     dep_capabilities = \<lparr>cap_outboundHttp = \<lparr>out_enabled = False, out_allow = []\<rparr>, cap_kv = [],
       cap_durableObjects = [], cap_secrets = [], cap_services = [],
       cap_arbitraryFilesystem = False, cap_arbitrarySockets = False, cap_processSpawn = False\<rparr>,
     dep_createdAt = ''t1''\<rparr>"

definition ex_state :: Db where
  "ex_state = empty_db\<lparr>
     db_projects := [\<lparr>prj_id = ''p1'', prj_organizationId = None, prj_name = ''demo'',
       prj_createdAt = ''t1''\<rparr>],
     db_audit := map (\<lambda>(a, d). ex_event a ''deployment.created'' ''deployment'' d
         [(''artifactId'', JStr ''a1''), (''world'', JStr MVP_WORKER_WORLD),
          (''worldVersion'', JStr MVP_WORKER_WORLD_VERSION)]) [(''aud_2'', ''d1''), (''aud_3'', ''d2'')]
       @ [ex_event ''aud_4'' ''route.pointed'' ''route'' ''r1''
            [(''host'', JStr ''h.example''), (''pathPrefix'', JStr ''/''), (''deploymentId'', JStr ''d1'')]],
     db_artifacts := [\<lparr>art_id = ''a1'', art_projectId = ''p1'', art_digest = ex_digest,
       art_location = ''file:///a'', art_sizeBytes = 10, art_signature = None,
       art_provenance = None, art_createdAt = ''t1''\<rparr>],
     db_deployments := [ex_deployed ''d1'', ex_deployed ''d2''],
     db_routes := [\<lparr>rte_id = ''r1'', rte_projectId = ''p1'', rte_host = ''h.example'',
       rte_pathPrefix = ''/'', rte_deploymentId = ''d1'', rte_targets = single_target ''d1'',
       rte_updatedAt = ''t1''\<rparr>]\<rparr>"

lemma ex_db_state: "ex_db = ex_state"
  by code_simp

lemma ex_urls_roundtrip: "url_roundtrip ex_urls"
proof -
  have "clean ''http://a/''" by code_simp
  then show ?thesis
    by (auto simp: url_roundtrip_def ex_urls_def split: if_splits)
qed

lemma ex_env_good: "good_env ex_urls (ex_env_n a)"
proof -
  have "list_all (\<lambda>p. clean (p @ ''_1'')) id_prefixes" by code_simp
  then show ?thesis by (simp add: good_env_def ex_env_n_def ex_env_def)
qed

lemma ex_env_good_plain: "good_env ex_urls ex_env"
  using ex_env_good [of "env_auditId ex_env"] by (simp add: ex_env_n_def)

lemma ex_state_reachable: "reachable ex_urls ex_state"
proof -
  have "reachable ex_urls ex_db"
    unfolding ex_db_def by (intro reachable.intros ex_env_good)
  then show ?thesis by (simp only: ex_db_state)
qed

lemma ex_state_ok: "db_ok ex_urls ex_state"
  by (rule reachable_ok [OF ex_state_reachable ex_urls_roundtrip])

end
