(* ===== verification/RouteLaws.thy ===== *)
theory RouteLaws
  imports Examples
begin

text \<open>
  The functional behaviour of the route operations of \<open>control-plane/service.ts\<close>: what a
  successful call makes of the route table, as a map from (project, host, path prefix).
\<close>

subsection \<open>The route table as a map\<close>

lemma rows_lookup_eq: "core_rows s' = core_rows s \<Longrightarrow> getRoute s' = getRoute s"
  "core_rows s' = core_rows s \<Longrightarrow> getDeployment s' = getDeployment s"
  "core_rows s' = core_rows s \<Longrightarrow> getProject s' = getProject s"
  by (auto simp: core_rows_eq getRoute_def getDeployment_def getProject_def fun_eq_iff)

definition upserted :: "Db \<Rightarrow> RoutePointer \<Rightarrow> RoutePointer" where
  "upserted s r = (case getRoute s (rte_key r) of None \<Rightarrow> r | Some q \<Rightarrow> overwrite_route r q)"

lemma upsertRoute_Inr:
  assumes "upsertRoute r s = (s', Inr q)"
  shows "q = upserted s r" and "getRoute s' = (getRoute s)(rte_key r \<mapsto> q)"
    and "getDeployment s' = getDeployment s"
proof -
  have "q = upserted s r \<and> getRoute s' = (getRoute s)(rte_key r \<mapsto> q)"
  proof (cases "getRoute s (rte_key r)")
    case None
    with assms have "s' = s\<lparr>db_routes := db_routes s @ [r]\<rparr> \<and> q = r"
      by (simp add: upsertRoute_def insert_row_Inr)
    with None show ?thesis
      by (auto simp: upserted_def getRoute_def row_by_append fun_eq_iff split: option.splits)
  next
    case (Some old)
    with assms have "s' = s\<lparr>db_routes := update_by rte_key (rte_key r) (overwrite_route r) (db_routes s)\<rparr>
        \<and> q = overwrite_route r old"
      by (auto simp: upsertRoute_def split: if_splits)
    with Some show ?thesis
      by (auto simp: upserted_def getRoute_def row_by_update fun_eq_iff)
  qed
  then show "q = upserted s r" and "getRoute s' = (getRoute s)(rte_key r \<mapsto> q)" by auto
  show "getDeployment s' = getDeployment s"
    using upsertRoute_tables(3) [of r s] assms by (simp add: getDeployment_def fun_eq_iff)
qed

lemma upserted_simps [simp]:
  "rte_targets (upserted s r) = rte_targets r"
  "rte_deploymentId (upserted s r) = rte_deploymentId r"
  "rte_updatedAt (upserted s r) = rte_updatedAt r"
  "rte_key (upserted s r) = rte_key r"
  by (auto simp: upserted_def overwrite_route_def rte_key_def getRoute_def split: option.splits
      dest: row_by_Some)

lemma upserted_existing: "getRoute s (rte_key r) = Some r' \<Longrightarrow>
    rte_id r = rte_id r' \<Longrightarrow> upserted s r = r"
  by (auto simp: upserted_def overwrite_route_def getRoute_def rte_key_def dest: row_by_Some)

text \<open>An upsert succeeds whenever its deployment exists and the row is there already.\<close>

lemma upsertRoute_succeeds:
  assumes "getRoute s (rte_key r) \<noteq> None" and "getDeployment s (rte_deploymentId r) \<noteq> None"
  shows "\<exists>s'. upsertRoute r s = (s', Inr (upserted s r))"
  using assms by (auto simp: upsertRoute_def upserted_def no_row_def has_key_iff getDeployment_def)

lemma audited_Inr:
  assumes "audited E m f s = (s', Inr x)" and "\<And>x. reader (f x)"
  shows "\<exists>s1. m s = (s1, Inr x) \<and> core_rows s' = core_rows s1"
proof -
  obtain s1 y where m: "m s = (s1, Inr y)"
    and r: "bindS (f y) (\<lambda>i. bindS (recordCustomerAuditEvent E i) (\<lambda>_. pureS y)) s1 = (s', Inr x)"
    using assms(1) by (auto simp: audited_def bindS_Inr)
  from r obtain i s2 e where f: "f y s1 = (s2, Inr i)"
    and a: "recordCustomerAuditEvent E i s2 = (s', Inr e)" and "y = x"
    by (auto simp: bindS_Inr)
  have "s2 = s1" using assms(2) f by (metis reader_def fst_conv)
  moreover have "core_rows s' = core_rows s2"
    using core_audit [of E i s2] a by simp
  ultimately show ?thesis using m \<open>y = x\<close> by auto
qed

subsection \<open>Pointing a route\<close>

text \<open>The host may be used by the project: no custom domain has it, or the project's own active one.\<close>

definition host_free :: "Db \<Rightarrow> string \<Rightarrow> string \<Rightarrow> bool" where
  "host_free s pid host \<longleftrightarrow> (\<forall>d. getCustomDomainByHost s host = Some d \<longrightarrow>
     dom_projectId d = pid \<and> dom_status d = DomainActive)"

lemma enforceRouteCustomDomain_Inr:
  "enforceRouteCustomDomain pid host s = Inr u \<longleftrightarrow> host_free s pid host"
  by (auto simp: enforceRouteCustomDomain_def host_free_def bindE_Inr split: option.splits)

lemma reader_bind_Inr_simps:
  "bindS (readS h) f s = (s', Inr y) \<longleftrightarrow> (\<exists>x. h s = Inr x \<and> f x s = (s', Inr y))"
  "bindS (liftS r) f s = (s', Inr y) \<longleftrightarrow> (\<exists>x. r = Inr x \<and> f x s = (s', Inr y))"
  "bindS (askS g) f s = (s', Inr y) \<longleftrightarrow> f (g s) s = (s', Inr y)"
  "bindS (guardS b c msg) k s = (s', Inr y) \<longleftrightarrow> \<not> b \<and> k () s = (s', Inr y)"
  by (auto simp: bindS_Inr)

lemma quota_step_Inr:
  "bindS (if b then enforceQuota E pid res else pureS ()) f s = (s', Inr y) \<longleftrightarrow>
     (b \<longrightarrow> within_quota (env_projectQuotas E) (getProjectUsage s pid) res) \<and> f () s = (s', Inr y)"
  "bindS (enforceQuota E pid res) f s = (s', Inr y) \<longleftrightarrow>
     within_quota (env_projectQuotas E) (getProjectUsage s pid) res \<and> f () s = (s', Inr y)"
  by (auto simp: enforceQuota_def bindS_Inr enforceProjectQuota_Inr)

lemmas walk = reader_bind_Inr_simps quota_step_Inr

lemma pointRoute_Inr:
  assumes "pointRoute E i s = (s', Inr r)"
  shows "\<exists>host path ts. normalizeHost (pri_host i) = Inr host
     \<and> normalizePathPrefix (pri_pathPrefix i) = Inr path
     \<and> normalizeRouteTargets (pri_targets i) (pri_deploymentId i) = Inr ts
     \<and> list_all (owned_target s (pri_projectId i)) ts \<and> host_free s (pri_projectId i) host
     \<and> (getRoute s (pri_projectId i, host, path) = None \<longrightarrow>
          within_quota (env_projectQuotas E) (getProjectUsage s (pri_projectId i)) QRoute)
     \<and> rte_key r = (pri_projectId i, host, path) \<and> rte_targets r = ts
     \<and> rte_deploymentId r = tgt_deploymentId (hd ts)
     \<and> getRoute s' = (getRoute s)((pri_projectId i, host, path) \<mapsto> r)"
proof -
  obtain host path ts rid where n: "normalizeHost (pri_host i) = Inr host"
     "normalizePathPrefix (pri_pathPrefix i) = Inr path"
     "normalizeRouteTargets (pri_targets i) (pri_deploymentId i) = Inr ts"
     "requireTargets (pri_projectId i) ts s = Inr ()"
     "host_free s (pri_projectId i) host"
     "getRoute s (pri_projectId i, host, path) = None \<longrightarrow>
          within_quota (env_projectQuotas E) (getProjectUsage s (pri_projectId i)) QRoute"
    and a: "audited E (upsertRoute
         \<lparr>rte_id = rid, rte_projectId = pri_projectId i, rte_host = host, rte_pathPrefix = path,
          rte_deploymentId = tgt_deploymentId (hd ts), rte_targets = ts,
          rte_updatedAt = env_now E\<rparr>)
       (\<lambda>r. project_audit (rte_projectId r) ''route.pointed'' ''route'' (rte_id r)
          [(''host'', JStr (rte_host r)), (''pathPrefix'', JStr (rte_pathPrefix r)),
           (''deploymentId'', JStr (rte_deploymentId r))]) s = (s', Inr r)"
    using assms unfolding pointRoute_def walk enforceRouteCustomDomain_Inr
    by (elim exE conjE) (rule that, (assumption | simp)+)
  let ?r = "\<lparr>rte_id = rid, rte_projectId = pri_projectId i, rte_host = host, rte_pathPrefix = path,
      rte_deploymentId = tgt_deploymentId (hd ts), rte_targets = ts, rte_updatedAt = env_now E\<rparr>"
  have k: "rte_key ?r = (pri_projectId i, host, path)" by (simp add: rte_key_def)
  from audited_Inr [OF a reader_project_audit] obtain s1
    where u: "upsertRoute ?r s = (s1, Inr r)" and c: "core_rows s' = core_rows s1" by blast
  note r = upsertRoute_Inr [OF u]
  have "rte_key r = (pri_projectId i, host, path)" "rte_targets r = ts"
    "rte_deploymentId r = tgt_deploymentId (hd ts)"
    using r(1) k by simp_all
  moreover have "getRoute s' = (getRoute s)((pri_projectId i, host, path) \<mapsto> r)"
    using r(2) rows_lookup_eq(1) [OF c] k by simp
  ultimately show ?thesis using n by (auto simp: requireTargets_Inr)
qed

subsection \<open>Canaries and rollbacks\<close>

lemma rte_key_retarget [simp]: "rte_key (retarget E r d ts) = rte_key r"
  by (simp add: rte_key_def retarget_def)

lemma retarget_simps [simp]:
  "rte_targets (retarget E r d ts) = ts" "rte_deploymentId (retarget E r d ts) = d"
  "rte_id (retarget E r d ts) = rte_id r" "rte_projectId (retarget E r d ts) = rte_projectId r"
  by (simp_all add: retarget_def)

lemma getRoute_key: "getRoute s k = Some r \<Longrightarrow> rte_key r = k"
  by (auto simp: getRoute_def dest: row_by_Some)

lemma upserted_retarget:
  "getRoute s (rte_key r) = Some r \<Longrightarrow> upserted s (retarget E r d ts) = retarget E r d ts"
  by (rule upserted_existing [where r' = r]) simp_all

lemma upsert_retarget_Inr:
  assumes "upsertRoute (retarget E old d ts) s = (s', Inr r)" and "getRoute s k = Some old"
  shows "r = retarget E old d ts" and "getRoute s' = (getRoute s)(k \<mapsto> r)"
    and "getDeployment s' = getDeployment s"
  using upsertRoute_Inr [OF assms(1)] getRoute_key [OF assms(2)] assms(2)
  by (simp_all add: upserted_retarget)

definition canary_targets :: "string \<Rightarrow> string \<Rightarrow> int \<Rightarrow> RouteTarget list" where
  "canary_targets a b w =
     [\<lparr>tgt_deploymentId = a, tgt_weight = 100 - w\<rparr>,
      \<lparr>tgt_deploymentId = b, tgt_weight = w\<rparr>]"

lemma startRouteCanary_Inr:
  assumes "startRouteCanary E i s = (s', Inr r)"
  shows "\<exists>host path old d w. normalizeHost (sci_host i) = Inr host
     \<and> normalizePathPrefix (sci_pathPrefix i) = Inr path
     \<and> getRoute s (sci_projectId i, host, path) = Some old
     \<and> getDeployment s (sci_deploymentId i) = Some d \<and> dep_projectId d = sci_projectId i
     \<and> stable_deployment old \<noteq> dep_id d \<and> sci_weight i = JInt w \<and> 1 \<le> w \<and> w \<le> 99
     \<and> r = retarget E old (stable_deployment old) (canary_targets (stable_deployment old) (dep_id d) w)
     \<and> getRoute s' = (getRoute s)((sci_projectId i, host, path) \<mapsto> r)
     \<and> getDeployment s' = getDeployment s \<and> getProject s' = getProject s"
proof -
  obtain host path old d w where n: "normalizeHost (sci_host i) = Inr host"
     "normalizePathPrefix (sci_pathPrefix i) = Inr path"
     "getRoute s (sci_projectId i, host, path) = Some old"
     "getDeployment s (sci_deploymentId i) = Some d" "dep_projectId d = sci_projectId i"
     "stable_deployment old \<noteq> dep_id d" "canaryWeight (sci_weight i) = Inr w"
    and u: "upsertRoute (retarget E old (stable_deployment old)
        (canary_targets (stable_deployment old) (dep_id d) w)) s = (s', Inr r)"
    using assms unfolding startRouteCanary_def walk Let_def require_defs require_simps
      canary_targets_def [symmetric]
    by (elim exE conjE) (rule that, (assumption | simp)+)
  have "getProject s' = getProject s"
    using upsertRoute_tables(1) u by (metis fst_conv getProject_def ext)
  with n upsert_retarget_Inr [OF u n(3)] show ?thesis
    by (intro exI conjI) (assumption | simp add: canaryWeight_Inr)+
qed

lemma rollbackRoute_Inr:
  assumes "rollbackRoute E i s = (s', Inr r)"
  shows "\<exists>host path old d. normalizeHost (rri_host i) = Inr host
     \<and> normalizePathPrefix (rri_pathPrefix i) = Inr path
     \<and> getRoute s (rri_projectId i, host, path) = Some old
     \<and> d = (case rri_deploymentId i of None \<Rightarrow> stable_deployment old | Some x \<Rightarrow> x)
     \<and> r = retarget E old d (single_target d)
     \<and> getRoute s' = (getRoute s)((rri_projectId i, host, path) \<mapsto> r)"
proof -
  obtain host path old where n: "normalizeHost (rri_host i) = Inr host"
     "normalizePathPrefix (rri_pathPrefix i) = Inr path"
     "getRoute s (rri_projectId i, host, path) = Some old"
    and u: "upsertRoute (retarget E old
        (case rri_deploymentId i of None \<Rightarrow> stable_deployment old | Some x \<Rightarrow> x)
        (single_target (case rri_deploymentId i of None \<Rightarrow> stable_deployment old | Some x \<Rightarrow> x))) s
      = (s', Inr r)"
    using assms unfolding rollbackRoute_def walk Let_def require_defs require_simps
    by (elim exE conjE) (rule that, (assumption | simp)+)
  with upsert_retarget_Inr [OF u n(3)] show ?thesis by blast
qed

text \<open>A rollback to the stable deployment cannot fail while the database is intact.\<close>

lemma rollback_to_stable:
  assumes "normalizeHost h = Inr host" and "normalizePathPrefix p = Inr path"
    and "getProject s pid \<noteq> None" and "getRoute s (pid, host, path) = Some old"
    and "getDeployment s (stable_deployment old) = Some d" and "dep_projectId d = pid"
  shows "\<exists>s'. rollbackRoute E \<lparr>rri_projectId = pid, rri_host = h, rri_pathPrefix = p,
      rri_deploymentId = None\<rparr> s
    = (s', Inr (retarget E old (stable_deployment old) (single_target (stable_deployment old))))"
proof -
  let ?r = "retarget E old (stable_deployment old) (single_target (stable_deployment old))"
  have k: "rte_key old = (pid, host, path)" using assms(4) by (rule getRoute_key)
  have "upserted s ?r = ?r" using assms(4) k by (simp add: upserted_retarget)
  moreover have "\<exists>s'. upsertRoute ?r s = (s', Inr (upserted s ?r))"
    using assms(4,5) k by (intro upsertRoute_succeeds) simp_all
  ultimately show ?thesis
    using assms by (auto simp: rollbackRoute_def Let_def bindS_def require_defs guardC_def)
qed

subsection \<open>Previews\<close>

lemma createDeployPreview_Inr:
  assumes "createDeployPreview E i s = (s', Inr v)"
  shows "\<exists>k s1 r. upsertRoute r s = (s1, Inr (upserted s r)) \<and> rte_key r = k
     \<and> repo_createDeployPreview v s1 = (s', Inr v) \<and> k = (prv_projectId v, prv_host v, prv_pathPrefix v)
     \<and> prv_status v = PreviewActive
     \<and> prv_previousRoute v = map_option deployPreviewPreviousRoute (getRoute s k)"
proof -
  obtain host path environment rid r s1 q where
    u: "upsertRoute r s = (s1, Inr q)" and k: "rte_key r = (dpi_projectId i, host, path)"
    and v: "repo_createDeployPreview
       \<lparr>prv_id = rid, prv_projectId = dpi_projectId i, prv_deploymentId = rte_deploymentId r,
        prv_host = host, prv_pathPrefix = path, prv_url = deployPreviewUrl host path,
        prv_environment = environment, prv_status = PreviewActive, prv_createdAt = env_now E,
        prv_updatedAt = env_now E,
        prv_previousRoute = map_option deployPreviewPreviousRoute (getRoute s (dpi_projectId i, host, path)),
        prv_rolledBackAt = None\<rparr> s1 = (s', Inr v)" (is "repo_createDeployPreview ?v s1 = _")
    using assms unfolding createDeployPreview_def walk require_defs require_simps
    by (auto simp: bindS_Inr rte_key_def)
  have "v = ?v" using v by (simp add: repo_createDeployPreview_def insert_row_Inr)
  then show ?thesis using u k v upsertRoute_Inr(1) [OF u]
    by (intro exI [of _ "(dpi_projectId i, host, path)"] exI [of _ s1] exI [of _ r]) simp
qed

lemma preview_tables:
  "repo_createDeployPreview v s = (s', Inr x) \<Longrightarrow> getRoute s' = getRoute s
     \<and> getDeployment s' = getDeployment s \<and> getDeployPreview s' (prv_id v) = Some v"
  "fst (repo_updateDeployPreview v s) = s'' \<Longrightarrow> getRoute s'' = getRoute s"
proof -
  assume *: "repo_createDeployPreview v s = (s', Inr x)"
  have "getDeployPreview s' (prv_id v) = Some v"
    using previews.add_then_look [OF *] .
  moreover have "s' = s\<lparr>db_previews := db_previews s @ [v]\<rparr>"
    using * by (simp add: repo_createDeployPreview_def insert_row_Inr)
  ultimately show "getRoute s' = getRoute s \<and> getDeployment s' = getDeployment s
      \<and> getDeployPreview s' (prv_id v) = Some v"
    by (simp add: getRoute_def getDeployment_def fun_eq_iff)
next
  assume "fst (repo_updateDeployPreview v s) = s''"
  then show "getRoute s'' = getRoute s"
    by (auto simp: repo_updateDeployPreview_def getRoute_def fun_eq_iff split: option.splits)
qed

text \<open>What a rolled back preview leaves at its key.\<close>

definition same_route :: "RoutePointer option \<Rightarrow> RoutePointer option \<Rightarrow> bool" where
  "same_route a b \<longleftrightarrow> map_option (\<lambda>r. (rte_id r, rte_key r, rte_deploymentId r, rte_targets r)) a
     = map_option (\<lambda>r. (rte_id r, rte_key r, rte_deploymentId r, rte_targets r)) b"

lemma upserted_id: "getRoute s (rte_key r) = Some q \<Longrightarrow> rte_id (upserted s r) = rte_id q"
  by (simp add: upserted_def overwrite_route_def)

lemma update_preview_found:
  "getDeployPreview s (prv_id v) = Some q \<Longrightarrow>
   \<exists>s'. repo_updateDeployPreview v s = (s', Inr (overwrite_preview v q))"
  by (simp add: repo_updateDeployPreview_def)

lemma getDeployPreview_upsert:
  "getDeployPreview (fst (upsertRoute r s)) = getDeployPreview s"
  "getDeployPreview (fst (deleteRoute k s)) = getDeployPreview s"
  by (simp_all add: getDeployPreview_def upsertRoute_tables fun_eq_iff deleteRoute_def)

lemma getRoute_delete: "getRoute (fst (deleteRoute k s)) = (getRoute s)(k := None)"
  by (auto simp: deleteRoute_def getRoute_def row_by_delete fun_eq_iff)

lemma preview_rollback:
  assumes ok: "db_ok U s" and c: "createDeployPreview E i s = (s1, Inr v)"
  shows "\<exists>s2 w. rollbackDeployPreview E' (prv_id v) s1 = (s2, Inr w) \<and> prv_status w = RolledBack
     \<and> (\<forall>k. same_route (getRoute s2 k) (getRoute s k))"
proof -
  let ?k = "(prv_projectId v, prv_host v, prv_pathPrefix v)"
  obtain sm r where u: "upsertRoute r s = (sm, Inr (upserted s r))" and k: "rte_key r = ?k"
    and cp: "repo_createDeployPreview v sm = (s1, Inr v)" and st: "prv_status v = PreviewActive"
    and prev: "prv_previousRoute v = map_option deployPreviewPreviousRoute (getRoute s ?k)"
    using createDeployPreview_Inr [OF c] by (elim exE conjE) (rule that, simp_all)
  note t = preview_tables(1) [OF cp] and um = upsertRoute_Inr [OF u]
  have routes1: "getRoute s1 = (getRoute s)(?k \<mapsto> upserted s r)" using t um(2) k by simp
  have found: "getDeployPreview s1 (prv_id v) = Some v" using t by simp
  let ?upd = "v\<lparr>prv_status := RolledBack, prv_updatedAt := env_now E', prv_rolledBackAt := Some (env_now E')\<rparr>"
  show ?thesis
  proof (cases "getRoute s ?k")
    case None
    let ?sd = "fst (deleteRoute ?k s1)"
    obtain s2 where s2: "repo_updateDeployPreview ?upd ?sd = (s2, Inr (overwrite_preview ?upd v))"
      using update_preview_found [of ?sd ?upd v] found by (auto simp: getDeployPreview_upsert)
    have "rollbackDeployPreview E' (prv_id v) s1 = (s2, Inr (overwrite_preview ?upd v))"
      using found st prev None s2
      by (simp add: rollbackDeployPreview_def bindS_def require_defs deleteRoute_def)
    moreover have "getRoute s2 = getRoute s"
      using preview_tables(2) [of ?upd ?sd s2] s2 None routes1
      by (auto simp: getRoute_delete fun_eq_iff)
    ultimately show ?thesis by (auto simp: overwrite_preview_def same_route_def)
  next
    case (Some old)
    let ?r = "\<lparr>rte_id = rte_id old, rte_projectId = prv_projectId v, rte_host = prv_host v,
        rte_pathPrefix = prv_pathPrefix v, rte_deploymentId = rte_deploymentId old,
        rte_targets = rte_targets old, rte_updatedAt = env_now E'\<rparr>"
    have kr: "rte_key ?r = ?k" by (simp add: rte_key_def)
    have ko: "rte_key old = ?k" using Some by (rule getRoute_key)
    have "getDeployment s1 (rte_deploymentId old) \<noteq> None"
      using ok_lookups(4) [OF ok Some] route_ok_stable(2) t um(3) by fastforce
    then obtain su where su: "upsertRoute ?r s1 = (su, Inr (upserted s1 ?r))"
      using upsertRoute_succeeds [of s1 ?r] routes1 kr by auto
    obtain s2 where s2: "repo_updateDeployPreview ?upd su = (s2, Inr (overwrite_preview ?upd v))"
      using update_preview_found [of su ?upd v] found getDeployPreview_upsert(1) [of ?r s1] su by auto
    have "rollbackDeployPreview E' (prv_id v) s1 = (s2, Inr (overwrite_preview ?upd v))"
      using found st prev Some su s2
      by (simp add: rollbackDeployPreview_def bindS_def require_defs deployPreviewPreviousRoute_def)
    moreover have "getRoute s2 = (getRoute s)(?k \<mapsto> upserted s1 ?r)"
      using preview_tables(2) [of ?upd su s2] s2 upsertRoute_Inr(2) [OF su] routes1 kr by simp
    moreover have "rte_id (upserted s1 ?r) = rte_id old"
    proof -
      have "rte_id (upserted s1 ?r) = rte_id (upserted s r)"
        by (rule upserted_id) (simp add: routes1 kr)
      also have "\<dots> = rte_id old" by (rule upserted_id) (simp add: k Some)
      finally show ?thesis .
    qed
    ultimately show ?thesis
      using Some ko kr by (auto simp: overwrite_preview_def same_route_def)
  qed
qed

section \<open>Properties\<close>

definition ex_key :: route_key where
  "ex_key = (''p1'', ''h.example'', ''/'')"

definition ex_point :: PointRouteInput where
  "ex_point = \<lparr>pri_id = JUndefined, pri_projectId = ''p1'', pri_host = JStr '' H.Example '',
     pri_pathPrefix = JStr ''/'', pri_deploymentId = Some ''d2'', pri_targets = JUndefined\<rparr>"

definition ex_pointed :: RoutePointer where
  "ex_pointed = \<lparr>rte_id = ''r1'', rte_projectId = ''p1'', rte_host = ''h.example'',
     rte_pathPrefix = ''/'', rte_deploymentId = ''d2'', rte_targets = single_target ''d2'',
     rte_updatedAt = ''t1''\<rparr>"

text \<open>
  A successful \<open>pointRoute\<close> writes exactly one route, the one of the project at the
  normalised host and path prefix: its targets are the normalised ones, each a stored deployment
  of the same project, the first one primary; the host is not a custom domain of another project
  or one that is not active; a new route was within the quota. No other route changes.
\<close>

theorem point_route_writes_one_route:
  assumes "pointRoute E i s = (s', Inr r)"
  shows "\<exists>host path ts. normalizeHost (pri_host i) = Inr host
     \<and> normalizePathPrefix (pri_pathPrefix i) = Inr path
     \<and> normalizeRouteTargets (pri_targets i) (pri_deploymentId i) = Inr ts
     \<and> list_all (owned_target s (pri_projectId i)) ts \<and> host_free s (pri_projectId i) host
     \<and> (getRoute s (pri_projectId i, host, path) = None \<longrightarrow>
          within_quota (env_projectQuotas E) (getProjectUsage s (pri_projectId i)) QRoute)
     \<and> rte_key r = (pri_projectId i, host, path) \<and> rte_targets r = ts
     \<and> rte_deploymentId r = tgt_deploymentId (hd ts)
     \<and> getRoute s' = (getRoute s)((pri_projectId i, host, path) \<mapsto> r)"
  using assms by (rule pointRoute_Inr)

lemma ex_point_result: "snd (pointRoute (ex_env_n ''aud_9'') ex_point ex_state) = Inr ex_pointed"
  by code_simp

theorem point_route_writes_one_route_witness:
  "\<exists>s'. pointRoute (ex_env_n ''aud_9'') ex_point ex_state = (s', Inr ex_pointed)
     \<and> getRoute s' = (getRoute ex_state)(ex_key \<mapsto> ex_pointed)"
proof -
  obtain s' where s': "pointRoute (ex_env_n ''aud_9'') ex_point ex_state = (s', Inr ex_pointed)"
    using ex_point_result by (cases "pointRoute (ex_env_n ''aud_9'') ex_point ex_state") simp
  from point_route_writes_one_route [OF this] obtain host path where
    "rte_key ex_pointed = (pri_projectId ex_point, host, path)"
    "getRoute s' = (getRoute ex_state)((pri_projectId ex_point, host, path) \<mapsto> ex_pointed)" by blast
  moreover have "rte_key ex_pointed = ex_key" by code_simp
  ultimately show ?thesis using s' by metis
qed

definition ex_canary :: StartRouteCanaryInput where
  "ex_canary = \<lparr>sci_projectId = ''p1'', sci_host = JStr ''h.example'', sci_pathPrefix = JStr ''/'',
     sci_deploymentId = ''d2'', sci_weight = JInt 10\<rparr>"

text \<open>
  C29. Starting a canary splits the route's traffic in two positive weights that sum to 100: the
  candidate gets the percentage asked for and the stable deployment, listed first, the rest; and a rollback that names no deployment always succeeds afterwards and
  sends everything back to the stable deployment, whatever happened before.
\<close>

theorem canary_then_rollback:
  assumes "url_roundtrip U" and "reachable U s" and "startRouteCanary E i s = (s1, Inr r)"
  shows "(\<exists>w. sci_weight i = JInt w
        \<and> rte_targets r = canary_targets (rte_deploymentId r) (sci_deploymentId i) w
        \<and> sci_deploymentId i \<noteq> rte_deploymentId r \<and> 0 < w \<and> w < 100 \<and> (\<Sum>t \<leftarrow> rte_targets r. tgt_weight t) = 100)
     \<and> (\<exists>s2 q. rollbackRoute E' \<lparr>rri_projectId = sci_projectId i, rri_host = sci_host i,
            rri_pathPrefix = sci_pathPrefix i, rri_deploymentId = None\<rparr> s1 = (s2, Inr q)
          \<and> rte_targets q = single_target (rte_deploymentId r) \<and> rte_key q = rte_key r
          \<and> (\<exists>old. getRoute s (rte_key r) = Some old \<and> rte_deploymentId r = rte_deploymentId old))"
proof -
  note ok = reachable_ok [OF assms(2,1)]
  obtain host path old w and d :: Deployment where h: "normalizeHost (sci_host i) = Inr host"
      "normalizePathPrefix (sci_pathPrefix i) = Inr path"
    and o: "getRoute s (sci_projectId i, host, path) = Some old"
    and w: "stable_deployment old \<noteq> dep_id d" "1 \<le> w" "w \<le> 99" "sci_weight i = JInt w"
    and cand: "getDeployment s (sci_deploymentId i) = Some d"
    and r: "r = retarget E old (stable_deployment old) (canary_targets (stable_deployment old) (dep_id d) w)"
    and s1: "getRoute s1 = (getRoute s)((sci_projectId i, host, path) \<mapsto> r)"
      "getDeployment s1 = getDeployment s" "getProject s1 = getProject s"
    using startRouteCanary_Inr [OF assms(3)] by (elim exE conjE) (rule that, assumption+)
  note old = ok_route [OF ok o] and st = route_ok_stable [of s old] and k = getRoute_key [OF o]
  have st': "stable_deployment r = stable_deployment old"
    by (simp add: r stable_deployment_def canary_targets_def)
  obtain s2 where s2: "rollbackRoute E' \<lparr>rri_projectId = sci_projectId i, rri_host = sci_host i,
            rri_pathPrefix = sci_pathPrefix i, rri_deploymentId = None\<rparr> s1
      = (s2, Inr (retarget E' r (stable_deployment r) (single_target (stable_deployment r))))"
    using rollback_to_stable [OF h, of s1 "sci_projectId i" r _ E'] s1 old st o st'
    by (auto simp: route_ok_def)
  have "(\<Sum>t \<leftarrow> canary_targets a b w. tgt_weight t) = 100" for a b
    by (simp add: canary_targets_def)
  moreover have "dep_id d = sci_deploymentId i" using ok_lookups(3) [OF ok cand] by simp
  ultimately have "\<exists>v. sci_weight i = JInt v
      \<and> rte_targets r = canary_targets (rte_deploymentId r) (sci_deploymentId i) v
      \<and> sci_deploymentId i \<noteq> rte_deploymentId r \<and> 0 < v \<and> v < 100
      \<and> (\<Sum>t \<leftarrow> rte_targets r. tgt_weight t) = 100"
    using w r by (intro exI [of _ w]) auto
  then show ?thesis
    using r s2 st' st old o k by auto
qed

definition ex_canaried :: RoutePointer where
  "ex_canaried = \<lparr>rte_id = ''r1'', rte_projectId = ''p1'', rte_host = ''h.example'',
     rte_pathPrefix = ''/'', rte_deploymentId = ''d1'', rte_targets = canary_targets ''d1'' ''d2'' 10,
     rte_updatedAt = ''t1''\<rparr>"

lemma ex_canary_result: "snd (startRouteCanary ex_env ex_canary ex_state) = Inr ex_canaried"
  by code_simp

theorem canary_then_rollback_witness:
  "\<exists>s1 s2 q. startRouteCanary ex_env ex_canary ex_state = (s1, Inr ex_canaried)
     \<and> rollbackRoute ex_env \<lparr>rri_projectId = ''p1'', rri_host = JStr ''h.example'',
         rri_pathPrefix = JStr ''/'', rri_deploymentId = None\<rparr> s1 = (s2, Inr q)
     \<and> rte_targets q = single_target ''d1''"
proof -
  obtain s1 where s1: "startRouteCanary ex_env ex_canary ex_state = (s1, Inr ex_canaried)"
    using ex_canary_result by (cases "startRouteCanary ex_env ex_canary ex_state") simp
  from canary_then_rollback [OF ex_urls_roundtrip ex_state_reachable this, of ex_env] s1
  show ?thesis by (auto simp: ex_canary_def ex_canaried_def)
qed

definition ex_preview :: CreateDeployPreviewInput where
  "ex_preview = \<lparr>dpi_id = JStr ''v1'', dpi_projectId = ''p1'', dpi_deploymentId = ''d2'',
     dpi_host = JStr ''h.example'', dpi_pathPrefix = JUndefined, dpi_environment = JUndefined\<rparr>"

text \<open>
  C30. A preview can always be undone: rolling it back right after it was created succeeds, marks it
  rolled back, and leaves every route as it was before the preview (id, key, primary deployment and
  targets; only the update time differs), the preview's own key included.
\<close>

theorem preview_rolls_back:
  assumes "url_roundtrip U" and "reachable U s" and "createDeployPreview E i s = (s1, Inr v)"
  shows "\<exists>s2 w. rollbackDeployPreview E' (prv_id v) s1 = (s2, Inr w) \<and> prv_status w = RolledBack
     \<and> (\<forall>k. same_route (getRoute s2 k) (getRoute s k))"
  using preview_rollback [OF reachable_ok [OF assms(2,1)] assms(3)] .

theorem preview_rolls_back_witness:
  "\<exists>s1 v s2 w. createDeployPreview ex_env ex_preview ex_state = (s1, Inr v)
     \<and> rollbackDeployPreview ex_env (prv_id v) s1 = (s2, Inr w) \<and> prv_status w = RolledBack
     \<and> (\<forall>k. same_route (getRoute s2 k) (getRoute ex_state k))
     \<and> map_option rte_targets (getRoute s1 ex_key) = Some (single_target ''d2'')"
proof -
  have "\<not> isl (snd (createDeployPreview ex_env ex_preview ex_state))
      \<and> map_option rte_targets (getRoute (fst (createDeployPreview ex_env ex_preview ex_state)) ex_key)
        = Some (single_target ''d2'')"
    by code_simp
  then obtain s1 v where c: "createDeployPreview ex_env ex_preview ex_state = (s1, Inr v)"
    and t: "map_option rte_targets (getRoute s1 ex_key) = Some (single_target ''d2'')"
    by (cases "createDeployPreview ex_env ex_preview ex_state"; cases "snd (createDeployPreview ex_env ex_preview ex_state)") auto
  from preview_rolls_back [OF ex_urls_roundtrip ex_state_reachable c, of ex_env] c t
  show ?thesis by blast
qed

end
