(* ===== verification/Frames.thy ===== *)
theory Frames
  imports Integrity
begin

text \<open>
  Which table each repository statement writes (\<open>writes\<close>), and the consequence for the
  operations of the service: a view of the database that does not depend on the tables an
  operation writes is left alone by it (\<open>frames\<close>).
\<close>

definition writes :: "(('t \<Rightarrow> 't) \<Rightarrow> Db \<Rightarrow> Db) \<Rightarrow> 'a service \<Rightarrow> bool" where
  "writes upd m \<longleftrightarrow> (\<forall>s. \<exists>t. fst (m s) = upd (\<lambda>_. t) s)"

definition frames :: "(Db \<Rightarrow> 'v) \<Rightarrow> 'a service \<Rightarrow> bool" where
  "frames g m \<longleftrightarrow> (\<forall>s. g (fst (m s)) = g s)"

named_theorems framing "rules for frames"

lemma framesD: "frames g m \<Longrightarrow> g (fst (m s)) = g s"
  by (simp add: frames_def)

lemma frames_writes: "writes upd m \<Longrightarrow> (\<And>t s. g (upd (\<lambda>_. t) s) = g s) \<Longrightarrow> frames g m"
  unfolding writes_def frames_def by metis

lemma frames_reader: "reader m \<Longrightarrow> frames g m"
  by (simp add: frames_def reader_def)

lemma frames_prims [framing]:
  "frames g (pureS x)" "frames g (liftS r)" "frames g (readS h)" "frames g (askS a)"
  "frames g (guardS b c msg)" "frames g (enforceQuota E pid res)"
  by (auto intro!: frames_reader readers)

lemma frames_bindS [framing]: "frames g m \<Longrightarrow> (\<And>x. frames g (f x)) \<Longrightarrow> frames g (bindS m f)"
  unfolding frames_def
proof (intro allI)
  fix s
  assume m: "\<forall>s. g (fst (m s)) = g s" and f: "\<And>x. \<forall>s. g (fst (f x s)) = g s"
  show "g (fst (bindS m f s)) = g s"
    by (rule inv_bind [where I = "\<lambda>t. g t = g s"]) (use m f in auto)
qed

lemma frames_if [framing]: "frames g m \<Longrightarrow> frames g n \<Longrightarrow> frames g (if b then m else n)" by simp

lemma frames_option [framing]:
  "frames g m \<Longrightarrow> (\<And>x. frames g (n x)) \<Longrightarrow> frames g (case v of None \<Rightarrow> m | Some x \<Rightarrow> n x)"
  by (cases v) auto

lemma frames_prod [framing]: "(\<And>a b. frames g (f a b)) \<Longrightarrow> frames g (case p of (a, b) \<Rightarrow> f a b)"
  by (cases p) simp

lemma frames_audited [framing]:
  "frames g m \<Longrightarrow> (\<And>x. reader (f x)) \<Longrightarrow> (\<And>t a. g (t\<lparr>db_audit := a\<rparr>) = g t) \<Longrightarrow>
   frames g (audited E m f)"
  by (simp add: frames_def audited_frame)

lemma writes_insert_row:
  "(\<And>s. \<exists>t. put s = upd (\<lambda>_. t) s) \<Longrightarrow> (\<And>s. \<exists>t. s = upd (\<lambda>_. t) s) \<Longrightarrow>
   writes upd (\<lambda>s. insert_row k i (taken s) (dangling s) put r s)"
  by (simp add: writes_def insert_row_fst)

lemma table_self:
  "\<exists>t. s = s\<lparr>db_organizations := t\<rparr>" "\<exists>t. s = s\<lparr>db_users := t\<rparr>" "\<exists>t. s = s\<lparr>db_projects := t\<rparr>"
  "\<exists>t. s = s\<lparr>db_memberships := t\<rparr>" "\<exists>t. s = s\<lparr>db_apiKeys := t\<rparr>" "\<exists>t. s = s\<lparr>db_domains := t\<rparr>"
  "\<exists>t. s = s\<lparr>db_previews := t\<rparr>" "\<exists>t. s = s\<lparr>db_artifacts := t\<rparr>" "\<exists>t. s = s\<lparr>db_secrets := t\<rparr>"
  "\<exists>t. s = s\<lparr>db_kv := t\<rparr>" "\<exists>t. s = s\<lparr>db_dos := t\<rparr>" "\<exists>t. s = s\<lparr>db_deployments := t\<rparr>"
  "\<exists>t. s = s\<lparr>db_routes := t\<rparr>" "\<exists>t. s = s\<lparr>db_nodes := t\<rparr>" "\<exists>t. s = s\<lparr>db_canary := t\<rparr>"
  for s :: Db
  by (cases s; auto)+

named_theorems write_defs "the statements that write"

lemmas [write_defs] = repo_createOrganization_def repo_updateOrganizationBilling_def
  repo_createUser_def repo_updateUserEmailVerification_def repo_createProject_def
  repo_createProjectMembership_def repo_acceptProjectMembershipInvite_def
  repo_updateProjectMembershipRole_def update_membership_def repo_deleteProjectMembership_def
  repo_createApiKey_def repo_updateApiKeyLastUsed_def repo_revokeApiKey_def update_api_key_def
  repo_rotateApiKey_def repo_createCustomDomain_def repo_updateCustomDomain_def
  repo_deleteCustomDomain_def repo_createDeployPreview_def repo_updateDeployPreview_def
  repo_createArtifact_def repo_createSecret_def repo_updateSecretValue_def repo_deleteSecret_def
  repo_createKvNamespace_def repo_deleteKvNamespace_def repo_createDurableObjectNamespace_def
  repo_deleteDurableObjectNamespace_def create_resource_def delete_resource_def
  repo_createDeployment_def upsertRoute_def deleteRoute_def repo_createRuntimeNode_def
  updateRuntimeNodeHeartbeat_def repo_updateRuntimeNodeStatus_def update_node_def
  deleteRuntimeNode_def repo_createCanaryDecision_def insert_row_fst

lemma writes_all:
  "writes db_organizations_update (repo_createOrganization r1)"
  "writes db_organizations_update (repo_updateOrganizationBilling r1)"
  "writes db_users_update (repo_createUser r2)"
  "writes db_users_update (repo_updateUserEmailVerification rid t)"
  "writes db_projects_update (repo_createProject r6)"
  "writes db_memberships_update (repo_createProjectMembership r3)"
  "writes db_memberships_update (repo_acceptProjectMembershipInvite pid uid t)"
  "writes db_memberships_update (repo_updateProjectMembershipRole pid uid role)"
  "writes db_memberships_update (repo_deleteProjectMembership pid uid)"
  "writes db_apiKeys_update (repo_createApiKey r4 h)"
  "writes db_apiKeys_update (repo_updateApiKeyLastUsed rid t)"
  "writes db_apiKeys_update (repo_revokeApiKey rid t)"
  "writes db_domains_update (repo_createCustomDomain r5)"
  "writes db_domains_update (repo_updateCustomDomain r5)"
  "writes db_domains_update (repo_deleteCustomDomain rid)"
  "writes db_previews_update (repo_createDeployPreview v)"
  "writes db_previews_update (repo_updateDeployPreview v)"
  "writes db_artifacts_update (repo_createArtifact a)"
  "writes db_secrets_update (repo_createSecret r x)"
  "writes db_secrets_update (repo_updateSecretValue rid x t)"
  "writes db_secrets_update (repo_deleteSecret rid)"
  "writes db_kv_update (repo_createKvNamespace r)"
  "writes db_kv_update (repo_deleteKvNamespace rid)"
  "writes db_dos_update (repo_createDurableObjectNamespace r)"
  "writes db_dos_update (repo_deleteDurableObjectNamespace rid)"
  "writes db_deployments_update (repo_createDeployment d)"
  "writes db_routes_update (upsertRoute q)"
  "writes db_routes_update (deleteRoute k)"
  "writes db_nodes_update (repo_createRuntimeNode n)"
  "writes db_nodes_update (updateRuntimeNodeHeartbeat n)"
  "writes db_nodes_update (repo_updateRuntimeNodeStatus rid st)"
  "writes db_nodes_update (deleteRuntimeNode rid)"
  "writes db_canary_update (repo_createCanaryDecision c)"
  unfolding writes_def
  by (auto simp: write_defs Let_def table_self split: option.split)

lemma writes_rotate: "writes db_apiKeys_update (repo_rotateApiKey rid nid nname h t)"
  unfolding writes_def
proof
  fix s
  have w: "\<exists>u. fst (repo_createApiKey new h s) = s\<lparr>db_apiKeys := u\<rparr>" for new
    using writes_all(10) by (auto simp: writes_def)
  show "\<exists>u. fst (repo_rotateApiKey rid nid nname h t s) = s\<lparr>db_apiKeys := u\<rparr>"
  proof (cases "getApiKey s rid")
    case (Some old)
    let ?new = "\<lparr>key_id = nid, key_organizationId = key_organizationId old,
        key_projectId = key_projectId old,
        key_name = (case nname of None \<Rightarrow> key_name old | Some n \<Rightarrow> n),
        key_scopes = key_scopes old, key_createdAt = t, key_lastUsedAt = None, key_revokedAt = None\<rparr>"
    obtain u where u: "fst (repo_createApiKey ?new h s) = s\<lparr>db_apiKeys := u\<rparr>" using w by blast
    obtain s' res where p: "repo_createApiKey ?new h s = (s', res)" by (cases "repo_createApiKey ?new h s")
    with u have "s' = s\<lparr>db_apiKeys := u\<rparr>" by simp
    with p Some show ?thesis
      by (cases res) (auto simp: repo_rotateApiKey_def Let_def table_self)
  qed (simp add: repo_rotateApiKey_def table_self)
qed

lemmas frames_table [framing] = writes_all [THEN frames_writes] writes_rotate [THEN frames_writes]

lemma frames_deleteNodes [framing]:
  "(\<And>t s. g (s\<lparr>db_nodes := t\<rparr>) = g s) \<Longrightarrow> frames g (deleteRuntimeNodes ns)"
  by (induction ns)
    (simp_all add: frames_prims frames_bindS frames_writes [OF writes_all(32)] del: run_simps)

text \<open>The operations, unfolded to their statements.\<close>

lemmas member_ops = addProjectMembership_def updateProjectMembershipRole_def
  removeProjectMembership_def acceptProjectMembershipInvite_def

lemmas key_ops = createApiKey_def revokeApiKey_def rotateApiKey_def authenticateApiToken_def

lemmas domain_ops = createCustomDomain_def deleteCustomDomain_def verifyCustomDomainOwnership_def
  requestCustomDomainTlsProvisioning_def completeCustomDomainTlsProvisioning_def

lemmas node_ops = registerRuntimeNode_def recordRuntimeNodeHeartbeat_def updateRuntimeNodeStatus_def
  cleanupRuntimeNodes_def

lemmas resource_ops = createSecret_def updateSecretValue_def deleteSecret_def createKvNamespace_def
  deleteKvNamespace_def createDurableObjectNamespace_def deleteDurableObjectNamespace_def

lemmas account_ops = createOrganization_def updateOrganizationBilling_def createUser_def
  verifyUserEmail_def createProject_def

lemmas release_ops = createArtifact_def createDeployment_def

lemmas route_ops = createDeployPreview_def rollbackDeployPreview_def pointRoute_def
  startRouteCanary_def rollbackRoute_def analyzeRouteCanary_def

lemmas all_ops = account_ops member_ops key_ops domain_ops node_ops resource_ops release_ops route_ops

text \<open>An audited operation that returned: the state is that of the operation, the log aside.\<close>

lemma audited_returns:
  assumes "audited E m f s = (s', Inr x)" and "\<And>x. reader (f x)"
  shows "\<exists>s1 a. m s = (s1, Inr x) \<and> s' = s1\<lparr>db_audit := a\<rparr>"
proof -
  obtain s1 y where m: "m s = (s1, Inr y)"
    and r: "bindS (f y) (\<lambda>i. bindS (recordCustomerAuditEvent E i) (\<lambda>_. pureS y)) s1 = (s', Inr x)"
    using assms(1) by (auto simp: audited_def bindS_Inr)
  from r obtain i e s2 where "f y s1 = (s2, Inr i)"
    and "recordCustomerAuditEvent E i s2 = (s', Inr e)" and "y = x"
    by (auto simp: bindS_Inr)
  moreover from this(1) have "s2 = s1" using assms(2) by (metis reader_def fst_conv)
  ultimately have "recordCustomerAuditEvent E i s1 = (s', Inr e)" and "y = x" by auto
  with audit_only [of E i s1] m show ?thesis by auto
qed

end
