(* ===== verification/Membership.thy ===== *)
theory Membership
  imports Examples Frames
begin

text \<open>
  Who belongs to a project and who may act for it: the owners a project keeps, and the life of an
  API key, from the operations of \<open>control-plane/service.ts\<close>.
\<close>

subsection \<open>Owners\<close>

definition is_owner :: "string \<Rightarrow> ProjectMembership \<Rightarrow> bool" where
  "is_owner pid m \<longleftrightarrow> mem_projectId m = pid \<and> mem_role m = Owner"

definition is_accepted_owner :: "string \<Rightarrow> ProjectMembership \<Rightarrow> bool" where
  "is_accepted_owner pid m \<longleftrightarrow> is_owner pid m \<and> mem_inviteStatus m = Accepted"

definition has_owner :: "Db \<Rightarrow> string \<Rightarrow> bool" where
  "has_owner s pid \<longleftrightarrow> list_ex (is_owner pid) (db_memberships s)"

definition has_accepted_owner :: "Db \<Rightarrow> string \<Rightarrow> bool" where
  "has_accepted_owner s pid \<longleftrightarrow> list_ex (is_accepted_owner pid) (db_memberships s)"

definition keeps_owners :: "Db \<Rightarrow> Db \<Rightarrow> bool" where
  "keeps_owners s s' \<longleftrightarrow> (\<forall>pid. (has_owner s pid \<longrightarrow> has_owner s' pid)
     \<and> (has_accepted_owner s pid \<longrightarrow> has_accepted_owner s' pid))"

lemma keeps_owners_refl [simp]: "db_memberships s' = db_memberships s \<Longrightarrow> keeps_owners s s'"
  by (simp add: keeps_owners_def has_owner_def has_accepted_owner_def)

lemma audited_memberships:
  "(\<And>x. reader (f x)) \<Longrightarrow>
   db_memberships (fst (audited E m f s)) = db_memberships (fst (m s))"
  by (rule audited_frame) auto

text \<open>Another (accepted) owner of the same project survives the loss of \<open>current\<close>.\<close>

definition other_owner :: "Db \<Rightarrow> ProjectMembership \<Rightarrow> ProjectMembership \<Rightarrow> bool" where
  "other_owner s current m \<longleftrightarrow> m \<in> set (db_memberships s)
     \<and> is_owner (mem_projectId current) m \<and> mem_userId m \<noteq> mem_userId current"

lemma assertProjectKeepsOwner_Inr:
  assumes "assertProjectKeepsOwner current s = Inr u" and "mem_role current = Owner"
  shows "\<exists>m. other_owner s current m"
    and "mem_inviteStatus current = Accepted \<Longrightarrow>
      \<exists>m. other_owner s current m \<and> mem_inviteStatus m = Accepted"
  using assms
  by (auto simp: assertProjectKeepsOwner_def Let_def bindE_Inr listProjectMemberships_def
      filter_empty_conv list_ex_iff other_owner_def is_owner_def)

lemma requireProjectMembership_Inr:
  assumes "requireProjectMembership pid uid s = Inr m"
  shows "m \<in> set (db_memberships s)" and "mem_key m = (pid, uid)"
  using assms by (auto simp: requireProjectMembership_def listProjectMemberships_def mem_key_def
      dest!: find_SomeD)

text \<open>Replacing or dropping one row keeps the owners of the other rows.\<close>

lemma keeps_owners_single:
  assumes distinct: "\<And>m. m \<in> set (db_memberships s) \<Longrightarrow> mem_key m = mem_key current \<Longrightarrow> m = current"
    and rest: "\<And>m. m \<in> set (db_memberships s) \<Longrightarrow> mem_key m \<noteq> mem_key current \<Longrightarrow>
      m \<in> set (db_memberships s')"
    and other: "mem_role current = Owner \<Longrightarrow> \<exists>m. other_owner s current m"
    and accepted: "mem_role current = Owner \<Longrightarrow> mem_inviteStatus current = Accepted \<Longrightarrow>
      \<exists>m. other_owner s current m \<and> mem_inviteStatus m = Accepted"
  shows "keeps_owners s s'"
proof -
  have pick: "m \<in> set (db_memberships s')" if "other_owner s current m" for m
    using that rest by (auto simp: other_owner_def mem_key_def)
  have "has_owner s' pid" if h: "has_owner s pid" for pid
  proof -
    obtain m where m: "m \<in> set (db_memberships s)" "is_owner pid m"
      using h by (auto simp: has_owner_def list_ex_iff)
    show ?thesis
    proof (cases "mem_key m = mem_key current")
      case True
      with distinct m have "m = current" by blast
      with m other pick show ?thesis
        by (fastforce simp: has_owner_def list_ex_iff is_owner_def other_owner_def)
    qed (use m rest in \<open>auto simp: has_owner_def list_ex_iff\<close>)
  qed
  moreover have "has_accepted_owner s' pid" if h: "has_accepted_owner s pid" for pid
  proof -
    obtain m where m: "m \<in> set (db_memberships s)" "is_accepted_owner pid m"
      using h by (auto simp: has_accepted_owner_def list_ex_iff)
    show ?thesis
    proof (cases "mem_key m = mem_key current")
      case True
      with distinct m have "m = current" by blast
      with m accepted pick show ?thesis
        by (fastforce simp: has_accepted_owner_def list_ex_iff is_owner_def is_accepted_owner_def
            other_owner_def)
    qed (use m rest in \<open>auto simp: has_accepted_owner_def list_ex_iff\<close>)
  qed
  ultimately show ?thesis by (simp add: keeps_owners_def)
qed

subsection \<open>Memberships are keyed by project and user\<close>

definition memberships_keyed :: "Db \<Rightarrow> bool" where
  "memberships_keyed s \<longleftrightarrow> distinct (map mem_key (db_memberships s))"

fun writes_members :: "command \<Rightarrow> bool" where
  "writes_members (AddProjectMembership pid uid role) = True"
| "writes_members (UpdateProjectMembershipRole pid uid role) = True"
| "writes_members (RemoveProjectMembership pid uid) = True"
| "writes_members (AcceptProjectMembershipInvite pid uid) = True"
| "writes_members _ = False"

lemma frames_memberships:
  "frames db_memberships (createOrganization E a1)" "frames db_memberships (updateOrganizationBilling E a2)"
  "frames db_memberships (createUser E a3)" "frames db_memberships (verifyUserEmail E a4)"
  "frames db_memberships (createProject E a5)" "frames db_memberships (createApiKey E a6)"
  "frames db_memberships (revokeApiKey E a7)" "frames db_memberships (rotateApiKey E a8)"
  "frames db_memberships (authenticateApiToken E a7)"
  "frames db_memberships (createCustomDomain E a7 a4 b1)" "frames db_memberships (deleteCustomDomain E a4)"
  "frames db_memberships (verifyCustomDomainOwnership E a4 a7)"
  "frames db_memberships (requestCustomDomainTlsProvisioning E a4 a7 b1)"
  "frames db_memberships (completeCustomDomainTlsProvisioning E a9)"
  "frames db_memberships (createDeployPreview E b2)" "frames db_memberships (rollbackDeployPreview E a4)"
  "frames db_memberships (createArtifact E b3)" "frames db_memberships (createSecret E a7 a4 b1 b4)"
  "frames db_memberships (updateSecretValue E a4 a7)" "frames db_memberships (deleteSecret a4)"
  "frames db_memberships (createKvNamespace E a7 a4 b1)" "frames db_memberships (deleteKvNamespace a4)"
  "frames db_memberships (createDurableObjectNamespace E a7 a4 b1)"
  "frames db_memberships (deleteDurableObjectNamespace a4)" "frames db_memberships (createDeployment E b5)"
  "frames db_memberships (pointRoute E b6)" "frames db_memberships (startRouteCanary E b7)"
  "frames db_memberships (rollbackRoute E b8)" "frames db_memberships (analyzeRouteCanary E b9)"
  "frames db_memberships (registerRuntimeNode E c1)" "frames db_memberships (recordRuntimeNodeHeartbeat E c2)"
  "frames db_memberships (updateRuntimeNodeStatus a4 a7)" "frames db_memberships (cleanupRuntimeNodes E a7 b1)"
  unfolding account_ops key_ops domain_ops node_ops resource_ops release_ops route_ops Let_def
  by (intro framing readers; simp)+

lemma exec_memberships: "\<not> writes_members c \<Longrightarrow> db_memberships (exec E c s) = db_memberships s"
  by (cases c) (simp_all add: frames_memberships [THEN framesD])

lemma keyed_repo:
  assumes "memberships_keyed s"
  shows "memberships_keyed (fst (repo_createProjectMembership r s))"
    and "memberships_keyed (fst (repo_updateProjectMembershipRole pid uid role s))"
    and "memberships_keyed (fst (repo_acceptProjectMembershipInvite pid uid t s))"
    and "memberships_keyed (fst (repo_deleteProjectMembership pid uid s))"
proof -
  have upd: "map mem_key (update_by mem_key k f ts) = map mem_key ts"
    if "\<And>m. mem_key (f m) = mem_key m" for k f ts
    by (rule map_key_update) (rule that)
  show "memberships_keyed (fst (repo_createProjectMembership r s))"
    using assms by (auto simp: memberships_keyed_def repo_createProjectMembership_def Let_def
        insert_row_fst upd mem_key_def has_key_set)
  show "memberships_keyed (fst (repo_updateProjectMembershipRole pid uid role s))"
    "memberships_keyed (fst (repo_acceptProjectMembershipInvite pid uid t s))"
    using assms by (auto simp: memberships_keyed_def repo_updateProjectMembershipRole_def
        repo_acceptProjectMembershipInvite_def update_membership_def upd mem_key_def split: option.split)
  show "memberships_keyed (fst (repo_deleteProjectMembership pid uid s))"
    using assms by (auto simp: memberships_keyed_def repo_deleteProjectMembership_def
        distinct_delete_by split: option.split)
qed

lemma keyed_audited: "(\<And>x. reader (f x)) \<Longrightarrow>
   memberships_keyed (fst (audited E m f s)) = memberships_keyed (fst (m s))"
  by (rule audited_frame) (auto simp: memberships_keyed_def)

lemma keyed_ops:
  assumes "memberships_keyed s"
  shows "memberships_keyed (fst (addProjectMembership E pid uid role s))"
    and "memberships_keyed (fst (updateProjectMembershipRole E pid uid role s))"
    and "memberships_keyed (fst (removeProjectMembership E pid uid s))"
    and "memberships_keyed (fst (acceptProjectMembershipInvite E pid uid s))"
  unfolding member_ops
  by (intro inv_bind_reader [where I = memberships_keyed] readers assms,
      subst keyed_audited, rule reader_prims, rule keyed_repo [OF assms])+

lemma reachable_keyed: "reachable U s \<Longrightarrow> memberships_keyed s"
proof (induction rule: reachable.induct)
  case start
  show ?case by (simp add: memberships_keyed_def empty_db_def)
next
  case (step s E c)
  show ?case
  proof (cases "writes_members c")
    case True
    then show ?thesis using step.IH by (cases c) (simp_all add: keyed_ops)
  next
    case False
    then show ?thesis using step.IH exec_memberships by (simp add: memberships_keyed_def)
  qed
qed

subsection \<open>Which calls keep the owners\<close>

lemma keyed_unique: "memberships_keyed s \<Longrightarrow> a \<in> set (db_memberships s) \<Longrightarrow>
    b \<in> set (db_memberships s) \<Longrightarrow> mem_key a = mem_key b \<Longrightarrow> a = b"
  unfolding memberships_keyed_def by (metis distinct_map inj_onD)

lemma owners_audited: "(\<And>x. reader (f x)) \<Longrightarrow>
   keeps_owners s (fst (audited E m f t)) = keeps_owners s (fst (m t))"
  by (rule audited_frame) (auto simp: keeps_owners_def has_owner_def has_accepted_owner_def)

lemma owners_auditedI: "keeps_owners s (fst (m t)) \<Longrightarrow> (\<And>x. reader (f x)) \<Longrightarrow>
   keeps_owners s (fst (audited E m f t))"
  by (simp add: owners_audited)

lemma keeps_owners_self: "keeps_owners s s" by simp

lemmas owners_walk = inv_bind_reader [where I = "keeps_owners s" for s] owners_auditedI readers
  keeps_owners_self

text \<open>Rows changed in a way that keeps owners owners.\<close>

lemma keeps_owners_map:
  assumes "db_memberships s' = map g (db_memberships s)"
    and "\<And>m pid. m \<in> set (db_memberships s) \<Longrightarrow> is_owner pid m \<Longrightarrow> is_owner pid (g m)"
    and "\<And>m pid. m \<in> set (db_memberships s) \<Longrightarrow> is_accepted_owner pid m \<Longrightarrow>
      is_accepted_owner pid (g m)"
  shows "keeps_owners s s'"
  unfolding keeps_owners_def has_owner_def has_accepted_owner_def list_ex_iff assms(1) set_map
  using assms(2,3) by blast

lemma keeps_owners_update:
  assumes "\<And>m. m \<in> set (db_memberships s) \<Longrightarrow> mem_key m = k \<Longrightarrow>
      mem_projectId (f m) = mem_projectId m
      \<and> (mem_role m = Owner \<longrightarrow> mem_role (f m) = Owner)
      \<and> (mem_inviteStatus m = Accepted \<longrightarrow> mem_inviteStatus (f m) = Accepted)"
  shows "keeps_owners s (s\<lparr>db_memberships := update_by mem_key k f (db_memberships s)\<rparr>)"
  by (rule keeps_owners_map [where g = "\<lambda>m. if mem_key m = k then f m else m"])
    (use assms in \<open>auto simp: update_by_def is_owner_def is_accepted_owner_def\<close>)

lemma accept_keeps_owners: "keeps_owners s (fst (acceptProjectMembershipInvite E pid uid s))"
  unfolding acceptProjectMembershipInvite_def
  by (intro owners_walk)
    (simp add: repo_acceptProjectMembershipInvite_def update_membership_def keeps_owners_update
      split: option.split)

lemma remove_keeps_owners:
  assumes keyed: "memberships_keyed s"
  shows "keeps_owners s (fst (removeProjectMembership E pid uid s))"
  unfolding removeProjectMembership_def
proof (intro owners_walk)
  fix p u current x
  assume "readS (requireProjectMembership pid uid) s = (s, Inr current)"
    and "readS (assertProjectKeepsOwner current) s = (s, Inr x)"
  then have c: "requireProjectMembership pid uid s = Inr current"
    and a: "assertProjectKeepsOwner current s = Inr x" by simp_all
  note m = requireProjectMembership_Inr [OF c]
  show "keeps_owners s (fst (repo_deleteProjectMembership pid uid s))"
  proof (rule keeps_owners_single [where current = current])
    show "m' = current" if "m' \<in> set (db_memberships s)" "mem_key m' = mem_key current" for m'
      using keyed_unique [OF keyed that(1) m(1) that(2)] .
    show "m' \<in> set (db_memberships (fst (repo_deleteProjectMembership pid uid s)))"
      if "m' \<in> set (db_memberships s)" "mem_key m' \<noteq> mem_key current" for m'
      using that m(2) by (auto simp: repo_deleteProjectMembership_def set_delete_by split: option.split)
  qed (use assertProjectKeepsOwner_Inr [OF a] in auto)
qed

lemma update_keeps_owners:
  assumes keyed: "memberships_keyed s"
  shows "keeps_owners s (fst (updateProjectMembershipRole E pid uid role s))"
  unfolding updateProjectMembershipRole_def
proof (intro owners_walk)
  fix p u r current x
  assume "readS (requireProjectMembership pid uid) s = (s, Inr current)"
    and g: "(if mem_role current = Owner \<and> r \<noteq> Owner then readS (assertProjectKeepsOwner current)
      else pureS ()) s = (s, Inr x)"
  then have c: "requireProjectMembership pid uid s = Inr current" by simp
  note m = requireProjectMembership_Inr [OF c]
  let ?s' = "fst (repo_updateProjectMembershipRole pid uid r s)"
  show "keeps_owners s ?s'"
  proof (cases "mem_role current = Owner \<and> r \<noteq> Owner")
    case True
    with g have a: "assertProjectKeepsOwner current s = Inr x" by simp
    show ?thesis
    proof (rule keeps_owners_single [where current = current])
      show "m' = current" if "m' \<in> set (db_memberships s)" "mem_key m' = mem_key current" for m'
        using keyed_unique [OF keyed that(1) m(1) that(2)] .
      show "m' \<in> set (db_memberships ?s')"
        if "m' \<in> set (db_memberships s)" "mem_key m' \<noteq> mem_key current" for m'
        using that m(2) by (auto simp: repo_updateProjectMembershipRole_def update_membership_def
            set_update_by split: option.split)
    qed (use assertProjectKeepsOwner_Inr [OF a] in auto)
  next
    case False
    have one: "mem_key m' = (pid, uid) \<Longrightarrow> m' \<in> set (db_memberships s) \<Longrightarrow> m' = current" for m'
      using keyed_unique [OF keyed _ m(1)] m(2) by auto
    have "keeps_owners s (s\<lparr>db_memberships := update_by mem_key (pid, uid)
        (\<lambda>m. m\<lparr>mem_role := r\<rparr>) (db_memberships s)\<rparr>)"
      by (rule keeps_owners_update) (use False one in auto)
    then show ?thesis
      by (simp add: repo_updateProjectMembershipRole_def update_membership_def split: option.split)
  qed
qed

lemma exec_keeps_owners:
  assumes "reachable U s" and "\<not> is_AddProjectMembership c"
  shows "keeps_owners s (exec E c s)"
proof (cases "writes_members c")
  case True
  with assms(2) reachable_keyed [OF assms(1)] show ?thesis
    by (cases c) (simp_all add: accept_keeps_owners remove_keeps_owners update_keeps_owners)
next
  case False
  then show ?thesis by (simp add: exec_memberships)
qed

subsection \<open>The life of an API key\<close>

definition hex_random :: "Env \<Rightarrow> bool" where
  "hex_random E \<longleftrightarrow> list_all is_hex (env_randomHex E)"

lemma newToken_clean: "hex_random E \<Longrightarrow> trim (newToken E) = newToken E \<and> newToken E \<noteq> []"
proof -
  assume "hex_random E"
  then have "\<forall>c \<in> set (env_randomHex E). \<not> js_ws c"
    by (auto simp: hex_random_def list_all_iff is_hex_not_ws)
  moreover have "list_all (\<lambda>c. \<not> js_ws c) ''wmp_''" by code_simp
  ultimately have "clean (newToken E)"
    by (intro clean_if_no_ws) (auto simp: newToken_def list_all_iff)
  then show ?thesis by (auto simp: clean_trim_id clean_def)
qed

definition has_key_row :: "Db \<Rightarrow> string \<Rightarrow> ApiKey \<Rightarrow> bool" where
  "has_key_row s h k \<longleftrightarrow> getApiKeyByTokenHash s h = Some k \<and> getApiKey s (key_id k) = Some k"

lemma returns_pair: "bindS m (\<lambda>k. pureS (k, x)) s = (s', Inr (k, y)) \<longleftrightarrow> m s = (s', Inr k) \<and> y = x"
  by (auto simp: bindS_Inr)

lemma createApiKey_Inr:
  assumes "createApiKey E i s = (s', Inr (k, tok))"
  shows "tok = newToken E" and "has_key_row s' (hashApiToken E tok) k" and "key_revokedAt k = None"
    and "newId E (cki_id i) ''api key id'' ''key'' = Inr (key_id k)"
proof -
  obtain rid oid pid name scopes where n: "newId E (cki_id i) ''api key id'' ''key'' = Inr rid"
    and tok: "tok = newToken E" and
    a: "\<exists>t. audited E (repo_createApiKey
         \<lparr>key_id = rid, key_organizationId = oid, key_projectId = pid, key_name = name,
          key_scopes = scopes, key_createdAt = env_now E, key_lastUsedAt = None,
          key_revokedAt = None\<rparr> (hashApiToken E (newToken E)))
       (\<lambda>k. pureS (key_audit k ''api_key.created''
          [(''scopes'', JArr (map scope_json (key_scopes k)))])) t = (s', Inr k)"
    using assms unfolding createApiKey_def Let_def
    by (simp only: reader_bind_Inr readers returns_pair run_simps prod.inject simp_thms)
      (elim exE conjE, rule that, assumption, assumption, rule exI, assumption)
  from a obtain t where "audited E (repo_createApiKey
         \<lparr>key_id = rid, key_organizationId = oid, key_projectId = pid, key_name = name,
          key_scopes = scopes, key_createdAt = env_now E, key_lastUsedAt = None,
          key_revokedAt = None\<rparr> (hashApiToken E (newToken E)))
       (\<lambda>k. pureS (key_audit k ''api_key.created''
          [(''scopes'', JArr (map scope_json (key_scopes k)))])) t = (s', Inr k)" ..
  from audited_returns [OF this reader_prims(1)] obtain s1 log where c: "repo_createApiKey
         \<lparr>key_id = rid, key_organizationId = oid, key_projectId = pid, key_name = name,
          key_scopes = scopes, key_createdAt = env_now E, key_lastUsedAt = None,
          key_revokedAt = None\<rparr> (hashApiToken E (newToken E)) t = (s1, Inr k)"
    and s': "s' = s1\<lparr>db_audit := log\<rparr>" by blast
  show "tok = newToken E" by fact
  show "key_revokedAt k = None" using c by (auto simp: repo_createApiKey_def insert_row_Inr)
  show "newId E (cki_id i) ''api key id'' ''key'' = Inr (key_id k)"
    using c n by (auto simp: repo_createApiKey_def insert_row_Inr)
  show "has_key_row s' (hashApiToken E tok) k"
    using c s' tok
    by (auto simp: has_key_row_def repo_createApiKey_def insert_row_Inr getApiKeyByTokenHash_def
        getApiKey_def row_by_append has_key_iff split: option.splits)
qed

lemma authenticate_known:
  assumes "has_key_row s (hashApiToken E tok) k" and "trim tok = tok" and "tok \<noteq> []"
    and "key_revokedAt k = None"
  shows "snd (authenticateApiToken E (JStr tok) s) = Inr (Some
     \<lparr>tok_token = tok, tok_scopes = key_scopes k, tok_principal = ''api-key:'' @ key_id k,
      tok_apiKeyId = key_id k, tok_organizationId = key_organizationId k,
      tok_projectId = key_projectId k\<rparr>)"
  using assms by (simp add: authenticateApiToken_def has_key_row_def truthy_string_def bindS_def
      repo_updateApiKeyLastUsed_def update_api_key_def Let_def)

lemma authenticate_revoked:
  assumes "getApiKeyByTokenHash s (hashApiToken E tok) = Some k" and "trim tok = tok"
    and "truthy_string (key_revokedAt k) \<noteq> None"
  shows "authenticateApiToken E (JStr tok) s = (s, Inr None)"
  using assms by (simp add: authenticateApiToken_def Let_def)

lemma revoke_row:
  assumes "has_key_row s h k" and "key_revokedAt k = None" and "clean (key_id k)"
  shows "getApiKeyByTokenHash (fst (revokeApiKey E (JStr (key_id k)) s)) h
    = Some (k\<lparr>key_revokedAt := Some (env_now E)\<rparr>)"
proof -
  have rid: "requireApiKeyId (JStr (key_id k)) = Inr (key_id k)"
    using assms(3) by (auto simp: requireApiKeyId_def optionalId_def nonEmptyString_def clean_def
        trim_trimmed_id)
  have "getApiKeyByTokenHash (fst (revokeApiKey E (JStr (key_id k)) s)) h
      = getApiKeyByTokenHash (fst (repo_revokeApiKey (key_id k) (env_now E) s)) h"
    unfolding revokeApiKey_def rid bindS_simps
    by (rule audited_frame [where g = "\<lambda>t. getApiKeyByTokenHash t h"])
      (auto simp: getApiKeyByTokenHash_def)
  also have "\<dots> = map_option (\<lambda>q. if key_id q = key_id k then revoke_key (env_now E) q else q)
      (getApiKeyByTokenHash s h)"
  proof -
    have "row_by snd h (update_by (key_id \<circ> fst) rid (map_prod f (\<lambda>h. h)) t)
        = map_option (\<lambda>(q, x). (if key_id q = rid then f q else q, x)) (row_by snd h t)" for rid t
      and f :: "ApiKey \<Rightarrow> ApiKey"
      by (induction t) (auto simp: update_by_def)
    then show ?thesis
      using assms(1) by (auto simp: has_key_row_def repo_revokeApiKey_def update_api_key_def
          getApiKeyByTokenHash_def)
  qed
  also have "\<dots> = Some (k\<lparr>key_revokedAt := Some (env_now E)\<rparr>)"
    using assms(1,2) by (simp add: has_key_row_def revoke_key_def)
  finally show ?thesis .
qed

section \<open>Properties\<close>

definition ex_user :: command where
  "ex_user = CreateUser \<lparr>cui_id = JStr ''u1'', cui_email = JStr ''a@b.c'', cui_name = JUndefined,
     cui_emailVerifiedAt = JUndefined\<rparr>"

definition ex_second_user :: command where
  "ex_second_user = CreateUser \<lparr>cui_id = JStr ''u2'', cui_email = JStr ''d@b.c'', cui_name = JUndefined,
     cui_emailVerifiedAt = JUndefined\<rparr>"

text \<open>A project with one accepted owner \<open>u1\<close> and a developer \<open>u2\<close>.\<close>

definition ex_members :: Db where
  "ex_members = exec (ex_env_n ''aud_12'') (AddProjectMembership ''p1'' ''u2'' (JStr ''developer''))
     (exec (ex_env_n ''aud_11'') (AcceptProjectMembershipInvite ''p1'' ''u1'')
     (exec (ex_env_n ''aud_10'') (AddProjectMembership ''p1'' ''u1'' (JStr ''owner''))
     (exec ex_env ex_second_user (exec ex_env ex_user ex_state))))"

lemma ex_members_reachable: "reachable ex_urls ex_members"
  unfolding ex_members_def
  by (intro reachable.intros ex_state_reachable ex_env_good ex_env_good_plain)

text \<open>
  C26. A project does not lose its owners: whatever call is made, other than inviting a member, a
  project that had an owner still has one, and one that had an owner with an accepted invitation
  still has such an owner.
\<close>

theorem owners_are_kept:
  assumes "reachable U s" and "\<not> is_AddProjectMembership c"
  shows "(has_owner s pid \<longrightarrow> has_owner (exec E c s) pid)
     \<and> (has_accepted_owner s pid \<longrightarrow> has_accepted_owner (exec E c s) pid)"
  using exec_keeps_owners [OF assms, of E] by (simp add: keeps_owners_def)

theorem owners_are_kept_witness:
  "has_accepted_owner ex_members ''p1''
   \<and> has_accepted_owner (exec ex_env (RemoveProjectMembership ''p1'' ''u1'') ex_members) ''p1''
   \<and> length (db_memberships (exec ex_env (RemoveProjectMembership ''p1'' ''u2'') ex_members)) = 1"
proof (intro conjI)
  show o: "has_accepted_owner ex_members ''p1''" by code_simp
  have "\<not> is_AddProjectMembership (RemoveProjectMembership ''p1'' ''u1'')" by simp
  from owners_are_kept [OF ex_members_reachable this] o
  show "has_accepted_owner (exec ex_env (RemoveProjectMembership ''p1'' ''u1'') ex_members) ''p1''"
    by blast
  show "length (db_memberships (exec ex_env (RemoveProjectMembership ''p1'' ''u2'') ex_members)) = 1"
    by code_simp
qed

text \<open>
  Inviting a user who is a member already is not covered by that guard: the invitation
  overwrites the row, and it can turn a project's only accepted owner into a pending viewer.
\<close>

theorem reinviting_drops_the_owner:
  "\<exists>s. reachable ex_urls s \<and> has_accepted_owner s ''p1''
     \<and> \<not> isl (snd (addProjectMembership ex_env ''p1'' ''u1'' (JStr ''viewer'') s))
     \<and> \<not> has_owner (exec ex_env (AddProjectMembership ''p1'' ''u1'' (JStr ''viewer'')) s) ''p1''"
proof (intro exI [of _ ex_members] conjI ex_members_reachable)
  show "has_accepted_owner ex_members ''p1''" by code_simp
  show "\<not> isl (snd (addProjectMembership ex_env ''p1'' ''u1'' (JStr ''viewer'') ex_members))"
    by code_simp
  show "\<not> has_owner (exec ex_env (AddProjectMembership ''p1'' ''u1'' (JStr ''viewer'')) ex_members) ''p1''"
    by code_simp
qed

text \<open>
  The life of an API key: the token \<open>createApiKey\<close> hands out authenticates as that key, with
  its scopes, organization and project, and stops doing so once the key is revoked.
\<close>

theorem api_key_life:
  assumes "good_env U E" and "hex_random E" and "createApiKey E i s = (s1, Inr (k, tok))"
    and "env_sha256 E1 = env_sha256 E" and "env_sha256 E2 = env_sha256 E" and "env_now E3 \<noteq> []"
  shows "snd (authenticateApiToken E1 (JStr tok) s1) = Inr (Some
        \<lparr>tok_token = tok, tok_scopes = key_scopes k, tok_principal = ''api-key:'' @ key_id k,
         tok_apiKeyId = key_id k, tok_organizationId = key_organizationId k,
         tok_projectId = key_projectId k\<rparr>)
     \<and> snd (authenticateApiToken E2 (JStr tok) (fst (revokeApiKey E3 (JStr (key_id k)) s1))) = Inr None"
proof -
  note k = createApiKey_Inr [OF assms(3)] and tok = newToken_clean [OF assms(2)]
  have h: "hashApiToken E1 tok = hashApiToken E tok" "hashApiToken E2 tok = hashApiToken E tok"
    using assms(4,5) by (simp_all add: hashApiToken_def)
  have "clean (key_id k)" using newId_clean(4) [OF assms(1) k(4)] .
  from revoke_row [OF k(2,3) this, of E3] h assms(6) tok k(1)
  have "authenticateApiToken E2 (JStr tok) (fst (revokeApiKey E3 (JStr (key_id k)) s1))
      = (fst (revokeApiKey E3 (JStr (key_id k)) s1), Inr None)"
    by (intro authenticate_revoked) (auto simp: truthy_string_def)
  moreover have "snd (authenticateApiToken E1 (JStr tok) s1) = Inr (Some
        \<lparr>tok_token = tok, tok_scopes = key_scopes k, tok_principal = ''api-key:'' @ key_id k,
         tok_apiKeyId = key_id k, tok_organizationId = key_organizationId k,
         tok_projectId = key_projectId k\<rparr>)"
    using k tok h by (intro authenticate_known) auto
  ultimately show ?thesis by simp
qed

definition ex_key_input :: CreateApiKeyInput where
  "ex_key_input = \<lparr>cki_id = JStr ''k1'', cki_organizationId = None, cki_projectId = Some ''p1'',
     cki_name = JStr ''deploy'', cki_scopes = JArr [JStr ''read'', JStr ''publish'']\<rparr>"

theorem api_key_life_witness:
  "\<exists>s1 k tok. createApiKey ex_env ex_key_input ex_state = (s1, Inr (k, tok))
     \<and> snd (authenticateApiToken ex_env (JStr tok) (fst (revokeApiKey ex_env (JStr (key_id k)) s1))) = Inr None
     \<and> snd (authenticateApiToken ex_env (JStr tok) s1) = Inr (Some
        \<lparr>tok_token = tok, tok_scopes = key_scopes k, tok_principal = ''api-key:'' @ key_id k,
         tok_apiKeyId = key_id k, tok_organizationId = key_organizationId k,
         tok_projectId = key_projectId k\<rparr>)"
proof -
  have "\<not> isl (snd (createApiKey ex_env ex_key_input ex_state))" by code_simp
  then obtain s1 k tok where c: "createApiKey ex_env ex_key_input ex_state = (s1, Inr (k, tok))"
    by (cases "createApiKey ex_env ex_key_input ex_state";
        cases "snd (createApiKey ex_env ex_key_input ex_state)") auto
  have "hex_random ex_env" by code_simp
  moreover have "env_now ex_env \<noteq> []" by (simp add: ex_env_def)
  ultimately show ?thesis using api_key_life [OF ex_env_good_plain _ c refl refl] c by blast
qed

end
