(* ===== verification/QuotaLaws.thy ===== *)
theory QuotaLaws
  imports Examples Frames
begin

text \<open>
  No call but the rollback of a preview takes a project above its resource quotas: the counting
  queries of \<open>repository.ts\<close> against the guards of \<open>quotas.ts\<close>, over every command.
\<close>

definition resource_count :: "ProjectQuotaResource \<Rightarrow> string \<Rightarrow> Db \<Rightarrow> nat" where
  "resource_count res pid s = usageCount (getProjectUsage s pid) res"

text \<open>The count did not grow, or it is within the limit.\<close>

definition quota_step :: "Env \<Rightarrow> ProjectQuotaResource \<Rightarrow> string \<Rightarrow> Db \<Rightarrow> Db \<Rightarrow> bool" where
  "quota_step E res pid s s' \<longleftrightarrow> (\<forall>limit. quotaLimit (env_projectQuotas E) res = Some limit \<longrightarrow>
     int (resource_count res pid s') \<le> max (int (resource_count res pid s)) limit)"

lemma resource_count_simps:
  "resource_count QArtifact pid s = length (filter (\<lambda>r. art_projectId r = pid) (db_artifacts s))"
  "resource_count QDeployment pid s = length (filter (\<lambda>r. dep_projectId r = pid) (db_deployments s))"
  "resource_count QRoute pid s = length (filter (\<lambda>r. rte_projectId r = pid) (db_routes s))"
  "resource_count QSecret pid s = length (filter (\<lambda>r. res_projectId (fst r) = pid) (db_secrets s))"
  "resource_count QKvNamespace pid s = length (filter (\<lambda>r. res_projectId r = pid) (db_kv s))"
  "resource_count QDurableObjectNamespace pid s
     = length (filter (\<lambda>r. res_projectId r = pid) (db_dos s))"
  by (simp_all add: resource_count_def getProjectUsage_def)

lemma quota_step_le: "resource_count res pid s' \<le> resource_count res pid s \<Longrightarrow> quota_step E res pid s s'"
  by (auto simp: quota_step_def)

lemma quota_step_new:
  "within_quota (env_projectQuotas E) (getProjectUsage s pid') res \<Longrightarrow>
   resource_count res pid s' \<le> resource_count res pid s + (if pid = pid' then 1 else 0) \<Longrightarrow>
   quota_step E res pid s s'"
  by (auto simp: quota_step_def within_quota_def resource_count_def split: if_splits)

lemma quota_step_self: "quota_step E res pid s s"
  by (simp add: quota_step_le)

text \<open>The tables a count reads.\<close>

lemma count_frame:
  "resource_count res pid (s\<lparr>db_organizations := t1\<rparr>) = resource_count res pid s"
  "resource_count res pid (s\<lparr>db_users := t2\<rparr>) = resource_count res pid s"
  "resource_count res pid (s\<lparr>db_projects := t3\<rparr>) = resource_count res pid s"
  "resource_count res pid (s\<lparr>db_memberships := t4\<rparr>) = resource_count res pid s"
  "resource_count res pid (s\<lparr>db_apiKeys := t5\<rparr>) = resource_count res pid s"
  "resource_count res pid (s\<lparr>db_audit := t6\<rparr>) = resource_count res pid s"
  "resource_count res pid (s\<lparr>db_domains := t7\<rparr>) = resource_count res pid s"
  "resource_count res pid (s\<lparr>db_previews := t8\<rparr>) = resource_count res pid s"
  "resource_count res pid (s\<lparr>db_nodes := t9\<rparr>) = resource_count res pid s"
  "resource_count res pid (s\<lparr>db_canary := u1\<rparr>) = resource_count res pid s"
  by (cases res; simp add: resource_count_simps)+

lemma count_frame_other:
  "res \<noteq> QArtifact \<Longrightarrow> resource_count res pid (s\<lparr>db_artifacts := t1\<rparr>) = resource_count res pid s"
  "res \<noteq> QDeployment \<Longrightarrow> resource_count res pid (s\<lparr>db_deployments := t2\<rparr>) = resource_count res pid s"
  "res \<noteq> QRoute \<Longrightarrow> resource_count res pid (s\<lparr>db_routes := t3\<rparr>) = resource_count res pid s"
  "res \<noteq> QSecret \<Longrightarrow> resource_count res pid (s\<lparr>db_secrets := t4\<rparr>) = resource_count res pid s"
  "res \<noteq> QKvNamespace \<Longrightarrow> resource_count res pid (s\<lparr>db_kv := t5\<rparr>) = resource_count res pid s"
  "res \<noteq> QDurableObjectNamespace \<Longrightarrow>
     resource_count res pid (s\<lparr>db_dos := t6\<rparr>) = resource_count res pid s"
  by (cases res; simp add: resource_count_simps)+

lemma frames_count:
  "frames (resource_count res pid) (createOrganization E a1)"
  "frames (resource_count res pid) (updateOrganizationBilling E a2)"
  "frames (resource_count res pid) (createUser E a3)"
  "frames (resource_count res pid) (verifyUserEmail E a4)"
  "frames (resource_count res pid) (createProject E a5)"
  "frames (resource_count res pid) (addProjectMembership E a4 b4 a7)"
  "frames (resource_count res pid) (updateProjectMembershipRole E a4 b4 a7)"
  "frames (resource_count res pid) (removeProjectMembership E a4 b4)"
  "frames (resource_count res pid) (acceptProjectMembershipInvite E a4 b4)"
  "frames (resource_count res pid) (createApiKey E a6)"
  "frames (resource_count res pid) (revokeApiKey E a7)"
  "frames (resource_count res pid) (rotateApiKey E a8)"
  "frames (resource_count res pid) (authenticateApiToken E a7)"
  "frames (resource_count res pid) (createCustomDomain E a7 a4 b1)"
  "frames (resource_count res pid) (deleteCustomDomain E a4)"
  "frames (resource_count res pid) (verifyCustomDomainOwnership E a4 a7)"
  "frames (resource_count res pid) (requestCustomDomainTlsProvisioning E a4 a7 b1)"
  "frames (resource_count res pid) (completeCustomDomainTlsProvisioning E a9)"
  "frames (resource_count res pid) (registerRuntimeNode E c1)"
  "frames (resource_count res pid) (recordRuntimeNodeHeartbeat E c2)"
  "frames (resource_count res pid) (updateRuntimeNodeStatus a4 a7)"
  "frames (resource_count res pid) (cleanupRuntimeNodes E a7 b1)"
  unfolding account_ops member_ops key_ops domain_ops node_ops Let_def
  by (intro framing readers; simp add: count_frame)+

lemma frames_count_other:
  "res \<noteq> QArtifact \<Longrightarrow> frames (resource_count res pid) (createArtifact E b3)"
  "res \<noteq> QDeployment \<Longrightarrow> frames (resource_count res pid) (createDeployment E b5)"
  "res \<noteq> QSecret \<Longrightarrow> frames (resource_count res pid) (createSecret E a7 a4 b1 b2)"
  "res \<noteq> QSecret \<Longrightarrow> frames (resource_count res pid) (updateSecretValue E a4 a7)"
  "res \<noteq> QSecret \<Longrightarrow> frames (resource_count res pid) (deleteSecret a4)"
  "res \<noteq> QKvNamespace \<Longrightarrow> frames (resource_count res pid) (createKvNamespace E a7 a4 b1)"
  "res \<noteq> QKvNamespace \<Longrightarrow> frames (resource_count res pid) (deleteKvNamespace a4)"
  "res \<noteq> QDurableObjectNamespace \<Longrightarrow>
     frames (resource_count res pid) (createDurableObjectNamespace E a7 a4 b1)"
  "res \<noteq> QDurableObjectNamespace \<Longrightarrow> frames (resource_count res pid) (deleteDurableObjectNamespace a4)"
  "res \<noteq> QRoute \<Longrightarrow> frames (resource_count res pid) (createDeployPreview E d1)"
  "res \<noteq> QRoute \<Longrightarrow> frames (resource_count res pid) (pointRoute E b6)"
  "res \<noteq> QRoute \<Longrightarrow> frames (resource_count res pid) (startRouteCanary E b7)"
  "res \<noteq> QRoute \<Longrightarrow> frames (resource_count res pid) (rollbackRoute E b8)"
  "res \<noteq> QRoute \<Longrightarrow> frames (resource_count res pid) (analyzeRouteCanary E b9)"
  unfolding release_ops resource_ops route_ops Let_def
  by (intro framing readers; simp add: count_frame count_frame_other)+

lemma frames_quota: "frames (resource_count res pid) m \<Longrightarrow> quota_step E res pid s (fst (m s))"
  by (rule quota_step_le) (simp add: framesD)

text \<open>Walking an operation up to the quota guard and its insert.\<close>

lemmas quota_read = inv_bind_reader [where I = "quota_step E res pid s" for E res pid s]

lemma count_audited: "(\<And>x. reader (f x)) \<Longrightarrow>
   resource_count res pid (fst (audited E m f t)) = resource_count res pid (fst (m t))"
  by (rule audited_frame) (simp_all add: count_frame)

lemma quota_audited:
  "quota_step E res pid s (fst (m t)) \<Longrightarrow> (\<And>x. reader (f x)) \<Longrightarrow>
   quota_step E res pid s (fst (audited E' m f t))"
  by (simp add: quota_step_def count_audited)

lemmas quota_walk = quota_read quota_audited readers quota_step_self

lemma enforceQuota_run:
  "enforceQuota E pid res s = (s, Inr x) \<longleftrightarrow>
     within_quota (env_projectQuotas E) (getProjectUsage s pid) res"
  by (simp add: enforceQuota_def enforceProjectQuota_Inr)

lemma quota_createArtifact: "quota_step E res pid s (fst (createArtifact E i s))"
proof (cases "res = QArtifact")
  case True
  show ?thesis
    unfolding createArtifact_def True Let_def
    by (intro quota_walk)
      (auto simp: enforceQuota_run resource_count_simps repo_createArtifact_def insert_row_fst
        intro!: quota_step_new)
qed (simp add: frames_quota frames_count_other)

lemma quota_createDeployment: "quota_step E res pid s (fst (createDeployment E i s))"
proof (cases "res = QDeployment")
  case True
  show ?thesis
    unfolding createDeployment_def True
    by (intro quota_walk)
      (auto simp: enforceQuota_run resource_count_simps repo_createDeployment_def insert_row_fst
        intro!: quota_step_new)
qed (simp add: frames_quota frames_count_other)

lemma quota_createSecret: "quota_step E res pid s (fst (createSecret E v p n x s))"
proof (cases "res = QSecret")
  case True
  show ?thesis
    unfolding createSecret_def True
    by (intro quota_walk)
      (auto simp: enforceQuota_run resource_count_simps repo_createSecret_def create_resource_def
        insert_row_fst new_resource_def intro!: quota_step_new)
qed (simp add: frames_quota frames_count_other)

lemma quota_createKv: "quota_step E res pid s (fst (createKvNamespace E v p n s))"
proof (cases "res = QKvNamespace")
  case True
  show ?thesis
    unfolding createKvNamespace_def True
    by (intro quota_walk)
      (auto simp: enforceQuota_run resource_count_simps repo_createKvNamespace_def create_resource_def
        insert_row_fst new_resource_def intro!: quota_step_new)
qed (simp add: frames_quota frames_count_other)

lemma quota_createDo: "quota_step E res pid s (fst (createDurableObjectNamespace E v p n s))"
proof (cases "res = QDurableObjectNamespace")
  case True
  show ?thesis
    unfolding createDurableObjectNamespace_def True
    by (intro quota_walk)
      (auto simp: enforceQuota_run resource_count_simps repo_createDurableObjectNamespace_def
        create_resource_def insert_row_fst new_resource_def intro!: quota_step_new)
qed (simp add: frames_quota frames_count_other)

text \<open>Updates and deletions do not add rows.\<close>

lemma length_filter_filter: "length (filter (\<lambda>x. Q x \<and> P x) xs) \<le> length (filter P xs)"
  by (induction xs) auto

lemma length_filter_update: "(\<And>r. P (f r) = P r) \<Longrightarrow>
    length (filter P (update_by key k f t)) = length (filter P t)"
  unfolding update_by_def by (induction t) auto

lemma quota_secret_writes:
  "quota_step E res pid s (fst (updateSecretValue E rid x s))"
  "quota_step E res pid s (fst (deleteSecret rid s))"
proof -
  have "quota_step E QSecret pid s (fst (updateSecretValue E rid x s))"
    unfolding updateSecretValue_def
    by (intro quota_walk, rule quota_step_le)
      (auto simp: resource_count_simps repo_updateSecretValue_def split_def length_filter_update
        split: option.split)
  then show "quota_step E res pid s (fst (updateSecretValue E rid x s))"
    by (cases "res = QSecret") (simp_all add: frames_quota frames_count_other)
  have "quota_step E QSecret pid s (fst (deleteSecret rid s))"
    unfolding deleteSecret_def
    by (intro quota_walk, rule quota_step_le)
      (auto simp: resource_count_simps repo_deleteSecret_def delete_resource_def delete_by_def
        length_filter_filter)
  then show "quota_step E res pid s (fst (deleteSecret rid s))"
    by (cases "res = QSecret") (simp_all add: frames_quota frames_count_other)
qed

lemma quota_namespace_deletes:
  "quota_step E res pid s (fst (deleteKvNamespace rid s))"
  "quota_step E res pid s (fst (deleteDurableObjectNamespace rid s))"
proof -
  have "quota_step E QKvNamespace pid s (fst (deleteKvNamespace rid s))"
    unfolding deleteKvNamespace_def
    by (intro quota_walk, rule quota_step_le)
      (auto simp: resource_count_simps repo_deleteKvNamespace_def delete_resource_def delete_by_def
        length_filter_filter)
  then show "quota_step E res pid s (fst (deleteKvNamespace rid s))"
    by (cases "res = QKvNamespace") (simp_all add: frames_quota frames_count_other)
  have "quota_step E QDurableObjectNamespace pid s (fst (deleteDurableObjectNamespace rid s))"
    unfolding deleteDurableObjectNamespace_def
    by (intro quota_walk, rule quota_step_le)
      (auto simp: resource_count_simps repo_deleteDurableObjectNamespace_def delete_resource_def
        delete_by_def length_filter_filter)
  then show "quota_step E res pid s (fst (deleteDurableObjectNamespace rid s))"
    by (cases "res = QDurableObjectNamespace") (simp_all add: frames_quota frames_count_other)
qed

text \<open>Routes: an upsert at an existing key adds no row.\<close>

lemma count_upsert:
  "resource_count QRoute pid (fst (upsertRoute r s)) \<le> resource_count QRoute pid s
     + (if getRoute s (rte_key r) = None \<and> pid = rte_projectId r then 1 else 0)"
proof -
  have "length (filter (\<lambda>q. rte_projectId q = pid) (update_by rte_key k (overwrite_route r) t))
      = length (filter (\<lambda>q. rte_projectId q = pid) t)" for k t
    by (rule length_filter_update) (simp add: overwrite_route_def)
  then show ?thesis
    by (auto simp: upsertRoute_def resource_count_simps insert_row_fst split: option.split)
qed

lemma count_canary: "resource_count res pid (fst (repo_createCanaryDecision c s)) = resource_count res pid s"
  by (rule framesD, rule frames_writes [OF writes_all(33)]) (simp add: count_frame)

lemma getRoute_key_eq: "getRoute s k = Some q \<Longrightarrow> rte_key q = k"
  by (auto simp: getRoute_def dest: row_by_Some)

lemma rte_key_same [simp]: "rte_key (retarget E r d ts) = rte_key r"
  by (simp add: rte_key_def retarget_def)

lemma quota_retarget:
  assumes "getRoute s k = Some q"
  shows "quota_step E res pid s (fst (upsertRoute (retarget E' q d ts) s))"
proof (cases "res = QRoute")
  case True
  with assms count_upsert [of pid "retarget E' q d ts" s] getRoute_key_eq [OF assms] show ?thesis
    by (intro quota_step_le) simp
next
  case False
  then show ?thesis
    by (intro frames_quota frames_writes [OF writes_all(27)]) (simp add: count_frame_other)
qed

lemma quota_canary: "quota_step E res pid s (fst (startRouteCanary E i s))"
  unfolding startRouteCanary_def Let_def
  by (intro quota_walk) (auto simp: require_defs intro: quota_retarget)

lemma quota_rollback: "quota_step E res pid s (fst (rollbackRoute E i s))"
  unfolding rollbackRoute_def Let_def
  by (intro quota_walk) (auto simp: require_defs intro: quota_retarget)

lemma quota_pointRoute: "quota_step E res pid s (fst (pointRoute E i s))"
proof (cases "res = QRoute")
  case True
  show ?thesis
    unfolding pointRoute_def True
  proof (intro quota_walk)
    fix p ts u host path v existing w rid
    assume "askS (\<lambda>s. getRoute s (pri_projectId i, host, path)) s = (s, Inr existing)"
      and q: "(if existing = None then enforceQuota E (pri_projectId i) QRoute else pureS ()) s = (s, Inr w)"
    then have e: "existing = getRoute s (pri_projectId i, host, path)" by simp
    let ?r = "\<lparr>rte_id = rid, rte_projectId = pri_projectId i, rte_host = host, rte_pathPrefix = path,
          rte_deploymentId = tgt_deploymentId (hd ts), rte_targets = ts, rte_updatedAt = env_now E\<rparr>"
    have k: "rte_key ?r = (pri_projectId i, host, path)" by (simp add: rte_key_def)
    show "quota_step E QRoute pid s (fst (upsertRoute ?r s))"
    proof (cases existing)
      case None
      with q have "within_quota (env_projectQuotas E) (getProjectUsage s (pri_projectId i)) QRoute"
        by (simp add: enforceQuota_run)
      then show ?thesis
        using count_upsert [of pid ?r s] by (intro quota_step_new) (auto split: if_splits)
    next
      case (Some old)
      then show ?thesis using count_upsert [of pid ?r s] e k by (intro quota_step_le) simp
    qed
  qed
qed (simp add: frames_quota frames_count_other)

lemma count_then_frame:
  assumes "\<And>x. frames (resource_count res pid) (f x)"
  shows "resource_count res pid (fst (bindS m f s)) = resource_count res pid (fst (m s))"
proof (cases "m s")
  case (Pair t r)
  then show ?thesis using assms by (cases r) (auto simp: bindS_def framesD)
qed

lemma quota_preview_steps:
  assumes "getRoute s (rte_key r) = None \<Longrightarrow>
      within_quota (env_projectQuotas E) (getProjectUsage s (rte_projectId r)) QRoute"
  shows "quota_step E QRoute pid s
    (fst (bindS (upsertRoute r) (\<lambda>_. repo_createDeployPreview v) s))"
proof -
  have "frames (resource_count QRoute pid) (repo_createDeployPreview v)"
    by (intro frames_writes [OF writes_all(16)]) (simp add: count_frame)
  then have c: "resource_count QRoute pid (fst (bindS (upsertRoute r) (\<lambda>_. repo_createDeployPreview v) s))
      = resource_count QRoute pid (fst (upsertRoute r s))"
    by (rule count_then_frame)
  show ?thesis
  proof (cases "getRoute s (rte_key r) = None")
    case True
    then show ?thesis using count_upsert [of pid r s] c
      by (intro quota_step_new [OF assms]) (auto split: if_splits)
  next
    case False
    then show ?thesis using count_upsert [of pid r s] c by (intro quota_step_le) auto
  qed
qed

lemma quota_preview: "quota_step E res pid s (fst (createDeployPreview E i s))"
proof (cases "res = QRoute")
  case True
  show ?thesis
    unfolding createDeployPreview_def True
    by (intro quota_preview_steps quota_walk) (auto simp: rte_key_def enforceQuota_run)
qed (simp add: frames_quota frames_count_other)

lemma quota_decide:
  assumes "getRoute s k = Some q"
  shows "quota_step E QRoute pid s (fst (bindS (repo_createCanaryDecision c)
    (\<lambda>decision. bindS (if b then upsertRoute (retarget E' q d ts) else pureS q)
      (\<lambda>route. pureS (f decision route))) s))"
proof (rule inv_bind [where I = "quota_step E QRoute pid s"])
  show "quota_step E QRoute pid s (fst (repo_createCanaryDecision c s))"
    by (rule quota_step_le) (simp add: count_canary)
next
  fix s' x
  assume c: "repo_createCanaryDecision c s = (s', Inr x)"
  then have "getRoute s' k = Some q"
    using assms by (auto simp: repo_createCanaryDecision_def insert_row_Inr getRoute_def)
  then have "resource_count QRoute pid (fst ((if b then upsertRoute (retarget E' q d ts) else pureS q) s'))
      \<le> resource_count QRoute pid s'"
    using count_upsert [of pid "retarget E' q d ts" s'] getRoute_key_eq by auto
  moreover have "resource_count QRoute pid s' = resource_count QRoute pid s"
    using count_canary [of QRoute pid c s] c by simp
  moreover have "resource_count QRoute pid (fst (bindS (if b then upsertRoute (retarget E' q d ts) else pureS q)
      (\<lambda>route. pureS (f x route)) s'))
    = resource_count QRoute pid (fst ((if b then upsertRoute (retarget E' q d ts) else pureS q) s'))"
    by (rule count_then_frame) (rule framing)
  ultimately show "quota_step E QRoute pid s
      (fst (bindS (if b then upsertRoute (retarget E' q d ts) else pureS q)
        (\<lambda>route. pureS (f x route)) s'))"
    by (intro quota_step_le) simp
qed

lemma quota_analyze: "quota_step E res pid s (fst (analyzeRouteCanary E i s))"
proof (cases "res = QRoute")
  case True
  show ?thesis
    unfolding analyzeRouteCanary_def Let_def split_def True
    by (intro quota_decide quota_walk) (auto simp: require_defs)
qed (simp add: frames_quota frames_count_other)

lemma exec_quota:
  "\<not> is_RollbackDeployPreview c \<Longrightarrow> quota_step E res pid s (exec E c s)"
  by (cases c) (simp_all add: frames_quota frames_count quota_createArtifact quota_createDeployment
      quota_createSecret quota_createKv quota_createDo quota_secret_writes quota_namespace_deletes
      quota_pointRoute quota_canary quota_rollback quota_preview quota_analyze)

section \<open>Properties\<close>

text \<open>
  C27. Quotas hold: a call other than the rollback of a preview never takes a project's number of
  artifacts, deployments, routes, secrets or namespaces from within its limit to above it.
\<close>

theorem quota_never_exceeded:
  assumes "\<not> is_RollbackDeployPreview c" and "quotaLimit (env_projectQuotas E) res = Some limit"
    and "int (resource_count res pid s) \<le> limit"
  shows "int (resource_count res pid (exec E c s)) \<le> limit"
  using exec_quota [OF assms(1), of E res pid s] assms(2,3) by (auto simp: quota_step_def)

definition ex_quotas :: "rat \<Rightarrow> ProjectQuotas" where
  "ex_quotas n = \<lparr>maxArtifacts = None, maxDeployments = None, maxRoutes = Some (Fin n),
     maxSecrets = None, maxKvNamespaces = None, maxDurableObjectNamespaces = None\<rparr>"

definition ex_limited :: "rat \<Rightarrow> string \<Rightarrow> Env" where
  "ex_limited n aud = ex_env\<lparr>env_projectQuotas := Some (ex_quotas n), env_auditId := aud\<rparr>"

definition ex_other_route :: command where
  "ex_other_route = PointRoute \<lparr>pri_id = JStr ''r2'', pri_projectId = ''p1'', pri_host = JStr ''o.example'',
     pri_pathPrefix = JStr ''/'', pri_deploymentId = Some ''d1'', pri_targets = JUndefined\<rparr>"

theorem quota_never_exceeded_witness:
  "int (resource_count QRoute ''p1'' (exec (ex_limited 1 ''aud_9'') ex_other_route ex_state)) \<le> 1
   \<and> resource_count QRoute ''p1'' ex_state = 1
   \<and> resource_count QRoute ''p1'' (exec (ex_limited 2 ''aud_9'') ex_other_route ex_state) = 2"
proof (intro conjI)
  have l: "quotaLimit (env_projectQuotas (ex_limited 1 ''aud_9'')) QRoute = Some 1" by code_simp
  have c: "resource_count QRoute ''p1'' ex_state = 1" by code_simp
  then show "resource_count QRoute ''p1'' ex_state = 1" .
  show "int (resource_count QRoute ''p1'' (exec (ex_limited 1 ''aud_9'') ex_other_route ex_state)) \<le> 1"
    by (rule quota_never_exceeded [OF _ l]) (simp_all add: ex_other_route_def c)
  show "resource_count QRoute ''p1'' (exec (ex_limited 2 ''aud_9'') ex_other_route ex_state) = 2"
    by code_simp
qed

definition ex_k_preview :: "string \<Rightarrow> command" where
  "ex_k_preview v = CreateDeployPreview \<lparr>dpi_id = JStr v, dpi_projectId = ''p1'',
     dpi_deploymentId = ''d2'', dpi_host = JStr ''k.example'', dpi_pathPrefix = JUndefined,
     dpi_environment = JUndefined\<rparr>"

text \<open>
  The rollback of a preview is not covered by the route quota: it re-inserts the route it
  saved without asking for room, so a project with a limit of two routes can come to hold three.
\<close>

theorem rollback_exceeds_the_quota:
  "\<exists>s. quotaLimit (env_projectQuotas (ex_limited 2 ''aud_9'')) QRoute = Some 2
     \<and> resource_count QRoute ''p1'' s = 2
     \<and> resource_count QRoute ''p1'' (exec (ex_limited 2 ''aud_9'') (RollbackDeployPreview ''v1'') s) = 3
     \<and> s = exec (ex_limited 2 ''aud_8'') ex_other_route
             (exec (ex_limited 2 ''aud_7'') (RollbackDeployPreview ''v2'')
             (exec (ex_limited 2 ''aud_6'') (ex_k_preview ''v1'')
             (exec (ex_limited 2 ''aud_5'') (ex_k_preview ''v2'') ex_state)))"
  by (rule exI, (rule conjI [rotated])+, rule refl) (code_simp+)

end
