(* ===== verification/ReleaseLaws.thy ===== *)
theory ReleaseLaws
  imports Examples Frames
begin

text \<open>
  What a stored artifact and a stored deployment went through, over every command: the admission
  policy, the verification of the artifact, and the ownership of everything a deployment binds.
\<close>

subsection \<open>The rows a release adds\<close>

definition owns :: "string \<Rightarrow> Resource option \<Rightarrow> bool" where
  "owns pid row \<longleftrightarrow> (\<exists>r. row = Some r \<and> res_projectId r = pid)"

text \<open>Every binding of the capabilities names a resource of the project.\<close>

definition binds_own :: "Db \<Rightarrow> string \<Rightarrow> CapabilityPolicy \<Rightarrow> bool" where
  "binds_own s pid c \<longleftrightarrow> (\<forall>b \<in> set (cap_kv c). owns pid (getKvNamespace s (kv_namespaceId b)))
     \<and> (\<forall>b \<in> set (cap_durableObjects c). owns pid (getDurableObjectNamespace s (do_namespaceId b)))
     \<and> (\<forall>b \<in> set (cap_secrets c). owns pid (getSecret s (sec_secretId b)))
     \<and> (\<forall>b \<in> set (cap_services c). getProject s (svc_targetProjectId b) \<noteq> None)"

definition no_privileges :: "CapabilityPolicy \<Rightarrow> bool" where
  "no_privileges c \<longleftrightarrow> \<not> cap_arbitraryFilesystem c \<and> \<not> cap_arbitrarySockets c \<and> \<not> cap_processSpawn c"

definition admitted_artifact :: "Env \<Rightarrow> Artifact \<Rightarrow> bool" where
  "admitted_artifact E a \<longleftrightarrow> (\<forall>p. env_admissionPolicy E = Some p \<longrightarrow> admits_artifact p a)"

definition admitted_deployment :: "Env \<Rightarrow> Artifact \<Rightarrow> Deployment \<Rightarrow> bool" where
  "admitted_deployment E a d \<longleftrightarrow> (\<forall>p. env_admissionPolicy E = Some p \<longrightarrow>
     admits_deployment (env_urls E) p
       \<lparr>adi_artifact = a, adi_world = dep_world d, adi_worldVersion = dep_worldVersion d,
        adi_runtime = dep_runtime d, adi_capabilities = dep_capabilities d\<rparr>)"

definition released :: "Env \<Rightarrow> Db \<Rightarrow> Deployment \<Rightarrow> bool" where
  "released E s d \<longleftrightarrow> (\<exists>a. getArtifact s (dep_artifactId d) = Some a
     \<and> art_projectId a = dep_projectId d \<and> env_verifyArtifact E a = Inr ()
     \<and> admitted_deployment E a d)
     \<and> binds_own s (dep_projectId d) (dep_capabilities d) \<and> no_privileges (dep_capabilities d)"

definition release_step :: "Env \<Rightarrow> Db \<Rightarrow> Db \<Rightarrow> bool" where
  "release_step E s s' \<longleftrightarrow>
     (\<forall>a \<in> set (db_artifacts s'). a \<in> set (db_artifacts s) \<or> admitted_artifact E a)
     \<and> (\<forall>d \<in> set (db_deployments s'). d \<in> set (db_deployments s) \<or> released E s d)"

definition release_rows where
  "release_rows s = (db_artifacts s, db_deployments s)"

lemma release_same: "release_rows s' = release_rows s \<Longrightarrow> release_step E s s'"
  by (simp add: release_rows_def release_step_def)

lemma release_frame:
  "release_rows (s\<lparr>db_organizations := t1\<rparr>) = release_rows s" "release_rows (s\<lparr>db_users := t2\<rparr>) = release_rows s"
  "release_rows (s\<lparr>db_projects := t3\<rparr>) = release_rows s" "release_rows (s\<lparr>db_memberships := t4\<rparr>) = release_rows s"
  "release_rows (s\<lparr>db_apiKeys := t5\<rparr>) = release_rows s" "release_rows (s\<lparr>db_audit := t6\<rparr>) = release_rows s"
  "release_rows (s\<lparr>db_domains := t7\<rparr>) = release_rows s" "release_rows (s\<lparr>db_previews := t8\<rparr>) = release_rows s"
  "release_rows (s\<lparr>db_nodes := t9\<rparr>) = release_rows s" "release_rows (s\<lparr>db_canary := u1\<rparr>) = release_rows s"
  "release_rows (s\<lparr>db_routes := u2\<rparr>) = release_rows s" "release_rows (s\<lparr>db_secrets := u3\<rparr>) = release_rows s"
  "release_rows (s\<lparr>db_kv := u4\<rparr>) = release_rows s" "release_rows (s\<lparr>db_dos := u5\<rparr>) = release_rows s"
  by (simp_all add: release_rows_def)

lemma release_framed: "frames release_rows m \<Longrightarrow> release_step E s (fst (m s))"
  by (rule release_same) (simp add: framesD)

lemma frames_release:
  "frames release_rows (createOrganization E a1)"
  "frames release_rows (updateOrganizationBilling E a2)"
  "frames release_rows (createUser E a3)" "frames release_rows (verifyUserEmail E a4)"
  "frames release_rows (createProject E a5)" "frames release_rows (addProjectMembership E a4 b4 a7)"
  "frames release_rows (updateProjectMembershipRole E a4 b4 a7)"
  "frames release_rows (removeProjectMembership E a4 b4)"
  "frames release_rows (acceptProjectMembershipInvite E a4 b4)"
  "frames release_rows (createApiKey E a6)" "frames release_rows (revokeApiKey E a7)"
  "frames release_rows (rotateApiKey E a8)" "frames release_rows (authenticateApiToken E a7)"
  "frames release_rows (createCustomDomain E a7 a4 b1)" "frames release_rows (deleteCustomDomain E a4)"
  "frames release_rows (verifyCustomDomainOwnership E a4 a7)"
  "frames release_rows (requestCustomDomainTlsProvisioning E a4 a7 b1)"
  "frames release_rows (completeCustomDomainTlsProvisioning E a9)"
  "frames release_rows (registerRuntimeNode E c1)" "frames release_rows (recordRuntimeNodeHeartbeat E c2)"
  "frames release_rows (updateRuntimeNodeStatus a4 a7)" "frames release_rows (cleanupRuntimeNodes E a7 b1)"
  unfolding account_ops member_ops key_ops domain_ops node_ops Let_def
  by (intro framing readers; simp add: release_frame)+

lemma frames_release_routes:
  "frames release_rows (createSecret E a7 a4 b1 b2)" "frames release_rows (updateSecretValue E a4 a7)"
  "frames release_rows (deleteSecret a4)" "frames release_rows (createKvNamespace E a7 a4 b1)"
  "frames release_rows (deleteKvNamespace a4)"
  "frames release_rows (createDurableObjectNamespace E a7 a4 b1)"
  "frames release_rows (deleteDurableObjectNamespace a4)"
  "frames release_rows (createDeployPreview E d1)" "frames release_rows (pointRoute E b6)"
  "frames release_rows (startRouteCanary E b7)" "frames release_rows (rollbackRoute E b8)"
  "frames release_rows (analyzeRouteCanary E b9)"
  unfolding resource_ops route_ops Let_def
  by (intro framing readers; simp add: release_frame)+

lemma frames_release_rollback: "frames release_rows (rollbackDeployPreview E a4)"
  unfolding rollbackDeployPreview_def
  by (intro framing readers; simp add: release_frame)


subsection \<open>The two releases\<close>

lemmas release_read = inv_bind_reader [where I = "release_step E s" for E s]

lemma release_self: "release_step E s s"
  by (simp add: release_step_def)

lemma release_audited:
  "release_step E s (fst (m t)) \<Longrightarrow> (\<And>x. reader (f x)) \<Longrightarrow>
   release_step E s (fst (audited E' m f t))"
  using audited_frame [of f release_rows E' m t]
  by (simp add: release_step_def release_rows_def)

lemmas release_walk = release_read release_audited readers release_self

lemma release_createArtifact: "release_step E s (fst (createArtifact E i s))"
  unfolding createArtifact_def Let_def
  by (intro release_walk)
    (auto simp: release_step_def repo_createArtifact_def insert_row_fst admitted_artifact_def
      enforceArtifact_Inr)

lemma same_project_Inr: "same_project kind pid rid row = Inr u \<longleftrightarrow> owns pid row"
  by (auto simp: same_project_def owns_def split: option.splits)

lemma requireDeployment_Inr:
  "requireDeploymentKvNamespaces pid c s = Inr u \<longleftrightarrow>
     (\<forall>b \<in> set (cap_kv c). owns pid (getKvNamespace s (kv_namespaceId b)))"
  "requireDeploymentDurableObjectNamespaces pid c s = Inr u \<longleftrightarrow>
     (\<forall>b \<in> set (cap_durableObjects c). owns pid (getDurableObjectNamespace s (do_namespaceId b)))"
  "requireDeploymentSecrets pid c s = Inr u \<longleftrightarrow>
     (\<forall>b \<in> set (cap_secrets c). owns pid (getSecret s (sec_secretId b)))"
  "requireDeploymentServiceBindings c s = Inr u \<longleftrightarrow>
     (\<forall>b \<in> set (cap_services c). getProject s (svc_targetProjectId b) \<noteq> None)"
  by (simp_all add: requireDeploymentKvNamespaces_def requireDeploymentDurableObjectNamespaces_def
      requireDeploymentSecrets_def requireDeploymentServiceBindings_def forE_Inr same_project_Inr)

lemma normalized_privileges: "normalizeCapabilities U v = Inr c \<Longrightarrow> no_privileges c"
  by (auto simp: normalizeCapabilities_def bindE_Inr no_privileges_def)

lemma release_createDeployment: "release_step E s (fst (createDeployment E i s))"
  unfolding createDeployment_def
  by (intro release_walk)
    (auto simp: release_step_def repo_createDeployment_def insert_row_fst released_def
      admitted_deployment_def enforceDeployment_Inr requireDeployment_Inr binds_own_def require_defs
      normalized_privileges)

lemma exec_release: "release_step E s (exec E c s)"
  by (cases c) (simp_all add: release_framed frames_release frames_release_routes
      frames_release_rollback release_createArtifact release_createDeployment)


section \<open>Properties\<close>

text \<open>
  C28. No call stores an artifact the admission policy in force does not admit, or a deployment
  that policy does not admit, whose artifact is not a verified artifact of its own project, that
  binds a secret or a namespace of another project, or that has filesystem, socket or process
  privileges. Stored artifacts and deployments never change.
\<close>

theorem releases_are_checked:
  "set (db_artifacts (exec E c s)) \<subseteq> set (db_artifacts s) \<union> {a. admitted_artifact E a}
   \<and> set (db_deployments (exec E c s)) \<subseteq> set (db_deployments s) \<union> {d. released E s d}"
  using exec_release [of E s c] by (auto simp: release_step_def)

definition ex_signed_only :: ControlPlaneAdmissionPolicy where
  "ex_signed_only = no_policy\<lparr>adm_requireArtifactSignature := True\<rparr>"

definition ex_strict :: Env where
  "ex_strict = ex_env\<lparr>env_admissionPolicy := Some ex_signed_only, env_auditId := ''aud_9''\<rparr>"

definition ex_later_artifact :: command where
  "ex_later_artifact = CreateArtifact \<lparr>cai_id = JStr ''a2'', cai_projectId = ''p1'',
     cai_digest = JStr (''sha256:'' @ replicate 64 (CHR ''1'')),
     cai_location = JStr ''file:///a'', cai_sizeBytes = JInt 10, cai_signature = JUndefined,
     cai_provenance = JUndefined\<rparr>"

theorem releases_are_checked_witness:
  "set (db_deployments (exec (ex_env_n ''aud_9'') (ex_deployment ''d3'') ex_state))
     \<subseteq> set (db_deployments ex_state) \<union> {d. released (ex_env_n ''aud_9'') ex_state d}
   \<and> length (db_deployments (exec (ex_env_n ''aud_9'') (ex_deployment ''d3'') ex_state)) = 3
   \<and> length (db_artifacts (exec (ex_env_n ''aud_9'') ex_later_artifact ex_state)) = 2
   \<and> length (db_artifacts (exec ex_strict ex_later_artifact ex_state)) = 1"
proof (intro conjI)
  show "set (db_deployments (exec (ex_env_n ''aud_9'') (ex_deployment ''d3'') ex_state))
     \<subseteq> set (db_deployments ex_state) \<union> {d. released (ex_env_n ''aud_9'') ex_state d}"
    by (rule releases_are_checked [THEN conjunct2])
  show "length (db_deployments (exec (ex_env_n ''aud_9'') (ex_deployment ''d3'') ex_state)) = 3" by code_simp
  show "length (db_artifacts (exec (ex_env_n ''aud_9'') ex_later_artifact ex_state)) = 2" by code_simp
  show "length (db_artifacts (exec ex_strict ex_later_artifact ex_state)) = 1" by code_simp
qed

text \<open>
  The ownership of what a deployment binds holds when it is created and not afterwards: a KV
  namespace that is deleted while a deployment binds it leaves its id free, another project can
  create a namespace under the same id, and the deployment of the first project is then bound to it.
\<close>

definition ex_bound :: command where
  "ex_bound = CreateDeployment \<lparr>cdi_id = JStr ''d7'', cdi_projectId = ''p1'', cdi_artifactId = ''a1'',
     cdi_world = JStr MVP_WORKER_WORLD, cdi_runtime = ex_runtime, cdi_limits = ex_limits,
     cdi_capabilities = JObj [(''kv'', JArr [JObj [(''binding'', JStr ''DATA''), (''namespaceId'', JStr ''n1'')]])]\<rparr>"

definition ex_reused :: Db where
  "ex_reused = fold (\<lambda>(n, c). exec (ex_env_n (''aud_u'' @ show_int n)) c) (zip [1, 2, 3, 4, 5]
     [CreateKvNamespace (JStr ''n1'') ''p1'' (JStr ''mine''), ex_bound, DeleteKvNamespace ''n1'',
      CreateProject \<lparr>cpi_id = JStr ''p2'', cpi_organizationId = None, cpi_name = JStr ''other''\<rparr>,
      CreateKvNamespace (JStr ''n1'') ''p2'' (JStr ''theirs'')]) ex_state"

theorem deleted_namespace_is_rebound:
  "reachable ex_urls ex_reused
   \<and> map_option (\<lambda>d. (dep_projectId d, map kv_namespaceId (cap_kv (dep_capabilities d))))
       (getDeployment ex_reused ''d7'') = Some (''p1'', [''n1''])
   \<and> map_option res_projectId (getKvNamespace ex_reused ''n1'') = Some ''p2''"
proof (intro conjI)
  show "reachable ex_urls ex_reused"
    unfolding ex_reused_def
    by (simp only: zip_Cons_Cons zip_Nil fold_simps prod.case)
      (intro reachable.intros ex_env_good ex_state_reachable)
  show "map_option (\<lambda>d. (dep_projectId d, map kv_namespaceId (cap_kv (dep_capabilities d))))
       (getDeployment ex_reused ''d7'') = Some (''p1'', [''n1''])" by code_simp
  show "map_option res_projectId (getKvNamespace ex_reused ''n1'') = Some ''p2''" by code_simp
qed

end
