(* ===== verification/Routing.thy ===== *)
theory Routing
  imports Contracts Errors "HOL-Library.Word" "HOL-Library.List_Lexorder" "HOL-Library.Char_ord"
begin

text \<open>
  How a runtime node finds the deployment for a request: the route cache, the path prefix
  matching and the weighted choice of a target of \<open>runtime/supervisor.ts\<close>.
  \<open>localeCompare\<close> depends on the locale of the process and is a parameter.
\<close>

subsection \<open>Normalisation\<close>

record RouteMatchInput =
  rmi_host :: string
  rmi_path :: string

text \<open>\<open>replace(/:\d+$/, "")\<close>\<close>

definition stripPort :: "string \<Rightarrow> string" where
  "stripPort s = (let front = rev (dropWhile is_digit (rev s)) in
     if length front < length s \<and> front \<noteq> [] \<and> last front = CHR '':'' then butlast front else s)"

definition normalizeHost_rt :: "string \<Rightarrow> string" where
  "normalizeHost_rt host = stripPort (toLowerCase (trim host))"

definition normalizePath :: "string \<Rightarrow> string" where
  "normalizePath path = (if length path = 0 then ''/''
     else if \<not> startsWith path ''/'' then CHR ''/'' # path else path)"

definition pathPrefixMatches :: "string \<Rightarrow> string \<Rightarrow> bool" where
  "pathPrefixMatches path p = (if p = ''/'' then True else if path = p then True
     else let normalizedPrefix = (if endsWith p ''/'' then p else p @ ''/'')
          in startsWith path normalizedPrefix)"

subsection \<open>The route cache\<close>

definition routePrecedence :: "(string \<Rightarrow> string \<Rightarrow> int) \<Rightarrow> RouteSnapshotEntry \<Rightarrow> RouteSnapshotEntry \<Rightarrow> int" where
  "routePrecedence localeCompare left right = (let host = localeCompare (se_host left) (se_host right) in
     if host \<noteq> 0 then host else int (length (se_pathPrefix right)) - int (length (se_pathPrefix left)))"

definition createRouteCache :: "(string \<Rightarrow> string \<Rightarrow> int) \<Rightarrow> RouteSnapshot \<Rightarrow> RouteSnapshotEntry list" where
  "createRouteCache localeCompare snapshot =
     js_sort (\<lambda>a b. routePrecedence localeCompare a b \<le> 0) (snap_routes snapshot)"

definition route_matches :: "RouteMatchInput \<Rightarrow> RouteSnapshotEntry \<Rightarrow> bool" where
  "route_matches i r \<longleftrightarrow> se_host r = normalizeHost_rt (rmi_host i)
     \<and> pathPrefixMatches (normalizePath (rmi_path i)) (se_pathPrefix r)"

definition matchRoute :: "RouteSnapshotEntry list \<Rightarrow> RouteMatchInput \<Rightarrow> RouteSnapshotEntry option" where
  "matchRoute routes i = find (route_matches i) routes"

subsection \<open>The weighted choice\<close>

text \<open>\<open>>>> 0\<close> keeps the sum in 32 bits.\<close>

definition stableHash :: "string \<Rightarrow> 32 word" where
  "stableHash value = fold (\<lambda>c hash. hash + word_of_nat (of_char c)) value 0"

record CompilableRouteTarget =
  crt_projectId :: string
  crt_deploymentId :: string
  crt_world :: string
  crt_runtime :: RuntimeSpec
  crt_limits :: RuntimeLimits
  crt_capabilities :: CapabilityPolicy
  crt_artifact :: SnapshotArtifact

definition entry_target :: "RouteSnapshotEntry \<Rightarrow> CompilableRouteTarget" where
  "entry_target r = \<lparr>crt_projectId = se_projectId r, crt_deploymentId = se_deploymentId r,
     crt_world = se_world r, crt_runtime = se_runtime r, crt_limits = se_limits r,
     crt_capabilities = se_capabilities r, crt_artifact = se_artifact r\<rparr>"

definition compilable_target :: "RouteSnapshotEntry \<Rightarrow> RouteSnapshotTarget \<Rightarrow> CompilableRouteTarget" where
  "compilable_target r t = \<lparr>crt_projectId = se_projectId r, crt_deploymentId = st_deploymentId t,
     crt_world = st_world t, crt_runtime = st_runtime t, crt_limits = st_limits t,
     crt_capabilities = st_capabilities t, crt_artifact = st_artifact t\<rparr>"

text \<open>The loop over the targets: \<open>cursor\<close> is the weight passed so far.\<close>

fun pick_target :: "int \<Rightarrow> int \<Rightarrow> RouteSnapshotTarget list \<Rightarrow> RouteSnapshotTarget option" where
  "pick_target slot cursor [] = None"
| "pick_target slot cursor (t # ts) =
     (if slot < cursor + st_weight t then Some t else pick_target slot (cursor + st_weight t) ts)"

definition targets_weight :: "RouteSnapshotTarget list \<Rightarrow> int" where
  "targets_weight ts = foldl (\<lambda>total t. total + st_weight t) 0 ts"

definition request_slot :: "RouteMatchInput \<Rightarrow> int \<Rightarrow> int" where
  "request_slot i totalWeight =
     uint (stableHash (normalizeHost_rt (rmi_host i) @ normalizePath (rmi_path i))) mod totalWeight"

definition selectRouteTarget :: "RouteSnapshotEntry \<Rightarrow> RouteMatchInput \<Rightarrow> CompilableRouteTarget" where
  "selectRouteTarget route i =
     (if length (se_targets route) = 0 then entry_target route
      else let totalWeight = targets_weight (se_targets route) in
        if totalWeight \<le> 0 then entry_target route
        else case pick_target (request_slot i totalWeight) 0 (se_targets route) of
            Some t \<Rightarrow> compilable_target route t
          | None \<Rightarrow> entry_target route)"

subsection \<open>The deployments of a snapshot\<close>

definition snapshotDeploymentIds :: "RouteSnapshot \<Rightarrow> string set" where
  "snapshotDeploymentIds snapshot = fold (\<lambda>r ids.
     fold (\<lambda>t. insert (st_deploymentId t)) (se_targets r) (insert (se_deploymentId r) ids))
     (snap_routes snapshot) {}"

definition snapshotCompilableTargets :: "RouteSnapshot \<Rightarrow> CompilableRouteTarget list" where
  "snapshotCompilableTargets snapshot = map snd (fold (\<lambda>r m.
     fold (\<lambda>t. map_set (st_deploymentId t) (compilable_target r t)) (se_targets r)
       (map_set (se_deploymentId r) (entry_target r) m))
     (snap_routes snapshot) [])"


subsection \<open>Segments\<close>

lemma split_on_not_Nil [simp]: "split_on c s \<noteq> []"
  by (cases s) (auto split: list.splits)

lemma split_on_append: "split_on c (a @ c # b) = split_on c a @ split_on c b"
proof (induction a)
  case (Cons x a)
  then show ?case by (cases "split_on c a") auto
qed simp

lemma join_append:
  "xs \<noteq> [] \<Longrightarrow> ys \<noteq> [] \<Longrightarrow> join_with d (xs @ ys) = join_with d xs @ d @ join_with d ys"
proof (induction d xs rule: join_with.induct)
  case (2 d x)
  then show ?case by (cases ys) auto
qed auto

lemma prefix_segments:
  "prefix (split_on c p) (split_on c s) \<longleftrightarrow> s = p \<or> prefix (p @ [c]) s"
proof
  assume "prefix (split_on c p) (split_on c s)"
  then obtain zs where s: "split_on c s = split_on c p @ zs" by (auto simp: prefix_def)
  show "s = p \<or> prefix (p @ [c]) s"
  proof (cases "zs = []")
    case True
    with s have "split_on c s = split_on c p" by simp
    then show ?thesis using join_split by metis
  next
    case False
    then have "join_with [c] (split_on c s) = join_with [c] (split_on c p) @ [c] @ join_with [c] zs"
      by (simp add: s join_append)
    then have "s = (p @ [c]) @ join_with [c] zs" by (simp add: join_split)
    then show ?thesis by (metis prefixI)
  qed
next
  assume "s = p \<or> prefix (p @ [c]) s"
  then show "prefix (split_on c p) (split_on c s)"
    by (auto simp: prefix_def split_on_append)
qed

text \<open>The segments of a path prefix: a final slash does not count.\<close>

definition prefix_segments_of :: "string \<Rightarrow> string list" where
  "prefix_segments_of p = split_on (CHR ''/'') (if endsWith p ''/'' then butlast p else p)"

lemma pathPrefixMatches_iff:
  assumes "startsWith path ''/''"
  shows "pathPrefixMatches path p \<longleftrightarrow>
    (if endsWith p ''/'' then startsWith path p else path = p \<or> startsWith path (p @ ''/''))"
  using assms by (auto simp: pathPrefixMatches_def startsWith_def endsWith_def)

lemma pathPrefixMatches_segments:
  assumes "startsWith path ''/''"
  shows "pathPrefixMatches path p \<longleftrightarrow>
    (if endsWith p ''/'' then path \<noteq> butlast p else True)
    \<and> prefix (prefix_segments_of p) (split_on (CHR ''/'') path)"
proof (cases "endsWith p ''/''")
  case True
  then obtain q where p: "p = q @ ''/''" by (auto simp: endsWith_def suffix_def)
  have "endsWith p ''/''" by (rule True)
  then show ?thesis unfolding pathPrefixMatches_iff [OF assms] prefix_segments_of_def
    using p by (auto simp: startsWith_def prefix_segments)
next
  case False
  then show ?thesis unfolding pathPrefixMatches_iff [OF assms] prefix_segments_of_def
    by (auto simp: startsWith_def prefix_segments)
qed

lemma startsWith_normalizePath: "startsWith (normalizePath p) ''/''"
  by (simp add: normalizePath_def startsWith_def)

subsection \<open>The match is the longest one\<close>

text \<open>What \<open>localeCompare\<close> promises: a consistent three-way comparison.\<close>

definition consistent_compare :: "('a \<Rightarrow> 'a \<Rightarrow> int) \<Rightarrow> bool" where
  "consistent_compare cmp \<longleftrightarrow> (\<forall>a b. sgn (cmp b a) = - sgn (cmp a b))
     \<and> (\<forall>a b c. cmp a b \<le> 0 \<longrightarrow> cmp b c \<le> 0 \<longrightarrow> cmp a c \<le> 0)"

lemma consistent_compareD:
  assumes "consistent_compare cmp"
  shows "cmp a a = 0" "cmp a b < 0 \<longleftrightarrow> 0 < cmp b a" "cmp a b = 0 \<longleftrightarrow> cmp b a = 0"
    "cmp a b \<le> 0 \<Longrightarrow> cmp b c \<le> 0 \<Longrightarrow> cmp a c \<le> 0"
proof -
  have s: "\<And>a b. sgn (cmp b a) = - sgn (cmp a b)" using assms unfolding consistent_compare_def by blast
  show "cmp a a = 0" using s [of a a] by (auto simp: sgn_if split: if_splits)
  show "cmp a b < 0 \<longleftrightarrow> 0 < cmp b a" using s [of a b] by (auto simp: sgn_if split: if_splits)
  show "cmp a b = 0 \<longleftrightarrow> cmp b a = 0" using s [of a b] by (auto simp: sgn_if split: if_splits)
  show "cmp a b \<le> 0 \<Longrightarrow> cmp b c \<le> 0 \<Longrightarrow> cmp a c \<le> 0"
    using assms unfolding consistent_compare_def by blast
qed

lemma routePrecedence_total:
  assumes "consistent_compare cmp"
  shows "total_preorder (\<lambda>a b. routePrecedence cmp a b \<le> 0)"
  unfolding total_preorder_def
proof (intro conjI allI impI)
  note c = consistent_compareD [OF assms]
  fix x y z
  show "routePrecedence cmp x y \<le> 0 \<or> routePrecedence cmp y x \<le> 0"
    using c(2) [of "se_host x" "se_host y"] c(2) [of "se_host y" "se_host x"]
    by (auto simp: routePrecedence_def Let_def)
  assume "routePrecedence cmp x y \<le> 0" "routePrecedence cmp y z \<le> 0"
  moreover have "cmp (se_host x) (se_host y) = 0 \<and> cmp (se_host y) (se_host z) = 0"
    if "cmp (se_host x) (se_host z) = 0" "cmp (se_host x) (se_host y) \<le> 0" "cmp (se_host y) (se_host z) \<le> 0"
  proof -
    have zx: "cmp (se_host z) (se_host x) \<le> 0" using that(1) c(3) [of "se_host x" "se_host z"] by simp
    from c(4) [OF that(3) zx] c(4) [OF zx that(2)] that
    show ?thesis using c(2) [of "se_host x" "se_host y"] c(2) [of "se_host y" "se_host z"]
      by linarith
  qed
  moreover have "cmp (se_host x) (se_host y) \<le> 0 \<Longrightarrow> cmp (se_host y) (se_host z) \<le> 0 \<Longrightarrow>
      cmp (se_host x) (se_host z) \<le> 0" by (rule c(4))
  ultimately show "routePrecedence cmp x z \<le> 0"
    by (cases "cmp (se_host x) (se_host z) = 0") (simp_all add: routePrecedence_def Let_def split: if_splits)
qed


lemma find_sorted:
  assumes "sorted_wrt le xs" and "find P xs = Some x" and "y \<in> set xs" and "P y"
  shows "x = y \<or> le x y"
  using assms
proof (induction xs)
  case (Cons z zs)
  then show ?case by (cases "P z") auto
qed simp

lemma find_mem: "find P xs = Some x \<Longrightarrow> x \<in> set xs \<and> P x"
  by (induction xs) (auto split: if_splits)

lemma matching_prefix:
  assumes "route_matches i r"
  shows "se_pathPrefix r = take (length (se_pathPrefix r)) (normalizePath (rmi_path i))"
proof -
  have "prefix (se_pathPrefix r) (normalizePath (rmi_path i))"
    using assms unfolding route_matches_def pathPrefixMatches_iff [OF startsWith_normalizePath]
    by (auto simp: startsWith_def split: if_splits dest: append_prefixD)
  then show ?thesis by (auto simp: prefix_def)
qed

lemma matchRoute_first:
  assumes "consistent_compare cmp" and "matchRoute (createRouteCache cmp snap) i = Some r"
    and "q \<in> set (snap_routes snap)" and "route_matches i q"
  shows "length (se_pathPrefix q) \<le> length (se_pathPrefix r)"
proof -
  have "sorted_wrt (\<lambda>a b. routePrecedence cmp a b \<le> 0) (createRouteCache cmp snap)"
    unfolding createRouteCache_def by (rule sorted_js_sort [OF routePrecedence_total [OF assms(1)]])
  from find_sorted [OF this, of "route_matches i" r q] assms(2-4)
  have "r = q \<or> routePrecedence cmp r q \<le> 0"
    by (auto simp: matchRoute_def createRouteCache_def)
  moreover have "route_matches i r" using find_mem assms(2) unfolding matchRoute_def by fast
  then have "se_host r = se_host q" using assms(4) by (simp add: route_matches_def)
  ultimately show ?thesis
    using consistent_compareD(1) [OF assms(1)] by (auto simp: routePrecedence_def)
qed

lemma matchRoute_mem:
  assumes "matchRoute (createRouteCache cmp snap) i = Some r"
  shows "r \<in> set (snap_routes snap)" and "route_matches i r"
  using find_mem [OF assms [unfolded matchRoute_def]] by (simp_all add: createRouteCache_def)

subsection \<open>The weighted choice\<close>

definition weight_before :: "RouteSnapshotTarget list \<Rightarrow> nat \<Rightarrow> int" where
  "weight_before ts k = sum_list (map st_weight (take k ts))"

lemma targets_weight_sum: "targets_weight ts = sum_list (map st_weight ts)"
proof -
  have "foldl (\<lambda>total t. total + st_weight t) n ts = n + sum_list (map st_weight ts)" for n
    by (induction ts arbitrary: n) auto
  then show ?thesis by (simp add: targets_weight_def)
qed

lemma weight_before_Suc:
  "k < length ts \<Longrightarrow> weight_before ts (Suc k) = weight_before ts k + st_weight (ts ! k)"
  by (simp add: weight_before_def take_Suc_conv_app_nth)

lemma weight_before_mono:
  assumes "\<forall>t \<in> set ts. 0 < st_weight t" and "j \<le> k"
  shows "weight_before ts j \<le> weight_before ts k"
proof -
  have "take k ts = take j ts @ drop j (take k ts)"
    using assms(2) by (metis append_take_drop_id min.absorb1 take_take)
  moreover have "0 \<le> sum_list (map st_weight (drop j (take k ts)))"
    using assms(1) by (intro sum_list_nonneg) (auto dest: in_set_dropD in_set_takeD order_less_imp_le)
  ultimately show ?thesis unfolding weight_before_def by (metis add_increasing2 map_append order_refl sum_list_append)
qed

lemma pick_target_slot:
  assumes "cursor \<le> slot" and "slot < cursor + sum_list (map st_weight ts)"
  shows "\<exists>k < length ts. pick_target slot cursor ts = Some (ts ! k)
     \<and> cursor + weight_before ts k \<le> slot \<and> slot < cursor + weight_before ts (Suc k)"
  using assms
proof (induction ts arbitrary: cursor)
  case (Cons t ts)
  show ?case
  proof (cases "slot < cursor + st_weight t")
    case True
    with Cons.prems show ?thesis by (intro exI [of _ 0]) (simp add: weight_before_def)
  next
    case False
    with Cons.prems Cons.IH [of "cursor + st_weight t"] obtain k where
      "k < length ts" "pick_target slot (cursor + st_weight t) ts = Some (ts ! k)"
      "cursor + st_weight t + weight_before ts k \<le> slot"
      "slot < cursor + st_weight t + weight_before ts (Suc k)" by auto
    with False show ?thesis by (intro exI [of _ "Suc k"]) (simp add: weight_before_def)
  qed
qed simp

lemma slot_unique:
  assumes "\<forall>t \<in> set ts. 0 < st_weight t"
    and "weight_before ts j \<le> n" "n < weight_before ts (Suc j)"
    and "weight_before ts k \<le> n" "n < weight_before ts (Suc k)"
  shows "j = k"
  using weight_before_mono [OF assms(1), of "Suc j" k] weight_before_mono [OF assms(1), of "Suc k" j] assms(2-5)
  by (metis not_less_eq_eq le_neq_implies_less not_le order_trans less_le_not_le)

lemma selectRouteTarget_slot:
  assumes "se_targets r \<noteq> []" and "\<forall>t \<in> set (se_targets r). 0 < st_weight t"
  shows "\<exists>k < length (se_targets r). selectRouteTarget r i = compilable_target r (se_targets r ! k)
     \<and> weight_before (se_targets r) k \<le> request_slot i (targets_weight (se_targets r))
     \<and> request_slot i (targets_weight (se_targets r)) < weight_before (se_targets r) (Suc k)"
proof -
  let ?ts = "se_targets r" and ?w = "targets_weight (se_targets r)"
  obtain t us where ts: "?ts = t # us" using assms(1) by (cases ?ts) auto
  have "0 \<le> sum_list (map st_weight us)"
    using assms(2) ts by (intro sum_list_nonneg) (auto intro: order_less_imp_le)
  then have w: "0 < ?w" using assms(2) ts by (simp add: targets_weight_sum)
  then have "0 \<le> request_slot i ?w \<and> request_slot i ?w < ?w" by (simp add: request_slot_def)
  with pick_target_slot [of 0 "request_slot i ?w" ?ts] obtain k where
    "k < length ?ts" "pick_target (request_slot i ?w) 0 ?ts = Some (?ts ! k)"
    "weight_before ?ts k \<le> request_slot i ?w" "request_slot i ?w < weight_before ?ts (Suc k)"
    by (auto simp: targets_weight_sum)
  with w assms(1) show ?thesis by (intro exI [of _ k]) (simp add: selectRouteTarget_def)
qed

definition in_share :: "RouteSnapshotTarget list \<Rightarrow> int \<Rightarrow> nat \<Rightarrow> bool" where
  "in_share ts n k \<longleftrightarrow> k < length ts \<and> weight_before ts k \<le> n
     \<and> n < weight_before ts k + st_weight (ts ! k)"

lemma one_share:
  assumes "\<forall>t \<in> set ts. 0 < st_weight t" and "0 \<le> n" and "n < targets_weight ts"
  shows "\<exists>!j. in_share ts n j"
proof -
  obtain k where k: "k < length ts" "weight_before ts k \<le> n" "n < weight_before ts (Suc k)"
    using pick_target_slot [of 0 n ts] assms(2,3) by (auto simp: targets_weight_sum)
  have "j = k" if "in_share ts n j" for j
    using slot_unique [OF assms(1) _ _ k(2,3)] that by (simp add: in_share_def weight_before_Suc)
  with k show ?thesis by (auto simp: in_share_def weight_before_Suc)
qed

lemma snapshotDeploymentIds_set:
  "snapshotDeploymentIds snap = (\<Union>r \<in> set (snap_routes snap).
     insert (se_deploymentId r) (st_deploymentId ` set (se_targets r)))"
proof -
  have t: "fold (\<lambda>t. insert (st_deploymentId t)) ts A = st_deploymentId ` set ts \<union> A" for ts A
    by (induction ts arbitrary: A) auto
  have "fold (\<lambda>r ids. fold (\<lambda>t. insert (st_deploymentId t)) (se_targets r) (insert (se_deploymentId r) ids)) rs A
      = (\<Union>r \<in> set rs. insert (se_deploymentId r) (st_deploymentId ` set (se_targets r))) \<union> A" for rs :: "RouteSnapshotEntry list" and A
    by (induction rs arbitrary: A) (auto simp: t)
  then show ?thesis by (simp add: snapshotDeploymentIds_def)
qed


section \<open>Properties\<close>

definition ex_entry :: "string \<Rightarrow> (string \<times> int) list \<Rightarrow> RouteSnapshotEntry" where
  "ex_entry p ts = (let target = (\<lambda>(d, w). \<lparr>st_deploymentId = d, st_weight = w,
       st_world = MVP_WORKER_WORLD, st_worldVersion = MVP_WORKER_WORLD_VERSION,
       st_runtime = \<lparr>rt_backend = ''wasmtime'', rt_version = ''1'', rt_wasi = ''wasip3''\<rparr>,
       st_limits = \<lparr>lim_cpuMs = 1, lim_memoryMb = 1, lim_wallMs = 1, lim_requestBytes = 1,
         lim_subrequests = 1, lim_responseBytes = 1\<rparr>,
       st_capabilities = \<lparr>cap_outboundHttp = \<lparr>out_enabled = False, out_allow = []\<rparr>, cap_kv = [],
         cap_durableObjects = [], cap_secrets = [], cap_services = [],
         cap_arbitraryFilesystem = False, cap_arbitrarySockets = False, cap_processSpawn = False\<rparr>,
       st_artifact = \<lparr>sa_id = ''a1'', sa_digest = ''sha256:00'', sa_location = ''file:///a'',
         sa_signature = None, sa_provenance = None\<rparr>\<rparr>); t = target (hd ts) in
     \<lparr>se_host = ''h'', se_pathPrefix = p, se_projectId = ''p1'', se_deploymentId = fst (hd ts),
      se_targets = map target ts, se_world = st_world t, se_worldVersion = st_worldVersion t,
      se_runtime = st_runtime t, se_limits = st_limits t, se_capabilities = st_capabilities t,
      se_artifact = st_artifact t\<rparr>)"

definition ex_snapshot :: RouteSnapshot where
  "ex_snapshot = \<lparr>snap_id = None, snap_schemaVersion = 1, snap_generatedAt = ''t0'',
     snap_routes = [ex_entry ''/'' [(''d0'', 100)], ex_entry ''/api'' [(''d1'', 90), (''d2'', 10)]]\<rparr>"

definition ex_compare :: "string \<Rightarrow> string \<Rightarrow> int" where
  "ex_compare a b = (if a < b then -1 else if b < a then 1 else 0)"

lemma ex_compare_consistent: "consistent_compare ex_compare"
  unfolding consistent_compare_def ex_compare_def by (auto split: if_splits)

text \<open>
  C40. The route cache finds a route exactly when the snapshot has one for the request, and then
  one with the longest path prefix for the request's host; two candidates of that length have the
  same prefix.
\<close>

theorem longest_prefix_wins:
  assumes "consistent_compare localeCompare"
  shows "case matchRoute (createRouteCache localeCompare snap) i of
      None \<Rightarrow> \<forall>q \<in> set (snap_routes snap). \<not> route_matches i q
    | Some r \<Rightarrow> r \<in> set (snap_routes snap) \<and> route_matches i r
        \<and> (\<forall>q \<in> set (snap_routes snap). route_matches i q \<longrightarrow>
             length (se_pathPrefix q) < length (se_pathPrefix r) \<or> se_pathPrefix q = se_pathPrefix r)"
proof (cases "matchRoute (createRouteCache localeCompare snap) i")
  case None
  then have "\<forall>q \<in> set (snap_routes snap). \<not> route_matches i q"
    by (auto simp: matchRoute_def find_None_iff createRouteCache_def)
  then show ?thesis by (simp only: None option.case)
next
  case (Some r)
  have "length (se_pathPrefix q) < length (se_pathPrefix r) \<or> se_pathPrefix q = se_pathPrefix r"
    if "q \<in> set (snap_routes snap)" "route_matches i q" for q
    using matchRoute_first [OF assms Some that] matching_prefix [OF that(2)]
      matching_prefix [OF matchRoute_mem(2) [OF Some]] by (metis le_neq_implies_less)
  with matchRoute_mem [OF Some] show ?thesis by (simp only: Some option.case) blast
qed

theorem longest_prefix_wins_witness:
  "(case matchRoute (createRouteCache ex_compare ex_snapshot) \<lparr>rmi_host = ''H:80'', rmi_path = ''api/x''\<rparr> of
      None \<Rightarrow> False | Some r \<Rightarrow> r \<in> set (snap_routes ex_snapshot))
   \<and> map_option se_pathPrefix (matchRoute (createRouteCache ex_compare ex_snapshot)
        \<lparr>rmi_host = ''H:80'', rmi_path = ''api/x''\<rparr>) = Some ''/api''"
proof -
  have "map_option se_pathPrefix (matchRoute (createRouteCache ex_compare ex_snapshot)
      \<lparr>rmi_host = ''H:80'', rmi_path = ''api/x''\<rparr>) = Some ''/api''" by code_simp
  with longest_prefix_wins [OF ex_compare_consistent, of ex_snapshot "\<lparr>rmi_host = ''H:80'', rmi_path = ''api/x''\<rparr>"]
  show ?thesis by (auto split: option.splits)
qed

text \<open>
  A path prefix matches whole segments: without a final slash, it matches a path exactly when
  its segments are the first segments of the path, so \<open>/api\<close> serves \<open>/api/x\<close> and not
  \<open>/apix\<close>. A prefix with a final slash also asks for that slash.
\<close>

theorem prefix_matches_whole_segments:
  "pathPrefixMatches (normalizePath path) p \<longleftrightarrow>
     (endsWith p ''/'' \<longrightarrow> normalizePath path \<noteq> butlast p)
     \<and> prefix (split_on (CHR ''/'') (if endsWith p ''/'' then butlast p else p))
         (split_on (CHR ''/'') (normalizePath path))"
  using pathPrefixMatches_segments [OF startsWith_normalizePath [of path], of p]
  by (simp add: prefix_segments_of_def)

theorem prefix_matches_whole_segments_witness:
  "(pathPrefixMatches (normalizePath ''/api/x'') ''/api'' \<longleftrightarrow>
      (endsWith ''/api'' ''/'' \<longrightarrow> normalizePath ''/api/x'' \<noteq> butlast ''/api'')
      \<and> prefix (split_on (CHR ''/'') (if endsWith ''/api'' ''/'' then butlast ''/api'' else ''/api''))
          (split_on (CHR ''/'') (normalizePath ''/api/x'')))
   \<and> pathPrefixMatches (normalizePath ''/api/x'') ''/api''
   \<and> \<not> pathPrefixMatches (normalizePath ''/apix'') ''/api''"
proof (intro conjI)
  show "pathPrefixMatches (normalizePath ''/api/x'') ''/api''" by code_simp
  show "\<not> pathPrefixMatches (normalizePath ''/apix'') ''/api''" by code_simp
qed (rule prefix_matches_whole_segments)

text \<open>
  C8. The weighted choice: with positive weights the request's slot selects exactly one target,
  the one whose share of the slots \<open>0 ..< total\<close> holds it; each target's share is as long as its
  weight and the shares follow each other without gaps up to the total. The entry's own deployment
  is never a fallback.
\<close>

theorem weighted_choice:
  assumes "se_targets r \<noteq> []" and "\<forall>t \<in> set (se_targets r). 0 < st_weight t"
  shows "\<exists>k. in_share (se_targets r) (request_slot i (targets_weight (se_targets r))) k
      \<and> selectRouteTarget r i = compilable_target r (se_targets r ! k)
      \<and> (\<forall>n. 0 \<le> n \<longrightarrow> n < targets_weight (se_targets r) \<longrightarrow> (\<exists>!j. in_share (se_targets r) n j))"
  using selectRouteTarget_slot [OF assms, of i] one_share [OF assms(2)]
  by (auto simp: in_share_def weight_before_Suc)

theorem weighted_choice_witness:
  "(\<exists>k. in_share (se_targets (ex_entry ''/'' [(''d1'', 90), (''d2'', 10)]))
       (request_slot \<lparr>rmi_host = ''h'', rmi_path = ''/b''\<rparr>
          (targets_weight (se_targets (ex_entry ''/'' [(''d1'', 90), (''d2'', 10)])))) k)
   \<and> crt_deploymentId (selectRouteTarget (ex_entry ''/'' [(''d1'', 90), (''d2'', 10)])
        \<lparr>rmi_host = ''h'', rmi_path = ''/b''\<rparr>) = ''d1''
   \<and> crt_deploymentId (selectRouteTarget (ex_entry ''/'' [(''d1'', 90), (''d2'', 10)])
        \<lparr>rmi_host = ''h'', rmi_path = ''/yw''\<rparr>) = ''d2''"
proof (intro conjI)
  have "se_targets (ex_entry ''/'' [(''d1'', 90), (''d2'', 10)]) \<noteq> []"
    "\<forall>t \<in> set (se_targets (ex_entry ''/'' [(''d1'', 90), (''d2'', 10)])). 0 < st_weight t"
    by code_simp+
  from weighted_choice [OF this] show "\<exists>k. in_share (se_targets (ex_entry ''/'' [(''d1'', 90), (''d2'', 10)]))
       (request_slot \<lparr>rmi_host = ''h'', rmi_path = ''/b''\<rparr>
          (targets_weight (se_targets (ex_entry ''/'' [(''d1'', 90), (''d2'', 10)])))) k" by blast
qed code_simp+

end
