(* ===== verification/Packing.thy ===== *)
theory Packing
  imports Routing
begin

text \<open>
  The warm deployments a runtime node keeps (\<open>createRuntimeSupervisor\<close> of
  \<open>runtime/supervisor.ts\<close>): the map of prepared deployments, its eviction policies and
  counters. A compilation runs on its own and may fail at any later moment; a promise is the
  position of its compilation in the list of all that were started. Each operation takes the
  values its calls of \<open>nowMs\<close> return.
\<close>

subsection \<open>State\<close>

text \<open>The numbers of a policy come from outside and need not be finite.\<close>

datatype js_number = Finite rat | PosInfinity | NegInfinity | NotANumber

record PackingPolicy =
  pp_maxWarmDeployments :: "js_number option"
  pp_maxWarmDeploymentsPerProject :: "js_number option"
  pp_maxIdleDeploymentAgeMs :: "js_number option"

datatype EvictionReason = Lru | PerProjectLimit | IdleTtl

record Evictions =
  ev_total :: nat
  ev_lru :: nat
  ev_perProjectLimit :: nat
  ev_idleTtl :: nat

record PreparedDeploymentEntry =
  pd_projectId :: string
  pd_deploymentId :: string
  pd_promise :: nat
  pd_lastUsedMs :: rat

record Supervisor =
  sup_routeCache :: "RouteSnapshotEntry list"
  sup_prepared :: "PreparedDeploymentEntry list"
  sup_evictions :: Evictions
  sup_compiles :: "CompilableRouteTarget list"

definition createRuntimeSupervisor :: "(string \<Rightarrow> string \<Rightarrow> int) \<Rightarrow> RouteSnapshot \<Rightarrow> Supervisor" where
  "createRuntimeSupervisor cmp snapshot = \<lparr>sup_routeCache = createRouteCache cmp snapshot,
     sup_prepared = [],
     sup_evictions = \<lparr>ev_total = 0, ev_lru = 0, ev_perProjectLimit = 0, ev_idleTtl = 0\<rparr>,
     sup_compiles = []\<rparr>"

subsection \<open>Evictions\<close>

definition count_eviction :: "EvictionReason \<Rightarrow> Evictions \<Rightarrow> Evictions" where
  "count_eviction reason ev = (let ev = ev\<lparr>ev_total := ev_total ev + 1\<rparr> in
     case reason of
       Lru \<Rightarrow> ev\<lparr>ev_lru := ev_lru ev + 1\<rparr>
     | PerProjectLimit \<Rightarrow> ev\<lparr>ev_perProjectLimit := ev_perProjectLimit ev + 1\<rparr>
     | IdleTtl \<Rightarrow> ev\<lparr>ev_idleTtl := ev_idleTtl ev + 1\<rparr>)"

definition without :: "string \<Rightarrow> PreparedDeploymentEntry list \<Rightarrow> PreparedDeploymentEntry list" where
  "without did es = filter (\<lambda>e. pd_deploymentId e \<noteq> did) es"

definition getPrepared :: "Supervisor \<Rightarrow> string \<Rightarrow> PreparedDeploymentEntry option" where
  "getPrepared s did = find (\<lambda>e. pd_deploymentId e = did) (sup_prepared s)"

definition evictDeployment :: "string \<Rightarrow> EvictionReason \<Rightarrow> Supervisor \<Rightarrow> Supervisor" where
  "evictDeployment did reason s = (if getPrepared s did = None then s
     else s\<lparr>sup_prepared := without did (sup_prepared s),
            sup_evictions := count_eviction reason (sup_evictions s)\<rparr>)"

fun evict_loop :: "rat \<Rightarrow> EvictionReason \<Rightarrow> PreparedDeploymentEntry list \<Rightarrow>
    PreparedDeploymentEntry list \<Rightarrow> Supervisor \<Rightarrow> Supervisor" where
  "evict_loop m reason [] entries s = s"
| "evict_loop m reason (evicted # candidates) entries s =
     (if m < of_nat (length entries) then
        evict_loop m reason candidates (without (pd_deploymentId evicted) entries)
          (evictDeployment (pd_deploymentId evicted) reason s)
      else s)"

definition lru_candidates :: "string \<Rightarrow> PreparedDeploymentEntry list \<Rightarrow> PreparedDeploymentEntry list" where
  "lru_candidates protectedId entries =
     js_sort (\<lambda>a b. pd_lastUsedMs a \<le> pd_lastUsedMs b) (without protectedId entries)"

definition evictUntil :: "PreparedDeploymentEntry list \<Rightarrow> js_number \<Rightarrow> string \<Rightarrow> EvictionReason
    \<Rightarrow> Supervisor \<Rightarrow> Supervisor" where
  "evictUntil entries limit protectedId reason s = (case limit of
       Finite m \<Rightarrow> if m < 0 then s else evict_loop m reason (lru_candidates protectedId entries) entries s
     | _ \<Rightarrow> s)"

definition deploymentsForProject :: "string \<Rightarrow> Supervisor \<Rightarrow> PreparedDeploymentEntry list" where
  "deploymentsForProject pid s = filter (\<lambda>e. pd_projectId e = pid) (sup_prepared s)"

definition enforceProjectLimit :: "PackingPolicy \<Rightarrow> string \<Rightarrow> Supervisor \<Rightarrow> Supervisor" where
  "enforceProjectLimit policy did s = (case pp_maxWarmDeploymentsPerProject policy of None \<Rightarrow> s
     | Some limit \<Rightarrow> (case getPrepared s did of None \<Rightarrow> s
        | Some current \<Rightarrow>
            evictUntil (deploymentsForProject (pd_projectId current) s) limit did PerProjectLimit s))"

definition enforceNodeLimit :: "PackingPolicy \<Rightarrow> string \<Rightarrow> Supervisor \<Rightarrow> Supervisor" where
  "enforceNodeLimit policy did s = (case pp_maxWarmDeployments policy of None \<Rightarrow> s
     | Some limit \<Rightarrow> evictUntil (sup_prepared s) limit did Lru s)"

definition enforcePackingPolicy :: "PackingPolicy option \<Rightarrow> string \<Rightarrow> Supervisor \<Rightarrow> Supervisor" where
  "enforcePackingPolicy policy did s = (case policy of None \<Rightarrow> s
     | Some p \<Rightarrow> enforceNodeLimit p did (enforceProjectLimit p did s))"

text \<open>
  \<open>nowMs() - Math.max(0, maxIdleMs)\<close>, or \<open>None\<close> where the comparison with it never holds.
\<close>

definition idle_cutoff :: "rat \<Rightarrow> js_number \<Rightarrow> rat option" where
  "idle_cutoff now maxIdleMs = (case maxIdleMs of
       Finite m \<Rightarrow> Some (now - max 0 m) | NegInfinity \<Rightarrow> Some now
     | PosInfinity \<Rightarrow> None | NotANumber \<Rightarrow> None)"

definition evictIdleDeployments :: "PackingPolicy option \<Rightarrow> rat \<Rightarrow> Supervisor \<Rightarrow> Supervisor" where
  "evictIdleDeployments policy now s = (case policy of None \<Rightarrow> s
     | Some p \<Rightarrow> (case pp_maxIdleDeploymentAgeMs p of None \<Rightarrow> s
       | Some maxIdleMs \<Rightarrow> (case idle_cutoff now maxIdleMs of None \<Rightarrow> s
         | Some cutoff \<Rightarrow> fold (\<lambda>e s. if pd_lastUsedMs e < cutoff
               then evictDeployment (pd_deploymentId e) IdleTtl s else s) (sup_prepared s) s)))"

subsection \<open>Operations\<close>

definition touch :: "string \<Rightarrow> rat \<Rightarrow> PreparedDeploymentEntry list \<Rightarrow> PreparedDeploymentEntry list" where
  "touch did now es = map (\<lambda>e. if pd_deploymentId e = did then e\<lparr>pd_lastUsedMs := now\<rparr> else e) es"

text \<open>The state after the call and the promise it returns.\<close>

definition prepareDeployment :: "PackingPolicy option \<Rightarrow> rat \<Rightarrow> rat \<Rightarrow> CompilableRouteTarget
    \<Rightarrow> Supervisor \<Rightarrow> Supervisor \<times> nat" where
  "prepareDeployment policy tEvict tUse route s0 =
     (let s = evictIdleDeployments policy tEvict s0; did = crt_deploymentId route in
      case getPrepared s did of
        Some existing \<Rightarrow> (s\<lparr>sup_prepared := touch did tUse (sup_prepared s)\<rparr>, pd_promise existing)
      | None \<Rightarrow>
          (let p = length (sup_compiles s) in
           (enforcePackingPolicy policy did
              (s\<lparr>sup_compiles := sup_compiles s @ [route],
                 sup_prepared := sup_prepared s @ [\<lparr>pd_projectId = crt_projectId route,
                   pd_deploymentId = did, pd_promise = p, pd_lastUsedMs = tUse\<rparr>]\<rparr>), p)))"

text \<open>The \<open>catch\<close> handler of a failed compilation.\<close>

definition compileFailed :: "nat \<Rightarrow> Supervisor \<Rightarrow> Supervisor" where
  "compileFailed p s =
     s\<lparr>sup_prepared := without (crt_deploymentId (sup_compiles s ! p)) (sup_prepared s)\<rparr>"

definition loadSnapshot :: "(string \<Rightarrow> string \<Rightarrow> int) \<Rightarrow> RouteSnapshot \<Rightarrow> Supervisor \<Rightarrow> Supervisor" where
  "loadSnapshot cmp snapshot s = s\<lparr>sup_routeCache := createRouteCache cmp snapshot,
     sup_prepared := filter (\<lambda>e. pd_deploymentId e \<in> snapshotDeploymentIds snapshot) (sup_prepared s)\<rparr>"

definition prepareRoute :: "PackingPolicy option \<Rightarrow> rat \<Rightarrow> rat \<Rightarrow> RouteMatchInput \<Rightarrow> Supervisor
    \<Rightarrow> Supervisor \<times> nat rt" where
  "prepareRoute policy tEvict tUse i s = (case matchRoute (sup_routeCache s) i of
       None \<Rightarrow> (s, throwR RNotFound (''no route matched '' @ rmi_host i @ rmi_path i))
     | Some route \<Rightarrow> map_prod id Inr
         (prepareDeployment policy tEvict tUse (selectRouteTarget route i) s))"

subsection \<open>The histories of a supervisor\<close>

inductive packing_step :: "(string \<Rightarrow> string \<Rightarrow> int) \<Rightarrow> PackingPolicy option \<Rightarrow> Supervisor \<Rightarrow> Supervisor \<Rightarrow> bool"
  for cmp policy where
  prepare: "packing_step cmp policy s (fst (prepareDeployment policy tEvict tUse route s))"
| request: "packing_step cmp policy s (fst (prepareRoute policy tEvict tUse i s))"
| failure: "p < length (sup_compiles s) \<Longrightarrow> packing_step cmp policy s (compileFailed p s)"
| load: "packing_step cmp policy s (loadSnapshot cmp snapshot s)"

inductive packing_reachable :: "(string \<Rightarrow> string \<Rightarrow> int) \<Rightarrow> PackingPolicy option \<Rightarrow> Supervisor \<Rightarrow> bool"
  for cmp policy where
  start: "packing_reachable cmp policy (createRuntimeSupervisor cmp snapshot)"
| step: "packing_reachable cmp policy s \<Longrightarrow> packing_step cmp policy s s'
    \<Longrightarrow> packing_reachable cmp policy s'"

inductive_cases packing_stepE: "packing_step cmp policy s s'"


subsection \<open>Removing entries\<close>

abbreviation ids :: "PreparedDeploymentEntry list \<Rightarrow> string list" where
  "ids es \<equiv> map pd_deploymentId es"

lemma set_without [simp]: "set (without did es) = {e \<in> set es. pd_deploymentId e \<noteq> did}"
  by (auto simp: without_def)

lemma distinct_ids_filter: "distinct (ids es) \<Longrightarrow> distinct (ids (filter P es))"
  by (simp add: distinct_map_filter)

lemma distinct_ids_eq:
  "distinct (ids es) \<Longrightarrow> e \<in> set es \<Longrightarrow> f \<in> set es \<Longrightarrow> pd_deploymentId e = pd_deploymentId f \<Longrightarrow> e = f"
  by (auto simp: distinct_map inj_on_def)

lemma length_without:
  assumes "distinct (ids es)" and "e \<in> set es"
  shows "length (without (pd_deploymentId e) es) = length es - 1"
proof -
  have d: "distinct es" using assms(1) by (simp add: distinct_map)
  have "set (without (pd_deploymentId e) es) = set es - {e}"
    using distinct_ids_eq [OF assms(1) _ assms(2)] by auto
  moreover have "distinct (without (pd_deploymentId e) es)" using d by (simp add: without_def)
  ultimately show ?thesis
    using d assms(2) by (metis distinct_card card_Diff_singleton)
qed

lemma getPrepared_None: "getPrepared s did = None \<longleftrightarrow> did \<notin> set (ids (sup_prepared s))"
  by (auto simp: getPrepared_def find_None_iff)

lemma getPrepared_mem:
  "getPrepared s did = Some e \<Longrightarrow> e \<in> set (sup_prepared s) \<and> pd_deploymentId e = did"
  unfolding getPrepared_def by (rule find_mem)

lemma without_absent: "did \<notin> set (ids es) \<Longrightarrow> without did es = es"
  by (auto simp: without_def filter_id_conv)

lemma evictDeployment_simps [simp]:
  "sup_prepared (evictDeployment did reason s) = without did (sup_prepared s)"
  "sup_compiles (evictDeployment did reason s) = sup_compiles s"
  "sup_routeCache (evictDeployment did reason s) = sup_routeCache s"
  by (auto simp: evictDeployment_def getPrepared_None without_absent)

lemma evictDeployment_counts:
  "did \<in> set (ids (sup_prepared s)) \<Longrightarrow>
    sup_evictions (evictDeployment did reason s) = count_eviction reason (sup_evictions s)"
  using getPrepared_None by (auto simp: evictDeployment_def)

subsection \<open>The eviction loop\<close>

definition keeps_all_but :: "PreparedDeploymentEntry list \<Rightarrow> Supervisor \<Rightarrow> Supervisor \<Rightarrow> bool" where
  "keeps_all_but out s s' \<longleftrightarrow> sup_prepared s' =
       filter (\<lambda>e. pd_deploymentId e \<notin> pd_deploymentId ` set out) (sup_prepared s)
     \<and> sup_compiles s' = sup_compiles s \<and> sup_routeCache s' = sup_routeCache s"

lemma evict_loop_spec:
  assumes "distinct (ids cands)" and "distinct (ids entries)" and "set cands \<subseteq> set entries"
    and "set entries \<subseteq> set (sup_prepared s)" and "distinct (ids (sup_prepared s))"
  shows "\<exists>k \<le> length cands. keeps_all_but (take k cands) s (evict_loop m reason cands entries s)
     \<and> sup_evictions (evict_loop m reason cands entries s) = (count_eviction reason ^^ k) (sup_evictions s)
     \<and> (of_nat (length entries - k) \<le> m \<or> k = length cands)
     \<and> (k = 0 \<or> m < of_nat (length entries - (k - 1)))"
  using assms
proof (induction m reason cands entries s rule: evict_loop.induct)
  case (1 m reason entries s)
  then show ?case by (auto simp: keeps_all_but_def)
next
  case (2 m reason c cands entries s)
  show ?case
  proof (cases "m < of_nat (length entries)")
    case False
    then show ?thesis by (intro exI [of _ 0]) (simp add: keeps_all_but_def)
  next
    case True
    let ?id = "pd_deploymentId c"
    let ?entries = "without ?id entries" and ?s = "evictDeployment ?id reason s"
    have c: "c \<in> set entries" using 2(4) by simp
    have len: "length ?entries = length entries - 1" "0 < length entries"
      using length_without [OF 2(3) c] c by (auto simp: length_pos_if_in_set)
    have "set cands \<subseteq> set ?entries" using 2(2,4) by (auto simp: image_iff)
    moreover have "distinct (ids ?entries)" "distinct (ids (sup_prepared ?s))"
      using 2(3,6) by (simp_all add: without_def distinct_ids_filter)
    moreover have "set ?entries \<subseteq> set (sup_prepared ?s)" using 2(5) by auto
    moreover have "distinct (ids cands)" using 2(2) by simp
    ultimately obtain k where k: "k \<le> length cands"
      "keeps_all_but (take k cands) ?s (evict_loop m reason cands ?entries ?s)"
      "sup_evictions (evict_loop m reason cands ?entries ?s) = (count_eviction reason ^^ k) (sup_evictions ?s)"
      "of_nat (length ?entries - k) \<le> m \<or> k = length cands"
      "k = 0 \<or> m < of_nat (length ?entries - (k - 1))"
      using 2(1) [OF True] by blast
    have loop: "evict_loop m reason (c # cands) entries s = evict_loop m reason cands ?entries ?s"
      using True by simp
    have "keeps_all_but (take (Suc k) (c # cands)) s (evict_loop m reason cands ?entries ?s)"
      using k(2) by (auto simp: keeps_all_but_def without_def intro: filter_cong)
    moreover have "sup_evictions ?s = count_eviction reason (sup_evictions s)"
      using c 2(5) by (intro evictDeployment_counts) auto
    then have "sup_evictions (evict_loop m reason cands ?entries ?s)
        = (count_eviction reason ^^ Suc k) (sup_evictions s)"
      using k(3) by (simp add: funpow_swap1)
    moreover have "of_nat (length entries - Suc k) \<le> m \<or> Suc k = length (c # cands)"
      using k(4) len by simp
    moreover have "m < of_nat (length entries - (Suc k - 1))"
      using k(5) len True by (cases k) auto
    ultimately show ?thesis
      unfolding loop using k(1) by (intro exI [of _ "Suc k"]) (simp del: take_Suc_Cons funpow.simps)
  qed
qed


lemma length_keeps:
  assumes "distinct (ids es)" and "set out \<subseteq> set es" and "distinct (ids out)"
  shows "length (filter (\<lambda>e. pd_deploymentId e \<notin> pd_deploymentId ` set out) es) = length es - length out"
proof -
  have d: "distinct es" "distinct out" using assms(1,3) by (simp_all add: distinct_map)
  have "set (filter (\<lambda>e. pd_deploymentId e \<notin> pd_deploymentId ` set out) es) = set es - set out"
  proof (intro equalityI subsetI)
    fix x assume x: "x \<in> set es - set out"
    then have "\<And>y. y \<in> set out \<Longrightarrow> pd_deploymentId x \<noteq> pd_deploymentId y"
      using distinct_ids_eq [OF assms(1)] assms(2) by blast
    with x show "x \<in> set (filter (\<lambda>e. pd_deploymentId e \<notin> pd_deploymentId ` set out) es)" by auto
  qed auto
  moreover have "card (set es - set out) = length es - length out"
    using d assms(2) by (simp add: card_Diff_subset distinct_card)
  ultimately show ?thesis using d by (metis distinct_card distinct_filter)
qed

lemma keeps_nothing: "keeps_all_but [] s s"
  by (simp add: keeps_all_but_def)

text \<open>What \<open>evictUntil\<close> removes from a pool of entries, the protected one among them.\<close>

definition lru_eviction :: "(PreparedDeploymentEntry \<Rightarrow> bool) \<Rightarrow> js_number \<Rightarrow> string \<Rightarrow> EvictionReason
    \<Rightarrow> PreparedDeploymentEntry list \<Rightarrow> Supervisor \<Rightarrow> Supervisor \<Rightarrow> bool" where
  "lru_eviction P limit did reason out s s' \<longleftrightarrow> keeps_all_but out s s'
     \<and> set out \<subseteq> {e \<in> set (sup_prepared s). P e \<and> pd_deploymentId e \<noteq> did} \<and> distinct (ids out)
     \<and> sup_evictions s' = (count_eviction reason ^^ length out) (sup_evictions s)
     \<and> (\<forall>x \<in> set out. \<forall>y \<in> set (sup_prepared s').
          P y \<longrightarrow> pd_deploymentId y \<noteq> did \<longrightarrow> pd_lastUsedMs x \<le> pd_lastUsedMs y)
     \<and> (\<forall>m. limit = Finite m \<longrightarrow> 0 \<le> m \<longrightarrow> of_nat (length (filter P (sup_prepared s'))) \<le> max 1 m)
     \<and> (out \<noteq> [] \<longrightarrow> (\<exists>m. limit = Finite m \<and> m < of_nat (length (filter P (sup_prepared s')) + 1)))"

lemma lru_total: "total_preorder (\<lambda>a b. pd_lastUsedMs a \<le> pd_lastUsedMs b)"
  by (auto simp: total_preorder_def)

lemma sorted_take_le:
  "sorted_wrt le xs \<Longrightarrow> x \<in> set (take k xs) \<Longrightarrow> y \<in> set (drop k xs) \<Longrightarrow> le x y"
  by (metis append_take_drop_id sorted_wrt_append)

lemma evictUntil_lru:
  assumes d: "distinct (ids (sup_prepared s))" and p: "p \<in> set (filter P (sup_prepared s))"
    and did: "pd_deploymentId p = did"
  shows "\<exists>out. lru_eviction P limit did reason out s (evictUntil (filter P (sup_prepared s)) limit did reason s)"
proof (cases "\<exists>m. limit = Finite m \<and> 0 \<le> m")
  case False
  then have "evictUntil (filter P (sup_prepared s)) limit did reason s = s"
    by (auto simp: evictUntil_def split: js_number.splits)
  with False show ?thesis
    by (intro exI [of _ "[]"]) (auto simp: lru_eviction_def keeps_nothing)
next
  case True
  then obtain m where m: "limit = Finite m" "0 \<le> m" by blast
  let ?pool = "filter P (sup_prepared s)"
  let ?cands = "lru_candidates did ?pool"
  let ?s' = "evictUntil ?pool limit did reason s"
  have s': "?s' = evict_loop m reason ?cands ?pool s" using m by (simp add: evictUntil_def)
  have dp: "distinct (ids ?pool)" using d by (rule distinct_ids_filter)
  have "mset (ids ?cands) = mset (ids (without did ?pool))" by (simp add: lru_candidates_def)
  then have dc: "distinct (ids ?cands)"
    using dp by (metis mset_eq_imp_distinct_iff distinct_ids_filter without_def)
  have set: "set ?cands = {e \<in> set (sup_prepared s). P e \<and> pd_deploymentId e \<noteq> did}"
    by (auto simp: lru_candidates_def)
  have lc: "length ?cands = length ?pool - 1"
    using length_without [OF dp p] did by (simp add: lru_candidates_def)
  obtain k where k: "k \<le> length ?cands" "keeps_all_but (take k ?cands) s ?s'"
    "sup_evictions ?s' = (count_eviction reason ^^ k) (sup_evictions s)"
    "of_nat (length ?pool - k) \<le> m \<or> k = length ?cands" "k = 0 \<or> m < of_nat (length ?pool - (k - 1))"
    using evict_loop_spec [OF dc dp _ _ d, of m reason] set unfolding s' by fastforce
  have dk: "distinct (ids (take k ?cands))" using dc by (metis distinct_take take_map)
  have sk: "set (take k ?cands) \<subseteq> set ?cands" by (rule set_take_subset)
  have pool': "filter P (sup_prepared ?s')
      = filter (\<lambda>e. pd_deploymentId e \<notin> pd_deploymentId ` set (take k ?cands)) ?pool"
    using k(2) by (simp add: keeps_all_but_def conj_commute)
  have len: "length (filter P (sup_prepared ?s')) = length ?pool - k"
    unfolding pool' using length_keeps [OF dp _ dk] sk set k(1) by fastforce
  have pos: "0 < length ?pool" using p by (metis length_pos_if_in_set)
  have order: "pd_lastUsedMs x \<le> pd_lastUsedMs y"
    if "x \<in> set (take k ?cands)" "y \<in> set (sup_prepared ?s')" "P y" "pd_deploymentId y \<noteq> did" for x y
  proof -
    have "y \<in> set ?cands" "y \<notin> set (take k ?cands)"
      using that k(2) by (auto simp: set keeps_all_but_def)
    then have "y \<in> set (drop k ?cands)" by (metis append_take_drop_id Un_iff set_append)
    moreover have "sorted_wrt (\<lambda>a b. pd_lastUsedMs a \<le> pd_lastUsedMs b) ?cands"
      unfolding lru_candidates_def by (rule sorted_js_sort [OF lru_total])
    ultimately show ?thesis by (auto dest: sorted_take_le [OF _ that(1)])
  qed
  have bound: "of_nat (length (filter P (sup_prepared ?s'))) \<le> max 1 m"
    unfolding len using k(4) lc pos by (auto simp: max_def)
  have needed: "m < of_nat (length (filter P (sup_prepared ?s')) + 1)" if "k \<noteq> 0"
  proof -
    have "length ?pool - (k - 1) = length ?pool - k + 1" using that k(1) lc pos by simp
    then show ?thesis using k(5) that unfolding len by simp
  qed
  have "lru_eviction P limit did reason (take k ?cands) s ?s'"
    unfolding lru_eviction_def
  proof (intro conjI)
    show "keeps_all_but (take k ?cands) s ?s'" by (rule k(2))
    show "set (take k ?cands) \<subseteq> {e \<in> set (sup_prepared s). P e \<and> pd_deploymentId e \<noteq> did}"
      using sk unfolding set .
    show "distinct (ids (take k ?cands))" by (rule dk)
    show "sup_evictions ?s' = (count_eviction reason ^^ length (take k ?cands)) (sup_evictions s)"
      using k(1,3) by simp
    show "\<forall>x \<in> set (take k ?cands). \<forall>y \<in> set (sup_prepared ?s').
        P y \<longrightarrow> pd_deploymentId y \<noteq> did \<longrightarrow> pd_lastUsedMs x \<le> pd_lastUsedMs y"
      using order by blast
    show "\<forall>m. limit = Finite m \<longrightarrow> 0 \<le> m \<longrightarrow>
        of_nat (length (filter P (sup_prepared ?s'))) \<le> max 1 m"
      using bound m(1) by simp
    show "take k ?cands \<noteq> [] \<longrightarrow>
        (\<exists>m. limit = Finite m \<and> m < of_nat (length (filter P (sup_prepared ?s')) + 1))"
      using needed m(1) by auto
  qed
  then show ?thesis ..
qed


subsection \<open>Idle deployments\<close>

lemma keeps_trans:
  "keeps_all_but a s s1 \<Longrightarrow> keeps_all_but b s1 s2 \<Longrightarrow> keeps_all_but (a @ b) s s2"
  by (auto simp: keeps_all_but_def intro: filter_cong)

lemma evict_keeps: "keeps_all_but [e] s (evictDeployment (pd_deploymentId e) reason s)"
  by (simp add: keeps_all_but_def without_def)

lemma idle_fold:
  assumes "distinct (ids es)" and "set es \<subseteq> set (sup_prepared s)" and "distinct (ids (sup_prepared s))"
  shows "let s' = fold (\<lambda>e s. if pd_lastUsedMs e < c
        then evictDeployment (pd_deploymentId e) IdleTtl s else s) es s;
      out = filter (\<lambda>e. pd_lastUsedMs e < c) es
    in keeps_all_but out s s' \<and> sup_evictions s' = (count_eviction IdleTtl ^^ length out) (sup_evictions s)"
  using assms
proof (induction es arbitrary: s)
  case Nil
  then show ?case by (simp add: keeps_nothing)
next
  case (Cons e es)
  show ?case
  proof (cases "pd_lastUsedMs e < c")
    case False
    with Cons show ?thesis by (simp add: Let_def)
  next
    case True
    let ?s = "evictDeployment (pd_deploymentId e) IdleTtl s"
    have "set es \<subseteq> set (sup_prepared ?s)" using Cons.prems(1,2) by (auto simp: image_iff)
    moreover have "distinct (ids es)" using Cons.prems(1) by simp
    moreover have "distinct (ids (sup_prepared ?s))"
      using Cons.prems(3) by (simp add: without_def distinct_ids_filter)
    ultimately have IH: "keeps_all_but (filter (\<lambda>e. pd_lastUsedMs e < c) es) ?s
        (fold (\<lambda>e s. if pd_lastUsedMs e < c then evictDeployment (pd_deploymentId e) IdleTtl s else s) es ?s)"
      "sup_evictions (fold (\<lambda>e s. if pd_lastUsedMs e < c
          then evictDeployment (pd_deploymentId e) IdleTtl s else s) es ?s)
        = (count_eviction IdleTtl ^^ length (filter (\<lambda>e. pd_lastUsedMs e < c) es)) (sup_evictions ?s)"
      using Cons.IH [of ?s] by (simp_all add: Let_def)
    have "sup_evictions ?s = count_eviction IdleTtl (sup_evictions s)"
      using Cons.prems(2) by (intro evictDeployment_counts) auto
    then show ?thesis using True IH keeps_trans [OF evict_keeps [of e s IdleTtl] IH(1)]
      by (simp add: Let_def funpow_swap1)
  qed
qed

lemma evictIdle_spec:
  assumes "distinct (ids (sup_prepared s))"
  shows "\<exists>out. keeps_all_but out s (evictIdleDeployments policy now s) \<and> set out \<subseteq> set (sup_prepared s)
    \<and> sup_evictions (evictIdleDeployments policy now s) = (count_eviction IdleTtl ^^ length out) (sup_evictions s)
    \<and> (\<forall>p m e. policy = Some p \<longrightarrow> pp_maxIdleDeploymentAgeMs p = Some (Finite m) \<longrightarrow>
         e \<in> set (sup_prepared s) \<longrightarrow> (e \<in> set out \<longleftrightarrow> pd_lastUsedMs e < now - max 0 m))"
proof (cases "\<exists>p l c. policy = Some p \<and> pp_maxIdleDeploymentAgeMs p = Some l \<and> idle_cutoff now l = Some c")
  case False
  then have "evictIdleDeployments policy now s = s"
    by (auto simp: evictIdleDeployments_def split: option.splits)
  with False show ?thesis
    by (intro exI [of _ "[]"]) (auto simp: keeps_nothing idle_cutoff_def)
next
  case True
  then obtain p l c where p: "policy = Some p" "pp_maxIdleDeploymentAgeMs p = Some l"
    "idle_cutoff now l = Some c" by blast
  with idle_fold [OF assms subset_refl assms, of c] show ?thesis
    by (intro exI [of _ "filter (\<lambda>e. pd_lastUsedMs e < c) (sup_prepared s)"])
      (auto simp: evictIdleDeployments_def Let_def idle_cutoff_def)
qed

subsection \<open>The invariant\<close>

definition within_limits :: "PackingPolicy option \<Rightarrow> PreparedDeploymentEntry list \<Rightarrow> bool" where
  "within_limits policy es \<longleftrightarrow> (\<forall>p m. policy = Some p \<longrightarrow> 0 \<le> m \<longrightarrow>
      (pp_maxWarmDeployments p = Some (Finite m) \<longrightarrow> of_nat (length es) \<le> max 1 m)
    \<and> (pp_maxWarmDeploymentsPerProject p = Some (Finite m) \<longrightarrow>
        (\<forall>pid. of_nat (length (filter (\<lambda>e. pd_projectId e = pid) es)) \<le> max 1 m)))"

definition counted :: "Evictions \<Rightarrow> bool" where
  "counted ev \<longleftrightarrow> ev_total ev = ev_lru ev + ev_perProjectLimit ev + ev_idleTtl ev"

text \<open>A prepared entry's promise is a compilation of its own deployment and project.\<close>

definition compiles_its_own :: "CompilableRouteTarget list \<Rightarrow> PreparedDeploymentEntry \<Rightarrow> bool" where
  "compiles_its_own cs e \<longleftrightarrow> pd_promise e < length cs
     \<and> crt_deploymentId (cs ! pd_promise e) = pd_deploymentId e
     \<and> crt_projectId (cs ! pd_promise e) = pd_projectId e"

definition packing_ok :: "PackingPolicy option \<Rightarrow> Supervisor \<Rightarrow> bool" where
  "packing_ok policy s \<longleftrightarrow> distinct (ids (sup_prepared s)) \<and> within_limits policy (sup_prepared s)
     \<and> counted (sup_evictions s) \<and> list_all (compiles_its_own (sup_compiles s)) (sup_prepared s)"

lemma counted_eviction: "counted ev \<Longrightarrow> counted ((count_eviction reason ^^ k) ev)"
  by (induction k) (auto simp: counted_def count_eviction_def Let_def split: EvictionReason.splits)

lemma within_limits_fewer:
  assumes "within_limits policy es" and "length es' \<le> length es"
    and "\<And>pid. length (filter (\<lambda>e. pd_projectId e = pid) es') \<le> length (filter (\<lambda>e. pd_projectId e = pid) es)"
  shows "within_limits policy es'"
  unfolding within_limits_def
proof (intro allI impI conjI)
  fix p and m :: rat
  assume p: "policy = Some p" "0 \<le> m"
  have le: "(of_nat a :: rat) \<le> of_nat b" if "a \<le> b" for a b :: nat using that by simp
  note w = assms(1) [unfolded within_limits_def, rule_format, OF p]
  show "of_nat (length es') \<le> max 1 m" if "pp_maxWarmDeployments p = Some (Finite m)"
    using w that le [OF assms(2)] by (meson order_trans)
  show "of_nat (length (filter (\<lambda>e. pd_projectId e = pid) es')) \<le> max 1 m"
    if "pp_maxWarmDeploymentsPerProject p = Some (Finite m)" for pid
    using w that le [OF assms(3) [of pid]] by (meson order_trans)
qed

lemma filter_filter_length: "length (filter P (filter Q xs)) \<le> length (filter P xs)"
  by (induction xs) auto

lemma within_limits_filter: "within_limits policy es \<Longrightarrow> within_limits policy (filter Q es)"
  by (rule within_limits_fewer [OF _ length_filter_le filter_filter_length])

lemma packing_ok_filter:
  assumes "packing_ok policy s" and "sup_prepared s' = filter Q (sup_prepared s)"
    and "sup_compiles s' = sup_compiles s" and "counted (sup_evictions s')"
  shows "packing_ok policy s'"
  using assms by (auto simp: packing_ok_def distinct_ids_filter within_limits_filter list_all_iff)

lemma evictIdle_ok: "packing_ok policy s \<Longrightarrow> packing_ok policy (evictIdleDeployments policy now s)"
proof -
  assume ok: "packing_ok policy s"
  then have d: "distinct (ids (sup_prepared s))" and c: "counted (sup_evictions s)"
    by (auto simp: packing_ok_def)
  obtain out where "keeps_all_but out s (evictIdleDeployments policy now s)"
    and ev: "sup_evictions (evictIdleDeployments policy now s)
      = (count_eviction IdleTtl ^^ length out) (sup_evictions s)"
    using evictIdle_spec [OF d] by blast
  then show ?thesis unfolding keeps_all_but_def
    by (intro packing_ok_filter [OF ok]) (auto simp: ev counted_eviction [OF c])
qed


lemma touch_simps [simp]:
  "ids (touch did now es) = ids es" "length (touch did now es) = length es"
  "length (filter (\<lambda>e. pd_projectId e = pid) (touch did now es))
    = length (filter (\<lambda>e. pd_projectId e = pid) es)"
  by (induction es) (auto simp: touch_def)

lemma touch_mem: "e \<in> set (touch did now es) \<Longrightarrow>
    \<exists>f \<in> set es. pd_deploymentId e = pd_deploymentId f \<and> pd_projectId e = pd_projectId f
      \<and> pd_promise e = pd_promise f"
  by (auto simp: touch_def)

lemma touch_ok:
  assumes "packing_ok policy s"
  shows "packing_ok policy (s\<lparr>sup_prepared := touch did now (sup_prepared s)\<rparr>)"
proof -
  have "within_limits policy (touch did now (sup_prepared s))"
    by (rule within_limits_fewer [where es = "sup_prepared s"]) (use assms in \<open>simp_all add: packing_ok_def\<close>)
  moreover have "list_all (compiles_its_own (sup_compiles s)) (touch did now (sup_prepared s))"
    using assms unfolding list_all_iff packing_ok_def compiles_its_own_def
    by (intro ballI) (drule touch_mem, auto)
  ultimately show ?thesis using assms by (simp add: packing_ok_def)
qed

lemma filter_True_id: "filter (\<lambda>_. True) xs = xs" by simp

text \<open>
  What enforcing the limits does after an insertion: the new entry stays, the limits hold, and
  every counted eviction removed an entry.
\<close>

lemma enforceProjectLimit_lru:
  assumes "distinct (ids (sup_prepared s))" and "e \<in> set (sup_prepared s)" and "pd_deploymentId e = did"
  shows "\<exists>out limit. lru_eviction (\<lambda>x. pd_projectId x = pd_projectId e) limit did PerProjectLimit out s
      (enforceProjectLimit p did s)
    \<and> (\<forall>l. pp_maxWarmDeploymentsPerProject p = Some l \<longrightarrow> limit = l)
    \<and> (pp_maxWarmDeploymentsPerProject p = None \<longrightarrow> out = [] \<and> enforceProjectLimit p did s = s)"
proof (cases "pp_maxWarmDeploymentsPerProject p")
  case None
  then show ?thesis
    by (intro exI [of _ "[]"] exI [of _ NotANumber])
      (simp add: enforceProjectLimit_def lru_eviction_def keeps_nothing)
next
  case (Some l)
  have "getPrepared s did \<noteq> None" using assms(2,3) by (auto simp: getPrepared_None)
  then obtain c where c: "getPrepared s did = Some c" by blast
  then have "c = e" using getPrepared_mem [OF c] assms by (auto intro: distinct_ids_eq)
  with c Some have "enforceProjectLimit p did s = evictUntil
      (filter (\<lambda>x. pd_projectId x = pd_projectId e) (sup_prepared s)) l did PerProjectLimit s"
    by (simp add: enforceProjectLimit_def deploymentsForProject_def)
  with evictUntil_lru [OF assms(1), of e "\<lambda>x. pd_projectId x = pd_projectId e" did l PerProjectLimit]
    assms(2,3) Some
  show ?thesis by auto
qed

lemma enforceNodeLimit_lru:
  assumes "distinct (ids (sup_prepared s))" and "e \<in> set (sup_prepared s)" and "pd_deploymentId e = did"
  shows "\<exists>out limit. lru_eviction (\<lambda>_. True) limit did Lru out s (enforceNodeLimit p did s)
    \<and> (\<forall>l. pp_maxWarmDeployments p = Some l \<longrightarrow> limit = l)
    \<and> (pp_maxWarmDeployments p = None \<longrightarrow> out = [] \<and> enforceNodeLimit p did s = s)"
proof (cases "pp_maxWarmDeployments p")
  case None
  then show ?thesis
    by (intro exI [of _ "[]"] exI [of _ NotANumber])
      (simp add: enforceNodeLimit_def lru_eviction_def keeps_nothing)
next
  case (Some l)
  with evictUntil_lru [OF assms(1), of e "\<lambda>_. True" did l Lru] assms(2,3)
  show ?thesis by (auto simp: enforceNodeLimit_def filter_True_id)
qed

lemma lru_evictionD:
  assumes "lru_eviction P limit did reason out s s'"
  shows "\<exists>Q. sup_prepared s' = filter Q (sup_prepared s)" and "sup_compiles s' = sup_compiles s"
    and "counted (sup_evictions s) \<Longrightarrow> counted (sup_evictions s')"
    and "e \<in> set (sup_prepared s) \<Longrightarrow> pd_deploymentId e = did \<Longrightarrow> e \<in> set (sup_prepared s')"
    and "limit = Finite m \<Longrightarrow> 0 \<le> m \<Longrightarrow> of_nat (length (filter P (sup_prepared s'))) \<le> max 1 m"
proof -
  note l = assms [unfolded lru_eviction_def keeps_all_but_def]
  from l show "\<exists>Q. sup_prepared s' = filter Q (sup_prepared s)" by blast
  from l show "sup_compiles s' = sup_compiles s" by simp
  from l show "counted (sup_evictions s) \<Longrightarrow> counted (sup_evictions s')"
    by (metis counted_eviction)
  from l show "e \<in> set (sup_prepared s) \<Longrightarrow> pd_deploymentId e = did \<Longrightarrow> e \<in> set (sup_prepared s')"
    by auto
  from l show "limit = Finite m \<Longrightarrow> 0 \<le> m \<Longrightarrow> of_nat (length (filter P (sup_prepared s'))) \<le> max 1 m"
    by blast
qed


definition inserted :: "CompilableRouteTarget \<Rightarrow> rat \<Rightarrow> Supervisor \<Rightarrow> PreparedDeploymentEntry" where
  "inserted route now s = \<lparr>pd_projectId = crt_projectId route, pd_deploymentId = crt_deploymentId route,
     pd_promise = length (sup_compiles s), pd_lastUsedMs = now\<rparr>"

definition with_inserted :: "CompilableRouteTarget \<Rightarrow> rat \<Rightarrow> Supervisor \<Rightarrow> Supervisor" where
  "with_inserted route now s = s\<lparr>sup_compiles := sup_compiles s @ [route],
     sup_prepared := sup_prepared s @ [inserted route now s]\<rparr>"

lemma prepareDeployment_miss:
  "getPrepared (evictIdleDeployments policy t s) (crt_deploymentId route) = None \<Longrightarrow>
   prepareDeployment policy t t' route s =
     (enforcePackingPolicy policy (crt_deploymentId route)
        (with_inserted route t' (evictIdleDeployments policy t s)),
      length (sup_compiles (evictIdleDeployments policy t s)))"
  by (simp add: prepareDeployment_def Let_def with_inserted_def inserted_def)

lemma prepareDeployment_hit:
  "getPrepared (evictIdleDeployments policy t s) (crt_deploymentId route) = Some e \<Longrightarrow>
   prepareDeployment policy t t' route s =
     ((evictIdleDeployments policy t s)\<lparr>sup_prepared := touch (crt_deploymentId route) t'
        (sup_prepared (evictIdleDeployments policy t s))\<rparr>, pd_promise e)"
  by (simp add: prepareDeployment_def Let_def)

text \<open>An insertion keeps everything but the limits.\<close>

lemma with_inserted_facts:
  assumes "packing_ok policy s" and "getPrepared s (crt_deploymentId route) = None"
  shows "distinct (ids (sup_prepared (with_inserted route now s)))"
    and "list_all (compiles_its_own (sup_compiles (with_inserted route now s)))
      (sup_prepared (with_inserted route now s))"
    and "counted (sup_evictions (with_inserted route now s))"
    and "inserted route now s \<in> set (sup_prepared (with_inserted route now s))"
  using assms by (auto simp: packing_ok_def with_inserted_def inserted_def getPrepared_None
      list_all_iff compiles_its_own_def nth_append)

lemma enforce_ok:
  assumes ok: "packing_ok policy s" and miss: "getPrepared s (crt_deploymentId route) = None"
  shows "packing_ok policy (enforcePackingPolicy policy (crt_deploymentId route) (with_inserted route now s))"
    and "inserted route now s \<in> set (sup_prepared
      (enforcePackingPolicy policy (crt_deploymentId route) (with_inserted route now s)))"
    and "sup_compiles (enforcePackingPolicy policy (crt_deploymentId route) (with_inserted route now s))
      = sup_compiles s @ [route]"
proof -
  let ?s1 = "with_inserted route now s" and ?e = "inserted route now s" and ?did = "crt_deploymentId route"
  note w = with_inserted_facts [OF ok miss, of now]
  have did: "pd_deploymentId ?e = ?did" by (simp add: inserted_def)
  have compiles: "sup_compiles ?s1 = sup_compiles s @ [route]" by (simp add: with_inserted_def)
  have "packing_ok policy (enforcePackingPolicy policy ?did ?s1)
    \<and> ?e \<in> set (sup_prepared (enforcePackingPolicy policy ?did ?s1))
    \<and> sup_compiles (enforcePackingPolicy policy ?did ?s1) = sup_compiles s @ [route]"
  proof (cases policy)
    case None
    with w compiles show ?thesis
      by (simp add: packing_ok_def enforcePackingPolicy_def within_limits_def)
  next
    case (Some p)
    let ?s2 = "enforceProjectLimit p ?did ?s1"
    let ?s3 = "enforceNodeLimit p ?did ?s2"
    obtain out l where l2: "lru_eviction (\<lambda>x. pd_projectId x = pd_projectId ?e) l ?did PerProjectLimit out ?s1 ?s2"
      and l: "\<And>l'. pp_maxWarmDeploymentsPerProject p = Some l' \<Longrightarrow> l = l'"
      using enforceProjectLimit_lru [OF w(1,4) did] by blast
    note d2 = lru_evictionD [OF l2]
    obtain Q2 where Q2: "sup_prepared ?s2 = filter Q2 (sup_prepared ?s1)" using d2(1) by blast
    have e2: "?e \<in> set (sup_prepared ?s2)" using d2(4) w(4) did by blast
    have dist2: "distinct (ids (sup_prepared ?s2))" unfolding Q2 by (rule distinct_ids_filter [OF w(1)])
    obtain out' k where l3: "lru_eviction (\<lambda>_. True) k ?did Lru out' ?s2 ?s3"
      and k: "\<And>k'. pp_maxWarmDeployments p = Some k' \<Longrightarrow> k = k'"
      using enforceNodeLimit_lru [OF dist2 e2 did] by blast
    note d3 = lru_evictionD [OF l3]
    obtain Q3 where Q3: "sup_prepared ?s3 = filter Q3 (sup_prepared ?s2)" using d3(1) by blast
    have own: "of_nat (length (filter (\<lambda>x. pd_projectId x = pd_projectId ?e) (sup_prepared ?s3))) \<le> max 1 m"
      if "pp_maxWarmDeploymentsPerProject p = Some (Finite m)" "0 \<le> m" for m
      using d2(5) [OF l [OF that(1)] that(2)]
        filter_filter_length [of "\<lambda>x. pd_projectId x = pd_projectId ?e" Q3 "sup_prepared ?s2"]
      unfolding Q3 by (meson order_trans of_nat_mono)
    have other: "length (filter (\<lambda>x. pd_projectId x = pid) (sup_prepared ?s3))
        \<le> length (filter (\<lambda>x. pd_projectId x = pid) (sup_prepared s))" if "pid \<noteq> pd_projectId ?e" for pid
    proof -
      have "length (filter (\<lambda>x. pd_projectId x = pid) (sup_prepared ?s3))
          \<le> length (filter (\<lambda>x. pd_projectId x = pid) (sup_prepared ?s1))"
        unfolding Q3 Q2 by (meson filter_filter_length order_trans)
      also have "filter (\<lambda>x. pd_projectId x = pid) (sup_prepared ?s1)
          = filter (\<lambda>x. pd_projectId x = pid) (sup_prepared s)"
        using that by (simp add: with_inserted_def)
      finally show ?thesis .
    qed
    have "within_limits policy (sup_prepared ?s3)"
      unfolding within_limits_def
    proof (intro allI impI conjI)
      fix p' and m :: rat assume p': "policy = Some p'" "0 \<le> m"
      show "of_nat (length (sup_prepared ?s3)) \<le> max 1 m" if "pp_maxWarmDeployments p' = Some (Finite m)"
        using d3(5) [OF k p'(2)] that p' Some by (simp add: filter_True_id)
      show "of_nat (length (filter (\<lambda>x. pd_projectId x = pid) (sup_prepared ?s3))) \<le> max 1 m"
        if per: "pp_maxWarmDeploymentsPerProject p' = Some (Finite m)" for pid
      proof (cases "pid = pd_projectId ?e")
        case True
        with own per p' Some show ?thesis by simp
      next
        case False
        have "of_nat (length (filter (\<lambda>x. pd_projectId x = pid) (sup_prepared s))) \<le> max 1 m"
          using ok per p' unfolding packing_ok_def within_limits_def by blast
        with other [OF False] show ?thesis by (meson order_trans of_nat_mono)
      qed
    qed
    moreover have "distinct (ids (sup_prepared ?s3))" unfolding Q3 by (rule distinct_ids_filter [OF dist2])
    moreover have "counted (sup_evictions ?s3)" using d3(3) d2(3) w(3) by blast
    moreover have c: "sup_compiles ?s3 = sup_compiles ?s1" using d3(2) d2(2) by simp
    moreover have "list_all (compiles_its_own (sup_compiles ?s3)) (sup_prepared ?s3)"
      using w(2) unfolding c Q3 Q2 by (auto simp: list_all_iff)
    moreover have "?e \<in> set (sup_prepared ?s3)" using d3(4) e2 did by blast
    ultimately show ?thesis using Some compiles by (simp add: packing_ok_def enforcePackingPolicy_def)
  qed
  then show "packing_ok policy (enforcePackingPolicy policy ?did ?s1)"
    and "?e \<in> set (sup_prepared (enforcePackingPolicy policy ?did ?s1))"
    and "sup_compiles (enforcePackingPolicy policy ?did ?s1) = sup_compiles s @ [route]" by auto
qed


lemma prepareDeployment_ok:
  assumes "packing_ok policy s"
  shows "packing_ok policy (fst (prepareDeployment policy t t' route s))"
proof (cases "getPrepared (evictIdleDeployments policy t s) (crt_deploymentId route)")
  case None
  with enforce_ok(1) [OF evictIdle_ok [OF assms, of t]] show ?thesis
    by (simp add: prepareDeployment_miss)
next
  case (Some e)
  then show ?thesis by (simp add: prepareDeployment_hit touch_ok evictIdle_ok [OF assms])
qed

lemma prepareRoute_state:
  "fst (prepareRoute policy t t' i s) = (case matchRoute (sup_routeCache s) i of None \<Rightarrow> s
     | Some route \<Rightarrow> fst (prepareDeployment policy t t' (selectRouteTarget route i) s))"
  by (simp add: prepareRoute_def split: option.splits)

lemma packing_step_ok: "packing_step cmp policy s s' \<Longrightarrow> packing_ok policy s \<Longrightarrow> packing_ok policy s'"
proof (erule packing_stepE)
  assume ok: "packing_ok policy s"
  show "packing_ok policy s'" if "s' = fst (prepareDeployment policy tEvict tUse route s)" for tEvict tUse route
    using prepareDeployment_ok [OF ok] that by simp
  show "packing_ok policy s'" if "s' = fst (prepareRoute policy tEvict tUse i s)" for tEvict tUse i
    using prepareDeployment_ok [OF ok] ok that by (simp add: prepareRoute_state split: option.splits)
  show "packing_ok policy s'" if "s' = compileFailed p s" for p
    unfolding that compileFailed_def without_def
    by (rule packing_ok_filter [OF ok]) (use ok in \<open>simp_all add: packing_ok_def\<close>)
  show "packing_ok policy s'" if "s' = loadSnapshot cmp snapshot s" for snapshot
    unfolding that loadSnapshot_def
    by (rule packing_ok_filter [OF ok]) (use ok in \<open>simp_all add: packing_ok_def\<close>)
qed

lemma packing_reachable_ok: "packing_reachable cmp policy s \<Longrightarrow> packing_ok policy s"
proof (induction rule: packing_reachable.induct)
  case (start snapshot)
  then show ?case by (simp add: packing_ok_def createRuntimeSupervisor_def counted_def within_limits_def
      le_max_iff_disj)
next
  case (step s s')
  then show ?case by (blast intro: packing_step_ok)
qed

lemma evictIdle_compiles:
  assumes "packing_ok policy s"
  shows "sup_compiles (evictIdleDeployments policy t s) = sup_compiles s"
proof -
  have "distinct (ids (sup_prepared s))" using assms by (simp add: packing_ok_def)
  from evictIdle_spec [OF this, of policy t] show ?thesis by (auto simp: keeps_all_but_def)
qed

lemma prepareDeployment_returns:
  assumes ok: "packing_ok policy s" and call: "prepareDeployment policy t t' route s = (s', p)"
  shows "\<exists>e \<in> set (sup_prepared s'). pd_deploymentId e = crt_deploymentId route \<and> pd_promise e = p
      \<and> pd_lastUsedMs e = t'"
    and "p < length (sup_compiles s) \<and> sup_compiles s' = sup_compiles s
      \<or> p = length (sup_compiles s) \<and> sup_compiles s' = sup_compiles s @ [route]"
proof -
  let ?s = "evictIdleDeployments policy t s" and ?did = "crt_deploymentId route"
  have ok1: "packing_ok policy ?s" by (rule evictIdle_ok [OF ok])
  have c: "sup_compiles ?s = sup_compiles s" by (rule evictIdle_compiles [OF ok])
  have "(\<exists>e \<in> set (sup_prepared s'). pd_deploymentId e = ?did \<and> pd_promise e = p \<and> pd_lastUsedMs e = t')
    \<and> (p < length (sup_compiles s) \<and> sup_compiles s' = sup_compiles s
      \<or> p = length (sup_compiles s) \<and> sup_compiles s' = sup_compiles s @ [route])"
  proof (cases "getPrepared ?s ?did")
    case None
    from call [unfolded prepareDeployment_miss [OF None]] enforce_ok(2,3) [OF ok1 None, of t'] c
    show ?thesis by (auto simp: inserted_def intro!: bexI [rotated])
  next
    case (Some e)
    then have e: "e \<in> set (sup_prepared ?s)" "pd_deploymentId e = ?did" using getPrepared_mem by blast+
    then have "pd_promise e < length (sup_compiles s)"
      using ok1 c by (auto simp: packing_ok_def list_all_iff compiles_its_own_def)
    moreover have "e\<lparr>pd_lastUsedMs := t'\<rparr> \<in> set (touch ?did t' (sup_prepared ?s))"
      using e unfolding touch_def by (force simp: image_iff)
    ultimately show ?thesis using call [unfolded prepareDeployment_hit [OF Some]] e c
      by (auto intro!: bexI [of _ "e\<lparr>pd_lastUsedMs := t'\<rparr>"])
  qed
  then show "\<exists>e \<in> set (sup_prepared s'). pd_deploymentId e = ?did \<and> pd_promise e = p \<and> pd_lastUsedMs e = t'"
    and "p < length (sup_compiles s) \<and> sup_compiles s' = sup_compiles s
      \<or> p = length (sup_compiles s) \<and> sup_compiles s' = sup_compiles s @ [route]" by blast+
qed


definition node_limit :: "js_number \<Rightarrow> PackingPolicy" where
  "node_limit limit = \<lparr>pp_maxWarmDeployments = Some limit, pp_maxWarmDeploymentsPerProject = None,
     pp_maxIdleDeploymentAgeMs = None\<rparr>"

lemma count_Lru: "ev_lru ((count_eviction Lru ^^ k) ev) = ev_lru ev + k"
  by (induction k) (auto simp: count_eviction_def Let_def)

lemma node_limit_eviction:
  assumes ok: "packing_ok (Some (node_limit limit)) s"
    and miss: "getPrepared s (crt_deploymentId route) = None"
  shows "\<exists>out. lru_eviction (\<lambda>_. True) limit (crt_deploymentId route) Lru out (with_inserted route t' s)
    (fst (prepareDeployment (Some (node_limit limit)) t t' route s))"
proof -
  let ?did = "crt_deploymentId route" and ?s1 = "with_inserted route t' s"
  have idle: "evictIdleDeployments (Some (node_limit limit)) t s = s"
    by (simp add: evictIdleDeployments_def node_limit_def)
  have "fst (prepareDeployment (Some (node_limit limit)) t t' route s)
      = evictUntil (filter (\<lambda>_. True) (sup_prepared ?s1)) limit ?did Lru ?s1"
    using prepareDeployment_miss [of "Some (node_limit limit)" t s route t'] miss
    unfolding idle by (simp add: enforcePackingPolicy_def enforceProjectLimit_def enforceNodeLimit_def
        node_limit_def)
  moreover note f = with_inserted_facts [OF ok miss, of t']
  have "pd_deploymentId (inserted route t' s) = ?did" by (simp add: inserted_def)
  with evictUntil_lru [OF f(1), of "inserted route t' s" "\<lambda>_. True" ?did limit Lru] f(4)
  show ?thesis unfolding calculation by simp
qed

lemma length_keeps_all:
  assumes "keeps_all_but out s s'" and "set out \<subseteq> set (sup_prepared s)" and "distinct (ids out)"
    and "distinct (ids (sup_prepared s))"
  shows "length (sup_prepared s') + length out = length (sup_prepared s)"
proof -
  have "length (sup_prepared s') = length (sup_prepared s) - length out"
    using length_keeps [OF assms(4,2,3)] assms(1) by (simp add: keeps_all_but_def)
  moreover have "length out \<le> length (sup_prepared s)"
    using assms(2-4) by (metis card_mono distinct_card distinct_map finite_set)
  ultimately show ?thesis by simp
qed

section \<open>Properties\<close>

definition ex_target :: "string \<Rightarrow> CompilableRouteTarget" where
  "ex_target d = \<lparr>crt_projectId = ''p1'', crt_deploymentId = d, crt_world = MVP_WORKER_WORLD,
     crt_runtime = \<lparr>rt_backend = ''wasmtime'', rt_version = ''1'', rt_wasi = ''wasip3''\<rparr>,
     crt_limits = \<lparr>lim_cpuMs = 1, lim_memoryMb = 1, lim_wallMs = 1, lim_requestBytes = 1,
       lim_subrequests = 1, lim_responseBytes = 1\<rparr>,
     crt_capabilities = \<lparr>cap_outboundHttp = \<lparr>out_enabled = False, out_allow = []\<rparr>, cap_kv = [],
       cap_durableObjects = [], cap_secrets = [], cap_services = [],
       cap_arbitraryFilesystem = False, cap_arbitrarySockets = False, cap_processSpawn = False\<rparr>,
     crt_artifact = \<lparr>sa_id = ''a1'', sa_digest = ''sha256:00'', sa_location = ''file:///a'',
       sa_signature = None, sa_provenance = None\<rparr>\<rparr>"

definition ex_policy :: "PackingPolicy option" where
  "ex_policy = Some (node_limit (Finite 2))"

definition ex_snapshot0 :: RouteSnapshot where
  "ex_snapshot0 = \<lparr>snap_id = None, snap_schemaVersion = 1, snap_generatedAt = ''t0'', snap_routes = []\<rparr>"

definition ex_warm :: Supervisor where
  "ex_warm = fst (prepareDeployment ex_policy 1 1 (ex_target ''d2'')
     (fst (prepareDeployment ex_policy 2 2 (ex_target ''d1'')
        (createRuntimeSupervisor (\<lambda>_ _. 0) ex_snapshot0))))"

lemma ex_warm_reachable: "packing_reachable (\<lambda>_ _. 0) ex_policy ex_warm"
  unfolding ex_warm_def
  by (rule packing_reachable.step [OF packing_reachable.step [OF packing_reachable.start
      packing_step.prepare] packing_step.prepare])

text \<open>
  C9. Whatever deployments are prepared, requests routed, compilations fail and snapshots are
  loaded, in any order: no deployment is warm twice; the warm deployments stay within the node's
  limit and each project's within the project limit (one is kept even under a limit of zero); every
  entry holds the promise of a compilation of its own deployment and project; and the
  evictions counted by reason add up to the total.
\<close>

theorem warm_pool_bounded:
  assumes "packing_reachable cmp policy s"
  shows "distinct (map pd_deploymentId (sup_prepared s)) \<and> within_limits policy (sup_prepared s)
    \<and> list_all (compiles_its_own (sup_compiles s)) (sup_prepared s) \<and> counted (sup_evictions s)"
  using packing_reachable_ok [OF assms] by (simp add: packing_ok_def)

theorem warm_pool_bounded_witness:
  "within_limits ex_policy (sup_prepared ex_warm) \<and> length (sup_prepared ex_warm) = 2"
proof
  show "within_limits ex_policy (sup_prepared ex_warm)"
    using warm_pool_bounded [OF ex_warm_reachable] by blast
  show "length (sup_prepared ex_warm) = 2" by code_simp
qed

text \<open>
  Preparing a deployment that is not warm, under a node limit alone, evicts the least
  recently used deployments first: the new deployment stays, none that was evicted was used after
  one that was kept, only as many go as the limit asks for, and each is counted.
\<close>

theorem least_recently_used_go_first:
  assumes "packing_reachable cmp (Some (node_limit limit)) s"
    and "crt_deploymentId route \<notin> set (map pd_deploymentId (sup_prepared s))"
    and "s' = fst (prepareDeployment (Some (node_limit limit)) t t' route s)"
  shows "\<exists>out. set out \<subseteq> set (sup_prepared s)
    \<and> set (sup_prepared s') = set (sup_prepared s) - set out \<union> {inserted route t' s}
    \<and> (\<forall>x \<in> set out. \<forall>y \<in> set (sup_prepared s) - set out. pd_lastUsedMs x \<le> pd_lastUsedMs y)
    \<and> length (sup_prepared s') + length out = length (sup_prepared s) + 1
    \<and> ev_lru (sup_evictions s') = ev_lru (sup_evictions s) + length out
    \<and> (out \<noteq> [] \<longrightarrow> (\<exists>m. limit = Finite m \<and> m < of_nat (length (sup_prepared s') + 1)))"
proof -
  let ?did = "crt_deploymentId route" and ?s1 = "with_inserted route t' s"
  have ok: "packing_ok (Some (node_limit limit)) s" by (rule packing_reachable_ok [OF assms(1)])
  have miss: "getPrepared s ?did = None" using assms(2) by (simp only: getPrepared_None not_False_eq_True)
  obtain out where "lru_eviction (\<lambda>_. True) limit ?did Lru out ?s1 s'"
    using node_limit_eviction [OF ok miss, of t' t] assms(3) by blast
  note l = this [unfolded lru_eviction_def]
  have sub: "set out \<subseteq> set (sup_prepared s)"
    using l by (auto simp: with_inserted_def inserted_def)
  have k: "keeps_all_but out ?s1 s'" and d: "distinct (ids out)" using l by blast+
  have len: "length (sup_prepared s') + length out = length (sup_prepared s) + 1"
    using length_keeps_all [OF k _ d with_inserted_facts(1) [OF ok miss]] sub
    by (auto simp: with_inserted_def)
  have ds: "distinct (ids (sup_prepared s))" using ok by (simp add: packing_ok_def)
  have same: "pd_deploymentId e \<in> pd_deploymentId ` set out \<longleftrightarrow> e \<in> set out" if "e \<in> set (sup_prepared s)" for e
    using that sub distinct_ids_eq [OF ds] by blast
  have new: "?did \<notin> pd_deploymentId ` set out" using l by auto
  have rows: "set (sup_prepared s') = set (sup_prepared s) - set out \<union> {inserted route t' s}"
    using k same new by (auto simp: keeps_all_but_def with_inserted_def inserted_def)
  have "\<forall>x \<in> set out. \<forall>y \<in> set (sup_prepared s) - set out. pd_lastUsedMs x \<le> pd_lastUsedMs y"
  proof (intro ballI)
    fix x y assume xy: "x \<in> set out" "y \<in> set (sup_prepared s) - set out"
    then have "pd_deploymentId y \<in> set (ids (sup_prepared s))" by simp
    with assms(2) have "pd_deploymentId y \<noteq> ?did" by metis
    moreover have "y \<in> set (sup_prepared s')" using rows xy(2) by simp
    moreover note l xy(1)
    ultimately show "pd_lastUsedMs x \<le> pd_lastUsedMs y" by blast
  qed
  moreover have "ev_lru (sup_evictions s') = ev_lru (sup_evictions s) + length out"
    using l by (simp add: count_Lru with_inserted_def)
  ultimately show ?thesis using l sub rows len by auto
qed


theorem least_recently_used_go_first_witness:
  "let s' = fst (prepareDeployment ex_policy 3 3 (ex_target ''d3'') ex_warm) in
     (\<exists>out. set out \<subseteq> set (sup_prepared ex_warm)
       \<and> length (sup_prepared s') + length out = length (sup_prepared ex_warm) + 1)
     \<and> map pd_deploymentId (sup_prepared s') = [''d1'', ''d3'']"
proof -
  have "''d3'' \<notin> set (map pd_deploymentId (sup_prepared ex_warm))" by code_simp
  then have "crt_deploymentId (ex_target ''d3'') \<notin> set (map pd_deploymentId (sup_prepared ex_warm))"
    by (simp add: ex_target_def)
  from least_recently_used_go_first [OF ex_warm_reachable [unfolded ex_policy_def] this refl, of 3 3]
  have "\<exists>out. set out \<subseteq> set (sup_prepared ex_warm)
       \<and> length (sup_prepared (fst (prepareDeployment ex_policy 3 3 (ex_target ''d3'') ex_warm)))
           + length out = length (sup_prepared ex_warm) + 1"
    unfolding ex_policy_def by blast
  moreover have "map pd_deploymentId (sup_prepared
      (fst (prepareDeployment ex_policy 3 3 (ex_target ''d3'') ex_warm))) = [''d1'', ''d3'']"
    by code_simp
  ultimately show ?thesis by (simp only: Let_def)
qed

text \<open>
  A request whose route is found leaves that route's chosen deployment warm, used just now,
  and gets the promise of that entry; at most one compilation is started, the one of the chosen
  target, and only if none was warm. The limits still hold. A request without a route changes
  nothing and fails with \<open>not_found\<close>.
\<close>

theorem request_warms_its_deployment:
  assumes "packing_reachable cmp policy s" and "prepareRoute policy t t' i s = (s', r)"
  shows "case matchRoute (sup_routeCache s) i of
      None \<Rightarrow> s' = s \<and> r = throwR RNotFound (''no route matched '' @ rmi_host i @ rmi_path i)
    | Some route \<Rightarrow> \<exists>p. r = Inr p
        \<and> (\<exists>e \<in> set (sup_prepared s'). pd_promise e = p \<and> pd_lastUsedMs e = t'
             \<and> pd_deploymentId e = crt_deploymentId (selectRouteTarget route i)
             \<and> compiles_its_own (sup_compiles s') e)
        \<and> (p < length (sup_compiles s) \<and> sup_compiles s' = sup_compiles s
           \<or> p = length (sup_compiles s) \<and> sup_compiles s' = sup_compiles s @ [selectRouteTarget route i])
        \<and> within_limits policy (sup_prepared s')"
proof (cases "matchRoute (sup_routeCache s) i")
  case None
  with assms(2) show ?thesis by (simp add: prepareRoute_def)
next
  case (Some route)
  with assms(2) obtain p where p: "prepareDeployment policy t t' (selectRouteTarget route i) s = (s', p)"
    "r = Inr p" by (auto simp: prepareRoute_def map_prod_def split: prod.splits)
  have ok: "packing_ok policy s" by (rule packing_reachable_ok [OF assms(1)])
  have ok': "packing_ok policy s'"
    using prepareDeployment_ok [OF ok, of t t' "selectRouteTarget route i"] p(1) by simp
  from prepareDeployment_returns [OF ok p(1)] ok' p(2) Some show ?thesis
    by (fastforce simp: packing_ok_def list_all_iff)
qed

definition ex_routed_entry :: RouteSnapshotEntry where
  "ex_routed_entry = \<lparr>se_host = ''h.example'', se_pathPrefix = ''/'', se_projectId = ''p1'',
     se_deploymentId = ''d1'', se_targets = [], se_world = crt_world (ex_target ''d1''),
     se_worldVersion = MVP_WORKER_WORLD_VERSION, se_runtime = crt_runtime (ex_target ''d1''),
     se_limits = crt_limits (ex_target ''d1''), se_capabilities = crt_capabilities (ex_target ''d1''),
     se_artifact = crt_artifact (ex_target ''d1'')\<rparr>"

definition ex_loaded :: Supervisor where
  "ex_loaded = loadSnapshot (\<lambda>_ _. 0) (ex_snapshot0\<lparr>snap_routes := [ex_routed_entry]\<rparr>) ex_warm"

lemma ex_loaded_reachable: "packing_reachable (\<lambda>_ _. 0) ex_policy ex_loaded"
  unfolding ex_loaded_def by (rule packing_reachable.step [OF ex_warm_reachable packing_step.load])

definition ex_match :: RouteMatchInput where
  "ex_match = \<lparr>rmi_host = ''H.example:8080'', rmi_path = ''/x''\<rparr>"

theorem request_warms_its_deployment_witness:
  "matchRoute (sup_routeCache ex_loaded) ex_match = Some ex_routed_entry
   \<and> (\<exists>p. snd (prepareRoute ex_policy 9 9 ex_match ex_loaded) = Inr p \<and> p < 2)"
proof -
  have m: "matchRoute (sup_routeCache ex_loaded) ex_match = Some ex_routed_entry" by code_simp
  have c: "sup_compiles ex_loaded = map ex_target [''d1'', ''d2'']" by code_simp
  have d: "sup_compiles (fst (prepareRoute ex_policy 9 9 ex_match ex_loaded))
      = map ex_target [''d1'', ''d2'']" by code_simp
  from request_warms_its_deployment [OF ex_loaded_reachable, of 9 9 ex_match] m c d show ?thesis
    by (cases "prepareRoute ex_policy 9 9 ex_match ex_loaded") fastforce
qed

text \<open>
  A failed compilation forgets its deployment even when the warm entry is a newer one: after
  a snapshot without the deployment and a new request for it, the failure of the first compilation
  drops the entry of the second, which is still running, so that the next request compiles a third
  time.
\<close>

definition ex_stale :: Supervisor where
  "ex_stale = fst (prepareDeployment ex_policy 5 5 (ex_target ''d2'') ex_loaded)"

theorem stale_failure_drops_the_new_entry:
  "packing_reachable (\<lambda>_ _. 0) ex_policy ex_stale
   \<and> map_option pd_promise (getPrepared ex_stale ''d2'') = Some 2
   \<and> crt_deploymentId (sup_compiles ex_stale ! 1) = ''d2''
   \<and> getPrepared (compileFailed 1 ex_stale) ''d2'' = None
   \<and> snd (prepareDeployment ex_policy 6 6 (ex_target ''d2'') (compileFailed 1 ex_stale)) = 3"
proof (intro conjI)
  show "packing_reachable (\<lambda>_ _. 0) ex_policy ex_stale"
    unfolding ex_stale_def by (rule packing_reachable.step [OF ex_loaded_reachable packing_step.prepare])
  show "map_option pd_promise (getPrepared ex_stale ''d2'') = Some 2" by code_simp
  show "crt_deploymentId (sup_compiles ex_stale ! 1) = ''d2''" by code_simp
  show "getPrepared (compileFailed 1 ex_stale) ''d2'' = None" by code_simp
  show "snd (prepareDeployment ex_policy 6 6 (ex_target ''d2'') (compileFailed 1 ex_stale)) = 3" by code_simp
qed

end
