(* ===== verification/Placement.thy ===== *)
theory Placement
  imports Repository Routing
begin

text \<open>
  Which runtime node receives which routes: \<open>control-plane/placement.ts\<close>. A placement
  policy names regions, labels and a number of targets per project, with failover tiers, and an
  isolation policy that gives projects nodes of their own and drains projects.

  \<open>localeCompare\<close> is a parameter, and so is the digest of the routes that names a placed
  snapshot. Loads are exact quotients; the capacity of a stored node is positive
  (\<open>normalizeRuntimeNodeCapacity\<close>).
\<close>

subsection \<open>Arrays and objects\<close>

text \<open>\<open>Array.filter\<close> and \<open>Array.some\<close> with a callback that may throw.\<close>

fun filterE :: "('a \<Rightarrow> 'e + bool) \<Rightarrow> 'a list \<Rightarrow> 'e + 'a list" where
  "filterE p [] = Inr []"
| "filterE p (x # xs) = bindE (p x) (\<lambda>b. bindE (filterE p xs) (\<lambda>ys. Inr (if b then x # ys else ys)))"

text \<open>The distinct values of an array in the order of a JavaScript \<open>Set\<close> built from it.\<close>

definition js_set :: "'a list \<Rightarrow> 'a list" where
  "js_set xs = fold (\<lambda>x acc. if x \<in> set acc then acc else acc @ [x]) xs []"

lemma set_js_set_fold: "set (fold (\<lambda>x acc. if x \<in> set acc then acc else acc @ [x]) xs ys) = set xs \<union> set ys"
  by (induction xs arbitrary: ys) auto

lemma set_js_set [simp]: "set (js_set xs) = set xs"
  by (simp add: js_set_def set_js_set_fold)

lemma filterE_mem: "filterE p xs = Inr ys \<Longrightarrow> y \<in> set ys \<Longrightarrow> y \<in> set xs \<and> p y = Inr True"
  by (induction xs arbitrary: ys) (auto simp: bindE_Inr split: if_splits)

lemma filterE_total: "(\<And>x. x \<in> set xs \<Longrightarrow> p x = Inr (q x)) \<Longrightarrow> filterE p xs = Inr (filter q xs)"
  by (induction xs) auto

text \<open>
  \<open>record[key]\<close> for an object literal or a parsed JSON object: an own property, or the
  one every object inherits from \<open>Object.prototype\<close>, which is a value without any of the
  properties the callers read.
\<close>

definition object_prototype_keys :: "string list" where
  "object_prototype_keys = [''constructor'', ''__defineGetter__'', ''__defineSetter__'',
     ''hasOwnProperty'', ''__lookupGetter__'', ''__lookupSetter__'', ''isPrototypeOf'',
     ''propertyIsEnumerable'', ''toString'', ''valueOf'', ''__proto__'', ''toLocaleString'']"

definition object_get :: "'a \<Rightarrow> (string \<times> 'a) list \<Rightarrow> string \<Rightarrow> 'a option" where
  "object_get inherited r k = (case map_of r k of Some v \<Rightarrow> Some v
     | None \<Rightarrow> if k \<in> set object_prototype_keys then Some inherited else None)"

subsection \<open>Policies\<close>

record RuntimePlacementFailoverRule =
  rul_regions :: "string list option"
  rul_labels :: "(string \<times> string) list option"
  rul_maxTargets :: "jnum option"

record RuntimePlacementRule = RuntimePlacementFailoverRule +
  rul_failover :: "RuntimePlacementFailoverRule list option"

record RuntimePlacementIsolationPolicy =
  iso_projects :: "(string \<times> RuntimePlacementRule) list option"
  iso_drainedProjects :: "string list option"
  iso_excludeFromDefault :: "bool option"

record RuntimePlacementPolicy =
  pol_default :: "RuntimePlacementRule option"
  pol_projects :: "(string \<times> RuntimePlacementRule) list option"
  pol_isolation :: "RuntimePlacementIsolationPolicy option"

record RuntimeSnapshotPlacementPlan =
  plan_node :: RuntimeNode
  plan_snapshot :: RouteSnapshot

definition inherited_rule :: RuntimePlacementRule where
  "inherited_rule = \<lparr>rul_regions = None, rul_labels = None, rul_maxTargets = None, rul_failover = None\<rparr>"

text \<open>\<open>policy.isolation?.projects?.[id]\<close>, \<open>policy.projects?.[id] ?? policy.default\<close> and the
  two lists of the isolation policy.\<close>

definition isolation_rule :: "RuntimePlacementPolicy \<Rightarrow> string \<Rightarrow> RuntimePlacementRule option" where
  "isolation_rule p pid = (case pol_isolation p of None \<Rightarrow> None
     | Some i \<Rightarrow> (case iso_projects i of None \<Rightarrow> None | Some ps \<Rightarrow> object_get inherited_rule ps pid))"

definition project_rule :: "RuntimePlacementPolicy \<Rightarrow> string \<Rightarrow> RuntimePlacementRule option" where
  "project_rule p pid =
     (case pol_projects p of None \<Rightarrow> None | Some ps \<Rightarrow> object_get inherited_rule ps pid)"

definition rule_or_default :: "RuntimePlacementPolicy \<Rightarrow> string \<Rightarrow> RuntimePlacementRule option" where
  "rule_or_default p pid = (case project_rule p pid of Some r \<Rightarrow> Some r | None \<Rightarrow> pol_default p)"

definition isolated_projects :: "RuntimePlacementPolicy \<Rightarrow> (string \<times> RuntimePlacementRule) list" where
  "isolated_projects p = (case pol_isolation p of None \<Rightarrow> []
     | Some i \<Rightarrow> (case iso_projects i of None \<Rightarrow> [] | Some ps \<Rightarrow> ps))"

definition drained_projects :: "RuntimePlacementPolicy \<Rightarrow> string list" where
  "drained_projects p = (case pol_isolation p of None \<Rightarrow> []
     | Some i \<Rightarrow> (case iso_drainedProjects i of None \<Rightarrow> [] | Some ds \<Rightarrow> ds))"

definition hasTenantIsolationPolicy :: "RuntimePlacementPolicy \<Rightarrow> bool" where
  "hasTenantIsolationPolicy p \<longleftrightarrow> isolated_projects p \<noteq> [] \<or> drained_projects p \<noteq> []"

subsection \<open>Selecting nodes\<close>

definition validateMaxTargets :: "jnum option \<Rightarrow> int option cp" where
  "validateMaxTargets v = (case v of None \<Rightarrow> Inr None
     | Some n \<Rightarrow> (case isInteger (JNum n) of
         Some k \<Rightarrow> if k \<le> 0 then throwC Validation ''placement maxTargets must be a positive integer''
                   else Inr (Some k)
       | None \<Rightarrow> throwC Validation ''placement maxTargets must be a positive integer''))"

definition loadRatio :: "RuntimeNode \<Rightarrow> rat" where
  "loadRatio n = (case (node_capacity n, node_load n) of
     (Some c, Some active) \<Rightarrow> of_int active / of_int (capy_concurrentRequests c) | _ \<Rightarrow> 0)"

definition load_order :: "(string \<Rightarrow> string \<Rightarrow> int) \<Rightarrow> RuntimeNode \<Rightarrow> RuntimeNode \<Rightarrow> bool" where
  "load_order localeCompare l r = (let loadDelta = loadRatio l - loadRatio r in
     if loadDelta \<noteq> 0 then loadDelta \<le> 0 else localeCompare (node_id l) (node_id r) \<le> 0)"

definition sortByLoad :: "(string \<Rightarrow> string \<Rightarrow> int) \<Rightarrow> RuntimeNode list \<Rightarrow> RuntimeNode list" where
  "sortByLoad localeCompare nodes = js_sort (load_order localeCompare) nodes"

definition tier_matches :: "('m) RuntimePlacementFailoverRule_scheme \<Rightarrow> RuntimeNode \<Rightarrow> bool" where
  "tier_matches rule n \<longleftrightarrow>
     (let regions = map toLowerCase (case rul_regions rule of None \<Rightarrow> [] | Some rs \<Rightarrow> rs);
          labels = (case rul_labels rule of None \<Rightarrow> [] | Some ls \<Rightarrow> ls)
      in (regions \<noteq> [] \<longrightarrow> (case node_region n of None \<Rightarrow> False
            | Some r \<Rightarrow> r \<noteq> [] \<and> toLowerCase r \<in> set regions))
         \<and> list_all (\<lambda>(key, value). (case node_labels n of None \<Rightarrow> False
            | Some ls \<Rightarrow> map_of ls key = Some value)) labels)"

definition selectByTier :: "(string \<Rightarrow> string \<Rightarrow> int) \<Rightarrow> RuntimeNode list
    \<Rightarrow> ('m) RuntimePlacementFailoverRule_scheme \<Rightarrow> RuntimeNode list cp" where
  "selectByTier localeCompare nodes rule =
     bindE (validateMaxTargets (rul_maxTargets rule)) (\<lambda>maxTargets.
     let sorted = sortByLoad localeCompare (filter (tier_matches rule) nodes)
     in Inr (case maxTargets of None \<Rightarrow> sorted | Some k \<Rightarrow> take (nat k) sorted))"

fun first_tier :: "(string \<Rightarrow> string \<Rightarrow> int) \<Rightarrow> RuntimeNode list
    \<Rightarrow> RuntimePlacementFailoverRule list \<Rightarrow> RuntimeNode list cp" where
  "first_tier localeCompare nodes [] = Inr []"
| "first_tier localeCompare nodes (f # fs) =
     bindE (selectByTier localeCompare nodes f) (\<lambda>selected.
       if selected \<noteq> [] then Inr selected else first_tier localeCompare nodes fs)"

definition selectByRule :: "(string \<Rightarrow> string \<Rightarrow> int) \<Rightarrow> RuntimeNode list \<Rightarrow> RuntimePlacementRule
    \<Rightarrow> RuntimeNode list cp" where
  "selectByRule localeCompare nodes rule =
     bindE (selectByTier localeCompare nodes rule) (\<lambda>primary.
       case rul_failover rule of
         None \<Rightarrow> Inr primary
       | Some fs \<Rightarrow> if primary \<noteq> [] \<or> fs = [] then Inr primary
                    else first_tier localeCompare nodes fs)"

definition nodeMatchesRule :: "(string \<Rightarrow> string \<Rightarrow> int) \<Rightarrow> RuntimeNode list \<Rightarrow> RuntimeNode
    \<Rightarrow> RuntimePlacementRule \<Rightarrow> bool cp" where
  "nodeMatchesRule localeCompare nodes node rule =
     bindE (selectByRule localeCompare nodes rule) (\<lambda>selected.
       Inr (list_ex (\<lambda>n. node_id n = node_id node) selected))"

definition selectedIsolationNodeIds :: "(string \<Rightarrow> string \<Rightarrow> int) \<Rightarrow> RuntimeNode list
    \<Rightarrow> RuntimePlacementPolicy \<Rightarrow> string list cp" where
  "selectedIsolationNodeIds localeCompare nodes policy =
     bindE (mapE (\<lambda>(_, rule). selectByRule localeCompare nodes rule) (isolated_projects policy))
       (\<lambda>selected. Inr (js_set (map node_id (concat selected))))"

definition excludeIsolationNodeFromDefault :: "RuntimePlacementPolicy \<Rightarrow> RuntimeNode \<Rightarrow> string list \<Rightarrow> bool" where
  "excludeIsolationNodeFromDefault policy node isolationNodeIds \<longleftrightarrow>
     (case pol_isolation policy of None \<Rightarrow> True | Some i \<Rightarrow> iso_excludeFromDefault i \<noteq> Some False)
     \<and> node_id node \<in> set isolationNodeIds"

definition routeVisibleToNode :: "(string \<Rightarrow> string \<Rightarrow> int) \<Rightarrow> RuntimeNode list \<Rightarrow> string \<Rightarrow> RuntimeNode
    \<Rightarrow> RuntimePlacementPolicy \<Rightarrow> string list \<Rightarrow> bool cp" where
  "routeVisibleToNode localeCompare nodes pid node policy isolationNodeIds =
     (case isolation_rule policy pid of
        Some rule \<Rightarrow> nodeMatchesRule localeCompare nodes node rule
      | None \<Rightarrow> if pid \<in> set (drained_projects policy) then Inr False
          else (case rule_or_default policy pid of
              None \<Rightarrow> Inr (\<not> excludeIsolationNodeFromDefault policy node isolationNodeIds)
            | Some rule \<Rightarrow> nodeMatchesRule localeCompare nodes node rule))"

definition routeVisibleToStaticTarget :: "string \<Rightarrow> RuntimePlacementPolicy \<Rightarrow> bool" where
  "routeVisibleToStaticTarget pid policy \<longleftrightarrow>
     (if pid \<in> set (drained_projects policy) then False
      else if isolation_rule policy pid \<noteq> None then False
      else if project_rule policy pid \<noteq> None then False
      else pol_default policy = None)"

subsection \<open>Snapshots per node\<close>

text \<open>
  \<open>digest generatedAt routes\<close> is the hexadecimal SHA-256 of their JSON text.
\<close>

definition placedSnapshotId :: "(string \<Rightarrow> RouteSnapshotEntry list \<Rightarrow> string) \<Rightarrow> string
    \<Rightarrow> RouteSnapshotEntry list \<Rightarrow> string" where
  "placedSnapshotId digest generatedAt routes = ''snap_'' @ take 16 (digest generatedAt routes)"

definition snapshotWithRoutes :: "(string \<Rightarrow> RouteSnapshotEntry list \<Rightarrow> string) \<Rightarrow> RouteSnapshot
    \<Rightarrow> RouteSnapshotEntry list \<Rightarrow> RouteSnapshot" where
  "snapshotWithRoutes digest snapshot routes =
     (if length routes = length (snap_routes snapshot) \<and> list_all2 (=) routes (snap_routes snapshot)
      then snapshot
      else snapshot\<lparr>snap_id := Some (placedSnapshotId digest (snap_generatedAt snapshot) routes),
                    snap_routes := routes\<rparr>)"

definition routeSnapshotForRuntimeNode :: "(string \<Rightarrow> RouteSnapshotEntry list \<Rightarrow> string)
    \<Rightarrow> (string \<Rightarrow> string \<Rightarrow> int) \<Rightarrow> RuntimeNode list \<Rightarrow> RouteSnapshot \<Rightarrow> RuntimeNode
    \<Rightarrow> RuntimePlacementPolicy option \<Rightarrow> RouteSnapshot cp" where
  "routeSnapshotForRuntimeNode digest localeCompare nodes snapshot node policy = (case policy of
     None \<Rightarrow> Inr snapshot
   | Some p \<Rightarrow> bindE (selectedIsolationNodeIds localeCompare nodes p) (\<lambda>isolationNodeIds.
       bindE (filterE (\<lambda>r. routeVisibleToNode localeCompare nodes (se_projectId r) node p isolationNodeIds)
               (snap_routes snapshot)) (\<lambda>routes.
       Inr (snapshotWithRoutes digest snapshot routes))))"

definition defaultRouteSnapshotForTenantDrain :: "(string \<Rightarrow> RouteSnapshotEntry list \<Rightarrow> string)
    \<Rightarrow> RouteSnapshot \<Rightarrow> RuntimePlacementPolicy option \<Rightarrow> RouteSnapshot" where
  "defaultRouteSnapshotForTenantDrain digest snapshot policy = (case policy of
     None \<Rightarrow> snapshot
   | Some p \<Rightarrow> if \<not> hasTenantIsolationPolicy p then snapshot
       else snapshotWithRoutes digest snapshot
         (filter (\<lambda>r. se_projectId r \<notin> set (drained_projects p)
                    \<and> se_projectId r \<notin> fst ` set (isolated_projects p)) (snap_routes snapshot)))"

definition staticRouteSnapshotForPlacement :: "(string \<Rightarrow> RouteSnapshotEntry list \<Rightarrow> string)
    \<Rightarrow> RouteSnapshot \<Rightarrow> RuntimePlacementPolicy option \<Rightarrow> RouteSnapshot" where
  "staticRouteSnapshotForPlacement digest snapshot policy = (case policy of
     None \<Rightarrow> snapshot
   | Some p \<Rightarrow> snapshotWithRoutes digest snapshot
       (filter (\<lambda>r. routeVisibleToStaticTarget (se_projectId r) p) (snap_routes snapshot)))"

definition snapshotRequiresTenantDrainPublish :: "RouteSnapshot \<Rightarrow> RuntimePlacementPolicy option \<Rightarrow> bool" where
  "snapshotRequiresTenantDrainPublish snapshot policy \<longleftrightarrow> (case policy of
     None \<Rightarrow> False
   | Some p \<Rightarrow> hasTenantIsolationPolicy p
       \<and> list_ex (\<lambda>r. se_projectId r \<in> set (drained_projects p)
                     \<or> se_projectId r \<in> fst ` set (isolated_projects p)) (snap_routes snapshot))"

definition planRuntimeSnapshotPlacements :: "(string \<Rightarrow> RouteSnapshotEntry list \<Rightarrow> string)
    \<Rightarrow> (string \<Rightarrow> string \<Rightarrow> int) \<Rightarrow> RuntimeNode list \<Rightarrow> RouteSnapshot
    \<Rightarrow> RuntimePlacementPolicy option \<Rightarrow> RuntimeSnapshotPlacementPlan list cp" where
  "planRuntimeSnapshotPlacements digest localeCompare nodes snapshot policy = (case policy of
     None \<Rightarrow> Inr (map (\<lambda>node. \<lparr>plan_node = node, plan_snapshot = snapshot\<rparr>) (sortByLoad localeCompare nodes))
   | Some p \<Rightarrow>
       let requiresDrainPublish = snapshotRequiresTenantDrainPublish snapshot policy;
           publishEmptySnapshot = (snap_routes snapshot = [])
       in bindE (mapE (\<lambda>node.
            bindE (routeSnapshotForRuntimeNode digest localeCompare nodes snapshot node policy) (\<lambda>nodeSnapshot.
            Inr (if snap_routes nodeSnapshot = [] \<and> \<not> requiresDrainPublish \<and> \<not> publishEmptySnapshot
                 then [] else [\<lparr>plan_node = node, plan_snapshot = nodeSnapshot\<rparr>])))
          (sortByLoad localeCompare nodes)) (\<lambda>plans. Inr (concat plans)))"

text \<open>
  The loop of \<open>selectRuntimeNodesForSnapshot\<close>: the map of selected nodes and \<open>includeAll\<close>.
\<close>

fun select_projects :: "(string \<Rightarrow> string \<Rightarrow> int) \<Rightarrow> RuntimeNode list \<Rightarrow> RuntimePlacementPolicy
    \<Rightarrow> string list \<Rightarrow> (string \<times> RuntimeNode) list \<Rightarrow> bool \<Rightarrow> ((string \<times> RuntimeNode) list \<times> bool) cp" where
  "select_projects localeCompare nodes policy [] selected includeAll = Inr (selected, includeAll)"
| "select_projects localeCompare nodes policy (pid # pids) selected includeAll =
     (case rule_or_default policy pid of
        None \<Rightarrow> select_projects localeCompare nodes policy pids selected True
      | Some rule \<Rightarrow> bindE (selectByRule localeCompare nodes rule) (\<lambda>ns.
          select_projects localeCompare nodes policy pids
            (fold (\<lambda>n m. map_set (node_id n) n m) ns selected) includeAll))"

definition selectRuntimeNodesForSnapshot :: "(string \<Rightarrow> RouteSnapshotEntry list \<Rightarrow> string)
    \<Rightarrow> (string \<Rightarrow> string \<Rightarrow> int) \<Rightarrow> RuntimeNode list \<Rightarrow> RouteSnapshot
    \<Rightarrow> RuntimePlacementPolicy option \<Rightarrow> RuntimeNode list cp" where
  "selectRuntimeNodesForSnapshot digest localeCompare nodes snapshot policy = (case policy of
     None \<Rightarrow> Inr nodes
   | Some p \<Rightarrow>
       if hasTenantIsolationPolicy p then
         bindE (planRuntimeSnapshotPlacements digest localeCompare nodes snapshot policy) (\<lambda>plans.
           Inr (map plan_node plans))
       else let projectIds = js_set (map se_projectId (snap_routes snapshot)) in
         if projectIds = [] then Inr nodes
         else bindE (select_projects localeCompare nodes p projectIds [] False) (\<lambda>(selected, includeAll).
           Inr (if includeAll then sortByLoad localeCompare nodes
                else sortByLoad localeCompare (map snd selected))))"

subsection \<open>The policy of the environment\<close>

definition commaList :: "string option \<Rightarrow> string list" where
  "commaList raw = (case raw of None \<Rightarrow> [] | Some s \<Rightarrow>
     if s = [] \<or> trim s = [] then [] else filter (\<lambda>e. e \<noteq> []) (map trim (split_on (CHR '','') s)))"

definition projectValue :: "string \<Rightarrow> (string \<times> string) list" where
  "projectValue entry = (case index_of (CHR ''='') entry of
     None \<Rightarrow> []
   | Some separator \<Rightarrow> if separator = 0 then []
       else let projectId = trim (take separator entry); value = trim (drop (separator + 1) entry)
            in if projectId \<noteq> [] \<and> value \<noteq> [] then [(projectId, value)] else [])"

definition projectValues :: "string option \<Rightarrow> (string \<times> string) list" where
  "projectValues raw = (case raw of None \<Rightarrow> [] | Some s \<Rightarrow>
     if s = [] \<or> trim s = [] then [] else concat (map projectValue (split_on (CHR '','') s)))"

text \<open>
  \<open>env.ODENCTL_ISOLATION_POOL_LABEL_KEY?.trim() || "pool"\<close>; assigning to a key of an object
  twice keeps its position and the last value. (A project named \<open>__proto__\<close>, to which the
  assignment does not add a property, is outside the model.)
\<close>

definition isolationProjectsFromEnv :: "(string \<Rightarrow> string option) \<Rightarrow> (string \<times> RuntimePlacementRule) list" where
  "isolationProjectsFromEnv env =
     (let labelKey = (case env ''ODENCTL_ISOLATION_POOL_LABEL_KEY'' of None \<Rightarrow> ''pool''
            | Some k \<Rightarrow> if trim k = [] then ''pool'' else trim k)
      in fold (\<lambda>(projectId, pool). map_set projectId
            \<lparr>rul_regions = None, rul_labels = Some [(labelKey, pool)], rul_maxTargets = None, rul_failover = None\<rparr>)
          (projectValues (env ''ODENCTL_ISOLATION_POOL_PROJECTS'')) [])"

definition runtimePlacementPolicyFromEnv :: "(string \<Rightarrow> string option) \<Rightarrow> RuntimePlacementPolicy option" where
  "runtimePlacementPolicyFromEnv env =
     (let projects = isolationProjectsFromEnv env; drained = commaList (env ''ODENCTL_DRAINED_PROJECTS'')
      in if projects = [] \<and> drained = [] then None
         else Some \<lparr>pol_default = None, pol_projects = None, pol_isolation = Some
           \<lparr>iso_projects = if projects = [] then None else Some projects,
            iso_drainedProjects = if drained = [] then None else Some drained,
            iso_excludeFromDefault = None\<rparr>\<rparr>)"

subsection \<open>What a selection is\<close>

definition rule_tiers :: "RuntimePlacementRule \<Rightarrow> RuntimePlacementFailoverRule list" where
  "rule_tiers rule = RuntimePlacementFailoverRule.truncate rule
     # (case rul_failover rule of None \<Rightarrow> [] | Some fs \<Rightarrow> fs)"

text \<open>
  \<open>best_of_tier nodes tier sel\<close>: \<open>sel\<close> holds nodes the tier names, all of them or as many as it asks
  for, and no node of the tier that was left out carries less load than one that was taken.
\<close>

definition best_of_tier :: "RuntimeNode list \<Rightarrow> RuntimePlacementFailoverRule \<Rightarrow> RuntimeNode list \<Rightarrow> bool" where
  "best_of_tier nodes tier sel \<longleftrightarrow>
     (let named = filter (tier_matches tier) nodes in
      mset sel \<subseteq># mset named
      \<and> (case rul_maxTargets tier of
           Some (Fin k) \<Rightarrow> of_nat (length sel) = min k (of_nat (length named)) | _ \<Rightarrow> mset sel = mset named)
      \<and> (\<forall>n \<in># mset named - mset sel. \<forall>m \<in> set sel. loadRatio m \<le> loadRatio n))"

lemma tier_matches_truncate [simp]:
  "tier_matches (RuntimePlacementFailoverRule.truncate rule) = tier_matches rule"
  by (simp add: tier_matches_def fun_eq_iff RuntimePlacementFailoverRule.defs)

lemma selectByTier_truncate [simp]:
  "selectByTier c nodes (RuntimePlacementFailoverRule.truncate rule) = selectByTier c nodes rule"
  by (simp add: selectByTier_def) (simp add: RuntimePlacementFailoverRule.defs)

lemma load_order_preorder:
  assumes "consistent_compare localeCompare"
  shows "total_preorder (load_order localeCompare)"
proof -
  note c = consistent_compareD [OF assms]
  show ?thesis
    unfolding total_preorder_def load_order_def Let_def
    using c by (smt (verit) diff_le_0_iff_le eq_iff_diff_eq_0 nle_le order_trans)
qed

lemma sortByLoad_sorted:
  assumes "consistent_compare localeCompare"
  shows "sorted_wrt (\<lambda>l r. loadRatio l \<le> loadRatio r) (sortByLoad localeCompare nodes)"
  unfolding sortByLoad_def
  by (rule sorted_wrt_mono_rel [OF _ sorted_js_sort [OF load_order_preorder [OF assms]]])
    (auto simp: load_order_def Let_def split: if_splits)

lemma set_sortByLoad [simp]: "set (sortByLoad c nodes) = set nodes"
  and mset_sortByLoad [simp]: "mset (sortByLoad c nodes) = mset nodes"
  and length_sortByLoad [simp]: "length (sortByLoad c nodes) = length nodes"
  by (simp_all add: sortByLoad_def)

lemma selectByTier_members:
  "selectByTier c nodes tier = Inr sel \<Longrightarrow> set sel \<subseteq> {n \<in> set nodes. tier_matches tier n}"
  by (auto simp: selectByTier_def bindE_Inr Let_def split: option.splits dest!: in_set_takeD)

lemma first_tier_members: "first_tier c nodes fs = Inr sel \<Longrightarrow> set sel \<subseteq> set nodes"
  by (induction fs) (auto simp: bindE_Inr split: if_splits dest: selectByTier_members)

lemma selectByRule_members: "selectByRule c nodes rule = Inr sel \<Longrightarrow> set sel \<subseteq> set nodes"
  by (auto simp: selectByRule_def bindE_Inr split: option.splits if_splits
      dest: first_tier_members selectByTier_members)

lemma take_drop_mset: "mset xs - mset (take k xs) = mset (drop k xs)"
  by (metis append_take_drop_id add_diff_cancel_left' mset_append)

lemma mset_take_le: "mset (take k xs) \<subseteq># mset xs"
  by (metis append_take_drop_id mset_append mset_subset_eq_add_left)

lemma sorted_wrt_take_drop:
  "sorted_wrt P xs \<Longrightarrow> m \<in> set (take k xs) \<Longrightarrow> n \<in> set (drop k xs) \<Longrightarrow> P m n"
  by (metis append_take_drop_id sorted_wrt_append)

lemma selectByTier_Nil: "selectByTier c nodes tier = Inr [] \<Longrightarrow> filter (tier_matches tier) nodes = []"
  by (auto simp: selectByTier_def validateMaxTargets_def bindE_Inr Let_def sortByLoad_def
      split: option.splits if_splits)

lemma selectByTier_best:
  assumes "consistent_compare localeCompare" and "selectByTier localeCompare nodes tier = Inr sel"
  shows "best_of_tier nodes tier sel"
proof -
  define named where "named = filter (tier_matches tier) nodes"
  define sorted where "sorted = sortByLoad localeCompare named"
  have s: "sorted_wrt (\<lambda>l r. loadRatio l \<le> loadRatio r) sorted"
    unfolding sorted_def by (rule sortByLoad_sorted [OF assms(1)])
  have ms: "mset sorted = mset named" "length sorted = length named" by (simp_all add: sorted_def)
  consider "rul_maxTargets tier = None" "sel = sorted"
    | k where "rul_maxTargets tier = Some (Fin (of_int k))" "0 < k" "sel = take (nat k) sorted"
  proof -
    from assms(2) obtain m where m: "validateMaxTargets (rul_maxTargets tier) = Inr m"
      and sel: "sel = (case m of None \<Rightarrow> sorted | Some k \<Rightarrow> take (nat k) sorted)"
      unfolding selectByTier_def bindE_Inr Let_def sorted_def named_def by blast
    show thesis
    proof (cases m)
      case None
      with m sel that(1) show thesis by (auto simp: validateMaxTargets_def split: option.splits if_splits)
    next
      case (Some k)
      with m obtain n where n: "rul_maxTargets tier = Some n" "isInteger (JNum n) = Some k" "0 < k"
        by (auto simp: validateMaxTargets_def split: option.splits if_splits)
      then obtain q where "n = Fin q" "rat_int q = Some k" by (cases n) auto
      with n sel Some that(2) [of k] show thesis by (auto simp: rat_int_Some)
    qed
  qed
  then show ?thesis
  proof cases
    case 1
    then show ?thesis using ms by (simp add: best_of_tier_def named_def Let_def)
  next
    case 2
    have "mset sel \<subseteq># mset named"
      unfolding ms(1) [symmetric] 2(3) by (rule mset_take_le)
    moreover have "of_nat (length sel) = min (of_int k :: rat) (of_nat (length named))"
    proof -
      have "int (length sel) = min k (int (length named))" using 2 ms(2) by simp
      then have "(of_int (int (length sel)) :: rat) = of_int (min k (int (length named)))" by (rule arg_cong)
      then show ?thesis by (simp add: of_int_min)
    qed
    moreover have "loadRatio m \<le> loadRatio n" if "m \<in> set sel" "n \<in># mset named - mset sel" for m n
      using that unfolding ms(1) [symmetric] 2(3) take_drop_mset
      by (auto intro: sorted_wrt_take_drop [OF s])
    ultimately show ?thesis using 2(1) by (simp add: best_of_tier_def named_def Let_def)
  qed
qed


lemma first_tier_best:
  assumes "consistent_compare localeCompare"
  shows "first_tier localeCompare nodes fs = Inr sel \<Longrightarrow> sel \<noteq> [] \<Longrightarrow>
    \<exists>pre tier post. fs = pre @ tier # post \<and> best_of_tier nodes tier sel
      \<and> list_all (\<lambda>t. filter (tier_matches t) nodes = []) pre"
proof (induction fs)
  case (Cons f fs)
  from Cons.prems obtain s where s: "selectByTier localeCompare nodes f = Inr s"
    by (auto simp: bindE_Inr)
  show ?case
  proof (cases "s = []")
    case False
    with s Cons.prems have "best_of_tier nodes f sel"
      by (auto intro: selectByTier_best [OF assms])
    then show ?thesis by (intro exI [of _ "[]"]) auto
  next
    case True
    with s Cons.prems obtain pre tier post where
      "fs = pre @ tier # post" "best_of_tier nodes tier sel"
      "list_all (\<lambda>t. filter (tier_matches t) nodes = []) pre"
      using Cons.IH by auto
    moreover have "filter (tier_matches f) nodes = []"
      by (rule selectByTier_Nil [OF s [unfolded True]])
    ultimately show ?thesis by (intro exI [of _ "f # pre"]) auto
  qed
qed simp

lemma selectByRule_best:
  assumes "consistent_compare localeCompare" and "selectByRule localeCompare nodes rule = Inr sel"
    and "sel \<noteq> []"
  shows "\<exists>pre tier post. rule_tiers rule = pre @ tier # post \<and> best_of_tier nodes tier sel
      \<and> list_all (\<lambda>t. filter (tier_matches t) nodes = []) pre"
proof -
  let ?p = "RuntimePlacementFailoverRule.truncate rule"
  from assms(2) obtain s where s: "selectByTier localeCompare nodes ?p = Inr s"
    by (auto simp: selectByRule_def bindE_Inr)
  show ?thesis
  proof (cases "s = []")
    case False
    with s assms(2,3) have "sel = s"
      by (auto simp: selectByRule_def split: option.splits)
    then show ?thesis using selectByTier_best [OF assms(1) s]
      by (intro exI [of _ "[]"] exI [of _ ?p] exI [of _ "tl (rule_tiers rule)"]) (simp add: rule_tiers_def)
  next
    case True
    with s assms(2,3) obtain fs where fs: "rul_failover rule = Some fs"
        "first_tier localeCompare nodes fs = Inr sel"
      by (auto simp: selectByRule_def split: option.splits if_splits)
    from first_tier_best [OF assms(1) fs(2) assms(3)] obtain pre tier post where
      "fs = pre @ tier # post" "best_of_tier nodes tier sel"
      "list_all (\<lambda>t. filter (tier_matches t) nodes = []) pre" by blast
    moreover have "filter (tier_matches ?p) nodes = []"
      by (rule selectByTier_Nil [OF s [unfolded True]])
    ultimately show ?thesis
      by (intro exI [of _ "?p # pre"] exI [of _ tier] exI [of _ post]) (auto simp: rule_tiers_def fs(1))
  qed
qed

lemma first_tier_empty:
  "first_tier c nodes fs = Inr [] \<Longrightarrow> t \<in> set fs \<Longrightarrow> filter (tier_matches t) nodes = []"
  by (induction fs) (auto simp: bindE_Inr split: if_splits dest: selectByTier_Nil)

lemma selectByRule_empty:
  "selectByRule c nodes rule = Inr [] \<Longrightarrow> t \<in> set (rule_tiers rule) \<Longrightarrow> filter (tier_matches t) nodes = []"
proof (cases "rul_failover rule")
  case (Some fs)
  assume "selectByRule c nodes rule = Inr []" "t \<in> set (rule_tiers rule)"
  then show ?thesis using Some selectByTier_Nil [of c nodes rule]
    by (cases fs) (auto simp: selectByRule_def rule_tiers_def bindE_Inr simp del: first_tier.simps
        split: if_splits dest: first_tier_empty)
qed (use selectByTier_Nil [of c nodes rule] in \<open>auto simp: selectByRule_def rule_tiers_def bindE_Inr\<close>)


subsection \<open>Who receives a route\<close>

lemma snapshotWithRoutes_routes [simp]: "snap_routes (snapshotWithRoutes d snapshot routes) = routes"
  by (auto simp: snapshotWithRoutes_def list.rel_eq)

text \<open>A node that the rule of some isolated project selects.\<close>

definition dedicated :: "(string \<Rightarrow> string \<Rightarrow> int) \<Rightarrow> RuntimeNode list \<Rightarrow> RuntimePlacementPolicy
    \<Rightarrow> RuntimeNode \<Rightarrow> bool" where
  "dedicated c nodes p n \<longleftrightarrow> (\<exists>(q, rule) \<in> set (isolated_projects p).
     \<exists>sel. selectByRule c nodes rule = Inr sel \<and> n \<in> set sel)"

definition selected_by :: "(string \<Rightarrow> string \<Rightarrow> int) \<Rightarrow> RuntimeNode list \<Rightarrow> RuntimePlacementRule
    \<Rightarrow> RuntimeNode \<Rightarrow> bool" where
  "selected_by c nodes rule n \<longleftrightarrow> (\<exists>sel. selectByRule c nodes rule = Inr sel \<and> n \<in> set sel)"

text \<open>
  The routes of an isolated project go to the nodes of its rule; those of a drained project go
  nowhere; those of a project with a rule, or under a default rule, go to the nodes of that rule;
  and every other route goes to the nodes that are not set aside for the isolated projects.
\<close>

definition entitled :: "(string \<Rightarrow> string \<Rightarrow> int) \<Rightarrow> RuntimeNode list \<Rightarrow> RuntimePlacementPolicy
    \<Rightarrow> string \<Rightarrow> RuntimeNode \<Rightarrow> bool" where
  "entitled c nodes p pid n = (case isolation_rule p pid of
       Some rule \<Rightarrow> selected_by c nodes rule n
     | None \<Rightarrow> pid \<notin> set (drained_projects p)
         \<and> (case rule_or_default p pid of
              Some rule \<Rightarrow> selected_by c nodes rule n
            | None \<Rightarrow> \<not> dedicated c nodes p n
                \<or> map_option iso_excludeFromDefault (pol_isolation p) = Some (Some False)))"

lemma distinct_ids_mem:
  assumes "distinct (map node_id nodes)" and "set sel \<subseteq> set nodes" and "n \<in> set nodes"
  shows "list_ex (\<lambda>m. node_id m = node_id n) sel \<longleftrightarrow> n \<in> set sel"
  using assms by (auto simp: list_ex_iff distinct_map inj_on_def)

lemma nodeMatchesRule_Inr:
  assumes "distinct (map node_id nodes)" and "n \<in> set nodes"
    and "nodeMatchesRule c nodes n rule = Inr b"
  shows "b \<longleftrightarrow> selected_by c nodes rule n"
  using assms distinct_ids_mem [OF assms(1) selectByRule_members assms(2)]
  by (auto simp: nodeMatchesRule_def selected_by_def bindE_Inr)

lemma list_all2_mem_left: "list_all2 P xs ys \<Longrightarrow> x \<in> set xs \<Longrightarrow> \<exists>y \<in> set ys. P x y"
  by (induction rule: list_all2_induct) auto

lemma selectedIsolationNodeIds_Inr:
  assumes "distinct (map node_id nodes)" and "n \<in> set nodes"
    and "selectedIsolationNodeIds c nodes p = Inr ids"
  shows "node_id n \<in> set ids \<longleftrightarrow> dedicated c nodes p n"
proof -
  from assms(3) obtain sels where
    sels: "list_all2 (\<lambda>(q, rule) sel. selectByRule c nodes rule = Inr sel) (isolated_projects p) sels"
    and ids: "set ids = node_id ` (\<Union> (set ` set sels))"
    by (auto simp: selectedIsolationNodeIds_def bindE_Inr mapE_Inr case_prod_unfold)
  have "node_id n \<in> set ids \<longleftrightarrow> (\<exists>sel \<in> set sels. n \<in> set sel)"
  proof
    assume "node_id n \<in> set ids"
    then obtain sel m where sm: "sel \<in> set sels" "m \<in> set sel" "node_id m = node_id n"
      using ids by auto
    from list_all2_mem_right [OF sels sm(1)] obtain q rule where "selectByRule c nodes rule = Inr sel"
      by auto
    then have "m \<in> set nodes" using selectByRule_members sm(2) by blast
    then have "m = n" using assms(1,2) sm(3) by (auto simp: distinct_map inj_on_def)
    then show "\<exists>sel \<in> set sels. n \<in> set sel" using sm by auto
  qed (auto simp: ids)
  also have "\<dots> \<longleftrightarrow> dedicated c nodes p n"
  proof
    assume "\<exists>sel \<in> set sels. n \<in> set sel"
    then obtain sel where "sel \<in> set sels" "n \<in> set sel" by blast
    with list_all2_mem_right [OF sels] show "dedicated c nodes p n" unfolding dedicated_def by fast
  next
    assume "dedicated c nodes p n"
    then obtain q rule sel where "(q, rule) \<in> set (isolated_projects p)"
      "selectByRule c nodes rule = Inr sel" "n \<in> set sel" unfolding dedicated_def by blast
    with list_all2_mem_left [OF sels, of "(q, rule)"] show "\<exists>sel \<in> set sels. n \<in> set sel" by auto
  qed
  finally show ?thesis .
qed

lemma routeVisibleToNode_Inr:
  assumes "distinct (map node_id nodes)" and "n \<in> set nodes"
    and "selectedIsolationNodeIds c nodes p = Inr ids"
    and "routeVisibleToNode c nodes pid n p ids = Inr b"
  shows "b \<longleftrightarrow> entitled c nodes p pid n"
  using assms(4) nodeMatchesRule_Inr [OF assms(1,2)] selectedIsolationNodeIds_Inr [OF assms(1-3)]
  by (auto simp: routeVisibleToNode_def entitled_def excludeIsolationNodeFromDefault_def
      split: option.splits if_splits)

lemma filterE_eq_filter:
  "filterE p xs = Inr ys \<Longrightarrow> (\<And>x b. x \<in> set xs \<Longrightarrow> p x = Inr b \<Longrightarrow> b = q x) \<Longrightarrow> ys = filter q xs"
  by (induction xs arbitrary: ys) (auto simp: bindE_Inr split: if_splits)

lemma routeSnapshotForRuntimeNode_Inr:
  assumes "distinct (map node_id nodes)" and "n \<in> set nodes"
    and "routeSnapshotForRuntimeNode d c nodes snapshot n (Some p) = Inr snap"
  shows "snap_routes snap = filter (\<lambda>r. entitled c nodes p (se_projectId r) n) (snap_routes snapshot)"
  using assms(3) routeVisibleToNode_Inr [OF assms(1,2)]
  by (auto simp: routeSnapshotForRuntimeNode_def bindE_Inr intro!: filterE_eq_filter)

text \<open>At most one plan per node: what \<open>flatMap\<close> makes of the nodes.\<close>

lemma concat_plans:
  assumes "list_all2 (\<lambda>n ps. (ps = [] \<and> \<not> needed n)
     \<or> (\<exists>plan. ps = [plan] \<and> plan_node plan = n \<and> Q plan)) ns pss" and "distinct ns"
  shows "distinct (map plan_node (concat pss)) \<and> set (map plan_node (concat pss)) \<subseteq> set ns
    \<and> (\<forall>n \<in> set ns. needed n \<longrightarrow> n \<in> set (map plan_node (concat pss)))
    \<and> (\<forall>plan \<in> set (concat pss). Q plan)"
  using assms
proof (induction rule: list_all2_induct)
  case (Cons n ns ps pss)
  then show ?case by (elim disjE exE conjE) (auto simp del: set_concat)
qed simp

text \<open>
  C11. Placement gives every route to exactly the nodes entitled to it. For active nodes with distinct
  ids, whatever plan is computed: the nodes of the plan are distinct nodes of the fleet, the routes of
  a node's snapshot are, in order, the routes of the full snapshot whose project the policy assigns to
  that node, and a node left out of the plan is entitled to none of them. So no node outside the pool
  of an isolated project receives its routes, and none inside receives other tenants' default routes.
\<close>

theorem placement_is_exact:
  assumes "distinct (map node_id nodes)"
    and "planRuntimeSnapshotPlacements d c nodes snapshot (Some p) = Inr plans"
  shows "distinct (map plan_node plans) \<and> set (map plan_node plans) \<subseteq> set nodes
    \<and> (\<forall>n \<in> set nodes. \<forall>r. r \<in> set (snap_routes snapshot) \<and> entitled c nodes p (se_projectId r) n
        \<longrightarrow> n \<in> set (map plan_node plans))
    \<and> (\<forall>plan \<in> set plans. snap_routes (plan_snapshot plan)
         = filter (\<lambda>r. entitled c nodes p (se_projectId r) (plan_node plan)) (snap_routes snapshot))"
proof -
  define step where "step = (\<lambda>n. bindE (routeSnapshotForRuntimeNode d c nodes snapshot n (Some p)) (\<lambda>ns.
     Inr (if snap_routes ns = [] \<and> \<not> snapshotRequiresTenantDrainPublish snapshot (Some p)
            \<and> \<not> snap_routes snapshot = []
          then [] else [\<lparr>plan_node = n, plan_snapshot = ns\<rparr>])) :: RuntimeSnapshotPlacementPlan list cp)"
  define needed where "needed = (\<lambda>n. \<exists>r \<in> set (snap_routes snapshot). entitled c nodes p (se_projectId r) n)"
  define Q where "Q = (\<lambda>plan :: RuntimeSnapshotPlacementPlan. snap_routes (plan_snapshot plan)
     = filter (\<lambda>r. entitled c nodes p (se_projectId r) (plan_node plan)) (snap_routes snapshot))"
  from assms(2) obtain pss where pss: "list_all2 (\<lambda>n ps. step n = Inr ps) (sortByLoad c nodes) pss"
    and plans: "plans = concat pss"
    by (auto simp: planRuntimeSnapshotPlacements_def bindE_Inr mapE_Inr step_def Let_def)
  have one: "(ps = [] \<and> \<not> needed n) \<or> (\<exists>plan. ps = [plan] \<and> plan_node plan = n \<and> Q plan)"
    if "n \<in> set nodes" "step n = Inr ps" for n ps
    using that routeSnapshotForRuntimeNode_Inr [OF assms(1) that(1)]
    by (auto simp: step_def bindE_Inr filter_empty_conv needed_def Q_def split: if_splits)
  have "list_all2 (\<lambda>n ps. (ps = [] \<and> \<not> needed n)
     \<or> (\<exists>plan. ps = [plan] \<and> plan_node plan = n \<and> Q plan)) (sortByLoad c nodes) pss"
    by (rule list.rel_mono_strong [OF pss]) (use one in simp)
  moreover have "distinct (sortByLoad c nodes)" using assms(1) by (simp add: sortByLoad_def distinct_map)
  ultimately show ?thesis
    using concat_plans [of needed Q "sortByLoad c nodes" pss] unfolding plans needed_def Q_def by auto
qed


text \<open>
  A rule selects the best nodes of its first tier that names any: every earlier tier names no node;
  the selection holds nodes of the tier only, all of them or exactly as many as the tier asks for, and a
  node of the tier that was left out carries at least the load of each node that was taken. Nothing is
  selected exactly when no tier names a node.
\<close>

theorem selection_is_best:
  assumes "consistent_compare localeCompare" and "selectByRule localeCompare nodes rule = Inr sel"
  shows "(sel = [] \<longleftrightarrow> (\<forall>tier \<in> set (rule_tiers rule). filter (tier_matches tier) nodes = []))
    \<and> (sel \<noteq> [] \<longrightarrow> (\<exists>pre tier post. rule_tiers rule = pre @ tier # post \<and> best_of_tier nodes tier sel
         \<and> list_all (\<lambda>t. filter (tier_matches t) nodes = []) pre))"
proof (cases "sel = []")
  case True
  then show ?thesis using selectByRule_empty assms(2) by blast
next
  case False
  from selectByRule_best [OF assms False] obtain pre tier post where
    t: "rule_tiers rule = pre @ tier # post" "best_of_tier nodes tier sel"
    "list_all (\<lambda>t. filter (tier_matches t) nodes = []) pre" by blast
  from t(2) have "mset sel \<subseteq># mset (filter (tier_matches tier) nodes)"
    unfolding best_of_tier_def Let_def by blast
  with False have "filter (tier_matches tier) nodes \<noteq> []" by (cases "filter (tier_matches tier) nodes") auto
  with t False show ?thesis by auto
qed

subsection \<open>Examples\<close>

definition ex_node :: "string \<Rightarrow> string \<Rightarrow> string \<Rightarrow> int \<Rightarrow> RuntimeNode" where
  "ex_node nid region pool active = \<lparr>node_id = nid, node_url = ''http://n'', node_status = NodeActive,
     node_registeredAt = ''t'', node_lastSeenAt = None, node_version = None,
     node_capacity = Some \<lparr>capy_concurrentRequests = 10, capy_memoryMb = 512\<rparr>,
     node_region = Some region, node_labels = Some [(''pool'', pool)], node_load = Some active,
     node_identity = None, node_host = None\<rparr>"

definition ex_fleet :: "RuntimeNode list" where
  "ex_fleet = [ex_node ''n1'' ''nrt'' ''shared'' 7, ex_node ''n2'' ''nrt'' ''shared'' 2,
     ex_node ''n3'' ''fra'' ''quiet'' 0, ex_node ''n4'' ''nrt'' ''shared'' 5]"

definition ex_env_policy :: "string \<Rightarrow> string option" where
  "ex_env_policy = [''ODENCTL_ISOLATION_POOL_PROJECTS'' \<mapsto> ''noisy=quiet'',
                    ''ODENCTL_DRAINED_PROJECTS'' \<mapsto> ''gone'']"

definition ex_isolation :: RuntimePlacementPolicy where
  "ex_isolation = \<lparr>pol_default = None, pol_projects = None, pol_isolation = Some
     \<lparr>iso_projects = Some [(''noisy'', \<lparr>rul_regions = None, rul_labels = Some [(''pool'', ''quiet'')],
        rul_maxTargets = None, rul_failover = None\<rparr>)],
      iso_drainedProjects = Some [''gone''], iso_excludeFromDefault = None\<rparr>\<rparr>"

definition ex_routes_of :: "string list \<Rightarrow> RouteSnapshot" where
  "ex_routes_of pids = ex_snapshot\<lparr>snap_routes := map (\<lambda>p. (ex_entry ''/'' [(''d0'', 100)])\<lparr>se_projectId := p\<rparr>) pids\<rparr>"

definition ex_snapshot_digest :: "string \<Rightarrow> RouteSnapshotEntry list \<Rightarrow> string" where
  "ex_snapshot_digest g routes = replicate 64 (char_of (97 + length routes))"

definition ex_plans :: "string list \<Rightarrow> RuntimeSnapshotPlacementPlan list" where
  "ex_plans pids = (case planRuntimeSnapshotPlacements ex_snapshot_digest ex_compare ex_fleet (ex_routes_of pids)
      (Some ex_isolation) of Inr plans \<Rightarrow> plans | Inl _ \<Rightarrow> [])"

text \<open>The nodes of a plan with the projects whose routes each receives.\<close>

definition ex_received :: "RuntimeSnapshotPlacementPlan list \<Rightarrow> (string \<times> string list) list" where
  "ex_received plans = map (\<lambda>pl. (node_id (plan_node pl), map se_projectId (snap_routes (plan_snapshot pl)))) plans"

lemma ex_isolation_from_env: "runtimePlacementPolicyFromEnv ex_env_policy = Some ex_isolation"
  by code_simp

lemma ex_plans_computed: "planRuntimeSnapshotPlacements ex_snapshot_digest ex_compare ex_fleet
    (ex_routes_of [''noisy'', ''quiet'', ''gone'']) (Some ex_isolation)
    = Inr (ex_plans [''noisy'', ''quiet'', ''gone''])"
  by code_simp

lemma ex_fleet_distinct: "distinct (map node_id ex_fleet)"
  by code_simp

theorem placement_is_exact_witness:
  "set (map plan_node (ex_plans [''noisy'', ''quiet'', ''gone''])) \<subseteq> set ex_fleet
   \<and> ex_received (ex_plans [''noisy'', ''quiet'', ''gone''])
      = [(''n3'', [''noisy'']), (''n2'', [''quiet'']), (''n4'', [''quiet'']), (''n1'', [''quiet''])]"
proof
  show "set (map plan_node (ex_plans [''noisy'', ''quiet'', ''gone''])) \<subseteq> set ex_fleet"
    using placement_is_exact [OF ex_fleet_distinct ex_plans_computed] by blast
  show "ex_received (ex_plans [''noisy'', ''quiet'', ''gone''])
      = [(''n3'', [''noisy'']), (''n2'', [''quiet'']), (''n4'', [''quiet'']), (''n1'', [''quiet''])]"
    by code_simp
qed

definition ex_rule :: RuntimePlacementRule where
  "ex_rule = \<lparr>rul_regions = Some [''SIN''], rul_labels = None, rul_maxTargets = None,
     rul_failover = Some [\<lparr>rul_regions = Some [''NRT''], rul_labels = Some [(''pool'', ''shared'')],
       rul_maxTargets = Some (Fin 2)\<rparr>]\<rparr>"

definition ex_selected :: "RuntimeNode list" where
  "ex_selected = [ex_node ''n2'' ''nrt'' ''shared'' 2, ex_node ''n4'' ''nrt'' ''shared'' 5]"

lemma ex_selected_computed: "selectByRule ex_compare ex_fleet ex_rule = Inr ex_selected"
  by code_simp

theorem selection_is_best_witness:
  "\<exists>pre tier post. rule_tiers ex_rule = pre @ tier # post \<and> best_of_tier ex_fleet tier ex_selected
     \<and> list_all (\<lambda>t. filter (tier_matches t) ex_fleet = []) pre"
  using selection_is_best [OF ex_compare_consistent ex_selected_computed]
  by (auto simp: ex_selected_def)

text \<open>
  The lookup of a project in a policy also finds what every JavaScript object inherits: under
  the policy that the environment describes, with one project isolated on the node \<open>n3\<close>, a project
  with the id \<open>constructor\<close>, which no rule names, is placed on every node of the fleet, the isolated
  one included, while a project with another id stays off it; and no static target gets its routes.
\<close>

theorem inherited_key_defeats_isolation:
  "runtimePlacementPolicyFromEnv ex_env_policy = Some ex_isolation
   \<and> ex_received (ex_plans [''constructor'', ''other''])
      = [(''n3'', [''constructor'']), (''n2'', [''constructor'', ''other'']),
         (''n4'', [''constructor'', ''other'']), (''n1'', [''constructor'', ''other''])]
   \<and> map se_projectId (snap_routes (staticRouteSnapshotForPlacement ex_snapshot_digest
        (ex_routes_of [''constructor'', ''other'']) (Some ex_isolation))) = [''other'']"
proof (intro conjI)
  show "runtimePlacementPolicyFromEnv ex_env_policy = Some ex_isolation" by code_simp
  show "ex_received (ex_plans [''constructor'', ''other''])
      = [(''n3'', [''constructor'']), (''n2'', [''constructor'', ''other'']),
         (''n4'', [''constructor'', ''other'']), (''n1'', [''constructor'', ''other''])]" by code_simp
  show "map se_projectId (snap_routes (staticRouteSnapshotForPlacement ex_snapshot_digest
        (ex_routes_of [''constructor'', ''other'']) (Some ex_isolation))) = [''other'']" by code_simp
qed

end
