(* ===== verification/Autoscaling.thy ===== *)
theory Autoscaling
  imports Placement Examples
begin

text \<open>
  The size of the fleet: \<open>control-plane/autoscaling.ts\<close>. Node counts and steps are integers,
  ratios are exact rationals; \<open>Math.round\<close> rounds halves up. The publication of the snapshot to a
  new node is a parameter: whether its report is ok.
\<close>

subsection \<open>Signals\<close>

definition round3 :: "rat \<Rightarrow> rat" where
  "round3 x = of_int \<lfloor>x * 1000 + 1 / 2\<rfloor> / 1000"

record RuntimeSaturationSignal =
  sig_id :: string
  sig_url :: string
  sig_status :: RuntimeNodeStatus
  sig_activeRequests :: int
  sig_concurrentRequests :: int
  sig_loadRatio :: rat
  sig_saturated :: bool

definition runtimeSaturationSignal :: "RuntimeNode \<Rightarrow> RuntimeSaturationSignal" where
  "runtimeSaturationSignal node =
     (let concurrentRequests = (case node_capacity node of None \<Rightarrow> 0 | Some c \<Rightarrow> capy_concurrentRequests c);
          activeRequests = (case node_load node of None \<Rightarrow> 0 | Some a \<Rightarrow> a);
          ratio = (if 0 < concurrentRequests
             then round3 (of_int activeRequests / of_int concurrentRequests) else 0)
      in \<lparr>sig_id = node_id node, sig_url = node_url node, sig_status = node_status node,
          sig_activeRequests = activeRequests, sig_concurrentRequests = concurrentRequests,
          sig_loadRatio = ratio,
          sig_saturated = (0 < concurrentRequests \<and> concurrentRequests \<le> activeRequests)\<rparr>)"

definition runtimeSaturationSignals :: "RuntimeNode list \<Rightarrow> RuntimeSaturationSignal list" where
  "runtimeSaturationSignals nodes = map runtimeSaturationSignal nodes"

definition averageSignalLoad :: "RuntimeSaturationSignal list \<Rightarrow> rat" where
  "averageSignalLoad signals = (if signals = [] then 0
     else round3 (fold (\<lambda>s sum. sum + sig_loadRatio s) signals 0 / of_nat (length signals)))"

definition scale_loadRatio :: "RuntimeNode \<Rightarrow> rat" where
  "scale_loadRatio n = (case (node_capacity n, node_load n) of
     (Some c, Some active) \<Rightarrow> if capy_concurrentRequests c \<le> 0 then 0
        else of_int active / of_int (capy_concurrentRequests c)
   | _ \<Rightarrow> 0)"

definition scale_order :: "(string \<Rightarrow> string \<Rightarrow> int) \<Rightarrow> RuntimeNode \<Rightarrow> RuntimeNode \<Rightarrow> bool" where
  "scale_order localeCompare l r = (let delta = scale_loadRatio l - scale_loadRatio r in
     if delta \<noteq> 0 then delta \<le> 0 else localeCompare (node_id l) (node_id r) \<le> 0)"

definition scaleDownCandidates :: "(string \<Rightarrow> string \<Rightarrow> int) \<Rightarrow> RuntimeNode list \<Rightarrow> int \<Rightarrow> string list" where
  "scaleDownCandidates localeCompare nodes cnt =
     map node_id (take (nat (max 0 cnt)) (js_sort (scale_order localeCompare) nodes))"

subsection \<open>Decisions\<close>

record RuntimeAutoscalingPolicy =
  asp_minNodes :: int
  asp_maxNodes :: int
  asp_targetLoadRatio :: rat
  asp_scaleUpThreshold :: "rat option"
  asp_scaleDownThreshold :: "rat option"
  asp_scaleUpStep :: "int option"
  asp_scaleDownStep :: "int option"

datatype RuntimeAutoscalingAction = ScaleUp | ScaleDown | ScaleNone

datatype AutoscalingReason = BelowMinNodes | AboveMaxNodes | LoadAboveThreshold | LoadBelowThreshold
  | WithinLoadThresholds

record RuntimeAutoscalingDecision =
  dec_action :: RuntimeAutoscalingAction
  dec_reason :: AutoscalingReason
  dec_currentNodes :: int
  dec_desiredNodes :: int
  dec_add :: int
  dec_remove :: int
  dec_averageLoadRatio :: rat
  dec_candidateNodeIds :: "string list"

definition decision :: "RuntimeAutoscalingAction \<Rightarrow> AutoscalingReason \<Rightarrow> int \<Rightarrow> int \<Rightarrow> rat \<Rightarrow> string list
    \<Rightarrow> RuntimeAutoscalingDecision" where
  "decision action reason currentNodes desiredNodes averageLoadRatio candidateNodeIds =
     \<lparr>dec_action = action, dec_reason = reason, dec_currentNodes = currentNodes,
      dec_desiredNodes = desiredNodes, dec_add = max 0 (desiredNodes - currentNodes),
      dec_remove = max 0 (currentNodes - desiredNodes), dec_averageLoadRatio = averageLoadRatio,
      dec_candidateNodeIds = candidateNodeIds\<rparr>"

definition min_nodes :: "RuntimeAutoscalingPolicy \<Rightarrow> int" where
  "min_nodes p = max 0 (asp_minNodes p)"

definition max_nodes :: "RuntimeAutoscalingPolicy \<Rightarrow> int" where
  "max_nodes p = max (min_nodes p) (asp_maxNodes p)"

definition scale_step :: "int option \<Rightarrow> int" where
  "scale_step s = max 1 (case s of None \<Rightarrow> 1 | Some n \<Rightarrow> n)"

definition up_threshold :: "RuntimeAutoscalingPolicy \<Rightarrow> rat" where
  "up_threshold p = (case asp_scaleUpThreshold p of None \<Rightarrow> asp_targetLoadRatio p | Some t \<Rightarrow> t)"

definition down_threshold :: "RuntimeAutoscalingPolicy \<Rightarrow> rat" where
  "down_threshold p = (case asp_scaleDownThreshold p of None \<Rightarrow> asp_targetLoadRatio p / 2 | Some t \<Rightarrow> t)"

definition decideRuntimeAutoscaling :: "(string \<Rightarrow> string \<Rightarrow> int) \<Rightarrow> RuntimeNode list
    \<Rightarrow> RuntimeAutoscalingPolicy \<Rightarrow> RuntimeAutoscalingDecision" where
  "decideRuntimeAutoscaling localeCompare nodes policy =
     (let activeNodes = filter (\<lambda>n. node_status n = NodeActive) nodes;
          currentNodes = int (length activeNodes);
          averageLoadRatio = averageSignalLoad (runtimeSaturationSignals activeNodes);
          minNodes = min_nodes policy; maxNodes = max_nodes policy
      in if currentNodes < minNodes then
           decision ScaleUp BelowMinNodes currentNodes (min maxNodes minNodes) averageLoadRatio []
         else if maxNodes < currentNodes then
           decision ScaleDown AboveMaxNodes currentNodes maxNodes averageLoadRatio
             (scaleDownCandidates localeCompare activeNodes (currentNodes - maxNodes))
         else if currentNodes < maxNodes \<and> up_threshold policy \<le> averageLoadRatio then
           decision ScaleUp LoadAboveThreshold currentNodes
             (min maxNodes (currentNodes + scale_step (asp_scaleUpStep policy))) averageLoadRatio []
         else if minNodes < currentNodes \<and> averageLoadRatio \<le> down_threshold policy then
           let desiredNodes = max minNodes (currentNodes - scale_step (asp_scaleDownStep policy))
           in decision ScaleDown LoadBelowThreshold currentNodes desiredNodes averageLoadRatio
             (scaleDownCandidates localeCompare activeNodes (currentNodes - desiredNodes))
         else decision ScaleNone WithinLoadThresholds currentNodes currentNodes averageLoadRatio [])"

subsection \<open>Bringing a node into the fleet\<close>

record WarmRuntimeNode =
  wrn_id :: json
  wrn_url :: json
  wrn_region :: json
  wrn_labels :: json
  wrn_version :: "string option"
  wrn_capacity :: json
  wrn_load :: json

definition warm_heartbeat :: "string \<Rightarrow> string \<Rightarrow> WarmRuntimeNode \<Rightarrow> HeartbeatInput" where
  "warm_heartbeat nid status i =
     \<lparr>hbi_id = nid, hbi_status = JStr status, hbi_version = wrn_version i, hbi_capacity = wrn_capacity i,
      hbi_load = (case wrn_load i of JUndefined \<Rightarrow> JObj [(''activeRequests'', JInt 0)]
                  | JNull \<Rightarrow> JObj [(''activeRequests'', JInt 0)] | l \<Rightarrow> l),
      hbi_identity = JUndefined, hbi_host = JUndefined\<rparr>"

text \<open>
  \<open>warmAndActivateRuntimeNode\<close> with a string id, against a control plane with the calls of
  \<open>service.ts\<close>; \<open>publish\<close> is the report's \<open>ok\<close>. The result is the report.
\<close>

definition warmAndActivateRuntimeNode :: "Env \<Rightarrow> string \<Rightarrow> WarmRuntimeNode \<Rightarrow> bool \<Rightarrow> bool service" where
  "warmAndActivateRuntimeNode E nid i publish =
     bindS (registerRuntimeNode E \<lparr>rni_id = JStr nid, rni_url = wrn_url i, rni_status = JStr ''draining'',
       rni_region = wrn_region i, rni_labels = wrn_labels i, rni_identity = JUndefined, rni_host = JUndefined\<rparr>) (\<lambda>_.
     bindS (recordRuntimeNodeHeartbeat E (warm_heartbeat nid ''draining'' i)) (\<lambda>_.
     if publish
     then bindS (recordRuntimeNodeHeartbeat E (warm_heartbeat nid ''active'' i)) (\<lambda>_. pureS publish)
     else pureS publish))"


subsection \<open>Decisions stay in bounds\<close>

lemma max_min_nodes: "min_nodes p \<le> max_nodes p" "0 \<le> min_nodes p" "0 \<le> max_nodes p"
  by (auto simp: max_nodes_def min_nodes_def)

lemma scale_step_pos: "1 \<le> scale_step s"
  by (simp add: scale_step_def)

lemma scale_order_preorder:
  assumes "consistent_compare localeCompare"
  shows "total_preorder (scale_order localeCompare)"
proof -
  note c = consistent_compareD [OF assms]
  show ?thesis
    unfolding total_preorder_def scale_order_def Let_def
    using c by (smt (verit) diff_le_0_iff_le eq_iff_diff_eq_0 nle_le order_trans)
qed

definition least_loaded :: "RuntimeNode list \<Rightarrow> int \<Rightarrow> string list \<Rightarrow> bool" where
  "least_loaded nodes k ids \<longleftrightarrow> (\<exists>stopped kept. mset nodes = mset (stopped @ kept)
     \<and> ids = map node_id stopped \<and> int (length ids) = k
     \<and> (\<forall>m \<in> set stopped. \<forall>n \<in> set kept. scale_loadRatio m \<le> scale_loadRatio n))"

lemma scaleDownCandidates_least_loaded:
  assumes "consistent_compare localeCompare" and "0 \<le> k" and "k \<le> int (length nodes)"
  shows "least_loaded nodes k (scaleDownCandidates localeCompare nodes k)"
proof -
  define sorted where "sorted = js_sort (scale_order localeCompare) nodes"
  have s: "sorted_wrt (\<lambda>l r. scale_loadRatio l \<le> scale_loadRatio r) sorted"
    unfolding sorted_def
    by (rule sorted_wrt_mono_rel [OF _ sorted_js_sort [OF scale_order_preorder [OF assms(1)]]])
      (auto simp: scale_order_def Let_def split: if_splits)
  have ms: "mset sorted = mset nodes" by (simp add: sorted_def)
  then have len: "length sorted = length nodes" by (metis size_mset)
  show ?thesis
    unfolding least_loaded_def scaleDownCandidates_def sorted_def [symmetric]
  proof (intro exI conjI)
    show "mset nodes = mset (take (nat (max 0 k)) sorted @ drop (nat (max 0 k)) sorted)"
      by (simp add: ms)
    show "int (length (map node_id (take (nat (max 0 k)) sorted))) = k"
      using assms(2,3) len by simp
    show "\<forall>m \<in> set (take (nat (max 0 k)) sorted). \<forall>n \<in> set (drop (nat (max 0 k)) sorted).
        scale_loadRatio m \<le> scale_loadRatio n"
      using sorted_wrt_take_drop [OF s] by blast
  qed simp
qed

lemma decision_simps [simp]:
  "dec_action (decision a r c d av ids) = a" "dec_desiredNodes (decision a r c d av ids) = d"
  "dec_currentNodes (decision a r c d av ids) = c" "dec_add (decision a r c d av ids) = max 0 (d - c)"
  "dec_remove (decision a r c d av ids) = max 0 (c - d)"
  "dec_candidateNodeIds (decision a r c d av ids) = ids" "dec_reason (decision a r c d av ids) = r"
  by (simp_all add: decision_def)

definition sound_decision :: "RuntimeAutoscalingPolicy \<Rightarrow> RuntimeNode list \<Rightarrow> RuntimeAutoscalingDecision \<Rightarrow> bool" where
  "sound_decision policy active d \<longleftrightarrow> min_nodes policy \<le> dec_desiredNodes d \<and> dec_desiredNodes d \<le> max_nodes policy
    \<and> dec_desiredNodes d = int (length active) + dec_add d - dec_remove d
    \<and> (case dec_action d of ScaleUp \<Rightarrow> 0 < dec_add d \<and> dec_remove d = 0
         | ScaleDown \<Rightarrow> dec_add d = 0 \<and> 0 < dec_remove d
         | ScaleNone \<Rightarrow> dec_add d = 0 \<and> dec_remove d = 0)
    \<and> least_loaded active (dec_remove d) (dec_candidateNodeIds d)
    \<and> (dec_reason d = LoadAboveThreshold \<longrightarrow> dec_add d \<le> scale_step (asp_scaleUpStep policy))
    \<and> (dec_reason d = LoadBelowThreshold \<longrightarrow> dec_remove d \<le> scale_step (asp_scaleDownStep policy))"

lemma sound_up:
  assumes "int (length active) < k" and "min_nodes policy \<le> k" and "k \<le> max_nodes policy"
    and "r = BelowMinNodes \<or> r = LoadAboveThreshold \<and> k \<le> int (length active) + scale_step (asp_scaleUpStep policy)"
  shows "sound_decision policy active (decision ScaleUp r (int (length active)) k av [])"
proof -
  have "least_loaded active 0 []"
    unfolding least_loaded_def by (intro exI [of _ "[]"] exI [of _ active]) simp
  with assms show ?thesis by (auto simp: sound_decision_def)
qed

lemma sound_down:
  assumes "consistent_compare localeCompare" and "0 \<le> k" and "k < int (length active)"
    and "min_nodes policy \<le> k" and "k \<le> max_nodes policy"
    and "r = AboveMaxNodes \<or> r = LoadBelowThreshold \<and> int (length active) \<le> k + scale_step (asp_scaleDownStep policy)"
  shows "sound_decision policy active (decision ScaleDown r (int (length active)) k av
    (scaleDownCandidates localeCompare active (int (length active) - k)))"
proof -
  have "least_loaded active (int (length active) - k)
      (scaleDownCandidates localeCompare active (int (length active) - k))"
    using assms(2,3) by (intro scaleDownCandidates_least_loaded assms(1)) auto
  with assms(2-) show ?thesis by (auto simp: sound_decision_def)
qed

lemma decide_cases:
  fixes nodes policy
  defines "active \<equiv> filter (\<lambda>n. node_status n = NodeActive) nodes"
  assumes "consistent_compare localeCompare"
  shows "sound_decision policy active (decideRuntimeAutoscaling localeCompare nodes policy)"
proof -
  note bounds = max_min_nodes [of policy] scale_step_pos [of "asp_scaleUpStep policy"]
    scale_step_pos [of "asp_scaleDownStep policy"]
  note up = sound_up [of active _ policy]
  note down = sound_down [OF assms(2), of _ active policy]
  let ?n = "int (length active)" and ?l = "averageSignalLoad (runtimeSaturationSignals active)"
  note unfold = decideRuntimeAutoscaling_def Let_def active_def [symmetric]
  consider (below) "?n < min_nodes policy" | (above) "max_nodes policy < ?n"
    | (inside) "min_nodes policy \<le> ?n" "?n \<le> max_nodes policy" by linarith
  then show ?thesis
  proof cases
    case below
    then show ?thesis using bounds unfolding unfold by (simp add: up)
  next
    case above
    then have "\<not> ?n < min_nodes policy" using bounds by linarith
    show ?thesis unfolding unfold if_not_P [OF \<open>\<not> ?n < min_nodes policy\<close>] if_P [OF above]
      using above bounds by (intro down) auto
  next
    case inside
    then have i: "\<not> ?n < min_nodes policy" "\<not> max_nodes policy < ?n" by simp_all
    consider "?n < max_nodes policy \<and> up_threshold policy \<le> ?l"
      | "\<not> (?n < max_nodes policy \<and> up_threshold policy \<le> ?l)" "min_nodes policy < ?n \<and> ?l \<le> down_threshold policy"
      | "\<not> (?n < max_nodes policy \<and> up_threshold policy \<le> ?l)" "\<not> (min_nodes policy < ?n \<and> ?l \<le> down_threshold policy)"
      by blast
    then show ?thesis
    proof cases
      case 1
      show ?thesis unfolding unfold if_not_P [OF i(1)] if_not_P [OF i(2)] if_P [OF 1]
        using 1 inside bounds by (intro up) auto
    next
      case 2
      show ?thesis unfolding unfold if_not_P [OF i(1)] if_not_P [OF i(2)] if_not_P [OF 2(1)] if_P [OF 2(2)]
        using 2 inside bounds by (intro down) auto
    next
      case 3
      have "least_loaded active 0 []"
        unfolding least_loaded_def by (intro exI [of _ "[]"] exI [of _ active]) simp
      then show ?thesis unfolding unfold if_not_P [OF i(1)] if_not_P [OF i(2)] if_not_P [OF 3(1)] if_not_P [OF 3(2)]
        using inside by (simp add: sound_decision_def)
    qed
  qed
qed

text \<open>
  C38. Every scaling decision is in bounds and says what it does: the desired size lies between the
  policy's (corrected) bounds; a decision to scale up adds nodes, one to scale down removes some, any
  other changes nothing; the nodes named for removal are exactly as many as are to be removed, active,
  and no active node that stays carries less load; and a decision taken because of load moves by at
  most one step.
\<close>

theorem autoscaling_in_bounds:
  assumes "consistent_compare localeCompare"
  shows "let d = decideRuntimeAutoscaling localeCompare nodes policy;
      active = filter (\<lambda>n. node_status n = NodeActive) nodes in
    min_nodes policy \<le> dec_desiredNodes d \<and> dec_desiredNodes d \<le> max_nodes policy
    \<and> dec_desiredNodes d = int (length active) + dec_add d - dec_remove d
    \<and> (case dec_action d of ScaleUp \<Rightarrow> 0 < dec_add d \<and> dec_remove d = 0
         | ScaleDown \<Rightarrow> dec_add d = 0 \<and> 0 < dec_remove d
         | ScaleNone \<Rightarrow> dec_add d = 0 \<and> dec_remove d = 0)
    \<and> least_loaded active (dec_remove d) (dec_candidateNodeIds d)
    \<and> (dec_reason d = LoadAboveThreshold \<longrightarrow> dec_add d \<le> scale_step (asp_scaleUpStep policy))
    \<and> (dec_reason d = LoadBelowThreshold \<longrightarrow> dec_remove d \<le> scale_step (asp_scaleDownStep policy))"
  using decide_cases [OF assms, of policy nodes] unfolding Let_def sound_decision_def .


subsection \<open>An idle fleet shrinks\<close>

definition idle :: "RuntimeNode list \<Rightarrow> bool" where
  "idle nodes \<longleftrightarrow> list_all (\<lambda>n. node_load n = None \<or> node_load n = Some 0) nodes"

definition active_count :: "RuntimeNode list \<Rightarrow> int" where
  "active_count nodes = int (length (filter (\<lambda>n. node_status n = NodeActive) nodes))"

lemma round3_0 [simp]: "round3 0 = 0"
  by (simp add: round3_def floor_eq_iff)

lemma idle_signal: "node_load n = None \<or> node_load n = Some 0 \<Longrightarrow> sig_loadRatio (runtimeSaturationSignal n) = 0"
  by (auto simp: runtimeSaturationSignal_def Let_def split: option.splits)

lemma idle_average: "idle nodes \<Longrightarrow> averageSignalLoad (runtimeSaturationSignals nodes) = 0"
proof -
  have "fold (\<lambda>s sum. sum + sig_loadRatio s) (map runtimeSaturationSignal ns) 0 = 0" if "idle ns" for ns
    using that by (induction ns) (auto simp: idle_def idle_signal)
  then show "idle nodes \<Longrightarrow> ?thesis"
    by (simp add: averageSignalLoad_def runtimeSaturationSignals_def)
qed

lemma idle_desired:
  assumes "idle nodes" and "0 \<le> down_threshold policy" and "0 < up_threshold policy"
  shows "dec_desiredNodes (decideRuntimeAutoscaling localeCompare nodes policy) =
    (if active_count nodes < min_nodes policy then min_nodes policy
     else if max_nodes policy < active_count nodes then max_nodes policy
     else max (min_nodes policy) (active_count nodes - scale_step (asp_scaleDownStep policy)))"
proof -
  have "averageSignalLoad (runtimeSaturationSignals (filter (\<lambda>n. node_status n = NodeActive) nodes)) = 0"
    using assms(1) by (intro idle_average) (auto simp: idle_def list_all_iff)
  with assms(2,3) scale_step_pos [of "asp_scaleDownStep policy"] max_min_nodes [of policy] show ?thesis
    by (auto simp: decideRuntimeAutoscaling_def Let_def active_count_def min_def max_def)
qed

text \<open>
  C39. An idle fleet shrinks to its minimum and stays there. Whenever a fleet whose nodes report no load
  follows the decisions round after round, with thresholds that tell an idle fleet from a busy one,
  then after one round, and one more for each step from the initial size (or the maximum, if that is
  less) down to the minimum, exactly the minimum number of nodes is active, and so it is ever after.
\<close>

theorem idle_fleet_drains:
  assumes "0 \<le> down_threshold policy" and "0 < up_threshold policy"
    and "\<And>k. idle (F k)"
    and "\<And>k. active_count (F (Suc k)) = dec_desiredNodes (decideRuntimeAutoscaling localeCompare (F k) policy)"
    and "min (active_count (F 0)) (max_nodes policy)
      \<le> min_nodes policy + int k * scale_step (asp_scaleDownStep policy)"
  shows "active_count (F (Suc k)) = min_nodes policy"
proof -
  let ?s = "scale_step (asp_scaleDownStep policy)" and ?m = "min (active_count (F 0)) (max_nodes policy)"
  have s: "0 < ?s" using scale_step_pos [of "asp_scaleDownStep policy"] by linarith
  have step: "active_count (F (Suc j)) = (if active_count (F j) < min_nodes policy then min_nodes policy
     else if max_nodes policy < active_count (F j) then max_nodes policy
     else max (min_nodes policy) (active_count (F j) - ?s))" for j
    unfolding assms(4) by (rule idle_desired [OF assms(3,1,2)])
  have low: "min_nodes policy \<le> active_count (F (Suc j))" for j
    using step [of j] max_min_nodes [of policy] by (auto split: if_splits)
  have "active_count (F (Suc j)) \<le> max (min_nodes policy) (?m - int j * ?s)" for j
  proof (induction j)
    case 0
    show ?case using step [of 0] s max_min_nodes [of policy] by (auto simp: max_def min_def split: if_splits)
  next
    case (Suc j)
    have "0 \<le> int j * ?s" using s by simp
    then have "?m - int j * ?s \<le> max_nodes policy" by linarith
    then have "active_count (F (Suc j)) \<le> max_nodes policy"
      using Suc max_min_nodes [of policy] by linarith
    moreover have "int (Suc j) * ?s = ?s + int j * ?s" by (simp add: algebra_simps)
    ultimately show ?case using Suc step [of "Suc j"] low [of j] s
      by (smt (verit, best))
  qed
  from this [of k] low [of k] assms(5) show ?thesis by linarith
qed

subsection \<open>A new node serves only after it holds the snapshot\<close>

lemma update_node_run: "update_node nid f s = (s', Inr r) \<Longrightarrow> (\<And>q. node_id (f q) = node_id q) \<Longrightarrow>
   (\<exists>q. getRuntimeNode s nid = Some q \<and> r = f q)
   \<and> getRuntimeNode s' = (getRuntimeNode s)(nid \<mapsto> r)"
  "update_node nid f s = (s', Inl e) \<Longrightarrow> s' = s"
  by (auto simp: update_node_def getRuntimeNode_def fun_eq_iff row_by_update split: option.splits)

lemma heartbeat_run:
  assumes "recordRuntimeNodeHeartbeat E i s = (s', r)"
  shows "(\<exists>e. r = Inl e \<and> s' = s) \<or> (\<exists>n. r = Inr n
     \<and> normalizeRuntimeNodeStatus (hbi_status i) = Inr (node_status n)
     \<and> node_lastSeenAt n = Some (env_now E) \<and> getRuntimeNode s' = (getRuntimeNode s)(hbi_id i \<mapsto> n))"
proof (cases r)
  case (Inl e)
  then show ?thesis using assms update_node_run(2) unfolding recordRuntimeNodeHeartbeat_def updateRuntimeNodeHeartbeat_def
    by (fastforce simp: bindS_def split: sum.splits prod.splits)
next
  case (Inr n)
  with assms obtain q status cap load ident host where q: "getRuntimeNode s (hbi_id i) = Some q"
    and st: "normalizeRuntimeNodeStatus (hbi_status i) = Inr status"
    and up: "updateRuntimeNodeHeartbeat (q\<lparr>node_status := status,
       node_lastSeenAt := Some (env_now E), node_version := or_else (hbi_version i) (node_version q),
       node_capacity := or_else cap (node_capacity q), node_load := or_else load (node_load q),
       node_identity := or_else ident (node_identity q),
       node_host := or_else host (node_host q)\<rparr>) s = (s', Inr n)"
    unfolding recordRuntimeNodeHeartbeat_def
    by (auto simp: bindS_Inr require_def split: option.splits)
  have "node_id q = hbi_id i" using q by (rule runtime_nodes.look_key)
  with update_node_run(1) [OF up [unfolded updateRuntimeNodeHeartbeat_def]] st Inr show ?thesis
    by (auto simp: overwrite_node_def)
qed


lemma register_run:
  assumes "registerRuntimeNode E i s = (s', r)"
  shows "(\<exists>e. r = Inl e \<and> s' = s) \<or> (\<exists>n. r = Inr n \<and> getRuntimeNode s (node_id n) = None
     \<and> newId E (rni_id i) ''runtime node id'' ''rt'' = Inr (node_id n)
     \<and> normalizeRuntimeNodeStatus (rni_status i) = Inr (node_status n)
     \<and> getRuntimeNode s' = (getRuntimeNode s)(node_id n \<mapsto> n))"
proof (cases r)
  case (Inl e)
  then show ?thesis using assms runtime_nodes.add_throws unfolding registerRuntimeNode_def
    by (fastforce simp: bindS_def split: sum.splits prod.splits)
next
  case (Inr n)
  with assms obtain m where m: "repo_createRuntimeNode m s = (s', Inr n)"
    "newId E (rni_id i) ''runtime node id'' ''rt'' = Inr (node_id m)"
    "normalizeRuntimeNodeStatus (rni_status i) = Inr (node_status m)"
    unfolding registerRuntimeNode_def by (auto simp: bindS_Inr)
  with runtime_nodes.add_returns [OF m(1)] Inr show ?thesis by auto
qed

text \<open>
  Bringing a node into the fleet gives it no traffic before it holds the snapshot. Whatever the
  outcome of \<open>warmAndActivateRuntimeNode\<close>, failures on the way included, no other node changes; a node
  that is new or changed afterwards is active exactly when the call returned with an accepted snapshot,
  and draining otherwise; and a call that returns reports the outcome of the publication and has
  registered a node that did not exist.
\<close>

theorem warm_node_serves_after_publish:
  assumes "trim nid = nid"
  shows "case warmAndActivateRuntimeNode E nid i publish s of (s', r) \<Rightarrow>
    (\<forall>k. k \<noteq> nid \<longrightarrow> getRuntimeNode s' k = getRuntimeNode s k)
    \<and> (\<forall>n. getRuntimeNode s' nid = Some n \<and> getRuntimeNode s nid \<noteq> Some n
         \<longrightarrow> node_status n = (if r = Inr True then NodeActive else NodeDraining))
    \<and> (\<forall>b. r = Inr b \<longrightarrow> b = publish \<and> getRuntimeNode s nid = None \<and> getRuntimeNode s' nid \<noteq> None)"
proof -
  have status: "normalizeRuntimeNodeStatus (JStr ''draining'') = Inr NodeDraining"
    "normalizeRuntimeNodeStatus (JStr ''active'') = Inr NodeActive"
    by (simp_all add: normalizeRuntimeNodeStatus_def)
  define reg where "reg = registerRuntimeNode E \<lparr>rni_id = JStr nid, rni_url = wrn_url i,
     rni_status = JStr ''draining'', rni_region = wrn_region i, rni_labels = wrn_labels i,
     rni_identity = JUndefined, rni_host = JUndefined\<rparr>"
  define beat where "beat = (\<lambda>st. recordRuntimeNodeHeartbeat E (warm_heartbeat nid st i))"
  obtain s1 r1 where r1: "reg s = (s1, r1)" by fastforce
  obtain s2 r2 where r2: "beat ''draining'' s1 = (s2, r2)" by fastforce
  obtain s3 r3 where r3: "beat ''active'' s2 = (s3, r3)" by fastforce
  have one: "(\<exists>e. r1 = Inl e \<and> s1 = s) \<or> (\<exists>n. r1 = Inr n \<and> getRuntimeNode s nid = None
      \<and> node_status n = NodeDraining \<and> getRuntimeNode s1 = (getRuntimeNode s)(nid \<mapsto> n))"
    using register_run [OF r1 [unfolded reg_def]] status assms
    by (auto simp: newId_def bindE_Inr optionalId_def nonEmptyString_Inr split: option.splits)
  have beats: "(\<exists>e. r2 = Inl e \<and> s2 = s1) \<or> (\<exists>n. r2 = Inr n
      \<and> node_status n = NodeDraining \<and> getRuntimeNode s2 = (getRuntimeNode s1)(nid \<mapsto> n))"
    "(\<exists>e. r3 = Inl e \<and> s3 = s2) \<or> (\<exists>n. r3 = Inr n
      \<and> node_status n = NodeActive \<and> getRuntimeNode s3 = (getRuntimeNode s2)(nid \<mapsto> n))"
    using heartbeat_run [OF r2 [unfolded beat_def]] heartbeat_run [OF r3 [unfolded beat_def]] status
    by (auto simp: warm_heartbeat_def)
  have "warmAndActivateRuntimeNode E nid i publish s = (case r1 of Inl e \<Rightarrow> (s1, Inl e)
     | Inr _ \<Rightarrow> (case r2 of Inl e \<Rightarrow> (s2, Inl e)
       | Inr _ \<Rightarrow> if publish then (case r3 of Inl e \<Rightarrow> (s3, Inl e) | Inr _ \<Rightarrow> (s3, Inr publish))
                  else (s2, Inr publish)))"
    unfolding warmAndActivateRuntimeNode_def reg_def [symmetric] beat_def [symmetric] bindS_def r1
    using r2 r3 by (auto simp: beat_def split: sum.splits)
  with one beats show ?thesis by (auto split: sum.splits)
qed

subsection \<open>Examples\<close>

definition ex_policy_scale :: RuntimeAutoscalingPolicy where
  "ex_policy_scale = \<lparr>asp_minNodes = 1, asp_maxNodes = 10, asp_targetLoadRatio = 7 / 10,
     asp_scaleUpThreshold = None, asp_scaleDownThreshold = None, asp_scaleUpStep = None,
     asp_scaleDownStep = Some 2\<rparr>"

theorem autoscaling_in_bounds_witness:
  "(let d = decideRuntimeAutoscaling ex_compare ex_fleet ex_policy_scale in
      min_nodes ex_policy_scale \<le> dec_desiredNodes d \<and> dec_desiredNodes d \<le> max_nodes ex_policy_scale)
   \<and> dec_action (decideRuntimeAutoscaling ex_compare ex_fleet ex_policy_scale) = ScaleDown
   \<and> dec_candidateNodeIds (decideRuntimeAutoscaling ex_compare ex_fleet ex_policy_scale) = [''n3'', ''n2'']"
proof (intro conjI)
  show "let d = decideRuntimeAutoscaling ex_compare ex_fleet ex_policy_scale in
      min_nodes ex_policy_scale \<le> dec_desiredNodes d \<and> dec_desiredNodes d \<le> max_nodes ex_policy_scale"
    using autoscaling_in_bounds [OF ex_compare_consistent, of ex_fleet ex_policy_scale]
    unfolding Let_def by blast
  show "dec_action (decideRuntimeAutoscaling ex_compare ex_fleet ex_policy_scale) = ScaleDown" by code_simp
  show "dec_candidateNodeIds (decideRuntimeAutoscaling ex_compare ex_fleet ex_policy_scale) = [''n3'', ''n2'']"
    by code_simp
qed

definition ex_idle_fleet :: "nat \<Rightarrow> RuntimeNode list" where
  "ex_idle_fleet k = take (if k = 0 then 4 else if k = 1 then 2 else 1)
     [ex_node ''n1'' ''nrt'' ''shared'' 0, ex_node ''n2'' ''nrt'' ''shared'' 0,
      ex_node ''n3'' ''fra'' ''quiet'' 0, ex_node ''n4'' ''nrt'' ''shared'' 0]"

lemma ex_idle_fleet_follows: "active_count (ex_idle_fleet (Suc k))
    = dec_desiredNodes (decideRuntimeAutoscaling ex_compare (ex_idle_fleet k) ex_policy_scale)"
proof -
  have idle: "idle (ex_idle_fleet k)"
    by (auto simp: idle_def ex_idle_fleet_def list_all_iff ex_node_def)
  have "active_count (ex_idle_fleet 0) = 4" "active_count (ex_idle_fleet 1) = 2" by code_simp+
  moreover have "active_count (ex_idle_fleet j) = 1" if "2 \<le> j" for j
    using that by (simp add: ex_idle_fleet_def active_count_def ex_node_def)
  ultimately show ?thesis
    using idle_desired [OF idle, of ex_policy_scale ex_compare]
    by (cases "k = 0"; cases "k = 1") (simp_all add: ex_policy_scale_def down_threshold_def
        up_threshold_def min_nodes_def max_nodes_def scale_step_def)
qed

theorem idle_fleet_drains_witness:
  "active_count (ex_idle_fleet 0) = 4 \<and> active_count (ex_idle_fleet (Suc 2)) = 1"
proof
  show n: "active_count (ex_idle_fleet 0) = 4" by code_simp
  have "active_count (ex_idle_fleet (Suc 2)) = min_nodes ex_policy_scale"
  proof (rule idle_fleet_drains [where F = ex_idle_fleet and localeCompare = ex_compare])
    show "active_count (ex_idle_fleet (Suc k)) = dec_desiredNodes
        (decideRuntimeAutoscaling ex_compare (ex_idle_fleet k) ex_policy_scale)" for k
      by (rule ex_idle_fleet_follows)
    show "idle (ex_idle_fleet k)" for k
      by (auto simp: idle_def ex_idle_fleet_def list_all_iff ex_node_def)
  qed (simp_all add: n ex_policy_scale_def down_threshold_def
        up_threshold_def min_nodes_def max_nodes_def scale_step_def)
  then show "active_count (ex_idle_fleet (Suc 2)) = 1" by (simp add: ex_policy_scale_def min_nodes_def)
qed


definition ex_warm_node :: WarmRuntimeNode where
  "ex_warm_node = \<lparr>wrn_id = JStr ''n9'', wrn_url = JStr ''http://a/'', wrn_region = JUndefined,
     wrn_labels = JUndefined, wrn_version = None, wrn_capacity = JUndefined, wrn_load = JUndefined\<rparr>"

definition ex_activated :: "bool \<Rightarrow> Db" where
  "ex_activated publish = fst (warmAndActivateRuntimeNode ex_env ''n9'' ex_warm_node publish ex_state)"

theorem warm_node_serves_after_publish_witness:
  "getRuntimeNode (ex_activated True)
     = (getRuntimeNode ex_state)(''n9'' := getRuntimeNode (ex_activated True) ''n9'')
   \<and> map_option node_status (getRuntimeNode (ex_activated True) ''n9'') = Some NodeActive
   \<and> map_option node_status (getRuntimeNode (ex_activated False) ''n9'') = Some NodeDraining"
proof (intro conjI)
  have "trim ''n9'' = ''n9''" by code_simp
  from warm_node_serves_after_publish [OF this, where E = ex_env and i = ex_warm_node and publish = True and s = ex_state]
  have "\<forall>k. k \<noteq> ''n9'' \<longrightarrow> getRuntimeNode (ex_activated True) k = getRuntimeNode ex_state k"
    unfolding ex_activated_def case_prod_unfold by (rule conjunct1)
  then show "getRuntimeNode (ex_activated True)
      = (getRuntimeNode ex_state)(''n9'' := getRuntimeNode (ex_activated True) ''n9'')"
    by (auto simp: fun_eq_iff)
  show "map_option node_status (getRuntimeNode (ex_activated True) ''n9'') = Some NodeActive" by code_simp
  show "map_option node_status (getRuntimeNode (ex_activated False) ''n9'') = Some NodeDraining" by code_simp
qed

end
