(* ===== verification/Coordination.thy ===== *)
theory Coordination
  imports Autoscaling
begin

text \<open>
  Applying scaling decisions to machines: \<open>control-plane/fly-autoscaler.ts\<close>. Several controllers
  may run the reconciliation at once; they coordinate through a store of leases and cooldowns, in
  memory or in a database table. Times are integral milliseconds within the range of \<open>Date\<close> (8.64e15): beyond
  it \<open>toISOString\<close>, with which the tables fill \<open>updated_at\<close>, throws a \<open>RangeError\<close>, which is left out. The machines
  API is a parameter: an answer per request, or a rejection. Request URLs and headers, and the column \<open>updated_at\<close> of the table,
  which nothing reads, are left out; machine ids are strings.
\<close>

subsection \<open>The store\<close>

record LeaseRequest =
  lr_key :: string
  lr_holder :: string
  lr_ttlMs :: int
  lr_nowMs :: int

record CooldownState =
  cs_key :: string
  cs_action :: RuntimeAutoscalingAction
  cs_atMs :: int
  cs_untilMs :: int

record 's CoordinationStore =
  acquireLease :: "LeaseRequest \<Rightarrow> 's \<Rightarrow> 's \<times> bool"
  releaseLease :: "string \<Rightarrow> string \<Rightarrow> 's \<Rightarrow> 's"
  readCooldown :: "string \<Rightarrow> 's \<Rightarrow> CooldownState option"
  writeCooldown :: "CooldownState \<Rightarrow> 's \<Rightarrow> 's"

definition lease_expiry :: "LeaseRequest \<Rightarrow> int" where
  "lease_expiry r = lr_nowMs r + max 1 (lr_ttlMs r)"

paragraph \<open>In memory\<close>

record MemoryStore =
  ms_leases :: "string \<rightharpoonup> string \<times> int"
  ms_cooldowns :: "string \<rightharpoonup> CooldownState"

definition memory_empty :: MemoryStore where
  "memory_empty = \<lparr>ms_leases = Map.empty, ms_cooldowns = Map.empty\<rparr>"

definition memory_acquireLease :: "LeaseRequest \<Rightarrow> MemoryStore \<Rightarrow> MemoryStore \<times> bool" where
  "memory_acquireLease r s =
     (if (case ms_leases s (lr_key r) of None \<Rightarrow> False
          | Some (holder, expiresAtMs) \<Rightarrow> lr_nowMs r < expiresAtMs \<and> holder \<noteq> lr_holder r)
      then (s, False)
      else (s\<lparr>ms_leases := (ms_leases s)(lr_key r \<mapsto> (lr_holder r, lease_expiry r))\<rparr>, True))"

definition memory_releaseLease :: "string \<Rightarrow> string \<Rightarrow> MemoryStore \<Rightarrow> MemoryStore" where
  "memory_releaseLease key holder s =
     (if map_option fst (ms_leases s key) = Some holder
      then s\<lparr>ms_leases := (ms_leases s)(key := None)\<rparr> else s)"

definition createInMemoryFlyAutoscalerCoordinationStore :: "MemoryStore CoordinationStore" where
  "createInMemoryFlyAutoscalerCoordinationStore =
     \<lparr>acquireLease = memory_acquireLease, releaseLease = memory_releaseLease,
      readCooldown = (\<lambda>key s. ms_cooldowns s key),
      writeCooldown = (\<lambda>c s. s\<lparr>ms_cooldowns := (ms_cooldowns s)(cs_key c \<mapsto> c)\<rparr>)\<rparr>"

paragraph \<open>In the table \<open>fly_autoscaler_coordination\<close>\<close>

record CoordinationRow =
  row_lease_holder :: "string option"
  row_lease_expires_at_ms :: "int option"
  row_cooldown_action :: "RuntimeAutoscalingAction option"
  row_cooldown_at_ms :: "int option"
  row_cooldown_until_ms :: "int option"

text \<open>The table by its primary key.\<close>

type_synonym CoordinationTable = "string \<rightharpoonup> CoordinationRow"

definition table_acquireLease :: "LeaseRequest \<Rightarrow> CoordinationTable \<Rightarrow> CoordinationTable \<times> bool" where
  "table_acquireLease r t = (case t (lr_key r) of
       None \<Rightarrow> (t(lr_key r \<mapsto> \<lparr>row_lease_holder = Some (lr_holder r),
          row_lease_expires_at_ms = Some (lease_expiry r), row_cooldown_action = None,
          row_cooldown_at_ms = None, row_cooldown_until_ms = None\<rparr>), True)
     | Some row \<Rightarrow>
         if row_lease_holder row = Some (lr_holder r)
            \<or> (case row_lease_expires_at_ms row of None \<Rightarrow> True | Some e \<Rightarrow> e \<le> lr_nowMs r)
         then (t(lr_key r \<mapsto> row\<lparr>row_lease_holder := Some (lr_holder r),
                  row_lease_expires_at_ms := Some (lease_expiry r)\<rparr>), True)
         else (t, False))"

definition table_releaseLease :: "string \<Rightarrow> string \<Rightarrow> CoordinationTable \<Rightarrow> CoordinationTable" where
  "table_releaseLease key holder t = (case t key of
       None \<Rightarrow> t
     | Some row \<Rightarrow> if row_lease_holder row = Some holder
         then t(key \<mapsto> row\<lparr>row_lease_holder := None, row_lease_expires_at_ms := None\<rparr>) else t)"

definition cooldownStateFromRow :: "string \<Rightarrow> CoordinationRow option \<Rightarrow> CooldownState option" where
  "cooldownStateFromRow key row = (case row of
       None \<Rightarrow> None
     | Some r \<Rightarrow> (case (row_cooldown_action r, row_cooldown_at_ms r, row_cooldown_until_ms r) of
         (Some action, Some at_ms, Some until_ms) \<Rightarrow>
           Some \<lparr>cs_key = key, cs_action = action, cs_atMs = at_ms, cs_untilMs = until_ms\<rparr>
       | _ \<Rightarrow> None))"

definition table_writeCooldown :: "CooldownState \<Rightarrow> CoordinationTable \<Rightarrow> CoordinationTable" where
  "table_writeCooldown c t = t(cs_key c \<mapsto>
     (case t (cs_key c) of
        None \<Rightarrow> \<lparr>row_lease_holder = None, row_lease_expires_at_ms = None,
          row_cooldown_action = Some (cs_action c), row_cooldown_at_ms = Some (cs_atMs c),
          row_cooldown_until_ms = Some (cs_untilMs c)\<rparr>
      | Some row \<Rightarrow> row\<lparr>row_cooldown_action := Some (cs_action c), row_cooldown_at_ms := Some (cs_atMs c),
          row_cooldown_until_ms := Some (cs_untilMs c)\<rparr>))"

definition createSqliteFlyAutoscalerCoordinationStore :: "CoordinationTable CoordinationStore" where
  "createSqliteFlyAutoscalerCoordinationStore =
     \<lparr>acquireLease = table_acquireLease, releaseLease = table_releaseLease,
      readCooldown = (\<lambda>key t. cooldownStateFromRow key (t key)), writeCooldown = table_writeCooldown\<rparr>"

text \<open>The PostgreSQL statements are the same; \<open>returning\<close> yields a row when one was written.\<close>

definition createPostgresFlyAutoscalerCoordinationStore :: "CoordinationTable CoordinationStore" where
  "createPostgresFlyAutoscalerCoordinationStore =
     \<lparr>acquireLease = table_acquireLease, releaseLease = table_releaseLease,
      readCooldown = (\<lambda>key t. cooldownStateFromRow key (t key)), writeCooldown = table_writeCooldown\<rparr>"

subsection \<open>The contract of a store\<close>

text \<open>
  \<open>lease_of\<close> is the lease a store holds for a key, with its holder and expiry; \<open>inv\<close> is what the
  operations keep.
\<close>

locale coordination_store =
  fixes store :: "'s CoordinationStore"
    and lease_of :: "'s \<Rightarrow> string \<rightharpoonup> string \<times> int"
    and inv :: "'s \<Rightarrow> bool"
  assumes acquire_inv: "inv s \<Longrightarrow> inv (fst (acquireLease store r s))"
    and acquire_grants: "inv s \<Longrightarrow> snd (acquireLease store r s) \<longleftrightarrow>
      (case lease_of s (lr_key r) of None \<Rightarrow> True
       | Some (holder, expiry) \<Rightarrow> expiry \<le> lr_nowMs r \<or> holder = lr_holder r)"
    and acquire_lease: "inv s \<Longrightarrow> lease_of (fst (acquireLease store r s)) =
      (if snd (acquireLease store r s)
       then (lease_of s)(lr_key r \<mapsto> (lr_holder r, lease_expiry r)) else lease_of s)"
    and acquire_cooldown: "readCooldown store k (fst (acquireLease store r s)) = readCooldown store k s"
    and release_inv: "inv s \<Longrightarrow> inv (releaseLease store key holder s)"
    and release_lease: "inv s \<Longrightarrow> lease_of (releaseLease store key holder s) =
      (if map_option fst (lease_of s key) = Some holder then (lease_of s)(key := None) else lease_of s)"
    and release_cooldown: "readCooldown store k (releaseLease store key holder s) = readCooldown store k s"
    and write_inv: "inv s \<Longrightarrow> inv (writeCooldown store c s)"
    and write_lease: "inv s \<Longrightarrow> lease_of (writeCooldown store c s) = lease_of s"
    and write_cooldown: "readCooldown store k (writeCooldown store c s) =
      (if k = cs_key c then Some c else readCooldown store k s)"
begin

lemma lease_excludes:
  assumes "inv s" and "lease_of s (lr_key r) = Some (holder, expiry)"
    and "lr_nowMs r < expiry" and "holder \<noteq> lr_holder r"
  shows "\<not> snd (acquireLease store r s)"
  using acquire_grants [OF assms(1), of r] assms(2-) by simp

lemma release_frees:
  assumes "inv s" and "snd (acquireLease store r s)"
  shows "lease_of (releaseLease store (lr_key r) (lr_holder r) (fst (acquireLease store r s))) (lr_key r) = None"
  using assms by (simp add: release_lease acquire_inv acquire_lease)

end

definition memory_lease :: "MemoryStore \<Rightarrow> string \<rightharpoonup> string \<times> int" where
  "memory_lease s = ms_leases s"

interpretation memory: coordination_store createInMemoryFlyAutoscalerCoordinationStore memory_lease "\<lambda>_. True"
  by unfold_locales (auto simp: createInMemoryFlyAutoscalerCoordinationStore_def memory_lease_def
      memory_acquireLease_def memory_releaseLease_def split: option.splits)

definition table_lease :: "CoordinationTable \<Rightarrow> string \<rightharpoonup> string \<times> int" where
  "table_lease t key = (case t key of None \<Rightarrow> None
     | Some row \<Rightarrow> (case (row_lease_holder row, row_lease_expires_at_ms row) of
         (Some h, Some e) \<Rightarrow> Some (h, e) | _ \<Rightarrow> None))"

definition table_ok :: "CoordinationTable \<Rightarrow> bool" where
  "table_ok t \<longleftrightarrow> (\<forall>key row. t key = Some row \<longrightarrow>
     (row_lease_holder row = None \<longleftrightarrow> row_lease_expires_at_ms row = None))"

lemma table_okD: "table_ok t \<Longrightarrow> t key = Some row \<Longrightarrow>
    row_lease_holder row = None \<longleftrightarrow> row_lease_expires_at_ms row = None"
  by (simp add: table_ok_def)

lemma table_ok_upd: "table_ok t \<Longrightarrow> (row_lease_holder row = None \<longleftrightarrow> row_lease_expires_at_ms row = None)
    \<Longrightarrow> table_ok (t(key \<mapsto> row))"
  by (simp add: table_ok_def)

lemma table_store:
  "coordination_store createSqliteFlyAutoscalerCoordinationStore table_lease table_ok"
  unfolding createSqliteFlyAutoscalerCoordinationStore_def
proof (unfold_locales, goal_cases)
  case (1 s r)
  then show ?case by (auto simp: table_acquireLease_def intro!: table_ok_upd split: option.splits)
next
  case (2 s r)
  then show ?case
    by (cases "s (lr_key r)") (auto simp: table_acquireLease_def table_lease_def split: option.splits dest: table_okD)
next
  case (3 s r)
  then show ?case
    by (cases "s (lr_key r)") (auto simp: table_acquireLease_def table_lease_def fun_eq_iff split: option.splits)
next
  case (4 k r s)
  then show ?case
    by (cases "s (lr_key r)") (auto simp: table_acquireLease_def cooldownStateFromRow_def split: option.splits)
next
  case (5 s key holder)
  then show ?case by (auto simp: table_releaseLease_def intro!: table_ok_upd split: option.splits)
next
  case (6 s key holder)
  then show ?case
    by (cases "s key") (auto simp: table_releaseLease_def table_lease_def fun_eq_iff split: option.splits dest: table_okD)
next
  case (7 k key holder s)
  then show ?case
    by (cases "s key") (auto simp: table_releaseLease_def cooldownStateFromRow_def split: option.splits)
next
  case (8 s c)
  then show ?case by (auto simp: table_writeCooldown_def intro!: table_ok_upd dest: table_okD split: option.splits)
next
  case (9 s c)
  then show ?case by (auto simp: table_writeCooldown_def table_lease_def fun_eq_iff split: option.splits)
next
  case (10 k c s)
  then show ?case by (auto simp: table_writeCooldown_def cooldownStateFromRow_def split: option.splits)
qed

interpretation sqlite: coordination_store createSqliteFlyAutoscalerCoordinationStore table_lease table_ok
  by (rule table_store)

interpretation postgres: coordination_store createPostgresFlyAutoscalerCoordinationStore table_lease table_ok
  using table_store
  unfolding createSqliteFlyAutoscalerCoordinationStore_def createPostgresFlyAutoscalerCoordinationStore_def .

subsection \<open>Two stores that keep the contract give the same answers\<close>

datatype coordination_call =
    Acquire LeaseRequest | Release string string | ReadCooldown string | WriteCooldown CooldownState

datatype coordination_reply = Granted bool | Released | Cooldown "CooldownState option" | Written

fun answer_call :: "('s, 'm) CoordinationStore_scheme \<Rightarrow> coordination_call \<Rightarrow> 's \<Rightarrow> 's \<times> coordination_reply" where
  "answer_call st (Acquire r) s = (case acquireLease st r s of (s', b) \<Rightarrow> (s', Granted b))"
| "answer_call st (Release key holder) s = (releaseLease st key holder s, Released)"
| "answer_call st (ReadCooldown key) s = (s, Cooldown (readCooldown st key s))"
| "answer_call st (WriteCooldown c) s = (writeCooldown st c s, Written)"

fun replies :: "('s, 'm) CoordinationStore_scheme \<Rightarrow> coordination_call list \<Rightarrow> 's \<Rightarrow> coordination_reply list" where
  "replies st [] s = []"
| "replies st (c # cs) s = (case answer_call st c s of (s', r) \<Rightarrow> r # replies st cs s')"

locale two_stores = one: coordination_store storeA leaseA invA + two: coordination_store storeB leaseB invB
  for storeA :: "'a CoordinationStore" and leaseA invA
  and storeB :: "'b CoordinationStore" and leaseB invB
begin

definition agree :: "'a \<Rightarrow> 'b \<Rightarrow> bool" where
  "agree a b \<longleftrightarrow> invA a \<and> invB b \<and> leaseA a = leaseB b
     \<and> (\<forall>k. readCooldown storeA k a = readCooldown storeB k b)"

lemma agree_step:
  assumes "agree a b"
  shows "snd (answer_call storeA c a) = snd (answer_call storeB c b)
    \<and> agree (fst (answer_call storeA c a)) (fst (answer_call storeB c b))"
proof (cases c)
  case (Acquire r)
  have i: "invA a" "invB b" "leaseA a = leaseB b" "\<And>k. readCooldown storeA k a = readCooldown storeB k b"
    using assms by (auto simp: agree_def)
  obtain a' ra b' rb where ab: "acquireLease storeA r a = (a', ra)" "acquireLease storeB r b = (b', rb)"
    by (meson surj_pair)
  have "ra = rb"
    using one.acquire_grants [OF i(1), of r] two.acquire_grants [OF i(2), of r] i(3) ab by simp
  moreover have "leaseA a' = leaseB b'"
    using one.acquire_lease [OF i(1), of r] two.acquire_lease [OF i(2), of r] i(3) ab \<open>ra = rb\<close> by simp
  ultimately show ?thesis
    using one.acquire_inv [OF i(1), of r] two.acquire_inv [OF i(2), of r] i(4)
      one.acquire_cooldown [of _ r a] two.acquire_cooldown [of _ r b]
    by (simp add: Acquire ab agree_def)
qed (use assms in \<open>simp_all add: agree_def one.release_inv two.release_inv one.release_lease two.release_lease
  one.release_cooldown two.release_cooldown one.write_inv two.write_inv one.write_lease two.write_lease
  one.write_cooldown two.write_cooldown\<close>)

lemma agree_replies: "agree a b \<Longrightarrow> replies storeA cs a = replies storeB cs b"
proof (induction cs arbitrary: a b)
  case (Cons c cs)
  then show ?case using agree_step [of a b c] by (auto split: prod.splits)
qed simp

end

interpretation memory_sqlite: two_stores createInMemoryFlyAutoscalerCoordinationStore memory_lease "\<lambda>_. True"
    createSqliteFlyAutoscalerCoordinationStore table_lease table_ok
  ..

interpretation sqlite_postgres: two_stores createSqliteFlyAutoscalerCoordinationStore table_lease table_ok
    createPostgresFlyAutoscalerCoordinationStore table_lease table_ok
  ..

text \<open>
  C15. The database stores implement the in-memory store. Started empty, all three give the same reply to
  every call of every sequence of acquisitions, releases, and reads and writes of cooldowns, at whatever
  times, for whatever keys and holders; although the tables keep lease and cooldown in one row, which a
  release only blanks.
\<close>

theorem stores_agree:
  "replies createSqliteFlyAutoscalerCoordinationStore calls Map.empty
     = replies createInMemoryFlyAutoscalerCoordinationStore calls memory_empty
   \<and> replies createPostgresFlyAutoscalerCoordinationStore calls Map.empty
     = replies createInMemoryFlyAutoscalerCoordinationStore calls memory_empty"
proof -
  have "memory_sqlite.agree memory_empty Map.empty" "sqlite_postgres.agree Map.empty Map.empty"
    unfolding memory_sqlite.agree_def sqlite_postgres.agree_def
    by (simp_all add: memory_lease_def memory_empty_def table_lease_def table_ok_def fun_eq_iff cooldownStateFromRow_def
        createInMemoryFlyAutoscalerCoordinationStore_def createSqliteFlyAutoscalerCoordinationStore_def
        createPostgresFlyAutoscalerCoordinationStore_def)
  from memory_sqlite.agree_replies [OF this(1)] sqlite_postgres.agree_replies [OF this(2)]
  show ?thesis by simp
qed

subsection \<open>One reconciliation, step by step\<close>

record FlyMachine =
  fm_id :: string
  fm_state :: "string option"
  fm_region :: "string option"

datatype ActionType = CreateMachine | StopMachine

record FlyAutoscalerAction =
  act_type :: ActionType
  act_machineId :: "string option"
  act_ok :: bool
  act_status :: "int option"
  act_error :: "string option"

record FlyAutoscalerLeaseReport =
  lrep_key :: string
  lrep_holder :: string
  lrep_acquired :: bool

record FlyAutoscalerCooldownReport =
  crep_key :: string
  crep_active :: bool
  crep_untilMs :: "int option"
  crep_remainingMs :: "int option"

datatype SkippedReason = LeaseUnavailable | CooldownActive

record FlyAutoscalerReport =
  rep_decision :: RuntimeAutoscalingDecision
  rep_actions :: "FlyAutoscalerAction list"
  rep_skippedReason :: "SkippedReason option"
  rep_lease :: "FlyAutoscalerLeaseReport option"
  rep_cooldown :: "FlyAutoscalerCooldownReport option"

text \<open>\<open>ri_lease\<close> and \<open>ri_cooldown\<close> pair the optional key with \<open>ttlMs\<close> and \<open>durationMs\<close>;
  \<open>ri_coordinated\<close> says whether a store was passed.\<close>

record ReconcileInput =
  ri_appName :: string
  ri_decision :: RuntimeAutoscalingDecision
  ri_region :: "string option"
  ri_machines :: "FlyMachine list option"
  ri_dryRun :: bool
  ri_controllerId :: "string option"
  ri_lease :: "(string option \<times> int) option"
  ri_cooldown :: "(string option \<times> int) option"
  ri_coordinated :: bool

definition flyAutoscalerCoordinationKey :: "ReconcileInput \<Rightarrow> string" where
  "flyAutoscalerCoordinationKey i = ''fly:'' @ ri_appName i @ '':''
     @ (case ri_region i of None \<Rightarrow> ''global'' | Some r \<Rightarrow> r)"

definition key_or_default :: "string option \<Rightarrow> ReconcileInput \<Rightarrow> string" where
  "key_or_default k i = (case k of None \<Rightarrow> flyAutoscalerCoordinationKey i | Some key \<Rightarrow> key)"

definition holder_of :: "ReconcileInput \<Rightarrow> string" where
  "holder_of i = (case ri_controllerId i of None \<Rightarrow> ''default-controller'' | Some c \<Rightarrow> c)"

definition lease_request :: "ReconcileInput \<Rightarrow> int \<Rightarrow> LeaseRequest option" where
  "lease_request i nowMs = (if ri_coordinated i
     then map_option (\<lambda>(k, ttl). \<lparr>lr_key = key_or_default k i, lr_holder = holder_of i, lr_ttlMs = ttl,
       lr_nowMs = nowMs\<rparr>) (ri_lease i) else None)"

definition currentCooldownReport :: "'s CoordinationStore \<Rightarrow> ReconcileInput \<Rightarrow> int \<Rightarrow> 's
    \<Rightarrow> FlyAutoscalerCooldownReport option" where
  "currentCooldownReport st i nowMs s =
     (if \<not> ri_coordinated i then None
      else case ri_cooldown i of None \<Rightarrow> None
      | Some (k, _) \<Rightarrow> (let key = key_or_default k i in case readCooldown st key s of
            None \<Rightarrow> Some \<lparr>crep_key = key, crep_active = False, crep_untilMs = None, crep_remainingMs = None\<rparr>
          | Some c \<Rightarrow> if cs_untilMs c \<le> nowMs
              then Some \<lparr>crep_key = key, crep_active = False, crep_untilMs = None, crep_remainingMs = None\<rparr>
              else Some \<lparr>crep_key = key, crep_active = True, crep_untilMs = Some (cs_untilMs c),
                crep_remainingMs = Some (max 0 (cs_untilMs c - nowMs))\<rparr>))"

definition selectMachinesToStop :: "FlyMachine list \<Rightarrow> string list \<Rightarrow> int \<Rightarrow> FlyMachine list" where
  "selectMachinesToStop machines candidates cnt =
     take (nat (max 0 cnt)) (filter (\<lambda>m. fm_state m \<noteq> Some ''stopped''
       \<and> (candidates = [] \<or> fm_id m \<in> set candidates \<or> ''rt_'' @ fm_id m \<in> set candidates)) machines)"


text \<open>
  What a request to the machines API gives: a rejected promise, or a response, whose body parses as
  JSON or not. \<open>stringify\<close> is \<open>JSON.stringify\<close>.
\<close>

datatype fetch_answer = Rejected | Response bool int "json option" string

datatype machine_call = CallList | CallCreate | CallStop string

text \<open>\<open>None\<close> is a throw: of the request itself, or reading a property of a body \<open>null\<close>.\<close>

definition createMachine :: "(json \<Rightarrow> string) \<Rightarrow> fetch_answer \<Rightarrow> FlyAutoscalerAction option" where
  "createMachine stringify answer = (case answer of
       Rejected \<Rightarrow> None
     | Response ok status parsed txt \<Rightarrow>
         let body = (case parsed of None \<Rightarrow> JObj [] | Some v \<Rightarrow> v)
         in if body = JNull then None
            else Some \<lparr>act_type = CreateMachine,
              act_machineId = (case body of JObj r \<Rightarrow> (case getp r ''id'' of JStr s \<Rightarrow> Some s | _ \<Rightarrow> None) | _ \<Rightarrow> None),
              act_ok = ok, act_status = Some status, act_error = if ok then None else Some (stringify body)\<rparr>)"

definition stopMachine :: "string \<Rightarrow> fetch_answer \<Rightarrow> FlyAutoscalerAction option" where
  "stopMachine mid answer = (case answer of
       Rejected \<Rightarrow> None
     | Response ok status parsed txt \<Rightarrow> Some \<lparr>act_type = StopMachine, act_machineId = Some mid, act_ok = ok,
         act_status = Some status, act_error = if ok then None else Some txt\<rparr>)"

fun listed_machine :: "json \<Rightarrow> FlyMachine list" where
  "listed_machine (JObj r) = (case getp r ''id'' of
     JStr mid \<Rightarrow> if mid = [] then [] else
       [\<lparr>fm_id = mid, fm_state = (case getp r ''state'' of JStr s \<Rightarrow> Some s | _ \<Rightarrow> None),
         fm_region = (case getp r ''region'' of JStr s \<Rightarrow> Some s | _ \<Rightarrow> None)\<rparr>]
   | _ \<Rightarrow> [])"
| "listed_machine _ = []"

definition listMachines :: "fetch_answer \<Rightarrow> FlyMachine list option" where
  "listMachines answer = (case answer of
       Rejected \<Rightarrow> None
     | Response ok status parsed txt \<Rightarrow> Some (if \<not> ok then []
         else case parsed of Some (JArr vs) \<Rightarrow> concat (map listed_machine vs) | _ \<Rightarrow> []))"

text \<open>
  The reconciliation between two \<open>await\<close>s: what it has yet to do, with the local variables that are
  live. \<open>Working\<close> is about to start its next action and \<open>Waiting\<close> has sent the request for it. A
  promise that rejects after the lease was taken goes through \<open>finally\<close>.
\<close>

datatype job = JobCreate | JobStop FlyMachine

datatype outcome = Report FlyAutoscalerReport | Thrown

datatype phase =
    Begin
  | Acquiring int
  | Rechecking LeaseRequest
  | Listing "LeaseRequest option"
  | Working "LeaseRequest option" "job list" "FlyAutoscalerAction list"
  | Waiting "LeaseRequest option" job "job list" "FlyAutoscalerAction list"
  | Recording "LeaseRequest option" "FlyAutoscalerAction list"
  | Releasing LeaseRequest outcome
  | Finished outcome

definition lease_report :: "LeaseRequest \<Rightarrow> bool \<Rightarrow> FlyAutoscalerLeaseReport" where
  "lease_report r acquired = \<lparr>lrep_key = lr_key r, lrep_holder = lr_holder r, lrep_acquired = acquired\<rparr>"

definition report :: "ReconcileInput \<Rightarrow> FlyAutoscalerAction list \<Rightarrow> SkippedReason option
    \<Rightarrow> FlyAutoscalerLeaseReport option \<Rightarrow> FlyAutoscalerCooldownReport option \<Rightarrow> outcome" where
  "report i actions skipped lease cooldown = Report \<lparr>rep_decision = ri_decision i, rep_actions = actions,
     rep_skippedReason = skipped, rep_lease = lease, rep_cooldown = cooldown\<rparr>"

definition leave :: "LeaseRequest option \<Rightarrow> outcome \<Rightarrow> phase" where
  "leave lease out = (case lease of None \<Rightarrow> Finished out | Some r \<Rightarrow> Releasing r out)"

definition stop_jobs :: "ReconcileInput \<Rightarrow> FlyMachine list \<Rightarrow> job list" where
  "stop_jobs i machines = map JobStop
     (selectMachinesToStop machines (dec_candidateNodeIds (ri_decision i)) (dec_remove (ri_decision i)))"

definition start_work :: "ReconcileInput \<Rightarrow> LeaseRequest option \<Rightarrow> phase" where
  "start_work i lease = (case dec_action (ri_decision i) of
       ScaleUp \<Rightarrow> Working lease (replicate (nat (dec_add (ri_decision i))) JobCreate) []
     | ScaleDown \<Rightarrow> (case ri_machines i of
           Some machines \<Rightarrow> Working lease (stop_jobs i machines) [] | None \<Rightarrow> Listing lease)
     | ScaleNone \<Rightarrow> Working lease [] [])"

definition job_call :: "job \<Rightarrow> machine_call" where
  "job_call j = (case j of JobCreate \<Rightarrow> CallCreate | JobStop m \<Rightarrow> CallStop (fm_id m))"

definition dry_action :: "job \<Rightarrow> FlyAutoscalerAction" where
  "dry_action j = (case j of
     JobCreate \<Rightarrow> \<lparr>act_type = CreateMachine, act_machineId = None, act_ok = True, act_status = None, act_error = None\<rparr>
   | JobStop m \<Rightarrow> \<lparr>act_type = StopMachine, act_machineId = Some (fm_id m), act_ok = True, act_status = None,
       act_error = None\<rparr>)"

definition job_action :: "(json \<Rightarrow> string) \<Rightarrow> job \<Rightarrow> fetch_answer \<Rightarrow> FlyAutoscalerAction option" where
  "job_action stringify j answer = (case j of
     JobCreate \<Rightarrow> createMachine stringify answer | JobStop m \<Rightarrow> stopMachine (fm_id m) answer)"

text \<open>\<open>writeCooldown\<close>: the state to write at a time, and the report of having written it.\<close>

definition cooldown_to_write :: "ReconcileInput \<Rightarrow> int \<Rightarrow> CooldownState option" where
  "cooldown_to_write i nowMs = (if ri_coordinated i
     then map_option (\<lambda>(k, duration). \<lparr>cs_key = key_or_default k i, cs_action = dec_action (ri_decision i),
       cs_atMs = nowMs, cs_untilMs = nowMs + max 1 duration\<rparr>) (ri_cooldown i) else None)"

definition written_report :: "CooldownState \<Rightarrow> FlyAutoscalerCooldownReport" where
  "written_report c = \<lparr>crep_key = cs_key c, crep_active = False, crep_untilMs = Some (cs_untilMs c),
     crep_remainingMs = Some (cs_untilMs c - cs_atMs c)\<rparr>"

text \<open>
  One step at a time \<open>now\<close>, with the \<open>answer\<close> to the request it waits for: the next phase, the store,
  and the request it sends.
\<close>

fun ctl_step :: "'s CoordinationStore \<Rightarrow> (json \<Rightarrow> string) \<Rightarrow> ReconcileInput \<Rightarrow> int \<Rightarrow> fetch_answer
    \<Rightarrow> phase \<Rightarrow> 's \<Rightarrow> phase \<times> 's \<times> machine_call option" where
  "ctl_step st stringify i now answer Begin s =
     (if dec_action (ri_decision i) = ScaleNone then (Finished (report i [] None None None), s, None)
      else case currentCooldownReport st i now s of
        Some c \<Rightarrow> if crep_active c then (Finished (report i [] (Some CooldownActive) None (Some c)), s, None)
                  else (Acquiring now, s, None)
      | None \<Rightarrow> (Acquiring now, s, None))"
| "ctl_step st stringify i now answer (Acquiring nowMs) s = (case lease_request i nowMs of
       None \<Rightarrow> (start_work i None, s, None)
     | Some r \<Rightarrow> (case acquireLease st r s of (s', acquired) \<Rightarrow>
         if acquired then (Rechecking r, s', None)
         else (Finished (report i [] (Some LeaseUnavailable) (Some (lease_report r False)) None), s', None)))"
| "ctl_step st stringify i now answer (Rechecking r) s =
     (case currentCooldownReport st i now s of
        Some c \<Rightarrow> if crep_active c
          then (Releasing r (report i [] (Some CooldownActive) (Some (lease_report r True)) (Some c)), s, None)
          else (start_work i (Some r), s, None)
      | None \<Rightarrow> (start_work i (Some r), s, None))"
| "ctl_step st stringify i now answer (Listing lease) s = (case listMachines answer of
       None \<Rightarrow> (leave lease Thrown, s, Some CallList)
     | Some machines \<Rightarrow> (Working lease (stop_jobs i machines) [], s, Some CallList))"
| "ctl_step st stringify i now answer (Working lease [] actions) s = (Recording lease actions, s, None)"
| "ctl_step st stringify i now answer (Working lease (j # js) actions) s =
     (if ri_dryRun i then (Working lease js (actions @ [dry_action j]), s, None)
      else (Waiting lease j js actions, s, Some (job_call j)))"
| "ctl_step st stringify i now answer (Waiting lease j js actions) s = (case job_action stringify j answer of
       None \<Rightarrow> (leave lease Thrown, s, None)
     | Some a \<Rightarrow> (Working lease js (actions @ [a]), s, None))"
| "ctl_step st stringify i now answer (Recording lease actions) s =
     (let written = (if list_ex act_ok actions then cooldown_to_write i now else None);
          out = report i actions None (map_option (\<lambda>r. lease_report r True) lease) (map_option written_report written)
      in (leave lease out, (case written of None \<Rightarrow> s | Some c \<Rightarrow> writeCooldown st c s), None))"
| "ctl_step st stringify i now answer (Releasing r out) s =
     (Finished out, releaseLease st (lr_key r) (lr_holder r) s, None)"
| "ctl_step st stringify i now answer (Finished out) s = (Finished out, s, None)"

text \<open>Running one reconciliation alone, with a clock reading and an answer for each step.\<close>

fun reconcileFlyMachinesAutoscaling :: "'s CoordinationStore \<Rightarrow> (json \<Rightarrow> string) \<Rightarrow> ReconcileInput
    \<Rightarrow> (int \<times> fetch_answer) list \<Rightarrow> phase \<Rightarrow> 's \<Rightarrow> phase \<times> 's \<times> machine_call list" where
  "reconcileFlyMachinesAutoscaling st stringify i [] ph s = (ph, s, [])"
| "reconcileFlyMachinesAutoscaling st stringify i ((now, answer) # rest) ph s =
     (case ctl_step st stringify i now answer ph s of (ph', s', call) \<Rightarrow>
      case reconcileFlyMachinesAutoscaling st stringify i rest ph' s' of (ph'', s'', calls) \<Rightarrow>
        (ph'', s'', (case call of None \<Rightarrow> calls | Some c \<Rightarrow> c # calls)))"


subsection \<open>Controllers side by side\<close>

text \<open>
  Any number of controllers over one store, each running one reconciliation after the other, their
  steps interleaved at will. The clock only moves forward; a step may use a reading of the clock from
  before. \<open>who p i\<close> says which inputs a controller may be called with. With \<open>timely\<close>, a controller
  that holds a lease takes its steps before the lease expires.
\<close>

record 's fleet =
  fl_clock :: int
  fl_store :: 's
  fl_procs :: "nat \<Rightarrow> (ReconcileInput \<times> phase) option"

fun held :: "phase \<Rightarrow> LeaseRequest option" where
  "held (Rechecking r) = Some r"
| "held (Listing lease) = lease"
| "held (Working lease js as) = lease"
| "held (Waiting lease j js as) = lease"
| "held (Recording lease as) = lease"
| "held (Releasing r out) = Some r"
| "held _ = None"

inductive fleet_step :: "'s CoordinationStore \<Rightarrow> (json \<Rightarrow> string) \<Rightarrow> (nat \<Rightarrow> ReconcileInput \<Rightarrow> bool) \<Rightarrow> bool
    \<Rightarrow> 's fleet \<Rightarrow> (nat \<times> int \<times> machine_call) option \<Rightarrow> 's fleet \<Rightarrow> bool"
  for st stringify who timely where
  fleet_start: "who p i \<Longrightarrow> (\<And>j ph. fl_procs f p = Some (j, ph) \<Longrightarrow> \<exists>out. ph = Finished out) \<Longrightarrow>
     fleet_step st stringify who timely f None (f\<lparr>fl_procs := (fl_procs f)(p \<mapsto> (i, Begin))\<rparr>)"
| fleet_move: "fl_procs f p = Some (i, ph) \<Longrightarrow> fl_clock f \<le> c \<Longrightarrow> t \<le> c \<Longrightarrow>
     (\<And>r. timely \<Longrightarrow> held ph = Some r \<Longrightarrow> c < lease_expiry r) \<Longrightarrow>
     ctl_step st stringify i t answer ph (fl_store f) = (ph', s', call) \<Longrightarrow>
     fleet_step st stringify who timely f (map_option (\<lambda>k. (p, c, k)) call)
       \<lparr>fl_clock = c, fl_store = s', fl_procs = (fl_procs f)(p \<mapsto> (i, ph'))\<rparr>"

inductive fleet_reachable :: "'s CoordinationStore \<Rightarrow> (json \<Rightarrow> string) \<Rightarrow> (nat \<Rightarrow> ReconcileInput \<Rightarrow> bool) \<Rightarrow> bool
    \<Rightarrow> 's \<Rightarrow> 's fleet \<Rightarrow> bool"
  for st stringify who timely s0 where
  fleet_init: "fleet_reachable st stringify who timely s0 \<lparr>fl_clock = c, fl_store = s0, fl_procs = Map.empty\<rparr>"
| fleet_next: "fleet_reachable st stringify who timely s0 f \<Longrightarrow> fleet_step st stringify who timely f e f' \<Longrightarrow>
     fleet_reachable st stringify who timely s0 f'"

inductive_cases fleet_stepE: "fleet_step st stringify who timely f e f'"

definition holders_apart :: "(nat \<Rightarrow> ReconcileInput \<Rightarrow> bool) \<Rightarrow> bool" where
  "holders_apart who \<longleftrightarrow> (\<forall>p q i j. who p i \<and> who q j \<and> p \<noteq> q \<longrightarrow> holder_of i \<noteq> holder_of j)"

definition guarded :: "(nat \<Rightarrow> ReconcileInput \<Rightarrow> bool) \<Rightarrow> bool" where
  "guarded who \<longleftrightarrow> (\<forall>p i. who p i \<longrightarrow> ri_coordinated i \<and> (\<exists>kl ttl kc d. ri_lease i = Some (kl, ttl)
     \<and> ri_cooldown i = Some (kc, d) \<and> key_or_default kl i = key_or_default kc i))"

definition cooldown_key :: "ReconcileInput \<Rightarrow> string" where
  "cooldown_key i = key_or_default (case ri_cooldown i of None \<Rightarrow> None | Some (k, _) \<Rightarrow> k) i"

lemma lease_request_Some: "lease_request i n = Some r \<Longrightarrow> lr_holder r = holder_of i \<and> lr_nowMs r = n"
  by (auto simp: lease_request_def split: if_splits)

lemma held_start_work [simp]: "held (start_work i lease) = lease"
  by (simp add: start_work_def split: RuntimeAutoscalingAction.splits option.splits)

lemma held_leave: "held (leave lease out) = lease"
  by (cases lease) (simp_all add: leave_def)

definition early :: "phase \<Rightarrow> bool" where
  "early ph \<longleftrightarrow> ph = Begin \<or> (\<exists>n. ph = Acquiring n) \<or> (\<exists>out. ph = Finished out)"

text \<open>The phases between the second look at the cooldown and writing it.\<close>

fun working :: "phase \<Rightarrow> bool" where
  "working (Listing lease) = True"
| "working (Working lease js as) = True"
| "working (Waiting lease j js as) = True"
| "working (Recording lease as) = True"
| "working _ = False"

lemma working_start_work [simp]: "working (start_work i lease)"
  by (simp add: start_work_def split: RuntimeAutoscalingAction.splits option.splits)

lemma working_leave [simp]: "\<not> working (leave lease out)"
  by (simp add: leave_def split: option.splits)

lemma start_work_not_Acquiring [simp]: "start_work i lease \<noteq> Acquiring n" "leave lease out \<noteq> Acquiring n"
  by (simp_all add: start_work_def leave_def split: RuntimeAutoscalingAction.splits option.splits)

text \<open>Leases are known by their holders: the invariant of the mutual exclusion.\<close>

definition leases_held :: "('s \<Rightarrow> string \<rightharpoonup> string \<times> int) \<Rightarrow> (nat \<Rightarrow> ReconcileInput \<Rightarrow> bool) \<Rightarrow> 's fleet \<Rightarrow> bool" where
  "leases_held lease_of who f \<longleftrightarrow> (\<forall>p i ph. fl_procs f p = Some (i, ph) \<longrightarrow> who p i
     \<and> (\<forall>n. ph = Acquiring n \<longrightarrow> n \<le> fl_clock f)
     \<and> (\<forall>r. held ph = Some r \<longrightarrow> lr_holder r = holder_of i
          \<and> (lease_expiry r \<le> fl_clock f
             \<or> lease_of (fl_store f) (lr_key r) = Some (lr_holder r, lease_expiry r))))"

context coordination_store
begin

text \<open>What one step does to the leases.\<close>

lemma ctl_step_lease:
  assumes "inv s" and "ctl_step store stringify i now answer ph s = (ph', s', call)"
  shows "inv s' \<and> (
     (held ph' = held ph \<or> held ph' = None) \<and> (ph' = Acquiring now \<or> (\<forall>n. ph' \<noteq> Acquiring n)) \<and> lease_of s' = lease_of s
   \<or> (\<exists>n r. ph = Acquiring n \<and> lease_request i n = Some r \<and> ph' = Rechecking r \<and> snd (acquireLease store r s)
        \<and> lease_of s' = (lease_of s)(lr_key r \<mapsto> (lr_holder r, lease_expiry r)))
   \<or> (\<exists>r out. ph = Releasing r out \<and> ph' = Finished out \<and> lease_of s' =
        (if map_option fst (lease_of s (lr_key r)) = Some (lr_holder r) then (lease_of s)(lr_key r := None)
         else lease_of s)))"
proof (cases ph)
  case Begin
  then show ?thesis using assms by (auto split: option.splits if_splits)
next
  case (Acquiring n)
  show ?thesis
  proof (cases "lease_request i n")
    case None
    with Acquiring assms show ?thesis by auto
  next
    case (Some r)
    obtain s1 b where "acquireLease store r s = (s1, b)" by fastforce
    with Acquiring Some assms acquire_inv [OF assms(1), of r] acquire_lease [OF assms(1), of r] show ?thesis
      by (cases b) auto
  qed
next
  case (Rechecking r)
  then show ?thesis using assms by (auto split: option.splits if_splits)
next
  case (Listing lease)
  then show ?thesis using assms by (auto split: option.splits simp: held_leave)
next
  case (Working lease js as)
  then show ?thesis using assms by (cases js) (auto split: if_splits)
next
  case (Waiting lease j js as)
  then show ?thesis using assms by (auto split: option.splits simp: held_leave)
next
  case (Recording lease as)
  then show ?thesis using assms by (auto simp: Let_def held_leave write_inv write_lease split: option.splits)
next
  case (Releasing r out)
  then show ?thesis using assms by (auto simp: release_inv release_lease)
next
  case (Finished out)
  then show ?thesis using assms by auto
qed

end


lemma leases_heldD:
  assumes "leases_held lease_of who f" and "fl_procs f p = Some (i, ph)"
  shows "who p i" and "ph = Acquiring n \<Longrightarrow> n \<le> fl_clock f"
    and "held ph = Some r \<Longrightarrow> lr_holder r = holder_of i"
    and "held ph = Some r \<Longrightarrow> lease_expiry r \<le> fl_clock f
       \<or> lease_of (fl_store f) (lr_key r) = Some (lr_holder r, lease_expiry r)"
  using assms unfolding leases_held_def by blast+

context coordination_store
begin

text \<open>The lease of a controller \<open>q\<close> survives a step of another one, or has expired.\<close>

lemma other_lease_kept:
  assumes "inv s" and "ctl_step store stringify i t answer ph s = (ph', s', call)"
    and "holder_of i \<noteq> h" and "\<And>n. ph = Acquiring n \<Longrightarrow> n \<le> c" and "\<And>r. held ph = Some r \<Longrightarrow> lr_holder r = holder_of i"
    and "lease_of s key = Some (h, e)"
  shows "e \<le> c \<or> lease_of s' key = Some (h, e)"
proof -
  from ctl_step_lease [OF assms(1,2)] consider (same) "lease_of s' = lease_of s"
    | (acquired) n r where "ph = Acquiring n" "lease_request i n = Some r" "snd (acquireLease store r s)"
        "lease_of s' = (lease_of s)(lr_key r \<mapsto> (lr_holder r, lease_expiry r))"
    | (released) r out where "ph = Releasing r out" "lease_of s' =
        (if map_option fst (lease_of s (lr_key r)) = Some (lr_holder r) then (lease_of s)(lr_key r := None)
         else lease_of s)"
    by blast
  then show ?thesis
  proof cases
    case same
    with assms(6) show ?thesis by simp
  next
    case acquired
    show ?thesis
    proof (cases "lr_key r = key")
      case True
      with acquire_grants [OF assms(1), of r] acquired(3) assms(6)
      have "e \<le> lr_nowMs r \<or> h = lr_holder r" by simp
      with lease_request_Some [OF acquired(2)] assms(3) assms(4) [OF acquired(1)] show ?thesis by auto
    next
      case False
      with acquired(4) assms(6) show ?thesis by simp
    qed
  next
    case released
    with assms(3,5,6) show ?thesis by auto
  qed
qed

lemma fleet_inv:
  assumes "fleet_reachable store stringify who timely s0 f" and "inv s0" and "holders_apart who"
  shows "inv (fl_store f) \<and> leases_held lease_of who f"
  using assms(1)
proof (induction rule: fleet_reachable.induct)
  case (fleet_init c)
  then show ?case by (simp add: leases_held_def assms(2))
next
  case (fleet_next f e f')
  then have I: "inv (fl_store f)" and L: "leases_held lease_of who f" by auto
  note LD = leases_heldD [OF L]
  from fleet_next(2) show ?case
  proof cases
    case (fleet_start p i)
    have "leases_held lease_of who f'"
      unfolding leases_held_def
    proof (intro allI impI, goal_cases)
      case (1 q j qh)
      then show ?case using fleet_start(2,3) LD [of q j qh] by (cases "q = p") auto
    qed
    with I fleet_start(2) show ?thesis by simp
  next
    case (fleet_move p i ph c t answer ph' s' call)
    note step = ctl_step_lease [OF I fleet_move(7)]
    have "leases_held lease_of who f'"
      unfolding leases_held_def
    proof (intro allI impI)
      fix q j qh
      assume q: "fl_procs f' q = Some (j, qh)"
      show "who q j \<and> (\<forall>n. qh = Acquiring n \<longrightarrow> n \<le> fl_clock f')
        \<and> (\<forall>r. held qh = Some r \<longrightarrow> lr_holder r = holder_of j
          \<and> (lease_expiry r \<le> fl_clock f' \<or> lease_of (fl_store f') (lr_key r) = Some (lr_holder r, lease_expiry r)))"
      proof (cases "q = p")
        case True
        with q fleet_move have j: "j = i" "qh = ph'" "q = p" by auto
        have old: "lease_expiry r \<le> c \<or> lease_of (fl_store f) (lr_key r) = Some (lr_holder r, lease_expiry r)"
          if "held ph = Some r" for r
          using LD(4) [OF fleet_move(3) that] fleet_move(4) by auto
        have "lr_holder r = holder_of i \<and> (lease_expiry r \<le> c \<or> lease_of s' (lr_key r) = Some (lr_holder r, lease_expiry r))"
          if r: "held ph' = Some r" for r
          using conjunct2 [OF step] old [of r] LD(3) [OF fleet_move(3), of r] r
          by (elim disjE conjE exE) (auto dest: lease_request_Some)
        moreover have "n \<le> c" if "ph' = Acquiring n" for n
          using conjunct2 [OF step] fleet_move(5) that by auto
        ultimately show ?thesis using LD(1) [OF fleet_move(3)] fleet_move(2) j by auto
      next
        case False
        with q fleet_move have q': "fl_procs f q = Some (j, qh)" by simp
        have apart: "holder_of i \<noteq> holder_of j"
          using assms(3) False LD(1) [OF fleet_move(3)] LD(1) [OF q'] unfolding holders_apart_def by metis
        have "lease_expiry r \<le> c \<or> lease_of s' (lr_key r) = Some (lr_holder r, lease_expiry r)"
          if r: "held qh = Some r" for r
          using LD(3,4) [OF q' r] other_lease_kept [OF I fleet_move(7), of "lr_holder r" "fl_clock f" "lr_key r" "lease_expiry r"]
            apart LD(2,3) [OF fleet_move(3)] fleet_move(4) by auto
        then show ?thesis using LD [OF q'] fleet_move(2,4) by fastforce
      qed
    qed
    then show ?thesis using step fleet_move(2) by simp
  qed
qed

lemma one_holder:
  assumes "fleet_reachable store stringify who timely s0 f" and "inv s0" and "holders_apart who"
    and "fl_procs f p = Some (i, ph)" and "held ph = Some r"
    and "fl_procs f q = Some (j, qh)" and "held qh = Some r'"
    and "p \<noteq> q" and "lr_key r = lr_key r'"
  shows "lease_expiry r \<le> fl_clock f \<or> lease_expiry r' \<le> fl_clock f"
proof -
  have L: "leases_held lease_of who f" using fleet_inv [OF assms(1-3)] ..
  have "holder_of i \<noteq> holder_of j"
    using assms(3,8) leases_heldD(1) [OF L assms(4)] leases_heldD(1) [OF L assms(6)]
    unfolding holders_apart_def by metis
  with leases_heldD(3,4) [OF L assms(4) assms(5)] leases_heldD(3,4) [OF L assms(6) assms(7)] assms(9)
  show ?thesis by auto
qed

end


lemma call_is_working: "ctl_step st stringify i t answer ph s = (ph', s', Some k) \<Longrightarrow> working ph"
  by (cases "(st, stringify, i, t, answer, ph, s)" rule: ctl_step.cases)
    (auto split: if_splits option.splits prod.splits)

definition all_held :: "('s \<Rightarrow> string \<Rightarrow> CooldownState option) \<Rightarrow> 's fleet \<Rightarrow> bool" where
  "all_held cooldown f \<longleftrightarrow> (\<forall>p i ph. fl_procs f p = Some (i, ph) \<longrightarrow> (early ph \<or> held ph \<noteq> None)
     \<and> (\<forall>r. held ph = Some r \<longrightarrow> lr_key r = cooldown_key i)
     \<and> (\<forall>r cd. working ph \<and> held ph = Some r \<and> cooldown (fl_store f) (lr_key r) = Some cd
          \<longrightarrow> lease_expiry r \<le> fl_clock f \<or> cs_untilMs cd \<le> fl_clock f))"

lemma guarded_request:
  assumes "guarded who" and "who p i"
  shows "\<exists>r. lease_request i n = Some r \<and> lr_key r = cooldown_key i"
  using assms unfolding guarded_def lease_request_def cooldown_key_def by fastforce

lemma cooldown_to_write_key: "cooldown_to_write i n = Some c \<Longrightarrow> cs_key c = cooldown_key i"
  by (auto simp: cooldown_to_write_def cooldown_key_def split: if_splits)

lemma early_simps [simp]: "early Begin" "early (Acquiring n)" "early (Finished out)" "early (leave None out)"
  by (auto simp: early_def leave_def)

context coordination_store
begin

lemma recheck_quiet:
  assumes "guarded who" and "who p i" and "readCooldown store (cooldown_key i) s = Some cd"
    and "currentCooldownReport store i t s = None \<or> (\<exists>c. currentCooldownReport store i t s = Some c \<and> \<not> crep_active c)"
  shows "cs_untilMs cd \<le> t"
  using assms unfolding guarded_def currentCooldownReport_def cooldown_key_def
  by (fastforce simp: Let_def split: if_splits)

text \<open>What one step of a guarded controller does to the cooldowns, and when it may start to work.\<close>

lemma ctl_step_cooldown:
  assumes "guarded who" and "who p i" and "ctl_step store stringify i t answer ph s = (ph', s', call)"
    and "early ph \<or> held ph \<noteq> None"
  shows "(early ph' \<or> held ph' \<noteq> None)
    \<and> (\<forall>r. held ph' = Some r \<longrightarrow> held ph = Some r \<or> lr_key r = cooldown_key i)
    \<and> (working ph' \<longrightarrow> (\<forall>k. readCooldown store k s' = readCooldown store k s)
         \<and> (working ph \<and> held ph' = held ph
            \<or> (\<forall>cd. readCooldown store (cooldown_key i) s = Some cd \<longrightarrow> cs_untilMs cd \<le> t)))
    \<and> ((\<forall>k. readCooldown store k s' = readCooldown store k s)
       \<or> (working ph \<and> (\<forall>k. k \<noteq> cooldown_key i \<longrightarrow> readCooldown store k s' = readCooldown store k s)))"
proof (cases ph)
  case (Acquiring n)
  obtain r where r: "lease_request i n = Some r" "lr_key r = cooldown_key i"
    using guarded_request [OF assms(1,2)] by blast
  obtain s1 b where "acquireLease store r s = (s1, b)" by fastforce
  with assms(3) r Acquiring acquire_cooldown [of _ r s] show ?thesis by (cases b) auto
next
  case (Rechecking r)
  then show ?thesis using assms(3) recheck_quiet [OF assms(1,2)]
    by (auto split: option.splits if_splits)
next
  case (Recording lease as)
  then show ?thesis using assms(3,4) cooldown_to_write_key [of i t]
    by (auto simp: Let_def write_cooldown held_leave early_def split: option.splits if_splits)
next
  case (Working lease js as)
  then show ?thesis using assms(3,4) by (cases js) (auto simp: early_def split: if_splits)
qed (use assms(3,4) in \<open>auto simp: held_leave release_cooldown early_def split: option.splits if_splits\<close>)

end


lemma quietD:
  assumes "all_held cooldown f" and "fl_procs f p = Some (i, ph)"
  shows "early ph \<or> held ph \<noteq> None" and "held ph = Some r \<Longrightarrow> lr_key r = cooldown_key i"
    and "working ph \<Longrightarrow> held ph = Some r \<Longrightarrow> cooldown (fl_store f) (lr_key r) = Some cd
          \<Longrightarrow> lease_expiry r \<le> fl_clock f \<or> cs_untilMs cd \<le> fl_clock f"
  using assms unfolding all_held_def by blast+

lemma quietI:
  assumes "\<And>p i ph. fl_procs f p = Some (i, ph) \<Longrightarrow> early ph \<or> held ph \<noteq> None"
    and "\<And>p i ph r. fl_procs f p = Some (i, ph) \<Longrightarrow> held ph = Some r \<Longrightarrow> lr_key r = cooldown_key i"
    and "\<And>p i ph r cd. fl_procs f p = Some (i, ph) \<Longrightarrow> working ph \<Longrightarrow> held ph = Some r \<Longrightarrow>
      cooldown (fl_store f) (lr_key r) = Some cd \<Longrightarrow> lease_expiry r \<le> fl_clock f \<or> cs_untilMs cd \<le> fl_clock f"
  shows "all_held cooldown f"
  using assms unfolding all_held_def by blast

abbreviation cooldowns :: "('s, 'm) CoordinationStore_scheme \<Rightarrow> 's \<Rightarrow> string \<Rightarrow> CooldownState option" where
  "cooldowns st s k \<equiv> readCooldown st k s"

context coordination_store
begin

lemma fleet_quiet:
  assumes "fleet_reachable store stringify who True s0 f" and "inv s0" and "holders_apart who" and "guarded who"
  shows "all_held (cooldowns store) f"
  using assms(1)
proof (induction rule: fleet_reachable.induct)
  case (fleet_init c)
  show ?case by (rule quietI) auto
next
  case (fleet_next f e f')
  have I: "inv (fl_store f)" and L: "leases_held lease_of who f"
    using fleet_inv [OF fleet_next(1) assms(2,3)] by auto
  note LD = leases_heldD [OF L] and QD = quietD [OF fleet_next(3)]
  from fleet_next(2) show ?case
  proof cases
    case (fleet_start p i)
    show ?thesis
      by (rule quietI) (use fleet_start(2) QD in \<open>auto split: if_splits\<close>)
  next
    case (fleet_move p i ph c t answer ph' s' call)
    note p = fleet_move(3)
    note step = ctl_step_cooldown [OF assms(4) LD(1) [OF p] fleet_move(7) QD(1) [OF p]]
    have procs: "fl_procs f' q = (if q = p then Some (i, ph') else fl_procs f q)" for q
      using fleet_move(2) by simp
    show ?thesis
    proof (rule quietI)
      fix q j qh assume q: "fl_procs f' q = Some (j, qh)"
      then show "early qh \<or> held qh \<noteq> None" using procs [of q] QD(1) [of q] step by (auto split: if_splits)
      fix r assume r: "held qh = Some r"
      show key: "lr_key r = cooldown_key j"
        using q r procs [of q] QD(2) step p by (auto split: if_splits)
      fix cd assume w: "working qh" and "cooldowns store (fl_store f') (lr_key r) = Some cd"
      then have cd: "readCooldown store (lr_key r) s' = Some cd" using fleet_move(2) by simp
      have "lease_expiry r \<le> c \<or> cs_untilMs cd \<le> c"
      proof (cases "q = p")
        case True
        with q procs have j: "j = i" "qh = ph'" by auto
        with w step have "readCooldown store (lr_key r) (fl_store f) = Some cd"
          and "working ph \<and> held ph' = held ph
            \<or> (\<forall>cd. readCooldown store (cooldown_key i) (fl_store f) = Some cd \<longrightarrow> cs_untilMs cd \<le> t)"
          using cd by auto
        then show ?thesis using QD(3) [OF p, of r cd] r j key fleet_move(4,5) by auto
      next
        case False
        with q procs have q': "fl_procs f q = Some (j, qh)" by auto
        show ?thesis
        proof (cases "readCooldown store (lr_key r) (fl_store f) = Some cd")
          case True
          then show ?thesis using QD(3) [OF q' w r True] fleet_move(4) by auto
        next
          case changed: False
          with step cd have "working ph" "lr_key r = cooldown_key i" by metis+
          with QD(1,2) [OF p] obtain r' where r': "held ph = Some r'" "lr_key r' = lr_key r"
            by (cases "held ph") (auto simp: early_def)
          have "lease_expiry r' \<le> fl_clock f \<or> lease_expiry r \<le> fl_clock f"
            by (rule one_holder [OF fleet_next(1) assms(2,3) p r'(1) q' r]) (use False r' in auto)
          with fleet_move(6) [OF _ r'(1)] fleet_move(4) show ?thesis by auto
        qed
      qed
      then show "lease_expiry r \<le> fl_clock f' \<or> cs_untilMs cd \<le> fl_clock f'" using fleet_move(2) by simp
    qed
  qed
qed

lemma call_after_cooldown:
  assumes "fleet_reachable store stringify who True s0 f" and "inv s0" and "holders_apart who" and "guarded who"
    and "fleet_step store stringify who True f (Some (p, c, call)) f'"
  shows "\<exists>i ph. fl_procs f p = Some (i, ph) \<and>
    (\<forall>cd. readCooldown store (cooldown_key i) (fl_store f) = Some cd \<longrightarrow> cs_untilMs cd \<le> c)"
  using assms(5)
proof cases
  case (fleet_move q i ph c' t answer ph' s' k)
  then have k: "k = Some call" and "q = p" "c' = c" by (cases k; simp)+
  with fleet_move have p: "fl_procs f p = Some (i, ph)" and c: "fl_clock f \<le> c" by auto
  note QD = quietD [OF fleet_quiet [OF assms(1-4)] p]
  from call_is_working fleet_move k have w: "working ph" by metis
  then obtain r where r: "held ph = Some r" using QD(1) by (cases "held ph") (auto simp: early_def)
  have "cs_untilMs cd \<le> c" if "readCooldown store (cooldown_key i) (fl_store f) = Some cd" for cd
    using QD(3) [OF w r] QD(2) [OF r] that fleet_move(6) [OF _ r] c \<open>c' = c\<close> by fastforce
  with p show ?thesis by blast
qed

end


text \<open>
  C16. Leases exclude each other. Whatever the interleaving of any number of controllers over the
  database store, as long as no two controllers have the same holder id (the code does not enforce it:
  controllers without an id collide, below): two controllers between taking and returning the
  lease for one key never both hold it unexpired, however late their requests and clock readings are.
\<close>

theorem lease_excludes_others:
  assumes "fleet_reachable createSqliteFlyAutoscalerCoordinationStore stringify who timely Map.empty f"
    and "holders_apart who"
    and "fl_procs f p = Some (i, ph)" and "held ph = Some r"
    and "fl_procs f q = Some (j, qh)" and "held qh = Some r'"
    and "p \<noteq> q" and "lr_key r = lr_key r'"
  shows "lease_expiry r \<le> fl_clock f \<or> lease_expiry r' \<le> fl_clock f"
  using sqlite.one_holder [OF assms(1) _ assms(2-8)] by (simp add: table_ok_def)

text \<open>
  C17. Cooldowns are kept across controllers, under three hypotheses that the code does not enforce: no two
  controllers have the same holder id, every controller has a lease and a cooldown under the same key, and
  takes the steps it makes under a lease before the lease expires. Then no request
  is sent to the machines API while a cooldown is running: at every request in every interleaving, a
  cooldown stored for the controller's key is over.
\<close>

theorem cooldown_is_kept:
  assumes "fleet_reachable createSqliteFlyAutoscalerCoordinationStore stringify who True Map.empty f"
    and "holders_apart who" and "guarded who"
    and "fleet_step createSqliteFlyAutoscalerCoordinationStore stringify who True f (Some (p, c, call)) f'"
  shows "\<exists>i ph. fl_procs f p = Some (i, ph) \<and> (\<forall>cd.
    readCooldown createSqliteFlyAutoscalerCoordinationStore (cooldown_key i) (fl_store f) = Some cd
      \<longrightarrow> cs_untilMs cd \<le> c)"
  by (rule sqlite.call_after_cooldown [OF assms(1) _ assms(2-4)]) (simp add: table_ok_def)

subsection \<open>Examples\<close>

definition ex_decision :: "int \<Rightarrow> RuntimeAutoscalingDecision" where
  "ex_decision n = decision ScaleUp LoadAboveThreshold 2 (2 + n) 1 []"

definition ex_controller :: "string option \<Rightarrow> ReconcileInput" where
  "ex_controller c = \<lparr>ri_appName = ''app'', ri_decision = ex_decision 2, ri_region = None, ri_machines = None,
     ri_dryRun = False, ri_controllerId = c, ri_lease = Some (None, 1000), ri_cooldown = Some (None, 60000),
     ri_coordinated = True\<rparr>"

definition ex_who :: "nat \<Rightarrow> ReconcileInput \<Rightarrow> bool" where
  "ex_who p i \<longleftrightarrow> i = ex_controller (Some (replicate (Suc p) (CHR ''c'')))"

lemma ex_who_apart: "holders_apart ex_who"
  by (auto simp: holders_apart_def ex_who_def ex_controller_def holder_of_def)

lemma ex_who_guarded: "guarded ex_who"
  by (auto simp: guarded_def ex_who_def ex_controller_def)

definition ex_created :: fetch_answer where
  "ex_created = Response True 200 (Some (JObj [(''id'', JStr ''m1'')])) ''''"

text \<open>A controller alone, for a number of steps, at the times 0, 1, 2 and so on.\<close>

definition ex_alone :: "ReconcileInput \<Rightarrow> int \<Rightarrow> fetch_answer list \<Rightarrow> CoordinationTable
    \<Rightarrow> phase \<times> CoordinationTable \<times> machine_call list" where
  "ex_alone i t answers s = reconcileFlyMachinesAutoscaling createSqliteFlyAutoscalerCoordinationStore
     (\<lambda>_. ''{}'') i (zip (map (\<lambda>n. t + int n) [0..<length answers]) answers) Begin s"


text \<open>Timely steps of the interleaving, computed: starting a controller, and moving one.\<close>

definition ex_start :: "nat \<Rightarrow> CoordinationTable fleet \<Rightarrow> CoordinationTable fleet" where
  "ex_start p f = (if fl_procs f p = None
     then f\<lparr>fl_procs := (fl_procs f)(p \<mapsto> (ex_controller (Some (replicate (Suc p) (CHR ''c''))), Begin))\<rparr> else f)"

definition ex_move :: "nat \<Rightarrow> int \<Rightarrow> fetch_answer \<Rightarrow> CoordinationTable fleet \<Rightarrow> CoordinationTable fleet" where
  "ex_move p c answer f = (case fl_procs f p of None \<Rightarrow> f
     | Some (i, ph) \<Rightarrow>
         if fl_clock f \<le> c \<and> (case held ph of None \<Rightarrow> True | Some r \<Rightarrow> c < lease_expiry r)
         then (case ctl_step createSqliteFlyAutoscalerCoordinationStore (\<lambda>_. ''{}'') i c answer ph (fl_store f) of
           (ph', s', call) \<Rightarrow> \<lparr>fl_clock = c, fl_store = s', fl_procs = (fl_procs f)(p \<mapsto> (i, ph'))\<rparr>)
         else f)"

abbreviation ex_reachable :: "CoordinationTable fleet \<Rightarrow> bool" where
  "ex_reachable \<equiv> fleet_reachable createSqliteFlyAutoscalerCoordinationStore (\<lambda>_. ''{}'') ex_who True Map.empty"

lemma ex_start_reachable:
  assumes "ex_reachable f"
  shows "ex_reachable (ex_start p f)"
proof (cases "fl_procs f p")
  case None
  have "fleet_step createSqliteFlyAutoscalerCoordinationStore (\<lambda>_. ''{}'') ex_who True f None (ex_start p f)"
    unfolding ex_start_def if_P [OF None] by (rule fleet_start) (simp_all add: ex_who_def None)
  with assms show ?thesis by (rule fleet_next)
qed (simp add: ex_start_def assms)

lemma ex_move_step:
  assumes "fl_procs f p = Some (i, ph)" and "fl_clock f \<le> c" and "case held ph of None \<Rightarrow> True | Some r \<Rightarrow> c < lease_expiry r"
    and "ctl_step createSqliteFlyAutoscalerCoordinationStore (\<lambda>_. ''{}'') i c answer ph (fl_store f) = (ph', s', call)"
  shows "fleet_step createSqliteFlyAutoscalerCoordinationStore (\<lambda>_. ''{}'') ex_who True f
    (map_option (\<lambda>k. (p, c, k)) call) (ex_move p c answer f)"
proof -
  have "c < lease_expiry r" if "held ph = Some r" for r using assms(3) that by simp
  from fleet_move [OF assms(1,2) order_refl this assms(4), of True ex_who] assms show ?thesis
    by (simp add: ex_move_def)
qed

lemma ex_move_reachable: 
  assumes "ex_reachable f"
  shows "ex_reachable (ex_move p c answer f)"
proof (cases "fl_procs f p")
  case (Some iph)
  obtain i ph where p: "fl_procs f p = Some (i, ph)" using Some by (cases iph) auto
  show ?thesis
  proof (cases "fl_clock f \<le> c \<and> (case held ph of None \<Rightarrow> True | Some r \<Rightarrow> c < lease_expiry r)")
    case True
    obtain ph' s' call where
      "ctl_step createSqliteFlyAutoscalerCoordinationStore (\<lambda>_. ''{}'') i c answer ph (fl_store f) = (ph', s', call)"
      by (metis prod_cases3)
    from ex_move_step [OF p _ _ this] True have "fleet_step createSqliteFlyAutoscalerCoordinationStore
        (\<lambda>_. ''{}'') ex_who True f (map_option (\<lambda>k. (p, c, k)) call) (ex_move p c answer f)" by blast
    with assms show ?thesis by (rule fleet_next)
  next
    case False
    then have "ex_move p c answer f = f" unfolding ex_move_def p by (simp only: option.case prod.case if_False)
    with assms show ?thesis by simp
  qed
qed (simp add: ex_move_def assms)

definition ex_moves :: "nat \<Rightarrow> int \<Rightarrow> fetch_answer list \<Rightarrow> CoordinationTable fleet \<Rightarrow> CoordinationTable fleet" where
  "ex_moves p c answers f = fold (ex_move p c) answers f"

lemma ex_moves_reachable: "ex_reachable f \<Longrightarrow> ex_reachable (ex_moves p c answers f)"
  unfolding ex_moves_def by (induction answers arbitrary: f) (auto intro: ex_move_reachable)

definition ex_two_holders :: "CoordinationTable fleet" where
  "ex_two_holders = ex_moves 1 2000 [Rejected, Rejected] (ex_start 1 (ex_moves 0 0 [Rejected, Rejected]
     (ex_start 0 \<lparr>fl_clock = 0, fl_store = Map.empty, fl_procs = Map.empty\<rparr>)))"

lemma ex_two_holders_reachable: "ex_reachable ex_two_holders"
  unfolding ex_two_holders_def by (intro ex_moves_reachable ex_start_reachable fleet_init)

definition ex_request :: "nat \<Rightarrow> int \<Rightarrow> LeaseRequest" where
  "ex_request p t = \<lparr>lr_key = ''fly:app:global'', lr_holder = replicate (Suc p) (CHR ''c''), lr_ttlMs = 1000, lr_nowMs = t\<rparr>"

lemma ex_two_holders_phases:
  "fl_procs ex_two_holders 0 = Some (ex_controller (Some ''c''), Rechecking (ex_request 0 0))"
  "fl_procs ex_two_holders 1 = Some (ex_controller (Some ''cc''), Rechecking (ex_request 1 2000))"
  by code_simp+

theorem lease_excludes_others_witness:
  "(lease_expiry (ex_request 0 0) \<le> fl_clock ex_two_holders \<or> lease_expiry (ex_request 1 2000) \<le> fl_clock ex_two_holders)
   \<and> fl_clock ex_two_holders = 2000"
proof
  show "lease_expiry (ex_request 0 0) \<le> fl_clock ex_two_holders \<or> lease_expiry (ex_request 1 2000) \<le> fl_clock ex_two_holders"
    by (rule lease_excludes_others [OF ex_two_holders_reachable ex_who_apart ex_two_holders_phases(1) _
          ex_two_holders_phases(2)]) (simp_all add: ex_request_def)
  show "fl_clock ex_two_holders = 2000" by code_simp
qed

definition ex_after_cooldown :: "CoordinationTable fleet" where
  "ex_after_cooldown = ex_moves 1 70000 [Rejected, Rejected, Rejected] (ex_start 1
     (ex_moves 0 500 (replicate 10 ex_created)
     (ex_start 0 \<lparr>fl_clock = 0, fl_store = Map.empty, fl_procs = Map.empty\<rparr>)))"

lemma ex_after_cooldown_reachable: "ex_reachable ex_after_cooldown"
  unfolding ex_after_cooldown_def by (intro ex_moves_reachable ex_start_reachable fleet_init)

lemma ex_after_cooldown_phase: "fl_procs ex_after_cooldown 1
    = Some (ex_controller (Some ''cc''), Working (Some (ex_request 1 70000)) [JobCreate, JobCreate] [])"
  by code_simp

lemma ex_call_step: "fleet_step createSqliteFlyAutoscalerCoordinationStore (\<lambda>_. ''{}'') ex_who True ex_after_cooldown
   (Some (1, 70001, CallCreate)) (ex_move 1 70001 Rejected ex_after_cooldown)"
proof -
  have "fl_clock ex_after_cooldown \<le> 70001" by code_simp
  moreover have "70001 < lease_expiry (ex_request 1 70000)" by code_simp
  moreover have "ctl_step createSqliteFlyAutoscalerCoordinationStore (\<lambda>_. ''{}'') (ex_controller (Some ''cc''))
      70001 Rejected (Working (Some (ex_request 1 70000)) [JobCreate, JobCreate] []) (fl_store ex_after_cooldown)
    = (Waiting (Some (ex_request 1 70000)) JobCreate [JobCreate] [], fl_store ex_after_cooldown, Some CallCreate)"
    by (simp add: ex_controller_def job_call_def)
  ultimately show ?thesis
    using ex_move_step [OF ex_after_cooldown_phase, of 70001 Rejected] by simp
qed

theorem cooldown_is_kept_witness:
  "(\<exists>i ph. fl_procs ex_after_cooldown 1 = Some (i, ph) \<and> (\<forall>cd.
      readCooldown createSqliteFlyAutoscalerCoordinationStore (cooldown_key i) (fl_store ex_after_cooldown) = Some cd
      \<longrightarrow> cs_untilMs cd \<le> 70001))
   \<and> map_option cs_untilMs (readCooldown createSqliteFlyAutoscalerCoordinationStore ''fly:app:global''
        (fl_store ex_after_cooldown)) = Some 60500"
proof
  show "\<exists>i ph. fl_procs ex_after_cooldown 1 = Some (i, ph) \<and> (\<forall>cd.
      readCooldown createSqliteFlyAutoscalerCoordinationStore (cooldown_key i) (fl_store ex_after_cooldown) = Some cd
      \<longrightarrow> cs_untilMs cd \<le> 70001)"
    by (rule cooldown_is_kept [OF ex_after_cooldown_reachable ex_who_apart ex_who_guarded ex_call_step])
  show "map_option cs_untilMs (readCooldown createSqliteFlyAutoscalerCoordinationStore ''fly:app:global''
        (fl_store ex_after_cooldown)) = Some 60500" by code_simp
qed

text \<open>
  A request that fails in the middle of scaling up leaves no cooldown. One controller is to add two
  machines: the first is created, the second request is rejected. It throws, having returned its
  lease and written no cooldown, so four steps later another controller, which also decided to add
  two, is creating a third machine.
\<close>

theorem failed_scale_up_leaves_no_cooldown:
  "case ex_alone (ex_controller (Some ''c'')) 0
     [Rejected, Rejected, Rejected, Rejected, ex_created, Rejected, Rejected, Rejected] Map.empty of
   (ph, s, calls) \<Rightarrow> ph = Finished Thrown \<and> calls = [CallCreate, CallCreate]
     \<and> readCooldown createSqliteFlyAutoscalerCoordinationStore ''fly:app:global'' s = None
     \<and> snd (snd (ex_alone (ex_controller (Some ''cc'')) 8 [Rejected, Rejected, Rejected, Rejected] s)) = [CallCreate]"
  by code_simp

text \<open>
  Controllers without an id share one: two controllers that were given none both take the lease for
  the same key and both create machines for the same decision, within eight milliseconds.
\<close>

theorem nameless_controllers_collide:
  "case ex_alone (ex_controller None) 0 [Rejected, Rejected, Rejected, Rejected] Map.empty of
   (ph, s, calls) \<Rightarrow> calls = [CallCreate] \<and> held ph \<noteq> None
     \<and> (case ex_alone (ex_controller None) 4 [Rejected, Rejected, Rejected, Rejected] s of
        (ph', s', calls') \<Rightarrow> calls' = [CallCreate] \<and> held ph' \<noteq> None)"
  by code_simp

end
