(* ===== verification/Resumption.thy ===== *)
theory Resumption
  imports StateError
begin

text \<open>
  Asynchronous operations: programs that stop at every \<open>await\<close> of a repository call. Each call is one
  atomic step on the shared state; between two calls other operations may run. A program is run to
  completion alone, which gives an operation of \<open>StateError\<close>, or step by step among others, for which
  there are rely-guarantee rules.
\<close>

datatype ('s, 'a) resump =
    Done "'a cp"
  | Call "'s \<Rightarrow> 's \<times> ('s, 'a) resump"

lemma resump_induct [case_names Done Call]:
  assumes "\<And>r. P (Done r)" and "\<And>k. (\<And>s s' p. k s = (s', p) \<Longrightarrow> P p) \<Longrightarrow> P (Call k)"
  shows "P p"
proof (induction p)
  case (Done r)
  show ?case by (rule assms(1))
next
  case (Call k)
  show ?case
  proof (rule assms(2))
    fix s s' p assume "k s = (s', p)"
    then have "(s', p) \<in> range k" by (metis rangeI)
    then show "P p" by (rule Call.IH) simp
  qed
qed

primrec bindA :: "('s, 'a) resump \<Rightarrow> ('a \<Rightarrow> ('s, 'b) resump) \<Rightarrow> ('s, 'b) resump" where
  "bindA (Done r) f = (case r of Inl e \<Rightarrow> Done (Inl e) | Inr x \<Rightarrow> f x)"
| "bindA (Call k) f = Call (\<lambda>s. map_prod id (\<lambda>p. bindA p f) (k s))"

definition pureA :: "'a \<Rightarrow> ('s, 'a) resump" where
  "pureA x = Done (Inr x)"

definition liftA :: "'a cp \<Rightarrow> ('s, 'a) resump" where
  "liftA r = Done r"

definition guardA :: "bool \<Rightarrow> ControlPlaneErrorCode \<Rightarrow> string \<Rightarrow> ('s, unit) resump" where
  "guardA bad c msg = Done (guardC bad c msg)"

text \<open>One call of the repository, which may read, write and throw.\<close>

definition atomA :: "('s, 'a) op \<Rightarrow> ('s, 'a) resump" where
  "atomA m = Call (\<lambda>s. map_prod id Done (m s))"

definition readA :: "('s \<Rightarrow> 'a cp) \<Rightarrow> ('s, 'a) resump" where
  "readA h = atomA (readS h)"

definition askA :: "('s \<Rightarrow> 'a) \<Rightarrow> ('s, 'a) resump" where
  "askA h = atomA (askS h)"

fun forA :: "('x \<Rightarrow> ('s, unit) resump) \<Rightarrow> 'x list \<Rightarrow> ('s, unit) resump" where
  "forA f [] = pureA ()"
| "forA f (x # xs) = bindA (f x) (\<lambda>_. forA f xs)"

fun mapA :: "('x \<Rightarrow> ('s, 'a) resump) \<Rightarrow> 'x list \<Rightarrow> ('s, 'a list) resump" where
  "mapA f [] = pureA []"
| "mapA f (x # xs) = bindA (f x) (\<lambda>y. bindA (mapA f xs) (\<lambda>ys. pureA (y # ys)))"

subsection \<open>Running alone\<close>

primrec runA :: "('s, 'a) resump \<Rightarrow> ('s, 'a) op" where
  "runA (Done r) = (\<lambda>s. (s, r))"
| "runA (Call k) = (\<lambda>s. case map_prod id runA (k s) of (s', m) \<Rightarrow> m s')"

lemma runA_Call: "runA (Call k) s = (case k s of (s', p) \<Rightarrow> runA p s')"
  by (cases "k s") simp

declare runA.simps(2) [simp del] and runA_Call [simp]

named_theorems run_alone "running a program to completion"

lemma runA_bindA [run_alone]: "runA (bindA p f) = bindS (runA p) (\<lambda>x. runA (f x))"
proof (induction p rule: resump_induct)
  case (Done r)
  then show ?case by (cases r) (simp_all add: fun_eq_iff bindS_def)
next
  case (Call k)
  have "runA (bindA p f) = bindS (runA p) (\<lambda>x. runA (f x))" if "k s = (s', p)" for s s' p
    using that by (rule Call.IH)
  then show ?case
    by (auto simp: fun_eq_iff bindS_def split: prod.splits)
qed

lemma runA_atomA: "runA (atomA m) = m"
proof
  fix s show "runA (atomA m) s = m s" by (cases "m s") (simp add: atomA_def)
qed

lemma runA_prims [run_alone]:
  "runA (pureA x) = pureS x" "runA (liftA r) = liftS r" "runA (guardA b c msg) = guardS b c msg"
  "runA (atomA m) = m" "runA (readA h) = readS h" "runA (askA g) = askS g"
  by (simp_all add: pureA_def liftA_def guardA_def readA_def askA_def runA_atomA fun_eq_iff)

lemma runA_if [run_alone]: "runA (if b then p else q) = (if b then runA p else runA q)"
  by simp

lemma runA_option [run_alone]:
  "runA (case v of None \<Rightarrow> p | Some x \<Rightarrow> q x) = (case v of None \<Rightarrow> runA p | Some x \<Rightarrow> runA (q x))"
  by (cases v) simp_all

lemma runA_prod [run_alone]: "runA (case v of (x, y) \<Rightarrow> p x y) = (case v of (x, y) \<Rightarrow> runA (p x y))"
  by (cases v) simp_all

lemma readS_bind: "bindS (readS h) (\<lambda>x. readS (g x)) = readS (\<lambda>s. bindE (h s) (\<lambda>x. g x s))"
  by (auto simp: fun_eq_iff bindS_def split: sum.splits)

lemma runA_forA [run_alone]:
  "(\<And>x. runA (f x) = readS (h x)) \<Longrightarrow> runA (forA f xs) = readS (\<lambda>s. forE (\<lambda>x. h x s) xs)"
  by (induction xs) (simp_all add: runA_bindA runA_prims bindS_def fun_eq_iff split: sum.splits)

lemma runA_mapA [run_alone]:
  "(\<And>x. runA (f x) = readS (h x)) \<Longrightarrow> runA (mapA f xs) = readS (\<lambda>s. mapE (\<lambda>x. h x s) xs)"
  by (induction xs) (simp_all add: runA_bindA runA_prims bindS_def fun_eq_iff split: sum.splits)

subsection \<open>Running among others\<close>

text \<open>
  \<open>rely\<close> is what other operations may do to the state between two steps of a program, and what each of
  its own steps must do; \<open>ok\<close> is the invariant of the state.
\<close>

locale rely_guarantee =
  fixes ok :: "'s \<Rightarrow> bool" and rely :: "'s \<Rightarrow> 's \<Rightarrow> bool"
  assumes rely_refl: "rely s s"
    and rely_trans: "rely s t \<Longrightarrow> rely t u \<Longrightarrow> rely s u"
begin

text \<open>
  \<open>safe Q p s\<close>: from \<open>s\<close>, however others change the state along \<open>rely\<close>, every step of \<open>p\<close> keeps
  \<open>ok\<close> and \<open>rely\<close>, and when it returns, its result satisfies \<open>Q\<close> in the state it returns in.
\<close>

primrec safe :: "('a cp \<Rightarrow> 's \<Rightarrow> bool) \<Rightarrow> ('s, 'a) resump \<Rightarrow> 's \<Rightarrow> bool" where
  "safe Q (Done r) = (\<lambda>s. \<forall>s'. rely s s' \<and> ok s' \<longrightarrow> Q r s')"
| "safe Q (Call k) = (\<lambda>s. \<forall>s'. rely s s' \<and> ok s' \<longrightarrow>
     (case map_prod id (safe Q) (k s') of (s'', P) \<Rightarrow> rely s' s'' \<and> ok s'' \<and> P s''))"

lemma safe_Call: "safe Q (Call k) s \<longleftrightarrow> (\<forall>s'. rely s s' \<and> ok s' \<longrightarrow>
    (case k s' of (s'', p) \<Rightarrow> rely s' s'' \<and> ok s'' \<and> safe Q p s''))"
  by (simp add: case_prod_unfold)

declare safe.simps(2) [simp del]

lemma safe_step:
  assumes "safe Q (Call k) s" and "rely s s'" and "ok s'" and "k s' = (s'', p)"
  shows "rely s' s'' \<and> ok s'' \<and> safe Q p s''"
  using assms unfolding safe_Call by fastforce

lemma safe_rely: "safe Q p s \<Longrightarrow> rely s t \<Longrightarrow> safe Q p t"
  by (cases p) (auto simp: safe_Call intro: rely_trans)

lemma safe_mono:
  assumes "safe Q p s" and "\<And>r t. rely s t \<Longrightarrow> ok t \<Longrightarrow> Q r t \<Longrightarrow> R r t"
  shows "safe R p s"
  using assms
proof (induction p arbitrary: s rule: resump_induct)
  case (Done r)
  then show ?case by auto
next
  case (Call k)
  show ?case
    unfolding safe_Call
  proof (intro allI impI)
    fix s' assume s': "rely s s' \<and> ok s'"
    obtain s'' p where k: "k s' = (s'', p)" by fastforce
    from safe_step [OF Call.prems(1) _ _ k] s' have "rely s' s''" "ok s''" "safe Q p s''" by auto
    moreover have "safe R p s''"
    proof (rule Call.IH [OF k])
      fix r t assume "rely s'' t" "ok t" "Q r t"
      then show "R r t" using Call.prems(2) [of t r] s' calculation(1) rely_trans by meson
    qed (rule calculation)
    ultimately show "case k s' of (s'', p) \<Rightarrow> rely s' s'' \<and> ok s'' \<and> safe R p s''"
      using k by simp
  qed
qed

lemma safe_bindA:
  assumes "safe Q p s"
    and "\<And>x t. rely s t \<Longrightarrow> ok t \<Longrightarrow> Q (Inr x) t \<Longrightarrow> safe R (f x) t"
    and "\<And>e t. rely s t \<Longrightarrow> ok t \<Longrightarrow> Q (Inl e) t \<Longrightarrow> R (Inl e) t"
  shows "safe R (bindA p f) s"
  using assms
proof (induction p arbitrary: s rule: resump_induct)
  case (Done r)
  show ?case
  proof (cases r)
    case (Inl e)
    then show ?thesis using Done by auto
  next
    case (Inr x)
    have now: "safe R (f x) t" if "rely s t" "ok t" for t
      using Done that Inr by auto
    have "safe R (f x) s"
    proof (cases "f x")
      case (Done r')
      then show ?thesis using now rely_refl by auto
    next
      case (Call k)
      show ?thesis unfolding Call safe_Call
      proof (intro allI impI)
        fix t assume t: "rely s t \<and> ok t"
        obtain s'' p where k: "k t = (s'', p)" by fastforce
        from t now have "safe R (Call k) t" unfolding Call by simp
        from safe_step [OF this rely_refl _ k] t k
        show "case k t of (s'', p) \<Rightarrow> rely t s'' \<and> ok s'' \<and> safe R p s''" by simp
      qed
    qed
    then show ?thesis using Inr by simp
  qed
next
  case (Call k)
  show ?case
    unfolding safe_Call bindA.simps
  proof (intro allI impI)
    fix s' assume s': "rely s s' \<and> ok s'"
    obtain s'' p where k: "k s' = (s'', p)" by fastforce
    from safe_step [OF Call.prems(1) _ _ k] s' have st: "rely s' s''" "ok s''" "safe Q p s''" by auto
    have "rely s s''" using s' st(1) by (blast intro: rely_trans)
    have "safe R (bindA p f) s''"
    proof (intro Call.IH [OF k st(3)])
      fix x t assume "rely s'' t" "ok t" "Q (Inr x) t"
      then show "safe R (f x) t" using Call.prems(2) [of t x] \<open>rely s s''\<close> rely_trans by blast
    next
      fix e t assume "rely s'' t" "ok t" "Q (Inl e) t"
      then show "R (Inl e) t" using Call.prems(3) [of t e] \<open>rely s s''\<close> rely_trans by blast
    qed
    with st k show "case map_prod id (\<lambda>p. bindA p f) (k s') of
        (s'', p) \<Rightarrow> rely s' s'' \<and> ok s'' \<and> safe R p s''" by simp
  qed
qed

end


text \<open>
  \<open>holds C p Q\<close>: as long as \<open>C\<close>, which \<open>rely\<close> keeps, held when \<open>p\<close> started, \<open>p\<close> is safe and its result
  satisfies \<open>Q\<close>. A read adds what it learned to \<open>C\<close>, if that is kept too.
\<close>

context rely_guarantee
begin

definition stable :: "('s \<Rightarrow> bool) \<Rightarrow> bool" where
  "stable C \<longleftrightarrow> (\<forall>s t. C s \<and> rely s t \<longrightarrow> C t)"

definition holds :: "('s \<Rightarrow> bool) \<Rightarrow> ('s, 'a) resump \<Rightarrow> ('a cp \<Rightarrow> bool) \<Rightarrow> bool" where
  "holds C p Q \<longleftrightarrow> (stable C \<longrightarrow> (\<forall>s. C s \<longrightarrow> safe (\<lambda>r _. Q r) p s))"

lemma stableD: "stable C \<Longrightarrow> C s \<Longrightarrow> rely s t \<Longrightarrow> C t"
  by (auto simp: stable_def)

lemma stable_True [simp]: "stable (\<lambda>_. True)"
  by (simp add: stable_def)

lemma stable_conj: "stable C \<Longrightarrow> stable D \<Longrightarrow> stable (\<lambda>s. C s \<and> D s)"
  by (auto simp: stable_def)

lemma holds_done: "Q r \<Longrightarrow> holds C (Done r) Q"
  by (simp add: holds_def)

lemma holds_pure: "Q (Inr x) \<Longrightarrow> holds C (pureA x) Q"
  by (simp add: pureA_def holds_done)

lemma holds_weaken: "holds C p Q \<Longrightarrow> (\<And>r. Q r \<Longrightarrow> R r) \<Longrightarrow> holds C p R"
  unfolding holds_def by (meson safe_mono)

lemma safe_atom_bind:
  assumes "\<And>t. rely s t \<Longrightarrow> ok t \<Longrightarrow> rely t (fst (m t)) \<and> ok (fst (m t))
     \<and> (\<forall>e. snd (m t) = Inl e \<longrightarrow> R (Inl e)) \<and> (\<forall>x. snd (m t) = Inr x \<longrightarrow> safe (\<lambda>r _. R r) (f x) (fst (m t)))"
  shows "safe (\<lambda>r _. R r) (bindA (atomA m) f) s"
  unfolding atomA_def bindA.simps safe_Call
proof (intro allI impI)
  fix t assume t: "rely s t \<and> ok t"
  obtain u r where m: "m t = (u, r)" by fastforce
  from assms [of t] t m have a: "rely t u" "ok u" "\<And>e. r = Inl e \<Longrightarrow> R (Inl e)" "\<And>x. r = Inr x \<Longrightarrow> safe (\<lambda>r _. R r) (f x) u"
    by auto
  then have "safe (\<lambda>r _. R r) (bindA (Done r) f) u" by (cases r) auto
  with a m show "case map_prod id (\<lambda>p. bindA p f) (map_prod id Done (m t)) of
      (s'', p) \<Rightarrow> rely t s'' \<and> ok s'' \<and> safe (\<lambda>r _. R r) p s''" by simp
qed

lemma holds_bind_atom:
  assumes "\<And>x. stable (P x)"
    and "\<And>t. ok t \<Longrightarrow> C t \<Longrightarrow> ok (fst (m t)) \<and> rely t (fst (m t))"
    and "\<And>t e. ok t \<Longrightarrow> C t \<Longrightarrow> snd (m t) = Inl e \<Longrightarrow> R (Inl e)"
    and "\<And>t x. ok t \<Longrightarrow> C t \<Longrightarrow> snd (m t) = Inr x \<Longrightarrow> P x (fst (m t))"
    and "\<And>x. holds (\<lambda>s. C s \<and> P x s) (f x) R"
  shows "holds C (bindA (atomA m) f) R"
  unfolding holds_def
proof (intro impI allI safe_atom_bind)
  fix s t assume C: "stable C" "C s" and t: "rely s t" "ok t"
  then have Ct: "C t" by (blast dest: stableD)
  from assms(2) [OF t(2) Ct] have w: "ok (fst (m t))" "rely t (fst (m t))" by auto
  have "safe (\<lambda>r _. R r) (f x) (fst (m t))" if "snd (m t) = Inr x" for x
    using assms(5) [of x] stable_conj [OF C(1) assms(1) [of x]] assms(4) [OF t(2) Ct that] stableD [OF C(1) Ct w(2)]
    unfolding holds_def by blast
  then show "rely t (fst (m t)) \<and> ok (fst (m t)) \<and> (\<forall>e. snd (m t) = Inl e \<longrightarrow> R (Inl e))
     \<and> (\<forall>x. snd (m t) = Inr x \<longrightarrow> safe (\<lambda>r _. R r) (f x) (fst (m t)))"
    using w assms(3) [OF t(2) Ct] by blast
qed

lemma bindA_pureA [simp]: "bindA p pureA = p"
proof (induction p rule: resump_induct)
  case (Done r)
  then show ?case by (cases r) (simp_all add: pureA_def)
next
  case (Call k)
  have "map_prod id (\<lambda>p. bindA p pureA) (k s) = k s" for s
    using Call.IH [of s] by (cases "k s") simp
  then show ?case by simp
qed

lemma holds_atom:
  assumes "\<And>t. ok t \<Longrightarrow> C t \<Longrightarrow> ok (fst (m t)) \<and> rely t (fst (m t))"
    and "\<And>t. ok t \<Longrightarrow> C t \<Longrightarrow> R (snd (m t))"
  shows "holds C (atomA m) R"
proof -
  have "holds C (bindA (atomA m) pureA) R"
    by (rule holds_bind_atom [where P = "\<lambda>x _. R (Inr x)"])
      (use assms in \<open>auto simp: stable_def holds_def pureA_def, metis+\<close>)
  then show ?thesis by simp
qed

text \<open>Reads: one that is remembered, and one that is not.\<close>

lemma holds_read:
  assumes "\<And>x. stable (P x)" and "\<And>t x. ok t \<Longrightarrow> C t \<Longrightarrow> h t = Inr x \<Longrightarrow> P x t"
    and "\<And>t e. ok t \<Longrightarrow> C t \<Longrightarrow> h t = Inl e \<Longrightarrow> R (Inl e)"
    and "\<And>x. holds (\<lambda>s. C s \<and> P x s) (f x) R"
  shows "holds C (bindA (readA h) f) R"
  unfolding readA_def
  by (rule holds_bind_atom [OF assms(1) _ _ _ assms(4)]) (use assms rely_refl in auto)

lemma holds_ask:
  assumes "\<And>x. stable (P x)" and "\<And>t. ok t \<Longrightarrow> C t \<Longrightarrow> P (g t) t"
    and "\<And>x. holds (\<lambda>s. C s \<and> P x s) (f x) R"
  shows "holds C (bindA (askA g) f) R"
  unfolding askA_def
  by (rule holds_bind_atom [OF assms(1) _ _ _ assms(3)]) (use assms rely_refl in auto)

lemma holds_skip:
  assumes "\<And>e. R (Inl e)" and "\<And>x. holds C (f x) R"
  shows "holds C (bindA (readA h) f) R" and "holds C (bindA (askA g) f) R"
  by (rule holds_read [where P = "\<lambda>_ _. True"], use assms in simp_all)
    (rule holds_ask [where P = "\<lambda>_ _. True"], use assms in simp_all)

lemma holds_lift:
  assumes "\<And>e. r = Inl e \<Longrightarrow> R (Inl e)" and "\<And>x. r = Inr x \<Longrightarrow> holds C (f x) R"
  shows "holds C (bindA (liftA r) f) R"
  using assms by (cases r) (auto simp: liftA_def holds_done)

lemma holds_guard:
  assumes "\<And>e. R (Inl e)" and "\<not> b \<Longrightarrow> holds C (f ()) R"
  shows "holds C (bindA (guardA b c msg) f) R"
  using assms by (cases b) (auto simp: guardA_def guardC_def throwC_def holds_done)

lemma holds_pure_bind: "holds C (f x) R \<Longrightarrow> holds C (bindA (pureA x) f) R"
  by (simp add: pureA_def)

lemma holds_bind:
  assumes "holds C p Q" and "\<And>x. Q (Inr x) \<Longrightarrow> holds C (f x) R" and "\<And>e. Q (Inl e) \<Longrightarrow> R (Inl e)"
  shows "holds C (bindA p f) R"
  unfolding holds_def
proof (intro impI allI safe_bindA)
  fix s assume C: "stable C" "C s"
  then show "safe (\<lambda>r _. Q r) p s" using assms(1) by (simp add: holds_def)
  fix x t assume "rely s t" "Q (Inr x)"
  with C show "safe (\<lambda>r _. R r) (f x) t" using assms(2) [of x] stableD [OF C] by (simp add: holds_def)
qed (rule assms(3))

lemma bindA_assoc: "bindA (bindA p f) g = bindA p (\<lambda>x. bindA (f x) g)"
proof (induction p rule: resump_induct)
  case (Done r)
  then show ?case by (cases r) simp_all
next
  case (Call k)
  have "map_prod id (\<lambda>p. bindA p g) (map_prod id (\<lambda>p. bindA p f) (k s))
      = map_prod id (\<lambda>p. bindA p (\<lambda>x. bindA (f x) g)) (k s)" for s
    using Call.IH [of s] by (cases "k s") simp
  then show ?case by simp
qed

text \<open>A loop of checks: afterwards, every element has passed.\<close>

lemma holds_forA_checks:
  assumes "\<And>x. stable (P x)" and "\<And>t x. ok t \<Longrightarrow> h x t = Inr () \<Longrightarrow> P x t" and "\<And>e. R (Inl e)"
    and "holds (\<lambda>s. C s \<and> (\<forall>x \<in> set xs. P x s)) g R"
  shows "holds C (bindA (forA (\<lambda>x. readA (h x)) xs) (\<lambda>_. g)) R"
  using assms(4)
proof (induction xs arbitrary: C)
  case Nil
  then show ?case by (simp add: holds_pure_bind)
next
  case (Cons x xs)
  have "holds (\<lambda>s. C s \<and> P x s) (bindA (forA (\<lambda>x. readA (h x)) xs) (\<lambda>_. g)) R"
    by (rule Cons.IH) (use Cons.prems in \<open>simp add: conj_assoc\<close>)
  then show ?case
    unfolding forA.simps bindA_assoc
    by (intro holds_read [where P = "\<lambda>_. P x"]) (use assms in auto)
qed

text \<open>Programs that are safe whatever they read.\<close>

definition steady :: "('s, 'a) resump \<Rightarrow> bool" where
  "steady p \<longleftrightarrow> holds (\<lambda>_. True) p (\<lambda>_. True)"

lemma steady_holds:
  assumes "steady p"
  shows "holds C p (\<lambda>_. True)"
proof -
  have "safe (\<lambda>_ _. True) p s" for s using assms by (simp add: steady_def holds_def)
  then show ?thesis by (simp add: holds_def)
qed

lemma steady_prims: "steady (pureA x)" "steady (liftA r)" "steady (guardA b c msg)" "steady (Done r)"
    "steady (readA h)" "steady (askA g)"
  by (simp_all add: steady_def holds_pure holds_done liftA_def guardA_def readA_def askA_def
      holds_atom rely_refl)

lemma steady_atom: "(\<And>t. ok t \<Longrightarrow> ok (fst (m t)) \<and> rely t (fst (m t))) \<Longrightarrow> steady (atomA m)"
  by (simp add: steady_def holds_atom)

lemma steady_bindA: "steady p \<Longrightarrow> (\<And>x. steady (f x)) \<Longrightarrow> steady (bindA p f)"
  unfolding steady_def by (rule holds_bind [where Q = "\<lambda>_. True"]) auto

lemma steady_if: "steady p \<Longrightarrow> steady q \<Longrightarrow> steady (if b then p else q)" by simp

lemma steady_option: "steady p \<Longrightarrow> (\<And>x. steady (q x)) \<Longrightarrow> steady (case v of None \<Rightarrow> p | Some x \<Rightarrow> q x)"
  by (cases v) auto

lemma steady_prod: "(\<And>a b. steady (p a b)) \<Longrightarrow> steady (case v of (a, b) \<Rightarrow> p a b)"
  by (cases v) auto

lemma steady_forA: "(\<And>x. steady (f x)) \<Longrightarrow> steady (forA f xs)"
  by (induction xs) (simp_all add: steady_prims steady_bindA)

lemmas steady_rules = steady_prims steady_bindA steady_if steady_option steady_prod steady_forA

end

end
