(* ===== verification/AsyncService.thy ===== *)
theory AsyncService
  imports Resumption Delivery
begin

text \<open>
  The asynchronous control plane, \<open>control-plane/async-service.ts\<close>: the operations of the synchronous
  one, stopping at every call of the repository. A repository call is one atomic step with the effect it
  has in \<open>Repository\<close>; reads that \<open>Promise.all\<close> issues together are taken in the order they are issued.
\<close>

type_synonym 'a async = "(Db, 'a) resump"

definition hashApiToken_async :: "Env \<Rightarrow> string \<Rightarrow> string" where
  "hashApiToken_async E token = env_sha256 E token"

subsection \<open>The audit log\<close>

definition recordCustomerAuditEvent_async :: "Env \<Rightarrow> AuditInput \<Rightarrow> AuditEvent async" where
  "recordCustomerAuditEvent_async E i =
     bindA (case truthy_string (ai_projectId i) of
         None \<Rightarrow> pureA None
       | Some pid \<Rightarrow> bindA (readA (requireProject pid)) (\<lambda>p. pureA (Some p))) (\<lambda>project.
     let oid = (case ai_organizationId i of
           Some x \<Rightarrow> Some x
         | None \<Rightarrow> (case project of None \<Rightarrow> None | Some p \<Rightarrow> prj_organizationId p))
     in atomA (repo_createCustomerAuditEvent
          \<lparr>aud_id = env_auditId E, aud_organizationId = truthy_string oid,
           aud_projectId = map_option prj_id project, aud_action = ai_action i,
           aud_targetType = ai_targetType i, aud_targetId = ai_targetId i,
           aud_metadata = ai_metadata i, aud_createdAt = env_now E\<rparr>))"

definition audited_async :: "Env \<Rightarrow> 'a async \<Rightarrow> ('a \<Rightarrow> AuditInput async) \<Rightarrow> 'a async" where
  "audited_async E m f = bindA m (\<lambda>x. bindA (f x) (\<lambda>i.
     bindA (recordCustomerAuditEvent_async E i) (\<lambda>_. pureA x)))"

definition project_audit_async ::
    "string \<Rightarrow> string \<Rightarrow> string \<Rightarrow> string \<Rightarrow> (string \<times> json) list \<Rightarrow> AuditInput async" where
  "project_audit_async pid action ttype tid meta = bindA (readA (requireProject pid)) (\<lambda>p.
     pureA \<lparr>ai_organizationId = prj_organizationId p, ai_projectId = Some pid, ai_action = action,
            ai_targetType = ttype, ai_targetId = tid, ai_metadata = meta\<rparr>)"

subsection \<open>Organizations, users, projects\<close>

definition createOrganization_async :: "Env \<Rightarrow> CreateOrganizationInput \<Rightarrow> Organization async" where
  "createOrganization_async E i =
     bindA (liftA (newId E (coi_id i) ''organization id'' ''org'')) (\<lambda>rid.
     bindA (liftA (normalizeOrganizationName (coi_name i))) (\<lambda>name.
     bindA (liftA (normalizeOrganizationBillingProfile
       \<lparr>bpi_billingProvider = coi_billingProvider i, bpi_billingCustomerId = coi_billingCustomerId i,
        bpi_paymentStatus = coi_paymentStatus i, bpi_billingEmail = coi_billingEmail i,
        bpi_paymentStatusUpdatedAt = env_now E\<rparr>)) (\<lambda>p.
     atomA (repo_createOrganization (with_profile rid name p (env_now E))))))"

definition updateOrganizationBilling_async ::
    "Env \<Rightarrow> UpdateOrganizationBillingInput \<Rightarrow> Organization async" where
  "updateOrganizationBilling_async E i =
     bindA (readA (requireOrganization (uob_organizationId i))) (\<lambda>org.
     bindA (liftA (normalizeOrganizationBillingProfile
       \<lparr>bpi_billingProvider = default_json (uob_billingProvider i) (provider_json (org_billingProvider org)),
        bpi_billingCustomerId = default_json (uob_billingCustomerId i) (opt_json (org_billingCustomerId org)),
        bpi_paymentStatus = default_json (uob_paymentStatus i) (payment_json (org_paymentStatus org)),
        bpi_billingEmail = default_json (uob_billingEmail i) (opt_json (org_billingEmail org)),
        bpi_paymentStatusUpdatedAt = (if uob_paymentStatus i = JUndefined
          then org_paymentStatusUpdatedAt org else env_now E)\<rparr>)) (\<lambda>p.
     atomA (repo_updateOrganizationBilling (with_profile (org_id org) (org_name org) p (org_createdAt org)))))"

definition createUser_async :: "Env \<Rightarrow> CreateUserInput \<Rightarrow> User async" where
  "createUser_async E i =
     bindA (liftA (normalizeUsageTimestamp (env_dates E) (cui_emailVerifiedAt i)
       ''user emailVerifiedAt'')) (\<lambda>verified.
     bindA (liftA (newId E (cui_id i) ''user id'' ''usr'')) (\<lambda>rid.
     bindA (liftA (normalizeUserEmail (cui_email i))) (\<lambda>email.
     bindA (liftA (normalizeUserName (cui_name i))) (\<lambda>name.
     atomA (repo_createUser \<lparr>user_id = rid, user_email = email, user_name = name,
       user_emailVerifiedAt = verified, user_createdAt = env_now E\<rparr>)))))"

definition verifyUserEmail_async :: "Env \<Rightarrow> string \<Rightarrow> User async" where
  "verifyUserEmail_async E uid = bindA (readA (requireUser uid)) (\<lambda>_.
     atomA (repo_updateUserEmailVerification uid (env_now E)))"

definition createProject_async :: "Env \<Rightarrow> CreateProjectInput \<Rightarrow> Project async" where
  "createProject_async E i =
     bindA (case truthy_string (cpi_organizationId i) of None \<Rightarrow> pureA ()
       | Some oid \<Rightarrow> bindA (readA (requireOrganization oid)) (\<lambda>_. pureA ())) (\<lambda>_.
     bindA (liftA (newId E (cpi_id i) ''project id'' ''prj'')) (\<lambda>rid.
     bindA (liftA (normalizeProjectName (cpi_name i))) (\<lambda>name.
     atomA (repo_createProject \<lparr>prj_id = rid, prj_organizationId = truthy_string (cpi_organizationId i),
       prj_name = name, prj_createdAt = env_now E\<rparr>))))"

subsection \<open>Memberships\<close>

definition addProjectMembership_async :: "Env \<Rightarrow> string \<Rightarrow> string \<Rightarrow> json \<Rightarrow> ProjectMembership async" where
  "addProjectMembership_async E pid uid role =
     bindA (readA (requireProject pid)) (\<lambda>project.
     bindA (readA (requireUser uid)) (\<lambda>_.
     bindA (liftA (normalizeProjectRole role)) (\<lambda>r.
     audited_async E (atomA (repo_createProjectMembership
         \<lparr>mem_projectId = pid, mem_userId = uid, mem_role = r, mem_inviteStatus = Pending,
          mem_invitedAt = env_now E, mem_acceptedAt = None, mem_createdAt = env_now E\<rparr>))
       (\<lambda>m. pureA (member_audit project ''project_member.added'' m (role_meta m))))))"

definition updateProjectMembershipRole_async ::
    "Env \<Rightarrow> string \<Rightarrow> string \<Rightarrow> json \<Rightarrow> ProjectMembership async" where
  "updateProjectMembershipRole_async E pid uid role =
     bindA (readA (requireProject pid)) (\<lambda>project.
     bindA (readA (requireUser uid)) (\<lambda>_.
     bindA (liftA (normalizeProjectRole role)) (\<lambda>r.
     bindA (readA (requireProjectMembership pid uid)) (\<lambda>current.
     bindA (if mem_role current = Owner \<and> r \<noteq> Owner
            then readA (assertProjectKeepsOwner current) else pureA ()) (\<lambda>_.
     audited_async E (atomA (repo_updateProjectMembershipRole pid uid r))
       (\<lambda>m. pureA (member_audit project ''project_member.role_updated'' m
          [(''fromRole'', role_json (mem_role current)), (''toRole'', role_json (mem_role m)),
           (''userId'', JStr (mem_userId m))])))))))"

definition removeProjectMembership_async :: "Env \<Rightarrow> string \<Rightarrow> string \<Rightarrow> ProjectMembership async" where
  "removeProjectMembership_async E pid uid =
     bindA (readA (requireProject pid)) (\<lambda>project.
     bindA (readA (requireUser uid)) (\<lambda>_.
     bindA (readA (requireProjectMembership pid uid)) (\<lambda>current.
     bindA (readA (assertProjectKeepsOwner current)) (\<lambda>_.
     audited_async E (atomA (repo_deleteProjectMembership pid uid))
       (\<lambda>m. pureA (member_audit project ''project_member.removed'' m (role_meta m)))))))"

definition acceptProjectMembershipInvite_async :: "Env \<Rightarrow> string \<Rightarrow> string \<Rightarrow> ProjectMembership async" where
  "acceptProjectMembershipInvite_async E pid uid =
     bindA (readA (requireProject pid)) (\<lambda>project.
     bindA (readA (requireUser uid)) (\<lambda>_.
     audited_async E (atomA (repo_acceptProjectMembershipInvite pid uid (env_now E)))
       (\<lambda>m. pureA (member_audit project ''project_member.accepted'' m (role_meta m)))))"

subsection \<open>API keys\<close>

definition createApiKey_async :: "Env \<Rightarrow> CreateApiKeyInput \<Rightarrow> (ApiKey \<times> string) async" where
  "createApiKey_async E i =
     bindA (case truthy_string (cki_projectId i) of None \<Rightarrow> pureA None
       | Some pid \<Rightarrow> bindA (readA (requireProject pid)) (\<lambda>p. pureA (Some p))) (\<lambda>project.
     let oid = truthy_string (case cki_organizationId i of Some x \<Rightarrow> Some x
           | None \<Rightarrow> (case project of None \<Rightarrow> None | Some p \<Rightarrow> prj_organizationId p))
     in
     bindA (case oid of None \<Rightarrow> pureA ()
       | Some x \<Rightarrow> bindA (readA (requireOrganization x)) (\<lambda>_. pureA ())) (\<lambda>_.
     bindA (guardA (oid = None \<and> project = None) Validation
       ''api key requires organizationId or projectId'') (\<lambda>_.
     bindA (liftA (newId E (cki_id i) ''api key id'' ''key'')) (\<lambda>rid.
     bindA (liftA (normalizeApiKeyName (cki_name i))) (\<lambda>name.
     bindA (liftA (normalizeApiScopes (cki_scopes i))) (\<lambda>scopes.
     bindA (audited_async E (atomA (repo_createApiKey
         \<lparr>key_id = rid, key_organizationId = oid, key_projectId = map_option prj_id project,
          key_name = name, key_scopes = scopes, key_createdAt = env_now E,
          key_lastUsedAt = None, key_revokedAt = None\<rparr> (hashApiToken_async E (newToken E))))
       (\<lambda>k. pureA (key_audit k ''api_key.created''
          [(''scopes'', JArr (map scope_json (key_scopes k)))]))) (\<lambda>k.
     pureA (k, newToken E))))))))"

definition revokeApiKey_async :: "Env \<Rightarrow> json \<Rightarrow> ApiKey async" where
  "revokeApiKey_async E v =
     bindA (liftA (requireApiKeyId v)) (\<lambda>rid.
     audited_async E (atomA (repo_revokeApiKey rid (env_now E))) (\<lambda>k. pureA (key_audit k ''api_key.revoked'' [])))"

definition rotateApiKey_async :: "Env \<Rightarrow> RotateApiKeyInput \<Rightarrow> (ApiKey \<times> ApiKey \<times> string) async" where
  "rotateApiKey_async E i =
     bindA (liftA (requireApiKeyId (rki_id i))) (\<lambda>rid.
     bindA (liftA (newId E (rki_replacementId i) ''replacement api key id'' ''key'')) (\<lambda>newId.
     bindA (liftA (if rki_replacementName i = JUndefined then Inr None
       else bindE (normalizeApiKeyName (rki_replacementName i)) (\<lambda>n. Inr (Some n)))) (\<lambda>newName.
     bindA (audited_async E (atomA (repo_rotateApiKey rid newId newName (hashApiToken_async E (newToken E)) (env_now E)))
       (\<lambda>(old, new). pureA (key_audit old ''api_key.rotated''
          [(''replacementId'', JStr (key_id new))]))) (\<lambda>(old, new).
     pureA (old, new, newToken E)))))"

definition authenticateApiToken_async :: "Env \<Rightarrow> json \<Rightarrow> ApiToken option async" where
  "authenticateApiToken_async E v =
     (let token = (case v of JStr s \<Rightarrow> trim s | _ \<Rightarrow> [])
      in if token = [] then pureA None
         else bindA (askA (\<lambda>s. getApiKeyByTokenHash s (hashApiToken_async E token))) (\<lambda>k. case k of
           None \<Rightarrow> pureA None
         | Some apiKey \<Rightarrow>
             if truthy_string (key_revokedAt apiKey) \<noteq> None then pureA None
             else bindA (atomA (repo_updateApiKeyLastUsed (key_id apiKey) (env_now E))) (\<lambda>used.
               pureA (Some \<lparr>tok_token = token, tok_scopes = key_scopes used,
                 tok_principal = ''api-key:'' @ key_id used, tok_apiKeyId = key_id used,
                 tok_organizationId = key_organizationId used, tok_projectId = key_projectId used\<rparr>))))"

subsection \<open>Custom domains\<close>

definition createCustomDomain_async :: "Env \<Rightarrow> json \<Rightarrow> string \<Rightarrow> json \<Rightarrow> CustomDomain async" where
  "createCustomDomain_async E inputId pid inputHost =
     bindA (readA (requireProject pid)) (\<lambda>_.
     bindA (liftA (normalizeHost inputHost)) (\<lambda>host.
     let token = ''wmpdv_'' @ env_randomHex E in
     bindA (liftA (newId E inputId ''custom domain id'' ''dom'')) (\<lambda>rid.
     audited_async E (atomA (repo_createCustomDomain
         \<lparr>dom_id = rid, dom_projectId = pid, dom_host = host, dom_status = PendingVerification,
          dom_verificationToken = token,
          dom_verificationRecordName = customDomainVerificationRecordName host,
          dom_verificationRecordValue = customDomainVerificationRecordValue token,
          dom_tlsStatus = TlsNone, dom_tlsProvider = None, dom_tlsRequestId = None,
          dom_tlsError = None, dom_createdAt = env_now E, dom_updatedAt = env_now E,
          dom_verifiedAt = None, dom_tlsProvisionedAt = None\<rparr>))
       (\<lambda>d. project_audit_async (dom_projectId d) ''custom_domain.created'' ''custom_domain'' (dom_id d)
          [(''host'', JStr (dom_host d))]))))"

definition deleteCustomDomain_async :: "Env \<Rightarrow> string \<Rightarrow> CustomDomain async" where
  "deleteCustomDomain_async E rid =
     bindA (readA (requireCustomDomain rid)) (\<lambda>domain.
     bindA (askA (\<lambda>s. filter (\<lambda>r. rte_host r = dom_host domain) (listRoutes s))) (\<lambda>routes.
     bindA (guardA (list_ex (\<lambda>r. rte_projectId r \<noteq> dom_projectId domain) routes) Validation
       (''custom domain '' @ dom_host domain @ '' has a route owned by another project'')) (\<lambda>_.
     bindA (guardA (routes \<noteq> []) Validation
       (''custom domain '' @ dom_host domain @ '' still has routes'')) (\<lambda>_.
     audited_async E (atomA (repo_deleteCustomDomain (dom_id domain)))
       (\<lambda>d. project_audit_async (dom_projectId d) ''custom_domain.deleted'' ''custom_domain'' (dom_id d)
          [(''host'', JStr (dom_host d))])))))"

definition verifyCustomDomainOwnership_async :: "Env \<Rightarrow> string \<Rightarrow> json \<Rightarrow> CustomDomain async" where
  "verifyCustomDomainOwnership_async E rid txtRecords =
     bindA (readA (requireCustomDomain rid)) (\<lambda>domain.
     bindA (liftA (txtRecordValues txtRecords)) (\<lambda>records.
     bindA (guardA (dom_verificationRecordValue domain \<notin> set records) Validation
       (''custom domain '' @ dom_host domain @ '' ownership TXT record was not found'')) (\<lambda>_.
     atomA (repo_updateCustomDomain (domain\<lparr>dom_status := Verified, dom_verifiedAt := Some (env_now E),
       dom_updatedAt := env_now E\<rparr>)))))"

definition requestCustomDomainTlsProvisioning_async ::
    "Env \<Rightarrow> string \<Rightarrow> json \<Rightarrow> json \<Rightarrow> CustomDomain async" where
  "requestCustomDomainTlsProvisioning_async E rid provider requestId =
     bindA (readA (requireCustomDomain rid)) (\<lambda>domain.
     bindA (guardA (dom_status domain \<noteq> Verified \<and> dom_status domain \<noteq> TlsFailed
         \<and> dom_status domain \<noteq> DomainActive) Validation
       (''custom domain '' @ dom_host domain @ '' is not verified'')) (\<lambda>_.
     bindA (liftA (spreadProvider provider ''tls provider'' (dom_tlsProvider domain))) (\<lambda>prov.
     bindA (liftA (spreadProvider requestId ''tls requestId'' (dom_tlsRequestId domain))) (\<lambda>req.
     atomA (repo_updateCustomDomain (domain\<lparr>dom_status := TlsPending, dom_tlsStatus := TlsStatusPending,
       dom_tlsProvider := prov, dom_tlsRequestId := req, dom_tlsError := None,
       dom_updatedAt := env_now E\<rparr>))))))"

definition completeCustomDomainTlsProvisioning_async :: "Env \<Rightarrow> CompleteTlsInput \<Rightarrow> CustomDomain async" where
  "completeCustomDomainTlsProvisioning_async E i =
     bindA (readA (requireCustomDomain (cti_id i))) (\<lambda>domain.
     bindA (liftA (case cti_ok i of JBool b \<Rightarrow> Inr b
       | _ \<Rightarrow> throwC Validation ''custom domain tls completion ok must be a boolean'')) (\<lambda>ok.
     bindA (liftA (spreadProvider (cti_provider i) ''tls provider'' (dom_tlsProvider domain))) (\<lambda>prov.
     bindA (liftA (spreadProvider (cti_requestId i) ''tls requestId'' (dom_tlsRequestId domain))) (\<lambda>req.
     bindA (liftA (if ok then Inr None else optionalNonEmpty (cti_error i) ''tls error'')) (\<lambda>err.
     atomA (repo_updateCustomDomain (domain\<lparr>dom_status := (if ok then DomainActive else TlsFailed),
       dom_tlsStatus := (if ok then TlsProvisioned else TlsStatusFailed),
       dom_tlsProvider := prov, dom_tlsRequestId := req, dom_tlsError := err,
       dom_updatedAt := env_now E,
       dom_tlsProvisionedAt := (if ok then Some (env_now E) else dom_tlsProvisionedAt domain)\<rparr>)))))))"

subsection \<open>Artifacts, secrets and namespaces\<close>

definition enforceQuota_async :: "Env \<Rightarrow> string \<Rightarrow> ProjectQuotaResource \<Rightarrow> unit async" where
  "enforceQuota_async E pid res = readA (\<lambda>s.
     enforceProjectQuota pid (env_projectQuotas E) (getProjectUsage s pid) res)"

definition createArtifact_async :: "Env \<Rightarrow> CreateArtifactInput \<Rightarrow> Artifact async" where
  "createArtifact_async E i =
     bindA (readA (requireProject (cai_projectId i))) (\<lambda>_.
     bindA (enforceQuota_async E (cai_projectId i) QArtifact) (\<lambda>_.
     bindA (liftA (newId E (cai_id i) ''artifact id'' ''art'')) (\<lambda>rid.
     bindA (liftA (normalizeDigest (cai_digest i))) (\<lambda>digest.
     bindA (liftA (normalizeLocation (cai_location i))) (\<lambda>location.
     bindA (liftA (normalizeSizeBytes (cai_sizeBytes i))) (\<lambda>size.
     bindA (liftA (normalizeArtifactSignature (cai_signature i))) (\<lambda>signature.
     bindA (liftA (normalizeArtifactProvenance (cai_provenance i))) (\<lambda>provenance.
     let artifact = \<lparr>art_id = rid, art_projectId = cai_projectId i, art_digest = digest,
           art_location = location, art_sizeBytes = size, art_signature = signature,
           art_provenance = provenance, art_createdAt = env_now E\<rparr>
     in bindA (liftA (enforceArtifactAdmissionPolicy (env_admissionPolicy E) artifact)) (\<lambda>_.
        atomA (repo_createArtifact artifact))))))))))"

definition createSecret_async :: "Env \<Rightarrow> json \<Rightarrow> string \<Rightarrow> json \<Rightarrow> json \<Rightarrow> Resource async" where
  "createSecret_async E inputId pid inputName v =
     bindA (readA (requireProject pid)) (\<lambda>_.
     bindA (enforceQuota_async E pid QSecret) (\<lambda>_.
     bindA (liftA (newId E inputId ''secret id'' ''sec'')) (\<lambda>rid.
     bindA (liftA (normalizeSecretName inputName)) (\<lambda>name.
     bindA (liftA (normalizeSecretValue v)) (\<lambda>value.
     atomA (repo_createSecret (new_resource E rid pid name) (env_encrypt E value)))))))"

definition updateSecretValue_async :: "Env \<Rightarrow> string \<Rightarrow> json \<Rightarrow> Resource async" where
  "updateSecretValue_async E rid v =
     bindA (readA (requireSecret rid)) (\<lambda>_.
     bindA (liftA (normalizeSecretValue v)) (\<lambda>value.
     atomA (repo_updateSecretValue rid (env_encrypt E value) (env_now E))))"

definition deleteSecret_async :: "string \<Rightarrow> unit async" where
  "deleteSecret_async rid = bindA (readA (requireSecret rid)) (\<lambda>_. atomA (repo_deleteSecret rid))"

definition createKvNamespace_async :: "Env \<Rightarrow> json \<Rightarrow> string \<Rightarrow> json \<Rightarrow> Resource async" where
  "createKvNamespace_async E inputId pid inputName =
     bindA (readA (requireProject pid)) (\<lambda>_.
     bindA (enforceQuota_async E pid QKvNamespace) (\<lambda>_.
     bindA (liftA (newId E inputId ''kv namespace id'' ''kv'')) (\<lambda>rid.
     bindA (liftA (normalizeKvNamespaceName inputName)) (\<lambda>name.
     atomA (repo_createKvNamespace (new_resource E rid pid name))))))"

definition deleteKvNamespace_async :: "string \<Rightarrow> unit async" where
  "deleteKvNamespace_async rid = bindA (readA (requireKvNamespace rid)) (\<lambda>_. atomA (repo_deleteKvNamespace rid))"

definition createDurableObjectNamespace_async :: "Env \<Rightarrow> json \<Rightarrow> string \<Rightarrow> json \<Rightarrow> Resource async" where
  "createDurableObjectNamespace_async E inputId pid inputName =
     bindA (readA (requireProject pid)) (\<lambda>_.
     bindA (enforceQuota_async E pid QDurableObjectNamespace) (\<lambda>_.
     bindA (liftA (newId E inputId ''durable object namespace id'' ''do'')) (\<lambda>rid.
     bindA (liftA (normalizeDurableObjectNamespaceName inputName)) (\<lambda>name.
     atomA (repo_createDurableObjectNamespace (new_resource E rid pid name))))))"

definition deleteDurableObjectNamespace_async :: "string \<Rightarrow> unit async" where
  "deleteDurableObjectNamespace_async rid =
     bindA (readA (requireDurableObjectNamespace rid)) (\<lambda>_. atomA (repo_deleteDurableObjectNamespace rid))"

subsection \<open>Deployments\<close>

definition requireDeploymentKvNamespaces_async :: "string \<Rightarrow> CapabilityPolicy \<Rightarrow> unit async" where
  "requireDeploymentKvNamespaces_async pid c = forA (\<lambda>b. readA (\<lambda>s.
     same_project ''kv namespace'' pid (kv_namespaceId b) (getKvNamespace s (kv_namespaceId b)))) (cap_kv c)"

definition requireDeploymentDurableObjectNamespaces_async :: "string \<Rightarrow> CapabilityPolicy \<Rightarrow> unit async" where
  "requireDeploymentDurableObjectNamespaces_async pid c = forA (\<lambda>b. readA (\<lambda>s.
     same_project ''durable object namespace'' pid (do_namespaceId b)
       (getDurableObjectNamespace s (do_namespaceId b)))) (cap_durableObjects c)"

definition requireDeploymentSecrets_async :: "string \<Rightarrow> CapabilityPolicy \<Rightarrow> unit async" where
  "requireDeploymentSecrets_async pid c = forA (\<lambda>b. readA (\<lambda>s.
     same_project ''secret'' pid (sec_secretId b) (getSecret s (sec_secretId b)))) (cap_secrets c)"

definition requireDeploymentServiceBindings_async :: "CapabilityPolicy \<Rightarrow> unit async" where
  "requireDeploymentServiceBindings_async c = forA (\<lambda>b. readA (\<lambda>s.
     guardC (getProject s (svc_targetProjectId b) = None) Validation
       (''service target project '' @ svc_targetProjectId b @ '' was not found''))) (cap_services c)"

definition createDeployment_async :: "Env \<Rightarrow> CreateDeploymentInput \<Rightarrow> Deployment async" where
  "createDeployment_async E i =
     bindA (readA (requireProject (cdi_projectId i))) (\<lambda>_.
     bindA (enforceQuota_async E (cdi_projectId i) QDeployment) (\<lambda>_.
     bindA (readA (requireArtifact (cdi_artifactId i))) (\<lambda>artifact.
     bindA (guardA (art_projectId artifact \<noteq> cdi_projectId i) Validation
       ''deployment artifact must belong to the same project'') (\<lambda>_.
     bindA (liftA (normalizeCapabilities (env_urls E) (cdi_capabilities i))) (\<lambda>capabilities.
     bindA (liftA (normalizeWorld (cdi_world i))) (\<lambda>world.
     bindA (liftA (workerWorldVersion world)) (\<lambda>worldVersion.
     bindA (liftA (normalizeRuntime (cdi_runtime i))) (\<lambda>runtime.
     bindA (liftA (env_verifyArtifact E artifact)) (\<lambda>_.
     bindA (liftA (enforceDeploymentAdmissionPolicy (env_urls E) (env_admissionPolicy E)
       \<lparr>adi_artifact = artifact, adi_world = world, adi_worldVersion = worldVersion,
        adi_runtime = runtime, adi_capabilities = capabilities\<rparr>)) (\<lambda>_.
     bindA (requireDeploymentKvNamespaces_async (cdi_projectId i) capabilities) (\<lambda>_.
     bindA (requireDeploymentDurableObjectNamespaces_async (cdi_projectId i) capabilities) (\<lambda>_.
     bindA (requireDeploymentSecrets_async (cdi_projectId i) capabilities) (\<lambda>_.
     bindA (requireDeploymentServiceBindings_async capabilities) (\<lambda>_.
     bindA (liftA (newId E (cdi_id i) ''deployment id'' ''dep'')) (\<lambda>rid.
     bindA (liftA (normalizeLimits (cdi_limits i))) (\<lambda>limits.
     audited_async E (atomA (repo_createDeployment
         \<lparr>dep_id = rid, dep_projectId = cdi_projectId i, dep_artifactId = cdi_artifactId i,
          dep_world = world, dep_worldVersion = worldVersion, dep_runtime = runtime,
          dep_limits = limits, dep_capabilities = capabilities, dep_createdAt = env_now E\<rparr>))
       (\<lambda>d. project_audit_async (dep_projectId d) ''deployment.created'' ''deployment'' (dep_id d)
          [(''artifactId'', JStr (dep_artifactId d)), (''world'', JStr (dep_world d)),
           (''worldVersion'', JStr (dep_worldVersion d))])))))))))))))))))"

subsection \<open>Routes and canaries\<close>

definition requireTargets_async :: "string \<Rightarrow> RouteTarget list \<Rightarrow> unit async" where
  "requireTargets_async pid targets = forA (\<lambda>t. readA (\<lambda>s.
     bindE (requireDeployment (tgt_deploymentId t) s) (\<lambda>d.
     guardC (dep_projectId d \<noteq> pid) Validation ''route deployment must belong to the same project'')))
     targets"

definition pointRoute_async :: "Env \<Rightarrow> PointRouteInput \<Rightarrow> RoutePointer async" where
  "pointRoute_async E i =
     bindA (readA (requireProject (pri_projectId i))) (\<lambda>_.
     bindA (liftA (normalizeRouteTargets (pri_targets i) (pri_deploymentId i))) (\<lambda>targets.
     bindA (requireTargets_async (pri_projectId i) targets) (\<lambda>_.
     bindA (liftA (normalizeHost (pri_host i))) (\<lambda>host.
     bindA (liftA (normalizePathPrefix (pri_pathPrefix i))) (\<lambda>path.
     bindA (readA (enforceRouteCustomDomain (pri_projectId i) host)) (\<lambda>_.
     bindA (askA (\<lambda>s. getRoute s (pri_projectId i, host, path))) (\<lambda>existing.
     bindA (if existing = None then enforceQuota_async E (pri_projectId i) QRoute else pureA ()) (\<lambda>_.
     bindA (liftA (newId E (pri_id i) ''route id'' ''rte'')) (\<lambda>rid.
     audited_async E (atomA (upsertRoute
         \<lparr>rte_id = rid, rte_projectId = pri_projectId i, rte_host = host, rte_pathPrefix = path,
          rte_deploymentId = tgt_deploymentId (hd targets), rte_targets = targets,
          rte_updatedAt = env_now E\<rparr>))
       (\<lambda>r. project_audit_async (rte_projectId r) ''route.pointed'' ''route'' (rte_id r)
          [(''host'', JStr (rte_host r)), (''pathPrefix'', JStr (rte_pathPrefix r)),
           (''deploymentId'', JStr (rte_deploymentId r))]))))))))))"

definition startRouteCanary_async :: "Env \<Rightarrow> StartRouteCanaryInput \<Rightarrow> RoutePointer async" where
  "startRouteCanary_async E i =
     bindA (readA (requireProject (sci_projectId i))) (\<lambda>_.
     bindA (liftA (normalizeHost (sci_host i))) (\<lambda>host.
     bindA (liftA (normalizePathPrefix (sci_pathPrefix i))) (\<lambda>path.
     bindA (readA (requireRoute (sci_projectId i) host path)) (\<lambda>existing.
     bindA (readA (requireDeployment (sci_deploymentId i))) (\<lambda>candidate.
     bindA (guardA (dep_projectId candidate \<noteq> sci_projectId i) Validation
       ''canary deployment must belong to the same project'') (\<lambda>_.
     let stable = stable_deployment existing in
     bindA (guardA (stable = dep_id candidate) Validation
       ''canary deployment must differ from stable deployment'') (\<lambda>_.
     bindA (liftA (canaryWeight (sci_weight i))) (\<lambda>w.
     atomA (upsertRoute (retarget E existing stable
       [\<lparr>tgt_deploymentId = stable, tgt_weight = 100 - w\<rparr>,
        \<lparr>tgt_deploymentId = dep_id candidate, tgt_weight = w\<rparr>]))))))))))"

definition rollbackRoute_async :: "Env \<Rightarrow> RollbackRouteInput \<Rightarrow> RoutePointer async" where
  "rollbackRoute_async E i =
     bindA (readA (requireProject (rri_projectId i))) (\<lambda>_.
     bindA (liftA (normalizeHost (rri_host i))) (\<lambda>host.
     bindA (liftA (normalizePathPrefix (rri_pathPrefix i))) (\<lambda>path.
     bindA (readA (requireRoute (rri_projectId i) host path)) (\<lambda>existing.
     let d = (case rri_deploymentId i of None \<Rightarrow> stable_deployment existing | Some x \<Rightarrow> x) in
     bindA (readA (requireDeployment d)) (\<lambda>deployment.
     bindA (guardA (dep_projectId deployment \<noteq> rri_projectId i) Validation
       ''rollback deployment must belong to the same project'') (\<lambda>_.
     atomA (upsertRoute (retarget E existing d (single_target d)))))))))"

definition analyzeRouteCanary_async ::
    "Env \<Rightarrow> AnalyzeRouteCanaryInput \<Rightarrow> (CanaryDecision \<times> RoutePointer) async" where
  "analyzeRouteCanary_async E i =
     bindA (readA (requireProject (aci_projectId i))) (\<lambda>_.
     bindA (liftA (normalizeHost (aci_host i))) (\<lambda>host.
     bindA (liftA (normalizePathPrefix (aci_pathPrefix i))) (\<lambda>path.
     bindA (readA (requireRoute (aci_projectId i) host path)) (\<lambda>existing.
     let stable = stable_deployment existing in
     bindA (readA (requireDeployment (aci_candidateDeploymentId i))) (\<lambda>candidate.
     bindA (guardA (dep_projectId candidate \<noteq> aci_projectId i) Validation
       ''canary deployment must belong to the same project'') (\<lambda>_.
     bindA (guardA (dep_id candidate \<notin> tgt_deploymentId ` set (rte_targets existing)) Validation
       ''canary deployment is not a target of the route'') (\<lambda>_.
     let (action, reason, metrics) =
       analyzeCanaryEvents (aci_events i) (dep_id candidate) (aci_thresholds i) in
     bindA (atomA (repo_createCanaryDecision
       \<lparr>can_id = env_idGenerator E ''can'', can_projectId = aci_projectId i, can_host = host,
        can_pathPrefix = path, can_stableDeploymentId = stable,
        can_candidateDeploymentId = dep_id candidate, can_action = action, can_reason = reason,
        can_metrics = metrics, can_thresholds = aci_thresholds i, can_createdAt = env_now E\<rparr>)) (\<lambda>decision.
     bindA (if action = CanaryRollback
            then atomA (upsertRoute (retarget E existing stable (single_target stable))) else pureA existing) (\<lambda>route.
     pureA (decision, route))))))))))"

subsection \<open>Previews\<close>

definition createDeployPreview_async :: "Env \<Rightarrow> CreateDeployPreviewInput \<Rightarrow> DeployPreview async" where
  "createDeployPreview_async E i =
     bindA (readA (requireProject (dpi_projectId i))) (\<lambda>_.
     bindA (readA (requireDeployment (dpi_deploymentId i))) (\<lambda>deployment.
     bindA (guardA (dep_projectId deployment \<noteq> dpi_projectId i) Validation
       ''deploy preview deployment must belong to the same project'') (\<lambda>_.
     bindA (liftA (normalizeHost (nullish (dpi_host i)
       (JStr (defaultDeployPreviewHost (dpi_projectId i) (dpi_deploymentId i)))))) (\<lambda>host.
     bindA (liftA (normalizePathPrefix (nullish (dpi_pathPrefix i) (JStr ''/'')))) (\<lambda>path.
     bindA (liftA (normalizeDeployPreviewEnvironment (env_collate E) (dpi_environment i))) (\<lambda>environment.
     bindA (readA (enforceRouteCustomDomain (dpi_projectId i) host)) (\<lambda>_.
     bindA (askA (\<lambda>s. getRoute s (dpi_projectId i, host, path))) (\<lambda>existing.
     bindA (if existing = None then enforceQuota_async E (dpi_projectId i) QRoute else pureA ()) (\<lambda>_.
     bindA (liftA (newId E (dpi_id i) ''deploy preview id'' ''prv'')) (\<lambda>rid.
     bindA (atomA (upsertRoute
       \<lparr>rte_id = (case existing of Some r \<Rightarrow> rte_id r | None \<Rightarrow> env_idGenerator E ''rte''),
        rte_projectId = dpi_projectId i, rte_host = host, rte_pathPrefix = path,
        rte_deploymentId = dep_id deployment, rte_targets = single_target (dep_id deployment),
        rte_updatedAt = env_now E\<rparr>)) (\<lambda>_.
     atomA (repo_createDeployPreview
       \<lparr>prv_id = rid, prv_projectId = dpi_projectId i, prv_deploymentId = dep_id deployment,
        prv_host = host, prv_pathPrefix = path, prv_url = deployPreviewUrl host path,
        prv_environment = environment, prv_status = PreviewActive, prv_createdAt = env_now E,
        prv_updatedAt = env_now E, prv_previousRoute = map_option deployPreviewPreviousRoute existing,
        prv_rolledBackAt = None\<rparr>))))))))))))"

definition rollbackDeployPreview_async :: "Env \<Rightarrow> string \<Rightarrow> DeployPreview async" where
  "rollbackDeployPreview_async E rid =
     bindA (readA (requireDeployPreview rid)) (\<lambda>preview.
     if prv_status preview = RolledBack then pureA preview
     else bindA (case prv_previousRoute preview of
         Some p \<Rightarrow> bindA (atomA (upsertRoute
             \<lparr>rte_id = pre_id p, rte_projectId = prv_projectId preview, rte_host = prv_host preview,
              rte_pathPrefix = prv_pathPrefix preview, rte_deploymentId = pre_deploymentId p,
              rte_targets = pre_targets p, rte_updatedAt = env_now E\<rparr>)) (\<lambda>_. pureA ())
       | None \<Rightarrow> atomA (deleteRoute (prv_projectId preview, prv_host preview, prv_pathPrefix preview))) (\<lambda>_.
       atomA (repo_updateDeployPreview (preview\<lparr>prv_status := RolledBack, prv_updatedAt := env_now E,
         prv_rolledBackAt := Some (env_now E)\<rparr>))))"

subsection \<open>Runtime nodes\<close>

definition registerRuntimeNode_async :: "Env \<Rightarrow> RegisterRuntimeNodeInput \<Rightarrow> RuntimeNode async" where
  "registerRuntimeNode_async E i =
     bindA (liftA (normalizeRuntimeNodeIdentity (rni_identity i))) (\<lambda>identity.
     bindA (liftA (normalizeRuntimeNodeHostInfo (rni_host i))) (\<lambda>host.
     bindA (liftA (newId E (rni_id i) ''runtime node id'' ''rt'')) (\<lambda>rid.
     bindA (liftA (normalizeRuntimeNodeUrl (env_urls E) (rni_url i))) (\<lambda>url.
     bindA (liftA (normalizeRuntimeNodeStatus (rni_status i))) (\<lambda>status.
     bindA (liftA (normalizeRuntimeNodeRegion (rni_region i))) (\<lambda>region.
     bindA (liftA (normalizeRuntimeNodeLabels (env_collate E) (rni_labels i))) (\<lambda>labels.
     atomA (repo_createRuntimeNode
       \<lparr>node_id = rid, node_url = url, node_status = status, node_registeredAt = env_now E,
        node_lastSeenAt = None, node_version = None, node_capacity = None, node_region = region,
        node_labels = labels, node_load = None, node_identity = identity, node_host = host\<rparr>))))))))"

definition recordRuntimeNodeHeartbeat_async :: "Env \<Rightarrow> HeartbeatInput \<Rightarrow> RuntimeNode async" where
  "recordRuntimeNodeHeartbeat_async E i =
     bindA (readA (\<lambda>s. require ''runtime node'' (hbi_id i) (getRuntimeNode s (hbi_id i)))) (\<lambda>existing.
     bindA (liftA (normalizeRuntimeNodeStatus (hbi_status i))) (\<lambda>status.
     bindA (liftA (normalizeRuntimeNodeCapacity (hbi_capacity i))) (\<lambda>capacity.
     bindA (liftA (normalizeRuntimeNodeLoad (hbi_load i))) (\<lambda>load.
     bindA (liftA (normalizeRuntimeNodeIdentity (hbi_identity i))) (\<lambda>identity.
     bindA (liftA (normalizeRuntimeNodeHostInfo (hbi_host i))) (\<lambda>host.
     atomA (updateRuntimeNodeHeartbeat (existing\<lparr>node_status := status,
       node_lastSeenAt := Some (env_now E), node_version := or_else (hbi_version i) (node_version existing),
       node_capacity := or_else capacity (node_capacity existing),
       node_load := or_else load (node_load existing),
       node_identity := or_else identity (node_identity existing),
       node_host := or_else host (node_host existing)\<rparr>))))))))"

definition updateRuntimeNodeStatus_async :: "string \<Rightarrow> json \<Rightarrow> RuntimeNode async" where
  "updateRuntimeNodeStatus_async rid v =
     bindA (liftA (normalizeRuntimeNodeStatus v)) (\<lambda>st. atomA (repo_updateRuntimeNodeStatus rid st))"

fun deleteRuntimeNodes_async :: "RuntimeNode list \<Rightarrow> unit async" where
  "deleteRuntimeNodes_async [] = pureA ()"
| "deleteRuntimeNodes_async (n # ns) = bindA (atomA (deleteRuntimeNode (node_id n))) (\<lambda>_. deleteRuntimeNodes_async ns)"

definition cleanupRuntimeNodes_async :: "Env \<Rightarrow> json \<Rightarrow> json \<Rightarrow> (string \<times> RuntimeNode list) async" where
  "cleanupRuntimeNodes_async E olderThan statuses =
     bindA (liftA (cleanupOlderThanMs olderThan)) (\<lambda>olderThanMs.
     bindA (liftA (cleanupStatuses statuses)) (\<lambda>sts.
     let cutoffMs = env_nowMs E - olderThanMs in
     bindA (askA (\<lambda>s. filter (is_stale E sts cutoffMs) (listRuntimeNodes s))) (\<lambda>removed.
     bindA (deleteRuntimeNodes_async removed) (\<lambda>_.
     pureA (dateToISO (env_dates E) cutoffMs, removed)))))"

subsection \<open>Route snapshots\<close>

definition routeSnapshotTarget_async :: "RouteTarget \<Rightarrow> RouteSnapshotTarget async" where
  "routeSnapshotTarget_async t =
     bindA (readA (requireDeployment (tgt_deploymentId t))) (\<lambda>d.
     bindA (readA (requireArtifact (dep_artifactId d))) (\<lambda>a.
     pureA \<lparr>st_deploymentId = dep_id d, st_weight = tgt_weight t, st_world = dep_world d,
            st_worldVersion = dep_worldVersion d, st_runtime = dep_runtime d,
            st_limits = dep_limits d, st_capabilities = dep_capabilities d,
            st_artifact = routeSnapshotArtifact a\<rparr>))"

text \<open>\<open>Inl TypeError\<close> is the \<open>TypeError\<close> of a route without targets, which rejects the whole.\<close>

fun snapshotEntries_async :: "RoutePointer list \<Rightarrow> (js_exn + RouteSnapshotEntry list) async" where
  "snapshotEntries_async [] = pureA (Inr [])"
| "snapshotEntries_async (r # rs) = bindA (mapA routeSnapshotTarget_async (rte_targets r)) (\<lambda>targets.
     case targets of [] \<Rightarrow> pureA (Inl TypeError)
     | primary # rest \<Rightarrow> bindA (snapshotEntries_async rs) (\<lambda>entries. case entries of
         Inl e \<Rightarrow> pureA (Inl e)
       | Inr es \<Rightarrow> pureA (Inr (\<lparr>se_host = rte_host r, se_pathPrefix = rte_pathPrefix r,
          se_projectId = rte_projectId r, se_deploymentId = st_deploymentId primary,
          se_targets = primary # rest, se_world = st_world primary,
          se_worldVersion = st_worldVersion primary, se_runtime = st_runtime primary,
          se_limits = st_limits primary, se_capabilities = st_capabilities primary,
          se_artifact = st_artifact primary\<rparr> # es))))"

definition createRouteSnapshot_async :: "Env \<Rightarrow> (js_exn + RouteSnapshot) async" where
  "createRouteSnapshot_async E =
     bindA (askA listRoutes) (\<lambda>stored.
     bindA (snapshotEntries_async stored) (\<lambda>entries. case entries of
       Inl e \<Rightarrow> pureA (Inl e)
     | Inr routes \<Rightarrow> pureA (Inr \<lparr>snap_id = Some (snapshotId E (env_now E) routes), snap_schemaVersion = 1,
          snap_generatedAt = env_now E, snap_routes = routes\<rparr>)))"

end
