(* ===== verification/AsyncLaws.thy ===== *)
theory AsyncLaws
  imports AsyncService SnapshotFlow
begin

text \<open>
  What the asynchronous control plane shares with the synchronous one and what interleaving takes away:
  run alone, an operation is its synchronous counterpart; among others, the integrity of the database
  survives, for nothing another operation relies on is ever deleted; the checks that count or compare
  rows do not.
\<close>

subsection \<open>Alone, the operations are the synchronous ones\<close>

lemma run_helpers [run_alone]:
  "runA (recordCustomerAuditEvent_async E ai) = recordCustomerAuditEvent E ai"
  "runA (project_audit_async pid a t x m) = project_audit pid a t x m"
  "runA (enforceQuota_async E pid res) = enforceQuota E pid res"
  by (simp_all add: recordCustomerAuditEvent_async_def recordCustomerAuditEvent_def
      project_audit_async_def project_audit_def enforceQuota_async_def enforceQuota_def run_alone Let_def cong: option.case_cong if_cong prod.case_cong)

lemma run_audited [run_alone]:
  "runA (audited_async E m f) = audited E (runA m) (\<lambda>x. runA (f x))"
  by (simp add: audited_async_def audited_def run_alone cong: option.case_cong if_cong prod.case_cong)

lemma run_checks [run_alone]:
  "runA (requireDeploymentKvNamespaces_async pid c) = readS (requireDeploymentKvNamespaces pid c)"
  "runA (requireDeploymentDurableObjectNamespaces_async pid c) = readS (requireDeploymentDurableObjectNamespaces pid c)"
  "runA (requireDeploymentSecrets_async pid c) = readS (requireDeploymentSecrets pid c)"
  "runA (requireDeploymentServiceBindings_async c) = readS (requireDeploymentServiceBindings c)"
  "runA (requireTargets_async pid ts) = readS (requireTargets pid ts)"
  unfolding requireDeploymentKvNamespaces_async_def requireDeploymentDurableObjectNamespaces_async_def
    requireDeploymentSecrets_async_def requireDeploymentServiceBindings_async_def requireTargets_async_def
    requireDeploymentKvNamespaces_def requireDeploymentDurableObjectNamespaces_def
    requireDeploymentSecrets_def requireDeploymentServiceBindings_def requireTargets_def
  by (simp_all add: runA_forA [OF runA_prims(5)])

lemma run_deleteRuntimeNodes [run_alone]: "runA (deleteRuntimeNodes_async ns) = deleteRuntimeNodes ns"
  by (induction ns) (simp_all add: run_alone cong: option.case_cong if_cong prod.case_cong)

lemma run_accounts [run_alone]:
  "runA (createOrganization_async E oi) = createOrganization E oi"
  "runA (updateOrganizationBilling_async E obi) = updateOrganizationBilling E obi"
  "runA (createUser_async E ui) = createUser E ui"
  "runA (verifyUserEmail_async E uid) = verifyUserEmail E uid"
  "runA (createProject_async E pri) = createProject E pri"
  "runA (addProjectMembership_async E pid uid role) = addProjectMembership E pid uid role"
  "runA (updateProjectMembershipRole_async E pid uid role) = updateProjectMembershipRole E pid uid role"
  "runA (removeProjectMembership_async E pid uid) = removeProjectMembership E pid uid"
  "runA (acceptProjectMembershipInvite_async E pid uid) = acceptProjectMembershipInvite E pid uid"
  "runA (revokeApiKey_async E v) = revokeApiKey E v"
  by (simp_all only: createOrganization_async_def createOrganization_def updateOrganizationBilling_async_def
      updateOrganizationBilling_def createUser_async_def createUser_def verifyUserEmail_async_def
      verifyUserEmail_def createProject_async_def createProject_def addProjectMembership_async_def
      addProjectMembership_def updateProjectMembershipRole_async_def updateProjectMembershipRole_def
      removeProjectMembership_async_def removeProjectMembership_def acceptProjectMembershipInvite_async_def
      acceptProjectMembershipInvite_def revokeApiKey_async_def revokeApiKey_def run_alone cong: option.case_cong if_cong prod.case_cong)

lemma run_resources [run_alone]:
  "runA (createCustomDomain_async E v pid h) = createCustomDomain E v pid h"
  "runA (deleteCustomDomain_async E rid) = deleteCustomDomain E rid"
  "runA (verifyCustomDomainOwnership_async E rid v) = verifyCustomDomainOwnership E rid v"
  "runA (requestCustomDomainTlsProvisioning_async E rid v w) = requestCustomDomainTlsProvisioning E rid v w"
  "runA (completeCustomDomainTlsProvisioning_async E ti) = completeCustomDomainTlsProvisioning E ti"
  "runA (createArtifact_async E ai) = createArtifact E ai"
  "runA (createSecret_async E v pid n x) = createSecret E v pid n x"
  "runA (updateSecretValue_async E rid x) = updateSecretValue E rid x"
  "runA (deleteSecret_async rid) = deleteSecret rid"
  "runA (createKvNamespace_async E v pid n) = createKvNamespace E v pid n"
  "runA (deleteKvNamespace_async rid) = deleteKvNamespace rid"
  "runA (createDurableObjectNamespace_async E v pid n) = createDurableObjectNamespace E v pid n"
  "runA (deleteDurableObjectNamespace_async rid) = deleteDurableObjectNamespace rid"
  by (simp_all only: createCustomDomain_async_def createCustomDomain_def deleteCustomDomain_async_def
      deleteCustomDomain_def verifyCustomDomainOwnership_async_def verifyCustomDomainOwnership_def
      requestCustomDomainTlsProvisioning_async_def requestCustomDomainTlsProvisioning_def
      completeCustomDomainTlsProvisioning_async_def completeCustomDomainTlsProvisioning_def
      createArtifact_async_def createArtifact_def createSecret_async_def createSecret_def
      updateSecretValue_async_def updateSecretValue_def deleteSecret_async_def deleteSecret_def
      createKvNamespace_async_def createKvNamespace_def deleteKvNamespace_async_def deleteKvNamespace_def
      createDurableObjectNamespace_async_def createDurableObjectNamespace_def
      deleteDurableObjectNamespace_async_def deleteDurableObjectNamespace_def run_alone Let_def cong: option.case_cong if_cong prod.case_cong)

lemma run_delivery [run_alone]:
  "runA (createDeployment_async E di) = createDeployment E di"
  "runA (pointRoute_async E poi) = pointRoute E poi"
  "runA (startRouteCanary_async E si) = startRouteCanary E si"
  "runA (rollbackRoute_async E ri) = rollbackRoute E ri"
  "runA (analyzeRouteCanary_async E ci) = analyzeRouteCanary E ci"
  "runA (createDeployPreview_async E vi) = createDeployPreview E vi"
  "runA (rollbackDeployPreview_async E rid) = rollbackDeployPreview E rid"
  "runA (registerRuntimeNode_async E ni) = registerRuntimeNode E ni"
  "runA (recordRuntimeNodeHeartbeat_async E hi) = recordRuntimeNodeHeartbeat E hi"
  "runA (updateRuntimeNodeStatus_async rid v) = updateRuntimeNodeStatus rid v"
  "runA (cleanupRuntimeNodes_async E v w) = cleanupRuntimeNodes E v w"
  by (simp_all only: createDeployment_async_def createDeployment_def pointRoute_async_def pointRoute_def
      startRouteCanary_async_def startRouteCanary_def rollbackRoute_async_def rollbackRoute_def
      analyzeRouteCanary_async_def analyzeRouteCanary_def createDeployPreview_async_def
      createDeployPreview_def rollbackDeployPreview_async_def rollbackDeployPreview_def
      registerRuntimeNode_async_def registerRuntimeNode_def recordRuntimeNodeHeartbeat_async_def
      recordRuntimeNodeHeartbeat_def updateRuntimeNodeStatus_async_def updateRuntimeNodeStatus_def
      cleanupRuntimeNodes_async_def cleanupRuntimeNodes_def run_alone Let_def cong: option.case_cong if_cong prod.case_cong)

subsection \<open>Among others, the integrity survives\<close>

lemma extends_trans: "extends s t \<Longrightarrow> extends t u \<Longrightarrow> extends s u"
  by (auto simp: extends_def)

interpretation db: rely_guarantee "db_ok U" extends for U
  by unfold_locales (auto intro: extends_trans)

text \<open>Calls that leave the core alone, and the programs made of them.\<close>

lemma extends_core: "core_rows s' = core_rows s \<Longrightarrow> extends s s'"
  by (auto simp: core_rows_eq intro: extends_same)

lemma steady_quiet: "quiet m \<Longrightarrow> db.steady U (atomA m)"
  by (rule db.steady_atom) (auto simp: quiet_def intro: extends_core ok_core)

lemma steady_helpers:
  "db.steady U (recordCustomerAuditEvent_async E i)" "db.steady U (project_audit_async pid a x y m)"
  "db.steady U (enforceQuota_async E pid res)"
proof -
  have "quiet (repo_createCustomerAuditEvent r)" for r
    unfolding quiet_def repo_createCustomerAuditEvent_def
    by (intro allI core_insert_row) (simp add: core_rows_def)
  then show "db.steady U (recordCustomerAuditEvent_async E i)"
    unfolding recordCustomerAuditEvent_async_def Let_def
    by (intro db.steady_rules steady_quiet)
  show "db.steady U (project_audit_async pid a x y m)"
    unfolding project_audit_async_def by (intro db.steady_rules)
  show "db.steady U (enforceQuota_async E pid res)"
    unfolding enforceQuota_async_def by (rule db.steady_prims)
qed

lemma steady_audited: "db.steady U m \<Longrightarrow> (\<And>x. db.steady U (f x)) \<Longrightarrow> db.steady U (audited_async E m f)"
  unfolding audited_async_def by (intro db.steady_rules steady_helpers)

lemma steady_deleteRuntimeNodes: "db.steady U (deleteRuntimeNodes_async ns)"
  by (induction ns) (simp_all add: db.steady_rules steady_quiet quiet_repo)

lemmas steadies = db.steady_rules steady_helpers steady_audited steady_deleteRuntimeNodes
  steady_quiet [OF quiet_repo(1)] steady_quiet [OF quiet_repo(2)] steady_quiet [OF quiet_repo(3)]
  steady_quiet [OF quiet_repo(4)] steady_quiet [OF quiet_repo(5)] steady_quiet [OF quiet_repo(6)]
  steady_quiet [OF quiet_repo(7)] steady_quiet [OF quiet_repo(8)] steady_quiet [OF quiet_repo(9)]
  steady_quiet [OF quiet_repo(10)] steady_quiet [OF quiet_repo(11)] steady_quiet [OF quiet_repo(12)]
  steady_quiet [OF quiet_repo(13)] steady_quiet [OF quiet_repo(14)] steady_quiet [OF quiet_repo(15)]
  steady_quiet [OF quiet_repo(16)] steady_quiet [OF quiet_repo(17)] steady_quiet [OF quiet_repo(18)]
  steady_quiet [OF quiet_repo(19)] steady_quiet [OF quiet_repo(20)] steady_quiet [OF quiet_repo(21)]
  steady_quiet [OF quiet_repo(22)] steady_quiet [OF quiet_repo(23)] steady_quiet [OF quiet_repo(24)]
  steady_quiet [OF quiet_repo(25)] steady_quiet [OF quiet_repo(26)]

lemma steady_accounts:
  "db.steady U (createOrganization_async E oi)" "db.steady U (updateOrganizationBilling_async E obi)"
  "db.steady U (createUser_async E ui)" "db.steady U (verifyUserEmail_async E uid)"
  "db.steady U (addProjectMembership_async E pid uid role)"
  "db.steady U (updateProjectMembershipRole_async E pid uid role)"
  "db.steady U (removeProjectMembership_async E pid uid)"
  "db.steady U (acceptProjectMembershipInvite_async E pid uid)"
  "db.steady U (createApiKey_async E ki)" "db.steady U (revokeApiKey_async E v)"
  "db.steady U (rotateApiKey_async E ri)" "db.steady U (authenticateApiToken_async E v)"
  unfolding createOrganization_async_def updateOrganizationBilling_async_def createUser_async_def
    verifyUserEmail_async_def addProjectMembership_async_def updateProjectMembershipRole_async_def
    removeProjectMembership_async_def acceptProjectMembershipInvite_async_def createApiKey_async_def
    revokeApiKey_async_def rotateApiKey_async_def authenticateApiToken_async_def Let_def
  by (intro steadies)+

lemma steady_resources:
  "db.steady U (createCustomDomain_async E v pid h)" "db.steady U (deleteCustomDomain_async E rid)"
  "db.steady U (verifyCustomDomainOwnership_async E rid v)"
  "db.steady U (requestCustomDomainTlsProvisioning_async E rid v w)"
  "db.steady U (completeCustomDomainTlsProvisioning_async E ti)"
  "db.steady U (createSecret_async E v pid h x)" "db.steady U (updateSecretValue_async E rid v)"
  "db.steady U (deleteSecret_async rid)" "db.steady U (createKvNamespace_async E v pid h)"
  "db.steady U (deleteKvNamespace_async rid)" "db.steady U (createDurableObjectNamespace_async E v pid h)"
  "db.steady U (deleteDurableObjectNamespace_async rid)" "db.steady U (registerRuntimeNode_async E ni)"
  "db.steady U (recordRuntimeNodeHeartbeat_async E hi)" "db.steady U (updateRuntimeNodeStatus_async rid v)"
  "db.steady U (cleanupRuntimeNodes_async E v w)"
  unfolding createCustomDomain_async_def deleteCustomDomain_async_def verifyCustomDomainOwnership_async_def
    requestCustomDomainTlsProvisioning_async_def completeCustomDomainTlsProvisioning_async_def
    createSecret_async_def updateSecretValue_async_def deleteSecret_async_def createKvNamespace_async_def
    deleteKvNamespace_async_def createDurableObjectNamespace_async_def deleteDurableObjectNamespace_async_def
    registerRuntimeNode_async_def recordRuntimeNodeHeartbeat_async_def updateRuntimeNodeStatus_async_def
    cleanupRuntimeNodes_async_def Let_def
  by (intro steadies)+

text \<open>Reads of rows that stay, as steps of a program.\<close>

lemma stable_rows:
  "db.stable (\<lambda>s. getProject s k = Some x)" "db.stable (\<lambda>s. getProject s k \<noteq> None)"
  "db.stable (\<lambda>s. getDeployment s k = Some d)" "db.stable (\<lambda>s. getArtifact s k = Some a)"
  "db.stable (\<lambda>s. owned_target s pid t)" "db.stable (\<lambda>s. route_ok s r)" "db.stable (\<lambda>s. preview_ok s v)"
  by (auto simp: db.stable_def extends_def intro: owned_target_mono [unfolded extends_def]
      rows_mono(2,3) [unfolded extends_def])


abbreviation keepsA :: "UrlApi \<Rightarrow> (Db \<Rightarrow> bool) \<Rightarrow> 'a async \<Rightarrow> bool" where
  "keepsA U C p \<equiv> db.holds U C p (\<lambda>_. True)"

lemma walk_rows:
  "(\<And>x. keepsA U (\<lambda>s. C s \<and> getProject s k = Some x) (f1 x)) \<Longrightarrow> keepsA U C (bindA (readA (requireProject k)) f1)"
  "(\<And>x. keepsA U (\<lambda>s. C s \<and> getDeployment s k = Some x) (f2 x)) \<Longrightarrow> keepsA U C (bindA (readA (requireDeployment k)) f2)"
  "(\<And>x. keepsA U (\<lambda>s. C s \<and> getArtifact s k = Some x) (f3 x)) \<Longrightarrow> keepsA U C (bindA (readA (requireArtifact k)) f3)"
  by (rule db.holds_read [where P = "\<lambda>x s. getProject s k = Some x"], rule stable_rows, simp_all add: require_defs)
    (rule db.holds_read [where P = "\<lambda>x s. getDeployment s k = Some x"], rule stable_rows, simp_all add: require_defs,
     rule db.holds_read [where P = "\<lambda>x s. getArtifact s k = Some x"], rule stable_rows, simp_all add: require_defs)

definition known_route :: "Db \<Rightarrow> string \<Rightarrow> string \<Rightarrow> string \<Rightarrow> RoutePointer \<Rightarrow> bool" where
  "known_route s pid host path r \<longleftrightarrow> route_ok s r \<and> rte_projectId r = pid \<and> rte_host r = host \<and> rte_pathPrefix r = path"

lemma stable_known_route: "db.stable (\<lambda>s. known_route s pid host path r)"
  using stable_rows(6) unfolding db.stable_def known_route_def by blast

lemma walk_route:
  assumes "\<And>x. keepsA U (\<lambda>s. C s \<and> known_route s pid host path x) (f x)"
  shows "keepsA U C (bindA (readA (requireRoute pid host path)) f)"
  by (rule db.holds_read [where P = "\<lambda>x s. known_route s pid host path x"], rule stable_known_route)
    (use assms in \<open>auto simp: require_defs known_route_def dest: ok_route\<close>)

lemma walk_existing:
  assumes "\<And>x. keepsA U (\<lambda>s. C s \<and> (\<forall>r. x = Some r \<longrightarrow> known_route s pid host path r)) (f x)"
  shows "keepsA U C (bindA (askA (\<lambda>s. getRoute s (pid, host, path))) f)"
proof (rule db.holds_ask [where P = "\<lambda>x s. \<forall>r. x = Some r \<longrightarrow> known_route s pid host path r"])
  show "db.stable (\<lambda>s. \<forall>r. x = Some r \<longrightarrow> known_route s pid host path r)" for x
    using stable_known_route unfolding db.stable_def by blast
qed (use assms in \<open>auto simp: known_route_def dest: ok_route\<close>)

lemma walk_preview:
  assumes "\<And>x. keepsA U (\<lambda>s. C s \<and> preview_ok s x) (f x)"
  shows "keepsA U C (bindA (readA (requireDeployPreview rid)) f)"
  by (rule db.holds_read [where P = "\<lambda>x s. preview_ok s x"], rule stable_rows)
    (use assms in \<open>auto simp: require_defs dest: ok_lookups(5)\<close>)

lemma walk_targets:
  assumes "keepsA U (\<lambda>s. C s \<and> list_all (owned_target s pid) ts) g"
  shows "keepsA U C (bindA (requireTargets_async pid ts) (\<lambda>_. g))"
  unfolding requireTargets_async_def
  by (rule db.holds_forA_checks [where P = "\<lambda>t s. owned_target s pid t"])
    (use assms stable_rows(5) in \<open>auto simp: bindE_Inr require_defs owned_target_def list_all_iff\<close>)

lemma walk_steady:
  "db.steady U p \<Longrightarrow> (\<And>x. keepsA U C (f x)) \<Longrightarrow> keepsA U C (bindA p f)"
  by (rule db.holds_bind [OF db.steady_holds]) auto

lemma walk_audited:
  assumes "keepsA U C m" and "\<And>x. db.steady U (f x)"
  shows "keepsA U C (audited_async E m f)"
  unfolding audited_async_def
  by (rule db.holds_bind [OF assms(1)])
    (auto intro!: db.steady_holds db.steady_bindA assms(2) steady_helpers db.steady_prims)

lemma walk_write:
  "(\<And>t. db_ok U t \<Longrightarrow> C t \<Longrightarrow> db_ok U (fst (m t)) \<and> extends t (fst (m t))) \<Longrightarrow> keepsA U C (atomA m)"
  by (rule db.holds_atom) auto

lemma walk_write_then:
  assumes "\<And>t. db_ok U t \<Longrightarrow> C t \<Longrightarrow> db_ok U (fst (m t)) \<and> extends t (fst (m t))"
    and "\<And>x. keepsA U C (f x)"
  shows "keepsA U C (bindA (atomA m) f)"
  by (rule db.holds_bind [where Q = "\<lambda>_. True", OF walk_write]) (use assms in auto)

lemma walk_plain:
  "(\<And>x. r = Inr x \<Longrightarrow> keepsA U C (g x)) \<Longrightarrow> keepsA U C (bindA (liftA r) g)"
  "(\<not> b \<Longrightarrow> keepsA U C (h ())) \<Longrightarrow> keepsA U C (bindA (guardA b c msg) h)"
  by (rule db.holds_lift, simp_all) (rule db.holds_guard, simp_all)

lemma walk_skip:
  "(\<And>x. keepsA U C (g x)) \<Longrightarrow> keepsA U C (bindA (readA k) g)"
  by (rule db.holds_skip) auto

lemma extends_deleteRoute: "extends s (fst (deleteRoute k s))"
  by (rule extends_same) (simp_all add: deleteRoute_def)

lemma extends_previews:
  "extends s (fst (repo_createDeployPreview v s))" "extends s (fst (repo_updateDeployPreview v s))"
  by (auto simp: repo_createDeployPreview_def repo_updateDeployPreview_def insert_row_fst
      intro!: extends_same split: option.splits)

lemma steady_project: "good_env U E \<Longrightarrow> db.steady U (createProject_async E i)"
  unfolding db.steady_def createProject_async_def
  by (rule walk_steady, intro steadies, (rule walk_plain)+, rule walk_write)
    (auto intro!: ok_createProject extends_createProject dest: newId_clean)

lemma steady_artifact: "good_env U E \<Longrightarrow> db.steady U (createArtifact_async E i)"
  unfolding db.steady_def createArtifact_async_def Let_def
  by (rule walk_rows, rule walk_steady, intro steadies, (rule walk_plain)+, rule walk_write)
    (auto simp: artifact_ok_def normalizeLocation_accepts intro!: ok_createArtifact extends_createArtifact
      dest: newId_clean normalizeDigest_valid)

lemma steady_binding_checks:
  "db.steady U (requireDeploymentKvNamespaces_async pid c)"
  "db.steady U (requireDeploymentDurableObjectNamespaces_async pid c)"
  "db.steady U (requireDeploymentSecrets_async pid c)" "db.steady U (requireDeploymentServiceBindings_async c)"
  unfolding requireDeploymentKvNamespaces_async_def requireDeploymentDurableObjectNamespaces_async_def
    requireDeploymentSecrets_async_def requireDeploymentServiceBindings_async_def
  by (intro steadies)+

lemma capabilities_valid:
  "good_env U E \<Longrightarrow> url_roundtrip U \<Longrightarrow> normalizeCapabilities (env_urls E) v = Inr c \<Longrightarrow> valid_capabilities U c"
  by (auto simp: good_env_def dest: normalizeCapabilities_valid)

lemma steady_deployment:
  assumes "good_env U E" and "url_roundtrip U"
  shows "db.steady U (createDeployment_async E i)"
  unfolding db.steady_def createDeployment_async_def
  by ((rule walk_rows | rule walk_plain | rule walk_steady, rule steady_helpers steady_binding_checks)+,
      rule walk_audited, rule walk_write)
    (use assms in \<open>auto simp: deployment_ok_def normalizeWorld_def workerWorldVersion_def
      intro!: ok_createDeployment extends_createDeployment steadies
      intro: newId_clean(3) normalizeRuntime_valid normalizeLimits_valid
        capabilities_valid
      split: if_splits\<close>)


lemma write_route: "db_ok U t \<Longrightarrow> route_ok t r \<Longrightarrow> db_ok U (fst (upsertRoute r t)) \<and> extends t (fst (upsertRoute r t))"
  by (simp add: ok_upsertRoute extends_upsertRoute)

lemma walk_domain:
  "(\<And>x. keepsA U C (g x)) \<Longrightarrow> keepsA U C (bindA (readA (enforceRouteCustomDomain pid host)) g)"
  by (rule walk_skip)

lemma steady_pointRoute: "db.steady U (pointRoute_async E i)"
  unfolding db.steady_def pointRoute_async_def
  by ((rule walk_rows | rule walk_plain | rule walk_targets | rule walk_domain | rule walk_existing
      | rule walk_steady, intro steadies)+, rule walk_audited, rule walk_write)
    (auto simp: route_ok_def owned_targets_def intro!: write_route steadies
      dest: normalizeRouteTargets_valid normalizeHost_valid normalizePathPrefix_valid)

lemma known_route_retarget:
  "known_route s pid h p r \<Longrightarrow> owned_targets s pid d ts \<Longrightarrow> route_ok s (retarget E r d ts)"
  by (auto simp: known_route_def intro: route_ok_retarget)

lemma known_route_stable:
  assumes "known_route s pid h p r"
  shows "\<exists>d. getDeployment s (stable_deployment r) = Some d \<and> dep_projectId d = pid"
    and "clean (stable_deployment r)" and "stable_deployment r = rte_deploymentId r"
  using route_ok_stable [of s r] assms by (auto simp: known_route_def)

lemma steady_startRouteCanary: "db.steady U (startRouteCanary_async E i)"
  unfolding db.steady_def startRouteCanary_async_def Let_def
proof ((rule walk_rows | rule walk_plain | rule walk_route)+, rule walk_write, rule write_route, assumption)
  fix x host path existing candidate u v w t
  assume ok: "db_ok U t" and w: "canaryWeight (sci_weight i) = Inr w"
    and diff: "\<not> stable_deployment existing = dep_id candidate"
    and own: "\<not> dep_projectId candidate \<noteq> sci_projectId i"
    and C: "((True \<and> getProject t (sci_projectId i) = Some x)
      \<and> known_route t (sci_projectId i) host path existing) \<and> getDeployment t (sci_deploymentId i) = Some candidate"
  note r = known_route_stable [of t "sci_projectId i" host path existing] and d = ok_lookups(3) [OF ok, of "sci_deploymentId i" candidate]
  from C r obtain s where s: "getDeployment t (stable_deployment existing) = Some s" "dep_projectId s = sci_projectId i"
    "clean (stable_deployment existing)" by auto
  from C d have c: "getDeployment t (dep_id candidate) = Some candidate" "clean (dep_id candidate)"
    by (auto simp: deployment_ok_def)
  show "route_ok t (retarget E existing (stable_deployment existing)
      [\<lparr>tgt_deploymentId = stable_deployment existing, tgt_weight = 100 - w\<rparr>,
       \<lparr>tgt_deploymentId = dep_id candidate, tgt_weight = w\<rparr>])"
    by (rule known_route_retarget [of t "sci_projectId i" host path])
      (use C s c w diff own in \<open>auto simp: canaryWeight_Inr intro!: owned_canary\<close>)
qed

lemma steady_rollbackRoute: "db.steady U (rollbackRoute_async E i)"
  unfolding db.steady_def rollbackRoute_async_def Let_def
proof ((rule walk_rows | rule walk_plain | rule walk_route)+, rule walk_write, rule write_route, assumption)
  fix x host path existing deployment u t
  let ?d = "case rri_deploymentId i of None \<Rightarrow> stable_deployment existing | Some x \<Rightarrow> x"
  assume ok: "db_ok U t" and own: "\<not> dep_projectId deployment \<noteq> rri_projectId i"
    and C: "((True \<and> getProject t (rri_projectId i) = Some x)
      \<and> known_route t (rri_projectId i) host path existing) \<and> getDeployment t ?d = Some deployment"
  then have "clean ?d" by (blast dest: deployment_clean)
  then show "route_ok t (retarget E existing ?d (single_target ?d))"
    by (intro known_route_retarget [of t "rri_projectId i" host path] owned_single) (use C own in auto)
qed


lemma steady_canary: "db.steady U (atomA (repo_createCanaryDecision c))"
  by (rule steady_quiet) (simp add: quiet_def core_canary)

lemma steady_analyzeRouteCanary: "db.steady U (analyzeRouteCanary_async E i)"
  unfolding db.steady_def analyzeRouteCanary_async_def Let_def split_def
proof ((rule walk_rows | rule walk_plain | rule walk_route | rule walk_steady, rule steady_canary)+)
  fix x host path existing candidate u v decision
  let ?C = "\<lambda>s. ((True \<and> getProject s (aci_projectId i) = Some x)
      \<and> known_route s (aci_projectId i) host path existing) \<and> getDeployment s (aci_candidateDeploymentId i) = Some candidate"
  let ?r = "retarget E existing (stable_deployment existing) (single_target (stable_deployment existing))"
  have "keepsA U ?C (atomA (upsertRoute ?r))"
  proof (rule walk_write, rule write_route, assumption)
    fix t assume "?C t"
    with known_route_stable [of t "aci_projectId i" host path existing] show "route_ok t ?r"
      by (auto intro!: known_route_retarget [of t "aci_projectId i" host path] intro: owned_single)
  qed
  then show "keepsA U ?C (bindA (if b then atomA (upsertRoute ?r) else pureA existing)
      (\<lambda>route. pureA (decision, route)))" for b
    by (intro db.holds_bind [where Q = "\<lambda>_. True"]) (auto intro: db.holds_pure)
qed

lemma stable_preview_row: "db.stable (\<lambda>s. preview_ok s v)"
  by (rule stable_rows)

lemma steady_createDeployPreview: "db.steady U (createDeployPreview_async E i)"
  unfolding db.steady_def createDeployPreview_async_def
proof ((rule walk_rows | rule walk_plain | rule walk_domain | rule walk_existing
      | rule walk_steady, intro steadies)+, rule walk_write_then, rule write_route, assumption)
  fix x deployment u host path environment v existing w rid t
  let ?C = "\<lambda>s. ((True \<and> getProject s (dpi_projectId i) = Some x) \<and> getDeployment s (dpi_deploymentId i) = Some deployment)
      \<and> (\<forall>r. existing = Some r \<longrightarrow> known_route s (dpi_projectId i) host path r)"
  assume own: "\<not> dep_projectId deployment \<noteq> dpi_projectId i"
    and h: "normalizeHost (nullish (dpi_host i)
       (JStr (defaultDeployPreviewHost (dpi_projectId i) (dpi_deploymentId i)))) = Inr host"
    and p: "normalizePathPrefix (nullish (dpi_pathPrefix i) (JStr ''/'')) = Inr path"
  show "route_ok t \<lparr>rte_id = case existing of None \<Rightarrow> env_idGenerator E ''rte'' | Some r \<Rightarrow> rte_id r,
      rte_projectId = dpi_projectId i, rte_host = host, rte_pathPrefix = path,
      rte_deploymentId = dep_id deployment, rte_targets = single_target (dep_id deployment), rte_updatedAt = env_now E\<rparr>"
    if "db_ok U t" "?C t"
    using that ok_lookups(3) [OF that(1), of "dpi_deploymentId i" deployment]
      deployment_clean [OF that(1), of "dpi_deploymentId i" deployment]
      own normalizeHost_valid [OF h] normalizePathPrefix_valid [OF p]
    by (auto simp: route_ok_def intro!: owned_single)
  let ?v = "\<lparr>prv_id = rid, prv_projectId = dpi_projectId i, prv_deploymentId = dep_id deployment,
      prv_host = host, prv_pathPrefix = path, prv_url = deployPreviewUrl host path,
      prv_environment = environment, prv_status = PreviewActive, prv_createdAt = env_now E,
      prv_updatedAt = env_now E, prv_previousRoute = map_option deployPreviewPreviousRoute existing,
      prv_rolledBackAt = None\<rparr>"
  show "keepsA U ?C (atomA (repo_createDeployPreview ?v))"
  proof (rule walk_write, intro conjI ok_createDeployPreview extends_previews, assumption)
    fix t assume "?C t"
    then show "preview_ok t ?v"
      by (intro preview_ok_new [OF normalizeHost_valid [OF h] normalizePathPrefix_valid [OF p]])
        (auto simp: known_route_def)
  qed
qed

lemma steady_rollbackDeployPreview: "db.steady U (rollbackDeployPreview_async E rid)"
  unfolding db.steady_def rollbackDeployPreview_async_def
proof (rule walk_preview)
  fix v
  let ?C = "\<lambda>s. True \<and> preview_ok s v"
  have undo: "keepsA U ?C (case prv_previousRoute v of
         Some p \<Rightarrow> bindA (atomA (upsertRoute
             \<lparr>rte_id = pre_id p, rte_projectId = prv_projectId v, rte_host = prv_host v,
              rte_pathPrefix = prv_pathPrefix v, rte_deploymentId = pre_deploymentId p,
              rte_targets = pre_targets p, rte_updatedAt = env_now E\<rparr>)) (\<lambda>_. pureA ())
       | None \<Rightarrow> atomA (deleteRoute (prv_projectId v, prv_host v, prv_pathPrefix v)))"
    by (auto split: option.split intro!: walk_write_then walk_write write_route db.holds_pure ok_deleteRoute
        extends_deleteRoute simp: preview_ok_def route_ok_def)
  have close: "keepsA U ?C (atomA (repo_updateDeployPreview w))" for w
    by (rule walk_write) (simp add: ok_updateDeployPreview extends_previews)
  show "keepsA U ?C (if prv_status v = RolledBack then pureA v
     else bindA (case prv_previousRoute v of
         Some p \<Rightarrow> bindA (atomA (upsertRoute
             \<lparr>rte_id = pre_id p, rte_projectId = prv_projectId v, rte_host = prv_host v,
              rte_pathPrefix = prv_pathPrefix v, rte_deploymentId = pre_deploymentId p,
              rte_targets = pre_targets p, rte_updatedAt = env_now E\<rparr>)) (\<lambda>_. pureA ())
       | None \<Rightarrow> atomA (deleteRoute (prv_projectId v, prv_host v, prv_pathPrefix v))) (\<lambda>_.
       atomA (repo_updateDeployPreview (v\<lparr>prv_status := RolledBack, prv_updatedAt := env_now E,
         prv_rolledBackAt := Some (env_now E)\<rparr>))))"
    using db.holds_bind [where Q = "\<lambda>_. True", OF undo close] by (auto intro: db.holds_pure)
qed


subsection \<open>A snapshot built while others write\<close>

lemma holds_pre: "db.holds U D p Q \<Longrightarrow> db.stable D \<Longrightarrow> (\<And>s. C s \<Longrightarrow> D s) \<Longrightarrow> db.holds U C p Q"
  unfolding db.holds_def by blast

lemma holds_mapA:
  "(\<And>x. x \<in> set xs \<Longrightarrow> db.holds U C (f x) (\<lambda>r. \<exists>y. r = Inr y \<and> R x y)) \<Longrightarrow>
   db.holds U C (mapA f xs) (\<lambda>r. \<exists>ys. r = Inr ys \<and> list_all2 R xs ys)"
proof (induction xs)
  case Nil
  then show ?case by (auto intro: db.holds_pure)
next
  case (Cons x xs)
  have rest: "db.holds U C (mapA f xs) (\<lambda>r. \<exists>ys. r = Inr ys \<and> list_all2 R xs ys)"
    using Cons by simp
  show ?case
    unfolding mapA.simps
    by (rule db.holds_bind [OF Cons.prems [of x]])
      (auto intro!: db.holds_bind [OF rest] db.holds_pure)
qed

lemma snapshot_target_holds:
  assumes "0 < tgt_weight t"
  shows "db.holds U (\<lambda>s. owned_target s pid t) (routeSnapshotTarget_async t)
    (\<lambda>r. \<exists>x. r = Inr x \<and> (valid_snapshot_target U x
       \<and> st_deploymentId x = tgt_deploymentId t \<and> st_weight x = tgt_weight t))"
  unfolding routeSnapshotTarget_async_def
proof (rule db.holds_read [where P = "\<lambda>d s. deployment_ok U s d \<and> dep_id d = tgt_deploymentId t"])
  show "db.stable (\<lambda>s. deployment_ok U s d \<and> dep_id d = tgt_deploymentId t)" for d
    using rows_mono(1) by (auto simp: db.stable_def)
  fix d
  show "db.holds U (\<lambda>s. owned_target s pid t \<and> deployment_ok U s d \<and> dep_id d = tgt_deploymentId t)
     (bindA (readA (requireArtifact (dep_artifactId d))) (\<lambda>a. pureA
        \<lparr>st_deploymentId = dep_id d, st_weight = tgt_weight t, st_world = dep_world d,
         st_worldVersion = dep_worldVersion d, st_runtime = dep_runtime d, st_limits = dep_limits d,
         st_capabilities = dep_capabilities d, st_artifact = routeSnapshotArtifact a\<rparr>))
     (\<lambda>r. \<exists>x. r = Inr x \<and> (valid_snapshot_target U x
       \<and> st_deploymentId x = tgt_deploymentId t \<and> st_weight x = tgt_weight t))"
  proof (rule db.holds_read [where P = "\<lambda>a s. artifact_ok a \<and> clean (dep_id d) \<and> dep_id d = tgt_deploymentId t
      \<and> dep_world d = MVP_WORKER_WORLD \<and> dep_worldVersion d = MVP_WORKER_WORLD_VERSION
      \<and> valid_runtime (dep_runtime d) \<and> valid_limits (dep_limits d) \<and> valid_capabilities U (dep_capabilities d)"])
    fix a
    show "db.holds U (\<lambda>s. (owned_target s pid t \<and> deployment_ok U s d \<and> dep_id d = tgt_deploymentId t)
        \<and> artifact_ok a \<and> clean (dep_id d) \<and> dep_id d = tgt_deploymentId t
      \<and> dep_world d = MVP_WORKER_WORLD \<and> dep_worldVersion d = MVP_WORKER_WORLD_VERSION
      \<and> valid_runtime (dep_runtime d) \<and> valid_limits (dep_limits d) \<and> valid_capabilities U (dep_capabilities d))
      (pureA \<lparr>st_deploymentId = dep_id d, st_weight = tgt_weight t, st_world = dep_world d,
         st_worldVersion = dep_worldVersion d, st_runtime = dep_runtime d, st_limits = dep_limits d,
         st_capabilities = dep_capabilities d, st_artifact = routeSnapshotArtifact a\<rparr>)
      (\<lambda>r. \<exists>x. r = Inr x \<and> (valid_snapshot_target U x
         \<and> st_deploymentId x = tgt_deploymentId t \<and> st_weight x = tgt_weight t))"
    proof (cases "artifact_ok a \<and> clean (dep_id d) \<and> dep_id d = tgt_deploymentId t
      \<and> dep_world d = MVP_WORKER_WORLD \<and> dep_worldVersion d = MVP_WORKER_WORLD_VERSION
      \<and> valid_runtime (dep_runtime d) \<and> valid_limits (dep_limits d) \<and> valid_capabilities U (dep_capabilities d)")
      case True
      then show ?thesis using assms
        by (intro db.holds_pure) (auto simp: valid_snapshot_target_def valid_snapshot_artifact_def
            routeSnapshotArtifact_def artifact_ok_def dest: location_trim)
    next
      case False
      then show ?thesis unfolding db.holds_def by blast
    qed
  qed (auto simp: require_defs db.stable_def deployment_ok_def dest: ok_lookups(2))
qed (auto simp: require_defs owned_target_def dest: ok_lookups(3))

definition listed_ok :: "Db \<Rightarrow> RoutePointer \<Rightarrow> bool" where
  "listed_ok s r \<longleftrightarrow> route_ok s r \<and> clean (rte_projectId r)"

lemma stable_listed: "db.stable (\<lambda>s. list_all (listed_ok s) rs)"
  using rows_mono(2) by (auto simp: db.stable_def listed_ok_def list_all_iff)

lemma stable_owned: "db.stable (\<lambda>s. list_all (owned_target s pid) ts)"
  using stable_rows(5) by (fastforce simp: db.stable_def list_all_iff)

lemma snapshot_targets_hold:
  assumes "\<forall>t \<in> set ts. 0 < tgt_weight t"
  shows "db.holds U (\<lambda>s. list_all (owned_target s pid) ts) (mapA routeSnapshotTarget_async ts)
    (\<lambda>r. \<exists>xs. r = Inr xs \<and> list_all2 (\<lambda>t x. valid_snapshot_target U x
       \<and> st_deploymentId x = tgt_deploymentId t \<and> st_weight x = tgt_weight t) ts xs)"
proof (rule holds_mapA)
  fix t assume t: "t \<in> set ts"
  show "db.holds U (\<lambda>s. list_all (owned_target s pid) ts) (routeSnapshotTarget_async t)
    (\<lambda>r. \<exists>x. r = Inr x \<and> (valid_snapshot_target U x
       \<and> st_deploymentId x = tgt_deploymentId t \<and> st_weight x = tgt_weight t))"
    by (rule holds_pre [OF snapshot_target_holds [of t U pid]])
      (use assms t stable_rows(5) in \<open>auto simp: list_all_iff\<close>)
qed

lemma holds_fact:
  assumes "\<And>s. C s \<Longrightarrow> F" and "F \<Longrightarrow> db.holds U C p Q"
  shows "db.holds U C p Q"
  using assms unfolding db.holds_def by blast

definition snapshot_ready :: "RoutePointer \<Rightarrow> bool" where
  "snapshot_ready r \<longleftrightarrow> rte_targets r \<noteq> [] \<and> rte_deploymentId r = tgt_deploymentId (hd (rte_targets r))
     \<and> (\<forall>t \<in> set (rte_targets r). 0 < tgt_weight t)
     \<and> valid_host (rte_host r) \<and> valid_path (rte_pathPrefix r) \<and> clean (rte_projectId r)"

lemma listed_ready: "listed_ok s r \<Longrightarrow> snapshot_ready r"
  by (auto simp: listed_ok_def snapshot_ready_def route_ok_def owned_targets_def valid_targets_def list_all_iff)

lemma listed_owned: "listed_ok s r \<Longrightarrow> list_all (owned_target s (rte_projectId r)) (rte_targets r)"
  by (auto simp: listed_ok_def route_ok_def owned_targets_def)

lemma snapshot_entries_hold:
  "db.holds U (\<lambda>s. list_all (listed_ok s) rs) (snapshotEntries_async rs)
    (\<lambda>r. \<exists>es. r = Inr (Inr es) \<and> list_all (valid_snapshot_entry U) es \<and> list_all2 entry_of rs es)"
proof (induction rs)
  case Nil
  then show ?case by (auto intro: db.holds_pure)
next
  case (Cons r rs)
  let ?C = "\<lambda>s. list_all (listed_ok s) (r # rs)"
  show ?case
  proof (rule holds_fact)
    show "snapshot_ready r" if "?C s" for s using that listed_ready [of s r] by simp
    assume ready: "snapshot_ready r"
    have targets: "db.holds U ?C (mapA routeSnapshotTarget_async (rte_targets r))
      (\<lambda>res. \<exists>xs. res = Inr xs \<and> list_all2 (\<lambda>t x. valid_snapshot_target U x
       \<and> st_deploymentId x = tgt_deploymentId t \<and> st_weight x = tgt_weight t) (rte_targets r) xs)"
      by (rule holds_pre [OF snapshot_targets_hold [of "rte_targets r" U "rte_projectId r"] stable_owned])
        (use ready listed_owned in \<open>auto simp: snapshot_ready_def\<close>)
    have rest: "db.holds U ?C (snapshotEntries_async rs)
       (\<lambda>r. \<exists>es. r = Inr (Inr es) \<and> list_all (valid_snapshot_entry U) es \<and> list_all2 entry_of rs es)"
      by (rule holds_pre [OF Cons.IH stable_listed]) simp
    show "db.holds U ?C (snapshotEntries_async (r # rs))
       (\<lambda>res. \<exists>es. res = Inr (Inr es) \<and> list_all (valid_snapshot_entry U) es \<and> list_all2 entry_of (r # rs) es)"
      unfolding snapshotEntries_async.simps
    proof (rule db.holds_bind [OF targets])
      fix xs
      assume "\<exists>ys. Inr xs = (Inr ys :: RouteSnapshotTarget list cp) \<and> list_all2 (\<lambda>t x. valid_snapshot_target U x
       \<and> st_deploymentId x = tgt_deploymentId t \<and> st_weight x = tgt_weight t) (rte_targets r) ys"
      then have xs: "list_all2 (\<lambda>t x. valid_snapshot_target U x
       \<and> st_deploymentId x = tgt_deploymentId t \<and> st_weight x = tgt_weight t) (rte_targets r) xs" by simp
      obtain p ps where r: "rte_targets r = p # ps" using ready by (cases "rte_targets r") (auto simp: snapshot_ready_def)
      with xs obtain y ys where y: "xs = y # ys" by (cases xs) auto
      let ?e = "\<lparr>se_host = rte_host r, se_pathPrefix = rte_pathPrefix r,
          se_projectId = rte_projectId r, se_deploymentId = st_deploymentId y,
          se_targets = y # ys, se_world = st_world y,
          se_worldVersion = st_worldVersion y, se_runtime = st_runtime y,
          se_limits = st_limits y, se_capabilities = st_capabilities y,
          se_artifact = st_artifact y\<rparr>"
      have ids: "map (\<lambda>t. (st_deploymentId t, st_weight t)) xs
         = map (\<lambda>t. (tgt_deploymentId t, tgt_weight t)) (rte_targets r)"
        using xs by (auto simp: list_all2_conv_all_nth intro!: nth_equalityI)
      have vt: "list_all (valid_snapshot_target U) xs"
        using xs by (auto simp: list_all2_conv_all_nth list_all_length)
      have e: "valid_snapshot_entry U ?e \<and> entry_of r ?e"
        using ready vt ids unfolding y r
        by (auto simp: snapshot_ready_def valid_snapshot_entry_def entry_of_def r
          valid_snapshot_target_def [of U y])
      show "db.holds U ?C (case xs of [] \<Rightarrow> pureA (Inl TypeError)
         | primary # rest \<Rightarrow> bindA (snapshotEntries_async rs) (\<lambda>entries. case entries of
             Inl e \<Rightarrow> pureA (Inl e)
           | Inr es \<Rightarrow> pureA (Inr (\<lparr>se_host = rte_host r, se_pathPrefix = rte_pathPrefix r,
              se_projectId = rte_projectId r, se_deploymentId = st_deploymentId primary,
              se_targets = primary # rest, se_world = st_world primary,
              se_worldVersion = st_worldVersion primary, se_runtime = st_runtime primary,
              se_limits = st_limits primary, se_capabilities = st_capabilities primary,
              se_artifact = st_artifact primary\<rparr> # es))))
       (\<lambda>res. \<exists>es. res = Inr (Inr es) \<and> list_all (valid_snapshot_entry U) es \<and> list_all2 entry_of (r # rs) es)"
        unfolding y list.case
        by (rule db.holds_bind [OF rest]) (use e in \<open>auto intro!: db.holds_pure\<close>)
    qed auto
  qed
qed

lemma snapshot_holds:
  "db.holds U (\<lambda>_. True) (createRouteSnapshot_async E)
    (\<lambda>r. \<exists>snap. r = Inr (Inr snap) \<and> snap_schemaVersion snap = 1
       \<and> list_all (valid_snapshot_entry U) (snap_routes snap))"
  unfolding createRouteSnapshot_async_def
proof (rule db.holds_ask [where P = "\<lambda>stored s. list_all (listed_ok s) stored"])
  show "list_all (listed_ok t) (listRoutes t)" if "db_ok U t" for t
    using that ok_lookups(1) [OF that]
    by (auto simp: listRoutes_def db_ok_def list_all_iff listed_ok_def route_ok_def)
  fix rs
  have "db.holds U (\<lambda>s. True \<and> list_all (listed_ok s) rs) (snapshotEntries_async rs)
    (\<lambda>r. \<exists>es. r = Inr (Inr es) \<and> list_all (valid_snapshot_entry U) es \<and> list_all2 entry_of rs es)"
    by (rule holds_pre [OF snapshot_entries_hold stable_listed]) simp
  then show "db.holds U (\<lambda>s. True \<and> list_all (listed_ok s) rs)
     (bindA (snapshotEntries_async rs) (\<lambda>entries. case entries of
       Inl e \<Rightarrow> pureA (Inl e)
     | Inr routes \<Rightarrow> pureA (Inr \<lparr>snap_id = Some (snapshotId E (env_now E) routes), snap_schemaVersion = 1,
          snap_generatedAt = env_now E, snap_routes = routes\<rparr>)))
     (\<lambda>r. \<exists>snap. r = Inr (Inr snap) \<and> snap_schemaVersion snap = 1
       \<and> list_all (valid_snapshot_entry U) (snap_routes snap))"
    by (rule db.holds_bind) (auto intro!: db.holds_pure)
qed (use stable_listed in auto)

end
