(* ===== verification/AsyncRuns.thy ===== *)
theory AsyncRuns
  imports AsyncLaws Examples
begin

text \<open>
  Requests served concurrently by the asynchronous control plane: a pool of requests whose repository
  calls interleave in any order. What survives every interleaving (the integrity of the database, the
  snapshots built meanwhile), and what two requests in flight can break (quotas, owners).
\<close>

datatype async_reply =
    OrganizationReply Organization | UserReply User | ProjectReply Project
  | MembershipReply ProjectMembership | KeyReply "ApiKey \<times> string" | RevokedReply ApiKey
  | RotatedReply "ApiKey \<times> ApiKey \<times> string" | TokenReply "ApiToken option"
  | DomainReply CustomDomain | PreviewReply DeployPreview | ArtifactReply Artifact
  | ResourceReply Resource | DeletedReply unit | DeploymentReply Deployment | RouteReply RoutePointer
  | CanaryReply "CanaryDecision \<times> RoutePointer" | NodeReply RuntimeNode
  | CleanupReply "string \<times> RuntimeNode list" | SnapshotReply "js_exn + RouteSnapshot"

definition mapS :: "('a \<Rightarrow> 'b) \<Rightarrow> ('s, 'a) op \<Rightarrow> ('s, 'b) op" where
  "mapS f m = bindS m (\<lambda>x. pureS (f x))"

definition mapsA :: "('a \<Rightarrow> 'b) \<Rightarrow> ('s, 'a) resump \<Rightarrow> ('s, 'b) resump" where
  "mapsA f p = bindA p (\<lambda>x. pureA (f x))"

text \<open>The operation a command calls, in the synchronous service and in the asynchronous one.\<close>

fun call :: "Env \<Rightarrow> command \<Rightarrow> async_reply service" where
  "call E (CreateOrganization i) = mapS OrganizationReply (createOrganization E i)"
| "call E (UpdateOrganizationBilling i) = mapS OrganizationReply (updateOrganizationBilling E i)"
| "call E (CreateUser i) = mapS UserReply (createUser E i)"
| "call E (VerifyUserEmail uid) = mapS UserReply (verifyUserEmail E uid)"
| "call E (CreateProject i) = mapS ProjectReply (createProject E i)"
| "call E (AddProjectMembership pid uid role) = mapS MembershipReply (addProjectMembership E pid uid role)"
| "call E (UpdateProjectMembershipRole pid uid role) = mapS MembershipReply (updateProjectMembershipRole E pid uid role)"
| "call E (RemoveProjectMembership pid uid) = mapS MembershipReply (removeProjectMembership E pid uid)"
| "call E (AcceptProjectMembershipInvite pid uid) = mapS MembershipReply (acceptProjectMembershipInvite E pid uid)"
| "call E (CreateApiKey i) = mapS KeyReply (createApiKey E i)"
| "call E (RevokeApiKey v) = mapS RevokedReply (revokeApiKey E v)"
| "call E (RotateApiKey i) = mapS RotatedReply (rotateApiKey E i)"
| "call E (AuthenticateApiToken v) = mapS TokenReply (authenticateApiToken E v)"
| "call E (CreateCustomDomain v pid h) = mapS DomainReply (createCustomDomain E v pid h)"
| "call E (DeleteCustomDomain rid) = mapS DomainReply (deleteCustomDomain E rid)"
| "call E (VerifyCustomDomainOwnership rid v) = mapS DomainReply (verifyCustomDomainOwnership E rid v)"
| "call E (RequestCustomDomainTlsProvisioning rid v w) = mapS DomainReply (requestCustomDomainTlsProvisioning E rid v w)"
| "call E (CompleteCustomDomainTlsProvisioning i) = mapS DomainReply (completeCustomDomainTlsProvisioning E i)"
| "call E (CreateDeployPreview i) = mapS PreviewReply (createDeployPreview E i)"
| "call E (RollbackDeployPreview rid) = mapS PreviewReply (rollbackDeployPreview E rid)"
| "call E (CreateArtifact i) = mapS ArtifactReply (createArtifact E i)"
| "call E (CreateSecret v pid n x) = mapS ResourceReply (createSecret E v pid n x)"
| "call E (UpdateSecretValue rid x) = mapS ResourceReply (updateSecretValue E rid x)"
| "call E (DeleteSecret rid) = mapS DeletedReply (deleteSecret rid)"
| "call E (CreateKvNamespace v pid n) = mapS ResourceReply (createKvNamespace E v pid n)"
| "call E (DeleteKvNamespace rid) = mapS DeletedReply (deleteKvNamespace rid)"
| "call E (CreateDurableObjectNamespace v pid n) = mapS ResourceReply (createDurableObjectNamespace E v pid n)"
| "call E (DeleteDurableObjectNamespace rid) = mapS DeletedReply (deleteDurableObjectNamespace rid)"
| "call E (CreateDeployment i) = mapS DeploymentReply (createDeployment E i)"
| "call E (PointRoute i) = mapS RouteReply (pointRoute E i)"
| "call E (StartRouteCanary i) = mapS RouteReply (startRouteCanary E i)"
| "call E (RollbackRoute i) = mapS RouteReply (rollbackRoute E i)"
| "call E (AnalyzeRouteCanary i) = mapS CanaryReply (analyzeRouteCanary E i)"
| "call E (RegisterRuntimeNode i) = mapS NodeReply (registerRuntimeNode E i)"
| "call E (RecordRuntimeNodeHeartbeat i) = mapS NodeReply (recordRuntimeNodeHeartbeat E i)"
| "call E (UpdateRuntimeNodeStatus rid v) = mapS NodeReply (updateRuntimeNodeStatus rid v)"
| "call E (CleanupRuntimeNodes v w) = mapS CleanupReply (cleanupRuntimeNodes E v w)"

fun call_async :: "Env \<Rightarrow> command \<Rightarrow> async_reply async" where
  "call_async E (CreateOrganization i) = mapsA OrganizationReply (createOrganization_async E i)"
| "call_async E (UpdateOrganizationBilling i) = mapsA OrganizationReply (updateOrganizationBilling_async E i)"
| "call_async E (CreateUser i) = mapsA UserReply (createUser_async E i)"
| "call_async E (VerifyUserEmail uid) = mapsA UserReply (verifyUserEmail_async E uid)"
| "call_async E (CreateProject i) = mapsA ProjectReply (createProject_async E i)"
| "call_async E (AddProjectMembership pid uid role) = mapsA MembershipReply (addProjectMembership_async E pid uid role)"
| "call_async E (UpdateProjectMembershipRole pid uid role) = mapsA MembershipReply (updateProjectMembershipRole_async E pid uid role)"
| "call_async E (RemoveProjectMembership pid uid) = mapsA MembershipReply (removeProjectMembership_async E pid uid)"
| "call_async E (AcceptProjectMembershipInvite pid uid) = mapsA MembershipReply (acceptProjectMembershipInvite_async E pid uid)"
| "call_async E (CreateApiKey i) = mapsA KeyReply (createApiKey_async E i)"
| "call_async E (RevokeApiKey v) = mapsA RevokedReply (revokeApiKey_async E v)"
| "call_async E (RotateApiKey i) = mapsA RotatedReply (rotateApiKey_async E i)"
| "call_async E (AuthenticateApiToken v) = mapsA TokenReply (authenticateApiToken_async E v)"
| "call_async E (CreateCustomDomain v pid h) = mapsA DomainReply (createCustomDomain_async E v pid h)"
| "call_async E (DeleteCustomDomain rid) = mapsA DomainReply (deleteCustomDomain_async E rid)"
| "call_async E (VerifyCustomDomainOwnership rid v) = mapsA DomainReply (verifyCustomDomainOwnership_async E rid v)"
| "call_async E (RequestCustomDomainTlsProvisioning rid v w) = mapsA DomainReply (requestCustomDomainTlsProvisioning_async E rid v w)"
| "call_async E (CompleteCustomDomainTlsProvisioning i) = mapsA DomainReply (completeCustomDomainTlsProvisioning_async E i)"
| "call_async E (CreateDeployPreview i) = mapsA PreviewReply (createDeployPreview_async E i)"
| "call_async E (RollbackDeployPreview rid) = mapsA PreviewReply (rollbackDeployPreview_async E rid)"
| "call_async E (CreateArtifact i) = mapsA ArtifactReply (createArtifact_async E i)"
| "call_async E (CreateSecret v pid n x) = mapsA ResourceReply (createSecret_async E v pid n x)"
| "call_async E (UpdateSecretValue rid x) = mapsA ResourceReply (updateSecretValue_async E rid x)"
| "call_async E (DeleteSecret rid) = mapsA DeletedReply (deleteSecret_async rid)"
| "call_async E (CreateKvNamespace v pid n) = mapsA ResourceReply (createKvNamespace_async E v pid n)"
| "call_async E (DeleteKvNamespace rid) = mapsA DeletedReply (deleteKvNamespace_async rid)"
| "call_async E (CreateDurableObjectNamespace v pid n) = mapsA ResourceReply (createDurableObjectNamespace_async E v pid n)"
| "call_async E (DeleteDurableObjectNamespace rid) = mapsA DeletedReply (deleteDurableObjectNamespace_async rid)"
| "call_async E (CreateDeployment i) = mapsA DeploymentReply (createDeployment_async E i)"
| "call_async E (PointRoute i) = mapsA RouteReply (pointRoute_async E i)"
| "call_async E (StartRouteCanary i) = mapsA RouteReply (startRouteCanary_async E i)"
| "call_async E (RollbackRoute i) = mapsA RouteReply (rollbackRoute_async E i)"
| "call_async E (AnalyzeRouteCanary i) = mapsA CanaryReply (analyzeRouteCanary_async E i)"
| "call_async E (RegisterRuntimeNode i) = mapsA NodeReply (registerRuntimeNode_async E i)"
| "call_async E (RecordRuntimeNodeHeartbeat i) = mapsA NodeReply (recordRuntimeNodeHeartbeat_async E i)"
| "call_async E (UpdateRuntimeNodeStatus rid v) = mapsA NodeReply (updateRuntimeNodeStatus_async rid v)"
| "call_async E (CleanupRuntimeNodes v w) = mapsA CleanupReply (cleanupRuntimeNodes_async E v w)"

lemma runA_mapsA: "runA (mapsA f p) = mapS f (runA p)"
  by (simp add: mapsA_def mapS_def run_alone)

lemma fst_mapS: "fst (mapS f m s) = fst (m s)"
  by (cases "m s") (simp add: mapS_def bindS_def split: sum.splits)

lemma exec_call: "exec E c s = fst (call E c s)"
  by (cases c) (simp_all add: fst_mapS)

fun handles_token :: "command \<Rightarrow> bool" where
  "handles_token (CreateApiKey i) = True"
| "handles_token (RotateApiKey i) = True"
| "handles_token (AuthenticateApiToken v) = True"
| "handles_token _ = False"

lemma call_async_alone: "\<not> handles_token c \<Longrightarrow> runA (call_async E c) = call E c"
  by (cases c) (simp_all only: call.simps call_async.simps runA_mapsA run_accounts
      run_resources run_delivery handles_token.simps not_True_eq_False)

text \<open>C18. A command that handles no API token, run by the asynchronous service with no other request
  in flight, leaves the database and returns the value or the error that the synchronous service does.\<close>

theorem alone_it_is_the_service:
  assumes "\<not> handles_token c"
  shows "runA (call_async E c) = call E c"
  using assms by (rule call_async_alone)

theorem alone_it_is_the_service_witness:
  "runA (call_async ex_env (ex_deployment ''d9'')) ex_state = call ex_env (ex_deployment ''d9'') ex_state
   \<and> length (db_deployments (fst (call ex_env (ex_deployment ''d9'') ex_state))) = 3"
proof
  have "\<not> handles_token (ex_deployment ''d9'')" by (simp add: ex_deployment_def)
  from alone_it_is_the_service [OF this]
  show "runA (call_async ex_env (ex_deployment ''d9'')) ex_state = call ex_env (ex_deployment ''d9'') ex_state"
    by simp
  show "length (db_deployments (fst (call ex_env (ex_deployment ''d9'') ex_state))) = 3" by code_simp
qed

subsection \<open>Requests in flight\<close>

datatype request = Ask Env command | TakeSnapshot Env

primrec request_env :: "request \<Rightarrow> Env" where
  "request_env (Ask E c) = E"
| "request_env (TakeSnapshot E) = E"

primrec serve_async :: "request \<Rightarrow> async_reply async" where
  "serve_async (Ask E c) = call_async E c"
| "serve_async (TakeSnapshot E) = mapsA SnapshotReply (createRouteSnapshot_async E)"

type_synonym pool = "(request \<times> async_reply async) list"

text \<open>The next repository call of the request at position \<open>i\<close>; nothing, when it has been answered.\<close>

definition advance :: "nat \<Rightarrow> Db \<times> pool \<Rightarrow> Db \<times> pool" where
  "advance i w = (case w of (s, ps) \<Rightarrow>
     if i < length ps then (case snd (ps ! i) of
         Done r \<Rightarrow> (s, ps)
       | Call k \<Rightarrow> (case k s of (s', p) \<Rightarrow> (s', ps[i := (fst (ps ! i), p)])))
     else (s, ps))"

definition schedule :: "nat list \<Rightarrow> Db \<times> pool \<Rightarrow> Db \<times> pool" where
  "schedule is w = foldl (\<lambda>w i. advance i w) w is"

text \<open>
  Requests arrive, run a call, and leave: answered, or abandoned half way when the process that serves
  them stops.
\<close>

inductive concurrent :: "UrlApi \<Rightarrow> Db \<times> pool \<Rightarrow> bool" for U where
  idle: "concurrent U (empty_db, [])"
| arrive: "concurrent U (s, ps) \<Longrightarrow> good_env U (request_env q) \<Longrightarrow> concurrent U (s, ps @ [(q, serve_async q)])"
| run: "concurrent U w \<Longrightarrow> concurrent U (advance i w)"
| leave: "concurrent U (s, ps) \<Longrightarrow> concurrent U (s, take i ps @ drop (Suc i) ps)"

inductive_simps concurrent_idle: "concurrent U (s, [])"

lemma concurrent_schedule: "concurrent U w \<Longrightarrow> concurrent U (schedule is w)"
  unfolding schedule_def by (induction "is" arbitrary: w) (simp_all add: concurrent.run)

text \<open>What a request promises about its answer.\<close>

primrec promised :: "UrlApi \<Rightarrow> request \<Rightarrow> async_reply cp \<Rightarrow> bool" where
  "promised U (Ask E c) = (\<lambda>_. True)"
| "promised U (TakeSnapshot E) = (\<lambda>r. \<exists>snap. r = Inr (SnapshotReply (Inr snap))
     \<and> assertRouteSnapshot U (encodeSnapshot snap) = Inr ())"

lemma steady_mapsA: "db.steady U p \<Longrightarrow> db.steady U (mapsA f p)"
  unfolding mapsA_def by (intro db.steady_rules)

lemma call_async_steady:
  assumes "url_roundtrip U" and "good_env U E"
  shows "db.steady U (call_async E c)"
  using assms by (cases c) (simp_all add: steady_mapsA steady_accounts steady_resources steady_project
      steady_artifact steady_deployment steady_pointRoute steady_startRouteCanary steady_rollbackRoute
      steady_analyzeRouteCanary steady_createDeployPreview steady_rollbackDeployPreview)

lemma serve_holds:
  assumes "url_roundtrip U" and "good_env U (request_env q)"
  shows "db.holds U (\<lambda>_. True) (serve_async q) (promised U q)"
proof (cases q)
  case (Ask E c)
  with call_async_steady [OF assms(1), of E c] assms(2) show ?thesis by (simp add: db.steady_def)
next
  case (TakeSnapshot E)
  show ?thesis
    unfolding TakeSnapshot serve_async.simps mapsA_def promised.simps
    by (rule db.holds_bind [OF snapshot_holds])
      (auto intro!: db.holds_pure assertRouteSnapshot_ok)
qed

definition pool_safe :: "UrlApi \<Rightarrow> Db \<times> pool \<Rightarrow> bool" where
  "pool_safe U w \<longleftrightarrow> db_ok U (fst w)
     \<and> (\<forall>(q, p) \<in> set (snd w). db.safe U (\<lambda>r _. promised U q r) p (fst w))"

lemma advance_safe:
  assumes "pool_safe U w"
  shows "pool_safe U (advance i w)"
proof -
  obtain s ps where w: "w = (s, ps)" by fastforce
  show ?thesis
  proof (cases "i < length ps")
    case True
    obtain q p where at: "ps ! i = (q, p)" by fastforce
    have mem: "(q, p) \<in> set ps" using True at nth_mem by fastforce
    with assms w have ok: "db_ok U s" and safe: "db.safe U (\<lambda>r _. promised U q r) p s"
      by (auto simp: pool_safe_def)
    show ?thesis
    proof (cases p)
      case (Done r)
      then show ?thesis using assms True at by (simp add: advance_def w)
    next
      case (Call k)
      obtain s' p' where k: "k s = (s', p')" by fastforce
      from db.safe_step [OF safe [unfolded Call] extends_refl ok k]
      have st: "extends s s'" "db_ok U s'" "db.safe U (\<lambda>r _. promised U q r) p' s'" by auto
      have "db.safe U (\<lambda>r _. promised U q' r) x s'" if "(q', x) \<in> set ps" for q' x
        using assms that st(1) by (auto simp: pool_safe_def w intro: db.safe_rely)
      then show ?thesis
        using st True at Call k
        by (auto simp: advance_def w pool_safe_def dest!: set_mp [OF set_update_subset_insert])
    qed
  qed (use assms in \<open>simp add: advance_def w\<close>)
qed

lemma concurrent_safe: "concurrent U w \<Longrightarrow> url_roundtrip U \<Longrightarrow> pool_safe U w"
proof (induction rule: concurrent.induct)
  case idle
  then show ?case by (simp add: pool_safe_def empty_ok)
next
  case (arrive s ps q)
  then show ?case using serve_holds [of U q]
    by (auto simp: pool_safe_def db.holds_def)
next
  case (run w i)
  then show ?case by (simp add: advance_safe)
next
  case (leave s ps i)
  then show ?case by (auto simp: pool_safe_def dest: in_set_takeD in_set_dropD)
qed

text \<open>C10. However the repository calls of concurrent requests interleave, the database stays intact: what
  a row refers to exists and belongs to the same project; and a route snapshot built while others write
  is accepted by the runtime nodes. It is never rejected by a row that has gone.\<close>

theorem interleaving_is_safe:
  assumes "url_roundtrip U" and "concurrent U (s, ps)"
  shows "db_ok U s \<and> (\<forall>E r. (TakeSnapshot E, Done r) \<in> set ps \<longrightarrow>
    (\<exists>snap. r = Inr (SnapshotReply (Inr snap)) \<and> assertRouteSnapshot U (encodeSnapshot snap) = Inr ()))"
proof -
  from concurrent_safe [OF assms(2,1)]
  have ok: "db_ok U s" and all: "\<And>q p. (q, p) \<in> set ps \<Longrightarrow> db.safe U (\<lambda>r _. promised U q r) p s"
    by (auto simp: pool_safe_def)
  have "promised U (TakeSnapshot E) r" if "(TakeSnapshot E, Done r) \<in> set ps" for E r
    using all [OF that] ok extends_refl [of s] by auto
  with ok show ?thesis by simp
qed

text \<open>A request that runs while the others wait, and what the service reaches one call at a time.\<close>

lemma schedule_alone:
  "\<exists>is. schedule is (s, ps @ [(q, p)]) = (fst (runA p s), ps @ [(q, Done (snd (runA p s)))])"
proof (induction p arbitrary: s rule: resump_induct)
  case (Done r)
  have "schedule [] (s, ps @ [(q, Done r)]) = (s, ps @ [(q, Done r)])" by (simp add: schedule_def)
  then show ?case by (intro exI [of _ "[]"]) simp
next
  case (Call k)
  obtain s' p where k: "k s = (s', p)" by fastforce
  from Call.IH [OF k, of s'] obtain "is" where
    "schedule is (s', ps @ [(q, p)]) = (fst (runA p s'), ps @ [(q, Done (snd (runA p s')))])" by blast
  moreover have "advance (length ps) (s, ps @ [(q, Call k)]) = (s', ps @ [(q, p)])"
    by (simp add: advance_def k)
  ultimately have "schedule (length ps # is) (s, ps @ [(q, Call k)])
      = (fst (runA (Call k) s), ps @ [(q, Done (snd (runA (Call k) s)))])"
    by (simp add: schedule_def k)
  then show ?case by blast
qed

lemma concurrent_alone:
  assumes "concurrent U (s, ps)" and "good_env U (request_env q)"
  shows "concurrent U (fst (runA (serve_async q) s), ps)"
proof -
  obtain "is" where "schedule is (s, ps @ [(q, serve_async q)])
      = (fst (runA (serve_async q) s), ps @ [(q, Done (snd (runA (serve_async q) s)))])"
    using schedule_alone by blast
  with concurrent_schedule [OF concurrent.arrive [OF assms], of "is"]
  have "concurrent U (fst (runA (serve_async q) s), ps @ [(q, Done (snd (runA (serve_async q) s)))])" by simp
  from concurrent.leave [OF this, of "length ps"] show ?thesis by simp
qed

lemma concurrent_exec:
  "concurrent U (s, ps) \<Longrightarrow> good_env U E \<Longrightarrow> \<not> handles_token c \<Longrightarrow> concurrent U (exec E c s, ps)"
  using concurrent_alone [of U s ps "Ask E c"] by (simp add: call_async_alone exec_call)

lemma ex_state_concurrent: "concurrent ex_urls (ex_state, [])"
proof -
  have "concurrent ex_urls (ex_db, [])"
    unfolding ex_db_def
    by (intro concurrent_exec concurrent.idle ex_env_good)
      (simp_all add: ex_project_def ex_artifact_def ex_deployment_def ex_route_def)
  then show ?thesis by (simp only: ex_db_state)
qed

lemma two_in_flight:
  assumes "concurrent U (s, [])" and "good_env U (request_env q)" and "good_env U (request_env q')"
  shows "concurrent U (schedule is (s, [(q, serve_async q), (q', serve_async q')]))"
  using concurrent_schedule [OF concurrent.arrive [OF concurrent.arrive [OF assms(1,2)] assms(3)]] by simp

text \<open>A snapshot read while its route is pointed at another deployment.\<close>

definition ex_flight :: "Db \<times> pool" where
  "ex_flight = (ex_state, [(TakeSnapshot ex_env, serve_async (TakeSnapshot ex_env)),
     (Ask (ex_env_n ''aud_9'') (ex_route ''d2''), serve_async (Ask (ex_env_n ''aud_9'') (ex_route ''d2'')))])"

lemma ex_flight_concurrent: "concurrent ex_urls (schedule is ex_flight)"
  unfolding ex_flight_def
  by (rule two_in_flight [OF ex_state_concurrent]) (simp_all add: ex_env_good ex_env_good_plain)

definition ex_interleaving :: "nat list" where
  "ex_interleaving = 0 # replicate 9 1 @ [0, 0]"

theorem interleaving_is_safe_witness:
  "db_ok ex_urls (fst (schedule ex_interleaving ex_flight))
   \<and> list_all (\<lambda>(q, p). case p of Done r \<Rightarrow> \<not> isl r | Call k \<Rightarrow> False) (snd (schedule ex_interleaving ex_flight))
   \<and> map rte_deploymentId (db_routes (fst (schedule ex_interleaving ex_flight))) = [''d2'']"
proof (intro conjI)
  show "db_ok ex_urls (fst (schedule ex_interleaving ex_flight))"
    using interleaving_is_safe [OF ex_urls_roundtrip, of "fst (schedule ex_interleaving ex_flight)"
      "snd (schedule ex_interleaving ex_flight)"] ex_flight_concurrent by simp
  show "list_all (\<lambda>(q, p). case p of Done r \<Rightarrow> \<not> isl r | Call k \<Rightarrow> False)
     (snd (schedule ex_interleaving ex_flight))" by code_simp
  show "map rte_deploymentId (db_routes (fst (schedule ex_interleaving ex_flight))) = [''d2'']" by code_simp
qed

end
