(* ===== verification/AsyncRaces.thy ===== *)
theory AsyncRaces
  imports AsyncRuns Membership QuotaLaws
begin

text \<open>
  What the asynchronous service loses against the synchronous one: its checks are separate repository
  calls, made outside any transaction, so another request may come between a check and the write it
  guards.
\<close>

definition outcomes :: "Db \<times> pool \<Rightarrow> (async_reply cp) option list" where
  "outcomes w = map (\<lambda>(q, p). case p of Done r \<Rightarrow> Some r | Call k \<Rightarrow> None) (snd w)"

definition answered_well :: "Db \<times> pool \<Rightarrow> bool" where
  "answered_well w \<longleftrightarrow> list_all (\<lambda>r. case r of Some (Inr x) \<Rightarrow> True | _ \<Rightarrow> False) (outcomes w)"

subsection \<open>Quotas\<close>

definition ex_race_quota :: "Db \<times> pool" where
  "ex_race_quota = (let q = (\<lambda>aud p. Ask (ex_limited 2 aud) (PointRoute \<lparr>pri_id = JStr p, pri_projectId = ''p1'',
       pri_host = JStr ''o.example'', pri_pathPrefix = JStr (''/'' @ p), pri_deploymentId = Some ''d1'',
       pri_targets = JUndefined\<rparr>))
     in (ex_state, [(q ''aud_8'' ''b'', serve_async (q ''aud_8'' ''b'')), (q ''aud_9'' ''c'', serve_async (q ''aud_9'' ''c''))]))"

definition in_turns :: "nat \<Rightarrow> nat list" where
  "in_turns n = concat (replicate n [0, 1])"

text \<open>The quota holds for one request at a time (\<open>quota_never_exceeded\<close>), and not for two: with one
  route left under the quota, two requests in flight are both admitted, and both are answered.\<close>

theorem two_requests_exceed_the_quota:
  "concurrent ex_urls (schedule (in_turns 10) ex_race_quota)
   \<and> quotaLimit (env_projectQuotas (ex_limited 2 ''aud_8'')) QRoute = Some 2
   \<and> resource_count QRoute ''p1'' (fst ex_race_quota) = 1
   \<and> answered_well (schedule (in_turns 10) ex_race_quota)
   \<and> resource_count QRoute ''p1'' (fst (schedule (in_turns 10) ex_race_quota)) = 3"
proof (intro conjI)
  show "concurrent ex_urls (schedule (in_turns 10) ex_race_quota)"
    unfolding ex_race_quota_def Let_def
    by (rule two_in_flight [OF ex_state_concurrent])
      (simp_all add: ex_limited_def good_env_def ex_env_good_plain [unfolded good_env_def])
  show "quotaLimit (env_projectQuotas (ex_limited 2 ''aud_8'')) QRoute = Some 2" by code_simp
  show "resource_count QRoute ''p1'' (fst ex_race_quota) = 1" by code_simp
  show "answered_well (schedule (in_turns 10) ex_race_quota)" by code_simp
  show "resource_count QRoute ''p1'' (fst (schedule (in_turns 10) ex_race_quota)) = 3" by code_simp
qed

subsection \<open>Owners\<close>

text \<open>Both \<open>u1\<close> and \<open>u2\<close> own the project; each request removes the other one.\<close>

definition ex_two_owners :: Db where
  "ex_two_owners = exec (ex_env_n ''aud_16'') (AcceptProjectMembershipInvite ''p1'' ''u2'')
     (exec (ex_env_n ''aud_13'') (UpdateProjectMembershipRole ''p1'' ''u2'' (JStr ''owner'')) ex_members)"

definition ex_race_owners :: "Db \<times> pool" where
  "ex_race_owners = (ex_two_owners,
     [(Ask (ex_env_n ''aud_14'') (RemoveProjectMembership ''p1'' ''u1''),
       call_async (ex_env_n ''aud_14'') (RemoveProjectMembership ''p1'' ''u1'')),
      (Ask (ex_env_n ''aud_15'') (UpdateProjectMembershipRole ''p1'' ''u2'' (JStr ''viewer'')),
       call_async (ex_env_n ''aud_15'') (UpdateProjectMembershipRole ''p1'' ''u2'' (JStr ''viewer'')))])"

lemma ex_two_owners_concurrent: "concurrent ex_urls (ex_two_owners, [])"
  unfolding ex_two_owners_def ex_members_def
  by (intro concurrent_exec ex_state_concurrent ex_env_good ex_env_good_plain)
    (simp_all add: ex_user_def ex_second_user_def)

text \<open>Nor do two requests keep the last owner that \<open>assertProjectKeepsOwner\<close> guards: one removes an
  owner while the other demotes the second one, each sees the owner the other is about to take away, and
  the project is left without any.\<close>

theorem two_requests_orphan_a_project:
  "concurrent ex_urls (schedule (in_turns 9) ex_race_owners)
   \<and> has_owner (fst ex_race_owners) ''p1''
   \<and> answered_well (schedule (in_turns 9) ex_race_owners)
   \<and> \<not> has_owner (fst (schedule (in_turns 9) ex_race_owners)) ''p1''"
proof (intro conjI)
  show "concurrent ex_urls (schedule (in_turns 9) ex_race_owners)"
    using two_in_flight [OF ex_two_owners_concurrent, of "Ask (ex_env_n ''aud_14'') (RemoveProjectMembership ''p1'' ''u1'')"
      "Ask (ex_env_n ''aud_15'') (UpdateProjectMembershipRole ''p1'' ''u2'' (JStr ''viewer''))" "in_turns 9"]
    by (simp add: ex_race_owners_def ex_env_good)
  show "has_owner (fst ex_race_owners) ''p1''" by code_simp
  show "answered_well (schedule (in_turns 9) ex_race_owners)" by code_simp
  show "\<not> has_owner (fst (schedule (in_turns 9) ex_race_owners)) ''p1''" by code_simp
qed

subsection \<open>API keys\<close>

text \<open>The two services do not hash an API token alike, the asynchronous one leaving out the
  \<open>sha256:\<close> prefix: on one database, a key created by the synchronous service is unknown to the
  asynchronous one, and the other way round, although each knows its own.\<close>

theorem keys_do_not_cross:
  "(case createApiKey ex_env ex_key_input ex_state of
      (s, Inr (k, tok)) \<Rightarrow> snd (runA (authenticateApiToken_async ex_env (JStr tok)) s) = Inr None
         \<and> snd (authenticateApiToken ex_env (JStr tok) s) \<noteq> Inr None
    | _ \<Rightarrow> False)
   \<and> (case runA (createApiKey_async ex_env ex_key_input) ex_state of
      (s, Inr (k, tok)) \<Rightarrow> snd (runA (authenticateApiToken_async ex_env (JStr tok)) s) \<noteq> Inr None
         \<and> snd (authenticateApiToken ex_env (JStr tok) s) = Inr None
    | _ \<Rightarrow> False)"
  by (rule conjI; code_simp)

end
