(* ===== verification/ResponseCachePolicy.thy ===== *)
theory ResponseCachePolicy
  imports Normalizers
begin

text \<open>
  What the runtime node may cache (\<open>runtime/response-cache-policy.ts\<close>): the parsing of the cache's
  configuration, the requests it applies to with the key of each, and the responses that may be stored
  with their lifetime. The \<open>URL\<close> class, \<open>Date.parse\<close> and \<open>toUTCString\<close> are parameters, and so is the
  SHA-256 of the JSON text of what a key is made from. Times are integers of milliseconds; a body is
  the string of its bytes.
\<close>

record RuntimeHeader =
  hd_name :: string
  hd_value :: string

record InvokeComponentResponse =
  icr_status :: int
  icr_headers :: "RuntimeHeader list"
  icr_body :: string

record ResponseCacheRule =
  rcr_projectId :: string
  rcr_host :: string
  rcr_pathPrefix :: string
  rcr_maxTtlSeconds :: int
  rcr_varyHeaders :: "string list"

record ResponseCacheConfig =
  rcc_maxBytes :: int
  rcc_maxEntries :: int
  rcc_maxEntryBytes :: int
  rcc_maxPending :: int
  rcc_rules :: "ResponseCacheRule list"

record ResponseCacheRequest =
  rcq_projectId :: "string option"
  rcq_deploymentId :: string
  rcq_componentIdentity :: string
  rcq_method :: string
  rcq_uri :: string
  rcq_headers :: "RuntimeHeader list"
  rcq_bodyBytes :: int

record ResponseCacheScope =
  rcs_projectId :: "string option"
  rcs_deploymentId :: "string option"

definition bypassHeaders :: "string list" where
  "bypassHeaders = [''authorization'', ''proxy-authorization'', ''cookie'', ''range'', ''if-range'',
     ''if-match'', ''if-none-match'', ''if-modified-since'', ''if-unmodified-since'', ''cache-control'',
     ''pragma'', ''upgrade'', ''transfer-encoding'']"

definition hopHeaders :: "string list" where
  "hopHeaders = [''connection'', ''keep-alive'', ''proxy-authenticate'', ''proxy-authorization'', ''te'',
     ''trailer'', ''transfer-encoding'', ''upgrade'']"

subsection \<open>The configuration\<close>

definition invalid :: "string \<Rightarrow> 'a rt" where
  "invalid msg = throwR RValidation (''response cache: '' @ msg)"

definition guardI :: "bool \<Rightarrow> string \<Rightarrow> unit rt" where
  "guardI bad msg = (if bad then invalid msg else Inr ())"

definition cache_record :: "json \<Rightarrow> string list \<Rightarrow> (string \<times> json) list rt" where
  "cache_record v keys = (case v of
       JObj r \<Rightarrow> if list_ex (\<lambda>(k, _). k \<notin> set keys) r then invalid ''unknown property'' else Inr r
     | _ \<Rightarrow> invalid ''expected an object'')"

definition cache_integer :: "json \<Rightarrow> string \<Rightarrow> int \<Rightarrow> int rt" where
  "cache_integer v name maximum = (case isInteger v of
       Some n \<Rightarrow> if \<bar>n\<bar> \<le> 9007199254740991 \<and> 0 < n \<and> n \<le> maximum then Inr n
         else invalid (name @ '' must be a positive integer <= '' @ show_int maximum)
     | None \<Rightarrow> invalid (name @ '' must be a positive integer <= '' @ show_int maximum))"

definition is_identifier :: "string \<Rightarrow> bool" where
  "is_identifier s \<longleftrightarrow> s \<noteq> [] \<and> length s \<le> 200
     \<and> list_all (\<lambda>c. is_alnum c \<or> c \<in> set ''_.:-'') s"

definition cache_identifier :: "json \<Rightarrow> string \<Rightarrow> string rt" where
  "cache_identifier v name = (case v of
       JStr s \<Rightarrow> if is_identifier s then Inr s else invalid (''invalid '' @ name)
     | _ \<Rightarrow> invalid (''invalid '' @ name))"

definition is_header_name :: "string \<Rightarrow> bool" where
  "is_header_name s \<longleftrightarrow> s \<noteq> []
     \<and> list_all (\<lambda>c. is_digit c \<or> is_lower c \<or> c \<in> set ''!#$%&'' \<or> c \<in> set [CHR 0x27] \<or> c \<in> set ''*+.^_`|~-'') s"

definition varyHeader :: "json \<Rightarrow> string rt" where
  "varyHeader v = (case v of
       JStr name \<Rightarrow> if \<not> is_header_name name \<or> 100 < length name \<or> name \<in> set bypassHeaders
           \<or> name \<in> set hopHeaders \<or> startsWith name ''x-oden-''
         then invalid ''invalid vary header'' else Inr name
     | _ \<Rightarrow> invalid ''invalid vary header'')"

definition canonicalHost :: "UrlApi \<Rightarrow> json \<Rightarrow> string rt" where
  "canonicalHost U v = (case v of
       JStr h \<Rightarrow> if 253 < length h then invalid ''invalid host'' else
         (case urlParse U (''http://'' @ h) of
            None \<Rightarrow> invalid ''invalid host''
          | Some u \<Rightarrow> if url_host u \<noteq> h \<or> url_pathname u \<noteq> ''/'' \<or> url_username u \<noteq> []
               \<or> url_password u \<noteq> [] \<or> url_search u \<noteq> [] \<or> url_hash u \<noteq> []
             then invalid ''host must be a canonical lowercase authority without a scheme'' else Inr h)
     | _ \<Rightarrow> invalid ''invalid host'')"

definition cachePathPrefix :: "json \<Rightarrow> string rt" where
  "cachePathPrefix v = (case v of
       JStr p \<Rightarrow> if \<not> startsWith p ''/'' \<or> list_ex (\<lambda>c. c \<in> set ''?#'' \<or> js_ws c) p
           \<or> 2048 < length p \<or> (1 < length p \<and> endsWith p ''/'')
         then invalid ''invalid pathPrefix; omit a trailing slash'' else Inr p
     | _ \<Rightarrow> invalid ''invalid pathPrefix; omit a trailing slash'')"

definition cacheRule :: "UrlApi \<Rightarrow> json \<Rightarrow> ResponseCacheRule rt" where
  "cacheRule U v =
     bindE (cache_record v [''projectId'', ''host'', ''pathPrefix'', ''maxTtlSeconds'', ''varyHeaders'']) (\<lambda>r.
     bindE (cache_identifier (getp r ''projectId'') ''projectId'') (\<lambda>pid.
     bindE (canonicalHost U (getp r ''host'')) (\<lambda>host.
     bindE (cachePathPrefix (getp r ''pathPrefix'')) (\<lambda>prefix.
     bindE (cache_integer (getp r ''maxTtlSeconds'') ''maxTtlSeconds'' 31536000) (\<lambda>ttl.
     bindE (case getp r ''varyHeaders'' of
         JArr vs \<Rightarrow> if 32 < length vs then invalid ''varyHeaders must be an array of at most 32 names''
           else mapE varyHeader vs
       | _ \<Rightarrow> invalid ''varyHeaders must be an array of at most 32 names'') (\<lambda>vary.
     bindE (guardI (\<not> distinct vary) ''duplicate vary header'') (\<lambda>_.
     Inr \<lparr>rcr_projectId = pid, rcr_host = host, rcr_pathPrefix = prefix, rcr_maxTtlSeconds = ttl,
          rcr_varyHeaders = vary\<rparr>)))))))"

definition rule_identity :: "ResponseCacheRule \<Rightarrow> string \<times> string \<times> string" where
  "rule_identity r = (rcr_projectId r, rcr_host r, rcr_pathPrefix r)"

fun cacheRules :: "UrlApi \<Rightarrow> (string \<times> string \<times> string) list \<Rightarrow> json list \<Rightarrow> ResponseCacheRule list rt" where
  "cacheRules U seen [] = Inr []"
| "cacheRules U seen (v # vs) =
     bindE (cacheRule U v) (\<lambda>r.
     bindE (guardI (rule_identity r \<in> set seen) ''duplicate rule'') (\<lambda>_.
     bindE (cacheRules U (rule_identity r # seen) vs) (\<lambda>rs. Inr (r # rs))))"

definition parseResponseCacheConfig :: "UrlApi \<Rightarrow> json \<Rightarrow> ResponseCacheConfig rt" where
  "parseResponseCacheConfig U v =
     bindE (cache_record v [''maxBytes'', ''maxEntries'', ''maxEntryBytes'', ''maxPending'', ''rules'']) (\<lambda>r.
     bindE (cache_integer (getp r ''maxBytes'') ''maxBytes'' (1024 * 1024 * 1024)) (\<lambda>maxBytes.
     bindE (cache_integer (getp r ''maxEntryBytes'') ''maxEntryBytes'' maxBytes) (\<lambda>maxEntryBytes.
     bindE (cache_integer (getp r ''maxEntries'') ''maxEntries'' 1000000) (\<lambda>maxEntries.
     bindE (cache_integer (getp r ''maxPending'') ''maxPending'' 4096) (\<lambda>maxPending.
     bindE (case getp r ''rules'' of
         JArr vs \<Rightarrow> if 10000 < int (length vs) then invalid ''rules must be an array of at most 10000 rules''
           else cacheRules U [] vs
       | _ \<Rightarrow> invalid ''rules must be an array of at most 10000 rules'') (\<lambda>rules.
     Inr \<lparr>rcc_maxBytes = maxBytes, rcc_maxEntries = maxEntries, rcc_maxEntryBytes = maxEntryBytes,
          rcc_maxPending = maxPending, rcc_rules = rules\<rparr>))))))"

definition parseResponseCacheScope :: "json \<Rightarrow> ResponseCacheScope rt" where
  "parseResponseCacheScope v =
     bindE (cache_record v [''projectId'', ''deploymentId'']) (\<lambda>r.
     bindE (if getp r ''projectId'' = JUndefined then Inr None
       else bindE (cache_identifier (getp r ''projectId'') ''projectId'') (\<lambda>x. Inr (Some x))) (\<lambda>pid.
     bindE (if getp r ''deploymentId'' = JUndefined then Inr None
       else bindE (cache_identifier (getp r ''deploymentId'') ''deploymentId'') (\<lambda>x. Inr (Some x))) (\<lambda>did.
     Inr \<lparr>rcs_projectId = pid, rcs_deploymentId = did\<rparr>)))"

subsection \<open>Requests\<close>

definition headerValues :: "RuntimeHeader list \<Rightarrow> string \<Rightarrow> string list" where
  "headerValues headers name = map hd_value (filter (\<lambda>h. toLowerCase (hd_name h) = name) headers)"

text \<open>What the key of a request is the hash of.\<close>

record CacheIdentity =
  cid_projectId :: string
  cid_deploymentId :: string
  cid_componentIdentity :: string
  cid_uri :: string
  cid_rule :: ResponseCacheRule
  cid_vary :: "string list list"
  cid_forwarded :: "string list list"

definition rule_applies :: "ResponseCacheRequest \<Rightarrow> Url \<Rightarrow> ResponseCacheRule \<Rightarrow> bool" where
  "rule_applies q u r \<longleftrightarrow> Some (rcr_projectId r) = rcq_projectId q \<and> rcr_host r = url_host u
     \<and> (rcr_pathPrefix r = ''/'' \<or> url_pathname u = rcr_pathPrefix r
        \<or> startsWith (url_pathname u) (rcr_pathPrefix r @ ''/''))"

definition longer_rule :: "ResponseCacheRule \<Rightarrow> ResponseCacheRule \<Rightarrow> bool" where
  "longer_rule a b \<longleftrightarrow> int (length (rcr_pathPrefix b)) - int (length (rcr_pathPrefix a)) \<le> 0"

definition cache_identity :: "ResponseCacheRequest \<Rightarrow> string \<Rightarrow> ResponseCacheRule \<Rightarrow> CacheIdentity" where
  "cache_identity q pid r = \<lparr>cid_projectId = pid, cid_deploymentId = rcq_deploymentId q,
     cid_componentIdentity = rcq_componentIdentity q, cid_uri = rcq_uri q, cid_rule = r,
     cid_vary = map (headerValues (rcq_headers q)) (rcr_varyHeaders r),
     cid_forwarded = map (headerValues (rcq_headers q))
       [''host'', ''x-forwarded-host'', ''x-forwarded-proto'', ''forwarded'']\<rparr>"

definition matchResponseCacheRequest :: "UrlApi \<Rightarrow> (CacheIdentity \<Rightarrow> string) \<Rightarrow> ResponseCacheConfig
    \<Rightarrow> ResponseCacheRequest \<Rightarrow> (string \<times> ResponseCacheRule) option" where
  "matchResponseCacheRequest U sha config q = (case rcq_projectId q of
       None \<Rightarrow> None
     | Some pid \<Rightarrow>
         if pid = [] \<or> rcq_method q \<notin> set [''GET'', ''HEAD''] \<or> rcq_bodyBytes q \<noteq> 0 then None
         else if list_ex (\<lambda>h. toLowerCase (hd_name h) \<in> set bypassHeaders) (rcq_headers q) then None
         else let lengths = headerValues (rcq_headers q) ''content-length'' in
           if 1 < length lengths
              \<or> (length lengths = 1 \<and> \<not> (hd lengths \<noteq> [] \<and> list_all (\<lambda>c. c = CHR ''0'') (hd lengths))) then None
           else case urlParse U (rcq_uri q) of
               None \<Rightarrow> None
             | Some u \<Rightarrow>
                 if url_protocol u \<notin> set [''http:'', ''https:''] \<or> url_username u \<noteq> [] \<or> url_password u \<noteq> []
                    \<or> url_hash u \<noteq> [] then None
                 else case js_sort longer_rule (filter (rule_applies q u) (rcc_rules config)) of
                     [] \<Rightarrow> None
                   | r # _ \<Rightarrow> Some (sha (cache_identity q pid r), r))"

subsection \<open>Responses\<close>

text \<open>\<open>/^\d+$/\<close>, and a number of seconds that is a safe integer of milliseconds.\<close>

definition seconds :: "string \<Rightarrow> int option" where
  "seconds s = (if s = [] \<or> \<not> list_all is_digit s then None
     else let n = int (digits_value s) in if n \<le> 9007199254740 then Some n else None)"

text \<open>\<open>/^\s*([a-z-]+)(?:\s*=\s*(\d+|"\d+"))?\s*$/i\<close>, with the quotes of the value taken off.\<close>

definition is_directive_char :: "char \<Rightarrow> bool" where
  "is_directive_char c \<longleftrightarrow> is_lower c \<or> is_upper c \<or> c = CHR ''-''"

definition directive_value :: "string \<Rightarrow> string option" where
  "directive_value s =
     (if s \<noteq> [] \<and> list_all is_digit s then Some s
      else if 2 < length s \<and> hd s = CHR 0x22 \<and> last s = CHR 0x22 \<and> list_all is_digit (butlast (tl s))
        then Some (butlast (tl s))
      else None)"

definition cache_directive :: "string \<Rightarrow> (string \<times> string option) option" where
  "cache_directive part =
     (let t = trim part; name = takeWhile is_directive_char t;
          rest = dropWhile js_ws (dropWhile is_directive_char t)
      in if name = [] then None
         else if rest = [] then Some (toLowerCase name, None)
         else if hd rest = CHR ''='' then
           map_option (\<lambda>v. (toLowerCase name, Some v)) (directive_value (dropWhile js_ws (tl rest)))
         else None)"

fun cacheDirectives :: "(string \<times> string option) list \<Rightarrow> string list
    \<Rightarrow> (string \<times> string option) list option" where
  "cacheDirectives ds [] = Some ds"
| "cacheDirectives ds (part # parts) = (case cache_directive part of
       None \<Rightarrow> None
     | Some (name, v) \<Rightarrow> if map_of ds name \<noteq> None then None else cacheDirectives (ds @ [(name, v)]) parts)"

text \<open>\<open>validateHeaderName\<close> and \<open>validateHeaderValue\<close> of \<open>node:http\<close>.\<close>

definition is_token_char :: "char \<Rightarrow> bool" where
  "is_token_char c \<longleftrightarrow> is_alnum c \<or> c \<in> set ''^_`-!#$%&*+.|~'' \<or> c = CHR 0x27"

definition valid_header :: "RuntimeHeader \<Rightarrow> bool" where
  "valid_header h \<longleftrightarrow> hd_name h \<noteq> [] \<and> list_all is_token_char (hd_name h)
     \<and> list_all (\<lambda>c. let n = (of_char c :: nat) in n = 9 \<or> (32 \<le> n \<and> n \<noteq> 127)) (hd_value h)"

text \<open>The seconds a directive gives, \<open>None\<close> when it is absent or has no valid number.\<close>

definition directive_seconds :: "(string \<times> string option) list \<Rightarrow> string \<Rightarrow> int option" where
  "directive_seconds ds name = (case map_of ds name of Some (Some v) \<Rightarrow> seconds v | _ \<Rightarrow> None)"

definition storable_directives :: "(string \<times> string option) list \<Rightarrow> bool" where
  "storable_directives ds \<longleftrightarrow>
     \<not> list_ex (\<lambda>d. map_of ds d \<noteq> None)
        [''no-store'', ''private'', ''no-cache'', ''stale-while-revalidate'', ''stale-if-error'']
     \<and> \<not> (case map_of ds ''public'' of Some (Some v) \<Rightarrow> True | _ \<Rightarrow> False)
     \<and> \<not> list_ex (\<lambda>name. map_of ds name \<noteq> None \<and> directive_seconds ds name = None) [''max-age'', ''s-maxage'']"

definition directives_ttl :: "(string \<times> string option) list \<Rightarrow> int option" where
  "directives_ttl ds = (let shared = (map_of ds ''s-maxage'' \<noteq> None);
       ttl = directive_seconds ds (if shared then ''s-maxage'' else ''max-age'')
     in case ttl of None \<Rightarrow> None
        | Some t \<Rightarrow> if t = 0 \<or> (\<not> shared \<and> map_of ds ''public'' = None) then None else Some t)"

definition vary_known :: "ResponseCacheRule \<Rightarrow> string \<Rightarrow> bool" where
  "vary_known rule vary \<longleftrightarrow> vary = []
     \<or> list_all (\<lambda>name. toLowerCase (trim name) \<in> set (rcr_varyHeaders rule)) (split_on (CHR '','') vary)"

record PreparedEntry =
  pre_response :: InvokeComponentResponse
  pre_initialAgeMs :: int
  pre_expiresAt :: int
  pre_storedAt :: int

definition saved_header :: "RuntimeHeader \<Rightarrow> bool" where
  "saved_header h \<longleftrightarrow> hd_name h \<notin> set hopHeaders \<and> \<not> startsWith (hd_name h) ''x-oden-''
     \<and> hd_name h \<notin> set [''age'', ''date'', ''content-length'', ''traceparent'', ''tracestate'', ''server-timing'']"

record CacheDates =
  cd_parse :: "string \<Rightarrow> int option"
  cd_toUTCString :: "int \<Rightarrow> string"

definition storedEntry :: "CacheDates \<Rightarrow> InvokeComponentResponse \<Rightarrow> RuntimeHeader list
    \<Rightarrow> ResponseCacheRule \<Rightarrow> int \<Rightarrow> int \<Rightarrow> int \<Rightarrow> PreparedEntry option" where
  "storedEntry D response headers rule ttl requestTime responseTime =
     (let dates = headerValues headers ''date''; ages = headerValues headers ''age'' in
      if 1 < length dates \<or> 1 < length ages then None
      else case (case dates of [] \<Rightarrow> Some responseTime | d # _ \<Rightarrow> cd_parse D d,
                 case ages of [] \<Rightarrow> Some 0 | a # _ \<Rightarrow> seconds a) of
        (Some date, Some age) \<Rightarrow>
          let initialAgeMs = max 0 (max (responseTime - date) (age * 1000 + max 0 (responseTime - requestTime)));
              lifetimeMs = min ttl (rcr_maxTtlSeconds rule) * 1000
          in if lifetimeMs \<le> initialAgeMs then None
             else Some \<lparr>pre_response = \<lparr>icr_status = 200,
                   icr_headers = filter saved_header headers @
                     [\<lparr>hd_name = ''date'', hd_value = cd_toUTCString D date\<rparr>,
                      \<lparr>hd_name = ''content-length'', hd_value = show_int (int (length (icr_body response)))\<rparr>],
                   icr_body = icr_body response\<rparr>,
                 pre_initialAgeMs = initialAgeMs,
                 pre_expiresAt = responseTime + lifetimeMs - initialAgeMs, pre_storedAt = responseTime\<rparr>
      | _ \<Rightarrow> None)"

definition prepareResponseCacheEntry :: "CacheDates \<Rightarrow> InvokeComponentResponse \<Rightarrow> ResponseCacheRule
    \<Rightarrow> int \<Rightarrow> int \<Rightarrow> PreparedEntry option" where
  "prepareResponseCacheEntry D response rule requestTime responseTime =
     (if icr_status response \<noteq> 200 then None
      else if \<not> list_all valid_header (icr_headers response) then None
      else let headers = map (\<lambda>h. \<lparr>hd_name = toLowerCase (hd_name h), hd_value = hd_value h\<rparr>) (icr_headers response) in
        if list_ex (\<lambda>h. hd_name h \<in> set [''set-cookie'', ''content-range'', ''connection'', ''trailer'']) headers then None
        else case cacheDirectives [] (split_on (CHR '','') (join_with '','' (headerValues headers ''cache-control''))) of
            None \<Rightarrow> None
          | Some ds \<Rightarrow>
              if \<not> storable_directives ds then None
              else case directives_ttl ds of
                  None \<Rightarrow> None
                | Some ttl \<Rightarrow>
                    if \<not> vary_known rule (join_with '','' (headerValues headers ''vary'')) then None
                    else let lengths = headerValues headers ''content-length'' in
                      if 1 < length lengths
                         \<or> (lengths \<noteq> [] \<and> seconds (hd lengths) \<noteq> Some (int (length (icr_body response)))) then None
                      else storedEntry D response headers rule ttl requestTime responseTime)"

end
