(* ===== verification/ResponseCache.thy ===== *)
theory ResponseCache
  imports ResponseCachePolicy
begin

text \<open>
  The response cache of a runtime node (\<open>runtime/response-cache.ts\<close>). Its closure variables are a
  record; its maps, in insertion order, are lists; the generation object and the pending fills are
  numbers, a new one for each object made. A call of \<open>execute\<close> is a machine that moves from one
  \<open>await\<close> to the next; the readings of the clock, the end of the load and the state of the abort signal
  are the inputs of its moves.
\<close>

datatype ResponseCacheStatus = HIT | MISS | BYPASS

record ResponseCacheResult =
  crr_status :: ResponseCacheStatus
  crr_response :: InvokeComponentResponse

record CacheEntry =
  ce_prepared :: PreparedEntry
  ce_projectId :: "string option"
  ce_deploymentId :: string
  ce_size :: int

record CacheCounters =
  cc_hits :: nat
  cc_misses :: nat
  cc_bypasses :: nat
  cc_fills :: nat
  cc_coalesced :: nat
  cc_evictions :: nat
  cc_expired :: nat
  cc_purges :: nat

text \<open>\<open>rc_settled\<close> is the field \<open>settled\<close> of each fill, \<open>rc_resumed\<close> the flag of each suspension.\<close>

record ResponseCache =
  rc_entries :: "(string \<times> CacheEntry) list"
  rc_fills :: "(string \<times> nat) list"
  rc_settled :: "bool option list"
  rc_counters :: CacheCounters
  rc_generation :: nat
  rc_suspended :: int
  rc_bytes :: int
  rc_pending :: int
  rc_resumed :: "bool list"

definition createResponseCache :: ResponseCache where
  "createResponseCache = \<lparr>rc_entries = [], rc_fills = [], rc_settled = [],
     rc_counters = \<lparr>cc_hits = 0, cc_misses = 0, cc_bypasses = 0, cc_fills = 0, cc_coalesced = 0,
       cc_evictions = 0, cc_expired = 0, cc_purges = 0\<rparr>,
     rc_generation = 0, rc_suspended = 0, rc_bytes = 0, rc_pending = 0, rc_resumed = []\<rparr>"

definition count_cache :: "(CacheCounters \<Rightarrow> CacheCounters) \<Rightarrow> ResponseCache \<Rightarrow> ResponseCache" where
  "count_cache f c = c\<lparr>rc_counters := f (rc_counters c)\<rparr>"

subsection \<open>Entries\<close>

definition map_delete :: "'k \<Rightarrow> ('k \<times> 'v) list \<Rightarrow> ('k \<times> 'v) list" where
  "map_delete k m = filter (\<lambda>(k', _). k' \<noteq> k) m"

definition cache_remove :: "string \<Rightarrow> ResponseCache \<Rightarrow> ResponseCache" where
  "cache_remove key c = (case map_of (rc_entries c) key of
       None \<Rightarrow> c
     | Some e \<Rightarrow> c\<lparr>rc_bytes := rc_bytes c - ce_size e, rc_entries := map_delete key (rc_entries c)\<rparr>)"

definition hit_response :: "string \<Rightarrow> int \<Rightarrow> PreparedEntry \<Rightarrow> InvokeComponentResponse" where
  "hit_response method time p = \<lparr>icr_status = icr_status (pre_response p),
     icr_headers = icr_headers (pre_response p) @ [\<lparr>hd_name = ''age'',
       hd_value = show_int ((pre_initialAgeMs p + max 0 (time - pre_storedAt p)) div 1000)\<rparr>],
     icr_body = (if method = ''HEAD'' then [] else icr_body (pre_response p))\<rparr>"

definition cache_lookup :: "string \<Rightarrow> string \<Rightarrow> int \<Rightarrow> ResponseCache \<Rightarrow> ResponseCache \<times> ResponseCacheResult option" where
  "cache_lookup key method time c = (case map_of (rc_entries c) key of
       None \<Rightarrow> (c, None)
     | Some e \<Rightarrow>
         if pre_expiresAt (ce_prepared e) \<le> time
         then (count_cache (\<lambda>n. n\<lparr>cc_expired := cc_expired n + 1\<rparr>) (cache_remove key c), None)
         else (count_cache (\<lambda>n. n\<lparr>cc_hits := cc_hits n + 1\<rparr>)
                 (c\<lparr>rc_entries := map_delete key (rc_entries c) @ [(key, e)]\<rparr>),
               Some \<lparr>crr_status = HIT, crr_response = hit_response method time (ce_prepared e)\<rparr>))"

definition cache_matches :: "CacheEntry \<Rightarrow> ResponseCacheScope \<Rightarrow> bool" where
  "cache_matches e s \<longleftrightarrow> (rcs_projectId s = None \<or> ce_projectId e = rcs_projectId s)
     \<and> (rcs_deploymentId s = None \<or> Some (ce_deploymentId e) = rcs_deploymentId s)"

subsection \<open>Fills\<close>

definition createPendingFill :: "ResponseCache \<Rightarrow> nat \<times> ResponseCache" where
  "createPendingFill c = (length (rc_settled c), c\<lparr>rc_settled := rc_settled c @ [None]\<rparr>)"

definition resolve_fill :: "nat \<Rightarrow> bool \<Rightarrow> ResponseCache \<Rightarrow> ResponseCache" where
  "resolve_fill f stored c =
     (if rc_settled c ! f = None then c\<lparr>rc_settled := (rc_settled c)[f := Some stored]\<rparr> else c)"

subsection \<open>Purging and suspending\<close>

definition purge_cache :: "ResponseCacheScope \<Rightarrow> ResponseCache \<Rightarrow> ResponseCache \<times> nat" where
  "purge_cache s c =
     (let doomed = filter (\<lambda>(_, e). cache_matches e s) (rc_entries c);
          c1 = fold (\<lambda>(k, _). cache_remove k) doomed (c\<lparr>rc_generation := rc_generation c + 1\<rparr>);
          c2 = fold (\<lambda>(_, f). resolve_fill f False) (rc_fills c1) c1
      in (count_cache (\<lambda>n. n\<lparr>cc_purges := cc_purges n + 1\<rparr>) (c2\<lparr>rc_fills := []\<rparr>), length doomed))"

definition whole_cache :: ResponseCacheScope where
  "whole_cache = \<lparr>rcs_projectId = None, rcs_deploymentId = None\<rparr>"

text \<open>\<open>suspend\<close> returns the function that resumes, here the number of its flag.\<close>

definition suspend_cache :: "ResponseCache \<Rightarrow> ResponseCache \<times> nat" where
  "suspend_cache c = (fst (purge_cache whole_cache
       (c\<lparr>rc_suspended := rc_suspended c + 1, rc_resumed := rc_resumed c @ [False]\<rparr>)), length (rc_resumed c))"

definition resume_cache :: "nat \<Rightarrow> ResponseCache \<Rightarrow> ResponseCache" where
  "resume_cache h c = (if rc_resumed c ! h then c
     else fst (purge_cache whole_cache
       (c\<lparr>rc_resumed := (rc_resumed c)[h := True], rc_suspended := rc_suspended c - 1\<rparr>)))"

subsection \<open>Storing a response\<close>

definition byteLength :: "string \<Rightarrow> int" where
  "byteLength s = sum_list (map (\<lambda>c. if (of_char c :: nat) < 128 then 1 else 2) s)"

definition entry_size :: "string \<Rightarrow> PreparedEntry \<Rightarrow> int" where
  "entry_size key p = int (length (icr_body (pre_response p))) + byteLength key
     + sum_list (map (\<lambda>h. byteLength (hd_name h) + byteLength (hd_value h) + 4) (icr_headers (pre_response p)))"

text \<open>
  \<open>while (entries.size >= maxEntries || bytes + size > maxBytes)\<close>: on an empty map \<open>remove(undefined)\<close>
  does nothing, so the loop may go on for ever, and then there is no value.
\<close>

partial_function (option) evict_for :: "ResponseCacheConfig \<Rightarrow> int \<Rightarrow> ResponseCache \<Rightarrow> ResponseCache option" where
  "evict_for config sz c =
     (if rcc_maxEntries config \<le> int (length (rc_entries c)) \<or> rcc_maxBytes config < rc_bytes c + sz
      then evict_for config sz (count_cache (\<lambda>n. n\<lparr>cc_evictions := cc_evictions n + 1\<rparr>)
             (case rc_entries c of [] \<Rightarrow> c | (k, _) # _ \<Rightarrow> cache_remove k c))
      else Some c)"

declare evict_for.simps [code]

text \<open>\<open>sweep k\<close> is the reading of the clock when the loop comes to the entry \<open>k\<close>.\<close>

definition drop_expired :: "(string \<Rightarrow> int) \<Rightarrow> ResponseCache \<Rightarrow> ResponseCache" where
  "drop_expired sweep c =
     fold (\<lambda>(k, e) c. if pre_expiresAt (ce_prepared e) \<le> sweep k
        then count_cache (\<lambda>n. n\<lparr>cc_expired := cc_expired n + 1\<rparr>) (cache_remove k c) else c) (rc_entries c) c"

definition store_entry :: "ResponseCacheConfig \<Rightarrow> ResponseCacheRequest \<Rightarrow> string \<Rightarrow> PreparedEntry
    \<Rightarrow> (string \<Rightarrow> int) \<Rightarrow> ResponseCache \<Rightarrow> (ResponseCache \<times> bool) option" where
  "store_entry config q key p sweep c =
     (let sz = entry_size key p in
      if sz \<le> rcc_maxEntryBytes config \<and> sz \<le> rcc_maxBytes config
      then (case evict_for config sz (cache_remove key (drop_expired sweep c)) of
          None \<Rightarrow> None
        | Some c1 \<Rightarrow> Some (count_cache (\<lambda>n. n\<lparr>cc_fills := cc_fills n + 1\<rparr>)
            (c1\<lparr>rc_entries := rc_entries c1 @ [(key, \<lparr>ce_prepared = p, ce_projectId = rcq_projectId q,
                  ce_deploymentId = rcq_deploymentId q, ce_size = sz\<rparr>)],
                rc_bytes := rc_bytes c1 + sz\<rparr>), True))
      else Some (c, False))"

subsection \<open>Calls of \<open>execute\<close>\<close>

datatype exec_phase =
    Arriving
  | Bypassing
  | Awaiting nat string nat
  | Loading nat string ResponseCacheRule nat int
  | Answered ResponseCacheResult
  | Failed

text \<open>
  \<open>Begin\<close> is the call itself, with the revision it was given, a reading of the clock (the two readings
  before the first \<open>await\<close> are taken as one) and whether the signal is aborted; the others are the
  resumptions after an \<open>await\<close>.
\<close>

datatype exec_event =
    Begin "nat option" int bool
  | FillSettled int bool
  | LoadDone InvokeComponentResponse int "string \<Rightarrow> int" bool
  | LoadFailed
  | Abort

definition bypass :: "bool \<Rightarrow> ResponseCache \<Rightarrow> exec_phase \<times> ResponseCache" where
  "bypass aborted c = (if aborted then Failed else Bypassing,
     count_cache (\<lambda>n. n\<lparr>cc_bypasses := cc_bypasses n + 1\<rparr>) c)"

definition add_pending :: "int \<Rightarrow> ResponseCache \<Rightarrow> ResponseCache" where
  "add_pending n c = c\<lparr>rc_pending := rc_pending c + n\<rparr>"

text \<open>From the miss on: join the fill of the key, or start it.\<close>

definition begin_fill :: "ResponseCacheConfig \<Rightarrow> string \<Rightarrow> ResponseCacheRule \<Rightarrow> int
    \<Rightarrow> ResponseCache \<Rightarrow> exec_phase \<times> ResponseCache" where
  "begin_fill config key rule time c =
     (let c1 = count_cache (\<lambda>n. n\<lparr>cc_misses := cc_misses n + 1\<rparr>) c in
      if rcc_maxPending config \<le> rc_pending c1 then bypass False c1
      else case map_of (rc_fills c1) key of
        Some f \<Rightarrow> (Awaiting f key (rc_generation c1),
          add_pending 1 (count_cache (\<lambda>n. n\<lparr>cc_coalesced := cc_coalesced n + 1\<rparr>) c1))
      | None \<Rightarrow> (case createPendingFill c1 of (f, c2) \<Rightarrow>
          (Loading f key rule (rc_generation c1) time,
           add_pending 1 (c2\<lparr>rc_fills := rc_fills c2 @ [(key, f)]\<rparr>))))"

definition begin_execute :: "UrlApi \<Rightarrow> (CacheIdentity \<Rightarrow> string) \<Rightarrow> ResponseCacheConfig
    \<Rightarrow> ResponseCacheRequest \<Rightarrow> nat option \<Rightarrow> int \<Rightarrow> ResponseCache \<Rightarrow> exec_phase \<times> ResponseCache" where
  "begin_execute U sha config q revision time c =
     (if rc_suspended c \<noteq> 0 \<or> (revision \<noteq> None \<and> revision \<noteq> Some (rc_generation c)) then bypass False c
      else case matchResponseCacheRequest U sha config q of
        None \<Rightarrow> bypass False c
      | Some (key, rule) \<Rightarrow> (case cache_lookup key (rcq_method q) time c of
            (c1, Some hit) \<Rightarrow> (Answered hit, c1)
          | (c1, None) \<Rightarrow>
              if rcq_method q = ''HEAD'' then bypass False c1 else begin_fill config key rule time c1))"

text \<open>The \<open>finally\<close> of the call that fills.\<close>

definition end_fill :: "nat \<Rightarrow> string \<Rightarrow> bool \<Rightarrow> ResponseCache \<Rightarrow> ResponseCache" where
  "end_fill f key stored c = resolve_fill f stored (add_pending (-1)
     (if map_of (rc_fills c) key = Some f then c\<lparr>rc_fills := map_delete key (rc_fills c)\<rparr> else c))"

definition finish_load :: "CacheDates \<Rightarrow> ResponseCacheConfig \<Rightarrow> ResponseCacheRequest \<Rightarrow> nat \<Rightarrow> string
    \<Rightarrow> ResponseCacheRule \<Rightarrow> nat \<Rightarrow> int \<Rightarrow> InvokeComponentResponse \<Rightarrow> int \<Rightarrow> (string \<Rightarrow> int) \<Rightarrow> bool
    \<Rightarrow> ResponseCache \<Rightarrow> (exec_phase \<times> ResponseCache) option" where
  "finish_load D config q f key rule revision requestTime response time sweep aborted c =
     map_option (\<lambda>(c1, stored). (Answered \<lparr>crr_status = MISS, crr_response = response\<rparr>, end_fill f key stored c1))
       (if rc_generation c = revision \<and> rc_suspended c = 0 \<and> \<not> aborted
           \<and> int (length (icr_body response)) \<le> rcc_maxEntryBytes config
        then (case prepareResponseCacheEntry D response rule requestTime time of
            None \<Rightarrow> Some (c, False) | Some p \<Rightarrow> store_entry config q key p sweep c)
        else Some (c, False))"

definition end_wait :: "ResponseCacheRequest \<Rightarrow> string \<Rightarrow> nat \<Rightarrow> bool \<Rightarrow> int \<Rightarrow> bool
    \<Rightarrow> ResponseCache \<Rightarrow> exec_phase \<times> ResponseCache" where
  "end_wait q key revision stored time aborted c =
     (if stored \<and> rc_generation c = revision \<and> rc_suspended c = 0
      then (case cache_lookup key (rcq_method q) time c of
          (c1, Some hit) \<Rightarrow> (Answered hit, add_pending (-1) c1)
        | (c1, None) \<Rightarrow> bypass aborted (add_pending (-1) c1))
      else bypass aborted (add_pending (-1) c))"

text \<open>An event that the phase does not wait for changes nothing.\<close>

definition exec_step :: "UrlApi \<Rightarrow> (CacheIdentity \<Rightarrow> string) \<Rightarrow> CacheDates \<Rightarrow> ResponseCacheConfig
    \<Rightarrow> ResponseCacheRequest \<Rightarrow> exec_event \<Rightarrow> exec_phase \<Rightarrow> ResponseCache \<Rightarrow> (exec_phase \<times> ResponseCache) option" where
  "exec_step U sha D config q ev ph c = (case (ph, ev) of
       (Arriving, Begin revision time aborted) \<Rightarrow>
         Some (if aborted then (Failed, c) else begin_execute U sha config q revision time c)
     | (Bypassing, LoadDone response time sweep aborted) \<Rightarrow>
         Some (Answered \<lparr>crr_status = BYPASS, crr_response = response\<rparr>, c)
     | (Bypassing, LoadFailed) \<Rightarrow> Some (Failed, c)
     | (Bypassing, Abort) \<Rightarrow> Some (Failed, c)
     | (Awaiting f key revision, FillSettled time aborted) \<Rightarrow>
         Some (case rc_settled c ! f of
             None \<Rightarrow> (ph, c)
           | Some stored \<Rightarrow> end_wait q key revision stored time aborted c)
     | (Awaiting f key revision, Abort) \<Rightarrow>
         Some (if rc_settled c ! f = None then (Failed, add_pending (-1) c) else (ph, c))
     | (Loading f key rule revision requestTime, LoadDone response time sweep aborted) \<Rightarrow>
         finish_load D config q f key rule revision requestTime response time sweep aborted c
     | (Loading f key rule revision requestTime, LoadFailed) \<Rightarrow> Some (Failed, end_fill f key False c)
     | (Loading f key rule revision requestTime, Abort) \<Rightarrow> Some (Failed, end_fill f key False c)
     | _ \<Rightarrow> Some (ph, c))"

end
