(* ===== verification/ResponseCacheLaws.thy ===== *)
theory ResponseCacheLaws
  imports ResponseCache
begin

text \<open>
  What the response cache of a runtime node keeps in every interleaving of its calls: its books and its
  limits, the waiters of its fills, and where a hit comes from.
\<close>

subsection \<open>The books\<close>

definition total_size :: "(string \<times> CacheEntry) list \<Rightarrow> int" where
  "total_size es = sum_list (map (ce_size \<circ> snd) es)"

definition sized :: "ResponseCacheConfig \<Rightarrow> string \<times> CacheEntry \<Rightarrow> bool" where
  "sized config ke \<longleftrightarrow> ce_size (snd ke) = entry_size (fst ke) (ce_prepared (snd ke))
     \<and> ce_size (snd ke) \<le> rcc_maxEntryBytes config"

definition booked :: "ResponseCacheConfig \<Rightarrow> ResponseCache \<Rightarrow> bool" where
  "booked config c \<longleftrightarrow> distinct (map fst (rc_entries c)) \<and> rc_bytes c = total_size (rc_entries c)
     \<and> list_all (sized config) (rc_entries c)"

definition in_limits :: "ResponseCacheConfig \<Rightarrow> ResponseCache \<Rightarrow> bool" where
  "in_limits config c \<longleftrightarrow> booked config c \<and> int (length (rc_entries c)) \<le> rcc_maxEntries config
     \<and> rc_bytes c \<le> rcc_maxBytes config"

lemma entry_size_nonneg: "0 \<le> entry_size key p"
proof -
  have b: "0 \<le> byteLength s" for s
    unfolding byteLength_def by (induction s) auto
  have "0 \<le> sum_list (map (\<lambda>h. byteLength (hd_name h) + byteLength (hd_value h) + 4) hs)" for hs
    by (induction hs) (auto simp: b add_nonneg_nonneg)
  with b [of key] show ?thesis
    unfolding entry_size_def by (intro add_nonneg_nonneg) simp_all
qed

lemma total_size_simps [simp]:
  "total_size [] = 0" "total_size (ke # es) = ce_size (snd ke) + total_size es"
  "total_size (es @ fs) = total_size es + total_size fs"
  by (simp_all add: total_size_def)

lemma total_size_filter:
  "list_all (sized config) es \<Longrightarrow> total_size (filter P es) \<le> total_size es"
proof (induction es)
  case (Cons ke es)
  then have "0 \<le> ce_size (snd ke)" using entry_size_nonneg by (simp add: sized_def)
  with Cons show ?case by auto
qed simp

lemma total_size_delete:
  assumes "distinct (map fst es)" and "map_of es k = Some e"
  shows "total_size (map_delete k es) = total_size es - ce_size e"
  using assms
proof (induction es)
  case (Cons ke es)
  obtain k' e' where ke: "ke = (k', e')" by fastforce
  show ?case
  proof (cases "k' = k")
    case True
    then have "map_delete k es = es"
      using Cons.prems(1) ke by (force simp: map_delete_def filter_id_conv)
    then show ?thesis using True Cons.prems ke by (simp add: map_delete_def)
  next
    case False
    then have "total_size (map_delete k es) = total_size es - ce_size e" using Cons ke by simp
    then show ?thesis using False ke by (simp add: map_delete_def)
  qed
qed simp

lemma map_delete_absent: "map_of es k = None \<Longrightarrow> map_delete k es = es"
  by (force simp: map_delete_def filter_id_conv map_of_eq_None_iff)

lemma map_delete_keys: "map fst (map_delete k es) = filter (\<lambda>k'. k' \<noteq> k) (map fst es)"
  by (induction es) (auto simp: map_delete_def)

lemma set_map_delete: "set (map_delete k es) \<subseteq> set es"
  by (auto simp: map_delete_def)

lemma length_map_delete: "length (map_delete k es) \<le> length es"
  by (simp add: map_delete_def)

text \<open>Removing an entry, whether it is there or not.\<close>

lemma cache_remove_fields [simp]:
  "rc_fills (cache_remove k c) = rc_fills c" "rc_settled (cache_remove k c) = rc_settled c"
  "rc_counters (cache_remove k c) = rc_counters c" "rc_generation (cache_remove k c) = rc_generation c"
  "rc_suspended (cache_remove k c) = rc_suspended c" "rc_pending (cache_remove k c) = rc_pending c"
  "rc_resumed (cache_remove k c) = rc_resumed c"
  "rc_entries (cache_remove k c) = map_delete k (rc_entries c)"
  by (simp_all add: cache_remove_def map_delete_absent split: option.split)

lemma count_cache_fields [simp]:
  "rc_fills (count_cache f c) = rc_fills c" "rc_settled (count_cache f c) = rc_settled c"
  "rc_entries (count_cache f c) = rc_entries c" "rc_generation (count_cache f c) = rc_generation c"
  "rc_suspended (count_cache f c) = rc_suspended c" "rc_pending (count_cache f c) = rc_pending c"
  "rc_resumed (count_cache f c) = rc_resumed c" "rc_bytes (count_cache f c) = rc_bytes c"
  by (simp_all add: count_cache_def)

lemma booked_count [simp]: "booked config (count_cache f c) \<longleftrightarrow> booked config c"
  by (simp add: booked_def)

lemma booked_remove: "booked config c \<Longrightarrow> booked config (cache_remove k c)"
  using total_size_delete [of "rc_entries c" k] set_map_delete [of k "rc_entries c"]
  by (auto simp: booked_def cache_remove_def map_delete_keys list_all_iff
      simp del: cache_remove_fields map_of_eq_Some_iff split: option.split)

lemma bytes_remove: "booked config c \<Longrightarrow> rc_bytes (cache_remove k c) \<le> rc_bytes c"
  using booked_remove [of config c k] total_size_filter [of config "rc_entries c"]
  by (simp add: booked_def map_delete_def)

lemma in_limits_remove: "in_limits config c \<Longrightarrow> in_limits config (cache_remove k c)"
  using booked_remove [of config c k] bytes_remove [of config c k]
    length_map_delete [of k "rc_entries c"]
  by (simp add: in_limits_def)

lemma in_limits_count [simp]: "in_limits config (count_cache f c) \<longleftrightarrow> in_limits config c"
  by (simp add: in_limits_def)

lemma in_limits_cong:
  "rc_entries c' = rc_entries c \<Longrightarrow> rc_bytes c' = rc_bytes c \<Longrightarrow> in_limits config c' = in_limits config c"
  by (simp add: in_limits_def booked_def)

lemma map_of_delete_append:
  "distinct (map fst es) \<Longrightarrow> map_of es k = Some e \<Longrightarrow> mset (map_delete k es @ [(k, e)]) = mset es"
proof (induction es)
  case (Cons x es)
  obtain k' e' where x: "x = (k', e')" by fastforce
  show ?case
  proof (cases "k' = k")
    case True
    then have "map_delete k es = es"
      using Cons.prems(1) x by (force simp: map_delete_def filter_id_conv)
    then show ?thesis using True Cons.prems x by (simp add: map_delete_def)
  qed (use Cons x in \<open>auto simp: map_delete_def\<close>)
qed simp

lemma in_limits_mset:
  assumes "mset (rc_entries c') = mset (rc_entries c)" and "rc_bytes c' = rc_bytes c"
  shows "in_limits config c' = in_limits config c"
proof -
  have "total_size (rc_entries c') = total_size (rc_entries c)"
    using arg_cong [OF assms(1), of "\<lambda>m. sum_mset (image_mset (ce_size \<circ> snd) m)"]
    by (simp add: total_size_def sum_mset_sum_list flip: mset_map)
  moreover have "distinct (map fst (rc_entries c')) = distinct (map fst (rc_entries c))"
    using assms(1) by (intro mset_eq_imp_distinct_iff) simp
  moreover have "list_all (sized config) (rc_entries c') = list_all (sized config) (rc_entries c)"
    using mset_eq_setD [OF assms(1)] by (simp add: list_all_iff)
  ultimately show ?thesis
    using assms(2) mset_eq_length [OF assms(1)] by (simp add: in_limits_def booked_def)
qed

lemma in_limits_lookup: "in_limits config c \<Longrightarrow> in_limits config (fst (cache_lookup k m t c))"
proof (cases "map_of (rc_entries c) k")
  case (Some e)
  assume c: "in_limits config c"
  have "mset (map_delete k (rc_entries c) @ [(k, e)]) = mset (rc_entries c)"
    using c Some by (intro map_of_delete_append) (auto simp: in_limits_def booked_def)
  then have "in_limits config (c\<lparr>rc_entries := map_delete k (rc_entries c) @ [(k, e)]\<rparr>)"
    using c in_limits_mset [of "c\<lparr>rc_entries := map_delete k (rc_entries c) @ [(k, e)]\<rparr>" c] by simp
  with c Some show ?thesis by (simp add: cache_lookup_def in_limits_remove)
qed (simp add: cache_lookup_def)

text \<open>The fields that the entries do not concern.\<close>

definition same_flow :: "ResponseCache \<Rightarrow> ResponseCache \<Rightarrow> bool" where
  "same_flow c c' \<longleftrightarrow> rc_fills c' = rc_fills c \<and> rc_settled c' = rc_settled c
     \<and> rc_generation c' = rc_generation c \<and> rc_suspended c' = rc_suspended c
     \<and> rc_pending c' = rc_pending c \<and> rc_resumed c' = rc_resumed c"

lemma same_flow_simps [simp]:
  "same_flow c c" "same_flow c (cache_remove k c') = same_flow c c'" "same_flow c (count_cache f c') = same_flow c c'"
  by (simp_all add: same_flow_def)

lemma same_flow_trans: "same_flow a b \<Longrightarrow> same_flow b c \<Longrightarrow> same_flow a c"
  by (simp add: same_flow_def)

lemma same_flow_lookup: "same_flow c (fst (cache_lookup k m t c))"
  by (simp add: cache_lookup_def split: option.split) (simp add: same_flow_def)

definition cache_limits :: "ResponseCacheConfig \<Rightarrow> bool" where
  "cache_limits config \<longleftrightarrow> 0 < rcc_maxEntries config \<and> 0 < rcc_maxPending config
     \<and> 0 < rcc_maxBytes config \<and> 0 < rcc_maxEntryBytes config"

text \<open>
  Evicting ends, has removed the entries in front, no more than needed, and made room.
\<close>

definition room_for :: "ResponseCacheConfig \<Rightarrow> int \<Rightarrow> (string \<times> CacheEntry) list \<Rightarrow> bool" where
  "room_for config sz es \<longleftrightarrow> int (length es) < rcc_maxEntries config \<and> total_size es + sz \<le> rcc_maxBytes config"

lemma evict_for_spec:
  assumes "booked config c" and "cache_limits config" and "sz \<le> rcc_maxBytes config"
  shows "\<exists>c' n. evict_for config sz c = Some c' \<and> rc_entries c' = drop n (rc_entries c) \<and> booked config c'
     \<and> same_flow c c' \<and> room_for config sz (drop n (rc_entries c))
     \<and> (\<forall>m < n. \<not> room_for config sz (drop m (rc_entries c)))"
  using assms(1)
proof (induction "length (rc_entries c)" arbitrary: c)
  case 0
  then have "rc_entries c = []" by simp
  moreover have room: "room_for config sz []" using assms(2,3) by (simp add: cache_limits_def room_for_def)
  ultimately have "evict_for config sz c = Some c"
    using 0 by (subst evict_for.simps) (auto simp: booked_def room_for_def)
  with 0 room \<open>rc_entries c = []\<close> show ?case by (intro exI [of _ c] exI [of _ 0]) simp
next
  case (Suc l)
  obtain k e es where c: "rc_entries c = (k, e) # es" using Suc.hyps(2) by (cases "rc_entries c") auto
  show ?case
  proof (cases "room_for config sz (rc_entries c)")
    case True
    then have "evict_for config sz c = Some c"
      using Suc.prems by (subst evict_for.simps) (auto simp: booked_def room_for_def)
    with True Suc.prems show ?thesis by (intro exI [of _ c] exI [of _ 0]) simp
  next
    case False
    let ?c = "count_cache (\<lambda>n. n\<lparr>cc_evictions := cc_evictions n + 1\<rparr>) (cache_remove k c)"
    have step: "evict_for config sz c = evict_for config sz ?c"
      using False Suc.prems by (subst evict_for.simps) (auto simp: booked_def room_for_def c)
    have es: "map_delete k (rc_entries c) = es"
      using Suc.prems c by (force simp: booked_def map_delete_def filter_id_conv)
    have "booked config ?c" using Suc.prems booked_remove by simp
    with Suc.hyps(1) [of ?c] Suc.hyps(2) c es
    obtain c' n where "evict_for config sz ?c = Some c'" "rc_entries c' = drop n es" "booked config c'"
      "same_flow ?c c'" "room_for config sz (drop n es)" "\<forall>m < n. \<not> room_for config sz (drop m es)"
      by auto
    with step c False have "evict_for config sz c = Some c' \<and> rc_entries c' = drop (Suc n) (rc_entries c)
       \<and> booked config c' \<and> same_flow c c' \<and> room_for config sz (drop (Suc n) (rc_entries c))
       \<and> (\<forall>m < Suc n. \<not> room_for config sz (drop m (rc_entries c)))"
      by (auto simp: same_flow_def less_Suc_eq_0_disj)
    then show ?thesis by blast
  qed
qed

lemma drop_expired_spec:
  assumes "booked config c"
  shows "booked config (drop_expired sweep c)" and "same_flow c (drop_expired sweep c)"
    and "rc_entries (drop_expired sweep c)
      = filter (\<lambda>(k, e). \<not> pre_expiresAt (ce_prepared e) \<le> sweep k) (rc_entries c)"
proof -
  let ?f = "\<lambda>(k, e) c. if pre_expiresAt (ce_prepared e) \<le> sweep k
        then count_cache (\<lambda>n. n\<lparr>cc_expired := cc_expired n + 1\<rparr>) (cache_remove k c) else c"
  have "booked config (fold ?f es d) \<and> same_flow d (fold ?f es d)
     \<and> rc_entries (fold ?f es d) = filter (\<lambda>(k, _). \<not> (\<exists>e. (k, e) \<in> set es \<and> pre_expiresAt (ce_prepared e) \<le> sweep k)) (rc_entries d)"
    if "booked config d" for es d
    using that
  proof (induction es arbitrary: d)
    case (Cons ke es)
    obtain k e where ke: "ke = (k, e)" by fastforce
    show ?case
      using Cons.IH [of "?f ke d"] Cons.prems booked_remove [of config d k]
      by (auto simp: ke map_delete_def same_flow_def intro!: filter_cong split: if_splits)
  qed (auto simp: case_prod_unfold)
  from this [OF assms, of "rc_entries c"] have
    k: "booked config (drop_expired sweep c) \<and> same_flow c (drop_expired sweep c)" and
    e: "rc_entries (drop_expired sweep c) = filter (\<lambda>(k, _). \<not> (\<exists>e. (k, e) \<in> set (rc_entries c)
        \<and> pre_expiresAt (ce_prepared e) \<le> sweep k)) (rc_entries c)"
    by (simp_all only: drop_expired_def)
  from k show "booked config (drop_expired sweep c)" "same_flow c (drop_expired sweep c)" by auto
  have "distinct (map fst (rc_entries c))" using assms by (simp add: booked_def)
  then show "rc_entries (drop_expired sweep c)
      = filter (\<lambda>(k, e). \<not> pre_expiresAt (ce_prepared e) \<le> sweep k) (rc_entries c)"
    unfolding e by (intro filter_cong) (auto dest: eq_key_imp_eq_value)
qed

lemma store_entry_spec:
  assumes "in_limits config c" and "cache_limits config"
  obtains c' stored where "store_entry config q key p sweep c = Some (c', stored)" and "in_limits config c'"
    and "same_flow c c'" and "set (rc_entries c') \<subseteq> set (rc_entries c) \<union>
      (if stored then {(key, \<lparr>ce_prepared = p, ce_projectId = rcq_projectId q,
         ce_deploymentId = rcq_deploymentId q, ce_size = entry_size key p\<rparr>)} else {})"
proof -
  let ?sz = "entry_size key p"
  let ?d = "cache_remove key (drop_expired sweep c)"
  note b = drop_expired_spec [of config c sweep]
  have c: "booked config c" using assms(1) by (simp add: in_limits_def)
  show thesis
  proof (cases "?sz \<le> rcc_maxEntryBytes config \<and> ?sz \<le> rcc_maxBytes config")
    case True
    from evict_for_spec [OF booked_remove [OF b(1) [OF c]] assms(2), of ?sz key] True
    obtain c1 n where e: "evict_for config ?sz ?d = Some c1" and es: "rc_entries c1 = drop n (rc_entries ?d)"
      and bk: "booked config c1" and fl: "same_flow ?d c1" and room: "room_for config ?sz (rc_entries c1)"
      by auto
    have sub: "set (rc_entries c1) \<subseteq> set (rc_entries c)" "\<forall>e. (key, e) \<notin> set (rc_entries c1)"
      using es b(3) [OF c] set_drop_subset [of n "rc_entries ?d"] by (auto simp: map_delete_def)
    let ?e = "\<lparr>ce_prepared = p, ce_projectId = rcq_projectId q, ce_deploymentId = rcq_deploymentId q, ce_size = ?sz\<rparr>"
    let ?c = "count_cache (\<lambda>n. n\<lparr>cc_fills := cc_fills n + 1\<rparr>)
            (c1\<lparr>rc_entries := rc_entries c1 @ [(key, ?e)], rc_bytes := rc_bytes c1 + ?sz\<rparr>)"
    show thesis
    proof (rule that [of ?c True])
      show "store_entry config q key p sweep c = Some (?c, True)"
        using True e by (simp add: store_entry_def Let_def)
      show "in_limits config ?c"
        using bk room True sub(2) by (auto simp: in_limits_def booked_def room_for_def sized_def)
      show "same_flow c ?c" using fl b(2) [OF c] by (simp add: same_flow_def)
      show "set (rc_entries ?c) \<subseteq> set (rc_entries c) \<union> (if True then {(key, ?e)} else {})"
        using sub(1) by auto
    qed
  next
    case False
    then show thesis using assms(1) by (intro that [of c False]) (auto simp: store_entry_def)
  qed
qed

subsection \<open>Purging\<close>

lemma resolve_fields [simp]:
  "rc_entries (resolve_fill f b c) = rc_entries c" "rc_bytes (resolve_fill f b c) = rc_bytes c"
  "rc_fills (resolve_fill f b c) = rc_fills c" "rc_generation (resolve_fill f b c) = rc_generation c"
  "rc_suspended (resolve_fill f b c) = rc_suspended c" "rc_pending (resolve_fill f b c) = rc_pending c"
  "rc_resumed (resolve_fill f b c) = rc_resumed c"
  "length (rc_settled (resolve_fill f b c)) = length (rc_settled c)"
  by (simp_all add: resolve_fill_def)

lemma resolve_settled:
  "g < length (rc_settled c) \<Longrightarrow> rc_settled (resolve_fill f b c) ! g
     = (if g = f \<and> rc_settled c ! g = None then Some b else rc_settled c ! g)"
  by (auto simp: resolve_fill_def nth_list_update)

lemma resolve_all:
  fixes fs :: "(string \<times> nat) list"
  shows "let c' = fold (\<lambda>(_, f). resolve_fill f False) fs c in
     rc_entries c' = rc_entries c \<and> rc_bytes c' = rc_bytes c \<and> rc_fills c' = rc_fills c
     \<and> rc_generation c' = rc_generation c \<and> rc_suspended c' = rc_suspended c \<and> rc_pending c' = rc_pending c
     \<and> rc_resumed c' = rc_resumed c \<and> length (rc_settled c') = length (rc_settled c)
     \<and> (\<forall>g < length (rc_settled c). rc_settled c' ! g
          = (if g \<in> snd ` set fs \<and> rc_settled c ! g = None then Some False else rc_settled c ! g))"
proof (induction fs arbitrary: c)
  case (Cons x fs)
  obtain k f where x: "x = (k, f)" by fastforce
  show ?case
    using Cons.IH [of "resolve_fill f False c"] by (auto simp: x Let_def resolve_settled)
qed simp

lemma remove_all:
  assumes "booked config c"
  shows "booked config (fold (\<lambda>(k, _). cache_remove k) es c)" and "same_flow c (fold (\<lambda>(k, _). cache_remove k) es c)"
    and "rc_entries (fold (\<lambda>(k, _). cache_remove k) es c)
      = filter (\<lambda>(k, _). k \<notin> fst ` set es) (rc_entries c)"
proof -
  have "booked config (fold (\<lambda>(k, _). cache_remove k) es c) \<and> same_flow c (fold (\<lambda>(k, _). cache_remove k) es c)
    \<and> rc_entries (fold (\<lambda>(k, _). cache_remove k) es c) = filter (\<lambda>(k, _). k \<notin> fst ` set es) (rc_entries c)"
    using assms
  proof (induction es arbitrary: c)
    case (Cons x es)
    obtain k e where x: "x = (k, e)" by fastforce
    show ?case
      using Cons.IH [OF booked_remove [OF Cons.prems, of k]]
      by (auto simp: x map_delete_def same_flow_def intro!: filter_cong)
  qed (auto simp: case_prod_unfold)
  then show "booked config (fold (\<lambda>(k, _). cache_remove k) es c)" "same_flow c (fold (\<lambda>(k, _). cache_remove k) es c)"
    "rc_entries (fold (\<lambda>(k, _). cache_remove k) es c) = filter (\<lambda>(k, _). k \<notin> fst ` set es) (rc_entries c)"
    by auto
qed

lemma purge_spec:
  fixes s :: ResponseCacheScope
  assumes "booked config c"
  defines "c' \<equiv> fst (purge_cache s c)"
  shows "booked config c'" and "rc_entries c' = filter (\<lambda>(_, e). \<not> cache_matches e s) (rc_entries c)"
    and "rc_fills c' = []" and "rc_generation c' = rc_generation c + 1" and "rc_suspended c' = rc_suspended c"
    and "rc_pending c' = rc_pending c" and "rc_resumed c' = rc_resumed c"
    and "length (rc_settled c') = length (rc_settled c)"
    and "f < length (rc_settled c) \<Longrightarrow> rc_settled c' ! f
       = (if f \<in> snd ` set (rc_fills c) \<and> rc_settled c ! f = None then Some False else rc_settled c ! f)"
proof -
  let ?d = "filter (\<lambda>(_, e). cache_matches e s) (rc_entries c)"
  let ?c0 = "c\<lparr>rc_generation := rc_generation c + 1\<rparr>"
  let ?c1 = "fold (\<lambda>(k, _). cache_remove k) ?d ?c0"
  have b: "booked config ?c0" using assms(1) by (simp add: booked_def)
  note r = remove_all [OF b, of ?d]
  have c': "c' = count_cache (\<lambda>n. n\<lparr>cc_purges := cc_purges n + 1\<rparr>)
     ((fold (\<lambda>(_, f). resolve_fill f False) (rc_fills ?c1) ?c1)\<lparr>rc_fills := []\<rparr>)"
    by (simp add: c'_def purge_cache_def Let_def)
  note a = resolve_all [of "rc_fills ?c1" ?c1, unfolded Let_def]
  have d: "distinct (map fst (rc_entries c))" using assms(1) by (simp add: booked_def)
  have "rc_entries ?c1 = filter (\<lambda>(_, e). \<not> cache_matches e s) (rc_entries c)"
    unfolding r(3) using d by (auto intro!: filter_cong simp: image_iff dest: eq_key_imp_eq_value)
  with c' a show es: "rc_entries c' = filter (\<lambda>(_, e). \<not> cache_matches e s) (rc_entries c)" by simp
  show "booked config c'" using r(1) a es c' by (simp add: booked_def)
  show "rc_fills c' = []" "rc_generation c' = rc_generation c + 1" "rc_suspended c' = rc_suspended c"
    "rc_pending c' = rc_pending c" "rc_resumed c' = rc_resumed c"
    "length (rc_settled c') = length (rc_settled c)"
    using r(2) a c' by (simp_all add: same_flow_def)
  show "f < length (rc_settled c) \<Longrightarrow> rc_settled c' ! f
       = (if f \<in> snd ` set (rc_fills c) \<and> rc_settled c ! f = None then Some False else rc_settled c ! f)"
    using r(2) a c' by (simp add: same_flow_def)
qed

lemma in_limits_purge: "in_limits config c \<Longrightarrow> in_limits config (fst (purge_cache s c))"
  using purge_spec(1,2) [of config c s] total_size_filter [of config "rc_entries c" "\<lambda>(_, e). \<not> cache_matches e s"]
    length_filter_le [of "\<lambda>(_, e). \<not> cache_matches e s" "rc_entries c"]
  by (auto simp: in_limits_def booked_def simp del: length_filter_le)

subsection \<open>Histories\<close>

text \<open>
  What the users of a cache do: call \<open>execute\<close>, let a call go on, purge, suspend, resume. The log notes
  when a call began, what a filling call loaded, and what was purged.
\<close>

datatype cache_action =
    Call ResponseCacheRequest
  | Move nat exec_event
  | Purge ResponseCacheScope
  | Suspend
  | Resume nat

datatype cache_note =
    Started nat int
  | Loaded nat InvokeComponentResponse int
  | Purged ResponseCacheScope

type_synonym cache_calls = "(ResponseCacheRequest \<times> exec_phase) list"
type_synonym cache_world = "ResponseCache \<times> cache_calls \<times> cache_note list"

fun notes_of :: "nat \<Rightarrow> exec_phase \<Rightarrow> exec_event \<Rightarrow> cache_note list" where
  "notes_of i Arriving (Begin revision time aborted) = [Started i time]"
| "notes_of i (Loading f key rule revision requestTime) (LoadDone response time sweep aborted) =
     [Loaded i response time]"
| "notes_of i _ _ = []"

fun cache_act :: "UrlApi \<Rightarrow> (CacheIdentity \<Rightarrow> string) \<Rightarrow> CacheDates \<Rightarrow> ResponseCacheConfig
    \<Rightarrow> cache_action \<Rightarrow> cache_world \<Rightarrow> cache_world option" where
  "cache_act U sha D config (Call q) (c, calls, hist) = Some (c, calls @ [(q, Arriving)], hist)"
| "cache_act U sha D config (Move i ev) (c, calls, hist) =
     (if length calls \<le> i then Some (c, calls, hist)
      else case exec_step U sha D config (fst (calls ! i)) ev (snd (calls ! i)) c of
          None \<Rightarrow> None
        | Some (ph, c') \<Rightarrow> Some (c', calls[i := (fst (calls ! i), ph)], hist @ notes_of i (snd (calls ! i)) ev))"
| "cache_act U sha D config (Purge s) (c, calls, hist) = Some (fst (purge_cache s c), calls, hist @ [Purged s])"
| "cache_act U sha D config Suspend (c, calls, hist) =
     Some (fst (suspend_cache c), calls, hist @ [Purged whole_cache])"
| "cache_act U sha D config (Resume h) (c, calls, hist) =
     (if length (rc_resumed c) \<le> h \<or> rc_resumed c ! h then Some (c, calls, hist)
      else Some (resume_cache h c, calls, hist @ [Purged whole_cache]))"

inductive cache_run :: "UrlApi \<Rightarrow> (CacheIdentity \<Rightarrow> string) \<Rightarrow> CacheDates \<Rightarrow> ResponseCacheConfig
    \<Rightarrow> cache_world \<Rightarrow> bool" for U sha D config where
  created: "cache_run U sha D config (createResponseCache, [], [])"
| acted: "cache_run U sha D config w \<Longrightarrow> cache_act U sha D config a w = Some w' \<Longrightarrow> cache_run U sha D config w'"

inductive_cases cache_runE: "cache_run U sha D config w"

subsection \<open>Waiting and loading\<close>

fun is_pending :: "exec_phase \<Rightarrow> bool" where
  "is_pending (Awaiting f k g) = True"
| "is_pending (Loading f k r g t) = True"
| "is_pending _ = False"

fun fills :: "nat \<Rightarrow> exec_phase \<Rightarrow> bool" where
  "fills f (Loading f' k r g t) \<longleftrightarrow> f' = f"
| "fills f _ \<longleftrightarrow> False"

fun waits :: "nat \<Rightarrow> exec_phase \<Rightarrow> bool" where
  "waits f (Awaiting f' k g) \<longleftrightarrow> f' = f"
| "waits f _ \<longleftrightarrow> False"

fun fill_key :: "exec_phase \<Rightarrow> string option" where
  "fill_key (Loading f k r g t) = Some k"
| "fill_key _ = None"

text \<open>
  The fills of the map are open and each has its filling call, as has every open fill some call waits
  for; no two calls fill the same; and the counts are right.
\<close>

definition open_fill :: "ResponseCache \<Rightarrow> nat \<Rightarrow> bool" where
  "open_fill c f \<longleftrightarrow> f < length (rc_settled c) \<and> rc_settled c ! f = None"

definition pending_calls :: "cache_calls \<Rightarrow> int" where
  "pending_calls calls = int (length (filter (is_pending \<circ> snd) calls))"

definition fills_ok :: "ResponseCache \<Rightarrow> nat \<Rightarrow> (nat \<Rightarrow> exec_phase) \<Rightarrow> bool" where
  "fills_ok c n ph \<longleftrightarrow> distinct (map fst (rc_fills c))
     \<and> (\<forall>(k, f) \<in> set (rc_fills c). open_fill c f \<and> (\<exists>i < n. fills f (ph i) \<and> fill_key (ph i) = Some k))
     \<and> (\<forall>i < n. \<forall>f. fills f (ph i) \<or> waits f (ph i) \<longrightarrow> f < length (rc_settled c))
     \<and> (\<forall>i < n. \<forall>f. waits f (ph i) \<and> open_fill c f \<longrightarrow> (\<exists>j < n. fills f (ph j)))
     \<and> (\<forall>i < n. \<forall>j < n. \<forall>f. fills f (ph i) \<and> fills f (ph j) \<longrightarrow> i = j)"

definition flow_ok :: "ResponseCacheConfig \<Rightarrow> ResponseCache \<Rightarrow> cache_calls \<Rightarrow> bool" where
  "flow_ok config c calls \<longleftrightarrow>
     rc_pending c = pending_calls calls \<and> rc_pending c \<le> rcc_maxPending config
     \<and> rc_suspended c = int (length (filter Not (rc_resumed c)))
     \<and> fills_ok c (length calls) (\<lambda>i. snd (calls ! i))"

subsection \<open>Moves\<close>

text \<open>What a step of a call does to the fills and the counts.\<close>

inductive flow_move :: "ResponseCacheConfig \<Rightarrow> ResponseCache \<Rightarrow> exec_phase \<Rightarrow> ResponseCache \<Rightarrow> exec_phase \<Rightarrow> bool"
  for config c where
  stay: "same_flow c c' \<Longrightarrow> flow_move config c ph c' ph"
| aside: "same_flow c c' \<Longrightarrow> \<not> is_pending ph \<Longrightarrow> \<not> is_pending ph' \<Longrightarrow> flow_move config c ph c' ph'"
| join: "same_flow (add_pending 1 c) c' \<Longrightarrow> rc_pending c < rcc_maxPending config
    \<Longrightarrow> map_of (rc_fills c) k = Some f \<Longrightarrow> flow_move config c Arriving c' (Awaiting f k g)"
| lead: "same_flow (add_pending 1 (c\<lparr>rc_settled := rc_settled c @ [None],
      rc_fills := rc_fills c @ [(k, length (rc_settled c))]\<rparr>)) c' \<Longrightarrow> rc_pending c < rcc_maxPending config
    \<Longrightarrow> map_of (rc_fills c) k = None
    \<Longrightarrow> flow_move config c Arriving c' (Loading (length (rc_settled c)) k r g t)"
| woken: "same_flow (add_pending (-1) c) c' \<Longrightarrow> \<not> is_pending ph
    \<Longrightarrow> flow_move config c (Awaiting f k g) c' ph"
| loaded: "same_flow (end_fill f k b c) c' \<Longrightarrow> \<not> is_pending ph
    \<Longrightarrow> flow_move config c (Loading f k r g t) c' ph"

lemma add_pending_fields [simp]:
  "rc_entries (add_pending n c) = rc_entries c" "rc_bytes (add_pending n c) = rc_bytes c"
  "rc_fills (add_pending n c) = rc_fills c" "rc_settled (add_pending n c) = rc_settled c"
  "rc_generation (add_pending n c) = rc_generation c" "rc_suspended (add_pending n c) = rc_suspended c"
  "rc_resumed (add_pending n c) = rc_resumed c" "rc_pending (add_pending n c) = rc_pending c + n"
  by (simp_all add: add_pending_def)

lemma end_fill_fields [simp]:
  "rc_entries (end_fill f k b c) = rc_entries c" "rc_bytes (end_fill f k b c) = rc_bytes c"
  "rc_generation (end_fill f k b c) = rc_generation c" "rc_suspended (end_fill f k b c) = rc_suspended c"
  "rc_resumed (end_fill f k b c) = rc_resumed c" "rc_pending (end_fill f k b c) = rc_pending c - 1"
  "length (rc_settled (end_fill f k b c)) = length (rc_settled c)"
  "rc_fills (end_fill f k b c) = (if map_of (rc_fills c) k = Some f then map_delete k (rc_fills c) else rc_fills c)"
  by (simp_all add: end_fill_def)

lemma end_fill_settled:
  "g < length (rc_settled c) \<Longrightarrow> rc_settled (end_fill f k b c) ! g
     = (if g = f \<and> rc_settled c ! g = None then Some b else rc_settled c ! g)"
  by (auto simp: end_fill_def resolve_fill_def nth_list_update)

lemma end_fill_same_flow: "same_flow c c1 \<Longrightarrow> same_flow (end_fill f k b c) (end_fill f k b c1)"
  by (simp add: same_flow_def end_fill_def resolve_fill_def)

lemma bypass_flow: "same_flow c (snd (bypass aborted c))" "\<not> is_pending (fst (bypass aborted c))"
  by (simp_all add: bypass_def)

lemma begin_fill_move:
  "flow_move config c Arriving (snd (begin_fill config key rule time c)) (fst (begin_fill config key rule time c))"
proof -
  consider "rcc_maxPending config \<le> rc_pending c"
    | f where "rc_pending c < rcc_maxPending config" "map_of (rc_fills c) key = Some f"
    | "rc_pending c < rcc_maxPending config" "map_of (rc_fills c) key = None"
    by fastforce
  then show ?thesis
  proof cases
    case 1
    then show ?thesis
      using bypass_flow by (auto simp: begin_fill_def Let_def bypass_def intro: flow_move.aside)
  next
    case 2
    then show ?thesis
      by (auto simp: begin_fill_def Let_def intro!: flow_move.join) (simp add: same_flow_def)
  next
    case 3
    then show ?thesis
      by (auto simp: begin_fill_def Let_def createPendingFill_def intro!: flow_move.lead) (simp add: same_flow_def)
  qed
qed

lemma flow_move_from: "same_flow c d \<Longrightarrow> flow_move config d ph c' ph' \<Longrightarrow> flow_move config c ph c' ph'"
proof -
  assume cd: "same_flow c d" and m: "flow_move config d ph c' ph'"
  from m show ?thesis
  proof cases
    case (loaded f k b r g t)
    with cd end_fill_same_flow [OF cd, of f k b] same_flow_trans show ?thesis
      by (auto intro!: flow_move.loaded)
  qed (use cd in \<open>auto simp: same_flow_def intro: flow_move.intros\<close>)
qed

lemma begin_execute_move:
  "flow_move config c Arriving (snd (begin_execute U sha config q revision time c))
     (fst (begin_execute U sha config q revision time c))"
proof (cases "rc_suspended c \<noteq> 0 \<or> (revision \<noteq> None \<and> revision \<noteq> Some (rc_generation c))
    \<or> matchResponseCacheRequest U sha config q = None")
  case True
  then show ?thesis
    using bypass_flow by (auto simp: begin_execute_def intro!: flow_move.aside)
next
  case False
  then obtain key rule where m: "matchResponseCacheRequest U sha config q = Some (key, rule)" by auto
  obtain c1 r where l: "cache_lookup key (rcq_method q) time c = (c1, r)" by fastforce
  have f: "same_flow c c1" using same_flow_lookup [of c key "rcq_method q" time] l by simp
  have e: "begin_execute U sha config q revision time c = (case r of Some hit \<Rightarrow> (Answered hit, c1)
      | None \<Rightarrow> if rcq_method q = ''HEAD'' then bypass False c1 else begin_fill config key rule time c1)"
    using False m l by (auto simp: begin_execute_def split: option.split)
  show ?thesis
    unfolding e
    by (rule flow_move_from [OF f], cases r)
      (auto intro!: flow_move.aside bypass_flow begin_fill_move)
qed

text \<open>What a step does to the entries: it may drop some, and a load that ends may add its own.\<close>

definition stored_by :: "CacheDates \<Rightarrow> ResponseCache \<Rightarrow> ResponseCacheRequest \<Rightarrow> exec_phase \<Rightarrow> exec_event
    \<Rightarrow> string \<times> CacheEntry \<Rightarrow> bool" where
  "stored_by D c q ph ev ke \<longleftrightarrow> (case (ph, ev) of
       (Loading f key rule revision requestTime, LoadDone response time sweep aborted) \<Rightarrow>
         rc_generation c = revision \<and> fst ke = key
         \<and> prepareResponseCacheEntry D response rule requestTime time = Some (ce_prepared (snd ke))
         \<and> ce_projectId (snd ke) = rcq_projectId q \<and> ce_deploymentId (snd ke) = rcq_deploymentId q
     | _ \<Rightarrow> False)"

lemma in_limits_pending [simp]: "in_limits config (add_pending n c) \<longleftrightarrow> in_limits config c"
  by (rule in_limits_cong) simp_all

lemma in_limits_end_fill [simp]: "in_limits config (end_fill f k b c) \<longleftrightarrow> in_limits config c"
  by (rule in_limits_cong) simp_all

lemma lookup_entries: "set (rc_entries (fst (cache_lookup k m t c))) \<subseteq> set (rc_entries c)"
  using set_map_delete [of k "rc_entries c"]
  by (auto simp: cache_lookup_def split: option.splits dest: map_of_SomeD)

lemma begin_fill_entries:
  "rc_entries (snd (begin_fill config key rule time c)) = rc_entries c"
  "rc_bytes (snd (begin_fill config key rule time c)) = rc_bytes c"
  by (auto simp: begin_fill_def Let_def bypass_def createPendingFill_def split: option.split)

lemma bypass_entries [simp]:
  "rc_entries (snd (bypass aborted c)) = rc_entries c" "rc_bytes (snd (bypass aborted c)) = rc_bytes c"
  by (simp_all add: bypass_def)

lemma begin_execute_entries:
  assumes "in_limits config c"
  shows "in_limits config (snd (begin_execute U sha config q revision time c))
     \<and> set (rc_entries (snd (begin_execute U sha config q revision time c))) \<subseteq> set (rc_entries c)"
proof -
  have skip: "in_limits config (snd (bypass b d)) = in_limits config d"
    "in_limits config (snd (begin_fill config k r time d)) = in_limits config d" for b k r d
    by (rule in_limits_cong; simp add: begin_fill_entries)+
  have "in_limits config c1 \<and> set (rc_entries c1) \<subseteq> set (rc_entries c)"
    if "cache_lookup k (rcq_method q) time c = (c1, r)" for k c1 r
    using in_limits_lookup [OF assms, of k "rcq_method q" time] lookup_entries [of k "rcq_method q" time c] that by simp
  then show ?thesis
    using assms by (auto simp: begin_execute_def skip begin_fill_entries split: option.split prod.split)
qed

lemma end_wait_spec:
  assumes "in_limits config c"
  shows "in_limits config (snd (end_wait q key revision stored time aborted c))
     \<and> set (rc_entries (snd (end_wait q key revision stored time aborted c))) \<subseteq> set (rc_entries c)
     \<and> flow_move config c (Awaiting f key revision) (snd (end_wait q key revision stored time aborted c))
         (fst (end_wait q key revision stored time aborted c))"
proof -
  obtain c1 r where l: "cache_lookup key (rcq_method q) time c = (c1, r)" by fastforce
  have c1: "in_limits config c1" "set (rc_entries c1) \<subseteq> set (rc_entries c)" "same_flow c c1"
    using in_limits_lookup [OF assms, of key "rcq_method q" time] lookup_entries [of key "rcq_method q" time c]
      same_flow_lookup [of c key "rcq_method q" time] l by simp_all
  have skip: "in_limits config (snd (bypass b d)) = in_limits config d" for b d
    by (rule in_limits_cong) simp_all
  show ?thesis
    unfolding end_wait_def l using c1 assms bypass_flow
    by (auto simp: skip same_flow_def bypass_def split: option.split intro!: flow_move.woken)
qed

lemma finish_load_spec:
  assumes "in_limits config c" and "cache_limits config"
  shows "\<exists>ph c'. finish_load D config q f key rule revision t0 response time sweep aborted c = Some (ph, c')
     \<and> in_limits config c' \<and> flow_move config c (Loading f key rule revision t0) c' ph
     \<and> (\<forall>ke \<in> set (rc_entries c'). ke \<in> set (rc_entries c)
         \<or> stored_by D c q (Loading f key rule revision t0) (LoadDone response time sweep aborted) ke)"
proof -
  let ?store = "if rc_generation c = revision \<and> rc_suspended c = 0 \<and> \<not> aborted
           \<and> int (length (icr_body response)) \<le> rcc_maxEntryBytes config
        then (case prepareResponseCacheEntry D response rule t0 time of
            None \<Rightarrow> Some (c, False) | Some p \<Rightarrow> store_entry config q key p sweep c)
        else Some (c, False)"
  have "\<exists>c1 stored. ?store = Some (c1, stored) \<and> in_limits config c1 \<and> same_flow c c1
     \<and> (\<forall>ke \<in> set (rc_entries c1). ke \<in> set (rc_entries c)
         \<or> stored_by D c q (Loading f key rule revision t0) (LoadDone response time sweep aborted) ke)"
  proof (cases "rc_generation c = revision \<and> rc_suspended c = 0 \<and> \<not> aborted
      \<and> int (length (icr_body response)) \<le> rcc_maxEntryBytes config
      \<and> prepareResponseCacheEntry D response rule t0 time \<noteq> None")
    case True
    then obtain p where p: "prepareResponseCacheEntry D response rule t0 time = Some p" by auto
    obtain c1 stored where "store_entry config q key p sweep c = Some (c1, stored)" "in_limits config c1"
      "same_flow c c1" "set (rc_entries c1) \<subseteq> set (rc_entries c) \<union>
        (if stored then {(key, \<lparr>ce_prepared = p, ce_projectId = rcq_projectId q,
           ce_deploymentId = rcq_deploymentId q, ce_size = entry_size key p\<rparr>)} else {})"
      by (rule store_entry_spec [OF assms, of q key p sweep])
    with True p show ?thesis by (fastforce simp: stored_by_def split: if_splits)
  qed (use assms(1) in auto)
  then obtain c1 stored where s: "?store = Some (c1, stored)" and l: "in_limits config c1" and f: "same_flow c c1"
    and e: "\<forall>ke \<in> set (rc_entries c1). ke \<in> set (rc_entries c)
         \<or> stored_by D c q (Loading f key rule revision t0) (LoadDone response time sweep aborted) ke"
    by blast
  have "finish_load D config q f key rule revision t0 response time sweep aborted c
      = Some (Answered \<lparr>crr_status = MISS, crr_response = response\<rparr>, end_fill f key stored c1)"
    unfolding finish_load_def s by simp
  then show ?thesis
    using l e end_fill_same_flow [OF f] by (auto intro!: flow_move.loaded)
qed

definition sound_step :: "CacheDates \<Rightarrow> ResponseCacheConfig \<Rightarrow> ResponseCache \<Rightarrow> ResponseCacheRequest
    \<Rightarrow> exec_phase \<Rightarrow> exec_event \<Rightarrow> exec_phase \<times> ResponseCache \<Rightarrow> bool" where
  "sound_step D config c q ph ev r \<longleftrightarrow> in_limits config (snd r) \<and> flow_move config c ph (snd r) (fst r)
     \<and> (\<forall>ke \<in> set (rc_entries (snd r)). ke \<in> set (rc_entries c) \<or> stored_by D c q ph ev ke)"

lemma sound_quiet:
  assumes "in_limits config c"
  shows "sound_step D config c q ph ev (ph, c)"
    and "\<not> is_pending ph \<Longrightarrow> \<not> is_pending ph' \<Longrightarrow> sound_step D config c q ph ev (ph', c)"
    and "sound_step D config c q (Awaiting f k g) ev (Failed, add_pending (-1) c)"
    and "sound_step D config c q (Loading f k r g t) ev (Failed, end_fill f k False c)"
  using assms
  by (auto simp: sound_step_def intro: flow_move.stay flow_move.aside flow_move.woken
      flow_move.loaded [where b = False])

lemma sound_begin:
  "in_limits config c \<Longrightarrow> sound_step D config c q Arriving ev (begin_execute U sha config q revision time c)"
  using begin_execute_entries [of config c U sha q revision time] begin_execute_move [of config c U sha q revision time]
  by (auto simp: sound_step_def)

lemma sound_wait:
  "in_limits config c \<Longrightarrow> sound_step D config c q (Awaiting f k g) ev (end_wait q k g stored time aborted c)"
  using end_wait_spec [of config c q k g stored time aborted f] by (auto simp: sound_step_def)

lemma exec_step_sound:
  assumes "in_limits config c" and "cache_limits config"
  shows "\<exists>r. exec_step U sha D config q ev ph c = Some r \<and> sound_step D config c q ph ev r"
proof -
  note quiet = sound_quiet [OF assms(1)]
  show ?thesis
  proof (cases ph)
    case Arriving
    then show ?thesis using quiet sound_begin [OF assms(1)] by (cases ev) (auto simp: exec_step_def)
  next
    case Bypassing
    then show ?thesis using quiet by (cases ev) (auto simp: exec_step_def)
  next
    case (Awaiting f k g)
    then show ?thesis
      using quiet sound_wait [OF assms(1)] by (cases ev) (auto simp: exec_step_def split: option.split)
  next
    case (Loading f k r g t)
    have load: "\<exists>x. finish_load D config q f k r g t response time sweep aborted c = Some x
        \<and> sound_step D config c q ph (LoadDone response time sweep aborted) x" for response time sweep aborted
      using finish_load_spec [OF assms, of D q f k r g t response time sweep aborted]
      by (auto simp: sound_step_def Loading)
    show ?thesis
    proof (cases ev)
      case (LoadDone response time sweep aborted)
      with load Loading show ?thesis by (simp add: exec_step_def)
    qed (use quiet Loading in \<open>auto simp: exec_step_def\<close>)
  next
    case (Answered r)
    then show ?thesis using quiet by (cases ev) (auto simp: exec_step_def)
  next
    case Failed
    then show ?thesis using quiet by (cases ev) (auto simp: exec_step_def)
  qed
qed

subsection \<open>Every open fill is being filled\<close>

lemma pending_calls_update:
  assumes "i < length calls"
  shows "pending_calls (calls[i := (q, ph)]) = pending_calls calls
     - (if is_pending (snd (calls ! i)) then 1 else 0) + (if is_pending ph then 1 else 0)"
proof -
  obtain xs x ys where calls: "calls = xs @ x # ys" and i: "i = length xs"
    using id_take_nth_drop [OF assms] assms by (metis length_take less_imp_le min.absorb2)
  show ?thesis by (simp add: calls i pending_calls_def)
qed

lemma pending_calls_append:
  "pending_calls (calls @ [(q, ph)]) = pending_calls calls + (if is_pending ph then 1 else 0)"
  by (simp add: pending_calls_def)

lemma fills_ok_same: "same_flow c c' \<Longrightarrow> fills_ok c' n ph = fills_ok c n ph"
  by (simp add: fills_ok_def same_flow_def open_fill_def)

lemma fills_ok_pending: "fills_ok (add_pending k c) n ph = fills_ok c n ph"
  unfolding fills_ok_def open_fill_def add_pending_fields ..

lemma fills_pending: "fills f ph \<Longrightarrow> is_pending ph" "waits f ph \<Longrightarrow> is_pending ph"
  by (cases ph; simp)+

lemma fills_okD:
  assumes "fills_ok c n ph"
  shows "(k, f) \<in> set (rc_fills c) \<Longrightarrow> open_fill c f"
    and "(k, f) \<in> set (rc_fills c) \<Longrightarrow> \<exists>i < n. fills f (ph i) \<and> fill_key (ph i) = Some k"
    and "i < n \<Longrightarrow> fills f (ph i) \<or> waits f (ph i) \<Longrightarrow> f < length (rc_settled c)"
    and "i < n \<Longrightarrow> waits f (ph i) \<Longrightarrow> open_fill c f \<Longrightarrow> \<exists>j < n. fills f (ph j)"
    and "i < n \<Longrightarrow> j < n \<Longrightarrow> fills f (ph i) \<Longrightarrow> fills f (ph j) \<Longrightarrow> i = j"
    and "distinct (map fst (rc_fills c))"
  using assms unfolding fills_ok_def by blast+

lemma fills_okI:
  assumes "distinct (map fst (rc_fills c))" and "\<And>k f. (k, f) \<in> set (rc_fills c) \<Longrightarrow> open_fill c f \<and> (\<exists>i < n. fills f (ph i) \<and> fill_key (ph i) = Some k)"
    and "\<And>i f. i < n \<Longrightarrow> fills f (ph i) \<or> waits f (ph i) \<Longrightarrow> f < length (rc_settled c)"
    and "\<And>i f. i < n \<Longrightarrow> waits f (ph i) \<Longrightarrow> open_fill c f \<Longrightarrow> \<exists>j < n. fills f (ph j)"
    and "\<And>i j f. i < n \<Longrightarrow> j < n \<Longrightarrow> fills f (ph i) \<Longrightarrow> fills f (ph j) \<Longrightarrow> i = j"
  shows "fills_ok c n ph"
  using assms unfolding fills_ok_def by blast

lemma fills_ok_cong:
  assumes "fills_ok c n ph" and "\<And>i. i < n \<Longrightarrow> ph' i = ph i"
  shows "fills_ok c n ph'"
  by (rule fills_okI [OF fills_okD(6) [OF assms(1)]])
    (use fills_okD(1-5) [OF assms(1)] assms(2) in \<open>simp; metis\<close>)+

text \<open>One call changes its phase: what has to be shown for the invariant to stay.\<close>

lemma fills_ok_update:
  assumes ok: "fills_ok c n ph" and i: "i < n" and keys: "distinct (map fst (rc_fills c'))"
    and map: "\<And>k f. (k, f) \<in> set (rc_fills c') \<Longrightarrow> open_fill c' f
       \<and> ((k, f) \<in> set (rc_fills c) \<and> \<not> fills f (ph i) \<or> fills f p \<and> fill_key p = Some k)"
    and len: "length (rc_settled c) \<le> length (rc_settled c')"
    and new: "\<And>f. fills f p \<or> waits f p \<Longrightarrow> f < length (rc_settled c')"
    and opened: "\<And>f. open_fill c' f \<Longrightarrow> f < length (rc_settled c) \<Longrightarrow> open_fill c f"
    and closed: "\<And>f. fills f (ph i) \<Longrightarrow> \<not> open_fill c' f"
    and joined: "\<And>f. waits f p \<Longrightarrow> open_fill c' f \<Longrightarrow> \<exists>j < n. fills f (ph j)"
    and alone: "\<And>f j. fills f p \<Longrightarrow> j < n \<Longrightarrow> j \<noteq> i \<Longrightarrow> \<not> fills f (ph j)"
  shows "fills_ok c' n (ph(i := p))"
proof (rule fills_okI [OF keys])
  have other: "\<exists>j' < n. fills f ((ph(i := p)) j')" if "j < n" "fills f (ph j)" "open_fill c' f" for j f
    using that closed [of f] by (intro exI [of _ j]) auto
  show "open_fill c' f \<and> (\<exists>j < n. fills f ((ph(i := p)) j) \<and> fill_key ((ph(i := p)) j) = Some k)"
    if kf: "(k, f) \<in> set (rc_fills c')" for k f
  proof (intro conjI)
    show "open_fill c' f" using map [OF kf] by simp
    from map [OF kf] show "\<exists>j < n. fills f ((ph(i := p)) j) \<and> fill_key ((ph(i := p)) j) = Some k"
    proof (elim conjE disjE)
      assume "(k, f) \<in> set (rc_fills c)" "\<not> fills f (ph i)"
      moreover from fills_okD(2) [OF ok this(1)] obtain j where "j < n" "fills f (ph j)" "fill_key (ph j) = Some k"
        by blast
      ultimately show ?thesis by (intro exI [of _ j]) auto
    qed (use i in auto)
  qed
  show "f < length (rc_settled c')" if "j < n" "fills f ((ph(i := p)) j) \<or> waits f ((ph(i := p)) j)" for j f
    using that new [of f] fills_okD(3) [OF ok, of j f] len by (cases "j = i") auto
  show "\<exists>j' < n. fills f ((ph(i := p)) j')" if j: "j < n" and w: "waits f ((ph(i := p)) j)" and o: "open_fill c' f" for j f
  proof (cases "j = i")
    case True
    with joined [of f] w o obtain j' where "j' < n" "fills f (ph j')" by auto
    then show ?thesis using o other by blast
  next
    case False
    then have "waits f (ph j)" using w by simp
    with fills_okD(3,4) [OF ok j, of f] opened [OF o] obtain j' where "j' < n" "fills f (ph j')" by auto
    then show ?thesis using o other by blast
  qed
  show "j = j'" if "j < n" "j' < n" "fills f ((ph(i := p)) j)" "fills f ((ph(i := p)) j')" for j j' f
    using that alone [of f j] alone [of f j'] fills_okD(5) [OF ok, of j j' f] by (auto split: if_splits)
qed

lemma flow_move_fills:
  assumes ok: "fills_ok c n ph" and i: "i < n" and m: "flow_move config c (ph i) c' p"
  shows "fills_ok c' n (ph(i := p))"
  using m
proof cases
  case stay
  then show ?thesis using ok fills_ok_same [OF stay(2)] by simp
next
  case aside
  have "fills_ok c n (ph(i := p))"
    by (rule fills_ok_update [OF ok i fills_okD(6) [OF ok]])
      (use aside fills_okD(1) [OF ok] in \<open>auto dest: fills_pending\<close>)
  then show ?thesis using fills_ok_same [OF aside(1)] by simp
next
  case (join k f g)
  have f: "(k, f) \<in> set (rc_fills c)" using join(5) by (rule map_of_SomeD)
  have "fills_ok c n (ph(i := p))"
    by (rule fills_ok_update [OF ok i fills_okD(6) [OF ok]])
      (use join fills_okD(1) [OF ok] fills_okD(1,2) [OF ok f] in \<open>auto simp: open_fill_def\<close>)
  then show ?thesis
    using fills_ok_same [OF join(3)] by (simp add: fills_ok_pending)
next
  case (lead k r g t)
  let ?d = "add_pending 1 (c\<lparr>rc_settled := rc_settled c @ [None],
      rc_fills := rc_fills c @ [(k, length (rc_settled c))]\<rparr>)"
  have keys: "distinct (map fst (rc_fills ?d))"
    using fills_okD(6) [OF ok] lead(5) by (force simp: map_of_eq_None_iff)
  have "fills_ok ?d n (ph(i := p))"
  proof (rule fills_ok_update [OF ok i keys])
    show "open_fill ?d f \<and> ((k', f) \<in> set (rc_fills c) \<and> \<not> fills f (ph i) \<or> fills f p \<and> fill_key p = Some k')"
      if "(k', f) \<in> set (rc_fills ?d)" for k' f
      using that fills_okD(1) [OF ok, of k' f] lead(1,2) by (auto simp: open_fill_def nth_append)
    show "open_fill c f" if "open_fill ?d f" "f < length (rc_settled c)" for f
      using that by (simp add: open_fill_def nth_append)
    show "\<not> fills f (ph j)" if "fills f p" "j < n" for f j
      using that fills_okD(3) [OF ok, of j f] lead(2) by auto
  qed (use lead in auto)
  then show ?thesis using fills_ok_same [OF lead(3)] by simp
next
  case (woken f k g)
  have "fills_ok c n (ph(i := p))"
    by (rule fills_ok_update [OF ok i fills_okD(6) [OF ok]])
      (use woken fills_okD(1) [OF ok] in \<open>auto dest: fills_pending\<close>)
  then show ?thesis using fills_ok_same [OF woken(2)] by (simp add: fills_ok_pending)
next
  case (loaded f k b r g t)
  let ?e = "end_fill f k b c"
  have op: "open_fill ?e f' \<longleftrightarrow> open_fill c f' \<and> f' \<noteq> f" for f'
    by (auto simp: open_fill_def end_fill_settled split: if_splits)
  have sub: "set (rc_fills ?e) \<subseteq> set (rc_fills c)"
    using set_map_delete [of k "rc_fills c"] by auto
  have gone: "f' \<noteq> f" if e: "(k', f') \<in> set (rc_fills ?e)" for k' f'
  proof
    assume eq: "f' = f"
    have c: "(k', f') \<in> set (rc_fills c)" using e sub by blast
    from fills_okD(2) [OF ok this] eq obtain j where j: "j < n" "fills f (ph j)" "fill_key (ph j) = Some k'" by blast
    with fills_okD(5) [OF ok, of j i f] i loaded(1) have "k' = k" by simp
    moreover from this c eq have "map_of (rc_fills c) k = Some f"
      using fills_okD(6) [OF ok] by simp
    ultimately show False using e eq by (simp add: map_delete_def)
  qed
  have keys: "distinct (map fst (rc_fills ?e))"
    using fills_okD(6) [OF ok] by (simp add: map_delete_keys)
  have "fills_ok ?e n (ph(i := p))"
  proof (rule fills_ok_update [OF ok i keys])
    fix k' f' assume e: "(k', f') \<in> set (rc_fills ?e)"
    then show "open_fill ?e f' \<and> ((k', f') \<in> set (rc_fills c) \<and> \<not> fills f' (ph i) \<or> fills f' p \<and> fill_key p = Some k')"
      using op gone [OF e] sub fills_okD(1) [OF ok, of k' f'] loaded(1) by auto
  qed (use loaded op in \<open>auto dest: fills_pending\<close>)
  then show ?thesis using fills_ok_same [OF loaded(2)] by simp
qed

lemma flow_move_counts:
  assumes "flow_move config c ph c' p"
  shows "rc_suspended c' = rc_suspended c" "rc_resumed c' = rc_resumed c" "rc_generation c' = rc_generation c"
    and "rc_pending c' = rc_pending c - (if is_pending ph then 1 else 0) + (if is_pending p then 1 else 0)"
    and "rc_pending c \<le> rcc_maxPending config \<Longrightarrow> rc_pending c' \<le> rcc_maxPending config"
  using assms by (cases; simp add: same_flow_def)+

lemma fills_ok_purge:
  assumes "booked config c" and "fills_ok c n ph"
  shows "fills_ok (fst (purge_cache s c)) n ph"
proof -
  note p = purge_spec [OF assms(1), where s = s]
  have op: "open_fill (fst (purge_cache s c)) f \<Longrightarrow> open_fill c f" for f
    using p(8) p(9) [of f] by (auto simp: open_fill_def split: if_splits)
  show ?thesis
    by (rule fills_okI) (use p(3,8) op fills_okD(3-5) [OF assms(2)] in auto)
qed

definition world_ok :: "ResponseCacheConfig \<Rightarrow> cache_world \<Rightarrow> bool" where
  "world_ok config w \<longleftrightarrow> in_limits config (fst w) \<and> flow_ok config (fst w) (fst (snd w))"

lemma flow_ok_move:
  assumes "flow_ok config c calls" and "i < length calls" and "flow_move config c (snd (calls ! i)) c' p"
  shows "flow_ok config c' (calls[i := (q, p)])"
proof -
  have "fills_ok c' (length calls) ((\<lambda>j. snd (calls ! j))(i := p))"
    using flow_move_fills [OF _ assms(2), of c "\<lambda>j. snd (calls ! j)"] assms by (simp add: flow_ok_def)
  moreover have "snd (calls[i := (q, p)] ! j) = ((\<lambda>j. snd (calls ! j))(i := p)) j" if "j < length calls" for j
    using that by (simp add: nth_list_update)
  ultimately have "fills_ok c' (length calls) (\<lambda>j. snd (calls[i := (q, p)] ! j))"
    by (rule fills_ok_cong)
  then show ?thesis
    using assms(1) flow_move_counts [OF assms(3)] pending_calls_update [OF assms(2), of q p]
    by (simp add: flow_ok_def)
qed

lemma flow_ok_call: "flow_ok config c calls \<Longrightarrow> flow_ok config c (calls @ [(q, Arriving)])"
proof -
  assume ok: "flow_ok config c calls"
  then have f: "fills_ok c (length calls) (\<lambda>j. snd (calls ! j))" by (simp add: flow_ok_def)
  have old: "fills g (snd ((calls @ [(q, Arriving)]) ! j)) \<longleftrightarrow> j < length calls \<and> fills g (snd (calls ! j))"
    "waits g (snd ((calls @ [(q, Arriving)]) ! j)) \<longleftrightarrow> j < length calls \<and> waits g (snd (calls ! j))"
    if "j < Suc (length calls)" for g j
    using that by (auto simp: nth_append less_Suc_eq)
  have "fills_ok c (Suc (length calls)) (\<lambda>j. snd ((calls @ [(q, Arriving)]) ! j))"
  proof (rule fills_okI [OF fills_okD(6) [OF f]])
    show "open_fill c g \<and> (\<exists>j < Suc (length calls). fills g (snd ((calls @ [(q, Arriving)]) ! j))
        \<and> fill_key (snd ((calls @ [(q, Arriving)]) ! j)) = Some k)" if "(k, g) \<in> set (rc_fills c)" for k g
      using fills_okD(1,2) [OF f that] by (auto simp: nth_append intro: less_SucI)
    show "\<exists>j' < Suc (length calls). fills g (snd ((calls @ [(q, Arriving)]) ! j'))"
      if "j < Suc (length calls)" "waits g (snd ((calls @ [(q, Arriving)]) ! j))" "open_fill c g" for j g
      using that old(2) fills_okD(4) [OF f, of j g] by (auto simp: nth_append intro: less_SucI)
  qed (use old fills_okD(3,5) [OF f] in auto)
  with ok show ?thesis by (simp add: flow_ok_def pending_calls_append)
qed

lemma flow_ok_purge: "booked config c \<Longrightarrow> flow_ok config c calls \<Longrightarrow> flow_ok config (fst (purge_cache s c)) calls"
  using purge_spec(5-7) [of config c s] fills_ok_purge [of config c] by (simp add: flow_ok_def)

lemma not_flags_update:
  "h < length hs \<Longrightarrow> \<not> hs ! h \<Longrightarrow> int (length (filter Not (hs[h := True]))) = int (length (filter Not hs)) - 1"
proof -
  assume h: "h < length hs" "\<not> hs ! h"
  obtain xs x ys where hs: "hs = xs @ x # ys" and l: "h = length xs"
    using id_take_nth_drop [OF h(1)] h(1) by (metis length_take less_imp_le min.absorb2)
  from h(2) show ?thesis by (simp add: hs l)
qed

lemma fills_ok_flags: "fills_ok (c\<lparr>rc_suspended := n, rc_resumed := b\<rparr>) m ph = fills_ok c m ph"
  by (simp add: fills_ok_def open_fill_def)

lemma world_ok_purge:
  "world_ok config (c, calls, hist) \<Longrightarrow> world_ok config (fst (purge_cache s c), calls, hist')"
  by (simp add: world_ok_def in_limits_purge flow_ok_purge in_limits_def [of config c])

lemma world_ok_act:
  assumes "cache_limits config" and "world_ok config w"
  shows "\<exists>w'. cache_act U sha D config a w = Some w' \<and> world_ok config w'"
proof -
  obtain c calls hist where w: "w = (c, calls, hist)" by (cases w)
  have ok: "in_limits config c" "flow_ok config c calls" using assms(2) w by (simp_all add: world_ok_def)
  show ?thesis
  proof (cases a)
    case (Call q)
    then show ?thesis using ok flow_ok_call by (simp add: w world_ok_def)
  next
    case (Move i ev)
    show ?thesis
    proof (cases "i < length calls")
      case True
      obtain ph' c' where e: "exec_step U sha D config (fst (calls ! i)) ev (snd (calls ! i)) c = Some (ph', c')"
        and l: "in_limits config c'" and m: "flow_move config c (snd (calls ! i)) c' ph'"
        using exec_step_sound [OF ok(1) assms(1), of U sha D "fst (calls ! i)" ev "snd (calls ! i)"]
        by (auto simp: sound_step_def)
      show ?thesis using True e l flow_ok_move [OF ok(2) True m] by (simp add: w Move world_ok_def)
    qed (use assms(2) w Move in simp)
  next
    case (Purge s)
    then show ?thesis using assms(2) world_ok_purge by (simp add: w)
  next
    case Suspend
    have "world_ok config (c\<lparr>rc_suspended := rc_suspended c + 1, rc_resumed := rc_resumed c @ [False]\<rparr>, calls, hist)"
      using ok by (auto simp: world_ok_def flow_ok_def fills_ok_flags in_limits_def booked_def)
    then show ?thesis using world_ok_purge by (simp add: w Suspend suspend_cache_def)
  next
    case (Resume h)
    have "world_ok config (c\<lparr>rc_resumed := (rc_resumed c)[h := True], rc_suspended := rc_suspended c - 1\<rparr>, calls, hist)"
      if "h < length (rc_resumed c)" "\<not> rc_resumed c ! h"
    proof -
      have "fills_ok (c\<lparr>rc_resumed := (rc_resumed c)[h := True], rc_suspended := rc_suspended c - 1\<rparr>) n ph = fills_ok c n ph"
        for n ph by (simp add: fills_ok_def open_fill_def)
      with ok not_flags_update [OF that] show ?thesis
        by (auto simp: world_ok_def flow_ok_def in_limits_def booked_def)
    qed
    then show ?thesis using world_ok_purge assms(2) by (auto simp: w Resume resume_cache_def)
  qed
qed

lemma cache_run_ok: "cache_run U sha D config w \<Longrightarrow> cache_limits config \<Longrightarrow> world_ok config w"
proof (induction rule: cache_run.induct)
  case created
  then show ?case
    by (simp add: world_ok_def in_limits_def booked_def createResponseCache_def flow_ok_def fills_ok_def
        pending_calls_def cache_limits_def)
next
  case (acted w a w')
  then show ?case using world_ok_act [of config w U sha D a] by auto
qed

subsection \<open>Where entries come from\<close>

fun starts :: "nat \<Rightarrow> cache_note \<Rightarrow> bool" where
  "starts i (Started j t) \<longleftrightarrow> i = j"
| "starts i _ \<longleftrightarrow> False"

definition began :: "nat \<Rightarrow> cache_note list \<Rightarrow> bool" where
  "began i hist \<longleftrightarrow> list_ex (starts i) hist"

fun since :: "nat \<Rightarrow> cache_note list \<Rightarrow> cache_note list" where
  "since i [] = []"
| "since i (e # es) = (if starts i e then es else since i es)"

lemma since_append: "since i (hist @ es) = (if began i hist then since i hist @ es else since i es)"
  by (induction hist) (auto simp: began_def)

lemma began_append [simp]: "began i (hist @ es) \<longleftrightarrow> began i hist \<or> began i es"
  by (simp add: began_def)

lemma Started_began: "Started i t \<in> set hist \<Longrightarrow> began i hist"
  by (force simp: began_def list_ex_iff)

lemma since_began: "x \<in> set (since i hist) \<Longrightarrow> began i hist"
  by (induction hist) (auto simp: began_def split: if_splits)

definition never_purged :: "nat \<Rightarrow> cache_note list \<Rightarrow> bool" where
  "never_purged i hist \<longleftrightarrow> (\<forall>s. Purged s \<notin> set (since i hist))"

definition from_load :: "UrlApi \<Rightarrow> (CacheIdentity \<Rightarrow> string) \<Rightarrow> CacheDates \<Rightarrow> ResponseCacheConfig
    \<Rightarrow> cache_calls \<Rightarrow> cache_note list \<Rightarrow> string \<times> CacheEntry \<Rightarrow> bool" where
  "from_load U sha D config calls hist ke \<longleftrightarrow> (\<exists>i rule t0 t1 response. i < length calls
     \<and> matchResponseCacheRequest U sha config (fst (calls ! i)) = Some (fst ke, rule)
     \<and> Started i t0 \<in> set hist \<and> Loaded i response t1 \<in> set (since i hist)
     \<and> prepareResponseCacheEntry D response rule t0 t1 = Some (ce_prepared (snd ke))
     \<and> ce_projectId (snd ke) = rcq_projectId (fst (calls ! i))
     \<and> ce_deploymentId (snd ke) = rcq_deploymentId (fst (calls ! i))
     \<and> (\<forall>s. Purged s \<in> set (since i hist) \<longrightarrow> \<not> cache_matches (snd ke) s))"

fun phase_ok :: "UrlApi \<Rightarrow> (CacheIdentity \<Rightarrow> string) \<Rightarrow> ResponseCacheConfig \<Rightarrow> nat \<Rightarrow> cache_note list \<Rightarrow> nat
    \<Rightarrow> ResponseCacheRequest \<Rightarrow> exec_phase \<Rightarrow> bool" where
  "phase_ok U sha config gen hist i q Arriving \<longleftrightarrow> \<not> began i hist"
| "phase_ok U sha config gen hist i q (Awaiting f k g) \<longleftrightarrow>
     (\<exists>rule. matchResponseCacheRequest U sha config q = Some (k, rule))"
| "phase_ok U sha config gen hist i q (Loading f k rule g t0) \<longleftrightarrow>
     matchResponseCacheRequest U sha config q = Some (k, rule) \<and> Started i t0 \<in> set hist \<and> g \<le> gen
     \<and> (g = gen \<longrightarrow> never_purged i hist)"
| "phase_ok U sha config gen hist i q _ \<longleftrightarrow> True"

definition traced :: "UrlApi \<Rightarrow> (CacheIdentity \<Rightarrow> string) \<Rightarrow> CacheDates \<Rightarrow> ResponseCacheConfig
    \<Rightarrow> cache_world \<Rightarrow> bool" where
  "traced U sha D config w \<longleftrightarrow> (case w of (c, calls, hist) \<Rightarrow>
     (\<forall>i < length calls. phase_ok U sha config (rc_generation c) hist i (fst (calls ! i)) (snd (calls ! i)))
     \<and> (\<forall>ke \<in> set (rc_entries c). from_load U sha D config calls hist ke)
     \<and> (\<forall>i. began i hist \<longrightarrow> i < length calls))"

text \<open>Notes that start no other call and purge nothing keep all that is known.\<close>

lemma from_load_mono:
  assumes "from_load U sha D config calls hist ke"
    and "\<And>i. i < length calls \<Longrightarrow> i < length calls' \<and> fst (calls' ! i) = fst (calls ! i)"
    and "\<And>s. Purged s \<in> set es \<Longrightarrow> \<not> cache_matches (snd ke) s"
  shows "from_load U sha D config calls' (hist @ es) ke"
proof -
  from assms(1) obtain i rule t0 t1 response where i: "i < length calls"
    "matchResponseCacheRequest U sha config (fst (calls ! i)) = Some (fst ke, rule)"
    "Started i t0 \<in> set hist" "Loaded i response t1 \<in> set (since i hist)"
    "prepareResponseCacheEntry D response rule t0 t1 = Some (ce_prepared (snd ke))"
    "ce_projectId (snd ke) = rcq_projectId (fst (calls ! i))"
    "ce_deploymentId (snd ke) = rcq_deploymentId (fst (calls ! i))"
    "\<forall>s. Purged s \<in> set (since i hist) \<longrightarrow> \<not> cache_matches (snd ke) s"
    unfolding from_load_def by blast
  have "since i (hist @ es) = since i hist @ es" using Started_began [OF i(3)] by (simp add: since_append)
  with i assms(2) [OF i(1)] assms(3) show ?thesis
    unfolding from_load_def by (intro exI [of _ i] exI [of _ rule] exI [of _ t0] exI [of _ t1] exI [of _ response]) auto
qed

lemma notes_of_plain: "Purged s \<notin> set (notes_of i ph ev)"
  by (cases "(i, ph, ev)" rule: notes_of.cases) auto

lemma notes_of_began: "began j (notes_of i ph ev) \<longleftrightarrow> j = i \<and> ph = Arriving \<and> (\<exists>r t b. ev = Begin r t b)"
  by (cases "(i, ph, ev)" rule: notes_of.cases) (auto simp: began_def)

lemma phase_ok_mono:
  assumes "phase_ok U sha config gen hist i q ph" and "\<not> began i es" and "\<And>s. Purged s \<notin> set es"
  shows "phase_ok U sha config gen (hist @ es) i q ph"
  using assms by (cases ph) (auto simp: never_purged_def since_append Started_began)

lemma phase_ok_purged:
  assumes "phase_ok U sha config gen hist i q ph"
  shows "phase_ok U sha config (gen + 1) (hist @ [Purged s]) i q ph"
  using assms by (cases ph) (auto simp: began_def)

text \<open>The phase a call of \<open>execute\<close> begins with, and the phases after.\<close>

lemma begin_execute_phase:
  "phase_ok U sha config (rc_generation c) [Started i time] i q (fst (begin_execute U sha config q revision time c))"
proof -
  have b: "phase_ok U sha config g hist i q (fst (bypass False d))" for g hist d
    by (simp add: bypass_def)
  have f: "phase_ok U sha config (rc_generation c) [Started i time] i q (fst (begin_fill config k rule time d))"
    if "matchResponseCacheRequest U sha config q = Some (k, rule)" "rc_generation d = rc_generation c" for k rule d
    using that b by (auto simp: begin_fill_def Let_def createPendingFill_def never_purged_def split: option.split)
  have g: "rc_generation c1 = rc_generation c" if "cache_lookup k m time c = (c1, r)" for k m c1 r
    using same_flow_lookup [of c k m time] that by (simp add: same_flow_def)
  show ?thesis
    using b f g by (auto simp: begin_execute_def split: option.split prod.split)
qed

text \<open>A call that neither waits nor fills nor has yet to begin.\<close>

definition settled_phase :: "exec_phase \<Rightarrow> bool" where
  "settled_phase ph \<longleftrightarrow> ph = Bypassing \<or> ph = Failed \<or> (\<exists>r. ph = Answered r)"

lemma settled_phase_ok: "settled_phase ph \<Longrightarrow> phase_ok U sha config gen hist i q ph"
  by (auto simp: settled_phase_def)

lemma end_wait_phase: "settled_phase (fst (end_wait q k g stored time aborted c))"
  by (auto simp: end_wait_def bypass_def settled_phase_def split: option.split prod.split)

lemma finish_load_phase:
  "finish_load D config q f k rule g t0 response time sweep aborted c = Some (ph, c') \<Longrightarrow> settled_phase ph"
  by (auto simp: finish_load_def settled_phase_def)

lemma exec_step_phase:
  assumes "exec_step U sha D config q ev ph c = Some (ph', c')" and "phase_ok U sha config (rc_generation c) hist i q ph"
  shows "phase_ok U sha config (rc_generation c) (hist @ notes_of i ph ev) i q ph'"
proof (cases "ph' = ph \<and> \<not> (ph = Arriving \<and> (\<exists>r t b. ev = Begin r t b))")
  case True
  then show ?thesis
    using phase_ok_mono [OF assms(2)] notes_of_plain notes_of_began by metis
next
  case False
  show ?thesis
  proof (cases "\<exists>r t. ph = Arriving \<and> ev = Begin r t False")
    case True
    then obtain r t where b: "ph = Arriving" "ev = Begin r t False" by blast
    with assms(1) have "ph' = fst (begin_execute U sha config q r t c)" by (auto simp: exec_step_def)
    with begin_execute_phase [of U sha config c i t q r] have "phase_ok U sha config (rc_generation c) [Started i t] i q ph'"
      by simp
    moreover have "\<not> began i hist" using assms(2) b by simp
    ultimately show ?thesis
      using b by (cases ph') (auto simp: never_purged_def since_append began_def)
  next
    case none: False
    have "settled_phase ph'"
    proof (cases ph)
      case (Awaiting f k g)
      with False none assms(1) end_wait_phase [of q k g] show ?thesis
        by (cases ev) (auto simp: exec_step_def settled_phase_def split: if_splits option.splits, (metis fst_conv)+)
    next
      case (Loading f k rule g t0)
      with False none assms(1) show ?thesis
        by (cases ev) (auto simp: exec_step_def dest: finish_load_phase, auto simp: settled_phase_def)
    qed (use False none assms(1) in \<open>(cases ev; auto simp: exec_step_def settled_phase_def split: if_splits)+\<close>)
    then show ?thesis by (rule settled_phase_ok)
  qed
qed

lemma since_unstarted: "\<not> began i es \<Longrightarrow> since i es = []"
  by (induction es) (auto simp: began_def)

lemma traced_purge:
  assumes "traced U sha D config (c, calls, hist)" and "booked config c"
  shows "traced U sha D config (fst (purge_cache s c), calls, hist @ [Purged s])"
proof -
  note p = purge_spec [OF assms(2), where s = s]
  have "from_load U sha D config calls (hist @ [Purged s]) ke" if "ke \<in> set (rc_entries (fst (purge_cache s c)))" for ke
    using that p(2) assms(1) by (intro from_load_mono) (auto simp: traced_def)
  then show ?thesis
    using assms(1) p(4) phase_ok_purged by (auto simp: traced_def began_def)
qed

lemma traced_move:
  assumes t: "traced U sha D config (c, calls, hist)" and i: "i < length calls"
    and l: "in_limits config c" and cl: "cache_limits config"
    and e: "exec_step U sha D config (fst (calls ! i)) ev (snd (calls ! i)) c = Some (ph', c')"
  shows "traced U sha D config (c', calls[i := (fst (calls ! i), ph')], hist @ notes_of i (snd (calls ! i)) ev)"
proof -
  let ?q = "fst (calls ! i)" and ?ph = "snd (calls ! i)"
  let ?calls = "calls[i := (?q, ph')]" and ?hist = "hist @ notes_of i ?ph ev"
  from exec_step_sound [OF l cl, of U sha D ?q ev ?ph] e
  have m: "flow_move config c ?ph c' ph'"
    and es: "\<And>ke. ke \<in> set (rc_entries c') \<Longrightarrow> ke \<in> set (rc_entries c) \<or> stored_by D c ?q ?ph ev ke"
    by (auto simp: sound_step_def)
  have pi: "phase_ok U sha config (rc_generation c) hist i ?q ?ph" using t i by (simp add: traced_def)
  have g: "rc_generation c' = rc_generation c" by (rule flow_move_counts(3) [OF m])
  have bounds: "j < length calls" if "began j ?hist" for j
    using that t i by (auto simp: traced_def notes_of_began)
  have keep: "fst (?calls ! j) = fst (calls ! j)" if "j < length calls" for j
    using that by (cases "i = j") auto
  have phases: "phase_ok U sha config (rc_generation c) ?hist j (fst (?calls ! j)) (snd (?calls ! j))"
    if j: "j < length calls" for j
  proof (cases "j = i")
    case True
    with exec_step_phase [OF e pi] j show ?thesis by simp
  next
    case False
    have "phase_ok U sha config (rc_generation c) hist j (fst (calls ! j)) (snd (calls ! j))"
      using t j by (simp add: traced_def)
    then show ?thesis
      using False phase_ok_mono notes_of_plain notes_of_began by (simp add: nth_list_update)
  qed
  have "from_load U sha D config ?calls ?hist ke" if ke: "ke \<in> set (rc_entries c')" for ke
    using es [OF ke]
  proof
    assume "ke \<in> set (rc_entries c)"
    with t have "from_load U sha D config calls hist ke" by (simp add: traced_def)
    then show ?thesis by (rule from_load_mono) (simp_all add: keep notes_of_plain)
  next
    assume st: "stored_by D c ?q ?ph ev ke"
    then obtain f key rule g0 t0 response time sweep aborted
      where ph: "?ph = Loading f key rule g0 t0" and ev: "ev = LoadDone response time sweep aborted"
      by (cases ?ph; cases ev) (auto simp: stored_by_def)
    note s = st [unfolded stored_by_def ph ev prod.case exec_phase.case exec_event.case]
    from pi ph s have b: "Started i t0 \<in> set hist" and np: "never_purged i hist"
      and mt: "matchResponseCacheRequest U sha config ?q = Some (key, rule)" by auto
    have "since i ?hist = since i hist @ [Loaded i response time]"
      using Started_began [OF b] by (simp add: since_append ph ev)
    with np b mt s show ?thesis
      unfolding from_load_def using i keep [OF i]
      by (intro exI [of _ i] exI [of _ rule] exI [of _ t0] exI [of _ time] exI [of _ response])
        (auto simp: never_purged_def)
  qed
  with phases bounds g show ?thesis by (simp add: traced_def)
qed

lemma cache_run_traced:
  assumes "cache_run U sha D config w" and "cache_limits config"
  shows "traced U sha D config w"
  using assms(1)
proof (induction rule: cache_run.induct)
  case created
  then show ?case by (simp add: traced_def createResponseCache_def began_def)
next
  case (acted w a w')
  obtain c calls hist where w: "w = (c, calls, hist)" by (cases w)
  have ok: "in_limits config c" using cache_run_ok [OF acted(1) assms(2)] w by (simp add: world_ok_def)
  then have bk: "booked config c" by (simp add: in_limits_def)
  show ?case
  proof (cases a)
    case (Call q)
    have "from_load U sha D config (calls @ [(q, Arriving)]) hist ke" if "from_load U sha D config calls hist ke" for ke
      using from_load_mono [OF that, of "calls @ [(q, Arriving)]" "[]"] by (simp add: nth_append)
    moreover have "\<not> began (length calls) hist" using acted(3) w by (auto simp: traced_def)
    ultimately show ?thesis
      using acted(2,3) w Call by (auto simp: traced_def nth_append less_Suc_eq)
  next
    case (Move i ev)
    then show ?thesis
      using acted(2,3) w traced_move [OF _ _ ok assms(2)]
      by (auto split: if_splits option.splits prod.splits)
  next
    case (Purge s)
    then show ?thesis using acted(2,3) w traced_purge [OF _ bk] by auto
  next
    case Suspend
    let ?c = "c\<lparr>rc_suspended := rc_suspended c + 1, rc_resumed := rc_resumed c @ [False]\<rparr>"
    have "traced U sha D config (?c, calls, hist)" "booked config ?c"
      using acted(3) w bk by (simp_all add: traced_def booked_def)
    then show ?thesis using acted(2) w Suspend traced_purge by (auto simp: suspend_cache_def)
  next
    case (Resume h)
    let ?c = "c\<lparr>rc_resumed := (rc_resumed c)[h := True], rc_suspended := rc_suspended c - 1\<rparr>"
    have "traced U sha D config (?c, calls, hist)" "booked config ?c"
      using acted(3) w bk by (simp_all add: traced_def booked_def)
    then show ?thesis
      using acted(2,3) w Resume traced_purge by (auto simp: resume_cache_def split: if_splits)
  qed
qed

end
