(* ===== verification/CachePolicy.thy ===== *)
theory CachePolicy
  imports ResponseCacheLaws
begin

text \<open>
  What the cache's policy accepts: the configurations, written out as a predicate and as the JSON that
  is parsed back, and the responses that are stored, with the lifetime of each.
\<close>

subsection \<open>Configurations\<close>

definition valid_vary :: "string \<Rightarrow> bool" where
  "valid_vary name \<longleftrightarrow> is_header_name name \<and> length name \<le> 100 \<and> name \<notin> set bypassHeaders
     \<and> name \<notin> set hopHeaders \<and> \<not> startsWith name ''x-oden-''"

definition canonical_host :: "UrlApi \<Rightarrow> string \<Rightarrow> bool" where
  "canonical_host U h \<longleftrightarrow> length h \<le> 253 \<and> (\<exists>u. urlParse U (''http://'' @ h) = Some u
     \<and> url_host u = h \<and> url_pathname u = ''/'' \<and> url_username u = [] \<and> url_password u = []
     \<and> url_search u = [] \<and> url_hash u = [])"

definition valid_prefix :: "string \<Rightarrow> bool" where
  "valid_prefix p \<longleftrightarrow> startsWith p ''/'' \<and> length p \<le> 2048 \<and> (p = ''/'' \<or> \<not> endsWith p ''/'')
     \<and> list_all (\<lambda>c. c \<notin> set ''?#'' \<and> \<not> js_ws c) p"

definition valid_rule :: "UrlApi \<Rightarrow> ResponseCacheRule \<Rightarrow> bool" where
  "valid_rule U r \<longleftrightarrow> is_identifier (rcr_projectId r) \<and> canonical_host U (rcr_host r)
     \<and> valid_prefix (rcr_pathPrefix r) \<and> 0 < rcr_maxTtlSeconds r \<and> rcr_maxTtlSeconds r \<le> 31536000
     \<and> length (rcr_varyHeaders r) \<le> 32 \<and> distinct (rcr_varyHeaders r)
     \<and> list_all valid_vary (rcr_varyHeaders r)"

definition valid_cache_config :: "UrlApi \<Rightarrow> ResponseCacheConfig \<Rightarrow> bool" where
  "valid_cache_config U c \<longleftrightarrow> cache_limits c \<and> rcc_maxBytes c \<le> 1073741824
     \<and> rcc_maxEntryBytes c \<le> rcc_maxBytes c \<and> rcc_maxEntries c \<le> 1000000 \<and> rcc_maxPending c \<le> 4096
     \<and> int (length (rcc_rules c)) \<le> 10000 \<and> distinct (map rule_identity (rcc_rules c))
     \<and> list_all (valid_rule U) (rcc_rules c)"

definition encodeCacheRule :: "ResponseCacheRule \<Rightarrow> json" where
  "encodeCacheRule r = JObj [(''projectId'', JStr (rcr_projectId r)), (''host'', JStr (rcr_host r)),
     (''pathPrefix'', JStr (rcr_pathPrefix r)), (''maxTtlSeconds'', JInt (rcr_maxTtlSeconds r)),
     (''varyHeaders'', JArr (map JStr (rcr_varyHeaders r)))]"

definition encodeCacheConfig :: "ResponseCacheConfig \<Rightarrow> json" where
  "encodeCacheConfig c = JObj [(''maxBytes'', JInt (rcc_maxBytes c)),
     (''maxEntries'', JInt (rcc_maxEntries c)), (''maxEntryBytes'', JInt (rcc_maxEntryBytes c)),
     (''maxPending'', JInt (rcc_maxPending c)), (''rules'', JArr (map encodeCacheRule (rcc_rules c)))]"

lemma invalid_not_Inr [simp]: "invalid m \<noteq> Inr x" "Inr x \<noteq> invalid m"
  by (simp_all add: invalid_def throwR_def)

lemma guardI_Inr [accepts]: "guardI b m = Inr x \<longleftrightarrow> \<not> b"
  by (simp add: guardI_def)

lemma cache_integer_Inr [accepts]:
  assumes "m \<le> 9007199254740991"
  shows "cache_integer v name m = Inr n \<longleftrightarrow> v = JInt n \<and> 0 < n \<and> n \<le> m"
  using assms by (auto simp: cache_integer_def isInteger_Some split: option.splits)

lemma cache_identifier_Inr [accepts]: "cache_identifier v name = Inr s \<longleftrightarrow> v = JStr s \<and> is_identifier s"
  by (cases v) (auto simp: cache_identifier_def)

lemma varyHeader_Inr [accepts]: "varyHeader v = Inr s \<longleftrightarrow> v = JStr s \<and> valid_vary s"
  by (cases v) (auto simp: varyHeader_def valid_vary_def not_less)

lemma canonicalHost_Inr [accepts]: "canonicalHost U v = Inr h \<longleftrightarrow> v = JStr h \<and> canonical_host U h"
  by (cases v) (auto simp: canonicalHost_def canonical_host_def not_less split: option.splits)

lemma long_absolute: "startsWith p ''/'' \<Longrightarrow> 1 < length p \<longleftrightarrow> p \<noteq> ''/''"
  by (cases p) (auto simp: startsWith_def)

lemma prefix_chars: "list_all (\<lambda>c. c \<notin> set ''?#'' \<and> \<not> js_ws c) p \<longleftrightarrow> \<not> list_ex (\<lambda>c. c \<in> set ''?#'' \<or> js_ws c) p"
  by (simp only: list_all_iff list_ex_iff) blast

lemma if_invalid_Inr: "(if b then invalid m else y) = Inr x \<longleftrightarrow> \<not> b \<and> y = Inr x"
  by simp

lemma cachePathPrefix_Inr [accepts]: "cachePathPrefix v = Inr p \<longleftrightarrow> v = JStr p \<and> valid_prefix p"
proof (cases v)
  case (JStr s)
  show ?thesis
    unfolding cachePathPrefix_def valid_prefix_def prefix_chars JStr json.case if_invalid_Inr sum.inject json.inject
      de_Morgan_disj not_not not_less [symmetric]
    using long_absolute [of s] by blast
qed (simp_all add: cachePathPrefix_def)

lemma varyHeaders_Inr:
  "mapE varyHeader vs = Inr names \<longleftrightarrow> vs = map JStr names \<and> list_all valid_vary names"
proof (induction vs arbitrary: names)
  case (Cons v vs)
  then show ?case by (cases names) (auto simp: accepts)
qed auto

lemma case_array_Inr:
  "(case v of JArr vs \<Rightarrow> f vs | _ \<Rightarrow> invalid m) = Inr x \<longleftrightarrow> (\<exists>vs. v = JArr vs \<and> f vs = Inr x)"
  by (cases v) auto

lemmas config_accepts = accepts case_array_Inr if_invalid_Inr varyHeaders_Inr

lemma cacheRule_valid: "cacheRule U v = Inr r \<Longrightarrow> valid_rule U r"
  unfolding cacheRule_def by (auto simp: config_accepts valid_rule_def not_less)

lemma cache_record_Inr: "cache_record v keys = Inr r \<longleftrightarrow> v = JObj r \<and> fst ` set r \<subseteq> set keys"
  by (cases v) (auto simp: cache_record_def list_ex_iff)

lemma cacheRule_encode:
  assumes "valid_rule U r" shows "cacheRule U (encodeCacheRule r) = Inr r"
  using assms
  by (auto simp: cacheRule_def encodeCacheRule_def valid_rule_def config_accepts cache_record_Inr getp_def not_less)

lemma cacheRules_Inr_valid:
  "cacheRules U seen vs = Inr rs \<Longrightarrow> list_all (valid_rule U) rs \<and> distinct (map rule_identity rs)
     \<and> set (map rule_identity rs) \<inter> set seen = {} \<and> length rs = length vs"
proof (induction vs arbitrary: seen rs)
  case (Cons v vs)
  from Cons.prems obtain r rs' where "cacheRule U v = Inr r" "rule_identity r \<notin> set seen"
    and tail: "cacheRules U (rule_identity r # seen) vs = Inr rs'" and "rs = r # rs'"
    by (auto simp: accepts)
  with Cons.IH [OF tail] cacheRule_valid show ?case by auto
qed simp

lemma cacheRules_encode:
  "list_all (valid_rule U) rs \<Longrightarrow> distinct (map rule_identity rs)
   \<Longrightarrow> set (map rule_identity rs) \<inter> set seen = {}
   \<Longrightarrow> cacheRules U seen (map encodeCacheRule rs) = Inr rs"
  by (induction rs arbitrary: seen) (auto simp: cacheRule_encode guardI_def)

lemma parse_config_valid:
  assumes "parseResponseCacheConfig U v = Inr c" shows "valid_cache_config U c"
proof -
  from assms obtain vs where "cacheRules U [] vs = Inr (rcc_rules c)" "int (length vs) \<le> 10000"
    and "cache_limits c" "rcc_maxBytes c \<le> 1073741824" "rcc_maxEntryBytes c \<le> rcc_maxBytes c"
      "rcc_maxEntries c \<le> 1000000" "rcc_maxPending c \<le> 4096"
    unfolding parseResponseCacheConfig_def by (auto simp: config_accepts cache_limits_def not_less)
  with cacheRules_Inr_valid show ?thesis by (auto simp: valid_cache_config_def)
qed

lemma parse_config_encode:
  assumes "valid_cache_config U c" shows "parseResponseCacheConfig U (encodeCacheConfig c) = Inr c"
proof -
  have "cacheRules U [] (map encodeCacheRule (rcc_rules c)) = Inr (rcc_rules c)"
    using assms by (simp add: valid_cache_config_def cacheRules_encode)
  with assms show ?thesis
    by (auto simp: parseResponseCacheConfig_def encodeCacheConfig_def valid_cache_config_def cache_limits_def
        config_accepts cache_record_Inr getp_def not_less)
qed

text \<open>
  C36. A configuration is accepted only when it is valid: the limits are positive and within the
  platform's, no two rules speak of the same project, host and prefix, and every rule has a canonical
  host, an absolute prefix without a query or a trailing slash, a lifetime of at most a year, and varies
  only on headers that are neither credentials, nor conditions, nor of one hop.
\<close>

theorem cache_config_is_valid:
  assumes "parseResponseCacheConfig U v = Inr c"
  shows "cache_limits c \<and> rcc_maxBytes c \<le> 1073741824 \<and> rcc_maxEntryBytes c \<le> rcc_maxBytes c
     \<and> rcc_maxEntries c \<le> 1000000 \<and> rcc_maxPending c \<le> 4096
     \<and> int (length (rcc_rules c)) \<le> 10000 \<and> distinct (map rule_identity (rcc_rules c))
     \<and> list_all (valid_rule U) (rcc_rules c)"
  using parse_config_valid [OF assms] by (simp add: valid_cache_config_def)

text \<open>
  C37. Every valid configuration is the reading of its own JSON: written out and parsed again it comes
  back as it was, rules in order and headers included, so nothing valid is refused or changed.
\<close>

theorem cache_config_round_trip:
  assumes "valid_cache_config U c"
  shows "parseResponseCacheConfig U (encodeCacheConfig c) = Inr c"
  using assms by (rule parse_config_encode)

subsection \<open>Responses\<close>

text \<open>The lower-cased headers of a response, and its cache directives when they can be read.\<close>

definition lower_headers :: "InvokeComponentResponse \<Rightarrow> RuntimeHeader list" where
  "lower_headers response = map (\<lambda>h. \<lparr>hd_name = toLowerCase (hd_name h), hd_value = hd_value h\<rparr>) (icr_headers response)"

definition directives_of :: "InvokeComponentResponse \<Rightarrow> (string \<times> string option) list option" where
  "directives_of response = cacheDirectives []
     (split_on (CHR '','') (join_with '','' (headerValues (lower_headers response) ''cache-control'')))"

lemma prepared_entry:
  assumes "prepareResponseCacheEntry D response rule t0 t1 = Some p"
  obtains ds ttl where "icr_status response = 200"
    and "\<not> list_ex (\<lambda>h. hd_name h \<in> set [''set-cookie'', ''content-range'', ''connection'', ''trailer'']) (lower_headers response)"
    and "directives_of response = Some ds" and "storable_directives ds" and "directives_ttl ds = Some ttl"
    and "vary_known rule (join_with '','' (headerValues (lower_headers response) ''vary''))"
    and "storedEntry D response (lower_headers response) rule ttl t0 t1 = Some p"
  using assms unfolding prepareResponseCacheEntry_def Let_def lower_headers_def [symmetric] directives_of_def [symmetric]
  by (simp only: option.distinct split: if_splits option.splits) blast

lemma seconds_nonneg: "seconds x = Some a \<Longrightarrow> 0 \<le> a"
  by (auto simp: seconds_def Let_def split: if_splits)

definition fresh_entry :: "CacheDates \<Rightarrow> InvokeComponentResponse \<Rightarrow> RuntimeHeader list \<Rightarrow> int
    \<Rightarrow> int \<Rightarrow> int \<Rightarrow> int \<Rightarrow> PreparedEntry" where
  "fresh_entry D response headers date lifetime initialAge t1 = \<lparr>pre_response = \<lparr>icr_status = 200,
       icr_headers = filter saved_header headers @
         [\<lparr>hd_name = ''date'', hd_value = cd_toUTCString D date\<rparr>,
          \<lparr>hd_name = ''content-length'', hd_value = show_int (int (length (icr_body response)))\<rparr>],
       icr_body = icr_body response\<rparr>,
     pre_initialAgeMs = initialAge, pre_expiresAt = t1 + lifetime - initialAge, pre_storedAt = t1\<rparr>"

text \<open>
  What a response says of its age: the time of its only \<open>Date\<close>, or the time it arrived, and the seconds of its
  only \<open>Age\<close>, or none.
\<close>

definition declared_date :: "CacheDates \<Rightarrow> RuntimeHeader list \<Rightarrow> int \<Rightarrow> int \<Rightarrow> bool" where
  "declared_date D headers t1 date \<longleftrightarrow> headerValues headers ''date'' = [] \<and> date = t1
     \<or> (\<exists>d. headerValues headers ''date'' = [d] \<and> cd_parse D d = Some date)"

definition declared_age :: "RuntimeHeader list \<Rightarrow> int \<Rightarrow> bool" where
  "declared_age headers age \<longleftrightarrow> headerValues headers ''age'' = [] \<and> age = 0
     \<or> (\<exists>a. headerValues headers ''age'' = [a] \<and> seconds a = Some age)"

lemma stored_entry:
  assumes "storedEntry D response headers rule ttl t0 t1 = Some p"
  obtains date age initialAge where "p = fresh_entry D response headers date (min ttl (rcr_maxTtlSeconds rule) * 1000) initialAge t1"
    and "declared_date D headers t1 date" and "declared_age headers age"
    and "initialAge = Max {0, t1 - date, age * 1000 + max 0 (t1 - t0)}"
    and "initialAge < min ttl (rcr_maxTtlSeconds rule) * 1000"
proof -
  let ?dates = "headerValues headers ''date''" and ?ages = "headerValues headers ''age''"
  let ?date = "case ?dates of [] \<Rightarrow> Some t1 | d # _ \<Rightarrow> cd_parse D d"
  let ?age = "case ?ages of [] \<Rightarrow> Some 0 | a # _ \<Rightarrow> seconds a"
  obtain date age where d: "?date = Some date" and a: "?age = Some age"
    and s: "\<not> (1 < length ?dates \<or> 1 < length ?ages)"
    using assms unfolding storedEntry_def Let_def by (cases ?date; cases ?age) (simp_all split: if_splits)
  define initialAge where "initialAge = max 0 (max (t1 - date) (age * 1000 + max 0 (t1 - t0)))"
  have "declared_date D headers t1 date" using d s by (auto simp: declared_date_def split: list.splits)
  moreover have "declared_age headers age" using a s by (auto simp: declared_age_def split: list.splits)
  moreover have "initialAge = Max {0, t1 - date, age * 1000 + max 0 (t1 - t0)}" by (simp add: initialAge_def)
  moreover have "initialAge < min ttl (rcr_maxTtlSeconds rule) * 1000
      \<and> p = fresh_entry D response headers date (min ttl (rcr_maxTtlSeconds rule) * 1000) initialAge t1"
    using assms unfolding storedEntry_def Let_def d a if_not_P [OF s] option.case prod.case
      initialAge_def [symmetric] fresh_entry_def
    by (simp only: not_le option.inject option.distinct split: if_splits)
  ultimately show thesis using that by blast
qed

text \<open>The lifetime is that of \<open>s-maxage\<close> when it is there, and that of \<open>max-age\<close> with \<open>public\<close> when it is not.\<close>

definition declared_lifetime :: "(string \<times> string option) list \<Rightarrow> int \<Rightarrow> bool" where
  "declared_lifetime ds ttl \<longleftrightarrow> 0 < ttl \<and>
     ((\<exists>v. map_of ds ''s-maxage'' = Some (Some v) \<and> seconds v = Some ttl)
      \<or> map_of ds ''s-maxage'' = None \<and> map_of ds ''public'' \<noteq> None
          \<and> (\<exists>v. map_of ds ''max-age'' = Some (Some v) \<and> seconds v = Some ttl))"

lemma directives_ttl_Some: "directives_ttl ds = Some ttl \<Longrightarrow> declared_lifetime ds ttl"
  using seconds_nonneg
  by (fastforce simp: directives_ttl_def directive_seconds_def declared_lifetime_def Let_def split: if_splits option.splits)

text \<open>
  C33. Only responses meant for everybody are stored, and for no longer than they and the rule allow: the
  status is 200, there is no cookie, and the directives can be read, give a positive lifetime for shared
  caches, or for all and say public, and name neither private nor no-store nor no-cache; the headers the
  response varies by are those of the rule. The stored copy has the body and no header of one hop. Its
  remaining lifetime is positive, and together with the age the response arrived with it is the lifetime of
  the response or the maximum of the rule, whichever is less; that age is the time since its Date, or its
  Age with the time the request took, whichever is more.
\<close>

theorem only_public_responses_are_stored:
  assumes "prepareResponseCacheEntry D response rule t0 t1 = Some p"
  shows "\<exists>ds ttl date age. icr_status response = 200
     \<and> \<not> list_ex (\<lambda>h. hd_name h \<in> set [''set-cookie'', ''content-range'']) (lower_headers response)
     \<and> directives_of response = Some ds \<and> declared_lifetime ds ttl
     \<and> map_of ds ''private'' = None \<and> map_of ds ''no-store'' = None \<and> map_of ds ''no-cache'' = None
     \<and> vary_known rule (join_with '','' (headerValues (lower_headers response) ''vary''))
     \<and> icr_body (pre_response p) = icr_body response
     \<and> \<not> list_ex (\<lambda>h. hd_name h \<in> set hopHeaders) (icr_headers (pre_response p))
     \<and> pre_storedAt p = t1 \<and> t1 < pre_expiresAt p
     \<and> declared_date D (lower_headers response) t1 date \<and> declared_age (lower_headers response) age
     \<and> pre_initialAgeMs p = Max {0, t1 - date, age * 1000 + max 0 (t1 - t0)}
     \<and> (pre_expiresAt p - pre_storedAt p) + pre_initialAgeMs p = min ttl (rcr_maxTtlSeconds rule) * 1000"
proof -
  from assms obtain ds ttl where h: "icr_status response = 200" "directives_of response = Some ds"
      "directives_ttl ds = Some ttl" "vary_known rule (join_with '','' (headerValues (lower_headers response) ''vary''))"
    and no: "\<not> list_ex (\<lambda>h. hd_name h \<in> set [''set-cookie'', ''content-range'', ''connection'', ''trailer''])
      (lower_headers response)"
    and st: "storable_directives ds"
    and e: "storedEntry D response (lower_headers response) rule ttl t0 t1 = Some p"
    by (rule prepared_entry)
  from e obtain date age initialAge
    where p: "p = fresh_entry D response (lower_headers response) date (min ttl (rcr_maxTtlSeconds rule) * 1000) initialAge t1"
      "declared_date D (lower_headers response) t1 date" "declared_age (lower_headers response) age"
      "initialAge = Max {0, t1 - date, age * 1000 + max 0 (t1 - t0)}"
      "initialAge < min ttl (rcr_maxTtlSeconds rule) * 1000" by (rule stored_entry)
  have "\<not> list_ex (\<lambda>h. hd_name h \<in> set hopHeaders) (icr_headers (pre_response p))"
    by (auto simp: p(1) fresh_entry_def saved_header_def list_ex_iff hopHeaders_def)
  moreover have "\<not> list_ex (\<lambda>h. hd_name h \<in> set [''set-cookie'', ''content-range'']) (lower_headers response)"
    using no by (auto simp: list_ex_iff)
  moreover have "map_of ds ''private'' = None \<and> map_of ds ''no-store'' = None \<and> map_of ds ''no-cache'' = None"
    using st by (simp add: storable_directives_def)
  moreover have "icr_body (pre_response p) = icr_body response" "pre_storedAt p = t1" "pre_initialAgeMs p = initialAge"
    "pre_expiresAt p = t1 + min ttl (rcr_maxTtlSeconds rule) * 1000 - initialAge" by (simp_all add: p(1) fresh_entry_def)
  ultimately show ?thesis using h directives_ttl_Some [OF h(3)] p(2-5)
    by (intro exI [of _ ds] exI [of _ ttl] exI [of _ date] exI [of _ age]) (simp only: simp_thms, linarith)
qed

subsection \<open>An example\<close>

definition ex_uri_url :: "string \<Rightarrow> Url" where
  "ex_uri_url path = \<lparr>url_protocol = ''http:'', url_host = ''h.example'', url_username = [],
     url_password = [], url_pathname = path, url_search = [], url_hash = []\<rparr>"

definition ex_cache_urls :: UrlApi where
  "ex_cache_urls = \<lparr>urlParse = (\<lambda>s. if startsWith s ''http://h.example''
       then Some (ex_uri_url (if s = ''http://h.example'' then ''/'' else drop 16 s)) else None),
     urlToString = url_pathname, urlSetPathname = (\<lambda>u p. u\<lparr>url_pathname := p\<rparr>)\<rparr>"

definition ex_cache_json :: json where
  "ex_cache_json = JObj [(''maxBytes'', JInt 1000), (''maxEntryBytes'', JInt 400), (''maxEntries'', JInt 2),
     (''maxPending'', JInt 2), (''rules'', JArr [JObj [(''projectId'', JStr ''p1''), (''host'', JStr ''h.example''),
       (''pathPrefix'', JStr ''/''), (''maxTtlSeconds'', JInt 30), (''varyHeaders'', JArr [JStr ''accept''])]])]"

definition ex_cache_rule :: ResponseCacheRule where
  "ex_cache_rule = \<lparr>rcr_projectId = ''p1'', rcr_host = ''h.example'', rcr_pathPrefix = ''/'',
     rcr_maxTtlSeconds = 30, rcr_varyHeaders = [''accept'']\<rparr>"

definition ex_cache :: ResponseCacheConfig where
  "ex_cache = \<lparr>rcc_maxBytes = 1000, rcc_maxEntries = 2, rcc_maxEntryBytes = 400, rcc_maxPending = 2,
     rcc_rules = [ex_cache_rule]\<rparr>"

definition ex_cache_response :: InvokeComponentResponse where
  "ex_cache_response = \<lparr>icr_status = 200, icr_headers =
     [\<lparr>hd_name = ''Cache-Control'', hd_value = ''public, max-age=60''\<rparr>], icr_body = ''hello''\<rparr>"

definition ex_cache_dates :: CacheDates where
  "ex_cache_dates = \<lparr>cd_parse = (\<lambda>s. None), cd_toUTCString = (\<lambda>n. ''date'')\<rparr>"

lemma ex_cache_valid: "valid_cache_config ex_cache_urls ex_cache"
proof -
  have "parseResponseCacheConfig ex_cache_urls ex_cache_json = Inr ex_cache" by code_simp
  then show ?thesis by (rule parse_config_valid)
qed

theorem cache_config_is_valid_witness:
  "cache_limits ex_cache \<and> distinct (map rule_identity (rcc_rules ex_cache))
   \<and> length (rcc_rules ex_cache) = 1"
proof -
  have "parseResponseCacheConfig ex_cache_urls ex_cache_json = Inr ex_cache" by code_simp
  from cache_config_is_valid [OF this] show ?thesis by (simp add: ex_cache_def)
qed

theorem cache_config_round_trip_witness:
  "parseResponseCacheConfig ex_cache_urls (encodeCacheConfig ex_cache) = Inr ex_cache"
  by (rule cache_config_round_trip [OF ex_cache_valid])

text \<open>A response whose Date lies 5 s back and whose Age is 7 s, answered after 200 ms.\<close>

definition ex_aged_dates :: CacheDates where
  "ex_aged_dates = \<lparr>cd_parse = (\<lambda>s. if s = ''then'' then Some 5200 else None), cd_toUTCString = (\<lambda>n. ''then'')\<rparr>"

definition ex_aged_response :: InvokeComponentResponse where
  "ex_aged_response = ex_cache_response\<lparr>icr_headers := icr_headers ex_cache_response
     @ [\<lparr>hd_name = ''Date'', hd_value = ''then''\<rparr>, \<lparr>hd_name = ''Age'', hd_value = ''7''\<rparr>]\<rparr>"

definition ex_entry_stored :: PreparedEntry where
  "ex_entry_stored = the (prepareResponseCacheEntry ex_aged_dates ex_aged_response ex_cache_rule 10000 10200)"

theorem only_public_responses_are_stored_witness:
  "icr_body (pre_response ex_entry_stored) = ''hello'' \<and> pre_storedAt ex_entry_stored = 10200
   \<and> pre_initialAgeMs ex_entry_stored = 7200 \<and> pre_expiresAt ex_entry_stored = 33000"
proof -
  have "\<not> Option.is_none (prepareResponseCacheEntry ex_aged_dates ex_aged_response ex_cache_rule 10000 10200)"
    by code_simp
  then have "prepareResponseCacheEntry ex_aged_dates ex_aged_response ex_cache_rule 10000 10200
      = Some ex_entry_stored" unfolding ex_entry_stored_def Option.is_none_def by (rule option.collapse [symmetric])
  from only_public_responses_are_stored [OF this]
  have "icr_body (pre_response ex_entry_stored) = ''hello'' \<and> pre_storedAt ex_entry_stored = 10200"
    by (auto simp: ex_aged_response_def ex_cache_response_def)
  moreover have "pre_initialAgeMs ex_entry_stored = 7200" by code_simp
  moreover have "pre_expiresAt ex_entry_stored = 33000" by code_simp
  ultimately show ?thesis by blast
qed

end
