(* ===== verification/CacheGuarantees.thy ===== *)
theory CacheGuarantees
  imports CachePolicy
begin

text \<open>
  What the response cache guarantees: its limits, that it never hangs, that waiting calls are released,
  where hits come from, and which responses it stores for how long.
\<close>

subsection \<open>Every interleaving\<close>

text \<open>
  C31. The cache keeps its books and its limits, whatever is called, purged and suspended and however the
  calls interleave: the byte count is the sum of the sizes of the entries and within the limit, as are
  the number of entries, the size of each, and the calls that wait or fill, which are counted right.
\<close>

theorem cache_within_limits:
  assumes "cache_limits config" and "cache_run U sha D config (c, calls, hist)"
  shows "distinct (map fst (rc_entries c)) \<and> rc_bytes c = total_size (rc_entries c)
     \<and> rc_bytes c \<le> rcc_maxBytes config \<and> int (length (rc_entries c)) \<le> rcc_maxEntries config
     \<and> list_all (\<lambda>(k, e). ce_size e = entry_size k (ce_prepared e) \<and> ce_size e \<le> rcc_maxEntryBytes config) (rc_entries c)
     \<and> rc_pending c = pending_calls calls \<and> rc_pending c \<le> rcc_maxPending config
     \<and> rc_suspended c = int (length (filter Not (rc_resumed c)))"
  using cache_run_ok [OF assms(2,1)]
  by (auto simp: world_ok_def in_limits_def booked_def flow_ok_def sized_def list_all_iff)

text \<open>
  C34. The eviction loop ends: in every reachable state every call goes on, purge and suspension return.
\<close>

theorem cache_never_hangs:
  assumes "cache_limits config" and "cache_run U sha D config w"
  shows "\<exists>w'. cache_act U sha D config a w = Some w' \<and> cache_run U sha D config w'"
  using world_ok_act [OF assms(1) cache_run_ok [OF assms(2,1)], of U sha D a] cache_run.acted [OF assms(2)] by blast

text \<open>
  C35. No waiter is left behind: a call that waits for a fill which nobody has settled has another call
  that is loading for it, and once the fill is settled the waiting call goes on to an answer or to its
  own invocation.
\<close>

theorem waiters_are_released:
  assumes "cache_limits config" and "cache_run U sha D config (c, calls, hist)"
    and "i < length calls" and "calls ! i = (q, Awaiting f key g)"
  shows "(rc_settled c ! f = None \<longrightarrow> (\<exists>j < length calls. fills f (snd (calls ! j))))
     \<and> (\<forall>time aborted stored. rc_settled c ! f = Some stored \<longrightarrow>
         (\<exists>ph c'. exec_step U sha D config q (FillSettled time aborted) (Awaiting f key g) c = Some (ph, c')
            \<and> settled_phase ph))"
proof -
  have ok: "fills_ok c (length calls) (\<lambda>j. snd (calls ! j))"
    using cache_run_ok [OF assms(2,1)] by (simp add: world_ok_def flow_ok_def)
  have f: "f < length (rc_settled c)" using fills_okD(3) [OF ok assms(3)] assms(4) by simp
  then have "rc_settled c ! f = None \<longrightarrow> (\<exists>j < length calls. fills f (snd (calls ! j)))"
    using fills_okD(4) [OF ok assms(3), of f] assms(4) by (simp add: open_fill_def)
  moreover have "\<exists>ph c'. exec_step U sha D config q (FillSettled time aborted) (Awaiting f key g) c = Some (ph, c')
      \<and> settled_phase ph" if "rc_settled c ! f = Some stored" for time aborted stored
    using that end_wait_phase [of q key g stored time aborted c]
    by (cases "end_wait q key g stored time aborted c") (simp add: exec_step_def)
  ultimately show ?thesis by blast
qed

lemma lookup_hit:
  assumes "cache_lookup key m t c = (c', Some r)"
  obtains e where "(key, e) \<in> set (rc_entries c)" and "t < pre_expiresAt (ce_prepared e)"
    and "r = \<lparr>crr_status = HIT, crr_response = hit_response m t (ce_prepared e)\<rparr>"
  using assms by (auto simp: cache_lookup_def not_le split: option.splits if_splits dest: map_of_SomeD)

lemma begin_fill_no_hit: "begin_fill config k rule time c = (Answered r, c') \<Longrightarrow> False"
  by (auto simp: begin_fill_def Let_def bypass_def createPendingFill_def split: if_splits option.splits)

text \<open>A step that answers with a hit found an entry of the call's own key that has not expired.\<close>

fun event_time :: "exec_event \<Rightarrow> int" where
  "event_time (Begin revision time aborted) = time"
| "event_time (FillSettled time aborted) = time"
| "event_time (LoadDone response time sweep aborted) = time"
| "event_time _ = 0"

lemma hit_step:
  assumes "exec_step U sha D config q ev ph c = Some (Answered r, c')" and "crr_status r = HIT"
    and "\<nexists>r. ph = Answered r" and "phase_ok U sha config (rc_generation c) hist i q ph"
  obtains key rule e where "matchResponseCacheRequest U sha config q = Some (key, rule)"
    and "(key, e) \<in> set (rc_entries c)" and "event_time ev < pre_expiresAt (ce_prepared e)"
    and "crr_response r = hit_response (rcq_method q) (event_time ev) (ce_prepared e)"
proof (cases ph)
  case Arriving
  with assms(1) obtain revision time where ev: "ev = Begin revision time False"
    and b: "begin_execute U sha config q revision time c = (Answered r, c')"
    by (cases ev) (auto simp: exec_step_def split: if_splits)
  then obtain key rule where m: "matchResponseCacheRequest U sha config q = Some (key, rule)"
    by (auto simp: begin_execute_def bypass_def split: if_splits option.splits)
  with b have "\<exists>c1. cache_lookup key (rcq_method q) time c = (c1, Some r)"
    by (auto simp: begin_execute_def bypass_def split: if_splits option.splits prod.splits dest: begin_fill_no_hit)
  then show thesis using lookup_hit m that ev by (metis event_time.simps(1) ResponseCacheResult.select_convs(2))
next
  case (Awaiting f key g)
  with assms(1) obtain time aborted stored where ev: "ev = FillSettled time aborted"
    and b: "end_wait q key g stored time aborted c = (Answered r, c')"
    by (cases ev) (auto simp: exec_step_def split: if_splits option.splits)
  have m: "\<exists>rule. matchResponseCacheRequest U sha config q = Some (key, rule)" using assms(4) Awaiting by simp
  from b have "\<exists>c1. cache_lookup key (rcq_method q) time c = (c1, Some r)"
    by (auto simp: end_wait_def bypass_def split: if_splits option.splits prod.splits)
  then show thesis using lookup_hit m that ev by (metis event_time.simps(2) ResponseCacheResult.select_convs(2))
next
  case (Loading f key rule g t0)
  then show thesis
    using assms(1,2) by (cases ev) (auto simp: exec_step_def finish_load_def split: if_splits)
qed (use assms in \<open>(cases ev; auto simp: exec_step_def)+\<close>)

text \<open>The keys of the calls, and the scopes that cover one.\<close>

definition call_identities :: "ResponseCacheConfig \<Rightarrow> cache_calls \<Rightarrow> CacheIdentity list" where
  "call_identities config calls = concat (map (\<lambda>(q, _). case rcq_projectId q of None \<Rightarrow> []
     | Some pid \<Rightarrow> map (cache_identity q pid) (rcc_rules config)) calls)"

definition in_scope :: "ResponseCacheScope \<Rightarrow> ResponseCacheRequest \<Rightarrow> bool" where
  "in_scope s q \<longleftrightarrow> (rcs_projectId s = None \<or> rcq_projectId q = rcs_projectId s)
     \<and> (rcs_deploymentId s = None \<or> Some (rcq_deploymentId q) = rcs_deploymentId s)"

text \<open>Two requests that may share a response.\<close>

definition same_request :: "ResponseCacheRule \<Rightarrow> ResponseCacheRequest \<Rightarrow> ResponseCacheRequest \<Rightarrow> bool" where
  "same_request rule q q' \<longleftrightarrow> rcq_projectId q = rcq_projectId q' \<and> rcq_deploymentId q = rcq_deploymentId q'
     \<and> rcq_componentIdentity q = rcq_componentIdentity q' \<and> rcq_uri q = rcq_uri q'
     \<and> (\<forall>name \<in> set (rcr_varyHeaders rule) \<union> {''host'', ''x-forwarded-host'', ''x-forwarded-proto'', ''forwarded''}.
          headerValues (rcq_headers q) name = headerValues (rcq_headers q') name)"

lemma match_key:
  assumes "matchResponseCacheRequest U sha config q = Some (key, rule)"
  shows "\<exists>pid. rcq_projectId q = Some pid \<and> key = sha (cache_identity q pid rule) \<and> rule \<in> set (rcc_rules config)"
proof -
  from assms obtain pid u rs where "rcq_projectId q = Some pid" "key = sha (cache_identity q pid rule)"
    and sorted: "js_sort longer_rule (filter (rule_applies q u) (rcc_rules config)) = rule # rs"
    by (auto simp: matchResponseCacheRequest_def Let_def split: option.splits if_splits list.splits)
  moreover have "rule \<in> set (js_sort longer_rule (filter (rule_applies q u) (rcc_rules config)))"
    by (simp only: sorted list.set_intros)
  then have "rule \<in> set (rcc_rules config)" by simp
  ultimately show ?thesis by blast
qed

lemma call_identities_mem:
  "(q, ph) \<in> set calls \<Longrightarrow> rcq_projectId q = Some pid \<Longrightarrow> rule \<in> set (rcc_rules config) \<Longrightarrow>
   cache_identity q pid rule \<in> set (call_identities config calls)"
  by (force simp: call_identities_def)

lemma identity_eq_same_request:
  assumes "cache_identity q pid rule = cache_identity q' pid' rule'"
    and "rcq_projectId q = Some pid" and "rcq_projectId q' = Some pid'"
  shows "rule = rule' \<and> same_request rule q q'"
  using assms by (auto simp: cache_identity_def same_request_def)

text \<open>
  C32. A hit is the response that the same request once loaded, and still good. When a call is answered
  from the cache, some call for the same project, deployment, component, address, forwarding headers and
  varying headers loaded a response that may be stored; no purge that covers it came after that call
  began; the entry has not expired; and the answer has its headers, with the age, and its body, or none
  for HEAD. The hash must not confuse the keys of the requests that were made.
\<close>

theorem hit_comes_from_a_load:
  assumes "cache_limits config" and "cache_run U sha D config (c, calls, hist)" and "i < length calls"
    and "inj_on sha (set (call_identities config calls))"
    and "calls ! i = (q, ph)" and "\<nexists>r. ph = Answered r"
    and "exec_step U sha D config q ev ph c = Some (Answered r, c')" and "crr_status r = HIT"
  shows "\<exists>j rule response t0 t1 p. j < length calls \<and> same_request rule q (fst (calls ! j))
     \<and> Started j t0 \<in> set hist \<and> Loaded j response t1 \<in> set (since j hist)
     \<and> prepareResponseCacheEntry D response rule t0 t1 = Some p
     \<and> (\<forall>s. Purged s \<in> set (since j hist) \<longrightarrow> \<not> in_scope s (fst (calls ! j)))
     \<and> event_time ev < pre_expiresAt p \<and> crr_response r = hit_response (rcq_method q) (event_time ev) p"
proof -
  have tr: "traced U sha D config (c, calls, hist)" by (rule cache_run_traced [OF assms(2,1)])
  have "phase_ok U sha config (rc_generation c) hist i q ph"
    using tr assms(3,5) by (force simp: traced_def)
  from hit_step [OF assms(7,8,6) this] obtain key rule e
    where m: "matchResponseCacheRequest U sha config q = Some (key, rule)" and e: "(key, e) \<in> set (rc_entries c)"
      and x: "event_time ev < pre_expiresAt (ce_prepared e)"
      and r: "crr_response r = hit_response (rcq_method q) (event_time ev) (ce_prepared e)" by blast
  from tr e have "from_load U sha D config calls hist (key, e)" by (auto simp: traced_def)
  then obtain j rule' t0 t1 response where j: "j < length calls"
    and m': "matchResponseCacheRequest U sha config (fst (calls ! j)) = Some (key, rule')"
    and l: "Started j t0 \<in> set hist" "Loaded j response t1 \<in> set (since j hist)"
      "prepareResponseCacheEntry D response rule' t0 t1 = Some (ce_prepared e)"
    and o: "ce_projectId e = rcq_projectId (fst (calls ! j))" "ce_deploymentId e = rcq_deploymentId (fst (calls ! j))"
    and pu: "\<forall>s. Purged s \<in> set (since j hist) \<longrightarrow> \<not> cache_matches e s"
    by (auto simp: from_load_def)
  let ?q = "fst (calls ! j)"
  obtain pid where k: "rcq_projectId q = Some pid" "key = sha (cache_identity q pid rule)" "rule \<in> set (rcc_rules config)"
    using match_key [OF m] by blast
  obtain pid' where k': "rcq_projectId ?q = Some pid'" "key = sha (cache_identity ?q pid' rule')" "rule' \<in> set (rcc_rules config)"
    using match_key [OF m'] by blast
  have "(q, ph) \<in> set calls" "(?q, snd (calls ! j)) \<in> set calls"
    using nth_mem [OF assms(3)] nth_mem [OF j] assms(5) by simp_all
  with call_identities_mem k(1,3) k'(1,3) have "cache_identity q pid rule \<in> set (call_identities config calls)"
    "cache_identity ?q pid' rule' \<in> set (call_identities config calls)" by blast+
  then have "cache_identity q pid rule = cache_identity ?q pid' rule'"
    using inj_onD [OF assms(4)] k(2) k'(2) by simp
  from identity_eq_same_request [OF this k(1) k'(1)] have "rule' = rule" "same_request rule q ?q" by auto
  moreover have "\<forall>s. Purged s \<in> set (since j hist) \<longrightarrow> \<not> in_scope s ?q"
    using pu o by (simp add: cache_matches_def in_scope_def)
  moreover have "prepareResponseCacheEntry D response rule t0 t1 = Some (ce_prepared e)"
    using l(3) \<open>rule' = rule\<close> by simp
  ultimately show ?thesis
    using j l(1,2) x r
    by (intro exI [of _ j] exI [of _ rule] exI [of _ response] exI [of _ t0] exI [of _ t1] exI [of _ "ce_prepared e"]) simp
qed


subsection \<open>An example\<close>

definition ex_cache_request :: "string \<Rightarrow> ResponseCacheRequest" where
  "ex_cache_request path = \<lparr>rcq_projectId = Some ''p1'', rcq_deploymentId = ''d1'',
     rcq_componentIdentity = ''c'', rcq_method = ''GET'', rcq_uri = ''http://h.example'' @ path,
     rcq_headers = [], rcq_bodyBytes = 0\<rparr>"

abbreviation ex_cache_step :: "cache_action \<Rightarrow> cache_world \<Rightarrow> cache_world option" where
  "ex_cache_step \<equiv> cache_act ex_cache_urls cid_uri ex_cache_dates ex_cache"

definition ex_cache_acts :: "cache_action list \<Rightarrow> cache_world option" where
  "ex_cache_acts as = foldl (\<lambda>w a. Option.bind w (ex_cache_step a)) (Some (createResponseCache, [], [])) as"

lemma ex_cache_run:
  assumes "ex_cache_acts as = Some w"
  shows "cache_run ex_cache_urls cid_uri ex_cache_dates ex_cache w"
  using assms
proof (induction "as" arbitrary: w rule: rev_induct)
  case Nil
  then show ?case by (auto simp: ex_cache_acts_def intro: cache_run.created)
next
  case (snoc a "as")
  from snoc.prems obtain v where v: "ex_cache_acts as = Some v" "ex_cache_step a v = Some w"
    by (auto simp: ex_cache_acts_def bind_eq_Some_conv)
  show ?case by (rule cache_run.acted [OF snoc.IH [OF v(1)] v(2)])
qed

lemma ex_cache_limits: "cache_limits ex_cache"
  by code_simp

text \<open>
  Two requests for one address, the second waiting for the first, and one for another; then the first
  response arrives, and after it a purge of another project.
\<close>

definition ex_cache_history :: "cache_action list" where
  "ex_cache_history = [Call (ex_cache_request ''/a''), Move 0 (Begin None 1000 False),
     Call (ex_cache_request ''/a''), Move 1 (Begin None 1001 False),
     Call (ex_cache_request ''/b''), Move 2 (Begin None 1002 False),
     Move 0 (LoadDone ex_cache_response 1003 (\<lambda>_. 1003) False),
     Purge \<lparr>rcs_projectId = Some ''p2'', rcs_deploymentId = None\<rparr>,
     Call (ex_cache_request ''/a'')]"

definition ex_cache_world :: cache_world where
  "ex_cache_world = the (ex_cache_acts ex_cache_history)"

lemma ex_cache_world_run:
  "cache_run ex_cache_urls cid_uri ex_cache_dates ex_cache
     (fst ex_cache_world, fst (snd ex_cache_world), snd (snd ex_cache_world))"
proof -
  have "\<not> Option.is_none (ex_cache_acts ex_cache_history)" by code_simp
  then have "ex_cache_acts ex_cache_history = Some ex_cache_world"
    by (cases "ex_cache_acts ex_cache_history") (simp_all add: ex_cache_world_def)
  from ex_cache_run [OF this] show ?thesis by simp
qed

theorem cache_within_limits_witness:
  "rc_bytes (fst ex_cache_world) = total_size (rc_entries (fst ex_cache_world))
   \<and> rc_pending (fst ex_cache_world) = pending_calls (fst (snd ex_cache_world))
   \<and> rc_bytes (fst ex_cache_world) = 89 \<and> rc_pending (fst ex_cache_world) = 1"
proof (intro conjI)
  from cache_within_limits [OF ex_cache_limits ex_cache_world_run]
  show "rc_bytes (fst ex_cache_world) = total_size (rc_entries (fst ex_cache_world))"
    and "rc_pending (fst ex_cache_world) = pending_calls (fst (snd ex_cache_world))" by blast+
  show "rc_bytes (fst ex_cache_world) = 89" by code_simp
  show "rc_pending (fst ex_cache_world) = 1" by code_simp
qed

theorem cache_never_hangs_witness:
  "\<exists>w'. ex_cache_step (Move 0 LoadFailed) (createResponseCache, [], []) = Some w'
     \<and> cache_run ex_cache_urls cid_uri ex_cache_dates ex_cache w'"
  by (rule cache_never_hangs [OF ex_cache_limits cache_run.created])

theorem waiters_are_released_witness:
  "\<exists>ph c'. exec_step ex_cache_urls cid_uri ex_cache_dates ex_cache (ex_cache_request ''/a'')
      (FillSettled 2000 False) (Awaiting 0 ''http://h.example/a'' 0) (fst ex_cache_world) = Some (ph, c')
      \<and> settled_phase ph"
proof -
  have i: "(1::nat) < length (fst (snd ex_cache_world))" by code_simp
  have a: "fst (snd ex_cache_world) ! 1 = (ex_cache_request ''/a'', Awaiting 0 ''http://h.example/a'' 0)" by code_simp
  have s: "rc_settled (fst ex_cache_world) ! 0 = Some True" by code_simp
  from waiters_are_released [OF ex_cache_limits ex_cache_world_run i a] s show ?thesis by blast
qed

lemma inj_on_list: "list_all (\<lambda>x. list_all (\<lambda>y. f x = f y \<longrightarrow> x = y) xs) xs \<Longrightarrow> inj_on f (set xs)"
  by (auto simp: list_all_iff inj_on_def)

definition ex_hit :: ResponseCacheResult where
  "ex_hit = \<lparr>crr_status = HIT, crr_response = hit_response ''GET'' 2000
     (ce_prepared (snd (hd (rc_entries (fst ex_cache_world)))))\<rparr>"

theorem hit_comes_from_a_load_witness:
  "(\<exists>j rule response t0 t1 p. j < length (fst (snd ex_cache_world))
     \<and> same_request rule (ex_cache_request ''/a'') (fst (fst (snd ex_cache_world) ! j))
     \<and> Loaded j response t1 \<in> set (since j (snd (snd ex_cache_world)))
     \<and> prepareResponseCacheEntry ex_cache_dates response rule t0 t1 = Some p
     \<and> 2000 < pre_expiresAt p \<and> crr_response ex_hit = hit_response ''GET'' 2000 p)
   \<and> icr_body (crr_response ex_hit) = ''hello''"
proof
  let ?q = "ex_cache_request ''/a''" and ?c = "fst ex_cache_world" and ?ev = "Begin None 2000 False"
  have i: "(3::nat) < length (fst (snd ex_cache_world))" by code_simp
  have a: "fst (snd ex_cache_world) ! 3 = (?q, Arriving)" by code_simp
  have inj: "inj_on cid_uri (set (call_identities ex_cache (fst (snd ex_cache_world))))"
    by (rule inj_on_list) code_simp
  have "map_option fst (exec_step ex_cache_urls cid_uri ex_cache_dates ex_cache ?q ?ev Arriving ?c)
      = Some (Answered ex_hit)" by code_simp
  then obtain c' where "exec_step ex_cache_urls cid_uri ex_cache_dates ex_cache ?q ?ev Arriving ?c
      = Some (Answered ex_hit, c')" by auto
  from hit_comes_from_a_load [OF ex_cache_limits ex_cache_world_run i inj a _ this]
  show "\<exists>j rule response t0 t1 p. j < length (fst (snd ex_cache_world))
     \<and> same_request rule ?q (fst (fst (snd ex_cache_world) ! j))
     \<and> Loaded j response t1 \<in> set (since j (snd (snd ex_cache_world)))
     \<and> prepareResponseCacheEntry ex_cache_dates response rule t0 t1 = Some p
     \<and> 2000 < pre_expiresAt p \<and> crr_response ex_hit = hit_response ''GET'' 2000 p"
    by (fastforce simp: ex_hit_def ex_cache_request_def)
  show "icr_body (crr_response ex_hit) = ''hello''" by code_simp
qed

end
