(* ===== verification/HttpRoutes.thy ===== *)
theory HttpRoutes
  imports Delivery
begin

text \<open>
  Which handler of \<open>http/app.ts\<close> a request reaches: the functions \<open>...Match\<close> and the chain of
  conditions in \<open>createHttpApp\<close>, in the order of the code. A handler is named by a constructor of
  \<open>endpoint\<close> that carries the decoded parts of the path. \<open>decodeURIComponent\<close> is a parameter; when it
  throws, the request fails inside the chain.
\<close>

type_synonym 'a matched = "failure + 'a option"
type_synonym decoder = "string \<Rightarrow> string option"

text \<open>The regular expressions are of one form: literal segments and \<open>([^/]+)\<close>.\<close>

datatype seg = Lit string | Par

fun match_segs :: "seg list \<Rightarrow> string list \<Rightarrow> string list option" where
  "match_segs [] [] = Some []"
| "match_segs (Lit l # ps) (s # ss) = (if s = l then match_segs ps ss else None)"
| "match_segs (Par # ps) (s # ss) = (if s = [] then None else map_option ((#) s) (match_segs ps ss))"
| "match_segs _ _ = None"

definition path_match :: "seg list \<Rightarrow> string \<Rightarrow> string list option" where
  "path_match ps p = (case split_on (CHR ''/'') p of [] # ss \<Rightarrow> match_segs ps ss | _ \<Rightarrow> None)"

definition decode1 :: "decoder \<Rightarrow> string \<Rightarrow> failure + string" where
  "decode1 D s = (case D s of None \<Rightarrow> Inl EngineError | Some x \<Rightarrow> Inr x)"

definition segs_match :: "decoder \<Rightarrow> string list \<Rightarrow> seg list \<Rightarrow> string \<Rightarrow> string \<Rightarrow> string list matched" where
  "segs_match D methods ps m p =
     (if m \<notin> set methods then Inr None
      else case path_match ps p of
          None \<Rightarrow> Inr None
        | Some raw \<Rightarrow> bindE (mapE (decode1 D) raw) (\<lambda>xs. Inr (Some xs)))"

definition id_match :: "decoder \<Rightarrow> string list \<Rightarrow> seg list \<Rightarrow> string \<Rightarrow> string \<Rightarrow> string matched" where
  "id_match D methods ps m p = bindE (segs_match D methods ps m p) (\<lambda>xs. Inr (map_option hd xs))"

definition two_match :: "decoder \<Rightarrow> string list \<Rightarrow> seg list \<Rightarrow> string \<Rightarrow> string \<Rightarrow> (string \<times> string) matched" where
  "two_match D methods ps m p =
     bindE (segs_match D methods ps m p) (\<lambda>xs. Inr (map_option (\<lambda>xs. (hd xs, xs ! 1)) xs))"

datatype admin_endpoint =
    HOpsConfig
  | HAdminPage
  | HProjectSettings string
  | HProjectAuditEvents string
  | HAdminCanary
  | HAdminRollback
  | HAdminNodeStatus
  | HAdminNodeGc

datatype account_endpoint =
    HCreateOrganization
  | HRequestQuotaIncrease string
  | HUpdateOrganizationBilling string
  | HOrganizationBillingStatement string
  | HOrganizationAuditEvents string
  | HListBillingInvoices string
  | HIssueBillingInvoice string
  | HCreateUser
  | HVerifyUserEmail string
  | HCreateApiKey
  | HRevokeApiKey string
  | HRotateApiKey string
  | HCreateBetaOnboarding
  | HRecordUsageEvent

datatype release_endpoint =
    HCreateCustomDomain
  | HCreateDeployPreview
  | HCreateEdgeWorkerRelease
  | HCreateProject
  | HListCustomDomains string
  | HListDeployPreviews string
  | HListEdgeWorkerReleases string
  | HGetEdgeWorkerRelease string
  | HDeleteEdgeWorkerRelease string
  | HListEdgeWorkerOperations string
  | HDeliverEdgeWorkerOperations
  | HRollbackDeployPreview string
  | HDeleteCustomDomain string
  | HVerifyCustomDomain string
  | HRequestCustomDomainTls string
  | HCompleteCustomDomainTls string

datatype project_endpoint =
    HAcceptMembershipInvite string string
  | HUpdateMembershipRole string string
  | HRemoveMembership string string
  | HAddMembership string
  | HListMemberships string
  | HListApiKeys string
  | HEnsureSqliteDatabase string
  | HListProjectSqliteDatabases string
  | HPruneSqliteBackups string
  | HCreateSqliteBackup string
  | HListSqliteBackups string
  | HRestoreSqliteDatabase string
  | HGetSqliteDatabase string
  | HListSqliteDatabases

datatype metering_endpoint =
    HProjectQuotaUsage string
  | HProjectUsage string
  | HProjectEnforcementReport string
  | HProjectUsageQuotaReport string
  | HProjectBillingStatement string
  | HProjectBillingBudget string
  | HCreateArtifact
  | HGetInvoiceRetention string
  | HSetInvoiceRetention string
  | HPruneInvoices
  | HGetInvoice string
  | HExportInvoice string
  | HUploadArtifact

datatype binding_endpoint =
    HCreateSecret
  | HListSecrets string
  | HGetSecret string
  | HUpdateSecret string
  | HDeleteSecret string
  | HCreateKvNamespace
  | HListKvNamespaces string
  | HGetKvNamespace string
  | HDeleteKvNamespace string
  | HScheduleAlarmDemo
  | HAlarmDemoObject string
  | HCreateDurableObjectNamespace
  | HListDurableObjectNamespaces string
  | HGetDurableObjectNamespace string
  | HDeleteDurableObjectNamespace string

datatype serving_endpoint =
    HCreateDeployment
  | HPointRoute
  | HStartRouteCanary
  | HAnalyzeRouteCanary
  | HRollbackRoute
  | HListCanaryDecisions
  | HRegisterRuntimeNode
  | HNodeHeartbeat string
  | HNodeStatus string
  | HCleanupNodes
  | HListNodes
  | HAutoscalingSignals
  | HNodeLogs string
  | HRouteSnapshot
  | HPublishSnapshot
  | HListPublications
  | HApplyReplicatedSnapshot
  | HReadReplicatedSnapshot

datatype endpoint =
    Admin admin_endpoint
  | Account account_endpoint
  | Release release_endpoint
  | InProject project_endpoint
  | Metering metering_endpoint
  | Binding binding_endpoint
  | Serving serving_endpoint

definition runtimeNodeHeartbeatMatch :: "decoder \<Rightarrow> string \<Rightarrow> string \<Rightarrow> string matched" where
  "runtimeNodeHeartbeatMatch D = id_match D [''POST'']
     [Lit ''runtime-nodes'', Par, Lit ''heartbeat'']"

definition runtimeNodeStatusMatch :: "decoder \<Rightarrow> string \<Rightarrow> string \<Rightarrow> string matched" where
  "runtimeNodeStatusMatch D = id_match D [''PATCH'']
     [Lit ''runtime-nodes'', Par, Lit ''status'']"

definition runtimeNodeLogsMatch :: "decoder \<Rightarrow> string \<Rightarrow> string \<Rightarrow> string matched" where
  "runtimeNodeLogsMatch D = id_match D [''GET'']
     [Lit ''runtime-nodes'', Par, Lit ''logs'']"

definition projectSecretsMatch :: "decoder \<Rightarrow> string \<Rightarrow> string \<Rightarrow> string matched" where
  "projectSecretsMatch D = id_match D [''GET'']
     [Lit ''projects'', Par, Lit ''secrets'']"

definition projectQuotaUsageMatch :: "decoder \<Rightarrow> string \<Rightarrow> string \<Rightarrow> string matched" where
  "projectQuotaUsageMatch D = id_match D [''GET'']
     [Lit ''projects'', Par, Lit ''quota-usage'']"

definition projectUsageMatch :: "decoder \<Rightarrow> string \<Rightarrow> string \<Rightarrow> string matched" where
  "projectUsageMatch D = id_match D [''GET'']
     [Lit ''projects'', Par, Lit ''usage'']"

definition projectEnforcementReportMatch :: "decoder \<Rightarrow> string \<Rightarrow> string \<Rightarrow> string matched" where
  "projectEnforcementReportMatch D = id_match D [''GET'']
     [Lit ''projects'', Par, Lit ''enforcement-report'']"

definition projectUsageQuotaReportMatch :: "decoder \<Rightarrow> string \<Rightarrow> string \<Rightarrow> string matched" where
  "projectUsageQuotaReportMatch D = id_match D [''GET'']
     [Lit ''projects'', Par, Lit ''usage-quota'']"

definition projectBillingStatementMatch :: "decoder \<Rightarrow> string \<Rightarrow> string \<Rightarrow> string matched" where
  "projectBillingStatementMatch D = id_match D [''GET'']
     [Lit ''projects'', Par, Lit ''billing-statement'']"

definition projectBillingBudgetMatch :: "decoder \<Rightarrow> string \<Rightarrow> string \<Rightarrow> string matched" where
  "projectBillingBudgetMatch D = id_match D [''GET'']
     [Lit ''projects'', Par, Lit ''billing-budget'']"

definition organizationBillingProfileMatch :: "decoder \<Rightarrow> string \<Rightarrow> string \<Rightarrow> string matched" where
  "organizationBillingProfileMatch D = id_match D [''PUT'']
     [Lit ''organizations'', Par, Lit ''billing'']"

definition productionQuotaIncreaseMatch :: "decoder \<Rightarrow> string \<Rightarrow> string \<Rightarrow> string matched" where
  "productionQuotaIncreaseMatch D = id_match D [''POST'']
     [Lit ''organizations'', Par, Lit ''production-quota-increases'']"

definition organizationBillingStatementMatch :: "decoder \<Rightarrow> string \<Rightarrow> string \<Rightarrow> string matched" where
  "organizationBillingStatementMatch D = id_match D [''GET'']
     [Lit ''organizations'', Par, Lit ''billing-statement'']"

definition organizationCustomerAuditEventsMatch :: "decoder \<Rightarrow> string \<Rightarrow> string \<Rightarrow> string matched" where
  "organizationCustomerAuditEventsMatch D = id_match D [''GET'']
     [Lit ''organizations'', Par, Lit ''audit-events'']"

definition organizationBillingInvoicesMatch :: "decoder \<Rightarrow> string \<Rightarrow> string \<Rightarrow> string matched" where
  "organizationBillingInvoicesMatch D = id_match D [''POST'']
     [Lit ''organizations'', Par, Lit ''billing-invoices'']"

definition listOrganizationBillingInvoicesMatch :: "decoder \<Rightarrow> string \<Rightarrow> string \<Rightarrow> string matched" where
  "listOrganizationBillingInvoicesMatch D = id_match D [''GET'']
     [Lit ''organizations'', Par, Lit ''billing-invoices'']"

definition billingInvoiceMatch :: "decoder \<Rightarrow> string \<Rightarrow> string \<Rightarrow> string matched" where
  "billingInvoiceMatch D = id_match D [''GET'']
     [Lit ''billing-invoices'', Par]"

definition billingInvoiceRetentionPolicyMatch :: "decoder \<Rightarrow> string \<Rightarrow> string \<Rightarrow> string matched" where
  "billingInvoiceRetentionPolicyMatch D = id_match D [''GET'', ''PUT'']
     [Lit ''billing-invoices'', Par, Lit ''retention-policy'']"

definition billingInvoiceExportMatch :: "decoder \<Rightarrow> string \<Rightarrow> string \<Rightarrow> string matched" where
  "billingInvoiceExportMatch D = id_match D [''GET'']
     [Lit ''billing-invoices'', Par, Lit ''export'']"

definition projectCustomDomainsMatch :: "decoder \<Rightarrow> string \<Rightarrow> string \<Rightarrow> string matched" where
  "projectCustomDomainsMatch D = id_match D [''GET'']
     [Lit ''projects'', Par, Lit ''custom-domains'']"

definition projectDeployPreviewsMatch :: "decoder \<Rightarrow> string \<Rightarrow> string \<Rightarrow> string matched" where
  "projectDeployPreviewsMatch D = id_match D [''GET'']
     [Lit ''projects'', Par, Lit ''deploy-previews'']"

definition projectEdgeWorkerReleasesMatch :: "decoder \<Rightarrow> string \<Rightarrow> string \<Rightarrow> string matched" where
  "projectEdgeWorkerReleasesMatch D = id_match D [''GET'']
     [Lit ''projects'', Par, Lit ''edge-worker-releases'']"

definition edgeWorkerReleaseMatch :: "decoder \<Rightarrow> string \<Rightarrow> string \<Rightarrow> string matched" where
  "edgeWorkerReleaseMatch D = id_match D [''GET'', ''DELETE'']
     [Lit ''edge-workers'', Lit ''releases'', Par]"

definition edgeWorkerReleaseOperationsMatch :: "decoder \<Rightarrow> string \<Rightarrow> string \<Rightarrow> string matched" where
  "edgeWorkerReleaseOperationsMatch D = id_match D [''GET'']
     [Lit ''edge-workers'', Lit ''releases'', Par, Lit ''operations'']"

definition deployPreviewRollbackMatch :: "decoder \<Rightarrow> string \<Rightarrow> string \<Rightarrow> string matched" where
  "deployPreviewRollbackMatch D = id_match D [''POST'']
     [Lit ''deploy-previews'', Par, Lit ''rollback'']"

definition customDomainVerifyMatch :: "decoder \<Rightarrow> string \<Rightarrow> string \<Rightarrow> string matched" where
  "customDomainVerifyMatch D = id_match D [''POST'']
     [Lit ''custom-domains'', Par, Lit ''verify'']"

definition customDomainMatch :: "decoder \<Rightarrow> string \<Rightarrow> string \<Rightarrow> string matched" where
  "customDomainMatch D = id_match D [''DELETE'']
     [Lit ''custom-domains'', Par]"

definition customDomainTlsMatch :: "decoder \<Rightarrow> string \<Rightarrow> string \<Rightarrow> string matched" where
  "customDomainTlsMatch D = id_match D [''POST'']
     [Lit ''custom-domains'', Par, Lit ''tls'']"

definition customDomainTlsCompleteMatch :: "decoder \<Rightarrow> string \<Rightarrow> string \<Rightarrow> string matched" where
  "customDomainTlsCompleteMatch D = id_match D [''POST'']
     [Lit ''custom-domains'', Par, Lit ''tls'', Lit ''complete'']"

definition userEmailVerificationMatch :: "decoder \<Rightarrow> string \<Rightarrow> string \<Rightarrow> string matched" where
  "userEmailVerificationMatch D = id_match D [''POST'']
     [Lit ''users'', Par, Lit ''verify-email'']"

definition projectMembershipsMatch :: "decoder \<Rightarrow> string \<Rightarrow> string \<Rightarrow> string matched" where
  "projectMembershipsMatch D = id_match D [''GET'', ''POST'']
     [Lit ''projects'', Par, Lit ''memberships'']"

definition projectMembershipInviteAcceptanceMatch :: "decoder \<Rightarrow> string \<Rightarrow> string \<Rightarrow> (string \<times> string) matched" where
  "projectMembershipInviteAcceptanceMatch D = two_match D [''POST'']
     [Lit ''projects'', Par, Lit ''memberships'', Par, Lit ''accept'']"

definition projectMembershipMatch :: "decoder \<Rightarrow> string \<Rightarrow> string \<Rightarrow> (string \<times> string) matched" where
  "projectMembershipMatch D = two_match D [''PATCH'', ''DELETE'']
     [Lit ''projects'', Par, Lit ''memberships'', Par]"

definition projectApiKeysMatch :: "decoder \<Rightarrow> string \<Rightarrow> string \<Rightarrow> string matched" where
  "projectApiKeysMatch D = id_match D [''GET'']
     [Lit ''projects'', Par, Lit ''api-keys'']"

definition apiKeyRevokeMatch :: "decoder \<Rightarrow> string \<Rightarrow> string \<Rightarrow> string matched" where
  "apiKeyRevokeMatch D = id_match D [''POST'']
     [Lit ''api-keys'', Par, Lit ''revoke'']"

definition apiKeyRotateMatch :: "decoder \<Rightarrow> string \<Rightarrow> string \<Rightarrow> string matched" where
  "apiKeyRotateMatch D = id_match D [''POST'']
     [Lit ''api-keys'', Par, Lit ''rotate'']"

definition projectSettingsMatch :: "decoder \<Rightarrow> string \<Rightarrow> string \<Rightarrow> string matched" where
  "projectSettingsMatch D = id_match D [''GET'']
     [Lit ''projects'', Par, Lit ''settings'']"

definition projectCustomerAuditEventsMatch :: "decoder \<Rightarrow> string \<Rightarrow> string \<Rightarrow> string matched" where
  "projectCustomerAuditEventsMatch D = id_match D [''GET'']
     [Lit ''projects'', Par, Lit ''audit-events'']"

definition projectSqliteDatabasesMatch :: "decoder \<Rightarrow> string \<Rightarrow> string \<Rightarrow> string matched" where
  "projectSqliteDatabasesMatch D = id_match D [''GET'', ''POST'']
     [Lit ''projects'', Par, Lit ''sqlite-databases'']"

definition sqliteDatabaseMatch :: "decoder \<Rightarrow> string \<Rightarrow> string \<Rightarrow> string matched" where
  "sqliteDatabaseMatch D = id_match D [''GET'']
     [Lit ''sqlite-databases'', Par]"

definition sqliteDatabaseBackupsMatch :: "decoder \<Rightarrow> string \<Rightarrow> string \<Rightarrow> string matched" where
  "sqliteDatabaseBackupsMatch D = id_match D [''GET'', ''POST'']
     [Lit ''sqlite-databases'', Par, Lit ''backups'']"

definition sqliteDatabaseBackupsGcMatch :: "decoder \<Rightarrow> string \<Rightarrow> string \<Rightarrow> string matched" where
  "sqliteDatabaseBackupsGcMatch D = id_match D [''POST'']
     [Lit ''sqlite-databases'', Par, Lit ''backups'', Lit ''gc'']"

definition sqliteDatabaseRestoresMatch :: "decoder \<Rightarrow> string \<Rightarrow> string \<Rightarrow> string matched" where
  "sqliteDatabaseRestoresMatch D = id_match D [''POST'']
     [Lit ''sqlite-databases'', Par, Lit ''restores'']"

definition secretMatch :: "decoder \<Rightarrow> string \<Rightarrow> string \<Rightarrow> string matched" where
  "secretMatch D = id_match D [''GET'', ''PUT'', ''DELETE'']
     [Lit ''secrets'', Par]"

definition projectKvNamespacesMatch :: "decoder \<Rightarrow> string \<Rightarrow> string \<Rightarrow> string matched" where
  "projectKvNamespacesMatch D = id_match D [''GET'']
     [Lit ''projects'', Par, Lit ''kv-namespaces'']"

definition kvNamespaceMatch :: "decoder \<Rightarrow> string \<Rightarrow> string \<Rightarrow> string matched" where
  "kvNamespaceMatch D = id_match D [''GET'', ''DELETE'']
     [Lit ''kv-namespaces'', Par]"

definition projectDurableObjectNamespacesMatch :: "decoder \<Rightarrow> string \<Rightarrow> string \<Rightarrow> string matched" where
  "projectDurableObjectNamespacesMatch D = id_match D [''GET'']
     [Lit ''projects'', Par, Lit ''durable-object-namespaces'']"

definition alarmDemoObjectMatch :: "decoder \<Rightarrow> string \<Rightarrow> string \<Rightarrow> string matched" where
  "alarmDemoObjectMatch D = id_match D [''GET'']
     [Lit ''alarm-demo'', Lit ''objects'', Par]"

definition durableObjectNamespaceMatch :: "decoder \<Rightarrow> string \<Rightarrow> string \<Rightarrow> string matched" where
  "durableObjectNamespaceMatch D = id_match D [''GET'', ''DELETE'']
     [Lit ''durable-object-namespaces'', Par]"

subsection \<open>The chain\<close>

definition on_path :: "bool \<Rightarrow> endpoint \<Rightarrow> endpoint matched \<Rightarrow> endpoint matched" where
  "on_path here e next = (if here then Inr (Some e) else next)"

definition on_match :: "'a matched \<Rightarrow> ('a \<Rightarrow> endpoint option) \<Rightarrow> endpoint matched \<Rightarrow> endpoint matched" where
  "on_match r f next = bindE r (\<lambda>x. case Option.bind x f of None \<Rightarrow> next | Some e \<Rightarrow> Inr (Some e))"

definition admin_routes :: "decoder \<Rightarrow> string \<Rightarrow> string \<Rightarrow> endpoint matched \<Rightarrow> endpoint matched" where
  "admin_routes D m p next =
     on_path (m = ''GET'' \<and> p = ''/ops/config'') (Admin HOpsConfig) (
     on_path (m = ''GET'' \<and> p = ''/admin'') (Admin HAdminPage) (
     on_match (projectSettingsMatch D m p)
       (\<lambda>x. Some (Admin (HProjectSettings x))) (
     on_match (projectCustomerAuditEventsMatch D m p)
       (\<lambda>x. Some (Admin (HProjectAuditEvents x))) (
     on_path (m = ''POST'' \<and> p = ''/admin/routes/canary'') (Admin HAdminCanary) (
     on_path (m = ''POST'' \<and> p = ''/admin/routes/rollback'') (Admin HAdminRollback) (
     on_path (m = ''POST'' \<and> p = ''/admin/runtime-nodes/status'') (Admin HAdminNodeStatus) (
     on_path (m = ''POST'' \<and> p = ''/admin/runtime-nodes/gc'') (Admin HAdminNodeGc) (
     next))))))))"

definition organization_routes :: "decoder \<Rightarrow> string \<Rightarrow> string \<Rightarrow> endpoint matched \<Rightarrow> endpoint matched" where
  "organization_routes D m p next =
     on_path (m = ''POST'' \<and> p = ''/organizations'') (Account HCreateOrganization) (
     on_match (productionQuotaIncreaseMatch D m p)
       (\<lambda>x. Some (Account (HRequestQuotaIncrease x))) (
     on_match (organizationBillingProfileMatch D m p)
       (\<lambda>x. Some (Account (HUpdateOrganizationBilling x))) (
     on_match (organizationBillingStatementMatch D m p)
       (\<lambda>x. Some (Account (HOrganizationBillingStatement x))) (
     on_match (organizationCustomerAuditEventsMatch D m p)
       (\<lambda>x. Some (Account (HOrganizationAuditEvents x))) (
     on_match (listOrganizationBillingInvoicesMatch D m p)
       (\<lambda>x. Some (Account (HListBillingInvoices x))) (
     on_match (organizationBillingInvoicesMatch D m p)
       (\<lambda>x. Some (Account (HIssueBillingInvoice x))) (
     on_path (m = ''POST'' \<and> p = ''/users'') (Account HCreateUser) (
     on_match (userEmailVerificationMatch D m p)
       (\<lambda>x. Some (Account (HVerifyUserEmail x))) (
     on_path (m = ''POST'' \<and> p = ''/api-keys'') (Account HCreateApiKey) (
     on_match (apiKeyRevokeMatch D m p)
       (\<lambda>x. Some (Account (HRevokeApiKey x))) (
     on_match (apiKeyRotateMatch D m p)
       (\<lambda>x. Some (Account (HRotateApiKey x))) (
     on_path (m = ''POST'' \<and> p = ''/beta/onboardings'') (Account HCreateBetaOnboarding) (
     on_path (m = ''POST'' \<and> p = ''/usage/events'') (Account HRecordUsageEvent) (
     next))))))))))))))"

definition release_routes :: "decoder \<Rightarrow> string \<Rightarrow> string \<Rightarrow> endpoint matched \<Rightarrow> endpoint matched" where
  "release_routes D m p next =
     on_path (m = ''POST'' \<and> p = ''/custom-domains'') (Release HCreateCustomDomain) (
     on_path (m = ''POST'' \<and> p = ''/deploy-previews'') (Release HCreateDeployPreview) (
     on_path (m = ''POST'' \<and> p = ''/edge-workers/releases'') (Release HCreateEdgeWorkerRelease) (
     on_path (m = ''POST'' \<and> p = ''/projects'') (Release HCreateProject) (
     on_match (projectCustomDomainsMatch D m p)
       (\<lambda>x. Some (Release (HListCustomDomains x))) (
     on_match (projectDeployPreviewsMatch D m p)
       (\<lambda>x. Some (Release (HListDeployPreviews x))) (
     on_match (projectEdgeWorkerReleasesMatch D m p)
       (\<lambda>x. Some (Release (HListEdgeWorkerReleases x))) (
     on_match (edgeWorkerReleaseMatch D m p)
       (\<lambda>x. if m = ''GET'' then Some (Release (HGetEdgeWorkerRelease x)) else if m = ''DELETE'' then Some (Release (HDeleteEdgeWorkerRelease x)) else None) (
     on_match (edgeWorkerReleaseOperationsMatch D m p)
       (\<lambda>x. Some (Release (HListEdgeWorkerOperations x))) (
     on_path (m = ''POST'' \<and> p = ''/edge-workers/releases/operations/deliver'') (Release HDeliverEdgeWorkerOperations) (
     on_match (deployPreviewRollbackMatch D m p)
       (\<lambda>x. Some (Release (HRollbackDeployPreview x))) (
     bindE (customDomainVerifyMatch D m p) (\<lambda>customDomainVerify.
     bindE (customDomainMatch D m p) (\<lambda>customDomain.
     on_match (Inr customDomain)
       (\<lambda>x. Some (Release (HDeleteCustomDomain x))) (
     on_match (Inr customDomainVerify)
       (\<lambda>x. Some (Release (HVerifyCustomDomain x))) (
     on_match (customDomainTlsMatch D m p)
       (\<lambda>x. Some (Release (HRequestCustomDomainTls x))) (
     on_match (customDomainTlsCompleteMatch D m p)
       (\<lambda>x. Some (Release (HCompleteCustomDomainTls x))) (
     next)))))))))))))))))"

definition project_routes :: "decoder \<Rightarrow> string \<Rightarrow> string \<Rightarrow> endpoint matched \<Rightarrow> endpoint matched" where
  "project_routes D m p next =
     bindE (projectMembershipsMatch D m p) (\<lambda>projectMemberships.
     bindE (projectMembershipInviteAcceptanceMatch D m p) (\<lambda>projectMembershipInviteAcceptance.
     bindE (projectMembershipMatch D m p) (\<lambda>projectMembership.
     on_match (Inr projectMembershipInviteAcceptance)
       (\<lambda>(pid, uid). Some (InProject (HAcceptMembershipInvite pid uid))) (
     on_match (Inr projectMembership)
       (\<lambda>(pid, uid). if m = ''PATCH'' then Some (InProject (HUpdateMembershipRole pid uid)) else if m = ''DELETE'' then Some (InProject (HRemoveMembership pid uid)) else None) (
     on_match (Inr projectMemberships)
       (\<lambda>x. if m = ''POST'' then Some (InProject (HAddMembership x)) else if m = ''GET'' then Some (InProject (HListMemberships x)) else None) (
     on_match (projectApiKeysMatch D m p)
       (\<lambda>x. Some (InProject (HListApiKeys x))) (
     on_match (projectSqliteDatabasesMatch D m p)
       (\<lambda>x. if m = ''POST'' then Some (InProject (HEnsureSqliteDatabase x)) else if m = ''GET'' then Some (InProject (HListProjectSqliteDatabases x)) else None) (
     bindE (sqliteDatabaseBackupsMatch D m p) (\<lambda>sqliteDatabaseBackups.
     bindE (sqliteDatabaseBackupsGcMatch D m p) (\<lambda>sqliteDatabaseBackupsGc.
     on_match (Inr sqliteDatabaseBackupsGc)
       (\<lambda>x. Some (InProject (HPruneSqliteBackups x))) (
     on_match (Inr sqliteDatabaseBackups)
       (\<lambda>x. if m = ''POST'' then Some (InProject (HCreateSqliteBackup x)) else if m = ''GET'' then Some (InProject (HListSqliteBackups x)) else None) (
     on_match (sqliteDatabaseRestoresMatch D m p)
       (\<lambda>x. Some (InProject (HRestoreSqliteDatabase x))) (
     on_match (sqliteDatabaseMatch D m p)
       (\<lambda>x. Some (InProject (HGetSqliteDatabase x))) (
     on_path (m = ''GET'' \<and> p = ''/sqlite-databases'') (InProject HListSqliteDatabases) (
     next)))))))))))))))"

definition usage_routes :: "decoder \<Rightarrow> string \<Rightarrow> string \<Rightarrow> endpoint matched \<Rightarrow> endpoint matched" where
  "usage_routes D m p next =
     on_match (projectQuotaUsageMatch D m p)
       (\<lambda>x. Some (Metering (HProjectQuotaUsage x))) (
     on_match (projectUsageMatch D m p)
       (\<lambda>x. Some (Metering (HProjectUsage x))) (
     on_match (projectEnforcementReportMatch D m p)
       (\<lambda>x. Some (Metering (HProjectEnforcementReport x))) (
     on_match (projectUsageQuotaReportMatch D m p)
       (\<lambda>x. Some (Metering (HProjectUsageQuotaReport x))) (
     on_match (projectBillingStatementMatch D m p)
       (\<lambda>x. Some (Metering (HProjectBillingStatement x))) (
     on_match (projectBillingBudgetMatch D m p)
       (\<lambda>x. Some (Metering (HProjectBillingBudget x))) (
     on_path (m = ''POST'' \<and> p = ''/artifacts'') (Metering HCreateArtifact) (
     on_match (billingInvoiceRetentionPolicyMatch D m p)
       (\<lambda>x. if m = ''GET'' then Some (Metering (HGetInvoiceRetention x)) else if m = ''PUT'' then Some (Metering (HSetInvoiceRetention x)) else None) (
     on_path (m = ''POST'' \<and> p = ''/billing-invoices/retention/prune'') (Metering HPruneInvoices) (
     on_match (billingInvoiceMatch D m p)
       (\<lambda>x. Some (Metering (HGetInvoice x))) (
     on_match (billingInvoiceExportMatch D m p)
       (\<lambda>x. Some (Metering (HExportInvoice x))) (
     on_path (m = ''POST'' \<and> p = ''/artifacts/local'') (Metering HUploadArtifact) (
     next))))))))))))"

definition resource_routes :: "decoder \<Rightarrow> string \<Rightarrow> string \<Rightarrow> endpoint matched \<Rightarrow> endpoint matched" where
  "resource_routes D m p next =
     on_path (m = ''POST'' \<and> p = ''/secrets'') (Binding HCreateSecret) (
     on_match (projectSecretsMatch D m p)
       (\<lambda>x. Some (Binding (HListSecrets x))) (
     on_match (secretMatch D m p)
       (\<lambda>x. if m = ''GET'' then Some (Binding (HGetSecret x)) else if m = ''PUT'' then Some (Binding (HUpdateSecret x)) else if m = ''DELETE'' then Some (Binding (HDeleteSecret x)) else None) (
     on_path (m = ''POST'' \<and> p = ''/kv-namespaces'') (Binding HCreateKvNamespace) (
     on_match (projectKvNamespacesMatch D m p)
       (\<lambda>x. Some (Binding (HListKvNamespaces x))) (
     on_match (kvNamespaceMatch D m p)
       (\<lambda>x. if m = ''GET'' then Some (Binding (HGetKvNamespace x)) else if m = ''DELETE'' then Some (Binding (HDeleteKvNamespace x)) else None) (
     on_path (m = ''POST'' \<and> p = ''/alarm-demo/schedules'') (Binding HScheduleAlarmDemo) (
     on_match (alarmDemoObjectMatch D m p)
       (\<lambda>x. Some (Binding (HAlarmDemoObject x))) (
     on_path (m = ''POST'' \<and> p = ''/durable-object-namespaces'') (Binding HCreateDurableObjectNamespace) (
     on_match (projectDurableObjectNamespacesMatch D m p)
       (\<lambda>x. Some (Binding (HListDurableObjectNamespaces x))) (
     on_match (durableObjectNamespaceMatch D m p)
       (\<lambda>x. if m = ''GET'' then Some (Binding (HGetDurableObjectNamespace x)) else if m = ''DELETE'' then Some (Binding (HDeleteDurableObjectNamespace x)) else None) (
     next)))))))))))"

definition runtime_routes :: "decoder \<Rightarrow> string \<Rightarrow> string \<Rightarrow> endpoint matched \<Rightarrow> endpoint matched" where
  "runtime_routes D m p next =
     on_path (m = ''POST'' \<and> p = ''/deployments'') (Serving HCreateDeployment) (
     on_path (m = ''PUT'' \<and> p = ''/routes'') (Serving HPointRoute) (
     on_path (m = ''POST'' \<and> p = ''/routes/canary'') (Serving HStartRouteCanary) (
     on_path (m = ''POST'' \<and> p = ''/routes/canary/analyze'') (Serving HAnalyzeRouteCanary) (
     on_path (m = ''POST'' \<and> p = ''/routes/rollback'') (Serving HRollbackRoute) (
     on_path (m = ''GET'' \<and> p = ''/canary-decisions'') (Serving HListCanaryDecisions) (
     on_path (m = ''POST'' \<and> p = ''/runtime-nodes'') (Serving HRegisterRuntimeNode) (
     on_match (runtimeNodeHeartbeatMatch D m p)
       (\<lambda>x. Some (Serving (HNodeHeartbeat x))) (
     on_match (runtimeNodeStatusMatch D m p)
       (\<lambda>x. Some (Serving (HNodeStatus x))) (
     on_path (m = ''POST'' \<and> p = ''/runtime-nodes/gc'') (Serving HCleanupNodes) (
     on_path (m = ''GET'' \<and> p = ''/runtime-nodes'') (Serving HListNodes) (
     on_path (m = ''GET'' \<and> p = ''/autoscaling/signals'') (Serving HAutoscalingSignals) (
     on_match (runtimeNodeLogsMatch D m p)
       (\<lambda>x. Some (Serving (HNodeLogs x))) (
     on_path (m = ''GET'' \<and> p = ''/snapshots/routes'') (Serving HRouteSnapshot) (
     on_path (m = ''POST'' \<and> p = ''/snapshots/routes/publish'') (Serving HPublishSnapshot) (
     on_path (m = ''GET'' \<and> p = ''/snapshots/routes/publishes'') (Serving HListPublications) (
     on_path (m = ''PUT'' \<and> p = ''/replication/snapshots/routes'') (Serving HApplyReplicatedSnapshot) (
     on_path (m = ''GET'' \<and> p = ''/replication/snapshots/routes'') (Serving HReadReplicatedSnapshot) (
     next))))))))))))))))))"

definition dispatch :: "decoder \<Rightarrow> string \<Rightarrow> string \<Rightarrow> endpoint matched" where
  "dispatch D m p =
     admin_routes D m p (
     organization_routes D m p (
     release_routes D m p (
     project_routes D m p (
     usage_routes D m p (
     resource_routes D m p (
     runtime_routes D m p (
     Inr None)))))))"

end
