(* ===== verification/HttpAuth.thy ===== *)
theory HttpAuth
  imports HttpRoutes
begin

text \<open>
  Who may call what: the tokens of \<open>control-plane/authz.ts\<close>, the scope a request needs and its
  authorization in \<open>http/app.ts\<close>. A database key is authenticated by the control plane, which notes
  when it was last used.
\<close>

subsection \<open>Tokens\<close>

text \<open>Of an \<open>ApiToken\<close> the fields that the HTTP application reads.\<close>

record HttpToken =
  ht_token :: string
  ht_scopes :: "ApiScope list"
  ht_principal :: string

definition api_scope_of :: "string \<Rightarrow> ApiScope option" where
  "api_scope_of s = (if s = ''*'' then Some AllScopes else if s = ''read'' then Some Read
     else if s = ''write'' then Some Write else if s = ''publish'' then Some Publish else None)"

definition tokenAllows :: "HttpToken \<Rightarrow> ApiScope \<Rightarrow> bool" where
  "tokenAllows t scope \<longleftrightarrow> AllScopes \<in> set (ht_scopes t) \<or> scope \<in> set (ht_scopes t)"

text \<open>One entry \<open>token=scope,scope\<close> of \<open>ODENCTL_API_TOKENS\<close>.\<close>

definition parse_token_entry :: "string \<Rightarrow> HttpToken list" where
  "parse_token_entry entry = (case split_on (CHR ''='') entry of
       token # scopesText # _ \<Rightarrow>
         if token = [] \<or> scopesText = [] then [] else
         let scopes = List.map_filter api_scope_of (map trim (split_on (CHR '','') scopesText)) in
         if trim token \<noteq> [] \<and> scopes \<noteq> []
         then [\<lparr>ht_token = trim token, ht_scopes = scopes, ht_principal = ''token:'' @ trim token\<rparr>] else []
     | _ \<Rightarrow> [])"

definition parseApiTokens :: "(string \<Rightarrow> string option) \<Rightarrow> HttpToken list" where
  "parseApiTokens env =
     (case env ''ODENCTL_API_TOKEN'' of
        Some t \<Rightarrow> if trim t \<noteq> [] then [\<lparr>ht_token = trim t, ht_scopes = [AllScopes], ht_principal = ''legacy''\<rparr>] else []
      | None \<Rightarrow> [])
     @ (case truthy_string (env ''ODENCTL_API_TOKENS'') of
          Some scoped \<Rightarrow> concat (map parse_token_entry (split_on (CHR '';'') scoped))
        | None \<Rightarrow> [])"

subsection \<open>Requests and the options of the application\<close>

text \<open>
  \<open>hq_url\<close> is what \<open>new URL\<close> gives, the path and the query, \<open>None\<close> when it throws; \<open>hq_authorization\<close>
  is \<open>firstHeader\<close> of the header.
\<close>

record HttpRequest =
  hq_method :: string
  hq_url :: "(string \<times> (string \<times> string) list) option"
  hq_authorization :: "string option"
  hq_body :: string

record HttpOptions =
  ho_apiToken :: "string option"
  ho_apiTokens :: "HttpToken list"
  ho_alarmDemoWebhookToken :: "string option"
  ho_auditSink :: bool

text \<open>
  The platform of one request: \<open>decodeURIComponent\<close>, \<open>JSON.parse\<close>, \<open>URLSearchParams\<close> and \<open>Number\<close>, and
  the environment of each call of the control plane, the first for the authorization.
\<close>

record HttpPlatform =
  hp_decode :: decoder
  hp_jsonParse :: "string \<Rightarrow> json option"
  hp_formParse :: "string \<Rightarrow> (string \<times> string) list"
  hp_number :: "string \<Rightarrow> json"
  hp_env :: "nat \<Rightarrow> Env"

definition configuredApiTokens :: "HttpOptions \<Rightarrow> HttpToken list" where
  "configuredApiTokens opts =
     (case truthy_string (ho_apiToken opts) of None \<Rightarrow> []
        | Some t \<Rightarrow> [\<lparr>ht_token = t, ht_scopes = [AllScopes], ht_principal = ''legacy''\<rparr>])
     @ ho_apiTokens opts"

subsection \<open>Scopes\<close>

definition bodyHasMode :: "json option \<Rightarrow> string \<Rightarrow> bool" where
  "bodyHasMode body mode = (case body of Some (JObj r) \<Rightarrow> map_of r ''mode'' = Some (JStr mode) | _ \<Rightarrow> False)"

definition requiredScopeFor :: "string \<Rightarrow> string \<Rightarrow> json option \<Rightarrow> ApiScope" where
  "requiredScopeFor m p body =
     (if m = ''POST'' \<and> p = ''/edge-workers/releases'' \<and> bodyHasMode body ''api'' then Publish
      else if m = ''DELETE'' \<and> path_match [Lit ''edge-workers'', Lit ''releases'', Par] p \<noteq> None then Publish
      else if m = ''POST'' \<and> p = ''/edge-workers/releases/operations/deliver'' then Publish
      else if (m = ''POST'' \<and> p = ''/snapshots/routes/publish'')
        \<or> (m = ''PUT'' \<and> p = ''/replication/snapshots/routes'') then Publish
      else if m = ''GET'' then Read else Write)"

subsection \<open>Authorization\<close>

datatype AuthorizationResult = Allowed "HttpToken option" | Denied int string string

fun scope_name :: "ApiScope \<Rightarrow> string" where
  "scope_name AllScopes = ''*''"
| "scope_name Read = ''read''"
| "scope_name Write = ''write''"
| "scope_name Publish = ''publish''"

definition of_api_token :: "ApiToken \<Rightarrow> HttpToken" where
  "of_api_token t = \<lparr>ht_token = tok_token t, ht_scopes = tok_scopes t, ht_principal = tok_principal t\<rparr>"

definition authenticateDbApiToken :: "Env \<Rightarrow> string \<Rightarrow> HttpToken option service" where
  "authenticateDbApiToken E bearer =
     bindS (authenticateApiToken E (JStr bearer)) (\<lambda>t. pureS (map_option of_api_token t))"

definition bearer_of :: "string option \<Rightarrow> string option" where
  "bearer_of authorization = truthy_string (case authorization of
       Some a \<Rightarrow> if startsWith a ''Bearer '' then Some (drop 7 a) else None
     | None \<Rightarrow> None)"

definition find_token :: "Env \<Rightarrow> HttpToken list \<Rightarrow> string option \<Rightarrow> HttpToken option service" where
  "find_token E tokens bearer = (case bearer of
       None \<Rightarrow> pureS None
     | Some b \<Rightarrow> (case find (\<lambda>t. ht_token t = b) tokens of
           Some t \<Rightarrow> pureS (Some t)
         | None \<Rightarrow> authenticateDbApiToken E b))"

definition authorizeRequest :: "Env \<Rightarrow> HttpOptions \<Rightarrow> string option \<Rightarrow> ApiScope \<Rightarrow> AuthorizationResult service" where
  "authorizeRequest E opts authorization scope =
     (let tokens = configuredApiTokens opts in
      if tokens = [] then pureS (Allowed None)
      else bindS (find_token E tokens (bearer_of authorization)) (\<lambda>t. pureS (case t of
          None \<Rightarrow> Denied 401 ''unauthorized'' ''missing or invalid bearer token''
        | Some t \<Rightarrow>
            if \<not> tokenAllows t scope
            then Denied 403 ''forbidden'' (''bearer token is missing '' @ scope_name scope @ '' scope'')
            else Allowed (Some t))))"

definition authorizeAlarmDemoWebhook :: "HttpOptions \<Rightarrow> string option \<Rightarrow> bool" where
  "authorizeAlarmDemoWebhook opts authorization = (case truthy_string (ho_alarmDemoWebhookToken opts) of
       None \<Rightarrow> False
     | Some t \<Rightarrow> authorization = Some (''Bearer '' @ t))"

end
