(* ===== verification/Reads.thy ===== *)
theory Reads
  imports Delivery
begin

text \<open>
  The operations of \<open>control-plane/service.ts\<close> that only read, and \<open>createBetaOnboarding\<close>, which calls
  five of the others in a row. The lists of \<open>control-plane/repository.ts\<close> that \<open>Repository\<close> leaves out
  are the newest first.
\<close>

subsection \<open>Lists, newest first\<close>

definition newest_first :: "('a \<Rightarrow> string \<times> string) \<Rightarrow> 'a list \<Rightarrow> 'a list" where
  "newest_first key = js_sort (\<lambda>a b. text2_le (key b) (key a))"

definition repo_listProjectApiKeys :: "Db \<Rightarrow> string \<Rightarrow> ApiKey list" where
  "repo_listProjectApiKeys s pid = newest_first (\<lambda>k. (key_createdAt k, key_id k))
     (filter (\<lambda>k. key_projectId k = Some pid) (map fst (db_apiKeys s)))"

definition repo_listProjectCustomerAuditEvents :: "Db \<Rightarrow> string \<Rightarrow> AuditEvent list" where
  "repo_listProjectCustomerAuditEvents s pid = newest_first (\<lambda>e. (aud_createdAt e, aud_id e))
     (filter (\<lambda>e. aud_projectId e = Some pid) (db_audit s))"

definition repo_listOrganizationCustomerAuditEvents :: "Db \<Rightarrow> string \<Rightarrow> AuditEvent list" where
  "repo_listOrganizationCustomerAuditEvents s oid = newest_first (\<lambda>e. (aud_createdAt e, aud_id e))
     (filter (\<lambda>e. aud_organizationId e = Some oid) (db_audit s))"

definition repo_listProjectDeployPreviews :: "Db \<Rightarrow> string \<Rightarrow> DeployPreview list" where
  "repo_listProjectDeployPreviews s pid = newest_first (\<lambda>p. (prv_createdAt p, prv_id p))
     (filter (\<lambda>p. prv_projectId p = pid) (db_previews s))"

definition repo_listCanaryDecisions :: "Db \<Rightarrow> CanaryDecision list" where
  "repo_listCanaryDecisions s = newest_first (\<lambda>d. (can_createdAt d, can_id d)) (db_canary s)"

subsection \<open>Reads of a project or an organization that must exist\<close>

definition in_project :: "string \<Rightarrow> (Db \<Rightarrow> 'a) \<Rightarrow> 'a service" where
  "in_project pid f = bindS (readS (requireProject pid)) (\<lambda>_. askS f)"

definition in_organization :: "string \<Rightarrow> (Db \<Rightarrow> 'a) \<Rightarrow> 'a service" where
  "in_organization oid f = bindS (readS (requireOrganization oid)) (\<lambda>_. askS f)"

definition service_getProject :: "string \<Rightarrow> Project service" where
  "service_getProject pid = readS (requireProject pid)"

definition service_listProjectCustomerAuditEvents :: "string \<Rightarrow> AuditEvent list service" where
  "service_listProjectCustomerAuditEvents pid = in_project pid (\<lambda>s. repo_listProjectCustomerAuditEvents s pid)"

definition service_listOrganizationCustomerAuditEvents :: "string \<Rightarrow> AuditEvent list service" where
  "service_listOrganizationCustomerAuditEvents oid =
     in_organization oid (\<lambda>s. repo_listOrganizationCustomerAuditEvents s oid)"

definition service_listProjectMemberships :: "string \<Rightarrow> ProjectMembership list service" where
  "service_listProjectMemberships pid = in_project pid (\<lambda>s. listProjectMemberships s pid)"

definition service_listProjectApiKeys :: "string \<Rightarrow> ApiKey list service" where
  "service_listProjectApiKeys pid = in_project pid (\<lambda>s. repo_listProjectApiKeys s pid)"

definition service_listProjectCustomDomains :: "string \<Rightarrow> CustomDomain list service" where
  "service_listProjectCustomDomains pid = in_project pid (\<lambda>s. listProjectCustomDomains s pid)"

definition service_listProjectDeployPreviews :: "string \<Rightarrow> DeployPreview list service" where
  "service_listProjectDeployPreviews pid = in_project pid (\<lambda>s. repo_listProjectDeployPreviews s pid)"

definition service_getProjectUsage :: "string \<Rightarrow> ProjectResourceUsage service" where
  "service_getProjectUsage pid = in_project pid (\<lambda>s. getProjectUsage s pid)"

definition service_getProjectArtifactByDigest :: "string \<Rightarrow> json \<Rightarrow> Artifact option service" where
  "service_getProjectArtifactByDigest pid digest =
     bindS (readS (requireProject pid)) (\<lambda>_.
     bindS (liftS (normalizeDigest digest)) (\<lambda>d. askS (\<lambda>s. getArtifactByProjectDigest s pid d)))"

definition service_getSecret :: "string \<Rightarrow> Resource service" where
  "service_getSecret rid = readS (requireSecret rid)"

definition service_listProjectSecrets :: "string \<Rightarrow> Resource list service" where
  "service_listProjectSecrets pid = in_project pid (\<lambda>s. listProjectSecrets s pid)"

definition service_getKvNamespace :: "string \<Rightarrow> Resource service" where
  "service_getKvNamespace rid = readS (requireKvNamespace rid)"

definition service_listProjectKvNamespaces :: "string \<Rightarrow> Resource list service" where
  "service_listProjectKvNamespaces pid = in_project pid (\<lambda>s. listProjectKvNamespaces s pid)"

definition service_getDurableObjectNamespace :: "string \<Rightarrow> Resource service" where
  "service_getDurableObjectNamespace rid = readS (requireDurableObjectNamespace rid)"

definition service_listProjectDurableObjectNamespaces :: "string \<Rightarrow> Resource list service" where
  "service_listProjectDurableObjectNamespaces pid = in_project pid (\<lambda>s. listProjectDurableObjectNamespaces s pid)"

definition service_listRuntimeNodes :: "RuntimeNode list service" where
  "service_listRuntimeNodes = askS listRuntimeNodes"

definition service_listCanaryDecisions :: "CanaryDecision list service" where
  "service_listCanaryDecisions = askS repo_listCanaryDecisions"

subsection \<open>Onboarding\<close>

record BetaOnboardingInput =
  boi_organizationId :: json
  boi_organizationName :: json
  boi_userId :: json
  boi_userEmail :: json
  boi_userName :: json
  boi_projectId :: json
  boi_projectName :: json
  boi_role :: json
  boi_apiKeyId :: json
  boi_apiKeyName :: json
  boi_scopes :: json
  boi_defaultHost :: "string option"

record BetaOnboarding =
  bon_organization :: Organization
  bon_user :: User
  bon_project :: Project
  bon_membership :: ProjectMembership
  bon_apiKey :: ApiKey
  bon_token :: string
  bon_checklist :: "(string \<times> bool) list"
  bon_host :: string

text \<open>Of the checklist the ids and the outcomes, of the next steps the host.\<close>

definition betaOnboardingBundle :: "Organization \<Rightarrow> User \<Rightarrow> Project \<Rightarrow> ProjectMembership
    \<Rightarrow> ApiKey \<times> string \<Rightarrow> string option \<Rightarrow> BetaOnboarding cp" where
  "betaOnboardingBundle org user project m key defaultHost =
     bindE (case truthy_string defaultHost of Some h \<Rightarrow> normalizeHost (JStr h)
        | None \<Rightarrow> Inr (prj_id project @ ''.oden.local'')) (\<lambda>host.
     Inr \<lparr>bon_organization = org, bon_user = user, bon_project = project, bon_membership = m,
       bon_apiKey = fst key, bon_token = snd key,
       bon_checklist = [(''organization'', True), (''user'', True), (''project'', True),
         (''owner-membership'', True), (''owner-invite-accepted'', mem_inviteStatus m = Accepted),
         (''owner-email-verified'', truthy_string (user_emailVerifiedAt user) \<noteq> None), (''deploy-key'', True),
         (''first-deploy'', False), (''usage-review'', False), (''billing-review'', False)],
       bon_host = host\<rparr>)"

text \<open>\<open>??\<close>: \<open>null\<close> and \<open>undefined\<close> are replaced. Each of the five calls has its own environment.\<close>

definition createBetaOnboarding :: "(nat \<Rightarrow> Env) \<Rightarrow> BetaOnboardingInput \<Rightarrow> BetaOnboarding service" where
  "createBetaOnboarding E i =
     bindS (createOrganization (E 1) \<lparr>coi_id = boi_organizationId i, coi_name = boi_organizationName i,
       coi_billingProvider = JUndefined, coi_billingCustomerId = JUndefined, coi_paymentStatus = JUndefined,
       coi_billingEmail = JUndefined\<rparr>) (\<lambda>org.
     bindS (createUser (E 2) \<lparr>cui_id = boi_userId i, cui_email = boi_userEmail i, cui_name = boi_userName i,
       cui_emailVerifiedAt = JUndefined\<rparr>) (\<lambda>user.
     bindS (createProject (E 3) \<lparr>cpi_id = boi_projectId i, cpi_organizationId = Some (org_id org),
       cpi_name = boi_projectName i\<rparr>) (\<lambda>project.
     bindS (addProjectMembership (E 4) (prj_id project) (user_id user)
       (nullish (boi_role i) (JStr ''owner''))) (\<lambda>m.
     bindS (createApiKey (E 5) \<lparr>cki_id = boi_apiKeyId i, cki_organizationId = None,
       cki_projectId = Some (prj_id project), cki_name = nullish (boi_apiKeyName i) (JStr ''Beta deploy key''),
       cki_scopes = nullish (boi_scopes i) (JArr [JStr ''read'', JStr ''write'', JStr ''publish''])\<rparr>) (\<lambda>key.
     liftS (betaOnboardingBundle org user project m key (boi_defaultHost i)))))))"

end
