(* ===== verification/HttpApp.thy ===== *)
theory HttpApp
  imports HttpAuth Reads Autoscaling
begin

text \<open>
  The handlers of \<open>createHttpApp\<close> in \<open>http/app.ts\<close>: what each reads from the request, which operation
  of the control plane it calls with it, and what it answers; then the whole of one request, from the
  address to the audit record. An answer is its status and the value that is serialised.

  A computation may have no value: then the request leaves the model. That happens in the handlers that
  this theory does not call (billing, usage, edge workers, volumes, artifacts, pages, the network; the
  operations of several have theories of their own), and when a field of the body that the code passes on as
  an id is not a string: the code has no check there, and what happens is up to the database driver, which
  refuses objects and compares numbers as texts.
\<close>

subsection \<open>Computations of a handler\<close>

type_synonym 'a http = "Db \<Rightarrow> (Db \<times> (failure + 'a)) option"

definition okH :: "'a \<Rightarrow> 'a http" where
  "okH x s = Some (s, Inr x)"

definition failH :: "failure \<Rightarrow> 'a http" where
  "failH e s = Some (s, Inl e)"

definition outside :: "'a http" where
  "outside s = None"

definition liftH :: "failure + 'a \<Rightarrow> 'a http" where
  "liftH r s = Some (s, r)"

definition bindH :: "'a http \<Rightarrow> ('a \<Rightarrow> 'b http) \<Rightarrow> 'b http" where
  "bindH m f s = (case m s of
       None \<Rightarrow> None | Some (s', Inl e) \<Rightarrow> Some (s', Inl e) | Some (s', Inr x) \<Rightarrow> f x s')"

definition callH :: "'a service \<Rightarrow> 'a http" where
  "callH m s = (case m s of (s', Inl e) \<Rightarrow> Some (s', Inl (Rejected e)) | (s', Inr x) \<Rightarrow> Some (s', Inr x))"

subsection \<open>Reading the request\<close>

definition readJson :: "HttpPlatform \<Rightarrow> HttpRequest \<Rightarrow> failure + json" where
  "readJson P q = (if trim (hq_body q) = [] then Inr (JObj [])
     else case hp_jsonParse P (hq_body q) of None \<Rightarrow> Inl EngineError | Some v \<Rightarrow> Inr v)"

definition readForm :: "HttpPlatform \<Rightarrow> HttpRequest \<Rightarrow> (string \<times> string) list" where
  "readForm P q = hp_formParse P (hq_body q)"

text \<open>
  The fields of an operation's argument: reading a property of \<open>null\<close> throws, other values that are not
  objects have none of the properties that are read. In a spread \<open>null\<close> has none either.
\<close>

definition argument :: "json \<Rightarrow> failure + (string \<times> json) list" where
  "argument v = (case v of JObj r \<Rightarrow> Inr r | JNull \<Rightarrow> Inl EngineError | JUndefined \<Rightarrow> Inl EngineError | _ \<Rightarrow> Inr [])"

definition spread :: "json \<Rightarrow> failure + (string \<times> json) list" where
  "spread v = Inr (case v of JObj r \<Rightarrow> r | _ \<Rightarrow> [])"

definition body_objectRecord :: "json \<Rightarrow> failure + (string \<times> json) list" where
  "body_objectRecord v = (case v of JObj r \<Rightarrow> Inr r
     | _ \<Rightarrow> Inl (Rejected (ControlPlaneError Validation ''request body must be an object'')))"

definition requiredFormValue :: "(string \<times> string) list \<Rightarrow> string \<Rightarrow> failure + string" where
  "requiredFormValue form name = (case truthy_string (map_option trim (map_of form name)) of
       None \<Rightarrow> Inl (Rejected (ControlPlaneError Validation (name @ '' is required'')))
     | Some v \<Rightarrow> Inr v)"

definition optionalFormValue :: "(string \<times> string) list \<Rightarrow> string \<Rightarrow> string option" where
  "optionalFormValue form name = truthy_string (map_option trim (map_of form name))"

definition formListValue :: "(string \<times> string) list \<Rightarrow> string \<Rightarrow> string list option" where
  "formListValue form name =
     (let vs = filter (\<lambda>v. v \<noteq> []) (map (trim \<circ> snd) (filter (\<lambda>(k, _). k = name) form))
      in if vs = [] then None else Some vs)"

text \<open>Fields that name rows: a string, a string or \<open>undefined\<close>, and also \<open>null\<close> before \<open>??\<close>.\<close>

definition with_text :: "(string \<times> json) list \<Rightarrow> string \<Rightarrow> (string \<Rightarrow> 'a http) \<Rightarrow> 'a http" where
  "with_text r name k = (case getp r name of JStr s \<Rightarrow> k s | _ \<Rightarrow> outside)"

definition with_opt_text :: "(string \<times> json) list \<Rightarrow> string \<Rightarrow> (string option \<Rightarrow> 'a http) \<Rightarrow> 'a http" where
  "with_opt_text r name k = (case getp r name of
       JStr s \<Rightarrow> k (Some s) | JUndefined \<Rightarrow> k None | _ \<Rightarrow> outside)"

definition with_nullish_text :: "(string \<times> json) list \<Rightarrow> string \<Rightarrow> (string option \<Rightarrow> 'a http) \<Rightarrow> 'a http" where
  "with_nullish_text r name k = (case getp r name of
       JStr s \<Rightarrow> k (Some s) | JUndefined \<Rightarrow> k None | JNull \<Rightarrow> k None | _ \<Rightarrow> outside)"

definition with_body :: "HttpPlatform \<Rightarrow> HttpRequest \<Rightarrow> (json \<Rightarrow> failure + (string \<times> json) list)
    \<Rightarrow> ((string \<times> json) list \<Rightarrow> 'a http) \<Rightarrow> 'a http" where
  "with_body P q view k = bindH (liftH (bindE (readJson P q) view)) k"

definition with_form :: "(string \<times> string) list \<Rightarrow> string \<Rightarrow> (string \<Rightarrow> 'a http) \<Rightarrow> 'a http" where
  "with_form form name k = bindH (liftH (requiredFormValue form name)) k"

subsection \<open>Answers\<close>

datatype payload =
    POk
  | PError string "string option"
  | PRedirect string
  | PEmpty
  | POrganization Organization
  | PUser User
  | PProject Project
  | PMembership ProjectMembership
  | PMemberships "ProjectMembership list"
  | PApiKey ApiKey
  | PApiKeys "ApiKey list"
  | PNewApiKey "ApiKey \<times> string"
  | PRotatedApiKey "ApiKey \<times> ApiKey \<times> string"
  | POnboarding BetaOnboarding
  | PAuditEvents "AuditEvent list"
  | PCustomDomain CustomDomain
  | PCustomDomains "CustomDomain list"
  | PPreview DeployPreview
  | PPreviews "DeployPreview list"
  | PArtifact Artifact
  | PResource Resource
  | PResources "Resource list"
  | PUsage ProjectResourceUsage
  | PDeployment Deployment
  | PRoute RoutePointer
  | PDecisions "CanaryDecision list"
  | PNode RuntimeNode
  | PNodes "RuntimeNode list"
  | PCleanup "string \<times> RuntimeNode list"
  | PSignals "RuntimeSaturationSignal list"
  | PSnapshot RouteSnapshot

record HttpReply =
  rep_status :: int
  rep_payload :: payload

definition reply :: "int \<Rightarrow> payload \<Rightarrow> HttpReply" where
  "reply status p = \<lparr>rep_status = status, rep_payload = p\<rparr>"

definition respond :: "int \<Rightarrow> ('a \<Rightarrow> payload) \<Rightarrow> 'a service \<Rightarrow> HttpReply http" where
  "respond status f m = bindH (callH m) (\<lambda>x. okH (reply status (f x)))"

definition redirect :: "string \<Rightarrow> 'a service \<Rightarrow> HttpReply http" where
  "redirect location m = respond 303 (\<lambda>_. PRedirect location) m"

definition code_name :: "ControlPlaneErrorCode \<Rightarrow> string" where
  "code_name c = (case c of Validation \<Rightarrow> ''validation'' | NotFound \<Rightarrow> ''not_found'' | Conflict \<Rightarrow> ''conflict'')"

text \<open>The \<open>catch\<close> of \<open>createHttpApp\<close>; the message of an error of the engine is left out.\<close>

definition error_reply :: "failure \<Rightarrow> HttpReply" where
  "error_reply e = (case e of
       Rejected c \<Rightarrow> reply (errStatus c) (PError (code_name (errCode c)) (Some (errMessage c)))
     | EngineError \<Rightarrow> reply 500 (PError ''internal'' None))"

subsection \<open>The handlers\<close>

fun admin_handler :: "HttpPlatform \<Rightarrow> HttpRequest \<Rightarrow> admin_endpoint \<Rightarrow> HttpReply http" where
  "admin_handler P q HOpsConfig = outside"
| "admin_handler P q HAdminPage = outside"
| "admin_handler P q (HProjectSettings pid) = outside"
| "admin_handler P q (HProjectAuditEvents pid) =
     respond 200 PAuditEvents (service_listProjectCustomerAuditEvents pid)"
| "admin_handler P q HAdminCanary = (let form = readForm P q in
     with_form form ''projectId'' (\<lambda>pid. with_form form ''host'' (\<lambda>host. with_form form ''pathPrefix'' (\<lambda>prefix.
     with_form form ''deploymentId'' (\<lambda>did. with_form form ''weight'' (\<lambda>weight.
     redirect ''/admin?notice=canary'' (startRouteCanary (hp_env P 1)
       \<lparr>sci_projectId = pid, sci_host = JStr host, sci_pathPrefix = JStr prefix, sci_deploymentId = did,
        sci_weight = hp_number P weight\<rparr>)))))))"
| "admin_handler P q HAdminRollback = (let form = readForm P q in
     with_form form ''projectId'' (\<lambda>pid. with_form form ''host'' (\<lambda>host. with_form form ''pathPrefix'' (\<lambda>prefix.
     redirect ''/admin?notice=rollback'' (rollbackRoute (hp_env P 1)
       \<lparr>rri_projectId = pid, rri_host = JStr host, rri_pathPrefix = JStr prefix,
        rri_deploymentId = optionalFormValue form ''deploymentId''\<rparr>)))))"
| "admin_handler P q HAdminNodeStatus = (let form = readForm P q in
     with_form form ''runtimeNodeId'' (\<lambda>rid. with_form form ''status'' (\<lambda>status.
     redirect ''/admin?notice=runtime-node-status'' (updateRuntimeNodeStatus rid (JStr status)))))"
| "admin_handler P q HAdminNodeGc = (let form = readForm P q in
     with_form form ''olderThanMs'' (\<lambda>older.
     redirect ''/admin?notice=runtime-node-gc'' (cleanupRuntimeNodes (hp_env P 1) (hp_number P older)
       (case formListValue form ''statuses'' of None \<Rightarrow> JUndefined | Some vs \<Rightarrow> JArr (map JStr vs)))))"

fun account_handler :: "HttpPlatform \<Rightarrow> HttpRequest \<Rightarrow> account_endpoint \<Rightarrow> HttpReply http" where
  "account_handler P q HCreateOrganization = with_body P q argument (\<lambda>r.
     respond 201 POrganization (createOrganization (hp_env P 1)
       \<lparr>coi_id = getp r ''id'', coi_name = getp r ''name'', coi_billingProvider = getp r ''billingProvider'',
        coi_billingCustomerId = getp r ''billingCustomerId'', coi_paymentStatus = getp r ''paymentStatus'',
        coi_billingEmail = getp r ''billingEmail''\<rparr>))"
| "account_handler P q (HRequestQuotaIncrease oid) = outside"
| "account_handler P q (HUpdateOrganizationBilling oid) = with_body P q spread (\<lambda>r.
     respond 200 POrganization (updateOrganizationBilling (hp_env P 1)
       \<lparr>uob_organizationId = oid, uob_billingProvider = getp r ''billingProvider'',
        uob_billingCustomerId = getp r ''billingCustomerId'', uob_paymentStatus = getp r ''paymentStatus'',
        uob_billingEmail = getp r ''billingEmail''\<rparr>))"
| "account_handler P q (HOrganizationBillingStatement oid) = outside"
| "account_handler P q (HOrganizationAuditEvents oid) =
     respond 200 PAuditEvents (service_listOrganizationCustomerAuditEvents oid)"
| "account_handler P q (HListBillingInvoices oid) = outside"
| "account_handler P q (HIssueBillingInvoice oid) = outside"
| "account_handler P q HCreateUser = with_body P q argument (\<lambda>r.
     respond 201 PUser (createUser (hp_env P 1)
       \<lparr>cui_id = getp r ''id'', cui_email = getp r ''email'', cui_name = getp r ''name'',
        cui_emailVerifiedAt = getp r ''emailVerifiedAt''\<rparr>))"
| "account_handler P q (HVerifyUserEmail uid) = respond 200 PUser (verifyUserEmail (hp_env P 1) uid)"
| "account_handler P q HCreateApiKey = with_body P q argument (\<lambda>r.
     with_nullish_text r ''organizationId'' (\<lambda>oid. with_nullish_text r ''projectId'' (\<lambda>pid.
     respond 201 PNewApiKey (createApiKey (hp_env P 1)
       \<lparr>cki_id = getp r ''id'', cki_organizationId = oid, cki_projectId = pid, cki_name = getp r ''name'',
        cki_scopes = getp r ''scopes''\<rparr>))))"
| "account_handler P q (HRevokeApiKey rid) = respond 200 PApiKey (revokeApiKey (hp_env P 1) (JStr rid))"
| "account_handler P q (HRotateApiKey rid) = with_body P q spread (\<lambda>r.
     respond 200 PRotatedApiKey (rotateApiKey (hp_env P 1)
       \<lparr>rki_id = JStr rid, rki_replacementId = getp r ''replacementId'',
        rki_replacementName = getp r ''replacementName''\<rparr>))"
| "account_handler P q HCreateBetaOnboarding = with_body P q argument (\<lambda>r.
     with_nullish_text r ''defaultHost'' (\<lambda>host.
     respond 201 POnboarding (createBetaOnboarding (hp_env P)
       \<lparr>boi_organizationId = getp r ''organizationId'', boi_organizationName = getp r ''organizationName'',
        boi_userId = getp r ''userId'', boi_userEmail = getp r ''userEmail'', boi_userName = getp r ''userName'',
        boi_projectId = getp r ''projectId'', boi_projectName = getp r ''projectName'', boi_role = getp r ''role'',
        boi_apiKeyId = getp r ''apiKeyId'', boi_apiKeyName = getp r ''apiKeyName'',
        boi_scopes = getp r ''scopes'', boi_defaultHost = host\<rparr>)))"
| "account_handler P q HRecordUsageEvent = outside"

fun release_handler :: "HttpPlatform \<Rightarrow> HttpRequest \<Rightarrow> release_endpoint \<Rightarrow> HttpReply http" where
  "release_handler P q HCreateCustomDomain = with_body P q argument (\<lambda>r. with_text r ''projectId'' (\<lambda>pid.
     respond 201 PCustomDomain (createCustomDomain (hp_env P 1) (getp r ''id'') pid (getp r ''host''))))"
| "release_handler P q HCreateDeployPreview = with_body P q argument (\<lambda>r.
     with_text r ''projectId'' (\<lambda>pid. with_text r ''deploymentId'' (\<lambda>did.
     respond 201 PPreview (createDeployPreview (hp_env P 1)
       \<lparr>dpi_id = getp r ''id'', dpi_projectId = pid, dpi_deploymentId = did, dpi_host = getp r ''host'',
        dpi_pathPrefix = getp r ''pathPrefix'', dpi_environment = getp r ''environment''\<rparr>))))"
| "release_handler P q HCreateEdgeWorkerRelease = outside"
| "release_handler P q HCreateProject = with_body P q argument (\<lambda>r.
     with_nullish_text r ''organizationId'' (\<lambda>oid.
     respond 201 PProject (createProject (hp_env P 1)
       \<lparr>cpi_id = getp r ''id'', cpi_organizationId = oid, cpi_name = getp r ''name''\<rparr>)))"
| "release_handler P q (HListCustomDomains pid) = respond 200 PCustomDomains (service_listProjectCustomDomains pid)"
| "release_handler P q (HListDeployPreviews pid) = respond 200 PPreviews (service_listProjectDeployPreviews pid)"
| "release_handler P q (HListEdgeWorkerReleases pid) = outside"
| "release_handler P q (HGetEdgeWorkerRelease rid) = outside"
| "release_handler P q (HDeleteEdgeWorkerRelease rid) = outside"
| "release_handler P q (HListEdgeWorkerOperations rid) = outside"
| "release_handler P q HDeliverEdgeWorkerOperations = outside"
| "release_handler P q (HRollbackDeployPreview rid) = with_body P q spread (\<lambda>_.
     respond 200 PPreview (rollbackDeployPreview (hp_env P 1) rid))"
| "release_handler P q (HDeleteCustomDomain rid) = respond 200 PCustomDomain (deleteCustomDomain (hp_env P 1) rid)"
| "release_handler P q (HVerifyCustomDomain rid) = with_body P q spread (\<lambda>r.
     respond 200 PCustomDomain (verifyCustomDomainOwnership (hp_env P 1) rid (getp r ''txtRecords'')))"
| "release_handler P q (HRequestCustomDomainTls rid) = with_body P q spread (\<lambda>r.
     respond 200 PCustomDomain (requestCustomDomainTlsProvisioning (hp_env P 1) rid (getp r ''provider'')
       (getp r ''requestId'')))"
| "release_handler P q (HCompleteCustomDomainTls rid) = with_body P q spread (\<lambda>r.
     respond 200 PCustomDomain (completeCustomDomainTlsProvisioning (hp_env P 1)
       \<lparr>cti_id = rid, cti_ok = getp r ''ok'', cti_provider = getp r ''provider'',
        cti_requestId = getp r ''requestId'', cti_error = getp r ''error''\<rparr>))"

fun project_handler :: "HttpPlatform \<Rightarrow> HttpRequest \<Rightarrow> project_endpoint \<Rightarrow> HttpReply http" where
  "project_handler P q (HAcceptMembershipInvite pid uid) =
     respond 200 PMembership (acceptProjectMembershipInvite (hp_env P 1) pid uid)"
| "project_handler P q (HUpdateMembershipRole pid uid) = with_body P q body_objectRecord (\<lambda>r.
     respond 200 PMembership (updateProjectMembershipRole (hp_env P 1) pid uid (getp r ''role'')))"
| "project_handler P q (HRemoveMembership pid uid) =
     respond 200 PMembership (removeProjectMembership (hp_env P 1) pid uid)"
| "project_handler P q (HAddMembership pid) = with_body P q body_objectRecord (\<lambda>r. with_text r ''userId'' (\<lambda>uid.
     respond 201 PMembership (addProjectMembership (hp_env P 1) pid uid (getp r ''role''))))"
| "project_handler P q (HListMemberships pid) = respond 200 PMemberships (service_listProjectMemberships pid)"
| "project_handler P q (HListApiKeys pid) = respond 200 PApiKeys (service_listProjectApiKeys pid)"
| "project_handler P q _ = outside"

fun metering_handler :: "HttpPlatform \<Rightarrow> HttpRequest \<Rightarrow> metering_endpoint \<Rightarrow> HttpReply http" where
  "metering_handler P q (HProjectQuotaUsage pid) = respond 200 PUsage (service_getProjectUsage pid)"
| "metering_handler P q HCreateArtifact = with_body P q argument (\<lambda>r. with_text r ''projectId'' (\<lambda>pid.
     respond 201 PArtifact (createArtifact (hp_env P 1)
       \<lparr>cai_id = getp r ''id'', cai_projectId = pid, cai_digest = getp r ''digest'',
        cai_location = getp r ''location'', cai_sizeBytes = getp r ''sizeBytes'',
        cai_signature = getp r ''signature'', cai_provenance = getp r ''provenance''\<rparr>)))"
| "metering_handler P q _ = outside"

fun binding_handler :: "HttpPlatform \<Rightarrow> HttpRequest \<Rightarrow> binding_endpoint \<Rightarrow> HttpReply http" where
  "binding_handler P q HCreateSecret = with_body P q argument (\<lambda>r. with_text r ''projectId'' (\<lambda>pid.
     respond 201 PResource (createSecret (hp_env P 1) (getp r ''id'') pid (getp r ''name'') (getp r ''value''))))"
| "binding_handler P q (HListSecrets pid) = respond 200 PResources (service_listProjectSecrets pid)"
| "binding_handler P q (HGetSecret rid) = respond 200 PResource (service_getSecret rid)"
| "binding_handler P q (HUpdateSecret rid) = with_body P q spread (\<lambda>r.
     respond 200 PResource (updateSecretValue (hp_env P 1) rid (getp r ''value'')))"
| "binding_handler P q (HDeleteSecret rid) = respond 204 (\<lambda>_. PEmpty) (deleteSecret rid)"
| "binding_handler P q HCreateKvNamespace = with_body P q argument (\<lambda>r. with_text r ''projectId'' (\<lambda>pid.
     respond 201 PResource (createKvNamespace (hp_env P 1) (getp r ''id'') pid (getp r ''name''))))"
| "binding_handler P q (HListKvNamespaces pid) = respond 200 PResources (service_listProjectKvNamespaces pid)"
| "binding_handler P q (HGetKvNamespace rid) = respond 200 PResource (service_getKvNamespace rid)"
| "binding_handler P q (HDeleteKvNamespace rid) = respond 204 (\<lambda>_. PEmpty) (deleteKvNamespace rid)"
| "binding_handler P q HScheduleAlarmDemo = outside"
| "binding_handler P q (HAlarmDemoObject name) = outside"
| "binding_handler P q HCreateDurableObjectNamespace = with_body P q argument (\<lambda>r. with_text r ''projectId'' (\<lambda>pid.
     respond 201 PResource (createDurableObjectNamespace (hp_env P 1) (getp r ''id'') pid (getp r ''name''))))"
| "binding_handler P q (HListDurableObjectNamespaces pid) =
     respond 200 PResources (service_listProjectDurableObjectNamespaces pid)"
| "binding_handler P q (HGetDurableObjectNamespace rid) = respond 200 PResource (service_getDurableObjectNamespace rid)"
| "binding_handler P q (HDeleteDurableObjectNamespace rid) =
     respond 204 (\<lambda>_. PEmpty) (deleteDurableObjectNamespace rid)"

definition snapshotH :: "Env \<Rightarrow> RouteSnapshot http" where
  "snapshotH E s = Some (s, case createRouteSnapshot E s of
       Inl (Thrown e) \<Rightarrow> Inl (Rejected e) | Inl TypeError \<Rightarrow> Inl EngineError | Inr snap \<Rightarrow> Inr snap)"

fun serving_handler :: "HttpPlatform \<Rightarrow> HttpRequest \<Rightarrow> serving_endpoint \<Rightarrow> HttpReply http" where
  "serving_handler P q HCreateDeployment = with_body P q argument (\<lambda>r.
     with_text r ''projectId'' (\<lambda>pid. with_text r ''artifactId'' (\<lambda>aid.
     respond 201 PDeployment (createDeployment (hp_env P 1)
       \<lparr>cdi_id = getp r ''id'', cdi_projectId = pid, cdi_artifactId = aid, cdi_world = getp r ''world'',
        cdi_runtime = getp r ''runtime'', cdi_limits = getp r ''limits'',
        cdi_capabilities = getp r ''capabilities''\<rparr>))))"
| "serving_handler P q HPointRoute = with_body P q argument (\<lambda>r.
     with_text r ''projectId'' (\<lambda>pid. with_opt_text r ''deploymentId'' (\<lambda>did.
     respond 200 PRoute (pointRoute (hp_env P 1)
       \<lparr>pri_id = getp r ''id'', pri_projectId = pid, pri_host = getp r ''host'',
        pri_pathPrefix = getp r ''pathPrefix'', pri_deploymentId = did, pri_targets = getp r ''targets''\<rparr>))))"
| "serving_handler P q HStartRouteCanary = with_body P q argument (\<lambda>r.
     with_text r ''projectId'' (\<lambda>pid. with_text r ''deploymentId'' (\<lambda>did.
     respond 200 PRoute (startRouteCanary (hp_env P 1)
       \<lparr>sci_projectId = pid, sci_host = getp r ''host'', sci_pathPrefix = getp r ''pathPrefix'',
        sci_deploymentId = did, sci_weight = getp r ''weight''\<rparr>))))"
| "serving_handler P q HRollbackRoute = with_body P q argument (\<lambda>r.
     with_text r ''projectId'' (\<lambda>pid. with_nullish_text r ''deploymentId'' (\<lambda>did.
     respond 200 PRoute (rollbackRoute (hp_env P 1)
       \<lparr>rri_projectId = pid, rri_host = getp r ''host'', rri_pathPrefix = getp r ''pathPrefix'',
        rri_deploymentId = did\<rparr>))))"
| "serving_handler P q HListCanaryDecisions = respond 200 PDecisions service_listCanaryDecisions"
| "serving_handler P q HRegisterRuntimeNode = with_body P q argument (\<lambda>r.
     respond 201 PNode (registerRuntimeNode (hp_env P 1)
       \<lparr>rni_id = getp r ''id'', rni_url = getp r ''url'', rni_status = getp r ''status'',
        rni_region = getp r ''region'', rni_labels = getp r ''labels'', rni_identity = getp r ''identity'',
        rni_host = getp r ''host''\<rparr>))"
| "serving_handler P q (HNodeHeartbeat rid) = with_body P q spread (\<lambda>r.
     with_nullish_text r ''version'' (\<lambda>version.
     respond 200 PNode (recordRuntimeNodeHeartbeat (hp_env P 1)
       \<lparr>hbi_id = rid, hbi_status = getp r ''status'', hbi_version = version,
        hbi_capacity = getp r ''capacity'', hbi_load = getp r ''load'', hbi_identity = getp r ''identity'',
        hbi_host = getp r ''host''\<rparr>)))"
| "serving_handler P q (HNodeStatus rid) = with_body P q spread (\<lambda>r.
     respond 200 PNode (updateRuntimeNodeStatus rid (getp r ''status'')))"
| "serving_handler P q HCleanupNodes = with_body P q argument (\<lambda>r.
     respond 200 PCleanup (cleanupRuntimeNodes (hp_env P 1) (getp r ''olderThanMs'') (getp r ''statuses'')))"
| "serving_handler P q HListNodes = respond 200 PNodes service_listRuntimeNodes"
| "serving_handler P q HAutoscalingSignals = respond 200 (\<lambda>nodes. PSignals (runtimeSaturationSignals nodes))
     service_listRuntimeNodes"
| "serving_handler P q HRouteSnapshot = bindH (snapshotH (hp_env P 1)) (\<lambda>snap. okH (reply 200 (PSnapshot snap)))"
| "serving_handler P q _ = outside"

fun handler :: "HttpPlatform \<Rightarrow> HttpRequest \<Rightarrow> endpoint \<Rightarrow> HttpReply http" where
  "handler P q (Admin e) = admin_handler P q e"
| "handler P q (Account e) = account_handler P q e"
| "handler P q (Release e) = release_handler P q e"
| "handler P q (InProject e) = project_handler P q e"
| "handler P q (Metering e) = metering_handler P q e"
| "handler P q (Binding e) = binding_handler P q e"
| "handler P q (Serving e) = serving_handler P q e"

subsection \<open>A request\<close>

text \<open>
  What \<open>installAuditHook\<close> records when the answer is finished: the timestamp aside, the principal, the
  scope, the method, the path and the status.
\<close>

record HttpAuditEvent =
  hae_principal :: string
  hae_scope :: ApiScope
  hae_method :: string
  hae_path :: string
  hae_status :: int

definition audit_event :: "HttpOptions \<Rightarrow> HttpRequest \<Rightarrow> HttpToken option \<Rightarrow> ApiScope \<Rightarrow> string
    \<Rightarrow> HttpReply \<Rightarrow> HttpAuditEvent option" where
  "audit_event opts q token scope path rep = (case token of
       None \<Rightarrow> None
     | Some t \<Rightarrow> if \<not> ho_auditSink opts \<or> hq_method q = ''GET'' then None
         else Some \<lparr>hae_principal = ht_principal t, hae_scope = scope, hae_method = hq_method q,
                hae_path = path, hae_status = rep_status rep\<rparr>)"

definition is_local_artifact :: "string \<Rightarrow> bool" where
  "is_local_artifact p \<longleftrightarrow> (case split_on (CHR ''/'') p of
       [a, b, c, f] \<Rightarrow> a = [] \<and> b = ''artifacts'' \<and> c = ''local'' \<and> length f = 69 \<and> endsWith f ''.wasm''
         \<and> list_all (\<lambda>ch. is_digit ch \<or> ch \<in> set ''abcdefABCDEF'') (take 64 f)
     | _ \<Rightarrow> False)"

text \<open>The part after the authorization: the chain of handlers, and 404 when none is found.\<close>

definition handle_allowed :: "HttpPlatform \<Rightarrow> HttpRequest \<Rightarrow> string \<Rightarrow> HttpReply http" where
  "handle_allowed P q path = bindH (liftH (dispatch (hp_decode P) (hq_method q) path)) (\<lambda>e. case e of
       None \<Rightarrow> okH (reply 404 (PError ''not_found'' (Some ''route not found'')))
     | Some e \<Rightarrow> handler P q e)"

definition cached_body :: "HttpPlatform \<Rightarrow> HttpRequest \<Rightarrow> string \<Rightarrow> failure + json option" where
  "cached_body P q path = (if hq_method q = ''POST'' \<and> path = ''/edge-workers/releases''
     then bindE (readJson P q) (\<lambda>v. Inr (Some v)) else Inr None)"

text \<open>An error thrown by a handler becomes the answer before the audit hook sees the status.\<close>

definition answered :: "HttpReply http \<Rightarrow> HttpReply http" where
  "answered m s = (case m s of
       None \<Rightarrow> None | Some (s', Inl e) \<Rightarrow> Some (s', Inr (error_reply e)) | Some (s', Inr r) \<Rightarrow> Some (s', Inr r))"

definition authorized_request :: "HttpPlatform \<Rightarrow> HttpOptions \<Rightarrow> HttpRequest \<Rightarrow> string
    \<Rightarrow> (HttpReply \<times> HttpAuditEvent option) http" where
  "authorized_request P opts q path =
     bindH (liftH (cached_body P q path)) (\<lambda>body.
     let scope = requiredScopeFor (hq_method q) path body in
     bindH (callH (authorizeRequest (hp_env P 0) opts (hq_authorization q) scope)) (\<lambda>auth. case auth of
         Denied status c msg \<Rightarrow> okH (reply status (PError c (Some msg)), None)
       | Allowed token \<Rightarrow> bindH (answered (handle_allowed P q path)) (\<lambda>rep.
           okH (rep, audit_event opts q token scope path rep))))"

text \<open>The webhook of the demo and the artifact files are served without a scope.\<close>

definition http_request :: "HttpPlatform \<Rightarrow> HttpOptions \<Rightarrow> HttpRequest
    \<Rightarrow> (HttpReply \<times> HttpAuditEvent option) http" where
  "http_request P opts q = (case hq_url q of
       None \<Rightarrow> failH EngineError
     | Some (path, _) \<Rightarrow>
         if hq_method q = ''GET'' \<and> path = ''/healthz'' then okH (reply 200 POk, None)
         else if hq_method q = ''POST'' \<and> path = ''/alarm-demo/webhook'' then
           (if \<not> authorizeAlarmDemoWebhook opts (hq_authorization q)
            then okH (reply 401 (PError ''unauthorized'' (Some ''missing or invalid alarm demo webhook token'')), None)
            else outside)
         else if hq_method q = ''GET'' \<and> is_local_artifact path then outside
         else authorized_request P opts q path)"

definition serve :: "HttpPlatform \<Rightarrow> HttpOptions \<Rightarrow> HttpRequest \<Rightarrow> Db
    \<Rightarrow> (Db \<times> HttpReply \<times> HttpAuditEvent option) option" where
  "serve P opts q s = (case http_request P opts q s of
       None \<Rightarrow> None
     | Some (s', Inl e) \<Rightarrow> Some (s', error_reply e, None)
     | Some (s', Inr (rep, audit)) \<Rightarrow> Some (s', rep, audit))"

end
