(* ===== verification/HttpDispatch.thy ===== *)
theory HttpDispatch
  imports HttpRoutes
begin

text \<open>
  What the chain of conditions of \<open>HttpRoutes\<close> comes to: every handler has one method and one form of
  path, written here as a table, and the chain finds a handler exactly for the requests of that form.
\<close>

datatype part = Fixed string | Arg string

fun admin_target :: "admin_endpoint \<Rightarrow> string \<times> part list" where
    "admin_target HOpsConfig = (''GET'', [Fixed ''ops'', Fixed ''config''])"
  | "admin_target HAdminPage = (''GET'', [Fixed ''admin''])"
  | "admin_target (HProjectSettings x) = (''GET'', [Fixed ''projects'', Arg x, Fixed ''settings''])"
  | "admin_target (HProjectAuditEvents x) = (''GET'', [Fixed ''projects'', Arg x, Fixed ''audit-events''])"
  | "admin_target HAdminCanary = (''POST'', [Fixed ''admin'', Fixed ''routes'', Fixed ''canary''])"
  | "admin_target HAdminRollback = (''POST'', [Fixed ''admin'', Fixed ''routes'', Fixed ''rollback''])"
  | "admin_target HAdminNodeStatus = (''POST'', [Fixed ''admin'', Fixed ''runtime-nodes'', Fixed ''status''])"
  | "admin_target HAdminNodeGc = (''POST'', [Fixed ''admin'', Fixed ''runtime-nodes'', Fixed ''gc''])"

fun account_target :: "account_endpoint \<Rightarrow> string \<times> part list" where
    "account_target HCreateOrganization = (''POST'', [Fixed ''organizations''])"
  | "account_target (HRequestQuotaIncrease x) = (''POST'', [Fixed ''organizations'', Arg x, Fixed ''production-quota-increases''])"
  | "account_target (HUpdateOrganizationBilling x) = (''PUT'', [Fixed ''organizations'', Arg x, Fixed ''billing''])"
  | "account_target (HOrganizationBillingStatement x) = (''GET'', [Fixed ''organizations'', Arg x, Fixed ''billing-statement''])"
  | "account_target (HOrganizationAuditEvents x) = (''GET'', [Fixed ''organizations'', Arg x, Fixed ''audit-events''])"
  | "account_target (HListBillingInvoices x) = (''GET'', [Fixed ''organizations'', Arg x, Fixed ''billing-invoices''])"
  | "account_target (HIssueBillingInvoice x) = (''POST'', [Fixed ''organizations'', Arg x, Fixed ''billing-invoices''])"
  | "account_target HCreateUser = (''POST'', [Fixed ''users''])"
  | "account_target (HVerifyUserEmail x) = (''POST'', [Fixed ''users'', Arg x, Fixed ''verify-email''])"
  | "account_target HCreateApiKey = (''POST'', [Fixed ''api-keys''])"
  | "account_target (HRevokeApiKey x) = (''POST'', [Fixed ''api-keys'', Arg x, Fixed ''revoke''])"
  | "account_target (HRotateApiKey x) = (''POST'', [Fixed ''api-keys'', Arg x, Fixed ''rotate''])"
  | "account_target HCreateBetaOnboarding = (''POST'', [Fixed ''beta'', Fixed ''onboardings''])"
  | "account_target HRecordUsageEvent = (''POST'', [Fixed ''usage'', Fixed ''events''])"

fun release_target :: "release_endpoint \<Rightarrow> string \<times> part list" where
    "release_target HCreateCustomDomain = (''POST'', [Fixed ''custom-domains''])"
  | "release_target HCreateDeployPreview = (''POST'', [Fixed ''deploy-previews''])"
  | "release_target HCreateEdgeWorkerRelease = (''POST'', [Fixed ''edge-workers'', Fixed ''releases''])"
  | "release_target HCreateProject = (''POST'', [Fixed ''projects''])"
  | "release_target (HListCustomDomains x) = (''GET'', [Fixed ''projects'', Arg x, Fixed ''custom-domains''])"
  | "release_target (HListDeployPreviews x) = (''GET'', [Fixed ''projects'', Arg x, Fixed ''deploy-previews''])"
  | "release_target (HListEdgeWorkerReleases x) = (''GET'', [Fixed ''projects'', Arg x, Fixed ''edge-worker-releases''])"
  | "release_target (HGetEdgeWorkerRelease x) = (''GET'', [Fixed ''edge-workers'', Fixed ''releases'', Arg x])"
  | "release_target (HDeleteEdgeWorkerRelease x) = (''DELETE'', [Fixed ''edge-workers'', Fixed ''releases'', Arg x])"
  | "release_target (HListEdgeWorkerOperations x) = (''GET'', [Fixed ''edge-workers'', Fixed ''releases'', Arg x, Fixed ''operations''])"
  | "release_target HDeliverEdgeWorkerOperations = (''POST'', [Fixed ''edge-workers'', Fixed ''releases'', Fixed ''operations'', Fixed ''deliver''])"
  | "release_target (HRollbackDeployPreview x) = (''POST'', [Fixed ''deploy-previews'', Arg x, Fixed ''rollback''])"
  | "release_target (HDeleteCustomDomain x) = (''DELETE'', [Fixed ''custom-domains'', Arg x])"
  | "release_target (HVerifyCustomDomain x) = (''POST'', [Fixed ''custom-domains'', Arg x, Fixed ''verify''])"
  | "release_target (HRequestCustomDomainTls x) = (''POST'', [Fixed ''custom-domains'', Arg x, Fixed ''tls''])"
  | "release_target (HCompleteCustomDomainTls x) = (''POST'', [Fixed ''custom-domains'', Arg x, Fixed ''tls'', Fixed ''complete''])"

fun project_target :: "project_endpoint \<Rightarrow> string \<times> part list" where
    "project_target (HAcceptMembershipInvite x y) = (''POST'', [Fixed ''projects'', Arg x, Fixed ''memberships'', Arg y, Fixed ''accept''])"
  | "project_target (HUpdateMembershipRole x y) = (''PATCH'', [Fixed ''projects'', Arg x, Fixed ''memberships'', Arg y])"
  | "project_target (HRemoveMembership x y) = (''DELETE'', [Fixed ''projects'', Arg x, Fixed ''memberships'', Arg y])"
  | "project_target (HAddMembership x) = (''POST'', [Fixed ''projects'', Arg x, Fixed ''memberships''])"
  | "project_target (HListMemberships x) = (''GET'', [Fixed ''projects'', Arg x, Fixed ''memberships''])"
  | "project_target (HListApiKeys x) = (''GET'', [Fixed ''projects'', Arg x, Fixed ''api-keys''])"
  | "project_target (HEnsureSqliteDatabase x) = (''POST'', [Fixed ''projects'', Arg x, Fixed ''sqlite-databases''])"
  | "project_target (HListProjectSqliteDatabases x) = (''GET'', [Fixed ''projects'', Arg x, Fixed ''sqlite-databases''])"
  | "project_target (HPruneSqliteBackups x) = (''POST'', [Fixed ''sqlite-databases'', Arg x, Fixed ''backups'', Fixed ''gc''])"
  | "project_target (HCreateSqliteBackup x) = (''POST'', [Fixed ''sqlite-databases'', Arg x, Fixed ''backups''])"
  | "project_target (HListSqliteBackups x) = (''GET'', [Fixed ''sqlite-databases'', Arg x, Fixed ''backups''])"
  | "project_target (HRestoreSqliteDatabase x) = (''POST'', [Fixed ''sqlite-databases'', Arg x, Fixed ''restores''])"
  | "project_target (HGetSqliteDatabase x) = (''GET'', [Fixed ''sqlite-databases'', Arg x])"
  | "project_target HListSqliteDatabases = (''GET'', [Fixed ''sqlite-databases''])"

fun metering_target :: "metering_endpoint \<Rightarrow> string \<times> part list" where
    "metering_target (HProjectQuotaUsage x) = (''GET'', [Fixed ''projects'', Arg x, Fixed ''quota-usage''])"
  | "metering_target (HProjectUsage x) = (''GET'', [Fixed ''projects'', Arg x, Fixed ''usage''])"
  | "metering_target (HProjectEnforcementReport x) = (''GET'', [Fixed ''projects'', Arg x, Fixed ''enforcement-report''])"
  | "metering_target (HProjectUsageQuotaReport x) = (''GET'', [Fixed ''projects'', Arg x, Fixed ''usage-quota''])"
  | "metering_target (HProjectBillingStatement x) = (''GET'', [Fixed ''projects'', Arg x, Fixed ''billing-statement''])"
  | "metering_target (HProjectBillingBudget x) = (''GET'', [Fixed ''projects'', Arg x, Fixed ''billing-budget''])"
  | "metering_target HCreateArtifact = (''POST'', [Fixed ''artifacts''])"
  | "metering_target (HGetInvoiceRetention x) = (''GET'', [Fixed ''billing-invoices'', Arg x, Fixed ''retention-policy''])"
  | "metering_target (HSetInvoiceRetention x) = (''PUT'', [Fixed ''billing-invoices'', Arg x, Fixed ''retention-policy''])"
  | "metering_target HPruneInvoices = (''POST'', [Fixed ''billing-invoices'', Fixed ''retention'', Fixed ''prune''])"
  | "metering_target (HGetInvoice x) = (''GET'', [Fixed ''billing-invoices'', Arg x])"
  | "metering_target (HExportInvoice x) = (''GET'', [Fixed ''billing-invoices'', Arg x, Fixed ''export''])"
  | "metering_target HUploadArtifact = (''POST'', [Fixed ''artifacts'', Fixed ''local''])"

fun binding_target :: "binding_endpoint \<Rightarrow> string \<times> part list" where
    "binding_target HCreateSecret = (''POST'', [Fixed ''secrets''])"
  | "binding_target (HListSecrets x) = (''GET'', [Fixed ''projects'', Arg x, Fixed ''secrets''])"
  | "binding_target (HGetSecret x) = (''GET'', [Fixed ''secrets'', Arg x])"
  | "binding_target (HUpdateSecret x) = (''PUT'', [Fixed ''secrets'', Arg x])"
  | "binding_target (HDeleteSecret x) = (''DELETE'', [Fixed ''secrets'', Arg x])"
  | "binding_target HCreateKvNamespace = (''POST'', [Fixed ''kv-namespaces''])"
  | "binding_target (HListKvNamespaces x) = (''GET'', [Fixed ''projects'', Arg x, Fixed ''kv-namespaces''])"
  | "binding_target (HGetKvNamespace x) = (''GET'', [Fixed ''kv-namespaces'', Arg x])"
  | "binding_target (HDeleteKvNamespace x) = (''DELETE'', [Fixed ''kv-namespaces'', Arg x])"
  | "binding_target HScheduleAlarmDemo = (''POST'', [Fixed ''alarm-demo'', Fixed ''schedules''])"
  | "binding_target (HAlarmDemoObject x) = (''GET'', [Fixed ''alarm-demo'', Fixed ''objects'', Arg x])"
  | "binding_target HCreateDurableObjectNamespace = (''POST'', [Fixed ''durable-object-namespaces''])"
  | "binding_target (HListDurableObjectNamespaces x) = (''GET'', [Fixed ''projects'', Arg x, Fixed ''durable-object-namespaces''])"
  | "binding_target (HGetDurableObjectNamespace x) = (''GET'', [Fixed ''durable-object-namespaces'', Arg x])"
  | "binding_target (HDeleteDurableObjectNamespace x) = (''DELETE'', [Fixed ''durable-object-namespaces'', Arg x])"

fun serving_target :: "serving_endpoint \<Rightarrow> string \<times> part list" where
    "serving_target HCreateDeployment = (''POST'', [Fixed ''deployments''])"
  | "serving_target HPointRoute = (''PUT'', [Fixed ''routes''])"
  | "serving_target HStartRouteCanary = (''POST'', [Fixed ''routes'', Fixed ''canary''])"
  | "serving_target HAnalyzeRouteCanary = (''POST'', [Fixed ''routes'', Fixed ''canary'', Fixed ''analyze''])"
  | "serving_target HRollbackRoute = (''POST'', [Fixed ''routes'', Fixed ''rollback''])"
  | "serving_target HListCanaryDecisions = (''GET'', [Fixed ''canary-decisions''])"
  | "serving_target HRegisterRuntimeNode = (''POST'', [Fixed ''runtime-nodes''])"
  | "serving_target (HNodeHeartbeat x) = (''POST'', [Fixed ''runtime-nodes'', Arg x, Fixed ''heartbeat''])"
  | "serving_target (HNodeStatus x) = (''PATCH'', [Fixed ''runtime-nodes'', Arg x, Fixed ''status''])"
  | "serving_target HCleanupNodes = (''POST'', [Fixed ''runtime-nodes'', Fixed ''gc''])"
  | "serving_target HListNodes = (''GET'', [Fixed ''runtime-nodes''])"
  | "serving_target HAutoscalingSignals = (''GET'', [Fixed ''autoscaling'', Fixed ''signals''])"
  | "serving_target (HNodeLogs x) = (''GET'', [Fixed ''runtime-nodes'', Arg x, Fixed ''logs''])"
  | "serving_target HRouteSnapshot = (''GET'', [Fixed ''snapshots'', Fixed ''routes''])"
  | "serving_target HPublishSnapshot = (''POST'', [Fixed ''snapshots'', Fixed ''routes'', Fixed ''publish''])"
  | "serving_target HListPublications = (''GET'', [Fixed ''snapshots'', Fixed ''routes'', Fixed ''publishes''])"
  | "serving_target HApplyReplicatedSnapshot = (''PUT'', [Fixed ''replication'', Fixed ''snapshots'', Fixed ''routes''])"
  | "serving_target HReadReplicatedSnapshot = (''GET'', [Fixed ''replication'', Fixed ''snapshots'', Fixed ''routes''])"

fun target :: "endpoint \<Rightarrow> string \<times> part list" where
    "target (Admin e) = admin_target e"
  | "target (Account e) = account_target e"
  | "target (Release e) = release_target e"
  | "target (InProject e) = project_target e"
  | "target (Metering e) = metering_target e"
  | "target (Binding e) = binding_target e"
  | "target (Serving e) = serving_target e"

text \<open>A raw segment of a path stands for a part, and a request is of the form of a handler.\<close>

fun stands_for :: "decoder \<Rightarrow> part \<Rightarrow> string \<Rightarrow> bool" where
  "stands_for D (Fixed l) s \<longleftrightarrow> s = l"
| "stands_for D (Arg x) s \<longleftrightarrow> s \<noteq> [] \<and> D s = Some x"

definition serves :: "decoder \<Rightarrow> endpoint \<Rightarrow> string \<Rightarrow> string \<Rightarrow> bool" where
  "serves D e m p \<longleftrightarrow> m = fst (target e) \<and>
     (\<exists>ss. split_on (CHR ''/'') p = [] # ss \<and> list_all2 (stands_for D) (snd (target e)) ss)"

subsection \<open>Exact paths as segments\<close>

lemma exact_path: "split_on (CHR ''/'') q = ss \<Longrightarrow> p = q \<longleftrightarrow> split_on (CHR ''/'') p = ss"
  using split_inj [of "CHR ''/''" p q] by simp

lemma exact_paths:
  "p = ''/admin'' \<longleftrightarrow> split_on (CHR ''/'') p = [[], ''admin'']"
  "p = ''/admin/routes/canary'' \<longleftrightarrow> split_on (CHR ''/'') p = [[], ''admin'', ''routes'', ''canary'']"
  "p = ''/admin/routes/rollback'' \<longleftrightarrow> split_on (CHR ''/'') p = [[], ''admin'', ''routes'', ''rollback'']"
  "p = ''/admin/runtime-nodes/gc'' \<longleftrightarrow> split_on (CHR ''/'') p = [[], ''admin'', ''runtime-nodes'', ''gc'']"
  "p = ''/admin/runtime-nodes/status'' \<longleftrightarrow> split_on (CHR ''/'') p = [[], ''admin'', ''runtime-nodes'', ''status'']"
  "p = ''/alarm-demo/schedules'' \<longleftrightarrow> split_on (CHR ''/'') p = [[], ''alarm-demo'', ''schedules'']"
  "p = ''/api-keys'' \<longleftrightarrow> split_on (CHR ''/'') p = [[], ''api-keys'']"
  "p = ''/artifacts'' \<longleftrightarrow> split_on (CHR ''/'') p = [[], ''artifacts'']"
  "p = ''/artifacts/local'' \<longleftrightarrow> split_on (CHR ''/'') p = [[], ''artifacts'', ''local'']"
  "p = ''/autoscaling/signals'' \<longleftrightarrow> split_on (CHR ''/'') p = [[], ''autoscaling'', ''signals'']"
  "p = ''/beta/onboardings'' \<longleftrightarrow> split_on (CHR ''/'') p = [[], ''beta'', ''onboardings'']"
  "p = ''/billing-invoices/retention/prune'' \<longleftrightarrow> split_on (CHR ''/'') p = [[], ''billing-invoices'', ''retention'', ''prune'']"
  "p = ''/canary-decisions'' \<longleftrightarrow> split_on (CHR ''/'') p = [[], ''canary-decisions'']"
  "p = ''/custom-domains'' \<longleftrightarrow> split_on (CHR ''/'') p = [[], ''custom-domains'']"
  "p = ''/deploy-previews'' \<longleftrightarrow> split_on (CHR ''/'') p = [[], ''deploy-previews'']"
  "p = ''/deployments'' \<longleftrightarrow> split_on (CHR ''/'') p = [[], ''deployments'']"
  "p = ''/durable-object-namespaces'' \<longleftrightarrow> split_on (CHR ''/'') p = [[], ''durable-object-namespaces'']"
  "p = ''/edge-workers/releases'' \<longleftrightarrow> split_on (CHR ''/'') p = [[], ''edge-workers'', ''releases'']"
  "p = ''/edge-workers/releases/operations/deliver'' \<longleftrightarrow> split_on (CHR ''/'') p = [[], ''edge-workers'', ''releases'', ''operations'', ''deliver'']"
  "p = ''/kv-namespaces'' \<longleftrightarrow> split_on (CHR ''/'') p = [[], ''kv-namespaces'']"
  "p = ''/ops/config'' \<longleftrightarrow> split_on (CHR ''/'') p = [[], ''ops'', ''config'']"
  "p = ''/organizations'' \<longleftrightarrow> split_on (CHR ''/'') p = [[], ''organizations'']"
  "p = ''/projects'' \<longleftrightarrow> split_on (CHR ''/'') p = [[], ''projects'']"
  "p = ''/replication/snapshots/routes'' \<longleftrightarrow> split_on (CHR ''/'') p = [[], ''replication'', ''snapshots'', ''routes'']"
  "p = ''/routes'' \<longleftrightarrow> split_on (CHR ''/'') p = [[], ''routes'']"
  "p = ''/routes/canary'' \<longleftrightarrow> split_on (CHR ''/'') p = [[], ''routes'', ''canary'']"
  "p = ''/routes/canary/analyze'' \<longleftrightarrow> split_on (CHR ''/'') p = [[], ''routes'', ''canary'', ''analyze'']"
  "p = ''/routes/rollback'' \<longleftrightarrow> split_on (CHR ''/'') p = [[], ''routes'', ''rollback'']"
  "p = ''/runtime-nodes'' \<longleftrightarrow> split_on (CHR ''/'') p = [[], ''runtime-nodes'']"
  "p = ''/runtime-nodes/gc'' \<longleftrightarrow> split_on (CHR ''/'') p = [[], ''runtime-nodes'', ''gc'']"
  "p = ''/secrets'' \<longleftrightarrow> split_on (CHR ''/'') p = [[], ''secrets'']"
  "p = ''/snapshots/routes'' \<longleftrightarrow> split_on (CHR ''/'') p = [[], ''snapshots'', ''routes'']"
  "p = ''/snapshots/routes/publish'' \<longleftrightarrow> split_on (CHR ''/'') p = [[], ''snapshots'', ''routes'', ''publish'']"
  "p = ''/snapshots/routes/publishes'' \<longleftrightarrow> split_on (CHR ''/'') p = [[], ''snapshots'', ''routes'', ''publishes'']"
  "p = ''/sqlite-databases'' \<longleftrightarrow> split_on (CHR ''/'') p = [[], ''sqlite-databases'']"
  "p = ''/usage/events'' \<longleftrightarrow> split_on (CHR ''/'') p = [[], ''usage'', ''events'']"
  "p = ''/users'' \<longleftrightarrow> split_on (CHR ''/'') p = [[], ''users'']"
  by (rule exact_path, code_simp)+

lemma path_match_segs: "split_on (CHR ''/'') p = [] # ss \<Longrightarrow> path_match ps p = match_segs ps ss"
  by (simp add: path_match_def)

lemma on_path_simps: "on_path True e next = Inr (Some e)" "on_path False e next = next"
  by (simp_all add: on_path_def)

lemma on_match_simps [simp]:
  "on_match (Inr None) f next = next"
  "on_match (Inr (Some x)) f next = (case f x of None \<Rightarrow> next | Some e \<Rightarrow> Inr (Some e))"
  by (simp_all add: on_match_def)

lemmas matchers = runtimeNodeHeartbeatMatch_def runtimeNodeStatusMatch_def runtimeNodeLogsMatch_def projectSecretsMatch_def projectQuotaUsageMatch_def projectUsageMatch_def projectEnforcementReportMatch_def projectUsageQuotaReportMatch_def projectBillingStatementMatch_def projectBillingBudgetMatch_def organizationBillingProfileMatch_def productionQuotaIncreaseMatch_def organizationBillingStatementMatch_def organizationCustomerAuditEventsMatch_def organizationBillingInvoicesMatch_def listOrganizationBillingInvoicesMatch_def billingInvoiceMatch_def billingInvoiceRetentionPolicyMatch_def billingInvoiceExportMatch_def projectCustomDomainsMatch_def projectDeployPreviewsMatch_def projectEdgeWorkerReleasesMatch_def edgeWorkerReleaseMatch_def edgeWorkerReleaseOperationsMatch_def deployPreviewRollbackMatch_def customDomainVerifyMatch_def customDomainMatch_def customDomainTlsMatch_def customDomainTlsCompleteMatch_def userEmailVerificationMatch_def projectMembershipsMatch_def projectMembershipInviteAcceptanceMatch_def projectMembershipMatch_def projectApiKeysMatch_def apiKeyRevokeMatch_def apiKeyRotateMatch_def projectSettingsMatch_def projectCustomerAuditEventsMatch_def projectSqliteDatabasesMatch_def sqliteDatabaseMatch_def sqliteDatabaseBackupsMatch_def sqliteDatabaseBackupsGcMatch_def sqliteDatabaseRestoresMatch_def secretMatch_def projectKvNamespacesMatch_def kvNamespaceMatch_def projectDurableObjectNamespacesMatch_def alarmDemoObjectMatch_def durableObjectNamespaceMatch_def

lemmas chain = admin_routes_def organization_routes_def release_routes_def project_routes_def usage_routes_def resource_routes_def runtime_routes_def

subsection \<open>Every handler found has the form of the request\<close>

fun fits :: "decoder \<Rightarrow> seg list \<Rightarrow> string list \<Rightarrow> string list \<Rightarrow> bool" where
  "fits D [] ss xs \<longleftrightarrow> ss = [] \<and> xs = []"
| "fits D (Lit l # ps) ss xs \<longleftrightarrow> (\<exists>ss'. ss = l # ss' \<and> fits D ps ss' xs)"
| "fits D (Par # ps) ss xs \<longleftrightarrow> (\<exists>s ss' x xs'. ss = s # ss' \<and> s \<noteq> [] \<and> D s = Some x \<and> xs = x # xs'
     \<and> fits D ps ss' xs')"

lemma fits_match: "(\<exists>raw. match_segs ps ss = Some raw \<and> mapE (decode1 D) raw = Inr xs) \<longleftrightarrow> fits D ps ss xs"
proof (induction ps ss arbitrary: xs rule: match_segs.induct)
  case (3 ps s ss)
  show ?case
  proof (cases "s = []")
    case False
    then have "(\<exists>raw. match_segs (Par # ps) (s # ss) = Some raw \<and> mapE (decode1 D) raw = Inr xs)
      \<longleftrightarrow> (\<exists>raw x xs'. match_segs ps ss = Some raw \<and> D s = Some x \<and> mapE (decode1 D) raw = Inr xs' \<and> xs = x # xs')"
      by (auto simp: bindE_Inr decode1_def split: option.splits)
    then show ?thesis using 3 [OF False, symmetric] False by auto
  qed simp
qed (auto elim: fits.elims)

lemma segs_match_Some:
  "segs_match D ms ps m p = Inr (Some xs) \<longleftrightarrow> m \<in> set ms \<and>
     (\<exists>ss. split_on (CHR ''/'') p = [] # ss \<and> fits D ps ss xs)"
  by (cases "split_on (CHR ''/'') p")
    (auto simp: segs_match_def path_match_def bindE_Inr fits_match [symmetric] split: option.splits list.splits)

lemma id_match_Some:
  "id_match D ms ps m p = Inr (Some x) \<longleftrightarrow> (\<exists>xs. segs_match D ms ps m p = Inr (Some xs) \<and> x = hd xs)"
  by (auto simp: id_match_def bindE_Inr)

lemma two_match_Some:
  "two_match D ms ps m p = Inr (Some z) \<longleftrightarrow> (\<exists>xs. segs_match D ms ps m p = Inr (Some xs) \<and> z = (hd xs, xs ! 1))"
  by (auto simp: two_match_def bindE_Inr)

definition right :: "decoder \<Rightarrow> string \<Rightarrow> string \<Rightarrow> endpoint matched \<Rightarrow> bool" where
  "right D m p r \<longleftrightarrow> (\<forall>e. r = Inr (Some e) \<longrightarrow> serves D e m p)"

lemma right_nil: "right D m p (Inr None)"
  by (simp add: right_def)

lemma right_path: "right D m p next \<Longrightarrow> (b \<Longrightarrow> serves D e m p) \<Longrightarrow> right D m p (on_path b e next)"
  by (simp add: right_def on_path_def)

lemma right_match:
  "right D m p next \<Longrightarrow> (\<And>x e. r = Inr (Some x) \<Longrightarrow> f x = Some e \<Longrightarrow> serves D e m p)
   \<Longrightarrow> right D m p (on_match r f next)"
  by (auto simp: right_def on_match_def bindE_Inr bind_eq_Some_conv split: option.splits)

lemma right_bind: "(\<And>v. r = Inr v \<Longrightarrow> right D m p (f v)) \<Longrightarrow> right D m p (bindE r f)"
  by (auto simp: right_def bindE_Inr)

lemmas found = id_match_Some two_match_Some segs_match_Some serves_def matchers exact_paths

lemma right_admin: "right D m p next \<Longrightarrow> right D m p (admin_routes D m p next)"
  unfolding admin_routes_def by (intro right_path right_match; auto simp: found)

lemma right_organization: "right D m p next \<Longrightarrow> right D m p (organization_routes D m p next)"
  unfolding organization_routes_def by (intro right_path right_match; auto simp: found)

lemma right_usage: "right D m p next \<Longrightarrow> right D m p (usage_routes D m p next)"
  unfolding usage_routes_def by (intro right_path right_match; auto simp: found split: if_splits)

lemma right_resource: "right D m p next \<Longrightarrow> right D m p (resource_routes D m p next)"
  unfolding resource_routes_def by (intro right_path right_match; auto simp: found split: if_splits)

lemma right_runtime: "right D m p next \<Longrightarrow> right D m p (runtime_routes D m p next)"
  unfolding runtime_routes_def by (intro right_path right_match; auto simp: found)

lemma right_release: "right D m p next \<Longrightarrow> right D m p (release_routes D m p next)"
  unfolding release_routes_def by (intro right_path right_match right_bind; auto simp: found split: if_splits)

lemma right_project: "right D m p next \<Longrightarrow> right D m p (project_routes D m p next)"
  unfolding project_routes_def by (intro right_path right_match right_bind; auto simp: found split: if_splits)

lemma dispatch_right: "dispatch D m p = Inr (Some e) \<Longrightarrow> serves D e m p"
proof -
  have "right D m p (dispatch D m p)"
    unfolding dispatch_def by (intro right_admin right_organization right_release right_project right_usage
      right_resource right_runtime right_nil)
  then show "dispatch D m p = Inr (Some e) \<Longrightarrow> serves D e m p" by (simp add: right_def)
qed

subsection \<open>Every request of the form of a handler finds it\<close>

lemma decode1_Some: "D s = Some x \<Longrightarrow> decode1 D s = Inr x"
  by (simp add: decode1_def)

lemmas run_chain = dispatch_def chain matchers exact_paths on_path_def id_match_def two_match_def
  segs_match_def path_match_def

text \<open>With this congruence the simplifier stops at the first conjunct that fails.\<close>

lemma lazy_conj: "P = P' \<Longrightarrow> (P \<and> Q) = (P' \<and> Q)" by simp

lemma serves_Admin: "serves D (Admin a) m p \<Longrightarrow> dispatch D m p = Inr (Some (Admin a))"
  by (cases a; auto simp: serves_def list_all2_Cons1; simp add: run_chain decode1_Some cong: lazy_conj)

lemma serves_Account: "serves D (Account a) m p \<Longrightarrow> dispatch D m p = Inr (Some (Account a))"
  by (cases a; auto simp: serves_def list_all2_Cons1; simp add: run_chain decode1_Some cong: lazy_conj)

lemma serves_Release: "serves D (Release a) m p \<Longrightarrow> dispatch D m p = Inr (Some (Release a))"
  by (cases a; auto simp: serves_def list_all2_Cons1; simp add: run_chain decode1_Some cong: lazy_conj)

lemma serves_InProject: "serves D (InProject a) m p \<Longrightarrow> dispatch D m p = Inr (Some (InProject a))"
  by (cases a; auto simp: serves_def list_all2_Cons1; simp add: run_chain decode1_Some cong: lazy_conj)

lemma serves_Metering: "serves D (Metering a) m p \<Longrightarrow> dispatch D m p = Inr (Some (Metering a))"
  by (cases a; auto simp: serves_def list_all2_Cons1; simp add: run_chain decode1_Some cong: lazy_conj)

lemma serves_Binding: "serves D (Binding a) m p \<Longrightarrow> dispatch D m p = Inr (Some (Binding a))"
  by (cases a; auto simp: serves_def list_all2_Cons1; simp add: run_chain decode1_Some cong: lazy_conj)

lemma serves_Serving: "serves D (Serving a) m p \<Longrightarrow> dispatch D m p = Inr (Some (Serving a))"
  by (cases a; auto simp: serves_def list_all2_Cons1; simp add: run_chain decode1_Some cong: lazy_conj)

lemma serves_dispatch: "serves D e m p \<Longrightarrow> dispatch D m p = Inr (Some e)"
  by (cases e) (simp_all add: serves_Admin serves_Account serves_Release serves_InProject serves_Metering
      serves_Binding serves_Serving)

text \<open>
  C7. The chain of conditions is exact and its order does not matter: a handler is reached by the
  requests of its own method and form of path, whose arguments are the decoded segments, and by no
  others; no handler hides another.
\<close>

theorem dispatch_is_exact: "dispatch D m p = Inr (Some e) \<longleftrightarrow> serves D e m p"
  using dispatch_right serves_dispatch by blast

subsection \<open>Addresses\<close>

fun part_text :: "(string \<Rightarrow> string) \<Rightarrow> part \<Rightarrow> string" where
  "part_text enc (Fixed l) = l"
| "part_text enc (Arg x) = enc x"

fun address :: "string list \<Rightarrow> string" where
  "address [] = []"
| "address (s # ss) = CHR ''/'' # s @ address ss"

definition address_of :: "(string \<Rightarrow> string) \<Rightarrow> endpoint \<Rightarrow> string" where
  "address_of enc e = address (map (part_text enc) (snd (target e)))"

lemma split_prefix: "c \<notin> set s \<Longrightarrow> split_on c (s @ c # r) = s # split_on c r"
  by (induction s) auto

lemma split_whole: "c \<notin> set s \<Longrightarrow> split_on c s = [s]"
  by (induction s) auto

lemma split_address:
  "\<forall>s \<in> set ss. CHR ''/'' \<notin> set s \<Longrightarrow> ss \<noteq> [] \<Longrightarrow> split_on (CHR ''/'') (address ss) = [] # ss"
proof (induction ss)
  case (Cons s ss)
  then show ?case by (cases ss) (auto simp: split_whole split_prefix)
qed simp

fun args_of :: "part list \<Rightarrow> string list" where
  "args_of [] = []"
| "args_of (Fixed _ # ps) = args_of ps"
| "args_of (Arg x # ps) = x # args_of ps"

fun fixed_of :: "part list \<Rightarrow> string list" where
  "fixed_of [] = []"
| "fixed_of (Fixed l # ps) = l # fixed_of ps"
| "fixed_of (Arg _ # ps) = fixed_of ps"

lemma fixed_ok: "list_all (\<lambda>l. CHR ''/'' \<notin> set l) (fixed_of (snd (target e))) \<and> snd (target e) \<noteq> []"
proof (cases e)
  case (Admin a) then show ?thesis by (cases a) simp_all
next
  case (Account a) then show ?thesis by (cases a) simp_all
next
  case (Release a) then show ?thesis by (cases a) simp_all
next
  case (InProject a) then show ?thesis by (cases a) simp_all
next
  case (Metering a) then show ?thesis by (cases a) simp_all
next
  case (Binding a) then show ?thesis by (cases a) simp_all
next
  case (Serving a) then show ?thesis by (cases a) simp_all
qed

lemma parts_stand:
  "list_all (\<lambda>x. D (enc x) = Some x \<and> enc x \<noteq> [] \<and> c \<notin> set (enc x)) (args_of ps)
   \<Longrightarrow> list_all (\<lambda>l. c \<notin> set l) (fixed_of ps)
   \<Longrightarrow> list_all2 (stands_for D) ps (map (part_text enc) ps) \<and> (\<forall>s \<in> set (map (part_text enc) ps). c \<notin> set s)"
proof (induction ps)
  case (Cons q ps)
  then show ?case by (cases q) auto
qed simp

text \<open>
  Addresses are read back: the path made of the fixed segments of a handler and its arguments, encoded by a
  function that \<open>decodeURIComponent\<close> undoes, finds that handler with those arguments. The arguments \<open>.\<close> and
  \<open>..\<close> never get here: \<open>new URL\<close> takes them for steps of the path.
\<close>

lemma addresses_are_read_back:
  assumes "list_all (\<lambda>x. D (enc x) = Some x \<and> enc x \<noteq> [] \<and> CHR ''/'' \<notin> set (enc x)) (args_of (snd (target e)))"
  shows "dispatch D (fst (target e)) (address_of enc e) = Inr (Some e)"
proof (rule serves_dispatch)
  let ?ss = "map (part_text enc) (snd (target e))"
  from parts_stand [OF assms] fixed_ok [of e]
  have "list_all2 (stands_for D) (snd (target e)) ?ss" "\<forall>s \<in> set ?ss. CHR ''/'' \<notin> set s" by auto
  moreover from this(2) fixed_ok [of e] have "split_on (CHR ''/'') (address ?ss) = [] # ?ss"
    by (intro split_address) auto
  ultimately show "serves D e (fst (target e)) (address_of enc e)"
    by (auto simp: serves_def address_of_def)
qed

text \<open>An encoding of the characters that an example needs.\<close>

definition ex_enc :: "string \<Rightarrow> string" where
  "ex_enc s = concat (map (\<lambda>c. if c = CHR ''/'' then ''%2F'' else if c = CHR ''%'' then ''%25'' else [c]) s)"

fun ex_dec :: "string \<Rightarrow> string option" where
  "ex_dec [] = Some []"
| "ex_dec (c # cs) = (if c = CHR ''%'' then (case cs of
       a # b # r \<Rightarrow> if [a, b] = ''2F'' then map_option ((#) (CHR ''/'')) (ex_dec r)
         else if [a, b] = ''25'' then map_option ((#) (CHR ''%'')) (ex_dec r) else None
     | _ \<Rightarrow> None) else map_option ((#) c) (ex_dec cs))"

lemma addresses_are_read_back_example:
  "dispatch ex_dec ''PATCH'' ''/projects/p%2F1/memberships/u%251'' = Inr (Some (InProject (HUpdateMembershipRole ''p/1'' ''u%1'')))"
proof -
  let ?e = "InProject (HUpdateMembershipRole ''p/1'' ''u%1'')"
  have "list_all (\<lambda>x. ex_dec (ex_enc x) = Some x \<and> ex_enc x \<noteq> [] \<and> CHR ''/'' \<notin> set (ex_enc x)) (args_of (snd (target ?e)))"
    by code_simp
  from addresses_are_read_back [OF this] have "dispatch ex_dec (fst (target ?e)) (address_of ex_enc ?e) = Inr (Some ?e)" .
  moreover have "fst (target ?e) = ''PATCH''" by code_simp
  moreover have "address_of ex_enc ?e = ''/projects/p%2F1/memberships/u%251''" by code_simp
  ultimately show ?thesis by simp
qed

end
