(* ===== verification/HttpLaws.thy ===== *)
theory HttpLaws
  imports HttpApp HttpDispatch Frames
begin

text \<open>
  What requests can do: they do to the database what operations of the control plane do, handlers called
  with GET only read it, and what is written was written with a token that allows it.
\<close>

subsection \<open>Requests are made of operations\<close>

text \<open>A computation keeps whatever every operation of the control plane keeps.\<close>

definition kept_by_all :: "UrlApi \<Rightarrow> (Db \<Rightarrow> bool) \<Rightarrow> bool" where
  "kept_by_all U I \<longleftrightarrow> (\<forall>E c s. good_env U E \<longrightarrow> I s \<longrightarrow> I (exec E c s))"

definition reaches :: "UrlApi \<Rightarrow> 'a http \<Rightarrow> bool" where
  "reaches U m \<longleftrightarrow> (\<forall>I s s' r. kept_by_all U I \<longrightarrow> m s = Some (s', r) \<longrightarrow> I s \<longrightarrow> I s')"

named_theorems reaching "computations made of operations"

lemma reaches_basic [reaching]:
  "reaches U (okH x)" "reaches U (failH e)" "reaches U outside" "reaches U (liftH r)" "reaches U (snapshotH E)"
  by (simp_all add: reaches_def okH_def failH_def outside_def liftH_def snapshotH_def)

lemma reaches_bind [reaching]:
  "reaches U m \<Longrightarrow> (\<And>x. reaches U (f x)) \<Longrightarrow> reaches U (bindH m f)"
  unfolding reaches_def
proof (intro allI impI)
  fix I :: "Db \<Rightarrow> bool" and s s' r
  assume m: "\<forall>I s s' r. kept_by_all U I \<longrightarrow> m s = Some (s', r) \<longrightarrow> I s \<longrightarrow> I s'"
    and f: "\<And>x. \<forall>I s s' r. kept_by_all U I \<longrightarrow> f x s = Some (s', r) \<longrightarrow> I s \<longrightarrow> I s'"
    and I: "kept_by_all U I" "bindH m f s = Some (s', r)" "I s"
  from I(2) obtain s1 r1 where s1: "m s = Some (s1, r1)" by (auto simp: bindH_def split: option.splits)
  with m I(1,3) have "I s1" by blast
  show "I s'"
  proof (cases r1)
    case (Inl e)
    with s1 I(2) \<open>I s1\<close> show ?thesis by (simp add: bindH_def)
  next
    case (Inr x)
    with s1 I(2) have "f x s1 = Some (s', r)" by (simp add: bindH_def)
    with f [of x] I(1) \<open>I s1\<close> show ?thesis by blast
  qed
qed

lemma reaches_field [reaching]:
  "(\<And>x. reaches U (k x)) \<Longrightarrow> reaches U (with_text r name k)"
  "(\<And>y. reaches U (k' y)) \<Longrightarrow> reaches U (with_opt_text r name k')"
  "(\<And>y. reaches U (k' y)) \<Longrightarrow> reaches U (with_nullish_text r name k')"
  by (simp_all add: with_text_def with_opt_text_def with_nullish_text_def reaches_basic split: json.split)

lemma reaches_body [reaching]:
  "(\<And>r. reaches U (k r)) \<Longrightarrow> reaches U (with_body P q view k)"
  "(\<And>x. reaches U (k' x)) \<Longrightarrow> reaches U (with_form form name k')"
  unfolding with_body_def with_form_def by (rule reaches_bind; simp add: reaches_basic)+

lemma reaches_respond [reaching]: "reaches U (callH m) \<Longrightarrow> reaches U (respond status f m)"
  unfolding respond_def by (intro reaching)

lemma reaches_redirect [reaching]: "reaches U (callH m) \<Longrightarrow> reaches U (redirect location m)"
  unfolding redirect_def by (rule reaches_respond)

lemma callH_Some: "callH m s = Some (s', r) \<Longrightarrow> s' = fst (m s)"
  by (auto simp: callH_def split: prod.splits sum.splits)

lemma reaches_cmd: "(\<And>s. fst (m s) = exec E c s) \<Longrightarrow> good_env U E \<Longrightarrow> reaches U (callH m)"
  by (auto simp: reaches_def kept_by_all_def dest!: callH_Some)

lemma reaches_read: "(\<And>s. fst (m s) = s) \<Longrightarrow> reaches U (callH m)"
  by (auto simp: reaches_def dest!: callH_Some)

lemma callH_bindS: "callH (bindS m f) = bindH (callH m) (\<lambda>x. callH (f x))"
  by (auto simp: callH_def bindS_def bindH_def fun_eq_iff split: prod.splits sum.splits)

text \<open>Every operation that writes is a command.\<close>

lemma reaches_command:
  assumes "good_env U E" and "\<And>s. exec E c s = fst (m s)"
  shows "reaches U (callH m)"
  by (rule reaches_cmd [OF assms(2) [symmetric] assms(1)])

lemma reaches_accounts [reaching]:
  assumes "good_env U E"
  shows "reaches U (callH (createOrganization E a))" "reaches U (callH (updateOrganizationBilling E b))"
    "reaches U (callH (createUser E c))" "reaches U (callH (verifyUserEmail E uid))"
    "reaches U (callH (createProject E d))" "reaches U (callH (addProjectMembership E pid uid role))"
    "reaches U (callH (updateProjectMembershipRole E pid uid role))"
    "reaches U (callH (removeProjectMembership E pid uid))"
    "reaches U (callH (acceptProjectMembershipInvite E pid uid))"
    "reaches U (callH (createApiKey E k))" "reaches U (callH (revokeApiKey E v))"
    "reaches U (callH (rotateApiKey E i))" "reaches U (callH (authenticateApiToken E v))"
  by (rule reaches_command [OF assms], rule exec.simps)+

lemma reaches_delivery [reaching]:
  assumes "good_env U E"
  shows "reaches U (callH (createCustomDomain E v pid h))" "reaches U (callH (deleteCustomDomain E rid))"
    "reaches U (callH (verifyCustomDomainOwnership E rid v))"
    "reaches U (callH (requestCustomDomainTlsProvisioning E rid v w))"
    "reaches U (callH (completeCustomDomainTlsProvisioning E a))" "reaches U (callH (createDeployPreview E b))"
    "reaches U (callH (rollbackDeployPreview E rid))" "reaches U (callH (createArtifact E c))"
    "reaches U (callH (createSecret E v pid n x))" "reaches U (callH (updateSecretValue E rid x))"
    "reaches U (callH (deleteSecret rid))" "reaches U (callH (createKvNamespace E v pid n))"
    "reaches U (callH (deleteKvNamespace rid))" "reaches U (callH (createDurableObjectNamespace E v pid n))"
    "reaches U (callH (deleteDurableObjectNamespace rid))" "reaches U (callH (createDeployment E d))"
    "reaches U (callH (pointRoute E i))" "reaches U (callH (startRouteCanary E j))"
    "reaches U (callH (rollbackRoute E k))" "reaches U (callH (registerRuntimeNode E l))"
    "reaches U (callH (recordRuntimeNodeHeartbeat E m))" "reaches U (callH (updateRuntimeNodeStatus rid v))"
    "reaches U (callH (cleanupRuntimeNodes E v w))"
  by (rule reaches_command [OF assms], rule exec.simps)+

text \<open>The reads leave the database as it is.\<close>

definition reading :: "'a service \<Rightarrow> bool" where
  "reading m \<longleftrightarrow> (\<forall>s. fst (m s) = s)"

lemma reading_basic [reaching]:
  "reading (askS g)" "reading (readS h)" "reading (liftS r)" "reading (pureS x)"
  by (simp_all add: reading_def)

lemma reading_bind [reaching]: "reading m \<Longrightarrow> (\<And>x. reading (f x)) \<Longrightarrow> reading (bindS m f)"
  by (auto simp: reading_def bindS_def split: prod.splits sum.splits) (metis fst_conv)+

lemma reading_in [reaching]: "reading (in_project pid g)" "reading (in_organization oid g)"
  unfolding in_project_def in_organization_def by (intro reaching)+

lemmas service_reads = service_getProject_def service_listProjectCustomerAuditEvents_def
  service_listOrganizationCustomerAuditEvents_def service_listProjectMemberships_def
  service_listProjectApiKeys_def service_listProjectCustomDomains_def service_listProjectDeployPreviews_def
  service_getProjectUsage_def service_getProjectArtifactByDigest_def service_getSecret_def
  service_listProjectSecrets_def service_getKvNamespace_def service_listProjectKvNamespaces_def
  service_getDurableObjectNamespace_def service_listProjectDurableObjectNamespaces_def
  service_listRuntimeNodes_def service_listCanaryDecisions_def

lemma reading_service [reaching]:
  "reading (service_listProjectCustomerAuditEvents pid)" "reading (service_listOrganizationCustomerAuditEvents pid)"
  "reading (service_listProjectMemberships pid)" "reading (service_listProjectApiKeys pid)"
  "reading (service_listProjectCustomDomains pid)" "reading (service_listProjectDeployPreviews pid)"
  "reading (service_getProjectUsage pid)" "reading (service_getSecret pid)"
  "reading (service_listProjectSecrets pid)" "reading (service_getKvNamespace pid)"
  "reading (service_listProjectKvNamespaces pid)" "reading (service_getDurableObjectNamespace pid)"
  "reading (service_listProjectDurableObjectNamespaces pid)" "reading service_listRuntimeNodes"
  "reading service_listCanaryDecisions" "reading (service_getProject pid)"
  unfolding service_reads by (intro reaching)+

lemma reaches_reading: "reading m \<Longrightarrow> reaches U (callH m)"
  by (rule reaches_read) (simp add: reading_def)

lemmas reaches_service [reaching] = reading_service [THEN reaches_reading]

lemma reaches_onboarding:
  assumes "\<And>n. good_env U (E n)"
  shows "reaches U (callH (createBetaOnboarding E i))"
  unfolding createBetaOnboarding_def callH_bindS by (intro reaching assms reaches_reading)

lemma reaches_handler:
  assumes "\<And>n. good_env U (hp_env P n)"
  shows "reaches U (handler P q e)"
proof (cases e)
  case (Admin a) then show ?thesis by (cases a) (auto simp: Let_def intro!: reaching assms)
next
  case (Account a) then show ?thesis by (cases a) (auto intro!: reaching assms reaches_onboarding)
next
  case (Release a) then show ?thesis by (cases a) (auto intro!: reaching assms)
next
  case (InProject a) then show ?thesis by (cases a) (auto intro!: reaching assms)
next
  case (Metering a) then show ?thesis by (cases a) (auto intro!: reaching assms)
next
  case (Binding a) then show ?thesis by (cases a) (auto intro!: reaching assms)
next
  case (Serving a) then show ?thesis by (cases a) (auto intro!: reaching assms)
qed

subsection \<open>The authorization\<close>

text \<open>Two databases that differ at most in when their keys were last used.\<close>

definition forget_use :: "ApiKey \<times> string \<Rightarrow> ApiKey \<times> string" where
  "forget_use = map_prod (\<lambda>k. k\<lparr>key_lastUsedAt := None\<rparr>) (\<lambda>h. h)"

definition untouched :: "Db \<Rightarrow> Db \<Rightarrow> bool" where
  "untouched s s' \<longleftrightarrow> s'\<lparr>db_apiKeys := []\<rparr> = s\<lparr>db_apiKeys := []\<rparr>
     \<and> map forget_use (db_apiKeys s') = map forget_use (db_apiKeys s)"

lemma untouched_refl [simp]: "untouched s s"
  by (simp add: untouched_def)

lemma forget_update:
  "map forget_use (update_by key rid (map_prod (\<lambda>k. k\<lparr>key_lastUsedAt := t\<rparr>) (\<lambda>h. h)) rows) = map forget_use rows"
  by (induction rows) (auto simp: update_by_def forget_use_def)

lemma untouched_use: "untouched s (fst (repo_updateApiKeyLastUsed rid t s))"
  by (simp add: repo_updateApiKeyLastUsed_def update_api_key_def untouched_def forget_update split: option.split)

text \<open>
  The token a request presents: the first configured one of its text, or else the key of the database with
  its hash, if it is not revoked.
\<close>

definition presents :: "Env \<Rightarrow> HttpOptions \<Rightarrow> Db \<Rightarrow> string option \<Rightarrow> HttpToken \<Rightarrow> bool" where
  "presents E opts s authorization t \<longleftrightarrow> (\<exists>b. bearer_of authorization = Some b
     \<and> (case filter (\<lambda>t. ht_token t = b) (configuredApiTokens opts) of
          configured # _ \<Rightarrow> t = configured
        | [] \<Rightarrow> trim b \<noteq> []
            \<and> (\<exists>k u. getApiKeyByTokenHash s (hashApiToken E (trim b)) = Some k \<and> truthy_string (key_revokedAt k) = None
                 \<and> getApiKey s (key_id k) = Some u \<and> t = \<lparr>ht_token = trim b, ht_scopes = key_scopes u,
                     ht_principal = ''api-key:'' @ key_id u\<rparr>)))"

text \<open>Whether a request is allowed what needs a scope: without configured tokens everything is.\<close>

definition may :: "Env \<Rightarrow> HttpOptions \<Rightarrow> Db \<Rightarrow> string option \<Rightarrow> ApiScope \<Rightarrow> bool" where
  "may E opts s authorization scope \<longleftrightarrow> configuredApiTokens opts = []
     \<or> (\<exists>t. presents E opts s authorization t \<and> tokenAllows t scope)"

lemma find_Some_mem: "find P xs = Some x \<Longrightarrow> x \<in> set xs \<and> P x"
  by (induction xs) (auto split: if_splits)

lemma known_key: "getApiKeyByTokenHash s h = Some k \<Longrightarrow> getApiKey s (key_id k) \<noteq> None"
  by (auto simp: getApiKeyByTokenHash_def getApiKey_def row_by_def find_None_iff dest!: find_Some_mem)

lemma authenticate_db:
  obtains s' r where "authenticateDbApiToken E b s = (s', Inr r)" and "untouched s s'"
    and "\<And>t. r = Some t \<longleftrightarrow> trim b \<noteq> [] \<and> (\<exists>k u. getApiKeyByTokenHash s (hashApiToken E (trim b)) = Some k
         \<and> truthy_string (key_revokedAt k) = None \<and> getApiKey s (key_id k) = Some u
         \<and> t = \<lparr>ht_token = trim b, ht_scopes = key_scopes u, ht_principal = ''api-key:'' @ key_id u\<rparr>)"
proof (cases "trim b = [] \<or> getApiKeyByTokenHash s (hashApiToken E (trim b)) = None
    \<or> (\<exists>k. getApiKeyByTokenHash s (hashApiToken E (trim b)) = Some k \<and> truthy_string (key_revokedAt k) \<noteq> None)")
  case True
  then have "authenticateDbApiToken E b s = (s, Inr None)"
    by (auto simp: authenticateDbApiToken_def authenticateApiToken_def Let_def bindS_def)
  then show thesis by (rule that) (use True in auto)
next
  case False
  then obtain k where k: "trim b \<noteq> []" "getApiKeyByTokenHash s (hashApiToken E (trim b)) = Some k"
    "truthy_string (key_revokedAt k) = None" by auto
  from known_key [OF k(2)] obtain u where u: "getApiKey s (key_id k) = Some u" by blast
  obtain s' where run: "repo_updateApiKeyLastUsed (key_id k) (env_now E) s = (s', Inr (u\<lparr>key_lastUsedAt := Some (env_now E)\<rparr>))"
    using u by (simp add: repo_updateApiKeyLastUsed_def update_api_key_def)
  show thesis
  proof (rule that)
    show "authenticateDbApiToken E b s = (s', Inr (Some \<lparr>ht_token = trim b, ht_scopes = key_scopes u,
        ht_principal = ''api-key:'' @ key_id u\<rparr>))"
      using k run
      by (simp add: authenticateDbApiToken_def authenticateApiToken_def Let_def of_api_token_def bindS_def)
    show "untouched s s'" using untouched_use [of s "key_id k" "env_now E"] run by simp
  qed (use k u in auto)
qed

lemma find_filter: "find P xs = (case filter P xs of [] \<Rightarrow> None | x # _ \<Rightarrow> Some x)"
  by (induction xs) simp_all

lemma find_token_run:
  obtains s' r where "find_token E (configuredApiTokens opts) (bearer_of authorization) s = (s', Inr r)"
    and "untouched s s'" and "\<And>t. r = Some t \<longleftrightarrow> presents E opts s authorization t"
proof (cases "bearer_of authorization")
  case None
  then show thesis by (intro that [of s None]) (simp_all add: find_token_def presents_def)
next
  case (Some b)
  show thesis
  proof (cases "filter (\<lambda>t. ht_token t = b) (configuredApiTokens opts)")
    case Nil
    obtain s' r where "authenticateDbApiToken E b s = (s', Inr r)" "untouched s s'"
      "\<And>t. r = Some t \<longleftrightarrow> trim b \<noteq> [] \<and> (\<exists>k u. getApiKeyByTokenHash s (hashApiToken E (trim b)) = Some k
       \<and> truthy_string (key_revokedAt k) = None \<and> getApiKey s (key_id k) = Some u
       \<and> t = \<lparr>ht_token = trim b, ht_scopes = key_scopes u, ht_principal = ''api-key:'' @ key_id u\<rparr>)"
      by (rule authenticate_db [of E b s]) blast
    with Some Nil show thesis by (intro that [of s' r]) (simp_all add: find_token_def presents_def find_filter)
  next
    case (Cons t ts)
    with Some show thesis
      by (intro that [of s "Some t"]) (auto simp: find_token_def presents_def find_filter)
  qed
qed

lemma authorize_cases:
  assumes "configuredApiTokens opts \<noteq> []"
  obtains s' t where "authorizeRequest E opts authorization scope s = (s', Inr (Allowed (Some t)))"
      and "untouched s s'" and "presents E opts s authorization t" and "tokenAllows t scope"
  | s' c code msg where "authorizeRequest E opts authorization scope s = (s', Inr (Denied c code msg))"
      and "untouched s s'" and "\<not> may E opts s authorization scope"
      and "c = (if \<exists>t. presents E opts s authorization t then 403 else 401)"
proof -
  obtain s' r where f: "find_token E (configuredApiTokens opts) (bearer_of authorization) s = (s', Inr r)"
    and un: "untouched s s'" and pr: "\<And>t. r = Some t \<longleftrightarrow> presents E opts s authorization t"
    by (rule find_token_run [where E = E and opts = opts and authorization = authorization and s = s]) blast
  show thesis
  proof (cases "\<exists>t. r = Some t \<and> tokenAllows t scope")
    case True
    then obtain t where t: "r = Some t" "tokenAllows t scope" by blast
    then have "authorizeRequest E opts authorization scope s = (s', Inr (Allowed (Some t)))"
      using f assms by (simp add: authorizeRequest_def Let_def bindS_def)
    with that(1) un pr [of t] t show thesis by blast
  next
    case False
    then have "\<not> may E opts s authorization scope" using assms pr by (auto simp: may_def)
    moreover have "(if \<exists>t. presents E opts s authorization t then 403 else 401 :: int)
        = (case r of None \<Rightarrow> 401 | Some _ \<Rightarrow> 403)" using pr by (cases r) auto
    moreover have "\<exists>code msg. authorizeRequest E opts authorization scope s
        = (s', Inr (Denied (case r of None \<Rightarrow> 401 | Some _ \<Rightarrow> 403) code msg))"
      using f assms False by (cases r) (auto simp: authorizeRequest_def Let_def bindS_def)
    ultimately show thesis using un that(2) by metis
  qed
qed

subsection \<open>Handlers called with GET only read\<close>

definition reads_only :: "'a http \<Rightarrow> bool" where
  "reads_only m \<longleftrightarrow> (\<forall>s s' r. m s = Some (s', r) \<longrightarrow> s' = s)"

lemma reads_basic:
  "reads_only outside" "reads_only (okH x)" "reads_only (liftH r)" "reads_only (snapshotH E)"
  by (simp_all add: reads_only_def outside_def okH_def liftH_def snapshotH_def)

lemma reads_bind: "reads_only m \<Longrightarrow> (\<And>x. reads_only (f x)) \<Longrightarrow> reads_only (bindH m f)"
  by (fastforce simp: reads_only_def bindH_def split: option.splits prod.splits sum.splits)

lemma reads_call: "reading m \<Longrightarrow> reads_only (callH m)"
  by (auto simp: reads_only_def reading_def callH_def split: prod.splits sum.splits) (metis fst_conv)+

lemma reads_respond: "reading m \<Longrightarrow> reads_only (respond status f m)"
  unfolding respond_def by (intro reads_bind reads_call reads_basic)

lemmas only_reads = reads_basic reads_bind reads_respond reading_service

lemma get_reads:
  assumes "fst (target e) = ''GET''" shows "reads_only (handler P q e)"
proof (cases e)
  case (Admin a) with assms show ?thesis by (cases a) (auto intro!: only_reads)
next
  case (Account a) with assms show ?thesis by (cases a) (auto intro!: only_reads)
next
  case (Release a) with assms show ?thesis by (cases a) (auto intro!: only_reads)
next
  case (InProject a) with assms show ?thesis by (cases a) (auto intro!: only_reads)
next
  case (Metering a) with assms show ?thesis by (cases a) (auto intro!: only_reads)
next
  case (Binding a) with assms show ?thesis by (cases a) (auto intro!: only_reads)
next
  case (Serving a) with assms show ?thesis by (cases a) (auto intro!: only_reads)
qed

lemma handle_get_reads:
  assumes "hq_method q = ''GET''" shows "reads_only (handle_allowed P q path)"
proof -
  have "reads_only (handler P q e)" if "dispatch (hp_decode P) (hq_method q) path = Inr (Some e)" for e
    using dispatch_right [OF that] assms by (intro get_reads) (simp add: serves_def)
  then show ?thesis
    by (auto simp: handle_allowed_def bindH_def liftH_def okH_def reads_only_def split: option.splits sum.splits)
qed

subsection \<open>Whole requests\<close>

definition is_public :: "string \<Rightarrow> string \<Rightarrow> bool" where
  "is_public m path \<longleftrightarrow> m = ''GET'' \<and> path = ''/healthz'' \<or> m = ''POST'' \<and> path = ''/alarm-demo/webhook''
     \<or> m = ''GET'' \<and> is_local_artifact path"

lemma http_request_public:
  "hq_url q = Some (path, query) \<Longrightarrow> is_public (hq_method q) path
   \<Longrightarrow> http_request P opts q s = Some (s', r) \<Longrightarrow> s' = s"
  by (auto simp: http_request_def is_public_def okH_def outside_def split: if_splits)

lemma http_request_private:
  "hq_url q = Some (path, query) \<Longrightarrow> \<not> is_public (hq_method q) path
   \<Longrightarrow> http_request P opts q = authorized_request P opts q path"
  by (auto simp: http_request_def is_public_def)

lemma reaches_answered [reaching]: "reaches U m \<Longrightarrow> reaches U (answered m)"
  by (fastforce simp: reaches_def answered_def split: option.splits prod.splits sum.splits)

lemma reaches_authorize [reaching]:
  assumes "good_env U E" shows "reaches U (callH (authorizeRequest E opts authorization scope))"
proof -
  have db: "reaches U (callH (authenticateDbApiToken E b))" for b
    unfolding authenticateDbApiToken_def callH_bindS
    by (intro reaching assms reaches_reading)
  have pure: "reaches U (callH (pureS x))" for x :: 'x by (intro reaching reaches_reading)
  have "reaches U (callH (find_token E tokens bearer))" for tokens bearer
    by (simp add: find_token_def pure db split: option.split)
  then show ?thesis
    by (simp add: authorizeRequest_def Let_def callH_bindS pure reaches_bind)
qed

lemma reaches_request:
  assumes "\<And>n. good_env U (hp_env P n)"
  shows "reaches U (http_request P opts q)"
proof -
  have a: "reaches U (handle_allowed P q path)" for path
    unfolding handle_allowed_def by (auto intro!: reaching reaches_handler assms split: option.split)
  have "reaches U (authorized_request P opts q path)" for path
    unfolding authorized_request_def Let_def
    by (auto intro!: reaching assms a split: AuthorizationResult.split)
  then show ?thesis
    by (auto simp: http_request_def intro!: reaching split: option.split)
qed

lemma serve_Some:
  assumes "serve P opts q s = Some (s', rep, audit)"
  obtains r where "http_request P opts q s = Some (s', r)"
    and "r = Inr (rep, audit) \<or> (\<exists>e. r = Inl e \<and> rep = error_reply e \<and> audit = None)"
  using assms by (auto simp: serve_def split: option.splits prod.splits sum.splits)

text \<open>
  The databases that requests lead to, each with its own platform and options. A request whose handler is
  outside the model does operations of the control plane, in any number and order and with any arguments
  (the analysis of a canary, the release of an edge worker), and changes tables that no snapshot reads
  (usage, invoices, operations of edge workers and the like).
\<close>

inductive http_run :: "UrlApi \<Rightarrow> Db \<Rightarrow> bool" for U where
  started: "http_run U empty_db"
| served: "http_run U s \<Longrightarrow> \<forall>n. good_env U (hp_env P n)
    \<Longrightarrow> serve P opts q s = Some (s', rep, audit) \<Longrightarrow> http_run U s'"
| operation: "http_run U s \<Longrightarrow> good_env U E \<Longrightarrow> http_run U (exec E c s)"
| elsewhere: "http_run U s \<Longrightarrow> core_rows s' = core_rows s \<Longrightarrow> http_run U s'"

lemma serve_keeps:
  assumes "kept_by_all U I" and "\<forall>n. good_env U (hp_env P n)" and "serve P opts q s = Some (s', rep, audit)" and "I s"
  shows "I s'"
proof -
  from assms(3) obtain r where "http_request P opts q s = Some (s', r)" by (rule serve_Some)
  moreover have "reaches U (http_request P opts q)" using assms(2) by (intro reaches_request) simp
  ultimately show ?thesis using assms(1,4) unfolding reaches_def by blast
qed

lemma http_run_ok: "http_run U s \<Longrightarrow> url_roundtrip U \<Longrightarrow> db_ok U s"
proof (induction rule: http_run.induct)
  case started
  show ?case by (rule empty_ok)
next
  case (served s P opts q s' rep audit)
  have "kept_by_all U (db_ok U)" using served.prems exec_ok by (auto simp: kept_by_all_def)
  from serve_keeps [OF this served.hyps(2,3)] served show ?case by blast
next
  case (operation s E c)
  then show ?case using exec_ok by blast
next
  case (elsewhere s s')
  then show ?case using db_ok_core by blast
qed

lemma untouched_ok:
  assumes "untouched s s'" and "db_ok U s" shows "db_ok U s'"
proof -
  have "s'\<lparr>db_apiKeys := []\<rparr> = s\<lparr>db_apiKeys := []\<rparr>" using assms(1) by (simp add: untouched_def)
  then have "core_rows (s'\<lparr>db_apiKeys := []\<rparr>) = core_rows (s\<lparr>db_apiKeys := []\<rparr>)" by simp
  then have "core_rows s' = core_rows s" by (simp add: core_rows_def)
  then show ?thesis using assms(2) db_ok_core by blast
qed

lemma snapshot_endpoint: "dispatch D ''GET'' ''/snapshots/routes'' = Inr (Some (Serving HRouteSnapshot))"
proof (rule serves_dispatch)
  have "split_on (CHR ''/'') ''/snapshots/routes'' = [[], ''snapshots'', ''routes'']" by code_simp
  then show "serves D (Serving HRouteSnapshot) ''GET'' ''/snapshots/routes''" by (simp add: serves_def)
qed

text \<open>A request for the snapshot, after its authorization.\<close>

definition answer_allowed :: "HttpPlatform \<Rightarrow> HttpOptions \<Rightarrow> HttpRequest \<Rightarrow> string \<Rightarrow> HttpToken option
    \<Rightarrow> ApiScope \<Rightarrow> Db \<Rightarrow> (Db \<times> HttpReply \<times> HttpAuditEvent option) option" where
  "answer_allowed P opts q path t scope s = (case answered (handle_allowed P q path) s of
       None \<Rightarrow> None
     | Some (s', Inl e) \<Rightarrow> Some (s', error_reply e, None)
     | Some (s', Inr rep) \<Rightarrow> Some (s', rep, audit_event opts q t scope path rep))"

lemma serve_authorized:
  assumes "hq_url q = Some (path, query)" and "\<not> is_public (hq_method q) path"
    and "cached_body P q path = Inr body"
  shows "serve P opts q s = (case authorizeRequest (hp_env P 0) opts (hq_authorization q)
       (requiredScopeFor (hq_method q) path body) s of
      (s', Inl e) \<Rightarrow> Some (s', error_reply (Rejected e), None)
    | (s', Inr (Denied c code msg)) \<Rightarrow> Some (s', reply c (PError code (Some msg)), None)
    | (s', Inr (Allowed t)) \<Rightarrow> answer_allowed P opts q path t (requiredScopeFor (hq_method q) path body) s')"
  unfolding serve_def http_request_private [OF assms(1,2)] authorized_request_def Let_def assms(3)
    answer_allowed_def
  by (simp add: bindH_def liftH_def callH_def okH_def split: prod.split sum.split option.split
      AuthorizationResult.split)

lemma snapshot_answer:
  assumes "db_ok U s" and "hq_method q = ''GET''"
  shows "\<exists>rep snap. answer_allowed P opts q ''/snapshots/routes'' t scope s = Some (s, rep, None)
     \<and> rep = reply 200 (PSnapshot snap) \<and> assertRouteSnapshot U (encodeSnapshot snap) = Inr ()"
proof -
  obtain snap where "createRouteSnapshot (hp_env P 1) s = Inr snap"
      "assertRouteSnapshot U (encodeSnapshot snap) = Inr ()"
    using createRouteSnapshot_ok [OF assms(1), of "hp_env P 1"] assertRouteSnapshot_ok by blast
  then show ?thesis
    by (auto simp: answer_allowed_def answered_def handle_allowed_def assms(2) snapshot_endpoint bindH_def
        liftH_def okH_def snapshotH_def audit_event_def split: option.split)
qed

text \<open>
  C5. After any sequence of HTTP requests, modelled whole from the address and the body to the tables, of
  other operations of the control plane and of changes to tables the snapshot does not read, a request for
  the route snapshot is answered: with 401 or 403, by whether it presents a token, exactly when no token it
  presents may read, and otherwise with a snapshot that every runtime node accepts. It changes nothing but
  the last use of its key, and is not audited.
\<close>

theorem snapshot_requests_are_answered:
  assumes "url_roundtrip U" and "http_run U s" and "hq_method q = ''GET''"
    and "hq_url q = Some (''/snapshots/routes'', query)"
  shows "\<exists>s' rep. serve P opts q s = Some (s', rep, None) \<and> untouched s s'
     \<and> (if may (hp_env P 0) opts s (hq_authorization q) Read
        then \<exists>snap. rep = reply 200 (PSnapshot snap) \<and> assertRouteSnapshot U (encodeSnapshot snap) = Inr ()
        else rep_status rep = (if \<exists>t. presents (hp_env P 0) opts s (hq_authorization q) t then 403 else 401))"
proof -
  let ?path = "''/snapshots/routes''" and ?scope = "requiredScopeFor ''GET'' ''/snapshots/routes'' None"
  have priv: "\<not> is_public (hq_method q) ?path" unfolding assms(3) by code_simp
  have body: "cached_body P q ?path = Inr None" by (simp add: cached_body_def assms(3))
  have ok: "db_ok U s" by (rule http_run_ok [OF assms(2,1)])
  have scope: "?scope = Read" by code_simp
  note run = serve_authorized [OF assms(4) priv body, of opts s, unfolded assms(3), unfolded scope]
  show ?thesis
  proof (cases "configuredApiTokens opts = []")
    case True
    then have "serve P opts q s = answer_allowed P opts q ?path None Read s" "may (hp_env P 0) opts s (hq_authorization q) Read"
      using run by (simp_all add: authorizeRequest_def may_def)
    with snapshot_answer [OF ok assms(3), of P opts None Read] untouched_refl [of s] show ?thesis by metis
  next
    case False
    then show ?thesis
    proof (cases rule: authorize_cases [of opts "hp_env P 0" "hq_authorization q" Read s])
      case (1 s' t)
      with run have "serve P opts q s = answer_allowed P opts q ?path (Some t) Read s'" by simp
      moreover have "may (hp_env P 0) opts s (hq_authorization q) Read" using 1(3,4) by (auto simp: may_def)
      ultimately show ?thesis using snapshot_answer [OF untouched_ok [OF 1(2) ok] assms(3), of P opts "Some t" Read] 1(2) by metis
    next
      case (2 s' c code msg)
      with run have "serve P opts q s = Some (s', reply c (PError code (Some msg)), None)" by simp
      with 2(2-4) show ?thesis
        by (intro exI [of _ s'] exI [of _ "reply c (PError code (Some msg))"]) (simp add: reply_def)
    qed
  qed
qed

subsection \<open>The scope of a handler\<close>

text \<open>
  The scope each handler needs, as a table over the handlers: reading for those called with \<open>GET\<close>, publishing
  for those that send releases or snapshots to other machines, writing for the rest.
\<close>

definition needed_scope :: "json option \<Rightarrow> endpoint \<Rightarrow> ApiScope" where
  "needed_scope body e = (case e of
       Release HCreateEdgeWorkerRelease \<Rightarrow> if bodyHasMode body ''api'' then Publish else Write
     | Release (HDeleteEdgeWorkerRelease _) \<Rightarrow> Publish
     | Release HDeliverEdgeWorkerOperations \<Rightarrow> Publish
     | Serving HPublishSnapshot \<Rightarrow> Publish
     | Serving HApplyReplicatedSnapshot \<Rightarrow> Publish
     | _ \<Rightarrow> if fst (target e) = ''GET'' then Read else Write)"

lemmas scope_paths = requiredScopeFor_def needed_scope_def exact_paths path_match_segs

lemma scope_Admin: "serves D (Admin a) m p \<Longrightarrow> requiredScopeFor m p body = needed_scope body (Admin a)"
  by (cases a; auto simp: serves_def list_all2_Cons1; simp add: scope_paths)

lemma scope_Account: "serves D (Account a) m p \<Longrightarrow> requiredScopeFor m p body = needed_scope body (Account a)"
  by (cases a; auto simp: serves_def list_all2_Cons1; simp add: scope_paths)

lemma scope_Release: "serves D (Release a) m p \<Longrightarrow> requiredScopeFor m p body = needed_scope body (Release a)"
  by (cases a; auto simp: serves_def list_all2_Cons1; simp add: scope_paths)

lemma scope_InProject: "serves D (InProject a) m p \<Longrightarrow> requiredScopeFor m p body = needed_scope body (InProject a)"
  by (cases a; auto simp: serves_def list_all2_Cons1; simp add: scope_paths)

lemma scope_Metering: "serves D (Metering a) m p \<Longrightarrow> requiredScopeFor m p body = needed_scope body (Metering a)"
  by (cases a; auto simp: serves_def list_all2_Cons1; simp add: scope_paths)

lemma scope_Binding: "serves D (Binding a) m p \<Longrightarrow> requiredScopeFor m p body = needed_scope body (Binding a)"
  by (cases a; auto simp: serves_def list_all2_Cons1; simp add: scope_paths)

lemma scope_Serving: "serves D (Serving a) m p \<Longrightarrow> requiredScopeFor m p body = needed_scope body (Serving a)"
  by (cases a; auto simp: serves_def list_all2_Cons1; simp add: scope_paths)

lemma scope_of_handler:
  "dispatch D m p = Inr (Some e) \<Longrightarrow> requiredScopeFor m p body = needed_scope body e"
  by (drule dispatch_right, cases e) (simp_all add: scope_Admin scope_Account scope_Release scope_InProject
      scope_Metering scope_Binding scope_Serving)

subsection \<open>Authorized requests\<close>

lemma authorized_run:
  assumes "configuredApiTokens opts \<noteq> []"
  obtains e where "cached_body P q path = Inl e" and "authorized_request P opts q path s = Some (s, Inl e)"
  | body s' c code msg where "cached_body P q path = Inr body" and "untouched s s'"
      and "\<not> may (hp_env P 0) opts s (hq_authorization q) (requiredScopeFor (hq_method q) path body)"
      and "c = (if \<exists>t. presents (hp_env P 0) opts s (hq_authorization q) t then 403 else 401)"
      and "authorized_request P opts q path s = Some (s', Inr (reply c (PError code (Some msg)), None))"
  | body t s1 where "cached_body P q path = Inr body" and "untouched s s1"
      and "presents (hp_env P 0) opts s (hq_authorization q) t"
      and "tokenAllows t (requiredScopeFor (hq_method q) path body)"
      and "authorized_request P opts q path s = bindH (answered (handle_allowed P q path)) (\<lambda>rep.
             okH (rep, audit_event opts q (Some t) (requiredScopeFor (hq_method q) path body) path rep)) s1"
proof (cases "cached_body P q path")
  case (Inl e)
  then show thesis using that(1) by (simp add: authorized_request_def bindH_def liftH_def)
next
  case (Inr body)
  let ?scope = "requiredScopeFor (hq_method q) path body"
  from assms(1) show thesis
  proof (cases rule: authorize_cases [of opts "hp_env P 0" "hq_authorization q" ?scope s])
    case (1 s1 t)
    then have "authorized_request P opts q path s = bindH (answered (handle_allowed P q path)) (\<lambda>rep.
        okH (rep, audit_event opts q (Some t) ?scope path rep)) s1"
      by (simp add: authorized_request_def Inr Let_def bindH_def liftH_def callH_def)
    with that(3) Inr 1(2-4) show thesis by blast
  next
    case (2 s1 c code msg)
    then have "authorized_request P opts q path s = Some (s1, Inr (reply c (PError code (Some msg)), None))"
      by (simp add: authorized_request_def Inr Let_def bindH_def liftH_def callH_def okH_def)
    with that(2) Inr 2(2-4) show thesis by blast
  qed
qed

text \<open>A request that left its database as it was, or ran no handler.\<close>

lemma handle_dispatched:
  assumes "handle_allowed P q path s = None \<or> (\<exists>s' r. handle_allowed P q path s = Some (s', r) \<and> s' \<noteq> s)"
  shows "\<exists>e. dispatch (hp_decode P) (hq_method q) path = Inr (Some e)"
proof (cases "dispatch (hp_decode P) (hq_method q) path")
  case (Inl e)
  with assms show ?thesis by (simp add: handle_allowed_def bindH_def liftH_def)
next
  case (Inr e)
  with assms show ?thesis by (cases e) (simp_all add: handle_allowed_def bindH_def liftH_def okH_def)
qed

lemma answered_run:
  "bindH (answered m) (\<lambda>rep. okH (f rep)) s = (case m s of None \<Rightarrow> None
     | Some (s', r) \<Rightarrow> Some (s', Inr (f (case r of Inl e \<Rightarrow> error_reply e | Inr rep \<Rightarrow> rep))))"
  by (simp add: answered_def bindH_def okH_def split: option.split sum.split)

text \<open>
  C4. Nothing is written without a token that allows it. Once tokens are configured, a request that
  changes the database, other than by noting the use of a key, or that leaves the model outside the public
  paths, reached a handler with a token it presents, a configured one or a live key, that has the scope this
  handler needs. A request that changes the database needed to write or to publish, and with an audit sink
  its principal, scope, method, path and status are recorded, whether the handler succeeded or threw.
\<close>

theorem writes_are_authorized:
  assumes "configuredApiTokens opts \<noteq> []" and "hq_url q = Some (path, query)"
    and "case serve P opts q s of None \<Rightarrow> \<not> is_public (hq_method q) path | Some (s', rep, audit) \<Rightarrow> \<not> untouched s s'"
  shows "\<exists>e body t. dispatch (hp_decode P) (hq_method q) path = Inr (Some e) \<and> cached_body P q path = Inr body
     \<and> presents (hp_env P 0) opts s (hq_authorization q) t \<and> tokenAllows t (needed_scope body e)
     \<and> (case serve P opts q s of None \<Rightarrow> True
        | Some (s', rep, audit) \<Rightarrow> needed_scope body e \<in> {Write, Publish}
            \<and> audit = (if ho_auditSink opts then Some \<lparr>hae_principal = ht_principal t, hae_scope = needed_scope body e,
                hae_method = hq_method q, hae_path = path, hae_status = rep_status rep\<rparr> else None))"
proof -
  have priv: "\<not> is_public (hq_method q) path"
  proof
    assume pub: "is_public (hq_method q) path"
    with assms(3) obtain s' rep audit where run: "serve P opts q s = Some (s', rep, audit)" "\<not> untouched s s'"
      by (auto split: option.splits)
    from run(1) obtain r where "http_request P opts q s = Some (s', r)" by (rule serve_Some)
    then have "s' = s" by (rule http_request_public [OF assms(2) pub])
    with run(2) show False by simp
  qed
  have serve: "serve P opts q s = (case authorized_request P opts q path s of
       None \<Rightarrow> None
     | Some (s', Inl e) \<Rightarrow> Some (s', error_reply e, None)
     | Some (s', Inr (rep, audit)) \<Rightarrow> Some (s', rep, audit))"
    by (simp add: serve_def http_request_private [OF assms(2) priv])
  from assms(1) show ?thesis
  proof (cases rule: authorized_run [of opts P q path s])
    case (1 e)
    with assms(3) serve show ?thesis by simp
  next
    case (2 body s' c code msg)
    with assms(3) serve show ?thesis by simp
  next
    case (3 body t s1)
    let ?scope = "requiredScopeFor (hq_method q) path body"
    have run: "serve P opts q s = (case handle_allowed P q path s1 of None \<Rightarrow> None
       | Some (s', r) \<Rightarrow> (let rep = (case r of Inl e \<Rightarrow> error_reply e | Inr rep \<Rightarrow> rep) in
           Some (s', rep, audit_event opts q (Some t) ?scope path rep)))"
      unfolding serve 3(5) answered_run by (simp add: Let_def split: option.split)
    have "handle_allowed P q path s1 = None \<or> (\<exists>s' r. handle_allowed P q path s1 = Some (s', r) \<and> s' \<noteq> s1)"
      using assms(3) run 3(2) by (auto simp: Let_def split: option.splits)
    from handle_dispatched [OF this] obtain e where e: "dispatch (hp_decode P) (hq_method q) path = Inr (Some e)" by blast
    note scope = scope_of_handler [OF e, of body]
    have "needed_scope body e \<in> {Write, Publish} \<and> hq_method q \<noteq> ''GET''" if some: "serve P opts q s \<noteq> None"
    proof -
      have "hq_method q \<noteq> ''GET''"
      proof
        assume "hq_method q = ''GET''"
        from handle_get_reads [OF this, of P path] some assms(3) run 3(2) show False
          by (auto simp: reads_only_def Let_def split: option.splits)
      qed
      then show ?thesis by (auto simp: scope [symmetric] requiredScopeFor_def)
    qed
    then have "case serve P opts q s of None \<Rightarrow> True
        | Some (s', rep, audit) \<Rightarrow> needed_scope body e \<in> {Write, Publish}
            \<and> audit = (if ho_auditSink opts then Some \<lparr>hae_principal = ht_principal t, hae_scope = needed_scope body e,
                hae_method = hq_method q, hae_path = path, hae_status = rep_status rep\<rparr> else None)"
      by (cases "handle_allowed P q path s1") (simp_all add: run Let_def split_beta scope audit_event_def)
    with e 3(1,3) 3(4) [unfolded scope] show ?thesis
      by (intro exI [of _ e] exI [of _ body] exI [of _ t] conjI)
  qed
qed

text \<open>
  C6. Nothing is answered without a token that allows it either. Once tokens are configured, a request
  outside the public paths that presents no token with the scope it needs is answered 401 when it presents
  none at all and 403 when it does (500 when it creates a release and its body cannot be read); it is not
  audited, and it changes nothing in the database but perhaps the time the key it presented was last used.
\<close>

theorem nothing_without_a_token:
  assumes "configuredApiTokens opts \<noteq> []" and "hq_url q = Some (path, query)"
    and "\<not> is_public (hq_method q) path"
    and "\<And>body t. cached_body P q path = Inr body \<Longrightarrow> presents (hp_env P 0) opts s (hq_authorization q) t
           \<Longrightarrow> \<not> tokenAllows t (requiredScopeFor (hq_method q) path body)"
  shows "\<exists>s' rep. serve P opts q s = Some (s', rep, None) \<and> untouched s s'
     \<and> rep_status rep = (case cached_body P q path of Inl _ \<Rightarrow> 500
          | Inr _ \<Rightarrow> if \<exists>t. presents (hp_env P 0) opts s (hq_authorization q) t then 403 else 401)"
proof -
  have serve: "serve P opts q s = (case authorized_request P opts q path s of
       None \<Rightarrow> None
     | Some (s', Inl e) \<Rightarrow> Some (s', error_reply e, None)
     | Some (s', Inr (rep, audit)) \<Rightarrow> Some (s', rep, audit))"
    by (simp add: serve_def http_request_private [OF assms(2,3)])
  from assms(1) show ?thesis
  proof (cases rule: authorized_run [of opts P q path s])
    case (1 e)
    then have "e = EngineError" by (auto simp: cached_body_def readJson_def bindE_Inr split: if_splits option.splits)
    with 1 serve show ?thesis by (simp add: error_reply_def reply_def)
  next
    case (2 body s' c code msg)
    with serve show ?thesis by (simp add: reply_def)
  next
    case (3 body t s1)
    with assms(4) show ?thesis by blast
  qed
qed

subsection \<open>An example\<close>

text \<open>
  Five requests of a client whose token has the scope to write; their bodies are named by what they
  create. A second token can only read.
\<close>

definition ex_options :: HttpOptions where
  "ex_options = \<lparr>ho_apiToken = None,
     ho_apiTokens = parseApiTokens (\<lambda>k. if k = ''ODENCTL_API_TOKENS'' then Some ''w=write;r=read,none'' else None),
     ho_alarmDemoWebhookToken = None, ho_auditSink = True\<rparr>"

definition ex_bodies :: "string \<Rightarrow> json option" where
  "ex_bodies = map_of [(''project'', JObj [(''id'', JStr ''p1''), (''name'', JStr ''demo'')]),
     (''artifact'', JObj [(''id'', JStr ''a1''), (''projectId'', JStr ''p1''), (''digest'', JStr ex_digest),
        (''location'', JStr ''file:///a''), (''sizeBytes'', JInt 10)]),
     (''d1'', JObj [(''id'', JStr ''d1''), (''projectId'', JStr ''p1''), (''artifactId'', JStr ''a1''),
        (''world'', JStr MVP_WORKER_WORLD), (''runtime'', ex_runtime), (''limits'', ex_limits),
        (''capabilities'', ex_capabilities)]),
     (''route'', JObj [(''id'', JStr ''r1''), (''projectId'', JStr ''p1''), (''host'', JStr ''H.example''),
        (''pathPrefix'', JStr ''/''), (''deploymentId'', JStr ''d1'')])]"

definition ex_platform :: "string \<Rightarrow> HttpPlatform" where
  "ex_platform aud = \<lparr>hp_decode = ex_dec, hp_jsonParse = ex_bodies, hp_formParse = (\<lambda>_. []),
     hp_number = (\<lambda>_. JUndefined), hp_env = (\<lambda>_. ex_env_n aud)\<rparr>"

definition ex_call :: "string \<Rightarrow> string \<Rightarrow> string \<Rightarrow> string \<Rightarrow> HttpRequest" where
  "ex_call token m path body = \<lparr>hq_method = m, hq_url = Some (path, []),
     hq_authorization = Some (''Bearer '' @ token), hq_body = body\<rparr>"

definition ex_served :: "(string \<times> HttpRequest) list \<Rightarrow> Db option" where
  "ex_served calls = foldl (\<lambda>s (aud, q). Option.bind s (\<lambda>s. map_option fst (serve (ex_platform aud) ex_options q s)))
     (Some empty_db) calls"

lemma ex_served_run: "ex_served calls = Some s \<Longrightarrow> http_run ex_urls s"
proof (induction calls arbitrary: s rule: rev_induct)
  case Nil
  then show ?case by (simp add: ex_served_def http_run.started)
next
  case (snoc c calls)
  obtain aud q where c: "c = (aud, q)" by (cases c)
  with snoc.prems obtain s0 rep audit where s0: "ex_served calls = Some s0"
    and run: "serve (ex_platform aud) ex_options q s0 = Some (s, rep, audit)"
    by (auto simp: ex_served_def bind_eq_Some_conv)
  have "\<forall>n. good_env ex_urls (hp_env (ex_platform aud) n)" by (simp add: ex_platform_def ex_env_good)
  then show ?case by (rule http_run.served [OF snoc.IH [OF s0] _ run])
qed

definition ex_calls :: "(string \<times> HttpRequest) list" where
  "ex_calls = [(''aud_0'', ex_call ''w'' ''POST'' ''/projects'' ''project''),
     (''aud_1'', ex_call ''w'' ''POST'' ''/artifacts'' ''artifact''),
     (''aud_2'', ex_call ''w'' ''POST'' ''/deployments'' ''d1''),
     (''aud_3'', ex_call ''r'' ''PUT'' ''/routes'' ''route''),
     (''aud_4'', ex_call ''w'' ''PUT'' ''/routes'' ''route'')]"

definition ex_served_db :: Db where
  "ex_served_db = the (ex_served ex_calls)"

lemma ex_served_db_run: "http_run ex_urls ex_served_db"
proof (rule ex_served_run)
  have "\<not> Option.is_none (ex_served ex_calls)" by code_simp
  then show "ex_served ex_calls = Some ex_served_db"
    unfolding ex_served_db_def Option.is_none_def by (rule option.collapse [symmetric])
qed

lemma ex_reader: "presents E ex_options s (Some ''Bearer r'') t \<longleftrightarrow>
    t = \<lparr>ht_token = ''r'', ht_scopes = [Read], ht_principal = ''token:r''\<rparr>"
proof -
  have "bearer_of (Some ''Bearer r'') = Some ''r''"
    "filter (\<lambda>t. ht_token t = ''r'') (configuredApiTokens ex_options)
       = [\<lparr>ht_token = ''r'', ht_scopes = [Read], ht_principal = ''token:r''\<rparr>]" by code_simp+
  then show ?thesis by (simp add: presents_def)
qed

theorem snapshot_requests_are_answered_witness:
  "(\<exists>s' snap. serve (ex_platform ''aud_5'') ex_options (ex_call ''r'' ''GET'' ''/snapshots/routes'' []) ex_served_db
       = Some (s', reply 200 (PSnapshot snap), None) \<and> assertRouteSnapshot ex_urls (encodeSnapshot snap) = Inr ())
   \<and> map rte_host (db_routes ex_served_db) = [''h.example'']"
proof
  let ?q = "ex_call ''r'' ''GET'' ''/snapshots/routes'' []"
  have q: "hq_method ?q = ''GET''" "hq_url ?q = Some (''/snapshots/routes'', [])" "hq_authorization ?q = Some ''Bearer r''"
    by (simp_all add: ex_call_def)
  have "may (hp_env (ex_platform ''aud_5'') 0) ex_options ex_served_db (Some ''Bearer r'') Read"
    by (auto simp: may_def ex_reader tokenAllows_def)
  with snapshot_requests_are_answered [OF ex_urls_roundtrip ex_served_db_run q(1,2), of "ex_platform ''aud_5''" ex_options] q(3)
  show "\<exists>s' snap. serve (ex_platform ''aud_5'') ex_options ?q ex_served_db
       = Some (s', reply 200 (PSnapshot snap), None) \<and> assertRouteSnapshot ex_urls (encodeSnapshot snap) = Inr ()" by auto
  show "map rte_host (db_routes ex_served_db) = [''h.example'']" by code_simp
qed

definition ex_create :: HttpRequest where
  "ex_create = ex_call ''w'' ''POST'' ''/projects'' ''project''"

definition ex_created_by_request :: "Db \<times> HttpReply \<times> HttpAuditEvent option" where
  "ex_created_by_request = the (serve (ex_platform ''aud_0'') ex_options ex_create empty_db)"

theorem writes_are_authorized_witness:
  "(\<exists>e t. dispatch ex_dec ''POST'' ''/projects'' = Inr (Some e)
     \<and> presents (ex_env_n ''aud_0'') ex_options empty_db (hq_authorization ex_create) t \<and> tokenAllows t (needed_scope None e))
   \<and> snd (snd ex_created_by_request) = Some \<lparr>hae_principal = ''token:w'', hae_scope = Write,
       hae_method = ''POST'', hae_path = ''/projects'', hae_status = 201\<rparr>"
proof
  have some: "configuredApiTokens ex_options \<noteq> []" by code_simp
  have url: "hq_url ex_create = Some (''/projects'', [])" by code_simp
  have "\<not> Option.is_none (serve (ex_platform ''aud_0'') ex_options ex_create empty_db)" by code_simp
  then have run: "serve (ex_platform ''aud_0'') ex_options ex_create empty_db
      = Some (fst ex_created_by_request, fst (snd ex_created_by_request), snd (snd ex_created_by_request))"
    unfolding ex_created_by_request_def Option.is_none_def prod.collapse by (rule option.collapse [symmetric])
  have "db_projects (fst ex_created_by_request) \<noteq> []" by code_simp
  then have "\<not> untouched empty_db (fst ex_created_by_request)"
    by (auto simp: untouched_def empty_db_def dest!: arg_cong [where f = db_projects])
  then have "case serve (ex_platform ''aud_0'') ex_options ex_create empty_db of
      None \<Rightarrow> \<not> is_public (hq_method ex_create) ''/projects'' | Some (s', rep, audit) \<Rightarrow> \<not> untouched empty_db s'"
    by (simp only: run option.case prod.case not_False_eq_True)
  from writes_are_authorized [OF some url this]
  obtain e body t where *: "dispatch (hp_decode (ex_platform ''aud_0'')) (hq_method ex_create) ''/projects'' = Inr (Some e)"
      "cached_body (ex_platform ''aud_0'') ex_create ''/projects'' = Inr body"
      "presents (hp_env (ex_platform ''aud_0'') 0) ex_options empty_db (hq_authorization ex_create) t"
      "tokenAllows t (needed_scope body e)" by blast
  have "cached_body (ex_platform ''aud_0'') ex_create ''/projects'' = Inr None" by code_simp
  moreover have "hq_method ex_create = ''POST''" by code_simp
  ultimately show "\<exists>e t. dispatch ex_dec ''POST'' ''/projects'' = Inr (Some e)
     \<and> presents (ex_env_n ''aud_0'') ex_options empty_db (hq_authorization ex_create) t \<and> tokenAllows t (needed_scope None e)"
    using * by (auto simp: ex_platform_def)
  show "snd (snd ex_created_by_request) = Some \<lparr>hae_principal = ''token:w'', hae_scope = Write,
       hae_method = ''POST'', hae_path = ''/projects'', hae_status = 201\<rparr>" by code_simp
qed

definition ex_anonymous :: HttpRequest where
  "ex_anonymous = (ex_call ''w'' ''POST'' ''/projects'' ''project'')\<lparr>hq_authorization := None\<rparr>"

text \<open>Once without a token, and once with one that may only read.\<close>

theorem nothing_without_a_token_witness:
  "(\<exists>s' rep. serve (ex_platform ''aud_0'') ex_options ex_anonymous ex_state = Some (s', rep, None)
     \<and> rep_status rep = 401 \<and> untouched ex_state s')
   \<and> (\<exists>s' rep. serve (ex_platform ''aud_0'') ex_options (ex_call ''r'' ''POST'' ''/projects'' ''project'') ex_state
       = Some (s', rep, None) \<and> rep_status rep = 403 \<and> untouched ex_state s')"
proof
  note claim = nothing_without_a_token [of ex_options _ "''/projects''" "[]" "ex_platform ''aud_0''" ex_state]
  have some: "configuredApiTokens ex_options \<noteq> []" by code_simp
  have "hq_url ex_anonymous = Some (''/projects'', [])" "\<not> is_public (hq_method ex_anonymous) ''/projects''"
    "cached_body (ex_platform ''aud_0'') ex_anonymous ''/projects'' = Inr None" by code_simp+
  moreover have "\<not> presents E ex_options ex_state (hq_authorization ex_anonymous) t" for E t
    by (simp add: presents_def ex_anonymous_def bearer_of_def truthy_string_def)
  ultimately show "\<exists>s' rep. serve (ex_platform ''aud_0'') ex_options ex_anonymous ex_state = Some (s', rep, None)
     \<and> rep_status rep = 401 \<and> untouched ex_state s'" using claim [OF some] by force
  let ?q = "ex_call ''r'' ''POST'' ''/projects'' ''project''"
  have q: "hq_url ?q = Some (''/projects'', [])" "\<not> is_public (hq_method ?q) ''/projects''"
    "cached_body (ex_platform ''aud_0'') ?q ''/projects'' = Inr None"
    "requiredScopeFor (hq_method ?q) ''/projects'' None = Write" by code_simp+
  have reader: "presents E ex_options ex_state (hq_authorization ?q) t \<longleftrightarrow>
      t = \<lparr>ht_token = ''r'', ht_scopes = [Read], ht_principal = ''token:r''\<rparr>" for E t
    using ex_reader by (simp add: ex_call_def)
  have "\<not> tokenAllows t (requiredScopeFor (hq_method ?q) ''/projects'' body)"
    if "cached_body (ex_platform ''aud_0'') ?q ''/projects'' = Inr body"
      "presents (hp_env (ex_platform ''aud_0'') 0) ex_options ex_state (hq_authorization ?q) t" for body t
    using that q(3,4) by (auto simp: reader tokenAllows_def)
  from claim [OF some q(1,2) this] q(3) show "\<exists>s' rep. serve (ex_platform ''aud_0'') ex_options ?q ex_state
       = Some (s', rep, None) \<and> rep_status rep = 403 \<and> untouched ex_state s'"
    by (auto simp: reader)
qed

text \<open>The token itself is the principal that the audit log of a configured token names.\<close>

lemma principal_is_the_token:
  "parse_token_entry ''s3cret=write'' = [\<lparr>ht_token = ''s3cret'', ht_scopes = [Write], ht_principal = ''token:s3cret''\<rparr>]"
  by code_simp

text \<open>
  A key issued for one project is accepted for every other: the only token here is a key of the project
  \<open>p2\<close>, and it points a route of \<open>p1\<close>.
\<close>

definition ex_foreign_key :: ApiKey where
  "ex_foreign_key = \<lparr>key_id = ''k2'', key_organizationId = None, key_projectId = Some ''p2'', key_name = ''ci'',
     key_scopes = [Write], key_createdAt = ''t1'', key_lastUsedAt = None, key_revokedAt = None\<rparr>"

definition ex_tenants :: Db where
  "ex_tenants = ex_state\<lparr>db_projects := db_projects ex_state @
       [\<lparr>prj_id = ''p2'', prj_organizationId = None, prj_name = ''rival'', prj_createdAt = ''t1''\<rparr>],
     db_apiKeys := [(ex_foreign_key, ''sha256:key'')], db_routes := []\<rparr>"

lemma project_key_reaches_other_projects:
  "map_option (\<lambda>(s, rep, audit). (rep_status rep, map (\<lambda>r. (rte_projectId r, rte_host r)) (db_routes s)))
     (serve (ex_platform ''aud_9'') ex_options (ex_call ''key'' ''PUT'' ''/routes'' ''route'') ex_tenants)
   = Some (200, [(''p1'', ''h.example'')])"
  by code_simp

end
