(* ===== verification/VolumeSqlite.thy ===== *)
theory VolumeSqlite
  imports Tables Json
begin

text \<open>
  The registry of SQLite databases on a volume (\<open>control-plane/volume-sqlite.ts\<close>): a catalog of
  databases and of their backups, the files, the pool of open handles, export with optional
  encryption, restore, restore drills and the retention of backups.

  A file is its bytes; what SQLite reads in them and writes to them, the clock, \<open>Date.parse\<close>, path
  resolution, random bytes, base64 and the AEAD cipher are parameters. An exception is a \<open>failure\<close>.
  \<open>chmod\<close>, WAL side files and the creation of directories have no counterpart.
\<close>

subsection \<open>Failures\<close>

type_synonym ('s, 'a) fop = "('s, failure, 'a) stateful"

definition liftF :: "'a cp \<Rightarrow> failure + 'a" where
  "liftF r = (case r of Inl e \<Rightarrow> Inl (Rejected e) | Inr x \<Rightarrow> Inr x)"

definition throwF :: "ControlPlaneErrorCode \<Rightarrow> string \<Rightarrow> failure + 'a" where
  "throwF c msg = liftF (throwC c msg)"

lemma throwF_cong [cong]: "throwF c msg = throwF c msg" ..

definition guardF :: "bool \<Rightarrow> ControlPlaneErrorCode \<Rightarrow> string \<Rightarrow> failure + unit" where
  "guardF bad c msg = (if bad then throwF c msg else Inr ())"

lemma guardF_cong [cong]: "b = b' \<Longrightarrow> guardF b c msg = guardF b' c msg" by simp

lemma liftF_simps [simp]: "liftF (Inr x) = Inr x" "liftF (Inl e) = Inl (Rejected e)"
  "liftF r = Inr x \<longleftrightarrow> r = Inr x"
  by (auto simp: liftF_def split: sum.split)

lemma throwF_simps [simp]: "throwF c msg \<noteq> Inr x" "Inr x \<noteq> throwF c msg"
  by (auto simp: throwF_def liftF_def throwC_def)

lemma guardF_Inr [simp]: "guardF b c msg = Inr x \<longleftrightarrow> \<not> b"
  by (simp add: guardF_def)

definition setS :: "('s \<Rightarrow> 's) \<Rightarrow> ('s, unit) fop" where
  "setS f s = (f s, Inr ())"

lemma setS_run [simp]: "setS f s = (f s, Inr ())" "bindS (setS f) k s = k () (f s)"
  by (simp_all add: setS_def bindS_def)

subsection \<open>Identifiers and numbers\<close>

definition is_sqlite_identifier :: "string \<Rightarrow> bool" where
  "is_sqlite_identifier s \<longleftrightarrow> (case s of [] \<Rightarrow> False
     | c # cs \<Rightarrow> is_alnum c \<and> length cs \<le> 127 \<and> list_all (\<lambda>c. is_alnum c \<or> c \<in> set ''_.-'') cs)"

definition sqlite_identifier :: "string \<Rightarrow> string \<Rightarrow> string cp" where
  "sqlite_identifier value field = (if \<not> is_sqlite_identifier value
     then throwC Validation (field @ '' must start with an alphanumeric character and contain only alphanumerics, dot, dash, or underscore'')
     else Inr value)"

definition databaseId :: "string \<Rightarrow> string cp" where
  "databaseId value = sqlite_identifier value ''volume sqlite database id''"

definition volumeSqliteBackupId :: "string \<Rightarrow> string cp" where
  "volumeSqliteBackupId value = sqlite_identifier value ''volume sqlite backup id''"

definition databaseKind :: "string \<Rightarrow> string cp" where
  "databaseKind value = sqlite_identifier value ''volume sqlite database kind''"

definition optionalIdentifier :: "string option \<Rightarrow> string \<Rightarrow> string option cp" where
  "optionalIdentifier value field = (case value of None \<Rightarrow> Inr None
     | Some v \<Rightarrow> bindE (sqlite_identifier v field) (\<lambda>v. Inr (Some v)))"

text \<open>\<open>Number.isSafeInteger\<close>, with the integer.\<close>

definition safe_integer :: "jnum \<Rightarrow> int option" where
  "safe_integer n = (case isInteger (JNum n) of None \<Rightarrow> None
     | Some i \<Rightarrow> if \<bar>i\<bar> \<le> 9007199254740991 then Some i else None)"

definition sqlite_nonnegative :: "jnum \<Rightarrow> string \<Rightarrow> int cp" where
  "sqlite_nonnegative value field = (case safe_integer value of
       Some i \<Rightarrow> if i < 0 then throwC Validation (field @ '' must be a nonnegative integer'') else Inr i
     | None \<Rightarrow> throwC Validation (field @ '' must be a nonnegative integer''))"

definition sqlite_positive :: "jnum \<Rightarrow> string \<Rightarrow> int cp" where
  "sqlite_positive value field = (case safe_integer value of
       Some i \<Rightarrow> if i \<le> 0 then throwC Validation (field @ '' must be a positive integer'') else Inr i
     | None \<Rightarrow> throwC Validation (field @ '' must be a positive integer''))"

definition optionalNonnegative :: "jnum option \<Rightarrow> string \<Rightarrow> int option cp" where
  "optionalNonnegative value field = (case value of None \<Rightarrow> Inr None
     | Some v \<Rightarrow> bindE (sqlite_nonnegative v field) (\<lambda>v. Inr (Some v)))"

subsection \<open>Records\<close>

record VolumeDatabase =
  vdb_id :: string
  vdb_path :: string
  vdb_kind :: string
  vdb_ownerId :: "string option"
  vdb_schemaVersion :: int
  vdb_createdAt :: string
  vdb_lastUsedAt :: string

record BackupEncryption =
  enc_algorithm :: string
  enc_keyId :: string
  enc_iv :: string
  enc_tag :: string

record VolumeBackup =
  bak_id :: string
  bak_databaseId :: string
  bak_path :: string
  bak_sizeBytes :: int
  bak_createdAt :: string
  bak_encryption :: "BackupEncryption option"

record EnsureDatabaseInput =
  edi_id :: string
  edi_kind :: "string option"
  edi_ownerId :: "string option"
  edi_schemaVersion :: "jnum option"

record RestoreDatabaseInput =
  rdi_id :: string
  rdi_backupId :: "string option"
  rdi_sourcePath :: "string option"
  rdi_kind :: "string option"
  rdi_ownerId :: "string option"
  rdi_schemaVersion :: "jnum option"

record RestoreDrillReport =
  rdr_backupId :: string
  rdr_databaseId :: string
  rdr_checkedAt :: string
  rdr_sizeBytes :: int
  rdr_encrypted :: bool
  rdr_outcome :: "failure + int"

record BackupGcReport =
  bgr_deleted :: "VolumeBackup list"
  bgr_remaining :: int
  bgr_deletedBytes :: int

subsection \<open>The cipher of backups\<close>

text \<open>
  \<open>createCipheriv\<close> and \<open>createDecipheriv\<close> in GCM mode, with the bytes of \<open>JSON.stringify\<close> for the
  associated data.
\<close>

record Aead =
  aead_seal :: "string \<Rightarrow> string \<Rightarrow> string \<Rightarrow> string \<Rightarrow> string \<times> string"
  aead_open :: "string \<Rightarrow> string \<Rightarrow> string \<Rightarrow> string \<Rightarrow> string \<Rightarrow> string option"
  aead_stringify :: "json \<Rightarrow> string"

record BackupDataKey =
  bdk_keyId :: string
  bdk_key :: string

record SealedBackup =
  sb_ciphertext :: string
  sb_algorithm :: string
  sb_keyId :: string
  sb_iv :: string
  sb_tag :: string

record BackupCipher =
  bc_encrypt :: "string \<Rightarrow> string \<Rightarrow> string \<Rightarrow> string \<Rightarrow> SealedBackup cp"
  bc_decrypt :: "string \<Rightarrow> string \<Rightarrow> SealedBackup \<Rightarrow> string cp"

definition aes_256_gcm :: string where
  "aes_256_gcm = ''aes-256-gcm''"

definition backupCipherAad :: "Aead \<Rightarrow> string \<Rightarrow> string \<Rightarrow> string \<Rightarrow> string \<Rightarrow> string" where
  "backupCipherAad A dbId bakId algorithm keyId = aead_stringify A (JObj
     [(''scope'', JStr ''wasmplane.volume-sqlite.backup''), (''databaseId'', JStr dbId),
      (''backupId'', JStr bakId), (''algorithm'', JStr algorithm), (''keyId'', JStr keyId)])"

definition normalizeBackupDataKey :: "BackupDataKey \<Rightarrow> string \<Rightarrow> BackupDataKey cp" where
  "normalizeBackupDataKey k name =
     bindE (guardC (trim (bdk_keyId k) = []) Validation (name @ '' id is required'')) (\<lambda>_.
     bindE (guardC (length (bdk_key k) \<noteq> 32) Validation (name @ '' must be 32 bytes'')) (\<lambda>_.
     Inr (k\<lparr>bdk_keyId := trim (bdk_keyId k)\<rparr>)))"

text \<open>The keys are a \<open>Map\<close> from the identifier of a key to its bytes.\<close>

definition addBackupDataKey :: "(string \<times> string) list \<Rightarrow> BackupDataKey \<Rightarrow> string \<Rightarrow> (string \<times> string) list cp" where
  "addBackupDataKey keys k name = (case map_of keys (bdk_keyId k) of
       Some existing \<Rightarrow> if existing \<noteq> bdk_key k
         then throwC Validation (name @ '' id '' @ bdk_keyId k @ '' is configured more than once'')
         else Inr keys
     | None \<Rightarrow> Inr (keys @ [(bdk_keyId k, bdk_key k)]))"

fun addDecryptKeys :: "(string \<times> string) list \<Rightarrow> BackupDataKey list \<Rightarrow> (string \<times> string) list cp" where
  "addDecryptKeys keys [] = Inr keys"
| "addDecryptKeys keys (k # ks) =
     bindE (normalizeBackupDataKey k ''volume sqlite backup decrypt key'') (\<lambda>k.
     bindE (addBackupDataKey keys k ''volume sqlite backup decrypt key'') (\<lambda>keys.
     addDecryptKeys keys ks))"

definition aes_encrypt :: "Aead \<Rightarrow> BackupDataKey \<Rightarrow> string \<Rightarrow> string \<Rightarrow> string \<Rightarrow> string \<Rightarrow> SealedBackup cp" where
  "aes_encrypt A primary iv dbId bakId plaintext =
     bindE (guardC (length iv \<noteq> 12) Validation ''volume sqlite backup IV generator returned invalid size'') (\<lambda>_.
     let (ciphertext, tag) = aead_seal A (bdk_key primary) iv
           (backupCipherAad A dbId bakId aes_256_gcm (bdk_keyId primary)) plaintext
     in Inr \<lparr>sb_ciphertext = ciphertext, sb_algorithm = aes_256_gcm, sb_keyId = bdk_keyId primary,
             sb_iv = iv, sb_tag = tag\<rparr>)"

definition aes_decrypt :: "Aead \<Rightarrow> (string \<times> string) list \<Rightarrow> string \<Rightarrow> string \<Rightarrow> SealedBackup \<Rightarrow> string cp" where
  "aes_decrypt A keys dbId bakId b =
     bindE (guardC (sb_algorithm b \<noteq> aes_256_gcm) Validation
       (''unsupported volume sqlite backup algorithm '' @ sb_algorithm b)) (\<lambda>_.
     case map_of keys (sb_keyId b) of
       None \<Rightarrow> throwC Validation (''volume sqlite backup key id '' @ sb_keyId b @ '' is not configured'')
     | Some key \<Rightarrow>
         (case aead_open A key (sb_iv b)
             (backupCipherAad A dbId bakId (sb_algorithm b) (sb_keyId b)) (sb_ciphertext b) (sb_tag b) of
            None \<Rightarrow> throwC Validation ''encrypted volume sqlite backup could not be decrypted''
          | Some plaintext \<Rightarrow> Inr plaintext))"

definition createAesGcmVolumeSqliteBackupCipher :: "Aead \<Rightarrow> BackupDataKey \<Rightarrow> BackupDataKey list \<Rightarrow> BackupCipher cp" where
  "createAesGcmVolumeSqliteBackupCipher A primaryKey decryptKeys =
     bindE (normalizeBackupDataKey primaryKey ''primary volume sqlite backup key'') (\<lambda>primary.
     bindE (addBackupDataKey [] primary ''primary volume sqlite backup key'') (\<lambda>keys.
     bindE (addDecryptKeys keys decryptKeys) (\<lambda>keys.
     Inr \<lparr>bc_encrypt = aes_encrypt A primary, bc_decrypt = aes_decrypt A keys\<rparr>)))"

definition firstNonEmpty :: "string option list \<Rightarrow> string option" where
  "firstNonEmpty values = (case find (\<lambda>v. case v of Some x \<Rightarrow> trim x \<noteq> [] | None \<Rightarrow> False) values of
       Some (Some x) \<Rightarrow> Some (trim x) | _ \<Rightarrow> None)"

definition parseBackupKeyringEntry :: "(string \<Rightarrow> string) \<Rightarrow> string \<Rightarrow> BackupDataKey cp" where
  "parseBackupKeyringEntry fromBase64 entry = (case index_of (CHR ''='') entry of
       Some i \<Rightarrow> if take i entry = [] \<or> drop (i + 1) entry = []
         then throwC Validation ''ODENCTL_VOLUME_SQLITE_BACKUP_KEYS_BASE64 entries must be keyId=base64''
         else Inr \<lparr>bdk_keyId = take i entry, bdk_key = fromBase64 (drop (i + 1) entry)\<rparr>
     | None \<Rightarrow> throwC Validation ''ODENCTL_VOLUME_SQLITE_BACKUP_KEYS_BASE64 entries must be keyId=base64'')"

definition parseBackupKeyringEnv :: "(string \<Rightarrow> string) \<Rightarrow> string option \<Rightarrow> BackupDataKey list cp" where
  "parseBackupKeyringEnv fromBase64 value = (case value of None \<Rightarrow> Inr []
     | Some v \<Rightarrow> if v = [] then Inr []
         else mapE (parseBackupKeyringEntry fromBase64) (filter (\<lambda>e. trim e \<noteq> []) (split_on (CHR '','') v)))"

definition createConfiguredVolumeSqliteBackupCipher ::
    "Aead \<Rightarrow> (string \<Rightarrow> string) \<Rightarrow> (string \<Rightarrow> string option) \<Rightarrow> BackupCipher option cp" where
  "createConfiguredVolumeSqliteBackupCipher A fromBase64 environ =
     (let primaryKey = firstNonEmpty [environ ''ODENCTL_VOLUME_SQLITE_BACKUP_KEY_BASE64''];
          configured = firstNonEmpty [environ ''ODENCTL_VOLUME_SQLITE_BACKUP_KEY_ID''] in
     bindE (parseBackupKeyringEnv fromBase64 (firstNonEmpty [environ ''ODENCTL_VOLUME_SQLITE_BACKUP_KEYS_BASE64'']))
     (\<lambda>extra. if primaryKey = None \<and> extra = [] then Inr None
       else let keys = (case primaryKey of None \<Rightarrow> []
                | Some b \<Rightarrow> [\<lparr>bdk_keyId = (case configured of Some c \<Rightarrow> c | None \<Rightarrow> ''local''), bdk_key = fromBase64 b\<rparr>])
              @ extra
       in case (case configured of Some c \<Rightarrow> find (\<lambda>k. bdk_keyId k = c) keys
                  | None \<Rightarrow> (case keys of [] \<Rightarrow> None | k # _ \<Rightarrow> Some k)) of
            None \<Rightarrow> throwC Validation (''primary volume sqlite backup key id ''
              @ (case configured of Some c \<Rightarrow> c | None \<Rightarrow> ''<first>'') @ '' is not configured'')
          | Some primary \<Rightarrow> bindE (createAesGcmVolumeSqliteBackupCipher A primary keys) (\<lambda>c. Inr (Some c))))"

subsection \<open>The registry\<close>

text \<open>
  The platform and the options of a registry. \<open>ve_image\<close> is the file of a database, as
  \<open>vacuum into\<close> writes it, and \<open>ve_open\<close> what SQLite finds in a file, \<open>None\<close> when its check fails;
  \<open>ve_now n\<close> is what the call number \<open>n\<close> of the clock returns, \<open>ve_random n\<close> and \<open>ve_suffix n\<close> the
  random bytes and the suffix of a temporary name drawn then.
\<close>

record 'd Sqlite =
  sq_content :: 'd
  sq_userVersion :: int

record 'd VolumeEnv =
  ve_fresh :: 'd
  ve_open :: "string \<Rightarrow> 'd Sqlite option"
  ve_image :: "'d Sqlite \<Rightarrow> string"
  ve_now :: "nat \<Rightarrow> string"
  ve_parseDate :: "string \<Rightarrow> int option"
  ve_resolve :: "string \<Rightarrow> string"
  ve_random :: "nat \<Rightarrow> string"
  ve_suffix :: "nat \<Rightarrow> string"
  ve_toBase64url :: "string \<Rightarrow> string"
  ve_fromBase64url :: "string \<Rightarrow> string"
  ve_rootDir :: string
  ve_maxOpen :: int
  ve_maxBackups :: "int option"
  ve_retentionMs :: "int option"
  ve_cipher :: "BackupCipher option"

text \<open>
  The state: the two tables of the catalog, the files, the handles of the pool with the one used last
  at the end, and how often the clock was read.
\<close>

record Volume =
  vol_databases :: "VolumeDatabase list"
  vol_backups :: "VolumeBackup list"
  vol_files :: "(string \<times> string) list"
  vol_pool :: "(string \<times> string) list"
  vol_ticks :: nat

type_synonym 'a volume = "(Volume, 'a) fop"

definition ve_databaseDir :: "'d VolumeEnv \<Rightarrow> string" where
  "ve_databaseDir V = ve_rootDir V @ ''/dbs''"

definition ve_backupDir :: "'d VolumeEnv \<Rightarrow> string" where
  "ve_backupDir V = ve_rootDir V @ ''/backups''"

definition clockV :: "'d VolumeEnv \<Rightarrow> string volume" where
  "clockV V s = (s\<lparr>vol_ticks := vol_ticks s + 1\<rparr>, Inr (ve_now V (vol_ticks s)))"

definition assertPathInside :: "string \<Rightarrow> string \<Rightarrow> string \<Rightarrow> failure + unit" where
  "assertPathInside rootDir path field =
     guardF (path \<noteq> rootDir \<and> \<not> startsWith path (rootDir @ ''/'')) Validation (field @ '' must be inside '' @ rootDir)"

definition pathForDatabase :: "'d VolumeEnv \<Rightarrow> string \<Rightarrow> failure + string" where
  "pathForDatabase V rid = (let path = ve_resolve V (ve_databaseDir V @ ''/'' @ rid @ ''.sqlite'') in
     bindE (assertPathInside (ve_databaseDir V) path ''volume sqlite database path'') (\<lambda>_. Inr path))"

definition pathForBackup :: "'d VolumeEnv \<Rightarrow> string \<Rightarrow> failure + string" where
  "pathForBackup V bid = (let path = ve_resolve V (ve_backupDir V @ ''/'' @ bid @ ''.sqlite'') in
     bindE (assertPathInside (ve_backupDir V) path ''volume sqlite backup path'') (\<lambda>_. Inr path))"

subsection \<open>Files\<close>

definition file_at :: "Volume \<Rightarrow> string \<Rightarrow> string option" where
  "file_at s path = map_of (vol_files s) path"

definition remove_file :: "string \<Rightarrow> Volume \<Rightarrow> Volume" where
  "remove_file path s = s\<lparr>vol_files := filter (\<lambda>f. fst f \<noteq> path) (vol_files s)\<rparr>"

definition write_file :: "string \<Rightarrow> string \<Rightarrow> Volume \<Rightarrow> Volume" where
  "write_file path bytes s = s\<lparr>vol_files := (path, bytes) # filter (\<lambda>f. fst f \<noteq> path) (vol_files s)\<rparr>"

definition unlinkIfExists :: "string \<Rightarrow> unit volume" where
  "unlinkIfExists path = setS (remove_file path)"

definition readFile :: "string \<Rightarrow> string volume" where
  "readFile path = readS (\<lambda>s. case file_at s path of None \<Rightarrow> Inl EngineError | Some b \<Rightarrow> Inr b)"

subsection \<open>The pool of handles\<close>

fun evictOverflow :: "int \<Rightarrow> 'e list \<Rightarrow> 'e list" where
  "evictOverflow maxOpen [] = []"
| "evictOverflow maxOpen (oldest # entries) =
     (if maxOpen < int (length (oldest # entries)) then evictOverflow maxOpen entries else oldest # entries)"

definition poolClose :: "string \<Rightarrow> Volume \<Rightarrow> Volume" where
  "poolClose rid s = s\<lparr>vol_pool := filter (\<lambda>e. fst e \<noteq> rid) (vol_pool s)\<rparr>"

text \<open>
  A new handle creates a missing file, and its first pragma fails on a file that is no database. The
  path of a handle is returned; the one of a handle that is already open wins.
\<close>

definition poolOpen :: "'d VolumeEnv \<Rightarrow> string \<Rightarrow> string \<Rightarrow> string volume" where
  "poolOpen V rid path s = (case map_of (vol_pool s) rid of
       Some p \<Rightarrow> (s\<lparr>vol_pool := filter (\<lambda>e. fst e \<noteq> rid) (vol_pool s) @ [(rid, p)]\<rparr>, Inr p)
     | None \<Rightarrow>
         let s' = (if file_at s path = None
               then write_file path (ve_image V \<lparr>sq_content = ve_fresh V, sq_userVersion = 0\<rparr>) s else s) in
         (case file_at s' path of None \<Rightarrow> (s', Inl EngineError)
          | Some bytes \<Rightarrow>
              if ve_open V bytes = None then (s', Inl EngineError)
              else (s'\<lparr>vol_pool := evictOverflow (ve_maxOpen V) (vol_pool s' @ [(rid, path)])\<rparr>, Inr path)))"

text \<open>Running a callback on the handle of a file.\<close>

definition on_handle :: "'d VolumeEnv \<Rightarrow> string \<Rightarrow> ('d Sqlite, 'a) fop \<Rightarrow> 'a volume" where
  "on_handle V path cb s = (case file_at s path of
       None \<Rightarrow> (s, Inl EngineError)
     | Some bytes \<Rightarrow> (case ve_open V bytes of
           None \<Rightarrow> (s, Inl EngineError)
         | Some db \<Rightarrow> (case cb db of (db', r) \<Rightarrow> (write_file path (ve_image V db') s, r))))"

subsection \<open>Databases\<close>

definition vol_getDatabase :: "string \<Rightarrow> VolumeDatabase option volume" where
  "vol_getDatabase rid = bindS (liftS (liftF (databaseId rid))) (\<lambda>rid. askS (\<lambda>s. row_by vdb_id rid (vol_databases s)))"

definition vol_listDatabases :: "Volume \<Rightarrow> VolumeDatabase list" where
  "vol_listDatabases s = js_sort (\<lambda>a b. text_le (vdb_id a) (vdb_id b)) (vol_databases s)"

definition requiredDatabase :: "string \<Rightarrow> VolumeDatabase volume" where
  "requiredDatabase rid = bindS (vol_getDatabase rid) (\<lambda>r. case r of
       None \<Rightarrow> liftS (throwF NotFound (''volume sqlite database '' @ rid @ '' was not found''))
     | Some r \<Rightarrow> pureS r)"

definition withDatabase :: "'d VolumeEnv \<Rightarrow> string \<Rightarrow> ('d Sqlite, 'a) fop \<Rightarrow> 'a volume" where
  "withDatabase V rid cb =
     bindS (requiredDatabase rid) (\<lambda>record.
     bindS (clockV V) (\<lambda>lastUsedAt.
     bindS (setS (\<lambda>s. s\<lparr>vol_databases := update_by vdb_id (vdb_id record)
       (\<lambda>r. r\<lparr>vdb_lastUsedAt := lastUsedAt\<rparr>) (vol_databases s)\<rparr>)) (\<lambda>_.
     bindS (poolOpen V (vdb_id record) (vdb_path record)) (\<lambda>path.
     on_handle V path cb))))"

definition initializeDatabaseFile :: "'d VolumeEnv \<Rightarrow> VolumeDatabase \<Rightarrow> unit volume" where
  "initializeDatabaseFile V record = withDatabase V (vdb_id record)
     (setS (\<lambda>db. if sq_userVersion db < vdb_schemaVersion record
        then db\<lparr>sq_userVersion := vdb_schemaVersion record\<rparr> else db))"

text \<open>\<open>as VolumeSqliteDatabaseRecord\<close> after a read: a missing row is a \<open>TypeError\<close> at its first use.\<close>

definition vol_reread :: "string \<Rightarrow> VolumeDatabase volume" where
  "vol_reread rid = bindS (vol_getDatabase rid) (\<lambda>r. case r of None \<Rightarrow> liftS (Inl EngineError) | Some r \<Rightarrow> pureS r)"

definition insert_database :: "VolumeDatabase \<Rightarrow> unit volume" where
  "insert_database r s =
     (if has_key vdb_id (vdb_id r) (vol_databases s) \<or> has_key vdb_path (vdb_path r) (vol_databases s)
      then (s, Inl EngineError) else (s\<lparr>vol_databases := vol_databases s @ [r]\<rparr>, Inr ()))"

definition ensureDatabase :: "'d VolumeEnv \<Rightarrow> EnsureDatabaseInput \<Rightarrow> VolumeDatabase volume" where
  "ensureDatabase V i =
     bindS (liftS (liftF (databaseId (edi_id i)))) (\<lambda>rid.
     bindS (liftS (liftF (databaseKind (case edi_kind i of Some k \<Rightarrow> k | None \<Rightarrow> ''project'')))) (\<lambda>kind.
     bindS (liftS (liftF (optionalIdentifier (edi_ownerId i) ''volume sqlite database owner id''))) (\<lambda>owner.
     bindS (liftS (liftF (sqlite_nonnegative (case edi_schemaVersion i of Some n \<Rightarrow> n | None \<Rightarrow> Fin 0)
       ''volume sqlite database schema version''))) (\<lambda>version.
     bindS (vol_getDatabase rid) (\<lambda>existing. case existing of
       Some _ \<Rightarrow>
         bindS (clockV V) (\<lambda>lastUsedAt.
         bindS (setS (\<lambda>s. s\<lparr>vol_databases := update_by vdb_id rid
           (\<lambda>r. r\<lparr>vdb_kind := kind, vdb_ownerId := owner, vdb_schemaVersion := max (vdb_schemaVersion r) version,
                  vdb_lastUsedAt := lastUsedAt\<rparr>) (vol_databases s)\<rparr>)) (\<lambda>_.
         bindS (vol_reread rid) (\<lambda>updated.
         bindS (initializeDatabaseFile V updated) (\<lambda>_. pureS updated))))
     | None \<Rightarrow>
         bindS (clockV V) (\<lambda>createdAt.
         bindS (liftS (pathForDatabase V rid)) (\<lambda>path.
         bindS (insert_database \<lparr>vdb_id = rid, vdb_path = path, vdb_kind = kind, vdb_ownerId = owner,
           vdb_schemaVersion = version, vdb_createdAt = createdAt, vdb_lastUsedAt = createdAt\<rparr>) (\<lambda>_.
         bindS (vol_reread rid) (\<lambda>record.
         bindS (initializeDatabaseFile V record) (\<lambda>_. pureS record))))))))))"

text \<open>
  \<open>writeDatabase\<close>, as a caller sees it whose write is the only one of the database that is pending; what the queue of
  writers does with several is in VolumeQueue.
\<close>

definition writeDatabase :: "'d VolumeEnv \<Rightarrow> string \<Rightarrow> ('d Sqlite, 'a) fop \<Rightarrow> 'a volume" where
  "writeDatabase V rid cb = bindS (liftS (liftF (databaseId rid))) (\<lambda>rid. withDatabase V rid cb)"

subsection \<open>Backups\<close>

definition defaultBackupId :: "string \<Rightarrow> string \<Rightarrow> string cp" where
  "defaultBackupId dbId createdAt = volumeSqliteBackupId
     (dbId @ ''-'' @ filter (\<lambda>c. is_alnum c \<or> c \<in> set ''_.-'') createdAt)"

text \<open>\<open>order by created_at desc, id desc\<close>.\<close>

definition backup_order :: "VolumeBackup \<Rightarrow> VolumeBackup \<Rightarrow> bool" where
  "backup_order a b \<longleftrightarrow> (if bak_createdAt a = bak_createdAt b then text_le (bak_id b) (bak_id a)
     else text_le (bak_createdAt b) (bak_createdAt a))"

definition all_backups :: "Volume \<Rightarrow> VolumeBackup list" where
  "all_backups s = js_sort backup_order (vol_backups s)"

definition listBackups :: "string option \<Rightarrow> VolumeBackup list volume" where
  "listBackups rid = (case rid of
       Some r \<Rightarrow> if r = [] then askS all_backups
         else bindS (liftS (liftF (databaseId r))) (\<lambda>r. askS (\<lambda>s. filter (\<lambda>b. bak_databaseId b = r) (all_backups s)))
     | None \<Rightarrow> askS all_backups)"

definition getBackup :: "string \<Rightarrow> VolumeBackup option volume" where
  "getBackup bid = bindS (liftS (liftF (volumeSqliteBackupId bid))) (\<lambda>bid. askS (\<lambda>s. row_by bak_id bid (vol_backups s)))"

text \<open>The row of a backup refers to its database, and neither its identifier nor its path is taken.\<close>

definition insert_backup :: "VolumeBackup \<Rightarrow> unit volume" where
  "insert_backup b s =
     (if has_key bak_id (bak_id b) (vol_backups s) \<or> has_key bak_path (bak_path b) (vol_backups s)
        \<or> \<not> has_key vdb_id (bak_databaseId b) (vol_databases s)
      then (s, Inl EngineError) else (s\<lparr>vol_backups := vol_backups s @ [b]\<rparr>, Inr ()))"

text \<open>\<open>vacuum into\<close> refuses a file that exists.\<close>

definition vacuumInto :: "'d VolumeEnv \<Rightarrow> string \<Rightarrow> 'd Sqlite \<Rightarrow> unit volume" where
  "vacuumInto V path db s = (if file_at s path \<noteq> None then (s, Inl EngineError)
     else (write_file path (ve_image V db) s, Inr ()))"

definition encryptBackupIfConfigured :: "'d VolumeEnv \<Rightarrow> string \<Rightarrow> string \<Rightarrow> string \<Rightarrow> string
    \<Rightarrow> BackupEncryption option volume" where
  "encryptBackupIfConfigured V dbId bakId sourcePath targetPath = (case ve_cipher V of
       None \<Rightarrow> pureS None
     | Some c \<Rightarrow>
         bindS (readFile sourcePath) (\<lambda>plaintext.
         bindS (askS vol_ticks) (\<lambda>n.
         bindS (liftS (liftF (bc_encrypt c (ve_random V n) dbId bakId plaintext))) (\<lambda>r.
         bindS (setS (write_file targetPath (sb_ciphertext r))) (\<lambda>_.
         pureS (Some \<lparr>enc_algorithm = sb_algorithm r, enc_keyId = sb_keyId r,
           enc_iv = ve_toBase64url V (sb_iv r), enc_tag = ve_toBase64url V (sb_tag r)\<rparr>))))))"

definition deleteBackup :: "'d VolumeEnv \<Rightarrow> VolumeBackup \<Rightarrow> unit volume" where
  "deleteBackup V b = (let path = ve_resolve V (bak_path b) in
     bindS (liftS (assertPathInside (ve_backupDir V) path ''volume sqlite backup path'')) (\<lambda>_.
     bindS (unlinkIfExists path) (\<lambda>_.
     setS (\<lambda>s. s\<lparr>vol_backups := delete_by bak_id (bak_id b) (vol_backups s)\<rparr>))))"

fun groupBackupsByDatabase :: "VolumeBackup list \<Rightarrow> (string \<times> VolumeBackup list) list
    \<Rightarrow> (string \<times> VolumeBackup list) list" where
  "groupBackupsByDatabase [] groups = groups"
| "groupBackupsByDatabase (b # bs) groups = groupBackupsByDatabase bs
     (if map_of groups (bak_databaseId b) = None then groups @ [(bak_databaseId b, [b])]
      else map (\<lambda>(k, g). (k, if k = bak_databaseId b then g @ [b] else g)) groups)"

definition backupCreatedBefore :: "'d VolumeEnv \<Rightarrow> VolumeBackup \<Rightarrow> int \<Rightarrow> bool" where
  "backupCreatedBefore V b cutoff = (case ve_parseDate V (bak_createdAt b) of None \<Rightarrow> False | Some t \<Rightarrow> t < cutoff)"

definition prunable :: "'d VolumeEnv \<Rightarrow> int option \<Rightarrow> int option \<Rightarrow> nat \<Rightarrow> VolumeBackup \<Rightarrow> bool" where
  "prunable V keepLatest cutoff index b =
     (let beyondKeep = (case keepLatest of None \<Rightarrow> False | Some k \<Rightarrow> k \<le> int index);
          expired = (case cutoff of None \<Rightarrow> False
            | Some c \<Rightarrow> (case keepLatest of None \<Rightarrow> True | Some k \<Rightarrow> k \<le> int index) \<and> backupCreatedBefore V b c)
      in beyondKeep \<or> expired)"

fun pruneGroup :: "'d VolumeEnv \<Rightarrow> int option \<Rightarrow> int option \<Rightarrow> nat \<Rightarrow> VolumeBackup list
    \<Rightarrow> VolumeBackup list volume" where
  "pruneGroup V keepLatest cutoff index [] = pureS []"
| "pruneGroup V keepLatest cutoff index (b # bs) =
     (if \<not> prunable V keepLatest cutoff index b then pruneGroup V keepLatest cutoff (index + 1) bs
      else bindS (deleteBackup V b) (\<lambda>_.
           bindS (pruneGroup V keepLatest cutoff (index + 1) bs) (\<lambda>deleted. pureS (b # deleted))))"

fun pruneGroups :: "'d VolumeEnv \<Rightarrow> int option \<Rightarrow> int option \<Rightarrow> VolumeBackup list list
    \<Rightarrow> VolumeBackup list volume" where
  "pruneGroups V keepLatest cutoff [] = pureS []"
| "pruneGroups V keepLatest cutoff (g # gs) =
     bindS (pruneGroup V keepLatest cutoff 0 g) (\<lambda>deleted.
     bindS (pruneGroups V keepLatest cutoff gs) (\<lambda>rest. pureS (deleted @ rest)))"

text \<open>\<open>keepLatest\<close> and \<open>olderThanMs\<close> of the input win over the options of the registry.\<close>

definition pruneBackups :: "'d VolumeEnv \<Rightarrow> string option \<Rightarrow> jnum option \<Rightarrow> jnum option \<Rightarrow> BackupGcReport volume" where
  "pruneBackups V rid keepLatestIn olderThanIn =
     (let integers = (\<lambda>v configured. case v of Some n \<Rightarrow> Some n
            | None \<Rightarrow> map_option (\<lambda>i. Fin (of_int i)) configured) in
     bindS (liftS (liftF (optionalNonnegative (integers keepLatestIn (ve_maxBackups V))
       ''volume sqlite backup retention keepLatest''))) (\<lambda>keepLatest.
     bindS (liftS (liftF (optionalNonnegative (integers olderThanIn (ve_retentionMs V))
       ''volume sqlite backup retention olderThanMs''))) (\<lambda>olderThanMs.
     if keepLatest = None \<and> olderThanMs = None
     then bindS (listBackups rid) (\<lambda>bs.
          pureS \<lparr>bgr_deleted = [], bgr_remaining = int (length bs), bgr_deletedBytes = 0\<rparr>)
     else
       bindS (clockV V) (\<lambda>t.
       let cutoff = (case olderThanMs of None \<Rightarrow> None
             | Some o' \<Rightarrow> map_option (\<lambda>nowMs. nowMs - o') (ve_parseDate V t)) in
       bindS (listBackups rid) (\<lambda>bs.
       bindS (pruneGroups V keepLatest cutoff (map snd (groupBackupsByDatabase bs []))) (\<lambda>deleted.
       bindS (listBackups rid) (\<lambda>remaining.
       pureS \<lparr>bgr_deleted = deleted, bgr_remaining = int (length remaining),
              bgr_deletedBytes = sum_list (map bak_sizeBytes deleted)\<rparr>)))))))"

definition temporaryBackupPath :: "'d VolumeEnv \<Rightarrow> nat \<Rightarrow> string \<Rightarrow> string" where
  "temporaryBackupPath V n path = path @ ''.plain-'' @ ve_suffix V n"

text \<open>
  The result is \<open>getBackup(id) as VolumeSqliteBackupRecord\<close>: \<open>None\<close> is the \<open>undefined\<close> that is returned when
  the retention deleted the new backup at once.
\<close>

definition exportDatabase :: "'d VolumeEnv \<Rightarrow> string \<Rightarrow> string option \<Rightarrow> VolumeBackup option volume" where
  "exportDatabase V rid backupId =
     bindS (requiredDatabase rid) (\<lambda>record.
     bindS (clockV V) (\<lambda>createdAt.
     bindS (liftS (liftF (bindE (case backupId of Some b \<Rightarrow> Inr b | None \<Rightarrow> defaultBackupId (vdb_id record) createdAt)
       volumeSqliteBackupId))) (\<lambda>bid.
     bindS (liftS (pathForBackup V bid)) (\<lambda>path.
     bindS (readS (\<lambda>s. guardF (file_at s path \<noteq> None) Validation
       (''volume sqlite backup '' @ bid @ '' already exists''))) (\<lambda>_.
     bindS (askS vol_ticks) (\<lambda>n.
     let exportPath = (case ve_cipher V of Some _ \<Rightarrow> temporaryBackupPath V n path | None \<Rightarrow> path) in
     bindS (withDatabase V (vdb_id record) (askS (\<lambda>db. db))) (\<lambda>db.
     bindS (vacuumInto V exportPath db) (\<lambda>_.
     bindS (encryptBackupIfConfigured V (vdb_id record) bid exportPath path) (\<lambda>encrypted.
     bindS (if exportPath \<noteq> path then unlinkIfExists exportPath else pureS ()) (\<lambda>_.
     bindS (readFile path) (\<lambda>bytes.
     bindS (insert_backup \<lparr>bak_id = bid, bak_databaseId = vdb_id record, bak_path = path,
       bak_sizeBytes = int (length bytes), bak_createdAt = createdAt, bak_encryption = encrypted\<rparr>) (\<lambda>_.
     bindS (if ve_maxBackups V \<noteq> None \<or> ve_retentionMs V \<noteq> None
       then bindS (pruneBackups V (Some (vdb_id record)) None None) (\<lambda>_. pureS ()) else pureS ()) (\<lambda>_.
     getBackup bid)))))))))))))"

subsection \<open>Restore\<close>

definition backupEncryptionPart :: "'d VolumeEnv \<Rightarrow> VolumeBackup \<Rightarrow> string \<Rightarrow> string \<Rightarrow> string cp" where
  "backupEncryptionPart V b field value =
     bindE (guardC (value = []) Validation (''encrypted volume sqlite backup '' @ bak_id b @ '' is missing '' @ field)) (\<lambda>_.
     bindE (guardC (ve_fromBase64url V value = []) Validation
       (''encrypted volume sqlite backup '' @ bak_id b @ '' has malformed '' @ field)) (\<lambda>_.
     Inr (ve_fromBase64url V value)))"

text \<open>
  What a restore reads: the file of a plain backup, by its path, or the decrypted bytes, which the code
  keeps in a temporary file until it is done.
\<close>

datatype restore_source = SourcePath string | Decrypted string

definition decryptBackupIfNeeded :: "'d VolumeEnv \<Rightarrow> VolumeBackup \<Rightarrow> restore_source volume" where
  "decryptBackupIfNeeded V b = (case bak_encryption b of
       None \<Rightarrow> pureS (SourcePath (bak_path b))
     | Some e \<Rightarrow> (case ve_cipher V of
           None \<Rightarrow> liftS (throwF Validation ''encrypted volume sqlite backup requires a configured backup cipher'')
         | Some c \<Rightarrow>
             bindS (liftS (guardF (enc_algorithm e = [] \<or> enc_keyId e = []) Validation
               (''encrypted volume sqlite backup '' @ bak_id b @ '' is missing metadata''))) (\<lambda>_.
             bindS (readFile (bak_path b)) (\<lambda>ciphertext.
             bindS (liftS (liftF (backupEncryptionPart V b ''iv'' (enc_iv e)))) (\<lambda>iv.
             bindS (liftS (liftF (backupEncryptionPart V b ''tag'' (enc_tag e)))) (\<lambda>tag.
             bindS (liftS (liftF (bc_decrypt c (bak_databaseId b) (bak_id b)
               \<lparr>sb_ciphertext = ciphertext, sb_algorithm = enc_algorithm e, sb_keyId = enc_keyId e,
                sb_iv = iv, sb_tag = tag\<rparr>))) (\<lambda>plaintext.
             pureS (Decrypted plaintext))))))))"

definition source_bytes :: "restore_source \<Rightarrow> string volume" where
  "source_bytes src = (case src of SourcePath p \<Rightarrow> readFile p | Decrypted b \<Rightarrow> pureS b)"

definition nonempty :: "string option \<Rightarrow> string option" where
  "nonempty v = (if v = Some [] then None else v)"

definition restoreSource :: "'d VolumeEnv \<Rightarrow> RestoreDatabaseInput \<Rightarrow> restore_source volume" where
  "restoreSource V i = (case (nonempty (rdi_backupId i), nonempty (rdi_sourcePath i)) of
       (Some _, Some _) \<Rightarrow> liftS (throwF Validation ''restore must use either backupId or sourcePath, not both'')
     | (Some bid, None) \<Rightarrow>
         bindS (getBackup bid) (\<lambda>b. case b of
           None \<Rightarrow> liftS (throwF NotFound (''volume sqlite backup '' @ bid @ '' was not found''))
         | Some b \<Rightarrow> decryptBackupIfNeeded V b)
     | (None, None) \<Rightarrow> liftS (throwF Validation ''restore requires backupId or sourcePath'')
     | (None, Some p) \<Rightarrow> (let path = ve_resolve V p in
         bindS (liftS (assertPathInside (ve_backupDir V) path ''volume sqlite restore source path'')) (\<lambda>_.
         bindS (readS (\<lambda>s. guardF (file_at s path = None) NotFound
           (''volume sqlite restore source '' @ path @ '' was not found''))) (\<lambda>_.
         pureS (SourcePath path)))))"

text \<open>The check of a source; the message of the engine at the end of the error is left out.\<close>

definition sqliteUserVersionFromPath :: "'d VolumeEnv \<Rightarrow> restore_source \<Rightarrow> int volume" where
  "sqliteUserVersionFromPath V src = readS (\<lambda>s.
     case (case src of SourcePath p \<Rightarrow> file_at s p | Decrypted b \<Rightarrow> Some b) of
       None \<Rightarrow> throwF Validation ''volume sqlite restore source is not a valid sqlite database''
     | Some bytes \<Rightarrow> (case ve_open V bytes of
           None \<Rightarrow> throwF Validation ''volume sqlite restore source is not a valid sqlite database''
         | Some db \<Rightarrow> Inr (sq_userVersion db)))"

definition first_some :: "'a option \<Rightarrow> 'a option \<Rightarrow> 'a option" where
  "first_some a b = (case a of Some x \<Rightarrow> Some x | None \<Rightarrow> b)"

definition restoreDatabase :: "'d VolumeEnv \<Rightarrow> RestoreDatabaseInput \<Rightarrow> VolumeDatabase volume" where
  "restoreDatabase V i =
     bindS (liftS (liftF (databaseId (rdi_id i)))) (\<lambda>rid.
     bindS (vol_getDatabase rid) (\<lambda>existing.
     bindS (restoreSource V i) (\<lambda>src.
     bindS (sqliteUserVersionFromPath V src) (\<lambda>sourceVersion.
     bindS (liftS (liftF (sqlite_nonnegative (case rdi_schemaVersion i of Some n \<Rightarrow> n | None \<Rightarrow> Fin (of_int sourceVersion))
       ''volume sqlite database schema version''))) (\<lambda>version.
     bindS (liftS (liftF (databaseKind (case first_some (rdi_kind i) (map_option vdb_kind existing) of
       Some k \<Rightarrow> k | None \<Rightarrow> ''project'')))) (\<lambda>kind.
     bindS (liftS (liftF (optionalIdentifier (first_some (rdi_ownerId i) (case existing of
       Some r \<Rightarrow> vdb_ownerId r | None \<Rightarrow> None)) ''volume sqlite database owner id''))) (\<lambda>owner.
     bindS (liftS (pathForDatabase V rid)) (\<lambda>targetPath.
     bindS (clockV V) (\<lambda>restoredAt.
     bindS (setS (poolClose rid)) (\<lambda>_.
     bindS (source_bytes src) (\<lambda>bytes.
     bindS (setS (write_file targetPath bytes)) (\<lambda>_.
     bindS (case existing of
       Some _ \<Rightarrow> setS (\<lambda>s. s\<lparr>vol_databases := update_by vdb_id rid (\<lambda>r. r\<lparr>vdb_path := targetPath,
         vdb_kind := kind, vdb_ownerId := owner, vdb_schemaVersion := version, vdb_lastUsedAt := restoredAt\<rparr>)
         (vol_databases s)\<rparr>)
     | None \<Rightarrow> insert_database \<lparr>vdb_id = rid, vdb_path = targetPath, vdb_kind = kind, vdb_ownerId = owner,
         vdb_schemaVersion = version, vdb_createdAt = restoredAt, vdb_lastUsedAt = restoredAt\<rparr>) (\<lambda>_.
     bindS (vol_reread rid) (\<lambda>record.
     bindS (initializeDatabaseFile V record) (\<lambda>_. pureS record)))))))))))))))"

definition backupForRestoreDrill :: "string option \<Rightarrow> string option \<Rightarrow> VolumeBackup volume" where
  "backupForRestoreDrill bakId dbId = (case (nonempty bakId, nonempty dbId) of
       (Some _, Some _) \<Rightarrow> liftS (throwF Validation ''restore drill must use either backupId or databaseId, not both'')
     | (Some bid, None) \<Rightarrow> bindS (getBackup bid) (\<lambda>b. case b of
           None \<Rightarrow> liftS (throwF NotFound (''volume sqlite backup '' @ bid @ '' was not found''))
         | Some b \<Rightarrow> pureS b)
     | (None, Some rid) \<Rightarrow> bindS (liftS (liftF (databaseId rid))) (\<lambda>r. bindS (listBackups (Some r)) (\<lambda>bs. case bs of
           [] \<Rightarrow> liftS (throwF NotFound (''volume sqlite database '' @ rid @ '' has no backups''))
         | b # _ \<Rightarrow> pureS b))
     | (None, None) \<Rightarrow> liftS (throwF Validation ''restore drill requires backupId or databaseId''))"

definition verifyBackupRestore :: "'d VolumeEnv \<Rightarrow> string option \<Rightarrow> string option \<Rightarrow> RestoreDrillReport volume" where
  "verifyBackupRestore V bakId dbId =
     bindS (backupForRestoreDrill bakId dbId) (\<lambda>b.
     bindS (clockV V) (\<lambda>checkedAt.
     bindS (askS (bindS (decryptBackupIfNeeded V b) (\<lambda>src.
       bindS (source_bytes src) (\<lambda>bytes. sqliteUserVersionFromPath V (Decrypted bytes))))) (\<lambda>(_, outcome).
     pureS \<lparr>rdr_backupId = bak_id b, rdr_databaseId = bak_databaseId b, rdr_checkedAt = checkedAt,
            rdr_sizeBytes = bak_sizeBytes b, rdr_encrypted = (bak_encryption b \<noteq> None),
            rdr_outcome = outcome\<rparr>)))"

subsection \<open>The options and the statistics of a registry\<close>

definition registryOptions :: "jnum option \<Rightarrow> jnum option \<Rightarrow> jnum option \<Rightarrow> jnum option
    \<Rightarrow> (int \<times> int \<times> int option \<times> int option) cp" where
  "registryOptions maxOpen maxPending maxBackups retention =
     bindE (sqlite_positive (case maxOpen of Some n \<Rightarrow> n | None \<Rightarrow> Fin 64) ''sqlite database pool maxOpen'') (\<lambda>open.
     bindE (sqlite_positive (case maxPending of Some n \<Rightarrow> n | None \<Rightarrow> Fin 64)
       ''volume sqlite writer queue maxPendingPerDatabase'') (\<lambda>pending.
     bindE (optionalNonnegative maxBackups ''volume sqlite max backups per database'') (\<lambda>backups.
     bindE (optionalNonnegative retention ''volume sqlite backup retention ms'') (\<lambda>retention.
     Inr (open, pending, backups, retention)))))"

subsection \<open>The scheduled backup\<close>

text \<open>
  One cycle of \<open>control-plane/volume-sqlite-backup-job.ts\<close>. The backups are what the exports returned,
  \<open>undefined\<close> included: reading a field of it is a \<open>TypeError\<close>, which the error handler of the drill
  meets again.
\<close>

datatype backup_stage = StageBackup | StageEncryption | StageRestoreDrill | StageGc

record ScheduledBackupError =
  sbe_stage :: backup_stage
  sbe_databaseId :: "string option"
  sbe_backupId :: "string option"
  sbe_cause :: "failure option"

record ScheduledBackupReport =
  sbr_ok :: bool
  sbr_startedAt :: string
  sbr_finishedAt :: string
  sbr_databases :: int
  sbr_backups :: "VolumeBackup option list"
  sbr_restoreDrills :: "RestoreDrillReport list"
  sbr_gc :: BackupGcReport
  sbr_errors :: "ScheduledBackupError list"

text \<open>\<open>try { ... } catch\<close>: the failure as a value, with the writes made before it.\<close>

definition catchS :: "('s, 'a) fop \<Rightarrow> ('s, failure + 'a) fop" where
  "catchS m s = (case m s of (s', r) \<Rightarrow> (s', Inr r))"

fun export_all :: "'d VolumeEnv \<Rightarrow> bool \<Rightarrow> VolumeDatabase list
    \<Rightarrow> (VolumeBackup option list \<times> ScheduledBackupError list) volume" where
  "export_all V requireEncrypted [] = pureS ([], [])"
| "export_all V requireEncrypted (d # ds) =
     bindS (catchS (exportDatabase V (vdb_id d) None)) (\<lambda>r.
     bindS (export_all V requireEncrypted ds) (\<lambda>(bs, es). pureS (case r of
         Inl e \<Rightarrow> (bs, \<lparr>sbe_stage = StageBackup, sbe_databaseId = Some (vdb_id d), sbe_backupId = None,
           sbe_cause = Some e\<rparr> # es)
       | Inr None \<Rightarrow> (None # bs, (if requireEncrypted then [\<lparr>sbe_stage = StageBackup,
           sbe_databaseId = Some (vdb_id d), sbe_backupId = None, sbe_cause = Some EngineError\<rparr>] else []) @ es)
       | Inr (Some b) \<Rightarrow> (Some b # bs, (if requireEncrypted \<and> bak_encryption b = None
           then [\<lparr>sbe_stage = StageEncryption, sbe_databaseId = Some (vdb_id d), sbe_backupId = Some (bak_id b),
             sbe_cause = None\<rparr>] else []) @ es))))"

fun drill_all :: "'d VolumeEnv \<Rightarrow> VolumeBackup option list
    \<Rightarrow> (RestoreDrillReport list \<times> ScheduledBackupError list) volume" where
  "drill_all V [] = pureS ([], [])"
| "drill_all V (None # bs) = liftS (Inl EngineError)"
| "drill_all V (Some b # bs) =
     bindS (catchS (verifyBackupRestore V (Some (bak_id b)) None)) (\<lambda>r.
     bindS (drill_all V bs) (\<lambda>(rs, es).
     let failed = (\<lambda>e. \<lparr>sbe_stage = StageRestoreDrill, sbe_databaseId = Some (bak_databaseId b),
       sbe_backupId = Some (bak_id b), sbe_cause = Some e\<rparr>) in
     pureS (case r of
         Inl e \<Rightarrow> (rs, failed e # es)
       | Inr d \<Rightarrow> (d # rs, (case rdr_outcome d of Inl e \<Rightarrow> [failed e] | Inr _ \<Rightarrow> []) @ es))))"

definition runVolumeSqliteScheduledBackupCycle :: "'d VolumeEnv \<Rightarrow> bool \<Rightarrow> bool \<Rightarrow> string option \<Rightarrow> jnum option
    \<Rightarrow> jnum option \<Rightarrow> ScheduledBackupReport volume" where
  "runVolumeSqliteScheduledBackupCycle V requireEncrypted drill retentionId keepLatest olderThanMs =
     bindS (clockV V) (\<lambda>startedAt.
     bindS (askS vol_listDatabases) (\<lambda>databases.
     bindS (export_all V requireEncrypted databases) (\<lambda>(backups, errors).
     bindS (if drill then drill_all V backups else pureS ([], [])) (\<lambda>(drills, drillErrors).
     bindS (catchS (pruneBackups V retentionId keepLatest olderThanMs)) (\<lambda>pruned.
     bindS (askS (\<lambda>s. int (length (vol_backups s)))) (\<lambda>remaining.
     bindS (clockV V) (\<lambda>finishedAt.
     let (gc, gcErrors) = (case pruned of
           Inr report \<Rightarrow> (report, [])
         | Inl e \<Rightarrow> (\<lparr>bgr_deleted = [], bgr_remaining = remaining, bgr_deletedBytes = 0\<rparr>,
             [\<lparr>sbe_stage = StageGc, sbe_databaseId = None, sbe_backupId = None, sbe_cause = Some e\<rparr>]));
         allErrors = errors @ drillErrors @ gcErrors in
     pureS \<lparr>sbr_ok = (allErrors = []), sbr_startedAt = startedAt, sbr_finishedAt = finishedAt,
       sbr_databases = int (length databases), sbr_backups = backups, sbr_restoreDrills = drills,
       sbr_gc = gc, sbr_errors = allErrors\<rparr>)))))))"

end
