(* ===== verification/VolumeQueue.thy ===== *)
theory VolumeQueue
  imports VolumeSqlite
begin

text \<open>
  The queue of writers of \<open>control-plane/volume-sqlite.ts\<close> and the handles its writers use. A write is
  asynchronous: it begins when the promise it was chained to is settled, holds the handle the pool gave it,
  and other calls run until it ends. States of databases are objects that the running writes keep hold of,
  so they have addresses. A handle is a number; the handles the pool no longer lists are closed.
\<close>

text \<open>
  The promises of a write: \<open>run\<close> is settled when the write has ended, and the promise made of it by \<open>run.then\<close>,
  the new tail, a turn later. A tail is the number of the write it was made of, or none when it is
  \<open>Promise.resolve()\<close>.
\<close>

datatype write_phase = Waiting | Running | Finished | Passed

record 'w Write =
  wt_task :: 'w
  wt_db :: string
  wt_state :: nat
  wt_after :: "nat option"
  wt_phase :: write_phase
  wt_handle :: "nat option"

record Writer =
  wr_tail :: "nat option"
  wr_active :: bool
  wr_pending :: int

record 'w WriterQueue =
  wq_writes :: "'w Write list"
  wq_store :: "Writer list"
  wq_states :: "(string \<times> nat) list"
  wq_rejected :: int
  wq_pool :: "(string \<times> nat) list"
  wq_opened :: nat

definition idle_writer :: Writer where
  "idle_writer = \<lparr>wr_tail = None, wr_active = False, wr_pending = 0\<rparr>"

definition empty_queue :: "'w WriterQueue" where
  "empty_queue = \<lparr>wq_writes = [], wq_store = [], wq_states = [], wq_rejected = 0, wq_pool = [], wq_opened = 0\<rparr>"

definition stateFor :: "string \<Rightarrow> 'w WriterQueue \<Rightarrow> 'w WriterQueue \<times> nat" where
  "stateFor rid q = (case map_of (wq_states q) rid of
       Some a \<Rightarrow> (q, a)
     | None \<Rightarrow> (q\<lparr>wq_store := wq_store q @ [idle_writer], wq_states := map_set rid (length (wq_store q)) (wq_states q)\<rparr>,
         length (wq_store q)))"

definition put_writer :: "nat \<Rightarrow> Writer \<Rightarrow> 'w WriterQueue \<Rightarrow> 'w WriterQueue" where
  "put_writer a w q = q\<lparr>wq_store := (wq_store q)[a := w]\<rparr>"

definition put_write :: "nat \<Rightarrow> 'w Write \<Rightarrow> 'w WriterQueue \<Rightarrow> 'w WriterQueue" where
  "put_write n x q = q\<lparr>wq_writes := (wq_writes q)[n := x]\<rparr>"

text \<open>\<open>enqueue\<close>, with whether the write was accepted: it is chained to the tail, and its own promise is the new tail.\<close>

definition enqueue_write :: "int \<Rightarrow> string \<Rightarrow> 'w \<Rightarrow> 'w WriterQueue \<Rightarrow> 'w WriterQueue \<times> bool" where
  "enqueue_write maxPending rid task q = (case stateFor rid q of (q', a) \<Rightarrow>
     let w = wq_store q' ! a in
     if maxPending \<le> wr_pending w
     then (q'\<lparr>wq_rejected := wq_rejected q' + 1\<rparr>, False)
     else ((put_writer a (w\<lparr>wr_tail := Some (length (wq_writes q')), wr_pending := wr_pending w + 1\<rparr>) q')
         \<lparr>wq_writes := wq_writes q' @ [\<lparr>wt_task = task, wt_db = rid, wt_state = a, wt_after = wr_tail w,
            wt_phase = Waiting, wt_handle = None\<rparr>]\<rparr>, True))"

text \<open>A promise that a write is chained to.\<close>

definition settled_promise :: "'w WriterQueue \<Rightarrow> nat option \<Rightarrow> bool" where
  "settled_promise q p \<longleftrightarrow> (case p of None \<Rightarrow> True | Some n \<Rightarrow> wt_phase (wq_writes q ! n) = Passed)"

text \<open>\<open>open\<close> of the pool: the handle of an entry that is there moves to the end, a new one may close the oldest.\<close>

definition open_handle :: "int \<Rightarrow> string \<Rightarrow> 'w WriterQueue \<Rightarrow> 'w WriterQueue \<times> nat" where
  "open_handle maxOpen rid q = (case map_of (wq_pool q) rid of
       Some h \<Rightarrow> (q\<lparr>wq_pool := filter (\<lambda>e. fst e \<noteq> rid) (wq_pool q) @ [(rid, h)]\<rparr>, h)
     | None \<Rightarrow> (q\<lparr>wq_pool := evictOverflow maxOpen (wq_pool q @ [(rid, wq_opened q)]),
                  wq_opened := wq_opened q + 1\<rparr>, wq_opened q))"

text \<open>The callback of \<open>then\<close> begins. \<open>known\<close> is whether the catalog lists the database; without it, nothing is opened.\<close>

definition begin_write :: "int \<Rightarrow> bool \<Rightarrow> nat \<Rightarrow> 'w WriterQueue \<Rightarrow> 'w WriterQueue" where
  "begin_write maxOpen known n q = (let x = wq_writes q ! n; a = wt_state x;
       q1 = put_writer a ((wq_store q ! a)\<lparr>wr_active := True\<rparr>) q in
     if known
     then (case open_handle maxOpen (wt_db x) q1 of (q2, h) \<Rightarrow> put_write n (x\<lparr>wt_phase := Running, wt_handle := Some h\<rparr>) q2)
     else put_write n (x\<lparr>wt_phase := Running\<rparr>) q1)"

text \<open>The \<open>finally\<close> of a write; the entry of a database without writers is deleted when it still is this state.\<close>

definition end_write :: "nat \<Rightarrow> 'w WriterQueue \<Rightarrow> 'w WriterQueue" where
  "end_write n q = (let x = wq_writes q ! n; a = wt_state x; w = wq_store q ! a;
       w' = w\<lparr>wr_active := False, wr_pending := wr_pending w - 1\<rparr>;
       q' = put_write n (x\<lparr>wt_phase := Finished, wt_handle := None\<rparr>) (put_writer a w' q) in
     if wr_pending w' = 0 \<and> map_of (wq_states q) (wt_db x) = Some a
     then q'\<lparr>wq_states := filter (\<lambda>e. fst e \<noteq> wt_db x) (wq_states q')\<rparr> else q')"

text \<open>The promise made of \<open>run\<close> is settled, whether the write succeeded or threw.\<close>

definition pass_on :: "nat \<Rightarrow> 'w WriterQueue \<Rightarrow> 'w WriterQueue" where
  "pass_on n q = put_write n ((wq_writes q ! n)\<lparr>wt_phase := Passed\<rparr>) q"

text \<open>
  Calls that use the pool beside the queue: \<open>withDatabase\<close>, of \<open>ensureDatabase\<close> and \<open>exportDatabase\<close>, and the
  close of \<open>restoreDatabase\<close>.
\<close>

definition use_handle :: "int \<Rightarrow> string \<Rightarrow> 'w WriterQueue \<Rightarrow> 'w WriterQueue" where
  "use_handle maxOpen rid q = fst (open_handle maxOpen rid q)"

definition close_handle :: "string \<Rightarrow> 'w WriterQueue \<Rightarrow> 'w WriterQueue" where
  "close_handle rid q = q\<lparr>wq_pool := filter (\<lambda>e. fst e \<noteq> rid) (wq_pool q)\<rparr>"

record WriterStats =
  wst_id :: string
  wst_active :: bool
  wst_queued :: int
  wst_pending :: int

definition writer_stats :: "(string \<Rightarrow> string \<Rightarrow> bool) \<Rightarrow> 'w WriterQueue \<Rightarrow> WriterStats list" where
  "writer_stats localeLe q = map (\<lambda>(rid, a). let w = wq_store q ! a in \<lparr>wst_id = rid, wst_active = wr_active w,
       wst_queued = max 0 (wr_pending w - (if wr_active w then 1 else 0)), wst_pending = wr_pending w\<rparr>)
     (js_sort (\<lambda>a b. localeLe (fst a) (fst b)) (wq_states q))"

subsection \<open>Runs\<close>

text \<open>
  A write can begin as soon as the promise it is chained to is settled, whatever else is under way: that only
  one of a database writes at a time is for the chain to see to.
\<close>

datatype 'w queue_event = Accepted string 'w | Turned_away string 'w | Began string 'w | Ended string 'w

inductive queue_run :: "int \<Rightarrow> int \<Rightarrow> 'w WriterQueue \<Rightarrow> 'w queue_event list \<Rightarrow> bool" for maxPending maxOpen where
  fresh: "queue_run maxPending maxOpen empty_queue []"
| enqueued: "queue_run maxPending maxOpen q tr \<Longrightarrow> enqueue_write maxPending rid t q = (q', accepted) \<Longrightarrow>
    queue_run maxPending maxOpen q' (tr @ [if accepted then Accepted rid t else Turned_away rid t])"
| began: "queue_run maxPending maxOpen q tr \<Longrightarrow> n < length (wq_writes q) \<Longrightarrow> x = wq_writes q ! n \<Longrightarrow> wt_phase x = Waiting \<Longrightarrow>
    settled_promise q (wt_after x) \<Longrightarrow>
    queue_run maxPending maxOpen (begin_write maxOpen known n q) (tr @ [Began (wt_db x) (wt_task x)])"
| ended: "queue_run maxPending maxOpen q tr \<Longrightarrow> n < length (wq_writes q) \<Longrightarrow> x = wq_writes q ! n \<Longrightarrow> wt_phase x = Running \<Longrightarrow>
    queue_run maxPending maxOpen (end_write n q) (tr @ [Ended (wt_db x) (wt_task x)])"
| passed: "queue_run maxPending maxOpen q tr \<Longrightarrow> n < length (wq_writes q) \<Longrightarrow> wt_phase (wq_writes q ! n) = Finished \<Longrightarrow>
    queue_run maxPending maxOpen (pass_on n q) tr"
| used: "queue_run maxPending maxOpen q tr \<Longrightarrow> queue_run maxPending maxOpen (use_handle maxOpen rid q) tr"
| closed: "queue_run maxPending maxOpen q tr \<Longrightarrow> queue_run maxPending maxOpen (close_handle rid q) tr"

fun accepted :: "string \<Rightarrow> 'w queue_event list \<Rightarrow> 'w list" where
  "accepted rid [] = []"
| "accepted rid (Accepted r t # tr) = (if r = rid then t # accepted rid tr else accepted rid tr)"
| "accepted rid (_ # tr) = accepted rid tr"

fun began_writes :: "string \<Rightarrow> 'w queue_event list \<Rightarrow> 'w list" where
  "began_writes rid [] = []"
| "began_writes rid (Began r t # tr) = (if r = rid then t # began_writes rid tr else began_writes rid tr)"
| "began_writes rid (_ # tr) = began_writes rid tr"

fun ended_writes :: "string \<Rightarrow> 'w queue_event list \<Rightarrow> 'w list" where
  "ended_writes rid [] = []"
| "ended_writes rid (Ended r t # tr) = (if r = rid then t # ended_writes rid tr else ended_writes rid tr)"
| "ended_writes rid (_ # tr) = ended_writes rid tr"

lemma events_append [simp]:
  "accepted rid (tr @ tr') = accepted rid tr @ accepted rid tr'"
  "began_writes rid (tr @ tr') = began_writes rid tr @ began_writes rid tr'"
  "ended_writes rid (tr @ tr') = ended_writes rid tr @ ended_writes rid tr'"
  by (induction tr rule: accepted.induct) auto

subsection \<open>The chain of a database\<close>

definition has_ended :: "'w Write \<Rightarrow> bool" where
  "has_ended x \<longleftrightarrow> wt_phase x = Finished \<or> wt_phase x = Passed"

abbreviation unended :: "string \<Rightarrow> 'w Write list \<Rightarrow> 'w Write list" where
  "unended rid W \<equiv> filter (\<lambda>x. wt_db x = rid \<and> \<not> has_ended x) W"

abbreviation writes_of :: "string \<Rightarrow> 'w Write list \<Rightarrow> 'w Write list" where
  "writes_of rid W \<equiv> filter (\<lambda>x. wt_db x = rid) W"

text \<open>A tail is the last write of its database, or none when no write of it is under way.\<close>

definition last_write :: "string \<Rightarrow> 'w Write list \<Rightarrow> nat \<Rightarrow> nat option \<Rightarrow> bool" where
  "last_write rid W m tail \<longleftrightarrow> (case tail of
       None \<Rightarrow> \<forall>i < m. wt_db (W ! i) = rid \<longrightarrow> has_ended (W ! i)
     | Some k \<Rightarrow> k < m \<and> wt_db (W ! k) = rid \<and> (\<forall>i. k < i \<and> i < m \<longrightarrow> wt_db (W ! i) \<noteq> rid))"

definition ordered_writes :: "'w Write list \<Rightarrow> bool" where
  "ordered_writes W \<longleftrightarrow> (\<forall>j < length W. \<forall>i < j. wt_db (W ! i) = wt_db (W ! j) \<longrightarrow> wt_phase (W ! j) \<noteq> Waiting \<longrightarrow> has_ended (W ! i))"

definition chained_writes :: "'w Write list \<Rightarrow> bool" where
  "chained_writes W \<longleftrightarrow> (\<forall>j < length W. last_write (wt_db (W ! j)) W j (wt_after (W ! j)))"

definition counted_state :: "'w Write list \<Rightarrow> string \<Rightarrow> Writer \<Rightarrow> bool" where
  "counted_state W rid w \<longleftrightarrow> wr_pending w = int (length (unended rid W))
     \<and> (wr_active w \<longleftrightarrow> (\<exists>n < length W. wt_db (W ! n) = rid \<and> wt_phase (W ! n) = Running))
     \<and> last_write rid W (length W) (wr_tail w)"

definition queue_ok :: "'w WriterQueue \<Rightarrow> bool" where
  "queue_ok q \<longleftrightarrow> ordered_writes (wq_writes q) \<and> chained_writes (wq_writes q)
     \<and> (\<forall>rid a. map_of (wq_states q) rid = Some a \<longrightarrow> a < length (wq_store q) \<and> counted_state (wq_writes q) rid (wq_store q ! a))
     \<and> (\<forall>n < length (wq_writes q). \<not> has_ended (wq_writes q ! n)
          \<longrightarrow> map_of (wq_states q) (wt_db (wq_writes q ! n)) = Some (wt_state (wq_writes q ! n)))
     \<and> (\<forall>rid rid' a. map_of (wq_states q) rid = Some a \<longrightarrow> map_of (wq_states q) rid' = Some a \<longrightarrow> rid = rid')"

lemma queue_okI:
  assumes "ordered_writes (wq_writes q)" and "chained_writes (wq_writes q)"
    and "\<And>rid a. map_of (wq_states q) rid = Some a \<Longrightarrow> a < length (wq_store q) \<and> counted_state (wq_writes q) rid (wq_store q ! a)"
    and "\<And>n. n < length (wq_writes q) \<Longrightarrow> \<not> has_ended (wq_writes q ! n)
      \<Longrightarrow> map_of (wq_states q) (wt_db (wq_writes q ! n)) = Some (wt_state (wq_writes q ! n))"
    and "\<And>rid rid' a. map_of (wq_states q) rid = Some a \<Longrightarrow> map_of (wq_states q) rid' = Some a \<Longrightarrow> rid = rid'"
  shows "queue_ok q"
  unfolding queue_ok_def using assms by blast

lemma queue_okD:
  assumes "queue_ok q"
  shows "ordered_writes (wq_writes q)" and "chained_writes (wq_writes q)"
    and "map_of (wq_states q) rid = Some a \<Longrightarrow> a < length (wq_store q)"
    and "map_of (wq_states q) rid = Some a \<Longrightarrow> counted_state (wq_writes q) rid (wq_store q ! a)"
    and "n < length (wq_writes q) \<Longrightarrow> \<not> has_ended (wq_writes q ! n)
      \<Longrightarrow> map_of (wq_states q) (wt_db (wq_writes q ! n)) = Some (wt_state (wq_writes q ! n))"
    and "map_of (wq_states q) rid = Some a \<Longrightarrow> map_of (wq_states q) rid' = Some a \<Longrightarrow> rid = rid'"
  using assms unfolding queue_ok_def by blast+

lemma unended_none: "unended rid W = [] \<longleftrightarrow> (\<forall>n < length W. wt_db (W ! n) = rid \<longrightarrow> has_ended (W ! n))"
  by (auto simp: filter_empty_conv all_set_conv_all_nth)

lemma queue_ok_stateFor:
  assumes "queue_ok q" and "stateFor rid q = (q', a)"
  shows "queue_ok q' \<and> map_of (wq_states q') rid = Some a \<and> wq_writes q' = wq_writes q"
proof (cases "map_of (wq_states q) rid")
  case (Some a')
  then show ?thesis using assms by (simp add: stateFor_def)
next
  case None
  let ?W = "wq_writes q"
  have a: "a = length (wq_store q)"
    and q': "q' = q\<lparr>wq_store := wq_store q @ [idle_writer], wq_states := map_set rid a (wq_states q)\<rparr>"
    using assms(2) None by (auto simp: stateFor_def)
  have e: "\<forall>n < length ?W. wt_db (?W ! n) = rid \<longrightarrow> has_ended (?W ! n)"
    using assms(1) None by (force simp: queue_ok_def)
  then have "unended rid ?W = []" by (simp only: unended_none)
  then have "counted_state ?W rid idle_writer"
    using e by (auto simp: counted_state_def idle_writer_def last_write_def has_ended_def)
  then show ?thesis using assms(1) None unfolding q' a queue_ok_def
    by (auto simp: nth_append intro: less_SucI)
qed

lemma last_write_append [simp]: "m \<le> length W \<Longrightarrow> last_write rid (W @ [x]) m tail = last_write rid W m tail"
  by (auto simp: last_write_def nth_append split: option.splits)

lemma queue_ok_enqueue:
  assumes "queue_ok q" and "enqueue_write m rid t q = (q', ok)"
  shows "queue_ok q' \<and> (if ok then \<exists>x. wq_writes q' = wq_writes q @ [x] \<and> wt_db x = rid \<and> wt_task x = t \<and> wt_phase x = Waiting
      \<and> int (length (unended rid (wq_writes q))) < m
    else wq_writes q' = wq_writes q \<and> m \<le> int (length (unended rid (wq_writes q))))"
proof -
  obtain q1 a where s: "stateFor rid q = (q1, a)" by (cases "stateFor rid q")
  have ok1: "queue_ok q1" "map_of (wq_states q1) rid = Some a" "wq_writes q1 = wq_writes q"
    using queue_ok_stateFor [OF assms(1) s] by auto
  let ?w = "wq_store q1 ! a" and ?W = "wq_writes q"
  have w: "a < length (wq_store q1)" "counted_state ?W rid ?w" using ok1 by (auto simp: queue_ok_def)
  show ?thesis
  proof (cases "m \<le> wr_pending ?w")
    case True
    then show ?thesis using assms(2) s ok1 w(2)
      by (auto simp: enqueue_write_def Let_def queue_ok_def counted_state_def)
  next
    case False
    let ?x = "\<lparr>wt_task = t, wt_db = rid, wt_state = a, wt_after = wr_tail ?w, wt_phase = Waiting, wt_handle = None\<rparr>"
    let ?w' = "?w\<lparr>wr_tail := Some (length ?W), wr_pending := wr_pending ?w + 1\<rparr>"
    have q': "ok" "q' = (put_writer a ?w' q1)\<lparr>wq_writes := ?W @ [?x]\<rparr>"
      using assms(2) s False ok1(3) by (auto simp: enqueue_write_def Let_def put_writer_def)
    have S: "wq_writes q' = ?W @ [?x]" "wq_states q' = wq_states q1" "wq_store q' = (wq_store q1)[a := ?w']"
      by (simp_all add: q' put_writer_def)
    have running: "(\<exists>n < length (?W @ [?x]). wt_db ((?W @ [?x]) ! n) = r \<and> wt_phase ((?W @ [?x]) ! n) = Running)
        \<longleftrightarrow> (\<exists>n < length ?W. wt_db (?W ! n) = r \<and> wt_phase (?W ! n) = Running)" for r
      by (auto simp: nth_append less_Suc_eq)
    have "last_write r (?W @ [?x]) (Suc (length ?W)) tail" if "last_write r ?W (length ?W) tail" "r \<noteq> rid" for r tail
      using that by (auto simp: last_write_def nth_append less_Suc_eq split: option.splits)
    then have others: "counted_state (?W @ [?x]) r v" if "counted_state ?W r v" "r \<noteq> rid" for r v
      using that unfolding counted_state_def running by simp
    have own: "counted_state (?W @ [?x]) rid ?w'"
      using w(2) unfolding counted_state_def running by (auto simp: has_ended_def last_write_def)
    have "queue_ok q'"
    proof (rule queue_okI)
      show "ordered_writes (wq_writes q')" using queue_okD(1) [OF ok1(1)] unfolding S ok1(3)
        by (auto simp: ordered_writes_def nth_append less_Suc_eq)
      show "chained_writes (wq_writes q')" using queue_okD(2) [OF ok1(1)] w(2) unfolding S ok1(3)
        by (auto simp: chained_writes_def nth_append less_Suc_eq counted_state_def)
    next
      fix r c assume r: "map_of (wq_states q') r = Some c"
      show "c < length (wq_store q') \<and> counted_state (wq_writes q') r (wq_store q' ! c)"
      proof (cases "c = a")
        case True
        then have "r = rid" using r queue_okD(6) [OF ok1(1) _ ok1(2), of r] by (simp add: S)
        then show ?thesis using own True w(1) by (simp add: S)
      next
        case False
        then have "r \<noteq> rid" using r ok1(2) by (auto simp: S)
        then show ?thesis using False r others [of r "wq_store q1 ! c"] queue_okD(3,4) [OF ok1(1), of r c] by (simp add: S ok1(3))
      qed
    next
      fix n assume "n < length (wq_writes q')" and "\<not> has_ended (wq_writes q' ! n)"
      then show "map_of (wq_states q') (wt_db (wq_writes q' ! n)) = Some (wt_state (wq_writes q' ! n))"
        using queue_okD(5) [OF ok1(1), of n] ok1 by (auto simp: S nth_append less_Suc_eq)
    next
      fix r r' c assume "map_of (wq_states q') r = Some c" and "map_of (wq_states q') r' = Some c"
      then show "r = r'" using queue_okD(6) [OF ok1(1)] unfolding S by blast
    qed
    then show ?thesis using q' False w(2) by (simp add: counted_state_def)
  qed
qed

text \<open>A write that goes on from one phase to the next.\<close>

lemma nth_phase: "n < length W \<Longrightarrow> W[n := x] ! i = (if i = n then x else W ! i)"
  by (cases "i = n") simp_all

lemma split_at:
  assumes "n < length W"
  obtains A B where "W = A @ W ! n # B" and "\<And>x. W[n := x] = A @ x # B" and "\<And>y. y \<in> set B \<Longrightarrow> \<exists>j. n < j \<and> j < length W \<and> y = W ! j"
proof
  show "W = take n W @ W ! n # drop (Suc n) W" using assms by (simp add: id_take_nth_drop)
  show "W[n := x] = take n W @ x # drop (Suc n) W" for x using assms by (simp add: upd_conv_take_nth_drop)
  show "\<exists>j. n < j \<and> j < length W \<and> y = W ! j" if "y \<in> set (drop (Suc n) W)" for y
  proof -
    from that obtain i where "i < length (drop (Suc n) W)" "drop (Suc n) W ! i = y" unfolding in_set_conv_nth by blast
    then show ?thesis by (intro exI [of _ "Suc n + i"]) auto
  qed
qed

lemma filter_end:
  assumes "n < length W" and "P x" and "\<not> P (W ! n)" and "\<And>j. n < j \<Longrightarrow> j < length W \<Longrightarrow> \<not> P (W ! j)"
  shows "filter P (W[n := x]) = filter P W @ [x]"
proof -
  from assms(1) obtain A B where W: "W = A @ W ! n # B" "W[n := x] = A @ x # B"
    and B: "\<And>y. y \<in> set B \<Longrightarrow> \<exists>j. n < j \<and> j < length W \<and> y = W ! j" by (rule split_at) blast
  have "filter P B = []" using B assms(4) by (auto simp: filter_empty_conv)
  moreover have "filter P W = filter P A @ filter P (W ! n # B)" by (subst W(1)) simp
  ultimately show ?thesis unfolding W(2) using assms(2,3) by simp
qed

lemma map_filter_same:
  assumes "n < length W" and "P x \<longleftrightarrow> P (W ! n)" and "P x \<Longrightarrow> f x = f (W ! n)"
  shows "map f (filter P (W[n := x])) = map f (filter P W)"
proof -
  from assms(1) obtain A B where W: "W = A @ W ! n # B" "W[n := x] = A @ x # B" by (rule split_at) blast
  have "filter P W = filter P A @ filter P (W ! n # B)" by (subst W(1)) simp
  then show ?thesis unfolding W(2) using assms(2,3) by simp
qed

lemma length_filter_less:
  assumes "n < length W" and "P (W ! n)" and "\<not> P x"
  shows "int (length (filter P (W[n := x]))) = int (length (filter P W)) - 1"
proof -
  from assms(1) obtain A B where W: "W = A @ W ! n # B" "W[n := x] = A @ x # B" by (rule split_at) blast
  have "filter P W = filter P A @ filter P (W ! n # B)" by (subst W(1)) simp
  then show ?thesis unfolding W(2) using assms(2,3) by simp
qed

lemma length_filter_same:
  "n < length W \<Longrightarrow> P x \<longleftrightarrow> P (W ! n) \<Longrightarrow> length (filter P (W[n := x])) = length (filter P W)"
  using map_filter_same [of n W P x "\<lambda>_. ()"] by (metis length_map)

text \<open>Everything but its phase and its handle stays.\<close>

definition goes_on :: "'w Write \<Rightarrow> 'w Write \<Rightarrow> bool" where
  "goes_on x x' \<longleftrightarrow> wt_task x' = wt_task x \<and> wt_db x' = wt_db x \<and> wt_state x' = wt_state x \<and> wt_after x' = wt_after x
     \<and> (has_ended x \<longrightarrow> has_ended x')"

lemma last_write_goes_on:
  assumes "last_write rid W m tail" and "n < length W" and "m \<le> length W" and "goes_on (W ! n) x"
  shows "last_write rid (W[n := x]) m tail"
  using assms by (auto simp: last_write_def goes_on_def nth_phase split: option.splits)

lemma chained_goes_on:
  assumes "chained_writes W" and "n < length W" and "goes_on (W ! n) x"
  shows "chained_writes (W[n := x])"
  unfolding chained_writes_def
proof (intro allI impI)
  fix j assume j: "j < length (W[n := x])"
  have "last_write (wt_db (W ! j)) (W[n := x]) j (wt_after (W ! j))"
    using assms j by (intro last_write_goes_on) (simp_all add: chained_writes_def)
  then show "last_write (wt_db (W[n := x] ! j)) (W[n := x]) j (wt_after (W[n := x] ! j))"
    using assms(2,3) by (cases "j = n") (simp_all add: goes_on_def)
qed

lemma ordered_goes_on:
  assumes "ordered_writes W" and "n < length W" and "goes_on (W ! n) x"
    and "wt_phase x \<noteq> Waiting \<Longrightarrow> \<forall>i < n. wt_db (W ! i) = wt_db (W ! n) \<longrightarrow> has_ended (W ! i)"
  shows "ordered_writes (W[n := x])"
  using assms unfolding ordered_writes_def by (auto simp: nth_phase goes_on_def)

text \<open>The write a waiting one is chained to has passed on, and with it every earlier one.\<close>

lemma earlier_have_ended:
  assumes "queue_ok q" and "n < length (wq_writes q)" and "settled_promise q (wt_after (wq_writes q ! n))"
    and "i < n" and "wt_db (wq_writes q ! i) = wt_db (wq_writes q ! n)"
  shows "has_ended (wq_writes q ! i)"
proof -
  let ?W = "wq_writes q"
  have l: "last_write (wt_db (?W ! n)) ?W n (wt_after (?W ! n))" using queue_okD(2) [OF assms(1)] assms(2) by (simp add: chained_writes_def)
  show ?thesis
  proof (cases "wt_after (?W ! n)")
    case None
    then show ?thesis using l assms(4,5) by (simp add: last_write_def)
  next
    case (Some k)
    then have k: "k < n" "wt_db (?W ! k) = wt_db (?W ! n)" "wt_phase (?W ! k) = Passed"
      and between: "\<And>i. k < i \<Longrightarrow> i < n \<Longrightarrow> wt_db (?W ! i) \<noteq> wt_db (?W ! n)"
      using l assms(3) by (auto simp: last_write_def settled_promise_def)
    consider "i = k" | "i < k" | "k < i" by linarith
    then show ?thesis
    proof cases
      case 1
      then show ?thesis using k by (simp add: has_ended_def)
    next
      case 2
      then have "wt_phase (?W ! k) \<noteq> Waiting \<longrightarrow> has_ended (?W ! i)"
        using queue_okD(1) [OF assms(1)] k assms(2,5) unfolding ordered_writes_def by (metis order.strict_trans)
      then show ?thesis using k by simp
    next
      case 3
      then show ?thesis using between assms(4,5) by blast
    qed
  qed
qed

text \<open>At most one write of a database is under way.\<close>

lemma only_one_runs:
  assumes "queue_ok q" and "n < length (wq_writes q)" and "wt_phase (wq_writes q ! n) = Running"
    and "i < length (wq_writes q)" and "wt_phase (wq_writes q ! i) \<noteq> Waiting" and "wt_db (wq_writes q ! i) = wt_db (wq_writes q ! n)" and "i \<noteq> n"
  shows "i < n \<and> has_ended (wq_writes q ! i)"
proof -
  have o: "\<And>i j. j < length (wq_writes q) \<Longrightarrow> i < j \<Longrightarrow> wt_db (wq_writes q ! i) = wt_db (wq_writes q ! j) \<Longrightarrow>
      wt_phase (wq_writes q ! j) \<noteq> Waiting \<Longrightarrow> has_ended (wq_writes q ! i)"
    using queue_okD(1) [OF assms(1)] by (simp add: ordered_writes_def)
  have "\<not> n < i" using o [of i n] assms by (auto simp: has_ended_def)
  then show ?thesis using o [of n i] assms by auto
qed

lemma open_handle_frame: "open_handle m rid q = (q', h) \<Longrightarrow> wq_writes q' = wq_writes q \<and> wq_store q' = wq_store q \<and> wq_states q' = wq_states q"
  by (auto simp: open_handle_def split: option.splits)

lemma begin_write_run:
  assumes "wt_phase (wq_writes q ! n) = Waiting"
  shows "\<exists>x. wq_writes (begin_write m known n q) = (wq_writes q)[n := x] \<and> goes_on (wq_writes q ! n) x
     \<and> wt_phase x = Running \<and> wq_states (begin_write m known n q) = wq_states q
     \<and> wq_store (begin_write m known n q) = (let a = wt_state (wq_writes q ! n) in (wq_store q)[a := (wq_store q ! a)\<lparr>wr_active := True\<rparr>])"
proof (cases known)
  case True
  let ?x = "wq_writes q ! n"
  let ?q = "put_writer (wt_state ?x) ((wq_store q ! wt_state ?x)\<lparr>wr_active := True\<rparr>) q"
  obtain q' h where o: "open_handle m (wt_db ?x) ?q = (q', h)" by force
  then show ?thesis using True open_handle_frame [OF o]
    by (intro exI [of _ "?x\<lparr>wt_phase := Running, wt_handle := Some h\<rparr>"])
      (simp add: begin_write_def Let_def put_write_def put_writer_def goes_on_def has_ended_def assms)
next
  case False
  then show ?thesis
    by (intro exI [of _ "(wq_writes q ! n)\<lparr>wt_phase := Running\<rparr>"])
      (simp add: begin_write_def Let_def put_write_def put_writer_def goes_on_def has_ended_def assms)
qed

lemma queue_ok_begin:
  assumes ok: "queue_ok q" and n: "n < length (wq_writes q)" and w: "wt_phase (wq_writes q ! n) = Waiting"
    and settled: "settled_promise q (wt_after (wq_writes q ! n))"
  shows "queue_ok (begin_write m known n q)"
proof -
  let ?W = "wq_writes q" and ?q = "begin_write m known n q"
  let ?a = "wt_state (?W ! n)" and ?r = "wt_db (?W ! n)"
  obtain x where W: "wq_writes ?q = ?W[n := x]" and g: "goes_on (?W ! n) x" and x: "wt_phase x = Running"
    and M: "wq_states ?q = wq_states q" and S: "wq_store ?q = (wq_store q)[?a := (wq_store q ! ?a)\<lparr>wr_active := True\<rparr>]"
    using begin_write_run [OF w, of m known] by (auto simp: Let_def)
  have db: "wt_db x = ?r" using g by (simp add: goes_on_def)
  have not_ended: "\<not> has_ended (?W ! n)" "\<not> has_ended x" using w x by (simp_all add: has_ended_def)
  have a: "map_of (wq_states q) ?r = Some ?a" using queue_okD(5) [OF ok n not_ended(1)] .
  have counted: "counted_state (?W[n := x]) r v" if "counted_state ?W r v" "r \<noteq> ?r" for r v
  proof -
    have "(\<exists>i < length (?W[n := x]). wt_db (?W[n := x] ! i) = r \<and> wt_phase (?W[n := x] ! i) = Running)
        \<longleftrightarrow> (\<exists>i < length ?W. wt_db (?W ! i) = r \<and> wt_phase (?W ! i) = Running)"
      using that(2) db n by (auto simp: nth_phase)
    then show ?thesis using that last_write_goes_on [OF _ n _ g, of r "length ?W"] db n not_ended
      unfolding counted_state_def by (simp add: length_filter_same)
  qed
  have own: "counted_state (?W[n := x]) ?r (v\<lparr>wr_active := True\<rparr>)" if "counted_state ?W ?r v" for v
  proof -
    have "\<exists>i < length (?W[n := x]). wt_db (?W[n := x] ! i) = ?r \<and> wt_phase (?W[n := x] ! i) = Running"
      using n db x by (intro exI [of _ n]) simp
    then show ?thesis using that last_write_goes_on [OF _ n _ g, of ?r "length ?W"] db n not_ended
      unfolding counted_state_def by (simp add: length_filter_same)
  qed
  show ?thesis
  proof (rule queue_okI)
    show "ordered_writes (wq_writes ?q)" unfolding W
      by (rule ordered_goes_on [OF queue_okD(1) [OF ok] n g]) (use earlier_have_ended [OF ok n settled] in blast)
    show "chained_writes (wq_writes ?q)" unfolding W by (rule chained_goes_on [OF queue_okD(2) [OF ok] n g])
  next
    fix r c assume r: "map_of (wq_states ?q) r = Some c"
    then have c: "c < length (wq_store q)" "counted_state ?W r (wq_store q ! c)" using queue_okD(3,4) [OF ok, of r c] by (simp_all add: M)
    show "c < length (wq_store ?q) \<and> counted_state (wq_writes ?q) r (wq_store ?q ! c)"
    proof (cases "c = ?a")
      case True
      then have "r = ?r" using queue_okD(6) [OF ok, of r c ?r] r a by (simp add: M)
      then show ?thesis using c True own by (simp add: W S)
    next
      case False
      then have "r \<noteq> ?r" using r a by (auto simp: M)
      then show ?thesis using c False counted by (simp add: W S)
    qed
  next
    fix i assume "i < length (wq_writes ?q)" and "\<not> has_ended (wq_writes ?q ! i)"
    then show "map_of (wq_states ?q) (wt_db (wq_writes ?q ! i)) = Some (wt_state (wq_writes ?q ! i))"
      using queue_okD(5) [OF ok, of i] a g n by (auto simp: W M nth_phase goes_on_def split: if_splits)
  next
    fix r r' c assume "map_of (wq_states ?q) r = Some c" and "map_of (wq_states ?q) r' = Some c"
    then show "r = r'" using queue_okD(6) [OF ok] unfolding M by blast
  qed
qed

lemma end_write_run:
  assumes "wt_phase (wq_writes q ! n) = Running"
  shows "\<exists>x. wq_writes (end_write n q) = (wq_writes q)[n := x] \<and> goes_on (wq_writes q ! n) x \<and> wt_phase x = Finished
     \<and> (let r = wt_db (wq_writes q ! n); a = wt_state (wq_writes q ! n);
          w = (wq_store q ! a)\<lparr>wr_active := False, wr_pending := wr_pending (wq_store q ! a) - 1\<rparr> in
        wq_store (end_write n q) = (wq_store q)[a := w]
        \<and> wq_states (end_write n q) = (if wr_pending w = 0 \<and> map_of (wq_states q) r = Some a
            then filter (\<lambda>e. fst e \<noteq> r) (wq_states q) else wq_states q))"
  using assms by (intro exI [of _ "(wq_writes q ! n)\<lparr>wt_phase := Finished, wt_handle := None\<rparr>"])
    (simp add: end_write_def Let_def put_write_def put_writer_def goes_on_def has_ended_def)

lemma queue_ok_end:
  assumes ok: "queue_ok q" and n: "n < length (wq_writes q)" and w: "wt_phase (wq_writes q ! n) = Running"
  shows "queue_ok (end_write n q)"
proof -
  let ?W = "wq_writes q" and ?q = "end_write n q"
  let ?a = "wt_state (?W ! n)" and ?r = "wt_db (?W ! n)"
  let ?w = "(wq_store q ! ?a)\<lparr>wr_active := False, wr_pending := wr_pending (wq_store q ! ?a) - 1\<rparr>"
  obtain x where W: "wq_writes ?q = ?W[n := x]" and g: "goes_on (?W ! n) x" and x: "wt_phase x = Finished"
    and S: "wq_store ?q = (wq_store q)[?a := ?w]"
    and M: "wq_states ?q = (if wr_pending ?w = 0 \<and> map_of (wq_states q) ?r = Some ?a
      then filter (\<lambda>e. fst e \<noteq> ?r) (wq_states q) else wq_states q)"
    using end_write_run [OF w] by (auto simp: Let_def)
  have db: "wt_db x = ?r" using g by (simp add: goes_on_def)
  have ended: "\<not> has_ended (?W ! n)" "has_ended x" using w x by (simp_all add: has_ended_def)
  have a: "map_of (wq_states q) ?r = Some ?a" using queue_okD(5) [OF ok n ended(1)] .
  have aw: "?a < length (wq_store q)" "counted_state ?W ?r (wq_store q ! ?a)" using queue_okD(3,4) [OF ok a] by auto
  have counted: "counted_state (?W[n := x]) r v" if "counted_state ?W r v" "r \<noteq> ?r" for r v
  proof -
    have "(\<exists>i < length (?W[n := x]). wt_db (?W[n := x] ! i) = r \<and> wt_phase (?W[n := x] ! i) = Running)
        \<longleftrightarrow> (\<exists>i < length ?W. wt_db (?W ! i) = r \<and> wt_phase (?W ! i) = Running)"
      using that(2) db n by (auto simp: nth_phase)
    then show ?thesis using that last_write_goes_on [OF _ n _ g, of r "length ?W"] db n
      unfolding counted_state_def by (simp add: length_filter_same)
  qed
  have own: "counted_state (?W[n := x]) ?r ?w"
  proof -
    have "\<not> (\<exists>i < length (?W[n := x]). wt_db (?W[n := x] ! i) = ?r \<and> wt_phase (?W[n := x] ! i) = Running)"
    proof -
      have "wt_phase (?W ! i) \<noteq> Running" if "i < length ?W" "wt_db (?W ! i) = ?r" "i \<noteq> n" for i
        using only_one_runs [OF ok n w that(1) _ that(2,3)] by (auto simp: has_ended_def)
      then show ?thesis using x n by (auto simp: nth_phase)
    qed
    moreover have "int (length (unended ?r (?W[n := x]))) = int (length (unended ?r ?W)) - 1"
      using n ended db by (intro length_filter_less) auto
    ultimately show ?thesis using aw(2) last_write_goes_on [OF _ n _ g, of ?r "length ?W"]
      by (simp add: counted_state_def)
  qed
  have M_Some: "map_of (wq_states q) r = Some c \<and> \<not> (r = ?r \<and> wr_pending ?w = 0)" if "map_of (wq_states ?q) r = Some c" for r c
    using that a by (auto simp: M map_of_filter_key split: if_splits)
  show ?thesis
  proof (rule queue_okI)
    show "ordered_writes (wq_writes ?q)" unfolding W
    proof (rule ordered_goes_on [OF queue_okD(1) [OF ok] n g])
      show "\<forall>i < n. wt_db (?W ! i) = ?r \<longrightarrow> has_ended (?W ! i)"
        using queue_okD(1) [OF ok] n w by (auto simp: ordered_writes_def)
    qed
    show "chained_writes (wq_writes ?q)" unfolding W by (rule chained_goes_on [OF queue_okD(2) [OF ok] n g])
  next
    fix r c assume "map_of (wq_states ?q) r = Some c"
    then have r: "map_of (wq_states q) r = Some c" using M_Some by blast
    then have c: "c < length (wq_store q)" "counted_state ?W r (wq_store q ! c)" using queue_okD(3,4) [OF ok, of r c] by simp_all
    show "c < length (wq_store ?q) \<and> counted_state (wq_writes ?q) r (wq_store ?q ! c)"
    proof (cases "c = ?a")
      case True
      then have "r = ?r" using queue_okD(6) [OF ok, of r c ?r] r a by simp
      then show ?thesis using True own aw(1) by (simp add: W S)
    next
      case False
      then have "r \<noteq> ?r" using r a by auto
      then show ?thesis using c False counted by (simp add: W S)
    qed
  next
    fix i assume i: "i < length (wq_writes ?q)" and u: "\<not> has_ended (wq_writes ?q ! i)"
    then have u': "i \<noteq> n" "\<not> has_ended (?W ! i)" "i < length ?W" "wq_writes ?q ! i = ?W ! i"
      using ended n by (auto simp: W nth_phase split: if_splits)
    have m: "map_of (wq_states q) (wt_db (?W ! i)) = Some (wt_state (?W ! i))" using queue_okD(5) [OF ok u'(3,2)] .
    have "wt_db (?W ! i) \<noteq> ?r" if "wr_pending ?w = 0"
    proof
      assume "wt_db (?W ! i) = ?r"
      have "unended ?r (?W[n := x]) = []" using own that by (simp add: counted_state_def)
      then have "\<forall>m < length (?W[n := x]). wt_db (?W[n := x] ! m) = ?r \<longrightarrow> has_ended (?W[n := x] ! m)" by (simp only: unended_none)
      then have "has_ended (?W ! i)" using u' \<open>wt_db (?W ! i) = ?r\<close> by (metis W i nth_list_update_neq)
      then show False using u'(2) by simp
    qed
    then show "map_of (wq_states ?q) (wt_db (wq_writes ?q ! i)) = Some (wt_state (wq_writes ?q ! i))"
      using m unfolding u'(4) M by (auto simp: map_of_filter_key)
  next
    fix r r' c assume "map_of (wq_states ?q) r = Some c" and "map_of (wq_states ?q) r' = Some c"
    then show "r = r'" using M_Some queue_okD(6) [OF ok] by blast
  qed
qed

lemma queue_ok_pass:
  assumes ok: "queue_ok q" and n: "n < length (wq_writes q)" and w: "wt_phase (wq_writes q ! n) = Finished"
  shows "queue_ok (pass_on n q)"
proof -
  let ?W = "wq_writes q" and ?x = "(wq_writes q ! n)\<lparr>wt_phase := Passed\<rparr>"
  have q: "wq_writes (pass_on n q) = ?W[n := ?x]" "wq_store (pass_on n q) = wq_store q" "wq_states (pass_on n q) = wq_states q"
    by (simp_all add: pass_on_def put_write_def)
  have g: "goes_on (?W ! n) ?x" by (simp add: goes_on_def has_ended_def)
  have e: "has_ended (?W ! n)" "has_ended ?x" using w by (simp_all add: has_ended_def)
  have counted: "counted_state (?W[n := ?x]) r v" if "counted_state ?W r v" for r v
  proof -
    have "(\<exists>i < length (?W[n := ?x]). wt_db (?W[n := ?x] ! i) = r \<and> wt_phase (?W[n := ?x] ! i) = Running)
        \<longleftrightarrow> (\<exists>i < length ?W. wt_db (?W ! i) = r \<and> wt_phase (?W ! i) = Running)"
    proof -
      have "(wt_db (?W[n := ?x] ! i) = r \<and> wt_phase (?W[n := ?x] ! i) = Running)
          \<longleftrightarrow> (wt_db (?W ! i) = r \<and> wt_phase (?W ! i) = Running)" for i
        using n w by (cases "i = n") simp_all
      then show ?thesis by simp
    qed
    then show ?thesis using that last_write_goes_on [OF _ n _ g, of r "length ?W"] n e
      unfolding counted_state_def by (simp add: length_filter_same)
  qed
  show ?thesis
  proof (rule queue_okI)
    show "ordered_writes (wq_writes (pass_on n q))" unfolding q
    proof (rule ordered_goes_on [OF queue_okD(1) [OF ok] n g])
      show "\<forall>i < n. wt_db (?W ! i) = wt_db (?W ! n) \<longrightarrow> has_ended (?W ! i)"
        using queue_okD(1) [OF ok] n w by (auto simp: ordered_writes_def)
    qed
    show "chained_writes (wq_writes (pass_on n q))" unfolding q by (rule chained_goes_on [OF queue_okD(2) [OF ok] n g])
  next
    fix r c assume "map_of (wq_states (pass_on n q)) r = Some c"
    then show "c < length (wq_store (pass_on n q)) \<and> counted_state (wq_writes (pass_on n q)) r (wq_store (pass_on n q) ! c)"
      using queue_okD(3,4) [OF ok, of r c] counted by (simp add: q)
  next
    fix i assume "i < length (wq_writes (pass_on n q))" and "\<not> has_ended (wq_writes (pass_on n q) ! i)"
    then show "map_of (wq_states (pass_on n q)) (wt_db (wq_writes (pass_on n q) ! i)) = Some (wt_state (wq_writes (pass_on n q) ! i))"
      using queue_okD(5) [OF ok, of i] e n by (auto simp: q nth_phase split: if_splits)
  next
    fix r r' c assume "map_of (wq_states (pass_on n q)) r = Some c" and "map_of (wq_states (pass_on n q)) r' = Some c"
    then show "r = r'" using queue_okD(6) [OF ok] unfolding q by blast
  qed
qed

lemma queue_ok_frame:
  "wq_writes q' = wq_writes q \<Longrightarrow> wq_store q' = wq_store q \<Longrightarrow> wq_states q' = wq_states q \<Longrightarrow> queue_ok q' = queue_ok q"
  by (simp add: queue_ok_def)

lemma handles_frame:
  "wq_writes (use_handle m rid q) = wq_writes q" "wq_store (use_handle m rid q) = wq_store q" "wq_states (use_handle m rid q) = wq_states q"
  "wq_writes (close_handle rid q) = wq_writes q" "wq_store (close_handle rid q) = wq_store q" "wq_states (close_handle rid q) = wq_states q"
  by (simp_all add: use_handle_def close_handle_def open_handle_def split: option.split)

lemma queue_run_ok: "queue_run m k q tr \<Longrightarrow> queue_ok q"
proof (induction rule: queue_run.induct)
  case fresh
  then show ?case by (intro queue_okI) (simp_all add: empty_queue_def ordered_writes_def chained_writes_def)
next
  case (enqueued q tr rid t q' ok)
  show ?case by (rule conjunct1 [OF queue_ok_enqueue [OF enqueued.IH enqueued.hyps(2)]])
next
  case (began q tr n x known)
  then show ?case by (auto intro: queue_ok_begin)
next
  case (ended q tr n x)
  then show ?case by (auto intro: queue_ok_end)
next
  case (passed q tr n)
  then show ?case by (intro queue_ok_pass)
next
  case (used q tr rid)
  then show ?case by (simp add: queue_ok_frame [OF handles_frame(1-3)])
next
  case (closed q tr rid)
  then show ?case by (simp add: queue_ok_frame [OF handles_frame(4-6)])
qed

subsection \<open>What a run has done\<close>

definition recorded :: "'w WriterQueue \<Rightarrow> string \<Rightarrow> 'w queue_event list \<Rightarrow> bool" where
  "recorded q rid tr \<longleftrightarrow> accepted rid tr = map wt_task (writes_of rid (wq_writes q))
     \<and> began_writes rid tr = map wt_task (filter (\<lambda>x. wt_db x = rid \<and> wt_phase x \<noteq> Waiting) (wq_writes q))
     \<and> ended_writes rid tr = map wt_task (filter (\<lambda>x. wt_db x = rid \<and> has_ended x) (wq_writes q))"

lemma recorded_begin:
  assumes ok: "queue_ok q" and n: "n < length (wq_writes q)" and w: "wt_phase (wq_writes q ! n) = Waiting"
    and rec: "recorded q rid tr"
  shows "recorded (begin_write m known n q) rid (tr @ [Began (wt_db (wq_writes q ! n)) (wt_task (wq_writes q ! n))])"
proof -
  let ?W = "wq_writes q"
  obtain x where W: "wq_writes (begin_write m known n q) = ?W[n := x]" and g: "goes_on (?W ! n) x" and x: "wt_phase x = Running"
    using begin_write_run [OF w, of m known] by (auto simp: Let_def)
  have later: "wt_phase (?W ! j) = Waiting" if "n < j" "j < length ?W" "wt_db (?W ! j) = wt_db (?W ! n)" for j
  proof (rule ccontr)
    assume "wt_phase (?W ! j) \<noteq> Waiting"
    then have "has_ended (?W ! n)" using queue_okD(1) [OF ok] that by (simp add: ordered_writes_def)
    then show False using w by (simp add: has_ended_def)
  qed
  have same: "map wt_task (writes_of rid (?W[n := x])) = map wt_task (writes_of rid ?W)"
    "map wt_task (filter (\<lambda>y. wt_db y = rid \<and> has_ended y) (?W[n := x])) = map wt_task (filter (\<lambda>y. wt_db y = rid \<and> has_ended y) ?W)"
    using n g w x by (intro map_filter_same; simp add: goes_on_def has_ended_def)+
  show ?thesis
  proof (cases "wt_db (?W ! n) = rid")
    case True
    then have "filter (\<lambda>y. wt_db y = rid \<and> wt_phase y \<noteq> Waiting) (?W[n := x]) = filter (\<lambda>y. wt_db y = rid \<and> wt_phase y \<noteq> Waiting) ?W @ [x]"
      using n g w x later by (intro filter_end) (auto simp: goes_on_def)
    then show ?thesis using rec True same g by (simp add: recorded_def W goes_on_def)
  next
    case False
    then have "map wt_task (filter (\<lambda>y. wt_db y = rid \<and> wt_phase y \<noteq> Waiting) (?W[n := x]))
        = map wt_task (filter (\<lambda>y. wt_db y = rid \<and> wt_phase y \<noteq> Waiting) ?W)"
      using n g by (intro map_filter_same) (auto simp: goes_on_def)
    then show ?thesis using rec False same by (simp add: recorded_def W)
  qed
qed

lemma recorded_end:
  assumes ok: "queue_ok q" and n: "n < length (wq_writes q)" and w: "wt_phase (wq_writes q ! n) = Running"
    and rec: "recorded q rid tr"
  shows "recorded (end_write n q) rid (tr @ [Ended (wt_db (wq_writes q ! n)) (wt_task (wq_writes q ! n))])"
proof -
  let ?W = "wq_writes q"
  obtain x where W: "wq_writes (end_write n q) = ?W[n := x]" and g: "goes_on (?W ! n) x" and x: "wt_phase x = Finished"
    using end_write_run [OF w] by (auto simp: Let_def)
  have later: "\<not> has_ended (?W ! j)" if "n < j" "j < length ?W" "wt_db (?W ! j) = wt_db (?W ! n)" for j
    using only_one_runs [OF ok n w that(2) _ that(3)] that(1) by (auto simp: has_ended_def)
  have same: "map wt_task (writes_of rid (?W[n := x])) = map wt_task (writes_of rid ?W)"
    "map wt_task (filter (\<lambda>y. wt_db y = rid \<and> wt_phase y \<noteq> Waiting) (?W[n := x]))
       = map wt_task (filter (\<lambda>y. wt_db y = rid \<and> wt_phase y \<noteq> Waiting) ?W)"
    using n g w x by (intro map_filter_same; simp add: goes_on_def)+
  show ?thesis
  proof (cases "wt_db (?W ! n) = rid")
    case True
    then have "filter (\<lambda>y. wt_db y = rid \<and> has_ended y) (?W[n := x]) = filter (\<lambda>y. wt_db y = rid \<and> has_ended y) ?W @ [x]"
      using n g w x later by (intro filter_end) (auto simp: goes_on_def has_ended_def)
    then show ?thesis using rec True same g by (simp add: recorded_def W goes_on_def)
  next
    case False
    then have "map wt_task (filter (\<lambda>y. wt_db y = rid \<and> has_ended y) (?W[n := x]))
        = map wt_task (filter (\<lambda>y. wt_db y = rid \<and> has_ended y) ?W)"
      using n g by (intro map_filter_same) (auto simp: goes_on_def)
    then show ?thesis using rec False same by (simp add: recorded_def W)
  qed
qed

lemma recorded_frame: "wq_writes q' = wq_writes q \<Longrightarrow> recorded q' rid tr = recorded q rid tr"
  by (simp add: recorded_def)

lemma queue_run_recorded: "queue_run m k q tr \<Longrightarrow> recorded q rid tr"
proof (induction rule: queue_run.induct)
  case fresh
  then show ?case by (simp add: recorded_def empty_queue_def)
next
  case (enqueued q tr rid' t q' ok)
  have "if ok then \<exists>x. wq_writes q' = wq_writes q @ [x] \<and> wt_db x = rid' \<and> wt_task x = t \<and> wt_phase x = Waiting
      else wq_writes q' = wq_writes q"
    using queue_ok_enqueue [OF queue_run_ok [OF enqueued.hyps(1)] enqueued.hyps(2)] by (auto split: if_splits)
  then show ?case using enqueued.IH by (auto simp: recorded_def has_ended_def split: if_splits)
next
  case (began q tr n x known)
  then show ?case using recorded_begin queue_run_ok by blast
next
  case (ended q tr n x)
  then show ?case using recorded_end queue_run_ok by blast
next
  case (passed q tr n)
  let ?x = "(wq_writes q ! n)\<lparr>wt_phase := Passed\<rparr>"
  have "wq_writes (pass_on n q) = (wq_writes q)[n := ?x]" by (simp add: pass_on_def put_write_def)
  moreover have "map wt_task (filter (\<lambda>y. wt_db y = rid \<and> P (wt_phase y)) ((wq_writes q)[n := ?x]))
      = map wt_task (filter (\<lambda>y. wt_db y = rid \<and> P (wt_phase y)) (wq_writes q))" if "P Passed = P Finished" for P
    using passed.hyps that by (intro map_filter_same) auto
  from this [of "\<lambda>_. True"] this [of "\<lambda>p. p \<noteq> Waiting"] this [of "\<lambda>p. p = Finished \<or> p = Passed"]
  have "map wt_task (writes_of rid ((wq_writes q)[n := ?x])) = map wt_task (writes_of rid (wq_writes q))"
    "map wt_task (filter (\<lambda>y. wt_db y = rid \<and> wt_phase y \<noteq> Waiting) ((wq_writes q)[n := ?x]))
      = map wt_task (filter (\<lambda>y. wt_db y = rid \<and> wt_phase y \<noteq> Waiting) (wq_writes q))"
    "map wt_task (filter (\<lambda>y. wt_db y = rid \<and> has_ended y) ((wq_writes q)[n := ?x]))
      = map wt_task (filter (\<lambda>y. wt_db y = rid \<and> has_ended y) (wq_writes q))" by (simp_all add: has_ended_def)
  ultimately show ?case using passed.IH by (simp add: recorded_def)
qed (simp_all add: recorded_frame [OF handles_frame(1)] recorded_frame [OF handles_frame(4)])
text \<open>A write is turned away only when the queue of its database is full.\<close>

definition refused_when_full :: "int \<Rightarrow> string \<Rightarrow> 'w queue_event list \<Rightarrow> bool" where
  "refused_when_full maxPending rid tr \<longleftrightarrow> (\<forall>before t rest. tr = before @ Turned_away rid t # rest \<longrightarrow>
     int (length (accepted rid before)) = int (length (ended_writes rid before)) + maxPending)"

lemma refused_snoc:
  assumes "refused_when_full m rid tr"
    and "\<And>t. e = Turned_away rid t \<Longrightarrow> int (length (accepted rid tr)) = int (length (ended_writes rid tr)) + m"
  shows "refused_when_full m rid (tr @ [e])"
  unfolding refused_when_full_def
proof (intro allI impI)
  fix before t rest
  assume split: "tr @ [e] = before @ Turned_away rid t # rest"
  show "int (length (accepted rid before)) = int (length (ended_writes rid before)) + m"
  proof (cases rest rule: rev_cases)
    case Nil
    with split assms(2) show ?thesis by simp
  next
    case (snoc rest' e')
    with split have "tr = before @ Turned_away rid t # rest'" by simp
    with assms(1) show ?thesis unfolding refused_when_full_def by blast
  qed
qed

lemma unended_bounded:
  assumes "queue_run m k q tr" and "0 < m" shows "int (length (unended rid (wq_writes q))) \<le> m"
  using assms(1)
proof (induction rule: queue_run.induct)
  case fresh
  then show ?case using assms(2) by (simp add: empty_queue_def)
next
  case (enqueued q tr rid' t q' ok)
  then show ?case
    using queue_ok_enqueue [OF queue_run_ok [OF enqueued.hyps(1)] enqueued.hyps(2)] by (auto split: if_splits)
next
  case (began q tr n x known)
  then obtain y where y: "wq_writes (begin_write k known n q) = (wq_writes q)[n := y]" "goes_on (wq_writes q ! n) y"
    "wt_phase y = Running" using begin_write_run [of q n k known] by auto
  then have "length (unended rid ((wq_writes q)[n := y])) = length (unended rid (wq_writes q))"
    using began.hyps by (intro length_filter_same) (auto simp: goes_on_def has_ended_def)
  then show ?case using began.IH y(1) by simp
next
  case (ended q tr n x)
  then obtain y where y: "wq_writes (end_write n q) = (wq_writes q)[n := y]" "goes_on (wq_writes q ! n) y"
    "wt_phase y = Finished" using end_write_run [of q n] by (auto simp: Let_def)
  show ?case
  proof (cases "wt_db x = rid")
    case True
    then have "int (length (unended rid ((wq_writes q)[n := y]))) = int (length (unended rid (wq_writes q))) - 1"
      using ended.hyps y by (intro length_filter_less) (auto simp: has_ended_def)
    then show ?thesis using ended.IH y(1) by simp
  next
    case False
    then have "length (unended rid ((wq_writes q)[n := y])) = length (unended rid (wq_writes q))"
      using ended.hyps y by (intro length_filter_same) (auto simp: goes_on_def)
    then show ?thesis using ended.IH y(1) by simp
  qed
next
  case (passed q tr n)
  then have "length (unended rid ((wq_writes q)[n := (wq_writes q ! n)\<lparr>wt_phase := Passed\<rparr>])) = length (unended rid (wq_writes q))"
    by (intro length_filter_same) (auto simp: has_ended_def)
  then show ?case using passed.IH by (simp add: pass_on_def put_write_def)
qed (simp_all add: handles_frame)

lemma accepted_unended:
  assumes "recorded q rid tr"
  shows "length (accepted rid tr) = length (ended_writes rid tr) + length (unended rid (wq_writes q))"
proof -
  have "length (writes_of rid W) = length (filter (\<lambda>x. wt_db x = rid \<and> has_ended x) W) + length (unended rid W)" for W :: "'a Write list"
    by (induction W) auto
  then show ?thesis using assms by (simp add: recorded_def)
qed

lemma refused_run:
  assumes "queue_run m k q tr" and "0 < m" shows "refused_when_full m rid tr"
  using assms(1)
proof (induction rule: queue_run.induct)
  case (enqueued q tr rid' t q' ok)
  have "length (accepted rid tr) = length (ended_writes rid tr) + length (unended rid (wq_writes q))"
    by (rule accepted_unended [OF queue_run_recorded [OF enqueued.hyps(1)]])
  moreover have "int (length (unended rid (wq_writes q))) \<le> m" by (rule unended_bounded [OF enqueued.hyps(1) assms(2)])
  moreover have "\<not> ok \<Longrightarrow> m \<le> int (length (unended rid' (wq_writes q)))"
    using queue_ok_enqueue [OF queue_run_ok [OF enqueued.hyps(1)] enqueued.hyps(2)] by simp
  ultimately show ?case using enqueued.IH by (intro refused_snoc) (auto split: if_splits)
next
  case (began q tr n x known)
  then show ?case by (intro refused_snoc) simp_all
next
  case (ended q tr n x)
  then show ?case by (intro refused_snoc) simp_all
qed (simp_all add: refused_when_full_def)

text \<open>The writes of one database, in the order they were accepted: those that have ended, one that runs, those that wait.\<close>

lemma line_of_writes:
  assumes "sorted_wrt (\<lambda>x y. wt_phase y \<noteq> Waiting \<longrightarrow> has_ended x) L"
  shows "L = filter has_ended L @ filter (\<lambda>x. wt_phase x = Running) L @ filter (\<lambda>x. wt_phase x = Waiting) L
     \<and> filter (\<lambda>x. wt_phase x \<noteq> Waiting) L = filter has_ended L @ filter (\<lambda>x. wt_phase x = Running) L
     \<and> length (filter (\<lambda>x. wt_phase x = Running) L) \<le> 1"
  using assms
proof (induction L)
  case (Cons x L)
  show ?case
  proof (cases "has_ended x")
    case True
    then show ?thesis using Cons by (auto simp: has_ended_def)
  next
    case False
    then have "\<forall>y \<in> set L. wt_phase y = Waiting" using Cons.prems by auto
    then have "filter has_ended L = []" "filter (\<lambda>x. wt_phase x = Running) L = []" "filter (\<lambda>x. wt_phase x \<noteq> Waiting) L = []"
      "filter (\<lambda>x. wt_phase x = Waiting) L = L"
      by (auto simp: filter_empty_conv filter_id_conv has_ended_def)
    moreover have "wt_phase x = Running \<or> wt_phase x = Waiting" using False by (cases "wt_phase x") (simp_all add: has_ended_def)
    ultimately show ?thesis using False by auto
  qed
qed simp

lemma writes_line_up:
  assumes "queue_ok q"
  shows "sorted_wrt (\<lambda>x y. wt_phase y \<noteq> Waiting \<longrightarrow> has_ended x) (writes_of rid (wq_writes q))"
proof -
  have "sorted_wrt (\<lambda>x y. wt_db x = wt_db y \<longrightarrow> wt_phase y \<noteq> Waiting \<longrightarrow> has_ended x) (wq_writes q)"
    using queue_okD(1) [OF assms] by (simp add: sorted_wrt_iff_nth_less ordered_writes_def)
  then have "sorted_wrt (\<lambda>x y. wt_db x = wt_db y \<longrightarrow> wt_phase y \<noteq> Waiting \<longrightarrow> has_ended x) (writes_of rid (wq_writes q))"
    by (rule sorted_wrt_filter)
  then show ?thesis by (rule sorted_wrt_mono_rel [rotated]) auto
qed

text \<open>The first of the waiting writes can begin once none runs, if need be after the promise before it has passed on.\<close>

lemma next_write_begins:
  assumes run: "queue_run m k q tr" and none: "filter (\<lambda>x. wt_db x = rid \<and> wt_phase x = Running) (wq_writes q) = []"
    and waits: "filter (\<lambda>x. wt_db x = rid \<and> wt_phase x = Waiting) (wq_writes q) = y # ys"
  shows "\<exists>q'. queue_run m k q' (tr @ [Began rid (wt_task y)])"
proof -
  let ?W = "wq_writes q"
  obtain us vs where W: "?W = us @ y # vs" and us: "\<forall>u \<in> set us. \<not> (wt_db u = rid \<and> wt_phase u = Waiting)"
    and y: "wt_db y = rid" "wt_phase y = Waiting" using waits by (auto simp: filter_eq_Cons_iff)
  let ?n = "length us"
  have n: "?n < length ?W" "?W ! ?n = y" using W by simp_all
  have ended: "has_ended (?W ! i)" if "i < ?n" "wt_db (?W ! i) = rid" for i
  proof -
    have "?W ! i \<in> set us" using that(1) W by (simp add: nth_append)
    then have "wt_phase (?W ! i) \<noteq> Waiting" using us that(2) by blast
    moreover have "?W ! i \<in> set ?W" using that n(1) by (intro nth_mem) simp
    then have "wt_phase (?W ! i) \<noteq> Running" using none that(2) by (auto simp: filter_empty_conv)
    ultimately show ?thesis by (cases "wt_phase (?W ! i)") (simp_all add: has_ended_def)
  qed
  have l: "last_write rid ?W ?n (wt_after y)"
    using queue_okD(2) [OF queue_run_ok [OF run]] n y by (auto simp: chained_writes_def)
  have begins: "\<exists>q'. queue_run m k q' (tr @ [Began rid (wt_task y)])"
    if "queue_run m k q0 tr" "?n < length (wq_writes q0)" "wq_writes q0 ! ?n = y" "settled_promise q0 (wt_after y)" for q0
    using queue_run.began [OF that(1,2) that(3) [symmetric] y(2) that(4), of True] y(1) by auto
  show ?thesis
  proof (cases "settled_promise q (wt_after y)")
    case True
    then show ?thesis using begins [OF run n] by blast
  next
    case False
    then obtain j where j: "wt_after y = Some j" "wt_phase (?W ! j) \<noteq> Passed" by (auto simp: settled_promise_def split: option.splits)
    then have j': "j < ?n" "wt_db (?W ! j) = rid" using l by (auto simp: last_write_def)
    then have "wt_phase (?W ! j) = Finished" using ended j(2) by (auto simp: has_ended_def)
    then have "queue_run m k (pass_on j q) tr" using run j' n(1) by (intro queue_run.passed) auto
    then show ?thesis
      by (rule begins) (use j j' n in \<open>auto simp: pass_on_def put_write_def settled_promise_def\<close>)
  qed
qed

text \<open>
  C23. The writes of a database take turns, because each is chained to the promise of the one before: whatever
  other databases do, they begin one at a time, in the order they were accepted, each only after the one
  before has ended, and when none runs the first that waits can begin. At most the configured number is
  pending, and a write is turned away only when that many are.
\<close>

theorem writes_take_turns:
  assumes "queue_run maxPending maxOpen q tr" and "0 < maxPending"
  shows "\<exists>running waiting. accepted rid tr = ended_writes rid tr @ running @ waiting
     \<and> began_writes rid tr = ended_writes rid tr @ running \<and> length running \<le> 1
     \<and> int (length running + length waiting) \<le> maxPending \<and> refused_when_full maxPending rid tr
     \<and> (running = [] \<longrightarrow> waiting \<noteq> [] \<longrightarrow> (\<exists>q'. queue_run maxPending maxOpen q' (tr @ [Began rid (hd waiting)])))
     \<and> (case map_of (wq_states q) rid of None \<Rightarrow> running = [] \<and> waiting = []
        | Some a \<Rightarrow> wr_active (wq_store q ! a) = (running \<noteq> []) \<and> wr_pending (wq_store q ! a) = int (length running + length waiting))"
proof -
  let ?W = "wq_writes q" and ?L = "writes_of rid (wq_writes q)"
  let ?running = "filter (\<lambda>x. wt_phase x = Running) ?L" and ?waiting = "filter (\<lambda>x. wt_phase x = Waiting) ?L"
  have ok: "queue_ok q" by (rule queue_run_ok [OF assms(1)])
  note line = line_of_writes [OF writes_line_up [OF ok, of rid]]
  have rec: "recorded q rid tr" by (rule queue_run_recorded [OF assms(1)])
  have u: "length (unended rid ?W) = length ?running + length ?waiting"
  proof -
    have "length (unended rid W) = length (filter (\<lambda>x. wt_phase x = Running) (writes_of rid W))
        + length (filter (\<lambda>x. wt_phase x = Waiting) (writes_of rid W))" for W :: "'a Write list"
      by (induction W) (auto simp: has_ended_def, (metis write_phase.exhaust)+)
    then show ?thesis .
  qed
  have ended: "ended_writes rid tr = map wt_task (filter has_ended ?L)" using rec by (simp add: recorded_def conj_commute)
  have 1: "accepted rid tr = ended_writes rid tr @ map wt_task ?running @ map wt_task ?waiting"
    using rec arg_cong [OF conjunct1 [OF line], of "map wt_task"] unfolding ended by (simp add: recorded_def)
  have 2: "began_writes rid tr = ended_writes rid tr @ map wt_task ?running"
    using rec arg_cong [OF conjunct1 [OF conjunct2 [OF line]], of "map wt_task"] unfolding ended
    by (simp add: recorded_def conj_commute)
  have 3: "?running = [] \<longrightarrow> ?waiting \<noteq> [] \<longrightarrow> (\<exists>q'. queue_run maxPending maxOpen q' (tr @ [Began rid (hd (map wt_task ?waiting))]))"
    using next_write_begins [OF assms(1), of rid] by (cases ?waiting) (auto simp: conj_commute)
  have 4: "case map_of (wq_states q) rid of None \<Rightarrow> ?running = [] \<and> ?waiting = []
      | Some a \<Rightarrow> wr_active (wq_store q ! a) = (?running \<noteq> []) \<and> wr_pending (wq_store q ! a) = int (length ?running + length ?waiting)"
  proof (cases "map_of (wq_states q) rid")
    case None
    then have "unended rid ?W = []" using queue_okD(5) [OF ok] unfolding unended_none by fastforce
    then show ?thesis using u None by simp
  next
    case (Some a)
    then have "counted_state ?W rid (wq_store q ! a)" by (rule queue_okD(4) [OF ok])
    moreover have "?running \<noteq> [] \<longleftrightarrow> (\<exists>n < length ?W. wt_db (?W ! n) = rid \<and> wt_phase (?W ! n) = Running)"
    proof -
      have "?running \<noteq> [] \<longleftrightarrow> (\<exists>x \<in> set ?W. wt_db x = rid \<and> wt_phase x = Running)" by (auto simp: filter_empty_conv)
      also have "\<dots> \<longleftrightarrow> (\<exists>n < length ?W. wt_db (?W ! n) = rid \<and> wt_phase (?W ! n) = Running)" unfolding set_conv_nth by blast
      finally show ?thesis .
    qed
    ultimately show ?thesis using Some u by (simp add: counted_state_def)
  qed
  show ?thesis
  proof (intro exI conjI)
    show "accepted rid tr = ended_writes rid tr @ map wt_task ?running @ map wt_task ?waiting" by (rule 1)
    show "began_writes rid tr = ended_writes rid tr @ map wt_task ?running" by (rule 2)
    show "length (map wt_task ?running) \<le> 1" unfolding length_map by (rule conjunct2 [OF conjunct2 [OF line]])
    show "int (length (map wt_task ?running) + length (map wt_task ?waiting)) \<le> maxPending"
      using unended_bounded [OF assms, of rid] u by simp
    show "refused_when_full maxPending rid tr" by (rule refused_run [OF assms])
    show "map wt_task ?running = [] \<longrightarrow> map wt_task ?waiting \<noteq> []
        \<longrightarrow> (\<exists>q'. queue_run maxPending maxOpen q' (tr @ [Began rid (hd (map wt_task ?waiting))]))"
      using 3 by (simp only: list.map_disc_iff)
    show "case map_of (wq_states q) rid of None \<Rightarrow> map wt_task ?running = [] \<and> map wt_task ?waiting = []
        | Some a \<Rightarrow> wr_active (wq_store q ! a) = (map wt_task ?running \<noteq> [])
            \<and> wr_pending (wq_store q ! a) = int (length (map wt_task ?running) + length (map wt_task ?waiting))"
      using 4 by (simp only: list.map_disc_iff length_map)
  qed
qed

text \<open>A queue of two places, with one handle: a and b write, c waits for a, d is turned away.\<close>

definition ex_enqueue :: "string \<Rightarrow> string \<Rightarrow> string WriterQueue \<Rightarrow> string WriterQueue" where
  "ex_enqueue rid t q = fst (enqueue_write 2 rid t q)"

definition ex_queue :: "string WriterQueue" where
  "ex_queue = ex_enqueue ''a'' ''four'' (begin_write 1 True 2 (ex_enqueue ''b'' ''three'' (ex_enqueue ''a'' ''two''
     (begin_write 1 True 0 (ex_enqueue ''a'' ''one'' empty_queue)))))"

definition ex_queue_events :: "string queue_event list" where
  "ex_queue_events = [Accepted ''a'' ''one'', Began ''a'' ''one'', Accepted ''a'' ''two'', Accepted ''b'' ''three'',
     Began ''b'' ''three'', Turned_away ''a'' ''four'']"

lemma ex_enqueued:
  assumes "queue_run 2 1 q tr" and "snd (enqueue_write 2 rid t q)"
  shows "queue_run 2 1 (ex_enqueue rid t q) (tr @ [Accepted rid t])"
  using queue_run.enqueued [OF assms(1), of rid t] assms(2) by (simp add: ex_enqueue_def prod_eq_iff)

lemma ex_refused:
  assumes "queue_run 2 1 q tr" and "\<not> snd (enqueue_write 2 rid t q)"
  shows "queue_run 2 1 (ex_enqueue rid t q) (tr @ [Turned_away rid t])"
  using queue_run.enqueued [OF assms(1), of rid t] assms(2) by (simp add: ex_enqueue_def prod_eq_iff)

lemma ex_began:
  assumes "queue_run 2 1 q tr" and "n < length (wq_writes q) \<and> wt_db (wq_writes q ! n) = rid \<and> wt_task (wq_writes q ! n) = t
    \<and> wt_phase (wq_writes q ! n) = Waiting \<and> settled_promise q (wt_after (wq_writes q ! n))"
  shows "queue_run 2 1 (begin_write 1 True n q) (tr @ [Began rid t])"
  using queue_run.began [OF assms(1), of n "wq_writes q ! n" True] assms(2) by simp

lemma ex_queue_run: "queue_run 2 1 ex_queue ex_queue_events"
proof -
  have "queue_run 2 1 ex_queue ((((([] @ [Accepted ''a'' ''one'']) @ [Began ''a'' ''one'']) @ [Accepted ''a'' ''two''])
      @ [Accepted ''b'' ''three'']) @ [Began ''b'' ''three''] @ [Turned_away ''a'' ''four''])"
    unfolding ex_queue_def append_assoc [symmetric]
  proof (intro ex_refused ex_began ex_enqueued queue_run.fresh)
  qed code_simp+
  then show ?thesis by (simp add: ex_queue_events_def)
qed

theorem writes_take_turns_witness:
  "began_writes ''a'' ex_queue_events = [''one''] \<and> accepted ''a'' ex_queue_events = [''one'', ''two'']
   \<and> refused_when_full 2 ''a'' ex_queue_events"
  using writes_take_turns [OF ex_queue_run, of "''a''"] by (simp add: ex_queue_events_def)

text \<open>
  The pool does not know which handles are in use: in this run a write of a is under way, its handle is the
  one it opened, and the pool has closed it to open the database b.
\<close>

lemma handle_of_a_running_write_is_closed:
  "queue_run 2 1 ex_queue ex_queue_events \<and> wt_phase (wq_writes ex_queue ! 0) = Running
   \<and> wt_handle (wq_writes ex_queue ! 0) = Some 0 \<and> 0 \<notin> snd ` set (wq_pool ex_queue)"
  by (intro conjI ex_queue_run) code_simp+

end
