(* ===== verification/VolumeLaws.thy ===== *)
theory VolumeLaws
  imports VolumeSqlite
begin

text \<open>
  What the registry of \<open>VolumeSqlite\<close> keeps: an invariant of its state, and what a run of the operations
  that open a database does to the contents of this and of every other database.
\<close>

named_theorems volume_simps "running the operations of the registry"

lemma bindS_assoc: "bindS (bindS m f) g = bindS m (\<lambda>x. bindS (f x) g)"
  by (auto simp: bindS_def fun_eq_iff split: prod.split sum.split)

lemma bind_clock [volume_simps]:
  "bindS (clockV V) k s = k (ve_now V (vol_ticks s)) (s\<lparr>vol_ticks := vol_ticks s + 1\<rparr>)"
  by (simp add: clockV_def bindS_def)

lemma bind_insert_database [volume_simps]:
  "\<not> has_key vdb_id (vdb_id r) (vol_databases s) \<Longrightarrow> \<not> has_key vdb_path (vdb_path r) (vol_databases s) \<Longrightarrow>
   bindS (insert_database r) k s = k () (s\<lparr>vol_databases := vol_databases s @ [r]\<rparr>)"
  by (simp add: insert_database_def bindS_def)

subsection \<open>The platform\<close>

definition dbPath :: "'d VolumeEnv \<Rightarrow> string \<Rightarrow> string" where
  "dbPath V rid = ve_databaseDir V @ ''/'' @ rid @ ''.sqlite''"

definition bakPath :: "'d VolumeEnv \<Rightarrow> string \<Rightarrow> string" where
  "bakPath V bid = ve_backupDir V @ ''/'' @ bid @ ''.sqlite''"

text \<open>
  The documented behaviour the code relies on: SQLite reads what it wrote, and resolving a path without
  dot segments does not change it.
\<close>

definition volume_env :: "'d VolumeEnv \<Rightarrow> bool" where
  "volume_env V \<longleftrightarrow> (\<forall>db. ve_open V (ve_image V db) = Some db)
     \<and> (\<forall>rid. is_sqlite_identifier rid \<longrightarrow> ve_resolve V (dbPath V rid) = dbPath V rid)
     \<and> (\<forall>bid. is_sqlite_identifier bid \<longrightarrow> ve_resolve V (bakPath V bid) = bakPath V bid)
     \<and> 0 < ve_maxOpen V"

lemma dbPath_inject [simp]: "dbPath V a = dbPath V b \<longleftrightarrow> a = b"
  by (simp add: dbPath_def)

lemma bakPath_inject [simp]: "bakPath V a = bakPath V b \<longleftrightarrow> a = b"
  by (simp add: bakPath_def)

lemma paths_apart [simp]: "dbPath V a \<noteq> bakPath V b" "bakPath V b \<noteq> dbPath V a"
  by (simp_all add: dbPath_def bakPath_def ve_databaseDir_def ve_backupDir_def)

lemma startsWith_inside: "startsWith (p @ c @ q) (p @ c)"
  by (simp add: startsWith_def)

lemma pathForDatabase_Inr [volume_simps]:
  "volume_env V \<Longrightarrow> is_sqlite_identifier rid \<Longrightarrow> pathForDatabase V rid = Inr (dbPath V rid)"
  using startsWith_inside [of "ve_databaseDir V" "''/''" "rid @ ''.sqlite''"]
  by (simp add: pathForDatabase_def assertPathInside_def volume_env_def dbPath_def guardF_def)

lemma pathForBackup_Inr [volume_simps]:
  "volume_env V \<Longrightarrow> is_sqlite_identifier bid \<Longrightarrow> pathForBackup V bid = Inr (bakPath V bid)"
  using startsWith_inside [of "ve_backupDir V" "''/''" "bid @ ''.sqlite''"]
  by (simp add: pathForBackup_def assertPathInside_def volume_env_def bakPath_def guardF_def)

lemma open_image [simp]: "volume_env V \<Longrightarrow> ve_open V (ve_image V db) = Some db"
  by (simp add: volume_env_def)

lemma identifiers_Inr [volume_simps]:
  "is_sqlite_identifier x \<Longrightarrow> sqlite_identifier x field = Inr x" "is_sqlite_identifier x \<Longrightarrow> databaseId x = Inr x"
  "is_sqlite_identifier x \<Longrightarrow> volumeSqliteBackupId x = Inr x" "is_sqlite_identifier x \<Longrightarrow> databaseKind x = Inr x"
  by (simp_all add: sqlite_identifier_def databaseId_def volumeSqliteBackupId_def databaseKind_def)

lemma sqlite_identifier_iff [simp]: "sqlite_identifier x field = Inr y \<longleftrightarrow> is_sqlite_identifier x \<and> y = x"
  by (auto simp: sqlite_identifier_def)

subsection \<open>Files\<close>

lemma file_at_simps [simp]:
  "file_at (write_file p b s) p' = (if p' = p then Some b else file_at s p')"
  "file_at (remove_file p s) p' = (if p' = p then None else file_at s p')"
  "file_at (s\<lparr>vol_databases := ds\<rparr>) p' = file_at s p'" "file_at (s\<lparr>vol_backups := bs\<rparr>) p' = file_at s p'"
  "file_at (s\<lparr>vol_pool := e\<rparr>) p' = file_at s p'" "file_at (s\<lparr>vol_ticks := k\<rparr>) p' = file_at s p'"
  by (simp_all add: file_at_def write_file_def remove_file_def map_of_filter_key)

lemma file_fields [simp]:
  "vol_databases (write_file p b s) = vol_databases s" "vol_backups (write_file p b s) = vol_backups s"
  "vol_pool (write_file p b s) = vol_pool s" "vol_ticks (write_file p b s) = vol_ticks s"
  "vol_databases (remove_file p s) = vol_databases s" "vol_backups (remove_file p s) = vol_backups s"
  "vol_pool (remove_file p s) = vol_pool s" "vol_ticks (remove_file p s) = vol_ticks s"
  by (simp_all add: write_file_def remove_file_def)

text \<open>What the database of an identifier holds: a database without a file is fresh.\<close>

definition database_at :: "'d VolumeEnv \<Rightarrow> Volume \<Rightarrow> string \<Rightarrow> 'd Sqlite" where
  "database_at V s rid = (case file_at s (dbPath V rid) of
       None \<Rightarrow> \<lparr>sq_content = ve_fresh V, sq_userVersion = 0\<rparr>
     | Some bytes \<Rightarrow> (case ve_open V bytes of None \<Rightarrow> \<lparr>sq_content = ve_fresh V, sq_userVersion = 0\<rparr> | Some db \<Rightarrow> db))"

definition content_at :: "'d VolumeEnv \<Rightarrow> Volume \<Rightarrow> string \<Rightarrow> 'd" where
  "content_at V s rid = sq_content (database_at V s rid)"

subsection \<open>The invariant\<close>

definition catalog_ok :: "'d VolumeEnv \<Rightarrow> VolumeDatabase list \<Rightarrow> bool" where
  "catalog_ok V rs \<longleftrightarrow> distinct (map vdb_id rs)
     \<and> list_all (\<lambda>r. is_sqlite_identifier (vdb_id r) \<and> vdb_path r = dbPath V (vdb_id r)) rs"

definition volume_ok :: "'d VolumeEnv \<Rightarrow> Volume \<Rightarrow> bool" where
  "volume_ok V s \<longleftrightarrow> catalog_ok V (vol_databases s)
     \<and> (\<forall>rid bytes. is_sqlite_identifier rid \<longrightarrow> file_at s (dbPath V rid) = Some bytes \<longrightarrow> ve_open V bytes \<noteq> None)
     \<and> list_all (\<lambda>(i, p). p = dbPath V i \<and> file_at s p \<noteq> None) (vol_pool s)"

definition empty_volume :: Volume where
  "empty_volume = \<lparr>vol_databases = [], vol_backups = [], vol_files = [], vol_pool = [], vol_ticks = 0\<rparr>"

lemma empty_volume_ok [simp]: "volume_ok V empty_volume"
  by (simp add: volume_ok_def catalog_ok_def empty_volume_def file_at_def)

lemma empty_content [simp]: "content_at V empty_volume rid = ve_fresh V"
  by (simp add: content_at_def database_at_def empty_volume_def file_at_def)

lemma database_at_file:
  "volume_ok V s \<Longrightarrow> is_sqlite_identifier rid \<Longrightarrow> file_at s (dbPath V rid) = Some bytes \<Longrightarrow>
   ve_open V bytes = Some (database_at V s rid)"
  by (fastforce simp: volume_ok_def database_at_def)

lemma evictOverflow_subset: "set (evictOverflow n es) \<subseteq> set es"
  by (induction n es rule: evictOverflow.induct) auto

lemma evictOverflow_length: "0 \<le> n \<Longrightarrow> int (length (evictOverflow n es)) \<le> n"
  by (induction n es rule: evictOverflow.induct) auto

text \<open>One step of the registry changes the databases only where \<open>changes\<close> says so.\<close>

definition leaves_others :: "'d VolumeEnv \<Rightarrow> string \<Rightarrow> Volume \<Rightarrow> Volume \<Rightarrow> bool" where
  "leaves_others V rid s s' \<longleftrightarrow> (\<forall>other. other \<noteq> rid \<longrightarrow> database_at V s' other = database_at V s other)
     \<and> (\<forall>p. (\<forall>i. p \<noteq> dbPath V i) \<longrightarrow> file_at s' p = file_at s p) \<and> vol_backups s' = vol_backups s"

lemma leaves_trans: "leaves_others V rid s s' \<Longrightarrow> leaves_others V rid s' s'' \<Longrightarrow> leaves_others V rid s s''"
  by (simp add: leaves_others_def)

lemma leaves_refl [simp]: "leaves_others V rid s s"
  by (simp add: leaves_others_def)

lemma poolOpen_run:
  assumes "volume_env V" and ok: "volume_ok V s" and rid: "is_sqlite_identifier rid"
  obtains s' where "poolOpen V rid (dbPath V rid) s = (s', Inr (dbPath V rid))" and "volume_ok V s'"
    and "\<exists>bytes. file_at s' (dbPath V rid) = Some bytes" and "\<And>i. database_at V s' i = database_at V s i"
    and "leaves_others V rid s s'" and "vol_databases s' = vol_databases s"
proof (cases "map_of (vol_pool s) rid")
  case (Some p)
  then have "(rid, p) \<in> set (vol_pool s)" by (rule map_of_SomeD)
  with ok have p: "p = dbPath V rid" "file_at s p \<noteq> None" by (auto simp: volume_ok_def list_all_iff)
  let ?s = "s\<lparr>vol_pool := filter (\<lambda>e. fst e \<noteq> rid) (vol_pool s) @ [(rid, p)]\<rparr>"
  have "volume_ok V ?s" using ok p by (auto simp: volume_ok_def list_all_iff)
  with Some p that [of ?s] show thesis
    by (auto simp: poolOpen_def database_at_def leaves_others_def)
next
  case None
  define s1 where "s1 = (if file_at s (dbPath V rid) = None
     then write_file (dbPath V rid) (ve_image V \<lparr>sq_content = ve_fresh V, sq_userVersion = 0\<rparr>) s else s)"
  have at: "database_at V s1 i = database_at V s i" for i
    using assms(1) by (auto simp: s1_def database_at_def)
  have others: "leaves_others V rid s s1" using at by (auto simp: leaves_others_def s1_def)
  have ok1: "volume_ok V s1"
    using ok assms(1) by (auto simp: s1_def volume_ok_def list_all_iff split: if_splits)
  obtain bytes where b: "file_at s1 (dbPath V rid) = Some bytes" by (cases "file_at s (dbPath V rid)") (auto simp: s1_def)
  let ?s = "s1\<lparr>vol_pool := evictOverflow (ve_maxOpen V) (vol_pool s1 @ [(rid, dbPath V rid)])\<rparr>"
  have "list_all (\<lambda>(i, p). p = dbPath V i \<and> file_at s1 p \<noteq> None) (vol_pool s1 @ [(rid, dbPath V rid)])"
    using ok1 b by (simp add: volume_ok_def)
  then have "list_all (\<lambda>(i, p). p = dbPath V i \<and> file_at s1 p \<noteq> None)
      (evictOverflow (ve_maxOpen V) (vol_pool s1 @ [(rid, dbPath V rid)]))"
    using evictOverflow_subset [of "ve_maxOpen V" "vol_pool s1 @ [(rid, dbPath V rid)]"] by (auto simp: list_all_iff)
  with ok1 have "volume_ok V ?s" by (simp add: volume_ok_def)
  moreover have "poolOpen V rid (dbPath V rid) s = (?s, Inr (dbPath V rid))"
    using None b database_at_file [OF ok1 rid b] by (simp add: poolOpen_def s1_def [symmetric] Let_def)
  moreover have "database_at V ?s i = database_at V s i" for i using at by (simp add: database_at_def)
  moreover have "leaves_others V rid s ?s" using others by (simp add: leaves_others_def database_at_def)
  moreover have "vol_databases ?s = vol_databases s" by (simp add: s1_def)
  ultimately show thesis using b that [of ?s] by simp
qed

lemma row_in_catalog: "volume_ok V s \<Longrightarrow> row_by vdb_id rid (vol_databases s) = Some r \<Longrightarrow>
    vdb_id r = rid \<and> vdb_path r = dbPath V rid \<and> is_sqlite_identifier rid"
  by (auto simp: volume_ok_def catalog_ok_def list_all_iff dest!: row_by_Some)

lemma catalog_update:
  assumes "catalog_ok V rs" and "\<And>r. vdb_id (f r) = vdb_id r" and "\<And>r. vdb_path (f r) = vdb_path r"
  shows "catalog_ok V (update_by vdb_id rid f rs)"
  using assms by (auto simp: catalog_ok_def list_all_iff update_by_def o_def if_distrib cong: map_cong if_cong)

lemma row_by_touch: "row_by vdb_id i (update_by vdb_id rid (\<lambda>r. r\<lparr>vdb_lastUsedAt := t\<rparr>) rs)
    = map_option (\<lambda>r. if i = rid then r\<lparr>vdb_lastUsedAt := t\<rparr> else r) (row_by vdb_id i rs)"
  by (subst row_by_update) (auto simp: option.map_ident)

text \<open>A callback on a listed database runs on its contents and leaves every other database alone.\<close>

lemma withDatabase_run:
  assumes "volume_env V" and ok: "volume_ok V s" and row: "row_by vdb_id rid (vol_databases s) = Some rec"
    and cb: "cb (database_at V s rid) = (db', r)"
  obtains s' where "withDatabase V rid cb s = (s', r)" and "volume_ok V s'" and "database_at V s' rid = db'"
    and "leaves_others V rid s s'" and "vol_databases s' =
      update_by vdb_id rid (\<lambda>r. r\<lparr>vdb_lastUsedAt := ve_now V (vol_ticks s)\<rparr>) (vol_databases s)"
proof -
  have rec: "vdb_id rec = rid" "vdb_path rec = dbPath V rid" and rid: "is_sqlite_identifier rid"
    using row_in_catalog [OF ok row] by auto
  let ?ds = "update_by vdb_id rid (\<lambda>r. r\<lparr>vdb_lastUsedAt := ve_now V (vol_ticks s)\<rparr>) (vol_databases s)"
  define s1 where "s1 = s\<lparr>vol_ticks := vol_ticks s + 1, vol_databases := ?ds\<rparr>"
  have ok1: "volume_ok V s1"
    using ok by (simp add: volume_ok_def s1_def catalog_update)
  obtain s2 where s2: "poolOpen V rid (dbPath V rid) s1 = (s2, Inr (dbPath V rid))" and ok2: "volume_ok V s2"
    and stored: "\<exists>bytes. file_at s2 (dbPath V rid) = Some bytes" and at: "\<And>i. database_at V s2 i = database_at V s1 i"
    and others: "leaves_others V rid s1 s2" and ds: "vol_databases s2 = vol_databases s1"
    by (rule poolOpen_run [OF assms(1) ok1 rid]) blast
  obtain bytes where b: "file_at s2 (dbPath V rid) = Some bytes" using stored by blast
  let ?s = "write_file (dbPath V rid) (ve_image V db') s2"
  have same: "database_at V s1 i = database_at V s i" for i by (simp add: database_at_def s1_def)
  have "on_handle V (dbPath V rid) cb s2 = (?s, r)"
    using b database_at_file [OF ok2 rid b] at same cb by (simp add: on_handle_def)
  moreover have "withDatabase V rid cb s = on_handle V (dbPath V rid) cb s2"
    using row rid s2 rec by (simp add: withDatabase_def requiredDatabase_def vol_getDatabase_def identifiers_Inr bindS_def
      clockV_def s1_def)
  moreover have "volume_ok V ?s" using ok2 assms(1) by (auto simp: volume_ok_def list_all_iff)
  moreover have "database_at V ?s rid = db'" using assms(1) by (simp add: database_at_def)
  moreover have "leaves_others V rid s ?s"
  proof -
    have "leaves_others V rid s s1" by (simp add: leaves_others_def same) (simp add: s1_def)
    from leaves_trans [OF this others] show ?thesis by (auto simp: leaves_others_def database_at_def)
  qed
  moreover have "vol_databases ?s = ?ds" using ds by (simp add: s1_def)
  ultimately show thesis using that [of ?s] by simp
qed

subsection \<open>Opening a database\<close>

definition kind_of :: "Volume \<Rightarrow> string \<Rightarrow> string option" where
  "kind_of s rid = map_option vdb_kind (row_by vdb_id rid (vol_databases s))"

lemma catalog_append:
  assumes "catalog_ok V rs" and "row_by vdb_id (vdb_id r) rs = None"
    and "is_sqlite_identifier (vdb_id r)" and "vdb_path r = dbPath V (vdb_id r)"
  shows "catalog_ok V (rs @ [r]) \<and> \<not> has_key vdb_id (vdb_id r) rs \<and> \<not> has_key vdb_path (vdb_path r) rs"
  using assms by (auto simp: catalog_ok_def list_all_iff has_key_set row_by_None)

lemma kind_touch:
  "kind_of s' i = kind_of s i" if "vol_databases s' = update_by vdb_id rid (\<lambda>r. r\<lparr>vdb_lastUsedAt := t\<rparr>) (vol_databases s)"
  using that by (cases "row_by vdb_id i (vol_databases s)") (simp_all add: kind_of_def row_by_touch)

lemma initialize_run:
  assumes "volume_env V" and "volume_ok V s" and "row_by vdb_id rid (vol_databases s) = Some rec"
  obtains s' where "initializeDatabaseFile V rec s = (s', Inr ())" and "volume_ok V s'"
    and "content_at V s' rid = content_at V s rid" and "leaves_others V rid s s'"
    and "\<And>i. kind_of s' i = kind_of s i"
    and "sq_userVersion (database_at V s' rid) = max (sq_userVersion (database_at V s rid)) (vdb_schemaVersion rec)"
proof -
  let ?cb = "setS (\<lambda>db. if sq_userVersion db < vdb_schemaVersion rec
     then db\<lparr>sq_userVersion := vdb_schemaVersion rec\<rparr> else db)"
  let ?db = "database_at V s rid"
  have cb: "?cb ?db = (if sq_userVersion ?db < vdb_schemaVersion rec
     then ?db\<lparr>sq_userVersion := vdb_schemaVersion rec\<rparr> else ?db, Inr ())" by simp
  have "vdb_id rec = rid" using row_in_catalog [OF assms(2,3)] by simp
  show thesis
  proof -
    obtain s' where s': "withDatabase V rid ?cb s = (s', Inr ())" "volume_ok V s'" "leaves_others V rid s s'"
        "database_at V s' rid = (if sq_userVersion ?db < vdb_schemaVersion rec
           then ?db\<lparr>sq_userVersion := vdb_schemaVersion rec\<rparr> else ?db)"
        "vol_databases s' = update_by vdb_id rid (\<lambda>r. r\<lparr>vdb_lastUsedAt := ve_now V (vol_ticks s)\<rparr>) (vol_databases s)"
      by (rule withDatabase_run [where cb = ?cb, OF assms cb])
    with \<open>vdb_id rec = rid\<close> kind_touch [OF s'(5)] that [of s'] show thesis
      by (simp add: initializeDatabaseFile_def content_at_def)
  qed
qed

definition plain_owner :: "string option \<Rightarrow> bool" where
  "plain_owner owner \<longleftrightarrow> (case owner of None \<Rightarrow> True | Some o' \<Rightarrow> is_sqlite_identifier o')"

lemma optionalIdentifier_Inr: "optionalIdentifier owner field = Inr owner' \<longleftrightarrow> plain_owner owner \<and> owner' = owner"
  by (auto simp: optionalIdentifier_def plain_owner_def bindE_Inr split: option.splits)

lemma ensureDatabase_run:
  assumes env: "volume_env V" and ok: "volume_ok V s" and rid: "is_sqlite_identifier rid" and kind: "is_sqlite_identifier kind"
    and owner: "plain_owner owner" and version: "sqlite_nonnegative n ''volume sqlite database schema version'' = Inr v"
  obtains s' rec where "ensureDatabase V \<lparr>edi_id = rid, edi_kind = Some kind, edi_ownerId = owner,
      edi_schemaVersion = Some n\<rparr> s = (s', Inr rec)"
    and "volume_ok V s'" and "content_at V s' rid = content_at V s rid" and "leaves_others V rid s s'"
    and "\<And>i. kind_of s' i = (if i = rid then Some kind else kind_of s i)"
proof -
  have checks: "optionalIdentifier owner ''volume sqlite database owner id'' = Inr owner"
    using owner by (simp add: optionalIdentifier_Inr)
  let ?start = "ensureDatabase V \<lparr>edi_id = rid, edi_kind = Some kind, edi_ownerId = owner, edi_schemaVersion = Some n\<rparr> s"
  obtain s1 rec where s1: "row_by vdb_id rid (vol_databases s1) = Some rec" "volume_ok V s1"
      "\<And>i. database_at V s1 i = database_at V s i" "leaves_others V rid s s1"
      "\<And>i. kind_of s1 i = (if i = rid then Some kind else kind_of s i)"
    and rest: "?start = bindS (initializeDatabaseFile V rec) (\<lambda>_. pureS rec) s1"
  proof (cases "row_by vdb_id rid (vol_databases s)")
    case None
    let ?r = "\<lparr>vdb_id = rid, vdb_path = dbPath V rid, vdb_kind = kind, vdb_ownerId = owner, vdb_schemaVersion = v,
      vdb_createdAt = ve_now V (vol_ticks s), vdb_lastUsedAt = ve_now V (vol_ticks s)\<rparr>"
    let ?s = "s\<lparr>vol_ticks := vol_ticks s + 1, vol_databases := vol_databases s @ [?r]\<rparr>"
    have cat: "catalog_ok V (vol_databases s @ [?r])" "\<not> has_key vdb_id rid (vol_databases s)"
      "\<not> has_key vdb_path (dbPath V rid) (vol_databases s)"
      using catalog_append [of V "vol_databases s" ?r] ok rid None by (simp_all add: volume_ok_def)
    have row: "row_by vdb_id i (vol_databases s @ [?r]) = (if i = rid then Some ?r else row_by vdb_id i (vol_databases s))" for i
      using None by (auto simp: row_by_append split: option.split)
    have db: "database_at V ?s i = database_at V s i" for i by (simp add: database_at_def)
    have "?start = bindS (initializeDatabaseFile V ?r) (\<lambda>_. pureS ?r) ?s"
      using None rid kind checks version env cat row
      by (simp add: ensureDatabase_def vol_getDatabase_def vol_reread_def bindS_assoc volume_simps)
    moreover have "volume_ok V ?s" using ok cat by (simp add: volume_ok_def)
    ultimately show thesis
      using that [of ?s ?r] row db by (simp add: leaves_others_def kind_of_def)
  next
    case (Some old)
    let ?f = "\<lambda>r. r\<lparr>vdb_kind := kind, vdb_ownerId := owner, vdb_schemaVersion := max (vdb_schemaVersion r) v,
      vdb_lastUsedAt := ve_now V (vol_ticks s)\<rparr>"
    let ?s = "s\<lparr>vol_ticks := vol_ticks s + 1, vol_databases := update_by vdb_id rid ?f (vol_databases s)\<rparr>"
    have row: "row_by vdb_id i (update_by vdb_id rid ?f (vol_databases s))
        = (if i = rid then Some (?f old) else row_by vdb_id i (vol_databases s))" for i
      using Some by (subst row_by_update) auto
    have db: "database_at V ?s i = database_at V s i" for i by (simp add: database_at_def)
    have "?start = bindS (initializeDatabaseFile V (?f old)) (\<lambda>_. pureS (?f old)) ?s"
      using Some rid kind checks version row
      by (simp add: ensureDatabase_def vol_getDatabase_def vol_reread_def bindS_assoc volume_simps)
    moreover have "volume_ok V ?s" using ok by (simp add: volume_ok_def catalog_update)
    ultimately show thesis
      using that [of ?s "?f old"] row db by (simp add: leaves_others_def kind_of_def)
  qed
  obtain s' where s': "initializeDatabaseFile V rec s1 = (s', Inr ())" "volume_ok V s'"
      "content_at V s' rid = content_at V s1 rid" "leaves_others V rid s1 s'" "\<And>i. kind_of s' i = kind_of s1 i"
    by (rule initialize_run [OF env s1(2,1)]) blast
  have "?start = (s', Inr rec)" using rest s'(1) by (simp add: bindS_def)
  moreover have "content_at V s' rid = content_at V s rid" using s'(3) s1(3) by (simp add: content_at_def)
  ultimately show thesis using that s' s1(5) leaves_trans [OF s1(4) s'(4)] by metis
qed

lemma writeDatabase_run:
  assumes "volume_env V" and "volume_ok V s" and "kind_of s rid \<noteq> None"
    and "cb (database_at V s rid) = (db', r)"
  obtains s' where "writeDatabase V rid cb s = (s', r)" and "volume_ok V s'" and "database_at V s' rid = db'"
    and "leaves_others V rid s s'" and "\<And>i. kind_of s' i = kind_of s i"
proof -
  from assms(3) obtain rec where row: "row_by vdb_id rid (vol_databases s) = Some rec" by (auto simp: kind_of_def)
  have "is_sqlite_identifier rid" using row_in_catalog [OF assms(2) row] by simp
  then have "writeDatabase V rid cb s = withDatabase V rid cb s"
    by (simp add: writeDatabase_def volume_simps)
  moreover obtain s' where s': "withDatabase V rid cb s = (s', r)" "volume_ok V s'" "database_at V s' rid = db'"
      "leaves_others V rid s s'"
      "vol_databases s' = update_by vdb_id rid (\<lambda>r. r\<lparr>vdb_lastUsedAt := ve_now V (vol_ticks s)\<rparr>) (vol_databases s)"
    by (rule withDatabase_run [where cb = cb, OF assms(1,2) row assms(4)])
  ultimately show thesis using that [of s'] kind_touch [OF s'(5)] by simp
qed

end
