(* ===== verification/DurableObjects.thy ===== *)
theory DurableObjects
  imports VolumeSqlite
begin

text \<open>
  Durable object storage (\<open>control-plane/durable-object-storage.ts\<close>): one database of the registry per
  object, with a table of keys and JSON texts, a table of metadata that holds the alarm, and the user's
  own tables.

  A string of this theory is its UTF-8 bytes, as SQLite stores and compares them (strings with unpaired
  surrogates are left out). \<open>JSON.stringify\<close>, \<open>JSON.parse\<close>, \<open>Number\<close> of a text, dates as text, SHA-256, \<open>localeCompare\<close>
  and the SQL the user runs on the user's tables are parameters.
\<close>

subsection \<open>Values\<close>

record 'u DurableContent =
  dc_kv :: "(string \<times> string) list"
  dc_meta :: "(string \<times> string) list"
  dc_user :: 'u

text \<open>
  What SQLite does with one statement of the user: it changes the user's tables, or it begins or ends a
  transaction or a savepoint, or rolls one back; a statement that fails may have rolled back too (a
  conflict with \<open>OR ROLLBACK\<close>). It sees whether a transaction is open. \<open>sql_statements\<close> cuts the text that
  \<open>exec\<close> is given into its statements, and \<open>sql_commits\<close> tells whether a commit from the first tables to
  the second is accepted (deferred constraints).
\<close>

datatype SqlValue = SqlNull | SqlText string | SqlReal rat | SqlInt int | SqlBlob string

datatype 'u SqlEffect = Changed 'u | Began | Committed | RolledBack | Saved string | Released string | BackTo string

type_synonym ('u, 'a) sql_statement = "bool \<Rightarrow> 'u \<Rightarrow> 'u SqlEffect \<times> (failure + 'a)"

record 'u SqlEngine =
  sql_all :: "string \<Rightarrow> SqlValue list \<Rightarrow> ('u, (string \<times> SqlValue) list list) sql_statement"
  sql_statements :: "string \<Rightarrow> string list"
  sql_run :: "string \<Rightarrow> SqlValue list \<Rightarrow> ('u, int \<times> int) sql_statement"
  sql_commits :: "'u \<Rightarrow> 'u \<Rightarrow> bool"

record 'u DurableEnv =
  de_stringify :: "json \<Rightarrow> string"
  de_parse :: "string \<Rightarrow> json option"
  de_number :: "string \<Rightarrow> jnum"
  de_sha256Hex :: "string \<Rightarrow> string"
  de_toISOString :: "int \<Rightarrow> string"
  de_parseDate :: "string \<Rightarrow> int option"
  de_localeLe :: "string \<Rightarrow> string \<Rightarrow> bool"
  de_sql :: "'u SqlEngine"
  de_volume :: "'u DurableContent VolumeEnv"

text \<open>
  \<open>assertJsonValue\<close>. Values that are no trees of JSON (cycles, functions, instances of classes) are not
  in \<open>json\<close>; their branches are left out.
\<close>

fun assertJsonValue :: "json \<Rightarrow> string \<Rightarrow> failure + unit"
  and assertJsonValues :: "json list \<Rightarrow> string \<Rightarrow> failure + unit"
  and assertJsonEntries :: "(string \<times> json) list \<Rightarrow> string \<Rightarrow> failure + unit" where
  "assertJsonValue JNull field = Inr ()"
| "assertJsonValue (JStr s) field = Inr ()"
| "assertJsonValue (JBool b) field = Inr ()"
| "assertJsonValue (JNum n) field =
     guardF (isFinite (JNum n) = None) Validation (field @ '' must be finite'')"
| "assertJsonValue (JArr vs) field = assertJsonValues vs field"
| "assertJsonValue (JObj es) field = assertJsonEntries es field"
| "assertJsonValue JUndefined field = throwF Validation (field @ '' must be JSON serializable'')"
| "assertJsonValues [] field = Inr ()"
| "assertJsonValues (v # vs) field = bindE (assertJsonValue v field) (\<lambda>_. assertJsonValues vs field)"
| "assertJsonEntries [] field = Inr ()"
| "assertJsonEntries ((k, v) # es) field =
     bindE (guardF (k = []) Validation (field @ '' object keys must not be empty'')) (\<lambda>_.
     bindE (assertJsonValue v field) (\<lambda>_. assertJsonEntries es field))"

definition storageJson :: "'u DurableEnv \<Rightarrow> json \<Rightarrow> failure + string" where
  "storageJson D value = bindE (assertJsonValue value ''durable object storage value'')
     (\<lambda>_. Inr (de_stringify D value))"

definition sizedString :: "string \<Rightarrow> string \<Rightarrow> nat \<Rightarrow> failure + string" where
  "sizedString value field maxBytes =
     bindE (guardF (value = [] \<or> maxBytes < length value) Validation
       (field @ '' must be a non-empty string up to '' @ nat_digits maxBytes @ '' bytes'')) (\<lambda>_.
     bindE (guardF (char_of (0::nat) \<in> set value) Validation (field @ '' must not contain null bytes'')) (\<lambda>_.
     Inr value))"

definition maxKeyBytes :: nat where "maxKeyBytes = 2048"
definition maxObjectIdBytes :: nat where "maxObjectIdBytes = 512"
definition maxObjectNameBytes :: nat where "maxObjectNameBytes = 1024"

definition storageKey :: "string \<Rightarrow> failure + string" where
  "storageKey value = sizedString value ''durable object storage key'' maxKeyBytes"

definition objectId :: "string \<Rightarrow> failure + string" where
  "objectId value = sizedString value ''durable object id'' maxObjectIdBytes"

definition objectName :: "string \<Rightarrow> failure + string" where
  "objectName value = sizedString value ''durable object name'' maxObjectNameBytes"

definition storageKeyBoundary :: "string \<Rightarrow> string \<Rightarrow> failure + string" where
  "storageKeyBoundary value field = bindE (guardF (maxKeyBytes < length value) Validation
     (field @ '' must be at most '' @ nat_digits maxKeyBytes @ '' bytes'')) (\<lambda>_. Inr value)"

definition namespaceName :: "string \<Rightarrow> failure + string" where
  "namespaceName value = bindE (guardF (\<not> is_sqlite_identifier value) Validation
     ''durable object namespace must start with an alphanumeric character and contain only alphanumerics, dot, dash, or underscore'')
     (\<lambda>_. Inr value)"

subsection \<open>The tables of an object\<close>

type_synonym ('u, 'a) tables_op = "('u DurableContent, 'a) fop"

definition getOne :: "'u DurableEnv \<Rightarrow> string \<Rightarrow> ('u, json option) tables_op" where
  "getOne D k = bindS (liftS (storageKey k)) (\<lambda>k. readS (\<lambda>c. case map_of (dc_kv c) k of
       None \<Rightarrow> Inr None
     | Some text \<Rightarrow> (case de_parse D text of None \<Rightarrow> Inl EngineError | Some v \<Rightarrow> Inr (Some v))))"

fun getMany :: "'u DurableEnv \<Rightarrow> string list \<Rightarrow> (string \<times> json) list \<Rightarrow> ('u, (string \<times> json) list) tables_op" where
  "getMany D [] out = pureS out"
| "getMany D (k # ks) out =
     bindS (liftS (storageKey k)) (\<lambda>k.
     bindS (getOne D k) (\<lambda>v. getMany D ks (case v of None \<Rightarrow> out | Some v \<Rightarrow> map_set k v out)))"

fun putEntries :: "'u DurableEnv \<Rightarrow> (string \<times> json) list \<Rightarrow> ('u, unit) tables_op" where
  "putEntries D [] = pureS ()"
| "putEntries D ((k, v) # entries) =
     bindS (liftS (storageKey k)) (\<lambda>k.
     bindS (liftS (storageJson D v)) (\<lambda>text.
     bindS (setS (\<lambda>c. c\<lparr>dc_kv := map_set k text (dc_kv c)\<rparr>)) (\<lambda>_. putEntries D entries)))"

definition deleteOne :: "string \<Rightarrow> ('u, bool) tables_op" where
  "deleteOne k = bindS (liftS (storageKey k)) (\<lambda>k.
     bindS (askS (\<lambda>c. map_of (dc_kv c) k \<noteq> None)) (\<lambda>present.
     bindS (setS (\<lambda>c. c\<lparr>dc_kv := filter (\<lambda>e. fst e \<noteq> k) (dc_kv c)\<rparr>)) (\<lambda>_. pureS present)))"

fun deleteMany :: "string list \<Rightarrow> int \<Rightarrow> ('u, int) tables_op" where
  "deleteMany [] deleted = pureS deleted"
| "deleteMany (k # ks) deleted =
     bindS (deleteOne k) (\<lambda>present. deleteMany ks (if present then deleted + 1 else deleted))"

record StorageListOptions =
  slo_prefix :: "string option"
  slo_start :: "string option"
  slo_end :: "string option"
  slo_limit :: "jnum option"
  slo_reverse :: bool

text \<open>The clauses and their bindings; \<open>U+FFFF\<close> is three bytes.\<close>

definition last_code_unit :: string where
  "last_code_unit = [char_of (239::nat), char_of (191::nat), char_of (191::nat)]"

definition optional_clause :: "string option \<Rightarrow> (string \<Rightarrow> failure + string) \<Rightarrow> (string \<Rightarrow> string \<Rightarrow> bool)
    \<Rightarrow> failure + (string \<Rightarrow> bool)" where
  "optional_clause value check clause = (case value of None \<Rightarrow> Inr (\<lambda>_. True)
     | Some v \<Rightarrow> bindE (check v) (\<lambda>v. Inr (clause v)))"

definition list_clauses :: "StorageListOptions \<Rightarrow> failure + (string \<Rightarrow> bool)" where
  "list_clauses opts =
     bindE (optional_clause (slo_prefix opts) (\<lambda>v. storageKeyBoundary v ''durable object storage list prefix'')
       (\<lambda>p k. text_le p k \<and> \<not> text_le (p @ last_code_unit) k)) (\<lambda>c1.
     bindE (optional_clause (slo_start opts) (\<lambda>v. storageKeyBoundary v ''durable object storage list start'')
       (\<lambda>a k. text_le a k)) (\<lambda>c2.
     bindE (optional_clause (slo_end opts) (\<lambda>v. storageKeyBoundary v ''durable object storage list end'')
       (\<lambda>b k. \<not> text_le b k)) (\<lambda>c3.
     Inr (\<lambda>k. c1 k \<and> c2 k \<and> c3 k))))"

definition list_limit :: "StorageListOptions \<Rightarrow> failure + nat option" where
  "list_limit opts = (case slo_limit opts of None \<Rightarrow> Inr None
     | Some n \<Rightarrow> bindE (liftF (sqlite_nonnegative n ''durable object storage list limit'')) (\<lambda>i. Inr (Some (nat i))))"

definition take_limit :: "nat option \<Rightarrow> 'a list \<Rightarrow> 'a list" where
  "take_limit limit xs = (case limit of None \<Rightarrow> xs | Some n \<Rightarrow> take n xs)"

definition listValues :: "'u DurableEnv \<Rightarrow> StorageListOptions \<Rightarrow> ('u, (string \<times> json) list) tables_op" where
  "listValues D opts =
     bindS (liftS (list_clauses opts)) (\<lambda>clause.
     bindS (liftS (list_limit opts)) (\<lambda>limit. readS (\<lambda>c.
       let rows = filter (\<lambda>r. clause (fst r)) (dc_kv c);
           ordered = js_sort (\<lambda>a b. if slo_reverse opts then text_le (fst b) (fst a) else text_le (fst a) (fst b)) rows
       in mapE (\<lambda>(k, text). case de_parse D text of None \<Rightarrow> Inl EngineError | Some v \<Rightarrow> Inr (k, v))
            (take_limit limit ordered))))"

subsection \<open>Metadata and alarms\<close>

definition alarmMetaKey :: string where "alarmMetaKey = ''alarm_at_ms''"
definition namespaceMetaKey :: string where "namespaceMetaKey = ''namespace''"
definition objectIdMetaKey :: string where "objectIdMetaKey = ''object_id''"

definition getMetaText :: "string \<Rightarrow> 'u DurableContent \<Rightarrow> string option" where
  "getMetaText k c = map_of (dc_meta c) k"

definition setMetaText :: "string \<Rightarrow> string \<Rightarrow> 'u DurableContent \<Rightarrow> 'u DurableContent" where
  "setMetaText k v c = c\<lparr>dc_meta := map_set k v (dc_meta c)\<rparr>"

text \<open>A \<open>Date\<close> is its time value, \<open>None\<close> for an invalid date: times beyond 8.64e15 ms are invalid.\<close>

type_synonym js_date = "int option"

definition new_Date :: "int \<Rightarrow> js_date" where
  "new_Date ms = (if \<bar>ms\<bar> \<le> 8640000000000000 then Some ms else None)"

datatype AlarmTime = AtDate js_date | AtNumber jnum

definition alarmTimeMs :: "AlarmTime \<Rightarrow> failure + int" where
  "alarmTimeMs value =
     (let millis = (case value of AtDate None \<Rightarrow> NaN | AtDate (Some t) \<Rightarrow> Fin (of_int t) | AtNumber n \<Rightarrow> n) in
      case safe_integer millis of
        Some i \<Rightarrow> if i < 0
          then throwF Validation ''durable object alarm time must be a finite nonnegative millisecond timestamp''
          else Inr i
      | None \<Rightarrow> throwF Validation ''durable object alarm time must be a finite nonnegative millisecond timestamp'')"

definition do_getAlarm :: "'u DurableEnv \<Rightarrow> 'u DurableContent \<Rightarrow> js_date option" where
  "do_getAlarm D c = (case getMetaText alarmMetaKey c of None \<Rightarrow> None
     | Some text \<Rightarrow> (case safe_integer (de_number D text) of None \<Rightarrow> None | Some ms \<Rightarrow> Some (new_Date ms)))"

definition do_setAlarm :: "int \<Rightarrow> ('u, unit) tables_op" where
  "do_setAlarm alarmAtMs = setS (setMetaText alarmMetaKey (show_int alarmAtMs))"

definition do_deleteAlarm :: "('u, bool) tables_op" where
  "do_deleteAlarm = bindS (askS (\<lambda>c. getMetaText alarmMetaKey c \<noteq> None)) (\<lambda>present.
     bindS (setS (\<lambda>c. c\<lparr>dc_meta := filter (\<lambda>e. fst e \<noteq> alarmMetaKey) (dc_meta c)\<rparr>)) (\<lambda>_. pureS present))"

definition recordObjectIdentity :: "string option \<Rightarrow> string option \<Rightarrow> ('u, unit) tables_op" where
  "recordObjectIdentity ns oid = (case (ns, oid) of
       (Some n, Some i) \<Rightarrow> setS (setMetaText objectIdMetaKey i \<circ> setMetaText namespaceMetaKey n)
     | _ \<Rightarrow> pureS ())"

subsection \<open>SQL of the user\<close>

record SqlCursor =
  cur_rows :: "(string \<times> SqlValue) list list"
  cur_columnNames :: "string list"
  cur_rowsRead :: int
  cur_rowsWritten :: int
  cur_lastInsertRowid :: "int option"
  cur_index :: nat

definition sql_cursor :: "(string \<times> SqlValue) list list \<Rightarrow> int option \<Rightarrow> int option \<Rightarrow> SqlCursor" where
  "sql_cursor rows written rowid = \<lparr>cur_rows = rows,
     cur_columnNames = (case rows of [] \<Rightarrow> [] | r # _ \<Rightarrow> map fst r), cur_rowsRead = int (length rows),
     cur_rowsWritten = (case written of Some n \<Rightarrow> n | None \<Rightarrow> 0), cur_lastInsertRowid = rowid, cur_index = 0\<rparr>"

definition cursor_next :: "SqlCursor \<Rightarrow> SqlCursor \<times> (string \<times> SqlValue) list option" where
  "cursor_next c = (if length (cur_rows c) \<le> cur_index c then (c, None)
     else (c\<lparr>cur_index := cur_index c + 1\<rparr>, Some (cur_rows c ! cur_index c)))"

definition cursor_toArray :: "SqlCursor \<Rightarrow> (string \<times> SqlValue) list list" where
  "cursor_toArray c = drop (cur_index c) (cur_rows c)"

definition cursor_one :: "(SqlCursor, (string \<times> SqlValue) list) fop" where
  "cursor_one = bindS (askS cursor_toArray) (\<lambda>rows. case rows of
       [row] \<Rightarrow> bindS (setS (\<lambda>c. c\<lparr>cur_index := length (cur_rows c)\<rparr>)) (\<lambda>_. pureS row)
     | _ \<Rightarrow> liftS (throwF Validation
         (''durable object SQL expected one row but got '' @ nat_digits (length rows))))"

text \<open>\<open>raw\<close>: \<open>None\<close> is the \<open>undefined\<close> of a column a row does not have.\<close>

definition cursor_raw :: "(SqlCursor, SqlValue option list list) fop" where
  "cursor_raw = bindS (askS (\<lambda>c. map (\<lambda>row. map (map_of row) (cur_columnNames c)) (cursor_toArray c))) (\<lambda>rows.
     bindS (setS (\<lambda>c. c\<lparr>cur_index := length (cur_rows c)\<rparr>)) (\<lambda>_. pureS rows))"

definition isReadSql :: "string \<Rightarrow> bool" where
  "isReadSql query = (let head = toLowerCase (dropWhile js_ws query) in
     startsWith head ''select'' \<or> startsWith head ''with'' \<or> startsWith head ''pragma'' \<or> startsWith head ''explain'')"

definition hasMultipleSqlStatements :: "string \<Rightarrow> bool" where
  "hasMultipleSqlStatements query \<longleftrightarrow> 1 < length (filter (\<lambda>part. trim part \<noteq> []) (split_on (CHR '';'') query))"

text \<open>\<open>/(^|[^a-zA-Z0-9_])__wasmplane_do_/i\<close>, from a position whose preceding character is known.\<close>

fun names_reserved :: "char option \<Rightarrow> string \<Rightarrow> bool" where
  "names_reserved before [] = False"
| "names_reserved before (c # cs) =
     ((case before of None \<Rightarrow> True | Some b \<Rightarrow> \<not> (is_alnum b \<or> b = CHR ''_''))
        \<and> startsWith (toLowerCase (c # cs)) ''__wasmplane_do_''
      \<or> names_reserved (Some c) cs)"

definition assertNoReservedStorageTable :: "string \<Rightarrow> failure + unit" where
  "assertNoReservedStorageTable query =
     guardF (names_reserved None query) Validation ''SQL may not access reserved durable object storage table''"

definition nonEmptySql :: "string \<Rightarrow> failure + string" where
  "nonEmptySql query = bindE (guardF (trim query = []) Validation ''durable object SQL query must be non-empty'')
     (\<lambda>_. Inr query)"

subsection \<open>The connection\<close>

text \<open>
  A connection has the contents and, when a transaction or savepoints are open, the contents to which they
  go back, the outermost last: \<open>None\<close> for a transaction, the name for a savepoint.
\<close>

record 'c Connection =
  con_content :: 'c
  con_stack :: "(string option \<times> 'c) list"

definition begin_transaction :: "('c Connection, unit) fop" where
  "begin_transaction k = (if con_stack k \<noteq> [] then (k, Inl EngineError)
     else (k\<lparr>con_stack := [(None, con_content k)]\<rparr>, Inr ()))"

definition commit_transaction :: "('c \<Rightarrow> 'c \<Rightarrow> bool) \<Rightarrow> ('c Connection, unit) fop" where
  "commit_transaction accepts k =
     (if con_stack k = [] \<or> \<not> accepts (snd (last (con_stack k))) (con_content k) then (k, Inl EngineError)
      else (k\<lparr>con_stack := []\<rparr>, Inr ()))"

definition rollback_transaction :: "('c Connection, unit) fop" where
  "rollback_transaction k = (if con_stack k = [] then (k, Inl EngineError)
     else (\<lparr>con_content = snd (last (con_stack k)), con_stack = []\<rparr>, Inr ()))"

definition set_savepoint :: "string \<Rightarrow> ('c Connection, unit) fop" where
  "set_savepoint name = setS (\<lambda>k. k\<lparr>con_stack := (Some name, con_content k) # con_stack k\<rparr>)"

definition release_savepoint :: "('c \<Rightarrow> 'c \<Rightarrow> bool) \<Rightarrow> string \<Rightarrow> ('c Connection, unit) fop" where
  "release_savepoint accepts name k = (case dropWhile (\<lambda>e. fst e \<noteq> Some name) (con_stack k) of
       [] \<Rightarrow> (k, Inl EngineError)
     | e # rest \<Rightarrow> if rest = [] then commit_transaction accepts k else (k\<lparr>con_stack := rest\<rparr>, Inr ()))"

definition rollback_to_savepoint :: "string \<Rightarrow> ('c Connection, unit) fop" where
  "rollback_to_savepoint name k = (case dropWhile (\<lambda>e. fst e \<noteq> Some name) (con_stack k) of
       [] \<Rightarrow> (k, Inl EngineError)
     | e # rest \<Rightarrow> (\<lparr>con_content = snd e, con_stack = e # rest\<rparr>, Inr ()))"

text \<open>
  \<open>begin immediate\<close>, the callback and \<open>commit\<close>; an exception of the callback or of the commit is thrown on
  after a \<open>rollback\<close> whose own error is ignored.
\<close>

definition withImmediateTransaction :: "('c \<Rightarrow> 'c \<Rightarrow> bool) \<Rightarrow> ('c Connection, 'a) fop \<Rightarrow> ('c Connection, 'a) fop" where
  "withImmediateTransaction accepts callback = bindS begin_transaction (\<lambda>_ k.
     case bindS callback (\<lambda>x. bindS (commit_transaction accepts) (\<lambda>_. pureS x)) k of
       (k', Inr x) \<Rightarrow> (k', Inr x)
     | (k', Inl e) \<Rightarrow> (fst (rollback_transaction k'), Inl e))"

text \<open>An operation on the tables, and a statement of the user, on a connection. \<open>get\<close> and \<open>put\<close> reach the user's tables.\<close>

definition on_tables :: "('c, 'a) fop \<Rightarrow> ('c Connection, 'a) fop" where
  "on_tables m k = (case m (con_content k) of (c, r) \<Rightarrow> (k\<lparr>con_content := c\<rparr>, r))"

definition commit_accepted :: "'u SqlEngine \<Rightarrow> ('c \<Rightarrow> 'u) \<Rightarrow> 'c \<Rightarrow> 'c \<Rightarrow> bool" where
  "commit_accepted E get c c' \<longleftrightarrow> get c = get c' \<or> sql_commits E (get c) (get c')"

definition sql_effect :: "'u SqlEngine \<Rightarrow> ('c \<Rightarrow> 'u) \<Rightarrow> ('u \<Rightarrow> 'c \<Rightarrow> 'c) \<Rightarrow> 'u SqlEffect \<Rightarrow> ('c Connection, unit) fop" where
  "sql_effect E get put effect = (case effect of
       Changed u \<Rightarrow> setS (\<lambda>k. k\<lparr>con_content := put u (con_content k)\<rparr>)
     | Began \<Rightarrow> begin_transaction
     | Committed \<Rightarrow> commit_transaction (commit_accepted E get)
     | RolledBack \<Rightarrow> rollback_transaction
     | Saved name \<Rightarrow> set_savepoint name
     | Released name \<Rightarrow> release_savepoint (commit_accepted E get) name
     | BackTo name \<Rightarrow> rollback_to_savepoint name)"

definition on_user :: "'u SqlEngine \<Rightarrow> ('c \<Rightarrow> 'u) \<Rightarrow> ('u \<Rightarrow> 'c \<Rightarrow> 'c) \<Rightarrow> ('u, 'a) sql_statement \<Rightarrow> ('c Connection, 'a) fop" where
  "on_user E get put statement k = (case statement (con_stack k \<noteq> []) (get (con_content k)) of
     (effect, r) \<Rightarrow> bindS (sql_effect E get put effect) (\<lambda>_. liftS r) k)"

fun sql_exec :: "'u SqlEngine \<Rightarrow> ('c \<Rightarrow> 'u) \<Rightarrow> ('u \<Rightarrow> 'c \<Rightarrow> 'c) \<Rightarrow> string list \<Rightarrow> ('c Connection, unit) fop" where
  "sql_exec E get put [] = pureS ()"
| "sql_exec E get put (statement # statements) =
     bindS (on_user E get put (sql_run E statement [])) (\<lambda>_. sql_exec E get put statements)"

definition user_sql :: "'u SqlEngine \<Rightarrow> ('c \<Rightarrow> 'u) \<Rightarrow> ('u \<Rightarrow> 'c \<Rightarrow> 'c) \<Rightarrow> bool \<Rightarrow> string \<Rightarrow> SqlValue list
    \<Rightarrow> ('c Connection, SqlCursor) fop" where
  "user_sql E get put wrapMutation query bindings =
     bindS (liftS (nonEmptySql query)) (\<lambda>sql.
     bindS (liftS (assertNoReservedStorageTable sql)) (\<lambda>_.
     if isReadSql sql
     then bindS (on_user E get put (sql_all E sql bindings)) (\<lambda>rows. pureS (sql_cursor rows None None))
     else
       let run = (if bindings = [] \<and> hasMultipleSqlStatements sql
             then bindS (sql_exec E get put (sql_statements E sql)) (\<lambda>_. pureS (sql_cursor [] None None))
             else bindS (on_user E get put (sql_run E sql bindings)) (\<lambda>(changes, rowid).
               pureS (sql_cursor [] (Some changes) (Some rowid))))
       in if wrapMutation then withImmediateTransaction (commit_accepted E get) run else run))"

text \<open>The user's tables of an object.\<close>

definition put_user :: "'u \<Rightarrow> 'u DurableContent \<Rightarrow> 'u DurableContent" where
  "put_user u c = c\<lparr>dc_user := u\<rparr>"

definition executeUserSql :: "'u SqlEngine \<Rightarrow> bool \<Rightarrow> string \<Rightarrow> SqlValue list
    \<Rightarrow> ('u DurableContent Connection, SqlCursor) fop" where
  "executeUserSql E = user_sql E dc_user put_user"

subsection \<open>Operations and transactions\<close>

datatype PutInput = PutOne string json | PutMap "(string \<times> json) list" | PutObject json

definition normalizePutEntries :: "PutInput \<Rightarrow> failure + (string \<times> json) list" where
  "normalizePutEntries i = (case i of
       PutOne k v \<Rightarrow> if v = JUndefined
         then throwF Validation ''durable object storage value must be JSON serializable'' else Inr [(k, v)]
     | PutMap entries \<Rightarrow> Inr entries
     | PutObject (JObj entries) \<Rightarrow> Inr entries
     | PutObject _ \<Rightarrow> throwF Validation ''durable object storage put entries must be an object or Map'')"

datatype StorageOp = OpGet string | OpGetMany "string list" | OpPut PutInput | OpDelete string
  | OpDeleteMany "string list" | OpList StorageListOptions

datatype StorageReply = RValue "json option" | REntries "(string \<times> json) list" | RDone | RDeleted bool | RCount int

definition storage_op :: "'u DurableEnv \<Rightarrow> StorageOp \<Rightarrow> ('u, StorageReply) tables_op" where
  "storage_op D op = (case op of
       OpGet k \<Rightarrow> bindS (getOne D k) (\<lambda>v. pureS (RValue v))
     | OpGetMany ks \<Rightarrow> bindS (getMany D ks []) (\<lambda>m. pureS (REntries m))
     | OpPut i \<Rightarrow> bindS (liftS (normalizePutEntries i)) (\<lambda>entries. bindS (putEntries D entries) (\<lambda>_. pureS RDone))
     | OpDelete k \<Rightarrow> bindS (deleteOne k) (\<lambda>b. pureS (RDeleted b))
     | OpDeleteMany ks \<Rightarrow> bindS (deleteMany ks 0) (\<lambda>n. pureS (RCount n))
     | OpList opts \<Rightarrow> bindS (listValues D opts) (\<lambda>m. pureS (REntries m)))"

text \<open>
  The callback of a transaction: it awaits operations and queries, sees what they return or throw, and
  returns or throws in the end.
\<close>

datatype 'a txn = Finish "failure + 'a"
  | Call StorageOp "failure + StorageReply \<Rightarrow> 'a txn"
  | Query string "SqlValue list" "failure + SqlCursor \<Rightarrow> 'a txn"

primrec run_txn :: "'u DurableEnv \<Rightarrow> 'a txn \<Rightarrow> ('u DurableContent Connection, 'a) fop" where
  "run_txn D (Finish r) = (\<lambda>k. (k, r))"
| "run_txn D (Call op f) = (\<lambda>k. case on_tables (storage_op D op) k of (k', r) \<Rightarrow> run_txn D (f r) k')"
| "run_txn D (Query sql bindings f) =
     (\<lambda>k. case executeUserSql (de_sql D) False sql bindings k of (k', r) \<Rightarrow> run_txn D (f r) k')"

subsection \<open>Storage\<close>

record DurableObjectStorage =
  dos_databaseId :: string
  dos_ownerId :: "string option"
  dos_namespace :: "string option"
  dos_objectId :: "string option"

definition on_content :: "('d, 'a) fop \<Rightarrow> ('d Sqlite, 'a) fop" where
  "on_content m db = (case m (sq_content db) of (c, r) \<Rightarrow> (db\<lparr>sq_content := c\<rparr>, r))"

text \<open>
  The connection of a call has no transaction open, and what the call did not commit is gone when it is
  closed: no call leaves a transaction behind (\<open>transaction_ends\<close>).
\<close>

definition on_connection :: "('c Connection, 'a) fop \<Rightarrow> ('c, 'a) fop" where
  "on_connection m c = (case m \<lparr>con_content = c, con_stack = []\<rparr> of
     (k, r) \<Rightarrow> (if con_stack k = [] then con_content k else snd (last (con_stack k)), r))"

definition runExclusive :: "'u DurableEnv \<Rightarrow> DurableObjectStorage \<Rightarrow> ('u DurableContent Connection, 'a) fop \<Rightarrow> 'a volume" where
  "runExclusive D st callback =
     bindS (ensureDatabase (de_volume D) \<lparr>edi_id = dos_databaseId st, edi_kind = Some ''durable_object'',
       edi_ownerId = dos_ownerId st, edi_schemaVersion = Some (Fin 1)\<rparr>) (\<lambda>_.
     writeDatabase (de_volume D) (dos_databaseId st)
       (on_content (bindS (recordObjectIdentity (dos_namespace st) (dos_objectId st)) (\<lambda>_. on_connection callback))))"

definition writes_kv :: "StorageOp \<Rightarrow> bool" where
  "writes_kv op \<longleftrightarrow> (case op of OpPut _ \<Rightarrow> True | OpDelete _ \<Rightarrow> True | OpDeleteMany _ \<Rightarrow> True | _ \<Rightarrow> False)"

definition user_accepted :: "'u DurableEnv \<Rightarrow> 'u DurableContent \<Rightarrow> 'u DurableContent \<Rightarrow> bool" where
  "user_accepted D = commit_accepted (de_sql D) dc_user"

text \<open>\<open>get\<close>, \<open>put\<close>, \<open>delete\<close> and \<open>list\<close>: the ones that write run in a transaction of their own.\<close>

definition storage_perform :: "'u DurableEnv \<Rightarrow> DurableObjectStorage \<Rightarrow> StorageOp \<Rightarrow> StorageReply volume" where
  "storage_perform D st op = runExclusive D st
     (if writes_kv op then withImmediateTransaction (user_accepted D) (on_tables (storage_op D op))
      else on_tables (storage_op D op))"

definition storage_transaction :: "'u DurableEnv \<Rightarrow> DurableObjectStorage \<Rightarrow> 'a txn \<Rightarrow> 'a volume" where
  "storage_transaction D st callback = runExclusive D st (withImmediateTransaction (user_accepted D) (run_txn D callback))"

definition storage_sql :: "'u DurableEnv \<Rightarrow> DurableObjectStorage \<Rightarrow> string \<Rightarrow> SqlValue list \<Rightarrow> SqlCursor volume" where
  "storage_sql D st query bindings = runExclusive D st (executeUserSql (de_sql D) True query bindings)"

definition storage_getAlarm :: "'u DurableEnv \<Rightarrow> DurableObjectStorage \<Rightarrow> js_date option volume" where
  "storage_getAlarm D st = runExclusive D st (on_tables (askS (do_getAlarm D)))"

definition storage_setAlarm :: "'u DurableEnv \<Rightarrow> DurableObjectStorage \<Rightarrow> AlarmTime \<Rightarrow> unit volume" where
  "storage_setAlarm D st scheduledTime =
     bindS (liftS (alarmTimeMs scheduledTime)) (\<lambda>alarmAtMs.
     runExclusive D st (withImmediateTransaction (user_accepted D) (on_tables (do_setAlarm alarmAtMs))))"

definition storage_deleteAlarm :: "'u DurableEnv \<Rightarrow> DurableObjectStorage \<Rightarrow> bool volume" where
  "storage_deleteAlarm D st = runExclusive D st (withImmediateTransaction (user_accepted D) (on_tables do_deleteAlarm))"

subsection \<open>Namespaces\<close>

record DurableNamespace =
  dn_namespace :: string
  dn_ownerId :: "string option"

record DurableObject =
  dob_id :: string
  dob_namespace :: string
  dob_databaseId :: string
  dob_storage :: DurableObjectStorage

definition createDurableObjectStorageNamespace :: "string \<Rightarrow> string option \<Rightarrow> failure + DurableNamespace" where
  "createDurableObjectStorageNamespace name owner =
     bindE (namespaceName name) (\<lambda>n. Inr \<lparr>dn_namespace = n, dn_ownerId = owner\<rparr>)"

definition NUL :: string where "NUL = [char_of (0::nat)]"

definition durableObjectDatabaseId :: "'u DurableEnv \<Rightarrow> string \<Rightarrow> string \<Rightarrow> string" where
  "durableObjectDatabaseId D ns oid = ''do_'' @ take 40 (de_sha256Hex D (''v1'' @ NUL @ ns @ NUL @ oid))"

definition idFromName :: "'u DurableEnv \<Rightarrow> DurableNamespace \<Rightarrow> string \<Rightarrow> failure + string" where
  "idFromName D ns name = bindE (objectName name)
     (\<lambda>n. Inr (''do_'' @ take 32 (de_sha256Hex D (dn_namespace ns @ NUL @ n))))"

definition namespace_get :: "'u DurableEnv \<Rightarrow> DurableNamespace \<Rightarrow> string \<Rightarrow> failure + DurableObject" where
  "namespace_get D ns oid = bindE (objectId oid) (\<lambda>i.
     let dbId = durableObjectDatabaseId D (dn_namespace ns) i in
     Inr \<lparr>dob_id = i, dob_namespace = dn_namespace ns, dob_databaseId = dbId,
       dob_storage = \<lparr>dos_databaseId = dbId, dos_ownerId = dn_ownerId ns,
         dos_namespace = Some (dn_namespace ns), dos_objectId = Some i\<rparr>\<rparr>)"

definition storageForName :: "'u DurableEnv \<Rightarrow> DurableNamespace \<Rightarrow> string \<Rightarrow> failure + DurableObjectStorage" where
  "storageForName D ns name = bindE (idFromName D ns name) (\<lambda>i. bindE (namespace_get D ns i) (\<lambda>ob. Inr (dob_storage ob)))"

record DueAlarm =
  due_namespace :: string
  due_objectId :: string
  due_databaseId :: string
  due_scheduledTime :: js_date

text \<open>\<open>scheduledTime.getTime() > nowMs\<close>, false for an invalid date.\<close>

definition is_after :: "js_date \<Rightarrow> int \<Rightarrow> bool" where
  "is_after d nowMs = (case d of None \<Rightarrow> False | Some t \<Rightarrow> nowMs < t)"

definition due_alarm :: "'u DurableEnv \<Rightarrow> string \<Rightarrow> int \<Rightarrow> string \<Rightarrow> 'u DurableContent \<Rightarrow> DueAlarm option" where
  "due_alarm D ns nowMs dbId c =
     (if getMetaText namespaceMetaKey c \<noteq> Some ns then None
      else case (nonempty (getMetaText objectIdMetaKey c), do_getAlarm D c) of
          (Some oid, Some t) \<Rightarrow> if is_after t nowMs then None
            else Some \<lparr>due_namespace = ns, due_objectId = oid, due_databaseId = dbId, due_scheduledTime = t\<rparr>
        | _ \<Rightarrow> None)"

fun due_alarms :: "'u DurableEnv \<Rightarrow> string \<Rightarrow> int \<Rightarrow> VolumeDatabase list \<Rightarrow> DueAlarm list volume" where
  "due_alarms D ns nowMs [] = pureS []"
| "due_alarms D ns nowMs (r # rs) =
     (if vdb_kind r \<noteq> ''durable_object'' then due_alarms D ns nowMs rs
      else bindS (writeDatabase (de_volume D) (vdb_id r) (on_content (askS (due_alarm D ns nowMs (vdb_id r))))) (\<lambda>a.
           bindS (due_alarms D ns nowMs rs) (\<lambda>as. pureS (case a of None \<Rightarrow> as | Some a \<Rightarrow> a # as))))"

text \<open>The comparator of the sort; the difference with an invalid date is \<open>NaN\<close>, so the identifiers decide.\<close>

definition due_le :: "(string \<Rightarrow> string \<Rightarrow> bool) \<Rightarrow> DueAlarm \<Rightarrow> DueAlarm \<Rightarrow> bool" where
  "due_le localeLe a b = (case (due_scheduledTime a, due_scheduledTime b) of
       (Some x, Some y) \<Rightarrow> if x = y then localeLe (due_objectId a) (due_objectId b) else x < y
     | _ \<Rightarrow> localeLe (due_objectId a) (due_objectId b))"

definition listDueAlarms :: "'u DurableEnv \<Rightarrow> DurableNamespace \<Rightarrow> int \<Rightarrow> AlarmTime option \<Rightarrow> jnum option
    \<Rightarrow> DueAlarm list volume" where
  "listDueAlarms D ns dateNow now limit =
     bindS (liftS (case now of None \<Rightarrow> Inr dateNow | Some n \<Rightarrow> alarmTimeMs n)) (\<lambda>nowMs.
     bindS (liftS (case limit of None \<Rightarrow> Inr None
       | Some n \<Rightarrow> bindE (liftF (sqlite_nonnegative n ''durable object due alarm list limit'')) (\<lambda>i. Inr (Some (nat i)))))
       (\<lambda>limit.
     if limit = Some 0 then pureS []
     else bindS (askS vol_listDatabases) (\<lambda>records.
       bindS (due_alarms D (dn_namespace ns) nowMs records) (\<lambda>alarms.
       pureS (take_limit limit (js_sort (due_le (de_localeLe D)) alarms))))))"

end
