(* ===== verification/DurableLaws.thy ===== *)
theory DurableLaws
  imports VolumeLaws DurableObjects
begin

text \<open>
  An object's storage refines a finite map from keys to values: the specification of the operations on a
  map, the simulation between it and the tables, and what it gives for whole calls, with the registry
  and the other objects around them.
\<close>

subsection \<open>The specification\<close>

text \<open>The abstract state of an object: its entries, and the user's own tables.\<close>

type_synonym 'u object_state = "(string \<Rightarrow> json option) \<times> 'u"

fun spec_put :: "(string \<times> json) list \<Rightarrow> ('u object_state, unit) fop" where
  "spec_put [] s = (s, Inr ())"
| "spec_put ((k, v) # entries) (m, u) = (case storageKey k of
       Inl e \<Rightarrow> ((m, u), Inl e)
     | Inr k \<Rightarrow> (case assertJsonValue v ''durable object storage value'' of
           Inl e \<Rightarrow> ((m, u), Inl e)
         | Inr _ \<Rightarrow> spec_put entries (m(k \<mapsto> v), u)))"

fun spec_get_many :: "(string \<Rightarrow> json option) \<Rightarrow> string list \<Rightarrow> (string \<times> json) list \<Rightarrow> failure + (string \<times> json) list" where
  "spec_get_many m [] out = Inr out"
| "spec_get_many m (k # ks) out = bindE (storageKey k)
     (\<lambda>k. spec_get_many m ks (case m k of None \<Rightarrow> out | Some v \<Rightarrow> map_set k v out))"

fun spec_delete :: "string list \<Rightarrow> int \<Rightarrow> ('u object_state, int) fop" where
  "spec_delete [] n s = (s, Inr n)"
| "spec_delete (k # ks) n (m, u) = (case storageKey k of
       Inl e \<Rightarrow> ((m, u), Inl e)
     | Inr k \<Rightarrow> spec_delete ks (if m k \<noteq> None then n + 1 else n) (m(k := None), u))"

definition spec_list :: "StorageListOptions \<Rightarrow> (string \<Rightarrow> json option) \<Rightarrow> failure + (string \<times> json) list" where
  "spec_list opts m =
     bindE (list_clauses opts) (\<lambda>clause.
     bindE (list_limit opts) (\<lambda>limit.
     let keys = sorted_list_of_set {k \<in> dom m. clause k} in
     Inr (map (\<lambda>k. (k, the (m k))) (take_limit limit (if slo_reverse opts then rev keys else keys)))))"

fun spec_op :: "StorageOp \<Rightarrow> ('u object_state, StorageReply) fop" where
  "spec_op (OpGet k) (m, u) = ((m, u), bindE (storageKey k) (\<lambda>k. Inr (RValue (m k))))"
| "spec_op (OpGetMany ks) (m, u) = ((m, u), bindE (spec_get_many m ks []) (\<lambda>es. Inr (REntries es)))"
| "spec_op (OpPut i) (m, u) = (case normalizePutEntries i of
       Inl e \<Rightarrow> ((m, u), Inl e)
     | Inr entries \<Rightarrow> bindS (spec_put entries) (\<lambda>_. pureS RDone) (m, u))"
| "spec_op (OpDelete k) (m, u) = (case storageKey k of
       Inl e \<Rightarrow> ((m, u), Inl e) | Inr k \<Rightarrow> ((m(k := None), u), Inr (RDeleted (m k \<noteq> None))))"
| "spec_op (OpDeleteMany ks) (m, u) = bindS (spec_delete ks 0) (\<lambda>n. pureS (RCount n)) (m, u)"
| "spec_op (OpList opts) (m, u) = ((m, u), bindE (spec_list opts m) (\<lambda>es. Inr (REntries es)))"

text \<open>
  A callback on a connection to a map. A query sees the user's tables only; the transactions and
  savepoints it begins or ends hold for the entries too.
\<close>

definition put_tables :: "'u \<Rightarrow> 'u object_state \<Rightarrow> 'u object_state" where
  "put_tables u s = (fst s, u)"

primrec spec_txn :: "'u DurableEnv \<Rightarrow> 'a txn \<Rightarrow> ('u object_state Connection, 'a) fop" where
  "spec_txn D (Finish r) = (\<lambda>k. (k, r))"
| "spec_txn D (Call op f) = (\<lambda>k. case on_tables (spec_op op) k of (k', r) \<Rightarrow> spec_txn D (f r) k')"
| "spec_txn D (Query sql bindings f) =
     (\<lambda>k. case user_sql (de_sql D) snd put_tables False sql bindings k of (k', r) \<Rightarrow> spec_txn D (f r) k')"

definition spec_accepted :: "'u DurableEnv \<Rightarrow> 'u object_state \<Rightarrow> 'u object_state \<Rightarrow> bool" where
  "spec_accepted D = commit_accepted (de_sql D) snd"

text \<open>All or nothing.\<close>

definition atomically :: "('s, 'a) fop \<Rightarrow> ('s, 'a) fop" where
  "atomically m s = (case m s of (s', Inl e) \<Rightarrow> (s, Inl e) | (s', Inr x) \<Rightarrow> (s', Inr x))"

subsection \<open>The simulation\<close>

definition durable_env :: "'u DurableEnv \<Rightarrow> bool" where
  "durable_env D \<longleftrightarrow> volume_env (de_volume D)
     \<and> (\<forall>v f. assertJsonValue v f = Inr () \<longrightarrow> de_parse D (de_stringify D v) = Some v)
     \<and> (\<forall>n. 0 \<le> n \<longrightarrow> n \<le> 9007199254740991 \<longrightarrow> de_number D (show_int n) = Fin (of_int n))
     \<and> (\<exists>u. ve_fresh (de_volume D) = \<lparr>dc_kv = [], dc_meta = [], dc_user = u\<rparr>)"

definition content_ok :: "'u DurableEnv \<Rightarrow> 'u DurableContent \<Rightarrow> bool" where
  "content_ok D c \<longleftrightarrow> distinct (map fst (dc_kv c)) \<and> list_all (\<lambda>r. de_parse D (snd r) \<noteq> None) (dc_kv c)"

definition kv_map :: "'u DurableEnv \<Rightarrow> 'u DurableContent \<Rightarrow> string \<Rightarrow> json option" where
  "kv_map D c k = (case map_of (dc_kv c) k of None \<Rightarrow> None | Some body \<Rightarrow> de_parse D body)"

definition object_state :: "'u DurableEnv \<Rightarrow> 'u DurableContent \<Rightarrow> 'u object_state" where
  "object_state D c = (kv_map D c, dc_user c)"

definition refines :: "'u DurableEnv \<Rightarrow> ('u, 'a) tables_op \<Rightarrow> ('u object_state, 'a) fop \<Rightarrow> bool" where
  "refines D m spec \<longleftrightarrow> (\<forall>c. content_ok D c \<longrightarrow> content_ok D (fst (m c)) \<and> dc_meta (fst (m c)) = dc_meta c
     \<and> (object_state D (fst (m c)), snd (m c)) = spec (object_state D c))"

lemma kv_map_set: "de_parse D body = Some v \<Longrightarrow> kv_map D (c\<lparr>dc_kv := map_set k body (dc_kv c)\<rparr>) = (kv_map D c)(k \<mapsto> v)"
  by (auto simp: kv_map_def map_of_map_set fun_eq_iff)

lemma kv_map_delete: "kv_map D (c\<lparr>dc_kv := filter (\<lambda>e. fst e \<noteq> k) (dc_kv c)\<rparr>) = (kv_map D c)(k := None)"
  by (auto simp: kv_map_def map_of_filter_key fun_eq_iff)

lemma kv_map_None: "content_ok D c \<Longrightarrow> kv_map D c k = None \<longleftrightarrow> map_of (dc_kv c) k = None"
  by (auto simp: kv_map_def content_ok_def list_all_iff split: option.split dest!: map_of_SomeD)

lemma content_ok_set: "content_ok D c \<Longrightarrow> de_parse D body = Some v \<Longrightarrow> content_ok D (c\<lparr>dc_kv := map_set k body (dc_kv c)\<rparr>)"
  using set_map_set [of k body "dc_kv c"] by (auto simp: content_ok_def distinct_map_set list_all_iff)

lemma content_ok_delete: "content_ok D c \<Longrightarrow> content_ok D (c\<lparr>dc_kv := filter (\<lambda>e. fst e \<noteq> k) (dc_kv c)\<rparr>)"
  by (auto simp: content_ok_def list_all_iff distinct_map inj_on_def)

lemma storageKey_Inr: "storageKey k = Inr k' \<Longrightarrow> k' = k"
  by (auto simp: storageKey_def sizedString_def bindE_Inr)

lemma getOne_run:
  assumes "content_ok D c"
  shows "getOne D k c = (c, bindE (storageKey k) (\<lambda>k. Inr (kv_map D c k)))"
proof (cases "storageKey k")
  case (Inr k')
  show ?thesis
  proof (cases "map_of (dc_kv c) k'")
    case (Some body)
    with assms have "de_parse D body \<noteq> None" by (auto simp: content_ok_def list_all_iff dest!: map_of_SomeD)
    with Some Inr show ?thesis by (auto simp: getOne_def kv_map_def)
  qed (simp add: Inr getOne_def kv_map_def)
qed (simp add: getOne_def)

lemma getMany_run:
  assumes "content_ok D c"
  shows "getMany D ks out c = (c, spec_get_many (kv_map D c) ks out)"
proof (induction ks arbitrary: out)
  case (Cons k ks)
  show ?case
  proof (cases "storageKey k")
    case (Inr k')
    then have "storageKey k' = Inr k'" using storageKey_Inr by metis
    with Inr Cons.IH show ?thesis by (simp add: bindS_def getOne_run [OF assms])
  qed simp
qed simp

lemma refines_put:
  assumes "durable_env D" shows "refines D (putEntries D entries) (spec_put entries)"
proof (induction entries)
  case (Cons e entries)
  obtain k v where e: "e = (k, v)" by (cases e)
  show ?case unfolding refines_def
  proof (intro allI impI)
    fix c assume ok: "content_ok D c"
    show "content_ok D (fst (putEntries D (e # entries) c)) \<and> dc_meta (fst (putEntries D (e # entries) c)) = dc_meta c
      \<and> (object_state D (fst (putEntries D (e # entries) c)), snd (putEntries D (e # entries) c))
        = spec_put (e # entries) (object_state D c)"
    proof (cases "storageKey k")
      case key: (Inr k')
      show ?thesis
      proof (cases "assertJsonValue v ''durable object storage value''")
        case (Inr x)
        let ?c = "c\<lparr>dc_kv := map_set k' (de_stringify D v) (dc_kv c)\<rparr>"
        have body: "de_parse D (de_stringify D v) = Some v" using assms Inr by (auto simp: durable_env_def)
        have "putEntries D (e # entries) c = putEntries D entries ?c"
          by (simp add: e key Inr storageJson_def)
        moreover have "spec_put (e # entries) (object_state D c) = spec_put entries (object_state D ?c)"
          using kv_map_set [OF body] by (simp add: e key Inr object_state_def)
        ultimately show ?thesis using Cons.IH content_ok_set [OF ok body] by (simp add: refines_def)
      qed (simp add: e key storageJson_def ok object_state_def)
    qed (simp add: e ok object_state_def)
  qed
qed (simp add: refines_def)

lemma refines_delete_one:
  "content_ok D c \<Longrightarrow> storageKey k = Inr k' \<Longrightarrow>
   deleteOne k c = (c\<lparr>dc_kv := filter (\<lambda>e. fst e \<noteq> k') (dc_kv c)\<rparr>, Inr (kv_map D c k' \<noteq> None))"
  by (simp add: deleteOne_def kv_map_None)

lemma refines_delete_many: "refines D (deleteMany ks n) (spec_delete ks n)"
proof (induction ks arbitrary: n)
  case (Cons k ks)
  show ?case unfolding refines_def
  proof (intro allI impI)
    fix c assume ok: "content_ok D c"
    show "content_ok D (fst (deleteMany (k # ks) n c)) \<and> dc_meta (fst (deleteMany (k # ks) n c)) = dc_meta c
      \<and> (object_state D (fst (deleteMany (k # ks) n c)), snd (deleteMany (k # ks) n c))
        = spec_delete (k # ks) n (object_state D c)"
    proof (cases "storageKey k")
      case (Inl e)
      then show ?thesis by (simp add: deleteOne_def bindS_def ok object_state_def)
    next
      case (Inr k')
      with Cons.IH content_ok_delete [OF ok] refines_delete_one [OF ok Inr] show ?thesis
        by (simp add: bindS_def refines_def object_state_def kv_map_delete)
    qed
  qed
qed (simp add: refines_def)

subsection \<open>Listing\<close>

lemma distinct_map_js_sort [simp]: "distinct (map f (js_sort le xs)) = distinct (map f xs)"
  by (metis mset_map mset_js_sort mset_eq_imp_distinct_iff)

lemma mapE_all: "(\<And>x. x \<in> set xs \<Longrightarrow> f x = Inr (g x)) \<Longrightarrow> mapE f xs = Inr (map g xs)"
  by (induction xs) simp_all

lemma sorted_map_js_sort:
  "sorted (map fst (js_sort (\<lambda>a b. text_le (fst a) (fst b)) rows))"
  "sorted (map fst (rev (js_sort (\<lambda>a b. text_le (fst b) (fst a)) rows)))"
proof -
  have "total_preorder (\<lambda>a b. text_le (fst a) (fst b))" "total_preorder (\<lambda>a b. text_le (fst b) (fst a))"
    by (auto simp: total_preorder_def text_le_def)
  note sorted = this [THEN sorted_js_sort, of rows]
  show "sorted (map fst (js_sort (\<lambda>a b. text_le (fst a) (fst b)) rows))"
    using sorted(1) unfolding sorted_map text_le_def .
  show "sorted (map fst (rev (js_sort (\<lambda>a b. text_le (fst b) (fst a)) rows)))"
    using sorted(2) unfolding sorted_map text_le_def sorted_wrt_rev .
qed

text \<open>The keys a query returns, in its order.\<close>

lemma ordered_keys:
  assumes "distinct (map fst rows)"
  shows "map fst (js_sort (\<lambda>a b. if reverse then text_le (fst b) (fst a) else text_le (fst a) (fst b)) rows)
    = (if reverse then rev (sorted_list_of_set (fst ` set rows)) else sorted_list_of_set (fst ` set rows))"
proof -
  have "map fst (rev (js_sort (\<lambda>a b. text_le (fst b) (fst a)) rows)) = sorted_list_of_set (fst ` set rows)"
    by (rule sorted_distinct_set_unique [OF sorted_map_js_sort(2)]) (simp_all add: assms flip: rev_map)
  then have "map fst (js_sort (\<lambda>a b. text_le (fst b) (fst a)) rows) = rev (sorted_list_of_set (fst ` set rows))"
    by (simp add: rev_swap flip: rev_map)
  moreover have "map fst (js_sort (\<lambda>a b. text_le (fst a) (fst b)) rows) = sorted_list_of_set (fst ` set rows)"
    by (rule sorted_distinct_set_unique [OF sorted_map_js_sort(1)]) (simp_all add: assms)
  ultimately show ?thesis by simp
qed

lemma listed_keys:
  assumes "content_ok D c"
  shows "fst ` set (filter (\<lambda>r. clause (fst r)) (dc_kv c)) = {k \<in> dom (kv_map D c). clause k}"
proof -
  have "dom (kv_map D c) = fst ` set (dc_kv c)"
    using kv_map_None [OF assms] by (auto simp: dom_def map_of_eq_None_iff)
  then show ?thesis by auto
qed

lemma set_take_limit: "set (take_limit n xs) \<subseteq> set xs"
  by (auto simp: take_limit_def split: option.splits dest: in_set_takeD)

lemma map_take_limit: "map f (take_limit n xs) = take_limit n (map f xs)"
  by (simp add: take_limit_def take_map split: option.split)

lemma listValues_run:
  assumes "content_ok D c"
  shows "listValues D opts c = (c, spec_list opts (kv_map D c))"
proof (cases "list_clauses opts")
  case clause: (Inr clause)
  show ?thesis
  proof (cases "list_limit opts")
    case (Inr limit)
    let ?rows = "filter (\<lambda>r. clause (fst r)) (dc_kv c)"
    let ?le = "\<lambda>a b. if slo_reverse opts then text_le (fst b) (fst a) else text_le (fst a) (fst b)"
    let ?ordered = "js_sort ?le ?rows"
    let ?keys = "sorted_list_of_set {k \<in> dom (kv_map D c). clause k}"
    have distinct: "distinct (map fst ?rows)" using assms by (simp add: content_ok_def distinct_map_filter)
    have row: "(case r of (k, body) \<Rightarrow> case de_parse D body of None \<Rightarrow> Inl EngineError | Some v \<Rightarrow> Inr (k, v))
        = Inr (fst r, the (kv_map D c (fst r)))" if "r \<in> set (take_limit limit ?ordered)" for r
    proof -
      have r: "r \<in> set (dc_kv c)" using that set_take_limit [of limit ?ordered] by auto
      have "map_of (dc_kv c) (fst r) = Some (snd r)" using assms r by (simp add: content_ok_def)
      moreover obtain v where "de_parse D (snd r) = Some v" using assms r by (auto simp: content_ok_def list_all_iff)
      ultimately show ?thesis by (simp add: kv_map_def split_beta)
    qed
    have "listValues D opts c = (c, mapE (\<lambda>(k, body). case de_parse D body of None \<Rightarrow> Inl EngineError
        | Some v \<Rightarrow> Inr (k, v)) (take_limit limit ?ordered))"
      by (simp add: listValues_def clause Inr Let_def)
    also have "\<dots> = (c, Inr (map (\<lambda>r. (fst r, the (kv_map D c (fst r)))) (take_limit limit ?ordered)))"
      by (subst mapE_all [OF row]) auto
    also have "map (\<lambda>r. (fst r, the (kv_map D c (fst r)))) (take_limit limit ?ordered)
        = map (\<lambda>k. (k, the (kv_map D c k))) (take_limit limit (map fst ?ordered))"
      by (simp add: map_take_limit [symmetric] o_def)
    also have "map fst ?ordered = (if slo_reverse opts then rev ?keys else ?keys)"
      using ordered_keys [OF distinct] listed_keys [OF assms] by simp
    finally show ?thesis by (simp add: spec_list_def clause Inr Let_def)
  qed (simp add: listValues_def spec_list_def clause)
qed (simp add: listValues_def spec_list_def)

subsection \<open>Every operation and transaction\<close>

lemma refinesD: "refines D m spec \<Longrightarrow> content_ok D c \<Longrightarrow> content_ok D (fst (m c)) \<and> dc_meta (fst (m c)) = dc_meta c
    \<and> (object_state D (fst (m c)), snd (m c)) = spec (object_state D c)"
  by (simp add: refines_def)

lemma refines_pure: "refines D (pureS x) (pureS x)"
  by (simp add: refines_def)

lemma refines_bindS:
  assumes "refines D m spec" and "\<And>x. refines D (f x) (g x)"
  shows "refines D (bindS m f) (bindS spec g)"
  unfolding refines_def
proof (intro allI impI)
  fix c assume ok: "content_ok D c"
  obtain c' r where m: "m c = (c', r)" by fastforce
  note step = refinesD [OF assms(1) ok, unfolded m, simplified]
  show "content_ok D (fst (bindS m f c)) \<and> dc_meta (fst (bindS m f c)) = dc_meta c
      \<and> (object_state D (fst (bindS m f c)), snd (bindS m f c)) = bindS spec g (object_state D c)"
  proof (cases r)
    case (Inl e)
    with m step show ?thesis by (auto simp: bindS_def split: prod.splits sum.splits)
  next
    case (Inr x)
    have "bindS spec g (object_state D c) = g x (object_state D c')"
      using step Inr by (metis bindS_run(2))
    with Inr m step refinesD [OF assms(2) step [THEN conjunct1], of x] show ?thesis by (simp add: bindS_def)
  qed
qed

lemma refines_op:
  assumes "durable_env D" shows "refines D (storage_op D op) (spec_op op)"
  unfolding refines_def
proof (intro allI impI)
  fix c assume ok: "content_ok D c"
  show "content_ok D (fst (storage_op D op c)) \<and> dc_meta (fst (storage_op D op c)) = dc_meta c
    \<and> (object_state D (fst (storage_op D op c)), snd (storage_op D op c)) = spec_op op (object_state D c)"
  proof (cases op)
    case (OpGet k)
    then show ?thesis
      by (cases "storageKey k") (simp_all add: storage_op_def bindS_def getOne_run [OF ok] ok object_state_def)
  next
    case (OpGetMany ks)
    then show ?thesis
      by (cases "spec_get_many (kv_map D c) ks []")
        (simp_all add: storage_op_def bindS_def getMany_run [OF ok] ok object_state_def)
  next
    case (OpPut i)
    show ?thesis
    proof (cases "normalizePutEntries i")
      case (Inr entries)
      with OpPut show ?thesis using refines_bindS [OF refines_put [OF assms, of entries] refines_pure, THEN refinesD, OF ok]
        by (simp add: storage_op_def object_state_def)
    qed (simp add: OpPut storage_op_def ok object_state_def)
  next
    case (OpDelete k)
    show ?thesis
    proof (cases "storageKey k")
      case (Inl e)
      with OpDelete ok show ?thesis by (simp add: storage_op_def deleteOne_def bindS_def object_state_def)
    next
      case (Inr k')
      with OpDelete content_ok_delete [OF ok] refines_delete_one [OF ok Inr] show ?thesis
        by (simp add: storage_op_def bindS_def object_state_def kv_map_delete)
    qed
  next
    case (OpDeleteMany ks)
    then show ?thesis using refines_bindS [OF refines_delete_many [of D ks 0] refines_pure, THEN refinesD, OF ok]
      by (simp add: storage_op_def object_state_def)
  next
    case (OpList opts)
    then show ?thesis
      by (cases "spec_list opts (kv_map D c)")
        (simp_all add: storage_op_def bindS_def listValues_run [OF ok] ok object_state_def)
  qed
qed

subsection \<open>Connections\<close>

text \<open>A connection to the tables, seen as one to a map; every content it holds is well formed and has the same metadata.\<close>

definition map_con :: "('c \<Rightarrow> 'd) \<Rightarrow> 'c Connection \<Rightarrow> 'd Connection" where
  "map_con f k = \<lparr>con_content = f (con_content k), con_stack = map (apsnd f) (con_stack k)\<rparr>"

definition con_ok :: "'u DurableEnv \<Rightarrow> (string \<times> string) list \<Rightarrow> 'u DurableContent Connection \<Rightarrow> bool" where
  "con_ok D meta k \<longleftrightarrow> (\<forall>c \<in> insert (con_content k) (snd ` set (con_stack k)). content_ok D c \<and> dc_meta c = meta)"

definition simulates :: "('s \<Rightarrow> bool) \<Rightarrow> ('s \<Rightarrow> 't) \<Rightarrow> ('s, 'a) fop \<Rightarrow> ('t, 'a) fop \<Rightarrow> bool" where
  "simulates ok f m spec \<longleftrightarrow> (\<forall>s. ok s \<longrightarrow> ok (fst (m s)) \<and> spec (f s) = (f (fst (m s)), snd (m s)))"

abbreviation con_refines :: "'u DurableEnv \<Rightarrow> (string \<times> string) list \<Rightarrow> ('u DurableContent Connection, 'a) fop
    \<Rightarrow> ('u object_state Connection, 'a) fop \<Rightarrow> bool" where
  "con_refines D meta \<equiv> simulates (con_ok D meta) (map_con (object_state D))"

lemma simulatesD: "simulates ok f m spec \<Longrightarrow> ok s \<Longrightarrow> m s = (s', r) \<Longrightarrow> ok s' \<and> spec (f s) = (f s', r)"
  by (force simp: simulates_def)

lemma simulatesI: "(\<And>s s' r. ok s \<Longrightarrow> m s = (s', r) \<Longrightarrow> ok s' \<and> spec (f s) = (f s', r)) \<Longrightarrow> simulates ok f m spec"
  unfolding simulates_def by (metis surjective_pairing)

lemma simulates_lift: "simulates ok f (liftS r) (liftS r)" "simulates ok f (pureS x) (pureS x)"
  by (simp_all add: simulates_def)

lemma simulates_prod:
  assumes "simulates ok f m spec" and "\<And>r. simulates ok f (g r) (h r)"
  shows "simulates ok f (\<lambda>s. case m s of (s', r) \<Rightarrow> g r s') (\<lambda>s. case spec s of (s', r) \<Rightarrow> h r s')"
proof (rule simulatesI)
  fix s s' r assume "ok s" and run: "(case m s of (s', r) \<Rightarrow> g r s') = (s', r)"
  obtain s1 r1 where m: "m s = (s1, r1)" by fastforce
  from simulatesD [OF assms(1) \<open>ok s\<close> m] run m simulatesD [OF assms(2), of s1 r1]
  show "ok s' \<and> (case spec (f s) of (s', r) \<Rightarrow> h r s') = (f s', r)" by simp
qed

lemma simulates_bind:
  assumes "simulates ok f m spec" and "\<And>x. simulates ok f (g x) (h x)"
  shows "simulates ok f (bindS m g) (bindS spec h)"
proof (rule simulatesI)
  fix s s' r assume "ok s" and run: "bindS m g s = (s', r)"
  obtain s1 r1 where m: "m s = (s1, r1)" by fastforce
  with simulatesD [OF assms(1) \<open>ok s\<close> m] run simulatesD [OF assms(2), of s1] show "ok s' \<and> bindS spec h (f s) = (f s', r)"
    by (cases r1) (auto simp: bindS_def)
qed

lemma snd_last_map: "xs \<noteq> [] \<Longrightarrow> snd (last (map (apsnd f) xs)) = f (snd (last xs))"
  by (simp add: last_map)

lemma drop_savepoint: "dropWhile (\<lambda>e. fst e \<noteq> n) (map (apsnd f) xs) = map (apsnd f) (dropWhile (\<lambda>e. fst e \<noteq> n) xs)"
  by (simp add: dropWhile_map o_def)

lemma con_ok_drop: "con_ok D meta k \<Longrightarrow> set xs \<subseteq> set (con_stack k) \<Longrightarrow> con_ok D meta (k\<lparr>con_stack := xs\<rparr>)"
  by (auto simp: con_ok_def)

lemma set_dropWhile: "dropWhile P xs = e # rest \<Longrightarrow> e \<in> set xs \<and> set rest \<subseteq> set xs"
  by (metis list.set_intros set_dropWhileD set_subset_Cons subsetD subsetI)

lemma con_begin: "con_refines D meta begin_transaction begin_transaction"
  by (rule simulatesI) (auto simp: begin_transaction_def con_ok_def map_con_def split: if_splits)

lemma con_rollback: "con_refines D meta rollback_transaction rollback_transaction"
  by (rule simulatesI) (auto simp: rollback_transaction_def con_ok_def map_con_def snd_last_map split: if_splits)

lemma con_commit:
  assumes "\<And>c c'. accepts c c' = accepts' (object_state D c) (object_state D c')"
  shows "con_refines D meta (commit_transaction accepts) (commit_transaction accepts')"
  by (rule simulatesI) (auto simp: commit_transaction_def con_ok_def map_con_def snd_last_map assms split: if_splits)

lemma con_savepoint: "con_refines D meta (set_savepoint n) (set_savepoint n)"
  by (rule simulatesI) (auto simp: set_savepoint_def con_ok_def map_con_def)

lemma con_release:
  assumes "\<And>c c'. accepts c c' = accepts' (object_state D c) (object_state D c')"
  shows "con_refines D meta (release_savepoint accepts n) (release_savepoint accepts' n)"
proof (rule simulatesI)
  fix k k' r assume ok: "con_ok D meta k" and run: "release_savepoint accepts n k = (k', r)"
  show "con_ok D meta k' \<and> release_savepoint accepts' n (map_con (object_state D) k) = (map_con (object_state D) k', r)"
  proof (cases "dropWhile (\<lambda>e. fst e \<noteq> Some n) (con_stack k)")
    case Nil
    with ok run show ?thesis
      by (auto simp: release_savepoint_def map_con_def drop_savepoint simp del: dropWhile_eq_Nil_conv)
  next
    case (Cons e rest)
    then have "con_ok D meta (k\<lparr>con_stack := rest\<rparr>)" using con_ok_drop [OF ok] set_dropWhile by metis
    with Cons run simulatesD [OF con_commit [where accepts = accepts, OF assms] ok] show ?thesis
      by (cases "rest = []") (auto simp: release_savepoint_def map_con_def drop_savepoint)
  qed
qed

lemma con_rollback_to: "con_refines D meta (rollback_to_savepoint n) (rollback_to_savepoint n)"
proof (rule simulatesI)
  fix k k' r assume ok: "con_ok D meta k" and run: "rollback_to_savepoint n k = (k', r)"
  show "con_ok D meta k' \<and> rollback_to_savepoint n (map_con (object_state D) k) = (map_con (object_state D) k', r)"
  proof (cases "dropWhile (\<lambda>e. fst e \<noteq> Some n) (con_stack k)")
    case Nil
    with ok run show ?thesis
      by (auto simp: rollback_to_savepoint_def map_con_def drop_savepoint simp del: dropWhile_eq_Nil_conv)
  next
    case (Cons e rest)
    have "con_ok D meta \<lparr>con_content = snd e, con_stack = e # rest\<rparr>"
      using ok set_dropWhile [OF Cons] unfolding con_ok_def by fastforce
    with Cons run show ?thesis by (auto simp: rollback_to_savepoint_def map_con_def drop_savepoint)
  qed
qed

lemma accepted_state: "commit_accepted E dc_user c c' = commit_accepted E snd (object_state D c) (object_state D c')"
  by (simp add: commit_accepted_def object_state_def)

lemma put_user_state [simp]: "object_state D (put_user u c) = put_tables u (object_state D c)"
    "content_ok D (put_user u c) = content_ok D c" "dc_meta (put_user u c) = dc_meta c"
  by (simp_all add: put_user_def put_tables_def object_state_def kv_map_def content_ok_def fun_eq_iff)

lemma con_effect: "con_refines D meta (sql_effect E dc_user put_user e) (sql_effect E snd put_tables e)"
proof (cases e)
  case (Changed u)
  then show ?thesis by (auto simp: simulates_def sql_effect_def con_ok_def map_con_def)
qed (simp_all add: sql_effect_def con_begin con_commit [where accepts' = "commit_accepted E snd", OF accepted_state]
    con_rollback con_savepoint con_release [where accepts' = "commit_accepted E snd", OF accepted_state] con_rollback_to)

lemma con_on_user: "con_refines D meta (on_user E dc_user put_user statement) (on_user E snd put_tables statement)"
proof (rule simulatesI)
  fix k k' r assume ok: "con_ok D meta k" and run: "on_user E dc_user put_user statement k = (k', r)"
  obtain e x where st: "statement (con_stack k \<noteq> []) (dc_user (con_content k)) = (e, x)" by fastforce
  then have "bindS (sql_effect E dc_user put_user e) (\<lambda>_. liftS x) k = (k', r)" using run by (simp add: on_user_def)
  from simulatesD [OF simulates_bind [OF con_effect simulates_lift(1)] ok this] st
  show "con_ok D meta k' \<and> on_user E snd put_tables statement (map_con (object_state D) k) = (map_con (object_state D) k', r)"
    by (simp add: on_user_def map_con_def object_state_def)
qed

lemma con_exec: "con_refines D meta (sql_exec E dc_user put_user statements) (sql_exec E snd put_tables statements)"
proof (induction statements)
  case Nil
  show ?case using simulates_lift(2) [of _ _ "()"] by (simp only: sql_exec.simps)
next
  case (Cons statement statements)
  then show ?case unfolding sql_exec.simps by (intro simulates_bind con_on_user)
qed

lemma con_query: "con_refines D meta (executeUserSql E False sql bindings) (user_sql E snd put_tables False sql bindings)"
  unfolding executeUserSql_def user_sql_def Let_def
  by (auto intro!: simulates_bind simulates_lift con_on_user con_exec split: prod.split)

lemma con_tables:
  assumes "refines D m spec" shows "con_refines D meta (on_tables m) (on_tables spec)"
proof (rule simulatesI)
  fix k k' r assume ok: "con_ok D meta k" and run: "on_tables m k = (k', r)"
  obtain c x where m: "m (con_content k) = (c, x)" by fastforce
  moreover have "content_ok D (con_content k)" using ok by (simp add: con_ok_def)
  note refinesD [OF assms this, unfolded m, simplified]
  moreover from this have "spec (object_state D (con_content k)) = (object_state D c, x)" by metis
  ultimately show "con_ok D meta k' \<and> on_tables spec (map_con (object_state D) k) = (map_con (object_state D) k', r)"
    using ok run by (auto simp: on_tables_def con_ok_def map_con_def)
qed

lemma con_txn: "durable_env D \<Longrightarrow> con_refines D meta (run_txn D t) (spec_txn D t)"
proof (induction t)
  case (Finish r)
  show ?case by (simp add: simulates_def)
next
  case (Call op f)
  then show ?case by (simp add: simulates_prod [OF con_tables [OF refines_op]])
next
  case (Query sql bindings f)
  then show ?case by (simp add: simulates_prod [OF con_query])
qed

lemma con_immediate:
  assumes "con_refines D meta m spec" and "\<And>c c'. accepts c c' = accepts' (object_state D c) (object_state D c')"
  shows "con_refines D meta (withImmediateTransaction accepts m) (withImmediateTransaction accepts' spec)"
proof -
  let ?body = "\<lambda>accepts m. bindS m (\<lambda>x. bindS (commit_transaction accepts) (\<lambda>_. pureS x))"
  let ?close = "\<lambda>r k. case r of Inr x \<Rightarrow> (k, Inr x) | Inl e \<Rightarrow> (fst (rollback_transaction k), Inl e)"
  have "con_refines D meta (?body accepts m) (?body accepts' spec)"
    by (intro simulates_bind assms(1) con_commit assms(2) simulates_lift)
  moreover have "con_refines D meta (?close r) (?close r)" for r
    using con_rollback [of D meta] by (cases r) (auto simp: simulates_def)
  ultimately have "con_refines D meta (\<lambda>k. case ?body accepts m k of (k', r) \<Rightarrow> ?close r k')
      (\<lambda>k. case ?body accepts' spec k of (k', r) \<Rightarrow> ?close r k')"
    by (rule simulates_prod)
  then have "con_refines D meta (\<lambda>k. case ?body accepts m k of (k', Inr x) \<Rightarrow> (k', Inr x)
        | (k', Inl e) \<Rightarrow> (fst (rollback_transaction k'), Inl e))
      (\<lambda>k. case ?body accepts' spec k of (k', Inr x) \<Rightarrow> (k', Inr x)
        | (k', Inl e) \<Rightarrow> (fst (rollback_transaction k'), Inl e))"
    by (simp add: split_def sum.case_eq_if cong: if_cong)
  then show ?thesis unfolding withImmediateTransaction_def by (intro simulates_bind con_begin)
qed

lemma refines_connection:
  assumes "\<And>meta. con_refines D meta m spec" shows "refines D (on_connection m) (on_connection spec)"
  unfolding refines_def
proof (intro allI impI)
  fix c assume ok: "content_ok D c"
  obtain k r where m: "m \<lparr>con_content = c, con_stack = []\<rparr> = (k, r)" by fastforce
  have "con_ok D (dc_meta c) \<lparr>con_content = c, con_stack = []\<rparr>" using ok by (simp add: con_ok_def)
  from simulatesD [OF assms this m] have k: "con_ok D (dc_meta c) k"
    "spec \<lparr>con_content = object_state D c, con_stack = []\<rparr> = (map_con (object_state D) k, r)" by (simp_all add: map_con_def)
  then show "content_ok D (fst (on_connection m c)) \<and> dc_meta (fst (on_connection m c)) = dc_meta c
      \<and> (object_state D (fst (on_connection m c)), snd (on_connection m c)) = on_connection spec (object_state D c)"
    by (auto simp: on_connection_def m con_ok_def map_con_def snd_last_map)
qed

text \<open>A transaction leaves none behind.\<close>

lemma transaction_ends:
  "withImmediateTransaction accepts m k = (k', r) \<Longrightarrow> con_stack k = [] \<Longrightarrow> con_stack k' = []"
  by (auto simp: withImmediateTransaction_def begin_transaction_def commit_transaction_def rollback_transaction_def
      bindS_def split: prod.splits sum.splits if_splits)

text \<open>An operation on the tables: on its own it just runs, and in a transaction of its own it is atomic.\<close>

lemma on_connection_tables [simp]: "on_connection (on_tables m) = m"
  by (rule ext) (simp add: on_connection_def on_tables_def split_beta)

lemma immediate_tables:
  assumes "\<And>c'. fst (m c) = c' \<Longrightarrow> accepts c c'"
  shows "on_connection (withImmediateTransaction accepts (on_tables m)) c = atomically m c"
proof (cases "m c")
  case (Pair c' r)
  with assms show ?thesis
    by (cases r) (simp_all add: on_connection_def withImmediateTransaction_def begin_transaction_def on_tables_def
        commit_transaction_def rollback_transaction_def atomically_def bindS_def)
qed

lemma user_accepted_state: "user_accepted D c c' = spec_accepted D (object_state D c) (object_state D c')"
  by (simp add: user_accepted_def spec_accepted_def accepted_state)

lemma con_transaction:
  "con_refines D meta m spec \<Longrightarrow>
   con_refines D meta (withImmediateTransaction (user_accepted D) m) (withImmediateTransaction (spec_accepted D) spec)"
  by (rule con_immediate) (simp_all only: user_accepted_state)

subsection \<open>Whole transactions\<close>

text \<open>
  The transaction that was begun is open until the callback ends: after every query the contents to
  which it would go back are the same.
\<close>

primrec stays_open :: "'u DurableEnv \<Rightarrow> 'a txn \<Rightarrow> 'u object_state Connection \<Rightarrow> bool" where
  "stays_open D (Finish r) = (\<lambda>k. True)"
| "stays_open D (Call op f) = (\<lambda>k. case on_tables (spec_op op) k of (k', r) \<Rightarrow> stays_open D (f r) k')"
| "stays_open D (Query sql bindings f) =
     (\<lambda>k. case user_sql (de_sql D) snd put_tables False sql bindings k of (k', r) \<Rightarrow>
        con_stack k' \<noteq> [] \<and> last (con_stack k') = last (con_stack k) \<and> stays_open D (f r) k')"

definition opened :: "'c \<Rightarrow> 'c Connection" where
  "opened c = \<lparr>con_content = c, con_stack = [(None, c)]\<rparr>"

text \<open>What the callback does to the map, and what it returns when the commit is accepted.\<close>

definition spec_callback :: "'u DurableEnv \<Rightarrow> 'a txn \<Rightarrow> ('u object_state, 'a) fop" where
  "spec_callback D t s = (case spec_txn D t (opened s) of (k, r) \<Rightarrow> (con_content k,
     bindE r (\<lambda>x. if spec_accepted D s (con_content k) then Inr x else Inl EngineError)))"

lemma open_stack:
  "stays_open D t k \<Longrightarrow> con_stack k \<noteq> [] \<Longrightarrow> con_stack (fst (spec_txn D t k)) \<noteq> []
     \<and> last (con_stack (fst (spec_txn D t k))) = last (con_stack k)"
  by (induction t arbitrary: k) (fastforce simp: on_tables_def split: prod.splits)+

lemma open_transaction:
  assumes "stays_open D t (opened s)"
  shows "on_connection (withImmediateTransaction (spec_accepted D) (spec_txn D t)) s = atomically (spec_callback D t) s"
proof -
  obtain k r where run: "spec_txn D t (opened s) = (k, r)" by fastforce
  have "con_stack k \<noteq> []" "last (con_stack k) = (None, s)"
    using open_stack [OF assms] run by (simp_all add: opened_def)
  with run show ?thesis
    by (cases r) (simp_all add: on_connection_def withImmediateTransaction_def begin_transaction_def opened_def
        commit_transaction_def rollback_transaction_def atomically_def spec_callback_def bindS_def)
qed

text \<open>A callback without queries.\<close>

primrec only_calls :: "'a txn \<Rightarrow> bool" where
  "only_calls (Finish r) = True"
| "only_calls (Call op f) = (\<forall>r. only_calls (f r))"
| "only_calls (Query sql bindings f) = False"

primrec spec_calls :: "'a txn \<Rightarrow> ('u object_state, 'a) fop" where
  "spec_calls (Finish r) = (\<lambda>s. (s, r))"
| "spec_calls (Call op f) = (\<lambda>s. case spec_op op s of (s', r) \<Rightarrow> spec_calls (f r) s')"
| "spec_calls (Query sql bindings f) = (\<lambda>s. (s, Inl EngineError))"

lemma spec_put_user: "spec_put es s = (s', r) \<Longrightarrow> snd s' = snd s"
  by (induction es s rule: spec_put.induct) (auto split: sum.splits)

lemma spec_delete_user: "spec_delete ks n s = (s', r) \<Longrightarrow> snd s' = snd s"
  by (induction ks n s rule: spec_delete.induct) (auto split: sum.splits)

lemma spec_op_user: "spec_op op s = (s', r) \<Longrightarrow> snd s' = snd s"
  by (cases op; cases s) (auto simp: bindS_def dest: spec_put_user spec_delete_user split: sum.splits prod.splits)

lemma calls_run: "only_calls t \<Longrightarrow> stays_open D t k \<and> spec_txn D t k = on_tables (spec_calls t) k"
proof (induction t arbitrary: k)
  case (Call op f)
  obtain c r where "spec_op op (con_content k) = (c, r)" by fastforce
  with Call.IH [of "f r" "k\<lparr>con_content := c\<rparr>"] Call.prems show ?case
    by (simp add: on_tables_def split: prod.split)
qed (simp_all add: on_tables_def)

lemma calls_user: "snd (fst (spec_calls t s)) = snd s"
proof (induction t arbitrary: s)
  case (Call op f)
  obtain s1 r1 where s1: "spec_op op s = (s1, r1)" by fastforce
  with Call.IH [of "f r1" s1] spec_op_user [OF s1] show ?case by simp
qed simp_all

lemma calls_transaction:
  assumes "only_calls t"
  shows "on_connection (withImmediateTransaction (spec_accepted D) (spec_txn D t)) s = atomically (spec_calls t) s"
proof -
  have "spec_txn D t = on_tables (spec_calls t)" using calls_run [OF assms] by blast
  moreover have "spec_accepted D s c" if "fst (spec_calls t s) = c" for c
    using calls_user [of t s] that by (auto simp: spec_accepted_def commit_accepted_def)
  ultimately show ?thesis using immediate_tables [of "spec_calls t" s "spec_accepted D"] by simp
qed

subsection \<open>Whole calls\<close>

definition identified :: "DurableObjectStorage \<Rightarrow> 'u DurableContent \<Rightarrow> 'u DurableContent" where
  "identified st c = fst (recordObjectIdentity (dos_namespace st) (dos_objectId st) c)"

lemma identity_run: "recordObjectIdentity (dos_namespace st) (dos_objectId st) c = (identified st c, Inr ())"
  by (simp add: identified_def recordObjectIdentity_def split: option.split)

lemma identified_same [simp]:
  "dc_kv (identified st c) = dc_kv c" "dc_user (identified st c) = dc_user c"
  "content_ok D (identified st c) = content_ok D c" "object_state D (identified st c) = object_state D c"
  by (simp_all add: identified_def recordObjectIdentity_def setMetaText_def content_ok_def object_state_def
      kv_map_def fun_eq_iff split: option.split)

definition durable_storage :: "DurableObjectStorage \<Rightarrow> bool" where
  "durable_storage st \<longleftrightarrow> is_sqlite_identifier (dos_databaseId st) \<and> plain_owner (dos_ownerId st)"

lemma durable_object_kind: "is_sqlite_identifier ''durable_object''"
  by code_simp

lemma version_one: "sqlite_nonnegative (Fin 1) ''volume sqlite database schema version'' = Inr 1"
  by code_simp

lemma runExclusive_run:
  assumes env: "volume_env (de_volume D)" and ok: "volume_ok (de_volume D) s" and st: "durable_storage st"
    and m: "on_connection m (identified st (content_at (de_volume D) s (dos_databaseId st))) = (c', r)"
  obtains s' where "runExclusive D st m s = (s', r)" and "volume_ok (de_volume D) s'"
    and "content_at (de_volume D) s' (dos_databaseId st) = c'"
    and "leaves_others (de_volume D) (dos_databaseId st) s s'"
    and "\<And>i. kind_of s' i = (if i = dos_databaseId st then Some ''durable_object'' else kind_of s i)"
proof -
  let ?V = "de_volume D" and ?id = "dos_databaseId st"
  have rid: "is_sqlite_identifier ?id" and owner: "plain_owner (dos_ownerId st)" using st by (simp_all add: durable_storage_def)
  obtain s1 rec where s1: "ensureDatabase ?V \<lparr>edi_id = ?id, edi_kind = Some ''durable_object'',
      edi_ownerId = dos_ownerId st, edi_schemaVersion = Some (Fin 1)\<rparr> s = (s1, Inr rec)"
    and ok1: "volume_ok ?V s1" and at1: "content_at ?V s1 ?id = content_at ?V s ?id" and l1: "leaves_others ?V ?id s s1"
    and k1: "\<And>i. kind_of s1 i = (if i = ?id then Some ''durable_object'' else kind_of s i)"
    by (rule ensureDatabase_run [OF env ok rid durable_object_kind owner version_one]) blast
  let ?cb = "on_content (bindS (recordObjectIdentity (dos_namespace st) (dos_objectId st)) (\<lambda>_. on_connection m))"
  have "?cb (database_at ?V s1 ?id) = ((database_at ?V s1 ?id)\<lparr>sq_content := c'\<rparr>, r)"
    using m at1 by (simp add: on_content_def bindS_def identity_run content_at_def)
  moreover have "kind_of s1 ?id \<noteq> None" using k1 by simp
  ultimately obtain s' where "writeDatabase ?V ?id ?cb s1 = (s', r)" "volume_ok ?V s'"
      "database_at ?V s' ?id = (database_at ?V s1 ?id)\<lparr>sq_content := c'\<rparr>" "leaves_others ?V ?id s1 s'"
      "\<And>i. kind_of s' i = kind_of s1 i"
    using writeDatabase_run [OF env ok1, where cb = ?cb] by blast
  with s1 k1 leaves_trans [OF l1] that [of s'] show thesis
    by (simp add: runExclusive_def bindS_def content_at_def)
qed

text \<open>The volume holds objects: every content is well formed.\<close>

definition objects_ok :: "'u DurableEnv \<Rightarrow> Volume \<Rightarrow> bool" where
  "objects_ok D s \<longleftrightarrow> volume_ok (de_volume D) s \<and> (\<forall>i. content_ok D (content_at (de_volume D) s i))"

definition object_at :: "'u DurableEnv \<Rightarrow> Volume \<Rightarrow> string \<Rightarrow> 'u object_state" where
  "object_at D s rid = object_state D (content_at (de_volume D) s rid)"

definition alarm_at :: "'u DurableEnv \<Rightarrow> Volume \<Rightarrow> string \<Rightarrow> js_date option" where
  "alarm_at D s rid = do_getAlarm D (content_at (de_volume D) s rid)"

lemma leaves_contents: "leaves_others V rid s s' \<Longrightarrow> other \<noteq> rid \<Longrightarrow> content_at V s' other = content_at V s other"
  by (simp add: leaves_others_def content_at_def)

lemma empty_objects_ok: "durable_env D \<Longrightarrow> objects_ok D empty_volume"
  by (auto simp: objects_ok_def durable_env_def content_ok_def)

text \<open>What a call does, from what its callback does to the tables of its object.\<close>

lemma exclusive_call:
  assumes env: "durable_env D" and ok: "objects_ok D s" and st: "durable_storage st"
    and run: "runExclusive D st m s = (s', r)"
    and m: "on_connection m (identified st (content_at (de_volume D) s (dos_databaseId st))) = (c', r')" and c': "content_ok D c'"
  shows "r = r' \<and> content_at (de_volume D) s' (dos_databaseId st) = c' \<and> objects_ok D s'
     \<and> (\<forall>other. other \<noteq> dos_databaseId st \<longrightarrow> content_at (de_volume D) s' other = content_at (de_volume D) s other)
     \<and> (\<forall>i. kind_of s' i = (if i = dos_databaseId st then Some ''durable_object'' else kind_of s i))"
proof -
  have V: "volume_env (de_volume D)" using env by (simp add: durable_env_def)
  have ok': "volume_ok (de_volume D) s" using ok by (simp add: objects_ok_def)
  obtain s2 where s2: "runExclusive D st m s = (s2, r')" "volume_ok (de_volume D) s2"
      "content_at (de_volume D) s2 (dos_databaseId st) = c'"
      "leaves_others (de_volume D) (dos_databaseId st) s s2"
      "\<And>i. kind_of s2 i = (if i = dos_databaseId st then Some ''durable_object'' else kind_of s i)"
    by (rule runExclusive_run [where m = m, OF V ok' st m]) blast
  have "content_ok D (content_at (de_volume D) s2 i)" for i
    using ok c' s2(3) leaves_contents [OF s2(4), of i] by (cases "i = dos_databaseId st") (simp_all add: objects_ok_def)
  with s2 run leaves_contents [OF s2(4)] show ?thesis by (auto simp: objects_ok_def)
qed

lemma refined_call:
  assumes env: "durable_env D" and ok: "objects_ok D s" and st: "durable_storage st" and ref: "refines D (on_connection m) spec"
    and run: "runExclusive D st m s = (s', r)"
  shows "objects_ok D s' \<and> (object_at D s' (dos_databaseId st), r) = spec (object_at D s (dos_databaseId st))
     \<and> alarm_at D s' (dos_databaseId st) = alarm_at D s (dos_databaseId st)
     \<and> (\<forall>other. other \<noteq> dos_databaseId st \<longrightarrow> content_at (de_volume D) s' other = content_at (de_volume D) s other)"
proof -
  let ?c = "identified st (content_at (de_volume D) s (dos_databaseId st))"
  have c: "content_ok D ?c" using ok by (simp add: objects_ok_def)
  obtain c' r' where m: "on_connection m ?c = (c', r')" by fastforce
  note step = refinesD [OF ref c, unfolded m, simplified]
  have meta: "do_getAlarm D c' = alarm_at D s (dos_databaseId st)"
    using step by (simp add: do_getAlarm_def getMetaText_def alarm_at_def identified_def recordObjectIdentity_def
        setMetaText_def alarmMetaKey_def namespaceMetaKey_def objectIdMetaKey_def split: option.split)
  from exclusive_call [OF env ok st run m step [THEN conjunct1]] step meta
  show ?thesis by (simp add: object_at_def alarm_at_def)
qed

lemma storage_refines:
  assumes "durable_env D" and "objects_ok D s" and "durable_storage st"
    and "storage_perform D st op s = (s', r)"
  shows "objects_ok D s' \<and> (object_at D s' (dos_databaseId st), r)
       = atomically (spec_op op) (object_at D s (dos_databaseId st))
     \<and> alarm_at D s' (dos_databaseId st) = alarm_at D s (dos_databaseId st)
     \<and> (\<forall>other. other \<noteq> dos_databaseId st \<longrightarrow> content_at (de_volume D) s' other = content_at (de_volume D) s other)"
proof -
  let ?call = "if writes_kv op then withImmediateTransaction (user_accepted D) (on_tables (storage_op D op))
      else on_tables (storage_op D op)"
  have "refines D (on_connection ?call) (atomically (spec_op op))"
  proof (cases "writes_kv op")
    case False
    then have same: "atomically (spec_op op) = spec_op op"
      by (cases op) (auto simp: writes_kv_def atomically_def fun_eq_iff split: sum.split)
    show ?thesis unfolding same using False refines_op [OF assms(1)] by simp
  next
    case True
    have "spec_accepted D s (fst (spec_op op s))" for s
      using spec_op_user [of op s] by (auto simp: spec_accepted_def commit_accepted_def prod_eq_iff)
    then have "on_connection (withImmediateTransaction (spec_accepted D) (on_tables (spec_op op))) = atomically (spec_op op)"
      using immediate_tables [of "spec_op op" _ "spec_accepted D"] by auto
    with True refines_connection [OF con_transaction [OF con_tables [OF refines_op [OF assms(1)]]]]
    show ?thesis by (metis (full_types))
  qed
  from refined_call [OF assms(1-3) this assms(4) [unfolded storage_perform_def]] show ?thesis .
qed

lemma transaction_runs:
  assumes "durable_env D" and "objects_ok D s" and "durable_storage st"
    and "storage_transaction D st t s = (s', r)"
  shows "objects_ok D s' \<and> (object_at D s' (dos_databaseId st), r)
       = on_connection (withImmediateTransaction (spec_accepted D) (spec_txn D t)) (object_at D s (dos_databaseId st))
     \<and> alarm_at D s' (dos_databaseId st) = alarm_at D s (dos_databaseId st)
     \<and> (\<forall>other. other \<noteq> dos_databaseId st \<longrightarrow> content_at (de_volume D) s' other = content_at (de_volume D) s other)"
  by (rule refined_call [OF assms(1-3) refines_connection [OF con_transaction [OF con_txn [OF assms(1)]]]
        assms(4) [unfolded storage_transaction_def]])

lemma transaction_refines:
  assumes "durable_env D" and "objects_ok D s" and "durable_storage st"
    and "storage_transaction D st t s = (s', r)" and "only_calls t"
  shows "objects_ok D s' \<and> (object_at D s' (dos_databaseId st), r)
       = atomically (spec_calls t) (object_at D s (dos_databaseId st))
     \<and> alarm_at D s' (dos_databaseId st) = alarm_at D s (dos_databaseId st)
     \<and> (\<forall>other. other \<noteq> dos_databaseId st \<longrightarrow> content_at (de_volume D) s' other = content_at (de_volume D) s other)"
  using transaction_runs [OF assms(1-4)] by (simp add: calls_transaction [OF assms(5)])

end
