(* ===== verification/DurableAlarms.thy ===== *)
theory DurableAlarms
  imports DurableObjects
begin

text \<open>
  The alarms of durable objects: the dispatcher (\<open>control-plane/durable-object-alarm-dispatcher.ts\<close>), the
  webhook that handles an alarm and the configuration of the jobs
  (\<open>control-plane/durable-object-alarm-runtime.ts\<close>), and the demo that counts alarms
  (\<open>control-plane/alarm-demo.ts\<close>). Timers are left out. A handler is an operation on the volume.
\<close>

subsection \<open>Dispatch\<close>

record AlarmDispatchError =
  ade_namespace :: string
  ade_objectId :: string
  ade_databaseId :: string
  ade_scheduledTime :: string
  ade_cause :: failure

record AlarmDispatchReport =
  adr_ok :: bool
  adr_checkedAt :: string
  adr_due :: int
  adr_dispatched :: int
  adr_failed :: int
  adr_errors :: "AlarmDispatchError list"

definition resolveNow :: "AlarmTime \<Rightarrow> failure + int" where
  "resolveNow value = (case alarmTimeMs value of
       Inl _ \<Rightarrow> throwF Validation ''durable object alarm dispatcher now must be a finite nonnegative millisecond timestamp''
     | Inr ms \<Rightarrow> Inr ms)"

text \<open>\<open>toISOString\<close> throws a \<open>RangeError\<close> for an invalid date.\<close>

definition date_iso :: "'u DurableEnv \<Rightarrow> js_date \<Rightarrow> failure + string" where
  "date_iso D d = (case d of None \<Rightarrow> Inl EngineError | Some t \<Rightarrow> Inr (de_toISOString D t))"

text \<open>The time values are compared with \<open>===\<close>, which never holds for invalid dates.\<close>

definition clearHandledAlarm :: "'u DurableEnv \<Rightarrow> DurableObjectStorage \<Rightarrow> js_date \<Rightarrow> unit volume" where
  "clearHandledAlarm D st scheduledTime = bindS (storage_getAlarm D st) (\<lambda>current.
     if scheduledTime \<noteq> None \<and> current = Some scheduledTime
     then bindS (storage_deleteAlarm D st) (\<lambda>_. pureS ()) else pureS ())"

type_synonym alarm_handler = "DueAlarm \<Rightarrow> DurableObjectStorage \<Rightarrow> unit volume"

fun dispatch_alarms :: "'u DurableEnv \<Rightarrow> DurableNamespace \<Rightarrow> alarm_handler \<Rightarrow> DueAlarm list
    \<Rightarrow> (int \<times> AlarmDispatchError list) volume" where
  "dispatch_alarms D ns handler [] = pureS (0, [])"
| "dispatch_alarms D ns handler (a # alarms) =
     bindS (liftS (namespace_get D ns (due_objectId a))) (\<lambda>ob.
     bindS (catchS (bindS (handler a (dob_storage ob)) (\<lambda>_.
       clearHandledAlarm D (dob_storage ob) (due_scheduledTime a)))) (\<lambda>r.
     bindS (liftS (case r of Inr _ \<Rightarrow> Inr []
       | Inl e \<Rightarrow> bindE (date_iso D (due_scheduledTime a)) (\<lambda>iso. Inr [\<lparr>ade_namespace = due_namespace a,
           ade_objectId = due_objectId a, ade_databaseId = due_databaseId a, ade_scheduledTime = iso,
           ade_cause = e\<rparr>]))) (\<lambda>failed.
     bindS (dispatch_alarms D ns handler alarms) (\<lambda>(dispatched, errors).
     pureS (if failed = [] then dispatched + 1 else dispatched, failed @ errors)))))"

definition dispatchDurableObjectAlarms :: "'u DurableEnv \<Rightarrow> DurableNamespace \<Rightarrow> alarm_handler \<Rightarrow> AlarmTime
    \<Rightarrow> jnum option \<Rightarrow> AlarmDispatchReport volume" where
  "dispatchDurableObjectAlarms D ns handler now limit =
     bindS (liftS (resolveNow now)) (\<lambda>nowMs.
     bindS (liftS (date_iso D (new_Date nowMs))) (\<lambda>checkedAt.
     bindS (listDueAlarms D ns nowMs (Some (AtNumber (Fin (of_int nowMs)))) limit) (\<lambda>alarms.
     bindS (dispatch_alarms D ns handler alarms) (\<lambda>(dispatched, errors).
     pureS \<lparr>adr_ok = (errors = []), adr_checkedAt = checkedAt, adr_due = int (length alarms),
       adr_dispatched = dispatched, adr_failed = int (length errors), adr_errors = errors\<rparr>))))"

definition isIdleDispatchReport :: "AlarmDispatchReport \<Rightarrow> bool" where
  "isIdleDispatchReport r \<longleftrightarrow> adr_ok r \<and> adr_due r = 0 \<and> adr_dispatched r = 0 \<and> adr_failed r = 0 \<and> adr_errors r = []"

subsection \<open>The webhook\<close>

record AlarmWebhookPayload =
  awp_namespace :: string
  awp_objectId :: string
  awp_databaseId :: string
  awp_scheduledTime :: string

text \<open>\<open>post\<close> stands for the request and whether its response is ok; it fails when the request does.\<close>

definition createDurableObjectAlarmWebhookHandler :: "'u DurableEnv \<Rightarrow> (AlarmWebhookPayload \<Rightarrow> bool volume)
    \<Rightarrow> alarm_handler" where
  "createDurableObjectAlarmWebhookHandler D post = (\<lambda>a st.
     bindS (liftS (date_iso D (due_scheduledTime a))) (\<lambda>iso.
     bindS (post \<lparr>awp_namespace = due_namespace a, awp_objectId = due_objectId a,
       awp_databaseId = due_databaseId a, awp_scheduledTime = iso\<rparr>) (\<lambda>ok.
     liftS (if \<not> ok then Inl EngineError else Inr ()))))"

record AlarmJobConfig =
  ajc_intervalMs :: int
  ajc_namespace :: DurableNamespace
  ajc_url :: string
  ajc_token :: "string option"
  ajc_timeoutMs :: int
  ajc_limit :: "int option"
  ajc_reportIdleTicks :: bool

definition alarm_envInteger :: "string option \<Rightarrow> int option" where
  "alarm_envInteger value = (case value of None \<Rightarrow> None | Some v \<Rightarrow> if trim v = [] then None else parse_int v)"

definition alarm_positiveInteger :: "int option \<Rightarrow> int option \<Rightarrow> int option" where
  "alarm_positiveInteger value fallback = (case value of Some n \<Rightarrow> if 0 < n then Some n else fallback | None \<Rightarrow> fallback)"

definition alarm_csv :: "string option \<Rightarrow> string list" where
  "alarm_csv value = (case value of None \<Rightarrow> []
     | Some v \<Rightarrow> filter (\<lambda>item. item \<noteq> []) (map trim (split_on (CHR '','') v)))"

text \<open>The jobs of the environment; \<open>hasRegistry\<close> is whether a registry was passed.\<close>

definition createConfiguredDurableObjectAlarmDispatcherJobs :: "bool \<Rightarrow> bool option \<Rightarrow> (string \<Rightarrow> string option)
    \<Rightarrow> failure + AlarmJobConfig list" where
  "createConfiguredDurableObjectAlarmDispatcherJobs hasRegistry reportIdle environ =
     (case alarm_positiveInteger (alarm_envInteger (environ ''ODENCTL_DURABLE_OBJECT_ALARM_INTERVAL_MS'')) None of
        None \<Rightarrow> Inr []
      | Some intervalMs \<Rightarrow>
          if \<not> hasRegistry then Inl EngineError else
          let namespaces = alarm_csv (firstNonEmpty [environ ''ODENCTL_DURABLE_OBJECT_ALARM_NAMESPACES'',
                environ ''ODENCTL_DURABLE_OBJECT_ALARM_NAMESPACE'']) in
          if namespaces = [] then Inl EngineError else
          (case firstNonEmpty [environ ''ODENCTL_DURABLE_OBJECT_ALARM_WEBHOOK_URL''] of
             None \<Rightarrow> Inl EngineError
           | Some url \<Rightarrow> mapE (\<lambda>name. bindE (createDurableObjectStorageNamespace name None) (\<lambda>ns.
               Inr \<lparr>ajc_intervalMs = intervalMs, ajc_namespace = ns, ajc_url = url,
                 ajc_token = firstNonEmpty [environ ''ODENCTL_DURABLE_OBJECT_ALARM_WEBHOOK_TOKEN''],
                 ajc_timeoutMs = (case alarm_positiveInteger (alarm_envInteger
                   (environ ''ODENCTL_DURABLE_OBJECT_ALARM_WEBHOOK_TIMEOUT_MS'')) None of Some n \<Rightarrow> n | None \<Rightarrow> 10000),
                 ajc_limit = alarm_positiveInteger (alarm_envInteger (environ ''ODENCTL_DURABLE_OBJECT_ALARM_LIMIT'')) None,
                 ajc_reportIdleTicks = (case reportIdle of Some b \<Rightarrow> b
                   | None \<Rightarrow> environ ''ODENCTL_DURABLE_OBJECT_ALARM_LOG_IDLE_TICKS'' = Some ''1'')\<rparr>)) namespaces))"

subsection \<open>The demo\<close>

definition ALARM_DEMO_NAMESPACE :: string where "ALARM_DEMO_NAMESPACE = ''alarm-demo''"

record AlarmDemoScheduleInput =
  adi_objectName :: "string option"
  adi_message :: "string option"
  adi_delayMs :: "jnum option"
  adi_repeatMs :: "jnum option"
  adi_repeatLimit :: "jnum option"

record AlarmDemoStatus =
  ads_objectName :: string
  ads_objectId :: string
  ads_databaseId :: string
  ads_message :: string
  ads_alarmCount :: rat
  ads_alarmAt :: "string option"
  ads_scheduledAt :: "string option"
  ads_lastAlarmAt :: "string option"
  ads_lastScheduledTime :: "string option"
  ads_repeatMs :: "rat option"
  ads_remainingRepeats :: rat
  ads_updatedAt :: "string option"

definition demoObjectName :: "string \<Rightarrow> failure + string" where
  "demoObjectName value = bindE (guardF (trim value = [] \<or> char_of (0::nat) \<in> set value) Validation
     ''alarm demo objectName must be a non-empty string'') (\<lambda>_. Inr (trim value))"

definition demoMessage :: "string \<Rightarrow> failure + string" where
  "demoMessage value = bindE (guardF (1000 < length value \<or> char_of (0::nat) \<in> set value) Validation
     ''alarm demo message must be a string up to 1000 characters'') (\<lambda>_. Inr value)"

definition resolveNowMs :: "jnum \<Rightarrow> failure + int" where
  "resolveNowMs now = (case alarmTimeMs (AtNumber now) of
       Inl _ \<Rightarrow> throwF Validation ''alarm demo now must be a finite nonnegative millisecond timestamp''
     | Inr ms \<Rightarrow> Inr ms)"

definition alarmDeliveryKey :: "string \<Rightarrow> string" where
  "alarmDeliveryKey scheduledTime = ''alarmDelivery:'' @ scheduledTime"

definition createDemoNamespace :: "failure + DurableNamespace" where
  "createDemoNamespace = createDurableObjectStorageNamespace ALARM_DEMO_NAMESPACE (Some ''alarm-demo'')"

definition stringValue :: "json option \<Rightarrow> string \<Rightarrow> string" where
  "stringValue v fallback = (case v of Some (JStr s) \<Rightarrow> s | _ \<Rightarrow> fallback)"

definition stringOrNull :: "json option \<Rightarrow> string option" where
  "stringOrNull v = (case v of Some (JStr s) \<Rightarrow> Some s | _ \<Rightarrow> None)"

definition numberValue :: "json option \<Rightarrow> rat \<Rightarrow> rat" where
  "numberValue v fallback = (case v of Some (JNum (Fin q)) \<Rightarrow> q | _ \<Rightarrow> fallback)"

definition numberOrNull :: "json option \<Rightarrow> rat option" where
  "numberOrNull v = (case v of Some (JNum (Fin q)) \<Rightarrow> Some q | _ \<Rightarrow> None)"

definition statusFromStorage :: "'u DurableEnv \<Rightarrow> string \<Rightarrow> DurableObject \<Rightarrow> AlarmDemoStatus volume" where
  "statusFromStorage D demoName ob =
     bindS (storage_perform D (dob_storage ob) (OpGetMany [''message'', ''alarmCount'', ''scheduledAt'', ''lastAlarmAt'',
       ''lastScheduledTime'', ''repeatMs'', ''remainingRepeats'', ''updatedAt''])) (\<lambda>r.
     let values = (case r of REntries es \<Rightarrow> map_of es | _ \<Rightarrow> Map.empty) in
     bindS (storage_getAlarm D (dob_storage ob)) (\<lambda>alarm.
     bindS (liftS (case alarm of None \<Rightarrow> Inr None | Some d \<Rightarrow> bindE (date_iso D d) (\<lambda>s. Inr (Some s)))) (\<lambda>alarmAt.
     pureS \<lparr>ads_objectName = demoName, ads_objectId = dob_id ob, ads_databaseId = dob_databaseId ob,
       ads_message = stringValue (values ''message'') ''alarm-demo'',
       ads_alarmCount = numberValue (values ''alarmCount'') 0, ads_alarmAt = alarmAt,
       ads_scheduledAt = stringOrNull (values ''scheduledAt''), ads_lastAlarmAt = stringOrNull (values ''lastAlarmAt''),
       ads_lastScheduledTime = stringOrNull (values ''lastScheduledTime''),
       ads_repeatMs = numberOrNull (values ''repeatMs''),
       ads_remainingRepeats = numberValue (values ''remainingRepeats'') 0,
       ads_updatedAt = stringOrNull (values ''updatedAt'')\<rparr>)))"

text \<open>An awaited operation in a callback that lets its exception through.\<close>

definition await_op :: "StorageOp \<Rightarrow> (StorageReply \<Rightarrow> 'a txn) \<Rightarrow> 'a txn" where
  "await_op op k = Call op (\<lambda>r. case r of Inl e \<Rightarrow> Finish (Inl e) | Inr x \<Rightarrow> k x)"

definition await_get :: "string \<Rightarrow> (json option \<Rightarrow> 'a txn) \<Rightarrow> 'a txn" where
  "await_get key k = await_op (OpGet key) (\<lambda>r. case r of RValue v \<Rightarrow> k v | _ \<Rightarrow> Finish (Inl EngineError))"

definition schedule_callback :: "string \<Rightarrow> string \<Rightarrow> string \<Rightarrow> json \<Rightarrow> int \<Rightarrow> string \<Rightarrow> unit txn" where
  "schedule_callback demoName message scheduledAt repeatMs repeatLimit updatedAt =
     (case demoMessage message of
        Inl e \<Rightarrow> Finish (Inl e)
      | Inr message \<Rightarrow> await_op (OpPut (PutObject (JObj [(''objectName'', JStr demoName), (''message'', JStr message),
            (''scheduledAt'', JStr scheduledAt), (''repeatMs'', repeatMs), (''remainingRepeats'', JInt repeatLimit),
            (''updatedAt'', JStr updatedAt)]))) (\<lambda>_.
          await_get ''alarmCount'' (\<lambda>v. if v = None
            then await_op (OpPut (PutOne ''alarmCount'' (JInt 0))) (\<lambda>_. Finish (Inr ())) else Finish (Inr ()))))"

definition readAlarmDemoStatus :: "'u DurableEnv \<Rightarrow> string \<Rightarrow> AlarmDemoStatus volume" where
  "readAlarmDemoStatus D name =
     bindS (liftS createDemoNamespace) (\<lambda>ns.
     bindS (liftS (demoObjectName name)) (\<lambda>name.
     bindS (liftS (idFromName D ns name)) (\<lambda>oid.
     bindS (liftS (namespace_get D ns oid)) (\<lambda>ob.
     statusFromStorage D name ob))))"

definition scheduleAlarmDemo :: "'u DurableEnv \<Rightarrow> jnum \<Rightarrow> AlarmDemoScheduleInput \<Rightarrow> AlarmDemoStatus volume" where
  "scheduleAlarmDemo D nowMs i =
     bindS (liftS createDemoNamespace) (\<lambda>ns.
     bindS (liftS (demoObjectName (case adi_objectName i of Some n \<Rightarrow> n | None \<Rightarrow> ''heartbeat''))) (\<lambda>name.
     bindS (liftS (idFromName D ns name)) (\<lambda>oid.
     bindS (liftS (namespace_get D ns oid)) (\<lambda>ob.
     bindS (liftS (resolveNowMs nowMs)) (\<lambda>now.
     bindS (liftS (liftF (sqlite_nonnegative (case adi_delayMs i of Some n \<Rightarrow> n | None \<Rightarrow> Fin 1000)
       ''alarm demo delayMs''))) (\<lambda>delayMs.
     bindS (liftS (liftF (case adi_repeatMs i of None \<Rightarrow> Inr JNull
       | Some n \<Rightarrow> bindE (sqlite_positive n ''alarm demo repeatMs'') (\<lambda>r. Inr (JInt r))))) (\<lambda>repeatMs.
     bindS (liftS (liftF (sqlite_nonnegative (case adi_repeatLimit i of Some n \<Rightarrow> n | None \<Rightarrow> Fin 0)
       ''alarm demo repeatLimit''))) (\<lambda>repeatLimit.
     bindS (liftS (date_iso D (new_Date (now + delayMs)))) (\<lambda>scheduledAt.
     bindS (liftS (date_iso D (new_Date now))) (\<lambda>updatedAt.
     bindS (storage_transaction D (dob_storage ob) (schedule_callback name
       (case adi_message i of Some m \<Rightarrow> m | None \<Rightarrow> ''alarm-demo'') scheduledAt repeatMs repeatLimit updatedAt)) (\<lambda>_.
     bindS (storage_setAlarm D (dob_storage ob) (AtDate (de_parseDate D scheduledAt))) (\<lambda>_.
     readAlarmDemoStatus D name))))))))))))"

text \<open>
  The callback of a delivery. It returns the object's name and the next alarm, which the code keeps in
  variables around it. The keys hold what the two functions of the demo wrote: a value of another type
  ends the model's callback with \<open>EngineError\<close>.
\<close>

definition number_or_zero :: "json option \<Rightarrow> rat option" where
  "number_or_zero v = (case v of None \<Rightarrow> Some 0 | Some JNull \<Rightarrow> Some 0 | Some (JNum (Fin q)) \<Rightarrow> Some q | _ \<Rightarrow> None)"

definition repeats :: "json option \<Rightarrow> rat \<Rightarrow> bool" where
  "repeats repeatMs remains = (case repeatMs of Some (JNum (Fin r)) \<Rightarrow> r \<noteq> 0 \<and> 0 < remains | _ \<Rightarrow> False)"

definition next_alarm :: "'u DurableEnv \<Rightarrow> int \<Rightarrow> json option \<Rightarrow> rat \<Rightarrow> failure + string option" where
  "next_alarm D scheduledMs repeatMs remains = (if \<not> repeats repeatMs remains then Inr None
     else bindE (date_iso D (case repeatMs of Some v \<Rightarrow> (case isInteger v of
         Some r \<Rightarrow> new_Date (scheduledMs + r) | None \<Rightarrow> None) | None \<Rightarrow> None)) (\<lambda>s. Inr (Some s)))"

definition delivery_entries :: "string \<Rightarrow> string \<Rightarrow> rat \<Rightarrow> rat \<Rightarrow> string option \<Rightarrow> (string \<times> json) list" where
  "delivery_entries firedAt scheduled alarmCount remaining nextAlarmAt =
     [(''alarmCount'', JNum (Fin alarmCount)), (''lastAlarmAt'', JStr firedAt), (''lastScheduledTime'', JStr scheduled),
      (''remainingRepeats'', JNum (Fin remaining)), (''updatedAt'', JStr firedAt),
      (alarmDeliveryKey scheduled, JBool True)]
     @ (case nextAlarmAt of Some n \<Rightarrow> [(''scheduledAt'', JStr n)] | None \<Rightarrow> [])"

definition first_delivery :: "'u DurableEnv \<Rightarrow> string \<Rightarrow> int \<Rightarrow> string \<Rightarrow> string \<Rightarrow> (string \<times> string option) txn" where
  "first_delivery D demoName scheduledMs scheduled firedAt =
     await_get ''alarmCount'' (\<lambda>stored.
     await_get ''repeatMs'' (\<lambda>repeatMs.
     await_get ''remainingRepeats'' (\<lambda>remaining.
     case (number_or_zero stored, number_or_zero remaining) of
       (Some alarmCount, Some remains) \<Rightarrow> (case next_alarm D scheduledMs repeatMs remains of
           Inl e \<Rightarrow> Finish (Inl e)
         | Inr nextAlarmAt \<Rightarrow> await_op (OpPut (PutObject (JObj (delivery_entries firedAt scheduled (alarmCount + 1)
               (if repeats repeatMs remains then remains - 1 else remains) nextAlarmAt))))
             (\<lambda>_. Finish (Inr (demoName, nextAlarmAt))))
     | _ \<Rightarrow> Finish (Inl EngineError))))"

definition delivery_callback :: "'u DurableEnv \<Rightarrow> string \<Rightarrow> int \<Rightarrow> string \<Rightarrow> (string \<times> string option) txn" where
  "delivery_callback D oid scheduledMs firedAt =
     await_get ''objectName'' (\<lambda>name.
     case date_iso D (new_Date scheduledMs) of
       Inl e \<Rightarrow> Finish (Inl e)
     | Inr scheduled \<Rightarrow> await_get (alarmDeliveryKey scheduled) (\<lambda>delivered.
         let demoName = (case name of Some (JStr s) \<Rightarrow> s | _ \<Rightarrow> oid) in
         if delivered = Some (JBool True) then Finish (Inr (demoName, None))
         else first_delivery D demoName scheduledMs scheduled firedAt))"

definition handleAlarmDemoWebhook :: "'u DurableEnv \<Rightarrow> jnum \<Rightarrow> AlarmWebhookPayload \<Rightarrow> AlarmDemoStatus volume" where
  "handleAlarmDemoWebhook D nowMs i =
     bindS (liftS (guardF (awp_namespace i \<noteq> ALARM_DEMO_NAMESPACE) Validation
       (''alarm demo namespace must be '' @ ALARM_DEMO_NAMESPACE))) (\<lambda>_.
     bindS (liftS (case de_parseDate D (awp_scheduledTime i) of
       Some ms \<Rightarrow> Inr ms | None \<Rightarrow> throwF Validation ''alarm demo scheduledTime must be an ISO timestamp'')) (\<lambda>scheduledMs.
     bindS (liftS createDemoNamespace) (\<lambda>ns.
     bindS (liftS (namespace_get D ns (awp_objectId i))) (\<lambda>ob.
     bindS (liftS (resolveNowMs nowMs)) (\<lambda>now.
     bindS (liftS (date_iso D (new_Date now))) (\<lambda>firedAt.
     bindS (storage_transaction D (dob_storage ob) (delivery_callback D (awp_objectId i) scheduledMs firedAt))
       (\<lambda>(demoName, nextAlarmAt).
     bindS (case nextAlarmAt of None \<Rightarrow> pureS ()
       | Some n \<Rightarrow> storage_setAlarm D (dob_storage ob) (AtDate (de_parseDate D n))) (\<lambda>_.
     statusFromStorage D demoName ob))))))))"

end
