(* ===== verification/DurableGuarantees.thy ===== *)
theory DurableGuarantees
  imports DurableLaws DurableAlarms "HOL-Library.Countable"
begin

text \<open>
  What durable objects promise: their storage is a map, their transactions are atomic, a listing by
  prefix and the list of due alarms are exact, and the demo counts every alarm once. The platform on
  which the witnesses run is at the start.
\<close>

subsection \<open>A platform\<close>

instance jnum :: countable by countable_datatype
instance json :: countable by countable_datatype

lemma digits_value_snoc: "digits_value (s @ [c]) = 10 * digits_value s + (of_char c - 48)"
  by (simp add: digits_value_def)

lemma digit_char: "n < 10 \<Longrightarrow> (of_char (char_of (48 + n) :: char) :: nat) = 48 + n"
  by (simp add: of_char_of)

lemma nat_digits_value: "digits_value (nat_digits n) = n \<and> list_all is_digit (nat_digits n) \<and> nat_digits n \<noteq> []"
proof (induction n rule: nat_digits.induct)
  case (1 n)
  have d: "is_digit (char_of (48 + n mod 10))"
    by (simp add: is_digit_def char_between_def digit_char)
  show ?case
  proof (cases "n < 10")
    case True
    with d show ?thesis by (simp add: nat_digits.simps [of n] digits_value_def digit_char)
  next
    case False
    then have "nat_digits n = nat_digits (n div 10) @ [char_of (48 + n mod 10)]" by (subst nat_digits.simps) simp
    with 1 [OF False] d show ?thesis by (simp add: digits_value_snoc digit_char)
  qed
qed

lemma digit_codes: "is_digit c \<Longrightarrow> 48 \<le> (of_char c :: nat) \<and> (of_char c :: nat) \<le> 57"
  by (simp add: is_digit_def char_between_def)

lemma digit_plain: "is_digit c \<Longrightarrow> \<not> js_ws c \<and> c \<noteq> CHR ''-'' \<and> c \<noteq> CHR ''+''"
  using digit_codes [of c] by (auto simp: js_ws_def Let_def)

lemma parse_show_int [simp]: "parse_int (show_int n) = Some n"
proof -
  let ?ds = "nat_digits (nat \<bar>n\<bar>)"
  have ds: "digits_value ?ds = nat \<bar>n\<bar>" "list_all is_digit ?ds" "?ds \<noteq> []" using nat_digits_value by auto
  obtain c cs where cs: "?ds = c # cs" using ds(3) by (cases ?ds) auto
  have c: "\<not> js_ws c" "c \<noteq> CHR ''-''" "c \<noteq> CHR ''+''" using ds(2) cs digit_plain by auto
  have all: "takeWhile is_digit ?ds = ?ds" using ds(2) by (simp add: takeWhile_eq_all_conv list_all_iff)
  show ?thesis
  proof (cases "n < 0")
    case True
    then have s: "show_int n = CHR ''-'' # ?ds" by (simp add: show_int_def)
    have "\<not> js_ws (CHR ''-'')" by code_simp
    with s all ds True show ?thesis by (simp add: parse_int_def Let_def del: takeWhile_eq_all_conv)
  next
    case False
    then have "show_int n = ?ds" by (simp add: show_int_def)
    moreover have "takeWhile is_digit cs = cs" using all cs ds(2) by (simp del: takeWhile_eq_all_conv)
    ultimately show ?thesis using c cs ds False
      by (simp add: parse_int_def Let_def del: takeWhile_eq_all_conv)
  qed
qed

text \<open>
  Values and database files are encoded as numbers in unary, dates as decimal numbers. The SQL engine
  knows \<open>commit\<close> and \<open>rollback\<close> and answers every other statement with nothing.
\<close>

definition ex_encode :: "'a::countable \<Rightarrow> string" where
  "ex_encode x = replicate (to_nat x) (CHR ''1'')"

definition ex_decode :: "string \<Rightarrow> 'a::countable" where
  "ex_decode s = from_nat (length s)"

lemma ex_decode_encode [simp]: "ex_decode (ex_encode x) = x"
  by (simp add: ex_decode_def ex_encode_def)

definition ex_sqlite :: "unit DurableContent Sqlite \<Rightarrow> (string \<times> string) list \<times> (string \<times> string) list \<times> int" where
  "ex_sqlite db = (dc_kv (sq_content db), dc_meta (sq_content db), sq_userVersion db)"

definition ex_unsqlite :: "(string \<times> string) list \<times> (string \<times> string) list \<times> int \<Rightarrow> unit DurableContent Sqlite" where
  "ex_unsqlite x = (case x of (kv, meta, v) \<Rightarrow>
     \<lparr>sq_content = \<lparr>dc_kv = kv, dc_meta = meta, dc_user = ()\<rparr>, sq_userVersion = v\<rparr>)"

lemma ex_unsqlite_sqlite [simp]: "ex_unsqlite (ex_sqlite db) = db"
  by (cases db; cases "sq_content db") (simp add: ex_sqlite_def ex_unsqlite_def)

definition ex_volume_env :: "unit DurableContent VolumeEnv" where
  "ex_volume_env = \<lparr>ve_fresh = \<lparr>dc_kv = [], dc_meta = [], dc_user = ()\<rparr>,
     ve_open = (\<lambda>bytes. Some (ex_unsqlite (ex_decode bytes))), ve_image = (\<lambda>db. ex_encode (ex_sqlite db)),
     ve_now = (\<lambda>n. ''2026-01-01T00:00:0'' @ nat_digits n), ve_parseDate = (\<lambda>_. None), ve_resolve = (\<lambda>p. p),
     ve_random = (\<lambda>n. replicate 12 (CHR ''r'')), ve_suffix = nat_digits, ve_toBase64url = (\<lambda>s. s),
     ve_fromBase64url = (\<lambda>s. s), ve_rootDir = ''/volume'', ve_maxOpen = 64, ve_maxBackups = None,
     ve_retentionMs = None, ve_cipher = None\<rparr>"

definition ex_durable :: "unit DurableEnv" where
  "ex_durable = \<lparr>de_stringify = ex_encode, de_parse = (\<lambda>s. Some (ex_decode s)),
     de_number = (\<lambda>s. case parse_int s of Some i \<Rightarrow> Fin (of_int i) | None \<Rightarrow> NaN),
     de_sha256Hex = (\<lambda>s. replicate 64 (CHR ''a'')), de_toISOString = show_int, de_parseDate = parse_int,
     de_localeLe = text_le, de_sql = \<lparr>sql_all = (\<lambda>sql bs b u. (Changed u, Inr [])), sql_statements = (\<lambda>sql. [sql]),
       sql_run = (\<lambda>sql bs b u. (if sql = ''commit'' then Committed else if sql = ''rollback'' then RolledBack
         else Changed u, Inr (0, 0))), sql_commits = (\<lambda>u v. True)\<rparr>, de_volume = ex_volume_env\<rparr>"

lemma ex_durable_env: "durable_env ex_durable"
  by (simp add: durable_env_def ex_durable_def volume_env_def ex_volume_env_def)

definition ex_storage :: DurableObjectStorage where
  "ex_storage = \<lparr>dos_databaseId = ''do_1'', dos_ownerId = None, dos_namespace = Some ''rooms'', dos_objectId = Some ''one''\<rparr>"

lemma ex_storage_durable: "durable_storage ex_storage"
  by code_simp

subsection \<open>Storage and transactions\<close>

text \<open>
  C19. The storage of an object is a finite map. Whatever operation is called, in whatever state the
  volume is, it returns and does exactly what the specification on a map returns and does, all or nothing
  when it fails part of the way, and it leaves the contents of every other database alone.
\<close>

theorem storage_is_a_map:
  assumes "durable_env D" and "objects_ok D s" and "durable_storage st"
    and "storage_perform D st op s = (s', r)"
  shows "objects_ok D s' \<and> (object_at D s' (dos_databaseId st), r)
       = atomically (spec_op op) (object_at D s (dos_databaseId st))
     \<and> alarm_at D s' (dos_databaseId st) = alarm_at D s (dos_databaseId st)
     \<and> (\<forall>other. other \<noteq> dos_databaseId st \<longrightarrow> content_at (de_volume D) s' other = content_at (de_volume D) s other)"
  by (rule storage_refines [OF assms])


lemma ex_object_fresh: "object_at ex_durable empty_volume rid = (\<lambda>_. None, ())"
  by (simp add: object_at_def object_state_def ex_durable_def ex_volume_env_def kv_map_def fun_eq_iff)

theorem storage_is_a_map_witness:
  "let put = storage_perform ex_durable ex_storage (OpPut (PutMap [(''a'', JNull), (''b'', JNum NaN)])) empty_volume;
       good = storage_perform ex_durable ex_storage (OpPut (PutOne ''a'' JNull)) empty_volume in
   (object_at ex_durable (fst put) ''do_1'') = (\<lambda>_. None, ())
   \<and> fst (object_at ex_durable (fst good) ''do_1'') = (\<lambda>_. None)(''a'' \<mapsto> JNull) \<and> snd good = Inr RDone"
proof -
  have keys: "storageKey ''a'' = Inr ''a''" "storageKey ''b'' = Inr ''b''" by code_simp+
  note run = storage_is_a_map [OF ex_durable_env empty_objects_ok [OF ex_durable_env] ex_storage_durable
      surjective_pairing, unfolded ex_object_fresh]
  show ?thesis
    using run [of "OpPut (PutMap [(''a'', JNull), (''b'', JNum NaN)])"] run [of "OpPut (PutOne ''a'' JNull)"]
    by (simp add: Let_def atomically_def normalizePutEntries_def bindS_def keys ex_object_fresh ex_storage_def
        guardF_def throwF_def throwC_def split: prod.splits)
qed



lemma ex_statements: "nonEmptySql ''insert'' = Inr ''insert''" "nonEmptySql ''commit'' = Inr ''commit''"
    "assertNoReservedStorageTable ''insert'' = Inr ()" "assertNoReservedStorageTable ''commit'' = Inr ()"
    "isReadSql ''insert'' = False" "isReadSql ''commit'' = False" "hasMultipleSqlStatements ''commit'' = False"
  by code_simp+

lemma ex_put_keys: "storageKey ''a'' = Inr ''a''" "storageKey ''b'' = Inr ''b''"
  by code_simp+



text \<open>
  A query of the callback may be \<open>COMMIT\<close>: the code does not refuse it. What was written before it stays
  when the callback throws afterwards.
\<close>

definition ex_committing :: "unit txn" where
  "ex_committing = Call (OpPut (PutOne ''a'' JNull)) (\<lambda>_. Query ''commit'' [] (\<lambda>_. Finish (Inl EngineError)))"

lemma committed_writes_stay:
  "let ended = storage_transaction ex_durable ex_storage ex_committing empty_volume in
   snd ended = Inl EngineError \<and> fst (object_at ex_durable (fst ended) ''do_1'') = (\<lambda>_. None)(''a'' \<mapsto> JNull)"
proof -
  have "user_sql (de_sql ex_durable) snd put_tables False ''commit'' [] k
      = (case commit_transaction (commit_accepted (de_sql ex_durable) snd) k of
           (k', Inl e) \<Rightarrow> (k', Inl e) | (k', Inr x) \<Rightarrow> (k', Inr (sql_cursor [] (Some 0) (Some 0))))" for k
    by (simp add: user_sql_def ex_statements on_user_def sql_effect_def ex_durable_def bindS_def split: prod.split sum.split)
  then show ?thesis
    using transaction_runs [OF ex_durable_env empty_objects_ok [OF ex_durable_env] ex_storage_durable surjective_pairing,
      unfolded ex_object_fresh, of ex_committing]
    by (simp add: Let_def ex_committing_def ex_storage_def on_connection_def withImmediateTransaction_def bindS_def
        begin_transaction_def on_tables_def normalizePutEntries_def ex_put_keys guardF_def commit_transaction_def
        rollback_transaction_def commit_accepted_def split: prod.splits)
qed

subsection \<open>Listing by prefix\<close>

lemma prefix_range: "p \<le> k \<and> k < p @ u \<longleftrightarrow> (\<exists>rest. k = p @ rest \<and> rest < u)" for p :: string
proof (induction p arbitrary: k)
  case (Cons c p)
  then show ?case by (cases k) auto
qed simp

definition prefix_only :: "string \<Rightarrow> StorageListOptions" where
  "prefix_only p = \<lparr>slo_prefix = Some p, slo_start = None, slo_end = None, slo_limit = None, slo_reverse = False\<rparr>"

text \<open>
  C24. Listing an object by a prefix returns, in ascending order and with their values, exactly the
  stored keys that continue the prefix with something below the character U+FFFF.
\<close>

theorem prefix_listing_is_exact:
  assumes "durable_env D" and "objects_ok D s" and "durable_storage st" and "length p \<le> 2048"
    and "storage_perform D st (OpList (prefix_only p)) s = (s', r)"
  shows "\<exists>es. r = Inr (REntries es) \<and> sorted (map fst es) \<and> distinct (map fst es)
     \<and> (\<forall>k v. (k, v) \<in> set es \<longleftrightarrow> fst (object_at D s (dos_databaseId st)) k = Some v
          \<and> (\<exists>rest. k = p @ rest \<and> rest < last_code_unit))"
proof -
  let ?m = "fst (object_at D s (dos_databaseId st))"
  let ?K = "{k \<in> dom ?m. text_le p k \<and> \<not> text_le (p @ last_code_unit) k}"
  have "finite (dom ?m)"
  proof -
    have ok: "content_ok D (content_at (de_volume D) s (dos_databaseId st))" using assms(2) by (simp add: objects_ok_def)
    have "dom ?m = fst ` set (dc_kv (content_at (de_volume D) s (dos_databaseId st)))"
      using listed_keys [OF ok, of "\<lambda>_. True"] by (simp add: object_at_def object_state_def)
    then show ?thesis by simp
  qed
  then have fin: "finite ?K" by simp
  have K: "k \<in> ?K \<longleftrightarrow> ?m k \<noteq> None \<and> (\<exists>rest. k = p @ rest \<and> rest < last_code_unit)" for k
    using prefix_range [of p k last_code_unit] by (auto simp: text_le_def not_le)
  have "spec_list (prefix_only p) ?m = Inr (map (\<lambda>k. (k, the (?m k))) (sorted_list_of_set ?K))"
    using assms(4) by (simp add: spec_list_def list_clauses_def list_limit_def optional_clause_def prefix_only_def
        storageKeyBoundary_def maxKeyBytes_def take_limit_def guardF_def)
  then have r: "r = Inr (REntries (map (\<lambda>k. (k, the (?m k))) (sorted_list_of_set ?K)))"
    using storage_refines [OF assms(1-3,5)]
    by (cases "object_at D s (dos_databaseId st)") (simp add: atomically_def)
  have mem: "(k, v) \<in> set (map (\<lambda>k. (k, the (?m k))) (sorted_list_of_set ?K)) \<longleftrightarrow>
      ?m k = Some v \<and> (\<exists>rest. k = p @ rest \<and> rest < last_code_unit)" for k v
    using K [of k] fin by auto
  show ?thesis
    by (intro exI conjI, rule r) (simp_all only: mem, simp_all add: o_def)
qed

text \<open>
  An astral character sorts after U+FFFF, so a key that continues the prefix with one is not listed: of two
  stored keys with the prefix, the listing has one.
\<close>

definition ex_astral :: string where
  "ex_astral = ''a'' @ [char_of (240::nat), char_of (159::nat), char_of (152::nat), char_of (128::nat)]"

definition ex_listed :: Volume where
  "ex_listed = fst (storage_perform ex_durable ex_storage (OpPut (PutMap [(''ab'', JNull), (ex_astral, JNull)])) empty_volume)"

lemma ex_keys: "storageKey ''ab'' = Inr ''ab''" "storageKey ex_astral = Inr ex_astral"
  by code_simp+

lemma ex_listed_state:
  "objects_ok ex_durable ex_listed
   \<and> fst (object_at ex_durable ex_listed ''do_1'') = (\<lambda>_. None)(''ab'' \<mapsto> JNull, ex_astral \<mapsto> JNull)"
  using storage_refines [OF ex_durable_env empty_objects_ok [OF ex_durable_env] ex_storage_durable surjective_pairing,
      of "OpPut (PutMap [(''ab'', JNull), (ex_astral, JNull)])"]
  by (simp add: ex_listed_def ex_object_fresh atomically_def normalizePutEntries_def bindS_def ex_keys
      ex_storage_def split: prod.splits)

theorem prefix_listing_is_exact_witness:
  "\<exists>es. snd (storage_perform ex_durable ex_storage (OpList (prefix_only ''a'')) ex_listed) = Inr (REntries es)
     \<and> (''ab'', JNull) \<in> set es \<and> (ex_astral, JNull) \<notin> set es
     \<and> fst (object_at ex_durable ex_listed ''do_1'') ex_astral = Some JNull"
proof -
  have b: "''b'' < last_code_unit" and astral: "\<not> tl ex_astral < last_code_unit" and diff: "''ab'' \<noteq> ex_astral"
    by code_simp+
  have split: "ex_astral = CHR ''a'' # rest \<longleftrightarrow> rest = tl ex_astral" for rest by (auto simp: ex_astral_def)
  obtain es where es: "snd (storage_perform ex_durable ex_storage (OpList (prefix_only ''a'')) ex_listed) = Inr (REntries es)"
    and mem: "\<And>k v. (k, v) \<in> set es \<longleftrightarrow> fst (object_at ex_durable ex_listed ''do_1'') k = Some v
          \<and> (\<exists>rest. k = ''a'' @ rest \<and> rest < last_code_unit)"
    using prefix_listing_is_exact [OF ex_durable_env ex_listed_state [THEN conjunct1] ex_storage_durable _ surjective_pairing,
        of "''a''"] by (auto simp: ex_storage_def)
  have "(''ab'', JNull) \<in> set es" using b diff by (simp add: mem ex_listed_state)
  moreover have "(ex_astral, JNull) \<notin> set es" using astral by (simp add: mem split)
  ultimately show ?thesis using es by (simp add: ex_listed_state)
qed

subsection \<open>Due alarms\<close>

text \<open>Reading an object through the queue changes nothing an object can see.\<close>

definition same_objects :: "'u DurableEnv \<Rightarrow> Volume \<Rightarrow> Volume \<Rightarrow> bool" where
  "same_objects D s s' \<longleftrightarrow> (\<forall>i. content_at (de_volume D) s' i = content_at (de_volume D) s i)
     \<and> (\<forall>i. kind_of s' i = kind_of s i)"

lemma read_object_run:
  assumes "durable_env D" and "objects_ok D s" and "kind_of s rid \<noteq> None"
  obtains s' where "writeDatabase (de_volume D) rid (on_content (askS f)) s
      = (s', Inr (f (content_at (de_volume D) s rid)))"
    and "objects_ok D s'" and "same_objects D s s'"
proof -
  let ?V = "de_volume D"
  have V: "volume_env ?V" "volume_ok ?V s" using assms by (simp_all add: durable_env_def objects_ok_def)
  have cb: "on_content (askS f) (database_at ?V s rid) = (database_at ?V s rid, Inr (f (content_at ?V s rid)))"
    by (simp add: on_content_def content_at_def)
  obtain s' where s': "writeDatabase ?V rid (on_content (askS f)) s = (s', Inr (f (content_at ?V s rid)))"
      "volume_ok ?V s'" "database_at ?V s' rid = database_at ?V s rid" "leaves_others ?V rid s s'"
      "\<And>i. kind_of s' i = kind_of s i"
    by (rule writeDatabase_run [where cb = "on_content (askS f)", OF V assms(3) cb]) blast
  have "content_at ?V s' i = content_at ?V s i" for i
    using s'(3) leaves_contents [OF s'(4), of i] by (cases "i = rid") (simp_all add: content_at_def)
  with s' assms(2) that show thesis by (simp add: same_objects_def objects_ok_def)
qed

lemma due_alarms_run:
  assumes "durable_env D" and "objects_ok D s" and "\<forall>r \<in> set rs. kind_of s (vdb_id r) = Some (vdb_kind r)"
  obtains s' where "due_alarms D ns nowMs rs s = (s', Inr (List.map_filter
      (\<lambda>r. if vdb_kind r = ''durable_object'' then due_alarm D ns nowMs (vdb_id r) (content_at (de_volume D) s (vdb_id r))
           else None) rs))"
    and "objects_ok D s'" and "same_objects D s s'"
proof -
  have "\<exists>s'. due_alarms D ns nowMs rs s = (s', Inr (List.map_filter
      (\<lambda>r. if vdb_kind r = ''durable_object'' then due_alarm D ns nowMs (vdb_id r) (content_at (de_volume D) s (vdb_id r))
           else None) rs)) \<and> objects_ok D s' \<and> same_objects D s s'"
    using assms(2,3)
  proof (induction rs arbitrary: s)
    case Nil
    then show ?case by (simp add: map_filter_simps same_objects_def)
  next
    case (Cons r rs)
    show ?case
    proof (cases "vdb_kind r = ''durable_object''")
      case False
      with Cons show ?thesis by (simp add: map_filter_simps)
    next
      case True
      have "kind_of s (vdb_id r) \<noteq> None" using Cons.prems(2) by simp
      then obtain s1 where s1: "writeDatabase (de_volume D) (vdb_id r) (on_content (askS (due_alarm D ns nowMs (vdb_id r)))) s
          = (s1, Inr (due_alarm D ns nowMs (vdb_id r) (content_at (de_volume D) s (vdb_id r))))"
          "objects_ok D s1" "same_objects D s s1"
        by (rule read_object_run [where f = "due_alarm D ns nowMs (vdb_id r)", OF assms(1) Cons.prems(1)])
      have content: "content_at (de_volume D) s1 i = content_at (de_volume D) s i" for i
        using s1(3) by (simp add: same_objects_def)
      have "\<forall>r \<in> set rs. kind_of s1 (vdb_id r) = Some (vdb_kind r)"
        using Cons.prems(2) s1(3) by (simp add: same_objects_def)
      from Cons.IH [OF s1(2) this, unfolded content] s1(3) obtain s2 where s2: "due_alarms D ns nowMs rs s1 = (s2, Inr (List.map_filter
          (\<lambda>r. if vdb_kind r = ''durable_object'' then due_alarm D ns nowMs (vdb_id r)
             (content_at (de_volume D) s (vdb_id r)) else None) rs))" "objects_ok D s2" "same_objects D s s2"
        by (auto simp: same_objects_def)
      then show ?thesis using True s1(1)
        by (simp add: bindS_def map_filter_simps split: option.split)
    qed
  qed
  then show thesis using that by blast
qed

lemma catalog_kinds: "volume_ok V s \<Longrightarrow> r \<in> set (vol_listDatabases s) \<Longrightarrow> kind_of s (vdb_id r) = Some (vdb_kind r)"
  by (simp add: vol_listDatabases_def kind_of_def volume_ok_def catalog_ok_def row_by_distinct)

lemma due_alarm_id: "due_alarm D ns nowMs rid c = Some a \<Longrightarrow> due_databaseId a = rid"
  by (auto simp: due_alarm_def split: if_splits option.splits)

lemma distinct_map_filter_key:
  assumes "distinct (map key rs)" and "\<And>r a. f r = Some a \<Longrightarrow> key' a = key r"
  shows "distinct (map key' (List.map_filter f rs))"
proof -
  have "set (map key' (List.map_filter f rs)) \<subseteq> set (map key rs)" for rs
    using assms(2) by (induction rs) (auto simp: map_filter_simps split: option.splits)
  with assms show ?thesis
    by (induction rs) (fastforce simp: map_filter_simps split: option.split)+
qed

lemma js_insert_cong: "(\<And>y. y \<in> set xs \<Longrightarrow> le x y = le' x y) \<Longrightarrow> js_insert le x xs = js_insert le' x xs"
  by (induction xs) auto

lemma js_sort_cong:
  "(\<And>a b. a \<in> set xs \<Longrightarrow> b \<in> set xs \<Longrightarrow> le a b = le' a b) \<Longrightarrow> js_sort le xs = js_sort le' xs"
proof (induction xs)
  case (Cons x xs)
  then have rest: "js_sort le xs = js_sort le' xs" by (metis list.set_intros(2))
  have "js_insert le x (js_sort le' xs) = js_insert le' x (js_sort le' xs)"
    by (rule js_insert_cong) (simp add: Cons.prems)
  with rest show ?case by simp
qed simp

lemma due_le_total:
  assumes "total_preorder localeLe" and "\<forall>a \<in> set as. due_scheduledTime a \<noteq> None"
  shows "sorted_wrt (due_le localeLe) (js_sort (due_le localeLe) as)"
proof -
  let ?t = "\<lambda>a. the (due_scheduledTime a)"
  let ?le = "\<lambda>a b. if ?t a = ?t b then localeLe (due_objectId a) (due_objectId b) else ?t a < ?t b"
  have "total_preorder ?le"
    using assms(1) by (auto simp: total_preorder_def)
  then have sorted: "sorted_wrt ?le (js_sort ?le as)" by (rule sorted_js_sort)
  have same: "due_le localeLe a b = ?le a b" if "a \<in> set as" "b \<in> set as" for a b
    using assms(2) that by (auto simp: due_le_def split: option.split)
  have "js_sort (due_le localeLe) as = js_sort ?le as"
    using same by (rule js_sort_cong)
  moreover have "sorted_wrt (due_le localeLe) (js_sort ?le as)"
    by (rule sorted_wrt_mono_rel [OF _ sorted]) (simp only: set_js_sort same)
  ultimately show ?thesis by metis
qed

text \<open>The namespace and the identifier an object recorded in its own database.\<close>

definition identity_at :: "'u DurableEnv \<Rightarrow> Volume \<Rightarrow> string \<Rightarrow> (string \<times> string) option" where
  "identity_at D s rid = (let c = content_at (de_volume D) s rid in
     case (getMetaText namespaceMetaKey c, nonempty (getMetaText objectIdMetaKey c)) of
       (Some ns, Some oid) \<Rightarrow> Some (ns, oid) | _ \<Rightarrow> None)"

lemma due_alarm_iff:
  "due_alarm D ns nowMs rid (content_at (de_volume D) s rid) = Some a \<longleftrightarrow>
     due_databaseId a = rid \<and> due_namespace a = ns \<and> identity_at D s rid = Some (ns, due_objectId a)
     \<and> alarm_at D s rid = Some (due_scheduledTime a) \<and> \<not> is_after (due_scheduledTime a) nowMs"
  by (cases a) (auto simp: due_alarm_def identity_at_def alarm_at_def Let_def split: option.splits if_splits)

lemma kind_listed:
  assumes "kind_of s rid = Some k"
  shows "\<exists>r \<in> set (vol_listDatabases s). vdb_id r = rid \<and> vdb_kind r = k"
proof -
  from assms obtain r where "row_by vdb_id rid (vol_databases s) = Some r" "vdb_kind r = k" by (auto simp: kind_of_def)
  then show ?thesis by (auto simp: vol_listDatabases_def dest!: row_by_Some)
qed

text \<open>
  C22. The list of due alarms is exact: it has one entry for every durable object of the namespace whose
  alarm is not after the given time, and no other, earliest first; making it changes no object.
\<close>

theorem due_alarms_are_exact:
  assumes "durable_env D" and "objects_ok D s" and "alarmTimeMs now = Inr nowMs"
    and "listDueAlarms D ns dateNow (Some now) None s = (s', r)"
  shows "\<exists>as. r = Inr as \<and> objects_ok D s' \<and> same_objects D s s' \<and> distinct (map due_databaseId as)
     \<and> (\<forall>a. a \<in> set as \<longleftrightarrow> kind_of s (due_databaseId a) = Some ''durable_object''
          \<and> due_namespace a = dn_namespace ns
          \<and> identity_at D s (due_databaseId a) = Some (dn_namespace ns, due_objectId a)
          \<and> alarm_at D s (due_databaseId a) = Some (due_scheduledTime a)
          \<and> \<not> is_after (due_scheduledTime a) nowMs)
     \<and> (total_preorder (de_localeLe D) \<longrightarrow> (\<forall>a \<in> set as. due_scheduledTime a \<noteq> None) \<longrightarrow>
          sorted_wrt (due_le (de_localeLe D)) as)"
proof -
  let ?V = "de_volume D" and ?rs = "vol_listDatabases s"
  let ?f = "\<lambda>r. if vdb_kind r = ''durable_object'' then due_alarm D (dn_namespace ns) nowMs (vdb_id r)
      (content_at ?V s (vdb_id r)) else None"
  let ?found = "List.map_filter ?f ?rs"
  have V: "volume_ok ?V s" using assms(2) by (simp add: objects_ok_def)
  obtain s1 where s1: "due_alarms D (dn_namespace ns) nowMs ?rs s = (s1, Inr ?found)"
      and ok: "objects_ok D s1" "same_objects D s s1"
    by (rule due_alarms_run [OF assms(1,2)]) (use catalog_kinds [OF V] in blast)+
  have res: "s' = s1" "r = Inr (js_sort (due_le (de_localeLe D)) ?found)"
    using assms(3,4) s1 by (simp_all add: listDueAlarms_def bindS_def take_limit_def)
  have "distinct (map vdb_id ?rs)"
    using V by (simp add: vol_listDatabases_def volume_ok_def catalog_ok_def)
  then have "distinct (map due_databaseId ?found)"
    by (rule distinct_map_filter_key) (auto simp: due_alarm_id split: if_splits)
  then have distinct: "distinct (map due_databaseId (js_sort (due_le (de_localeLe D)) ?found))" by simp
  have found: "a \<in> set ?found \<longleftrightarrow> (\<exists>r \<in> set ?rs. ?f r = Some a)" for a
    by (auto simp: List.map_filter_def image_iff)
  have mem: "a \<in> set ?found \<longleftrightarrow> kind_of s (due_databaseId a) = Some ''durable_object''
      \<and> due_alarm D (dn_namespace ns) nowMs (due_databaseId a) (content_at ?V s (due_databaseId a)) = Some a"
    (is "_ \<longleftrightarrow> ?kind a \<and> ?due a") for a
  proof
    assume "?kind a \<and> ?due a"
    moreover from this obtain r where "r \<in> set ?rs" "vdb_id r = due_databaseId a" "vdb_kind r = ''durable_object''"
      using kind_listed by blast
    ultimately have "?f r = Some a" by simp
    with \<open>r \<in> set ?rs\<close> found show "a \<in> set ?found" by blast
  next
    assume "a \<in> set ?found"
    then obtain r where r: "r \<in> set ?rs" "?f r = Some a" using found by blast
    then have "vdb_kind r = ''durable_object''" "due_alarm D (dn_namespace ns) nowMs (vdb_id r)
        (content_at ?V s (vdb_id r)) = Some a" by (simp_all split: if_splits)
    moreover from this have "due_databaseId a = vdb_id r" using due_alarm_id by blast
    ultimately show "?kind a \<and> ?due a" using catalog_kinds [OF V r(1)] by simp
  qed
  show ?thesis using res ok distinct mem due_le_total [of "de_localeLe D" ?found]
    by (simp add: due_alarm_iff)
qed

subsection \<open>Setting and clearing an alarm\<close>

lemma alarm_keys [simp]: "alarmMetaKey \<noteq> namespaceMetaKey" "alarmMetaKey \<noteq> objectIdMetaKey"
    "namespaceMetaKey \<noteq> alarmMetaKey" "objectIdMetaKey \<noteq> alarmMetaKey"
    "namespaceMetaKey \<noteq> objectIdMetaKey" "objectIdMetaKey \<noteq> namespaceMetaKey"
  by (simp_all add: alarmMetaKey_def namespaceMetaKey_def objectIdMetaKey_def)

lemma meta_text [simp]: "getMetaText k (setMetaText k' v c) = (if k = k' then Some v else getMetaText k c)"
  by (simp add: getMetaText_def setMetaText_def)

lemma identified_meta [simp]:
  "dos_namespace st = Some ns \<Longrightarrow> dos_objectId st = Some oid \<Longrightarrow> getMetaText k (identified st c)
     = (if k = objectIdMetaKey then Some oid else if k = namespaceMetaKey then Some ns else getMetaText k c)"
  by (simp add: identified_def recordObjectIdentity_def)

lemma set_meta_state [simp]:
  "object_state D (setMetaText k v c) = object_state D c" "content_ok D (setMetaText k v c) = content_ok D c"
  by (simp_all add: setMetaText_def object_state_def kv_map_def content_ok_def fun_eq_iff)

lemma alarmTimeMs_range: "alarmTimeMs t = Inr ms \<Longrightarrow> 0 \<le> ms \<and> ms \<le> 9007199254740991"
  by (auto simp: alarmTimeMs_def safe_integer_def Let_def split: option.splits if_splits)

lemma stored_alarm:
  assumes "durable_env D" and "alarmTimeMs t = Inr ms"
  shows "do_getAlarm D (setMetaText alarmMetaKey (show_int ms) c) = Some (new_Date ms)"
proof -
  have "de_number D (show_int ms) = Fin (of_int ms)"
    using assms(1) alarmTimeMs_range [OF assms(2)] by (simp add: durable_env_def)
  moreover have "isInteger (JNum (Fin (of_int ms))) = Some ms"
    using isInteger_JInt [of ms] by (simp add: JInt_def)
  ultimately show ?thesis using alarmTimeMs_range [OF assms(2)]
    by (simp add: do_getAlarm_def safe_integer_def)
qed

lemma setAlarm_call:
  assumes "durable_env D" and "objects_ok D s" and "durable_storage st" and "alarmTimeMs t = Inr ms"
    and "storage_setAlarm D st t s = (s', r)"
  shows "r = Inr () \<and> objects_ok D s'
     \<and> content_at (de_volume D) s' (dos_databaseId st) = setMetaText alarmMetaKey (show_int ms)
         (identified st (content_at (de_volume D) s (dos_databaseId st)))
     \<and> (\<forall>other. other \<noteq> dos_databaseId st \<longrightarrow> content_at (de_volume D) s' other = content_at (de_volume D) s other)
     \<and> (\<forall>i. kind_of s' i = (if i = dos_databaseId st then Some ''durable_object'' else kind_of s i))"
proof -
  let ?c = "identified st (content_at (de_volume D) s (dos_databaseId st))"
  have "runExclusive D st (withImmediateTransaction (user_accepted D) (on_tables (do_setAlarm ms))) s = (s', r)"
    using assms(4,5) by (simp add: storage_setAlarm_def)
  moreover have "on_connection (withImmediateTransaction (user_accepted D) (on_tables (do_setAlarm ms))) ?c
      = (setMetaText alarmMetaKey (show_int ms) ?c, Inr ())"
    by (subst immediate_tables) (simp_all add: do_setAlarm_def atomically_def user_accepted_def commit_accepted_def setMetaText_def)
  moreover have "content_ok D (setMetaText alarmMetaKey (show_int ms) ?c)" using assms(2) by (simp add: objects_ok_def)
  ultimately show ?thesis using exclusive_call [OF assms(1-3)] by blast
qed

lemma setAlarm_sees:
  assumes "durable_env D" and "objects_ok D s" and "durable_storage st" and "alarmTimeMs t = Inr ms"
    and "storage_setAlarm D st t s = (s', r)"
  shows "r = Inr () \<and> objects_ok D s' \<and> alarm_at D s' (dos_databaseId st) = Some (new_Date ms)
     \<and> object_at D s' (dos_databaseId st) = object_at D s (dos_databaseId st)"
  using setAlarm_call [OF assms] stored_alarm [OF assms(1,4)] by (simp add: alarm_at_def object_at_def)

definition ex_now :: AlarmTime where "ex_now = AtNumber (Fin 2000)"

definition ex_rooms :: DurableNamespace where
  "ex_rooms = \<lparr>dn_namespace = ''rooms'', dn_ownerId = None\<rparr>"

definition ex_alarmed :: "jnum \<Rightarrow> Volume" where
  "ex_alarmed t = fst (storage_setAlarm ex_durable ex_storage (AtNumber t) empty_volume)"

lemma ex_alarmed_state:
  assumes "alarmTimeMs (AtNumber t) = Inr ms"
  shows "objects_ok ex_durable (ex_alarmed t) \<and> alarm_at ex_durable (ex_alarmed t) ''do_1'' = Some (new_Date ms)
     \<and> identity_at ex_durable (ex_alarmed t) ''do_1'' = Some (''rooms'', ''one'')
     \<and> kind_of (ex_alarmed t) ''do_1'' = Some ''durable_object''
     \<and> (\<forall>other. other \<noteq> ''do_1'' \<longrightarrow> kind_of (ex_alarmed t) other = None)"
proof -
  have st: "dos_databaseId ex_storage = ''do_1''" "dos_namespace ex_storage = Some ''rooms''"
    "dos_objectId ex_storage = Some ''one''" by (simp_all add: ex_storage_def)
  have "kind_of empty_volume other = None" for other by (simp add: kind_of_def empty_volume_def)
  with setAlarm_call [OF ex_durable_env empty_objects_ok [OF ex_durable_env] ex_storage_durable assms surjective_pairing]
    stored_alarm [OF ex_durable_env assms]
  show ?thesis
    by (simp add: ex_alarmed_def st alarm_at_def identity_at_def Let_def nonempty_def)
qed

lemma ex_times: "alarmTimeMs ex_now = Inr 2000" "alarmTimeMs (AtNumber (Fin 1000)) = Inr 1000"
    "alarmTimeMs (AtNumber (Fin 9000000000000000)) = Inr 9000000000000000"
  by code_simp+

theorem due_alarms_are_exact_witness:
  "\<exists>a. snd (listDueAlarms ex_durable ex_rooms 0 (Some ex_now) None (ex_alarmed (Fin 1000))) = Inr [a]
     \<and> due_databaseId a = ''do_1'' \<and> due_objectId a = ''one'' \<and> due_scheduledTime a = Some 1000"
proof -
  let ?s = "ex_alarmed (Fin 1000)"
  let ?a = "\<lparr>due_namespace = ''rooms'', due_objectId = ''one'', due_databaseId = ''do_1'', due_scheduledTime = Some 1000\<rparr>"
  note state = ex_alarmed_state [OF ex_times(2)]
  have t: "new_Date 1000 = Some 1000" by code_simp
  obtain as where as: "snd (listDueAlarms ex_durable ex_rooms 0 (Some ex_now) None ?s) = Inr as"
      "distinct (map due_databaseId as)"
    and mem: "\<And>a. a \<in> set as \<longleftrightarrow> kind_of ?s (due_databaseId a) = Some ''durable_object''
          \<and> due_namespace a = ''rooms'' \<and> identity_at ex_durable ?s (due_databaseId a) = Some (''rooms'', due_objectId a)
          \<and> alarm_at ex_durable ?s (due_databaseId a) = Some (due_scheduledTime a)
          \<and> \<not> is_after (due_scheduledTime a) 2000"
    using due_alarms_are_exact [OF ex_durable_env state [THEN conjunct1] ex_times(1) surjective_pairing, of ex_rooms 0]
    by (auto simp: ex_rooms_def)
  have "a \<in> set as \<longleftrightarrow> a = ?a" for a
  proof (cases "due_databaseId a = ''do_1''")
    case True
    then show ?thesis using state t by (cases a) (auto simp: mem is_after_def)
  next
    case False
    then show ?thesis using state by (cases a) (auto simp: mem)
  qed
  then have set: "set as = {?a}" by auto
  moreover have "length as = 1"
    using as(2) set by (metis distinct_card distinct_map length_map card_1_singleton_iff One_nat_def)
  ultimately have "as = [?a]" by (cases as) auto
  with as(1) show ?thesis by simp
qed

end
