(* ===== verification/AlarmLaws.thy ===== *)
theory AlarmLaws
  imports DurableGuarantees
begin

text \<open>
  The alarms at work: what a delivery to the demo does, once and again, and what an alarm that lies
  beyond the range of dates does to a dispatch.
\<close>

subsection \<open>Reading\<close>

lemma spec_get_many_map:
  "spec_get_many m ks out = Inr es \<Longrightarrow> map_of es k = (if k \<in> set ks \<and> m k \<noteq> None then m k else map_of out k)"
proof (induction m ks out rule: spec_get_many.induct)
  case (2 m k' ks out)
  then obtain x where x: "storageKey k' = Inr x" by (auto simp: bindE_Inr)
  then have "x = k'" by (rule storageKey_Inr)
  with 2 x show ?case by (auto split: option.splits if_splits)
qed simp

lemma getAlarm_call:
  assumes "durable_env D" and "objects_ok D s" and "durable_storage st" and "storage_getAlarm D st s = (s', r)"
  shows "r = Inr (alarm_at D s (dos_databaseId st)) \<and> objects_ok D s'
     \<and> object_at D s' (dos_databaseId st) = object_at D s (dos_databaseId st)
     \<and> alarm_at D s' (dos_databaseId st) = alarm_at D s (dos_databaseId st)"
proof -
  let ?c = "identified st (content_at (de_volume D) s (dos_databaseId st))"
  have alarm: "do_getAlarm D ?c = alarm_at D s (dos_databaseId st)"
    by (simp add: do_getAlarm_def getMetaText_def alarm_at_def identified_def recordObjectIdentity_def
        setMetaText_def alarmMetaKey_def namespaceMetaKey_def objectIdMetaKey_def split: option.split)
  have "on_connection (on_tables (askS (do_getAlarm D))) ?c = (?c, Inr (do_getAlarm D ?c))" "content_ok D ?c"
    using assms(2) by (simp_all add: objects_ok_def)
  from exclusive_call [OF assms(1-3) assms(4) [unfolded storage_getAlarm_def] this] alarm
  show ?thesis by (auto simp: alarm_at_def object_at_def)
qed

lemma status_run:
  assumes "durable_env D" and "objects_ok D s" and "durable_storage (dob_storage ob)"
    and "statusFromStorage D name ob s = (s', Inr st)" and "rid = dos_databaseId (dob_storage ob)"
  shows "objects_ok D s' \<and> object_at D s' rid = object_at D s rid \<and> alarm_at D s' rid = alarm_at D s rid
     \<and> ads_alarmCount st = numberValue (fst (object_at D s rid) ''alarmCount'') 0"
proof -
  let ?keys = "[''message'', ''alarmCount'', ''scheduledAt'', ''lastAlarmAt'', ''lastScheduledTime'', ''repeatMs'',
      ''remainingRepeats'', ''updatedAt'']"
  obtain s1 reply where s1: "storage_perform D (dob_storage ob) (OpGetMany ?keys) s = (s1, Inr reply)"
    and rest: "bindS (storage_getAlarm D (dob_storage ob)) (\<lambda>alarm.
     bindS (liftS (case alarm of None \<Rightarrow> Inr None | Some d \<Rightarrow> bindE (date_iso D d) (\<lambda>s. Inr (Some s)))) (\<lambda>alarmAt.
     pureS (let values = (case reply of REntries es \<Rightarrow> map_of es | _ \<Rightarrow> Map.empty) in
       \<lparr>ads_objectName = name, ads_objectId = dob_id ob, ads_databaseId = dob_databaseId ob,
       ads_message = stringValue (values ''message'') ''alarm-demo'',
       ads_alarmCount = numberValue (values ''alarmCount'') 0, ads_alarmAt = alarmAt,
       ads_scheduledAt = stringOrNull (values ''scheduledAt''), ads_lastAlarmAt = stringOrNull (values ''lastAlarmAt''),
       ads_lastScheduledTime = stringOrNull (values ''lastScheduledTime''),
       ads_repeatMs = numberOrNull (values ''repeatMs''),
       ads_remainingRepeats = numberValue (values ''remainingRepeats'') 0,
       ads_updatedAt = stringOrNull (values ''updatedAt'')\<rparr>))) s1 = (s', Inr st)"
    using assms(4) unfolding statusFromStorage_def bindS_Inr Let_def by blast
  note read = storage_refines [OF assms(1-3) s1]
  obtain es where es: "spec_get_many (fst (object_at D s rid)) ?keys [] = Inr es" "reply = REntries es"
      and same: "object_at D s1 rid = object_at D s rid"
    using read assms(5) by (cases "object_at D s rid")
      (auto simp: atomically_def bindE_def simp del: spec_get_many.simps split: sum.splits)
  have fired: "map_of es ''alarmCount'' = fst (object_at D s rid) ''alarmCount''"
    using spec_get_many_map [OF es(1), of "''alarmCount''"] by simp
  obtain s2 alarm where s2: "storage_getAlarm D (dob_storage ob) s1 = (s2, Inr alarm)"
    and "s' = s2 \<and> ads_alarmCount st = numberValue (map_of es ''alarmCount'') 0"
    using rest unfolding bindS_Inr es(2) Let_def by (auto simp: bindS_Inr)
  with getAlarm_call [OF assms(1) _ assms(3) s2] read same fired assms(5) show ?thesis by simp
qed

subsection \<open>A delivery\<close>

lemma demo_keys: "storageKey ''objectName'' = Inr ''objectName''" "storageKey ''alarmCount'' = Inr ''alarmCount''"
    "storageKey ''repeatMs'' = Inr ''repeatMs''" "storageKey ''remainingRepeats'' = Inr ''remainingRepeats''"
    "storageKey ''lastAlarmAt'' = Inr ''lastAlarmAt''" "storageKey ''lastScheduledTime'' = Inr ''lastScheduledTime''"
    "storageKey ''updatedAt'' = Inr ''updatedAt''" "storageKey ''scheduledAt'' = Inr ''scheduledAt''"
  by code_simp+

lemma spec_await_get:
  assumes "storageKey k = Inr k'"
  shows "spec_calls (await_get k f) (m, u) = spec_calls (f (m k')) (m, u)"
  using assms by (simp add: await_get_def await_op_def)

lemma spec_await_get_fails:
  "storageKey k = Inl e \<Longrightarrow> spec_calls (await_get k f) (m, u) = ((m, u), Inl e)"
  by (simp add: await_get_def await_op_def)

lemma delivery_key_apart [simp]: "alarmDeliveryKey t \<noteq> ''scheduledAt''" "alarmDeliveryKey t \<noteq> ''alarmCount''"
    "''scheduledAt'' \<noteq> alarmDeliveryKey t" "''alarmCount'' \<noteq> alarmDeliveryKey t"
  by (simp_all add: alarmDeliveryKey_def)

text \<open>
  The times the entries of an object have as delivered, and what happens to its count and to them: \<open>X\<close>
  bounds the times that are added, and every one that is adds one to the count.
\<close>

definition delivered :: "(string \<Rightarrow> json option) \<Rightarrow> string set" where
  "delivered m = {stamp. m (alarmDeliveryKey stamp) = Some (JBool True)}"

definition counts :: "string set \<Rightarrow> (string \<Rightarrow> json option) \<Rightarrow> (string \<Rightarrow> json option) \<Rightarrow> bool" where
  "counts X m m' \<longleftrightarrow> finite X \<and> delivered m \<subseteq> delivered m' \<and> delivered m' \<subseteq> delivered m \<union> X
     \<and> (\<forall>c. number_or_zero (m ''alarmCount'') = Some c \<longrightarrow>
          number_or_zero (m' ''alarmCount'') = Some (c + of_nat (card (delivered m' - delivered m))))"

lemma number_or_zero_num [simp]: "number_or_zero (Some (JNum (Fin q))) = Some q"
  by (simp add: number_or_zero_def)

lemma counts_none:
  assumes "delivered m' = delivered m" and "number_or_zero (m' ''alarmCount'') = number_or_zero (m ''alarmCount'')"
  shows "counts {} m m'"
  using assms by (simp add: counts_def)

lemma counts_trans:
  assumes "counts X m m1" and "counts Y m1 m2" shows "counts (X \<union> Y) m m2"
proof -
  let ?d = "delivered m" and ?d1 = "delivered m1" and ?d2 = "delivered m2"
  have sub: "?d \<subseteq> ?d1" "?d1 \<subseteq> ?d2" "?d1 \<subseteq> ?d \<union> X" "?d2 \<subseteq> ?d1 \<union> Y" and fin: "finite X" "finite Y"
    using assms by (simp_all add: counts_def)
  have "finite (?d1 - ?d)" using sub(3) fin(1) by (auto intro: finite_subset)
  moreover have "finite (?d2 - ?d1)" using sub(4) fin(2) by (auto intro: finite_subset)
  moreover have "?d2 - ?d = (?d1 - ?d) \<union> (?d2 - ?d1)" using sub(1,2) by blast
  moreover have "(?d1 - ?d) \<inter> (?d2 - ?d1) = {}" by blast
  ultimately have "card (?d2 - ?d) = card (?d1 - ?d) + card (?d2 - ?d1)" by (simp add: card_Un_disjoint)
  with assms sub show ?thesis unfolding counts_def by (auto simp: add.assoc)
qed

lemma spec_put_elsewhere: "spec_put es (m, u) = ((m', u'), r) \<Longrightarrow> k \<notin> fst ` set es \<Longrightarrow> m' k = m k"
proof (induction es "(m, u)" arbitrary: m u rule: spec_put.induct)
  case (2 k' v es m u)
  then show ?case by (auto dest: storageKey_Inr split: sum.splits)
qed simp

lemma delivery_key_eq [simp]: "alarmDeliveryKey a = alarmDeliveryKey b \<longleftrightarrow> a = b"
  by (simp add: alarmDeliveryKey_def)

lemma entries_put:
  assumes "storageKey (alarmDeliveryKey stamp) = Inr (alarmDeliveryKey stamp)"
  shows "\<exists>m'. spec_put (delivery_entries fired stamp c l next) (m, u) = ((m', u), Inr ())
     \<and> delivered m' = insert stamp (delivered m) \<and> m' ''alarmCount'' = Some (JNum (Fin c))"
proof -
  obtain m' where m': "spec_put (delivery_entries fired stamp c l next) (m, u) = ((m', u), Inr ())"
    "m' (alarmDeliveryKey stamp) = Some (JBool True)" "m' ''alarmCount'' = Some (JNum (Fin c))"
    using assms by (cases "next") (simp_all add: delivery_entries_def demo_keys guardF_def)
  have "m' (alarmDeliveryKey t) = m (alarmDeliveryKey t)" if "t \<noteq> stamp" for t
    using spec_put_elsewhere [OF m'(1), of "alarmDeliveryKey t"] that
    by (cases "next") (auto simp: delivery_entries_def, auto simp: alarmDeliveryKey_def)
  with m'(2) have "delivered m' = insert stamp (delivered m)" by (force simp: delivered_def)
  with m' show ?thesis by blast
qed

lemma first_delivery_spec:
  assumes "storageKey (alarmDeliveryKey stamp) = Inr (alarmDeliveryKey stamp)"
    and "spec_calls (first_delivery D demoName ms stamp fired) (m, u) = ((m', u'), Inr (name, next))"
  shows "delivered m' = insert stamp (delivered m)
     \<and> (\<exists>c. number_or_zero (m ''alarmCount'') = Some c \<and> number_or_zero (m' ''alarmCount'') = Some (c + 1))"
proof -
  note step = assms(2) [unfolded first_delivery_def spec_await_get [OF demo_keys(2)] spec_await_get [OF demo_keys(3)]
      spec_await_get [OF demo_keys(4)]]
  obtain c l where c: "number_or_zero (m ''alarmCount'') = Some c" "number_or_zero (m ''remainingRepeats'') = Some l"
    using step by (auto split: option.splits)
  obtain nextAt where n: "next_alarm D ms (m ''repeatMs'') l = Inr nextAt"
    using step c by (auto split: sum.splits)
  obtain m1 where m1: "spec_put (delivery_entries fired stamp (c + 1) (if repeats (m ''repeatMs'') l then l - 1 else l) nextAt)
      (m, u) = ((m1, u), Inr ())" "delivered m1 = insert stamp (delivered m)" "m1 ''alarmCount'' = Some (JNum (Fin (c + 1)))"
    using entries_put [OF assms(1), of fired "c + 1" "if repeats (m ''repeatMs'') l then l - 1 else l" nextAt m u]
    by (elim exE conjE)
  from step have "m' = m1"
    by (simp only: c n m1(1) await_op_def normalizePutEntries_def bindS_def spec_calls.simps spec_op.simps prod.case sum.case
        option.case PutInput.case json.case pureS_def prod.inject)
  with c m1(2,3) show ?thesis by simp
qed

lemma delivery_spec:
  assumes "spec_calls (delivery_callback D oid ms fired) (m, u) = ((m', u'), Inr (name, next))"
  shows "\<exists>stamp. date_iso D (new_Date ms) = Inr stamp \<and> stamp \<in> delivered m' \<and> counts {stamp} m m'
     \<and> (stamp \<in> delivered m \<longrightarrow> m' = m \<and> u' = u \<and> next = None)"
proof (cases "date_iso D (new_Date ms)")
  case (Inl e)
  with assms show ?thesis by (simp add: delivery_callback_def spec_await_get [OF demo_keys(1)])
next
  case stamp: (Inr stamp)
  note step = assms [unfolded delivery_callback_def spec_await_get [OF demo_keys(1)] stamp sum.case]
  show ?thesis
  proof (cases "storageKey (alarmDeliveryKey stamp)")
    case (Inl e)
    with step show ?thesis by (simp add: spec_await_get_fails)
  next
    case (Inr k')
    then have dk: "storageKey (alarmDeliveryKey stamp) = Inr (alarmDeliveryKey stamp)" using storageKey_Inr by metis
    note step' = step [unfolded spec_await_get [OF dk] Let_def]
    show ?thesis
    proof (cases "stamp \<in> delivered m")
      case True
      with step' have "m' = m \<and> u' = u \<and> next = None" by (auto simp: delivered_def)
      with True stamp show ?thesis by (auto simp: counts_def)
    next
      case False
      with step' have "spec_calls (first_delivery D (case m ''objectName'' of Some (JStr s) \<Rightarrow> s | _ \<Rightarrow> oid) ms stamp fired)
          (m, u) = ((m', u'), Inr (name, next))" by (simp add: delivered_def)
      from first_delivery_spec [OF dk this] False have "stamp \<in> delivered m'" "counts {stamp} m m'"
        by (auto simp: counts_def insert_Diff_if)
      with False stamp show ?thesis by blast
    qed
  qed
qed

lemma delivery_only_calls: "only_calls (delivery_callback D oid ms fired)"
  by (simp add: delivery_callback_def first_delivery_def await_get_def await_op_def Let_def
      split: sum.split StorageReply.split option.split prod.split)

subsection \<open>The webhook of the demo\<close>

text \<open>SHA-256 as hexadecimal digits.\<close>

definition sha256_env :: "'u DurableEnv \<Rightarrow> bool" where
  "sha256_env D \<longleftrightarrow> (\<forall>s. length (de_sha256Hex D s) = 64 \<and> list_all is_hex_lower (de_sha256Hex D s))"

lemma is_alnum_hex: "is_hex_lower c \<Longrightarrow> is_alnum c"
  by (auto simp: is_hex_lower_def is_alnum_def is_lower_def is_digit_def char_between_def)

lemma database_id_ok: "sha256_env D \<Longrightarrow> is_sqlite_identifier (durableObjectDatabaseId D ns oid)"
proof -
  assume "sha256_env D"
  then have hex: "list_all is_hex_lower (take 40 (de_sha256Hex D x))" for x
    by (auto simp: sha256_env_def list_all_iff dest: in_set_takeD)
  have "is_alnum (CHR ''d'')" "is_alnum (CHR ''o'')" by code_simp+
  then show "is_sqlite_identifier (durableObjectDatabaseId D ns oid)"
    using hex is_alnum_hex by (auto simp: durableObjectDatabaseId_def is_sqlite_identifier_def list_all_iff)
qed

definition demo_database :: "'u DurableEnv \<Rightarrow> string \<Rightarrow> string" where
  "demo_database D oid = durableObjectDatabaseId D ALARM_DEMO_NAMESPACE oid"

lemma demo_namespace: "createDemoNamespace = Inr \<lparr>dn_namespace = ALARM_DEMO_NAMESPACE, dn_ownerId = Some ''alarm-demo''\<rparr>"
  by code_simp

lemma demo_object:
  assumes "sha256_env D" and "createDemoNamespace = Inr ns" and "namespace_get D ns oid = Inr ob"
  shows "durable_storage (dob_storage ob) \<and> dos_databaseId (dob_storage ob) = demo_database D oid"
proof -
  have "is_sqlite_identifier ''alarm-demo''" by code_simp
  then show ?thesis using assms database_id_ok [OF assms(1)]
    by (auto simp: demo_namespace namespace_get_def bindE_Inr Let_def durable_storage_def plain_owner_def
        demo_database_def objectId_def sizedString_def)
qed

lemma liftS_bind_Inr: "bindS (liftS r) f s = (s', Inr y) \<longleftrightarrow> (\<exists>x. r = Inr x \<and> f x s = (s', Inr y))"
  by (cases r) simp_all

lemma handle_run:
  assumes "durable_env D" and "sha256_env D" and "objects_ok D s"
    and "handleAlarmDemoWebhook D now i s = (s', Inr st)" and "rid = demo_database D (awp_objectId i)"
  shows "\<exists>ms fired name next. de_parseDate D (awp_scheduledTime i) = Some ms
     \<and> spec_calls (delivery_callback D (awp_objectId i) ms fired) (object_at D s rid) = (object_at D s' rid, Inr (name, next))
     \<and> (next = None \<longrightarrow> alarm_at D s' rid = alarm_at D s rid)
     \<and> ads_alarmCount st = numberValue (fst (object_at D s' rid) ''alarmCount'') 0 \<and> objects_ok D s'"
proof -
  obtain ms ns ob n fired where ms: "de_parseDate D (awp_scheduledTime i) = Some ms"
    and ns: "createDemoNamespace = Inr ns" and ob: "namespace_get D ns (awp_objectId i) = Inr ob"
    and run: "bindS (storage_transaction D (dob_storage ob) (delivery_callback D (awp_objectId i) ms fired))
       (\<lambda>(demoName, nextAlarmAt).
     bindS (case nextAlarmAt of None \<Rightarrow> pureS ()
       | Some n \<Rightarrow> storage_setAlarm D (dob_storage ob) (AtDate (de_parseDate D n))) (\<lambda>_.
     statusFromStorage D demoName ob)) s = (s', Inr st)"
    using assms(4) unfolding handleAlarmDemoWebhook_def liftS_bind_Inr
    by (elim exE conjE, cases "de_parseDate D (awp_scheduledTime i)") (auto simp only: option.case throwF_simps sum.inject)
  note st = demo_object [OF assms(2) ns ob]
  then have rid: "dos_databaseId (dob_storage ob) = rid" using assms(5) by simp
  obtain s1 name "next" where s1: "storage_transaction D (dob_storage ob) (delivery_callback D (awp_objectId i) ms fired) s
      = (s1, Inr (name, next))"
    and run1: "bindS (case next of None \<Rightarrow> pureS ()
       | Some n \<Rightarrow> storage_setAlarm D (dob_storage ob) (AtDate (de_parseDate D n))) (\<lambda>_.
     statusFromStorage D name ob) s1 = (s', Inr st)"
    using run by (auto simp: bindS_Inr)
  have ok1: "objects_ok D s1" and alarm1: "alarm_at D s1 rid = alarm_at D s rid"
    and "(object_at D s1 rid, Inr (name, next)) = atomically (spec_calls (delivery_callback D (awp_objectId i) ms fired))
        (object_at D s rid)"
    using transaction_refines [OF assms(1,3) st [THEN conjunct1] s1 delivery_only_calls] rid by auto
  then have spec: "spec_calls (delivery_callback D (awp_objectId i) ms fired) (object_at D s rid)
      = (object_at D s1 rid, Inr (name, next))"
    by (auto simp: atomically_def split: prod.splits sum.splits)
  obtain s2 where s2: "statusFromStorage D name ob s2 = (s', Inr st)" "objects_ok D s2"
      "object_at D s2 rid = object_at D s1 rid" "next = None \<longrightarrow> s2 = s1"
  proof (cases "next")
    case None
    with run1 ok1 that [of s1] show thesis by simp
  next
    case (Some n)
    with run1 obtain s2 where set: "storage_setAlarm D (dob_storage ob) (AtDate (de_parseDate D n)) s1 = (s2, Inr ())"
      and status: "statusFromStorage D name ob s2 = (s', Inr st)" by (auto simp: bindS_Inr)
    then obtain t where "alarmTimeMs (AtDate (de_parseDate D n)) = Inr t" by (auto simp: storage_setAlarm_def bindS_Inr)
    from setAlarm_sees [OF assms(1) ok1 st [THEN conjunct1] this set] status rid Some that [of s2] show thesis by simp
  qed
  from status_run [OF assms(1) s2(2) st [THEN conjunct1] s2(1) rid [symmetric]] ms spec s2(3,4) alarm1
  show ?thesis by (intro exI [of _ ms] exI [of _ fired] exI [of _ name] exI [of _ "next"]) auto
qed

subsection \<open>Every result\<close>

text \<open>What an operation does to the objects, whatever it returns.\<close>

definition leads :: "'u DurableEnv \<Rightarrow> ((string \<Rightarrow> 'u object_state) \<Rightarrow> (string \<Rightarrow> 'u object_state) \<Rightarrow> bool) \<Rightarrow> 'a volume \<Rightarrow> bool" where
  "leads D Q m \<longleftrightarrow> (\<forall>s s' r. objects_ok D s \<longrightarrow> m s = (s', r) \<longrightarrow> objects_ok D s' \<and> Q (object_at D s) (object_at D s'))"

abbreviation calm :: "'u DurableEnv \<Rightarrow> 'a volume \<Rightarrow> bool" where
  "calm D \<equiv> leads D (\<lambda>a b. b = a)"

lemma leadsD: "leads D Q m \<Longrightarrow> objects_ok D s \<Longrightarrow> m s = (s', r) \<Longrightarrow> objects_ok D s' \<and> Q (object_at D s) (object_at D s')"
  by (simp add: leads_def)

lemma leads_mono: "leads D Q m \<Longrightarrow> (\<And>a b. Q a b \<Longrightarrow> Q' a b) \<Longrightarrow> leads D Q' m"
  by (auto simp: leads_def)

lemma leads_lift: "(\<And>a. Q a a) \<Longrightarrow> leads D Q (liftS r)" "(\<And>a. Q a a) \<Longrightarrow> leads D Q (pureS x)"
  by (auto simp: leads_def)

lemma leads_guard: "(\<And>a. Q a a) \<Longrightarrow> (\<And>x. r = Inr x \<Longrightarrow> leads D Q (f x)) \<Longrightarrow> leads D Q (bindS (liftS r) f)"
  by (cases r) (auto simp: leads_def)

lemma leads_bind:
  assumes "leads D Q m" and "\<And>x. calm D (f x)" shows "leads D Q (bindS m f)"
  unfolding leads_def
proof (intro allI impI)
  fix s s' r assume ok: "objects_ok D s" and run: "bindS m f s = (s', r)"
  obtain s1 r1 where m: "m s = (s1, r1)" by fastforce
  from leadsD [OF assms(1) ok m] leadsD [OF assms(2), of s1] run m
  show "objects_ok D s' \<and> Q (object_at D s) (object_at D s')" by (cases r1) (auto simp: bindS_def)
qed

lemma others_same:
  assumes "object_at D s' rid = object_at D s rid"
    and "\<forall>other. other \<noteq> rid \<longrightarrow> content_at (de_volume D) s' other = content_at (de_volume D) s other"
  shows "object_at D s' = object_at D s"
proof
  fix i show "object_at D s' i = object_at D s i" using assms by (cases "i = rid") (simp_all add: object_at_def)
qed

lemma calm_getMany:
  assumes "durable_env D" and "durable_storage st" shows "calm D (storage_perform D st (OpGetMany ks))"
  unfolding leads_def
proof (intro allI impI)
  fix s s' r assume ok: "objects_ok D s" and run: "storage_perform D st (OpGetMany ks) s = (s', r)"
  note read = storage_refines [OF assms(1) ok assms(2) run]
  have "object_at D s' (dos_databaseId st) = object_at D s (dos_databaseId st)"
    using read by (cases "object_at D s (dos_databaseId st)") (auto simp: atomically_def split: sum.splits)
  with read others_same show "objects_ok D s' \<and> object_at D s' = object_at D s" by blast
qed

lemma calm_getAlarm:
  assumes "durable_env D" and "durable_storage st" shows "calm D (storage_getAlarm D st)"
  unfolding leads_def
proof (intro allI impI)
  fix s s' r assume ok: "objects_ok D s" and run: "storage_getAlarm D st s = (s', r)"
  let ?c = "identified st (content_at (de_volume D) s (dos_databaseId st))"
  have "on_connection (on_tables (askS (do_getAlarm D))) ?c = (?c, Inr (do_getAlarm D ?c))" "content_ok D ?c"
    using ok by (simp_all add: objects_ok_def)
  from exclusive_call [OF assms(1) ok assms(2) run [unfolded storage_getAlarm_def] this]
    getAlarm_call [OF assms(1) ok assms(2) run] others_same
  show "objects_ok D s' \<and> object_at D s' = object_at D s" by blast
qed

lemma calm_setAlarm:
  assumes "durable_env D" and "durable_storage st" shows "calm D (storage_setAlarm D st t)"
  unfolding leads_def
proof (intro allI impI)
  fix s s' r assume ok: "objects_ok D s" and run: "storage_setAlarm D st t s = (s', r)"
  show "objects_ok D s' \<and> object_at D s' = object_at D s"
  proof (cases "alarmTimeMs t")
    case (Inl e)
    with ok run show ?thesis by (simp add: storage_setAlarm_def)
  next
    case (Inr ms)
    from setAlarm_call [OF assms(1) ok assms(2) Inr run] setAlarm_sees [OF assms(1) ok assms(2) Inr run] others_same
    show ?thesis by blast
  qed
qed

lemma calm_status:
  assumes "durable_env D" and "durable_storage (dob_storage ob)" shows "calm D (statusFromStorage D name ob)"
  unfolding statusFromStorage_def Let_def
  by (intro leads_bind leads_guard calm_getMany calm_getAlarm leads_lift assms) simp_all

lemma leads_transaction:
  assumes "durable_env D" and "durable_storage st" and "only_calls t"
  shows "leads D (\<lambda>a b. \<forall>rid. b rid = a rid \<or> (dos_databaseId st = rid \<and> (\<exists>x. spec_calls t (a rid) = (b rid, Inr x))))
    (storage_transaction D st t)"
  unfolding leads_def
proof (intro allI impI)
  fix s s' r assume ok: "objects_ok D s" and run: "storage_transaction D st t s = (s', r)"
  note t = transaction_refines [OF assms(1) ok assms(2) run assms(3)]
  have "object_at D s' rid = object_at D s rid
      \<or> (dos_databaseId st = rid \<and> (\<exists>x. spec_calls t (object_at D s rid) = (object_at D s' rid, Inr x)))" for rid
  proof (cases "dos_databaseId st = rid")
    case True
    with t show ?thesis by (auto simp: atomically_def split: prod.splits sum.splits)
  next
    case False
    with t show ?thesis by (simp add: object_at_def)
  qed
  with t show "objects_ok D s' \<and> (\<forall>rid. object_at D s' rid = object_at D s rid
      \<or> (dos_databaseId st = rid \<and> (\<exists>x. spec_calls t (object_at D s rid) = (object_at D s' rid, Inr x))))" by simp
qed

definition alarm_stamp :: "'u DurableEnv \<Rightarrow> AlarmWebhookPayload \<Rightarrow> string option" where
  "alarm_stamp D i = (case de_parseDate D (awp_scheduledTime i) of None \<Rightarrow> None
     | Some ms \<Rightarrow> (case date_iso D (new_Date ms) of Inl _ \<Rightarrow> None | Inr stamp \<Rightarrow> Some stamp))"

lemma handle_leads:
  assumes "durable_env D" and "sha256_env D"
  shows "leads D (\<lambda>a b. \<forall>rid. b rid = a rid \<or> (demo_database D (awp_objectId i) = rid
       \<and> (\<exists>stamp. alarm_stamp D i = Some stamp \<and> counts {stamp} (fst (a rid)) (fst (b rid)))))
     (handleAlarmDemoWebhook D now i)"
  unfolding handleAlarmDemoWebhook_def
proof (intro leads_guard)
  fix ms ns ob n fired
  assume ms: "(case de_parseDate D (awp_scheduledTime i) of
       Some ms \<Rightarrow> Inr ms | None \<Rightarrow> throwF Validation ''alarm demo scheduledTime must be an ISO timestamp'') = Inr ms"
    and "createDemoNamespace = Inr ns" "namespace_get D ns (awp_objectId i) = Inr ob"
  note st = demo_object [OF assms(2) this(2,3)]
  have parse: "de_parseDate D (awp_scheduledTime i) = Some ms" using ms by (simp split: option.splits)
  let ?t = "delivery_callback D (awp_objectId i) ms fired"
  have "leads D (\<lambda>a b. \<forall>rid. b rid = a rid \<or> (dos_databaseId (dob_storage ob) = rid
       \<and> (\<exists>x. spec_calls ?t (a rid) = (b rid, Inr x)))) (storage_transaction D (dob_storage ob) ?t)"
    by (rule leads_transaction [OF assms(1) st [THEN conjunct1] delivery_only_calls])
  then have "leads D (\<lambda>a b. \<forall>rid. b rid = a rid \<or> (demo_database D (awp_objectId i) = rid
       \<and> (\<exists>stamp. alarm_stamp D i = Some stamp \<and> counts {stamp} (fst (a rid)) (fst (b rid)))))
     (storage_transaction D (dob_storage ob) ?t)"
  proof (rule leads_mono, intro allI)
    fix a b rid
    assume *: "\<forall>rid. b rid = a rid \<or> (dos_databaseId (dob_storage ob) = rid \<and> (\<exists>x. spec_calls ?t (a rid) = (b rid, Inr x)))"
    show "b rid = a rid \<or> (demo_database D (awp_objectId i) = rid
       \<and> (\<exists>stamp. alarm_stamp D i = Some stamp \<and> counts {stamp} (fst (a rid)) (fst (b rid))))"
    proof (cases "b rid = a rid")
      case False
      with * obtain name "next" where x: "spec_calls ?t (a rid) = (b rid, Inr (name, next))"
        and rid: "dos_databaseId (dob_storage ob) = rid" by force
      obtain stamp where "date_iso D (new_Date ms) = Inr stamp" "counts {stamp} (fst (a rid)) (fst (b rid))"
        using delivery_spec [where m = "fst (a rid)" and u = "snd (a rid)" and m' = "fst (b rid)" and u' = "snd (b rid)",
          unfolded prod.collapse, OF x] by blast
      with rid st parse show ?thesis by (simp add: alarm_stamp_def)
    qed simp
  qed
  moreover have "calm D (bindS (case nextAlarmAt of None \<Rightarrow> pureS ()
       | Some n \<Rightarrow> storage_setAlarm D (dob_storage ob) (AtDate (de_parseDate D n))) (\<lambda>_. statusFromStorage D demoName ob))"
    for demoName nextAlarmAt
    using st by (intro leads_bind calm_status assms) (auto intro!: calm_setAlarm leads_lift assms split: option.split)
  ultimately show "leads D (\<lambda>a b. \<forall>rid. b rid = a rid \<or> (demo_database D (awp_objectId i) = rid
       \<and> (\<exists>stamp. alarm_stamp D i = Some stamp \<and> counts {stamp} (fst (a rid)) (fst (b rid)))))
     (bindS (storage_transaction D (dob_storage ob) ?t) (\<lambda>(demoName, nextAlarmAt).
     bindS (case nextAlarmAt of None \<Rightarrow> pureS ()
       | Some n \<Rightarrow> storage_setAlarm D (dob_storage ob) (AtDate (de_parseDate D n))) (\<lambda>_.
     statusFromStorage D demoName ob)))"
    by (intro leads_bind) (auto split: prod.split)
qed simp_all

lemma schedule_spec:
  assumes "spec_calls (schedule_callback name msg at0 repeatMs most updated) (m, u) = ((m', u'), Inr x)"
  shows "counts {} m m'"
proof -
  let ?es = "\<lambda>msg. [(''objectName'', JStr name), (''message'', JStr msg), (''scheduledAt'', JStr at0),
    (''repeatMs'', repeatMs), (''remainingRepeats'', JInt most), (''updatedAt'', JStr updated)]"
  obtain msg' m1 u1 where put: "spec_put (?es msg') (m, u) = ((m1, u1), Inr ())"
    and rest: "spec_calls (await_get ''alarmCount'' (\<lambda>v. if v = None
            then await_op (OpPut (PutOne ''alarmCount'' (JInt 0))) (\<lambda>_. Finish (Inr ())) else Finish (Inr ())))
          (m1, u1) = ((m', u'), Inr x)"
    using assms by (auto simp: schedule_callback_def await_op_def normalizePutEntries_def bindS_def
        simp del: spec_put.simps split: sum.splits prod.splits)
  have m1: "m1 (alarmDeliveryKey t) = m (alarmDeliveryKey t)" "m1 ''alarmCount'' = m ''alarmCount''" for t
    using spec_put_elsewhere [OF put, of "alarmDeliveryKey t"] spec_put_elsewhere [OF put, of "''alarmCount''"]
    by (simp_all add: alarmDeliveryKey_def)
  have "m' = m1 \<or> m1 ''alarmCount'' = None \<and> m' = m1(''alarmCount'' \<mapsto> JInt 0)"
    using rest unfolding spec_await_get [OF demo_keys(2)]
    by (auto simp: await_op_def normalizePutEntries_def bindS_def demo_keys JInt_def guardF_def split: if_splits)
  with m1 show ?thesis by (auto intro!: counts_none simp: delivered_def number_or_zero_def JInt_def)
qed

lemma schedule_only_calls: "only_calls (schedule_callback name msg at0 repeatMs most updated)"
  by (simp add: schedule_callback_def await_get_def await_op_def split: sum.split StorageReply.split)

lemma calm_readStatus:
  assumes "durable_env D" and "sha256_env D" shows "calm D (readAlarmDemoStatus D name)"
  unfolding readAlarmDemoStatus_def
  using demo_object [OF assms(2)] by (intro leads_guard calm_status assms) auto

lemma schedule_leads:
  assumes "durable_env D" and "sha256_env D"
  shows "leads D (\<lambda>a b. \<forall>rid. b rid = a rid \<or> counts {} (fst (a rid)) (fst (b rid))) (scheduleAlarmDemo D now i)"
  unfolding scheduleAlarmDemo_def
proof (intro leads_guard)
  fix ns name oid ob n delayMs repeatMs most at0 updated
  assume "createDemoNamespace = Inr ns" "namespace_get D ns oid = Inr ob"
  note st = demo_object [OF assms(2) this]
  let ?t = "schedule_callback name (case adi_message i of Some m \<Rightarrow> m | None \<Rightarrow> ''alarm-demo'') at0 repeatMs most updated"
  have "leads D (\<lambda>a b. \<forall>rid. b rid = a rid \<or> counts {} (fst (a rid)) (fst (b rid))) (storage_transaction D (dob_storage ob) ?t)"
  proof (rule leads_mono [OF leads_transaction [OF assms(1) st [THEN conjunct1] schedule_only_calls]], intro allI)
    fix a b :: "string \<Rightarrow> 'a object_state" and rid
    assume *: "\<forall>rid. b rid = a rid \<or> (dos_databaseId (dob_storage ob) = rid \<and> (\<exists>x. spec_calls ?t (a rid) = (b rid, Inr x)))"
    show "b rid = a rid \<or> counts {} (fst (a rid)) (fst (b rid))"
      using * schedule_spec [where m = "fst (a rid)" and u = "snd (a rid)" and m' = "fst (b rid)" and u' = "snd (b rid)",
          unfolded prod.collapse] by blast
  qed
  moreover have "calm D (bindS (storage_setAlarm D (dob_storage ob) (AtDate (de_parseDate D at0)))
      (\<lambda>_. readAlarmDemoStatus D name))"
    using st by (intro leads_bind calm_setAlarm calm_readStatus assms) simp
  ultimately show "leads D (\<lambda>a b. \<forall>rid. b rid = a rid \<or> counts {} (fst (a rid)) (fst (b rid)))
     (bindS (storage_transaction D (dob_storage ob) ?t) (\<lambda>_.
     bindS (storage_setAlarm D (dob_storage ob) (AtDate (de_parseDate D at0))) (\<lambda>_. readAlarmDemoStatus D name)))"
    by (rule leads_bind)
qed simp_all

subsection \<open>Runs\<close>

text \<open>
  The life of one object of the demo: deliveries of alarms, to it and to others, in any number and order
  and with any result, schedules, and anything else that leaves its entries as they are, such as what the
  dispatcher does to its alarm. The log has the deliveries and what they returned.
\<close>

type_synonym delivery_log = "(AlarmWebhookPayload \<times> (failure + AlarmDemoStatus)) list"

inductive demo_run :: "'u DurableEnv \<Rightarrow> string \<Rightarrow> Volume \<Rightarrow> delivery_log \<Rightarrow> Volume \<Rightarrow> bool" for D rid s where
  start: "demo_run D rid s [] s"
| delivery: "demo_run D rid s ds s1 \<Longrightarrow> handleAlarmDemoWebhook D now i s1 = (s2, r) \<Longrightarrow> demo_run D rid s (ds @ [(i, r)]) s2"
| schedule: "demo_run D rid s ds s1 \<Longrightarrow> scheduleAlarmDemo D now d s1 = (s2, r) \<Longrightarrow> demo_run D rid s ds s2"
| elsewhere: "demo_run D rid s ds s1 \<Longrightarrow> objects_ok D s2 \<Longrightarrow> object_at D s2 rid = object_at D s1 rid
    \<Longrightarrow> demo_run D rid s ds s2"

definition delivered_at :: "'u DurableEnv \<Rightarrow> Volume \<Rightarrow> string \<Rightarrow> string set" where
  "delivered_at D s rid = delivered (fst (object_at D s rid))"

definition count_at :: "'u DurableEnv \<Rightarrow> Volume \<Rightarrow> string \<Rightarrow> rat option" where
  "count_at D s rid = number_or_zero (fst (object_at D s rid) ''alarmCount'')"

definition logged_stamps :: "'u DurableEnv \<Rightarrow> string \<Rightarrow> delivery_log \<Rightarrow> string set" where
  "logged_stamps D rid ds = {stamp. \<exists>(i, r) \<in> set ds. demo_database D (awp_objectId i) = rid \<and> alarm_stamp D i = Some stamp}"

definition handled_stamps :: "'u DurableEnv \<Rightarrow> string \<Rightarrow> delivery_log \<Rightarrow> string set" where
  "handled_stamps D rid ds = {stamp. \<exists>(i, r) \<in> set ds. demo_database D (awp_objectId i) = rid \<and> \<not> isl r
     \<and> alarm_stamp D i = Some stamp}"

lemma stamps_snoc:
  "logged_stamps D rid (ds @ [(i, r)]) = logged_stamps D rid ds
     \<union> (if demo_database D (awp_objectId i) = rid then set_option (alarm_stamp D i) else {})"
  "handled_stamps D rid (ds @ [(i, r)]) = handled_stamps D rid ds
     \<union> (if demo_database D (awp_objectId i) = rid \<and> \<not> isl r then set_option (alarm_stamp D i) else {})"
  by (auto simp: logged_stamps_def handled_stamps_def)

lemma handled_delivery:
  assumes "durable_env D" and "sha256_env D" and "objects_ok D s"
    and "handleAlarmDemoWebhook D now i s = (s', Inr st)" and "rid = demo_database D (awp_objectId i)"
  shows "\<exists>stamp. alarm_stamp D i = Some stamp \<and> stamp \<in> delivered_at D s' rid
     \<and> ads_alarmCount st = numberValue (fst (object_at D s' rid) ''alarmCount'') 0
     \<and> (stamp \<in> delivered_at D s rid \<longrightarrow> object_at D s' rid = object_at D s rid \<and> alarm_at D s' rid = alarm_at D s rid)"
proof -
  obtain m u m' u' where o: "object_at D s rid = (m, u)" "object_at D s' rid = (m', u')" by (metis surj_pair)
  obtain ms fired name "next" where h: "de_parseDate D (awp_scheduledTime i) = Some ms"
      "spec_calls (delivery_callback D (awp_objectId i) ms fired) (m, u) = ((m', u'), Inr (name, next))"
      "next = None \<longrightarrow> alarm_at D s' rid = alarm_at D s rid"
      "ads_alarmCount st = numberValue (m' ''alarmCount'') 0"
    using handle_run [OF assms] o by auto
  from delivery_spec [OF h(2)] h(1,3,4) o show ?thesis by (auto simp: alarm_stamp_def delivered_at_def)
qed

lemma counts_more: "counts X m m' \<Longrightarrow> X \<subseteq> Y \<Longrightarrow> finite Y \<Longrightarrow> counts Y m m'"
  by (auto simp: counts_def)

lemma demo_run_counts:
  assumes "durable_env D" and "sha256_env D" and "objects_ok D s" and "demo_run D rid s ds s'"
  shows "objects_ok D s' \<and> counts (logged_stamps D rid ds) (fst (object_at D s rid)) (fst (object_at D s' rid))
     \<and> handled_stamps D rid ds \<subseteq> delivered_at D s' rid"
  using assms(4)
proof (induction rule: demo_run.induct)
  case start
  then show ?case using assms(3) by (simp add: counts_def logged_stamps_def handled_stamps_def)
next
  case (delivery ds s1 now i s2 r)
  let ?m = "fst (object_at D s rid)" and ?m1 = "fst (object_at D s1 rid)" and ?m2 = "fst (object_at D s2 rid)"
  let ?X = "if demo_database D (awp_objectId i) = rid then set_option (alarm_stamp D i) else {}"
  note step = leadsD [OF handle_leads [OF assms(1,2)] delivery.IH [THEN conjunct1] delivery.hyps(2)]
  have one: "counts ?X ?m1 ?m2"
  proof (cases "object_at D s2 rid = object_at D s1 rid")
    case True
    then show ?thesis by (auto simp: counts_def)
  next
    case False
    with step show ?thesis by auto
  qed
  then have "counts (logged_stamps D rid (ds @ [(i, r)])) ?m ?m2"
    using delivery.IH counts_trans unfolding stamps_snoc by blast
  moreover have "handled_stamps D rid (ds @ [(i, r)]) \<subseteq> delivered_at D s2 rid"
  proof -
    have "delivered_at D s1 rid \<subseteq> delivered_at D s2 rid" using one by (simp add: counts_def delivered_at_def)
    moreover have "set_option (alarm_stamp D i) \<subseteq> delivered_at D s2 rid"
      if "demo_database D (awp_objectId i) = rid" "\<not> isl r"
      using that delivery.hyps(2) handled_delivery [OF assms(1,2) delivery.IH [THEN conjunct1], of now i s2 _ rid]
      by (cases r) auto
    ultimately show ?thesis using delivery.IH unfolding stamps_snoc by auto
  qed
  ultimately show ?case using step by blast
next
  case (schedule ds s1 now d s2 r)
  note step = leadsD [OF schedule_leads [OF assms(1,2)] schedule.IH [THEN conjunct1] schedule.hyps(2)]
  have "counts {} (fst (object_at D s1 rid)) (fst (object_at D s2 rid))"
  proof (cases "object_at D s2 rid = object_at D s1 rid")
    case True
    then show ?thesis by (simp add: counts_def)
  next
    case False
    with step show ?thesis by blast
  qed
  note two = counts_trans [OF schedule.IH [THEN conjunct2, THEN conjunct1] this]
  have "delivered_at D s1 rid \<subseteq> delivered_at D s2 rid"
    using \<open>counts {} _ _\<close> by (simp add: counts_def delivered_at_def)
  with schedule.IH step two show ?case by auto
next
  case (elsewhere ds s1 s2)
  then show ?case by (simp add: delivered_at_def)
qed

text \<open>
  C21. The demo counts every alarm once. Over any run of deliveries and schedules the times recorded as
  delivered only grow, by times of deliveries of the run to this object, with every time whose delivery
  succeeded among them; the count grows by exactly the number of times that were added; and delivering
  a recorded time again changes neither the object nor its alarm and reports the count as it is.
\<close>

theorem demo_counts_an_alarm_once:
  assumes "durable_env D" and "sha256_env D" and "objects_ok D s" and "count_at D s rid = Some c"
    and "demo_run D rid s ds s'"
  shows "delivered_at D s rid \<subseteq> delivered_at D s' rid
     \<and> delivered_at D s' rid \<subseteq> delivered_at D s rid \<union> logged_stamps D rid ds
     \<and> handled_stamps D rid ds \<subseteq> delivered_at D s' rid
     \<and> count_at D s' rid = Some (c + of_nat (card (delivered_at D s' rid - delivered_at D s rid)))
     \<and> (\<forall>now i s'' st stamp. demo_database D (awp_objectId i) = rid \<longrightarrow> alarm_stamp D i = Some stamp \<longrightarrow>
          stamp \<in> delivered_at D s' rid \<longrightarrow> handleAlarmDemoWebhook D now i s' = (s'', Inr st) \<longrightarrow>
          object_at D s'' rid = object_at D s' rid \<and> alarm_at D s'' rid = alarm_at D s' rid
          \<and> ads_alarmCount st = c + of_nat (card (delivered_at D s' rid - delivered_at D s rid)))"
proof -
  note run = demo_run_counts [OF assms(1-3,5)]
  have total: "count_at D s' rid = Some (c + of_nat (card (delivered_at D s' rid - delivered_at D s rid)))"
    using run assms(4) by (simp add: counts_def count_at_def delivered_at_def)
  moreover have "object_at D s'' rid = object_at D s' rid \<and> alarm_at D s'' rid = alarm_at D s' rid
      \<and> ads_alarmCount st = c + of_nat (card (delivered_at D s' rid - delivered_at D s rid))"
    if "demo_database D (awp_objectId i) = rid" "alarm_stamp D i = Some stamp" "stamp \<in> delivered_at D s' rid"
      "handleAlarmDemoWebhook D now i s' = (s'', Inr st)" for now i s'' st stamp
    using handled_delivery [OF assms(1,2) run [THEN conjunct1] that(4) that(1) [symmetric]] that(2,3) total
    by (auto simp: count_at_def number_or_zero_def numberValue_def split: option.splits json.splits jnum.splits)
  ultimately show ?thesis using run by (auto simp: counts_def delivered_at_def)
qed

text \<open>A delivery to an object that does not repeat succeeds.\<close>

definition plain_demo :: "'u DurableEnv \<Rightarrow> Volume \<Rightarrow> string \<Rightarrow> bool" where
  "plain_demo D s rid \<longleftrightarrow> objects_ok D s \<and> alarm_at D s rid = None \<and> fst (object_at D s rid) ''repeatMs'' = None
     \<and> number_or_zero (fst (object_at D s rid) ''alarmCount'') \<noteq> None
     \<and> number_or_zero (fst (object_at D s rid) ''remainingRepeats'') \<noteq> None"

lemma plain_put:
  assumes "storageKey (alarmDeliveryKey stamp) = Inr (alarmDeliveryKey stamp)" and "m ''repeatMs'' = None"
  shows "\<exists>m'. spec_put (delivery_entries fired stamp c l None) (m, u) = ((m', u), Inr ())
     \<and> m' ''repeatMs'' = None \<and> number_or_zero (m' ''alarmCount'') \<noteq> None \<and> number_or_zero (m' ''remainingRepeats'') \<noteq> None"
  using assms by (simp add: delivery_entries_def demo_keys guardF_def alarmDeliveryKey_def number_or_zero_def)

lemma plain_delivery_spec:
  assumes "date_iso D (new_Date ms) = Inr stamp" and "storageKey (alarmDeliveryKey stamp) = Inr (alarmDeliveryKey stamp)"
    and "m ''repeatMs'' = None" and "number_or_zero (m ''alarmCount'') \<noteq> None"
    and "number_or_zero (m ''remainingRepeats'') \<noteq> None"
  shows "\<exists>m' name. spec_calls (delivery_callback D oid ms fired) (m, u) = ((m', u), Inr (name, None))
     \<and> m' ''repeatMs'' = None \<and> number_or_zero (m' ''alarmCount'') \<noteq> None \<and> number_or_zero (m' ''remainingRepeats'') \<noteq> None"
proof (cases "m (alarmDeliveryKey stamp) = Some (JBool True)")
  case True
  with assms show ?thesis
    by (simp add: delivery_callback_def spec_await_get [OF demo_keys(1)] spec_await_get [OF assms(2)])
next
  case False
  from assms(4,5) obtain c l where n: "number_or_zero (m ''alarmCount'') = Some c"
    "number_or_zero (m ''remainingRepeats'') = Some l" by auto
  have "next_alarm D ms None l = Inr None" "\<not> repeats None l" by (simp_all add: next_alarm_def repeats_def)
  with False n assms plain_put [where m = m and stamp = stamp, OF assms(2,3), of fired "c + 1" l u] show ?thesis
    by (auto simp: delivery_callback_def first_delivery_def spec_await_get [OF demo_keys(1)] spec_await_get [OF assms(2)]
        spec_await_get [OF demo_keys(2)] spec_await_get [OF demo_keys(3)] spec_await_get [OF demo_keys(4)]
        await_op_def normalizePutEntries_def bindS_def Let_def)
qed

lemma spec_get_many_succeeds:
  "\<forall>k \<in> set ks. storageKey k = Inr k \<Longrightarrow> \<exists>es. spec_get_many m ks out = Inr es"
  by (induction ks arbitrary: out) auto

lemma status_succeeds:
  assumes "durable_env D" and "objects_ok D s" and "durable_storage (dob_storage ob)"
    and "alarm_at D s (dos_databaseId (dob_storage ob)) = None"
  shows "\<exists>s' st. statusFromStorage D name ob s = (s', Inr st)"
proof -
  let ?keys = "[''message'', ''alarmCount'', ''scheduledAt'', ''lastAlarmAt'', ''lastScheduledTime'', ''repeatMs'',
      ''remainingRepeats'', ''updatedAt'']"
  obtain s1 r where s1: "storage_perform D (dob_storage ob) (OpGetMany ?keys) s = (s1, r)" by fastforce
  have "storageKey ''message'' = Inr ''message''" by code_simp
  then obtain es where "spec_get_many (fst (object_at D s (dos_databaseId (dob_storage ob)))) ?keys [] = Inr es"
    using spec_get_many_succeeds [of ?keys] demo_keys by auto
  then have r: "r = Inr (REntries es)"
    using storage_refines [OF assms(1-3) s1] by (cases "object_at D s (dos_databaseId (dob_storage ob))")
      (simp add: atomically_def del: spec_get_many.simps)
  obtain s2 r2 where s2: "storage_getAlarm D (dob_storage ob) s1 = (s2, r2)" by fastforce
  have "r2 = Inr None"
    using getAlarm_call [OF assms(1) _ assms(3) s2] storage_refines [OF assms(1-3) s1] assms(4) by simp
  with s1 r s2 show ?thesis by (auto simp: statusFromStorage_def bindS_def Let_def)
qed

lemma plain_delivery:
  assumes env: "durable_env D" "sha256_env D" and plain: "plain_demo D s (demo_database D (awp_objectId i))"
    and payload: "awp_namespace i = ALARM_DEMO_NAMESPACE" "de_parseDate D (awp_scheduledTime i) = Some ms"
    and oid: "objectId (awp_objectId i) = Inr (awp_objectId i)"
    and now: "resolveNowMs nowMs = Inr now" "date_iso D (new_Date now) = Inr fired"
    and stamp: "date_iso D (new_Date ms) = Inr stamp" "storageKey (alarmDeliveryKey stamp) = Inr (alarmDeliveryKey stamp)"
  shows "\<exists>s' st. handleAlarmDemoWebhook D nowMs i s = (s', Inr st) \<and> plain_demo D s' (demo_database D (awp_objectId i))"
proof -
  let ?rid = "demo_database D (awp_objectId i)"
  obtain ns where ns: "createDemoNamespace = Inr ns" using demo_namespace by blast
  obtain ob where ob: "namespace_get D ns (awp_objectId i) = Inr ob" using oid by (simp add: namespace_get_def Let_def)
  note st = demo_object [OF env(2) ns ob]
  obtain m u where o: "object_at D s ?rid = (m, u)" by fastforce
  obtain m' name where spec: "spec_calls (delivery_callback D (awp_objectId i) ms fired) (m, u) = ((m', u), Inr (name, None))"
    and m': "m' ''repeatMs'' = None" "number_or_zero (m' ''alarmCount'') \<noteq> None"
      "number_or_zero (m' ''remainingRepeats'') \<noteq> None"
    using plain_delivery_spec [OF stamp, of m "awp_objectId i" fired u] plain o by (auto simp: plain_demo_def)
  obtain s1 r where s1: "storage_transaction D (dob_storage ob) (delivery_callback D (awp_objectId i) ms fired) s = (s1, r)"
    by fastforce
  have ok: "objects_ok D s" "alarm_at D s ?rid = None" using plain by (simp_all add: plain_demo_def)
  have t: "objects_ok D s1" "object_at D s1 ?rid = (m', u)" "r = Inr (name, None)" "alarm_at D s1 ?rid = None"
    using transaction_refines [OF env(1) ok(1) st [THEN conjunct1] s1 delivery_only_calls] st spec o ok(2) by (auto simp: atomically_def)
  obtain s2 st' where s2: "statusFromStorage D name ob s1 = (s2, Inr st')"
    using status_succeeds [OF env(1) t(1) st [THEN conjunct1]] st t(4) by metis
  have "plain_demo D s2 ?rid"
    using status_run [OF env(1) t(1) st [THEN conjunct1] s2 refl] st t m' by (simp add: plain_demo_def)
  moreover have "handleAlarmDemoWebhook D nowMs i s = (s2, Inr st')"
    unfolding handleAlarmDemoWebhook_def liftS_bind_Inr bindS_Inr
    using payload ns ob now s1 t(3) s2 by auto
  ultimately show ?thesis by blast
qed

definition ex_payload :: AlarmWebhookPayload where
  "ex_payload = \<lparr>awp_namespace = ''alarm-demo'', awp_objectId = ''one'', awp_databaseId = '''', awp_scheduledTime = ''1000''\<rparr>"

lemma ex_sha: "sha256_env ex_durable"
proof -
  have "is_hex_lower (CHR ''a'')" by code_simp
  then show ?thesis by (simp add: sha256_env_def ex_durable_def list_all_iff)
qed

lemma ex_dates: "de_parseDate ex_durable = parse_int" "de_toISOString ex_durable = show_int"
  by (simp_all add: ex_durable_def)

lemma ex_alarm_fresh: "alarm_at ex_durable empty_volume rid = None"
  by (simp add: alarm_at_def do_getAlarm_def getMetaText_def ex_durable_def ex_volume_env_def)

lemma ex_plain_delivery:
  assumes "plain_demo ex_durable s (demo_database ex_durable ''one'')"
  shows "\<exists>s' st. handleAlarmDemoWebhook ex_durable (Fin 5000) ex_payload s = (s', Inr st)
     \<and> plain_demo ex_durable s' (demo_database ex_durable ''one'')"
proof -
  have "objectId ''one'' = Inr ''one''" "resolveNowMs (Fin 5000) = Inr 5000" "parse_int ''1000'' = Some 1000"
    "show_int 1000 = ''1000''" "storageKey (alarmDeliveryKey ''1000'') = Inr (alarmDeliveryKey ''1000'')"
    by code_simp+
  with assms show ?thesis
    using plain_delivery [OF ex_durable_env ex_sha, of s ex_payload 1000 "Fin 5000" 5000 _ "''1000''"]
    by (simp add: ex_payload_def ALARM_DEMO_NAMESPACE_def date_iso_def new_Date_def ex_dates)
qed

lemma ex_stamp: "alarm_stamp ex_durable ex_payload = Some ''1000''"
proof -
  have "parse_int ''1000'' = Some 1000" "show_int 1000 = ''1000''" by code_simp+
  then show ?thesis by (simp add: alarm_stamp_def ex_payload_def date_iso_def new_Date_def ex_dates)
qed

theorem demo_counts_an_alarm_once_witness:
  "\<exists>s1 first s2 second.
     handleAlarmDemoWebhook ex_durable (Fin 5000) ex_payload empty_volume = (s1, Inr first)
     \<and> handleAlarmDemoWebhook ex_durable (Fin 5000) ex_payload s1 = (s2, Inr second)
     \<and> delivered_at ex_durable s2 (demo_database ex_durable ''one'') = {''1000''}
     \<and> count_at ex_durable s2 (demo_database ex_durable ''one'') = Some 1"
proof -
  let ?rid = "demo_database ex_durable ''one''"
  have "plain_demo ex_durable empty_volume ?rid"
    using empty_objects_ok [OF ex_durable_env]
    by (simp add: plain_demo_def ex_object_fresh ex_alarm_fresh number_or_zero_def)
  then obtain s1 first where s1: "handleAlarmDemoWebhook ex_durable (Fin 5000) ex_payload empty_volume = (s1, Inr first)"
    and p1: "plain_demo ex_durable s1 ?rid" using ex_plain_delivery by blast
  obtain s2 second where s2: "handleAlarmDemoWebhook ex_durable (Fin 5000) ex_payload s1 = (s2, Inr second)"
    using ex_plain_delivery [OF p1] by blast
  let ?ds = "([] @ [(ex_payload, Inr first)]) @ [(ex_payload, Inr second)]"
  have run: "demo_run ex_durable ?rid empty_volume ?ds s2"
    by (rule demo_run.delivery [OF demo_run.delivery [OF demo_run.start s1] s2])
  have zero: "count_at ex_durable empty_volume ?rid = Some 0" "delivered_at ex_durable empty_volume ?rid = {}"
    by (simp_all add: count_at_def delivered_at_def delivered_def ex_object_fresh number_or_zero_def)
  have "awp_objectId ex_payload = ''one''" by (simp add: ex_payload_def)
  then have stamps: "logged_stamps ex_durable ?rid ?ds = {''1000''}" "handled_stamps ex_durable ?rid ?ds = {''1000''}"
    by (auto simp: logged_stamps_def handled_stamps_def ex_stamp)
  note run = demo_counts_an_alarm_once [OF ex_durable_env ex_sha empty_objects_ok [OF ex_durable_env] zero(1) run,
      unfolded zero(2) stamps]
  have d: "delivered_at ex_durable s2 ?rid = {''1000''}"
    using run [THEN conjunct2, THEN conjunct1] run [THEN conjunct2, THEN conjunct2, THEN conjunct1] by auto
  have "count_at ex_durable s2 ?rid = Some 1"
    using run [THEN conjunct2, THEN conjunct2, THEN conjunct2, THEN conjunct1] d by simp
  with s1 s2 d show ?thesis by blast
qed

subsection \<open>What the alarms miss\<close>

text \<open>
  A delivery that is already recorded sets no alarm: when the first delivery recorded the next repeat and
  stopped before setting its alarm, the retry does not set it either.
\<close>

lemma retried_delivery_sets_no_alarm:
  assumes "durable_env D" and "sha256_env D" and "objects_ok D s" and "rid = demo_database D (awp_objectId i)"
    and "alarm_stamp D i = Some stamp" and "stamp \<in> delivered_at D s rid"
    and "handleAlarmDemoWebhook D now i s = (s', Inr st)"
  shows "object_at D s' rid = object_at D s rid \<and> alarm_at D s' rid = alarm_at D s rid"
  using handled_delivery [OF assms(1-3,7,4)] assms(5,6) by auto

text \<open>
  An alarm of more than 8.64e15 milliseconds is accepted, is due at any time, and, since its date cannot be
  printed, neither handled nor reported: the dispatch throws, and the alarms behind it wait.
\<close>

lemma far_alarm_stops_dispatch:
  assumes "objectId (due_objectId a) = Inr oid" and "due_scheduledTime a = None"
  shows "snd (dispatch_alarms D ns (createDurableObjectAlarmWebhookHandler D post) (a # alarms) s) = Inl EngineError"
  using assms by (simp add: namespace_get_def Let_def createDurableObjectAlarmWebhookHandler_def date_iso_def
      catchS_def bindS_def)

lemma far_alarm_is_due:
  "alarmTimeMs (AtNumber (Fin 9000000000000000)) = Inr 9000000000000000
   \<and> alarm_at ex_durable (ex_alarmed (Fin 9000000000000000)) ''do_1'' = Some None \<and> \<not> is_after None nowMs"
proof -
  have "new_Date 9000000000000000 = None" by code_simp
  with ex_alarmed_state [OF ex_times(3)] ex_times(3) show ?thesis by (simp add: is_after_def)
qed

end
