(* ===== verification/Publishing.thy ===== *)
theory Publishing
  imports Validity Placement
begin

text \<open>
  The publication of a route snapshot to the runtime nodes (\<open>control-plane/snapshot-publisher.ts\<close>), its
  replication to other control planes and the store a replica keeps
  (\<open>control-plane/snapshot-replication.ts\<close>), the two endpoints of that store (\<open>http/app.ts\<close>), and the
  signatures of requests to runtime nodes (\<open>runtime/identity.ts\<close>).

  A call to one target is a machine: it attempts, and then reports or pauses before the next attempt. What
  \<open>fetch\<close> answers and what the clock shows are inputs of its steps. \<open>new URL\<close> is the parser of
  \<open>UrlApi\<close>; \<open>invalidUrl\<close> is the message it throws with.
\<close>

subsection \<open>Answers and attempts\<close>

text \<open>
  \<open>fetch\<close> throws, or answers with \<open>ok\<close>, a status, and what \<open>text\<close> and \<open>json\<close> return or throw.
\<close>

datatype fetch_reply = Threw string | Replied bool int "string + string" "string + json"

text \<open>A pause keeps the result of the attempt before it.\<close>

datatype ('a, 'r) progress = Attempting int | Pausing int 'a | Reported 'r

definition object_entries :: "json \<Rightarrow> (string \<times> json) list" where
  "object_entries v = (case v of JObj r \<Rightarrow> r | _ \<Rightarrow> [])"

definition numberOrDefault :: "json \<Rightarrow> jnum \<Rightarrow> jnum" where
  "numberOrDefault v fallback = (case v of JNum n \<Rightarrow> n | _ \<Rightarrow> fallback)"

definition stringOrDefault :: "json \<Rightarrow> string \<Rightarrow> string" where
  "stringOrDefault v fallback = (case v of JStr s \<Rightarrow> s | _ \<Rightarrow> fallback)"

definition stringOrUndefined :: "json \<Rightarrow> string option \<Rightarrow> string option" where
  "stringOrUndefined v fallback = (case v of JStr s \<Rightarrow> Some s | _ \<Rightarrow> fallback)"

text \<open>The three ways an option that is a number is read.\<close>

definition positive_or :: "jnum option \<Rightarrow> int \<Rightarrow> int" where
  "positive_or v fallback = (case v of None \<Rightarrow> fallback
     | Some n \<Rightarrow> (case isInteger (JNum n) of None \<Rightarrow> fallback | Some k \<Rightarrow> if 0 < k then k else fallback))"

definition optional_positive :: "jnum option \<Rightarrow> int option" where
  "optional_positive v = (case v of None \<Rightarrow> None
     | Some n \<Rightarrow> (case isInteger (JNum n) of None \<Rightarrow> None | Some k \<Rightarrow> if 0 < k then Some k else None))"

definition nonnegative_or :: "jnum option \<Rightarrow> int \<Rightarrow> int" where
  "nonnegative_or v fallback = (case v of None \<Rightarrow> fallback
     | Some n \<Rightarrow> (case isInteger (JNum n) of None \<Rightarrow> fallback | Some k \<Rightarrow> if 0 \<le> k then k else fallback))"

definition publish_round3 :: "rat \<Rightarrow> rat" where
  "publish_round3 x = of_int \<lfloor>x * 1000 + 1 / 2\<rfloor> / 1000"

text \<open>Statuses are integers here: what an option lists beyond them no response has.\<close>

record PublishOptions =
  po_maxAttempts :: "jnum option"
  po_retryDelayMs :: "jnum option"
  po_timeoutMs :: "jnum option"
  po_retryOnStatuses :: "int list option"

record NormalizedPublishOptions =
  npo_maxAttempts :: int
  npo_retryDelayMs :: int
  npo_timeoutMs :: "int option"
  npo_retryOnStatuses :: "int list"

definition retry_statuses :: "int list" where
  "retry_statuses = [408, 409, 425, 429, 500, 502, 503, 504]"

definition normalizePublishOptions :: "PublishOptions \<Rightarrow> NormalizedPublishOptions" where
  "normalizePublishOptions p =
     \<lparr>npo_maxAttempts = positive_or (po_maxAttempts p) 3,
      npo_retryDelayMs = nonnegative_or (po_retryDelayMs p) 100,
      npo_timeoutMs = optional_positive (po_timeoutMs p),
      npo_retryOnStatuses = (case po_retryOnStatuses p of None \<Rightarrow> retry_statuses | Some ss \<Rightarrow> ss)\<rparr>"

definition is_retryable :: "NormalizedPublishOptions \<Rightarrow> int \<Rightarrow> bool" where
  "is_retryable opts status \<longleftrightarrow> status \<in> set (npo_retryOnStatuses opts) \<or> 500 \<le> status"

subsection \<open>Signed requests\<close>

text \<open>
  The headers of a request by their lower-case names; of a repeated header Node keeps a list, of which
  \<open>firstHeader\<close> takes the first: an entry is the first value here. SHA-256 and HMAC are parameters, both
  giving hexadecimal strings; comparing in constant time is comparing.
\<close>

record HmacApi =
  ha_sha256 :: "string \<Rightarrow> string"
  ha_hmac :: "string \<Rightarrow> string \<Rightarrow> string"

record RuntimeIdentityKey =
  rik_keyId :: string
  rik_secret :: string

definition key_id_header :: string where "key_id_header = ''x-oden-runtime-identity-key-id''"
definition signature_header :: string where "signature_header = ''x-oden-runtime-signature''"
definition timestamp_header :: string where "timestamp_header = ''x-oden-runtime-signature-timestamp''"
definition algorithm_header :: string where "algorithm_header = ''x-oden-runtime-signature-algorithm''"
definition hmac_sha256 :: string where "hmac_sha256 = ''hmac-sha256''"

definition to_upper :: "char \<Rightarrow> char" where
  "to_upper c = (if is_lower c then char_of ((of_char c :: nat) - 32) else c)"

definition runtimeIdentitySignature :: "HmacApi \<Rightarrow> string \<Rightarrow> string \<Rightarrow> string \<Rightarrow> RuntimeIdentityKey \<Rightarrow> string \<Rightarrow> string" where
  "runtimeIdentitySignature H verb path body key timestamp =
     ''sha256='' @ ha_hmac H (rik_secret key) (join_with [CHR 0x0A]
       [map to_upper verb, path, rik_keyId key, timestamp, ha_sha256 H body])"

definition signRuntimeIdentityHeaders :: "HmacApi \<Rightarrow> string \<Rightarrow> string \<Rightarrow> string \<Rightarrow> RuntimeIdentityKey \<Rightarrow> string
    \<Rightarrow> (string \<times> string) list" where
  "signRuntimeIdentityHeaders H verb path body key timestamp =
     [(key_id_header, rik_keyId key), (algorithm_header, hmac_sha256), (timestamp_header, timestamp),
      (signature_header, runtimeIdentitySignature H verb path body key timestamp)]"

datatype identity_result = Verified string | Missing | UnknownKey | Stale | Invalid

text \<open>
  The keys are an object: a name it does not have itself may be one that every object inherits, whose value
  is no string. \<open>createHmac\<close> then throws, and so does the caller: the outer \<open>None\<close>.
\<close>

definition header_text :: "(string \<times> string) list \<Rightarrow> string \<Rightarrow> string option" where
  "header_text hs name = (case map_of hs name of None \<Rightarrow> None | Some v \<Rightarrow> if v = [] then None else Some v)"

definition defaultMaxSkewMs :: int where
  "defaultMaxSkewMs = 300000"

definition verifyRuntimeIdentityHeaders :: "HmacApi \<Rightarrow> DateApi \<Rightarrow> string \<Rightarrow> string \<Rightarrow> string
    \<Rightarrow> (string \<times> string) list \<Rightarrow> (string \<times> string) list \<Rightarrow> int \<Rightarrow> int option \<Rightarrow> identity_result option" where
  "verifyRuntimeIdentityHeaders H D verb path body hs keys nowMs maxSkewMs =
     (case (header_text hs key_id_header, header_text hs signature_header, header_text hs timestamp_header) of
        (Some keyId, Some signature, Some timestamp) \<Rightarrow>
          if map_of hs algorithm_header \<noteq> Some hmac_sha256 then Some Missing
          else (case object_get None (map (\<lambda>(k, v). (k, Some v)) keys) keyId of
              None \<Rightarrow> Some UnknownKey
            | Some secret \<Rightarrow>
                if secret = Some [] then Some UnknownKey
                else (case dateParse D timestamp of
                    None \<Rightarrow> Some Invalid
                  | Some t \<Rightarrow>
                      if (case maxSkewMs of None \<Rightarrow> defaultMaxSkewMs | Some m \<Rightarrow> m) < \<bar>nowMs - t\<bar> then Some Stale
                      else (case secret of
                          None \<Rightarrow> None
                        | Some key \<Rightarrow>
                            if signature = runtimeIdentitySignature H verb path body
                                 \<lparr>rik_keyId = keyId, rik_secret = key\<rparr> timestamp
                            then Some (Verified keyId) else Some Invalid)))
      | _ \<Rightarrow> Some Missing)"

text \<open>\<open>authorizeRuntimeIdentity\<close> of \<open>runtime/node-app.ts\<close>; without keys every request passes.\<close>

definition authorizeRuntimeIdentity :: "HmacApi \<Rightarrow> DateApi \<Rightarrow> (string \<times> string) list option \<Rightarrow> (string \<times> string) list
    \<Rightarrow> string \<Rightarrow> string \<Rightarrow> string \<Rightarrow> int \<Rightarrow> bool option" where
  "authorizeRuntimeIdentity H D keys hs verb path body nowMs = (case keys of
       None \<Rightarrow> Some True
     | Some [] \<Rightarrow> Some True
     | Some ks \<Rightarrow> map_option (\<lambda>r. \<exists>k. r = Verified k)
         (verifyRuntimeIdentityHeaders H D verb path body hs ks nowMs None))"

subsection \<open>Publishing to the runtime nodes\<close>

record RuntimeNodeTarget =
  nt_id :: "string option"
  nt_url :: string
  nt_token :: "string option"
  nt_identity :: "RuntimeIdentityKey option"
  nt_snapshot :: "RouteSnapshot option"

record AttemptResult =
  ar_ok :: bool
  ar_status :: "int option"
  ar_routes :: "jnum option"
  ar_generatedAt :: "string option"
  ar_snapshotId :: "string option"
  ar_error :: "string option"
  ar_retryable :: bool

record PublishTargetResult =
  ptr_id :: "string option"
  ptr_url :: string
  ptr_result :: AttemptResult
  ptr_attempts :: int
  ptr_elapsedMs :: rat

text \<open>
  The result of a target carries every field of the last attempt's result but \<open>retryable\<close>, which is kept
  here as well and is no part of the report.
\<close>

definition failed_attempt :: "string \<Rightarrow> bool \<Rightarrow> AttemptResult" where
  "failed_attempt e again = \<lparr>ar_ok = False, ar_status = None, ar_routes = None, ar_generatedAt = None,
     ar_snapshotId = None, ar_error = Some e, ar_retryable = again\<rparr>"

definition snapshotEndpoint :: "UrlApi \<Rightarrow> string \<Rightarrow> string option" where
  "snapshotEndpoint U baseUrl = (case urlParse U baseUrl of None \<Rightarrow> None
     | Some _ \<Rightarrow> Some (strip_trailing_slashes baseUrl @ ''/__runtime/snapshots/routes''))"

definition truthy_text :: "string option \<Rightarrow> bool" where
  "truthy_text v \<longleftrightarrow> v \<noteq> None \<and> v \<noteq> Some []"

definition publishHeaders :: "HmacApi \<Rightarrow> RuntimeNodeTarget \<Rightarrow> string \<Rightarrow> string \<Rightarrow> (string \<times> string) list" where
  "publishHeaders H target body timestamp =
     [(''content-type'', ''application/json'')]
     @ (if truthy_text (nt_token target) then [(''authorization'', ''Bearer '' @ the (nt_token target))] else [])
     @ (case nt_identity target of None \<Rightarrow> []
        | Some key \<Rightarrow> signRuntimeIdentityHeaders H ''PUT'' ''/__runtime/snapshots/routes'' body key timestamp)"

text \<open>\<open>publishAttempt\<close>, of what \<open>fetch\<close> answered.\<close>

definition publishAttempt :: "NormalizedPublishOptions \<Rightarrow> RouteSnapshot \<Rightarrow> fetch_reply \<Rightarrow> AttemptResult" where
  "publishAttempt opts snapshot reply = (case reply of
       Threw e \<Rightarrow> failed_attempt e True
     | Replied True status _ (Inl e) \<Rightarrow> failed_attempt e True
     | Replied True status _ (Inr v) \<Rightarrow> (let ack = object_entries v in
         \<lparr>ar_ok = True, ar_status = Some status,
          ar_routes = Some (numberOrDefault (getp ack ''routes'') (Fin (of_nat (length (snap_routes snapshot))))),
          ar_generatedAt = Some (stringOrDefault (getp ack ''generatedAt'') (snap_generatedAt snapshot)),
          ar_snapshotId = stringOrUndefined (getp ack ''snapshotId'') (snap_id snapshot),
          ar_error = None, ar_retryable = False\<rparr>)
     | Replied False status (Inl e) _ \<Rightarrow> failed_attempt e True
     | Replied False status (Inr message) _ \<Rightarrow>
         (failed_attempt message (is_retryable opts status))\<lparr>ar_status := Some status\<rparr>)"

definition withTargetTiming :: "RuntimeNodeTarget \<Rightarrow> AttemptResult \<Rightarrow> int \<Rightarrow> rat \<Rightarrow> rat \<Rightarrow> PublishTargetResult" where
  "withTargetTiming target attempt attempts startedMs endedMs =
     \<lparr>ptr_id = nt_id target, ptr_url = nt_url target, ptr_result = attempt, ptr_attempts = attempts,
      ptr_elapsedMs = publish_round3 (max 0 (endedMs - startedMs))\<rparr>"

text \<open>\<open>publishToRuntimeNode\<close>: its beginning, one attempt, and the end of a pause.\<close>

record PublishCall =
  pc_snapshot :: RouteSnapshot
  pc_target :: RuntimeNodeTarget
  pc_startedMs :: rat
  pc_progress :: "(AttemptResult, PublishTargetResult) progress"

definition publish_start :: "UrlApi \<Rightarrow> (string \<Rightarrow> string) \<Rightarrow> NormalizedPublishOptions \<Rightarrow> RouteSnapshot
    \<Rightarrow> RuntimeNodeTarget \<Rightarrow> rat \<Rightarrow> rat \<Rightarrow> PublishCall" where
  "publish_start U invalidUrl opts snapshot target startedMs nowMs =
     \<lparr>pc_snapshot = snapshot, pc_target = target, pc_startedMs = startedMs,
      pc_progress = (case snapshotEndpoint U (nt_url target) of
          None \<Rightarrow> Reported (withTargetTiming target (failed_attempt (invalidUrl (nt_url target)) False) 1 startedMs nowMs)
        | Some _ \<Rightarrow> if 1 \<le> npo_maxAttempts opts then Attempting 1
            else Reported (withTargetTiming target (failed_attempt ''snapshot publish did not run'' False)
                   (npo_maxAttempts opts) startedMs nowMs))\<rparr>"

definition publish_answer :: "NormalizedPublishOptions \<Rightarrow> fetch_reply \<Rightarrow> rat \<Rightarrow> PublishCall \<Rightarrow> PublishCall" where
  "publish_answer opts reply nowMs c = (case pc_progress c of
       Attempting n \<Rightarrow> (let r = publishAttempt opts (pc_snapshot c) reply in
         c\<lparr>pc_progress :=
             (if ar_ok r \<or> \<not> ar_retryable r \<or> npo_maxAttempts opts \<le> n
              then Reported (withTargetTiming (pc_target c) r n (pc_startedMs c) nowMs)
              else Pausing n r)\<rparr>)
     | _ \<Rightarrow> c)"

definition publish_wake :: "NormalizedPublishOptions \<Rightarrow> rat \<Rightarrow> PublishCall \<Rightarrow> PublishCall" where
  "publish_wake opts nowMs c = (case pc_progress c of
       Pausing n r \<Rightarrow> c\<lparr>pc_progress :=
           (if n + 1 \<le> npo_maxAttempts opts then Attempting (n + 1)
            else Reported (withTargetTiming (pc_target c) r (npo_maxAttempts opts) (pc_startedMs c) nowMs))\<rparr>
     | _ \<Rightarrow> c)"

text \<open>\<open>publishRouteSnapshot\<close>: one call per target, each with the target's own snapshot if it has one.\<close>

definition publish_calls :: "UrlApi \<Rightarrow> (string \<Rightarrow> string) \<Rightarrow> PublishOptions \<Rightarrow> RouteSnapshot
    \<Rightarrow> RuntimeNodeTarget list \<Rightarrow> rat \<Rightarrow> PublishCall list" where
  "publish_calls U invalidUrl options snapshot targets nowMs =
     map (\<lambda>t. publish_start U invalidUrl (normalizePublishOptions options)
            (case nt_snapshot t of None \<Rightarrow> snapshot | Some own \<Rightarrow> own) t nowMs nowMs) targets"

record PublishReport =
  pr_ok :: bool
  pr_snapshotId :: "string option"
  pr_routes :: nat
  pr_generatedAt :: string
  pr_targets :: "PublishTargetResult list"

definition reported :: "('a, 'r) progress \<Rightarrow> 'r option" where
  "reported p = (case p of Reported r \<Rightarrow> Some r | _ \<Rightarrow> None)"

definition publishRouteSnapshot :: "RouteSnapshot \<Rightarrow> PublishCall list \<Rightarrow> PublishReport option" where
  "publishRouteSnapshot snapshot calls = (let rs = map (\<lambda>c. reported (pc_progress c)) calls in
     if None \<in> set rs then None
     else Some \<lparr>pr_ok = list_all (\<lambda>r. ar_ok (ptr_result (the r))) rs, pr_snapshotId = snap_id snapshot,
       pr_routes = length (snap_routes snapshot), pr_generatedAt = snap_generatedAt snapshot, pr_targets = map the rs\<rparr>)"

definition env_items :: "string option \<Rightarrow> string list" where
  "env_items v = (case v of None \<Rightarrow> [] | Some s \<Rightarrow>
     if s = [] then [] else filter (\<lambda>i. i \<noteq> []) (map trim (split_on (CHR '','') s)))"

definition runtimeNodeTargetsFromEnv :: "string option \<Rightarrow> RuntimeNodeTarget list" where
  "runtimeNodeTargetsFromEnv v = map (\<lambda>(i, url).
     \<lparr>nt_id = Some (''runtime-'' @ nat_digits (i + 1)), nt_url = url, nt_token = None, nt_identity = None,
      nt_snapshot = None\<rparr>) (indexed (env_items v))"

end
