(* ===== verification/Replication.thy ===== *)
theory Replication
  imports Publishing Tables
begin

text \<open>
  The replication of a route snapshot to other control planes and the store a replica keeps
  (\<open>control-plane/snapshot-replication.ts\<close>), with the two endpoints of that store
  (\<open>applyReplicatedRouteSnapshot\<close> and \<open>readReplicatedRouteSnapshot\<close> of \<open>http/app.ts\<close>).
\<close>

subsection \<open>The store of a replica\<close>

text \<open>
  A replica keeps the body it was sent, an object whose \<open>id\<close> and \<open>generatedAt\<close> have been checked.
\<close>

record ReplicaState =
  rs_snapshot :: "(string \<times> json) list"
  rs_sourceRegion :: "string option"
  rs_receivedAt :: string

record ReplicaApplyResult =
  rar_accepted :: bool
  rar_stale :: bool
  rar_snapshotId :: "string option"
  rar_generatedAt :: string
  rar_receivedAt :: string

definition body_id :: "(string \<times> json) list \<Rightarrow> string option" where
  "body_id r = (case getp r ''id'' of JStr s \<Rightarrow> Some s | _ \<Rightarrow> None)"

definition body_generatedAt :: "(string \<times> json) list \<Rightarrow> string" where
  "body_generatedAt r = (case getp r ''generatedAt'' of JStr s \<Rightarrow> s | _ \<Rightarrow> [])"

definition is_text :: "json \<Rightarrow> bool" where
  "is_text v = (case v of JStr _ \<Rightarrow> True | _ \<Rightarrow> False)"

definition is_array :: "json \<Rightarrow> bool" where
  "is_array v = (case v of JArr _ \<Rightarrow> True | _ \<Rightarrow> False)"

definition assertReplicatedRouteSnapshot :: "json \<Rightarrow> (string \<times> json) list cp" where
  "assertReplicatedRouteSnapshot v = (case v of
       JObj r \<Rightarrow>
         if getp r ''schemaVersion'' \<noteq> JInt 1 \<or> \<not> is_array (getp r ''routes'')
         then throwC Validation ''route snapshot replica must have schemaVersion 1 and routes''
         else if getp r ''id'' \<noteq> JUndefined \<and> \<not> is_text (getp r ''id'')
         then throwC Validation ''route snapshot replica id must be a string''
         else if \<not> is_text (getp r ''generatedAt'')
         then throwC Validation ''route snapshot replica generatedAt must be a string''
         else Inr r
     | _ \<Rightarrow> throwC Validation ''route snapshot replica body must be an object'')"

text \<open>The difference of two dates is \<open>NaN\<close> when one of them is not valid.\<close>

definition compareSnapshotFreshness :: "DateApi \<Rightarrow> (string \<Rightarrow> string \<Rightarrow> int) \<Rightarrow> (string \<times> json) list
    \<Rightarrow> (string \<times> json) list \<Rightarrow> int" where
  "compareSnapshotFreshness D localeCompare a b =
     (let byId = (if body_id a = body_id b then 0
        else localeCompare (case body_id a of None \<Rightarrow> [] | Some s \<Rightarrow> s) (case body_id b of None \<Rightarrow> [] | Some s \<Rightarrow> s)) in
      case (dateParse D (body_generatedAt a), dateParse D (body_generatedAt b)) of
        (Some ta, Some tb) \<Rightarrow> if ta - tb \<noteq> 0 then ta - tb else byId
      | _ \<Rightarrow> byId)"

definition replica_apply :: "DateApi \<Rightarrow> (string \<Rightarrow> string \<Rightarrow> int) \<Rightarrow> ReplicaState \<Rightarrow> ReplicaState option
    \<Rightarrow> ReplicaState option \<times> ReplicaApplyResult" where
  "replica_apply D localeCompare i state = (case state of
       Some cur \<Rightarrow>
         if compareSnapshotFreshness D localeCompare (rs_snapshot i) (rs_snapshot cur) < 0
         then (state, \<lparr>rar_accepted = False, rar_stale = True, rar_snapshotId = body_id (rs_snapshot cur),
                 rar_generatedAt = body_generatedAt (rs_snapshot cur), rar_receivedAt = rs_receivedAt cur\<rparr>)
         else (Some i, \<lparr>rar_accepted = True, rar_stale = False, rar_snapshotId = body_id (rs_snapshot i),
                 rar_generatedAt = body_generatedAt (rs_snapshot i), rar_receivedAt = rs_receivedAt i\<rparr>)
     | None \<Rightarrow> (Some i, \<lparr>rar_accepted = True, rar_stale = False, rar_snapshotId = body_id (rs_snapshot i),
                 rar_generatedAt = body_generatedAt (rs_snapshot i), rar_receivedAt = rs_receivedAt i\<rparr>))"

text \<open>The reply to \<open>PUT /replication/snapshots/routes\<close>; \<open>stringify\<close> is \<open>JSON.stringify\<close>.\<close>

definition encodeApplyResult :: "ReplicaApplyResult \<Rightarrow> json" where
  "encodeApplyResult r = JObj ([(''accepted'', JBool (rar_accepted r)), (''stale'', JBool (rar_stale r))]
     @ encodeOptional ''snapshotId'' (map_option JStr (rar_snapshotId r))
     @ [(''generatedAt'', JStr (rar_generatedAt r)), (''receivedAt'', JStr (rar_receivedAt r))])"

definition json_reply :: "(json \<Rightarrow> string) \<Rightarrow> int \<Rightarrow> json \<Rightarrow> fetch_reply" where
  "json_reply stringify status v = Replied (200 \<le> status \<and> status < 300) status (Inr (stringify v)) (Inr v)"

definition rejected_reply :: "(json \<Rightarrow> string) \<Rightarrow> ControlPlaneError \<Rightarrow> fetch_reply" where
  "rejected_reply stringify e = json_reply stringify (errStatus e)
     (JObj [(''error'', JObj [(''code'', JStr (case errCode e of Validation \<Rightarrow> ''validation''
        | NotFound \<Rightarrow> ''not_found'' | Conflict \<Rightarrow> ''conflict'')), (''message'', JStr (errMessage e))])])"

definition applyReplicatedRouteSnapshot :: "DateApi \<Rightarrow> (string \<Rightarrow> string \<Rightarrow> int) \<Rightarrow> json \<Rightarrow> string option \<Rightarrow> string
    \<Rightarrow> ReplicaState option \<Rightarrow> ReplicaState option \<times> ReplicaApplyResult cp" where
  "applyReplicatedRouteSnapshot D localeCompare body region now state =
     (case assertReplicatedRouteSnapshot body of
        Inl e \<Rightarrow> (state, Inl e)
      | Inr r \<Rightarrow> map_prod id Inr
          (replica_apply D localeCompare \<lparr>rs_snapshot = r, rs_sourceRegion = region, rs_receivedAt = now\<rparr> state))"

definition replica_put :: "DateApi \<Rightarrow> (string \<Rightarrow> string \<Rightarrow> int) \<Rightarrow> (json \<Rightarrow> string) \<Rightarrow> json \<Rightarrow> string option \<Rightarrow> string
    \<Rightarrow> ReplicaState option \<Rightarrow> ReplicaState option \<times> fetch_reply" where
  "replica_put D localeCompare stringify body region now state =
     map_prod id (case_sum (rejected_reply stringify) (\<lambda>r. json_reply stringify 200 (encodeApplyResult r)))
       (applyReplicatedRouteSnapshot D localeCompare body region now state)"

definition readReplicatedRouteSnapshot :: "ReplicaState option \<Rightarrow> ReplicaState cp" where
  "readReplicatedRouteSnapshot state = (case state of
       None \<Rightarrow> throwC NotFound ''replicated route snapshot was not found'' | Some s \<Rightarrow> Inr s)"

subsection \<open>Replicating to a target\<close>

record ReplicaTarget =
  rt_id :: "string option"
  rt_region :: string
  rt_url :: string
  rt_token :: "string option"

record ReplicaAttemptResult =
  rat_ok :: bool
  rat_consistent :: bool
  rat_status :: "int option"
  rat_snapshotId :: "string option"
  rat_generatedAt :: "string option"
  rat_error :: "string option"
  rat_retryable :: bool

record ReplicaResult =
  rr_id :: "string option"
  rr_region :: string
  rr_url :: string
  rr_result :: ReplicaAttemptResult
  rr_attempts :: int
  rr_elapsedMs :: rat

definition failed_replica :: "string \<Rightarrow> bool \<Rightarrow> ReplicaAttemptResult" where
  "failed_replica e again = \<lparr>rat_ok = False, rat_consistent = False, rat_status = None, rat_snapshotId = None,
     rat_generatedAt = None, rat_error = Some e, rat_retryable = again\<rparr>"

definition replicaAck :: "RouteSnapshot \<Rightarrow> (string \<times> json) list \<Rightarrow> int \<Rightarrow> ReplicaAttemptResult" where
  "replicaAck snapshot ack status =
     (let sid = stringOrUndefined (getp ack ''snapshotId'') None;
          gen = stringOrUndefined (getp ack ''generatedAt'') None;
          res = \<lparr>rat_ok = True, rat_consistent = False, rat_status = Some status, rat_snapshotId = sid,
                 rat_generatedAt = gen, rat_error = None, rat_retryable = False\<rparr> in
      if getp ack ''accepted'' = JBool False
      then res\<lparr>rat_error := Some (if getp ack ''stale'' = JBool True then ''replica rejected stale snapshot''
             else ''replica rejected snapshot'')\<rparr>
      else if \<not> (snap_id snapshot = None \<or> sid = snap_id snapshot) \<or> gen \<noteq> Some (snap_generatedAt snapshot)
      then res\<lparr>rat_error := Some ''replica acknowledged a different snapshot''\<rparr>
      else res\<lparr>rat_consistent := True\<rparr>)"

definition replicaEndpoint :: "UrlApi \<Rightarrow> string \<Rightarrow> string option" where
  "replicaEndpoint U baseUrl = (case urlParse U baseUrl of None \<Rightarrow> None
     | Some _ \<Rightarrow> Some (strip_trailing_slashes baseUrl @ ''/replication/snapshots/routes''))"

definition replicaHeaders :: "ReplicaTarget \<Rightarrow> string option \<Rightarrow> (string \<times> string) list" where
  "replicaHeaders target sourceRegion =
     [(''content-type'', ''application/json'')]
     @ (if truthy_text (rt_token target) then [(''authorization'', ''Bearer '' @ the (rt_token target))] else [])
     @ (if truthy_text sourceRegion then [(''x-oden-source-region'', the sourceRegion)] else [])"

definition replicateAttempt :: "NormalizedPublishOptions \<Rightarrow> RouteSnapshot \<Rightarrow> fetch_reply \<Rightarrow> ReplicaAttemptResult" where
  "replicateAttempt opts snapshot reply = (case reply of
       Threw e \<Rightarrow> failed_replica e True
     | Replied True status _ (Inl e) \<Rightarrow> failed_replica e True
     | Replied True status _ (Inr v) \<Rightarrow> replicaAck snapshot (object_entries v) status
     | Replied False status (Inl e) _ \<Rightarrow> failed_replica e True
     | Replied False status (Inr message) _ \<Rightarrow>
         (failed_replica message (is_retryable opts status))\<lparr>rat_status := Some status\<rparr>)"

definition withReplicaTiming :: "ReplicaTarget \<Rightarrow> ReplicaAttemptResult \<Rightarrow> int \<Rightarrow> rat \<Rightarrow> rat \<Rightarrow> ReplicaResult" where
  "withReplicaTiming target attempt attempts startedMs endedMs =
     \<lparr>rr_id = rt_id target, rr_region = rt_region target, rr_url = rt_url target, rr_result = attempt,
      rr_attempts = attempts, rr_elapsedMs = publish_round3 (max 0 (endedMs - startedMs))\<rparr>"

record ReplicaCall =
  rc_snapshot :: RouteSnapshot
  rc_target :: ReplicaTarget
  rc_startedMs :: rat
  rc_progress :: "(ReplicaAttemptResult, ReplicaResult) progress"

definition replica_start :: "UrlApi \<Rightarrow> (string \<Rightarrow> string) \<Rightarrow> NormalizedPublishOptions \<Rightarrow> RouteSnapshot
    \<Rightarrow> ReplicaTarget \<Rightarrow> rat \<Rightarrow> rat \<Rightarrow> ReplicaCall" where
  "replica_start U invalidUrl opts snapshot target startedMs nowMs =
     \<lparr>rc_snapshot = snapshot, rc_target = target, rc_startedMs = startedMs,
      rc_progress = (case replicaEndpoint U (rt_url target) of
          None \<Rightarrow> Reported (withReplicaTiming target (failed_replica (invalidUrl (rt_url target)) False) 1 startedMs nowMs)
        | Some _ \<Rightarrow> if 1 \<le> npo_maxAttempts opts then Attempting 1
            else Reported (withReplicaTiming target (failed_replica ''snapshot replication did not run'' False)
                   (npo_maxAttempts opts) startedMs nowMs))\<rparr>"

definition replica_answer :: "NormalizedPublishOptions \<Rightarrow> fetch_reply \<Rightarrow> rat \<Rightarrow> ReplicaCall \<Rightarrow> ReplicaCall" where
  "replica_answer opts reply nowMs c = (case rc_progress c of
       Attempting n \<Rightarrow> (let r = replicateAttempt opts (rc_snapshot c) reply in
         c\<lparr>rc_progress :=
             (if rat_ok r \<or> \<not> rat_retryable r \<or> npo_maxAttempts opts \<le> n
              then Reported (withReplicaTiming (rc_target c) r n (rc_startedMs c) nowMs)
              else Pausing n r)\<rparr>)
     | _ \<Rightarrow> c)"

definition replica_wake :: "NormalizedPublishOptions \<Rightarrow> rat \<Rightarrow> ReplicaCall \<Rightarrow> ReplicaCall" where
  "replica_wake opts nowMs c = (case rc_progress c of
       Pausing n r \<Rightarrow> c\<lparr>rc_progress :=
           (if n + 1 \<le> npo_maxAttempts opts then Attempting (n + 1)
            else Reported (withReplicaTiming (rc_target c) (failed_replica ''snapshot replication did not run'' False)
                   (npo_maxAttempts opts) (rc_startedMs c) nowMs))\<rparr>
     | _ \<Rightarrow> c)"

definition replica_calls :: "UrlApi \<Rightarrow> (string \<Rightarrow> string) \<Rightarrow> PublishOptions \<Rightarrow> RouteSnapshot
    \<Rightarrow> ReplicaTarget list \<Rightarrow> rat \<Rightarrow> ReplicaCall list" where
  "replica_calls U invalidUrl options snapshot targets nowMs =
     map (\<lambda>t. replica_start U invalidUrl (normalizePublishOptions options) snapshot t nowMs nowMs) targets"

record ReplicationReport =
  rrep_ok :: bool
  rrep_consistent :: bool
  rrep_snapshotId :: "string option"
  rrep_routes :: nat
  rrep_generatedAt :: string
  rrep_replicas :: "ReplicaResult list"

definition replicateRouteSnapshot :: "RouteSnapshot \<Rightarrow> ReplicaCall list \<Rightarrow> ReplicationReport option" where
  "replicateRouteSnapshot snapshot calls = (let rs = map (\<lambda>c. reported (rc_progress c)) calls in
     if None \<in> set rs then None
     else (let consistent = list_all (\<lambda>r. rat_ok (rr_result (the r)) \<and> rat_consistent (rr_result (the r))) rs in
       Some \<lparr>rrep_ok = consistent, rrep_consistent = consistent, rrep_snapshotId = snap_id snapshot,
         rrep_routes = length (snap_routes snapshot), rrep_generatedAt = snap_generatedAt snapshot,
         rrep_replicas = map the rs\<rparr>))"

subsection \<open>Targets from the environment\<close>

definition parseReplicaTarget :: "string \<Rightarrow> nat \<Rightarrow> ReplicaTarget" where
  "parseReplicaTarget value index =
     (let numbered = ''replica-'' @ nat_digits (index + 1) in
      case index_of (CHR ''='') value of
        None \<Rightarrow> \<lparr>rt_id = Some numbered, rt_region = numbered, rt_url = value, rt_token = None\<rparr>
      | Some i \<Rightarrow>
          let region = trim (take i value);
              rid = (if region \<noteq> [] then ''replica-'' @ region else numbered) in
          \<lparr>rt_id = Some rid, rt_region = (if region \<noteq> [] then region else rid),
           rt_url = trim (drop (i + 1) value), rt_token = None\<rparr>)"

definition routeSnapshotReplicaTargetsFromEnv :: "string option \<Rightarrow> string option \<Rightarrow> ReplicaTarget list" where
  "routeSnapshotReplicaTargetsFromEnv v token = map (\<lambda>(i, item).
     if truthy_text token then (parseReplicaTarget item i)\<lparr>rt_token := token\<rparr> else parseReplicaTarget item i)
     (indexed (env_items v))"

end
