(* ===== verification/ReplicationLaws.thy ===== *)
theory ReplicationLaws
  imports Replication
begin

text \<open>
  Control planes that replicate snapshots to each other over a network that loses, delays and repeats
  requests and answers: what a replica holds, and what the report of a replication says of it. Then the
  attempts of a publication, and the signature a runtime node checks.
\<close>

subsection \<open>Freshness is an order as long as dates are valid\<close>

definition dated :: "DateApi \<Rightarrow> (string \<times> json) list \<Rightarrow> bool" where
  "dated D b \<longleftrightarrow> dateParse D (body_generatedAt b) \<noteq> None"

lemma freshness_self [simp]: "compareSnapshotFreshness D lc b b = 0"
  by (simp add: compareSnapshotFreshness_def Let_def split: option.split)

lemma freshness_swap:
  assumes "consistent_compare lc" and "dated D a" and "dated D b"
  shows "compareSnapshotFreshness D lc a b < 0 \<longleftrightarrow> 0 < compareSnapshotFreshness D lc b a"
  using assms(2,3) consistent_compareD(2) [OF assms(1)]
  by (auto simp: compareSnapshotFreshness_def dated_def Let_def)

lemma freshness_trans:
  assumes "consistent_compare lc" and "dated D a" and "dated D b" and "dated D c"
    and "compareSnapshotFreshness D lc a b \<le> 0" and "compareSnapshotFreshness D lc b c \<le> 0"
  shows "compareSnapshotFreshness D lc a c \<le> 0"
proof -
  let ?id = "\<lambda>x. case body_id x of None \<Rightarrow> [] | Some s \<Rightarrow> s"
  obtain ta tb tc where t: "dateParse D (body_generatedAt a) = Some ta" "dateParse D (body_generatedAt b) = Some tb"
      "dateParse D (body_generatedAt c) = Some tc"
    using assms(2-4) by (auto simp: dated_def)
  note l = consistent_compareD [OF assms(1)]
  have self: "lc x x \<le> 0" for x using l(1) by simp
  consider "ta < tb \<or> tb < tc" "ta \<le> tb" "tb \<le> tc" | "ta = tb" "tb = tc"
    using assms(5,6) t by (auto simp: compareSnapshotFreshness_def Let_def split: if_splits)
  then show ?thesis
  proof cases
    case 1
    then show ?thesis using t by (auto simp: compareSnapshotFreshness_def Let_def)
  next
    case 2
    then have "lc (?id a) (?id b) \<le> 0" "lc (?id b) (?id c) \<le> 0"
      using assms(5,6) t self by (auto simp: compareSnapshotFreshness_def Let_def split: if_splits)
    from l(4) [OF this] show ?thesis using t 2 by (simp add: compareSnapshotFreshness_def Let_def)
  qed
qed

subsection \<open>The network\<close>

text \<open>
  The replicas by their endpoint; every answer that was ever given, with the endpoint and the body of its
  request; the bodies each replica was sent and found well formed; those it has held; and the calls under way
  or finished.
\<close>

record ReplicaNet =
  rn_replicas :: "string \<Rightarrow> ReplicaState option"
  rn_answers :: "(string \<times> json \<times> fetch_reply) list"
  rn_received :: "(string \<times> (string \<times> json) list) list"
  rn_held :: "(string \<times> (string \<times> json) list) list"
  rn_calls :: "ReplicaCall list"

definition fresh_net :: ReplicaNet where
  "fresh_net = \<lparr>rn_replicas = (\<lambda>_. None), rn_answers = [], rn_received = [], rn_held = [], rn_calls = []\<rparr>"

definition received_body :: "string \<Rightarrow> json \<Rightarrow> (string \<times> (string \<times> json) list) list" where
  "received_body url body = (case assertReplicatedRouteSnapshot body of Inl _ \<Rightarrow> [] | Inr b \<Rightarrow> [(url, b)])"

definition held_body :: "string \<Rightarrow> ReplicaState option \<Rightarrow> (string \<times> (string \<times> json) list) list" where
  "held_body url state = (case state of None \<Rightarrow> [] | Some st \<Rightarrow> [(url, rs_snapshot st)])"

definition no_answer :: "fetch_reply \<Rightarrow> bool" where
  "no_answer reply \<longleftrightarrow> (case reply of Replied True _ _ (Inr _) \<Rightarrow> False | _ \<Rightarrow> True)"

text \<open>
  Requests of any origin reach a replica at any time and any number of times, so also the requests of calls
  that gave up long ago. A call takes an answer that its replica gave to its body, or one that is not a
  success: an exception, a failed status, or a success whose body could not be read.
\<close>

inductive replica_net :: "UrlApi \<Rightarrow> (string \<Rightarrow> string) \<Rightarrow> DateApi \<Rightarrow> (string \<Rightarrow> string \<Rightarrow> int) \<Rightarrow> (json \<Rightarrow> string)
    \<Rightarrow> NormalizedPublishOptions \<Rightarrow> ReplicaNet \<Rightarrow> bool"
  for U invalidUrl D lc stringify opts where
  fresh: "replica_net U invalidUrl D lc stringify opts fresh_net"
| call: "replica_net U invalidUrl D lc stringify opts w \<Longrightarrow>
    replica_net U invalidUrl D lc stringify opts
      (w\<lparr>rn_calls := rn_calls w @ [replica_start U invalidUrl opts snapshot target startedMs nowMs]\<rparr>)"
| deliver: "replica_net U invalidUrl D lc stringify opts w \<Longrightarrow>
    replica_put D lc stringify body region now (rn_replicas w url) = (state, reply) \<Longrightarrow>
    replica_net U invalidUrl D lc stringify opts
      (w\<lparr>rn_replicas := (rn_replicas w)(url := state), rn_answers := (url, body, reply) # rn_answers w,
         rn_received := received_body url body @ rn_received w, rn_held := held_body url state @ rn_held w\<rparr>)"
| answered: "replica_net U invalidUrl D lc stringify opts w \<Longrightarrow> i < length (rn_calls w) \<Longrightarrow>
    replicaEndpoint U (rt_url (rc_target (rn_calls w ! i))) = Some url \<Longrightarrow>
    (url, encodeSnapshot (rc_snapshot (rn_calls w ! i)), reply) \<in> set (rn_answers w) \<Longrightarrow>
    replica_net U invalidUrl D lc stringify opts
      (w\<lparr>rn_calls := (rn_calls w)[i := replica_answer opts reply nowMs (rn_calls w ! i)]\<rparr>)"
| unanswered: "replica_net U invalidUrl D lc stringify opts w \<Longrightarrow> i < length (rn_calls w) \<Longrightarrow> no_answer reply \<Longrightarrow>
    replica_net U invalidUrl D lc stringify opts
      (w\<lparr>rn_calls := (rn_calls w)[i := replica_answer opts reply nowMs (rn_calls w ! i)]\<rparr>)"
| woken: "replica_net U invalidUrl D lc stringify opts w \<Longrightarrow> i < length (rn_calls w) \<Longrightarrow>
    replica_net U invalidUrl D lc stringify opts
      (w\<lparr>rn_calls := (rn_calls w)[i := replica_wake opts nowMs (rn_calls w ! i)]\<rparr>)"

subsection \<open>What replicas hold\<close>

definition holds_freshest :: "DateApi \<Rightarrow> (string \<Rightarrow> string \<Rightarrow> int) \<Rightarrow> ReplicaNet \<Rightarrow> string \<Rightarrow> bool" where
  "holds_freshest D lc w url \<longleftrightarrow> (case rn_replicas w url of
       None \<Rightarrow> \<forall>b. (url, b) \<notin> set (rn_received w)
     | Some st \<Rightarrow> (url, rs_snapshot st) \<in> set (rn_received w)
         \<and> (\<forall>b. (url, b) \<in> set (rn_received w) \<longrightarrow> compareSnapshotFreshness D lc b (rs_snapshot st) \<le> 0))"

lemma received_body_simps [simp]:
  "assertReplicatedRouteSnapshot body = Inl e \<Longrightarrow> received_body url body = []"
  "assertReplicatedRouteSnapshot body = Inr b \<Longrightarrow> received_body url body = [(url, b)]"
  by (simp_all add: received_body_def)

text \<open>One request: the replica takes the body unless what it holds is strictly fresher.\<close>

lemma replica_put_cases:
  assumes "replica_put D lc stringify body region now st = (st', reply)"
  obtains (rejected) e where "assertReplicatedRouteSnapshot body = Inl e" "st' = st" "reply = rejected_reply stringify e"
  | (stale) b cur where "assertReplicatedRouteSnapshot body = Inr b" "st = Some cur" "st' = st"
      "compareSnapshotFreshness D lc b (rs_snapshot cur) < 0"
      "reply = json_reply stringify 200 (encodeApplyResult \<lparr>rar_accepted = False, rar_stale = True,
         rar_snapshotId = body_id (rs_snapshot cur), rar_generatedAt = body_generatedAt (rs_snapshot cur),
         rar_receivedAt = rs_receivedAt cur\<rparr>)"
  | (taken) b new where "assertReplicatedRouteSnapshot body = Inr b" "st' = Some new" "rs_snapshot new = b"
      "\<And>cur. st = Some cur \<Longrightarrow> 0 \<le> compareSnapshotFreshness D lc b (rs_snapshot cur)"
      "reply = json_reply stringify 200 (encodeApplyResult \<lparr>rar_accepted = True, rar_stale = False,
         rar_snapshotId = body_id b, rar_generatedAt = body_generatedAt b, rar_receivedAt = now\<rparr>)"
proof (cases "assertReplicatedRouteSnapshot body")
  case (Inl e)
  then show thesis using assms rejected by (simp add: replica_put_def applyReplicatedRouteSnapshot_def)
next
  case (Inr b)
  show thesis
  proof (cases "\<exists>cur. st = Some cur \<and> compareSnapshotFreshness D lc b (rs_snapshot cur) < 0")
    case True
    then show thesis using assms Inr stale
      by (auto simp: replica_put_def applyReplicatedRouteSnapshot_def replica_apply_def)
  next
    case False
    then show thesis using assms Inr taken
      by (auto simp: replica_put_def applyReplicatedRouteSnapshot_def replica_apply_def not_less split: option.splits)
  qed
qed

lemma deliver_holds_freshest:
  assumes "consistent_compare lc" and "\<And>u. holds_freshest D lc w u"
    and "replica_put D lc stringify body region now (rn_replicas w url) = (st', reply)"
    and "\<forall>p \<in> set (received_body url body @ rn_received w). dated D (snd p)"
  shows "holds_freshest D lc (w\<lparr>rn_replicas := (rn_replicas w)(url := st'), rn_answers := (url, body, reply) # rn_answers w,
         rn_received := received_body url body @ rn_received w, rn_held := held_body url st' @ rn_held w\<rparr>) u"
  using assms(3)
proof (cases rule: replica_put_cases)
  case (rejected e)
  then show ?thesis using assms(2) [of u] by (auto simp: holds_freshest_def split: option.splits)
next
  case (stale b cur)
  then show ?thesis using assms(2) [of u] by (auto simp: holds_freshest_def split: option.splits)
next
  case (taken b new)
  have d: "dated D b" "\<And>b'. (url, b') \<in> set (rn_received w) \<Longrightarrow> dated D b'"
    using assms(4) taken(1) by fastforce+
  have "compareSnapshotFreshness D lc b' b \<le> 0" if "(url, b') \<in> set (rn_received w)" for b'
  proof (cases "rn_replicas w url")
    case None
    then show ?thesis using assms(2) [of url] that by (simp add: holds_freshest_def)
  next
    case (Some cur)
    then have cur: "(url, rs_snapshot cur) \<in> set (rn_received w)" "compareSnapshotFreshness D lc b' (rs_snapshot cur) \<le> 0"
      using assms(2) [of url] that by (auto simp: holds_freshest_def)
    have "compareSnapshotFreshness D lc (rs_snapshot cur) b \<le> 0"
      using taken(4) [OF Some] freshness_swap [OF assms(1) d(1) d(2) [OF cur(1)]] by linarith
    then show ?thesis using freshness_trans [OF assms(1) d(2) [OF that] d(2) [OF cur(1)] d(1) cur(2)] by blast
  qed
  then show ?thesis using assms(2) [of u] taken by (auto simp: holds_freshest_def split: option.splits)
qed


subsection \<open>What calls report\<close>

definition snapshot_body :: "RouteSnapshot \<Rightarrow> (string \<times> json) list" where
  "snapshot_body s = object_entries (encodeSnapshot s)"

lemma encodeSnapshot_body: "encodeSnapshot s = JObj (snapshot_body s)"
  by (simp add: snapshot_body_def object_entries_def encodeSnapshot_def)

lemma snapshot_body_fields [simp]:
  "body_id (snapshot_body s) = snap_id s" "body_generatedAt (snapshot_body s) = snap_generatedAt s"
  by (auto simp: snapshot_body_def object_entries_def encodeSnapshot_def body_id_def body_generatedAt_def
      encodeOptional_def split: option.splits)

lemma assert_snapshot_body: "assertReplicatedRouteSnapshot (encodeSnapshot s) = Inr b \<Longrightarrow> b = snapshot_body s"
  by (auto simp: assertReplicatedRouteSnapshot_def encodeSnapshot_body split: if_splits)

text \<open>\<open>received\<close> and \<open>held\<close> are the bodies received and held so far, with their endpoints.\<close>

definition truthful_answer :: "DateApi \<Rightarrow> (string \<Rightarrow> string \<Rightarrow> int) \<Rightarrow> (json \<Rightarrow> string)
    \<Rightarrow> (string \<times> (string \<times> json) list) set \<Rightarrow> (string \<times> (string \<times> json) list) set \<Rightarrow> string \<Rightarrow> json \<Rightarrow> fetch_reply \<Rightarrow> bool" where
  "truthful_answer D lc stringify received held url body reply \<longleftrightarrow> no_answer reply
     \<or> (\<exists>b r. assertReplicatedRouteSnapshot body = Inr b \<and> (url, b) \<in> received
          \<and> reply = json_reply stringify 200 (encodeApplyResult r)
          \<and> (if rar_accepted r then rar_snapshotId r = body_id b \<and> rar_generatedAt r = body_generatedAt b \<and> (url, b) \<in> held
             else \<exists>b'. (url, b') \<in> held \<and> compareSnapshotFreshness D lc b b' < 0))"

definition truthful_call :: "UrlApi \<Rightarrow> DateApi \<Rightarrow> (string \<Rightarrow> string \<Rightarrow> int)
    \<Rightarrow> (string \<times> (string \<times> json) list) set \<Rightarrow> (string \<times> (string \<times> json) list) set \<Rightarrow> ReplicaCall \<Rightarrow> bool" where
  "truthful_call U D lc received held c \<longleftrightarrow> (case rc_progress c of
       Reported r \<Rightarrow> rat_ok (rr_result r) \<longrightarrow>
         (\<exists>url. replicaEndpoint U (rt_url (rc_target c)) = Some url
            \<and> (url, snapshot_body (rc_snapshot c)) \<in> received
            \<and> (if rat_consistent (rr_result r) then (url, snapshot_body (rc_snapshot c)) \<in> held
               else \<exists>b. (url, b) \<in> held \<and> compareSnapshotFreshness D lc (snapshot_body (rc_snapshot c)) b < 0))
     | Attempting n \<Rightarrow> replicaEndpoint U (rt_url (rc_target c)) \<noteq> None
     | Pausing n r \<Rightarrow> replicaEndpoint U (rt_url (rc_target c)) \<noteq> None)"

lemma truthful_answer_mono:
  "truthful_answer D lc f R H url body reply \<Longrightarrow> R \<subseteq> R' \<Longrightarrow> H \<subseteq> H' \<Longrightarrow> truthful_answer D lc f R' H' url body reply"
  unfolding truthful_answer_def by (smt (verit) subsetD)

lemma truthful_call_mono: "truthful_call U D lc R H c \<Longrightarrow> R \<subseteq> R' \<Longrightarrow> H \<subseteq> H' \<Longrightarrow> truthful_call U D lc R' H' c"
  by (cases "rc_progress c") (fastforce simp: truthful_call_def split: if_splits)+

lemma truthful_start: "truthful_call U D lc R H (replica_start U invalidUrl opts snapshot target startedMs nowMs)"
  by (auto simp: truthful_call_def replica_start_def withReplicaTiming_def failed_replica_def split: option.splits)

lemma truthful_wake: "truthful_call U D lc R H c \<Longrightarrow> truthful_call U D lc R H (replica_wake opts nowMs c)"
  by (auto simp: truthful_call_def replica_wake_def withReplicaTiming_def failed_replica_def split: progress.splits)

lemma no_answer_fails: "no_answer reply \<Longrightarrow> \<not> rat_ok (replicateAttempt opts snapshot reply)"
  by (auto simp: no_answer_def replicateAttempt_def failed_replica_def split: fetch_reply.splits bool.splits sum.splits)

lemma truthful_unanswered:
  "no_answer reply \<Longrightarrow> truthful_call U D lc R H c \<Longrightarrow> truthful_call U D lc R H (replica_answer opts reply nowMs c)"
  using no_answer_fails [of reply opts "rc_snapshot c"]
  by (auto simp: truthful_call_def replica_answer_def withReplicaTiming_def Let_def split: progress.splits)

text \<open>What a replica acknowledged of a body it took is what the call looks for.\<close>

lemma acknowledged:
  assumes "rar_accepted r \<Longrightarrow> rar_snapshotId r = snap_id s \<and> rar_generatedAt r = snap_generatedAt s"
  shows "rat_consistent (replicateAttempt opts s (json_reply f 200 (encodeApplyResult r))) \<longleftrightarrow> rar_accepted r"
  using assms
  by (cases "rar_accepted r") (auto simp: replicateAttempt_def json_reply_def object_entries_def encodeApplyResult_def
      replicaAck_def Let_def encodeOptional_def stringOrUndefined_def split: option.splits)

lemma truthful_answered:
  assumes "truthful_answer D lc f R H url (encodeSnapshot (rc_snapshot c)) reply"
    and "replicaEndpoint U (rt_url (rc_target c)) = Some url" and "truthful_call U D lc R H c"
  shows "truthful_call U D lc R H (replica_answer opts reply nowMs c)"
proof (cases "no_answer reply")
  case True
  then show ?thesis by (rule truthful_unanswered) (fact assms(3))
next
  case False
  with assms(1) obtain b r where b: "assertReplicatedRouteSnapshot (encodeSnapshot (rc_snapshot c)) = Inr b"
      "(url, b) \<in> R" "reply = json_reply f 200 (encodeApplyResult r)"
      "if rar_accepted r then rar_snapshotId r = body_id b \<and> rar_generatedAt r = body_generatedAt b \<and> (url, b) \<in> H
       else \<exists>b'. (url, b') \<in> H \<and> compareSnapshotFreshness D lc b b' < 0"
    by (auto simp: truthful_answer_def)
  note r = b(2-4) [unfolded assert_snapshot_body [OF b(1)] snapshot_body_fields]
  then have ack: "rat_consistent (replicateAttempt opts (rc_snapshot c) (json_reply f 200 (encodeApplyResult r))) \<longleftrightarrow> rar_accepted r"
    by (intro acknowledged) simp
  show ?thesis using r(1,3) assms(2,3) ack
    by (auto simp: truthful_call_def replica_answer_def withReplicaTiming_def Let_def r(2) split: progress.splits)
qed

lemma rejected_no_answer: "no_answer (rejected_reply f e)"
  by (cases "errCode e") (simp_all add: no_answer_def rejected_reply_def json_reply_def errStatus_def)

lemma truthful_put:
  assumes "replica_put D lc f body region now (rn_replicas w url) = (st', reply)"
  shows "truthful_answer D lc f (set (received_body url body @ rn_received w)) (set (held_body url st' @ rn_held w)) url body reply"
  using assms
proof (cases rule: replica_put_cases)
  case (rejected e)
  then show ?thesis by (simp add: truthful_answer_def rejected_no_answer)
next
  case (stale b cur)
  then show ?thesis by (fastforce simp: truthful_answer_def held_body_def)
next
  case (taken b new)
  then show ?thesis by (fastforce simp: truthful_answer_def held_body_def)
qed

subsection \<open>The invariant of the network\<close>

definition net_ok :: "UrlApi \<Rightarrow> DateApi \<Rightarrow> (string \<Rightarrow> string \<Rightarrow> int) \<Rightarrow> (json \<Rightarrow> string) \<Rightarrow> ReplicaNet \<Rightarrow> bool" where
  "net_ok U D lc f w \<longleftrightarrow> (\<forall>url. holds_freshest D lc w url)
     \<and> set (rn_held w) \<subseteq> set (rn_received w)
     \<and> (\<forall>(url, body, reply) \<in> set (rn_answers w).
          truthful_answer D lc f (set (rn_received w)) (set (rn_held w)) url body reply)
     \<and> (\<forall>c \<in> set (rn_calls w). truthful_call U D lc (set (rn_received w)) (set (rn_held w)) c)"

definition all_dated :: "DateApi \<Rightarrow> ReplicaNet \<Rightarrow> bool" where
  "all_dated D w \<longleftrightarrow> (\<forall>p \<in> set (rn_received w). dated D (snd p))"

lemma holds_freshest_calls [simp]: "holds_freshest D lc (w\<lparr>rn_calls := cs\<rparr>) url = holds_freshest D lc w url"
  by (simp add: holds_freshest_def split: option.split)

lemma net_ok_calls:
  assumes "net_ok U D lc f w" and "truthful_call U D lc (set (rn_received w)) (set (rn_held w)) c"
  shows "net_ok U D lc f (w\<lparr>rn_calls := (rn_calls w)[i := c]\<rparr>)" "net_ok U D lc f (w\<lparr>rn_calls := rn_calls w @ [c]\<rparr>)"
  using assms set_update_subset_insert [of "rn_calls w" i c]
  by (auto simp: net_ok_def)

lemma net_ok_run:
  assumes "replica_net U invalidUrl D lc f opts w" and "consistent_compare lc" and "all_dated D w"
  shows "net_ok U D lc f w"
  using assms(1,3)
proof induction
  case fresh
  then show ?case by (simp add: net_ok_def fresh_net_def holds_freshest_def)
next
  case (call w snapshot target startedMs nowMs)
  then show ?case by (intro net_ok_calls truthful_start) (simp_all add: all_dated_def)
next
  case (deliver w body region now url state reply)
  let ?R = "set (received_body url body @ rn_received w)" and ?H = "set (held_body url state @ rn_held w)"
  have w: "net_ok U D lc f w" using deliver by (auto simp: all_dated_def)
  then have h: "\<And>u. holds_freshest D lc w u" by (simp add: net_ok_def)
  have d: "\<forall>p \<in> ?R. dated D (snd p)" using deliver(4) by (simp add: all_dated_def)
  note fresh = deliver_holds_freshest [OF assms(2) h deliver(2) d]
  have "\<forall>(url, body, reply) \<in> set (rn_answers w). truthful_answer D lc f ?R ?H url body reply"
    using w by (auto simp: net_ok_def intro: truthful_answer_mono)
  moreover have "\<forall>c \<in> set (rn_calls w). truthful_call U D lc ?R ?H c"
    using w by (auto simp: net_ok_def intro: truthful_call_mono)
  moreover have "?H \<subseteq> ?R"
    using w fresh [of url] by (auto simp: net_ok_def held_body_def holds_freshest_def split: option.splits)
  ultimately show ?case using fresh truthful_put [OF deliver(2)] by (auto simp: net_ok_def)
next
  case (answered w i url reply nowMs)
  then have w: "net_ok U D lc f w" by (simp add: all_dated_def)
  with answered show ?case by (intro net_ok_calls truthful_answered) (auto simp: net_ok_def)
next
  case (unanswered w i reply nowMs)
  then have w: "net_ok U D lc f w" by (simp add: all_dated_def)
  with unanswered show ?case by (intro net_ok_calls truthful_unanswered) (auto simp: net_ok_def)
next
  case (woken w i nowMs)
  then have w: "net_ok U D lc f w" by (simp add: all_dated_def)
  with woken show ?case by (intro net_ok_calls truthful_wake) (auto simp: net_ok_def)
qed


text \<open>
  C14. However requests and answers are lost, delayed and repeated between control planes that replicate
  snapshots, and as long as every body a replica received has a valid date, every replica holds the freshest
  of all bodies it received, and the reports are true: a replica that a finished replication calls consistent
  has held that very snapshot, and now holds it or one at least as fresh; and one that answered without being
  consistent holds a strictly fresher snapshot.
\<close>

theorem replicas_hold_the_freshest:
  assumes "replica_net U invalidUrl D lc stringify opts w" and "consistent_compare lc" and "all_dated D w"
  shows "(\<forall>url. holds_freshest D lc w url)
     \<and> (\<forall>c \<in> set (rn_calls w). \<forall>r. rc_progress c = Reported r \<and> rat_ok (rr_result r) \<longrightarrow>
          (\<exists>url st. replicaEndpoint U (rt_url (rc_target c)) = Some url \<and> rn_replicas w url = Some st
             \<and> compareSnapshotFreshness D lc (snapshot_body (rc_snapshot c)) (rs_snapshot st) \<le> 0
             \<and> (if rat_consistent (rr_result r) then (url, snapshot_body (rc_snapshot c)) \<in> set (rn_held w)
                else compareSnapshotFreshness D lc (snapshot_body (rc_snapshot c)) (rs_snapshot st) < 0)))"
proof (intro conjI ballI allI impI)
  have ok: "net_ok U D lc stringify w" by (rule net_ok_run [OF assms])
  then show h: "holds_freshest D lc w url" for url by (simp add: net_ok_def)
  fix c :: ReplicaCall and r
  let ?b = "snapshot_body (rc_snapshot c)"
  assume "c \<in> set (rn_calls w)" "rc_progress c = Reported r \<and> rat_ok (rr_result r)"
  with ok obtain url where url: "replicaEndpoint U (rt_url (rc_target c)) = Some url" "(url, ?b) \<in> set (rn_received w)"
      and held: "if rat_consistent (rr_result r) then (url, ?b) \<in> set (rn_held w)
        else \<exists>b. (url, b) \<in> set (rn_held w) \<and> compareSnapshotFreshness D lc ?b b < 0"
    by (fastforce simp: net_ok_def truthful_call_def)
  from h [of url] url(2) obtain st where st: "rn_replicas w url = Some st" "(url, rs_snapshot st) \<in> set (rn_received w)"
      and max: "\<And>b. (url, b) \<in> set (rn_received w) \<Longrightarrow> compareSnapshotFreshness D lc b (rs_snapshot st) \<le> 0"
    by (auto simp: holds_freshest_def split: option.splits)
  have d: "dated D b" if "(url, b) \<in> set (rn_received w)" for b using assms(3) that by (fastforce simp: all_dated_def)
  have "compareSnapshotFreshness D lc ?b (rs_snapshot st) < 0" if nc: "\<not> rat_consistent (rr_result r)"
  proof -
    obtain b where "(url, b) \<in> set (rn_held w)" and less: "compareSnapshotFreshness D lc ?b b < 0" using held nc by auto
    then have b: "(url, b) \<in> set (rn_received w)" using ok by (auto simp: net_ok_def)
    show ?thesis
      using freshness_trans [OF assms(2) d [OF b] d [OF st(2)] d [OF url(2)] max [OF b]]
        freshness_swap [OF assms(2) d [OF url(2)] d [OF b]] less
        freshness_swap [OF assms(2) d [OF url(2)] d [OF st(2)]] max [OF url(2)]
        freshness_swap [OF assms(2) d [OF st(2)] d [OF url(2)]]
      by linarith
  qed
  with held url(1) st(1) max [OF url(2)] show "\<exists>url st. replicaEndpoint U (rt_url (rc_target c)) = Some url
      \<and> rn_replicas w url = Some st \<and> compareSnapshotFreshness D lc ?b (rs_snapshot st) \<le> 0
      \<and> (if rat_consistent (rr_result r) then (url, ?b) \<in> set (rn_held w)
         else compareSnapshotFreshness D lc ?b (rs_snapshot st) < 0)"
    by (intro exI [of _ url] exI [of _ st]) simp
qed


text \<open>
  The example: of two replications to one replica the newer arrives first; the answer to the older one is
  lost, and its second attempt is told that it is stale.
\<close>

definition ex_replica_urls :: UrlApi where
  "ex_replica_urls = \<lparr>urlParse = (\<lambda>s. if s = [] then None else Some undefined), urlToString = (\<lambda>_. []),
     urlSetPathname = (\<lambda>u _. u)\<rparr>"

definition ex_replica_dates :: DateApi where
  "ex_replica_dates = \<lparr>dateParse = parse_int, dateToISO = show_int\<rparr>"

definition ex_no_text :: "json \<Rightarrow> string" where "ex_no_text v = ''''"

definition ex_sent :: "string \<Rightarrow> RouteSnapshot" where
  "ex_sent at_ms = \<lparr>snap_id = Some ''snap'', snap_schemaVersion = 1, snap_generatedAt = at_ms, snap_routes = []\<rparr>"

definition ex_replica_options :: NormalizedPublishOptions where
  "ex_replica_options = \<lparr>npo_maxAttempts = 2, npo_retryDelayMs = 100, npo_timeoutMs = None, npo_retryOnStatuses = []\<rparr>"

definition ex_replica_target :: ReplicaTarget where
  "ex_replica_target = \<lparr>rt_id = None, rt_region = ''eu'', rt_url = ''http://eu'', rt_token = None\<rparr>"

definition ex_endpoint :: string where "ex_endpoint = ''http://eu/replication/snapshots/routes''"

definition ex_send :: "string \<Rightarrow> ReplicaNet \<Rightarrow> ReplicaNet" where
  "ex_send t w = w\<lparr>rn_calls := rn_calls w
     @ [replica_start ex_replica_urls id ex_replica_options (ex_sent t) ex_replica_target 0 0]\<rparr>"

definition ex_put :: "json \<Rightarrow> ReplicaNet \<Rightarrow> ReplicaState option \<times> fetch_reply" where
  "ex_put body w = replica_put ex_replica_dates ex_compare ex_no_text body None ''now'' (rn_replicas w ex_endpoint)"

definition ex_deliver :: "json \<Rightarrow> ReplicaNet \<Rightarrow> ReplicaNet" where
  "ex_deliver body w = w\<lparr>rn_replicas := (rn_replicas w)(ex_endpoint := fst (ex_put body w)),
     rn_answers := (ex_endpoint, body, snd (ex_put body w)) # rn_answers w,
     rn_received := received_body ex_endpoint body @ rn_received w,
     rn_held := held_body ex_endpoint (fst (ex_put body w)) @ rn_held w\<rparr>"

definition ex_reply :: "nat \<Rightarrow> fetch_reply \<Rightarrow> ReplicaNet \<Rightarrow> ReplicaNet" where
  "ex_reply i reply w = w\<lparr>rn_calls := (rn_calls w)[i := replica_answer ex_replica_options reply 0 (rn_calls w ! i)]\<rparr>"

definition ex_woken :: "nat \<Rightarrow> ReplicaNet \<Rightarrow> ReplicaNet" where
  "ex_woken i w = w\<lparr>rn_calls := (rn_calls w)[i := replica_wake ex_replica_options 0 (rn_calls w ! i)]\<rparr>"

definition ex_asked :: ReplicaNet where
  "ex_asked = ex_deliver (encodeSnapshot (ex_sent ''1'')) (ex_woken 0 (ex_reply 0 (Threw ''timeout'')
     (ex_deliver (encodeSnapshot (ex_sent ''2'')) (ex_send ''2'' (ex_send ''1'' fresh_net)))))"

definition ex_replicated :: ReplicaNet where
  "ex_replicated = ex_reply 0 (snd (snd (rn_answers ex_asked ! 0))) (ex_reply 1 (snd (snd (rn_answers ex_asked ! 1))) ex_asked)"

abbreviation ex_net :: "ReplicaNet \<Rightarrow> bool" where
  "ex_net \<equiv> replica_net ex_replica_urls id ex_replica_dates ex_compare ex_no_text ex_replica_options"

lemma ex_net_steps:
  "ex_net w \<Longrightarrow> ex_net (ex_send t w)" "ex_net w \<Longrightarrow> ex_net (ex_deliver body w)"
  "ex_net w \<Longrightarrow> i < length (rn_calls w) \<Longrightarrow> ex_net (ex_woken i w)"
  "ex_net w \<Longrightarrow> i < length (rn_calls w) \<Longrightarrow> no_answer reply \<Longrightarrow> ex_net (ex_reply i reply w)"
  "ex_net w \<Longrightarrow> i < length (rn_calls w) \<Longrightarrow>
     replicaEndpoint ex_replica_urls (rt_url (rc_target (rn_calls w ! i))) = Some ex_endpoint \<Longrightarrow>
     (ex_endpoint, encodeSnapshot (rc_snapshot (rn_calls w ! i)), reply) \<in> set (rn_answers w) \<Longrightarrow>
     ex_net (ex_reply i reply w)"
  unfolding ex_send_def ex_deliver_def ex_woken_def ex_reply_def ex_put_def
  by (erule (1) replica_net.intros surjective_pairing | rule surjective_pairing replica_net.intros | assumption)+

lemma ex_replicated_run: "ex_net ex_replicated"
  unfolding ex_replicated_def ex_asked_def
  by (intro ex_net_steps replica_net.fresh) code_simp+

theorem replicas_hold_the_freshest_witness:
  "\<exists>old new st. rc_progress (rn_calls ex_replicated ! 0) = Reported old \<and> \<not> rat_consistent (rr_result old)
     \<and> rc_progress (rn_calls ex_replicated ! 1) = Reported new \<and> rat_consistent (rr_result new)
     \<and> rn_replicas ex_replicated ex_endpoint = Some st
     \<and> compareSnapshotFreshness ex_replica_dates ex_compare (snapshot_body (ex_sent ''1'')) (rs_snapshot st) < 0
     \<and> (ex_endpoint, snapshot_body (ex_sent ''2'')) \<in> set (rn_held ex_replicated)"
proof -
  have "all_dated ex_replica_dates ex_replicated" by code_simp
  note run = replicas_hold_the_freshest [OF ex_replicated_run ex_compare_consistent this]
  let ?a = "rn_calls ex_replicated ! 0" and ?b = "rn_calls ex_replicated ! 1"
  have "case rc_progress ?a of Reported r \<Rightarrow> rat_ok (rr_result r) \<and> \<not> rat_consistent (rr_result r) | _ \<Rightarrow> False"
    by code_simp
  then obtain old where old: "rc_progress ?a = Reported old" "rat_ok (rr_result old)" "\<not> rat_consistent (rr_result old)"
    by (auto split: progress.splits)
  have "case rc_progress ?b of Reported r \<Rightarrow> rat_ok (rr_result r) \<and> rat_consistent (rr_result r) | _ \<Rightarrow> False"
    by code_simp
  then obtain new where new: "rc_progress ?b = Reported new" "rat_ok (rr_result new)" "rat_consistent (rr_result new)"
    by (auto split: progress.splits)
  have c: "0 < length (rn_calls ex_replicated)" "1 < length (rn_calls ex_replicated)"
    "rc_snapshot ?a = ex_sent ''1''" "rc_snapshot ?b = ex_sent ''2''"
    "replicaEndpoint ex_replica_urls (rt_url (rc_target ?a)) = Some ex_endpoint"
    "replicaEndpoint ex_replica_urls (rt_url (rc_target ?b)) = Some ex_endpoint" by code_simp+
  note calls = run [THEN conjunct2, rule_format]
  from calls [OF nth_mem [OF c(1)] conjI [OF old(1,2)]] c(3,5) old(3) obtain st where st:
      "rn_replicas ex_replicated ex_endpoint = Some st"
      "compareSnapshotFreshness ex_replica_dates ex_compare (snapshot_body (ex_sent ''1'')) (rs_snapshot st) < 0" by auto
  from calls [OF nth_mem [OF c(2)] conjI [OF new(1,2)]] c(4,6) new(3)
  have "(ex_endpoint, snapshot_body (ex_sent ''2'')) \<in> set (rn_held ex_replicated)" by auto
  with st old new show ?thesis by blast
qed


text \<open>
  A body whose date is not valid is compared by its id alone, with which freshness is no order: here three
  bodies take a replica from the second of two dates back to the first.
\<close>

definition ex_body :: "string \<Rightarrow> string \<Rightarrow> json" where
  "ex_body sid at_ms = encodeSnapshot ((ex_sent at_ms)\<lparr>snap_id := Some sid\<rparr>)"

lemma undated_body_turns_back:
  "(let w = ex_deliver (ex_body ''c'' ''1'') (ex_deliver (ex_body ''b'' ''soon'') (ex_deliver (ex_body ''a'' ''2'') fresh_net))
    in ex_net w \<and> map_option (\<lambda>st. body_generatedAt (rs_snapshot st)) (rn_replicas w ex_endpoint) = Some ''1'')"
proof -
  have "ex_net (ex_deliver (ex_body ''c'' ''1'') (ex_deliver (ex_body ''b'' ''soon'') (ex_deliver (ex_body ''a'' ''2'') fresh_net)))"
    by (intro ex_net_steps replica_net.fresh)
  then show ?thesis unfolding Let_def by (intro conjI) (assumption | code_simp)+
qed

subsection \<open>Attempts of a publication\<close>

text \<open>Answers with the times they are read at; each pause ends before the next attempt.\<close>

definition publish_feed :: "NormalizedPublishOptions \<Rightarrow> (fetch_reply \<times> rat) list \<Rightarrow> PublishCall \<Rightarrow> PublishCall" where
  "publish_feed opts rs c = fold (\<lambda>(reply, t) c. publish_wake opts t (publish_answer opts reply t c)) rs c"

definition asks_again :: "NormalizedPublishOptions \<Rightarrow> RouteSnapshot \<Rightarrow> fetch_reply \<times> rat \<Rightarrow> bool" where
  "asks_again opts snapshot p = (let r = publishAttempt opts snapshot (fst p) in \<not> ar_ok r \<and> ar_retryable r)"

lemma publish_feed_reported: "pc_progress c = Reported r \<Longrightarrow> publish_feed opts rs c = c"
  by (induction rs) (auto simp: publish_feed_def publish_answer_def publish_wake_def)

lemma publish_feed_attempts:
  assumes "pc_progress c = Attempting k" and "k \<le> npo_maxAttempts opts"
    and "n = min (length (takeWhile (asks_again opts (pc_snapshot c)) rs)) (nat (npo_maxAttempts opts - k))"
  shows "pc_progress (publish_feed opts rs c) = (if n < length rs
     then Reported (withTargetTiming (pc_target c) (publishAttempt opts (pc_snapshot c) (fst (rs ! n))) (k + int n)
            (pc_startedMs c) (snd (rs ! n)))
     else Attempting (k + int (length rs)))"
  using assms
proof (induction rs arbitrary: k n c)
  case Nil
  then show ?case by (simp add: publish_feed_def)
next
  case (Cons p rs)
  obtain reply t where p: "p = (reply, t)" by (cases p)
  let ?r = "publishAttempt opts (pc_snapshot c) reply" and ?step = "publish_wake opts t (publish_answer opts reply t c)"
  have feed: "publish_feed opts (p # rs) c = publish_feed opts rs ?step" by (simp add: publish_feed_def p)
  show ?case
  proof (cases "asks_again opts (pc_snapshot c) p \<and> k < npo_maxAttempts opts")
    case False
    then have step: "pc_progress ?step = Reported (withTargetTiming (pc_target c) ?r k (pc_startedMs c) t)"
      using Cons.prems(1,2) by (auto simp: publish_answer_def publish_wake_def asks_again_def p Let_def)
    have "n = 0" using False Cons.prems(2,3) by auto
    then show ?thesis using publish_feed_reported [OF step, of opts rs] step by (simp add: feed [unfolded p] p)
  next
    case True
    then have step: "pc_progress ?step = Attempting (k + 1)" "pc_target ?step = pc_target c"
        "pc_snapshot ?step = pc_snapshot c" "pc_startedMs ?step = pc_startedMs c"
      using Cons.prems(1) by (auto simp: publish_answer_def publish_wake_def asks_again_def p Let_def)
    have n: "n = Suc (min (length (takeWhile (asks_again opts (pc_snapshot c)) rs)) (nat (npo_maxAttempts opts - (k + 1))))"
      using True Cons.prems(3) by (auto simp: min_def nat_eq_iff)
    show ?thesis using Cons.IH [OF step(1) _ refl] True by (simp add: feed step n add.assoc del: of_nat_min)
  qed
qed

text \<open>
  A call that publishes attempts at most the configured number of times, reports the first answer that is a
  success or is not worth another attempt, and otherwise the last one; with fewer answers it still attempts.
\<close>

lemma publication_reports_its_last_attempt:
  fixes options U invalidUrl snapshot target startedMs nowMs rs
  defines "opts \<equiv> normalizePublishOptions options"
  assumes "snapshotEndpoint U (nt_url target) \<noteq> None"
    and "n = min (length (takeWhile (asks_again opts snapshot) rs)) (nat (npo_maxAttempts opts - 1))"
  shows "1 \<le> npo_maxAttempts opts
     \<and> pc_progress (publish_feed opts rs (publish_start U invalidUrl opts snapshot target startedMs nowMs)) =
        (if n < length rs
         then Reported (withTargetTiming target (publishAttempt opts snapshot (fst (rs ! n))) (int n + 1) startedMs (snd (rs ! n)))
         else Attempting (int (length rs) + 1))"
proof -
  let ?c = "publish_start U invalidUrl opts snapshot target startedMs nowMs"
  have m: "1 \<le> npo_maxAttempts opts"
    by (auto simp: opts_def normalizePublishOptions_def positive_or_def split: option.splits)
  have c: "pc_progress ?c = Attempting 1" "pc_snapshot ?c = snapshot" "pc_target ?c = target" "pc_startedMs ?c = startedMs"
    using assms(2) m by (auto simp: publish_start_def)
  show ?thesis using publish_feed_attempts [OF c(1) m, of n rs] assms(3) m c(2-4) by (simp add: add.commute)
qed

subsection \<open>Signed publications\<close>

text \<open>
  A node that knows the key of the control plane accepts the headers of a publication while its clock is
  within five minutes of the time they were signed at.
\<close>

lemma signed_publication_is_authorized:
  assumes "nt_identity target = Some key" and "map_of keys (rik_keyId key) = Some (rik_secret key)"
    and "rik_keyId key \<noteq> []" and "rik_secret key \<noteq> []" and "timestamp \<noteq> []"
    and "dateParse D timestamp = Some t" and "\<bar>nowMs - t\<bar> \<le> 300000"
  shows "authorizeRuntimeIdentity H D (Some keys) (publishHeaders H target body timestamp) ''PUT''
     ''/__runtime/snapshots/routes'' body nowMs = Some True"
proof -
  let ?hs = "publishHeaders H target body timestamp"
  have hs: "map_of ?hs key_id_header = Some (rik_keyId key)" "map_of ?hs algorithm_header = Some hmac_sha256"
    "map_of ?hs timestamp_header = Some timestamp"
    "map_of ?hs signature_header = Some (runtimeIdentitySignature H ''PUT'' ''/__runtime/snapshots/routes'' body key timestamp)"
    by (simp_all add: publishHeaders_def assms(1) signRuntimeIdentityHeaders_def key_id_header_def algorithm_header_def
        timestamp_header_def signature_header_def)
  have get: "object_get None (map (\<lambda>(k, v). (k, Some v)) keys) (rik_keyId key) = Some (Some (rik_secret key))"
    using map_of_map [of "\<lambda>v. Some v" keys] assms(2) by (simp add: object_get_def)
  have "verifyRuntimeIdentityHeaders H D ''PUT'' ''/__runtime/snapshots/routes'' body ?hs keys nowMs None = Some (Verified (rik_keyId key))"
    using assms(3-7) get
    by (simp add: verifyRuntimeIdentityHeaders_def header_text_def hs defaultMaxSkewMs_def runtimeIdentitySignature_def)
  moreover have "keys \<noteq> []" using assms(2) by auto
  ultimately show ?thesis by (auto simp: authorizeRuntimeIdentity_def split: list.split)
qed

text \<open>A key id that names an inherited property is no unknown key: the request ends with an exception.\<close>

lemma inherited_key_id_throws:
  assumes "dateParse D ''now'' = Some nowMs"
  shows "authorizeRuntimeIdentity H D (Some [(''k'', ''secret'')])
     [(key_id_header, ''constructor''), (algorithm_header, hmac_sha256), (timestamp_header, ''now''), (signature_header, ''x'')]
     ''PUT'' path body nowMs = None"
  using assms by (simp add: authorizeRuntimeIdentity_def verifyRuntimeIdentityHeaders_def header_text_def
      key_id_header_def algorithm_header_def timestamp_header_def signature_header_def object_get_def
      object_prototype_keys_def defaultMaxSkewMs_def)

end
