(* ===== verification/Calendar.thy ===== *)
theory Calendar
  imports Prelude
begin

text \<open>
  The calendar of \<open>Date\<close> in UTC, as ECMAScript defines it: days since 1970, years and months, and the first
  instant of a month in milliseconds. Every instant lies in exactly the month that is computed for it.
\<close>

definition leap_year :: "int \<Rightarrow> bool" where
  "leap_year y \<longleftrightarrow> (y mod 4 = 0 \<and> y mod 100 \<noteq> 0) \<or> y mod 400 = 0"

definition day_from_year :: "int \<Rightarrow> int" where
  "day_from_year y = 365 * (y - 1970) + (y - 1969) div 4 - (y - 1901) div 100 + (y - 1601) div 400"

definition year_from_day :: "int \<Rightarrow> int" where
  "year_from_day d = (let y = 1970 + (400 * d) div 146097 in
     if d < day_from_year y then y - 1 else if day_from_year (y + 1) \<le> d then y + 1 else y)"

definition days_before_month :: "bool \<Rightarrow> nat \<Rightarrow> int" where
  "days_before_month leap m = (if m = 12 then 365 else [0, 31, 59, 90, 120, 151, 181, 212, 243, 273, 304, 334] ! m)
     + (if leap \<and> 2 \<le> m then 1 else 0)"

fun month_search :: "bool \<Rightarrow> int \<Rightarrow> nat \<Rightarrow> nat" where
  "month_search leap d 0 = 0"
| "month_search leap d (Suc m) = (if days_before_month leap (Suc m) \<le> d then Suc m else month_search leap d m)"

text \<open>\<open>getUTCFullYear\<close> and \<open>getUTCMonth\<close>, and the first instant of a month, which may be the twelfth.\<close>

definition ms_per_day :: int where "ms_per_day = 86400000"

definition utc_year :: "int \<Rightarrow> int" where
  "utc_year t = year_from_day (t div ms_per_day)"

definition utc_month :: "int \<Rightarrow> nat" where
  "utc_month t = (let d = t div ms_per_day; y = year_from_day d in
     month_search (leap_year y) (d - day_from_year y) 11)"

definition utc_month_start :: "int \<Rightarrow> nat \<Rightarrow> int" where
  "utc_month_start y m = ms_per_day * (if m = 12 then day_from_year (y + 1)
     else day_from_year y + days_before_month (leap_year y) m)"

text \<open>\<open>Date.UTC\<close> takes the years 0 to 99 for those of the last century.\<close>

definition date_UTC :: "int \<Rightarrow> nat \<Rightarrow> int" where
  "date_UTC y m = utc_month_start (if 0 \<le> y \<and> y \<le> 99 then 1900 + y else y) m"

subsection \<open>Every instant lies in its month\<close>

lemma succ_div: "0 < n \<Longrightarrow> (x + 1) div n = x div n + (if (x + 1) mod n = 0 then 1 else 0)" for x n :: int
proof -
  assume n: "0 < n"
  have x: "x + 1 = n * (x div n) + (x mod n + 1)" by (simp add: mult_div_mod_eq)
  have r: "0 \<le> x mod n" "x mod n < n" using n by simp_all
  show ?thesis
  proof (cases "x mod n + 1 = n")
    case True
    have "x + 1 = n * (x div n + 1)" using x by (simp only: True distrib_left mult_1_right)
    then show ?thesis using n by simp
  next
    case False
    then have "(x + 1) div n = x div n" "(x + 1) mod n = x mod n + 1"
      using r int_div_pos_eq [OF x] int_mod_pos_eq [OF x] by linarith+
    then show ?thesis using r by simp
  qed
qed

lemma day_from_next_year: "day_from_year (y + 1) = day_from_year y + 365 + (if leap_year y then 1 else 0)"
proof -
  have m: "(y - 1969 + 1) mod 4 = y mod 4" "(y - 1901 + 1) mod 100 = y mod 100" "(y - 1601 + 1) mod 400 = y mod 400"
    using mod_mult_self2 [of y 4 "-492"] mod_mult_self2 [of y 100 "-19"] mod_mult_self2 [of y 400 "-4"]
    by (simp_all add: algebra_simps)
  have d: "y mod 400 = 0 \<longrightarrow> y mod 100 = 0" "y mod 100 = 0 \<longrightarrow> y mod 4 = 0"
    using dvd_trans [of 100 400 y] dvd_trans [of 4 100 y] by (simp_all add: dvd_eq_mod_eq_0)
  have e: "y + 1 - 1969 = y - 1969 + 1" "y + 1 - 1901 = y - 1901 + 1" "y + 1 - 1601 = y - 1601 + 1" by simp_all
  show ?thesis unfolding day_from_year_def leap_year_def e succ_div [of 4, simplified] succ_div [of 100, simplified]
      succ_div [of 400, simplified] m using d by simp
qed

text \<open>The year is off by at most one before it is corrected.\<close>

lemma year_estimate:
  fixes a b c d k r :: int
  assumes "400 * d = 146097 * k + r" and "0 \<le> r" and "r < 146097"
  shows "4 * a \<le> k \<Longrightarrow> k + 68 < 100 * b + 100 \<Longrightarrow> 400 * c \<le> k + 368 \<Longrightarrow> 365 * (k - 1) + a - b + c \<le> d"
    and "k + 3 < 4 * a + 4 \<Longrightarrow> 100 * b \<le> k + 71 \<Longrightarrow> k + 371 < 400 * c + 400 \<Longrightarrow> d < 365 * (k + 2) + a - b + c"
proof -
  assume "4 * a \<le> k" "k + 68 < 100 * b + 100" "400 * c \<le> k + 368"
  with assms have "400 * (365 * (k - 1) + a - b + c) \<le> 400 * d" by (simp add: algebra_simps)
  then show "365 * (k - 1) + a - b + c \<le> d" by simp
next
  assume "k + 3 < 4 * a + 4" "100 * b \<le> k + 71" "k + 371 < 400 * c + 400"
  with assms have "400 * d < 400 * (365 * (k + 2) + a - b + c)" by (simp add: algebra_simps)
  then show "d < 365 * (k + 2) + a - b + c" by simp
qed

lemma div_bounds: "0 < n \<Longrightarrow> n * (x div n) \<le> x \<and> x < n * (x div n) + n" for x n :: int
  using mult_div_mod_eq [of n x] pos_mod_sign [of n x] pos_mod_bound [of n x] by linarith

lemma year_of_day: "day_from_year (year_from_day d) \<le> d" "d < day_from_year (year_from_day d + 1)"
proof -
  define k where "k = (400 * d) div 146097"
  define r where "r = (400 * d) mod 146097"
  have kr: "400 * d = 146097 * k + r" "0 \<le> r" "r < 146097" by (simp_all add: k_def r_def)
  have y: "day_from_year (1970 + k) = 365 * k + (k + 1) div 4 - (k + 69) div 100 + (k + 369) div 400"
    "day_from_year (1970 + k + 1) = 365 * (k + 1) + (k + 2) div 4 - (k + 70) div 100 + (k + 370) div 400"
    "day_from_year (1970 + k - 1) = 365 * (k - 1) + k div 4 - (k + 68) div 100 + (k + 368) div 400"
    "day_from_year (1970 + k + 1 + 1) = 365 * (k + 2) + (k + 3) div 4 - (k + 71) div 100 + (k + 371) div 400"
    by (simp_all add: day_from_year_def algebra_simps)
  have b: "4 * (x div 4) \<le> x \<and> x < 4 * (x div 4) + 4" "100 * (x div 100) \<le> x \<and> x < 100 * (x div 100) + 100"
    "400 * (x div 400) \<le> x \<and> x < 400 * (x div 400) + 400" for x :: int
    by (intro div_bounds, simp)+
  have low: "day_from_year (1970 + k - 1) \<le> d"
    unfolding y using b(1) [of k] b(2) [of "k + 68"] b(3) [of "k + 368"] by (intro year_estimate(1) [OF kr]) blast+
  have high: "d < day_from_year (1970 + k + 1 + 1)"
    unfolding y using b(1) [of "k + 3"] b(2) [of "k + 71"] b(3) [of "k + 371"] by (intro year_estimate(2) [OF kr]) blast+
  show "day_from_year (year_from_day d) \<le> d" "d < day_from_year (year_from_day d + 1)"
    using low high by (auto simp: year_from_day_def k_def [symmetric] Let_def)
qed

lemma month_search_bounds:
  assumes "0 \<le> d"
  shows "month_search leap d m \<le> m \<and> days_before_month leap (month_search leap d m) \<le> d
     \<and> (month_search leap d m < m \<longrightarrow> d < days_before_month leap (Suc (month_search leap d m)))"
proof (induction m)
  case 0
  then show ?case using assms by (simp add: days_before_month_def)
next
  case (Suc m)
  then show ?case by (cases "month_search leap d m = m") auto
qed

lemma instant_in_its_month:
  "utc_month t < 12" "utc_month_start (utc_year t) (utc_month t) \<le> t" "t < utc_month_start (utc_year t) (utc_month t + 1)"
proof -
  define d where "d = t div ms_per_day"
  define y where "y = year_from_day d"
  define m where "m = month_search (leap_year y) (d - day_from_year y) 11"
  have y_bounds: "day_from_year y \<le> d" "d < day_from_year (y + 1)" unfolding y_def by (rule year_of_day)+
  have m_bounds: "m \<le> 11" "days_before_month (leap_year y) m \<le> d - day_from_year y"
    "m < 11 \<Longrightarrow> d - day_from_year y < days_before_month (leap_year y) (Suc m)"
    using month_search_bounds [of "d - day_from_year y" "leap_year y" 11] y_bounds(1) by (simp_all add: m_def)
  have ut: "utc_year t = y" "utc_month t = m" by (simp_all add: utc_year_def utc_month_def Let_def y_def m_def d_def)
  have low: "day_from_year y + days_before_month (leap_year y) m \<le> d" using m_bounds(2) by simp
  have high: "d + 1 \<le> (if m + 1 = 12 then day_from_year (y + 1) else day_from_year y + days_before_month (leap_year y) (m + 1))"
    using m_bounds(1,3) y_bounds(2) by (cases "m = 11") auto
  have t: "ms_per_day * d \<le> t" "t < ms_per_day * (d + 1)"
    using div_mult_mod_eq [of t ms_per_day] pos_mod_sign [of ms_per_day t] pos_mod_bound [of ms_per_day t] by (simp_all add: d_def ms_per_day_def)
  show "utc_month t < 12" using m_bounds(1) by (simp add: ut)
  show "utc_month_start (utc_year t) (utc_month t) \<le> t"
    using low t(1) m_bounds(1) by (simp add: ut utc_month_start_def ms_per_day_def)
  show "t < utc_month_start (utc_year t) (utc_month t + 1)"
    using high t(2) by (simp add: ut utc_month_start_def ms_per_day_def split: if_splits)
qed

lemma days_before_month_step:
  "m < 12 \<Longrightarrow> days_before_month leap m + 28 \<le> days_before_month leap (Suc m)"
  "days_before_month leap 12 = 365 + (if leap then 1 else 0)"
proof -
  assume m: "m < 12"
  have "list_all (\<lambda>m. list_all (\<lambda>l. days_before_month l m + 28 \<le> days_before_month l (Suc m)) [True, False]) [0..<12]"
    by code_simp
  with m show "days_before_month leap m + 28 \<le> days_before_month leap (Suc m)" by (cases leap) (auto simp: list_all_iff)
qed (simp add: days_before_month_def)

subsection \<open>No instant lies in two months\<close>

lemma utc_month_start_eq:
  "m \<le> 12 \<Longrightarrow> utc_month_start y m = ms_per_day * (day_from_year y + days_before_month (leap_year y) m)"
  by (auto simp: utc_month_start_def day_from_next_year days_before_month_step(2))

lemma month_start_step: "m < 12 \<Longrightarrow> utc_month_start y m \<le> utc_month_start y (Suc m)"
  using days_before_month_step(1) [of m "leap_year y"] by (simp add: utc_month_start_eq ms_per_day_def)

lemma month_start_mono: "m \<le> n \<Longrightarrow> n \<le> 12 \<Longrightarrow> utc_month_start y m \<le> utc_month_start y n"
proof (induction n)
  case (Suc n)
  then show ?case using month_start_step [of n y] by (cases "m = Suc n") auto
qed simp

lemma year_start_mono: "y \<le> y' \<Longrightarrow> utc_month_start y 0 \<le> utc_month_start y' 0"
proof (induction y' rule: int_ge_induct)
  case (step i)
  have "utc_month_start i 0 \<le> utc_month_start i 12" by (rule month_start_mono) simp_all
  moreover have "utc_month_start i 12 = utc_month_start (i + 1) 0"
    by (simp add: utc_month_start_def days_before_month_def)
  ultimately show ?case using step by simp
qed simp

lemma months_in_order:
  assumes "m < 12" and "m' < 12" and "y < y' \<or> y = y' \<and> m < m'"
  shows "utc_month_start y (m + 1) \<le> utc_month_start y' m'"
proof (cases "y = y'")
  case True
  then show ?thesis using assms by (auto intro: month_start_mono)
next
  case False
  have "utc_month_start y (m + 1) \<le> utc_month_start y 12" using assms(1) by (intro month_start_mono) simp_all
  also have "\<dots> = utc_month_start (y + 1) 0" by (simp add: utc_month_start_def days_before_month_def)
  also have "\<dots> \<le> utc_month_start y' 0" using False assms(3) by (intro year_start_mono) simp
  also have "\<dots> \<le> utc_month_start y' m'" using assms(2) by (intro month_start_mono) simp_all
  finally show ?thesis .
qed

lemma month_of_instant:
  assumes "m < 12" and "utc_month_start y m \<le> t" and "t < utc_month_start y (m + 1)"
  shows "utc_year t = y \<and> utc_month t = m"
proof (rule ccontr)
  assume n: "\<not> ?thesis"
  have i: "utc_month t < 12" "utc_month_start (utc_year t) (utc_month t) \<le> t"
    "t < utc_month_start (utc_year t) (utc_month t + 1)" by (rule instant_in_its_month)+
  from n consider "utc_year t < y \<or> utc_year t = y \<and> utc_month t < m" | "y < utc_year t \<or> y = utc_year t \<and> m < utc_month t"
    by linarith
  then show False
  proof cases
    case 1
    from months_in_order [OF i(1) assms(1) 1] i(3) assms(2) show False by simp
  next
    case 2
    from months_in_order [OF assms(1) i(1) 2] i(2) assms(3) show False by simp
  qed
qed

end
