(* ===== verification/Usage.thy ===== *)
theory Usage
  imports Service Calendar
begin

text \<open>
  Metered usage: \<open>control-plane/usage-quota.ts\<close>, \<open>billing-statement.ts\<close>, \<open>billing-budget.ts\<close>, the table
  \<open>usage_events\<close> of \<open>repository.ts\<close>, and the operations of \<open>service.ts\<close> that record and report usage.

  Quantities and dollars are exact rationals where the code has doubles. An instant is written by
  \<open>toISOString\<close> and read by \<open>Date.parse\<close>, both in \<open>DateApi\<close>; months are those of \<open>Calendar\<close>. Policies are
  objects by project; a name that objects inherit finds a function there, which has none of the
  properties that are read, so it is no different from no policy.
\<close>

subsection \<open>Metrics, policies and periods\<close>

datatype UsageQuotaMetric =
  MInvocations | MCpuMs | MWallMs | MMemoryMbMs | MEgressBytes | MStorageBytes | MSqliteUnits

definition USAGE_QUOTA_METRICS :: "UsageQuotaMetric list" where
  "USAGE_QUOTA_METRICS =
     [MInvocations, MCpuMs, MWallMs, MMemoryMbMs, MEgressBytes, MStorageBytes, MSqliteUnits]"

fun usageMetricToQuotaMetric :: "UsageMetricName \<Rightarrow> UsageQuotaMetric" where
  "usageMetricToQuotaMetric Invocation = MInvocations"
| "usageMetricToQuotaMetric CpuMs = MCpuMs"
| "usageMetricToQuotaMetric WallMs = MWallMs"
| "usageMetricToQuotaMetric MemoryMbMs = MMemoryMbMs"
| "usageMetricToQuotaMetric EgressBytes = MEgressBytes"
| "usageMetricToQuotaMetric StorageBytes = MStorageBytes"
| "usageMetricToQuotaMetric SqliteUnit = MSqliteUnits"

fun total_of :: "UsageTotals \<Rightarrow> UsageQuotaMetric \<Rightarrow> rat" where
  "total_of t MInvocations = tot_invocations t"
| "total_of t MCpuMs = tot_cpuMs t"
| "total_of t MWallMs = tot_wallMs t"
| "total_of t MMemoryMbMs = tot_memoryMbMs t"
| "total_of t MEgressBytes = tot_egressBytes t"
| "total_of t MStorageBytes = tot_storageBytes t"
| "total_of t MSqliteUnits = tot_sqliteUnits t"

definition totals_from :: "(UsageQuotaMetric \<Rightarrow> rat) \<Rightarrow> UsageTotals" where
  "totals_from f = \<lparr>tot_invocations = f MInvocations, tot_cpuMs = f MCpuMs, tot_wallMs = f MWallMs,
     tot_memoryMbMs = f MMemoryMbMs, tot_egressBytes = f MEgressBytes, tot_storageBytes = f MStorageBytes,
     tot_sqliteUnits = f MSqliteUnits\<rparr>"

lemma total_of_totals_from [simp]: "total_of (totals_from f) m = f m"
  by (cases m) (simp_all add: totals_from_def)

record ProjectUsageQuotaPolicy =
  uqp_period :: "string option"
  uqp_limits :: "UsageQuotaMetric \<Rightarrow> jnum option"

record UsageQuotaPeriod =
  uper_kind :: string
  uper_key :: string
  uper_from :: string
  uper_to :: string

definition padStart :: "nat \<Rightarrow> string \<Rightarrow> string" where
  "padStart n s = replicate (n - length s) (CHR ''0'') @ s"

definition usageQuotaPeriodFor :: "DateApi \<Rightarrow> string \<Rightarrow> string option \<Rightarrow> UsageQuotaPeriod cp" where
  "usageQuotaPeriodFor D timestamp period =
     (let kind = (case period of None \<Rightarrow> ''calendar_month'' | Some k \<Rightarrow> k) in
      if kind \<noteq> ''calendar_month'' then throwC Validation (''usage quota period '' @ kind @ '' is not supported'')
      else (case dateParse D timestamp of
          None \<Rightarrow> throwC Validation ''usage quota timestamp must be a valid ISO datetime''
        | Some t \<Rightarrow> (let year = utc_year t; month = utc_month t in Inr
            \<lparr>uper_kind = kind,
             uper_key = padStart 4 (show_int year) @ ''-'' @ padStart 2 (nat_digits (month + 1)),
             uper_from = dateToISO D (date_UTC year month),
             uper_to = dateToISO D (date_UTC year (month + 1))\<rparr>)))"

definition usage_positiveLimit :: "jnum option \<Rightarrow> rat option" where
  "usage_positiveLimit v = (case v of Some (Fin q) \<Rightarrow> if q < 0 then None else Some q | _ \<Rightarrow> None)"

text \<open>\<open>toFixed\<close> of a number that is not negative, without the zeros at its end.\<close>

definition to_fixed :: "nat \<Rightarrow> rat \<Rightarrow> string" where
  "to_fixed k x = (let n = nat \<lfloor>x * 10 ^ k + 1 / 2\<rfloor> in
     nat_digits (n div 10 ^ k) @ ''.'' @ padStart k (nat_digits (n mod 10 ^ k)))"

definition strip_zeros :: "string \<Rightarrow> string" where
  "strip_zeros s = (let front = rev (dropWhile (\<lambda>c. c = CHR ''0'') (rev s)) in
     if front \<noteq> [] \<and> last front = CHR ''.'' then butlast front else front)"

definition formatNumber :: "rat \<Rightarrow> string" where
  "formatNumber x = (case rat_int x of Some n \<Rightarrow> show_int n | None \<Rightarrow> strip_zeros (to_fixed 3 x))"

fun quota_metric_name :: "UsageQuotaMetric \<Rightarrow> string" where
  "quota_metric_name MInvocations = ''invocations''"
| "quota_metric_name MCpuMs = ''cpuMs''"
| "quota_metric_name MWallMs = ''wallMs''"
| "quota_metric_name MMemoryMbMs = ''memoryMbMs''"
| "quota_metric_name MEgressBytes = ''egressBytes''"
| "quota_metric_name MStorageBytes = ''storageBytes''"
| "quota_metric_name MSqliteUnits = ''sqliteUnits''"

definition enforceProjectUsageQuota :: "string \<Rightarrow> ProjectUsageQuotaPolicy option \<Rightarrow> UsageQuotaPeriod
    \<Rightarrow> ProjectUsageSummary \<Rightarrow> UsageMetricName \<Rightarrow> rat \<Rightarrow> unit cp" where
  "enforceProjectUsageQuota pid policy period summary metric quantity =
     (let m = usageMetricToQuotaMetric metric in
      case usage_positiveLimit (case policy of None \<Rightarrow> None | Some p \<Rightarrow> uqp_limits p m) of
        None \<Rightarrow> Inr ()
      | Some limit \<Rightarrow> (let total = total_of (sum_totals summary) m + quantity in
          guardC (limit < total) Validation (''usage quota exceeded for project '' @ pid @ '': ''
            @ quota_metric_name m @ '' '' @ formatNumber total @ ''/'' @ formatNumber limit @ '' in '' @ uper_key period)))"

datatype metered_state = MeteredOk | MeteredExceeded | MeteredUnlimited

record MeteredStatus =
  met_used :: rat
  met_limit :: "rat option"
  met_remaining :: "rat option"
  met_status :: metered_state

definition metered :: "rat \<Rightarrow> jnum option \<Rightarrow> MeteredStatus" where
  "metered used limit = (case usage_positiveLimit limit of
       None \<Rightarrow> \<lparr>met_used = used, met_limit = None, met_remaining = None, met_status = MeteredUnlimited\<rparr>
     | Some l \<Rightarrow> \<lparr>met_used = used, met_limit = Some l, met_remaining = Some (max 0 (l - used)),
         met_status = (if l < used then MeteredExceeded else MeteredOk)\<rparr>)"

record ProjectUsageQuotaReport =
  uqr_projectId :: string
  uqr_organizationId :: "string option"
  uqr_generatedAt :: string
  uqr_period :: UsageQuotaPeriod
  uqr_limits :: "UsageQuotaMetric \<Rightarrow> jnum option"
  uqr_usage :: UsageTotals
  uqr_enforcement :: "(UsageQuotaMetric \<times> MeteredStatus) list"

definition createProjectUsageQuotaReport :: "ProjectUsageSummary \<Rightarrow> UsageQuotaPeriod
    \<Rightarrow> ProjectUsageQuotaPolicy option \<Rightarrow> string \<Rightarrow> ProjectUsageQuotaReport" where
  "createProjectUsageQuotaReport summary period policy generatedAt =
     (let limits = (case policy of None \<Rightarrow> (\<lambda>_. None) | Some p \<Rightarrow> uqp_limits p) in
      \<lparr>uqr_projectId = sum_projectId summary, uqr_organizationId = truthy_string (sum_organizationId summary),
       uqr_generatedAt = generatedAt, uqr_period = period, uqr_limits = limits, uqr_usage = sum_totals summary,
       uqr_enforcement = map (\<lambda>m. (m, metered (total_of (sum_totals summary) m) (limits m))) USAGE_QUOTA_METRICS\<rparr>)"

subsection \<open>Statements\<close>

type_synonym ProjectBillingRates = "UsageQuotaMetric \<Rightarrow> jnum option"

record BillingLineItem =
  bli_metric :: UsageQuotaMetric
  bli_quantity :: rat
  bli_unit :: string
  bli_unitPriceUsd :: rat
  bli_amountUsd :: rat

record ProjectBillingStatement =
  pbs_projectId :: string
  pbs_organizationId :: "string option"
  pbs_generatedAt :: string
  pbs_period :: UsageQuotaPeriod
  pbs_usage :: UsageTotals
  pbs_lineItems :: "BillingLineItem list"
  pbs_totalUsd :: rat

record OrganizationBillingStatement =
  obs_organizationId :: string
  obs_generatedAt :: string
  obs_period :: UsageQuotaPeriod
  obs_usage :: UsageTotals
  obs_projects :: "ProjectBillingStatement list"
  obs_totalUsd :: rat

definition roundUsd :: "rat \<Rightarrow> rat" where
  "roundUsd x = of_int \<lfloor>x * 100 + 1 / 2\<rfloor> / 100"

definition roundQuantity :: "rat \<Rightarrow> rat" where
  "roundQuantity x = of_int \<lfloor>x * 1000000 + 1 / 2\<rfloor> / 1000000"

definition lineItem :: "UsageQuotaMetric \<Rightarrow> rat \<Rightarrow> string \<Rightarrow> jnum option \<Rightarrow> BillingLineItem option" where
  "lineItem metric quantity bunit unitPriceUsd = (case usage_positiveLimit unitPriceUsd of
       None \<Rightarrow> None
     | Some price \<Rightarrow> Some \<lparr>bli_metric = metric, bli_quantity = roundQuantity quantity, bli_unit = bunit,
         bli_unitPriceUsd = price, bli_amountUsd = roundUsd (roundQuantity quantity * price)\<rparr>)"

fun billing_divisor :: "UsageQuotaMetric \<Rightarrow> rat" where
  "billing_divisor MEgressBytes = 1073741824"
| "billing_divisor MStorageBytes = 1073741824"
| "billing_divisor MSqliteUnits = 1"
| "billing_divisor _ = 1000000"

fun billing_unit :: "UsageQuotaMetric \<Rightarrow> string" where
  "billing_unit MInvocations = ''million invocations''"
| "billing_unit MCpuMs = ''million cpu ms''"
| "billing_unit MWallMs = ''million wall ms''"
| "billing_unit MMemoryMbMs = ''million MB-ms''"
| "billing_unit MEgressBytes = ''GB''"
| "billing_unit MStorageBytes = ''GB-month''"
| "billing_unit MSqliteUnits = ''unit-month''"

definition billing_items :: "ProjectBillingRates option \<Rightarrow> UsageTotals \<Rightarrow> BillingLineItem list" where
  "billing_items rates totals = List.map_filter (\<lambda>m. lineItem m (total_of totals m / billing_divisor m) (billing_unit m)
     (case rates of None \<Rightarrow> None | Some r \<Rightarrow> r m)) USAGE_QUOTA_METRICS"

definition createProjectBillingStatement :: "ProjectUsageSummary \<Rightarrow> UsageQuotaPeriod \<Rightarrow> ProjectBillingRates option
    \<Rightarrow> string \<Rightarrow> ProjectBillingStatement" where
  "createProjectBillingStatement summary period rates generatedAt =
     (let items = billing_items rates (sum_totals summary) in
      \<lparr>pbs_projectId = sum_projectId summary, pbs_organizationId = truthy_string (sum_organizationId summary),
       pbs_generatedAt = generatedAt, pbs_period = period, pbs_usage = sum_totals summary, pbs_lineItems = items,
       pbs_totalUsd = roundUsd (sum_list (map bli_amountUsd items))\<rparr>)"

definition sumUsage :: "ProjectUsageSummary list \<Rightarrow> UsageTotals" where
  "sumUsage summaries = totals_from (\<lambda>m. sum_list (map (\<lambda>s. total_of (sum_totals s) m) summaries))"

definition createOrganizationBillingStatement :: "string \<Rightarrow> ProjectUsageSummary list \<Rightarrow> UsageQuotaPeriod
    \<Rightarrow> ProjectBillingRates option \<Rightarrow> string \<Rightarrow> OrganizationBillingStatement" where
  "createOrganizationBillingStatement oid summaries period rates generatedAt =
     (let projects = map (\<lambda>s. createProjectBillingStatement s period rates generatedAt) summaries in
      \<lparr>obs_organizationId = oid, obs_generatedAt = generatedAt, obs_period = period, obs_usage = sumUsage summaries,
       obs_projects = projects, obs_totalUsd = roundUsd (sum_list (map pbs_totalUsd projects))\<rparr>)"

subsection \<open>Budgets\<close>

record ProjectBillingBudgetPolicy =
  bbp_period :: "string option"
  bbp_maxUsd :: "jnum option"

record ProjectBillingBudgetReport =
  bbr_projectId :: string
  bbr_organizationId :: "string option"
  bbr_generatedAt :: string
  bbr_period :: UsageQuotaPeriod
  bbr_limitUsd :: "rat option"
  bbr_usedUsd :: rat
  bbr_remainingUsd :: "rat option"
  bbr_status :: metered_state
  bbr_statement :: ProjectBillingStatement

definition positiveUsd :: "jnum option \<Rightarrow> rat option" where
  "positiveUsd v = map_option roundUsd (usage_positiveLimit v)"

definition createProjectBillingBudgetReport :: "ProjectUsageSummary \<Rightarrow> UsageQuotaPeriod \<Rightarrow> ProjectBillingRates option
    \<Rightarrow> ProjectBillingBudgetPolicy option \<Rightarrow> string \<Rightarrow> ProjectBillingBudgetReport" where
  "createProjectBillingBudgetReport summary period rates policy generatedAt =
     (let statement = createProjectBillingStatement summary period rates generatedAt;
          limitUsd = positiveUsd (case policy of None \<Rightarrow> None | Some p \<Rightarrow> bbp_maxUsd p);
          usedUsd = pbs_totalUsd statement in
      \<lparr>bbr_projectId = sum_projectId summary, bbr_organizationId = truthy_string (sum_organizationId summary),
       bbr_generatedAt = generatedAt, bbr_period = period, bbr_limitUsd = limitUsd, bbr_usedUsd = usedUsd,
       bbr_remainingUsd = map_option (\<lambda>l. roundUsd (max 0 (l - usedUsd))) limitUsd,
       bbr_status = (case limitUsd of None \<Rightarrow> MeteredUnlimited
         | Some l \<Rightarrow> if l < usedUsd then MeteredExceeded else MeteredOk),
       bbr_statement = statement\<rparr>)"

definition addUsage :: "ProjectUsageSummary \<Rightarrow> UsageMetricName \<Rightarrow> rat \<Rightarrow> ProjectUsageSummary" where
  "addUsage summary metric quantity = summary\<lparr>sum_totals := totals_from (\<lambda>m. total_of (sum_totals summary) m
     + (if m = usageMetricToQuotaMetric metric then quantity else 0))\<rparr>"

definition formatUsd :: "rat \<Rightarrow> string" where
  "formatUsd x = (case rat_int x of Some n \<Rightarrow> show_int n | None \<Rightarrow> strip_zeros (to_fixed 2 x))"

definition enforceProjectBillingBudget :: "string \<Rightarrow> ProjectBillingBudgetPolicy option \<Rightarrow> UsageQuotaPeriod
    \<Rightarrow> ProjectUsageSummary \<Rightarrow> ProjectBillingRates option \<Rightarrow> UsageMetricName \<Rightarrow> rat \<Rightarrow> unit cp" where
  "enforceProjectBillingBudget pid policy period summary rates metric quantity =
     (case positiveUsd (case policy of None \<Rightarrow> None | Some p \<Rightarrow> bbp_maxUsd p) of
        None \<Rightarrow> Inr ()
      | Some limitUsd \<Rightarrow>
          (let projected = createProjectBillingStatement (addUsage summary metric quantity) period rates (uper_to period) in
           guardC (\<not> pbs_totalUsd projected \<le> limitUsd) Validation (''billing budget exceeded for project '' @ pid
             @ '': $'' @ formatUsd (pbs_totalUsd projected) @ ''/$'' @ formatUsd limitUsd @ '' in '' @ uper_key period)))"

end
