(* ===== verification/Billing.thy ===== *)
theory Billing
  imports Usage Publishing
begin

text \<open>
  Usage events, invoices, webhooks, adjustments and retention: \<open>billing-invoice.ts\<close>, \<open>billing-webhook.ts\<close>,
  \<open>billing-adjustment.ts\<close>, \<open>billing-retention.ts\<close> and \<open>billing-export.ts\<close> of \<open>control-plane\<close>, their tables in
  \<open>repository.ts\<close> and their operations in \<open>service.ts\<close>.

  The state is the database of \<open>Repository\<close> and the five tables of this part. \<open>JSON.stringify\<close> of an invoice
  and of the content of an export are parameters, with SHA-256 and HMAC.
\<close>

subsection \<open>Rows\<close>

record UsageEvent =
  ue_id :: string
  ue_organizationId :: "string option"
  ue_projectId :: string
  ue_metric :: UsageMetricName
  ue_quantity :: rat
  ue_dimensions :: "(string \<times> json) list option"
  ue_recordedAt :: string

record BillingInvoice =
  inv_id :: string
  inv_organizationId :: string
  inv_periodKey :: string
  inv_period :: UsageQuotaPeriod
  inv_totalUsd :: rat
  inv_rates :: ProjectBillingRates
  inv_rateCardVersion :: string
  inv_contentDigest :: string
  inv_statement :: OrganizationBillingStatement
  inv_issuedAt :: string

datatype WebhookStatus = WebhookPending | WebhookDelivered | WebhookFailed

record WebhookDelivery =
  bwd_id :: string
  bwd_targetUrl :: string
  bwd_idempotencyKey :: string
  bwd_status :: WebhookStatus
  bwd_invoice :: BillingInvoice
  bwd_occurredAt :: string
  bwd_attempts :: int
  bwd_createdAt :: string
  bwd_updatedAt :: string
  bwd_nextAttemptAt :: "string option"
  bwd_lastAttemptAt :: "string option"
  bwd_lastStatus :: "int option"
  bwd_lastError :: "string option"
  bwd_deliveredAt :: "string option"

datatype AdjustmentType = CreditNote | DebitAdjustment

record InvoiceAdjustment =
  adj_id :: string
  adj_invoiceId :: string
  adj_organizationId :: string
  adj_type :: AdjustmentType
  adj_amountUsd :: rat
  adj_reason :: string
  adj_createdAt :: string

record RetentionPolicy =
  ret_invoiceId :: string
  ret_organizationId :: string
  ret_retainUntil :: string
  ret_legalHold :: bool
  ret_legalHoldReason :: "string option"
  ret_updatedAt :: string

record Billing =
  bil_db :: Db
  bil_events :: "UsageEvent list"
  bil_invoices :: "BillingInvoice list"
  bil_deliveries :: "WebhookDelivery list"
  bil_adjustments :: "InvoiceAdjustment list"
  bil_retention :: "RetentionPolicy list"

text \<open>What the control plane is configured with for this part.\<close>

record BillingEnv =
  ben_env :: Env
  ben_hmac :: HmacApi
  ben_invoiceJson :: "BillingInvoice \<Rightarrow> string"
  ben_exportJson :: "BillingInvoice \<Rightarrow> string \<Rightarrow> string"
  ben_localeLe :: "string \<Rightarrow> string \<Rightarrow> bool"
  ben_usageQuotas :: "(string \<times> ProjectUsageQuotaPolicy) list"
  ben_budgets :: "(string \<times> ProjectBillingBudgetPolicy) list"
  ben_rates :: "ProjectBillingRates option"
  ben_rateCardVersion :: string
  ben_exportSigner :: "RuntimeIdentityKey option"
  ben_webhookTargetUrl :: "string option"
  ben_webhookMaxAttempts :: "jnum option"
  ben_webhookRetryDelayMs :: "jnum option"

type_synonym 'a billing = "(Billing, 'a) op"

definition bnow :: "BillingEnv \<Rightarrow> string" where
  "bnow B = env_now (ben_env B)"

definition bdates :: "BillingEnv \<Rightarrow> DateApi" where
  "bdates B = env_dates (ben_env B)"

text \<open>An operation on the database; \<open>catch\<close> of a conflict.\<close>

definition on_db :: "'a service \<Rightarrow> 'a billing" where
  "on_db m s = (case m (bil_db s) of (d, r) \<Rightarrow> (s\<lparr>bil_db := d\<rparr>, r))"

definition on_conflict :: "'a billing \<Rightarrow> (ControlPlaneError \<Rightarrow> 'a billing) \<Rightarrow> 'a billing" where
  "on_conflict m h s = (case m s of
       (s', Inl e) \<Rightarrow> if errCode e = Conflict then h e s' else (s', Inl e)
     | (s', Inr x) \<Rightarrow> (s', Inr x))"

definition db_requireProject :: "string \<Rightarrow> Project billing" where
  "db_requireProject pid = readS (\<lambda>s. requireProject pid (bil_db s))"

definition db_requireOrganization :: "string \<Rightarrow> Organization billing" where
  "db_requireOrganization oid = readS (\<lambda>s. requireOrganization oid (bil_db s))"

subsection \<open>Usage events\<close>

definition getUsageEvent :: "Billing \<Rightarrow> string \<Rightarrow> UsageEvent option" where
  "getUsageEvent s rid = row_by ue_id rid (bil_events s)"

definition repo_createUsageEvent :: "UsageEvent \<Rightarrow> UsageEvent billing" where
  "repo_createUsageEvent e s = insert_row ''usage event'' (ue_id e)
     (has_key ue_id (ue_id e) (bil_events s))
     (missing_opt org_id (ue_organizationId e) (db_organizations (bil_db s))
       \<or> no_row prj_id (ue_projectId e) (db_projects (bil_db s)))
     (\<lambda>s. s\<lparr>bil_events := bil_events s @ [e]\<rparr>) e s"

definition counted_events :: "string \<Rightarrow> string option \<Rightarrow> string option \<Rightarrow> UsageEvent list \<Rightarrow> UsageEvent list" where
  "counted_events pid from_at to_at es = filter (\<lambda>e. ue_projectId e = pid
     \<and> (case from_at of None \<Rightarrow> True | Some f \<Rightarrow> text_le f (ue_recordedAt e))
     \<and> (case to_at of None \<Rightarrow> True | Some t \<Rightarrow> \<not> text_le t (ue_recordedAt e))) es"

definition usage_total :: "UsageQuotaMetric \<Rightarrow> UsageEvent list \<Rightarrow> rat" where
  "usage_total m es = sum_list (map ue_quantity (filter (\<lambda>e. usageMetricToQuotaMetric (ue_metric e) = m) es))"

definition repo_getProjectUsageSummary :: "Billing \<Rightarrow> string \<Rightarrow> string option \<Rightarrow> string option \<Rightarrow> ProjectUsageSummary" where
  "repo_getProjectUsageSummary s pid from_at to_at =
     (let f = truthy_string from_at; t = truthy_string to_at in
      \<lparr>sum_projectId = pid,
       sum_organizationId = truthy_string (case getProject (bil_db s) pid of None \<Rightarrow> None | Some p \<Rightarrow> prj_organizationId p),
       sum_from = f, sum_to = t,
       sum_totals = totals_from (\<lambda>m. usage_total m (counted_events pid f t (bil_events s)))\<rparr>)"

definition period_summary :: "Billing \<Rightarrow> string \<Rightarrow> UsageQuotaPeriod \<Rightarrow> ProjectUsageSummary" where
  "period_summary s pid period = repo_getProjectUsageSummary s pid (Some (uper_from period)) (Some (uper_to period))"

text \<open>\<open>JSON.stringify\<close> of two dimensions is equal when they have the same entries in the same order.\<close>

definition event_dimensions :: "UsageEvent \<Rightarrow> (string \<times> json) list" where
  "event_dimensions e = (case ue_dimensions e of None \<Rightarrow> [] | Some d \<Rightarrow> d)"

definition sameUsageEvent :: "UsageEvent \<Rightarrow> UsageEvent \<Rightarrow> bool" where
  "sameUsageEvent a b \<longleftrightarrow> ue_id a = ue_id b \<and> ue_organizationId a = ue_organizationId b
     \<and> ue_projectId a = ue_projectId b \<and> ue_metric a = ue_metric b \<and> ue_quantity a = ue_quantity b
     \<and> ue_recordedAt a = ue_recordedAt b \<and> event_dimensions a = event_dimensions b"

definition resolveUsageEventReplay :: "UsageEvent \<Rightarrow> UsageEvent \<Rightarrow> UsageEvent cp" where
  "resolveUsageEventReplay event existing = (if sameUsageEvent event existing then Inr existing
     else throwC Conflict (''usage event '' @ ue_id event @ '' already exists with different payload''))"

definition enforceUsageQuota :: "BillingEnv \<Rightarrow> string \<Rightarrow> UsageEvent \<Rightarrow> Billing \<Rightarrow> unit cp" where
  "enforceUsageQuota B pid e s = (case map_of (ben_usageQuotas B) pid of
       None \<Rightarrow> Inr ()
     | Some policy \<Rightarrow> bindE (usageQuotaPeriodFor (bdates B) (ue_recordedAt e) (uqp_period policy)) (\<lambda>period.
         enforceProjectUsageQuota pid (Some policy) period (period_summary s pid period) (ue_metric e) (ue_quantity e)))"

definition enforceBillingBudget :: "BillingEnv \<Rightarrow> string \<Rightarrow> UsageEvent \<Rightarrow> Billing \<Rightarrow> unit cp" where
  "enforceBillingBudget B pid e s = (case map_of (ben_budgets B) pid of
       None \<Rightarrow> Inr ()
     | Some policy \<Rightarrow> bindE (usageQuotaPeriodFor (bdates B) (ue_recordedAt e) (bbp_period policy)) (\<lambda>period.
         enforceProjectBillingBudget pid (Some policy) period (period_summary s pid period) (ben_rates B)
           (ue_metric e) (ue_quantity e)))"

record RecordUsageInput =
  rui_id :: json
  rui_projectId :: string
  rui_metric :: json
  rui_quantity :: json
  rui_dimensions :: json
  rui_recordedAt :: json

definition recordUsageEvent :: "BillingEnv \<Rightarrow> RecordUsageInput \<Rightarrow> UsageEvent billing" where
  "recordUsageEvent B i =
     bindS (db_requireProject (rui_projectId i)) (\<lambda>project.
     bindS (liftS (normalizeUsageDimensions (env_collate (ben_env B)) (rui_dimensions i))) (\<lambda>dimensions.
     bindS (liftS (normalizeUsageMetricName (rui_metric i))) (\<lambda>metric.
     bindS (liftS (normalizeUsageQuantity (rui_quantity i))) (\<lambda>quantity.
     bindS (liftS (normalizeUsageTimestamp (bdates B) (rui_recordedAt i) ''usage recordedAt'')) (\<lambda>recordedAt.
     bindS (liftS (newId (ben_env B) (rui_id i) ''usage event id'' ''use'')) (\<lambda>rid.
     let event = \<lparr>ue_id = rid, ue_organizationId = truthy_string (prj_organizationId project),
           ue_projectId = prj_id project, ue_metric = metric, ue_quantity = quantity, ue_dimensions = dimensions,
           ue_recordedAt = (case recordedAt of None \<Rightarrow> bnow B | Some t \<Rightarrow> t)\<rparr> in
     bindS (askS (\<lambda>s. getUsageEvent s rid)) (\<lambda>existing. case existing of
         Some e \<Rightarrow> liftS (resolveUsageEventReplay event e)
       | None \<Rightarrow>
           bindS (readS (enforceUsageQuota B (prj_id project) event)) (\<lambda>_.
           bindS (readS (enforceBillingBudget B (prj_id project) event)) (\<lambda>_.
           on_conflict (repo_createUsageEvent event) (\<lambda>e.
             bindS (askS (\<lambda>s. getUsageEvent s rid)) (\<lambda>raced. case raced of
                 Some r \<Rightarrow> liftS (resolveUsageEventReplay event r) | None \<Rightarrow> liftS (Inl e))))))))))))"

definition usage_window :: "BillingEnv \<Rightarrow> json \<Rightarrow> json \<Rightarrow> string \<Rightarrow> string \<Rightarrow> string \<Rightarrow> (string option \<times> string option) cp" where
  "usage_window B from_v to_v from_field to_field message =
     bindE (normalizeUsageTimestamp (bdates B) from_v from_field) (\<lambda>f.
     bindE (normalizeUsageTimestamp (bdates B) to_v to_field) (\<lambda>t.
     bindE (guardC (case (f, t) of
         (Some a, Some b) \<Rightarrow> (case (dateParse (bdates B) a, dateParse (bdates B) b) of
             (Some x, Some y) \<Rightarrow> y \<le> x | _ \<Rightarrow> False)
       | _ \<Rightarrow> False) Validation message) (\<lambda>_. Inr (f, t))))"

definition service_getProjectUsageSummary :: "BillingEnv \<Rightarrow> string \<Rightarrow> json \<Rightarrow> json \<Rightarrow> ProjectUsageSummary billing" where
  "service_getProjectUsageSummary B pid from_v to_v =
     bindS (db_requireProject pid) (\<lambda>_.
     bindS (liftS (usage_window B from_v to_v ''usage from'' ''usage to'' ''usage from must be before usage to'')) (\<lambda>(f, t).
     askS (\<lambda>s. repo_getProjectUsageSummary s pid f t)))"

text \<open>The start of a report: the project, the instant asked for or now, and its period.\<close>

definition report_period :: "BillingEnv \<Rightarrow> json \<Rightarrow> string \<Rightarrow> string option \<Rightarrow> UsageQuotaPeriod cp" where
  "report_period B v fld period = bindE (normalizeUsageTimestamp (bdates B) v fld) (\<lambda>t.
     usageQuotaPeriodFor (bdates B) (case t of None \<Rightarrow> bnow B | Some x \<Rightarrow> x) period)"

definition getProjectUsageQuotaReport :: "BillingEnv \<Rightarrow> string \<Rightarrow> json \<Rightarrow> ProjectUsageQuotaReport billing" where
  "getProjectUsageQuotaReport B pid v =
     bindS (db_requireProject pid) (\<lambda>_.
     let policy = map_of (ben_usageQuotas B) pid in
     bindS (liftS (report_period B v ''usage quota at'' (case policy of None \<Rightarrow> None | Some p \<Rightarrow> uqp_period p))) (\<lambda>period.
     askS (\<lambda>s. createProjectUsageQuotaReport (period_summary s pid period) period policy (bnow B))))"

definition getProjectBillingStatement :: "BillingEnv \<Rightarrow> string \<Rightarrow> json \<Rightarrow> ProjectBillingStatement billing" where
  "getProjectBillingStatement B pid v =
     bindS (db_requireProject pid) (\<lambda>_.
     bindS (liftS (report_period B v ''billing statement at'' None)) (\<lambda>period.
     askS (\<lambda>s. createProjectBillingStatement (period_summary s pid period) period (ben_rates B) (bnow B))))"

definition getProjectBillingBudgetReport :: "BillingEnv \<Rightarrow> string \<Rightarrow> json \<Rightarrow> ProjectBillingBudgetReport billing" where
  "getProjectBillingBudgetReport B pid v =
     bindS (db_requireProject pid) (\<lambda>_.
     let policy = map_of (ben_budgets B) pid in
     bindS (liftS (report_period B v ''billing budget at'' (case policy of None \<Rightarrow> None | Some p \<Rightarrow> bbp_period p))) (\<lambda>period.
     askS (\<lambda>s. createProjectBillingBudgetReport (period_summary s pid period) period (ben_rates B) policy (bnow B))))"

definition organization_statement :: "BillingEnv \<Rightarrow> string \<Rightarrow> UsageQuotaPeriod \<Rightarrow> Billing \<Rightarrow> OrganizationBillingStatement" where
  "organization_statement B oid period s = createOrganizationBillingStatement oid
     (map (\<lambda>p. period_summary s (prj_id p) period) (listOrganizationProjects (bil_db s) oid)) period (ben_rates B) (bnow B)"

definition getOrganizationBillingStatement :: "BillingEnv \<Rightarrow> string \<Rightarrow> json \<Rightarrow> OrganizationBillingStatement billing" where
  "getOrganizationBillingStatement B oid v =
     bindS (db_requireOrganization oid) (\<lambda>_.
     bindS (liftS (report_period B v ''billing statement at'' None)) (\<lambda>period.
     askS (organization_statement B oid period)))"

subsection \<open>Webhooks\<close>

definition invoiceContentDigest :: "BillingEnv \<Rightarrow> BillingInvoice \<Rightarrow> string" where
  "invoiceContentDigest B i = ''sha256:'' @ ha_sha256 (ben_hmac B) (ben_invoiceJson B (i\<lparr>inv_contentDigest := []\<rparr>))"

definition createOrganizationBillingInvoice :: "BillingEnv \<Rightarrow> string \<Rightarrow> string \<Rightarrow> UsageQuotaPeriod
    \<Rightarrow> OrganizationBillingStatement \<Rightarrow> BillingInvoice" where
  "createOrganizationBillingInvoice B rid oid period statement =
     (let i = \<lparr>inv_id = rid, inv_organizationId = oid, inv_periodKey = uper_key period, inv_period = period,
          inv_totalUsd = obs_totalUsd statement,
          inv_rates = (case ben_rates B of None \<Rightarrow> (\<lambda>_. None) | Some r \<Rightarrow> r),
          inv_rateCardVersion = ben_rateCardVersion B, inv_contentDigest = [], inv_statement = statement,
          inv_issuedAt = bnow B\<rparr> in
      i\<lparr>inv_contentDigest := invoiceContentDigest B i\<rparr>)"

definition billingInvoiceIssuedIdempotencyKey :: "BillingInvoice \<Rightarrow> string" where
  "billingInvoiceIssuedIdempotencyKey i = ''billing.invoice.issued:'' @ inv_id i @ '':'' @ inv_contentDigest i"

definition normalizeWebhookTargetUrl :: "UrlApi \<Rightarrow> string \<Rightarrow> string cp" where
  "normalizeWebhookTargetUrl U v =
     (if trim v = [] then throwC Validation ''billing webhook target URL must not be empty''
      else (case urlParse U (trim v) of
          None \<Rightarrow> throwC Validation ''billing webhook target URL must be a valid URL''
        | Some u \<Rightarrow> if \<not> is_http u then throwC Validation ''billing webhook target URL must use http or https''
            else Inr (urlToString U u)))"

definition createBillingInvoiceIssuedWebhookDelivery :: "UrlApi \<Rightarrow> string \<Rightarrow> BillingInvoice \<Rightarrow> string \<Rightarrow> string
    \<Rightarrow> WebhookDelivery cp" where
  "createBillingInvoiceIssuedWebhookDelivery U rid i targetUrl createdAt =
     bindE (normalizeWebhookTargetUrl U targetUrl) (\<lambda>url. Inr
       \<lparr>bwd_id = rid, bwd_targetUrl = url, bwd_idempotencyKey = billingInvoiceIssuedIdempotencyKey i,
        bwd_status = WebhookPending, bwd_invoice = i, bwd_occurredAt = createdAt, bwd_attempts = 0,
        bwd_createdAt = createdAt, bwd_updatedAt = createdAt, bwd_nextAttemptAt = None, bwd_lastAttemptAt = None,
        bwd_lastStatus = None, bwd_lastError = None, bwd_deliveredAt = None\<rparr>)"

definition webhook_maxAttempts :: "jnum option \<Rightarrow> int cp" where
  "webhook_maxAttempts v = (case v of None \<Rightarrow> Inr 3
     | Some n \<Rightarrow> (case isInteger (JNum n) of
         Some k \<Rightarrow> if k \<le> 0 then throwC Validation ''billing webhook maxAttempts must be a positive integer'' else Inr k
       | None \<Rightarrow> throwC Validation ''billing webhook maxAttempts must be a positive integer''))"

definition webhook_retryDelayMs :: "jnum option \<Rightarrow> int cp" where
  "webhook_retryDelayMs v = (case v of None \<Rightarrow> Inr 1000
     | Some n \<Rightarrow> (case isInteger (JNum n) of
         Some k \<Rightarrow> if k < 0 then throwC Validation ''billing webhook retryDelayMs must be a non-negative integer'' else Inr k
       | None \<Rightarrow> throwC Validation ''billing webhook retryDelayMs must be a non-negative integer''))"

definition addMilliseconds :: "DateApi \<Rightarrow> string \<Rightarrow> int \<Rightarrow> string cp" where
  "addMilliseconds D v ms = (case dateParse D v of
       None \<Rightarrow> throwC Validation ''billing webhook timestamp must be an ISO timestamp''
     | Some t \<Rightarrow> Inr (dateToISO D (t + ms)))"

definition failedOrPendingDelivery :: "DateApi \<Rightarrow> WebhookDelivery \<Rightarrow> string \<Rightarrow> int option \<Rightarrow> string \<Rightarrow> bool
    \<Rightarrow> int \<Rightarrow> int \<Rightarrow> WebhookDelivery cp" where
  "failedOrPendingDelivery D d attemptedAt status message retryable maxAttempts retryDelayMs =
     (let attempts = bwd_attempts d + 1; canRetry = retryable \<and> attempts < maxAttempts in
      bindE (if canRetry then bindE (addMilliseconds D attemptedAt retryDelayMs) (\<lambda>t. Inr (Some t)) else Inr None) (\<lambda>nextAt.
      Inr (d\<lparr>bwd_status := (if canRetry then WebhookPending else WebhookFailed), bwd_attempts := attempts,
        bwd_updatedAt := attemptedAt, bwd_lastAttemptAt := Some attemptedAt,
        bwd_lastStatus := (case status of None \<Rightarrow> bwd_lastStatus d | Some x \<Rightarrow> Some x), bwd_lastError := Some message,
        bwd_nextAttemptAt := nextAt, bwd_deliveredAt := None\<rparr>)))"

text \<open>One attempt, of what \<open>fetch\<close> answered; an exception of the first branch ends in that of the second.\<close>

definition attemptBillingWebhookDelivery :: "BillingEnv \<Rightarrow> fetch_reply \<Rightarrow> string \<Rightarrow> WebhookDelivery \<Rightarrow> WebhookDelivery cp" where
  "attemptBillingWebhookDelivery B reply attemptedAt d =
     (if bwd_status d \<noteq> WebhookPending then Inr d else
      bindE (webhook_maxAttempts (ben_webhookMaxAttempts B)) (\<lambda>maxAttempts.
      bindE (webhook_retryDelayMs (ben_webhookRetryDelayMs B)) (\<lambda>delay.
      case reply of
        Replied True status _ _ \<Rightarrow> Inr (d\<lparr>bwd_status := WebhookDelivered, bwd_attempts := bwd_attempts d + 1,
          bwd_updatedAt := attemptedAt, bwd_lastAttemptAt := Some attemptedAt, bwd_lastStatus := Some status,
          bwd_lastError := None, bwd_nextAttemptAt := None, bwd_deliveredAt := Some attemptedAt\<rparr>)
      | Replied False status (Inr message) _ \<Rightarrow> failedOrPendingDelivery (bdates B) d attemptedAt (Some status) message
          (status \<in> set retry_statuses \<or> 500 \<le> status) maxAttempts delay
      | Replied False status (Inl e) _ \<Rightarrow> failedOrPendingDelivery (bdates B) d attemptedAt None e True maxAttempts delay
      | Threw e \<Rightarrow> failedOrPendingDelivery (bdates B) d attemptedAt None e True maxAttempts delay)))"

text \<open>A row read back has no empty text.\<close>

definition delivery_from_row :: "WebhookDelivery \<Rightarrow> WebhookDelivery" where
  "delivery_from_row d = d\<lparr>bwd_nextAttemptAt := truthy_string (bwd_nextAttemptAt d),
     bwd_lastAttemptAt := truthy_string (bwd_lastAttemptAt d), bwd_lastError := truthy_string (bwd_lastError d),
     bwd_deliveredAt := truthy_string (bwd_deliveredAt d)\<rparr>"

definition repo_createBillingWebhookDelivery :: "WebhookDelivery \<Rightarrow> WebhookDelivery billing" where
  "repo_createBillingWebhookDelivery d s = insert_row ''billing webhook delivery'' (bwd_id d)
     (has_key bwd_id (bwd_id d) (bil_deliveries s) \<or> has_key bwd_idempotencyKey (bwd_idempotencyKey d) (bil_deliveries s))
     False (\<lambda>s. s\<lparr>bil_deliveries := bil_deliveries s @ [d]\<rparr>) d s"

definition getBillingWebhookDeliveryByIdempotencyKey :: "Billing \<Rightarrow> string \<Rightarrow> WebhookDelivery option" where
  "getBillingWebhookDeliveryByIdempotencyKey s k = map_option delivery_from_row (row_by bwd_idempotencyKey k (bil_deliveries s))"

definition delivery_order :: "WebhookDelivery \<Rightarrow> WebhookDelivery \<Rightarrow> bool" where
  "delivery_order a b \<longleftrightarrow> (if bwd_createdAt a = bwd_createdAt b then text_le (bwd_id a) (bwd_id b)
     else text_le (bwd_createdAt a) (bwd_createdAt b))"

definition listBillingWebhookDeliveries :: "WebhookStatus option \<Rightarrow> Billing \<Rightarrow> WebhookDelivery list" where
  "listBillingWebhookDeliveries status s = map delivery_from_row (js_sort delivery_order
     (case status of None \<Rightarrow> bil_deliveries s | Some st \<Rightarrow> filter (\<lambda>d. bwd_status d = st) (bil_deliveries s)))"

definition repo_updateBillingWebhookDelivery :: "WebhookDelivery \<Rightarrow> WebhookDelivery billing" where
  "repo_updateBillingWebhookDelivery d s =
     (if no_row bwd_id (bwd_id d) (bil_deliveries s)
      then (s, throwC NotFound (''billing webhook delivery '' @ bwd_id d @ '' was not found''))
      else (s\<lparr>bil_deliveries := update_by bwd_id (bwd_id d) (\<lambda>r. r\<lparr>bwd_status := bwd_status d, bwd_invoice := bwd_invoice d,
        bwd_occurredAt := bwd_occurredAt d, bwd_attempts := bwd_attempts d, bwd_nextAttemptAt := bwd_nextAttemptAt d,
        bwd_lastAttemptAt := bwd_lastAttemptAt d, bwd_lastStatus := bwd_lastStatus d, bwd_lastError := bwd_lastError d,
        bwd_updatedAt := bwd_updatedAt d, bwd_deliveredAt := bwd_deliveredAt d\<rparr>) (bil_deliveries s)\<rparr>, Inr d))"

definition enqueueBillingInvoiceWebhook :: "BillingEnv \<Rightarrow> BillingInvoice \<Rightarrow> WebhookDelivery option billing" where
  "enqueueBillingInvoiceWebhook B i = (case truthy_string (map_option trim (ben_webhookTargetUrl B)) of
       None \<Rightarrow> pureS None
     | Some target \<Rightarrow> (let k = billingInvoiceIssuedIdempotencyKey i in
         bindS (askS (\<lambda>s. getBillingWebhookDeliveryByIdempotencyKey s k)) (\<lambda>existing. case existing of
             Some d \<Rightarrow> pureS (Some d)
           | None \<Rightarrow>
               bindS (liftS (createBillingInvoiceIssuedWebhookDelivery (env_urls (ben_env B))
                   (env_idGenerator (ben_env B) ''bwh'') i target (bnow B))) (\<lambda>d.
               on_conflict (bindS (repo_createBillingWebhookDelivery d) (\<lambda>d. pureS (Some d))) (\<lambda>e.
                 bindS (askS (\<lambda>s. getBillingWebhookDeliveryByIdempotencyKey s k)) (\<lambda>raced. case raced of
                     Some r \<Rightarrow> pureS (Some r) | None \<Rightarrow> liftS (Inl e)))))))"

text \<open>
  \<open>deliverPendingBillingWebhooks\<close>: the deliveries due, read once, and then one attempt each; other
  operations come between them. \<open>answer n\<close> is what the attempt number \<open>n\<close> is answered and when it was made.
\<close>

definition due_deliveries :: "BillingEnv \<Rightarrow> Billing \<Rightarrow> WebhookDelivery list" where
  "due_deliveries B s = filter (\<lambda>d. case bwd_nextAttemptAt d of None \<Rightarrow> True | Some t \<Rightarrow> text_le t (bnow B))
     (listBillingWebhookDeliveries (Some WebhookPending) s)"

definition deliver_webhook :: "BillingEnv \<Rightarrow> fetch_reply \<Rightarrow> string \<Rightarrow> WebhookDelivery \<Rightarrow> WebhookDelivery billing" where
  "deliver_webhook B reply attemptedAt d =
     bindS (liftS (attemptBillingWebhookDelivery B reply attemptedAt d)) repo_updateBillingWebhookDelivery"

fun deliver_webhooks :: "BillingEnv \<Rightarrow> (nat \<Rightarrow> fetch_reply \<times> string) \<Rightarrow> nat \<Rightarrow> WebhookDelivery list
    \<Rightarrow> WebhookDelivery list billing" where
  "deliver_webhooks B answer n [] = pureS []"
| "deliver_webhooks B answer n (d # ds) =
     bindS (deliver_webhook B (fst (answer n)) (snd (answer n)) d) (\<lambda>x.
     bindS (deliver_webhooks B answer (n + 1) ds) (\<lambda>xs. pureS (x # xs)))"

definition deliverPendingBillingWebhooks :: "BillingEnv \<Rightarrow> (nat \<Rightarrow> fetch_reply \<times> string) \<Rightarrow> WebhookDelivery list billing" where
  "deliverPendingBillingWebhooks B answer = bindS (askS (due_deliveries B)) (deliver_webhooks B answer 0)"

end
