(* ===== verification/Invoices.thy ===== *)
theory Invoices
  imports Billing
begin

text \<open>
  The invoices of an organization: issuing, adjusting, keeping, pruning and exporting them
  (\<open>control-plane/service.ts\<close>, \<open>repository.ts\<close>, \<open>billing-adjustment.ts\<close>, \<open>billing-retention.ts\<close>,
  \<open>billing-retention-job.ts\<close>, \<open>billing-export.ts\<close>).
\<close>

subsection \<open>The table of invoices\<close>

definition repo_createBillingInvoice :: "BillingInvoice \<Rightarrow> BillingInvoice billing" where
  "repo_createBillingInvoice i s = insert_row ''billing invoice'' (inv_id i)
     (has_key inv_id (inv_id i) (bil_invoices s)
       \<or> has_key (\<lambda>r. (inv_organizationId r, inv_periodKey r)) (inv_organizationId i, inv_periodKey i) (bil_invoices s))
     (no_row org_id (inv_organizationId i) (db_organizations (bil_db s)))
     (\<lambda>s. s\<lparr>bil_invoices := bil_invoices s @ [i]\<rparr>) i s"

definition repo_getBillingInvoice :: "Billing \<Rightarrow> string \<Rightarrow> BillingInvoice option" where
  "repo_getBillingInvoice s rid = row_by inv_id rid (bil_invoices s)"

definition getOrganizationBillingInvoiceByPeriod :: "Billing \<Rightarrow> string \<Rightarrow> string \<Rightarrow> BillingInvoice option" where
  "getOrganizationBillingInvoiceByPeriod s oid key =
     row_by (\<lambda>r. (inv_organizationId r, inv_periodKey r)) (oid, key) (bil_invoices s)"

definition invoice_order :: "BillingInvoice \<Rightarrow> BillingInvoice \<Rightarrow> bool" where
  "invoice_order a b \<longleftrightarrow> (if inv_issuedAt a = inv_issuedAt b then text_le (inv_id b) (inv_id a)
     else text_le (inv_issuedAt b) (inv_issuedAt a))"

definition repo_listOrganizationBillingInvoices :: "string \<Rightarrow> Billing \<Rightarrow> BillingInvoice list" where
  "repo_listOrganizationBillingInvoices oid s =
     js_sort invoice_order (filter (\<lambda>i. inv_organizationId i = oid) (bil_invoices s))"

text \<open>\<open>deleteBillingInvoice\<close>, a transaction that takes the rows that belong to the invoice along.\<close>

definition deleteBillingInvoice :: "string \<Rightarrow> BillingInvoice billing" where
  "deleteBillingInvoice rid s = (case repo_getBillingInvoice s rid of
       None \<Rightarrow> (s, throwC NotFound (''billing invoice '' @ rid @ '' was not found''))
     | Some i \<Rightarrow> (s\<lparr>bil_adjustments := delete_by adj_invoiceId rid (bil_adjustments s),
          bil_retention := delete_by ret_invoiceId rid (bil_retention s),
          bil_deliveries := filter (\<lambda>d. inv_id (bwd_invoice d) \<noteq> rid) (bil_deliveries s),
          bil_invoices := delete_by inv_id rid (bil_invoices s)\<rparr>, Inr i))"

subsection \<open>Issuing\<close>

definition invoice_issued :: "BillingInvoice \<Rightarrow> AuditInput" where
  "invoice_issued i = \<lparr>ai_organizationId = Some (inv_organizationId i), ai_projectId = None,
     ai_action = ''billing_invoice.issued'', ai_targetType = ''billing_invoice'', ai_targetId = inv_id i,
     ai_metadata = [(''periodKey'', JStr (inv_periodKey i)), (''totalUsd'', JNum (Fin (inv_totalUsd i)))]\<rparr>"

definition issueOrganizationBillingInvoice :: "BillingEnv \<Rightarrow> json \<Rightarrow> string \<Rightarrow> json \<Rightarrow> BillingInvoice billing" where
  "issueOrganizationBillingInvoice B rid_v oid at_v =
     bindS (db_requireOrganization oid) (\<lambda>_.
     bindS (liftS (report_period B at_v ''billing invoice at'' None)) (\<lambda>period.
     bindS (askS (\<lambda>s. getOrganizationBillingInvoiceByPeriod s oid (uper_key period))) (\<lambda>existing. case existing of
         Some i \<Rightarrow> bindS (enqueueBillingInvoiceWebhook B i) (\<lambda>_. pureS i)
       | None \<Rightarrow>
           bindS (askS (organization_statement B oid period)) (\<lambda>statement.
           bindS (liftS (newId (ben_env B) rid_v ''billing invoice id'' ''inv'')) (\<lambda>rid.
           on_conflict
             (bindS (repo_createBillingInvoice (createOrganizationBillingInvoice B rid oid period statement)) (\<lambda>i.
              bindS (on_db (recordCustomerAuditEvent (ben_env B) (invoice_issued i))) (\<lambda>_.
              bindS (enqueueBillingInvoiceWebhook B i) (\<lambda>_. pureS i))))
             (\<lambda>e. bindS (askS (\<lambda>s. getOrganizationBillingInvoiceByPeriod s oid (uper_key period))) (\<lambda>raced. case raced of
                 Some i \<Rightarrow> bindS (enqueueBillingInvoiceWebhook B i) (\<lambda>_. pureS i)
               | None \<Rightarrow> liftS (Inl e))))))))"

definition getBillingInvoice :: "string \<Rightarrow> Billing \<Rightarrow> BillingInvoice cp" where
  "getBillingInvoice rid s = require ''billing invoice'' rid (repo_getBillingInvoice s rid)"

definition listOrganizationBillingInvoices :: "string \<Rightarrow> BillingInvoice list billing" where
  "listOrganizationBillingInvoices oid =
     bindS (db_requireOrganization oid) (\<lambda>_. askS (repo_listOrganizationBillingInvoices oid))"

subsection \<open>Adjustments\<close>

definition normalizeBillingInvoiceAdjustmentInput :: "json \<Rightarrow> jnum \<Rightarrow> string \<Rightarrow> (AdjustmentType \<times> rat \<times> string) cp" where
  "normalizeBillingInvoiceAdjustmentInput type_v amount reason =
     bindE (case type_v of
         JStr t \<Rightarrow> if t = ''credit_note'' then Inr CreditNote else if t = ''debit_adjustment'' then Inr DebitAdjustment
           else throwC Validation ''billing invoice adjustment type must be credit_note or debit_adjustment''
       | _ \<Rightarrow> throwC Validation ''billing invoice adjustment type must be credit_note or debit_adjustment'') (\<lambda>t.
     bindE (case isFinite (JNum amount) of
         Some q \<Rightarrow> if q \<le> 0 then throwC Validation ''billing invoice adjustment amountUsd must be a positive finite number''
           else Inr q
       | None \<Rightarrow> throwC Validation ''billing invoice adjustment amountUsd must be a positive finite number'') (\<lambda>q.
     bindE (guardC (trim reason = [] \<or> 500 < length (trim reason)) Validation
       ''billing invoice adjustment reason must be between 1 and 500 characters'') (\<lambda>_.
     Inr (t, roundUsd q, trim reason))))"

definition repo_createBillingInvoiceAdjustment :: "InvoiceAdjustment \<Rightarrow> InvoiceAdjustment billing" where
  "repo_createBillingInvoiceAdjustment a s = insert_row ''billing invoice adjustment'' (adj_id a)
     (has_key adj_id (adj_id a) (bil_adjustments s))
     (no_row inv_id (adj_invoiceId a) (bil_invoices s)
       \<or> no_row org_id (adj_organizationId a) (db_organizations (bil_db s)))
     (\<lambda>s. s\<lparr>bil_adjustments := bil_adjustments s @ [a]\<rparr>) a s"

definition createBillingInvoiceAdjustment :: "BillingEnv \<Rightarrow> json \<Rightarrow> string \<Rightarrow> json \<Rightarrow> jnum \<Rightarrow> string
    \<Rightarrow> InvoiceAdjustment billing" where
  "createBillingInvoiceAdjustment B rid_v invoiceId type_v amount reason =
     bindS (readS (getBillingInvoice invoiceId)) (\<lambda>i.
     bindS (liftS (newId (ben_env B) rid_v ''billing invoice adjustment id'' ''adj'')) (\<lambda>rid.
     bindS (liftS (normalizeBillingInvoiceAdjustmentInput type_v amount reason)) (\<lambda>(t, q, why).
     repo_createBillingInvoiceAdjustment \<lparr>adj_id = rid, adj_invoiceId = inv_id i,
       adj_organizationId = inv_organizationId i, adj_type = t, adj_amountUsd = q, adj_reason = why,
       adj_createdAt = bnow B\<rparr>)))"

definition adjustment_order :: "InvoiceAdjustment \<Rightarrow> InvoiceAdjustment \<Rightarrow> bool" where
  "adjustment_order a b \<longleftrightarrow> (if adj_createdAt a = adj_createdAt b then text_le (adj_id a) (adj_id b)
     else text_le (adj_createdAt a) (adj_createdAt b))"

definition listBillingInvoiceAdjustments :: "string \<Rightarrow> InvoiceAdjustment list billing" where
  "listBillingInvoiceAdjustments rid = bindS (readS (getBillingInvoice rid)) (\<lambda>_.
     askS (\<lambda>s. js_sort adjustment_order (filter (\<lambda>a. adj_invoiceId a = rid) (bil_adjustments s))))"

subsection \<open>Retention\<close>

definition normalizeLegalHoldReason :: "string option \<Rightarrow> bool \<Rightarrow> string option cp" where
  "normalizeLegalHoldReason reason legalHold =
     (if \<not> legalHold then Inr None
      else (let why = (case reason of None \<Rightarrow> [] | Some r \<Rightarrow> trim r) in
        bindE (guardC (why = [] \<or> 500 < length why) Validation
          ''billing invoice retention legalHoldReason must be between 1 and 500 characters'') (\<lambda>_. Inr (Some why))))"

definition createBillingInvoiceRetentionPolicyRecord :: "BillingEnv \<Rightarrow> BillingInvoice \<Rightarrow> json \<Rightarrow> bool option
    \<Rightarrow> string option \<Rightarrow> RetentionPolicy cp" where
  "createBillingInvoiceRetentionPolicyRecord B i until_v hold reason =
     bindE (normalizeUsageTimestamp (bdates B) until_v ''billing invoice retention retainUntil'') (\<lambda>t.
     case truthy_string t of
       None \<Rightarrow> throwC Validation ''billing invoice retention retainUntil is required''
     | Some u \<Rightarrow> bindE (normalizeLegalHoldReason reason (hold = Some True)) (\<lambda>why. Inr
         \<lparr>ret_invoiceId = inv_id i, ret_organizationId = inv_organizationId i, ret_retainUntil = u,
          ret_legalHold = (hold = Some True), ret_legalHoldReason = why, ret_updatedAt = bnow B\<rparr>))"

definition upsertBillingInvoiceRetentionPolicy :: "RetentionPolicy \<Rightarrow> RetentionPolicy billing" where
  "upsertBillingInvoiceRetentionPolicy r s =
     (if has_key ret_invoiceId (ret_invoiceId r) (bil_retention s)
      then (if no_row org_id (ret_organizationId r) (db_organizations (bil_db s))
            then (s, writeError ''billing invoice retention policy'' (ret_invoiceId r) ForeignKeyFailed)
            else (s\<lparr>bil_retention := update_by ret_invoiceId (ret_invoiceId r) (\<lambda>_. r) (bil_retention s)\<rparr>, Inr r))
      else insert_row ''billing invoice retention policy'' (ret_invoiceId r) False
        (no_row inv_id (ret_invoiceId r) (bil_invoices s)
          \<or> no_row org_id (ret_organizationId r) (db_organizations (bil_db s)))
        (\<lambda>s. s\<lparr>bil_retention := bil_retention s @ [r]\<rparr>) r s)"

definition setBillingInvoiceRetentionPolicy :: "BillingEnv \<Rightarrow> string \<Rightarrow> json \<Rightarrow> bool option \<Rightarrow> string option
    \<Rightarrow> RetentionPolicy billing" where
  "setBillingInvoiceRetentionPolicy B rid until_v hold reason =
     bindS (readS (getBillingInvoice rid)) (\<lambda>i.
     bindS (liftS (createBillingInvoiceRetentionPolicyRecord B i until_v hold reason))
       upsertBillingInvoiceRetentionPolicy)"

definition repo_getBillingInvoiceRetentionPolicy :: "Billing \<Rightarrow> string \<Rightarrow> RetentionPolicy option" where
  "repo_getBillingInvoiceRetentionPolicy s rid = row_by ret_invoiceId rid (bil_retention s)"

definition getBillingInvoiceRetentionPolicy :: "string \<Rightarrow> RetentionPolicy billing" where
  "getBillingInvoiceRetentionPolicy rid = bindS (readS (getBillingInvoice rid)) (\<lambda>_.
     readS (\<lambda>s. case repo_getBillingInvoiceRetentionPolicy s rid of
         None \<Rightarrow> throwC NotFound (''billing invoice retention policy for '' @ rid @ '' was not found'')
       | Some r \<Rightarrow> Inr r))"

datatype retained_reason = LegalHold | RetentionActive | NoPolicy

record RetainedInvoice =
  rti_invoiceId :: string
  rti_organizationId :: string
  rti_reason :: retained_reason
  rti_retainUntil :: "string option"
  rti_legalHoldReason :: "string option"

text \<open>\<open>None\<close> is the decision to delete. Two instants are compared as strings.\<close>

definition decideBillingInvoiceRetention :: "BillingInvoice \<Rightarrow> RetentionPolicy option \<Rightarrow> string \<Rightarrow> RetainedInvoice option" where
  "decideBillingInvoiceRetention i policy at_time =
     (let kept = \<lparr>rti_invoiceId = inv_id i, rti_organizationId = inv_organizationId i, rti_reason = NoPolicy,
          rti_retainUntil = None, rti_legalHoldReason = None\<rparr> in
      case policy of
        None \<Rightarrow> Some kept
      | Some p \<Rightarrow>
          if ret_legalHold p then Some (kept\<lparr>rti_reason := LegalHold, rti_retainUntil := Some (ret_retainUntil p),
            rti_legalHoldReason := truthy_string (ret_legalHoldReason p)\<rparr>)
          else if \<not> text_le (ret_retainUntil p) at_time
          then Some (kept\<lparr>rti_reason := RetentionActive, rti_retainUntil := Some (ret_retainUntil p)\<rparr>)
          else None)"

record PruneInvoicesReport =
  pir_scanned :: nat
  pir_deleted :: "BillingInvoice list"
  pir_retained :: "RetainedInvoice list"

fun prune_invoices :: "string \<Rightarrow> BillingInvoice list \<Rightarrow> BillingInvoice list \<Rightarrow> RetainedInvoice list
    \<Rightarrow> (BillingInvoice list \<times> RetainedInvoice list) billing" where
  "prune_invoices at_time [] deleted retained = pureS (deleted, retained)"
| "prune_invoices at_time (i # is) deleted retained =
     bindS (askS (\<lambda>s. repo_getBillingInvoiceRetentionPolicy s (inv_id i))) (\<lambda>policy.
     case decideBillingInvoiceRetention i policy at_time of
       Some r \<Rightarrow> prune_invoices at_time is deleted (retained @ [r])
     | None \<Rightarrow> bindS (deleteBillingInvoice (inv_id i)) (\<lambda>x. prune_invoices at_time is (deleted @ [x]) retained))"

definition prune_order :: "(string \<Rightarrow> string \<Rightarrow> bool) \<Rightarrow> BillingInvoice \<Rightarrow> BillingInvoice \<Rightarrow> bool" where
  "prune_order le a b \<longleftrightarrow> (if le (inv_issuedAt a) (inv_issuedAt b) \<and> le (inv_issuedAt b) (inv_issuedAt a)
     then le (inv_id a) (inv_id b) else le (inv_issuedAt a) (inv_issuedAt b))"

definition pruneBillingInvoices :: "BillingEnv \<Rightarrow> string \<Rightarrow> json \<Rightarrow> PruneInvoicesReport billing" where
  "pruneBillingInvoices B oid at_v =
     bindS (db_requireOrganization oid) (\<lambda>_.
     bindS (liftS (normalizeUsageTimestamp (bdates B) at_v ''billing invoice retention prune at'')) (\<lambda>t.
     bindS (askS (\<lambda>s. js_sort (prune_order (ben_localeLe B)) (repo_listOrganizationBillingInvoices oid s))) (\<lambda>invoices.
     bindS (prune_invoices (case t of None \<Rightarrow> bnow B | Some x \<Rightarrow> x) invoices [] []) (\<lambda>(deleted, retained).
     pureS \<lparr>pir_scanned = length invoices, pir_deleted = deleted, pir_retained = retained\<rparr>))))"

subsection \<open>The prune of several organizations\<close>

record PruneJobReport =
  pjr_ok :: bool
  pjr_organizations :: nat
  pjr_scanned :: nat
  pjr_deleted :: nat
  pjr_retained :: nat
  pjr_reports :: "(string \<times> PruneInvoicesReport) list"
  pjr_errors :: "(string \<times> string) list"

fun distinct_items :: "string list \<Rightarrow> string list \<Rightarrow> string list" where
  "distinct_items seen [] = []"
| "distinct_items seen (x # xs) = (if x = [] \<or> x \<in> set seen then distinct_items seen xs
     else x # distinct_items (x # seen) xs)"

definition billingInvoiceRetentionOrganizationsFromEnv :: "string option \<Rightarrow> string list" where
  "billingInvoiceRetentionOrganizationsFromEnv v = (case v of None \<Rightarrow> []
     | Some s \<Rightarrow> if s = [] then [] else distinct_items [] (map trim (split_on (CHR '','') s)))"

fun prune_each :: "(nat \<Rightarrow> BillingEnv) \<Rightarrow> json \<Rightarrow> nat \<Rightarrow> string list \<Rightarrow> (string \<times> PruneInvoicesReport) list
    \<Rightarrow> (string \<times> string) list \<Rightarrow> Billing
    \<Rightarrow> Billing \<times> (string \<times> PruneInvoicesReport) list \<times> (string \<times> string) list" where
  "prune_each B at_v n [] reports errors s = (s, reports, errors)"
| "prune_each B at_v n (oid # oids) reports errors s = (case pruneBillingInvoices (B n) oid at_v s of
       (s', Inr r) \<Rightarrow> prune_each B at_v (n + 1) oids (reports @ [(oid, r)]) errors s'
     | (s', Inl e) \<Rightarrow> prune_each B at_v (n + 1) oids reports (errors @ [(oid, errMessage e)]) s')"

definition pruneBillingInvoicesForOrganizations :: "(nat \<Rightarrow> BillingEnv) \<Rightarrow> string list \<Rightarrow> json \<Rightarrow> Billing
    \<Rightarrow> Billing \<times> PruneJobReport" where
  "pruneBillingInvoicesForOrganizations B oids at_v s = (case prune_each B at_v 0 oids [] [] s of
     (s', reports, errors) \<Rightarrow> (s', \<lparr>pjr_ok = (errors = []), pjr_organizations = length oids,
       pjr_scanned = sum_list (map (pir_scanned \<circ> snd) reports),
       pjr_deleted = sum_list (map (length \<circ> pir_deleted \<circ> snd) reports),
       pjr_retained = sum_list (map (length \<circ> pir_retained \<circ> snd) reports),
       pjr_reports = reports, pjr_errors = errors\<rparr>))"

subsection \<open>Export\<close>

record InvoiceExportBundle =
  ieb_invoice :: BillingInvoice
  ieb_generatedAt :: string
  ieb_contentDigest :: string
  ieb_keyId :: string
  ieb_signature :: string

definition exportContentDigest :: "BillingEnv \<Rightarrow> BillingInvoice \<Rightarrow> string \<Rightarrow> string" where
  "exportContentDigest B i generatedAt = ''sha256:'' @ ha_sha256 (ben_hmac B) (ben_exportJson B i generatedAt)"

definition createBillingInvoiceExportBundle :: "BillingEnv \<Rightarrow> BillingInvoice \<Rightarrow> string \<Rightarrow> RuntimeIdentityKey
    \<Rightarrow> InvoiceExportBundle" where
  "createBillingInvoiceExportBundle B i generatedAt signer = (let d = exportContentDigest B i generatedAt in
     \<lparr>ieb_invoice = i, ieb_generatedAt = generatedAt, ieb_contentDigest = d, ieb_keyId = rik_keyId signer,
      ieb_signature = ha_hmac (ben_hmac B) (rik_secret signer) d\<rparr>)"

definition exportBillingInvoice :: "BillingEnv \<Rightarrow> string \<Rightarrow> InvoiceExportBundle billing" where
  "exportBillingInvoice B rid = (case ben_exportSigner B of
       None \<Rightarrow> throwS Validation ''billing invoice export signer is not configured''
     | Some signer \<Rightarrow> bindS (readS (getBillingInvoice rid)) (\<lambda>i.
         pureS (createBillingInvoiceExportBundle B i (bnow B) signer)))"

text \<open>Hexadecimal text of even length is compared byte by byte; of odd length the last digit does not count.\<close>

definition constantTimeHexEqual :: "string \<Rightarrow> string \<Rightarrow> bool" where
  "constantTimeHexEqual a b \<longleftrightarrow> a \<noteq> [] \<and> b \<noteq> [] \<and> list_all is_hex a \<and> list_all is_hex b
     \<and> (let even_part = (\<lambda>s. take (2 * (length s div 2)) (toLowerCase s)) in even_part a = even_part b)"

definition verifyBillingInvoiceExportBundle :: "BillingEnv \<Rightarrow> InvoiceExportBundle \<Rightarrow> (string \<times> string) list \<Rightarrow> unit cp" where
  "verifyBillingInvoiceExportBundle B b keys =
     bindE (guardC (ieb_contentDigest b \<noteq> exportContentDigest B (ieb_invoice b) (ieb_generatedAt b)) Validation
       ''billing invoice export content digest mismatch'') (\<lambda>_.
     case map_of keys (ieb_keyId b) of
       None \<Rightarrow> throwC Validation ''billing invoice export signature key is not configured''
     | Some key \<Rightarrow>
         bindE (guardC (key = []) Validation ''billing invoice export signature key is not configured'') (\<lambda>_.
         guardC (\<not> constantTimeHexEqual (ieb_signature b) (ha_hmac (ben_hmac B) key (ieb_contentDigest b))) Validation
           ''billing invoice export signature verification failed''))"

end
