(* ===== verification/UsageLaws.thy ===== *)
theory UsageLaws
  imports Billing
begin

text \<open>
  Recording usage never passes a limit: in every history of events and of changes to the rest of the database,
  the totals of a month stay within the usage quota of the project, and what the month costs within its budget.

  A month is a window of strings; that a window holds exactly the instants of the month is what \<open>iso_dates\<close> gives.
\<close>

subsection \<open>Instants as strings\<close>

text \<open>
  What ECMAScript promises of \<open>toISOString\<close> and \<open>Date.parse\<close>: an instant that was parsed is read back from what
  is written, the instants of the years 100 to 9999 are written in the order of time, and an instant outside
  of these years before them all: it begins with a sign, which is before every digit, or with two zeros.
\<close>

definition plain_years :: "int \<Rightarrow> bool" where
  "plain_years t \<longleftrightarrow> utc_month_start 100 0 \<le> t \<and> t < utc_month_start 10000 0"

definition iso_dates :: "DateApi \<Rightarrow> bool" where
  "iso_dates D \<longleftrightarrow> (\<forall>v t. dateParse D v = Some t \<longrightarrow> dateParse D (dateToISO D t) = Some t)
     \<and> (\<forall>t u. plain_years t \<longrightarrow> plain_years u \<longrightarrow> text_le (dateToISO D t) (dateToISO D u) = (t \<le> u))
     \<and> (\<forall>t u. plain_years t \<longrightarrow> \<not> plain_years u \<longrightarrow> \<not> text_le (dateToISO D t) (dateToISO D u))"

text \<open>A month whose end is written with four digits of the year, too.\<close>

definition plain_month :: "int \<Rightarrow> nat \<Rightarrow> bool" where
  "plain_month y m \<longleftrightarrow> 100 \<le> y \<and> m < 12 \<and> plain_years (utc_month_start y m) \<and> plain_years (utc_month_start y (m + 1))"

definition in_window :: "string \<Rightarrow> string \<Rightarrow> UsageEvent \<Rightarrow> bool" where
  "in_window f t e \<longleftrightarrow> text_le f (ue_recordedAt e) \<and> \<not> text_le t (ue_recordedAt e)"

lemma in_window_iff:
  assumes "iso_dates D" and "plain_month y m" and "ue_recordedAt e = dateToISO D t"
  shows "in_window (dateToISO D (utc_month_start y m)) (dateToISO D (utc_month_start y (m + 1))) e
     \<longleftrightarrow> utc_year t = y \<and> utc_month t = m"
proof -
  let ?a = "utc_month_start y m" and ?b = "utc_month_start y (m + 1)"
  have m: "m < 12" "plain_years ?a" "plain_years ?b" using assms(2) by (simp_all add: plain_month_def)
  have w: "in_window (dateToISO D ?a) (dateToISO D ?b) e \<longleftrightarrow> plain_years t \<and> ?a \<le> t \<and> t < ?b"
  proof (cases "plain_years t")
    case True
    then have "text_le (dateToISO D ?a) (dateToISO D t) = (?a \<le> t)" "text_le (dateToISO D ?b) (dateToISO D t) = (?b \<le> t)"
      using assms(1) m unfolding iso_dates_def by blast+
    then show ?thesis using True by (auto simp: in_window_def assms(3))
  next
    case False
    then have "\<not> text_le (dateToISO D ?a) (dateToISO D t)" using assms(1) m unfolding iso_dates_def by blast
    then show ?thesis using False by (simp add: in_window_def assms(3))
  qed
  have p: "?a \<le> t \<Longrightarrow> t < ?b \<Longrightarrow> plain_years t" using m by (auto simp: plain_years_def)
  show ?thesis
  proof
    assume "in_window (dateToISO D ?a) (dateToISO D ?b) e"
    then show "utc_year t = y \<and> utc_month t = m" using w month_of_instant [OF m(1), of y t] by simp
  next
    assume "utc_year t = y \<and> utc_month t = m"
    then show "in_window (dateToISO D ?a) (dateToISO D ?b) e" using w p instant_in_its_month(2,3) [of t] by simp
  qed
qed

subsection \<open>Totals of a window\<close>

lemma counted_append: "counted_events pid (Some f) (Some t) (es @ [e]) = counted_events pid (Some f) (Some t) es
   @ (if ue_projectId e = pid \<and> in_window f t e then [e] else [])"
  by (simp add: counted_events_def in_window_def)

lemma usage_total_append: "usage_total m (es @ [e]) = usage_total m es
   + (if usageMetricToQuotaMetric (ue_metric e) = m then ue_quantity e else 0)"
  by (simp add: usage_total_def)

definition window_totals :: "string \<Rightarrow> string \<Rightarrow> string \<Rightarrow> UsageEvent list \<Rightarrow> UsageTotals" where
  "window_totals pid f t es = totals_from (\<lambda>m. usage_total m (counted_events pid (Some f) (Some t) es))"

lemma totals_from_cong: "(\<And>m. f m = g m) \<Longrightarrow> totals_from f = totals_from g"
  by (simp add: totals_from_def)

lemma window_totals_append: "window_totals pid f t (es @ [e]) =
   (if ue_projectId e = pid \<and> in_window f t e
    then totals_from (\<lambda>m. total_of (window_totals pid f t es) m
      + (if m = usageMetricToQuotaMetric (ue_metric e) then ue_quantity e else 0))
    else window_totals pid f t es)"
  by (auto simp: window_totals_def counted_append usage_total_append intro: totals_from_cong)

text \<open>What a month costs depends on its totals only.\<close>

definition cost_of :: "ProjectBillingRates option \<Rightarrow> UsageTotals \<Rightarrow> rat" where
  "cost_of rates totals = roundUsd (sum_list (map bli_amountUsd (billing_items rates totals)))"

lemma statement_cost: "pbs_totalUsd (createProjectBillingStatement s p rates g) = cost_of rates (sum_totals s)"
  by (simp add: createProjectBillingStatement_def cost_of_def Let_def)

lemma floor_half: "\<lfloor>1 / 2 :: rat\<rfloor> = 0"
  by (rule floor_unique) simp_all

lemma roundUsd_0 [simp]: "roundUsd 0 = 0" and roundQuantity_0 [simp]: "roundQuantity 0 = 0"
  by (simp_all add: roundUsd_def roundQuantity_def floor_half)

lemma roundUsd_nonneg: "0 \<le> x \<Longrightarrow> 0 \<le> roundUsd x"
  by (simp add: roundUsd_def)

lemma nothing_costs_nothing: "cost_of rates (totals_from (\<lambda>_. 0)) = 0"
proof -
  have "\<forall>i \<in> set (billing_items rates (totals_from (\<lambda>_. 0))). bli_amountUsd i = 0"
    by (auto simp: billing_items_def lineItem_def map_filter_def split: option.splits if_splits)
  then have "map bli_amountUsd (billing_items rates (totals_from (\<lambda>_. 0)))
      = map (\<lambda>_. 0) (billing_items rates (totals_from (\<lambda>_. 0)))"
    by (intro map_cong) simp_all
  then have "sum_list (map bli_amountUsd (billing_items rates (totals_from (\<lambda>_. 0)))) = 0" by (simp only: sum_list_0)
  then show ?thesis by (simp add: cost_of_def)
qed

lemma positiveUsd_nonneg: "positiveUsd v = Some l \<Longrightarrow> 0 \<le> l"
  and usage_positiveLimit_nonneg: "usage_positiveLimit v = Some l \<Longrightarrow> 0 \<le> l"
  by (auto simp: positiveUsd_def usage_positiveLimit_def roundUsd_nonneg split: option.splits jnum.splits if_splits)

subsection \<open>One event\<close>

definition month_totals :: "BillingEnv \<Rightarrow> string \<Rightarrow> int \<Rightarrow> nat \<Rightarrow> Billing \<Rightarrow> UsageTotals" where
  "month_totals B pid y m s = window_totals pid (dateToISO (bdates B) (utc_month_start y m))
     (dateToISO (bdates B) (utc_month_start y (m + 1))) (bil_events s)"

definition month_in_limits :: "BillingEnv \<Rightarrow> string \<Rightarrow> int \<Rightarrow> nat \<Rightarrow> Billing \<Rightarrow> bool" where
  "month_in_limits B pid y m s \<longleftrightarrow>
     (\<forall>p metric l. map_of (ben_usageQuotas B) pid = Some p \<longrightarrow> usage_positiveLimit (uqp_limits p metric) = Some l
        \<longrightarrow> total_of (month_totals B pid y m s) metric \<le> l)
     \<and> (\<forall>p l. map_of (ben_budgets B) pid = Some p \<longrightarrow> positiveUsd (bbp_maxUsd p) = Some l
        \<longrightarrow> cost_of (ben_rates B) (month_totals B pid y m s) \<le> l)"

text \<open>The clock reads an instant, written as \<open>toISOString\<close> writes it.\<close>

definition clock_ok :: "BillingEnv \<Rightarrow> bool" where
  "clock_ok B \<longleftrightarrow> (case dateParse (bdates B) (bnow B) of None \<Rightarrow> False | Some t \<Rightarrow> dateToISO (bdates B) t = bnow B)"

lemma period_summary_totals: "uper_from p = f \<Longrightarrow> uper_to p = t \<Longrightarrow> f \<noteq> [] \<Longrightarrow> t \<noteq> [] \<Longrightarrow>
    sum_totals (period_summary s pid p) = window_totals pid f t (bil_events s)"
  by (simp add: period_summary_def repo_getProjectUsageSummary_def window_totals_def Let_def truthy_string_def)

lemma period_of_instant:
  assumes "usageQuotaPeriodFor D v k = Inr p" and "dateParse D v = Some t" and "100 \<le> utc_year t"
  shows "uper_from p = dateToISO D (utc_month_start (utc_year t) (utc_month t))"
    and "uper_to p = dateToISO D (utc_month_start (utc_year t) (utc_month t + 1))"
  using assms by (auto simp: usageQuotaPeriodFor_def Let_def throwC_def date_UTC_def split: if_splits)

text \<open>A call stores nothing, or an event that passed both checks.\<close>

definition checked_event :: "BillingEnv \<Rightarrow> UsageEvent \<Rightarrow> Billing \<Rightarrow> bool" where
  "checked_event B e s \<longleftrightarrow> enforceUsageQuota B (ue_projectId e) e s = Inr ()
     \<and> enforceBillingBudget B (ue_projectId e) e s = Inr ()
     \<and> (ue_recordedAt e = bnow B \<or> (\<exists>v t. dateParse (bdates B) v = Some t \<and> ue_recordedAt e = dateToISO (bdates B) t))"

lemma createUsageEvent_events:
  assumes "on_conflict (repo_createUsageEvent e) (\<lambda>x. bindS (askS (\<lambda>s. getUsageEvent s i)) (\<lambda>r. case r of
       Some q \<Rightarrow> liftS (f q) | None \<Rightarrow> liftS (Inl x))) s = (s', r)"
  shows "s' = s \<or> s' = s\<lparr>bil_events := bil_events s @ [e]\<rparr>"
proof (cases "repo_createUsageEvent e s")
  case (Pair s1 x)
  have "s1 = s \<or> (s1 = s\<lparr>bil_events := bil_events s @ [e]\<rparr> \<and> x = Inr e)"
  proof (cases x)
    case (Inl err)
    then show ?thesis using Pair by (auto simp: repo_createUsageEvent_def dest: insert_row_Inl)
  next
    case (Inr q)
    then show ?thesis using Pair by (auto simp: repo_createUsageEvent_def insert_row_Inr)
  qed
  then show ?thesis using assms Pair
    by (auto simp: on_conflict_def split: sum.splits if_splits option.splits)
qed

lemma normalized_timestamp: "normalizeUsageTimestamp D v fld = Inr (Some w) \<Longrightarrow>
    \<exists>u t. dateParse D u = Some t \<and> w = dateToISO D t"
  by (auto simp: normalizeUsageTimestamp_def throwC_def split: json.splits option.splits)

lemma read_then:
  assumes "fst (m s) = s" and "\<And>x. snd (m s) = Inr x \<Longrightarrow> fst (f x s) = s \<or> Q (fst (f x s))"
  shows "fst (bindS m f s) = s \<or> Q (fst (bindS m f s))"
  using assms by (cases "m s") (auto simp: bindS_def split: sum.splits)

lemma store_event_cases:
  fixes f :: "UsageEvent \<Rightarrow> UsageEvent cp" and i :: string
  assumes "ue_recordedAt e = bnow B \<or> (\<exists>v t. dateParse (bdates B) v = Some t \<and> ue_recordedAt e = dateToISO (bdates B) t)"
  defines "m \<equiv> bindS (readS (enforceUsageQuota B (ue_projectId e) e)) (\<lambda>_.
     bindS (readS (enforceBillingBudget B (ue_projectId e) e)) (\<lambda>_.
     on_conflict (repo_createUsageEvent e) (\<lambda>x. bindS (askS (\<lambda>s. getUsageEvent s i)) (\<lambda>r. case r of
       Some q \<Rightarrow> liftS (f q) | None \<Rightarrow> liftS (Inl x)))))"
  shows "fst (m s) = s \<or> (\<exists>e. fst (m s) = s\<lparr>bil_events := bil_events s @ [e]\<rparr> \<and> checked_event B e s)"
proof -
  define c where "c = on_conflict (repo_createUsageEvent e) (\<lambda>x. bindS (askS (\<lambda>s. getUsageEvent s i)) (\<lambda>r. case r of
       Some q \<Rightarrow> liftS (f q) | None \<Rightarrow> liftS (Inl x)))"
  have c: "fst (c s) = s \<or> fst (c s) = s\<lparr>bil_events := bil_events s @ [e]\<rparr>"
    unfolding c_def by (rule createUsageEvent_events [OF prod.collapse [symmetric]])
  show ?thesis
    unfolding m_def c_def [symmetric]
    using c assms(1) by (auto simp: bindS_def checked_event_def split: sum.splits)
qed

lemma recordUsageEvent_cases:
  "fst (recordUsageEvent B i s) = s
   \<or> (\<exists>e. fst (recordUsageEvent B i s) = s\<lparr>bil_events := bil_events s @ [e]\<rparr> \<and> checked_event B e s)"
  unfolding recordUsageEvent_def db_requireProject_def
proof (rule read_then, simp, rule read_then, simp, rule read_then, simp, rule read_then, simp, rule read_then, simp,
    rule read_then, simp, unfold Let_def, rule read_then, simp, goal_cases)
  case (1 project dimensions metric quantity recordedAt rid existing)
  define e where "e = \<lparr>ue_id = rid, ue_organizationId = truthy_string (prj_organizationId project),
    ue_projectId = prj_id project, ue_metric = metric, ue_quantity = quantity, ue_dimensions = dimensions,
    ue_recordedAt = (case recordedAt of None \<Rightarrow> bnow B | Some t \<Rightarrow> t)\<rparr>"
  have "ue_recordedAt e = bnow B \<or> (\<exists>v t. dateParse (bdates B) v = Some t \<and> ue_recordedAt e = dateToISO (bdates B) t)"
    using 1(5) by (cases recordedAt) (auto simp: e_def dest: normalized_timestamp)
  note s = store_event_cases [OF this]
  show ?case
  proof (cases existing)
    case None
    then show ?thesis using s by (simp add: e_def)
  qed simp
qed

lemma iso_nonempty:
  assumes "iso_dates D" and "plain_years t"
  shows "dateToISO D t \<noteq> []"
proof -
  have "\<not> plain_years (utc_month_start 10000 0)" by (simp add: plain_years_def)
  then have "\<not> text_le (dateToISO D t) (dateToISO D (utc_month_start 10000 0))"
    using assms unfolding iso_dates_def by blast
  then show ?thesis by (auto simp: text_le_def)
qed

lemma checked_event_instant:
  assumes "iso_dates (bdates B)" and "clock_ok B" and "checked_event B e s"
  obtains t where "dateParse (bdates B) (ue_recordedAt e) = Some t" and "ue_recordedAt e = dateToISO (bdates B) t"
proof -
  from assms(3) consider "ue_recordedAt e = bnow B"
    | v t where "dateParse (bdates B) v = Some t" "ue_recordedAt e = dateToISO (bdates B) t"
    unfolding checked_event_def by blast
  then show ?thesis
  proof cases
    case 1
    obtain x where "dateParse (bdates B) (bnow B) = Some x" "dateToISO (bdates B) x = bnow B"
      using assms(2) by (auto simp: clock_ok_def split: option.splits)
    then show ?thesis using 1 that [of x] by simp
  next
    case (2 v t)
    then have "dateParse (bdates B) (dateToISO (bdates B) t) = Some t" using assms(1) unfolding iso_dates_def by blast
    then show ?thesis using 2 that by simp
  qed
qed

lemma quota_check_passed:
  assumes "enforceUsageQuota B pid e s = Inr ()" and "map_of (ben_usageQuotas B) pid = Some p"
    and "dateParse (bdates B) (ue_recordedAt e) = Some t" and "utc_year t = y" and "utc_month t = m" and "100 \<le> y"
    and "usage_positiveLimit (uqp_limits p (usageMetricToQuotaMetric (ue_metric e))) = Some l"
    and "dateToISO (bdates B) (utc_month_start y m) \<noteq> []" and "dateToISO (bdates B) (utc_month_start y (m + 1)) \<noteq> []"
  shows "total_of (month_totals B pid y m s) (usageMetricToQuotaMetric (ue_metric e)) + ue_quantity e \<le> l"
proof -
  obtain period where period: "usageQuotaPeriodFor (bdates B) (ue_recordedAt e) (uqp_period p) = Inr period"
    and ok: "enforceProjectUsageQuota pid (Some p) period (period_summary s pid period) (ue_metric e) (ue_quantity e) = Inr ()"
    using assms(1,2) by (auto simp: enforceUsageQuota_def bindE_Inr)
  have "sum_totals (period_summary s pid period) = month_totals B pid y m s"
    unfolding month_totals_def using period_of_instant [OF period assms(3)] assms(4-6,8,9) by (intro period_summary_totals) simp_all
  then show ?thesis using ok assms(7) by (simp add: enforceProjectUsageQuota_def Let_def guardC_def throwC_def split: if_splits)
qed

lemma budget_check_passed:
  assumes "enforceBillingBudget B pid e s = Inr ()" and "map_of (ben_budgets B) pid = Some p"
    and "dateParse (bdates B) (ue_recordedAt e) = Some t" and "utc_year t = y" and "utc_month t = m" and "100 \<le> y"
    and "positiveUsd (bbp_maxUsd p) = Some l"
    and "dateToISO (bdates B) (utc_month_start y m) \<noteq> []" and "dateToISO (bdates B) (utc_month_start y (m + 1)) \<noteq> []"
  shows "cost_of (ben_rates B) (totals_from (\<lambda>k. total_of (month_totals B pid y m s) k
      + (if k = usageMetricToQuotaMetric (ue_metric e) then ue_quantity e else 0))) \<le> l"
proof -
  obtain period where period: "usageQuotaPeriodFor (bdates B) (ue_recordedAt e) (bbp_period p) = Inr period"
    and ok: "enforceProjectBillingBudget pid (Some p) period (period_summary s pid period) (ben_rates B)
      (ue_metric e) (ue_quantity e) = Inr ()"
    using assms(1,2) by (auto simp: enforceBillingBudget_def bindE_Inr)
  have "sum_totals (period_summary s pid period) = month_totals B pid y m s"
    unfolding month_totals_def using period_of_instant [OF period assms(3)] assms(4-6,8,9) by (intro period_summary_totals) simp_all
  then show ?thesis using ok assms(7)
    by (simp add: enforceProjectBillingBudget_def Let_def guardC_def throwC_def statement_cost addUsage_def split: if_splits)
qed

lemma checked_event_in_limits:
  assumes "iso_dates (bdates B)" and "clock_ok B" and "plain_month y m" and "checked_event B e s"
    and "month_in_limits B pid y m s"
  shows "month_in_limits B pid y m (s\<lparr>bil_events := bil_events s @ [e]\<rparr>)"
proof -
  let ?s = "s\<lparr>bil_events := bil_events s @ [e]\<rparr>" and ?k = "usageMetricToQuotaMetric (ue_metric e)"
  obtain t where t: "dateParse (bdates B) (ue_recordedAt e) = Some t" "ue_recordedAt e = dateToISO (bdates B) t"
    using checked_event_instant [OF assms(1,2,4)] .
  have w: "in_window (dateToISO (bdates B) (utc_month_start y m)) (dateToISO (bdates B) (utc_month_start y (m + 1))) e
      \<longleftrightarrow> utc_year t = y \<and> utc_month t = m" by (rule in_window_iff [OF assms(1,3) t(2)])
  have ne: "dateToISO (bdates B) (utc_month_start y m) \<noteq> []" "dateToISO (bdates B) (utc_month_start y (m + 1)) \<noteq> []"
    using assms(3) iso_nonempty [OF assms(1)] by (simp_all add: plain_month_def)
  show ?thesis
  proof (cases "ue_projectId e = pid \<and> utc_year t = y \<and> utc_month t = m")
    case False
    then have "month_totals B pid y m ?s = month_totals B pid y m s"
      using w by (auto simp: month_totals_def window_totals_append)
    then show ?thesis using assms(5) by (simp add: month_in_limits_def)
  next
    case True
    then have mt: "month_totals B pid y m ?s = totals_from (\<lambda>k. total_of (month_totals B pid y m s) k
        + (if k = ?k then ue_quantity e else 0))"
      using w by (simp add: month_totals_def window_totals_append)
    have checks: "enforceUsageQuota B pid e s = Inr ()" "enforceBillingBudget B pid e s = Inr ()"
      using assms(4) True by (auto simp: checked_event_def)
    have "100 \<le> y" using assms(3) by (simp add: plain_month_def)
    then show ?thesis
      using assms(5) quota_check_passed [OF checks(1) _ t(1) _ _ _ _ ne] budget_check_passed [OF checks(2) _ t(1) _ _ _ _ ne] True
      by (auto simp: month_in_limits_def mt)
  qed
qed

lemma recordUsageEvent_in_limits:
  "iso_dates (bdates B) \<Longrightarrow> clock_ok B \<Longrightarrow> plain_month y m \<Longrightarrow> month_in_limits B pid y m s
   \<Longrightarrow> month_in_limits B pid y m (fst (recordUsageEvent B i s))"
  using recordUsageEvent_cases [of B i s] by (auto simp: checked_event_in_limits)

lemma no_events_in_limits: "bil_events s = [] \<Longrightarrow> month_in_limits B pid y m s"
  by (auto simp: month_in_limits_def month_totals_def window_totals_def counted_events_def usage_total_def
      nothing_costs_nothing positiveUsd_nonneg usage_positiveLimit_nonneg)

end
