(* ===== verification/Stamps.thy ===== *)
theory Stamps
  imports UsageLaws
begin

text \<open>
  A clock that satisfies the laws: the years 100 to 9999 in milliseconds, written with fifteen digits, and one
  sign for every instant outside of them.
\<close>

fun fixed_digits :: "nat \<Rightarrow> int \<Rightarrow> string" where
  "fixed_digits 0 n = []"
| "fixed_digits (Suc k) n = char_of (48 + n div 10 ^ k mod 10) # fixed_digits k n"

definition stamp_origin :: int where
  "stamp_origin = utc_month_start 100 0"

definition stamp_dates :: DateApi where
  "stamp_dates = (let write = (\<lambda>t. if plain_years t then fixed_digits 15 (t - stamp_origin) else ''+'') in
     \<lparr>dateParse = (\<lambda>v. let t = foldl (\<lambda>n c. 10 * n + (of_char c - 48)) 0 v + stamp_origin in
        if plain_years t \<and> write t = v then Some t else None),
      dateToISO = write\<rparr>)"

lemma digit_chars: "0 \<le> a \<Longrightarrow> a < 10 \<Longrightarrow> 0 \<le> b \<Longrightarrow> b < 10 \<Longrightarrow> (char_of (48 + a) :: char) < char_of (48 + b) \<longleftrightarrow> a < b"
  "0 \<le> a \<Longrightarrow> a < 10 \<Longrightarrow> 0 \<le> b \<Longrightarrow> b < 10 \<Longrightarrow> (char_of (48 + a) :: char) = char_of (48 + b) \<longleftrightarrow> a = b" for a b :: int
proof -
  assume ab: "0 \<le> a" "a < 10" "0 \<le> b" "b < 10"
  have c: "of_char (char_of (48 + a) :: char) = 48 + a" "of_char (char_of (48 + b) :: char) = 48 + b"
    using ab by (simp_all add: of_char_of)
  have n: "(of_char x :: nat) < of_char y \<longleftrightarrow> (of_char x :: int) < of_char y" for x y :: char
    using of_nat_less_iff [where 'a = int, of "of_char x" "of_char y"] by (simp only: of_nat_of_char)
  show "(char_of (48 + a) :: char) < char_of (48 + b) \<longleftrightarrow> a < b" unfolding less_char_def n c by simp
  show "(char_of (48 + a) :: char) = char_of (48 + b) \<longleftrightarrow> a = b" using c by (metis add_left_cancel)
qed

lemma split_order:
  fixes a b r q k :: int
  assumes "0 \<le> r" and "r < k" and "0 \<le> q" and "q < k"
  shows "k * a + r \<le> k * b + q \<longleftrightarrow> a < b \<or> a = b \<and> r \<le> q"
proof -
  have "k * (a + 1) \<le> k * b" if "a < b" using that assms by (intro mult_left_mono) simp_all
  moreover have "k * (b + 1) \<le> k * a" if "b < a" using that assms by (intro mult_left_mono) simp_all
  ultimately show ?thesis using assms by (cases a b rule: linorder_cases) (auto simp: distrib_left)
qed

lemma fixed_digits_order: "fixed_digits k n \<le> fixed_digits k m \<longleftrightarrow> n mod 10 ^ k \<le> m mod 10 ^ k"
proof (induction k)
  case (Suc k)
  have s: "x mod 10 ^ Suc k = 10 ^ k * (x div 10 ^ k mod 10) + x mod 10 ^ k" for x :: int
    using zmod_zmult2_eq [of 10 x "10 ^ k"] by (simp add: mult.commute)
  have r: "0 \<le> n mod 10 ^ k" "n mod 10 ^ k < 10 ^ k" "0 \<le> m mod 10 ^ k" "m mod 10 ^ k < 10 ^ k" by simp_all
  show ?case unfolding s split_order [OF r]
    by (simp add: Suc digit_chars)
qed simp

lemma stamp_before: "\<not> fixed_digits (Suc k) n \<le> ''+''"
proof -
  define d where "d = n div 10 ^ k mod 10"
  have d: "0 \<le> d" "d < 10" by (simp_all add: d_def)
  then have "(of_char (char_of (48 + d) :: char) :: int) = 48 + d" by (simp add: of_char_of)
  then have "int (of_char (char_of (48 + d) :: char)) = 48 + d" by (simp add: of_nat_of_char)
  then have "CHR ''+'' < (char_of (48 + d) :: char)" unfolding less_char_def using d by simp
  then show ?thesis by (auto simp: d_def less_le_not_le)
qed

lemma stamp_range: "plain_years t \<Longrightarrow> 0 \<le> t - stamp_origin \<and> t - stamp_origin < 10 ^ 15"
proof -
  have "utc_month_start 10000 0 - utc_month_start 100 0 < 10 ^ 15" by code_simp
  then show "plain_years t \<Longrightarrow> 0 \<le> t - stamp_origin \<and> t - stamp_origin < 10 ^ 15"
    by (auto simp: plain_years_def stamp_origin_def)
qed

lemma stamp_dates_iso: "iso_dates stamp_dates"
proof -
  have w: "dateToISO stamp_dates t = (if plain_years t then fixed_digits 15 (t - stamp_origin) else ''+'')" for t
    by (simp add: stamp_dates_def)
  have order: "text_le (dateToISO stamp_dates t) (dateToISO stamp_dates u) = (t \<le> u)" if "plain_years t" "plain_years u" for t u
  proof -
    have "(t - stamp_origin) mod 10 ^ 15 = t - stamp_origin" "(u - stamp_origin) mod 10 ^ 15 = u - stamp_origin"
      using stamp_range [OF that(1)] stamp_range [OF that(2)] by (intro mod_pos_pos_trivial; simp)+
    then show ?thesis using that by (simp add: w text_le_def fixed_digits_order)
  qed
  have outside: "\<not> text_le (dateToISO stamp_dates t) (dateToISO stamp_dates u)" if "plain_years t" "\<not> plain_years u" for t u
  proof -
    have "(15 :: nat) = Suc 14" by simp
    then have "\<not> fixed_digits 15 (t - stamp_origin) \<le> ''+''" by (metis stamp_before)
    then show ?thesis using that by (simp add: w text_le_def)
  qed
  have parse: "dateParse stamp_dates (dateToISO stamp_dates t) = Some t" if "dateParse stamp_dates v = Some t" for v t
    using that by (auto simp: stamp_dates_def Let_def split: if_splits)
  show ?thesis unfolding iso_dates_def using order outside parse by blast
qed

definition stamp :: "int \<Rightarrow> string" where
  "stamp t = dateToISO stamp_dates t"

end
