(* ===== verification/BillingLaws.thy ===== *)
theory BillingLaws
  imports Invoices Stamps Examples
begin

text \<open>
  Histories of the billing operations. \<open>billing_run\<close> runs calls with the environment of each call, and between
  them anything may happen to the rest of the database and to a delivery that is under way.
\<close>

subsection \<open>The tables\<close>

interpretation usage_table: keyed_store ue_id getUsageEvent repo_createUsageEvent
proof
  show "getUsageEvent s k = Some r \<Longrightarrow> ue_id r = k" for s k r by (auto simp: getUsageEvent_def dest: row_by_Some)
  show "getUsageEvent s (ue_id r) \<noteq> None \<Longrightarrow> fails_with Conflict (snd (repo_createUsageEvent r s))" for s r
    unfolding repo_createUsageEvent_def by (rule insert_row_taken) (simp add: has_key_iff getUsageEvent_def)
  show "repo_createUsageEvent r s = (s', Inr r') \<Longrightarrow> r' = r \<and> getUsageEvent s (ue_id r) = None
      \<and> getUsageEvent s' = (getUsageEvent s)(ue_id r \<mapsto> r)" for r s s' r'
    by (auto simp: repo_createUsageEvent_def insert_row_Inr has_key_iff getUsageEvent_def row_by_append split: option.splits)
  show "repo_createUsageEvent r s = (s', Inl e) \<Longrightarrow> s' = s" for r s s' e
    by (auto simp: repo_createUsageEvent_def dest: insert_row_Inl)
qed

interpretation invoice_table: keyed_store inv_id repo_getBillingInvoice repo_createBillingInvoice
proof
  show "repo_getBillingInvoice s k = Some r \<Longrightarrow> inv_id r = k" for s k r
    by (auto simp: repo_getBillingInvoice_def dest: row_by_Some)
  show "repo_getBillingInvoice s (inv_id r) \<noteq> None \<Longrightarrow> fails_with Conflict (snd (repo_createBillingInvoice r s))" for s r
    unfolding repo_createBillingInvoice_def by (rule insert_row_taken) (simp add: has_key_iff repo_getBillingInvoice_def)
  show "repo_createBillingInvoice r s = (s', Inr r') \<Longrightarrow> r' = r \<and> repo_getBillingInvoice s (inv_id r) = None
      \<and> repo_getBillingInvoice s' = (repo_getBillingInvoice s)(inv_id r \<mapsto> r)" for r s s' r'
    by (auto simp: repo_createBillingInvoice_def insert_row_Inr has_key_iff repo_getBillingInvoice_def row_by_append split: option.splits)
  show "repo_createBillingInvoice r s = (s', Inl e) \<Longrightarrow> s' = s" for r s s' e
    by (auto simp: repo_createBillingInvoice_def dest: insert_row_Inl)
qed

subsection \<open>What does not depend on deliveries, adjustments and the rest of the database\<close>

lemma keeps_on_db: "(\<And>s d. I s \<Longrightarrow> I (s\<lparr>bil_db := d\<rparr>)) \<Longrightarrow> keeps I (on_db m)"
  by (auto simp: keeps_def on_db_def split: prod.splits)

lemma keeps_on_conflict: "keeps I m \<Longrightarrow> (\<And>e. keeps I (h e)) \<Longrightarrow> keeps I (on_conflict m h)"
  by (auto simp: keeps_def on_conflict_def split: prod.splits sum.splits)

lemma keeps_insert_row: "(\<And>s. I s \<Longrightarrow> I (put s)) \<Longrightarrow> keeps I (\<lambda>s. insert_row kind rid (taken s) (dangling s) put r s)"
  by (auto simp: keeps_def insert_row_def)

locale billing_frame =
  fixes I :: "Billing \<Rightarrow> bool"
  assumes any_db: "I s \<Longrightarrow> I (s\<lparr>bil_db := d\<rparr>)"
    and any_deliveries: "I s \<Longrightarrow> I (s\<lparr>bil_deliveries := ds\<rparr>)"
    and any_adjustments: "I s \<Longrightarrow> I (s\<lparr>bil_adjustments := as\<rparr>)"
begin

lemma keeps_create_delivery: "keeps I (repo_createBillingWebhookDelivery d)"
  unfolding repo_createBillingWebhookDelivery_def by (rule keeps_insert_row) (rule any_deliveries)

lemma keeps_update_delivery: "keeps I (repo_updateBillingWebhookDelivery d)"
  by (auto simp: keeps_def repo_updateBillingWebhookDelivery_def intro: any_deliveries)

lemma keeps_enqueue: "keeps I (enqueueBillingInvoiceWebhook B i)"
  unfolding enqueueBillingInvoiceWebhook_def Let_def
  by (intro keeps_case_option keeps_pureS keeps_bindS keeps_askS keeps_liftS keeps_on_conflict keeps_create_delivery)

lemma keeps_attempt: "keeps I (deliver_webhook B reply t d)"
  unfolding deliver_webhook_def by (intro keeps_bindS keeps_liftS keeps_update_delivery)

lemma keeps_adjustment: "keeps I (createBillingInvoiceAdjustment B rid_v iid type_v amount reason)"
proof -
  have "keeps I (repo_createBillingInvoiceAdjustment a)" for a
    unfolding repo_createBillingInvoiceAdjustment_def by (rule keeps_insert_row) (rule any_adjustments)
  then show ?thesis
    unfolding createBillingInvoiceAdjustment_def
    by (intro keeps_bindS keeps_readS keeps_liftS) (auto split: prod.splits)
qed

lemma keeps_issue:
  assumes "\<And>rid period st. keeps I (repo_createBillingInvoice (createOrganizationBillingInvoice B rid oid period st))"
  shows "keeps I (issueOrganizationBillingInvoice B rid_v oid at_v)"
  unfolding issueOrganizationBillingInvoice_def db_requireOrganization_def
  by (intro keeps_bindS keeps_readS keeps_liftS keeps_askS keeps_case_option keeps_pureS keeps_on_conflict keeps_on_db
      keeps_enqueue assms any_db)

end

subsection \<open>Histories\<close>

text \<open>
  \<open>AttemptWebhook\<close> is one turn of \<open>deliverPendingBillingWebhooks\<close>, for a delivery that was read at any time before.
\<close>

datatype billing_command =
    RecordUsage RecordUsageInput
  | IssueInvoice json string json
  | AdjustInvoice json string json jnum string
  | RetainInvoice string json "bool option" "string option"
  | PruneInvoices string json
  | AttemptWebhook fetch_reply string WebhookDelivery
  | Elsewhere Db

fun billing_step :: "BillingEnv \<Rightarrow> billing_command \<Rightarrow> Billing \<Rightarrow> Billing" where
  "billing_step B (RecordUsage i) s = fst (recordUsageEvent B i s)"
| "billing_step B (IssueInvoice rid oid v) s = fst (issueOrganizationBillingInvoice B rid oid v s)"
| "billing_step B (AdjustInvoice rid iid t q r) s = fst (createBillingInvoiceAdjustment B rid iid t q r s)"
| "billing_step B (RetainInvoice iid v hold why) s = fst (setBillingInvoiceRetentionPolicy B iid v hold why s)"
| "billing_step B (PruneInvoices oid v) s = fst (pruneBillingInvoices B oid v s)"
| "billing_step B (AttemptWebhook reply t d) s = fst (deliver_webhook B reply t d s)"
| "billing_step B (Elsewhere d) s = s\<lparr>bil_db := d\<rparr>"

fun billing_run :: "(BillingEnv \<times> billing_command) list \<Rightarrow> Billing \<Rightarrow> Billing" where
  "billing_run [] s = s"
| "billing_run ((B, c) # h) s = billing_run h (billing_step B c s)"

lemma billing_run_append: "billing_run (h @ h') s = billing_run h' (billing_run h s)"
  by (induction h arbitrary: s) auto

lemma billing_run_invariant:
  assumes "\<And>B c s. (B, c) \<in> set h \<Longrightarrow> I s \<Longrightarrow> I (billing_step B c s)" and "I s"
  shows "I (billing_run h s)"
  using assms by (induction h arbitrary: s) auto

subsection \<open>Limits\<close>

interpretation same_events: billing_frame "\<lambda>s. bil_events s = es" for es
  by unfold_locales simp_all

lemma keeps_events_retention: "keeps (\<lambda>s. bil_events s = es) (setBillingInvoiceRetentionPolicy B iid v hold why)"
proof -
  have "keeps (\<lambda>s. bil_events s = es) (upsertBillingInvoiceRetentionPolicy r)" for r
    by (auto simp: keeps_def upsertBillingInvoiceRetentionPolicy_def insert_row_def)
  then show ?thesis unfolding setBillingInvoiceRetentionPolicy_def by (intro keeps_bindS keeps_readS keeps_liftS)
qed

lemma keeps_events_prune: "keeps (\<lambda>s. bil_events s = es) (pruneBillingInvoices B oid v)"
proof -
  have d: "keeps (\<lambda>s. bil_events s = es) (deleteBillingInvoice i)" for i
    by (auto simp: keeps_def deleteBillingInvoice_def split: option.splits)
  have "keeps (\<lambda>s. bil_events s = es) (prune_invoices t is del ret)" for t "is" del ret
  proof (induction "is" arbitrary: del ret)
    case (Cons i "is")
    show ?case unfolding prune_invoices.simps by (intro keeps_bindS keeps_askS keeps_case_option d Cons.IH)
  qed (simp add: keeps_pureS)
  then show ?thesis
    unfolding pruneBillingInvoices_def db_requireOrganization_def
    by (intro keeps_bindS keeps_readS keeps_liftS keeps_askS) (auto split: prod.splits)
qed

lemma other_calls_keep_events:
  assumes "\<And>i. c \<noteq> RecordUsage i"
  shows "bil_events (billing_step B c s) = bil_events s"
proof -
  have i: "keeps (\<lambda>s. bil_events s = es) (repo_createBillingInvoice i)" for es i
    unfolding repo_createBillingInvoice_def by (rule keeps_insert_row) simp
  show ?thesis
  proof (cases c)
    case (RecordUsage i)
    then show ?thesis using assms by simp
  qed (simp_all add: keepsD [OF same_events.keeps_issue [OF i]] keepsD [OF same_events.keeps_adjustment]
      keepsD [OF keeps_events_retention] keepsD [OF keeps_events_prune] keepsD [OF same_events.keeps_attempt])
qed

text \<open>The environments of one control plane: they differ in the clock, the identifiers and the webhook target.\<close>

definition same_plane :: "BillingEnv \<Rightarrow> BillingEnv \<Rightarrow> bool" where
  "same_plane B B' \<longleftrightarrow> ben_usageQuotas B' = ben_usageQuotas B \<and> ben_budgets B' = ben_budgets B \<and> ben_rates B' = ben_rates B
     \<and> bdates B' = bdates B \<and> ben_hmac B' = ben_hmac B \<and> ben_invoiceJson B' = ben_invoiceJson B"

lemma month_in_limits_same: "same_plane B B' \<Longrightarrow> month_in_limits B' pid y m s = month_in_limits B pid y m s"
  by (simp add: month_in_limits_def month_totals_def same_plane_def)

text \<open>
  C12. Usage stays within its limits: in every history of the billing operations that begins without usage events,
  whatever else happens to the database, the usage of a project in a month of the years 100 to 9999 is at most
  what its usage quota allows, for every metric, and what the month costs at most its budget.
\<close>

theorem usage_stays_within_limits:
  assumes "iso_dates (bdates B)" and "plain_month y m" and "bil_events s = []"
    and "\<forall>(B', c) \<in> set h. same_plane B B' \<and> clock_ok B'"
  shows "month_in_limits B pid y m (billing_run h s)"
proof (rule billing_run_invariant)
  fix B' c and s :: Billing
  assume c: "(B', c) \<in> set h" and s: "month_in_limits B pid y m s"
  have B': "same_plane B B'" "clock_ok B'" using assms(4) c by auto
  show "month_in_limits B pid y m (billing_step B' c s)"
  proof (cases "\<exists>i. c = RecordUsage i")
    case True
    then show ?thesis
      using recordUsageEvent_in_limits [of B' y m pid s] B' assms(1,2) s
      by (auto simp: month_in_limits_same) (simp add: same_plane_def)
  next
    case False
    then show ?thesis using s other_calls_keep_events [of c B' s] by (simp add: month_in_limits_def month_totals_def)
  qed
qed (simp add: no_events_in_limits assms(3))

text \<open>A project with at most ten invocations a month, for at most two dollars; the clock of the call is an argument.\<close>

definition ex_limit_ten :: ProjectUsageQuotaPolicy where
  "ex_limit_ten = \<lparr>uqp_period = None, uqp_limits = (\<lambda>m. if m = MInvocations then Some (Fin 10) else None)\<rparr>"

definition ex_billing_env :: "int \<Rightarrow> string \<Rightarrow> BillingEnv" where
  "ex_billing_env t n = \<lparr>ben_env = ex_env\<lparr>env_dates := stamp_dates, env_now := stamp (stamp_origin + t),
       env_idGenerator := (\<lambda>p. p @ ''_'' @ n), env_auditId := ''aud_'' @ n\<rparr>,
     ben_hmac = \<lparr>ha_sha256 = (\<lambda>s. s), ha_hmac = (\<lambda>k s. ''ab'')\<rparr>,
     ben_invoiceJson = (\<lambda>i. inv_id i @ inv_organizationId i @ inv_periodKey i), ben_exportJson = (\<lambda>i t. inv_id i @ t),
     ben_localeLe = (\<le>), ben_usageQuotas = [(''p1'', ex_limit_ten)],
     ben_budgets = [(''p1'', \<lparr>bbp_period = None, bbp_maxUsd = Some (Fin 2)\<rparr>)],
     ben_rates = Some (\<lambda>m. if m = MSqliteUnits then Some (Fin 1) else None), ben_rateCardVersion = ''v1'',
     ben_exportSigner = Some \<lparr>rik_keyId = ''k1'', rik_secret = ''s1''\<rparr>, ben_webhookTargetUrl = None,
     ben_webhookMaxAttempts = None, ben_webhookRetryDelayMs = None\<rparr>"

definition ex_billing :: Billing where
  "ex_billing = \<lparr>bil_db = empty_db\<lparr>
       db_organizations := [\<lparr>org_id = ''o1'', org_name = ''one'', org_billingProvider = NoBilling,
         org_billingCustomerId = None, org_paymentStatus = PaymentActive, org_billingEmail = None,
         org_paymentStatusUpdatedAt = ''t0'', org_createdAt = ''t0''\<rparr>],
       db_projects := [\<lparr>prj_id = ''p1'', prj_organizationId = Some ''o1'', prj_name = ''demo'', prj_createdAt = ''t0''\<rparr>]\<rparr>,
     bil_events = [], bil_invoices = [], bil_deliveries = [], bil_adjustments = [], bil_retention = []\<rparr>"

definition ex_usage :: "UsageMetricName \<Rightarrow> int \<Rightarrow> json \<Rightarrow> billing_command" where
  "ex_usage m q t = RecordUsage \<lparr>rui_id = JUndefined, rui_projectId = ''p1'',
     rui_metric = JStr (case m of SqliteUnit \<Rightarrow> ''sqlite_unit'' | _ \<Rightarrow> ''invocation''), rui_quantity = JInt q,
     rui_dimensions = JUndefined, rui_recordedAt = t\<rparr>"

text \<open>The second call is refused.\<close>

definition ex_usage_history :: "(BillingEnv \<times> billing_command) list" where
  "ex_usage_history = [(ex_billing_env 0 ''1'', ex_usage Invocation 6 JUndefined),
     (ex_billing_env 1 ''2'', ex_usage Invocation 5 JUndefined)]"

lemma ex_same_plane: "same_plane (ex_billing_env t n) (ex_billing_env u m)"
  by (simp add: same_plane_def ex_billing_env_def bdates_def)

lemma record_changes_events:
  "bil_events (billing_step B (RecordUsage i) s) = es \<Longrightarrow> billing_step B (RecordUsage i) s = s\<lparr>bil_events := es\<rparr>"
  using recordUsageEvent_cases [of B i s] by auto

definition ex_stored :: UsageEvent where
  "ex_stored = \<lparr>ue_id = ''use_1'', ue_organizationId = Some ''o1'', ue_projectId = ''p1'', ue_metric = Invocation,
     ue_quantity = 6, ue_dimensions = None, ue_recordedAt = ''000000000000000''\<rparr>"

lemma ex_first_usage:
  "billing_step (ex_billing_env 0 ''1'') (ex_usage Invocation 6 JUndefined) ex_billing = ex_billing\<lparr>bil_events := [ex_stored]\<rparr>"
  unfolding ex_usage_def by (rule record_changes_events) code_simp

lemma ex_second_usage:
  "billing_step (ex_billing_env 1 ''2'') (ex_usage Invocation 5 JUndefined) (ex_billing\<lparr>bil_events := [ex_stored]\<rparr>)
   = ex_billing\<lparr>bil_events := [ex_stored]\<rparr>"
proof -
  have "bil_events (billing_step (ex_billing_env 1 ''2'') (ex_usage Invocation 5 JUndefined) (ex_billing\<lparr>bil_events := [ex_stored]\<rparr>))
    = [ex_stored]" by code_simp
  then show ?thesis unfolding ex_usage_def by (rule record_changes_events [THEN trans]) simp
qed

lemma ex_usage_run: "billing_run ex_usage_history ex_billing = ex_billing\<lparr>bil_events := [ex_stored]\<rparr>"
  by (simp only: ex_usage_history_def billing_run.simps ex_first_usage ex_second_usage)

theorem usage_stays_within_limits_witness:
  "month_in_limits (ex_billing_env 0 ''0'') ''p1'' 100 0 (billing_run ex_usage_history ex_billing)
   \<and> map ue_quantity (bil_events (billing_run ex_usage_history ex_billing)) = [6]"
proof
  have d: "bdates (ex_billing_env t n) = stamp_dates" for t n by (simp add: ex_billing_env_def bdates_def)
  have c: "clock_ok (ex_billing_env 0 ''1'')" "clock_ok (ex_billing_env 1 ''2'')"
    by code_simp+
  show "month_in_limits (ex_billing_env 0 ''0'') ''p1'' 100 0 (billing_run ex_usage_history ex_billing)"
  proof (rule usage_stays_within_limits)
    show "iso_dates (bdates (ex_billing_env 0 ''0''))" by (simp add: d stamp_dates_iso)
    show "plain_month 100 0" by code_simp
    show "bil_events ex_billing = []" by (simp add: ex_billing_def)
    show "\<forall>(B', c) \<in> set ex_usage_history. same_plane (ex_billing_env 0 ''0'') B' \<and> clock_ok B'"
      by (simp add: ex_usage_history_def ex_same_plane c)
  qed
  show "map ue_quantity (bil_events (billing_run ex_usage_history ex_billing)) = [6]"
    by (simp add: ex_usage_run ex_stored_def)
qed

subsection \<open>Invoices\<close>

text \<open>Identifiers and periods are unique, and every digest is that of the invoice as it is stored.\<close>

definition invoices_ok :: "BillingEnv \<Rightarrow> BillingInvoice list \<Rightarrow> bool" where
  "invoices_ok B is \<longleftrightarrow> distinct (map inv_id is) \<and> distinct (map (\<lambda>i. (inv_organizationId i, inv_periodKey i)) is)
     \<and> (\<forall>i \<in> set is. inv_contentDigest i = invoiceContentDigest B i \<and> inv_totalUsd i = obs_totalUsd (inv_statement i)
        \<and> uper_key (inv_period i) = inv_periodKey i)"

lemma invoices_ok_delete: "invoices_ok B is \<Longrightarrow> invoices_ok B (delete_by inv_id rid is)"
  by (auto simp: invoices_ok_def distinct_delete_by set_delete_by)

lemma invoices_ok_same: "same_plane B B' \<Longrightarrow> invoices_ok B' is = invoices_ok B is"
  by (simp add: invoices_ok_def same_plane_def invoiceContentDigest_def)

lemma new_invoice_ok:
  "inv_contentDigest (createOrganizationBillingInvoice B rid oid p st) = invoiceContentDigest B (createOrganizationBillingInvoice B rid oid p st)"
  "inv_totalUsd (createOrganizationBillingInvoice B rid oid p st) = obs_totalUsd (inv_statement (createOrganizationBillingInvoice B rid oid p st))"
  "inv_organizationId (createOrganizationBillingInvoice B rid oid p st) = oid"
  "inv_periodKey (createOrganizationBillingInvoice B rid oid p st) = uper_key p"
  "inv_period (createOrganizationBillingInvoice B rid oid p st) = p"
  "inv_id (createOrganizationBillingInvoice B rid oid p st) = rid"
  by (simp_all add: createOrganizationBillingInvoice_def invoiceContentDigest_def Let_def)

text \<open>What a deletion needs: a policy for the invoice, without a legal hold, whose date is not after the given one.\<close>

definition lapsed :: "RetentionPolicy option \<Rightarrow> string \<Rightarrow> bool" where
  "lapsed p t \<longleftrightarrow> (case p of None \<Rightarrow> False | Some r \<Rightarrow> \<not> ret_legalHold r \<and> text_le (ret_retainUntil r) t)"

lemma decision_lapsed: "decideBillingInvoiceRetention i p t = None \<longleftrightarrow> lapsed p t"
  by (simp add: decideBillingInvoiceRetention_def lapsed_def Let_def split: option.splits)

text \<open>The invoice is there with its policy.\<close>

definition kept_invoice :: "BillingEnv \<Rightarrow> BillingInvoice \<Rightarrow> RetentionPolicy option \<Rightarrow> Billing \<Rightarrow> bool" where
  "kept_invoice B i p s \<longleftrightarrow> invoices_ok B (bil_invoices s) \<and> i \<in> set (bil_invoices s)
     \<and> repo_getBillingInvoiceRetentionPolicy s (inv_id i) = p"

interpretation kept: billing_frame "kept_invoice B i p" for B i p
  by unfold_locales (simp_all add: kept_invoice_def repo_getBillingInvoiceRetentionPolicy_def)

interpretation valid_invoices: billing_frame "\<lambda>s. invoices_ok B (bil_invoices s)" for B
  by unfold_locales simp_all

text \<open>An invoice that is issued satisfies the laws.\<close>

lemma invoices_ok_create:
  assumes "same_plane B B'" and "j = createOrganizationBillingInvoice B' rid oid period st"
  shows "invoices_ok B (bil_invoices s) \<Longrightarrow> invoices_ok B (bil_invoices (fst (repo_createBillingInvoice j s)))"
    and "bil_retention (fst (repo_createBillingInvoice j s)) = bil_retention s"
    and "set (bil_invoices s) \<subseteq> set (bil_invoices (fst (repo_createBillingInvoice j s)))"
  using new_invoice_ok [of B' rid oid period st] assms
  by (auto simp: repo_createBillingInvoice_def insert_row_def invoices_ok_def has_key_set same_plane_def
      invoiceContentDigest_def image_iff)

lemma record_keeps_rest:
  "bil_invoices (fst (recordUsageEvent B i s)) = bil_invoices s" "bil_retention (fst (recordUsageEvent B i s)) = bil_retention s"
  using recordUsageEvent_cases [of B i s] by auto

lemma keeps_delete_others:
  assumes "inv_id i \<noteq> rid"
  shows "keeps (kept_invoice B i p) (deleteBillingInvoice rid)"
  using assms
  by (auto simp: keeps_def kept_invoice_def deleteBillingInvoice_def invoices_ok_delete set_delete_by
      repo_getBillingInvoiceRetentionPolicy_def row_by_delete split: option.splits)

text \<open>The pruning loop leaves an invoice alone unless its policy has lapsed.\<close>

lemma keeps_prune_loop:
  assumes "\<forall>j \<in> set js. inv_id j = inv_id i \<longrightarrow> \<not> lapsed p t"
  shows "keeps (kept_invoice B i p) (prune_invoices t js del ret)"
  using assms
proof (induction js arbitrary: del ret)
  case (Cons j js)
  have IH: "keeps (kept_invoice B i p) (prune_invoices t js del ret)" for del ret using Cons by simp
  show ?case
  proof (cases "inv_id j = inv_id i")
    case True
    have "fst (prune_invoices t (j # js) del ret s) = fst (prune_invoices t js del (ret @ [the (decideBillingInvoiceRetention j p t)]) s)"
      if s: "kept_invoice B i p s" for s
    proof -
      have l: "\<not> lapsed p t" using Cons.prems True by simp
      then obtain x where "decideBillingInvoiceRetention j p t = Some x" using decision_lapsed [of j p t] by fastforce
      then show ?thesis using s True by (simp add: kept_invoice_def)
    qed
    then show ?thesis using IH by (simp add: keeps_def)
  next
    case False
    show ?thesis unfolding prune_invoices.simps
      by (intro keeps_bindS keeps_askS keeps_case_option IH keeps_delete_others) (use False in simp)
  qed
qed (simp add: keeps_pureS)

definition prune_time :: "BillingEnv \<Rightarrow> json \<Rightarrow> string" where
  "prune_time B v = (case normalizeUsageTimestamp (bdates B) v ''billing invoice retention prune at'' of
     Inr (Some t) \<Rightarrow> t | _ \<Rightarrow> bnow B)"

lemma prune_keeps_invoice:
  assumes s: "kept_invoice B i p s" and k: "oid = inv_organizationId i \<longrightarrow> \<not> lapsed p (prune_time B' v)"
  shows "kept_invoice B i p (fst (pruneBillingInvoices B' oid v s))"
proof -
  let ?js = "js_sort (prune_order (ben_localeLe B')) (repo_listOrganizationBillingInvoices oid s)"
  have d: "\<forall>j \<in> set ?js. inv_id j = inv_id i \<longrightarrow> oid = inv_organizationId i"
    using s by (auto simp: repo_listOrganizationBillingInvoices_def kept_invoice_def invoices_ok_def distinct_map inj_on_def)
  then have "keeps (kept_invoice B i p) (prune_invoices (prune_time B' v) ?js [] [])"
    using k by (intro keeps_prune_loop) blast
  then have loop: "kept_invoice B i p (fst (prune_invoices (prune_time B' v) ?js [] [] s))" using s by (rule keepsD)
  show ?thesis
  proof (cases "requireOrganization oid (bil_db s)")
    case (Inl e)
    then show ?thesis using s by (simp add: pruneBillingInvoices_def db_requireOrganization_def bindS_def)
  next
    case (Inr o')
    show ?thesis
    proof (cases "normalizeUsageTimestamp (bdates B') v ''billing invoice retention prune at''")
      case (Inl e)
      then show ?thesis using s Inr by (simp add: pruneBillingInvoices_def db_requireOrganization_def bindS_def)
    next
      case (Inr t)
      then have "prune_time B' v = (case t of None \<Rightarrow> bnow B' | Some x \<Rightarrow> x)" by (simp add: prune_time_def split: option.splits)
      with Inr \<open>requireOrganization oid (bil_db s) = Inr o'\<close> loop show ?thesis
        by (auto simp: pruneBillingInvoices_def db_requireOrganization_def bindS_def split: prod.splits sum.splits)
    qed
  qed
qed

text \<open>A call prunes an invoice when it prunes the organization at a time at which its policy has lapsed.\<close>

fun prunes :: "BillingInvoice \<Rightarrow> BillingEnv \<Rightarrow> billing_command \<Rightarrow> Billing \<Rightarrow> bool" where
  "prunes i B (PruneInvoices oid v) s \<longleftrightarrow> oid = inv_organizationId i
     \<and> lapsed (repo_getBillingInvoiceRetentionPolicy s (inv_id i)) (prune_time B v)"
| "prunes i B c s \<longleftrightarrow> False"

fun spared :: "BillingInvoice \<Rightarrow> (BillingEnv \<times> billing_command) list \<Rightarrow> Billing \<Rightarrow> bool" where
  "spared i [] s \<longleftrightarrow> True"
| "spared i ((B, c) # h) s \<longleftrightarrow> \<not> prunes i B c s \<and> spared i h (billing_step B c s)"

lemma upsert_keeps_invoices: "bil_invoices (fst (setBillingInvoiceRetentionPolicy B iid v hold why s)) = bil_invoices s"
proof -
  have "keeps (\<lambda>s. bil_invoices s = is) (upsertBillingInvoiceRetentionPolicy r)" for r "is"
    by (auto simp: keeps_def upsertBillingInvoiceRetentionPolicy_def insert_row_def)
  then have "keeps (\<lambda>s'. bil_invoices s' = bil_invoices s) (setBillingInvoiceRetentionPolicy B iid v hold why)"
    unfolding setBillingInvoiceRetentionPolicy_def by (intro keeps_bindS keeps_readS keeps_liftS)
  then show ?thesis by (rule keepsD) simp
qed

lemma issue_keeps_kept:
  assumes "same_plane B B'"
  shows "keeps (kept_invoice B i p) (issueOrganizationBillingInvoice B' rid_v oid at_v)"
proof (rule kept.keeps_issue)
  fix rid period st
  let ?j = "createOrganizationBillingInvoice B' rid oid period st"
  show "keeps (kept_invoice B i p) (repo_createBillingInvoice ?j)"
    using invoices_ok_create [OF assms refl [of ?j]]
    by (simp add: keeps_def kept_invoice_def repo_getBillingInvoiceRetentionPolicy_def subset_iff)
qed

lemma step_keeps_invoice:
  assumes "same_plane B B'" and "\<not> prunes i B' c s" and "invoices_ok B (bil_invoices s)" and "i \<in> set (bil_invoices s)"
  shows "invoices_ok B (bil_invoices (billing_step B' c s)) \<and> i \<in> set (bil_invoices (billing_step B' c s))"
proof -
  define p where "p = repo_getBillingInvoiceRetentionPolicy s (inv_id i)"
  have s: "kept_invoice B i p s" using assms(3,4) by (simp add: kept_invoice_def p_def)
  have "kept_invoice B i p (billing_step B' c s) \<or> bil_invoices (billing_step B' c s) = bil_invoices s"
  proof (cases c)
    case (PruneInvoices oid v)
    then show ?thesis using prune_keeps_invoice [OF s] assms(2) by (auto simp: p_def)
  qed (auto simp: record_keeps_rest upsert_keeps_invoices keepsD [OF issue_keeps_kept [OF assms(1)] s]
      keepsD [OF kept.keeps_adjustment s] keepsD [OF kept.keeps_attempt s])
  then show ?thesis using assms(3,4) by (auto simp: kept_invoice_def)
qed

lemma spared_invoice_is_kept:
  assumes "\<forall>(B', c) \<in> set h. same_plane B B'" and "spared i h s"
    and "invoices_ok B (bil_invoices s)" and "i \<in> set (bil_invoices s)"
  shows "invoices_ok B (bil_invoices (billing_run h s)) \<and> i \<in> set (bil_invoices (billing_run h s))"
  using assms
proof (induction h arbitrary: s)
  case (Cons x h)
  obtain B' c where x: "x = (B', c)" by (cases x)
  have "same_plane B B'" "\<not> prunes i B' c s" using Cons.prems x by auto
  from step_keeps_invoice [OF this Cons.prems(3,4)] Cons show ?case by (auto simp: x)
qed simp

subsection \<open>Issuing\<close>

interpretation same_invoices: billing_frame "\<lambda>s. bil_invoices s = is" for "is"
  by unfold_locales simp_all

lemma enqueue_invoices: "enqueueBillingInvoiceWebhook B i s = (s', r) \<Longrightarrow> bil_invoices s' = bil_invoices s"
  using keepsD [OF same_invoices.keeps_enqueue [of "bil_invoices s" B i], of s] by simp

lemma on_db_invoices: "on_db m s = (s', r) \<Longrightarrow> bil_invoices s' = bil_invoices s"
  by (auto simp: on_db_def split: prod.splits)

lemma stored_by_period:
  "getOrganizationBillingInvoiceByPeriod s oid key = Some i
   \<Longrightarrow> i \<in> set (bil_invoices s) \<and> inv_organizationId i = oid \<and> inv_periodKey i = key"
  by (auto simp: getOrganizationBillingInvoiceByPeriod_def dest: row_by_Some)

lemma found_by_period:
  assumes "invoices_ok B (bil_invoices s)" and "i \<in> set (bil_invoices s)"
  shows "getOrganizationBillingInvoiceByPeriod s (inv_organizationId i) (inv_periodKey i) = Some i"
  using row_by_distinct [of "\<lambda>r. (inv_organizationId r, inv_periodKey r)" "bil_invoices s" i] assms
  by (simp add: getOrganizationBillingInvoiceByPeriod_def invoices_ok_def)

lemma created_invoice: "repo_createBillingInvoice j s = (s', Inr i) \<Longrightarrow> i = j \<and> bil_invoices s' = bil_invoices s @ [j]"
  by (auto simp: repo_createBillingInvoice_def insert_row_Inr)

definition issued_for :: "Billing \<Rightarrow> string \<Rightarrow> string \<Rightarrow> BillingInvoice \<Rightarrow> bool" where
  "issued_for s oid key i \<longleftrightarrow> i \<in> set (bil_invoices s) \<and> inv_organizationId i = oid \<and> inv_periodKey i = key"

lemma enqueue_then_return:
  assumes "bindS (enqueueBillingInvoiceWebhook B i) (\<lambda>_. pureS i) s = (s', Inr j)"
  shows "j = i \<and> bil_invoices s' = bil_invoices s"
  using assms by (auto simp: bindS_Inr dest: enqueue_invoices)

lemma issue_new:
  assumes "on_conflict (bindS (repo_createBillingInvoice n) (\<lambda>i.
       bindS (on_db (recordCustomerAuditEvent E (invoice_issued i))) (\<lambda>_.
       bindS (enqueueBillingInvoiceWebhook B i) (\<lambda>_. pureS i))))
     (\<lambda>e. bindS (askS (\<lambda>s. getOrganizationBillingInvoiceByPeriod s oid key)) (\<lambda>raced. case raced of
         Some i \<Rightarrow> bindS (enqueueBillingInvoiceWebhook B i) (\<lambda>_. pureS i) | None \<Rightarrow> liftS (Inl e))) s = (s', Inr j)"
    and "inv_organizationId n = oid" and "inv_periodKey n = key"
  shows "issued_for s' oid key j"
proof -
  let ?m = "bindS (repo_createBillingInvoice n) (\<lambda>i.
       bindS (on_db (recordCustomerAuditEvent E (invoice_issued i))) (\<lambda>_.
       bindS (enqueueBillingInvoiceWebhook B i) (\<lambda>_. pureS i)))"
  show ?thesis
  proof (cases "?m s")
    case (Pair s1 x)
    show ?thesis
    proof (cases x)
      case (Inr i)
      with Pair assms(1) have "?m s = (s', Inr j)" by (simp add: on_conflict_def)
      then obtain s2 s3 where "repo_createBillingInvoice n s = (s2, Inr n)" "bil_invoices s3 = bil_invoices s2"
        "bindS (enqueueBillingInvoiceWebhook B n) (\<lambda>_. pureS n) s3 = (s', Inr j)"
        by (auto simp: bindS_Inr dest: created_invoice on_db_invoices)
      then show ?thesis using assms(2,3) created_invoice [of n s s2 n] enqueue_then_return [of B n s3 s' j]
        by (simp add: issued_for_def)
    next
      case (Inl e)
      with Pair assms(1) obtain i where "getOrganizationBillingInvoiceByPeriod s1 oid key = Some i"
        "bindS (enqueueBillingInvoiceWebhook B i) (\<lambda>_. pureS i) s1 = (s', Inr j)"
        by (auto simp: on_conflict_def split: if_splits option.splits)
      then show ?thesis using stored_by_period [of s1 oid key i] enqueue_then_return [of B i s1 s' j]
        by (simp add: issued_for_def)
    qed
  qed
qed

lemma issue_returns:
  assumes "issueOrganizationBillingInvoice B rid_v oid v s = (s', Inr i)"
    and "report_period B v ''billing invoice at'' None = Inr p"
  shows "issued_for s' oid (uper_key p) i"
    and "getOrganizationBillingInvoiceByPeriod s oid (uper_key p) = Some j \<Longrightarrow> i = j"
proof -
  from assms obtain x where r: "(case x of Some i \<Rightarrow> bindS (enqueueBillingInvoiceWebhook B i) (\<lambda>_. pureS i)
       | None \<Rightarrow> bindS (askS (organization_statement B oid p)) (\<lambda>statement.
           bindS (liftS (newId (ben_env B) rid_v ''billing invoice id'' ''inv'')) (\<lambda>rid.
           on_conflict
             (bindS (repo_createBillingInvoice (createOrganizationBillingInvoice B rid oid p statement)) (\<lambda>i.
              bindS (on_db (recordCustomerAuditEvent (ben_env B) (invoice_issued i))) (\<lambda>_.
              bindS (enqueueBillingInvoiceWebhook B i) (\<lambda>_. pureS i))))
             (\<lambda>e. bindS (askS (\<lambda>s. getOrganizationBillingInvoiceByPeriod s oid (uper_key p))) (\<lambda>raced. case raced of
                 Some i \<Rightarrow> bindS (enqueueBillingInvoiceWebhook B i) (\<lambda>_. pureS i)
               | None \<Rightarrow> liftS (Inl e)))))) s = (s', Inr i)"
    and x: "x = getOrganizationBillingInvoiceByPeriod s oid (uper_key p)"
    by (auto simp: issueOrganizationBillingInvoice_def db_requireOrganization_def bindS_Inr [where m = "readS _"])
  show "issued_for s' oid (uper_key p) i"
  proof (cases x)
    case (Some j)
    then show ?thesis using r x enqueue_then_return [of B j s s' i] stored_by_period [of s oid "uper_key p" j]
      by (simp add: issued_for_def)
  next
    case None
    with r obtain rid st where "on_conflict
             (bindS (repo_createBillingInvoice (createOrganizationBillingInvoice B rid oid p st)) (\<lambda>i.
              bindS (on_db (recordCustomerAuditEvent (ben_env B) (invoice_issued i))) (\<lambda>_.
              bindS (enqueueBillingInvoiceWebhook B i) (\<lambda>_. pureS i))))
             (\<lambda>e. bindS (askS (\<lambda>s. getOrganizationBillingInvoiceByPeriod s oid (uper_key p))) (\<lambda>raced. case raced of
                 Some i \<Rightarrow> bindS (enqueueBillingInvoiceWebhook B i) (\<lambda>_. pureS i)
               | None \<Rightarrow> liftS (Inl e))) s = (s', Inr i)"
      by (cases "newId (ben_env B) rid_v ''billing invoice id'' ''inv''") auto
    then show ?thesis by (rule issue_new) (simp_all add: new_invoice_ok)
  qed
  assume "getOrganizationBillingInvoiceByPeriod s oid (uper_key p) = Some j"
  then show "i = j" using r x enqueue_then_return [of B j s s' i] by simp
qed

lemma issue_has_period:
  "issueOrganizationBillingInvoice B rid_v oid v s = (s', Inr i)
   \<Longrightarrow> \<exists>p. report_period B v ''billing invoice at'' None = Inr p"
  by (auto simp: issueOrganizationBillingInvoice_def db_requireOrganization_def bindS_Inr)

lemma step_keeps_invoices_ok:
  assumes "same_plane B B'" and "invoices_ok B (bil_invoices s)"
  shows "invoices_ok B (bil_invoices (billing_step B' c s))"
proof -
  let ?I = "\<lambda>s. invoices_ok B (bil_invoices s)"
  have create: "keeps ?I (repo_createBillingInvoice (createOrganizationBillingInvoice B' rid oid period st))" for rid oid period st
    using invoices_ok_create(1) [OF assms(1) refl] by (simp add: keeps_def)
  have delete: "keeps ?I (deleteBillingInvoice rid)" for rid
    by (auto simp: keeps_def deleteBillingInvoice_def invoices_ok_delete split: option.splits)
  have "keeps ?I (prune_invoices t js del ret)" for t js del ret
  proof (induction js arbitrary: del ret)
    case (Cons j js)
    show ?case unfolding prune_invoices.simps by (intro keeps_bindS keeps_askS keeps_case_option delete Cons.IH)
  qed (simp add: keeps_pureS)
  then have prune: "keeps ?I (pruneBillingInvoices B' oid v)" for oid v
    unfolding pruneBillingInvoices_def db_requireOrganization_def
    by (intro keeps_bindS keeps_readS keeps_liftS keeps_askS) (auto split: prod.splits)
  note all = keepsD [OF valid_invoices.keeps_issue [OF create] assms(2)] keepsD [OF valid_invoices.keeps_adjustment assms(2)]
    keepsD [OF valid_invoices.keeps_attempt assms(2)] keepsD [OF prune assms(2)]
  show ?thesis by (cases c) (simp_all only: billing_step.simps record_keeps_rest upsert_keeps_invoices all valid_invoices.any_db assms(2))
qed

lemma run_keeps_invoices_ok:
  assumes "\<forall>(B', c) \<in> set h. same_plane B B'" and "invoices_ok B (bil_invoices s)"
  shows "invoices_ok B (bil_invoices (billing_run h s))"
proof (rule billing_run_invariant [where I = "\<lambda>s. invoices_ok B (bil_invoices s)", OF _ assms(2)])
  fix B' c and s :: Billing
  assume "(B', c) \<in> set h" and "invoices_ok B (bil_invoices s)"
  then show "invoices_ok B (bil_invoices (billing_step B' c s))"
    using assms(1) by (intro step_keeps_invoices_ok) auto
qed

text \<open>
  C13. An invoice is issued once: after any history an invoice that is issued for an organization and a month is
  what every later call for that month returns, whatever usage, adjustments, deliveries and changes to the database come
  in between, unless the organization was pruned at a time at which the invoice had a retention policy
  without a legal hold whose date had passed. It is stored with the digest and the total of its own content.
\<close>

theorem invoice_is_issued_once:
  assumes "bil_invoices s = []" and "\<forall>(B', c) \<in> set (past @ h). same_plane B B'" and "same_plane B B1" and "same_plane B B2"
    and "issueOrganizationBillingInvoice B1 rid1 oid v1 (billing_run past s) = (s1, Inr i)"
    and "spared i h s1"
    and "issueOrganizationBillingInvoice B2 rid2 oid v2 (billing_run h s1) = (s2, Inr j)"
    and "report_period B2 v2 ''billing invoice at'' None = Inr p" and "uper_key p = inv_periodKey i"
  shows "j = i \<and> i \<in> set (bil_invoices s2) \<and> inv_contentDigest i = invoiceContentDigest B i
    \<and> inv_totalUsd i = obs_totalUsd (inv_statement i)"
proof -
  obtain p1 where p1: "report_period B1 v1 ''billing invoice at'' None = Inr p1" using issue_has_period [OF assms(5)] ..
  have i: "issued_for s1 oid (uper_key p1) i" by (rule issue_returns(1) [OF assms(5) p1])
  have "invoices_ok B (bil_invoices (billing_run past s))"
    using assms(1,2) by (intro run_keeps_invoices_ok) (auto simp: invoices_ok_def)
  then have ok1: "invoices_ok B (bil_invoices s1)"
    using step_keeps_invoices_ok [OF assms(3), of "billing_run past s" "IssueInvoice rid1 oid v1"] assms(5) by simp
  then have ok: "invoices_ok B (bil_invoices (billing_run h s1))" "i \<in> set (bil_invoices (billing_run h s1))"
    using spared_invoice_is_kept [OF _ assms(6) ok1] assms(2) i by (auto simp: issued_for_def)
  then have j: "j = i"
    using issue_returns(2) [OF assms(7,8), of i] found_by_period [OF ok] i assms(9) by (simp add: issued_for_def)
  then show ?thesis
    using issue_returns(1) [OF assms(7,8)] ok by (auto simp: issued_for_def invoices_ok_def)
qed

text \<open>The organization is pruned, without effect, and asked for the invoice of the month again.\<close>

definition ex_prune_history :: "(BillingEnv \<times> billing_command) list" where
  "ex_prune_history = [(ex_billing_env 6 ''2'', PruneInvoices ''o1'' JUndefined), (ex_billing_env 7 ''3'', Elsewhere (bil_db ex_billing))]"

definition ex_month :: UsageQuotaPeriod where
  "ex_month = \<lparr>uper_kind = ''calendar_month'', uper_key = ''0100-01'', uper_from = ''000000000000000'',
     uper_to = ''000002678400000''\<rparr>"

lemma ex_report_periods:
  "report_period (ex_billing_env 5 ''1'') JUndefined ''billing invoice at'' None = Inr ex_month"
  "report_period (ex_billing_env 8 ''4'') JUndefined ''billing invoice at'' None = Inr ex_month"
  by code_simp+

lemma ex_organization: "\<exists>o'. requireOrganization ''o1'' (bil_db ex_billing) = Inr o'"
  by (simp add: ex_billing_def requireOrganization_def require_def getOrganization_def)

definition ex_issue :: "BillingEnv \<Rightarrow> BillingInvoice billing" where
  "ex_issue B = issueOrganizationBillingInvoice B JUndefined ''o1'' JUndefined"

lemma ex_issued:
  "\<exists>s1 i. ex_issue (ex_billing_env 5 ''1'') ex_billing = (s1, Inr i) \<and> inv_periodKey i = uper_key ex_month \<and> bil_retention s1 = []"
proof -
  let ?B = "ex_billing_env 5 ''1''"
  define i where "i = createOrganizationBillingInvoice ?B ''inv_1'' ''o1'' ex_month (organization_statement ?B ''o1'' ex_month ex_billing)"
  have i: "inv_id i = ''inv_1''" "inv_organizationId i = ''o1''" "inv_periodKey i = uper_key ex_month"
    by (simp_all add: i_def new_invoice_ok)
  obtain o' where o': "requireOrganization ''o1'' (bil_db ex_billing) = Inr o'" using ex_organization ..
  have rid: "newId (ben_env ?B) JUndefined ''billing invoice id'' ''inv'' = Inr ''inv_1''" by code_simp
  have c: "repo_createBillingInvoice i ex_billing = (ex_billing\<lparr>bil_invoices := [i]\<rparr>, Inr i)"
    by (simp add: repo_createBillingInvoice_def insert_row_def ex_billing_def i has_key_def no_row_def)
  have a: "\<exists>d x. on_db (recordCustomerAuditEvent (ben_env ?B) (invoice_issued i)) (ex_billing\<lparr>bil_invoices := [i]\<rparr>)
      = (ex_billing\<lparr>bil_invoices := [i], bil_db := d\<rparr>, Inr x)"
    by (simp add: on_db_def recordCustomerAuditEvent_def invoice_issued_def truthy_string_def i Let_def ex_billing_def
        repo_createCustomerAuditEvent_def insert_row_def has_key_def missing_opt_def no_row_def empty_db_def ex_billing_env_def)
  have w: "enqueueBillingInvoiceWebhook ?B j s = (s, Inr None)" for j s
    by (simp add: enqueueBillingInvoiceWebhook_def ex_billing_env_def truthy_string_def)
  have n: "getOrganizationBillingInvoiceByPeriod ex_billing ''o1'' (uper_key ex_month) = None"
    by (simp add: getOrganizationBillingInvoiceByPeriod_def ex_billing_def)
  have r: "bil_retention ex_billing = []" by (simp add: ex_billing_def)
  show ?thesis using a o'
    by (auto simp: ex_issue_def issueOrganizationBillingInvoice_def db_requireOrganization_def bindS_def ex_report_periods rid n
        i_def [symmetric] c w on_conflict_def i r)
qed

theorem invoice_is_issued_once_witness:
  "\<exists>s1 s2 i. ex_issue (ex_billing_env 5 ''1'') ex_billing = (s1, Inr i)
     \<and> ex_issue (ex_billing_env 8 ''4'') (billing_run ex_prune_history s1) = (s2, Inr i) \<and> i \<in> set (bil_invoices s2)"
proof -
  let ?B = "ex_billing_env 5 ''1''" and ?C = "ex_billing_env 8 ''4''"
  obtain s1 i where 1: "ex_issue ?B ex_billing = (s1, Inr i)" "inv_periodKey i = uper_key ex_month" "bil_retention s1 = []"
    using ex_issued by blast
  have empty: "bil_invoices ex_billing = []" by (simp add: ex_billing_def)
  have same: "same_plane ?B (ex_billing_env t n)" for t n by (rule ex_same_plane)
  have spared: "spared i ex_prune_history s1"
    by (simp add: ex_prune_history_def lapsed_def repo_getBillingInvoiceRetentionPolicy_def 1(3))
  have planes: "\<forall>(B', c) \<in> set ([] @ ex_prune_history). same_plane ?B B'" by (simp add: ex_prune_history_def same)
  let ?s = "billing_run ex_prune_history s1"
  have ok1: "invoices_ok ?B (bil_invoices s1)"
    using step_keeps_invoices_ok [OF same [of 5 "''1''"], of ex_billing "IssueInvoice JUndefined ''o1'' JUndefined"] 1(1)
    by (simp add: ex_issue_def empty invoices_ok_def)
  have i: "issued_for s1 ''o1'' (uper_key ex_month) i"
    using issue_returns(1) [OF _ ex_report_periods(1)] 1(1) by (simp add: ex_issue_def)
  then have "invoices_ok ?B (bil_invoices ?s) \<and> i \<in> set (bil_invoices ?s)"
    using spared_invoice_is_kept [OF _ spared ok1] planes by (simp add: issued_for_def)
  then have found: "getOrganizationBillingInvoiceByPeriod ?s ''o1'' (uper_key ex_month) = Some i"
    using found_by_period [of ?B ?s i] i by (simp add: issued_for_def)
  have db: "bil_db ?s = bil_db ex_billing" by (simp add: ex_prune_history_def)
  have w: "enqueueBillingInvoiceWebhook ?C j s = (s, Inr None)" for j s
    by (simp add: enqueueBillingInvoiceWebhook_def ex_billing_env_def truthy_string_def)
  obtain o' where "requireOrganization ''o1'' (bil_db ex_billing) = Inr o'" using ex_organization ..
  then have 2: "ex_issue ?C ?s = (?s, Inr i)"
    by (simp add: ex_issue_def issueOrganizationBillingInvoice_def db_requireOrganization_def bindS_def ex_report_periods db found w)
  have "i = i \<and> i \<in> set (bil_invoices ?s) \<and> inv_contentDigest i = invoiceContentDigest ?B i
      \<and> inv_totalUsd i = obs_totalUsd (inv_statement i)"
    by (rule invoice_is_issued_once [where past = "[]" and h = ex_prune_history, OF empty planes same same _ spared _ ex_report_periods(2)])
      (use 1 2 in \<open>simp_all add: ex_issue_def\<close>)
  then show ?thesis using 1(1) 2 by blast
qed

end
