(* ===== verification/BillingCases.thy ===== *)
theory BillingCases
  imports BillingLaws
begin

text \<open>
  Single calls of the billing operations: an exported invoice is verified with the key of its signer, and the
  behaviours that surprise, each as the code has it.
\<close>

lemma constantTimeHexEqual_refl: "x \<noteq> [] \<Longrightarrow> list_all is_hex x \<Longrightarrow> constantTimeHexEqual x x"
  by (simp add: constantTimeHexEqual_def)

lemma exported_invoice_verifies:
  assumes "exportBillingInvoice B rid s = (s', Inr b)" and "ben_exportSigner B = Some k"
    and "map_of keys (rik_keyId k) = Some (rik_secret k)" and "rik_secret k \<noteq> []"
    and "\<And>key v. ha_hmac (ben_hmac B) key v \<noteq> [] \<and> list_all is_hex (ha_hmac (ben_hmac B) key v)"
  shows "verifyBillingInvoiceExportBundle B b keys = Inr () \<and> s' = s \<and> repo_getBillingInvoice s rid = Some (ieb_invoice b)"
proof -
  obtain i where i: "repo_getBillingInvoice s rid = Some i" "s' = s" "b = createBillingInvoiceExportBundle B i (bnow B) k"
    using assms(1,2)
    by (auto simp: exportBillingInvoice_def bindS_Inr getBillingInvoice_def require_def throwC_def split: option.splits)
  then show ?thesis using assms(3,4,5)
    by (simp add: verifyBillingInvoiceExportBundle_def createBillingInvoiceExportBundle_def Let_def guardC_def
        constantTimeHexEqual_refl)
qed

text \<open>A changed invoice or time is refused, as long as SHA-256 tells the two contents apart.\<close>

lemma changed_export_is_refused:
  assumes "ha_sha256 (ben_hmac B) (ben_exportJson B i' t') \<noteq> ha_sha256 (ben_hmac B) (ben_exportJson B i t)"
  shows "fails_with Validation (verifyBillingInvoiceExportBundle B
    ((createBillingInvoiceExportBundle B i t k)\<lparr>ieb_invoice := i', ieb_generatedAt := t'\<rparr>) keys)"
  using assms
  by (simp add: verifyBillingInvoiceExportBundle_def createBillingInvoiceExportBundle_def exportContentDigest_def Let_def
      guardC_def throwC_def fails_with_def)

text \<open>Usage that is recorded after the invoice of its month was issued is on no invoice.\<close>

lemma late_usage_is_not_billed:
  assumes "getOrganizationBillingInvoiceByPeriod s oid (uper_key p) = Some i"
    and "report_period B v ''billing invoice at'' None = Inr p"
    and "issueOrganizationBillingInvoice B rid_v oid v (s\<lparr>bil_events := es\<rparr>) = (s', Inr j)"
  shows "inv_totalUsd j = inv_totalUsd i"
  using issue_returns(2) [OF assms(3,2), of i] assms(1) by (simp add: getOrganizationBillingInvoiceByPeriod_def)

text \<open>Once an invoice is pruned its month is free for another one.\<close>

lemma pruned_month_is_free:
  assumes "invoices_ok B (bil_invoices s)" and "i \<in> set (bil_invoices s)"
  shows "getOrganizationBillingInvoiceByPeriod (fst (deleteBillingInvoice (inv_id i) s)) (inv_organizationId i) (inv_periodKey i) = None"
proof -
  have "repo_getBillingInvoice s (inv_id i) = Some i"
    using assms row_by_distinct [of inv_id "bil_invoices s" i] by (simp add: repo_getBillingInvoice_def invoices_ok_def)
  moreover have "j = i" if "j \<in> set (bil_invoices s)" "inv_organizationId j = inv_organizationId i" "inv_periodKey j = inv_periodKey i" for j
    using assms that by (auto simp: invoices_ok_def distinct_map inj_on_def)
  ultimately show ?thesis
    by (auto simp: deleteBillingInvoice_def getOrganizationBillingInvoiceByPeriod_def row_by_None set_delete_by)
qed

text \<open>A date after the year 9999 begins with a sign, and is before every date of today when strings are compared.\<close>

lemma far_retention_has_lapsed:
  "decideBillingInvoiceRetention i (Some \<lparr>ret_invoiceId = inv_id i, ret_organizationId = inv_organizationId i,
     ret_retainUntil = ''+010000-01-01T00:00:00.000Z'', ret_legalHold = False, ret_legalHoldReason = None,
     ret_updatedAt = t\<rparr>) ''2026-01-01T00:00:00.000Z'' = None"
proof -
  have "text_le ''+010000-01-01T00:00:00.000Z'' ''2026-01-01T00:00:00.000Z''" by code_simp
  then show ?thesis by (simp add: decision_lapsed lapsed_def)
qed

text \<open>A call that is repeated without \<open>recordedAt\<close> is refused: the two events have different times.\<close>

lemma undated_replay_conflicts:
  assumes "a \<noteq> b"
  shows "fails_with Conflict (resolveUsageEventReplay (e\<lparr>ue_recordedAt := a\<rparr>) (e\<lparr>ue_recordedAt := b\<rparr>))"
  using assms by (simp add: resolveUsageEventReplay_def sameUsageEvent_def throwC_def fails_with_def)

text \<open>An amount above zero may be rounded to zero.\<close>

lemma adjustment_of_nothing:
  "normalizeBillingInvoiceAdjustmentInput (JStr ''credit_note'') (Fin (1 / 1000)) ''late'' = Inr (CreditNote, 0, ''late'')"
proof -
  have "\<lfloor>(1 / 1000) * 100 + 1 / 2 :: rat\<rfloor> = 0" by (rule floor_unique) simp_all
  then have r: "roundUsd (1 / 1000) = 0" by (simp add: roundUsd_def)
  have t: "trim ''late'' = ''late''" by code_simp
  show ?thesis by (simp add: normalizeBillingInvoiceAdjustmentInput_def guardC_def r t)
qed

text \<open>Two deliveries of one webhook at a time: the one that fails last takes the success of the other back.\<close>

lemma stale_attempt_undoes_delivery:
  assumes "bil_deliveries s = [d\<lparr>bwd_status := WebhookDelivered\<rparr>]" and "bwd_status d = WebhookPending" and "bwd_attempts d = 0"
    and "ben_webhookMaxAttempts B = None" and "ben_webhookRetryDelayMs B = None" and "dateParse (bdates B) t = Some n"
  shows "map bwd_status (bil_deliveries (fst (deliver_webhook B (Threw e) t d s))) = [WebhookPending]"
  using assms
  by (simp add: deliver_webhook_def attemptBillingWebhookDelivery_def webhook_maxAttempts_def webhook_retryDelayMs_def
      failedOrPendingDelivery_def addMilliseconds_def Let_def repo_updateBillingWebhookDelivery_def no_row_def has_key_def
      update_by_def bindS_def)

text \<open>
  The period of an instant in the years 0 to 99 is a month of the years 1900 to 1999, where the instant does not
  lie: usage recorded for these years counts in no period, so no quota, budget or invoice sees it.
\<close>

lemma first_century_is_not_metered:
  assumes "usageQuotaPeriodFor D v k = Inr p" and "dateParse D v = Some t" and "0 \<le> utc_year t" and "utc_year t \<le> 99"
  shows "uper_from p = dateToISO D (utc_month_start (1900 + utc_year t) (utc_month t)) \<and> t < utc_month_start (1900 + utc_year t) (utc_month t)"
proof
  show "uper_from p = dateToISO D (utc_month_start (1900 + utc_year t) (utc_month t))"
    using assms by (auto simp: usageQuotaPeriodFor_def Let_def throwC_def date_UTC_def split: if_splits)
  have i: "utc_month t < 12" "t < utc_month_start (utc_year t) (utc_month t + 1)" by (rule instant_in_its_month)+
  note i(2)
  also have "utc_month_start (utc_year t) (utc_month t + 1) \<le> utc_month_start (1900 + utc_year t) (utc_month t)"
    by (rule months_in_order) (use i(1) in simp_all)
  finally show "t < utc_month_start (1900 + utc_year t) (utc_month t)" .
qed

end
