(* ===== verification/EdgeWorkers.thy ===== *)
theory EdgeWorkers
  imports Delivery
begin

text \<open>
  Edge worker releases: \<open>control-plane/edge-worker-deployer.ts\<close>, the two tables of \<open>repository.ts\<close>, and the
  operations of \<open>service.ts\<close>. An operation that awaits the provider is two steps, up to the call and from
  its answer on, so that others can come in between.

  \<open>JSON.stringify\<close>, \<open>JSON.parse\<close> and \<open>encodeURIComponent\<close> are parameters, with the answer of \<open>fetch\<close>.
\<close>

subsection \<open>The deployers\<close>

text \<open>An exception of a deployer: one of the control plane, or any other with its message.\<close>

datatype deployer_error = Refused ControlPlaneError | Broke string

fun deployer_message :: "deployer_error \<Rightarrow> string" where
  "deployer_message (Refused e) = errMessage e"
| "deployer_message (Broke m) = m"

type_synonym 'a deployed = "deployer_error + 'a"

record ArtifactRef =
  ref_id :: string
  ref_digest :: string
  ref_location :: string

record DeployInput =
  edi_releaseId :: string
  edi_scriptName :: string
  edi_projectId :: string
  edi_deploymentId :: string
  edi_artifact :: ArtifactRef
  edi_createdAt :: string
  edi_scriptModule :: string

record DeployResult =
  edr_provider :: string
  edr_mode :: string
  edr_scriptName :: string
  edr_scriptDigest :: string
  edr_scriptModule :: string
  edr_versionId :: "string option"
  edr_externalDeploymentId :: "string option"
  edr_url :: "string option"

record DeleteInput =
  exi_releaseId :: string
  exi_scriptName :: string
  exi_force :: "bool option"

record DeleteResult =
  exr_provider :: string
  exr_mode :: string
  exr_scriptName :: string
  exr_deleted :: bool

definition newline :: string where "newline = [char_of (10 :: nat)]"

definition release_manifest :: "string \<Rightarrow> string \<Rightarrow> string \<Rightarrow> string \<Rightarrow> ArtifactRef \<Rightarrow> string \<Rightarrow> json" where
  "release_manifest releaseId scriptName pid did a createdAt = JObj
     [(''schemaVersion'', JInt 1), (''releaseId'', JStr releaseId), (''provider'', JStr ''cloudflare-workers''),
      (''projectId'', JStr pid), (''deploymentId'', JStr did), (''scriptName'', JStr scriptName),
      (''artifact'', JObj [(''id'', JStr (ref_id a)), (''digest'', JStr (ref_digest a)), (''location'', JStr (ref_location a))]),
      (''createdAt'', JStr createdAt),
      (''note'', JStr ''odenctl control-plane POC; WASIp3 execution is delegated to a Wasmtime runtime'')]"

definition renderCloudflareWasmWorkerModule :: "(json \<Rightarrow> string) \<Rightarrow> string \<Rightarrow> string \<Rightarrow> string \<Rightarrow> string \<Rightarrow> ArtifactRef
    \<Rightarrow> string \<Rightarrow> string" where
  "renderCloudflareWasmWorkerModule pretty releaseId scriptName pid did a createdAt = join_with newline
     [''const manifest = Object.freeze('' @ pretty (release_manifest releaseId scriptName pid did a createdAt) @ '');'',
      '''',
      ''export default {'',
      ''  async fetch(request) {'',
      ''    const url = new URL(request.url);'',
      ''    if (url.pathname === \"/__odenctl/manifest\") {'',
      ''      return Response.json(manifest);'',
      ''    }'',
      ''    return Response.json({'',
      ''      error: {'',
      ''        code: \"odenctl_control_plane_poc\",'',
      ''        message: \"This Cloudflare Worker is a generated release record; WASIp3 execution is not embedded here.\",'',
      ''      },'',
      ''      manifest,'',
      ''    }, { status: 501 });'',
      ''  },'',
      ''};'',
      '''']"

definition workersDevUrl :: "string \<Rightarrow> string option \<Rightarrow> string" where
  "workersDevUrl scriptName subdomain = (let suffix = (case truthy_string (map_option trim subdomain) of
       Some d \<Rightarrow> d @ ''.workers.dev'' | None \<Rightarrow> ''workers.dev'') in
     ''https://'' @ scriptName @ ''.'' @ suffix)"

definition deployer_sha256 :: "Env \<Rightarrow> string \<Rightarrow> string" where
  "deployer_sha256 E v = ''sha256:'' @ env_sha256 E v"

definition mock_deploy :: "Env \<Rightarrow> string option \<Rightarrow> DeployInput \<Rightarrow> DeployResult deployed" where
  "mock_deploy E subdomain i = Inr \<lparr>edr_provider = ''cloudflare-workers'', edr_mode = ''mock'',
     edr_scriptName = edi_scriptName i, edr_scriptDigest = deployer_sha256 E (edi_scriptModule i),
     edr_scriptModule = edi_scriptModule i, edr_versionId = Some (''mock-ver-'' @ edi_releaseId i),
     edr_externalDeploymentId = Some (''mock-dep-'' @ edi_releaseId i),
     edr_url = Some (workersDevUrl (edi_scriptName i) subdomain)\<rparr>"

definition mock_delete :: "DeleteInput \<Rightarrow> DeleteResult option deployed" where
  "mock_delete i = Inr (Some \<lparr>exr_provider = ''cloudflare-workers'', exr_mode = ''mock'',
     exr_scriptName = exi_scriptName i, exr_deleted = True\<rparr>)"

text \<open>The API of Cloudflare: what is sent, and how an answer is read.\<close>

record CloudflareDeployer =
  cfd_accountId :: string
  cfd_apiToken :: string
  cfd_workersDevSubdomain :: "string option"
  cfd_compatibilityDate :: string

definition requiredToken :: "string \<Rightarrow> string \<Rightarrow> string cp" where
  "requiredToken v fld = (if trim v = [] then throwC Validation (fld @ '' is required'') else Inr (trim v))"

definition createCloudflareWorkersApiDeployer :: "string \<Rightarrow> string \<Rightarrow> string option \<Rightarrow> string option \<Rightarrow> CloudflareDeployer cp" where
  "createCloudflareWorkersApiDeployer account token subdomain date =
     bindE (requiredToken account ''Cloudflare account id'') (\<lambda>a.
     bindE (requiredToken token ''Cloudflare API token'') (\<lambda>t.
     Inr \<lparr>cfd_accountId = a, cfd_apiToken = t, cfd_workersDevSubdomain = subdomain,
       cfd_compatibilityDate = (case date of None \<Rightarrow> ''2026-07-03'' | Some d \<Rightarrow> d)\<rparr>))"

definition plain_text_binding :: "string \<Rightarrow> string \<Rightarrow> json" where
  "plain_text_binding n v = JObj [(''type'', JStr ''plain_text''), (''name'', JStr n), (''text'', JStr v)]"

definition cloudflareScriptUploadMetadata :: "DeployInput \<Rightarrow> string \<Rightarrow> json" where
  "cloudflareScriptUploadMetadata i date = JObj
     [(''main_module'', JStr (edi_scriptName i @ ''.mjs'')), (''compatibility_date'', JStr date),
      (''bindings'', JArr [plain_text_binding ''ODEN_RELEASE_ID'' (edi_releaseId i),
        plain_text_binding ''ODEN_PROJECT_ID'' (edi_projectId i),
        plain_text_binding ''ODEN_DEPLOYMENT_ID'' (edi_deploymentId i),
        plain_text_binding ''ODEN_ARTIFACT_DIGEST'' (ref_digest (edi_artifact i))])]"

record CloudflareRequest =
  cfr_url :: string
  cfr_verb :: string
  cfr_authorization :: string
  cfr_form :: "(string \<times> string \<times> string) list"

definition script_url :: "(string \<Rightarrow> string) \<Rightarrow> CloudflareDeployer \<Rightarrow> string \<Rightarrow> string" where
  "script_url encode d name = ''https://api.cloudflare.com/client/v4/accounts/'' @ encode (cfd_accountId d)
     @ ''/workers/scripts/'' @ encode name"

definition cloudflare_put :: "(string \<Rightarrow> string) \<Rightarrow> (json \<Rightarrow> string) \<Rightarrow> CloudflareDeployer \<Rightarrow> DeployInput \<Rightarrow> CloudflareRequest" where
  "cloudflare_put encode stringify d i = \<lparr>cfr_url = script_url encode d (edi_scriptName i), cfr_verb = ''PUT'',
     cfr_authorization = ''Bearer '' @ cfd_apiToken d,
     cfr_form = [(''metadata'', ''application/json'', stringify (cloudflareScriptUploadMetadata i (cfd_compatibilityDate d))),
       (edi_scriptName i @ ''.mjs'', ''application/javascript+module'', edi_scriptModule i)]\<rparr>"

definition cloudflare_remove :: "(string \<Rightarrow> string) \<Rightarrow> CloudflareDeployer \<Rightarrow> DeleteInput \<Rightarrow> CloudflareRequest" where
  "cloudflare_remove encode d i = \<lparr>cfr_url = script_url encode d (exi_scriptName i)
       @ (if exi_force i = Some True then ''?force=true'' else []), cfr_verb = ''DELETE'',
     cfr_authorization = ''Bearer '' @ cfd_apiToken d, cfr_form = []\<rparr>"

text \<open>A property of any value: of what is no object there is none here.\<close>

definition field :: "json \<Rightarrow> string \<Rightarrow> json" where
  "field v k = (case v of JObj r \<Rightarrow> getp r k | _ \<Rightarrow> JUndefined)"

definition stringResult :: "json \<Rightarrow> string option" where
  "stringResult v = (case v of JStr s \<Rightarrow> truthy_string (Some s) | _ \<Rightarrow> None)"

definition cloudflareErrorMessage :: "(json \<Rightarrow> string) \<Rightarrow> json \<Rightarrow> string option" where
  "cloudflareErrorMessage stringify payload = (case field payload ''errors'' of
       JArr [] \<Rightarrow> None
     | JArr es \<Rightarrow> Some (join_with ''; '' (map (\<lambda>e. case stringResult (field e ''message'') of Some m \<Rightarrow> m | None \<Rightarrow> stringify e) es))
     | _ \<Rightarrow> None)"

record CloudflareAnswer =
  cfa_ok :: bool
  cfa_status :: int
  cfa_statusText :: string
  cfa_text :: string

definition readCloudflarePayload :: "(string \<Rightarrow> json option) \<Rightarrow> (json \<Rightarrow> string) \<Rightarrow> CloudflareAnswer \<Rightarrow> json cp" where
  "readCloudflarePayload parse stringify a =
     bindE (if cfa_text a = [] then Inr (JObj []) else (case parse (cfa_text a) of
         None \<Rightarrow> throwC Validation (''Cloudflare Workers upload returned non-JSON response '' @ show_int (cfa_status a)
           @ '': '' @ cfa_text a)
       | Some v \<Rightarrow> Inr v)) (\<lambda>payload.
     if \<not> cfa_ok a \<or> field payload ''success'' = JBool False
     then throwC Validation (''Cloudflare Workers upload failed with '' @ show_int (cfa_status a) @ '': ''
       @ (case cloudflareErrorMessage stringify payload of Some m \<Rightarrow> m | None \<Rightarrow> cfa_statusText a))
     else Inr payload)"

text \<open>\<open>payload.result\<close> of \<open>null\<close> is a type error.\<close>

definition cloudflare_deploy :: "Env \<Rightarrow> (string \<Rightarrow> json option) \<Rightarrow> (json \<Rightarrow> string) \<Rightarrow> CloudflareDeployer \<Rightarrow> DeployInput
    \<Rightarrow> string + CloudflareAnswer \<Rightarrow> DeployResult deployed" where
  "cloudflare_deploy E parse stringify d i answer = (case answer of
       Inl m \<Rightarrow> Inl (Broke m)
     | Inr a \<Rightarrow> (case readCloudflarePayload parse stringify a of
           Inl e \<Rightarrow> Inl (Refused e)
         | Inr JNull \<Rightarrow> Inl (Broke ''Cannot read properties of null (reading 'result')'')
         | Inr payload \<Rightarrow>
             (let r = (case field payload ''result'' of JNull \<Rightarrow> JObj [] | JUndefined \<Rightarrow> JObj [] | v \<Rightarrow> v);
                  first = (\<lambda>a b. case a of None \<Rightarrow> b | Some x \<Rightarrow> Some x) in Inr
              \<lparr>edr_provider = ''cloudflare-workers'', edr_mode = ''api'', edr_scriptName = edi_scriptName i,
               edr_scriptDigest = deployer_sha256 E (edi_scriptModule i), edr_scriptModule = edi_scriptModule i,
               edr_versionId = first (stringResult (field r ''version_id''))
                 (first (stringResult (field (field r ''version'') ''id'')) (stringResult (field r ''id''))),
               edr_externalDeploymentId = first (stringResult (field r ''deployment_id''))
                 (stringResult (field (field r ''deployment'') ''id'')),
               edr_url = Some (workersDevUrl (edi_scriptName i) (cfd_workersDevSubdomain d))\<rparr>)))"

definition cloudflare_delete :: "(string \<Rightarrow> json option) \<Rightarrow> (json \<Rightarrow> string) \<Rightarrow> DeleteInput \<Rightarrow> string + CloudflareAnswer
    \<Rightarrow> DeleteResult option deployed" where
  "cloudflare_delete parse stringify i answer = (case answer of
       Inl m \<Rightarrow> Inl (Broke m)
     | Inr a \<Rightarrow> (case readCloudflarePayload parse stringify a of
           Inl e \<Rightarrow> Inl (Refused e)
         | Inr _ \<Rightarrow> Inr (Some \<lparr>exr_provider = ''cloudflare-workers'', exr_mode = ''api'',
             exr_scriptName = exi_scriptName i, exr_deleted = True\<rparr>)))"

subsection \<open>The tables\<close>

datatype EdgeStatus = EdgeCreating | EdgeActive | EdgeDeleting | EdgeDeleted | EdgeFailed

record EdgeRelease =
  ewr_id :: string
  ewr_projectId :: string
  ewr_deploymentId :: string
  ewr_provider :: string
  ewr_mode :: string
  ewr_status :: EdgeStatus
  ewr_scriptName :: string
  ewr_scriptDigest :: string
  ewr_scriptModule :: string
  ewr_artifact :: ArtifactRef
  ewr_createdAt :: string
  ewr_updatedAt :: string
  ewr_versionId :: "string option"
  ewr_externalDeploymentId :: "string option"
  ewr_url :: "string option"
  ewr_deletedAt :: "string option"
  ewr_lastError :: "string option"

datatype EdgeOpStatus = OpPending | OpSucceeded | OpFailed

text \<open>The one action is \<open>delete\<close>.\<close>

record EdgeOperation =
  ewo_id :: string
  ewo_releaseId :: string
  ewo_status :: EdgeOpStatus
  ewo_attempts :: int
  ewo_nextAttemptAt :: string
  ewo_deleteProvider :: bool
  ewo_forceProviderDelete :: bool
  ewo_createdAt :: string
  ewo_updatedAt :: string
  ewo_lastError :: "string option"

record EdgeWorkers =
  edge_db :: Db
  edge_releases :: "EdgeRelease list"
  edge_operations :: "EdgeOperation list"

type_synonym 'a edge = "(EdgeWorkers, 'a) op"

text \<open>A row read back has no empty optional text, and a missing time of update is that of creation.\<close>

definition edgeWorkerReleaseFromRow :: "EdgeRelease \<Rightarrow> EdgeRelease" where
  "edgeWorkerReleaseFromRow r = r\<lparr>ewr_updatedAt := (if ewr_updatedAt r = [] then ewr_createdAt r else ewr_updatedAt r),
     ewr_versionId := truthy_string (ewr_versionId r), ewr_externalDeploymentId := truthy_string (ewr_externalDeploymentId r),
     ewr_url := truthy_string (ewr_url r), ewr_deletedAt := truthy_string (ewr_deletedAt r),
     ewr_lastError := truthy_string (ewr_lastError r)\<rparr>"

definition edgeWorkerReleaseOperationFromRow :: "EdgeOperation \<Rightarrow> EdgeOperation" where
  "edgeWorkerReleaseOperationFromRow p = p\<lparr>ewo_lastError := truthy_string (ewo_lastError p)\<rparr>"

definition repo_createEdgeWorkerRelease :: "EdgeRelease \<Rightarrow> EdgeRelease edge" where
  "repo_createEdgeWorkerRelease r s = insert_row ''edge worker release'' (ewr_id r)
     (has_key ewr_id (ewr_id r) (edge_releases s))
     (no_row prj_id (ewr_projectId r) (db_projects (edge_db s))
       \<or> no_row dep_id (ewr_deploymentId r) (db_deployments (edge_db s)))
     (\<lambda>s. s\<lparr>edge_releases := edge_releases s @ [r]\<rparr>) r s"

definition repo_getEdgeWorkerRelease :: "EdgeWorkers \<Rightarrow> string \<Rightarrow> EdgeRelease option" where
  "repo_getEdgeWorkerRelease s rid = map_option edgeWorkerReleaseFromRow (row_by ewr_id rid (edge_releases s))"

definition release_order :: "EdgeRelease \<Rightarrow> EdgeRelease \<Rightarrow> bool" where
  "release_order a b \<longleftrightarrow> (if ewr_createdAt a = ewr_createdAt b then text_le (ewr_id b) (ewr_id a)
     else text_le (ewr_createdAt b) (ewr_createdAt a))"

definition repo_listProjectEdgeWorkerReleases :: "string \<Rightarrow> EdgeWorkers \<Rightarrow> EdgeRelease list" where
  "repo_listProjectEdgeWorkerReleases pid s = map edgeWorkerReleaseFromRow
     (js_sort release_order (filter (\<lambda>r. ewr_projectId r = pid) (edge_releases s)))"

definition overwrite_release :: "EdgeRelease \<Rightarrow> EdgeRelease \<Rightarrow> EdgeRelease" where
  "overwrite_release r row = row\<lparr>ewr_status := ewr_status r, ewr_scriptDigest := ewr_scriptDigest r,
     ewr_scriptModule := ewr_scriptModule r, ewr_versionId := ewr_versionId r,
     ewr_externalDeploymentId := ewr_externalDeploymentId r, ewr_url := ewr_url r, ewr_updatedAt := ewr_updatedAt r,
     ewr_deletedAt := ewr_deletedAt r, ewr_lastError := ewr_lastError r\<rparr>"

definition updateEdgeWorkerRelease :: "EdgeRelease \<Rightarrow> EdgeRelease edge" where
  "updateEdgeWorkerRelease r s = (case row_by ewr_id (ewr_id r) (edge_releases s) of
       None \<Rightarrow> (s, throwC NotFound (''edge worker release '' @ ewr_id r @ '' was not found''))
     | Some row \<Rightarrow> (s\<lparr>edge_releases := update_by ewr_id (ewr_id r) (overwrite_release r) (edge_releases s)\<rparr>,
         Inr (edgeWorkerReleaseFromRow (overwrite_release r row))))"

definition createEdgeWorkerReleaseOperation :: "EdgeOperation \<Rightarrow> EdgeOperation edge" where
  "createEdgeWorkerReleaseOperation p s = insert_row ''edge worker release operation'' (ewo_id p)
     (has_key ewo_id (ewo_id p) (edge_operations s)) (no_row ewr_id (ewo_releaseId p) (edge_releases s))
     (\<lambda>s. s\<lparr>edge_operations := edge_operations s @ [p]\<rparr>) p s"

definition operation_order :: "EdgeOperation \<Rightarrow> EdgeOperation \<Rightarrow> bool" where
  "operation_order a b \<longleftrightarrow> (if ewo_createdAt a = ewo_createdAt b then text_le (ewo_id a) (ewo_id b)
     else text_le (ewo_createdAt a) (ewo_createdAt b))"

definition listEdgeWorkerReleaseOperations :: "string option \<Rightarrow> EdgeWorkers \<Rightarrow> EdgeOperation list" where
  "listEdgeWorkerReleaseOperations rid s = map edgeWorkerReleaseOperationFromRow (js_sort operation_order
     (case truthy_string rid of None \<Rightarrow> edge_operations s | Some r \<Rightarrow> filter (\<lambda>p. ewo_releaseId p = r) (edge_operations s)))"

definition pending_order :: "EdgeOperation \<Rightarrow> EdgeOperation \<Rightarrow> bool" where
  "pending_order a b \<longleftrightarrow> (if ewo_nextAttemptAt a = ewo_nextAttemptAt b then text_le (ewo_id a) (ewo_id b)
     else text_le (ewo_nextAttemptAt a) (ewo_nextAttemptAt b))"

definition listPendingEdgeWorkerReleaseOperations :: "string \<Rightarrow> EdgeWorkers \<Rightarrow> EdgeOperation list" where
  "listPendingEdgeWorkerReleaseOperations now s = map edgeWorkerReleaseOperationFromRow (js_sort pending_order
     (filter (\<lambda>p. ewo_status p = OpPending \<and> text_le (ewo_nextAttemptAt p) now) (edge_operations s)))"

definition overwrite_operation :: "EdgeOperation \<Rightarrow> EdgeOperation \<Rightarrow> EdgeOperation" where
  "overwrite_operation p row = row\<lparr>ewo_status := ewo_status p, ewo_attempts := ewo_attempts p,
     ewo_nextAttemptAt := ewo_nextAttemptAt p, ewo_deleteProvider := ewo_deleteProvider p,
     ewo_forceProviderDelete := ewo_forceProviderDelete p, ewo_updatedAt := ewo_updatedAt p, ewo_lastError := ewo_lastError p\<rparr>"

definition updateEdgeWorkerReleaseOperation :: "EdgeOperation \<Rightarrow> EdgeOperation edge" where
  "updateEdgeWorkerReleaseOperation p s = (case row_by ewo_id (ewo_id p) (edge_operations s) of
       None \<Rightarrow> (s, throwC NotFound (''edge worker release operation '' @ ewo_id p @ '' was not found''))
     | Some row \<Rightarrow> (s\<lparr>edge_operations := update_by ewo_id (ewo_id p) (overwrite_operation p) (edge_operations s)\<rparr>,
         Inr (edgeWorkerReleaseOperationFromRow (overwrite_operation p row))))"

subsection \<open>Creating a release\<close>

definition rstrip_hyphens :: "string \<Rightarrow> string" where
  "rstrip_hyphens s = rev (dropWhile (\<lambda>c. c = CHR ''-'') (rev s))"

definition defaultEdgeWorkerScriptName :: "Env \<Rightarrow> string \<Rightarrow> string \<Rightarrow> string" where
  "defaultEdgeWorkerScriptName E pid did = (let label = ''odenctl-'' @ dnsLabel pid @ ''-'' @ dnsLabel did in
     if length label \<le> 63 then label
     else rstrip_hyphens (take 54 label) @ ''-'' @ take 8 (env_sha256 E (pid @ '':'' @ did)))"

record CreateEdgeReleaseInput =
  cer_id :: json
  cer_projectId :: string
  cer_deploymentId :: string
  cer_provider :: json
  cer_mode :: json
  cer_scriptName :: json

text \<open>Up to the call of the deployer: what it is called with, and the provider and the mode that are expected.\<close>

definition beginEdgeWorkerRelease :: "Env \<Rightarrow> (json \<Rightarrow> string) \<Rightarrow> CreateEdgeReleaseInput \<Rightarrow> EdgeWorkers
    \<Rightarrow> (DeployInput \<times> string \<times> string option) cp" where
  "beginEdgeWorkerRelease E pretty i s =
     bindE (requireProject (cer_projectId i) (edge_db s)) (\<lambda>project.
     bindE (requireDeployment (cer_deploymentId i) (edge_db s)) (\<lambda>deployment.
     bindE (guardC (dep_projectId deployment \<noteq> prj_id project) Validation
       ''edge worker release deployment must belong to the same project'') (\<lambda>_.
     bindE (requireArtifact (dep_artifactId deployment) (edge_db s)) (\<lambda>artifact.
     bindE (normalizeEdgeWorkerProvider (cer_provider i)) (\<lambda>provider.
     bindE (normalizeEdgeWorkerReleaseMode (cer_mode i)) (\<lambda>mode.
     bindE (newId E (cer_id i) ''edge worker release id'' ''ewr'') (\<lambda>releaseId.
     bindE (normalizeEdgeWorkerScriptName (cer_scriptName i)) (\<lambda>name.
     let scriptName = (case name of Some n \<Rightarrow> n
           | None \<Rightarrow> defaultEdgeWorkerScriptName E (prj_id project) (dep_id deployment));
         ref = \<lparr>ref_id = art_id artifact, ref_digest = art_digest artifact, ref_location = art_location artifact\<rparr> in
     Inr (\<lparr>edi_releaseId = releaseId, edi_scriptName = scriptName, edi_projectId = prj_id project,
         edi_deploymentId = dep_id deployment, edi_artifact = ref, edi_createdAt = env_now E,
         edi_scriptModule = renderCloudflareWasmWorkerModule pretty releaseId scriptName (prj_id project) (dep_id deployment)
           ref (env_now E)\<rparr>, provider, mode)))))))))"

definition finishEdgeWorkerRelease :: "DeployInput \<Rightarrow> string \<Rightarrow> string option \<Rightarrow> DeployResult \<Rightarrow> EdgeRelease edge" where
  "finishEdgeWorkerRelease i provider mode r =
     bindS (guardS (edr_provider r \<noteq> provider) Validation
       (''edge worker deployer returned provider '' @ edr_provider r @ '', expected '' @ provider)) (\<lambda>_.
     bindS (guardS (case mode of None \<Rightarrow> False | Some m \<Rightarrow> edr_mode r \<noteq> m) Validation
       (''edge worker deployer returned mode '' @ edr_mode r @ '', expected '' @ (case mode of None \<Rightarrow> [] | Some m \<Rightarrow> m))) (\<lambda>_.
     repo_createEdgeWorkerRelease
       \<lparr>ewr_id = edi_releaseId i, ewr_projectId = edi_projectId i, ewr_deploymentId = edi_deploymentId i,
        ewr_provider = provider, ewr_mode = edr_mode r, ewr_status = EdgeActive, ewr_scriptName = edi_scriptName i,
        ewr_scriptDigest = edr_scriptDigest r, ewr_scriptModule = edr_scriptModule r, ewr_artifact = edi_artifact i,
        ewr_createdAt = edi_createdAt i, ewr_updatedAt = edi_createdAt i, ewr_versionId = truthy_string (edr_versionId r),
        ewr_externalDeploymentId = truthy_string (edr_externalDeploymentId r), ewr_url = truthy_string (edr_url r),
        ewr_deletedAt = None, ewr_lastError = None\<rparr>))"

definition requireEdgeWorkerRelease :: "string \<Rightarrow> EdgeWorkers \<Rightarrow> EdgeRelease cp" where
  "requireEdgeWorkerRelease rid s = require ''edge worker release'' rid (repo_getEdgeWorkerRelease s rid)"

definition listProjectEdgeWorkerReleases :: "string \<Rightarrow> EdgeRelease list edge" where
  "listProjectEdgeWorkerReleases pid = bindS (readS (\<lambda>s. requireProject pid (edge_db s))) (\<lambda>_.
     askS (repo_listProjectEdgeWorkerReleases pid))"

subsection \<open>Deleting a release\<close>

text \<open>What the provider's answer to a deletion must be.\<close>

definition deleteProviderEdgeWorkerRelease :: "EdgeRelease \<Rightarrow> DeleteResult option deployed \<Rightarrow> unit deployed" where
  "deleteProviderEdgeWorkerRelease r answer =
     bindE answer (\<lambda>x. case x of
       None \<Rightarrow> Inl (Refused (ControlPlaneError Validation ''edge worker deployer did not confirm deletion''))
     | Some d \<Rightarrow>
         if \<not> exr_deleted d then Inl (Refused (ControlPlaneError Validation ''edge worker deployer did not confirm deletion''))
         else if exr_provider d \<noteq> ewr_provider r then Inl (Refused (ControlPlaneError Validation
           (''edge worker deployer returned provider '' @ exr_provider d @ '', expected '' @ ewr_provider r)))
         else if exr_mode d \<noteq> ewr_mode r then Inl (Refused (ControlPlaneError Validation
           (''edge worker deployer returned mode '' @ exr_mode d @ '', expected '' @ ewr_mode r)))
         else if exr_scriptName d \<noteq> ewr_scriptName r then Inl (Refused (ControlPlaneError Validation
           (''edge worker deployer deleted script '' @ exr_scriptName d @ '', expected '' @ ewr_scriptName r)))
         else Inr ())"

definition delete_input :: "EdgeRelease \<Rightarrow> bool option \<Rightarrow> DeleteInput" where
  "delete_input r force = \<lparr>exi_releaseId = ewr_id r, exi_scriptName = ewr_scriptName r, exi_force = force\<rparr>"

definition mark_deleted :: "Env \<Rightarrow> EdgeRelease \<Rightarrow> EdgeRelease edge" where
  "mark_deleted E r = updateEdgeWorkerRelease (r\<lparr>ewr_status := EdgeDeleted, ewr_updatedAt := env_now E,
     ewr_deletedAt := Some (env_now E), ewr_lastError := None\<rparr>)"

text \<open>
  Up to the call of the provider: \<open>Inl\<close> of the release when there is none, \<open>Inr\<close> of the release as it was read
  and as it was written.
\<close>

definition beginDeleteEdgeWorkerRelease :: "Env \<Rightarrow> string \<Rightarrow> bool \<Rightarrow> (EdgeRelease + EdgeRelease \<times> EdgeRelease) edge" where
  "beginDeleteEdgeWorkerRelease E rid deleteProvider =
     bindS (readS (requireEdgeWorkerRelease rid)) (\<lambda>r.
     if ewr_status r = EdgeDeleted then pureS (Inl r)
     else if deleteProvider
     then bindS (updateEdgeWorkerRelease (r\<lparr>ewr_status := EdgeDeleting, ewr_updatedAt := env_now E, ewr_lastError := None\<rparr>))
       (\<lambda>d. pureS (Inr (r, d)))
     else bindS (mark_deleted E r) (\<lambda>r. pureS (Inl r)))"

definition finishDeleteEdgeWorkerRelease :: "Env \<Rightarrow> EdgeRelease \<Rightarrow> EdgeRelease \<Rightarrow> bool option
    \<Rightarrow> DeleteResult option deployed \<Rightarrow> EdgeRelease edge" where
  "finishDeleteEdgeWorkerRelease E r deleting force answer =
     (case deleteProviderEdgeWorkerRelease deleting answer of
        Inr _ \<Rightarrow> mark_deleted E r
      | Inl e \<Rightarrow>
          bindS (updateEdgeWorkerRelease (deleting\<lparr>ewr_status := EdgeFailed, ewr_updatedAt := env_now E,
            ewr_lastError := Some (deployer_message e)\<rparr>)) (\<lambda>failed.
          bindS (createEdgeWorkerReleaseOperation
            \<lparr>ewo_id = env_idGenerator E ''ewo'', ewo_releaseId = ewr_id r, ewo_status = OpPending, ewo_attempts = 0,
             ewo_nextAttemptAt = env_now E, ewo_deleteProvider = True, ewo_forceProviderDelete = (force = Some True),
             ewo_createdAt = env_now E, ewo_updatedAt = env_now E, ewo_lastError = Some (deployer_message e)\<rparr>) (\<lambda>_.
          pureS failed)))"

subsection \<open>Delivering operations\<close>

definition js_slice :: "int option \<Rightarrow> 'a list \<Rightarrow> 'a list" where
  "js_slice limit xs = (case limit of None \<Rightarrow> xs
     | Some n \<Rightarrow> take (nat (if n < 0 then int (length xs) + n else n)) xs)"

definition due_operations :: "Env \<Rightarrow> int option \<Rightarrow> EdgeWorkers \<Rightarrow> EdgeOperation list" where
  "due_operations E limit s = js_slice limit (listPendingEdgeWorkerReleaseOperations (env_now E) s)"

text \<open>The turn of one operation, up to the call, and from the answer on; \<open>None\<close> is no call.\<close>

definition beginOperation :: "EdgeOperation \<Rightarrow> EdgeWorkers \<Rightarrow> EdgeRelease cp" where
  "beginOperation p s = requireEdgeWorkerRelease (ewo_releaseId p) s"

definition catchE :: "(EdgeWorkers, 'e, 'a) stateful \<Rightarrow> ('e \<Rightarrow> (EdgeWorkers, 'f, 'a) stateful) \<Rightarrow> (EdgeWorkers, 'f, 'a) stateful" where
  "catchE m h s = (case m s of (s', Inl e) \<Rightarrow> h e s' | (s', Inr x) \<Rightarrow> (s', Inr x))"

definition refusing :: "'a edge \<Rightarrow> (EdgeWorkers, deployer_error, 'a) stateful" where
  "refusing m s = (case m s of (s', Inl e) \<Rightarrow> (s', Inl (Refused e)) | (s', Inr x) \<Rightarrow> (s', Inr x))"

definition finishOperation :: "DateApi \<Rightarrow> int \<Rightarrow> EdgeOperation \<Rightarrow> EdgeRelease \<Rightarrow> string \<Rightarrow> DeleteResult option deployed option
    \<Rightarrow> (EdgeWorkers, deployer_error, bool) stateful" where
  "finishOperation D retryDelayMs p r attemptedAt answer = catchE
     (bindS (liftS (case answer of None \<Rightarrow> Inr () | Some a \<Rightarrow> deleteProviderEdgeWorkerRelease r a)) (\<lambda>_.
      bindS (refusing (updateEdgeWorkerRelease (r\<lparr>ewr_status := EdgeDeleted, ewr_updatedAt := attemptedAt,
        ewr_deletedAt := Some attemptedAt, ewr_lastError := None\<rparr>))) (\<lambda>_.
      bindS (refusing (updateEdgeWorkerReleaseOperation (p\<lparr>ewo_status := OpSucceeded, ewo_attempts := ewo_attempts p + 1,
        ewo_updatedAt := attemptedAt, ewo_lastError := None\<rparr>))) (\<lambda>_. pureS True))))
     (\<lambda>e.
      bindS (refusing (updateEdgeWorkerRelease (r\<lparr>ewr_status := EdgeFailed, ewr_updatedAt := attemptedAt,
        ewr_lastError := Some (deployer_message e)\<rparr>))) (\<lambda>_.
      bindS (liftS (case dateParse D attemptedAt of
          None \<Rightarrow> Inl (Broke ''Invalid time value'')
        | Some t \<Rightarrow> Inr (dateToISO D (t + retryDelayMs)))) (\<lambda>next_at.
      bindS (refusing (updateEdgeWorkerReleaseOperation (p\<lparr>ewo_status := OpPending, ewo_attempts := ewo_attempts p + 1,
        ewo_nextAttemptAt := next_at, ewo_updatedAt := attemptedAt, ewo_lastError := Some (deployer_message e)\<rparr>))) (\<lambda>_.
      pureS False))))"

definition operation_calls :: "EdgeOperation \<Rightarrow> EdgeRelease \<Rightarrow> DeleteInput option" where
  "operation_calls p r = (if ewo_deleteProvider p then Some (delete_input r (Some (ewo_forceProviderDelete p))) else None)"

text \<open>
  \<open>deliverPendingEdgeWorkerReleaseOperations\<close> without anything in between: \<open>answer n\<close> is when turn \<open>n\<close> began and what the
  provider answered. The report counts attempts, successes and failures.
\<close>

fun deliver_operations :: "DateApi \<Rightarrow> int \<Rightarrow> (nat \<Rightarrow> DeleteInput \<Rightarrow> DeleteResult option deployed) \<Rightarrow> (nat \<Rightarrow> string) \<Rightarrow> nat
    \<Rightarrow> EdgeOperation list \<Rightarrow> nat \<times> nat \<times> nat \<Rightarrow> (EdgeWorkers, deployer_error, nat \<times> nat \<times> nat) stateful" where
  "deliver_operations D delay ask clock n [] report = pureS report"
| "deliver_operations D delay ask clock n (p # ps) report =
     bindS (readS (\<lambda>s. case beginOperation p s of Inl e \<Rightarrow> Inl (Refused e) | Inr r \<Rightarrow> Inr r)) (\<lambda>r.
     bindS (finishOperation D delay p r (clock n) (map_option (ask n) (operation_calls p r))) (\<lambda>ok.
     deliver_operations D delay ask clock (n + 1) ps (case report of (a, b, c) \<Rightarrow>
       (a + 1, if ok then b + 1 else b, if ok then c else c + 1))))"

definition deliverPendingEdgeWorkerReleaseOperations :: "Env \<Rightarrow> int option \<Rightarrow> int option
    \<Rightarrow> (nat \<Rightarrow> DeleteInput \<Rightarrow> DeleteResult option deployed) \<Rightarrow> (nat \<Rightarrow> string) \<Rightarrow> (EdgeWorkers, deployer_error, nat \<times> nat \<times> nat) stateful" where
  "deliverPendingEdgeWorkerReleaseOperations E limit retryDelayMs ask clock =
     bindS (askS (due_operations E limit)) (\<lambda>due.
     deliver_operations (env_dates E) (case retryDelayMs of None \<Rightarrow> 60000 | Some d \<Rightarrow> d) ask clock 0 due (0, 0, 0))"

end
