(* ===== verification/EdgeLaws.thy ===== *)
theory EdgeLaws
  imports EdgeWorkers Examples
begin

text \<open>
  Edge worker releases under concurrency: operations begin and end in any order, with any answer of the
  provider, while the rest of the database changes. What a release says of itself is then accounted for:
  a deleted one was confirmed by the provider or its provider was not asked, and a failed one has an
  operation that will try again.
\<close>

subsection \<open>Single steps\<close>

lemma overwrite_release_simps [simp]:
  "ewr_id (overwrite_release r row) = ewr_id row" "ewr_status (overwrite_release r row) = ewr_status r"
  by (simp_all add: overwrite_release_def)

lemma overwrite_operation_simps [simp]:
  "ewo_id (overwrite_operation p row) = ewo_id row" "ewo_releaseId (overwrite_operation p row) = ewo_releaseId row"
  "ewo_status (overwrite_operation p row) = ewo_status p" "ewo_deleteProvider (overwrite_operation p row) = ewo_deleteProvider p"
  by (simp_all add: overwrite_operation_def)

lemma from_row_simps [simp]:
  "ewr_id (edgeWorkerReleaseFromRow r) = ewr_id r" "ewr_status (edgeWorkerReleaseFromRow r) = ewr_status r"
  "ewo_id (edgeWorkerReleaseOperationFromRow p) = ewo_id p" "ewo_releaseId (edgeWorkerReleaseOperationFromRow p) = ewo_releaseId p"
  "ewo_deleteProvider (edgeWorkerReleaseOperationFromRow p) = ewo_deleteProvider p"
  "ewo_status (edgeWorkerReleaseOperationFromRow p) = ewo_status p"
  by (simp_all add: edgeWorkerReleaseFromRow_def edgeWorkerReleaseOperationFromRow_def)

abbreviation release_ids :: "EdgeWorkers \<Rightarrow> string set" where
  "release_ids s \<equiv> ewr_id ` set (edge_releases s)"

definition set_release :: "EdgeRelease \<Rightarrow> EdgeWorkers \<Rightarrow> EdgeWorkers" where
  "set_release r s = s\<lparr>edge_releases := update_by ewr_id (ewr_id r) (overwrite_release r) (edge_releases s)\<rparr>"

definition set_operation :: "EdgeOperation \<Rightarrow> EdgeWorkers \<Rightarrow> EdgeWorkers" where
  "set_operation p s = s\<lparr>edge_operations := update_by ewo_id (ewo_id p) (overwrite_operation p) (edge_operations s)\<rparr>"

lemma update_release_runs:
  assumes "ewr_id r \<in> release_ids s"
  shows "\<exists>x. updateEdgeWorkerRelease r s = (set_release r s, Inr x)"
proof -
  have "row_by ewr_id (ewr_id r) (edge_releases s) \<noteq> None" using assms by (simp add: row_by_None)
  then show ?thesis by (auto simp: updateEdgeWorkerRelease_def set_release_def split: option.splits)
qed

lemma update_operation_runs:
  assumes "ewo_id p \<in> ewo_id ` set (edge_operations s)"
  shows "\<exists>x. updateEdgeWorkerReleaseOperation p s = (set_operation p s, Inr x)"
proof -
  have "row_by ewo_id (ewo_id p) (edge_operations s) \<noteq> None" using assms by (simp add: row_by_None)
  then show ?thesis by (auto simp: updateEdgeWorkerReleaseOperation_def set_operation_def split: option.splits)
qed

lemma keys_update_by: "(\<And>r. key (f r) = key r) \<Longrightarrow> key ` set (update_by key k f t) = key ` set t"
  by (metis list.set_map map_key_update)

lemma set_release_simps [simp]:
  "edge_operations (set_release r s) = edge_operations s" "release_ids (set_release r s) = release_ids s"
  "edge_releases (set_operation p s) = edge_releases s" "ewo_id ` set (edge_operations (set_operation p s)) = ewo_id ` set (edge_operations s)"
  by (simp_all add: set_release_def set_operation_def keys_update_by)

definition provider_agrees :: "EdgeRelease \<Rightarrow> DeleteResult option deployed option \<Rightarrow> bool" where
  "provider_agrees r answer \<longleftrightarrow> (case answer of None \<Rightarrow> True | Some a \<Rightarrow> deleteProviderEdgeWorkerRelease r a = Inr ())"

lemma finishOperation_runs:
  assumes "ewr_id r \<in> release_ids s" and "ewo_id p \<in> ewo_id ` set (edge_operations s)" and "dateParse D t \<noteq> None"
  shows "\<exists>r' p' x. finishOperation D delay p r t answer s = (set_operation p' (set_release r' s), x)
     \<and> ewr_id r' = ewr_id r \<and> ewo_id p' = ewo_id p \<and> ewo_deleteProvider p' = ewo_deleteProvider p
     \<and> ewr_status r' = (if provider_agrees r answer then EdgeDeleted else EdgeFailed) \<and> ewo_status p' = (if provider_agrees r answer then OpSucceeded else OpPending)
     \<and> x = Inr (provider_agrees r answer)"
proof -
  obtain n where n: "dateParse D t = Some n" using assms(3) by auto
  have rel: "\<exists>x. refusing (updateEdgeWorkerRelease r') s = (set_release r' s, Inr x)" if "ewr_id r' = ewr_id r" for r'
    using update_release_runs [of r' s] assms(1) that by (auto simp: refusing_def)
  have op: "\<exists>x. refusing (updateEdgeWorkerReleaseOperation p') (set_release r' s) = (set_operation p' (set_release r' s), Inr x)"
    if "ewo_id p' = ewo_id p" for p' r'
    using update_operation_runs [of p' "set_release r' s"] assms(2) that by (auto simp: refusing_def)
  show ?thesis
  proof (cases "case answer of None \<Rightarrow> Inr () | Some a \<Rightarrow> deleteProviderEdgeWorkerRelease r a")
    case (Inr u)
    let ?r = "r\<lparr>ewr_status := EdgeDeleted, ewr_updatedAt := t, ewr_deletedAt := Some t, ewr_lastError := None\<rparr>"
    let ?p = "p\<lparr>ewo_status := OpSucceeded, ewo_attempts := ewo_attempts p + 1, ewo_updatedAt := t, ewo_lastError := None\<rparr>"
    obtain x where x: "refusing (updateEdgeWorkerRelease ?r) s = (set_release ?r s, Inr x)" using rel [of ?r] by auto
    obtain y where y: "refusing (updateEdgeWorkerReleaseOperation ?p) (set_release ?r s) = (set_operation ?p (set_release ?r s), Inr y)"
      using op [of ?p ?r] by auto
    have g: "provider_agrees r answer" using Inr by (cases answer) (simp_all add: provider_agrees_def)
    have "finishOperation D delay p r t answer s = (set_operation ?p (set_release ?r s), Inr True)"
      by (simp add: finishOperation_def catchE_def bindS_def Inr x y)
    then show ?thesis using g by (intro exI [of _ ?r] exI [of _ ?p] exI [of _ "Inr True"]) simp
  next
    case (Inl e)
    let ?r = "r\<lparr>ewr_status := EdgeFailed, ewr_updatedAt := t, ewr_lastError := Some (deployer_message e)\<rparr>"
    let ?p = "p\<lparr>ewo_status := OpPending, ewo_attempts := ewo_attempts p + 1, ewo_nextAttemptAt := dateToISO D (n + delay),
      ewo_updatedAt := t, ewo_lastError := Some (deployer_message e)\<rparr>"
    obtain x where x: "refusing (updateEdgeWorkerRelease ?r) s = (set_release ?r s, Inr x)" using rel [of ?r] by auto
    obtain y where y: "refusing (updateEdgeWorkerReleaseOperation ?p) (set_release ?r s) = (set_operation ?p (set_release ?r s), Inr y)"
      using op [of ?p ?r] by auto
    have g: "\<not> provider_agrees r answer" using Inl by (cases answer) (simp_all add: provider_agrees_def)
    have "finishOperation D delay p r t answer s = (set_operation ?p (set_release ?r s), Inr False)"
      by (simp add: finishOperation_def catchE_def bindS_def Inl x y n)
    then show ?thesis using g by (intro exI [of _ ?r] exI [of _ ?p] exI [of _ "Inr False"]) simp
  qed
qed

subsection \<open>Operations under way\<close>

text \<open>
  \<open>confirmed\<close> and \<open>waived\<close> are the releases whose deletion the provider has confirmed, and those that
  were deleted without asking it. \<open>due\<close> are all operations that a delivery has ever read.
\<close>

record EdgeConfig =
  ec_state :: EdgeWorkers
  ec_deploying :: "(DeployInput \<times> string \<times> string option) list"
  ec_deleting :: "(EdgeRelease \<times> EdgeRelease \<times> bool option) list"
  ec_due :: "EdgeOperation list"
  ec_turns :: "(EdgeOperation \<times> EdgeRelease \<times> string) list"
  ec_confirmed :: "string list"
  ec_waived :: "string list"

definition edge_start :: "Db \<Rightarrow> EdgeConfig" where
  "edge_start d = \<lparr>ec_state = \<lparr>edge_db = d, edge_releases = [], edge_operations = []\<rparr>, ec_deploying = [], ec_deleting = [],
     ec_due = [], ec_turns = [], ec_confirmed = [], ec_waived = []\<rparr>"

definition delete_begun :: "string \<Rightarrow> bool \<Rightarrow> bool option \<Rightarrow> EdgeConfig
    \<Rightarrow> EdgeWorkers \<times> (EdgeRelease + EdgeRelease \<times> EdgeRelease) cp \<Rightarrow> EdgeConfig" where
  "delete_begun rid deleteProvider force c x = (case x of (s, res) \<Rightarrow> c\<lparr>ec_state := s,
     ec_deleting := (case res of Inr (Inr (r, d)) \<Rightarrow> (r, d, force) # ec_deleting c | _ \<Rightarrow> ec_deleting c),
     ec_waived := (if deleteProvider then ec_waived c else rid # ec_waived c)\<rparr>)"

inductive edge_reachable :: "EdgeConfig \<Rightarrow> bool" where
  edge_begins: "edge_reachable (edge_start d)"
| edge_elsewhere: "edge_reachable c \<Longrightarrow> edge_reachable (c\<lparr>ec_state := (ec_state c)\<lparr>edge_db := d\<rparr>\<rparr>)"
| edge_create: "edge_reachable c \<Longrightarrow> beginEdgeWorkerRelease E pretty i (ec_state c) = Inr t
    \<Longrightarrow> edge_reachable (c\<lparr>ec_deploying := t # ec_deploying c\<rparr>)"
| edge_deployed: "edge_reachable c \<Longrightarrow> (i, provider, mode) \<in> set (ec_deploying c)
    \<Longrightarrow> edge_reachable (c\<lparr>ec_state := fst (finishEdgeWorkerRelease i provider mode r (ec_state c))\<rparr>)"
| edge_delete: "edge_reachable c
    \<Longrightarrow> edge_reachable (delete_begun rid deleteProvider force c (beginDeleteEdgeWorkerRelease E rid deleteProvider (ec_state c)))"
| edge_delete_answered: "edge_reachable c \<Longrightarrow> (r, d, force) \<in> set (ec_deleting c)
    \<Longrightarrow> env_idGenerator E ''ewo'' \<notin> ewo_id ` set (edge_operations (ec_state c))
    \<Longrightarrow> edge_reachable (c\<lparr>ec_state := fst (finishDeleteEdgeWorkerRelease E r d force answer (ec_state c)),
      ec_confirmed := (if deleteProviderEdgeWorkerRelease d answer = Inr () then [ewr_id r] else []) @ ec_confirmed c\<rparr>)"
| edge_read_due: "edge_reachable c \<Longrightarrow> edge_reachable (c\<lparr>ec_due := due_operations E limit (ec_state c) @ ec_due c\<rparr>)"
| edge_turn: "edge_reachable c \<Longrightarrow> p \<in> set (ec_due c) \<Longrightarrow> beginOperation p (ec_state c) = Inr r
    \<Longrightarrow> edge_reachable (c\<lparr>ec_turns := (p, r, t) # ec_turns c\<rparr>)"
| edge_turn_answered: "edge_reachable c \<Longrightarrow> (p, r, t) \<in> set (ec_turns c) \<Longrightarrow> dateParse D t \<noteq> None
    \<Longrightarrow> answer = None \<longleftrightarrow> operation_calls p r = None
    \<Longrightarrow> edge_reachable (c\<lparr>ec_state := fst (finishOperation D delay p r t answer (ec_state c)),
      ec_confirmed := (if answer \<noteq> None \<and> provider_agrees r answer then [ewr_id r] else []) @ ec_confirmed c\<rparr>)"

subsection \<open>What holds throughout\<close>

definition pending_for :: "EdgeWorkers \<Rightarrow> string \<Rightarrow> EdgeOperation \<Rightarrow> bool" where
  "pending_for s rid p \<longleftrightarrow> p \<in> set (edge_operations s) \<and> ewo_status p = OpPending \<and> ewo_releaseId p = rid \<and> ewo_deleteProvider p"

definition accounted :: "EdgeWorkers \<Rightarrow> string set \<Rightarrow> EdgeRelease \<Rightarrow> bool" where
  "accounted s settled r \<longleftrightarrow> (ewr_status r = EdgeDeleted \<longrightarrow> ewr_id r \<in> settled)
     \<and> (ewr_status r = EdgeFailed \<longrightarrow> (\<exists>p. pending_for s (ewr_id r) p))"

definition known_operation :: "EdgeWorkers \<Rightarrow> EdgeOperation \<Rightarrow> bool" where
  "known_operation s p \<longleftrightarrow> ewo_deleteProvider p \<and> ewo_releaseId p \<in> release_ids s
     \<and> (\<exists>q \<in> set (edge_operations s). ewo_id q = ewo_id p \<and> ewo_releaseId q = ewo_releaseId p)"

definition edge_ok :: "EdgeConfig \<Rightarrow> bool" where
  "edge_ok c \<longleftrightarrow> (let s = ec_state c in
     distinct (map ewo_id (edge_operations s))
     \<and> (\<forall>r \<in> set (edge_releases s). accounted s (set (ec_confirmed c) \<union> set (ec_waived c)) r)
     \<and> (\<forall>p \<in> set (edge_operations s) \<union> set (ec_due c). known_operation s p)
     \<and> (\<forall>(r, d, f) \<in> set (ec_deleting c). ewr_id d = ewr_id r \<and> ewr_id r \<in> release_ids s)
     \<and> (\<forall>(p, r, t) \<in> set (ec_turns c). known_operation s p \<and> ewr_id r = ewo_releaseId p))"

text \<open>Writing a status that is accounted for keeps the invariant, as long as no pending operation goes.\<close>

lemma accounted_more: "accounted s A r \<Longrightarrow> A \<subseteq> B \<Longrightarrow> (\<And>p. pending_for s (ewr_id r) p \<Longrightarrow> \<exists>q. pending_for s' (ewr_id r) q)
    \<Longrightarrow> accounted s' B r"
  by (auto simp: accounted_def)

lemma known_set_release [simp]: "known_operation (set_release r s) p = known_operation s p"
  by (simp add: known_operation_def)

lemma pending_set_release [simp]: "pending_for (set_release r s) rid p = pending_for s rid p"
  by (simp add: pending_for_def)

lemma releases_set_release: "set (edge_releases (set_release r s)) =
   overwrite_release r ` {q \<in> set (edge_releases s). ewr_id q = ewr_id r} \<union> {q \<in> set (edge_releases s). ewr_id q \<noteq> ewr_id r}"
  by (simp add: set_release_def set_update_by)

lemma accounted_set_release:
  assumes "\<forall>q \<in> set (edge_releases s). accounted s A q"
    and "ewr_status r = EdgeDeleted \<Longrightarrow> ewr_id r \<in> A" and "ewr_status r = EdgeFailed \<Longrightarrow> \<exists>p. pending_for s (ewr_id r) p"
  shows "\<forall>q \<in> set (edge_releases (set_release r s)). accounted (set_release r s) A q"
  using assms by (auto simp: releases_set_release accounted_def)

definition state_ok :: "EdgeWorkers \<Rightarrow> string set \<Rightarrow> bool" where
  "state_ok s A \<longleftrightarrow> distinct (map ewo_id (edge_operations s)) \<and> (\<forall>r \<in> set (edge_releases s). accounted s A r)
     \<and> (\<forall>p \<in> set (edge_operations s). known_operation s p)"

definition extends_to :: "EdgeWorkers \<Rightarrow> EdgeWorkers \<Rightarrow> bool" where
  "extends_to s s' \<longleftrightarrow> release_ids s \<subseteq> release_ids s' \<and> (\<forall>p. known_operation s p \<longrightarrow> known_operation s' p)"

lemma edge_ok_state: "edge_ok c \<Longrightarrow> state_ok (ec_state c) (set (ec_confirmed c) \<union> set (ec_waived c))"
  by (simp add: edge_ok_def state_ok_def Let_def)

lemma edge_ok_step:
  assumes "edge_ok c" and "state_ok s' (set cf \<union> set wv)" and "extends_to (ec_state c) s'"
  shows "edge_ok (c\<lparr>ec_state := s', ec_confirmed := cf, ec_waived := wv\<rparr>)"
proof -
  have k: "known_operation s' p" if "known_operation (ec_state c) p" for p using assms(3) that by (simp add: extends_to_def)
  have r: "rid \<in> release_ids s'" if "rid \<in> release_ids (ec_state c)" for rid using assms(3) that by (auto simp: extends_to_def)
  have "\<forall>p \<in> set (edge_operations (ec_state c)) \<union> set (ec_due c). known_operation (ec_state c) p"
    "\<forall>(r, d, f) \<in> set (ec_deleting c). ewr_id d = ewr_id r \<and> ewr_id r \<in> release_ids (ec_state c)"
    "\<forall>(p, r, t) \<in> set (ec_turns c). known_operation (ec_state c) p \<and> ewr_id r = ewo_releaseId p"
    using assms(1) by (simp_all add: edge_ok_def Let_def)
  then show ?thesis using assms(2) k r
    unfolding edge_ok_def Let_def state_ok_def by (simp add: split_beta ball_Un)
qed

lemma state_ok_more: "state_ok s A \<Longrightarrow> A \<subseteq> B \<Longrightarrow> state_ok s B"
  by (auto simp: state_ok_def intro: accounted_more)

lemma state_ok_set_release:
  assumes "state_ok s A" and "ewr_status r = EdgeDeleted \<Longrightarrow> ewr_id r \<in> A"
    and "ewr_status r = EdgeFailed \<Longrightarrow> \<exists>p. pending_for s (ewr_id r) p"
  shows "state_ok (set_release r s) A" "extends_to s (set_release r s)"
  using assms accounted_set_release [of s A r] by (simp_all add: state_ok_def extends_to_def)

lemma state_ok_add_release:
  assumes "state_ok s A" and "ewr_status r = EdgeActive"
  shows "state_ok (s\<lparr>edge_releases := edge_releases s @ [r]\<rparr>) A" "extends_to s (s\<lparr>edge_releases := edge_releases s @ [r]\<rparr>)"
  using assms by (auto simp: state_ok_def extends_to_def accounted_def pending_for_def known_operation_def)

lemma state_ok_add_operation:
  assumes "state_ok s A" and "ewo_id p \<notin> ewo_id ` set (edge_operations s)" and "ewo_releaseId p \<in> release_ids s" and "ewo_deleteProvider p"
  shows "state_ok (s\<lparr>edge_operations := edge_operations s @ [p]\<rparr>) A"
    "extends_to s (s\<lparr>edge_operations := edge_operations s @ [p]\<rparr>)"
proof -
  let ?s = "s\<lparr>edge_operations := edge_operations s @ [p]\<rparr>"
  have k: "known_operation ?s q" if "known_operation s q" for q using that by (auto simp: known_operation_def)
  have kp: "known_operation ?s p" using assms by (simp add: known_operation_def)
  have "accounted ?s A r" if "accounted s A r" for r
    using that by (rule accounted_more) (auto simp: pending_for_def)
  then show "state_ok ?s A" using assms k kp by (auto simp: state_ok_def)
  show "extends_to s ?s" using k by (simp add: extends_to_def)
qed

lemma known_set_operation:
  assumes "known_operation s q" and "ewo_deleteProvider p"
  shows "known_operation (set_operation p s) q"
proof -
  obtain x where x: "x \<in> set (edge_operations s)" "ewo_id x = ewo_id q" "ewo_releaseId x = ewo_releaseId q"
    using assms(1) by (auto simp: known_operation_def)
  let ?x = "if ewo_id x = ewo_id p then overwrite_operation p x else x"
  have "?x \<in> set (edge_operations (set_operation p s)) \<and> ewo_id ?x = ewo_id q \<and> ewo_releaseId ?x = ewo_releaseId q"
    using x by (auto simp: set_operation_def set_update_by)
  then show ?thesis using assms(1) by (auto simp: known_operation_def)
qed

text \<open>The operation of \<open>p\<close> is the one with its identifier, so only pending operations of its release can go.\<close>

lemma state_ok_set_operation:
  assumes s: "state_ok s A" and p: "known_operation s p" and p': "ewo_id p' = ewo_id p" "ewo_deleteProvider p'"
    and none: "ewo_status p' \<noteq> OpPending \<Longrightarrow> \<forall>r \<in> set (edge_releases s). ewr_id r = ewo_releaseId p \<longrightarrow> ewr_status r \<noteq> EdgeFailed"
  shows "state_ok (set_operation p' s) A" "extends_to s (set_operation p' s)"
proof -
  let ?s = "set_operation p' s"
  have d: "distinct (map ewo_id (edge_operations s))" using s by (simp add: state_ok_def)
  have own: "ewo_releaseId q = ewo_releaseId p" if "q \<in> set (edge_operations s)" "ewo_id q = ewo_id p" for q
    using p that d by (auto simp: known_operation_def distinct_map inj_on_def)
  have keep: "\<exists>q. pending_for ?s rid q" if q: "pending_for s rid q" and ok: "ewo_status p' = OpPending \<or> rid \<noteq> ewo_releaseId p" for rid q
  proof (cases "ewo_id q = ewo_id p")
    case True
    then have "ewo_status p' = OpPending" using own [of q] q ok by (auto simp: pending_for_def)
    then have "pending_for ?s rid (overwrite_operation p' q)"
      using q True p' by (auto simp: pending_for_def set_operation_def set_update_by)
    then show ?thesis ..
  next
    case False
    then have "pending_for ?s rid q" using q p' by (auto simp: pending_for_def set_operation_def set_update_by)
    then show ?thesis ..
  qed
  have "accounted ?s A r" if r: "r \<in> set (edge_releases s)" for r
  proof (cases "ewr_status r = EdgeFailed")
    case True
    have "accounted s A r" using s r by (simp add: state_ok_def)
    then obtain q where "pending_for s (ewr_id r) q" using True by (auto simp: accounted_def)
    then have "\<exists>q. pending_for ?s (ewr_id r) q" using keep [of "ewr_id r" q] none r True by blast
    then show ?thesis using True by (simp add: accounted_def)
  next
    case False
    then show ?thesis using s r by (auto simp: state_ok_def accounted_def)
  qed
  moreover have "distinct (map ewo_id (edge_operations ?s))"
    using d by (simp add: set_operation_def map_key_update)
  moreover have "known_operation ?s q" if "q \<in> set (edge_operations ?s)" for q
  proof -
    have "q \<in> (\<lambda>y. if ewo_id y = ewo_id p' then overwrite_operation p' y else y) ` set (edge_operations s)"
      using that by (simp add: set_operation_def update_by_def)
    then obtain y where y: "y \<in> set (edge_operations s)" "q = (if ewo_id y = ewo_id p' then overwrite_operation p' y else y)"
      by blast
    then have "ewo_id q = ewo_id y \<and> ewo_releaseId q = ewo_releaseId y \<and> (ewo_deleteProvider y \<longrightarrow> ewo_deleteProvider q)"
      using p' by simp
    with y(1) obtain x where "x \<in> set (edge_operations s)" "ewo_id q = ewo_id x" "ewo_releaseId q = ewo_releaseId x"
      "ewo_deleteProvider x \<longrightarrow> ewo_deleteProvider q" by blast
    moreover from this(1) have "known_operation s x" using s by (simp add: state_ok_def)
    moreover from this have "known_operation ?s x" by (rule known_set_operation) (rule p'(2))
    ultimately show ?thesis by (auto simp: known_operation_def)
  qed
  ultimately show "state_ok ?s A" by (simp add: state_ok_def)
  show "extends_to s ?s" using known_set_operation p'(2) by (auto simp: extends_to_def)
qed

lemma extends_to_trans: "extends_to s s' \<Longrightarrow> extends_to s' s'' \<Longrightarrow> extends_to s s''"
  unfolding extends_to_def by blast

lemma set_operation_commutes: "set_operation p (set_release r s) = set_release r (set_operation p s)"
  by (simp add: set_operation_def set_release_def)

subsection \<open>Every step keeps it\<close>

lemma read_then':
  assumes "fst (m s) = s" and "\<And>x. snd (m s) = Inr x \<Longrightarrow> fst (f x s) = s \<or> Q (fst (f x s))"
  shows "fst (bindS m f s) = s \<or> Q (fst (bindS m f s))"
  using assms by (cases "m s") (auto simp: bindS_def split: sum.splits)

lemma finishCreate_cases: "fst (finishEdgeWorkerRelease i provider mode r s) = s
   \<or> (\<exists>x. ewr_status x = EdgeActive \<and> fst (finishEdgeWorkerRelease i provider mode r s) = s\<lparr>edge_releases := edge_releases s @ [x]\<rparr>)"
proof -
  have "fst (repo_createEdgeWorkerRelease x s) = s \<or> fst (repo_createEdgeWorkerRelease x s) = s\<lparr>edge_releases := edge_releases s @ [x]\<rparr>" for x
    by (simp add: repo_createEdgeWorkerRelease_def insert_row_def)
  then show ?thesis
    unfolding finishEdgeWorkerRelease_def
    by (intro read_then' [where Q = "\<lambda>s'. \<exists>x. ewr_status x = EdgeActive \<and> s' = s\<lparr>edge_releases := edge_releases s @ [x]\<rparr>"])
      (simp, simp, fastforce)
qed

lemma required_release: "requireEdgeWorkerRelease rid s = Inr r \<Longrightarrow> ewr_id r = rid \<and> rid \<in> release_ids s"
  by (auto simp: requireEdgeWorkerRelease_def require_def repo_getEdgeWorkerRelease_def throwC_def split: option.splits dest: row_by_Some)

lemma update_release_result: "updateEdgeWorkerRelease r s = (s', Inr x) \<Longrightarrow> s' = set_release r s \<and> ewr_id x = ewr_id r"
  by (auto simp: updateEdgeWorkerRelease_def set_release_def split: option.splits dest: row_by_Some)

text \<open>A deletion begins with a write of a release that is there, or does nothing.\<close>

lemma beginDelete_cases:
  assumes "beginDeleteEdgeWorkerRelease E rid dp s = (s', res)"
  shows "(s' = s \<and> (\<forall>r d. res \<noteq> Inr (Inr (r, d))))
    \<or> (\<exists>w. s' = set_release w s \<and> ewr_id w = rid \<and> rid \<in> release_ids s
        \<and> (\<forall>r d. res = Inr (Inr (r, d)) \<longrightarrow> ewr_id r = rid \<and> ewr_id d = rid)
        \<and> ewr_status w = (if dp then EdgeDeleting else EdgeDeleted))"
proof (cases "requireEdgeWorkerRelease rid s")
  case (Inl e)
  then show ?thesis using assms by (auto simp: beginDeleteEdgeWorkerRelease_def bindS_def)
next
  case (Inr r)
  have r: "ewr_id r = rid" "rid \<in> release_ids s" using required_release [OF Inr] by auto
  show ?thesis
  proof (cases "ewr_status r = EdgeDeleted")
    case True
    then show ?thesis using assms Inr by (auto simp: beginDeleteEdgeWorkerRelease_def bindS_def)
  next
    case False
    let ?w = "if dp then r\<lparr>ewr_status := EdgeDeleting, ewr_updatedAt := env_now E, ewr_lastError := None\<rparr>
      else r\<lparr>ewr_status := EdgeDeleted, ewr_updatedAt := env_now E, ewr_deletedAt := Some (env_now E), ewr_lastError := None\<rparr>"
    have w: "ewr_id ?w = rid" using r(1) by simp
    obtain x where x: "updateEdgeWorkerRelease ?w s = (set_release ?w s, Inr x)"
      using update_release_runs [of ?w s] r(2) unfolding w by blast
    then have "ewr_id x = rid" using update_release_result [OF x] unfolding w by blast
    moreover have "beginDeleteEdgeWorkerRelease E rid dp s = (set_release ?w s, Inr (if dp then Inr (r, x) else Inl x))"
      using x Inr False by (cases dp) (simp_all add: beginDeleteEdgeWorkerRelease_def bindS_def mark_deleted_def)
    ultimately have "s' = set_release ?w s \<and> (\<forall>r d. res = Inr (Inr (r, d)) \<longrightarrow> ewr_id r = rid \<and> ewr_id d = rid)"
      unfolding assms using r(1) by (simp split: if_splits)
    moreover have "ewr_status ?w = (if dp then EdgeDeleting else EdgeDeleted)" by simp
    ultimately show ?thesis using r(2) w by blast
  qed
qed

lemma finishDelete_cases:
  assumes "ewr_id d = ewr_id r" and "ewr_id r \<in> release_ids s" and "env_idGenerator E ''ewo'' \<notin> ewo_id ` set (edge_operations s)"
  shows "(deleteProviderEdgeWorkerRelease d answer = Inr ()
      \<and> (\<exists>w. fst (finishDeleteEdgeWorkerRelease E r d force answer s) = set_release w s \<and> ewr_id w = ewr_id r \<and> ewr_status w = EdgeDeleted))
    \<or> (\<exists>w p. fst (finishDeleteEdgeWorkerRelease E r d force answer s) = set_release w (s\<lparr>edge_operations := edge_operations s @ [p]\<rparr>)
        \<and> ewr_id w = ewr_id r \<and> ewr_status w = EdgeFailed \<and> ewo_id p \<notin> ewo_id ` set (edge_operations s)
        \<and> ewo_releaseId p = ewr_id r \<and> ewo_deleteProvider p \<and> ewo_status p = OpPending)"
proof (cases "deleteProviderEdgeWorkerRelease d answer")
  case (Inr u)
  let ?w = "r\<lparr>ewr_status := EdgeDeleted, ewr_updatedAt := env_now E, ewr_deletedAt := Some (env_now E), ewr_lastError := None\<rparr>"
  obtain x where "updateEdgeWorkerRelease ?w s = (set_release ?w s, Inr x)" using update_release_runs [of ?w s] assms by auto
  then show ?thesis using Inr by (intro disjI1 conjI exI [of _ ?w]) (simp_all add: finishDeleteEdgeWorkerRelease_def mark_deleted_def)
next
  case (Inl e)
  let ?w = "d\<lparr>ewr_status := EdgeFailed, ewr_updatedAt := env_now E, ewr_lastError := Some (deployer_message e)\<rparr>"
  let ?p = "\<lparr>ewo_id = env_idGenerator E ''ewo'', ewo_releaseId = ewr_id r, ewo_status = OpPending, ewo_attempts = 0,
    ewo_nextAttemptAt = env_now E, ewo_deleteProvider = True, ewo_forceProviderDelete = (force = Some True),
    ewo_createdAt = env_now E, ewo_updatedAt = env_now E, ewo_lastError = Some (deployer_message e)\<rparr>"
  obtain x where x: "updateEdgeWorkerRelease ?w s = (set_release ?w s, Inr x)" using update_release_runs [of ?w s] assms by auto
  have c: "createEdgeWorkerReleaseOperation ?p (set_release ?w s)
      = (set_release ?w s\<lparr>edge_operations := edge_operations s @ [?p]\<rparr>, Inr ?p)"
    using assms by (simp add: createEdgeWorkerReleaseOperation_def insert_row_def has_key_set no_row_def)
  have "fst (finishDeleteEdgeWorkerRelease E r d force answer s) = set_release ?w (s\<lparr>edge_operations := edge_operations s @ [?p]\<rparr>)"
    using Inl x c by (simp add: finishDeleteEdgeWorkerRelease_def bindS_def set_release_def)
  then show ?thesis using assms by (intro disjI2 exI [of _ ?w] exI [of _ ?p]) simp
qed

subsection \<open>The invariant\<close>

abbreviation settled :: "EdgeConfig \<Rightarrow> string set" where
  "settled c \<equiv> set (ec_confirmed c) \<union> set (ec_waived c)"

lemma edge_ok_elsewhere:
  assumes "edge_ok c"
  shows "edge_ok (c\<lparr>ec_state := (ec_state c)\<lparr>edge_db := d\<rparr>\<rparr>)"
proof -
  have "state_ok ((ec_state c)\<lparr>edge_db := d\<rparr>) (settled c)" "extends_to (ec_state c) ((ec_state c)\<lparr>edge_db := d\<rparr>)"
    using edge_ok_state [OF assms] by (auto simp: state_ok_def extends_to_def accounted_def pending_for_def known_operation_def)
  from edge_ok_step [OF assms this] show ?thesis by simp
qed

lemma extends_to_refl [simp]: "extends_to s s"
  by (simp add: extends_to_def)

lemma edge_ok_deployed:
  assumes "edge_ok c"
  shows "edge_ok (c\<lparr>ec_state := fst (finishEdgeWorkerRelease i provider mode r (ec_state c))\<rparr>)"
proof -
  have s: "state_ok (ec_state c) (settled c)" by (rule edge_ok_state [OF assms])
  have "state_ok (fst (finishEdgeWorkerRelease i provider mode r (ec_state c))) (settled c)
      \<and> extends_to (ec_state c) (fst (finishEdgeWorkerRelease i provider mode r (ec_state c)))"
    using finishCreate_cases [of i provider mode r "ec_state c"] s state_ok_add_release [OF s] by auto
  then have "edge_ok (c\<lparr>ec_state := fst (finishEdgeWorkerRelease i provider mode r (ec_state c)),
      ec_confirmed := ec_confirmed c, ec_waived := ec_waived c\<rparr>)" by (intro edge_ok_step assms) auto
  then show ?thesis by simp
qed

lemma edge_ok_deleting:
  assumes "edge_ok c" and "ewr_id d = ewr_id r" and "ewr_id r \<in> release_ids (ec_state c)"
  shows "edge_ok (c\<lparr>ec_deleting := (r, d, f) # ec_deleting c\<rparr>)"
  using assms by (simp add: edge_ok_def Let_def)

lemma edge_ok_delete:
  assumes "edge_ok c"
  shows "edge_ok (delete_begun rid dp force c (beginDeleteEdgeWorkerRelease E rid dp (ec_state c)))"
proof -
  let ?s = "ec_state c"
  let ?w = "if dp then ec_waived c else rid # ec_waived c"
  have s: "state_ok ?s (settled c)" by (rule edge_ok_state [OF assms])
  have s': "state_ok ?s (set (ec_confirmed c) \<union> set ?w)" using s by (rule state_ok_more) auto
  obtain s1 res where b: "beginDeleteEdgeWorkerRelease E rid dp ?s = (s1, res)" by (cases "beginDeleteEdgeWorkerRelease E rid dp ?s")
  let ?c = "c\<lparr>ec_state := s1, ec_confirmed := ec_confirmed c, ec_waived := ?w\<rparr>"
  from beginDelete_cases [OF b] show ?thesis
  proof
    assume a: "s1 = ?s \<and> (\<forall>r d. res \<noteq> Inr (Inr (r, d)))"
    then have "delete_begun rid dp force c (s1, res) = ?c" by (auto simp: delete_begun_def split: sum.splits)
    moreover have "edge_ok ?c" using a s' by (intro edge_ok_step assms) auto
    ultimately show ?thesis by (simp only: b)
  next
    assume "\<exists>w. s1 = set_release w ?s \<and> ewr_id w = rid \<and> rid \<in> release_ids ?s
        \<and> (\<forall>r d. res = Inr (Inr (r, d)) \<longrightarrow> ewr_id r = rid \<and> ewr_id d = rid)
        \<and> ewr_status w = (if dp then EdgeDeleting else EdgeDeleted)"
    then obtain w where w: "s1 = set_release w ?s" "ewr_id w = rid" "rid \<in> release_ids ?s"
      "ewr_status w = (if dp then EdgeDeleting else EdgeDeleted)"
      and res: "\<And>r d. res = Inr (Inr (r, d)) \<Longrightarrow> ewr_id r = rid \<and> ewr_id d = rid" by blast
    have "state_ok s1 (set (ec_confirmed c) \<union> set ?w)" "extends_to ?s s1"
      using state_ok_set_release [OF s', of w] w by (simp_all split: if_splits)
    then have c: "edge_ok ?c" by (intro edge_ok_step assms)
    show ?thesis
    proof (cases "\<exists>r d. res = Inr (Inr (r, d))")
      case True
      then obtain r d where rd: "res = Inr (Inr (r, d))" by blast
      then have "edge_ok (?c\<lparr>ec_deleting := (r, d, force) # ec_deleting ?c\<rparr>)"
        using res [OF rd] w by (intro edge_ok_deleting c) auto
      moreover have "delete_begun rid dp force c (s1, res) = ?c\<lparr>ec_deleting := (r, d, force) # ec_deleting ?c\<rparr>"
        unfolding delete_begun_def prod.case rd sum.case prod.case
        by (rule EdgeConfig.equality) simp_all
      ultimately show ?thesis by (simp only: b)
    next
      case False
      then have "delete_begun rid dp force c (s1, res) = ?c" by (auto simp: delete_begun_def split: sum.splits)
      then show ?thesis using c by (simp only: b)
    qed
  qed
qed

lemma edge_ok_delete_answered:
  assumes c: "edge_ok c" and d: "(r, d, force) \<in> set (ec_deleting c)"
    and new: "env_idGenerator E ''ewo'' \<notin> ewo_id ` set (edge_operations (ec_state c))"
  shows "edge_ok (c\<lparr>ec_state := fst (finishDeleteEdgeWorkerRelease E r d force answer (ec_state c)),
      ec_confirmed := (if deleteProviderEdgeWorkerRelease d answer = Inr () then [ewr_id r] else []) @ ec_confirmed c\<rparr>)"
proof -
  let ?s = "ec_state c" and ?s' = "fst (finishDeleteEdgeWorkerRelease E r d force answer (ec_state c))"
  let ?cf = "(if deleteProviderEdgeWorkerRelease d answer = Inr () then [ewr_id r] else []) @ ec_confirmed c"
  have rd: "ewr_id d = ewr_id r" "ewr_id r \<in> release_ids ?s" using c d by (auto simp: edge_ok_def Let_def)
  have s: "state_ok ?s (set ?cf \<union> set (ec_waived c))" using edge_ok_state [OF c] by (rule state_ok_more) auto
  from finishDelete_cases [OF rd new, of answer force]
  have "state_ok ?s' (set ?cf \<union> set (ec_waived c)) \<and> extends_to ?s ?s'"
  proof
    assume "deleteProviderEdgeWorkerRelease d answer = Inr () \<and> (\<exists>w. ?s' = set_release w ?s \<and> ewr_id w = ewr_id r \<and> ewr_status w = EdgeDeleted)"
    then obtain w where w: "deleteProviderEdgeWorkerRelease d answer = Inr ()" "?s' = set_release w ?s" "ewr_id w = ewr_id r"
      "ewr_status w = EdgeDeleted" by blast
    then show ?thesis unfolding w(2) using state_ok_set_release [OF s, of w] by simp
  next
    assume "\<exists>w p. ?s' = set_release w (?s\<lparr>edge_operations := edge_operations ?s @ [p]\<rparr>)
        \<and> ewr_id w = ewr_id r \<and> ewr_status w = EdgeFailed \<and> ewo_id p \<notin> ewo_id ` set (edge_operations ?s)
        \<and> ewo_releaseId p = ewr_id r \<and> ewo_deleteProvider p \<and> ewo_status p = OpPending"
    then obtain w p where w: "?s' = set_release w (?s\<lparr>edge_operations := edge_operations ?s @ [p]\<rparr>)"
      and wp: "ewr_id w = ewr_id r" "ewr_status w = EdgeFailed" "ewo_id p \<notin> ewo_id ` set (edge_operations ?s)"
        "ewo_releaseId p = ewr_id r" "ewo_deleteProvider p" "ewo_status p = OpPending" by blast
    let ?m = "?s\<lparr>edge_operations := edge_operations ?s @ [p]\<rparr>"
    have m: "state_ok ?m (set ?cf \<union> set (ec_waived c))" "extends_to ?s ?m"
      using state_ok_add_operation [OF s, of p] wp rd(2) by auto
    have "pending_for ?m (ewr_id w) p" using wp by (simp add: pending_for_def)
    then have "state_ok (set_release w ?m) (set ?cf \<union> set (ec_waived c))" "extends_to ?m (set_release w ?m)"
      using state_ok_set_release [OF m(1), of w] wp(2) by auto
    then show ?thesis unfolding w using extends_to_trans [OF m(2)] by blast
  qed
  then have "edge_ok (c\<lparr>ec_state := ?s', ec_confirmed := ?cf, ec_waived := ec_waived c\<rparr>)"
    by (intro edge_ok_step c) auto
  then show ?thesis by simp
qed

lemma due_are_known:
  assumes "state_ok s A" and "p \<in> set (due_operations E limit s)"
  shows "known_operation s p"
proof -
  have "p \<in> set (listPendingEdgeWorkerReleaseOperations (env_now E) s)"
    using assms(2) by (auto simp: due_operations_def js_slice_def split: option.splits dest: in_set_takeD)
  then obtain q where "q \<in> set (edge_operations s)" "p = edgeWorkerReleaseOperationFromRow q"
    by (auto simp: listPendingEdgeWorkerReleaseOperations_def)
  then show ?thesis using assms(1) by (auto simp: state_ok_def known_operation_def)
qed

text \<open>Both ends of a turn: what it deletes is settled first, what it fails has its operation pending first.\<close>

lemma state_ok_turn:
  assumes s: "state_ok s A" and p: "known_operation s p" and r: "ewr_id r = ewo_releaseId p"
    and d: "dateParse D t \<noteq> None" and agreed: "provider_agrees r answer \<Longrightarrow> ewr_id r \<in> A"
  shows "state_ok (fst (finishOperation D delay p r t answer s)) A \<and> extends_to s (fst (finishOperation D delay p r t answer s))"
proof -
  have in_s: "ewr_id r \<in> release_ids s" "ewo_id p \<in> ewo_id ` set (edge_operations s)" "ewo_deleteProvider p"
    using p r by (auto simp: known_operation_def intro: rev_image_eqI)
  obtain r' p' x where f: "finishOperation D delay p r t answer s = (set_operation p' (set_release r' s), x)"
    and i: "ewr_id r' = ewr_id r" "ewo_id p' = ewo_id p" "ewo_deleteProvider p' = ewo_deleteProvider p"
    and st: "ewr_status r' = (if provider_agrees r answer then EdgeDeleted else EdgeFailed)"
      "ewo_status p' = (if provider_agrees r answer then OpSucceeded else OpPending)"
    using finishOperation_runs [OF in_s(1,2) d, of delay answer] by blast
  show ?thesis
  proof (cases "provider_agrees r answer")
    case True
    have m: "state_ok (set_release r' s) A" "extends_to s (set_release r' s)"
      using state_ok_set_release [OF s, of r'] st True agreed i by auto
    have "\<forall>q \<in> set (edge_releases (set_release r' s)). ewr_id q = ewo_releaseId p \<longrightarrow> ewr_status q \<noteq> EdgeFailed"
      using st True i r by (auto simp: releases_set_release)
    then have "state_ok (set_operation p' (set_release r' s)) A" "extends_to (set_release r' s) (set_operation p' (set_release r' s))"
      using state_ok_set_operation [OF m(1), of p p'] p i in_s(3) by auto
    then show ?thesis unfolding f using extends_to_trans [OF m(2)] by simp
  next
    case False
    have m: "state_ok (set_operation p' s) A" "extends_to s (set_operation p' s)"
      using state_ok_set_operation [OF s p, of p'] i in_s(3) st False by auto
    obtain y where y: "y \<in> set (edge_operations s)" "ewo_id y = ewo_id p" "ewo_releaseId y = ewo_releaseId p"
      using p by (auto simp: known_operation_def)
    then have "pending_for (set_operation p' s) (ewr_id r') (overwrite_operation p' y)"
      using i st False r in_s(3) by (auto simp: pending_for_def set_operation_def set_update_by)
    then have "state_ok (set_release r' (set_operation p' s)) A" "extends_to (set_operation p' s) (set_release r' (set_operation p' s))"
      using state_ok_set_release [OF m(1), of r'] st False by auto
    then show ?thesis unfolding f set_operation_commutes using extends_to_trans [OF m(2)] by simp
  qed
qed

lemma edge_ok_turn_answered:
  assumes c: "edge_ok c" and t: "(p, r, t) \<in> set (ec_turns c)" and d: "dateParse D t \<noteq> None"
    and called: "answer = None \<longleftrightarrow> operation_calls p r = None"
  shows "edge_ok (c\<lparr>ec_state := fst (finishOperation D delay p r t answer (ec_state c)),
      ec_confirmed := (if answer \<noteq> None \<and> provider_agrees r answer then [ewr_id r] else []) @ ec_confirmed c\<rparr>)"
proof -
  let ?s' = "fst (finishOperation D delay p r t answer (ec_state c))"
  let ?cf = "(if answer \<noteq> None \<and> provider_agrees r answer then [ewr_id r] else []) @ ec_confirmed c"
  have p: "known_operation (ec_state c) p" "ewr_id r = ewo_releaseId p" using c t by (auto simp: edge_ok_def Let_def)
  then have "answer \<noteq> None" using called by (simp add: operation_calls_def known_operation_def)
  then have agreed: "provider_agrees r answer \<Longrightarrow> ewr_id r \<in> set ?cf \<union> set (ec_waived c)" by simp
  have s: "state_ok (ec_state c) (set ?cf \<union> set (ec_waived c))" using edge_ok_state [OF c] by (rule state_ok_more) auto
  have "state_ok ?s' (set ?cf \<union> set (ec_waived c))" "extends_to (ec_state c) ?s'"
    using state_ok_turn [OF s p d agreed] by blast+
  then have "edge_ok (c\<lparr>ec_state := ?s', ec_confirmed := ?cf, ec_waived := ec_waived c\<rparr>)"
    by (intro edge_ok_step c)
  then show ?thesis by simp
qed

lemma edge_invariant: "edge_reachable c \<Longrightarrow> edge_ok c"
proof (induction rule: edge_reachable.induct)
  case (edge_begins d)
  then show ?case by (simp add: edge_ok_def edge_start_def)
next
  case (edge_elsewhere c d)
  then show ?case by (intro edge_ok_elsewhere)
next
  case (edge_create c E pretty i t)
  then show ?case by (simp add: edge_ok_def Let_def)
next
  case (edge_deployed c i provider mode r)
  then show ?case by (intro edge_ok_deployed)
next
  case (edge_delete c rid deleteProvider force E)
  then show ?case by (intro edge_ok_delete)
next
  case (edge_delete_answered c r d force E answer)
  then show ?case by (intro edge_ok_delete_answered)
next
  case (edge_read_due c E limit)
  then show ?case using due_are_known [OF edge_ok_state [OF edge_read_due.IH]] by (auto simp: edge_ok_def Let_def)
next
  case (edge_turn c p r t)
  then have "ewr_id r = ewo_releaseId p" by (simp add: beginOperation_def required_release)
  then show ?case using edge_turn by (auto simp: edge_ok_def Let_def)
next
  case (edge_turn_answered c p r t D answer delay)
  then show ?case by (intro edge_ok_turn_answered) auto
qed

subsection \<open>An example\<close>

definition ex_release_input :: CreateEdgeReleaseInput where
  "ex_release_input = \<lparr>cer_id = JStr ''w1'', cer_projectId = ''p1'', cer_deploymentId = ''d1'', cer_provider = JUndefined,
     cer_mode = JUndefined, cer_scriptName = JUndefined\<rparr>"

definition ex_ref :: ArtifactRef where
  "ex_ref = \<lparr>ref_id = ''a1'', ref_digest = ex_digest, ref_location = ''file:///a''\<rparr>"

definition ex_deploy :: DeployInput where
  "ex_deploy = \<lparr>edi_releaseId = ''w1'', edi_scriptName = ''odenctl-p1-d1'', edi_projectId = ''p1'', edi_deploymentId = ''d1'',
     edi_artifact = ex_ref, edi_createdAt = ''t1'',
     edi_scriptModule = renderCloudflareWasmWorkerModule (\<lambda>_. ''{}'') ''w1'' ''odenctl-p1-d1'' ''p1'' ''d1'' ex_ref ''t1''\<rparr>"

definition ex_deployment_result :: DeployResult where
  "ex_deployment_result = \<lparr>edr_provider = ''cloudflare-workers'', edr_mode = ''mock'', edr_scriptName = ''odenctl-p1-d1'',
     edr_scriptDigest = ''sha256:0'', edr_scriptModule = ''m'', edr_versionId = None, edr_externalDeploymentId = None, edr_url = None\<rparr>"

definition ex_release :: "EdgeStatus \<Rightarrow> string option \<Rightarrow> EdgeRelease" where
  "ex_release status err = \<lparr>ewr_id = ''w1'', ewr_projectId = ''p1'', ewr_deploymentId = ''d1'', ewr_provider = ''cloudflare-workers'',
     ewr_mode = ''mock'', ewr_status = status, ewr_scriptName = ''odenctl-p1-d1'', ewr_scriptDigest = ''sha256:0'',
     ewr_scriptModule = ''m'', ewr_artifact = ex_ref, ewr_createdAt = ''t1'', ewr_updatedAt = ''t1'', ewr_versionId = None,
     ewr_externalDeploymentId = None, ewr_url = None, ewr_deletedAt = None, ewr_lastError = err\<rparr>"

definition ex_operation :: EdgeOperation where
  "ex_operation = \<lparr>ewo_id = ''ewo_1'', ewo_releaseId = ''w1'', ewo_status = OpPending, ewo_attempts = 0,
     ewo_nextAttemptAt = ''t1'', ewo_deleteProvider = True, ewo_forceProviderDelete = False, ewo_createdAt = ''t1'',
     ewo_updatedAt = ''t1'', ewo_lastError = Some ''down''\<rparr>"

definition ex_edge :: "EdgeRelease list \<Rightarrow> EdgeOperation list \<Rightarrow> EdgeWorkers" where
  "ex_edge rs ps = \<lparr>edge_db = ex_state, edge_releases = rs, edge_operations = ps\<rparr>"

lemma ex_edge_begin: "beginEdgeWorkerRelease ex_env (\<lambda>_. ''{}'') ex_release_input (ex_edge [] [])
    = Inr (ex_deploy, ''cloudflare-workers'', None)"
  by code_simp

lemma ex_edge_deployed: "fst (finishEdgeWorkerRelease ex_deploy ''cloudflare-workers'' None ex_deployment_result (ex_edge [] []))
    = ex_edge [ex_release EdgeActive None] []"
  by code_simp

lemma ex_edge_delete: "beginDeleteEdgeWorkerRelease ex_env ''w1'' True (ex_edge [ex_release EdgeActive None] [])
    = (ex_edge [ex_release EdgeDeleting None] [], Inr (Inr (ex_release EdgeActive None, ex_release EdgeDeleting None)))"
  by code_simp

lemma ex_edge_failed: "fst (finishDeleteEdgeWorkerRelease ex_env (ex_release EdgeActive None) (ex_release EdgeDeleting None) None
      (Inl (Broke ''down'')) (ex_edge [ex_release EdgeDeleting None] []))
    = ex_edge [ex_release EdgeFailed (Some ''down'')] [ex_operation]"
  by code_simp

lemma ex_edge_reachable: "\<exists>c. edge_reachable c \<and> ec_state c = ex_edge [ex_release EdgeFailed (Some ''down'')] [ex_operation]
   \<and> ec_confirmed c = [] \<and> ec_waived c = []"
proof -
  let ?c0 = "edge_start ex_state"
  let ?c1 = "?c0\<lparr>ec_deploying := [(ex_deploy, ''cloudflare-workers'', None)]\<rparr>"
  let ?c2 = "?c1\<lparr>ec_state := ex_edge [ex_release EdgeActive None] []\<rparr>"
  let ?c3 = "?c2\<lparr>ec_state := ex_edge [ex_release EdgeDeleting None] [],
    ec_deleting := [(ex_release EdgeActive None, ex_release EdgeDeleting None, None)], ec_waived := []\<rparr>"
  let ?c4 = "?c3\<lparr>ec_state := ex_edge [ex_release EdgeFailed (Some ''down'')] [ex_operation], ec_confirmed := []\<rparr>"
  have st: "ec_state ?c0 = ex_edge [] []" by (simp add: edge_start_def ex_edge_def)
  have d: "ec_deploying ?c0 = []" "ec_deleting ?c0 = []" "ec_confirmed ?c0 = []" "ec_waived ?c0 = []" by (simp_all add: edge_start_def)
  have "edge_reachable (?c0\<lparr>ec_deploying := (ex_deploy, ''cloudflare-workers'', None) # ec_deploying ?c0\<rparr>)"
    by (rule edge_create [OF edge_begins, of ex_env "\<lambda>_. ''{}''" ex_release_input]) (simp only: st ex_edge_begin)
  then have c1: "edge_reachable ?c1" by (simp only: d)
  have "edge_reachable (?c1\<lparr>ec_state := fst (finishEdgeWorkerRelease ex_deploy ''cloudflare-workers'' None ex_deployment_result (ec_state ?c1))\<rparr>)"
    by (rule edge_deployed [OF c1]) simp
  then have c2: "edge_reachable ?c2" by (simp add: st ex_edge_deployed)
  have "edge_reachable (delete_begun ''w1'' True None ?c2 (beginDeleteEdgeWorkerRelease ex_env ''w1'' True (ec_state ?c2)))"
    by (rule edge_delete [OF c2])
  then have c3: "edge_reachable ?c3" by (simp add: ex_edge_delete delete_begun_def d)
  have "edge_reachable (?c3\<lparr>ec_state := fst (finishDeleteEdgeWorkerRelease ex_env (ex_release EdgeActive None) (ex_release EdgeDeleting None) None
      (Inl (Broke ''down'')) (ec_state ?c3)),
      ec_confirmed := (if deleteProviderEdgeWorkerRelease (ex_release EdgeDeleting None) (Inl (Broke ''down'')) = Inr ()
        then [ewr_id (ex_release EdgeActive None)] else []) @ ec_confirmed ?c3\<rparr>)"
    by (rule edge_delete_answered [OF c3]) (simp_all add: ex_edge_def)
  then have "edge_reachable ?c4" by (simp add: ex_edge_failed deleteProviderEdgeWorkerRelease_def d)
  then show ?thesis by (rule exI [of _ ?c4, OF conjI]) (simp add: d)
qed

subsection \<open>What the script of a release is not guarded against\<close>

lemma default_script_names_collide:
  "defaultEdgeWorkerScriptName E ''a-b'' ''c'' = defaultEdgeWorkerScriptName E ''a'' ''b-c''"
  by code_simp

text \<open>The names of a project and a deployment are all that the name of the script rests on.\<close>

lemma releases_share_a_script:
  assumes "beginEdgeWorkerRelease E pretty i s = Inr (a, provider, mode)" and "beginEdgeWorkerRelease E' pretty' i' s' = Inr (a', provider', mode')"
    and "cer_scriptName i = JUndefined" "cer_scriptName i' = JUndefined"
    and "env_sha256 E = env_sha256 E'" "edi_projectId a = edi_projectId a'" "edi_deploymentId a = edi_deploymentId a'"
  shows "edi_scriptName a = edi_scriptName a'"
proof -
  have name: "edi_scriptName a = defaultEdgeWorkerScriptName E (edi_projectId a) (edi_deploymentId a)"
    if "beginEdgeWorkerRelease E pretty i s = Inr (a, provider, mode)" "cer_scriptName i = JUndefined" for E pretty i s a provider mode
    using that by (auto simp: beginEdgeWorkerRelease_def bindE_def Let_def normalizeEdgeWorkerScriptName_def split: sum.splits option.splits)
  have "defaultEdgeWorkerScriptName E = defaultEdgeWorkerScriptName E'"
    using assms(5) by (intro ext) (simp only: defaultEdgeWorkerScriptName_def Let_def)
  then show ?thesis using name [OF assms(1,3)] name [OF assms(2,4)] assms(6,7) by simp
qed

text \<open>By the time the mode is compared the script is deployed, and no row tells of it.\<close>

lemma refused_mode_leaves_no_row:
  "edr_mode r \<noteq> m \<Longrightarrow> fst (finishEdgeWorkerRelease i provider (Some m) r s) = s"
  by (cases "edr_provider r \<noteq> provider") (simp_all add: finishEdgeWorkerRelease_def bindS_def guardS_def guardC_def throwC_def)

subsection \<open>The property\<close>

text \<open>
  C25. However creations, deletions, deliveries of pending operations and their answers interleave, a release
  that calls itself deleted is one whose deletion the provider has confirmed or whose deletion was asked for
  without the provider, and one that calls itself failed has a pending operation that asks the provider again.
\<close>

theorem edge_releases_are_accounted:
  assumes "edge_reachable c" and "r \<in> set (edge_releases (ec_state c))"
  shows "(ewr_status r = EdgeDeleted \<longrightarrow> ewr_id r \<in> set (ec_confirmed c) \<union> set (ec_waived c))
    \<and> (ewr_status r = EdgeFailed \<longrightarrow> (\<exists>p \<in> set (edge_operations (ec_state c)).
        ewo_status p = OpPending \<and> ewo_releaseId p = ewr_id r \<and> ewo_deleteProvider p))"
proof -
  have "accounted (ec_state c) (settled c) r"
    using edge_ok_state [OF edge_invariant [OF assms(1)]] assms(2) by (simp add: state_ok_def)
  then show ?thesis by (auto simp: accounted_def pending_for_def)
qed

theorem edge_releases_are_accounted_witness:
  "\<exists>c r. edge_reachable c \<and> r \<in> set (edge_releases (ec_state c)) \<and> ewr_status r = EdgeFailed
     \<and> (\<exists>p \<in> set (edge_operations (ec_state c)). ewo_status p = OpPending \<and> ewo_releaseId p = ewr_id r \<and> ewo_deleteProvider p)"
proof -
  obtain c where c: "edge_reachable c" "ec_state c = ex_edge [ex_release EdgeFailed (Some ''down'')] [ex_operation]"
    using ex_edge_reachable by blast
  have r: "ex_release EdgeFailed (Some ''down'') \<in> set (edge_releases (ec_state c))" by (simp add: c(2) ex_edge_def)
  have "ewr_status (ex_release EdgeFailed (Some ''down'')) = EdgeFailed" by (simp add: ex_release_def)
  with edge_releases_are_accounted [OF c(1) r] c(1) r show ?thesis by blast
qed

end
