(* ===== verification/Spec2Isabelle.thy ===== *)
theory Spec2Isabelle
  imports RouteLaws Membership QuotaLaws ReleaseLaws Packing Placement Autoscaling Coordination AsyncRaces CacheGuarantees HttpLaws
    VolumeQueue AlarmLaws ReplicationLaws BillingCases EdgeLaws
begin

text \<open>
  A verification development for odenctl, the control plane and the node runtime of a platform
  that serves WebAssembly components. All paths below are relative to crates/odenctl/src.

  \<^bold>\<open>The program.\<close> The control plane (control-plane/service.ts over control-plane/repository.ts)
  owns a relational database of organizations, projects, members, API keys, custom domains,
  artifacts, deployments, routes, canaries, deploy previews and runtime nodes. Operators release a
  deployment by pointing a route at it. The control plane turns the routes into a route snapshot,
  which every runtime node fetches, asserts (runtime/node-app.ts) and loads into its supervisor
  (runtime/supervisor.ts). The supervisor matches requests against the snapshot, chooses a target
  by weight, and keeps the compiled components of the deployments it served warm, within limits.

  \<^bold>\<open>Theories and what they model.\<close>
    \<^item> Prelude: sorting as JavaScript does it, folding with errors, lists, maps. Json: JSON values.
    \<^item> Errors (control-plane/errors.ts, runtime/errors.ts), Contracts and Normalizers
      (control-plane/contracts.ts): every data type and every normaliser; Validity: what a
      normalised value satisfies. SnapshotAssert: the assertions of runtime/node-app.ts.
    \<^item> StateError: the monad of an operation that reads, writes and fails. Tables, Repository: the
      tables of control-plane/repository.ts with their keys and constraints.
    \<^item> Quotas (control-plane/quotas.ts), Admission (control-plane/admission.ts), Canary
      (control-plane/canary-analysis.ts), Service and Delivery: the operations of
      control-plane/service.ts, each with its validation, checks, writes and audit event.
    \<^item> Routing and Packing: the route cache and the warm deployments of runtime/supervisor.ts.
    \<^item> Placement (control-plane/placement.ts): which node gets which routes of a snapshot.
      Autoscaling (control-plane/autoscaling.ts): how many nodes there should be, and how one joins.
      Coordination (control-plane/fly-autoscaler.ts): the stores of leases and cooldowns, and the
      controller as a step machine, one step for every access to the store or to the machines API.
    \<^item> ResponseCachePolicy (runtime/response-cache-policy.ts): what may be cached, under which key and
      for how long. ResponseCache (runtime/response-cache.ts): the cache of a node, whose concurrent
      calls of execute are machines that stop at every await.
    \<^item> Resumption: programs that stop at every call of a repository. AsyncService
      (control-plane/async-service.ts): the operations of Service and Delivery as such programs.
    \<^item> Reads: the listing operations of control-plane/service.ts and its createBetaOnboarding.
    \<^item> HttpRoutes, HttpAuth and HttpApp (http/app.ts, http/authz.ts, http/audit.ts): the functions that
      match a method and a path, and the chain of conditions that calls them; tokens and scopes; the
      handlers and a whole request, from its address, header and body to the reply and audit event.
    \<^item> VolumeSqlite (control-plane/volume-sqlite.ts, control-plane/volume-sqlite-backup-job.ts): the
      registry of SQLite databases with its catalog, files and pool of handles, backups with their
      ciphers, restores, drills, pruning and the scheduled cycle. VolumeQueue: the writer queue and the
      handles of running writes as a step machine.
    \<^item> DurableObjects (control-plane/durable-object-storage.ts): key-value storage, transactions as
      programs, user SQL, alarms and namespaces, each object in a database of the registry.
      DurableAlarms (control-plane/durable-object-alarm-dispatcher.ts, durable-object-alarm-runtime.ts,
      alarm-demo.ts): the dispatch of due alarms, its configuration, and the demo that handles them.
    \<^item> Publishing (control-plane/snapshot-publisher.ts, runtime/identity.ts): the sending of snapshots to
      nodes, attempt by attempt, and the signed headers a node verifies. Replication
      (control-plane/snapshot-replication.ts and its handlers in http/app.ts): the same between regions,
      and the store of a replica.
    \<^item> Calendar: months in UTC as Date computes them. Usage (control-plane/usage-quota.ts,
      billing-statement.ts, billing-budget.ts): periods, limits, costs and statements. Billing and Invoices
      (billing-invoice.ts, billing-webhook.ts, billing-adjustment.ts, billing-retention.ts,
      billing-retention-job.ts, billing-export.ts): the five tables of usage events, invoices, deliveries,
      adjustments and retention policies, and the operations of control-plane/service.ts on them.
    \<^item> EdgeWorkers (control-plane/edge-worker-deployer.ts): the generated worker module, the two deployers,
      the tables of releases and of pending deletions, and the operations of control-plane/service.ts on
      them, each in two steps when it waits for the provider.

  \<^bold>\<open>Theories and what they prove.\<close>
    \<^item> Integrity: the database invariant, kept by every operation whether it succeeds or throws;
      commands, their execution, reachable databases. SnapshotFlow: snapshots of such databases.
    \<^item> Frames: which tables an operation can write. RouteLaws, Membership, QuotaLaws, ReleaseLaws:
      the laws of routes, of members and keys, of quotas and of releases.
    \<^item> AsyncLaws: an asynchronous operation run alone is its synchronous counterpart; rely-guarantee
      rules (the locale of Resumption, interpreted on the database invariant and the growth of the
      tables) for every operation among others. AsyncRuns: pools of requests in flight. AsyncRaces:
      what two requests in flight can break.
    \<^item> CachePolicy: which configurations and responses the cache accepts. ResponseCacheLaws: the books
      of the cache and the history of its calls as an inductive relation. CacheGuarantees: limits,
      termination of the eviction loop, release of waiting calls, and where hits come from.
    \<^item> HttpDispatch: the table of methods and paths that the chain of conditions comes to. HttpLaws:
      databases reached by requests, what a request without the right token can change.
    \<^item> VolumeLaws: the invariant of catalog and files, and what opening and writing a database does.
      DurableLaws: a durable object as a map, and that every call refines the operations on that map.
      DurableGuarantees: the same for whole calls and transactions, exact listings, exact due alarms.
      AlarmLaws: a redelivered alarm is counted once, and what redelivery and far alarms can break.
    \<^item> ReplicationLaws: replicas over a network that delays, repeats and loses messages.
      UsageLaws and BillingLaws: histories of the billing operations; limits of usage, and how long an
      invoice lasts. Stamps: a clock that satisfies the laws of dates. BillingCases: exports are
      verified, and single calls whose outcome surprises.
      EdgeLaws: creations, deletions and deliveries in flight at once as an inductive relation, and what
      the status of a release can be trusted for.
    \<^item> Spec2Isabelle: properties of the path from a stored route to a served request.
    \<^item> Examples: the concrete databases on which the witnesses are evaluated.

  \<^bold>\<open>Conventions.\<close> An exception is a value: an operation on the database is a function from a
  database to a database and either an error (Inl) or a result (Inr); writes made before a throw
  stay, as in the code. JavaScript values that arrive from outside are JSON values, so every
  failing check of a normaliser is a branch. URL and Date parsing, hashing, random identifiers and
  clocks, artifact verification and localeCompare are parameters (the record Env and the arguments
  of the routing functions): they are platform services. Loops are structural recursions;
  the eviction loop of the response cache, which ends only because of the cache's invariant, is a
  partial function, and that it ends is a theorem.
  In the theories of volumes and durable objects a string is its UTF-8 bytes, a file is its bytes, and
  SQLite, AES-GCM, SHA-256, Date and JSON are parameters with their documented laws as hypotheses.
  Loads and thresholds are exact rationals where the code has doubles. The answers of the machines
  API and the clock of a controller are inputs of its steps; a repository call of the asynchronous
  service is one atomic step with the effect it has in Repository. Quantities of usage and dollars are exact
  rationals, and instants lie where a Date is valid.

  \<^bold>\<open>Not modelled.\<close> The manifest lists every part with its status. Files, sockets, processes and
  database drivers are input and output; the tables are modelled by their contents. The SQL of
  control-plane/postgres-repository.ts is not translated. Of http/app.ts, the HTML pages, uploads,
  the handlers that publish and record snapshots, and those of billing, usage, edge workers and SQLite
  volumes are left out, with the asynchronous copies of billing and of edge workers, and the parsers of billing policies from the environment. Timers
  that start the jobs, file modes and the migration of old catalogs are left out as well.
\<close>

section \<open>From the control plane to the runtime\<close>

text \<open>
  C1. After any sequence of control-plane calls, with whatever outcome each had, building the
  route snapshot succeeds, and every runtime node accepts the JSON of that snapshot: no state the
  control plane can reach makes a node refuse its configuration.
\<close>

theorem snapshot_accepted:
  assumes "url_roundtrip U" and "reachable U s"
  shows "\<exists>snap. createRouteSnapshot E s = Inr snap
     \<and> assertRouteSnapshot U (encodeSnapshot snap) = Inr ()"
  using createRouteSnapshot_ok [OF reachable_ok [OF assms(2,1)], of E] assertRouteSnapshot_ok
  by blast

theorem snapshot_accepted_witness:
  "(\<exists>snap. createRouteSnapshot ex_env ex_state = Inr snap
     \<and> assertRouteSnapshot ex_urls (encodeSnapshot snap) = Inr ()) \<and> length (db_routes ex_state) = 1"
proof
  show "\<exists>snap. createRouteSnapshot ex_env ex_state = Inr snap
     \<and> assertRouteSnapshot ex_urls (encodeSnapshot snap) = Inr ()"
    by (rule snapshot_accepted [OF ex_urls_roundtrip ex_state_reachable])
  show "length (db_routes ex_state) = 1" by code_simp
qed

text \<open>
  C3. A snapshot of a reachable database carries one entry per route, in the order hosts ascending
  and longer prefixes first, and keeps the projects apart: every target of an entry is a stored
  deployment of the entry's own project, with that deployment's runtime, limits and capabilities,
  and the code it names is an artifact of the same project.
\<close>

theorem snapshot_keeps_projects_apart:
  assumes "url_roundtrip U" and "reachable U s" and "createRouteSnapshot E s = Inr snap"
  shows "mset (listRoutes s) = mset (db_routes s) \<and> sorted_wrt route_order (listRoutes s)
     \<and> list_all2 (\<lambda>r e. entry_of r e \<and> list_all (served_from s (rte_projectId r)) (se_targets e))
         (listRoutes s) (snap_routes snap)"
  using createRouteSnapshot_served [OF reachable_ok [OF assms(2,1)] assms(3)]
  by (simp add: listRoutes_sorted listRoutes_mset)

lemma ex_snapshot_built: "createRouteSnapshot ex_env ex_state = Inr (case createRouteSnapshot ex_env ex_state
    of Inr x \<Rightarrow> x)"
  using createRouteSnapshot_ok [OF ex_state_ok, of ex_env] by auto

theorem snapshot_keeps_projects_apart_witness:
  "sorted_wrt route_order (listRoutes ex_state)
   \<and> list_all2 (\<lambda>r e. entry_of r e \<and> list_all (served_from ex_state (rte_projectId r)) (se_targets e))
      (listRoutes ex_state)
      (snap_routes (case createRouteSnapshot ex_env ex_state of Inr x \<Rightarrow> x))"
  using snapshot_keeps_projects_apart [OF ex_urls_roundtrip ex_state_reachable ex_snapshot_built] by blast

text \<open>
  C2. End to end, a request that a node holding a snapshot of a reachable database routes is
  served for the project that owns the route: the route it matched is stored, at the request's
  host, and the deployment chosen for it, canary or not, is a stored deployment of the same
  project with that deployment's own runtime, limits and capabilities.
\<close>

theorem request_served_by_the_owner:
  assumes "url_roundtrip U" and "reachable U s" and "createRouteSnapshot E s = Inr snap"
    and "matchRoute (createRouteCache localeCompare snap) i = Some e"
  shows "\<exists>r d. r \<in> set (db_routes s) \<and> entry_of r e \<and> rte_host r = normalizeHost_rt (rmi_host i)
     \<and> pathPrefixMatches (normalizePath (rmi_path i)) (rte_pathPrefix r)
     \<and> crt_projectId (selectRouteTarget e i) = rte_projectId r
     \<and> crt_deploymentId (selectRouteTarget e i) \<in> tgt_deploymentId ` set (rte_targets r)
     \<and> getDeployment s (crt_deploymentId (selectRouteTarget e i)) = Some d
     \<and> dep_projectId d = rte_projectId r
     \<and> crt_runtime (selectRouteTarget e i) = dep_runtime d
     \<and> crt_limits (selectRouteTarget e i) = dep_limits d
     \<and> crt_capabilities (selectRouteTarget e i) = dep_capabilities d"
proof -
  have ok: "db_ok U s" by (rule reachable_ok [OF assms(2,1)])
  note m = matchRoute_mem [OF assms(4)]
  obtain r where r: "r \<in> set (listRoutes s)" "entry_of r e"
    and served: "list_all (served_from s (rte_projectId r)) (se_targets e)"
    using list_all2_mem_right [OF createRouteSnapshot_served [OF ok assms(3)] m(1)] by blast
  have "valid_snapshot_entry U e"
    using createRouteSnapshot_ok [OF ok, of E] assms(3) m(1) by (auto simp: list_all_iff)
  then have "se_targets e \<noteq> []" "\<forall>t \<in> set (se_targets e). 0 < st_weight t"
    by (auto simp: valid_snapshot_entry_def valid_snapshot_target_def list_all_iff)
  from selectRouteTarget_slot [OF this, of i] obtain t where t: "t \<in> set (se_targets e)"
    "selectRouteTarget e i = compilable_target e t" by (metis nth_mem)
  from served t(1) obtain d where "getDeployment s (st_deploymentId t) = Some d"
    "dep_projectId d = rte_projectId r" "st_runtime t = dep_runtime d"
    "st_limits t = dep_limits d" "st_capabilities t = dep_capabilities d"
    by (auto simp: list_all_iff served_from_def)
  moreover have "st_deploymentId t \<in> tgt_deploymentId ` set (rte_targets r)"
  proof -
    have "map (\<lambda>t. (st_deploymentId t, st_weight t)) (se_targets e)
        = map (\<lambda>t. (tgt_deploymentId t, tgt_weight t)) (rte_targets r)"
      using r(2) by (simp add: entry_of_def)
    then have "map fst (map (\<lambda>t. (st_deploymentId t, st_weight t)) (se_targets e))
        = map fst (map (\<lambda>t. (tgt_deploymentId t, tgt_weight t)) (rte_targets r))" by simp
    then have "map st_deploymentId (se_targets e) = map tgt_deploymentId (rte_targets r)"
      by (simp add: comp_def)
    then have "st_deploymentId ` set (se_targets e) = tgt_deploymentId ` set (rte_targets r)"
      by (metis list.set_map)
    with t(1) show ?thesis by blast
  qed
  ultimately show ?thesis
    using r m(2) t(2) by (intro exI [of _ r] exI [of _ d])
      (auto simp: entry_of_def route_matches_def compilable_target_def listRoutes_def)
qed

definition ex_snap :: RouteSnapshot where
  "ex_snap = (case createRouteSnapshot ex_env ex_state of Inr x \<Rightarrow> x)"

definition ex_visit :: RouteMatchInput where
  "ex_visit = \<lparr>rmi_host = ''h.example'', rmi_path = ''/api/x''\<rparr>"

definition ex_visited :: RouteSnapshotEntry where
  "ex_visited = (case matchRoute (createRouteCache ex_compare ex_snap) ex_visit of Some e \<Rightarrow> e)"

theorem request_served_by_the_owner_witness:
  "\<exists>r d. r \<in> set (db_routes ex_state) \<and> rte_host r = ''h.example''
     \<and> getDeployment ex_state (crt_deploymentId (selectRouteTarget ex_visited ex_visit)) = Some d
     \<and> dep_projectId d = rte_projectId r"
proof -
  have "matchRoute (createRouteCache ex_compare ex_snap) ex_visit = Some ex_visited" by code_simp
  from request_served_by_the_owner [OF ex_urls_roundtrip ex_state_reachable
      ex_snapshot_built [folded ex_snap_def] this]
  have "\<exists>r d. r \<in> set (db_routes ex_state) \<and> rte_host r = normalizeHost_rt (rmi_host ex_visit)
     \<and> getDeployment ex_state (crt_deploymentId (selectRouteTarget ex_visited ex_visit)) = Some d
     \<and> dep_projectId d = rte_projectId r" by blast
  moreover have "normalizeHost_rt (rmi_host ex_visit) = ''h.example''" by code_simp
  ultimately show ?thesis by simp
qed

text \<open>
  A host belongs to no project until it is registered as a custom domain: once the first
  project routes all of a host, a second project can route a longer prefix of the same host, and
  the requests below that prefix, served by the first project before, are served by the second.
\<close>

definition ex_rival :: "command list" where
  "ex_rival =
    [CreateProject \<lparr>cpi_id = JStr ''p2'', cpi_organizationId = None, cpi_name = JStr ''rival''\<rparr>,
     CreateArtifact \<lparr>cai_id = JStr ''a2'', cai_projectId = ''p2'',
       cai_digest = JStr (''sha256:'' @ replicate 64 (CHR ''1'')), cai_location = JStr ''file:///b'',
       cai_sizeBytes = JInt 10, cai_signature = JUndefined, cai_provenance = JUndefined\<rparr>,
     CreateDeployment \<lparr>cdi_id = JStr ''d9'', cdi_projectId = ''p2'', cdi_artifactId = ''a2'',
       cdi_world = JStr MVP_WORKER_WORLD, cdi_runtime = ex_runtime, cdi_limits = ex_limits,
       cdi_capabilities = ex_capabilities\<rparr>,
     PointRoute \<lparr>pri_id = JStr ''r9'', pri_projectId = ''p2'', pri_host = JStr ''h.example'',
       pri_pathPrefix = JStr ''/api'', pri_deploymentId = Some ''d9'', pri_targets = JUndefined\<rparr>]"

definition ex_contested :: Db where
  "ex_contested = fold (\<lambda>(n, c). exec (ex_env_n (''aud_r'' @ show_int n)) c)
     (zip [1, 2, 3, 4] ex_rival) ex_state"

definition served_deployment :: "Db \<Rightarrow> RouteMatchInput \<Rightarrow> string option" where
  "served_deployment s i = (case createRouteSnapshot ex_env s of Inl _ \<Rightarrow> None
     | Inr snap \<Rightarrow> map_option (\<lambda>e. crt_deploymentId (selectRouteTarget e i))
         (matchRoute (createRouteCache ex_compare snap) i))"

theorem longer_prefix_takes_over_a_host:
  "reachable ex_urls ex_contested \<and> host_free ex_state ''p2'' ''h.example''
   \<and> map (\<lambda>r. (rte_projectId r, rte_pathPrefix r)) (db_routes ex_contested)
       = [(''p1'', ''/''), (''p2'', ''/api'')]
   \<and> served_deployment ex_state ex_visit = Some ''d1''
   \<and> served_deployment ex_contested ex_visit = Some ''d9''"
proof (intro conjI)
  show "reachable ex_urls ex_contested"
    unfolding ex_contested_def ex_rival_def
    by (simp only: zip_Cons_Cons zip_Nil fold_simps prod.case)
      (intro reachable.intros ex_env_good ex_state_reachable)
  show "host_free ex_state ''p2'' ''h.example''"
    by (simp add: host_free_def getCustomDomainByHost_def ex_state_def empty_db_def)
  show "map (\<lambda>r. (rte_projectId r, rte_pathPrefix r)) (db_routes ex_contested)
      = [(''p1'', ''/''), (''p2'', ''/api'')]" by code_simp
  show "served_deployment ex_state ex_visit = Some ''d1''" by code_simp
  show "served_deployment ex_contested ex_visit = Some ''d9''" by code_simp
qed

end
